(* ===== verification/Prelude.thy ===== *)
theory Prelude
  imports Main
begin

text \<open>
  What every theory of the development shares: the types of the program's scalar values,
  the errors of \<open>app/core/errors.py\<close> and the way a handler fails, the column groups
  of \<open>app/db/mixins.py\<close> as a chain of extensible records, the table operations the
  repositories are written with, and the ORM's flush of a changed row.
\<close>

named_theorems table_simps "rewrite rules for the table operations"
named_theorems guard_simps "definitions of the small guards the services share"

section \<open>Scalar values\<close>

text \<open>
  Identifiers are the 26-character ULID strings of \<open>app/db/types.py\<close>. A timestamp is a
  number of ticks since the epoch, a date a proleptic day number; the code only compares
  them, adds durations to them and stores them.
\<close>

type_synonym ulid = string
type_synonym timestamp = int
type_synonym date = int

section \<open>Errors\<close>

text \<open>
  One constructor per exception class of \<open>app/core/errors.py\<close>, with the machine code
  where the class lets the caller choose it (clients branch on the code, never on the
  message) and the message where the code documents that it must be uniform.
  \<open>IntegrityError\<close> is a database constraint that a flush or a commit violates, named by
  the constraint; \<open>PyError\<close> is any other exception the code does not catch. Neither is
  an \<open>ApiError\<close>, so both leave the service through the catch-all handler.
\<close>

datatype error =
    AuthenticationError string
  | AccountInactiveError
  | ForbiddenError string
  | TenantContextError
  | NotFoundError string
  | InvalidRequestError string
  | ConflictError string
  | StaleResourceError
  | FileTooLargeError string
  | RequestTimeoutError string
  | RateLimitedError "int option"
  | IntegrityError string
  | PyError string

type_synonym 'a result = "error + 'a"

abbreviation invalid_credentials :: error where
  "invalid_credentials \<equiv> AuthenticationError ''Invalid credentials.''"

definition is_api_error :: "error \<Rightarrow> bool" where
  "is_api_error e = (case e of IntegrityError _ \<Rightarrow> False | PyError _ \<Rightarrow> False | _ \<Rightarrow> True)"

text \<open>The \<open>status_code\<close> and \<open>code\<close> class attributes.\<close>

fun status_code :: "error \<Rightarrow> nat" where
  "status_code (AuthenticationError _) = 401"
| "status_code AccountInactiveError = 403"
| "status_code (ForbiddenError _) = 403"
| "status_code TenantContextError = 403"
| "status_code (NotFoundError _) = 404"
| "status_code (InvalidRequestError _) = 400"
| "status_code (ConflictError _) = 409"
| "status_code StaleResourceError = 409"
| "status_code (FileTooLargeError _) = 413"
| "status_code (RequestTimeoutError _) = 504"
| "status_code (RateLimitedError _) = 429"
| "status_code (IntegrityError _) = 500"
| "status_code (PyError _) = 500"

fun error_code :: "error \<Rightarrow> string" where
  "error_code (AuthenticationError _) = ''UNAUTHORIZED''"
| "error_code AccountInactiveError = ''ACCOUNT_INACTIVE''"
| "error_code (ForbiddenError c) = c"
| "error_code TenantContextError = ''TENANT_CONTEXT''"
| "error_code (NotFoundError c) = c"
| "error_code (InvalidRequestError c) = c"
| "error_code (ConflictError c) = c"
| "error_code StaleResourceError = ''STALE_RESOURCE''"
| "error_code (FileTooLargeError c) = c"
| "error_code (RequestTimeoutError c) = c"
| "error_code (RateLimitedError _) = ''RATE_LIMITED''"
| "error_code (IntegrityError _) = ''INTERNAL_ERROR''"
| "error_code (PyError _) = ''INTERNAL_ERROR''"

text \<open>
  The response of the registered exception handlers: \<open>handle_api_error\<close> for an
  \<open>ApiError\<close>, \<open>handle_unhandled\<close> for everything else. Only status and code: the
  request id is the caller's, and the details are not modelled.
\<close>

definition error_response :: "error \<Rightarrow> nat \<times> string" where
  "error_response e =
     (if is_api_error e then (status_code e, error_code e) else (500, ''INTERNAL_ERROR''))"

lemma error_response_eq: "error_response e = (status_code e, error_code e)"
  by (cases e) (simp_all add: error_response_def is_api_error_def)

section \<open>Results\<close>

text \<open>
  \<open>is_ok\<close> and \<open>get_ok\<close> read a result; \<open>bind_ok\<close> sequences two steps, the second of which
  does not run when the first raises.
\<close>

definition is_ok :: "'a result \<Rightarrow> bool" where
  "is_ok r = (case r of Inl _ \<Rightarrow> False | Inr _ \<Rightarrow> True)"

definition bind_ok :: "'a result \<Rightarrow> ('a \<Rightarrow> 'b result) \<Rightarrow> 'b result" where
  "bind_ok r f = (case r of Inl e \<Rightarrow> Inl e | Inr x \<Rightarrow> f x)"

definition ok_or :: "error \<Rightarrow> 'a option \<Rightarrow> 'a result" where
  "ok_or e x = (case x of None \<Rightarrow> Inl e | Some y \<Rightarrow> Inr y)"

definition guard :: "bool \<Rightarrow> error \<Rightarrow> unit result" where
  "guard b e = (if b then Inl e else Inr ())"

lemma is_ok_simps [simp]: "is_ok (Inr x)" "\<not> is_ok (Inl e)"
  by (simp_all add: is_ok_def)

lemma ok_projr: "is_ok r \<Longrightarrow> r = Inr (fst (projr r), snd (projr r))"
  by (cases r) auto

lemma bind_ok_simps [simp]: "bind_ok (Inl e) f = Inl e" "bind_ok (Inr x) f = f x"
  by (simp_all add: bind_ok_def)

lemma ok_or_simps [simp]: "ok_or e None = Inl e" "ok_or e (Some x) = Inr x"
  by (simp_all add: ok_or_def)

lemma guard_simps_iff [simp]:
  "guard True e = Inl e" "guard False e = Inr ()"
  "guard b e = Inr u \<longleftrightarrow> \<not> b" "guard b e = Inl e' \<longleftrightarrow> b \<and> e' = e"
  by (auto simp: guard_def)

lemma ok_or_Inr_iff [simp]: "ok_or e x = Inr y \<longleftrightarrow> x = Some y"
  by (cases x) simp_all

lemma bind_ok_Inr_iff: "bind_ok r f = Inr y \<longleftrightarrow> (\<exists>x. r = Inr x \<and> f x = Inr y)"
  by (cases r) simp_all

lemma bind_ok_Inl_iff:
  "bind_ok r f = Inl e \<longleftrightarrow> r = Inl e \<or> (\<exists>x. r = Inr x \<and> f x = Inl e)"
  by (cases r) auto

lemma bind_ok_InrE:
  assumes "bind_ok r f = Inr y"
  obtains x where "r = Inr x" and "f x = Inr y"
  using assms by (auto simp: bind_ok_Inr_iff)

lemma bind_ok_assoc: "bind_ok (bind_ok r f) g = bind_ok r (\<lambda>x. bind_ok (f x) g)"
  by (cases r) simp_all

section \<open>Column groups\<close>

text \<open>
  The mixins of \<open>app/db/mixins.py\<close>. Every table of the program uses a prefix of this
  chain: key; key and timestamps; plus the acting users; plus the optimistic-lock
  version; plus the two soft-delete marks.
\<close>

record pk_row =
  row_id :: ulid

record ts_row = pk_row +
  created_at :: timestamp
  updated_at :: timestamp

record actor_row = ts_row +
  created_by_id :: "ulid option"
  updated_by_id :: "ulid option"

record versioned_row = actor_row +
  version :: int

record soft_row = versioned_row +
  archived_at :: "timestamp option"
  deleted_at :: "timestamp option"

text \<open>
  Flush of a loaded row whose attributes were assigned. The ORM emits an UPDATE only when
  some attribute really changed; \<open>onupdate\<close> then stamps \<open>updated_at\<close>, and for a class
  with \<open>VersionMixin\<close> the version counter is incremented by the same UPDATE.
\<close>

definition flush_actor ::
  "timestamp \<Rightarrow> 'a actor_row_scheme \<Rightarrow> 'a actor_row_scheme \<Rightarrow> 'a actor_row_scheme" where
  "flush_actor now old new = (if new = old then old else new\<lparr>updated_at := now\<rparr>)"

definition flush_versioned ::
  "timestamp \<Rightarrow> 'a versioned_row_scheme \<Rightarrow> 'a versioned_row_scheme \<Rightarrow> 'a versioned_row_scheme"
  where
  "flush_versioned now old new =
     (if new = old then old else new\<lparr>updated_at := now, version := version old + 1\<rparr>)"

text \<open>
  \<open>for field, value in payload.items(): setattr(obj, field, value)\<close>, for one field: an
  absent key (\<open>exclude_none\<close>, \<open>exclude_unset\<close>) leaves the attribute alone.
\<close>

definition assign :: "(('a \<Rightarrow> 'a) \<Rightarrow> 'r \<Rightarrow> 'r) \<Rightarrow> 'a option \<Rightarrow> 'r \<Rightarrow> 'r" where
  "assign set_field v r = (case v of None \<Rightarrow> r | Some x \<Rightarrow> set_field (\<lambda>_. x) r)"

lemma assign_simps [simp]: "assign set_field None r = r" "assign set_field (Some x) r = set_field (\<lambda>_. x) r"
  by (simp_all add: assign_def)

lemma flush_versioned_id [simp]: "row_id new = row_id old \<Longrightarrow> row_id (flush_versioned now old new) = row_id old"
  by (simp add: flush_versioned_def)

lemma flush_versioned_same [simp]: "flush_versioned now r r = r"
  by (simp add: flush_versioned_def)

lemma flush_versioned_version:
  "version (flush_versioned now old new) = (if new = old then version old else version old + 1)"
  by (simp add: flush_versioned_def)

lemma flush_versioned_bumps: "new \<noteq> old \<Longrightarrow> version (flush_versioned now old new) = version old + 1"
  by (simp add: flush_versioned_def)

lemma flush_versioned_mono: "version old \<le> version (flush_versioned now old new)"
  by (simp add: flush_versioned_def)

lemma flush_actor_id [simp]: "row_id new = row_id old \<Longrightarrow> row_id (flush_actor now old new) = row_id old"
  by (simp add: flush_actor_def)

section \<open>Tables\<close>

text \<open>
  A table is the list of its rows, in the order a query without ORDER BY returns them. The
  theorems hold for every list, so they hold for every order the database may choose.
  \<open>session.scalars(stmt).first()\<close> is \<open>find\<close> of the statement's WHERE clause.
\<close>

definition ids :: "'a pk_row_scheme list \<Rightarrow> ulid set" where
  "ids t = row_id ` set t"

definition pk_unique :: "'a pk_row_scheme list \<Rightarrow> bool" where
  "pk_unique t = distinct (map row_id t)"

definition insert_row :: "'a pk_row_scheme \<Rightarrow> 'a pk_row_scheme list \<Rightarrow> 'a pk_row_scheme list" where
  "insert_row r t = t @ [r]"

definition update_row :: "'a pk_row_scheme \<Rightarrow> 'a pk_row_scheme list \<Rightarrow> 'a pk_row_scheme list" where
  "update_row r t = map (\<lambda>x. if row_id x = row_id r then r else x) t"

definition delete_row :: "ulid \<Rightarrow> 'a pk_row_scheme list \<Rightarrow> 'a pk_row_scheme list" where
  "delete_row i t = filter (\<lambda>x. row_id x \<noteq> i) t"

definition get_row :: "ulid \<Rightarrow> 'a pk_row_scheme list \<Rightarrow> 'a pk_row_scheme option" where
  "get_row i t = find (\<lambda>x. row_id x = i) t"

lemma find_SomeD: "find P xs = Some x \<Longrightarrow> x \<in> set xs \<and> P x"
  by (induction xs) (auto split: if_splits)

lemma find_NoneD: "find P xs = None \<Longrightarrow> x \<in> set xs \<Longrightarrow> \<not> P x"
  by (simp add: find_None_iff)

lemma find_mem_not_None: "x \<in> set xs \<Longrightarrow> P x \<Longrightarrow> \<exists>y. find P xs = Some y"
  by (induction xs) auto

lemma find_append: "find P (xs @ ys) = (case find P xs of None \<Rightarrow> find P ys | Some x \<Rightarrow> Some x)"
  by (induction xs) auto

lemma find_unique:
  assumes "x \<in> set xs" and "P x" and "\<And>y. y \<in> set xs \<Longrightarrow> P y \<Longrightarrow> y = x"
  shows "find P xs = Some x"
proof -
  from assms(1,2) obtain y where y: "find P xs = Some y"
    using find_mem_not_None by metis
  with assms(3) have "y = x" by (blast dest: find_SomeD)
  with y show ?thesis by simp
qed

lemma set_insert_row [table_simps]: "set (insert_row r t) = insert r (set t)"
  by (simp add: insert_row_def)

lemma set_delete_row [table_simps]: "set (delete_row i t) = {x \<in> set t. row_id x \<noteq> i}"
  by (auto simp: delete_row_def)

lemma set_update_row:
  "set (update_row r t) =
     (if row_id r \<in> ids t then insert r {x \<in> set t. row_id x \<noteq> row_id r} else set t)"
  by (auto simp: update_row_def ids_def image_iff)

lemma set_update_row_subset:
  "x \<in> set (update_row r t) \<Longrightarrow> x = r \<or> x \<in> set t \<and> row_id x \<noteq> row_id r"
  by (auto simp: update_row_def split: if_splits)

lemma set_update_row_mem: "x \<in> set t \<Longrightarrow> row_id x = row_id r \<Longrightarrow> r \<in> set (update_row r t)"
  by (auto simp: update_row_def)

lemma set_update_row_other:
  "x \<in> set t \<Longrightarrow> row_id x \<noteq> row_id r \<Longrightarrow> x \<in> set (update_row r t)"
  by (force simp: update_row_def)

lemma map_id_update_row [simp]: "map row_id (update_row r t) = map row_id t"
  by (induction t) (auto simp: update_row_def)

lemma ids_update_row [simp]: "ids (update_row r t) = ids t"
  by (simp only: ids_def set_map [symmetric] map_id_update_row)

lemma length_update_row [simp]: "length (update_row r t) = length t"
  by (simp add: update_row_def)

lemma ids_delete_row [simp]: "ids (delete_row i t) = ids t - {i}"
  by (auto simp: ids_def set_delete_row)

lemma pk_unique_update_row [simp]: "pk_unique (update_row r t) = pk_unique t"
  by (simp add: pk_unique_def)

lemma ids_insert_row [simp]: "ids (insert_row r t) = insert (row_id r) (ids t)"
  by (auto simp: ids_def insert_row_def)

lemma pk_unique_insert_row [simp]:
  "pk_unique (insert_row r t) \<longleftrightarrow> pk_unique t \<and> row_id r \<notin> ids t"
  by (auto simp: pk_unique_def insert_row_def ids_def)

lemma pk_unique_delete_row: "pk_unique t \<Longrightarrow> pk_unique (delete_row i t)"
  by (induction t) (auto simp: pk_unique_def delete_row_def)

lemma pk_unique_inj:
  "pk_unique t \<Longrightarrow> x \<in> set t \<Longrightarrow> y \<in> set t \<Longrightarrow> row_id x = row_id y \<Longrightarrow> x = y"
  by (auto simp: pk_unique_def distinct_map inj_on_def)

lemma get_row_SomeD: "get_row i t = Some r \<Longrightarrow> r \<in> set t \<and> row_id r = i"
  by (auto simp: get_row_def dest: find_SomeD)

lemma get_row_mem: "pk_unique t \<Longrightarrow> r \<in> set t \<Longrightarrow> get_row (row_id r) t = Some r"
  unfolding get_row_def by (rule find_unique) (auto intro: pk_unique_inj)

lemma get_row_update_row [simp]:
  "get_row i (update_row r t) =
     (if i = row_id r \<and> i \<in> ids t then Some r else get_row i t)"
  by (induction t) (auto simp: get_row_def update_row_def ids_def)

lemma get_row_insert_row:
  "row_id r \<notin> ids t \<Longrightarrow> get_row i (insert_row r t) = (if i = row_id r then Some r else get_row i t)"
  by (induction t) (auto simp: get_row_def insert_row_def ids_def find_append)

lemma get_row_delete_row: "get_row i (delete_row j t) = (if i = j then None else get_row i t)"
  by (induction t) (auto simp: get_row_def delete_row_def)

lemma get_row_None_iff: "get_row i t = None \<longleftrightarrow> i \<notin> ids t"
  by (auto simp: get_row_def ids_def find_None_iff)

lemma update_row_same: "pk_unique t \<Longrightarrow> r \<in> set t \<Longrightarrow> update_row r t = t"
  by (rule map_idI[THEN trans[OF update_row_def]]) (auto dest: pk_unique_inj)

lemma update_row_fresh: "row_id r \<notin> ids t \<Longrightarrow> update_row r t = t"
  by (rule map_idI[THEN trans[OF update_row_def]]) (metis ids_def image_eqI)

lemma image_update_row:
  assumes "pk_unique t" and "x \<in> set t" and "row_id r = row_id x" and "f r = f x"
  shows "f ` set (update_row r t) = f ` set t"
proof
  show "f ` set (update_row r t) \<subseteq> f ` set t"
    using assms(2,4) by (auto dest!: set_update_row_subset)
  show "f ` set t \<subseteq> f ` set (update_row r t)"
  proof (rule image_subsetI)
    fix y assume y: "y \<in> set t"
    show "f y \<in> f ` set (update_row r t)"
    proof (cases "row_id y = row_id r")
      case True
      then have "y = x" using pk_unique_inj[OF assms(1) y assms(2)] assms(3) by simp
      then show ?thesis using assms(4) by (intro rev_image_eqI[OF set_update_row_mem[OF y True]]) simp
    next
      case False
      with y show ?thesis by (blast intro: set_update_row_other)
    qed
  qed
qed

text \<open>
  \<open>UPDATE t SET \<dots> WHERE p\<close>: every row that satisfies the clause is rewritten by \<open>f\<close>.
\<close>

definition update_where :: "('a \<Rightarrow> bool) \<Rightarrow> ('a \<Rightarrow> 'a) \<Rightarrow> 'a list \<Rightarrow> 'a list" where
  "update_where P f t = map (\<lambda>x. if P x then f x else x) t"

lemma set_update_where [table_simps]:
  "set (update_where P f t) = (\<lambda>x. if P x then f x else x) ` set t"
  by (simp add: update_where_def)

lemma update_where_idem: "(\<And>x. f (f x) = f x) \<Longrightarrow> update_where P f (update_where P f t) = update_where P f t"
  by (simp add: update_where_def)

lemma length_update_where [simp]: "length (update_where P f t) = length t"
  by (simp add: update_where_def)

section \<open>A partial unique index\<close>

text \<open>
  \<open>unique_on sel key t\<close>: among the rows the index covers, no two share a key. This is the
  content of the UNIQUE constraints and partial unique indexes of the schema.
\<close>

definition unique_on ::
  "('a pk_row_scheme \<Rightarrow> bool) \<Rightarrow> ('a pk_row_scheme \<Rightarrow> 'k) \<Rightarrow> 'a pk_row_scheme list \<Rightarrow> bool" where
  "unique_on sel key t \<longleftrightarrow>
     (\<forall>x\<in>set t. \<forall>y\<in>set t. sel x \<longrightarrow> sel y \<longrightarrow> key x = key y \<longrightarrow> row_id x = row_id y)"

lemma unique_on_Nil [simp]: "unique_on sel key []"
  by (simp add: unique_on_def)

lemma unique_onI:
  "(\<And>x y. x \<in> set t \<Longrightarrow> y \<in> set t \<Longrightarrow> sel x \<Longrightarrow> sel y \<Longrightarrow> key x = key y \<Longrightarrow> row_id x = row_id y)
   \<Longrightarrow> unique_on sel key t"
  unfolding unique_on_def by blast

lemma unique_onD:
  "unique_on sel key t \<Longrightarrow> x \<in> set t \<Longrightarrow> y \<in> set t \<Longrightarrow> sel x \<Longrightarrow> sel y \<Longrightarrow> key x = key y
   \<Longrightarrow> row_id x = row_id y"
  unfolding unique_on_def by blast

lemma unique_on_insert_row:
  assumes "unique_on sel key t" and "sel r \<Longrightarrow> \<forall>x\<in>set t. sel x \<longrightarrow> key x \<noteq> key r"
  shows "unique_on sel key (insert_row r t)"
proof (rule unique_onI)
  fix x y assume "x \<in> set (insert_row r t)" "y \<in> set (insert_row r t)"
    and s: "sel x" "sel y" and k: "key x = key y"
  then have "x = r \<or> x \<in> set t" and "y = r \<or> y \<in> set t"
    by (simp_all only: set_insert_row insert_iff)
  with assms s k show "row_id x = row_id y"
    by (metis unique_onD)
qed

lemma unique_on_subset: "unique_on sel key t \<Longrightarrow> set t' \<subseteq> set t \<Longrightarrow> unique_on sel key t'"
  unfolding unique_on_def by blast

lemma unique_on_delete_row: "unique_on sel key t \<Longrightarrow> unique_on sel key (delete_row i t)"
  by (erule unique_on_subset) (simp add: set_delete_row)

lemma unique_on_update_row:
  assumes "unique_on sel key t"
    and "sel r \<Longrightarrow> \<forall>x\<in>set t. row_id x \<noteq> row_id r \<longrightarrow> sel x \<longrightarrow> key x \<noteq> key r"
  shows "unique_on sel key (update_row r t)"
  using assms unfolding unique_on_def by (metis set_update_row_subset)

lemma unique_on_update_row_out:
  "unique_on sel key t \<Longrightarrow> \<not> sel r \<Longrightarrow> unique_on sel key (update_row r t)"
  by (rule unique_on_update_row) auto

lemma unique_on_update_row_same:
  assumes "unique_on sel key t" and "x \<in> set t" and "row_id r = row_id x"
    and "sel r \<Longrightarrow> sel x \<and> key r = key x"
  shows "unique_on sel key (update_row r t)"
  using assms by (intro unique_on_update_row) (auto dest: unique_onD)

lemma fresh_row_id: "x \<in> set t \<Longrightarrow> i \<notin> ids t \<Longrightarrow> row_id x \<noteq> i"
  by (auto simp: ids_def)

text \<open>A row with a new key meets a constraint exactly when no row it selects has its key.\<close>

lemma unique_on_insert_iff:
  assumes "unique_on sel key t" and "row_id r \<notin> ids t"
  shows "unique_on sel key (insert_row r t) \<longleftrightarrow> (sel r \<longrightarrow> (\<forall>x\<in>set t. sel x \<longrightarrow> key x \<noteq> key r))"
proof
  assume u: "unique_on sel key (insert_row r t)"
  show "sel r \<longrightarrow> (\<forall>x\<in>set t. sel x \<longrightarrow> key x \<noteq> key r)"
  proof (intro impI ballI)
    fix x assume "sel r" "x \<in> set t" "sel x"
    then show "key x \<noteq> key r"
      using unique_onD[OF u, of x r] fresh_row_id[OF _ assms(2), of x] by (auto simp: set_insert_row)
  qed
next
  assume "sel r \<longrightarrow> (\<forall>x\<in>set t. sel x \<longrightarrow> key x \<noteq> key r)"
  with assms(1) show "unique_on sel key (insert_row r t)" by (intro unique_on_insert_row) auto
qed

end
