(* ===== verification/Schema.thy ===== *)
theory Schema
  imports Prelude
begin

text \<open>
  The persistent state: one record per ORM class, with the columns of the class, the enum
  vocabularies of the columns as datatypes, and the database as the record of its tables.
  A record extends the column group its class mixes in (theory Prelude). Columns that hold
  free-form JSON configuration, and relationships (which are lookups over the tables), have
  no field. The UNIQUE constraints and partial unique indexes are predicates here too.
\<close>

section \<open>Vocabularies\<close>

datatype organization_status = OG_TRIAL | OG_ACTIVE | OG_SUSPENDED | OG_CLOSED
datatype school_status = SC_SETUP | SC_ACTIVE | SC_SUSPENDED | SC_CLOSED
datatype user_status = US_INVITED | US_ACTIVE | US_SUSPENDED | US_DISABLED
datatype membership_status = MS_ACTIVE | MS_INACTIVE | MS_ENDED
datatype role_scope_level = RL_PLATFORM | RL_ORGANIZATION | RL_SCHOOL
datatype data_scope = OWN | ASSIGNED | SCHOOL | ORGANIZATION | PLATFORM
datatype outbox_status = OB_PENDING | OB_PROCESSING | OB_SENT | OB_FAILED
datatype notification_type = NT_ANNOUNCEMENT | NT_ATTENDANCE | NT_ENROLLMENT | NT_SYSTEM
datatype academic_year_status = AY_DRAFT | AY_ACTIVE | AY_CLOSED
datatype academic_term_status = TM_ACTIVE | TM_CLOSED
datatype academic_class_status = CL_ACTIVE | CL_ARCHIVED
datatype subject_type =
  SJ_CORE | SJ_OPTIONAL | SJ_ELECTIVE | SJ_PRACTICAL | SJ_CO_CURRICULAR | SJ_ACTIVITY
datatype subject_status = SJ_ACTIVE | SJ_ARCHIVED
datatype cohort_status = CO_ACTIVE | CO_ARCHIVED
datatype person_status = PE_ACTIVE | PE_INACTIVE | PE_DECEASED | PE_MERGED
datatype address_type = AD_RESIDENTIAL | AD_PERMANENT | AD_CORRESPONDENCE | AD_CAMPUS | AD_OTHER
datatype contact_type = CT_PHONE | CT_EMAIL | CT_WHATSAPP
datatype document_status = DC_PENDING_UPLOAD | DC_CONFIRMED | DC_DELETED
datatype import_status = IJ_PENDING | IJ_PROCESSING | IJ_COMPLETED | IJ_FAILED | IJ_PARTIAL
datatype import_resource = IR_STUDENTS | IR_TEACHERS
datatype export_status = EJ_PENDING | EJ_PROCESSING | EJ_COMPLETED | EJ_FAILED
datatype guardian_relationship =
  GR_FATHER | GR_MOTHER | GR_GUARDIAN | GR_GRANDPARENT | GR_SIBLING | GR_OTHER
datatype student_status =
  ST_ACTIVE | ST_WITHDRAWN | ST_GRADUATED | ST_TRANSFERRED | ST_INACTIVE | ST_DECEASED
datatype enrollment_status = EN_ACTIVE | EN_TRANSFERRED | EN_WITHDRAWN | EN_COMPLETED
datatype enrollment_type = ET_REGULAR | ET_TRANSFER_IN | ET_REPEAT | ET_PROMOTION | ET_TEMPORARY
datatype teacher_status = TE_ACTIVE | TE_ON_LEAVE | TE_RESIGNED | TE_TERMINATED | TE_INACTIVE
datatype assignment_role = SUBJECT_TEACHER | CLASS_TEACHER | SUBSTITUTE | COORDINATOR
datatype assignment_status = TA_ACTIVE | TA_ENDED
datatype timetable_status = TT_DRAFT | TT_PUBLISHED | TT_ARCHIVED
datatype slot_status = SL_ACTIVE | SL_CANCELLED | SL_SUBSTITUTED
datatype period_type = PT_LESSON | PT_BREAK | PT_LUNCH | PT_ASSEMBLY | PT_FREE | PT_EXAM
datatype day_of_week = MONDAY | TUESDAY | WEDNESDAY | THURSDAY | FRIDAY | SATURDAY | SUNDAY
datatype session_status = AS_DRAFT | AS_SUBMITTED | AS_AMENDED
datatype attendance_status = AT_PRESENT | AT_ABSENT | AT_LATE | AT_EXCUSED | AT_HOLIDAY
datatype announcement_status = AN_DRAFT | AN_PUBLISHED | AN_EXPIRED | AN_ARCHIVED
datatype announcement_priority = AP_NORMAL | AP_HIGH | AP_URGENT
datatype publish_mode = PM_IMMEDIATE | PM_SCHEDULED
datatype target_type = TG_SCHOOL | TG_CLASS | TG_COHORT | TG_ROLE

section \<open>Identity and access (app/modules/iam/models.py)\<close>

record organization = soft_row +
  og_code :: string
  og_name :: string
  og_legal_name :: "string option"
  og_status :: organization_status
  og_timezone :: string
  og_locale :: string
  og_contact_email :: "string option"
  og_contact_phone :: "string option"
  og_plan_code :: string
  og_parent_organization_id :: "ulid option"

record school = soft_row +
  sc_organization_id :: ulid
  sc_code :: string
  sc_name :: string
  sc_short_name :: "string option"
  sc_parent_school_id :: "ulid option"
  sc_hierarchy_path :: "string option"
  sc_timezone :: string
  sc_locale :: string
  sc_board :: "string option"
  sc_affiliation_number :: "string option"
  sc_contact_email :: "string option"
  sc_contact_phone :: "string option"
  sc_address_id :: "ulid option"
  sc_status :: school_status

record user = soft_row +
  us_person_id :: "ulid option"
  us_email :: "string option"
  us_email_verified_at :: "timestamp option"
  us_phone :: "string option"
  us_phone_verified_at :: "timestamp option"
  us_password_hash :: "string option"
  us_password_changed_at :: "timestamp option"
  us_must_change_password :: bool
  us_status :: user_status
  us_is_platform_admin :: bool
  us_failed_login_count :: int
  us_locked_until :: "timestamp option"
  us_last_login_at :: "timestamp option"
  us_permissions_version :: int

record membership = versioned_row +
  mb_user_id :: ulid
  mb_organization_id :: ulid
  mb_school_id :: "ulid option"
  mb_status :: membership_status
  mb_start_date :: "date option"
  mb_end_date :: "date option"
  mb_is_default :: bool
  mb_notes :: "string option"

record permission_row = ts_row +
  pr_code :: string
  pr_module :: string
  pr_resource :: string
  pr_action :: string
  pr_description :: string
  pr_platform_only :: bool

record role = soft_row +
  ro_organization_id :: "ulid option"
  ro_code :: string
  ro_name :: string
  ro_description :: "string option"
  ro_scope_level :: role_scope_level
  ro_data_scope :: data_scope
  ro_is_system :: bool
  ro_is_default :: bool

record role_permission = ts_row +
  rp_role_id :: ulid
  rp_permission_id :: ulid
  rp_data_scope :: "data_scope option"

record membership_role = actor_row +
  mr_membership_id :: ulid
  mr_role_id :: ulid
  mr_granted_at :: timestamp
  mr_expires_at :: "timestamp option"
  mr_data_scope :: "data_scope option"

section \<open>Authentication (app/modules/auth/models.py)\<close>

record refresh_token = ts_row +
  rt_user_id :: ulid
  rt_token_digest :: string
  rt_session_family_id :: ulid
  rt_expires_at :: timestamp
  rt_rotated_at :: "timestamp option"
  rt_revoked_at :: "timestamp option"
  rt_user_agent :: "string option"
  rt_ip_address :: "string option"

record login_attempt = pk_row +
  la_user_id :: "ulid option"
  la_email_attempted :: "string option"
  la_ip_address :: "string option"
  la_success :: bool
  la_attempted_at :: timestamp

record reset_token = ts_row +
  pw_user_id :: ulid
  pw_token_hash :: string
  pw_expires_at :: timestamp
  pw_consumed_at :: "timestamp option"
  pw_requested_ip :: "string option"

section \<open>Platform (app/modules/platform_/models.py, app/modules/notifications/models.py)\<close>

text \<open>
  The values a JSON snapshot can hold. \<open>JDateStr\<close> and \<open>JTimeStr\<close> are the texts
  \<open>str(d)\<close> of a date or a time; the \<open>Raw\<close> values are the Python objects themselves,
  which a snapshot of a date column holds when the code does not convert it.
\<close>

datatype jval =
    JNull
  | JStr string
  | JInt int
  | JBool bool
  | JDateStr date
  | JTimeStr timestamp
  | JList "string list"
  | RawDate date
  | RawDateTime timestamp
  | RawTime int

type_synonym snapshot = "(string \<times> jval) list"

record audit_log = ts_row +
  al_organization_id :: "ulid option"
  al_school_id :: "ulid option"
  al_actor_user_id :: "ulid option"
  al_actor_label :: "string option"
  al_action :: string
  al_entity_type :: string
  al_entity_id :: "ulid option"
  al_before :: "snapshot option"
  al_after :: "snapshot option"
  al_request_id :: "string option"
  al_ip_address :: "string option"

text \<open>
  The payload of an outbox event: the two shapes the domain services write, with the keys
  a handler may look up; a key that is absent reads as \<open>None\<close>.
\<close>

record target_ref =
  tr_type :: string
  tr_id :: "string option"

datatype payload =
    AnnouncementPayload "ulid option" "string option" "string option" "target_ref list"
  | AttendancePayload "ulid option" "ulid option" "date option"
  | EmptyPayload

record outbox_event = pk_row +
  ob_event_name :: string
  ob_event_version :: int
  ob_payload :: payload
  ob_organization_id :: "ulid option"
  ob_school_id :: "ulid option"
  ob_actor_user_id :: "ulid option"
  ob_entity_type :: "string option"
  ob_entity_id :: "ulid option"
  ob_status :: outbox_status
  ob_attempts :: int
  ob_next_attempt_at :: "timestamp option"
  ob_processed_at :: "timestamp option"
  ob_last_error :: "string option"
  ob_request_id :: "string option"
  ob_locked_by :: "string option"
  ob_locked_at :: "timestamp option"
  ob_created_at :: timestamp

record notification = ts_row +
  no_user_id :: ulid
  no_school_id :: "ulid option"
  no_organization_id :: ulid
  no_type :: notification_type
  no_title :: string
  no_body :: "string option"
  no_related_entity_type :: "string option"
  no_related_entity_id :: "ulid option"
  no_is_read :: bool
  no_read_at :: "timestamp option"

section \<open>Academic structure and people on the roll\<close>

record academic_year = soft_row +
  ay_school_id :: ulid
  ay_organization_id :: ulid
  ay_code :: string
  ay_name :: string
  ay_start_date :: date
  ay_end_date :: date
  ay_is_current :: bool
  ay_status :: academic_year_status

record academic_term = soft_row +
  tm_school_id :: ulid
  tm_organization_id :: ulid
  tm_academic_year_id :: ulid
  tm_code :: string
  tm_name :: string
  tm_start_date :: date
  tm_end_date :: date
  tm_status :: academic_term_status

record academic_class = soft_row +
  cl_school_id :: ulid
  cl_organization_id :: ulid
  cl_code :: string
  cl_name :: string
  cl_description :: "string option"
  cl_sort_order :: int
  cl_status :: academic_class_status

record class_subject = actor_row +
  cs_school_id :: ulid
  cs_organization_id :: ulid
  cs_academic_class_id :: ulid
  cs_subject_id :: ulid
  cs_effective_from_year_id :: ulid
  cs_effective_to_year_id :: "ulid option"

record cohort = soft_row +
  co_school_id :: ulid
  co_organization_id :: ulid
  co_academic_year_id :: ulid
  co_academic_class_id :: ulid
  co_code :: string
  co_name :: string
  co_capacity :: "int option"
  co_status :: cohort_status

record subject = soft_row +
  su_school_id :: ulid
  su_organization_id :: ulid
  su_code :: string
  su_name :: string
  su_description :: "string option"
  su_subject_type :: subject_type
  su_status :: subject_status

record teacher = soft_row +
  te_school_id :: ulid
  te_organization_id :: ulid
  te_person_id :: ulid
  te_employee_number :: "string option"
  te_designation :: "string option"
  te_joining_date :: "date option"
  te_leaving_date :: "date option"
  te_status :: teacher_status

record teacher_assignment = versioned_row +
  ta_school_id :: ulid
  ta_organization_id :: ulid
  ta_teacher_id :: ulid
  ta_cohort_id :: ulid
  ta_subject_id :: "ulid option"
  ta_academic_year_id :: ulid
  ta_role :: assignment_role
  ta_start_date :: date
  ta_end_date :: "date option"
  ta_status :: assignment_status

record person = soft_row +
  pe_organization_id :: ulid
  pe_first_name :: string
  pe_middle_name :: "string option"
  pe_last_name :: "string option"
  pe_preferred_name :: "string option"
  pe_date_of_birth :: "date option"
  pe_gender :: "string option"
  pe_blood_group :: "string option"
  pe_nationality :: "string option"
  pe_primary_phone :: "string option"
  pe_primary_email :: "string option"
  pe_address_id :: "ulid option"
  pe_photo_document_id :: "ulid option"
  pe_status :: person_status
  pe_merged_into_person_id :: "ulid option"

text \<open>
  Addresses have a version but no actor, and contacts neither. The coordinates of an address are
  written by nobody and left out.
\<close>

record address = ts_row +
  ad_version :: int
  ad_entity_type :: string
  ad_entity_id :: ulid
  ad_organization_id :: ulid
  ad_address_type :: address_type
  ad_line1 :: "string option"
  ad_line2 :: "string option"
  ad_landmark :: "string option"
  ad_city :: "string option"
  ad_district :: "string option"
  ad_state :: "string option"
  ad_postal_code :: "string option"
  ad_country_code :: string
  ad_is_primary :: bool

record contact = ts_row +
  ct_entity_type :: string
  ct_entity_id :: ulid
  ct_organization_id :: ulid
  ct_contact_type :: contact_type
  ct_value :: string
  ct_label :: "string option"
  ct_is_primary :: bool
  ct_is_emergency :: bool
  ct_verified_at :: "timestamp option"

record student = soft_row +
  st_school_id :: ulid
  st_organization_id :: ulid
  st_person_id :: ulid
  st_admission_number :: string
  st_admission_date :: date
  st_status :: student_status
  st_withdrawal_date :: "date option"
  st_withdrawal_reason :: "string option"

record enrollment = versioned_row +
  en_school_id :: ulid
  en_organization_id :: ulid
  en_student_id :: ulid
  en_academic_year_id :: ulid
  en_academic_class_id :: ulid
  en_cohort_id :: ulid
  en_roll_number :: "string option"
  en_start_date :: date
  en_end_date :: "date option"
  en_enrollment_type :: enrollment_type
  en_status :: enrollment_status

record parent = soft_row +
  pa_person_id :: ulid
  pa_school_id :: ulid
  pa_organization_id :: ulid
  pa_occupation :: "string option"
  pa_workplace :: "string option"
  pa_status :: string

record student_parent = actor_row +
  sp_school_id :: ulid
  sp_organization_id :: ulid
  sp_student_id :: ulid
  sp_parent_id :: ulid
  sp_relationship :: string
  sp_is_primary :: bool
  sp_is_emergency_contact :: bool
  sp_can_pickup :: bool

record student_guardian = actor_row +
  sg_school_id :: ulid
  sg_organization_id :: ulid
  sg_student_id :: ulid
  sg_guardian_person_id :: ulid
  sg_relationship :: guardian_relationship
  sg_is_primary :: bool
  sg_is_emergency_contact :: bool
  sg_can_pickup :: bool

section \<open>Timetables (app/modules/timetables/models.py)\<close>

record timetable = soft_row +
  tt_school_id :: ulid
  tt_organization_id :: ulid
  tt_academic_year_id :: ulid
  tt_name :: string
  tt_status :: timetable_status
  tt_published_at :: "timestamp option"

record period_definition = actor_row +
  pd_school_id :: ulid
  pd_organization_id :: ulid
  pd_academic_year_id :: ulid
  pd_name :: string
  pd_period_type :: period_type
  pd_start_time :: int
  pd_end_time :: int
  pd_sort_order :: int

record slot = versioned_row +
  sl_school_id :: ulid
  sl_organization_id :: ulid
  sl_academic_year_id :: ulid
  sl_timetable_id :: "ulid option"
  sl_cohort_id :: ulid
  sl_period_definition_id :: ulid
  sl_teacher_id :: ulid
  sl_subject_id :: ulid
  sl_day_of_week :: day_of_week
  sl_effective_from :: date
  sl_effective_to :: "date option"
  sl_status :: slot_status
  sl_notes :: "string option"

section \<open>Attendance (app/modules/attendance/models.py)\<close>

record attendance_session = versioned_row +
  as_school_id :: ulid
  as_organization_id :: ulid
  as_cohort_id :: ulid
  as_academic_year_id :: ulid
  as_session_date :: date
  as_status :: session_status
  as_submitted_at :: "timestamp option"
  as_submitted_by_id :: "ulid option"
  as_notes :: "string option"

record attendance_record = actor_row +
  ar_school_id :: ulid
  ar_organization_id :: ulid
  ar_session_id :: ulid
  ar_enrollment_id :: ulid
  ar_student_id :: ulid
  ar_status :: attendance_status
  ar_arrived_at :: "int option"
  ar_notes :: "string option"

section \<open>Announcements (app/modules/announcements/models.py)\<close>

record announcement = soft_row +
  an_school_id :: ulid
  an_organization_id :: ulid
  an_title :: string
  an_body :: string
  an_priority :: announcement_priority
  an_publish_mode :: publish_mode
  an_published_at :: "timestamp option"
  an_expires_at :: "timestamp option"
  an_status :: announcement_status

record announcement_target = ts_row +
  at_announcement_id :: ulid
  at_target_type :: target_type
  at_target_id :: "ulid option"
  at_school_id :: ulid
  at_organization_id :: ulid

section \<open>Documents, imports and exports (app/modules/documents, bulk_import, reports)\<close>

record document = actor_row +
  dc_archived_at :: "timestamp option"
  dc_deleted_at :: "timestamp option"
  dc_school_id :: ulid
  dc_organization_id :: "ulid option"
  dc_entity_type :: string
  dc_entity_id :: ulid
  dc_document_type :: string
  dc_original_filename :: string
  dc_storage_key :: "string option"
  dc_mime_type :: "string option"
  dc_file_size :: "int option"
  dc_checksum_sha256 :: "string option"
  dc_status :: document_status

record row_error =
  re_row :: int
  re_field :: string
  re_message :: string

record import_job = actor_row +
  ij_school_id :: ulid
  ij_organization_id :: "ulid option"
  ij_resource_type :: import_resource
  ij_status :: import_status
  ij_total_rows :: "int option"
  ij_processed_rows :: int
  ij_success_rows :: int
  ij_failed_rows :: int
  ij_error_summary :: "row_error list option"
  ij_original_filename :: "string option"
  ij_started_at :: "timestamp option"
  ij_completed_at :: "timestamp option"

record export_job = actor_row +
  ej_school_id :: ulid
  ej_organization_id :: "ulid option"
  ej_report_type :: string
  ej_status :: export_status
  ej_filters :: "snapshot option"
  ej_row_count :: "int option"
  ej_storage_key :: "string option"
  ej_error_message :: "string option"
  ej_started_at :: "timestamp option"
  ej_completed_at :: "timestamp option"
  ej_expires_at :: "timestamp option"

section \<open>The database\<close>

record db =
  schools :: "school list"
  users :: "user list"
  memberships :: "membership list"
  permissions_t :: "permission_row list"
  roles :: "role list"
  role_permissions :: "role_permission list"
  membership_roles :: "membership_role list"
  refresh_tokens :: "refresh_token list"
  login_attempts :: "login_attempt list"
  reset_tokens :: "reset_token list"
  audit_logs :: "audit_log list"
  outbox_events :: "outbox_event list"
  notifications :: "notification list"
  academic_years :: "academic_year list"
  cohorts :: "cohort list"
  subjects :: "subject list"
  teachers :: "teacher list"
  students :: "student list"
  enrollments :: "enrollment list"
  parents :: "parent list"
  student_parents :: "student_parent list"
  timetables :: "timetable list"
  period_definitions :: "period_definition list"
  slots :: "slot list"
  attendance_sessions :: "attendance_session list"
  attendance_records :: "attendance_record list"
  announcements :: "announcement list"
  announcement_targets :: "announcement_target list"
  academic_terms :: "academic_term list"
  academic_classes :: "academic_class list"
  class_subjects :: "class_subject list"
  teacher_assignments :: "teacher_assignment list"
  persons :: "person list"
  student_guardians :: "student_guardian list"
  organizations :: "organization list"
  addresses :: "address list"
  contacts :: "contact list"
  documents :: "document list"
  import_jobs :: "import_job list"
  export_jobs :: "export_job list"

definition empty_db :: db where
  "empty_db = \<lparr>schools = [], users = [], memberships = [], permissions_t = [], roles = [],
     role_permissions = [], membership_roles = [], refresh_tokens = [], login_attempts = [],
     reset_tokens = [], audit_logs = [], outbox_events = [], notifications = [],
     academic_years = [], cohorts = [], subjects = [], teachers = [], students = [],
     enrollments = [], parents = [], student_parents = [], timetables = [],
     period_definitions = [], slots = [], attendance_sessions = [], attendance_records = [],
     announcements = [], announcement_targets = [],
     academic_terms = [], academic_classes = [], class_subjects = [], teacher_assignments = [],
     persons = [], student_guardians = [], organizations = [], addresses = [], contacts = [],
     documents = [], import_jobs = [], export_jobs = []\<rparr>"

section \<open>Declared uniqueness\<close>

text \<open>Migration 0011: one ACTIVE enrollment per student and year; one roll number per cohort.\<close>

definition uq_enrollment_student_year_active :: "enrollment list \<Rightarrow> bool" where
  "uq_enrollment_student_year_active =
     unique_on (\<lambda>e. en_status e = EN_ACTIVE) (\<lambda>e. (en_student_id e, en_academic_year_id e))"

definition uq_enrollment_cohort_roll :: "enrollment list \<Rightarrow> bool" where
  "uq_enrollment_cohort_roll =
     unique_on (\<lambda>e. en_roll_number e \<noteq> None \<and> en_status e = EN_ACTIVE)
       (\<lambda>e. (en_cohort_id e, en_roll_number e))"

text \<open>\<open>TimetableSlot.__table_args__\<close>: the constraint covers slots of every status.\<close>

definition uq_slot_cohort_period_day_date :: "slot list \<Rightarrow> bool" where
  "uq_slot_cohort_period_day_date =
     unique_on (\<lambda>_. True)
       (\<lambda>s. (sl_cohort_id s, sl_period_definition_id s, sl_day_of_week s, sl_effective_from s))"

definition uq_period_def_school_year_name :: "period_definition list \<Rightarrow> bool" where
  "uq_period_def_school_year_name =
     unique_on (\<lambda>_. True) (\<lambda>p. (pd_school_id p, pd_academic_year_id p, pd_name p))"

definition uq_attendance_session_cohort_date :: "attendance_session list \<Rightarrow> bool" where
  "uq_attendance_session_cohort_date =
     unique_on (\<lambda>_. True) (\<lambda>s. (as_cohort_id s, as_session_date s))"

definition uq_record_session_enrollment :: "attendance_record list \<Rightarrow> bool" where
  "uq_record_session_enrollment =
     unique_on (\<lambda>_. True) (\<lambda>r. (ar_session_id r, ar_enrollment_id r))"

text \<open>Migration 0009 and \<open>AcademicYear.__table_args__\<close>.\<close>

definition uq_academic_years_one_current_per_school :: "academic_year list \<Rightarrow> bool" where
  "uq_academic_years_one_current_per_school =
     unique_on (\<lambda>y. ay_is_current y \<and> deleted_at y = None) ay_school_id"

definition uq_academic_years_school_id_code :: "academic_year list \<Rightarrow> bool" where
  "uq_academic_years_school_id_code =
     unique_on (\<lambda>_. True) (\<lambda>y. (ay_school_id y, ay_code y))"

text \<open>The other constraints of the academic tables; they cover deleted rows too.\<close>

definition uq_academic_terms_school_year_code :: "academic_term list \<Rightarrow> bool" where
  "uq_academic_terms_school_year_code =
     unique_on (\<lambda>_. True) (\<lambda>x. (tm_school_id x, tm_academic_year_id x, tm_code x))"

definition uq_academic_classes_school_id_code :: "academic_class list \<Rightarrow> bool" where
  "uq_academic_classes_school_id_code = unique_on (\<lambda>_. True) (\<lambda>x. (cl_school_id x, cl_code x))"

definition uq_subjects_school_id_code :: "subject list \<Rightarrow> bool" where
  "uq_subjects_school_id_code = unique_on (\<lambda>_. True) (\<lambda>x. (su_school_id x, su_code x))"

definition uq_cohorts_school_year_class_code :: "cohort list \<Rightarrow> bool" where
  "uq_cohorts_school_year_class_code =
     unique_on (\<lambda>_. True) (\<lambda>x. (co_school_id x, co_academic_year_id x, co_academic_class_id x, co_code x))"

definition uq_class_subjects_school_class_subject :: "class_subject list \<Rightarrow> bool" where
  "uq_class_subjects_school_class_subject =
     unique_on (\<lambda>_. True) (\<lambda>x. (cs_school_id x, cs_academic_class_id x, cs_subject_id x))"

text \<open>Students, guardians and teachers. A NULL subject does not collide in migration 0026's index.\<close>

definition uq_students_school_admission_number :: "student list \<Rightarrow> bool" where
  "uq_students_school_admission_number = unique_on (\<lambda>_. True) (\<lambda>x. (st_school_id x, st_admission_number x))"

definition uq_students_school_person :: "student list \<Rightarrow> bool" where
  "uq_students_school_person = unique_on (\<lambda>_. True) (\<lambda>x. (st_school_id x, st_person_id x))"

definition uq_student_guardian_person :: "student_guardian list \<Rightarrow> bool" where
  "uq_student_guardian_person = unique_on (\<lambda>_. True) (\<lambda>x. (sg_student_id x, sg_guardian_person_id x))"

definition uq_teachers_school_id_person_id :: "teacher list \<Rightarrow> bool" where
  "uq_teachers_school_id_person_id = unique_on (\<lambda>_. True) (\<lambda>x. (te_school_id x, te_person_id x))"

definition uq_teachers_school_id_employee_number :: "teacher list \<Rightarrow> bool" where
  "uq_teachers_school_id_employee_number =
     unique_on (\<lambda>x. te_employee_number x \<noteq> None \<and> deleted_at x = None) (\<lambda>x. (te_school_id x, te_employee_number x))"

definition uq_assignment_class_teacher_active :: "teacher_assignment list \<Rightarrow> bool" where
  "uq_assignment_class_teacher_active =
     unique_on (\<lambda>x. ta_role x = CLASS_TEACHER \<and> ta_status x = TA_ACTIVE)
       (\<lambda>x. (ta_school_id x, ta_cohort_id x, ta_academic_year_id x))"

definition uq_assignment_subject_teacher_active :: "teacher_assignment list \<Rightarrow> bool" where
  "uq_assignment_subject_teacher_active =
     unique_on (\<lambda>x. ta_role x = SUBJECT_TEACHER \<and> ta_status x = TA_ACTIVE \<and> ta_subject_id x \<noteq> None)
       (\<lambda>x. (ta_school_id x, ta_cohort_id x, ta_subject_id x, ta_academic_year_id x))"

text \<open>
  Tenants and contacts. The codes of organizations and schools are unique among deleted rows too.
\<close>

definition uq_organizations_code :: "organization list \<Rightarrow> bool" where
  "uq_organizations_code = unique_on (\<lambda>_. True) og_code"

definition uq_schools_organization_id_code :: "school list \<Rightarrow> bool" where
  "uq_schools_organization_id_code = unique_on (\<lambda>_. True) (\<lambda>x. (sc_organization_id x, sc_code x))"

definition uq_contacts_entity :: "contact list \<Rightarrow> bool" where
  "uq_contacts_entity =
     unique_on (\<lambda>_. True) (\<lambda>c. (ct_entity_type c, ct_entity_id c, ct_contact_type c, ct_value c))"

definition uq_refresh_tokens_token_digest :: "refresh_token list \<Rightarrow> bool" where
  "uq_refresh_tokens_token_digest = unique_on (\<lambda>_. True) rt_token_digest"

text \<open>
  \<open>constrained check name t\<close> is what a flush does with a table it wrote: the statement
  fails with the constraint's name when the constraint does not hold of the new contents.
\<close>

definition constrained :: "bool \<Rightarrow> string \<Rightarrow> 'a \<Rightarrow> 'a result" where
  "constrained ok name t = (if ok then Inr t else Inl (IntegrityError name))"

lemma constrained_Inr_iff [simp]: "constrained ok name t = Inr t' \<longleftrightarrow> ok \<and> t' = t"
  by (auto simp: constrained_def)

lemma constrained_Inl_iff [simp]: "constrained ok name t = Inl e \<longleftrightarrow> \<not> ok \<and> e = IntegrityError name"
  by (auto simp: constrained_def)

end
