(* ===== verification/Permissions.thy ===== *)
theory Permissions
  imports Schema "HOL-Library.Char_ord" "HOL-Library.List_Lexorder"
begin

text \<open>
  The permission registry and the data-scope order of \<open>app/core/permissions.py\<close>: codes
  and their format, registration, and the choice of the strongest scope.
\<close>

section \<open>Data scopes\<close>

text \<open>The value of each member of \<open>DataScope\<close>.\<close>

fun scope_value :: "data_scope \<Rightarrow> string" where
  "scope_value OWN = ''OWN''"
| "scope_value ASSIGNED = ''ASSIGNED''"
| "scope_value SCHOOL = ''SCHOOL''"
| "scope_value ORGANIZATION = ''ORGANIZATION''"
| "scope_value PLATFORM = ''PLATFORM''"

text \<open>
  \<open>_ORDER\<close> is assigned in the body of an enum class that mixes in \<open>str\<close>, so it is a member
  of the enumeration too, and its value is the text of the list. \<open>strength\<close> therefore calls
  \<open>str.index\<close>: the offset of the first occurrence of the scope's name in that text.
\<close>

definition scope_order_text :: string where
  "scope_order_text = ''['OWN', 'ASSIGNED', 'SCHOOL', 'ORGANIZATION', 'PLATFORM']''"

fun str_find :: "string \<Rightarrow> string \<Rightarrow> nat option" where
  "str_find p [] = (if p = [] then Some 0 else None)"
| "str_find p (c # s) =
     (if take (length p) (c # s) = p then Some 0 else map_option Suc (str_find p s))"

definition strength :: "data_scope \<Rightarrow> nat" where
  "strength s = the (str_find (scope_value s) scope_order_text)"

text \<open>
  \<open>max(scopes, key=strength)\<close>: the first element, in iteration order, whose key no other
  exceeds. A Python set is iterated in an order the program does not control, so the
  argument is the list of its elements in whatever order they come.
\<close>

fun max_by :: "('a \<Rightarrow> nat) \<Rightarrow> 'a \<Rightarrow> 'a list \<Rightarrow> 'a" where
  "max_by k b [] = b"
| "max_by k b (x # xs) = max_by k (if k x > k b then x else b) xs"

definition strongest :: "data_scope list \<Rightarrow> data_scope option" where
  "strongest scopes = (case scopes of [] \<Rightarrow> None | s # ss \<Rightarrow> Some (max_by strength s ss))"

text \<open>The declared order, OWN < ASSIGNED < SCHOOL < ORGANIZATION < PLATFORM.\<close>

fun scope_rank :: "data_scope \<Rightarrow> nat" where
  "scope_rank OWN = 0"
| "scope_rank ASSIGNED = 1"
| "scope_rank SCHOOL = 2"
| "scope_rank ORGANIZATION = 3"
| "scope_rank PLATFORM = 4"

text \<open>The offsets, not the positions, are what \<open>strength\<close> returns.\<close>

lemma strength_simps [simp]:
  "strength OWN = 2" "strength ASSIGNED = 9" "strength SCHOOL = 21"
  "strength ORGANIZATION = 31" "strength PLATFORM = 47"
  by (simp_all add: strength_def scope_order_text_def)

lemma strength_rank: "strength a < strength b \<longleftrightarrow> scope_rank a < scope_rank b"
  by (cases a; cases b) simp_all

lemma strength_inj: "strength a = strength b \<longleftrightarrow> a = b"
  by (cases a; cases b) simp_all

lemma scope_cases_all: "(\<forall>s. P s) \<longleftrightarrow> P OWN \<and> P ASSIGNED \<and> P SCHOOL \<and> P ORGANIZATION \<and> P PLATFORM"
  by (metis data_scope.exhaust)

instantiation data_scope :: linorder
begin

definition less_eq_data_scope :: "data_scope \<Rightarrow> data_scope \<Rightarrow> bool" where
  "less_eq_data_scope a b = (strength a \<le> strength b)"

definition less_data_scope :: "data_scope \<Rightarrow> data_scope \<Rightarrow> bool" where
  "less_data_scope a b = (strength a < strength b)"

instance
  by standard (auto simp: less_eq_data_scope_def less_data_scope_def strength_inj)

end

lemma scope_le_rank: "a \<le> b \<longleftrightarrow> scope_rank a \<le> scope_rank b" for a b :: data_scope
  by (cases a; cases b) (simp_all add: less_eq_data_scope_def)

lemma PLATFORM_top [simp]: "s \<le> PLATFORM"
  by (cases s) (simp_all add: less_eq_data_scope_def)

lemma OWN_bot [simp]: "OWN \<le> s"
  by (cases s) (simp_all add: less_eq_data_scope_def)

lemma max_by_in: "max_by k b xs \<in> insert b (set xs)"
  by (induction xs arbitrary: b) (auto split: if_splits)

lemma max_by_ge: "x \<in> insert b (set xs) \<Longrightarrow> k x \<le> k (max_by k b xs)"
proof (induction xs arbitrary: b x)
  case (Cons y ys)
  let ?b = "if k y > k b then y else b"
  have b: "k ?b \<le> k (max_by k ?b ys)" by (rule Cons.IH) simp
  from Cons.prems consider "x = b" | "x = y" | "x \<in> set ys" by auto
  then show ?case
  proof cases
    case 3
    then show ?thesis using Cons.IH[of x ?b] by simp
  qed (use b in \<open>auto split: if_splits\<close>)
qed simp

lemma strongest_Max: "strongest ss = (if ss = [] then None else Some (Max (set ss)))"
proof (cases ss)
  case (Cons s xs)
  have "Max (insert s (set xs)) = max_by strength s xs"
    using max_by_in[of strength s xs] max_by_ge[of _ s xs strength]
    by (intro Max_eqI) (auto simp: less_eq_data_scope_def)
  then show ?thesis by (simp add: strongest_def Cons)
qed (simp add: strongest_def)

lemma strongest_some_iff: "strongest ss = Some s \<longleftrightarrow> s \<in> set ss \<and> (\<forall>t \<in> set ss. t \<le> s)"
proof (cases "ss = []")
  case False
  then have "Max (set ss) = s \<longleftrightarrow> s \<in> set ss \<and> (\<forall>t \<in> set ss. t \<le> s)"
    by (metis List.finite_set Max_eq_iff set_empty)
  with False show ?thesis by (simp add: strongest_Max)
qed (simp add: strongest_Max)

section \<open>Permission codes\<close>

text \<open>
  \<open>_CODE_RE = ^[a-z0-9_]+\.[a-z0-9_]+\.[a-z0-9_]+$\<close> under \<open>match\<close>: three non-empty segments
  of lower-case letters, digits and underscores; \<open>$\<close> also matches before one final newline.
\<close>

definition newline :: char where "newline = CHR 0x0A"

definition is_code_char :: "char \<Rightarrow> bool" where
  "is_code_char c \<longleftrightarrow>
     c \<in> set ''abcdefghijklmnopqrstuvwxyz0123456789_''"

definition is_segment :: "string \<Rightarrow> bool" where
  "is_segment s \<longleftrightarrow> s \<noteq> [] \<and> list_all is_code_char s"

fun split_dot :: "string \<Rightarrow> string list" where
  "split_dot [] = [[]]"
| "split_dot (c # s) =
     (case split_dot s of
        [] \<Rightarrow> [[c]]
      | w # ws \<Rightarrow> (if c = CHR ''.'' then [] # w # ws else (c # w) # ws))"

definition full_match :: "string \<Rightarrow> bool" where
  "full_match s = (case split_dot s of
     [a, b, c] \<Rightarrow> is_segment a \<and> is_segment b \<and> is_segment c
   | _ \<Rightarrow> False)"

definition code_re_match :: "string \<Rightarrow> bool" where
  "code_re_match s \<longleftrightarrow>
     full_match s \<or> s \<noteq> [] \<and> last s = newline \<and> full_match (butlast s)"

definition code_text :: "string \<Rightarrow> string \<Rightarrow> string \<Rightarrow> string" where
  "code_text m r a = m @ ''.'' @ r @ ''.'' @ a"

section \<open>The registry\<close>

datatype action = ACT_LIST | ACT_READ | ACT_CREATE | ACT_UPDATE | ACT_DELETE | ACT_ARCHIVE | ACT_EXPORT

fun action_value :: "action \<Rightarrow> string" where
  "action_value ACT_LIST = ''list''"
| "action_value ACT_READ = ''read''"
| "action_value ACT_CREATE = ''create''"
| "action_value ACT_UPDATE = ''update''"
| "action_value ACT_DELETE = ''delete''"
| "action_value ACT_ARCHIVE = ''archive''"
| "action_value ACT_EXPORT = ''export''"

text \<open>\<open>register\<close> takes a member of \<open>Action\<close> or a plain string.\<close>

datatype action_arg = ActionMember action | ActionText string

fun action_text :: "action_arg \<Rightarrow> string" where
  "action_text (ActionMember a) = action_value a"
| "action_text (ActionText s) = s"

record permission =
  pm_code :: string
  pm_module :: string
  pm_resource :: string
  pm_action :: string
  pm_description :: string

text \<open>A dict iterates in insertion order, so the registry is the list of its entries.\<close>

type_synonym registry = "(string \<times> permission) list"

definition register ::
  "string \<Rightarrow> string \<Rightarrow> action_arg \<Rightarrow> string \<Rightarrow> registry \<Rightarrow> (permission \<times> registry) result" where
  "register module resource action description reg =
     (let code = code_text module resource (action_text action) in
      if \<not> code_re_match code then Inl (PyError ''ValueError: invalid permission code format'')
      else if map_of reg code \<noteq> None then Inl (PyError ''ValueError: duplicate permission code'')
      else
        let p = \<lparr>pm_code = code, pm_module = module, pm_resource = resource,
                 pm_action = action_text action, pm_description = description\<rparr>
        in Inr (p, reg @ [(code, p)]))"

definition registry_get :: "registry \<Rightarrow> string \<Rightarrow> permission option" where
  "registry_get reg code = map_of reg code"

definition require_registered :: "registry \<Rightarrow> string \<Rightarrow> permission result" where
  "require_registered reg code =
     ok_or (PyError ''RuntimeError: permission is not registered'') (map_of reg code)"

definition validate_all :: "registry \<Rightarrow> unit result" where
  "validate_all reg =
     (if list_all (\<lambda>(code, _). code_re_match code) reg then Inr ()
      else Inl (PyError ''ValueError: invalid permission code''))"

definition registry_all :: "registry \<Rightarrow> permission list" where
  "registry_all reg = map snd reg"

text \<open>The registries a program can build: start empty, register.\<close>

inductive reachable_registry :: "registry \<Rightarrow> bool" where
  reg_empty: "reachable_registry []"
| reg_step: "reachable_registry reg \<Longrightarrow> register m r a d reg = Inr (p, reg') \<Longrightarrow> reachable_registry reg'"

inductive_cases reachable_registryE: "reachable_registry reg"

definition registry_ok :: "registry \<Rightarrow> bool" where
  "registry_ok reg \<longleftrightarrow> distinct (map fst reg) \<and>
     (\<forall>(c, p) \<in> set reg. pm_code p = c \<and> code_re_match c \<and>
        c = code_text (pm_module p) (pm_resource p) (pm_action p))"

lemma register_Inr_iff:
  "register m r a d reg = Inr (p, reg') \<longleftrightarrow>
     (let c = code_text m r (action_text a) in
      code_re_match c \<and> c \<notin> fst ` set reg \<and>
      p = \<lparr>pm_code = c, pm_module = m, pm_resource = r, pm_action = action_text a,
           pm_description = d\<rparr> \<and> reg' = reg @ [(c, p)])"
  by (auto simp: register_def Let_def map_of_eq_None_iff)

lemma registry_ok_register:
  "registry_ok reg \<Longrightarrow> register m r a d reg = Inr (p, reg') \<Longrightarrow> registry_ok reg'"
  by (auto simp: registry_ok_def register_Inr_iff Let_def)

lemma reachable_registry_ok: "reachable_registry reg \<Longrightarrow> registry_ok reg"
  by (induction rule: reachable_registry.induct)
    (simp add: registry_ok_def, blast intro: registry_ok_register)

lemma split_dot_not_Nil [simp]: "split_dot s \<noteq> []"
  by (induction s) (auto split: list.splits)

lemma split_dot_no_dot: "CHR ''.'' \<notin> set s \<Longrightarrow> split_dot s = [s]"
  by (induction s) auto

lemma split_dot_append: "CHR ''.'' \<notin> set s \<Longrightarrow> split_dot (s @ ''.'' @ t) = s # split_dot t"
  by (induction s) (auto split: list.splits)

lemma dot_not_code_char: "\<not> is_code_char (CHR ''.'')"
  by (simp add: is_code_char_def)

lemma is_segment_no_dot: "is_segment s \<Longrightarrow> CHR ''.'' \<notin> set s"
  using dot_not_code_char by (auto simp: is_segment_def list_all_iff)

lemma full_match_code_text:
  assumes "is_segment m" "is_segment r" "is_segment a"
  shows "full_match (code_text m r a)"
  using assms split_dot_append[of m "r @ ''.'' @ a"] split_dot_append[of r a]
  by (simp add: full_match_def code_text_def is_segment_no_dot split_dot_no_dot)

lemma split_dot_code_text:
  assumes "is_segment m" "is_segment r" "is_segment a"
  shows "split_dot (code_text m r a) = [m, r, a]"
  using assms split_dot_append[of m "r @ ''.'' @ a"] split_dot_append[of r a]
  by (simp add: code_text_def is_segment_no_dot split_dot_no_dot)

section \<open>Properties\<close>

text \<open>
  The strongest scope of a collection does not depend on the order it is iterated in and
  is the maximum in the declared order OWN < ASSIGNED < SCHOOL < ORGANIZATION < PLATFORM,
  although \<open>strength\<close> computes character offsets (2, 9, 21, 31, 47) and not positions.
\<close>

theorem strongest_is_maximum:
  "(strongest ss = None \<longleftrightarrow> ss = []) \<and>
   (strongest ss = Some s \<longleftrightarrow> s \<in> set ss \<and> (\<forall>t \<in> set ss. scope_rank t \<le> scope_rank s))"
  unfolding strongest_some_iff scope_le_rank by (simp add: strongest_Max)

lemma strongest_is_maximum_witness:
  "strongest [SCHOOL, PLATFORM, OWN, PLATFORM] = Some PLATFORM"
  using strongest_is_maximum[of "[SCHOOL, PLATFORM, OWN, PLATFORM]" PLATFORM] by simp

text \<open>
  In every registry the program can build, each code is registered once, is the code of
  its own entry, decomposes as module.resource.action, and the startup check
  \<open>validate_all\<close> passes; a guard's \<open>require_registered\<close> succeeds exactly for the codes that
  were registered.
\<close>

theorem registry_sound:
  assumes "reachable_registry reg"
  shows "distinct (map fst reg) \<and> validate_all reg = Inr () \<and>
    (\<forall>p \<in> set (registry_all reg). registry_get reg (pm_code p) = Some p \<and>
       pm_code p = code_text (pm_module p) (pm_resource p) (pm_action p)) \<and>
    (\<forall>c. is_ok (require_registered reg c) \<longleftrightarrow> c \<in> fst ` set reg)"
proof -
  have ok: "registry_ok reg" using assms by (rule reachable_registry_ok)
  then have d: "distinct (map fst reg)"
    and e: "\<And>c p. (c, p) \<in> set reg \<Longrightarrow> pm_code p = c \<and> code_re_match c \<and>
        c = code_text (pm_module p) (pm_resource p) (pm_action p)"
    by (auto simp: registry_ok_def)
  have "validate_all reg = Inr ()"
    using e by (auto simp: validate_all_def list_all_iff)
  moreover have "registry_get reg (pm_code p) = Some p \<and>
       pm_code p = code_text (pm_module p) (pm_resource p) (pm_action p)"
    if p: "p \<in> set (registry_all reg)" for p
  proof -
    from p obtain c where c: "(c, p) \<in> set reg" by (auto simp: registry_all_def)
    with e[OF c] d show ?thesis by (auto simp: registry_get_def)
  qed
  moreover have "is_ok (require_registered reg c) \<longleftrightarrow> c \<in> fst ` set reg" for c
    by (cases "map_of reg c")
      (simp_all add: require_registered_def, auto simp: map_of_eq_None_iff dest: map_of_SomeD intro: rev_image_eqI)
  ultimately show ?thesis using d by blast
qed

definition sample_permission :: permission where
  "sample_permission = \<lparr>pm_code = ''students.student.read'', pm_module = ''students'',
     pm_resource = ''student'', pm_action = ''read'', pm_description = ''Read''\<rparr>"

lemma sample_registry: "reachable_registry [(''students.student.read'', sample_permission)]"
proof (rule reg_step[OF reg_empty])
  show "register ''students'' ''student'' (ActionMember ACT_READ) ''Read'' [] =
      Inr (sample_permission, [(''students.student.read'', sample_permission)])"
    by (simp add: register_def Let_def code_text_def code_re_match_def full_match_def is_segment_def
        is_code_char_def sample_permission_def)
qed

lemma registry_sound_witness:
  "validate_all [(''students.student.read'', sample_permission)] = Inr () \<and>
   is_ok (require_registered [(''students.student.read'', sample_permission)] ''students.student.read'')"
  using registry_sound[OF sample_registry] by auto

end
