(* ===== verification/Context.thy ===== *)
theory Context
  imports Permissions
begin

text \<open>
  The request: the bearer token and the client address (\<open>app/core/security.py\<close>,
  \<open>app/core/context.py\<close>), the \<open>RequestContext\<close> every service receives and its two
  permission queries, the route guards of \<open>app/core/authz.py\<close>, and the environment of a
  request (clock and fresh identifiers).
\<close>

section \<open>Text helpers\<close>

text \<open>
  Header values are Latin-1 strings. \<open>py_lower\<close> and \<open>py_strip\<close> are \<open>str.lower\<close> and
  \<open>str.strip\<close> on them.
\<close>

definition lower_char :: "char \<Rightarrow> char" where
  "lower_char c = (let n = of_char c :: nat in
     if 65 \<le> n \<and> n \<le> 90 \<or> 192 \<le> n \<and> n \<le> 222 \<and> n \<noteq> 215 then char_of (n + 32) else c)"

definition py_lower :: "string \<Rightarrow> string" where
  "py_lower = map lower_char"

definition is_space :: "char \<Rightarrow> bool" where
  "is_space c \<longleftrightarrow> (let n = of_char c :: nat in
     9 \<le> n \<and> n \<le> 13 \<or> 28 \<le> n \<and> n \<le> 32 \<or> n = 133 \<or> n = 160)"

definition py_strip :: "string \<Rightarrow> string" where
  "py_strip s = rev (dropWhile is_space (rev (dropWhile is_space s)))"

text \<open>\<open>str.upper\<close> on ASCII text, and Python's \<open>bool\<close> of an optional text.\<close>

definition upper_char :: "char \<Rightarrow> char" where
  "upper_char c = (let n = of_char c :: nat in if 97 \<le> n \<and> n \<le> 122 then char_of (n - 32) else c)"

definition py_upper :: "string \<Rightarrow> string" where
  "py_upper = map upper_char"

definition truthy :: "string option \<Rightarrow> bool" where
  "truthy x = (case x of None \<Rightarrow> False | Some s \<Rightarrow> s \<noteq> [])"

text \<open>
  \<open>str(d)\<close> of a date, which is its proleptic Gregorian ordinal (day 1 is 0001-01-01): the
  civil date is found by counting from the first of March of the year 0.
\<close>

definition digit :: "int \<Rightarrow> char" where
  "digit n = char_of (48 + nat (n mod 10))"

definition civil_of_ordinal :: "int \<Rightarrow> int \<times> int \<times> int" where
  "civil_of_ordinal d =
     (let z = d + 305; era = z div 146097; doe = z mod 146097;
          yoe = (doe - doe div 1460 + doe div 36524 - doe div 146096) div 365;
          doy = doe - (365 * yoe + yoe div 4 - yoe div 100);
          mp = (5 * doy + 2) div 153;
          day = doy - (153 * mp + 2) div 5 + 1;
          mon = (if mp < 10 then mp + 3 else mp - 9)
      in (yoe + era * 400 + (if mon \<le> 2 then 1 else 0), mon, day))"

definition iso_date :: "date \<Rightarrow> string" where
  "iso_date d = (case civil_of_ordinal d of (y, m, dd) \<Rightarrow>
     [digit (y div 1000), digit (y div 100), digit (y div 10), digit y, CHR ''-'',
      digit (m div 10), digit m, CHR ''-'', digit (dd div 10), digit dd])"

text \<open>\<open>s.split(',')[0]\<close>.\<close>

definition before_comma :: "string \<Rightarrow> string" where
  "before_comma s = takeWhile (\<lambda>c. c \<noteq> CHR '','') s"

section \<open>The bearer token\<close>

text \<open>
  The claims the program writes and reads. A claim that a token lacks is \<open>None\<close>; the
  payload without any claim is the empty dict, which is falsy.
\<close>

record claims =
  cl_sub :: "string option"
  cl_jti :: "string option"
  cl_iat :: "timestamp option"
  cl_exp :: "timestamp option"

definition claims_empty :: "claims \<Rightarrow> bool" where
  "claims_empty c \<longleftrightarrow> cl_sub c = None \<and> cl_jti c = None \<and> cl_iat c = None \<and> cl_exp c = None"

text \<open>
  What \<open>pyjwt.decode\<close> does with a token under the configured key and algorithm at a given
  time: the payload, \<open>ExpiredSignatureError\<close>, or any other \<open>InvalidTokenError\<close>.
\<close>

datatype jwt_outcome = JwtOk claims | JwtExpired | JwtInvalid

definition access_claims ::
  "timestamp \<Rightarrow> string \<Rightarrow> timestamp \<Rightarrow> timestamp option \<Rightarrow> ulid \<Rightarrow> claims" where
  "access_claims now jti default_ttl expires_delta uid =
     \<lparr>cl_sub = Some uid, cl_jti = Some jti, cl_iat = Some now,
      cl_exp = Some (now + (case expires_delta of
         Some d \<Rightarrow> if d \<noteq> 0 then d else default_ttl | None \<Rightarrow> default_ttl))\<rparr>"

definition create_access_token ::
  "(claims \<Rightarrow> string) \<Rightarrow> timestamp \<Rightarrow> string \<Rightarrow> timestamp \<Rightarrow> timestamp option \<Rightarrow> ulid \<Rightarrow> string" where
  "create_access_token jwt_encode now jti default_ttl expires_delta uid =
     jwt_encode (access_claims now jti default_ttl expires_delta uid)"

definition decode_access_token ::
  "(timestamp \<Rightarrow> string \<Rightarrow> jwt_outcome) \<Rightarrow> timestamp \<Rightarrow> string \<Rightarrow> claims result" where
  "decode_access_token jwt_decode now token = (case jwt_decode now token of
     JwtOk c \<Rightarrow> Inr c
   | JwtExpired \<Rightarrow> Inl (AuthenticationError ''Your session has expired. Please sign in again.'')
   | JwtInvalid \<Rightarrow> Inl invalid_credentials)"

definition extract_bearer :: "string option \<Rightarrow> string option" where
  "extract_bearer header = (case header of
     None \<Rightarrow> None
   | Some h \<Rightarrow>
       if h = [] \<or> take 7 (py_lower h) \<noteq> ''bearer '' then None
       else Some (py_strip (drop 7 h)))"

definition validate_request_jwt ::
  "(timestamp \<Rightarrow> string \<Rightarrow> jwt_outcome) \<Rightarrow> timestamp \<Rightarrow> string option \<Rightarrow> claims option" where
  "validate_request_jwt jwt_decode now header = (case extract_bearer header of
     None \<Rightarrow> None
   | Some token \<Rightarrow> (case decode_access_token jwt_decode now token of
       Inl _ \<Rightarrow> None | Inr c \<Rightarrow> Some c))"

definition get_current_user_id :: "claims option \<Rightarrow> string result" where
  "get_current_user_id identity = (case identity of
     None \<Rightarrow> Inl invalid_credentials
   | Some c \<Rightarrow>
       if claims_empty c then Inl invalid_credentials
       else ok_or (PyError ''KeyError: sub'') (cl_sub c))"

section \<open>The request context\<close>

record http_request =
  rq_authorization :: "string option"
  rq_school_header :: "string option"
  rq_forwarded_for :: "string option"
  rq_client_host :: "string option"
  rq_request_id :: string

definition get_client_ip :: "http_request \<Rightarrow> string option" where
  "get_client_ip rq = (case rq_forwarded_for rq of
     Some f \<Rightarrow> if f \<noteq> [] then Some (py_strip (before_comma f)) else rq_client_host rq
   | None \<Rightarrow> rq_client_host rq)"

record request_context =
  user_id :: ulid
  person_id :: "ulid option"
  email :: "string option"
  organization_id :: "ulid option"
  school_id :: "ulid option"
  accessible_school_ids :: "ulid set"
  permissions :: "string set"
  permission_scopes :: "(string \<times> data_scope) list"
  role_codes :: "string set"
  scope :: "data_scope option"
  request_id :: string
  ip_address :: "string option"
  is_platform_admin :: bool

definition has_permission :: "request_context \<Rightarrow> string \<Rightarrow> bool" where
  "has_permission ctx code \<longleftrightarrow> is_platform_admin ctx \<or> code \<in> permissions ctx"

definition effective_scope_for :: "request_context \<Rightarrow> string \<Rightarrow> data_scope option" where
  "effective_scope_for ctx code =
     (if is_platform_admin ctx then Some PLATFORM else map_of (permission_scopes ctx) code)"

definition get_public_context :: "http_request \<Rightarrow> request_context" where
  "get_public_context rq = \<lparr>user_id = [], person_id = None, email = None,
     organization_id = None, school_id = None, accessible_school_ids = {}, permissions = {},
     permission_scopes = [], role_codes = {}, scope = None, request_id = rq_request_id rq,
     ip_address = get_client_ip rq, is_platform_admin = False\<rparr>"

section \<open>Route guards\<close>

text \<open>
  \<open>authz_guard\<close> is the dependency that \<open>require\<close> returns; \<open>require_perm\<close> is \<open>require\<close>
  itself, which fails at import time on a code the registry does not hold.
\<close>

definition authz_guard ::
  "string \<Rightarrow> data_scope option \<Rightarrow> request_context \<Rightarrow> request_context result" where
  "authz_guard code min_scope ctx = (case effective_scope_for ctx code of
     None \<Rightarrow> Inl (ForbiddenError ''FORBIDDEN'')
   | Some effective \<Rightarrow> (case min_scope of
       Some s \<Rightarrow> if strength effective < strength s then Inl (ForbiddenError ''FORBIDDEN'') else Inr ctx
     | None \<Rightarrow> Inr ctx))"

definition require_perm ::
  "registry \<Rightarrow> permission \<Rightarrow> data_scope option \<Rightarrow> (request_context \<Rightarrow> request_context result) result"
  where
  "require_perm reg p min_scope =
     bind_ok (require_registered reg (pm_code p)) (\<lambda>_. Inr (authz_guard (pm_code p) min_scope))"

definition require_authenticated :: "request_context \<Rightarrow> request_context result" where
  "require_authenticated ctx =
     (if user_id ctx = [] then Inl invalid_credentials else Inr ctx)"

lemma authz_guard_Inr_iff:
  "authz_guard code ms ctx = Inr c \<longleftrightarrow>
     c = ctx \<and> (\<exists>e. effective_scope_for ctx code = Some e \<and> (\<forall>s. ms = Some s \<longrightarrow> s \<le> e))"
  by (auto simp: authz_guard_def less_eq_data_scope_def split: option.splits)

lemma authz_guard_Inl: "authz_guard code ms ctx = Inl e \<Longrightarrow> e = ForbiddenError ''FORBIDDEN''"
  by (auto simp: authz_guard_def split: option.splits if_splits)

lemma authz_guard_admin [simp]: "is_platform_admin ctx \<Longrightarrow> authz_guard code ms ctx = Inr ctx"
  by (simp add: authz_guard_Inr_iff effective_scope_for_def)

lemma authz_guard_mono:
  "authz_guard code (Some s) ctx = Inr c \<Longrightarrow> t \<le> s \<Longrightarrow> authz_guard code (Some t) ctx = Inr c"
  by (auto simp: authz_guard_Inr_iff intro: order_trans)

text \<open>A route: \<open>ctx: RequestContext = Depends(require(code))\<close>, then the handler.\<close>

definition guarded :: "string \<Rightarrow> request_context \<Rightarrow> (request_context \<Rightarrow> 'a result) \<Rightarrow> 'a result" where
  "guarded code ctx handler = bind_ok (authz_guard code None ctx) handler"

lemma guarded_Inr:
  "guarded code ctx f = Inr y \<longleftrightarrow> (\<exists>e. effective_scope_for ctx code = Some e) \<and> f ctx = Inr y"
  by (auto simp: guarded_def bind_ok_Inr_iff authz_guard_Inr_iff)

section \<open>The environment of a request\<close>

text \<open>
  The clock of a request (\<open>datetime.now(UTC)\<close>, \<open>date.today()\<close>) and the identifiers
  \<open>gen_ulid\<close> hands out while it runs, by table and number. \<open>env_gen env t n\<close> is the key of
  the \<open>n\<close>-th row the request adds to the table named \<open>t\<close>.
\<close>

record env =
  env_now :: timestamp
  env_today :: date
  env_gen :: "string \<Rightarrow> nat \<Rightarrow> ulid"

section \<open>Properties\<close>

text \<open>
  The guard of a route lets a request through exactly when the caller is a platform
  administrator or holds the permission with a scope at least the required one, and then it
  hands on the context unchanged; in every other case the request ends in the same 403.
\<close>

theorem guard_exact:
  "authz_guard code ms ctx =
     (if is_platform_admin ctx \<or>
         (\<exists>e. map_of (permission_scopes ctx) code = Some e \<and>
              (case ms of None \<Rightarrow> True | Some s \<Rightarrow> scope_rank s \<le> scope_rank e))
      then Inr ctx else Inl (ForbiddenError ''FORBIDDEN''))"
proof (cases "is_platform_admin ctx")
  case False
  have "strength e < strength s \<longleftrightarrow> \<not> scope_rank s \<le> scope_rank e" for e s
    by (simp add: strength_rank not_le)
  with False show ?thesis
    by (simp add: authz_guard_def effective_scope_for_def split: option.splits)
qed simp

text \<open>A codec for concrete runs: the token is the subject and nothing is signed.\<close>

definition toy_encode :: "claims \<Rightarrow> string" where
  "toy_encode c = the (cl_sub c)"

end
