(* ===== verification/Rls.thy ===== *)
theory Rls
  imports Prelude
begin

text \<open>
  Row-level security, \<open>app/db/rls.py\<close>: the two transaction-local settings a request binds,
  the policies the migrations install (as the statements the module generates, with their
  rendering and their meaning), and which tables carry them.
\<close>

section \<open>The tenant settings of a transaction\<close>

datatype guc = SchoolGuc | OrgGuc

fun guc_name :: "guc \<Rightarrow> string" where
  "guc_name SchoolGuc = ''app.current_school_id''"
| "guc_name OrgGuc = ''app.current_organization_id''"

text \<open>
  \<open>current_setting(name, true)\<close> is NULL for a setting the transaction has not made.
\<close>

type_synonym settings = "guc \<Rightarrow> string option"

definition set_config :: "guc \<Rightarrow> string \<Rightarrow> settings \<Rightarrow> settings" where
  "set_config g v st = st(g := Some v)"

text \<open>\<open>str(x) if x else ''\<close>.\<close>

definition str_or_empty :: "string option \<Rightarrow> string" where
  "str_or_empty x = (case x of None \<Rightarrow> [] | Some v \<Rightarrow> v)"

definition set_tenant_context :: "ulid option \<Rightarrow> ulid option \<Rightarrow> settings \<Rightarrow> settings" where
  "set_tenant_context school org st =
     set_config OrgGuc (str_or_empty org) (set_config SchoolGuc (str_or_empty school) st)"

section \<open>Policies\<close>

text \<open>
  The predicates the module composes, their SQL text, and their value in the three-valued
  logic of SQL on a row whose columns are given by name (a column the row leaves NULL is
  \<open>None\<close>).
\<close>

datatype predicate =
    ColEqCtx string guc
  | CtxEmpty guc
  | ColIsNull string
  | Or predicate predicate

definition sq :: string where "sq = [CHR 0x27]"

definition ctx_text :: "guc \<Rightarrow> string" where
  "ctx_text g = ''coalesce(current_setting('' @ sq @ guc_name g @ sq @ '', true), '' @ sq @ sq @ '')''"

fun or_text :: "predicate \<Rightarrow> string" where
  "or_text (ColEqCtx col g) = col @ ''::text = '' @ ctx_text g"
| "or_text (CtxEmpty g) = ctx_text g @ '' = '' @ sq @ sq"
| "or_text (ColIsNull col) = col @ '' IS NULL''"
| "or_text (Or p q) = or_text p @ '' OR '' @ or_text q"

definition predicate_text :: "predicate \<Rightarrow> string" where
  "predicate_text p = ''('' @ or_text p @ '')''"

type_synonym row = "string \<Rightarrow> string option"

definition ctx_value :: "settings \<Rightarrow> guc \<Rightarrow> string" where
  "ctx_value st g = str_or_empty (st g)"

text \<open>\<open>Some b\<close> is a known truth value, \<open>None\<close> is NULL.\<close>

definition or3 :: "bool option \<Rightarrow> bool option \<Rightarrow> bool option" where
  "or3 a b = (if a = Some True \<or> b = Some True then Some True
              else if a = None \<or> b = None then None else Some False)"

fun holds3 :: "settings \<Rightarrow> row \<Rightarrow> predicate \<Rightarrow> bool option" where
  "holds3 st r (ColEqCtx col g) = map_option (\<lambda>v. v = ctx_value st g) (r col)"
| "holds3 st r (CtxEmpty g) = Some (ctx_value st g = [])"
| "holds3 st r (ColIsNull col) = Some (r col = None)"
| "holds3 st r (Or p q) = or3 (holds3 st r p) (holds3 st r q)"

text \<open>A permissive policy shows a row, and accepts a written one, when its predicate is true.\<close>

definition allows :: "settings \<Rightarrow> predicate \<Rightarrow> row \<Rightarrow> bool" where
  "allows st p r \<longleftrightarrow> holds3 st r p = Some True"

definition school_predicate :: predicate where
  "school_predicate = Or (ColEqCtx ''school_id'' SchoolGuc) (CtxEmpty SchoolGuc)"

definition org_predicate :: "bool \<Rightarrow> predicate" where
  "org_predicate allow_null_org =
     (if allow_null_org
      then Or (ColIsNull ''organization_id'')
             (Or (ColEqCtx ''organization_id'' OrgGuc) (CtxEmpty OrgGuc))
      else Or (ColEqCtx ''organization_id'' OrgGuc) (CtxEmpty OrgGuc))"

definition self_org_predicate :: predicate where
  "self_org_predicate = Or (ColEqCtx ''id'' OrgGuc) (CtxEmpty OrgGuc)"

datatype statement =
    EnableRls string
  | ForceRls string
  | DropPolicy string string
  | CreatePolicy string string predicate
  | NoForceRls string
  | DisableRls string

fun statement_text :: "statement \<Rightarrow> string" where
  "statement_text (EnableRls t) = ''ALTER TABLE '' @ t @ '' ENABLE ROW LEVEL SECURITY;''"
| "statement_text (ForceRls t) = ''ALTER TABLE '' @ t @ '' FORCE ROW LEVEL SECURITY;''"
| "statement_text (DropPolicy p t) = ''DROP POLICY IF EXISTS '' @ p @ '' ON '' @ t @ '';''"
| "statement_text (CreatePolicy p t q) =
     ''CREATE POLICY '' @ p @ '' ON '' @ t @ '' AS PERMISSIVE TO app_user '' @
     ''USING ('' @ predicate_text q @ '') WITH CHECK ('' @ predicate_text q @ '');''"
| "statement_text (NoForceRls t) = ''ALTER TABLE '' @ t @ '' NO FORCE ROW LEVEL SECURITY;''"
| "statement_text (DisableRls t) = ''ALTER TABLE '' @ t @ '' DISABLE ROW LEVEL SECURITY;''"

definition policy_name :: "string \<Rightarrow> string" where
  "policy_name table = table @ ''_tenant_isolation''"

definition policy_statements :: "string \<Rightarrow> predicate \<Rightarrow> statement list" where
  "policy_statements table q =
     [EnableRls table, ForceRls table, DropPolicy (policy_name table) table,
      CreatePolicy (policy_name table) table q]"

definition school_scoped_policy_sql :: "string \<Rightarrow> statement list" where
  "school_scoped_policy_sql table = policy_statements table school_predicate"

definition org_scoped_policy_sql :: "string \<Rightarrow> bool \<Rightarrow> statement list" where
  "org_scoped_policy_sql table allow_null_org = policy_statements table (org_predicate allow_null_org)"

definition self_org_policy_sql :: "string \<Rightarrow> statement list" where
  "self_org_policy_sql table = policy_statements table self_org_predicate"

definition drop_policy_sql :: "string \<Rightarrow> statement list" where
  "drop_policy_sql table =
     [DropPolicy (policy_name table) table, NoForceRls table, DisableRls table]"

section \<open>What the statements do to a table\<close>

text \<open>
  The security state of one table: the two switches and its policies by name. Creating a
  policy whose name exists is an error. With the switches on, a row is accessible to the
  application when some policy allows it; with row security off, always.
\<close>

record table_security =
  ts_enabled :: bool
  ts_forced :: bool
  ts_policies :: "(string \<times> predicate) list"

fun run_statement :: "string \<Rightarrow> statement \<Rightarrow> table_security \<Rightarrow> table_security result" where
  "run_statement table st sec =
     (case st of
        EnableRls t \<Rightarrow> Inr (if t = table then sec\<lparr>ts_enabled := True\<rparr> else sec)
      | ForceRls t \<Rightarrow> Inr (if t = table then sec\<lparr>ts_forced := True\<rparr> else sec)
      | DropPolicy p t \<Rightarrow> Inr (if t = table
          then sec\<lparr>ts_policies := filter (\<lambda>(n, _). n \<noteq> p) (ts_policies sec)\<rparr> else sec)
      | CreatePolicy p t q \<Rightarrow>
          if t \<noteq> table then Inr sec
          else if p \<in> fst ` set (ts_policies sec) then Inl (PyError ''DuplicateObject'')
          else Inr (sec\<lparr>ts_policies := ts_policies sec @ [(p, q)]\<rparr>)
      | NoForceRls t \<Rightarrow> Inr (if t = table then sec\<lparr>ts_forced := False\<rparr> else sec)
      | DisableRls t \<Rightarrow> Inr (if t = table then sec\<lparr>ts_enabled := False\<rparr> else sec))"

fun run_statements :: "string \<Rightarrow> statement list \<Rightarrow> table_security \<Rightarrow> table_security result" where
  "run_statements table [] sec = Inr sec"
| "run_statements table (s # ss) sec = bind_ok (run_statement table s sec) (run_statements table ss)"

definition accessible :: "table_security \<Rightarrow> settings \<Rightarrow> row \<Rightarrow> bool" where
  "accessible sec st r \<longleftrightarrow> \<not> ts_enabled sec \<or> (\<exists>(n, q) \<in> set (ts_policies sec). allows st q r)"

definition only_tenant_policy :: "string \<Rightarrow> table_security \<Rightarrow> bool" where
  "only_tenant_policy table sec \<longleftrightarrow> (\<forall>(n, q) \<in> set (ts_policies sec). n = policy_name table)"

lemma run_policy_statements:
  "run_statements table (policy_statements table q) sec =
     Inr (sec\<lparr>ts_enabled := True, ts_forced := True,
       ts_policies := filter (\<lambda>(n, _). n \<noteq> policy_name table) (ts_policies sec) @ [(policy_name table, q)]\<rparr>)"
  by (auto simp: policy_statements_def)

lemma accessible_policy:
  assumes "only_tenant_policy table sec"
    and "run_statements table (policy_statements table q) sec = Inr sec'"
  shows "accessible sec' st r \<longleftrightarrow> allows st q r"
proof -
  have "filter (\<lambda>(n, _). n \<noteq> policy_name table) (ts_policies sec) = []"
    using assms(1) by (auto simp: only_tenant_policy_def filter_empty_conv)
  with assms(2) show ?thesis
    by (auto simp: run_policy_statements accessible_def)
qed

section \<open>Which tables are protected\<close>

definition org_scoped_tables :: "string list" where
  "org_scoped_tables = [''schools'', ''persons'', ''addresses'', ''contacts'', ''memberships'',
     ''roles'', ''notifications'']"

definition school_scoped_tables :: "string list" where
  "school_scoped_tables = [''academic_years'', ''academic_terms'', ''academic_classes'',
     ''subjects'', ''class_subjects'', ''cohorts'', ''students'', ''student_enrollments'',
     ''teachers'', ''teacher_assignments'', ''announcements'', ''announcement_targets'',
     ''period_definitions'', ''timetables'', ''timetable_slots'', ''student_guardians'',
     ''attendance_sessions'', ''attendance_records'', ''import_jobs'', ''documents'',
     ''export_jobs'', ''parents'', ''student_parents'']"

definition self_org_tables :: "string list" where
  "self_org_tables = [''organizations'']"

definition rls_exempt_tables :: "string list" where
  "rls_exempt_tables = [''audit_logs'', ''outbox_events'', ''background_jobs'', ''feature_flags'']"

section \<open>Properties\<close>

lemma ctx_value_school [simp]: "ctx_value (set_tenant_context sch org st) SchoolGuc = str_or_empty sch"
  by (simp add: ctx_value_def set_tenant_context_def set_config_def str_or_empty_def)

lemma ctx_value_org [simp]: "ctx_value (set_tenant_context sch org st) OrgGuc = str_or_empty org"
  by (simp add: ctx_value_def set_tenant_context_def set_config_def str_or_empty_def)

text \<open>
  C3. Installing a school-scoped policy succeeds whatever state an earlier migration left
  (it can be re-run), switches row security on for the owner too, and from then on a request
  that bound the school \<open>s\<close> reaches exactly the rows of \<open>s\<close>: no row of another school
  and no row without a school.
\<close>

theorem school_policy_isolates:
  assumes only: "only_tenant_policy table sec" and s: "s \<noteq> []"
  shows "\<exists>sec'. run_statements table (school_scoped_policy_sql table) sec = Inr sec' \<and>
    ts_enabled sec' \<and> ts_forced sec' \<and>
    (\<forall>st org r. accessible sec' (set_tenant_context (Some s) org st) r \<longleftrightarrow> r ''school_id'' = Some s)"
proof -
  let ?run = "run_statements table (school_scoped_policy_sql table) sec"
  obtain sec' where run: "?run = Inr sec'" and on: "ts_enabled sec'" "ts_forced sec'"
    by (simp add: school_scoped_policy_sql_def run_policy_statements)
  have "accessible sec' (set_tenant_context (Some s) org st) r \<longleftrightarrow> r ''school_id'' = Some s" for st org r
    using accessible_policy[OF only run[unfolded school_scoped_policy_sql_def]] s
    by (cases "r ''school_id''")
      (simp_all add: allows_def school_predicate_def or3_def str_or_empty_def)
  with run on show ?thesis by blast
qed

lemma school_policy_isolates_witness:
  "\<exists>sec'. run_statements ''students'' (school_scoped_policy_sql ''students'')
      \<lparr>ts_enabled = False, ts_forced = False,
       ts_policies = [(''students_tenant_isolation'', CtxEmpty OrgGuc)]\<rparr> = Inr sec' \<and> ts_forced sec'"
proof -
  have o: "only_tenant_policy ''students'' \<lparr>ts_enabled = False, ts_forced = False,
       ts_policies = [(''students_tenant_isolation'', CtxEmpty OrgGuc)]\<rparr>"
    by (simp add: only_tenant_policy_def policy_name_def)
  show ?thesis using school_policy_isolates[OF o, of "''S1''"] by auto
qed

text \<open>
  A request without an active school (no default membership and no header) reaches every
  row of a school-scoped table, whichever school owns it: the policy is the identity there,
  and a repository that forgot its filter would return all tenants' rows.
\<close>

theorem school_policy_open_without_school:
  assumes "only_tenant_policy table sec"
    and "run_statements table (school_scoped_policy_sql table) sec = Inr sec'"
  shows "accessible sec' (set_tenant_context None org st) r"
  unfolding accessible_policy[OF assms(1) assms(2)[unfolded school_scoped_policy_sql_def]]
  by (simp add: allows_def school_predicate_def or3_def str_or_empty_def)

lemma school_policy_open_without_school_witness:
  "\<exists>sec'. accessible sec' (set_tenant_context None (Some ''ORG1'') Map.empty)
            ((\<lambda>_. None)(''school_id'' := Some ''OTHER''))"
proof -
  have o: "only_tenant_policy ''students'' \<lparr>ts_enabled = False, ts_forced = False, ts_policies = []\<rparr>"
    by (simp add: only_tenant_policy_def)
  have r: "run_statements ''students'' (school_scoped_policy_sql ''students'')
      \<lparr>ts_enabled = False, ts_forced = False, ts_policies = []\<rparr>
    = Inr \<lparr>ts_enabled = True, ts_forced = True,
        ts_policies = [(policy_name ''students'', school_predicate)]\<rparr>"
    by (simp add: school_scoped_policy_sql_def run_policy_statements)
  show ?thesis using school_policy_open_without_school[OF o r] by blast
qed

end
