(* ===== verification/Samples.thy ===== *)
theory Samples
  imports Schema
begin

text \<open>
  Blank rows for the concrete inputs of the witnesses: a row of each table with a given key,
  empty texts, no optional value and the first status of its lifecycle. They model nothing.
\<close>

definition blank_organization :: "ulid \<Rightarrow> organization" where
  "blank_organization i = \<lparr>row_id = i, created_at = 0, updated_at = 0,
     created_by_id = None, updated_by_id = None, version = 1, archived_at = None,
     deleted_at = None, og_code = [], og_name = [], og_legal_name = None, og_status = OG_TRIAL,
     og_timezone = [], og_locale = [], og_contact_email = None, og_contact_phone = None,
     og_plan_code = [], og_parent_organization_id = None\<rparr>"

definition blank_school :: "ulid \<Rightarrow> school" where
  "blank_school i = \<lparr>row_id = i, created_at = 0, updated_at = 0, created_by_id = None,
     updated_by_id = None, version = 1, archived_at = None, deleted_at = None,
     sc_organization_id = [], sc_code = [], sc_name = [], sc_short_name = None,
     sc_parent_school_id = None, sc_hierarchy_path = None, sc_timezone = [], sc_locale = [],
     sc_board = None, sc_affiliation_number = None, sc_contact_email = None,
     sc_contact_phone = None, sc_address_id = None, sc_status = SC_ACTIVE\<rparr>"

definition blank_user :: "ulid \<Rightarrow> user" where
  "blank_user i = \<lparr>row_id = i, created_at = 0, updated_at = 0, created_by_id = None,
     updated_by_id = None, version = 1, archived_at = None, deleted_at = None,
     us_person_id = None, us_email = None, us_email_verified_at = None, us_phone = None,
     us_phone_verified_at = None, us_password_hash = None, us_password_changed_at = None,
     us_must_change_password = False, us_status = US_ACTIVE, us_is_platform_admin = False,
     us_failed_login_count = 0, us_locked_until = None, us_last_login_at = None,
     us_permissions_version = 0\<rparr>"

definition blank_membership :: "ulid \<Rightarrow> membership" where
  "blank_membership i = \<lparr>row_id = i, created_at = 0, updated_at = 0, created_by_id = None,
     updated_by_id = None, version = 1, mb_user_id = [], mb_organization_id = [],
     mb_school_id = None, mb_status = MS_ACTIVE, mb_start_date = None, mb_end_date = None,
     mb_is_default = False, mb_notes = None\<rparr>"

definition blank_permission_row :: "ulid \<Rightarrow> permission_row" where
  "blank_permission_row i = \<lparr>row_id = i, created_at = 0, updated_at = 0, pr_code = [],
     pr_module = [], pr_resource = [], pr_action = [], pr_description = [],
     pr_platform_only = False\<rparr>"

definition blank_role :: "ulid \<Rightarrow> role" where
  "blank_role i = \<lparr>row_id = i, created_at = 0, updated_at = 0, created_by_id = None,
     updated_by_id = None, version = 1, archived_at = None, deleted_at = None,
     ro_organization_id = None, ro_code = [], ro_name = [], ro_description = None,
     ro_scope_level = RL_SCHOOL, ro_data_scope = SCHOOL, ro_is_system = False,
     ro_is_default = False\<rparr>"

definition blank_role_permission :: "ulid \<Rightarrow> role_permission" where
  "blank_role_permission i = \<lparr>row_id = i, created_at = 0, updated_at = 0, rp_role_id = [],
     rp_permission_id = [], rp_data_scope = None\<rparr>"

definition blank_membership_role :: "ulid \<Rightarrow> membership_role" where
  "blank_membership_role i = \<lparr>row_id = i, created_at = 0, updated_at = 0,
     created_by_id = None, updated_by_id = None, mr_membership_id = [], mr_role_id = [],
     mr_granted_at = 0, mr_expires_at = None, mr_data_scope = None\<rparr>"

definition blank_refresh_token :: "ulid \<Rightarrow> refresh_token" where
  "blank_refresh_token i = \<lparr>row_id = i, created_at = 0, updated_at = 0, rt_user_id = [],
     rt_token_digest = [], rt_session_family_id = [], rt_expires_at = 0, rt_rotated_at = None,
     rt_revoked_at = None, rt_user_agent = None, rt_ip_address = None\<rparr>"

definition blank_login_attempt :: "ulid \<Rightarrow> login_attempt" where
  "blank_login_attempt i = \<lparr>row_id = i, la_user_id = None, la_email_attempted = None,
     la_ip_address = None, la_success = False, la_attempted_at = 0\<rparr>"

definition blank_reset_token :: "ulid \<Rightarrow> reset_token" where
  "blank_reset_token i = \<lparr>row_id = i, created_at = 0, updated_at = 0, pw_user_id = [],
     pw_token_hash = [], pw_expires_at = 0, pw_consumed_at = None, pw_requested_ip = None\<rparr>"

definition blank_audit_log :: "ulid \<Rightarrow> audit_log" where
  "blank_audit_log i = \<lparr>row_id = i, created_at = 0, updated_at = 0,
     al_organization_id = None, al_school_id = None, al_actor_user_id = None,
     al_actor_label = None, al_action = [], al_entity_type = [], al_entity_id = None,
     al_before = None, al_after = None, al_request_id = None, al_ip_address = None\<rparr>"

definition blank_outbox_event :: "ulid \<Rightarrow> outbox_event" where
  "blank_outbox_event i = \<lparr>row_id = i, ob_event_name = [], ob_event_version = 0,
     ob_payload = EmptyPayload, ob_organization_id = None, ob_school_id = None,
     ob_actor_user_id = None, ob_entity_type = None, ob_entity_id = None, ob_status = OB_PENDING,
     ob_attempts = 0, ob_next_attempt_at = None, ob_processed_at = None, ob_last_error = None,
     ob_request_id = None, ob_locked_by = None, ob_locked_at = None, ob_created_at = 0\<rparr>"

definition blank_notification :: "ulid \<Rightarrow> notification" where
  "blank_notification i = \<lparr>row_id = i, created_at = 0, updated_at = 0, no_user_id = [],
     no_school_id = None, no_organization_id = [], no_type = NT_SYSTEM, no_title = [],
     no_body = None, no_related_entity_type = None, no_related_entity_id = None,
     no_is_read = False, no_read_at = None\<rparr>"

definition blank_academic_year :: "ulid \<Rightarrow> academic_year" where
  "blank_academic_year i = \<lparr>row_id = i, created_at = 0, updated_at = 0,
     created_by_id = None, updated_by_id = None, version = 1, archived_at = None,
     deleted_at = None, ay_school_id = [], ay_organization_id = [], ay_code = [], ay_name = [],
     ay_start_date = 0, ay_end_date = 0, ay_is_current = False, ay_status = AY_ACTIVE\<rparr>"

definition blank_academic_term :: "ulid \<Rightarrow> academic_term" where
  "blank_academic_term i = \<lparr>row_id = i, created_at = 0, updated_at = 0,
     created_by_id = None, updated_by_id = None, version = 1, archived_at = None,
     deleted_at = None, tm_school_id = [], tm_organization_id = [], tm_academic_year_id = [],
     tm_code = [], tm_name = [], tm_start_date = 0, tm_end_date = 0,
     tm_status = TM_ACTIVE\<rparr>"

definition blank_academic_class :: "ulid \<Rightarrow> academic_class" where
  "blank_academic_class i = \<lparr>row_id = i, created_at = 0, updated_at = 0,
     created_by_id = None, updated_by_id = None, version = 1, archived_at = None,
     deleted_at = None, cl_school_id = [], cl_organization_id = [], cl_code = [], cl_name = [],
     cl_description = None, cl_sort_order = 0, cl_status = CL_ACTIVE\<rparr>"

definition blank_class_subject :: "ulid \<Rightarrow> class_subject" where
  "blank_class_subject i = \<lparr>row_id = i, created_at = 0, updated_at = 0,
     created_by_id = None, updated_by_id = None, cs_school_id = [], cs_organization_id = [],
     cs_academic_class_id = [], cs_subject_id = [], cs_effective_from_year_id = [],
     cs_effective_to_year_id = None\<rparr>"

definition blank_cohort :: "ulid \<Rightarrow> cohort" where
  "blank_cohort i = \<lparr>row_id = i, created_at = 0, updated_at = 0, created_by_id = None,
     updated_by_id = None, version = 1, archived_at = None, deleted_at = None, co_school_id = [],
     co_organization_id = [], co_academic_year_id = [], co_academic_class_id = [], co_code = [],
     co_name = [], co_capacity = None, co_status = CO_ACTIVE\<rparr>"

definition blank_subject :: "ulid \<Rightarrow> subject" where
  "blank_subject i = \<lparr>row_id = i, created_at = 0, updated_at = 0, created_by_id = None,
     updated_by_id = None, version = 1, archived_at = None, deleted_at = None, su_school_id = [],
     su_organization_id = [], su_code = [], su_name = [], su_description = None,
     su_subject_type = SJ_CORE, su_status = SJ_ACTIVE\<rparr>"

definition blank_teacher :: "ulid \<Rightarrow> teacher" where
  "blank_teacher i = \<lparr>row_id = i, created_at = 0, updated_at = 0, created_by_id = None,
     updated_by_id = None, version = 1, archived_at = None, deleted_at = None, te_school_id = [],
     te_organization_id = [], te_person_id = [], te_employee_number = None,
     te_designation = None, te_joining_date = None, te_leaving_date = None,
     te_status = TE_ACTIVE\<rparr>"

definition blank_teacher_assignment :: "ulid \<Rightarrow> teacher_assignment" where
  "blank_teacher_assignment i = \<lparr>row_id = i, created_at = 0, updated_at = 0,
     created_by_id = None, updated_by_id = None, version = 1, ta_school_id = [],
     ta_organization_id = [], ta_teacher_id = [], ta_cohort_id = [], ta_subject_id = None,
     ta_academic_year_id = [], ta_role = SUBJECT_TEACHER, ta_start_date = 0, ta_end_date = None,
     ta_status = TA_ACTIVE\<rparr>"

definition blank_person :: "ulid \<Rightarrow> person" where
  "blank_person i = \<lparr>row_id = i, created_at = 0, updated_at = 0, created_by_id = None,
     updated_by_id = None, version = 1, archived_at = None, deleted_at = None,
     pe_organization_id = [], pe_first_name = [], pe_middle_name = None, pe_last_name = None,
     pe_preferred_name = None, pe_date_of_birth = None, pe_gender = None, pe_blood_group = None,
     pe_nationality = None, pe_primary_phone = None, pe_primary_email = None,
     pe_address_id = None, pe_photo_document_id = None, pe_status = PE_ACTIVE,
     pe_merged_into_person_id = None\<rparr>"

definition blank_address :: "ulid \<Rightarrow> address" where
  "blank_address i = \<lparr>row_id = i, created_at = 0, updated_at = 0, ad_version = 0,
     ad_entity_type = [], ad_entity_id = [], ad_organization_id = [],
     ad_address_type = AD_RESIDENTIAL, ad_line1 = None, ad_line2 = None, ad_landmark = None,
     ad_city = None, ad_district = None, ad_state = None, ad_postal_code = None,
     ad_country_code = [], ad_is_primary = False\<rparr>"

definition blank_contact :: "ulid \<Rightarrow> contact" where
  "blank_contact i = \<lparr>row_id = i, created_at = 0, updated_at = 0, ct_entity_type = [],
     ct_entity_id = [], ct_organization_id = [], ct_contact_type = CT_PHONE, ct_value = [],
     ct_label = None, ct_is_primary = False, ct_is_emergency = False,
     ct_verified_at = None\<rparr>"

definition blank_student :: "ulid \<Rightarrow> student" where
  "blank_student i = \<lparr>row_id = i, created_at = 0, updated_at = 0, created_by_id = None,
     updated_by_id = None, version = 1, archived_at = None, deleted_at = None, st_school_id = [],
     st_organization_id = [], st_person_id = [], st_admission_number = [], st_admission_date = 0,
     st_status = ST_ACTIVE, st_withdrawal_date = None, st_withdrawal_reason = None\<rparr>"

definition blank_enrollment :: "ulid \<Rightarrow> enrollment" where
  "blank_enrollment i = \<lparr>row_id = i, created_at = 0, updated_at = 0, created_by_id = None,
     updated_by_id = None, version = 1, en_school_id = [], en_organization_id = [],
     en_student_id = [], en_academic_year_id = [], en_academic_class_id = [], en_cohort_id = [],
     en_roll_number = None, en_start_date = 0, en_end_date = None,
     en_enrollment_type = ET_REGULAR, en_status = EN_ACTIVE\<rparr>"

definition blank_parent :: "ulid \<Rightarrow> parent" where
  "blank_parent i = \<lparr>row_id = i, created_at = 0, updated_at = 0, created_by_id = None,
     updated_by_id = None, version = 1, archived_at = None, deleted_at = None, pa_person_id = [],
     pa_school_id = [], pa_organization_id = [], pa_occupation = None, pa_workplace = None,
     pa_status = []\<rparr>"

definition blank_student_parent :: "ulid \<Rightarrow> student_parent" where
  "blank_student_parent i = \<lparr>row_id = i, created_at = 0, updated_at = 0,
     created_by_id = None, updated_by_id = None, sp_school_id = [], sp_organization_id = [],
     sp_student_id = [], sp_parent_id = [], sp_relationship = [], sp_is_primary = False,
     sp_is_emergency_contact = False, sp_can_pickup = False\<rparr>"

definition blank_student_guardian :: "ulid \<Rightarrow> student_guardian" where
  "blank_student_guardian i = \<lparr>row_id = i, created_at = 0, updated_at = 0,
     created_by_id = None, updated_by_id = None, sg_school_id = [], sg_organization_id = [],
     sg_student_id = [], sg_guardian_person_id = [], sg_relationship = GR_GUARDIAN,
     sg_is_primary = False, sg_is_emergency_contact = False, sg_can_pickup = False\<rparr>"

definition blank_timetable :: "ulid \<Rightarrow> timetable" where
  "blank_timetable i = \<lparr>row_id = i, created_at = 0, updated_at = 0, created_by_id = None,
     updated_by_id = None, version = 1, archived_at = None, deleted_at = None, tt_school_id = [],
     tt_organization_id = [], tt_academic_year_id = [], tt_name = [], tt_status = TT_DRAFT,
     tt_published_at = None\<rparr>"

definition blank_period_definition :: "ulid \<Rightarrow> period_definition" where
  "blank_period_definition i = \<lparr>row_id = i, created_at = 0, updated_at = 0,
     created_by_id = None, updated_by_id = None, pd_school_id = [], pd_organization_id = [],
     pd_academic_year_id = [], pd_name = [], pd_period_type = PT_LESSON, pd_start_time = 0,
     pd_end_time = 0, pd_sort_order = 0\<rparr>"

definition blank_slot :: "ulid \<Rightarrow> slot" where
  "blank_slot i = \<lparr>row_id = i, created_at = 0, updated_at = 0, created_by_id = None,
     updated_by_id = None, version = 1, sl_school_id = [], sl_organization_id = [],
     sl_academic_year_id = [], sl_timetable_id = None, sl_cohort_id = [],
     sl_period_definition_id = [], sl_teacher_id = [], sl_subject_id = [],
     sl_day_of_week = MONDAY, sl_effective_from = 0, sl_effective_to = None,
     sl_status = SL_ACTIVE, sl_notes = None\<rparr>"

definition blank_attendance_session :: "ulid \<Rightarrow> attendance_session" where
  "blank_attendance_session i = \<lparr>row_id = i, created_at = 0, updated_at = 0,
     created_by_id = None, updated_by_id = None, version = 1, as_school_id = [],
     as_organization_id = [], as_cohort_id = [], as_academic_year_id = [], as_session_date = 0,
     as_status = AS_DRAFT, as_submitted_at = None, as_submitted_by_id = None,
     as_notes = None\<rparr>"

definition blank_attendance_record :: "ulid \<Rightarrow> attendance_record" where
  "blank_attendance_record i = \<lparr>row_id = i, created_at = 0, updated_at = 0,
     created_by_id = None, updated_by_id = None, ar_school_id = [], ar_organization_id = [],
     ar_session_id = [], ar_enrollment_id = [], ar_student_id = [], ar_status = AT_PRESENT,
     ar_arrived_at = None, ar_notes = None\<rparr>"

definition blank_announcement :: "ulid \<Rightarrow> announcement" where
  "blank_announcement i = \<lparr>row_id = i, created_at = 0, updated_at = 0,
     created_by_id = None, updated_by_id = None, version = 1, archived_at = None,
     deleted_at = None, an_school_id = [], an_organization_id = [], an_title = [], an_body = [],
     an_priority = AP_NORMAL, an_publish_mode = PM_IMMEDIATE, an_published_at = None,
     an_expires_at = None, an_status = AN_DRAFT\<rparr>"

definition blank_announcement_target :: "ulid \<Rightarrow> announcement_target" where
  "blank_announcement_target i = \<lparr>row_id = i, created_at = 0, updated_at = 0,
     at_announcement_id = [], at_target_type = TG_SCHOOL, at_target_id = None, at_school_id = [],
     at_organization_id = []\<rparr>"

definition blank_document :: "ulid \<Rightarrow> document" where
  "blank_document i = \<lparr>row_id = i, created_at = 0, updated_at = 0, created_by_id = None,
     updated_by_id = None, dc_archived_at = None, dc_deleted_at = None, dc_school_id = [],
     dc_organization_id = None, dc_entity_type = [], dc_entity_id = [], dc_document_type = [],
     dc_original_filename = [], dc_storage_key = None, dc_mime_type = None, dc_file_size = None,
     dc_checksum_sha256 = None, dc_status = DC_PENDING_UPLOAD\<rparr>"

definition blank_import_job :: "ulid \<Rightarrow> import_job" where
  "blank_import_job i = \<lparr>row_id = i, created_at = 0, updated_at = 0, created_by_id = None,
     updated_by_id = None, ij_school_id = [], ij_organization_id = None,
     ij_resource_type = IR_STUDENTS, ij_status = IJ_PENDING, ij_total_rows = None,
     ij_processed_rows = 0, ij_success_rows = 0, ij_failed_rows = 0, ij_error_summary = None,
     ij_original_filename = None, ij_started_at = None, ij_completed_at = None\<rparr>"

definition blank_export_job :: "ulid \<Rightarrow> export_job" where
  "blank_export_job i = \<lparr>row_id = i, created_at = 0, updated_at = 0, created_by_id = None,
     updated_by_id = None, ej_school_id = [], ej_organization_id = None, ej_report_type = [],
     ej_status = EJ_PENDING, ej_filters = None, ej_row_count = None, ej_storage_key = None,
     ej_error_message = None, ej_started_at = None, ej_completed_at = None,
     ej_expires_at = None\<rparr>"

lemmas blank_defs =
  blank_organization_def blank_school_def blank_user_def
  blank_membership_def blank_permission_row_def blank_role_def
  blank_role_permission_def blank_membership_role_def blank_refresh_token_def
  blank_login_attempt_def blank_reset_token_def blank_audit_log_def
  blank_outbox_event_def blank_notification_def blank_academic_year_def
  blank_academic_term_def blank_academic_class_def blank_class_subject_def
  blank_cohort_def blank_subject_def blank_teacher_def
  blank_teacher_assignment_def blank_person_def blank_address_def
  blank_contact_def blank_student_def blank_enrollment_def
  blank_parent_def blank_student_parent_def blank_student_guardian_def
  blank_timetable_def blank_period_definition_def blank_slot_def
  blank_attendance_session_def blank_attendance_record_def blank_announcement_def
  blank_announcement_target_def blank_document_def blank_import_job_def
  blank_export_job_def

end
