(* ===== verification/Principal.thy ===== *)
theory Principal
  imports Context Rls Samples "HOL-Library.AList"
begin

text \<open>
  \<open>app/modules/iam/principal.py\<close>: from an authenticated user and the requested school to
  the \<open>Principal\<close> of the request, and \<open>get_context\<close> of \<open>app/core/context.py\<close>, which caches
  it for the request and binds the row-security settings. Resolution only reads the database.
\<close>

record principal =
  pl_user_id :: ulid
  pl_person_id :: "ulid option"
  pl_email :: "string option"
  pl_organization_id :: "ulid option"
  pl_school_id :: "ulid option"
  pl_accessible :: "ulid set"
  pl_permissions :: "string set"
  pl_scopes :: "(string \<times> data_scope) list"
  pl_role_codes :: "string set"
  pl_scope :: "data_scope option"
  pl_is_platform_admin :: bool

section \<open>The caller and its memberships\<close>

definition load_user :: "db \<Rightarrow> ulid \<Rightarrow> user result" where
  "load_user s uid = (case get_row uid (users s) of
     None \<Rightarrow> Inl invalid_credentials
   | Some u \<Rightarrow>
       if deleted_at u \<noteq> None then Inl invalid_credentials
       else if us_status u \<noteq> US_ACTIVE then Inl AccountInactiveError
       else Inr u)"

definition within_dates :: "date \<Rightarrow> membership \<Rightarrow> bool" where
  "within_dates today m \<longleftrightarrow>
     \<not> (case mb_start_date m of Some d \<Rightarrow> d > today | None \<Rightarrow> False) \<and>
     \<not> (case mb_end_date m of Some d \<Rightarrow> d < today | None \<Rightarrow> False)"

definition load_active_memberships :: "env \<Rightarrow> db \<Rightarrow> ulid \<Rightarrow> membership list" where
  "load_active_memberships env s uid =
     filter (within_dates (env_today env))
       (filter (\<lambda>m. mb_user_id m = uid \<and> mb_status m = MS_ACTIVE) (memberships s))"

section \<open>The active school\<close>

definition open_schools :: "db \<Rightarrow> ulid \<Rightarrow> school list" where
  "open_schools s org = filter (\<lambda>sc. sc_organization_id sc = org \<and> deleted_at sc = None \<and>
      sc_status sc \<in> {SC_ACTIVE, SC_SETUP}) (schools s)"

definition accessible_schools :: "db \<Rightarrow> membership list \<Rightarrow> ulid \<Rightarrow> ulid set" where
  "accessible_schools s ms org =
     (let explicit = set (List.map_filter mb_school_id ms) in
      if list_ex (\<lambda>m. mb_school_id m = None) ms
      then explicit \<union> set (map row_id (open_schools s org)) else explicit)"

text \<open>\<open>m.is_default and m.school_id\<close>: the first default membership of a school.\<close>

definition default_school :: "membership list \<Rightarrow> ulid option" where
  "default_school ms =
     (case find (\<lambda>m. mb_is_default m \<and> mb_school_id m \<noteq> None \<and> mb_school_id m \<noteq> Some []) ms of
        None \<Rightarrow> None | Some m \<Rightarrow> mb_school_id m)"

definition select_active_school ::
  "membership list \<Rightarrow> ulid set \<Rightarrow> ulid option \<Rightarrow> ulid option result" where
  "select_active_school ms accessible_ids requested = (case requested of
     Some r \<Rightarrow> if r \<notin> accessible_ids then Inl TenantContextError else Inr (Some r)
   | None \<Rightarrow>
       (case default_school ms of
          Some d \<Rightarrow> if d \<in> accessible_ids then Inr (Some d)
                   else if card accessible_ids = 1 then Inr (Some (the_elem accessible_ids)) else Inr None
        | None \<Rightarrow> if card accessible_ids = 1 then Inr (Some (the_elem accessible_ids)) else Inr None))"

section \<open>Grants\<close>

text \<open>
  The three nested loops of \<open>_collect_grants\<close>, over the links the relationships load. The
  dict of scopes is the list of its items; assigning a key keeps its position.
\<close>

definition role_links :: "db \<Rightarrow> membership \<Rightarrow> membership_role list" where
  "role_links s m = filter (\<lambda>l. mr_membership_id l = row_id m) (membership_roles s)"

definition permission_links :: "db \<Rightarrow> role \<Rightarrow> role_permission list" where
  "permission_links s r = filter (\<lambda>l. rp_role_id l = row_id r) (role_permissions s)"

definition put_scope ::
  "string \<times> data_scope \<Rightarrow> (string \<times> data_scope) list \<Rightarrow> (string \<times> data_scope) list" where
  "put_scope g scopes = (case g of (code, perm_scope) \<Rightarrow>
     (case map_of scopes code of
        None \<Rightarrow> AList.update code perm_scope scopes
      | Some existing \<Rightarrow>
          if strength perm_scope > strength existing
          then AList.update code perm_scope scopes else scopes))"

definition grant_permission ::
  "db \<Rightarrow> data_scope \<Rightarrow> role_permission \<Rightarrow> (string \<times> data_scope) list \<Rightarrow> (string \<times> data_scope) list"
  where
  "grant_permission s grant_scope pl scopes = (case get_row (rp_permission_id pl) (permissions_t s) of
     None \<Rightarrow> scopes
   | Some p \<Rightarrow>
       put_scope (pr_code p, case rp_data_scope pl of Some d \<Rightarrow> d | None \<Rightarrow> grant_scope) scopes)"

definition live_link :: "timestamp \<Rightarrow> membership_role \<Rightarrow> bool" where
  "live_link now l \<longleftrightarrow> \<not> (case mr_expires_at l of Some t \<Rightarrow> t \<le> now | None \<Rightarrow> False)"

definition grant_scope_of :: "membership_role \<Rightarrow> role \<Rightarrow> data_scope" where
  "grant_scope_of l r = (case mr_data_scope l of Some d \<Rightarrow> d | None \<Rightarrow> ro_data_scope r)"

type_synonym grants = "(string \<times> data_scope) list \<times> string set"

definition grant_role_link :: "db \<Rightarrow> timestamp \<Rightarrow> membership_role \<Rightarrow> grants \<Rightarrow> grants" where
  "grant_role_link s now l acc =
     (if \<not> live_link now l then acc
      else case get_row (mr_role_id l) (roles s) of
        None \<Rightarrow> acc
      | Some r \<Rightarrow>
          if archived_at r \<noteq> None then acc
          else (fold (grant_permission s (grant_scope_of l r)) (permission_links s r) (fst acc),
                insert (ro_code r) (snd acc)))"

definition collect_grants :: "env \<Rightarrow> db \<Rightarrow> membership list \<Rightarrow> grants" where
  "collect_grants env s ms =
     fold (\<lambda>m. fold (grant_role_link s (env_now env)) (role_links s m)) ms ([], {})"

section \<open>Resolution\<close>

definition platform_principal :: "db \<Rightarrow> user \<Rightarrow> ulid option \<Rightarrow> principal result" where
  "platform_principal s u requested =
     (let p = (\<lambda>org. \<lparr>pl_user_id = row_id u, pl_person_id = us_person_id u, pl_email = us_email u,
         pl_organization_id = org, pl_school_id = requested, pl_accessible = {},
         pl_permissions = {}, pl_scopes = [], pl_role_codes = {''SUPER_ADMIN''},
         pl_scope = Some PLATFORM, pl_is_platform_admin = True\<rparr>) in
      case requested of
        None \<Rightarrow> Inr (p None)
      | Some sid \<Rightarrow> (case get_row sid (schools s) of
          None \<Rightarrow> Inl TenantContextError
        | Some sc \<Rightarrow> if deleted_at sc \<noteq> None then Inl TenantContextError
                    else Inr (p (Some (sc_organization_id sc)))))"

definition applicable_memberships :: "membership list \<Rightarrow> ulid option \<Rightarrow> membership list" where
  "applicable_memberships ms active =
     filter (\<lambda>m. mb_school_id m = None \<or> mb_school_id m = active) ms"

definition resolve_principal :: "env \<Rightarrow> db \<Rightarrow> ulid \<Rightarrow> ulid option \<Rightarrow> principal result" where
  "resolve_principal env s uid requested =
     bind_ok (load_user s uid) (\<lambda>u.
       if us_is_platform_admin u then platform_principal s u requested
       else case load_active_memberships env s uid of
         [] \<Rightarrow> Inr \<lparr>pl_user_id = row_id u, pl_person_id = us_person_id u, pl_email = us_email u,
               pl_organization_id = None, pl_school_id = None, pl_accessible = {},
               pl_permissions = {}, pl_scopes = [], pl_role_codes = {}, pl_scope = None,
               pl_is_platform_admin = False\<rparr>
       | m # ms' \<Rightarrow>
           (let ms = m # ms';
                org = mb_organization_id m;
                acc = accessible_schools s ms org in
            bind_ok (select_active_school ms acc requested) (\<lambda>active.
              let (scopes, codes) = collect_grants env s (applicable_memberships ms active) in
              Inr \<lparr>pl_user_id = row_id u, pl_person_id = us_person_id u, pl_email = us_email u,
                pl_organization_id = Some org, pl_school_id = active, pl_accessible = acc,
                pl_permissions = fst ` set scopes, pl_scopes = scopes, pl_role_codes = codes,
                pl_scope = strongest (map snd scopes), pl_is_platform_admin = False\<rparr>)))"

section \<open>The request context\<close>

type_synonym principal_cache = "((ulid \<times> ulid option) \<times> principal) list"

definition context_of :: "http_request \<Rightarrow> principal \<Rightarrow> request_context" where
  "context_of rq p = \<lparr>user_id = pl_user_id p, person_id = pl_person_id p, email = pl_email p,
     organization_id = pl_organization_id p, school_id = pl_school_id p,
     accessible_school_ids = pl_accessible p, permissions = pl_permissions p,
     permission_scopes = pl_scopes p, role_codes = pl_role_codes p, scope = pl_scope p,
     request_id = rq_request_id rq, ip_address = get_client_ip rq,
     is_platform_admin = pl_is_platform_admin p\<rparr>"

definition get_context ::
  "env \<Rightarrow> db \<Rightarrow> http_request \<Rightarrow> ulid \<Rightarrow> principal_cache \<times> settings
   \<Rightarrow> (request_context \<times> principal_cache \<times> settings) result" where
  "get_context env s rq uid st =
     (let key = (uid, rq_school_header rq) in
      bind_ok
        (case map_of (fst st) key of
           Some p \<Rightarrow> Inr (p, fst st)
         | None \<Rightarrow> bind_ok (resolve_principal env s uid (rq_school_header rq))
                    (\<lambda>p. Inr (p, (key, p) # fst st)))
        (\<lambda>(p, cache). Inr (context_of rq p, cache,
           set_tenant_context (pl_school_id p) (pl_organization_id p) (snd st))))"

section \<open>Grants as justifications\<close>

text \<open>
  \<open>justifies env s m code d\<close>: membership \<open>m\<close> carries an unexpired link to a role that is not
  archived and has \<open>code\<close> among its permissions, and \<open>d\<close> is the scope that link gives: the
  override on the permission link, else on the role link, else the role's own scope.
\<close>

definition perm_scope_of :: "membership_role \<Rightarrow> role \<Rightarrow> role_permission \<Rightarrow> data_scope" where
  "perm_scope_of l r pl =
     (case rp_data_scope pl of Some d \<Rightarrow> d | None \<Rightarrow> grant_scope_of l r)"

definition justifies :: "env \<Rightarrow> db \<Rightarrow> membership \<Rightarrow> string \<Rightarrow> data_scope \<Rightarrow> bool" where
  "justifies env s m code d \<longleftrightarrow>
     (\<exists>l \<in> set (role_links s m). live_link (env_now env) l \<and>
       (\<exists>r. get_row (mr_role_id l) (roles s) = Some r \<and> archived_at r = None \<and>
         (\<exists>pl \<in> set (permission_links s r). \<exists>p.
            get_row (rp_permission_id pl) (permissions_t s) = Some p \<and>
            pr_code p = code \<and> d = perm_scope_of l r pl)))"

definition link_grants :: "db \<Rightarrow> timestamp \<Rightarrow> membership_role \<Rightarrow> (string \<times> data_scope) list" where
  "link_grants s now l =
     (if \<not> live_link now l then []
      else case get_row (mr_role_id l) (roles s) of
        None \<Rightarrow> []
      | Some r \<Rightarrow>
          if archived_at r \<noteq> None then []
          else List.map_filter (\<lambda>pl. map_option (\<lambda>p. (pr_code p, perm_scope_of l r pl))
                 (get_row (rp_permission_id pl) (permissions_t s))) (permission_links s r))"

lemma set_map_filter: "set (List.map_filter f xs) = {y. \<exists>x \<in> set xs. f x = Some y}"
  by (induction xs) (auto simp: List.map_filter_simps split: option.splits)

lemma fold_grant_permission:
  "fold (grant_permission s (grant_scope_of l r)) pls scopes =
     fold put_scope (List.map_filter (\<lambda>pl. map_option (\<lambda>p. (pr_code p, perm_scope_of l r pl))
       (get_row (rp_permission_id pl) (permissions_t s))) pls) scopes"
  by (induction pls arbitrary: scopes)
    (auto simp: List.map_filter_simps grant_permission_def perm_scope_of_def split: option.splits)

lemma grant_role_link_scopes:
  "fst (grant_role_link s now l acc) = fold put_scope (link_grants s now l) (fst acc)"
  by (simp add: grant_role_link_def link_grants_def fold_grant_permission split: option.splits)

lemma fold_grant_role_link:
  "fst (fold (grant_role_link s now) ls acc) = fold put_scope (concat (map (link_grants s now) ls)) (fst acc)"
  by (induction ls arbitrary: acc) (simp_all add: grant_role_link_scopes)

lemma fold_memberships:
  "fst (fold (\<lambda>m. fold (grant_role_link s now) (role_links s m)) ms acc) =
     fold put_scope (concat (map (\<lambda>m. concat (map (link_grants s now) (role_links s m))) ms)) (fst acc)"
  by (induction ms arbitrary: acc) (simp_all add: fold_grant_role_link)

lemma collect_grants_scopes:
  "fst (collect_grants env s ms) =
     fold put_scope (concat (map (\<lambda>m. concat (map (link_grants s (env_now env)) (role_links s m))) ms)) []"
  by (simp add: collect_grants_def fold_memberships)

lemma map_of_put_scope:
  "map_of (put_scope (c, d) al) k =
     (if k = c then Some (case map_of al c of None \<Rightarrow> d | Some e \<Rightarrow> if strength d > strength e then d else e)
      else map_of al k)"
  by (auto simp: put_scope_def update_conv' split: option.splits)

lemma map_of_fold_put_scope:
  "map_of (fold put_scope gs al) k =
     (case map_of al k of
        None \<Rightarrow> strongest (map snd (filter (\<lambda>g. fst g = k) gs))
      | Some e \<Rightarrow> strongest (e # map snd (filter (\<lambda>g. fst g = k) gs)))"
proof (induction gs arbitrary: al)
  case (Cons g gs)
  obtain c d where g: "g = (c, d)" by fastforce
  show ?case
    by (cases "map_of al k"; cases "c = k")
      (simp_all add: g Cons.IH map_of_put_scope strongest_def)
qed (simp add: strongest_def split: option.splits)

lemma link_grants_iff:
  "(code, d) \<in> set (link_grants s now l) \<longleftrightarrow> live_link now l \<and>
     (\<exists>r. get_row (mr_role_id l) (roles s) = Some r \<and> archived_at r = None \<and>
       (\<exists>pl \<in> set (permission_links s r). \<exists>p.
          get_row (rp_permission_id pl) (permissions_t s) = Some p \<and>
          pr_code p = code \<and> d = perm_scope_of l r pl))"
proof (cases "get_row (mr_role_id l) (roles s)")
  case (Some r)
  then show ?thesis
    by (cases "archived_at r") (auto simp: link_grants_def set_map_filter)
qed (simp add: link_grants_def)

lemma collect_grants_map_of:
  "map_of (fst (collect_grants env s ms)) code = Some d \<longleftrightarrow>
     (\<exists>m \<in> set ms. justifies env s m code d) \<and>
     (\<forall>m \<in> set ms. \<forall>d'. justifies env s m code d' \<longrightarrow> d' \<le> d)"
proof -
  define gs where
    "gs = concat (map (\<lambda>m. concat (map (link_grants s (env_now env)) (role_links s m))) ms)"
  have J: "e \<in> snd ` {g \<in> set gs. fst g = code} \<longleftrightarrow> (\<exists>m \<in> set ms. justifies env s m code e)" for e
  proof -
    have "e \<in> snd ` {g \<in> set gs. fst g = code} \<longleftrightarrow> (code, e) \<in> set gs" by force
    also have "\<dots> \<longleftrightarrow> (\<exists>m \<in> set ms. \<exists>l \<in> set (role_links s m). (code, e) \<in> set (link_grants s (env_now env) l))"
      by (simp add: gs_def)
    also have "\<dots> \<longleftrightarrow> (\<exists>m \<in> set ms. justifies env s m code e)"
      by (simp add: link_grants_iff justifies_def)
    finally show ?thesis .
  qed
  have "map_of (fst (collect_grants env s ms)) code = strongest (map snd (filter (\<lambda>g. fst g = code) gs))"
    by (simp add: collect_grants_scopes map_of_fold_put_scope gs_def)
  then have "map_of (fst (collect_grants env s ms)) code = Some d \<longleftrightarrow>
      d \<in> snd ` {g \<in> set gs. fst g = code} \<and> (\<forall>e \<in> snd ` {g \<in> set gs. fst g = code}. e \<le> d)"
    by (simp only: strongest_some_iff set_map set_filter)
  then show ?thesis unfolding Ball_def J by blast
qed

section \<open>Facts about resolution\<close>

lemma accessible_schools_iff:
  "sid \<in> accessible_schools s ms org \<longleftrightarrow>
     (\<exists>m \<in> set ms. mb_school_id m = Some sid) \<or>
     (\<exists>m \<in> set ms. mb_school_id m = None) \<and> (\<exists>sc \<in> set (open_schools s org). row_id sc = sid)"
  by (auto simp: accessible_schools_def Let_def set_map_filter list_ex_iff)

lemma select_active_school_in:
  "select_active_school ms acc req = Inr (Some sid) \<Longrightarrow> sid \<in> acc"
proof -
  assume a: "select_active_school ms acc req = Inr (Some sid)"
  have "the_elem acc \<in> acc" if "card acc = 1"
    using that by (metis card_1_singletonE insertI1 the_elem_eq)
  with a show ?thesis
    by (auto simp: select_active_school_def split: option.splits if_splits)
qed

lemma select_active_school_requested:
  "select_active_school ms acc (Some r) = (if r \<in> acc then Inr (Some r) else Inl TenantContextError)"
  by (simp add: select_active_school_def)

lemma select_active_school_no_error: "select_active_school ms acc None \<noteq> Inl e"
  by (simp add: select_active_school_def split: option.splits)

lemma load_user_Inr:
  "load_user s uid = Inr u \<longleftrightarrow> get_row uid (users s) = Some u \<and> deleted_at u = None \<and> us_status u = US_ACTIVE"
  by (auto simp: load_user_def split: option.splits if_splits)

lemma platform_principal_admin:
  "platform_principal s u req = Inr p \<Longrightarrow> pl_is_platform_admin p"
  by (auto simp: platform_principal_def Let_def split: option.splits if_splits)

text \<open>The resolution of an ordinary member, with its parts named.\<close>

lemma resolve_member:
  assumes u: "load_user s uid = Inr u" "\<not> us_is_platform_admin u"
    and ms: "load_active_memberships env s uid = ms" "ms \<noteq> []"
  shows "resolve_principal env s uid req =
    bind_ok (select_active_school ms (accessible_schools s ms (mb_organization_id (hd ms))) req)
      (\<lambda>active. let g = collect_grants env s (applicable_memberships ms active) in
        Inr \<lparr>pl_user_id = row_id u, pl_person_id = us_person_id u, pl_email = us_email u,
             pl_organization_id = Some (mb_organization_id (hd ms)), pl_school_id = active,
             pl_accessible = accessible_schools s ms (mb_organization_id (hd ms)),
             pl_permissions = fst ` set (fst g), pl_scopes = fst g, pl_role_codes = snd g,
             pl_scope = strongest (map snd (fst g)), pl_is_platform_admin = False\<rparr>)"
  using assms by (cases ms) (simp_all add: resolve_principal_def Let_def case_prod_beta)

text \<open>The three ways a resolution succeeds.\<close>

lemma resolve_cases:
  assumes "resolve_principal env s uid req = Inr p"
  obtains (admin) "pl_is_platform_admin p"
  | (detached) "load_active_memberships env s uid = []" "\<not> pl_is_platform_admin p"
      "pl_school_id p = None" "pl_scopes p = []" "pl_permissions p = {}"
  | (member) ms where "load_active_memberships env s uid = ms" "ms \<noteq> []" "\<not> pl_is_platform_admin p"
      "pl_organization_id p = Some (mb_organization_id (hd ms))"
      "select_active_school ms (accessible_schools s ms (mb_organization_id (hd ms))) req = Inr (pl_school_id p)"
      "pl_scopes p = fst (collect_grants env s (applicable_memberships ms (pl_school_id p)))"
      "pl_permissions p = fst ` set (pl_scopes p)"
proof -
  obtain u where u: "load_user s uid = Inr u"
    using assms by (auto simp: resolve_principal_def bind_ok_Inr_iff)
  show thesis
  proof (cases "us_is_platform_admin u")
    case True
    with assms u show thesis
      by (intro admin) (auto simp: resolve_principal_def dest: platform_principal_admin)
  next
    case False
    show thesis
    proof (cases "load_active_memberships env s uid")
      case Nil
      with assms u False show thesis
        by (intro detached) (auto simp: resolve_principal_def)
    next
      case (Cons m ms)
      then have ne: "m # ms \<noteq> []" by simp
      from assms show thesis
        unfolding resolve_member[OF u False Cons ne]
        by (elim bind_ok_InrE) (simp only: Let_def sum.inject, hypsubst,
            rule member[of "m # ms"], simp_all add: Cons)
    qed
  qed
qed

lemma applicable_iff:
  "m \<in> set (applicable_memberships ms active) \<longleftrightarrow> m \<in> set ms \<and> (mb_school_id m = None \<or> mb_school_id m = active)"
  by (auto simp: applicable_memberships_def)

lemma resolve_scopes:
  assumes "resolve_principal env s uid req = Inr p" and "\<not> pl_is_platform_admin p"
  shows "map_of (pl_scopes p) code = Some d \<longleftrightarrow>
    (\<exists>m \<in> set (applicable_memberships (load_active_memberships env s uid) (pl_school_id p)).
       justifies env s m code d) \<and>
    (\<forall>m \<in> set (applicable_memberships (load_active_memberships env s uid) (pl_school_id p)).
       \<forall>d'. justifies env s m code d' \<longrightarrow> d' \<le> d)"
  using assms(1)
proof (cases rule: resolve_cases)
  case (member ms)
  then show ?thesis by (simp only: collect_grants_map_of)
qed (use assms(2) in \<open>simp_all add: applicable_memberships_def\<close>)

lemma resolve_permissions:
  assumes "resolve_principal env s uid req = Inr p" and "\<not> pl_is_platform_admin p"
  shows "pl_permissions p = fst ` set (pl_scopes p)"
  using assms(1) by (cases rule: resolve_cases) (use assms(2) in auto)

lemma finite_scopes [simp]: "finite (J :: data_scope set)"
  by (rule finite_subset[of _ "{OWN, ASSIGNED, SCHOOL, ORGANIZATION, PLATFORM}"])
    (use data_scope.exhaust in auto)

lemma scope_Max: "J \<noteq> {} \<Longrightarrow> Max J \<in> J \<and> (\<forall>d \<in> J. d \<le> Max J)" for J :: "data_scope set"
  by simp

lemma resolve_grants_some:
  assumes "resolve_principal env s uid req = Inr p" and "\<not> pl_is_platform_admin p"
    and "m \<in> set (applicable_memberships (load_active_memberships env s uid) (pl_school_id p))"
    and "justifies env s m code d"
  shows "map_of (pl_scopes p) code \<noteq> None"
proof -
  let ?J = "{d. \<exists>m \<in> set (applicable_memberships (load_active_memberships env s uid) (pl_school_id p)).
               justifies env s m code d}"
  have "?J \<noteq> {}" using assms(3,4) by blast
  then have "Max ?J \<in> ?J \<and> (\<forall>d \<in> ?J. d \<le> Max ?J)" by (rule scope_Max)
  then have "map_of (pl_scopes p) code = Some (Max ?J)"
    unfolding resolve_scopes[OF assms(1,2)] by blast
  then show ?thesis by simp
qed

lemma get_context_fresh:
  "get_context env s rq uid ([], st) = Inr (ctx, cache, st') \<longleftrightarrow>
     (\<exists>p. resolve_principal env s uid (rq_school_header rq) = Inr p \<and> ctx = context_of rq p \<and>
          cache = [((uid, rq_school_header rq), p)] \<and>
          st' = set_tenant_context (pl_school_id p) (pl_organization_id p) st)"
  by (auto simp: get_context_def Let_def bind_ok_Inr_iff)

text \<open>
  The scopes a caller can justify for a permission while a school is active: those of its
  organization-wide memberships and of its memberships of that school.
\<close>

definition justified_scopes ::
  "env \<Rightarrow> db \<Rightarrow> ulid \<Rightarrow> ulid option \<Rightarrow> string \<Rightarrow> data_scope set" where
  "justified_scopes env s uid active code =
     {d. \<exists>m \<in> set (applicable_memberships (load_active_memberships env s uid) active).
           justifies env s m code d}"

text \<open>
  A caller with an organization-wide membership in organization A, whose role may read
  students, and a plain membership of a school of organization B.
\<close>

definition sample_env :: env where
  "sample_env = \<lparr>env_now = 100, env_today = 10, env_gen = (\<lambda>t n. t @ replicate n CHR ''+'')\<rparr>"

definition sample_iam :: db where
  "sample_iam = empty_db\<lparr>
     users := [blank_user ''U1''],
     schools := [(blank_school ''S1'')\<lparr>sc_organization_id := ''A''\<rparr>,
                 (blank_school ''S2'')\<lparr>sc_organization_id := ''B''\<rparr>],
     memberships := [(blank_membership ''M1'')\<lparr>mb_user_id := ''U1'', mb_organization_id := ''A''\<rparr>,
       (blank_membership ''M2'')\<lparr>mb_user_id := ''U1'', mb_organization_id := ''B'', mb_school_id := Some ''S2''\<rparr>],
     roles := [(blank_role ''R1'')\<lparr>ro_code := ''HEAD'', ro_data_scope := ORGANIZATION\<rparr>],
     permissions_t := [(blank_permission_row ''P1'')\<lparr>pr_code := ''students.student.read''\<rparr>],
     role_permissions := [(blank_role_permission ''RP1'')\<lparr>rp_role_id := ''R1'', rp_permission_id := ''P1''\<rparr>],
     membership_roles := [(blank_membership_role ''MR1'')\<lparr>mr_membership_id := ''M1'', mr_role_id := ''R1''\<rparr>]\<rparr>"

definition sample_rq :: http_request where
  "sample_rq = \<lparr>rq_authorization = None, rq_school_header = Some ''S2'', rq_forwarded_for = None,
     rq_client_host = Some ''10.0.0.1'', rq_request_id = ''q1''\<rparr>"

lemmas sample_iam_defs = sample_env_def sample_iam_def empty_db_def blank_defs sample_rq_def

lemma sample_user: "load_user sample_iam ''U1'' = Inr (blank_user ''U1'')"
  by (simp add: sample_iam_defs load_user_def get_row_def)

lemma sample_memberships:
  "load_active_memberships sample_env sample_iam ''U1'' = memberships sample_iam"
  by (simp add: sample_iam_defs load_active_memberships_def within_dates_def)

lemma sample_justifies:
  "justifies sample_env sample_iam (hd (memberships sample_iam)) ''students.student.read'' ORGANIZATION"
  by (simp add: sample_iam_defs justifies_def role_links_def live_link_def get_row_def
      permission_links_def perm_scope_of_def grant_scope_of_def)

lemma sample_resolution:
  "resolve_principal sample_env sample_iam ''U1'' (Some ''S2'') = Inr \<lparr>pl_user_id = ''U1'',
     pl_person_id = None, pl_email = None, pl_organization_id = Some ''A'', pl_school_id = Some ''S2'',
     pl_accessible = {''S2'', ''S1''}, pl_permissions = {''students.student.read''},
     pl_scopes = [(''students.student.read'', ORGANIZATION)], pl_role_codes = {''HEAD''},
     pl_scope = Some ORGANIZATION, pl_is_platform_admin = False\<rparr>"
proof -
  have ne: "memberships sample_iam \<noteq> []" by (simp add: sample_iam_def)
  have na: "\<not> us_is_platform_admin (blank_user ''U1'')" by (simp add: blank_defs)
  show ?thesis
    unfolding resolve_member[OF sample_user na sample_memberships ne]
    by (simp add: sample_iam_defs select_active_school_def accessible_schools_def Let_def
        List.map_filter_simps open_schools_def collect_grants_def applicable_memberships_def
        role_links_def grant_role_link_def live_link_def get_row_def permission_links_def
        grant_permission_def put_scope_def grant_scope_of_def strongest_def insert_commute)
qed

section \<open>Properties\<close>





text \<open>
  A header cannot be used to find out which schools exist: for a caller none of whose
  active memberships is organization-wide or of the school asked for, the answer is the same
  403, whatever the table of schools holds. (A caller without any membership gets no error
  but an identity without school and without permissions.)
\<close>

theorem header_cannot_enumerate_schools:
  assumes "load_user s uid = Inr u" and "\<not> us_is_platform_admin u"
    and "\<forall>m \<in> set (load_active_memberships env s uid). mb_school_id m \<noteq> None \<and> mb_school_id m \<noteq> Some r"
  shows "resolve_principal env (s\<lparr>schools := any\<rparr>) uid (Some r) =
     (if load_active_memberships env s uid = []
      then Inr \<lparr>pl_user_id = row_id u, pl_person_id = us_person_id u, pl_email = us_email u,
             pl_organization_id = None, pl_school_id = None, pl_accessible = {},
             pl_permissions = {}, pl_scopes = [], pl_role_codes = {}, pl_scope = None,
             pl_is_platform_admin = False\<rparr>
      else Inl TenantContextError)"
proof -
  let ?s = "s\<lparr>schools := any\<rparr>"
  have u: "load_user ?s uid = Inr u" using assms(1) by (simp add: load_user_def)
  have ms: "load_active_memberships env ?s uid = load_active_memberships env s uid"
    by (simp add: load_active_memberships_def)
  show ?thesis
  proof (cases "load_active_memberships env s uid = []")
    case True
    with u assms(2) ms show ?thesis by (simp add: resolve_principal_def)
  next
    case False
    have "r \<notin> accessible_schools ?s (load_active_memberships env s uid) org" for org
      using assms(3) by (auto simp: accessible_schools_iff)
    with resolve_member[OF u assms(2) ms False] False show ?thesis
      by (simp add: select_active_school_requested)
  qed
qed

lemma header_cannot_enumerate_schools_witness:
  "resolve_principal sample_env
     ((sample_iam\<lparr>memberships := tl (memberships sample_iam)\<rparr>)\<lparr>schools := []\<rparr>) ''U1'' (Some ''S1'')
   = Inl TenantContextError"
proof -
  let ?s = "sample_iam\<lparr>memberships := tl (memberships sample_iam)\<rparr>"
  have u: "load_user ?s ''U1'' = Inr (blank_user ''U1'')"
    using sample_user by (simp add: load_user_def)
  have na: "\<not> us_is_platform_admin (blank_user ''U1'')" by (simp add: blank_defs)
  have ms: "load_active_memberships sample_env ?s ''U1'' = tl (memberships sample_iam)"
    by (simp add: sample_iam_defs load_active_memberships_def within_dates_def)
  have "\<forall>m \<in> set (load_active_memberships sample_env ?s ''U1''). mb_school_id m \<noteq> None \<and> mb_school_id m \<noteq> Some ''S1''"
    unfolding ms by (simp add: sample_iam_defs)
  from header_cannot_enumerate_schools[OF u na this, of "[]"] ms show ?thesis
    by (simp add: sample_iam_def)
qed

text \<open>
  One resolution per request: once a request has its context, resolving again with the
  same caller and header gives the same context from the cache, whatever happened to the
  clock and the database in between, and re-binds the same row-security settings.
\<close>

theorem context_cached_within_request:
  assumes "get_context env s rq uid (cache, st) = Inr (ctx, cache', st')"
  shows "get_context env' s' rq uid (cache', st'') =
      Inr (ctx, cache', set_tenant_context (school_id ctx) (organization_id ctx) st'') \<and>
    ctx_value st' SchoolGuc = str_or_empty (school_id ctx) \<and>
    ctx_value st' OrgGuc = str_or_empty (organization_id ctx)"
  using assms
  by (auto simp: get_context_def Let_def bind_ok_Inr_iff context_of_def split: option.splits)

lemma context_cached_within_request_witness:
  "\<exists>ctx c st. get_context sample_env sample_iam sample_rq ''U1'' ([], Map.empty) = Inr (ctx, c, st) \<and>
     get_context sample_env empty_db sample_rq ''U1'' (c, Map.empty) =
       Inr (ctx, c, set_tenant_context (school_id ctx) (organization_id ctx) Map.empty)"
proof -
  obtain ctx c st where g: "get_context sample_env sample_iam sample_rq ''U1'' ([], Map.empty) = Inr (ctx, c, st)"
    by (simp add: get_context_def Let_def sample_rq_def sample_resolution)
  with context_cached_within_request[OF g, of sample_env empty_db Map.empty] show ?thesis by blast
qed

text \<open>
  An organization-wide membership grants its permissions in whatever school the caller
  selects, the schools of other organizations the caller belongs to included: membership
  rows are kept or dropped by school only, never by the organization of the active school,
  and the context's organization is that of whichever membership the query returned first.
\<close>

theorem org_wide_grants_cross_organizations:
  assumes "load_user s uid = Inr u" and "\<not> us_is_platform_admin u"
    and "m \<in> set (load_active_memberships env s uid)" and "mb_school_id m = None"
    and "m' \<in> set (load_active_memberships env s uid)" and "mb_school_id m' = Some sid"
    and "justifies env s m code d"
  shows "\<exists>p. resolve_principal env s uid (Some sid) = Inr p \<and> pl_school_id p = Some sid \<and>
    pl_organization_id p = Some (mb_organization_id (hd (load_active_memberships env s uid))) \<and>
    code \<in> pl_permissions p"
proof -
  let ?ms = "load_active_memberships env s uid"
  have ne: "?ms \<noteq> []" using assms(3) by auto
  have acc: "sid \<in> accessible_schools s ?ms org" for org
    using assms(5,6) by (auto simp: accessible_schools_iff)
  obtain p where p: "resolve_principal env s uid (Some sid) = Inr p" and na: "\<not> pl_is_platform_admin p"
    and sch: "pl_school_id p = Some sid" and org: "pl_organization_id p = Some (mb_organization_id (hd ?ms))"
    using resolve_member[OF assms(1,2) refl ne, of "Some sid"] acc
    by (simp add: select_active_school_requested Let_def)
  have "m \<in> set (applicable_memberships ?ms (pl_school_id p))"
    using assms(3,4) by (simp add: applicable_iff)
  then have "map_of (pl_scopes p) code \<noteq> None"
    using resolve_grants_some[OF p na] assms(7) by blast
  then have "code \<in> pl_permissions p"
    by (simp add: resolve_permissions[OF p na] map_of_eq_None_iff)
  with p sch org show ?thesis by blast
qed

lemma org_wide_grants_cross_organizations_witness:
  "\<exists>p. resolve_principal sample_env sample_iam ''U1'' (Some ''S2'') = Inr p \<and>
     pl_organization_id p = Some ''A'' \<and> ''students.student.read'' \<in> pl_permissions p \<and>
     map_option sc_organization_id (get_row ''S2'' (schools sample_iam)) = Some ''B''"
proof -
  have na: "\<not> us_is_platform_admin (blank_user ''U1'')" by (simp add: blank_defs)
  have m: "hd (memberships sample_iam) \<in> set (load_active_memberships sample_env sample_iam ''U1'')"
    "mb_school_id (hd (memberships sample_iam)) = None"
    "(memberships sample_iam ! 1) \<in> set (load_active_memberships sample_env sample_iam ''U1'')"
    "mb_school_id (memberships sample_iam ! 1) = Some ''S2''"
    unfolding sample_memberships by (simp_all add: sample_iam_def blank_defs)
  have "map_option sc_organization_id (get_row ''S2'' (schools sample_iam)) = Some ''B''"
    by (simp add: sample_iam_defs get_row_def)
  moreover have "mb_organization_id (hd (load_active_memberships sample_env sample_iam ''U1'')) = ''A''"
    unfolding sample_memberships by (simp add: sample_iam_def)
  ultimately show ?thesis
    using org_wide_grants_cross_organizations[OF sample_user na m sample_justifies] by metis
qed

end
