(* ===== verification/Platform.thy ===== *)
theory Platform
  imports Context Samples
begin

text \<open>
  What every write goes through: the audit row (\<open>app/modules/platform_/audit/service.py\<close>),
  the outbox row (\<open>app/modules/platform_/outbox/service.py\<close>), and the transaction of a
  request (\<open>get_db\<close> of \<open>app/db/session.py\<close>), which commits when the handler returns and
  rolls back when it raises.
\<close>

section \<open>Audit rows\<close>

definition new_id :: "env \<Rightarrow> string \<Rightarrow> 'a list \<Rightarrow> ulid" where
  "new_id env table rows = env_gen env table (length rows)"

text \<open>\<open>x if x is not None else y\<close>.\<close>

definition or_else :: "'a option \<Rightarrow> 'a option \<Rightarrow> 'a option" where
  "or_else x y = (case x of None \<Rightarrow> y | Some _ \<Rightarrow> x)"

text \<open>
  \<open>audit\<close> adds the row to the session of the caller. The acting user is taken from the
  context, where the empty string stands for nobody. The text of \<open>summary\<close> is not modelled.
\<close>

definition audit_in ::
  "env \<Rightarrow> request_context \<Rightarrow> string \<Rightarrow> string \<Rightarrow> ulid option \<Rightarrow> snapshot option \<Rightarrow> snapshot option
   \<Rightarrow> string option \<Rightarrow> ulid option \<Rightarrow> ulid option \<Rightarrow> db \<Rightarrow> db" where
  "audit_in env ctx action entity_type entity_id before after actor_label org sch s =
     s\<lparr>audit_logs := insert_row
        \<lparr>row_id = new_id env ''audit_logs'' (audit_logs s),
         created_at = env_now env, updated_at = env_now env,
         al_organization_id = or_else org (organization_id ctx),
         al_school_id = or_else sch (school_id ctx),
         al_actor_user_id = (if user_id ctx \<noteq> [] then Some (user_id ctx) else None),
         al_actor_label = actor_label, al_action = action, al_entity_type = entity_type,
         al_entity_id = entity_id, al_before = before, al_after = after,
         al_request_id = (if request_id ctx \<noteq> [] then Some (request_id ctx) else None),
         al_ip_address = ip_address ctx\<rparr> (audit_logs s)\<rparr>"

text \<open>The call without the optional label and tenant arguments.\<close>

abbreviation audit ::
  "env \<Rightarrow> request_context \<Rightarrow> string \<Rightarrow> string \<Rightarrow> ulid option \<Rightarrow> snapshot option \<Rightarrow> snapshot option
   \<Rightarrow> db \<Rightarrow> db" where
  "audit env ctx action entity_type entity_id before after \<equiv>
     audit_in env ctx action entity_type entity_id before after None None None"

section \<open>Outbox rows\<close>

definition publish ::
  "env \<Rightarrow> string \<Rightarrow> payload \<Rightarrow> request_context option \<Rightarrow> ulid option \<Rightarrow> ulid option
   \<Rightarrow> string option \<Rightarrow> ulid option \<Rightarrow> int \<Rightarrow> db \<Rightarrow> db" where
  "publish env event_name pl ctx org sch entity_type entity_id ver s =
     s\<lparr>outbox_events := insert_row
        \<lparr>row_id = new_id env ''outbox_events'' (outbox_events s),
         ob_event_name = event_name, ob_event_version = ver, ob_payload = pl,
         ob_organization_id = or_else org (case ctx of None \<Rightarrow> None | Some c \<Rightarrow> organization_id c),
         ob_school_id = or_else sch (case ctx of None \<Rightarrow> None | Some c \<Rightarrow> school_id c),
         ob_actor_user_id = (case ctx of None \<Rightarrow> None
            | Some c \<Rightarrow> if user_id c \<noteq> [] then Some (user_id c) else None),
         ob_entity_type = entity_type, ob_entity_id = entity_id, ob_status = OB_PENDING,
         ob_attempts = 0, ob_next_attempt_at = None, ob_processed_at = None,
         ob_last_error = None, ob_request_id = map_option request_id ctx,
         ob_locked_by = None, ob_locked_at = None, ob_created_at = env_now env\<rparr>
        (outbox_events s)\<rparr>"

section \<open>The transaction of a request\<close>

text \<open>
  The actions the CHECK constraint of \<open>audit_logs.action\<close> allows once every migration has
  run: the last migration that redefines the constraint is 0022.
\<close>

definition audit_check_actions :: "string list" where
  "audit_check_actions = [''ORGANIZATION_CREATED'', ''ORGANIZATION_UPDATED'',
     ''ORGANIZATION_DELETED'', ''SCHOOL_CREATED'', ''SCHOOL_UPDATED'', ''SCHOOL_DELETED'',
     ''USER_CREATED'', ''USER_UPDATED'', ''USER_DELETED'', ''MEMBERSHIP_CREATED'',
     ''MEMBERSHIP_UPDATED'', ''MEMBERSHIP_ENDED'', ''ROLE_CREATED'', ''ROLE_UPDATED'',
     ''ROLE_DELETED'', ''ROLE_GRANTED'', ''ROLE_REVOKED'', ''PERSON_CREATED'',
     ''PERSON_UPDATED'', ''PERSON_DELETED'', ''PERSON_MERGED'', ''ADDRESS_CREATED'',
     ''ADDRESS_UPDATED'', ''ADDRESS_DELETED'', ''CONTACT_CREATED'', ''CONTACT_UPDATED'',
     ''CONTACT_DELETED'', ''LOGIN_SUCCESS'', ''LOGOUT'', ''PASSWORD_CHANGED'',
     ''PASSWORD_RESET_REQUESTED'', ''PASSWORD_RESET_CONFIRMED'', ''ACADEMIC_YEAR_CREATED'',
     ''ACADEMIC_YEAR_UPDATED'', ''ACADEMIC_YEAR_DELETED'', ''ACADEMIC_TERM_CREATED'',
     ''ACADEMIC_TERM_UPDATED'', ''ACADEMIC_TERM_DELETED'', ''ACADEMIC_CLASS_CREATED'',
     ''ACADEMIC_CLASS_UPDATED'', ''ACADEMIC_CLASS_DELETED'', ''SUBJECT_CREATED'',
     ''SUBJECT_UPDATED'', ''SUBJECT_DELETED'', ''CLASS_SUBJECT_CREATED'',
     ''CLASS_SUBJECT_DELETED'', ''COHORT_CREATED'', ''COHORT_UPDATED'', ''COHORT_DELETED'',
     ''STUDENT_CREATED'', ''STUDENT_UPDATED'', ''STUDENT_DELETED'', ''STUDENT_GUARDIAN_CREATED'',
     ''STUDENT_GUARDIAN_UPDATED'', ''STUDENT_GUARDIAN_DELETED'', ''TEACHER_CREATED'',
     ''TEACHER_UPDATED'', ''TEACHER_DELETED'', ''TEACHER_ASSIGNED'',
     ''TEACHER_ASSIGNMENT_UPDATED'', ''TEACHER_ASSIGNMENT_ENDED'', ''PERIOD_DEFINITION_CREATED'',
     ''PERIOD_DEFINITION_UPDATED'', ''PERIOD_DEFINITION_DELETED'', ''TIMETABLE_SLOT_CREATED'',
     ''TIMETABLE_SLOT_UPDATED'', ''TIMETABLE_SLOT_CANCELLED'', ''ANNOUNCEMENT_CREATED'',
     ''ANNOUNCEMENT_UPDATED'', ''ANNOUNCEMENT_DELETED'', ''ANNOUNCEMENT_PUBLISHED'',
     ''ANNOUNCEMENT_ARCHIVED'', ''ATTENDANCE_SESSION_CREATED'', ''ATTENDANCE_SESSION_UPDATED'',
     ''ATTENDANCE_SESSION_DELETED'', ''ATTENDANCE_SESSION_SUBMITTED'',
     ''ATTENDANCE_SESSION_AMENDED'', ''ATTENDANCE_SESSION_BULK_UPDATED'',
     ''ATTENDANCE_RECORD_UPDATED'', ''ENROLLMENT_CREATED'', ''ENROLLMENT_UPDATED'',
     ''ENROLLMENT_DELETED'', ''IMPORT_JOB_CREATED'', ''IMPORT_JOB_COMPLETED'',
     ''IMPORT_JOB_FAILED'', ''REPORT_EXPORTED'', ''PARENT_CREATED'', ''PARENT_UPDATED'',
     ''PARENT_DELETED'', ''STUDENT_PARENT_LINKED'', ''STUDENT_PARENT_UNLINKED'']"

text \<open>
  A JSONB parameter is serialised with \<open>json.dumps\<close>, which raises TypeError on a date, a
  time or a datetime.
\<close>

fun json_ok :: "jval \<Rightarrow> bool" where
  "json_ok (RawDate _) = False"
| "json_ok (RawDateTime _) = False"
| "json_ok (RawTime _) = False"
| "json_ok _ = True"

definition snapshot_ok :: "snapshot option \<Rightarrow> bool" where
  "snapshot_ok sn = (case sn of None \<Rightarrow> True | Some kvs \<Rightarrow> list_all (\<lambda>(_, v). json_ok v) kvs)"

definition storable :: "audit_log \<Rightarrow> bool" where
  "storable a \<longleftrightarrow> snapshot_ok (al_before a) \<and> snapshot_ok (al_after a)"

definition check_audit_rows :: "audit_log list \<Rightarrow> unit result" where
  "check_audit_rows rows =
     (if \<not> list_all storable rows then Inl (PyError ''TypeError: not JSON serializable'')
      else if \<not> list_all (\<lambda>a. al_action a \<in> set audit_check_actions) rows
      then Inl (IntegrityError ''ck_audit_logs_action'')
      else Inr ())"

text \<open>
  \<open>async with session.begin(): yield session\<close>. When the handler returns, the rows it added
  are flushed and the transaction commits; when it raises, or when that flush fails, nothing
  of the transaction remains. The service's result is \<open>f\<close>'s, and \<open>s\<close> the committed state.
\<close>

definition run_request :: "(db \<Rightarrow> ('a \<times> db) result) \<Rightarrow> db \<Rightarrow> 'a result \<times> db" where
  "run_request f s = (case f s of
     Inl e \<Rightarrow> (Inl e, s)
   | Inr (x, s') \<Rightarrow>
       (case check_audit_rows (drop (length (audit_logs s)) (audit_logs s')) of
          Inl e \<Rightarrow> (Inl e, s)
        | Inr _ \<Rightarrow> (Inr x, s')))"

section \<open>Facts\<close>

text \<open>Writing an audit or outbox row leaves every other table alone.\<close>

lemma audit_simps [simp]:
  "audit_logs (audit_in env ctx a et ei b af l og sc s) = audit_logs s @
     [\<lparr>row_id = new_id env ''audit_logs'' (audit_logs s), created_at = env_now env,
       updated_at = env_now env, al_organization_id = or_else og (organization_id ctx),
       al_school_id = or_else sc (school_id ctx),
       al_actor_user_id = (if user_id ctx \<noteq> [] then Some (user_id ctx) else None),
       al_actor_label = l, al_action = a, al_entity_type = et, al_entity_id = ei,
       al_before = b, al_after = af,
       al_request_id = (if request_id ctx \<noteq> [] then Some (request_id ctx) else None),
       al_ip_address = ip_address ctx\<rparr>]"
  "outbox_events (audit_in env ctx a et ei b af l og sc s) = outbox_events s"
  by (simp_all add: audit_in_def insert_row_def)

lemma audit_other_tables [simp]:
  "schools (audit_in env ctx a et ei b af l og sc s) = schools s"
  "users (audit_in env ctx a et ei b af l og sc s) = users s"
  "memberships (audit_in env ctx a et ei b af l og sc s) = memberships s"
  "permissions_t (audit_in env ctx a et ei b af l og sc s) = permissions_t s"
  "roles (audit_in env ctx a et ei b af l og sc s) = roles s"
  "role_permissions (audit_in env ctx a et ei b af l og sc s) = role_permissions s"
  "membership_roles (audit_in env ctx a et ei b af l og sc s) = membership_roles s"
  "refresh_tokens (audit_in env ctx a et ei b af l og sc s) = refresh_tokens s"
  "login_attempts (audit_in env ctx a et ei b af l og sc s) = login_attempts s"
  "reset_tokens (audit_in env ctx a et ei b af l og sc s) = reset_tokens s"
  "notifications (audit_in env ctx a et ei b af l og sc s) = notifications s"
  "academic_years (audit_in env ctx a et ei b af l og sc s) = academic_years s"
  "cohorts (audit_in env ctx a et ei b af l og sc s) = cohorts s"
  "subjects (audit_in env ctx a et ei b af l og sc s) = subjects s"
  "teachers (audit_in env ctx a et ei b af l og sc s) = teachers s"
  "students (audit_in env ctx a et ei b af l og sc s) = students s"
  "enrollments (audit_in env ctx a et ei b af l og sc s) = enrollments s"
  "parents (audit_in env ctx a et ei b af l og sc s) = parents s"
  "student_parents (audit_in env ctx a et ei b af l og sc s) = student_parents s"
  "timetables (audit_in env ctx a et ei b af l og sc s) = timetables s"
  "period_definitions (audit_in env ctx a et ei b af l og sc s) = period_definitions s"
  "slots (audit_in env ctx a et ei b af l og sc s) = slots s"
  "attendance_sessions (audit_in env ctx a et ei b af l og sc s) = attendance_sessions s"
  "attendance_records (audit_in env ctx a et ei b af l og sc s) = attendance_records s"
  "announcements (audit_in env ctx a et ei b af l og sc s) = announcements s"
  "announcement_targets (audit_in env ctx a et ei b af l og sc s) = announcement_targets s"
  "academic_terms (audit_in env ctx a et ei b af l og sc s) = academic_terms s"
  "academic_classes (audit_in env ctx a et ei b af l og sc s) = academic_classes s"
  "class_subjects (audit_in env ctx a et ei b af l og sc s) = class_subjects s"
  "teacher_assignments (audit_in env ctx a et ei b af l og sc s) = teacher_assignments s"
  "persons (audit_in env ctx a et ei b af l og sc s) = persons s"
  "student_guardians (audit_in env ctx a et ei b af l og sc s) = student_guardians s"
  "organizations (audit_in env ctx a et ei b af l og sc s) = organizations s"
  "addresses (audit_in env ctx a et ei b af l og sc s) = addresses s"
  "contacts (audit_in env ctx a et ei b af l og sc s) = contacts s"
  "documents (audit_in env ctx a et ei b af l og sc s) = documents s"
  "import_jobs (audit_in env ctx a et ei b af l og sc s) = import_jobs s"
  "export_jobs (audit_in env ctx a et ei b af l og sc s) = export_jobs s"
  by (simp_all add: audit_in_def)

lemma publish_other_tables [simp]:
  "schools (publish env n pl c og sc et ei v s) = schools s"
  "users (publish env n pl c og sc et ei v s) = users s"
  "memberships (publish env n pl c og sc et ei v s) = memberships s"
  "permissions_t (publish env n pl c og sc et ei v s) = permissions_t s"
  "roles (publish env n pl c og sc et ei v s) = roles s"
  "role_permissions (publish env n pl c og sc et ei v s) = role_permissions s"
  "membership_roles (publish env n pl c og sc et ei v s) = membership_roles s"
  "refresh_tokens (publish env n pl c og sc et ei v s) = refresh_tokens s"
  "login_attempts (publish env n pl c og sc et ei v s) = login_attempts s"
  "reset_tokens (publish env n pl c og sc et ei v s) = reset_tokens s"
  "notifications (publish env n pl c og sc et ei v s) = notifications s"
  "academic_years (publish env n pl c og sc et ei v s) = academic_years s"
  "cohorts (publish env n pl c og sc et ei v s) = cohorts s"
  "subjects (publish env n pl c og sc et ei v s) = subjects s"
  "teachers (publish env n pl c og sc et ei v s) = teachers s"
  "students (publish env n pl c og sc et ei v s) = students s"
  "enrollments (publish env n pl c og sc et ei v s) = enrollments s"
  "parents (publish env n pl c og sc et ei v s) = parents s"
  "student_parents (publish env n pl c og sc et ei v s) = student_parents s"
  "timetables (publish env n pl c og sc et ei v s) = timetables s"
  "period_definitions (publish env n pl c og sc et ei v s) = period_definitions s"
  "slots (publish env n pl c og sc et ei v s) = slots s"
  "attendance_sessions (publish env n pl c og sc et ei v s) = attendance_sessions s"
  "attendance_records (publish env n pl c og sc et ei v s) = attendance_records s"
  "announcements (publish env n pl c og sc et ei v s) = announcements s"
  "announcement_targets (publish env n pl c og sc et ei v s) = announcement_targets s"
  "academic_terms (publish env n pl c og sc et ei v s) = academic_terms s"
  "academic_classes (publish env n pl c og sc et ei v s) = academic_classes s"
  "class_subjects (publish env n pl c og sc et ei v s) = class_subjects s"
  "teacher_assignments (publish env n pl c og sc et ei v s) = teacher_assignments s"
  "persons (publish env n pl c og sc et ei v s) = persons s"
  "student_guardians (publish env n pl c og sc et ei v s) = student_guardians s"
  "organizations (publish env n pl c og sc et ei v s) = organizations s"
  "addresses (publish env n pl c og sc et ei v s) = addresses s"
  "contacts (publish env n pl c og sc et ei v s) = contacts s"
  "documents (publish env n pl c og sc et ei v s) = documents s"
  "import_jobs (publish env n pl c og sc et ei v s) = import_jobs s"
  "export_jobs (publish env n pl c og sc et ei v s) = export_jobs s"
  "audit_logs (publish env n pl c og sc et ei v s) = audit_logs s"
  by (simp_all add: publish_def)

lemma run_request_error: "f s = Inl e \<Longrightarrow> run_request f s = (Inl e, s)"
  by (simp add: run_request_def)

lemma run_request_cases:
  "run_request f s = (r, s2) \<Longrightarrow>
     (\<exists>e. r = Inl e \<and> s2 = s) \<or>
     (\<exists>x. r = Inr x \<and> f s = Inr (x, s2) \<and>
          check_audit_rows (drop (length (audit_logs s)) (audit_logs s2)) = Inr ())"
  by (auto simp: run_request_def split: sum.splits prod.splits)

lemma check_audit_rows_Inr:
  "check_audit_rows rows = Inr u \<longleftrightarrow>
     (\<forall>a \<in> set rows. storable a \<and> al_action a \<in> set audit_check_actions)"
  by (auto simp: check_audit_rows_def list_all_iff)

text \<open>A request that must write an audit row the constraint refuses can never commit.\<close>

lemma run_request_refused:
  assumes "\<And>x s'. f s = Inr (x, s') \<Longrightarrow>
      \<exists>a \<in> set (drop (length (audit_logs s)) (audit_logs s')).
        \<not> (storable a \<and> al_action a \<in> set audit_check_actions)"
  shows "snd (run_request f s) = s \<and> \<not> is_ok (fst (run_request f s))"
proof (cases "f s")
  case (Inr p)
  obtain x s' where p: "p = (x, s')" by fastforce
  with assms Inr have "check_audit_rows (drop (length (audit_logs s)) (audit_logs s')) \<noteq> Inr ()"
    by (metis check_audit_rows_Inr)
  then show ?thesis
    by (cases "check_audit_rows (drop (length (audit_logs s)) (audit_logs s'))")
      (simp_all add: run_request_def Inr p)
qed (simp add: run_request_def)

lemma refused_action:
  assumes "\<And>x s'. f s = Inr (x, s') \<Longrightarrow> \<exists>a rows. al_action a \<notin> set audit_check_actions \<and>
    audit_logs s' = audit_logs s @ rows @ [a]"
  shows "snd (run_request f s) = s \<and> \<not> is_ok (fst (run_request f s))"
  by (rule run_request_refused) (use assms in fastforce)

section \<open>Contexts for concrete runs\<close>

definition anon_context :: request_context where
  "anon_context = get_public_context \<lparr>rq_authorization = None, rq_school_header = None,
     rq_forwarded_for = None, rq_client_host = None, rq_request_id = ''q''\<rparr>"

text \<open>A user of the organization \<open>o\<close> working in the school \<open>s\<close>.\<close>

definition school_context :: request_context where
  "school_context = anon_context\<lparr>user_id := ''u'', organization_id := Some ''o'', school_id := Some ''s''\<rparr>"

lemma school_context_fields [simp]:
  "school_id school_context = Some ''s''" "organization_id school_context = Some ''o''"
  "user_id school_context = ''u''"
  by (simp_all add: school_context_def)

definition sample_audit_env :: env where
  "sample_audit_env = \<lparr>env_now = 1, env_today = 1, env_gen = (\<lambda>t n. t @ replicate n CHR ''+'')\<rparr>"

end
