(* ===== verification/Channels.thy ===== *)
theory Channels
  imports Platform "HOL-Library.AList"
begin

text \<open>
  Delivery of notifications: the channels of \<open>app/workers/channels.py\<close>, the interface they
  implement, the in-app channel and the two stubs, and the event handlers of
  \<open>app/workers/handlers.py\<close>, which choose the recipients and fan a message out.
\<close>

section \<open>Messages and providers\<close>

record channel_message =
  cm_user_id :: ulid
  cm_organization_id :: ulid
  cm_school_id :: "ulid option"
  cm_type :: notification_type
  cm_title :: string
  cm_body :: "string option"
  cm_entity_type :: "string option"
  cm_entity_id :: "ulid option"
  cm_dedupe_key :: string

text \<open>
  \<open>send\<close> of a provider: it may change the database, and it may raise after having done so.
\<close>

type_synonym provider = "env \<Rightarrow> channel_message \<Rightarrow> db \<Rightarrow> unit result \<times> db"

section \<open>The in-app channel\<close>

definition same_notification :: "channel_message \<Rightarrow> notification \<Rightarrow> bool" where
  "same_notification m n \<longleftrightarrow>
     no_user_id n = cm_user_id m \<and> no_organization_id n = cm_organization_id m \<and>
     no_type n = cm_type m \<and> no_related_entity_type n = cm_entity_type m \<and>
     no_related_entity_id n = cm_entity_id m"

definition notification_of :: "env \<Rightarrow> channel_message \<Rightarrow> db \<Rightarrow> notification" where
  "notification_of env m s =
     \<lparr>row_id = new_id env ''notifications'' (notifications s), created_at = env_now env,
      updated_at = env_now env, no_user_id = cm_user_id m, no_school_id = cm_school_id m,
      no_organization_id = cm_organization_id m, no_type = cm_type m, no_title = cm_title m,
      no_body = cm_body m, no_related_entity_type = cm_entity_type m,
      no_related_entity_id = cm_entity_id m, no_is_read = False, no_read_at = None\<rparr>"

definition in_app_send :: provider where
  "in_app_send env m s =
     (case find (same_notification m) (notifications s) of
        Some _ \<Rightarrow> (Inr (), s)
      | None \<Rightarrow> (Inr (), s\<lparr>notifications := insert_row (notification_of env m s) (notifications s)\<rparr>))"

text \<open>The stubs log and return.\<close>

definition email_stub_send :: provider where
  "email_stub_send env m s = (Inr (), s)"

definition whatsapp_stub_send :: provider where
  "whatsapp_stub_send env m s = (Inr (), s)"

section \<open>The registry\<close>

text \<open>A dict of providers by name: registering a name again replaces the provider in place.\<close>

type_synonym channel_registry = "(string \<times> provider) list"

definition register_channel :: "string \<Rightarrow> provider \<Rightarrow> channel_registry \<Rightarrow> channel_registry" where
  "register_channel name p reg = AList.update name p reg"

definition unregister_channel :: "string \<Rightarrow> channel_registry \<Rightarrow> channel_registry" where
  "unregister_channel name reg = AList.delete name reg"

fun broadcast_to :: "provider list \<Rightarrow> provider" where
  "broadcast_to [] env m s = (Inr (), s)"
| "broadcast_to (p # ps) env m s = (case p env m s of
     (Inl e, s') \<Rightarrow> (Inl e, s')
   | (Inr _, s') \<Rightarrow> broadcast_to ps env m s')"

definition broadcast :: "channel_registry \<Rightarrow> provider" where
  "broadcast reg = broadcast_to (map snd reg)"

definition default_registry :: channel_registry where
  "default_registry = register_channel ''inapp'' in_app_send []"

text \<open>The loop of a handler over its recipients: the first provider that raises ends it.\<close>

fun fan_out :: "provider \<Rightarrow> env \<Rightarrow> channel_message list \<Rightarrow> db \<Rightarrow> unit result \<times> db" where
  "fan_out send env [] s = (Inr (), s)"
| "fan_out send env (m # ms) s = (case send env m s of
     (Inl e, s') \<Rightarrow> (Inl e, s')
   | (Inr _, s') \<Rightarrow> fan_out send env ms s')"

section \<open>The interface of a channel\<close>

text \<open>
  What the docstring of \<open>ChannelProvider.send\<close> asks for: a successful send leaves the
  message delivered, a delivered message is not sent again, and no other send undoes it.
\<close>

locale channel_provider =
  fixes send :: provider
    and delivered :: "channel_message \<Rightarrow> db \<Rightarrow> bool"
  assumes send_delivers: "send env m s = (Inr u, s') \<Longrightarrow> delivered m s'"
    and send_again: "delivered m s \<Longrightarrow> send env m s = (Inr (), s)"
    and send_keeps: "delivered m s \<Longrightarrow> delivered m (snd (send env' m' s))"
begin

lemma fan_out_keeps: "delivered m s \<Longrightarrow> delivered m (snd (fan_out send env ms s))"
proof (induction ms arbitrary: s)
  case (Cons a ms)
  from Cons.prems have d: "delivered m (snd (send env a s))" by (rule send_keeps)
  obtain r s' where r: "send env a s = (r, s')" by fastforce
  with d Cons.IH[of s'] show ?case by (cases r) simp_all
qed simp

lemma fan_out_delivers:
  "fan_out send env ms s = (Inr u, s') \<Longrightarrow> m \<in> set ms \<Longrightarrow> delivered m s'"
proof (induction ms arbitrary: s)
  case (Cons a ms)
  obtain r t where r: "send env a s = (r, t)" by fastforce
  with Cons.prems(1) obtain v where rv: "r = Inr v" and rest: "fan_out send env ms t = (Inr u, s')"
    by (cases r) auto
  show ?case
  proof (cases "m = a")
    case True
    with r rv have "delivered m t" by (blast intro: send_delivers)
    with fan_out_keeps[of m t env ms] rest show ?thesis by simp
  next
    case False
    with Cons.prems(2) rest show ?thesis by (intro Cons.IH) auto
  qed
qed simp

lemma fan_out_all_delivered: "\<forall>m \<in> set ms. delivered m s \<Longrightarrow> fan_out send env ms s = (Inr (), s)"
  by (induction ms) (auto simp: send_again)

text \<open>At-least-once delivery has the effect of exactly one delivery.\<close>

lemma fan_out_again:
  assumes "fan_out send env ms s = (Inr u, s')" and "set ms' \<subseteq> set ms"
  shows "fan_out send env' ms' s' = (Inr (), s')"
  using assms by (intro fan_out_all_delivered) (blast intro: fan_out_delivers)

end

text \<open>A registry of two channels is itself a channel, when neither undoes the other's work.\<close>

locale channel_pair =
  a: channel_provider send_a delivered_a + b: channel_provider send_b delivered_b
  for send_a :: provider and delivered_a and send_b :: provider and delivered_b +
  assumes b_keeps_a: "delivered_a m s \<Longrightarrow> delivered_a m (snd (send_b env' m' s))"
    and a_keeps_b: "delivered_b m s \<Longrightarrow> delivered_b m (snd (send_a env' m' s))"
begin

lemma pair_delivers:
  "broadcast_to [send_a, send_b] env m s = (Inr u, s') \<Longrightarrow> delivered_a m s' \<and> delivered_b m s'"
  using b_keeps_a[of m "snd (send_a env m s)" env m]
  by (auto split: prod.splits sum.splits dest: a.send_delivers b.send_delivers)

lemma pair_again:
  "delivered_a m s \<Longrightarrow> delivered_b m s \<Longrightarrow> broadcast_to [send_a, send_b] env m s = (Inr (), s)"
  by (simp add: a.send_again b.send_again)

lemma pair_keeps:
  "delivered_a m s \<and> delivered_b m s \<Longrightarrow>
     delivered_a m (snd (broadcast_to [send_a, send_b] env' m' s)) \<and>
     delivered_b m (snd (broadcast_to [send_a, send_b] env' m' s))"
proof -
  assume d: "delivered_a m s \<and> delivered_b m s"
  obtain r t where r: "send_a env' m' s = (r, t)" by fastforce
  have t: "delivered_a m t" "delivered_b m t"
    using d r a.send_keeps[of m s env' m'] a_keeps_b[of m s env' m'] by simp_all
  then have "delivered_a m (snd (send_b env' m' t))" "delivered_b m (snd (send_b env' m' t))"
    using b_keeps_a b.send_keeps by blast+
  with r t show ?thesis by (auto split: prod.splits sum.splits)
qed

end

sublocale channel_pair \<subseteq> pair: channel_provider
  "broadcast_to [send_a, send_b]" "\<lambda>m s. delivered_a m s \<and> delivered_b m s"
  by unfold_locales (erule pair_delivers, erule conjE, rule pair_again, assumption+, rule pair_keeps)

text \<open>The in-app channel: delivered means the row is there.\<close>

definition in_app_delivered :: "channel_message \<Rightarrow> db \<Rightarrow> bool" where
  "in_app_delivered m s \<longleftrightarrow> (\<exists>n \<in> set (notifications s). same_notification m n)"

lemma same_notification_of: "same_notification m (notification_of env m s)"
  by (simp add: same_notification_def notification_of_def)

lemma in_app_send_eq:
  "in_app_send env m s = (Inr (), if in_app_delivered m s then s
     else s\<lparr>notifications := notifications s @ [notification_of env m s]\<rparr>)"
proof (cases "find (same_notification m) (notifications s)")
  case None
  then have "\<not> in_app_delivered m s" by (auto simp: in_app_delivered_def find_None_iff)
  with None show ?thesis by (simp add: in_app_send_def insert_row_def)
next
  case (Some n)
  then have "in_app_delivered m s" unfolding in_app_delivered_def by (blast dest: find_SomeD)
  with Some show ?thesis by (simp add: in_app_send_def)
qed

interpretation inapp: channel_provider in_app_send in_app_delivered
  by unfold_locales
    (auto simp: in_app_send_eq in_app_delivered_def same_notification_of split: if_splits)

interpretation email: channel_provider email_stub_send "\<lambda>_ _. True"
  by unfold_locales (simp_all add: email_stub_send_def)

interpretation whatsapp: channel_provider whatsapp_stub_send "\<lambda>_ _. True"
  by unfold_locales (simp_all add: whatsapp_stub_send_def)

interpretation inapp_email: channel_pair in_app_send in_app_delivered email_stub_send "\<lambda>_ _. True"
  by unfold_locales (simp_all add: email_stub_send_def)

lemma broadcast_default [simp]: "broadcast default_registry = in_app_send"
proof (intro ext)
  fix env m s
  show "broadcast default_registry env m s = in_app_send env m s"
    by (cases "in_app_send env m s")
      (auto simp: broadcast_def default_registry_def register_channel_def split: sum.splits)
qed

lemma in_app_fan_out_ok: "\<exists>s'. fan_out in_app_send env ms s = (Inr (), s')"
  by (induction ms arbitrary: s) (simp_all add: in_app_send_eq)

end
