(* ===== verification/Handlers.thy ===== *)
theory Handlers
  imports Channels Principal
begin

text \<open>
  \<open>app/workers/handlers.py\<close>: from an outbox event to its recipients and their messages.
  A query with DISTINCT is a list without repetitions, in the order of the table.
\<close>

record envelope =
  ev_event_id :: ulid
  ev_event_name :: string
  ev_organization_id :: "ulid option"
  ev_school_id :: "ulid option"
  ev_entity_type :: "string option"
  ev_entity_id :: "ulid option"

text \<open>\<open>payload.get(key)\<close> for the keys the handlers look up.\<close>

fun get_announcement_id :: "payload \<Rightarrow> ulid option" where
  "get_announcement_id (AnnouncementPayload i _ _ _) = i"
| "get_announcement_id _ = None"

fun get_title :: "payload \<Rightarrow> string option" where
  "get_title (AnnouncementPayload _ t _ _) = t"
| "get_title _ = None"

fun get_priority :: "payload \<Rightarrow> string option" where
  "get_priority (AnnouncementPayload _ _ p _) = p"
| "get_priority _ = None"

fun get_targets :: "payload \<Rightarrow> target_ref list" where
  "get_targets (AnnouncementPayload _ _ _ ts) = ts"
| "get_targets _ = []"

fun get_session_id :: "payload \<Rightarrow> ulid option" where
  "get_session_id (AttendancePayload i _ _) = i"
| "get_session_id _ = None"

fun get_session_date :: "payload \<Rightarrow> date option" where
  "get_session_date (AttendancePayload _ _ d) = d"
| "get_session_date _ = None"

section \<open>Recipients\<close>

definition active_account :: "db \<Rightarrow> ulid \<Rightarrow> bool" where
  "active_account s uid = list_ex
     (\<lambda>u. row_id u = uid \<and> us_status u = US_ACTIVE \<and> deleted_at u = None) (users s)"

definition covers :: "ulid \<Rightarrow> ulid \<Rightarrow> membership \<Rightarrow> bool" where
  "covers org sch m \<longleftrightarrow>
     mb_organization_id m = org \<and> mb_status m = MS_ACTIVE \<and>
     (mb_school_id m = Some sch \<or> mb_school_id m = None)"

definition active_user_ids_in_school :: "db \<Rightarrow> ulid \<Rightarrow> ulid \<Rightarrow> ulid list" where
  "active_user_ids_in_school s org sch =
     remdups (map mb_user_id
       (filter (\<lambda>m. covers org sch m \<and> active_account s (mb_user_id m)) (memberships s)))"

definition holds_role_code :: "db \<Rightarrow> string set \<Rightarrow> membership \<Rightarrow> bool" where
  "holds_role_code s codes m = list_ex (\<lambda>l. mr_membership_id l = row_id m \<and>
     list_ex (\<lambda>r. row_id r = mr_role_id l \<and> ro_code r \<in> codes) (roles s)) (membership_roles s)"

definition user_ids_with_role_codes :: "db \<Rightarrow> ulid \<Rightarrow> ulid \<Rightarrow> string set \<Rightarrow> ulid list" where
  "user_ids_with_role_codes s org sch codes =
     remdups (map mb_user_id
       (filter (\<lambda>m. covers org sch m \<and> active_account s (mb_user_id m) \<and> holds_role_code s codes m)
          (memberships s)))"

definition role_targets :: "payload \<Rightarrow> string set" where
  "role_targets pl = set (List.map_filter
     (\<lambda>t. if py_upper (tr_type t) = ''ROLE'' \<and> truthy (tr_id t)
          then Some (py_upper (the (tr_id t))) else None) (get_targets pl))"

definition announcement_recipients :: "db \<Rightarrow> ulid \<Rightarrow> ulid \<Rightarrow> payload \<Rightarrow> ulid list" where
  "announcement_recipients s org sch pl =
     (if role_targets pl \<noteq> {} then user_ids_with_role_codes s org sch (role_targets pl)
      else active_user_ids_in_school s org sch)"

text \<open>The three queries of the attendance handler, each empty result ending it.\<close>

definition session_student_ids :: "db \<Rightarrow> ulid \<Rightarrow> ulid \<Rightarrow> ulid list" where
  "session_student_ids s sess sch = remdups (map ar_student_id
     (filter (\<lambda>r. ar_session_id r = sess \<and> ar_school_id r = sch) (attendance_records s)))"

definition parent_person_ids :: "db \<Rightarrow> ulid list \<Rightarrow> ulid \<Rightarrow> ulid list" where
  "parent_person_ids s student_ids sch = remdups (map pa_person_id
     (filter (\<lambda>p. deleted_at p = None \<and>
        list_ex (\<lambda>l. sp_parent_id l = row_id p \<and> sp_student_id l \<in> set student_ids \<and>
                     sp_school_id l = sch) (student_parents s)) (parents s)))"

definition account_ids_of_persons :: "db \<Rightarrow> ulid list \<Rightarrow> ulid list" where
  "account_ids_of_persons s person_ids = map row_id
     (filter (\<lambda>u. (case us_person_id u of None \<Rightarrow> False | Some p \<Rightarrow> p \<in> set person_ids) \<and>
        us_status u = US_ACTIVE \<and> deleted_at u = None) (users s))"

definition attendance_recipients :: "db \<Rightarrow> ulid \<Rightarrow> ulid \<Rightarrow> ulid list" where
  "attendance_recipients s sess sch =
     account_ids_of_persons s (parent_person_ids s (session_student_ids s sess sch) sch)"

section \<open>The handlers\<close>

type_synonym handler = "env \<Rightarrow> provider \<Rightarrow> payload \<Rightarrow> envelope \<Rightarrow> db \<Rightarrow> nat result \<times> db"

definition announcement_message :: "payload \<Rightarrow> envelope \<Rightarrow> ulid \<Rightarrow> ulid \<Rightarrow> ulid \<Rightarrow> channel_message" where
  "announcement_message pl ev org sch uid =
     \<lparr>cm_user_id = uid, cm_organization_id = org, cm_school_id = Some sch,
      cm_type = NT_ANNOUNCEMENT,
      cm_title = (if truthy (get_title pl) then the (get_title pl) else ''New announcement''),
      cm_body = Some (''Priority: '' @ (case get_priority pl of Some p \<Rightarrow> p | None \<Rightarrow> ''NORMAL'')),
      cm_entity_type = Some ''announcement'', cm_entity_id = get_announcement_id pl,
      cm_dedupe_key = ''ANNOUNCEMENT_PUBLISHED:'' @ ev_event_id ev @ '':'' @ uid\<rparr>"

definition attendance_message :: "payload \<Rightarrow> envelope \<Rightarrow> ulid \<Rightarrow> ulid \<Rightarrow> ulid \<Rightarrow> ulid \<Rightarrow> channel_message" where
  "attendance_message pl ev org sch sess uid =
     \<lparr>cm_user_id = uid, cm_organization_id = org, cm_school_id = Some sch,
      cm_type = NT_ATTENDANCE,
      cm_title = ''Attendance submitted'' @
        (case get_session_date pl of Some d \<Rightarrow> '' for '' @ iso_date d | None \<Rightarrow> []),
      cm_body = Some ''Your child's attendance has been recorded.'',
      cm_entity_type = Some ''attendance_session'', cm_entity_id = Some sess,
      cm_dedupe_key = ''ATTENDANCE_SUBMITTED:'' @ ev_event_id ev @ '':'' @ uid\<rparr>"

definition send_all :: "env \<Rightarrow> provider \<Rightarrow> channel_message list \<Rightarrow> db \<Rightarrow> nat result \<times> db" where
  "send_all env send ms s = (case fan_out send env ms s of
     (Inl e, s') \<Rightarrow> (Inl e, s')
   | (Inr _, s') \<Rightarrow> (Inr (length ms), s'))"

definition handle_announcement_published :: handler where
  "handle_announcement_published env send pl ev s =
     (if \<not> truthy (ev_organization_id ev) \<or> \<not> truthy (ev_school_id ev) then (Inr 0, s)
      else
        let org = the (ev_organization_id ev); sch = the (ev_school_id ev) in
        send_all env send
          (map (announcement_message pl ev org sch) (announcement_recipients s org sch pl)) s)"

definition handle_attendance_submitted :: handler where
  "handle_attendance_submitted env send pl ev s =
     (let sess = (if truthy (get_session_id pl) then get_session_id pl else ev_entity_id ev) in
      if \<not> truthy (ev_organization_id ev) \<or> \<not> truthy (ev_school_id ev) \<or> \<not> truthy sess
      then (Inr 0, s)
      else
        let org = the (ev_organization_id ev); sch = the (ev_school_id ev) in
        if session_student_ids s (the sess) sch = [] then (Inr 0, s)
        else if parent_person_ids s (session_student_ids s (the sess) sch) sch = [] then (Inr 0, s)
        else send_all env send
          (map (attendance_message pl ev org sch (the sess)) (attendance_recipients s (the sess) sch)) s)"

definition handler_for :: "string \<Rightarrow> handler option" where
  "handler_for name =
     (if name = ''ANNOUNCEMENT_PUBLISHED'' then Some handle_announcement_published
      else if name = ''ATTENDANCE_SUBMITTED'' then Some handle_attendance_submitted
      else None)"

section \<open>Facts\<close>

text \<open>
  The in-app channel changes the notifications only, and neither handler's recipients
  depend on them.
\<close>

lemma in_app_send_tables:
  "\<exists>ns. snd (in_app_send env m s) = s\<lparr>notifications := notifications s @ ns\<rparr>"
  by (cases "in_app_delivered m s") (auto simp: in_app_send_eq intro: exI[of _ "[]"])

lemma fan_out_in_app_Cons:
  "fan_out in_app_send env (m # ms) s = fan_out in_app_send env ms (snd (in_app_send env m s))"
proof -
  obtain t where "in_app_send env m s = (Inr (), t)" by (simp add: in_app_send_eq)
  then show ?thesis by simp
qed

lemma in_app_fan_out_tables:
  "\<exists>ns. snd (fan_out in_app_send env ms s) = s\<lparr>notifications := notifications s @ ns\<rparr>"
proof (induction ms arbitrary: s)
  case (Cons m ms)
  obtain ns where ns: "in_app_send env m s = (Inr (), s\<lparr>notifications := notifications s @ ns\<rparr>)"
    using in_app_send_tables[of env m s] by (auto simp: in_app_send_eq)
  then show ?case using Cons.IH[of "s\<lparr>notifications := notifications s @ ns\<rparr>"] by auto
qed (simp add: exI[of _ "[]"])

lemma recipients_notifications [simp]:
  "announcement_recipients (s\<lparr>notifications := ns\<rparr>) org sch pl = announcement_recipients s org sch pl"
  "attendance_recipients (s\<lparr>notifications := ns\<rparr>) sess sch = attendance_recipients s sess sch"
  "session_student_ids (s\<lparr>notifications := ns\<rparr>) sess sch = session_student_ids s sess sch"
  "parent_person_ids (s\<lparr>notifications := ns\<rparr>) sids sch = parent_person_ids s sids sch"
  by (simp_all add: announcement_recipients_def user_ids_with_role_codes_def
      active_user_ids_in_school_def active_account_def holds_role_code_def
      attendance_recipients_def account_ids_of_persons_def parent_person_ids_def
      session_student_ids_def)

lemma send_all_in_app:
  "\<exists>ns. send_all env in_app_send ms s = (Inr (length ms), s\<lparr>notifications := notifications s @ ns\<rparr>)"
  using in_app_fan_out_tables[of env ms s] in_app_fan_out_ok[of env ms s]
  by (auto simp: send_all_def)

lemma send_all_again:
  assumes "send_all env in_app_send ms s = (Inr n, s')"
  shows "send_all env' in_app_send ms s' = (Inr n, s')"
proof -
  obtain t where t: "fan_out in_app_send env ms s = (Inr (), t)"
    using in_app_fan_out_ok by blast
  with assms have s': "s' = t" and n: "n = length ms" by (simp_all add: send_all_def)
  show ?thesis unfolding s' n using inapp.fan_out_again[OF t order_refl] by (simp add: send_all_def)
qed

lemma handle_attendance_submitted_eq:
  "handle_attendance_submitted env send pl ev s =
     (let sess = (if truthy (get_session_id pl) then get_session_id pl else ev_entity_id ev);
          org = the (ev_organization_id ev); sch = the (ev_school_id ev) in
      if \<not> truthy (ev_organization_id ev) \<or> \<not> truthy (ev_school_id ev) \<or> \<not> truthy sess
      then (Inr 0, s)
      else send_all env send
          (map (attendance_message pl ev org sch (the sess)) (attendance_recipients s (the sess) sch)) s)"
proof -
  have "attendance_recipients s sess sch = []"
    if "session_student_ids s sess sch = [] \<or> parent_person_ids s (session_student_ids s sess sch) sch = []"
    for sess sch
    using that by (auto simp: attendance_recipients_def account_ids_of_persons_def
        parent_person_ids_def filter_empty_conv list_ex_iff split: option.splits)
  then show ?thesis by (simp add: handle_attendance_submitted_def Let_def send_all_def)
qed

text \<open>A handler that fans out over recipients no notification can change is repeatable.\<close>

lemma guarded_again:
  assumes "(if c then (Inr 0, s) else send_all env in_app_send (ms s) s) = (Inr n, s')"
    and "\<And>ns. ms (s\<lparr>notifications := ns\<rparr>) = ms s"
  shows "(if c then (Inr 0, s') else send_all env' in_app_send (ms s') s') = (Inr n, s')"
proof (cases c)
  case False
  with assms(1) have run: "send_all env in_app_send (ms s) s = (Inr n, s')" by simp
  then obtain ns where "s' = s\<lparr>notifications := ns\<rparr>"
    using send_all_in_app[of env "ms s" s] by auto
  with assms(2) have "ms s' = ms s" by simp
  with send_all_again[OF run] False show ?thesis by simp
qed (use assms(1) in simp)

lemma announcement_recipients_iff:
  "uid \<in> set (announcement_recipients s org sch pl) \<longleftrightarrow>
     active_account s uid \<and> (\<exists>m \<in> set (memberships s). mb_user_id m = uid \<and> covers org sch m \<and>
       (role_targets pl \<noteq> {} \<longrightarrow> holds_role_code s (role_targets pl) m))"
  by (auto simp: announcement_recipients_def user_ids_with_role_codes_def active_user_ids_in_school_def)

lemma in_app_new_rows:
  "n \<in> set (notifications (snd (fan_out in_app_send env ms s))) \<Longrightarrow> n \<notin> set (notifications s) \<Longrightarrow>
     \<exists>m \<in> set ms. same_notification m n"
proof (induction ms arbitrary: s)
  case (Cons a ms)
  let ?s = "snd (in_app_send env a s)"
  have n: "n \<in> set (notifications (snd (fan_out in_app_send env ms ?s)))"
    using Cons.prems(1) unfolding fan_out_in_app_Cons .
  show ?case
  proof (cases "n \<in> set (notifications ?s)")
    case True
    with Cons.prems(2) have "n = notification_of env a s"
      by (auto simp: in_app_send_eq split: if_splits)
    then show ?thesis by (auto simp: same_notification_of)
  next
    case False
    with Cons.IH[OF n] show ?thesis by auto
  qed
qed simp

section \<open>Properties\<close>

text \<open>
  Who a published announcement is for, read off the tables: the active accounts with an active membership of the
  organization, in the school or in all of it, and, when the payload targets roles, with a targeted role given to
  that membership.
\<close>

definition audience :: "db \<Rightarrow> ulid \<Rightarrow> ulid \<Rightarrow> payload \<Rightarrow> ulid set" where
  "audience s org sch pl = {uid.
     (\<exists>u \<in> set (users s). row_id u = uid \<and> us_status u = US_ACTIVE \<and> deleted_at u = None) \<and>
     (\<exists>m \<in> set (memberships s). mb_user_id m = uid \<and> mb_organization_id m = org \<and> mb_status m = MS_ACTIVE \<and>
        mb_school_id m \<in> {Some sch, None} \<and>
        (let codes = {py_upper i |t i. t \<in> set (get_targets pl) \<and> py_upper (tr_type t) = ''ROLE'' \<and> tr_id t = Some i \<and> i \<noteq> []} in
         codes = {} \<or> (\<exists>l \<in> set (membership_roles s). \<exists>r \<in> set (roles s).
           mr_membership_id l = row_id m \<and> row_id r = mr_role_id l \<and> ro_code r \<in> codes)))}"

lemma role_targets_codes:
  "role_targets pl = {py_upper i |t i. t \<in> set (get_targets pl) \<and> py_upper (tr_type t) = ''ROLE'' \<and> tr_id t = Some i \<and> i \<noteq> []}"
  by (force simp: role_targets_def map_filter_def truthy_def split: option.splits)

lemma audience_recipients: "set (announcement_recipients s org sch pl) = audience s org sch pl"
  unfolding set_eq_iff announcement_recipients_iff audience_def role_targets_codes[symmetric] Let_def
  by (auto simp: active_account_def covers_def holds_role_code_def list_ex_iff)

lemma distinct_announcement_recipients: "distinct (announcement_recipients s org sch pl)"
  by (simp add: announcement_recipients_def user_ids_with_role_codes_def active_user_ids_in_school_def)

text \<open>
  C5. A published announcement reaches exactly its audience: the handler succeeds with the number of its members,
  each of them has a notification of the announcement afterwards, and every row it adds is such a
  notification, in that organization, for one of them.
\<close>

theorem announcement_reaches_audience:
  assumes "ev_organization_id ev = Some org" "org \<noteq> []" "ev_school_id ev = Some sch" "sch \<noteq> []"
  shows "\<exists>s'. handle_announcement_published env (broadcast default_registry) pl ev s =
      (Inr (card (audience s org sch pl)), s') \<and>
    (\<forall>uid \<in> audience s org sch pl.
       \<exists>n \<in> set (notifications s'). no_user_id n = uid \<and> no_type n = NT_ANNOUNCEMENT \<and>
          no_related_entity_id n = get_announcement_id pl) \<and>
    (\<forall>n \<in> set (notifications s') - set (notifications s).
       no_user_id n \<in> audience s org sch pl \<and> no_organization_id n = org \<and> no_type n = NT_ANNOUNCEMENT \<and>
       no_related_entity_id n = get_announcement_id pl)"
proof -
  let ?us = "announcement_recipients s org sch pl"
  let ?ms = "map (announcement_message pl ev org sch) ?us"
  obtain s' where f: "fan_out in_app_send env ?ms s = (Inr (), s')"
    using in_app_fan_out_ok by blast
  have "length ?us = card (audience s org sch pl)"
    using distinct_card[OF distinct_announcement_recipients] by (simp add: audience_recipients)
  then have run: "handle_announcement_published env (broadcast default_registry) pl ev s =
      (Inr (card (audience s org sch pl)), s')"
    using assms f by (simp add: handle_announcement_published_def truthy_def send_all_def Let_def)
  have got: "\<exists>n \<in> set (notifications s'). no_user_id n = uid \<and> no_type n = NT_ANNOUNCEMENT \<and>
      no_related_entity_id n = get_announcement_id pl" if "uid \<in> audience s org sch pl" for uid
  proof -
    have "uid \<in> set ?us" using that by (simp add: audience_recipients)
    then have "in_app_delivered (announcement_message pl ev org sch uid) s'"
      by (intro inapp.fan_out_delivers[OF f]) simp
    then show ?thesis
      by (auto simp: in_app_delivered_def same_notification_def announcement_message_def)
  qed
  have new: "no_user_id n \<in> audience s org sch pl \<and> no_organization_id n = org \<and> no_type n = NT_ANNOUNCEMENT \<and>
      no_related_entity_id n = get_announcement_id pl"
    if "n \<in> set (notifications s') - set (notifications s)" for n
    using in_app_new_rows[of n env ?ms s] that f
    by (auto simp: same_notification_def announcement_message_def audience_recipients[symmetric])
  show ?thesis using run got new by blast
qed

definition sample_school_db :: db where
  "sample_school_db = empty_db\<lparr>users := [blank_user ''U1'', blank_user ''U2''],
     memberships := [(blank_membership ''M1'')\<lparr>mb_user_id := ''U1'', mb_organization_id := ''O'', mb_school_id := Some ''S''\<rparr>,
       (blank_membership ''M2'')\<lparr>mb_user_id := ''U2'', mb_organization_id := ''P''\<rparr>]\<rparr>"

definition sample_envelope :: envelope where
  "sample_envelope = \<lparr>ev_event_id = ''E'', ev_event_name = ''ANNOUNCEMENT_PUBLISHED'',
     ev_organization_id = Some ''O'', ev_school_id = Some ''S'', ev_entity_type = None, ev_entity_id = None\<rparr>"

lemma sample_recipients:
  "announcement_recipients sample_school_db ''O'' ''S'' EmptyPayload = [''U1'']"
  by (simp add: announcement_recipients_def role_targets_def List.map_filter_simps
      active_user_ids_in_school_def sample_school_db_def empty_db_def blank_defs covers_def active_account_def)

lemma announcement_reaches_audience_witness:
  "\<exists>s'. handle_announcement_published sample_audit_env (broadcast default_registry) EmptyPayload
      sample_envelope sample_school_db = (Inr 1, s') \<and> (\<exists>n \<in> set (notifications s'). no_user_id n = ''U1'')"
proof -
  have h: "ev_organization_id sample_envelope = Some ''O''" "''O'' \<noteq> []"
    "ev_school_id sample_envelope = Some ''S''" "''S'' \<noteq> []"
    by (simp_all add: sample_envelope_def)
  have a: "audience sample_school_db ''O'' ''S'' EmptyPayload = {''U1''}"
    using audience_recipients[of sample_school_db "''O''" "''S''" EmptyPayload] by (simp add: sample_recipients)
  show ?thesis
    using announcement_reaches_audience[OF h, of sample_audit_env EmptyPayload sample_school_db]
    unfolding a by auto
qed

text \<open>
  C4. Redelivery is harmless: handling the same event again, at any later time, changes
  nothing and counts the same recipients, for both events the program publishes.
\<close>

theorem redelivery_is_noop:
  assumes "handler_for name = Some h"
    and "h env (broadcast default_registry) pl ev s = (Inr n, s')"
  shows "h env' (broadcast default_registry) pl ev s' = (Inr n, s')"
proof -
  consider "h = handle_announcement_published" | "h = handle_attendance_submitted"
    using assms(1) by (auto simp: handler_for_def split: if_splits)
  then show ?thesis
  proof cases
    case 1
    show ?thesis
      using assms(2) unfolding 1 handle_announcement_published_def Let_def broadcast_default
      by (rule guarded_again) simp
  next
    case 2
    show ?thesis
      using assms(2) unfolding 2 handle_attendance_submitted_eq Let_def broadcast_default
      by (rule guarded_again) simp
  qed
qed

lemma redelivery_is_noop_witness:
  "\<exists>n s'. handle_announcement_published sample_audit_env (broadcast default_registry) EmptyPayload
      sample_envelope sample_school_db = (Inr n, s') \<and>
    handle_announcement_published sample_env (broadcast default_registry) EmptyPayload
      sample_envelope s' = (Inr n, s')"
proof -
  have h: "handler_for ''ANNOUNCEMENT_PUBLISHED'' = Some handle_announcement_published"
    by (simp add: handler_for_def)
  obtain n s' where r: "handle_announcement_published sample_audit_env (broadcast default_registry) EmptyPayload
      sample_envelope sample_school_db = (Inr n, s')"
    using send_all_in_app[of sample_audit_env "map (announcement_message EmptyPayload sample_envelope ''O'' ''S'') [''U1'']" sample_school_db]
    by (auto simp: handle_announcement_published_def sample_envelope_def sample_recipients truthy_def)
  with redelivery_is_noop[OF h r, of sample_env] show ?thesis by blast
qed

end
