(* ===== verification/Outbox.thy ===== *)
theory Outbox
  imports Handlers
begin

text \<open>
  The dispatcher of \<open>app/workers/outbox_dispatcher.py\<close>: back-off, leader lock, the query for
  due events, the processing of one event, one pass, and the state machine of an event over
  many passes. Timestamps count microseconds.
\<close>

definition seconds :: "int \<Rightarrow> int" where
  "seconds n = n * 1000000"

record outbox_settings =
  os_max_attempts :: int
  os_batch_size :: nat
  os_worker_id :: string
  os_error_text :: "error \<Rightarrow> string"

section \<open>Back-off\<close>

text \<open>
  \<open>30.0 * (2 ** max(0, attempts - 1))\<close>: an int of 1025 bits or more does not convert to a
  float, so from attempt 1025 on the multiplication raises OverflowError. Below that the
  product is exact or at least the cap (at worst it is \<open>inf\<close>), so \<open>min\<close> is exact.
\<close>

definition backoff_delay :: "int \<Rightarrow> int result" where
  "backoff_delay attempts =
     (let k = nat (max 0 (attempts - 1)) in
      if k \<ge> 1024 then Inl (PyError ''OverflowError: int too large to convert to float'')
      else Inr (min (30 * 2 ^ k) 3600))"

section \<open>The leader lock\<close>

datatype redis_reply = NoRedis | SetReply bool | RedisError

definition acquire_redis_lock :: "redis_reply \<Rightarrow> bool" where
  "acquire_redis_lock r = (case r of NoRedis \<Rightarrow> True | SetReply b \<Rightarrow> b | RedisError \<Rightarrow> True)"

section \<open>Due events\<close>

text \<open>
  \<open>FOR UPDATE SKIP LOCKED\<close>: the rows another transaction holds are passed over.
\<close>

definition is_due :: "timestamp \<Rightarrow> outbox_event \<Rightarrow> bool" where
  "is_due now e \<longleftrightarrow> ob_status e \<in> {OB_PENDING, OB_FAILED} \<and>
     (case ob_next_attempt_at e of None \<Rightarrow> True | Some t \<Rightarrow> t \<le> now)"

definition fetch_due_events :: "env \<Rightarrow> ulid set \<Rightarrow> nat \<Rightarrow> db \<Rightarrow> outbox_event list" where
  "fetch_due_events env locked batch_size s =
     take batch_size (sort_key ob_created_at
       (filter (\<lambda>e. is_due (env_now env) e \<and> row_id e \<notin> locked) (outbox_events s)))"

section \<open>One event\<close>

definition save_event :: "outbox_event \<Rightarrow> db \<Rightarrow> db" where
  "save_event e s = s\<lparr>outbox_events := update_row e (outbox_events s)\<rparr>"

definition envelope_of :: "outbox_event \<Rightarrow> envelope" where
  "envelope_of e = \<lparr>ev_event_id = row_id e, ev_event_name = ob_event_name e,
     ev_organization_id = ob_organization_id e, ev_school_id = ob_school_id e,
     ev_entity_type = ob_entity_type e, ev_entity_id = ob_entity_id e\<rparr>"

definition claim :: "env \<Rightarrow> outbox_settings \<Rightarrow> outbox_event \<Rightarrow> outbox_event" where
  "claim env cfg e = e\<lparr>ob_status := OB_PROCESSING, ob_locked_by := Some (os_worker_id cfg),
     ob_locked_at := Some (env_now env)\<rparr>"

definition mark_sent :: "env \<Rightarrow> outbox_event \<Rightarrow> outbox_event" where
  "mark_sent env e = e\<lparr>ob_status := OB_SENT, ob_processed_at := Some (env_now env),
     ob_last_error := None, ob_locked_by := None, ob_locked_at := None\<rparr>"

text \<open>
  The two ways of failing. Without a handler the event keeps its claim and is never
  dead-lettered; a handler's exception releases the claim, and at the last attempt clears
  \<open>next_attempt_at\<close>. An event is a loaded row whose assignments are flushed at once.
\<close>

definition mark_unhandled :: "env \<Rightarrow> outbox_event \<Rightarrow> outbox_event result" where
  "mark_unhandled env e =
     bind_ok (backoff_delay (ob_attempts e + 1)) (\<lambda>d.
       Inr (e\<lparr>ob_status := OB_FAILED,
         ob_last_error := Some (''No handler registered for '' @ sq @ ob_event_name e @ sq),
         ob_attempts := ob_attempts e + 1,
         ob_next_attempt_at := Some (env_now env + seconds d)\<rparr>))"

definition mark_failed :: "env \<Rightarrow> outbox_settings \<Rightarrow> error \<Rightarrow> outbox_event \<Rightarrow> outbox_event result" where
  "mark_failed env cfg err e =
     (let e1 = e\<lparr>ob_attempts := ob_attempts e + 1, ob_locked_by := None, ob_locked_at := None,
                ob_status := OB_FAILED\<rparr>;
          txt = Some (take 2000 (os_error_text cfg err)) in
      if ob_attempts e1 \<ge> os_max_attempts cfg
      then Inr (e1\<lparr>ob_next_attempt_at := None, ob_last_error := txt\<rparr>)
      else bind_ok (backoff_delay (ob_attempts e1)) (\<lambda>d.
        Inr (e1\<lparr>ob_next_attempt_at := Some (env_now env + seconds d), ob_last_error := txt\<rparr>)))"

text \<open>
  A handler that fails on a database error leaves the transaction aborted, so the flush of
  the failure itself raises and the pass ends; any other exception is recorded, and what
  the handler had written before it stays.
\<close>

definition process_event ::
  "env \<Rightarrow> outbox_settings \<Rightarrow> provider \<Rightarrow> outbox_event \<Rightarrow> db \<Rightarrow> (outbox_event \<times> db) result" where
  "process_event env cfg send e0 s =
     (let e = claim env cfg e0; s1 = save_event e s in
      case handler_for (ob_event_name e) of
        None \<Rightarrow> bind_ok (mark_unhandled env e) (\<lambda>e'. Inr (e', save_event e' s1))
      | Some h \<Rightarrow>
          (case h env send (ob_payload e) (envelope_of e) s1 of
             (Inr n, s2) \<Rightarrow> Inr (mark_sent env e, save_event (mark_sent env e) s2)
           | (Inl (IntegrityError c), s2) \<Rightarrow> Inl (PyError ''PendingRollbackError'')
           | (Inl err, s2) \<Rightarrow> bind_ok (mark_failed env cfg err e) (\<lambda>e'. Inr (e', save_event e' s2))))"

section \<open>One pass\<close>

record dispatch_stats =
  dp_processed :: nat
  dp_sent :: nat
  dp_failed :: nat

definition no_stats :: dispatch_stats where
  "no_stats = \<lparr>dp_processed = 0, dp_sent = 0, dp_failed = 0\<rparr>"

definition count_event :: "outbox_event \<Rightarrow> dispatch_stats \<Rightarrow> dispatch_stats" where
  "count_event e st = (if ob_status e = OB_SENT
     then st\<lparr>dp_processed := dp_processed st + 1, dp_sent := dp_sent st + 1\<rparr>
     else st\<lparr>dp_processed := dp_processed st + 1, dp_failed := dp_failed st + 1\<rparr>)"

fun process_events ::
  "env \<Rightarrow> outbox_settings \<Rightarrow> provider \<Rightarrow> outbox_event list \<Rightarrow> dispatch_stats \<Rightarrow> db
   \<Rightarrow> (dispatch_stats \<times> db) result" where
  "process_events env cfg send [] st s = Inr (st, s)"
| "process_events env cfg send (e # es) st s =
     bind_ok (process_event env cfg send e s) (\<lambda>(e', s').
       process_events env cfg send es (count_event e' st) s')"

definition effective_batch :: "outbox_settings \<Rightarrow> nat option \<Rightarrow> nat" where
  "effective_batch cfg b = (case b of Some n \<Rightarrow> if n = 0 then os_batch_size cfg else n
     | None \<Rightarrow> os_batch_size cfg)"

definition run_once ::
  "env \<Rightarrow> outbox_settings \<Rightarrow> provider \<Rightarrow> redis_reply \<Rightarrow> ulid set \<Rightarrow> nat option \<Rightarrow> db
   \<Rightarrow> dispatch_stats result \<times> db" where
  "run_once env cfg send lock locked batch s =
     (if \<not> acquire_redis_lock lock then (Inr no_stats, s)
      else case process_events env cfg send
                  (fetch_due_events env locked (effective_batch cfg batch) s) no_stats s of
        Inl e \<Rightarrow> (Inl e, s)
      | Inr (st, s') \<Rightarrow> (Inr st, s'))"

text \<open>
  \<open>run_forever\<close>: passes at successive times; a pass that raises is logged and the loop goes
  on. One element of the list per pass: the environment, the lock's answer, the rows locked
  by others.
\<close>

fun run_passes ::
  "outbox_settings \<Rightarrow> provider \<Rightarrow> (env \<times> redis_reply \<times> ulid set) list \<Rightarrow> db \<Rightarrow> db" where
  "run_passes cfg send [] s = s"
| "run_passes cfg send ((env, lock, locked) # ps) s =
     run_passes cfg send ps (snd (run_once env cfg send lock locked None s))"

section \<open>The monitoring counts\<close>

record outbox_summary =
  om_pending :: nat
  om_processing :: nat
  om_sent :: nat
  om_failed :: nat
  om_dead_lettered :: nat

definition count_status :: "outbox_status \<Rightarrow> db \<Rightarrow> nat" where
  "count_status st s = length (filter (\<lambda>e. ob_status e = st) (outbox_events s))"

definition outbox_summary_of :: "db \<Rightarrow> outbox_summary" where
  "outbox_summary_of s = \<lparr>om_pending = count_status OB_PENDING s,
     om_processing = count_status OB_PROCESSING s, om_sent = count_status OB_SENT s,
     om_failed = count_status OB_FAILED s,
     om_dead_lettered = length (filter (\<lambda>e. ob_status e = OB_FAILED \<and> ob_next_attempt_at e = None)
       (outbox_events s))\<rparr>"

section \<open>Facts about one event\<close>

lemma backoff_delay_Inr:
  "backoff_delay a = Inr d \<longleftrightarrow>
     nat (max 0 (a - 1)) < 1024 \<and> d = min (30 * 2 ^ nat (max 0 (a - 1))) 3600"
  unfolding backoff_delay_def Let_def by (simp only: not_le [symmetric] split: if_splits) auto

text \<open>The providers the dispatcher may be given leave the outbox table alone.\<close>

definition keeps_outbox :: "provider \<Rightarrow> bool" where
  "keeps_outbox send \<longleftrightarrow> (\<forall>env m s. outbox_events (snd (send env m s)) = outbox_events s)"

lemma keeps_outbox_in_app: "keeps_outbox in_app_send"
  by (simp add: keeps_outbox_def in_app_send_eq)

lemma fan_out_keeps_outbox:
  "keeps_outbox send \<Longrightarrow> outbox_events (snd (fan_out send env ms s)) = outbox_events s"
proof (induction ms arbitrary: s)
  case (Cons m ms)
  obtain r t where r: "send env m s = (r, t)" by fastforce
  then have "outbox_events t = outbox_events s"
    using Cons.prems unfolding keeps_outbox_def by (metis snd_conv)
  with r Cons.IH[OF Cons.prems, of t] show ?case by (cases r) simp_all
qed simp

lemma send_all_keeps_outbox:
  "keeps_outbox send \<Longrightarrow> outbox_events (snd (send_all env send ms s)) = outbox_events s"
  using fan_out_keeps_outbox[of send env ms s] by (auto simp: send_all_def split: prod.splits sum.splits)

lemma handler_cases:
  assumes "handler_for name = Some h"
  obtains "h = handle_announcement_published" | "h = handle_attendance_submitted"
  using assms by (auto simp: handler_for_def split: if_splits)

lemma handler_keeps_outbox:
  assumes "handler_for name = Some h" and "keeps_outbox send"
  shows "outbox_events (snd (h env send pl ev s)) = outbox_events s"
  using assms(1)
proof (cases rule: handler_cases)
  case 1
  show ?thesis
    unfolding 1 handle_announcement_published_def Let_def
    using send_all_keeps_outbox[OF assms(2)] by simp
next
  case 2
  show ?thesis
    unfolding 2 handle_attendance_submitted_eq Let_def
    using send_all_keeps_outbox[OF assms(2)] by simp
qed

lemma handler_in_app_ok:
  assumes "handler_for name = Some h"
  shows "\<exists>n t. h env in_app_send pl ev s = (Inr n, t)"
  using assms
proof (cases rule: handler_cases)
  case 1
  show ?thesis
    unfolding 1 handle_announcement_published_def Let_def
    using send_all_in_app by (metis (no_types, lifting))
next
  case 2
  show ?thesis
    unfolding 2 handle_attendance_submitted_eq Let_def
    using send_all_in_app by (metis (no_types, lifting))
qed

lemma update_row_twice: "row_id r = row_id r' \<Longrightarrow> update_row r (update_row r' t) = update_row r t"
  by (simp add: update_row_def)

lemma save_event_twice:
  "row_id e' = row_id e \<Longrightarrow> outbox_events t = outbox_events (save_event e s) \<Longrightarrow>
     outbox_events (save_event e' t) = update_row e' (outbox_events s)"
  by (simp add: save_event_def update_row_twice)

lemma mark_unhandled_Inr:
  "mark_unhandled env e = Inr e' \<Longrightarrow> row_id e' = row_id e \<and> ob_status e' = OB_FAILED"
  by (auto simp: mark_unhandled_def bind_ok_Inr_iff)

lemma mark_failed_Inr:
  "mark_failed env cfg err e = Inr e' \<Longrightarrow>
     row_id e' = row_id e \<and> ob_status e' = OB_FAILED \<and> ob_attempts e' = ob_attempts e + 1"
  by (auto simp: mark_failed_def bind_ok_Inr_iff Let_def split: if_splits)

lemma claim_simps [simp]:
  "row_id (claim env cfg e) = row_id e" "ob_event_name (claim env cfg e) = ob_event_name e"
  "ob_payload (claim env cfg e) = ob_payload e" "ob_attempts (claim env cfg e) = ob_attempts e"
  by (simp_all add: claim_def)

lemma mark_sent_simps [simp]: "row_id (mark_sent env e) = row_id e" "ob_status (mark_sent env e) = OB_SENT"
  by (simp_all add: mark_sent_def)

text \<open>A processed event ends SENT or FAILED, and nothing else in the outbox changes.\<close>

lemma process_event_table:
  assumes "process_event env cfg send e s = Inr (e', s')" and "keeps_outbox send"
  shows "row_id e' = row_id e \<and> ob_status e' \<in> {OB_SENT, OB_FAILED} \<and>
    outbox_events s' = update_row e' (outbox_events s)"
proof (cases "handler_for (ob_event_name e)")
  case None
  with assms(1) have "mark_unhandled env (claim env cfg e) = Inr e'"
    and "s' = save_event e' (save_event (claim env cfg e) s)"
    by (auto simp: process_event_def bind_ok_Inr_iff Let_def)
  then show ?thesis
    using mark_unhandled_Inr[of env "claim env cfg e" e']
    by (auto simp: save_event_def update_row_twice)
next
  case (Some h)
  obtain r s2 where h: "h env send (ob_payload e) (envelope_of (claim env cfg e)) (save_event (claim env cfg e) s) = (r, s2)"
    by fastforce
  have s2: "outbox_events s2 = outbox_events (save_event (claim env cfg e) s)"
    using handler_keeps_outbox[OF Some assms(2)] h by (metis snd_conv)
  show ?thesis
  proof (cases r)
    case (Inr n)
    with assms(1) Some h have "e' = mark_sent env (claim env cfg e)" "s' = save_event e' s2"
      by (auto simp: process_event_def Let_def)
    with s2 show ?thesis using save_event_twice[of e' "claim env cfg e" s2 s] by simp
  next
    case (Inl err)
    with assms(1) Some h have "mark_failed env cfg err (claim env cfg e) = Inr e'" "s' = save_event e' s2"
      by (auto simp: process_event_def Let_def bind_ok_Inr_iff split: error.splits)
    with s2 show ?thesis
      using mark_failed_Inr save_event_twice[of e' "claim env cfg e" s2 s] by auto
  qed
qed

section \<open>Facts about a pass\<close>

lemma process_events_fold:
  assumes "process_events env cfg send es st s = Inr (st', s')" and "keeps_outbox send"
  shows "\<exists>es'. map row_id es' = map row_id es \<and>
    (\<forall>e \<in> set es'. ob_status e \<in> {OB_SENT, OB_FAILED}) \<and>
    outbox_events s' = fold update_row es' (outbox_events s) \<and>
    dp_processed st' = dp_processed st + length es \<and>
    dp_sent st' + dp_failed st' = dp_sent st + dp_failed st + length es"
  using assms
proof (induction es arbitrary: st s)
  case (Cons e es)
  then obtain e1 s1 where p: "process_event env cfg send e s = Inr (e1, s1)"
    and rest: "process_events env cfg send es (count_event e1 st) s1 = Inr (st', s')"
    by (auto simp: bind_ok_Inr_iff)
  from Cons.IH[OF rest Cons.prems(2)] obtain es' where
    es': "map row_id es' = map row_id es" "\<forall>e \<in> set es'. ob_status e \<in> {OB_SENT, OB_FAILED}"
      "outbox_events s' = fold update_row es' (outbox_events s1)"
      "dp_processed st' = dp_processed (count_event e1 st) + length es"
      "dp_sent st' + dp_failed st' = dp_sent (count_event e1 st) + dp_failed (count_event e1 st) + length es"
    by blast
  with process_event_table[OF p Cons.prems(2)] show ?case
    by (intro exI[of _ "e1 # es'"]) (auto simp: count_event_def)
qed (simp add: exI[of _ "[]"])

lemma get_row_fold_update:
  assumes "distinct (map row_id es')" and "i \<in> ids t"
  shows "get_row i (fold update_row es' t) =
    (case find (\<lambda>e. row_id e = i) es' of Some e \<Rightarrow> Some e | None \<Rightarrow> get_row i t)"
  using assms
proof (induction es' arbitrary: t)
  case (Cons e es)
  from Cons.prems have d: "distinct (map row_id es)" and i: "i \<in> ids (update_row e t)" by simp_all
  show ?case
  proof (cases "row_id e = i")
    case True
    with Cons.prems have "find (\<lambda>e. row_id e = i) es = None"
      by (auto simp: find_None_iff image_iff)
    with Cons.IH[OF d i] True Cons.prems show ?thesis by simp
  next
    case False
    with Cons.IH[OF d i] show ?thesis by (auto split: option.splits)
  qed
qed simp

lemma ids_fold_update [simp]: "ids (fold update_row es t) = ids t"
  by (induction es arbitrary: t) simp_all

lemma pk_unique_fold_update [simp]: "pk_unique (fold update_row es t) = pk_unique t"
  by (induction es arbitrary: t) simp_all

lemma fetch_due_mem:
  "e \<in> set (fetch_due_events env locked n s) \<Longrightarrow>
     e \<in> set (outbox_events s) \<and> is_due (env_now env) e \<and> row_id e \<notin> locked"
  unfolding fetch_due_events_def by (drule in_set_takeD) auto

lemma distinct_sort_key_ids:
  "distinct (map row_id xs) \<Longrightarrow> distinct (map row_id (sort_key f xs))"
  by (metis (no_types, lifting) distinct_map distinct_sort set_sort)

lemma fetch_due_distinct:
  assumes "pk_unique (outbox_events s)"
  shows "distinct (map row_id (fetch_due_events env locked n s))"
proof -
  have "distinct (map row_id (filter P (outbox_events s)))" for P
    using assms unfolding pk_unique_def by (rule distinct_map_filter)
  then show ?thesis
    unfolding fetch_due_events_def take_map [symmetric]
    by (intro distinct_take distinct_sort_key_ids)
qed

lemma run_once_cases:
  assumes "run_once env cfg send lock locked batch s = (r, s')"
  obtains (held) "\<not> acquire_redis_lock lock" "r = Inr no_stats" "s' = s"
  | (failed) e where "r = Inl e" "s' = s"
  | (ran) st where "acquire_redis_lock lock" "r = Inr st"
      "process_events env cfg send (fetch_due_events env locked (effective_batch cfg batch) s) no_stats s = Inr (st, s')"
  using assms by (auto simp: run_once_def split: if_splits sum.splits prod.splits)

text \<open>What a pass does to each row, whatever its outcome.\<close>

lemma run_once_rows:
  assumes "run_once env cfg send lock locked batch s = (r, s')" and "keeps_outbox send"
    and "pk_unique (outbox_events s)" and "e \<in> set (outbox_events s)"
  shows "ids (outbox_events s') = ids (outbox_events s) \<and> pk_unique (outbox_events s') \<and>
    (\<exists>e'. get_row (row_id e) (outbox_events s') = Some e' \<and>
      (e' = e \<or> e \<in> set (fetch_due_events env locked (effective_batch cfg batch) s) \<and>
        ob_status e' \<in> {OB_SENT, OB_FAILED}))"
  using assms(1)
proof (cases rule: run_once_cases)
  case (ran st)
  let ?es = "fetch_due_events env locked (effective_batch cfg batch) s"
  from process_events_fold[OF ran(3) assms(2)] obtain es' where
    es': "map row_id es' = map row_id ?es" "\<forall>e \<in> set es'. ob_status e \<in> {OB_SENT, OB_FAILED}"
      "outbox_events s' = fold update_row es' (outbox_events s)" by blast
  have d: "distinct (map row_id es')" using fetch_due_distinct[OF assms(3)] es'(1) by metis
  have i: "row_id e \<in> ids (outbox_events s)" using assms(4) by (auto simp: ids_def)
  have g: "get_row (row_id e) (outbox_events s') =
      (case find (\<lambda>x. row_id x = row_id e) es' of Some x \<Rightarrow> Some x | None \<Rightarrow> Some e)"
    unfolding es'(3) get_row_fold_update[OF d i] get_row_mem[OF assms(3,4)] ..
  show ?thesis
  proof (cases "find (\<lambda>x. row_id x = row_id e) es'")
    case (Some x)
    then have x: "x \<in> set es'" "row_id x = row_id e" by (auto dest: find_SomeD)
    then have "row_id e \<in> set (map row_id ?es)" using es'(1) by (metis image_eqI set_map)
    then obtain y where y: "y \<in> set ?es" "row_id y = row_id e" by auto
    then have "y = e" using fetch_due_mem[OF y(1)] assms(3,4) by (blast dest: pk_unique_inj)
    with g Some x y es' assms(3) show ?thesis by auto
  qed (use g es' assms(3) in simp)
qed (use assms get_row_mem in auto)

text \<open>A pass over handled events with the default registry cannot fail.\<close>

lemma process_event_in_app:
  assumes "handler_for (ob_event_name e) = Some h"
  shows "\<exists>s'. process_event env cfg in_app_send e s = Inr (mark_sent env (claim env cfg e), s')"
  using handler_in_app_ok[OF assms, of env "ob_payload e" "envelope_of (claim env cfg e)"
      "save_event (claim env cfg e) s"] assms
  by (auto simp: process_event_def Let_def)

lemma process_event_poison:
  assumes "handler_for (ob_event_name e) = None" and "ob_attempts e \<ge> 1024"
  shows "\<exists>err. process_event env cfg send e s = Inl err"
  using assms by (auto simp: process_event_def mark_unhandled_def backoff_delay_def Let_def)

lemma process_events_poison:
  assumes "e \<in> set es" and "\<And>s. \<exists>err. process_event env cfg send e s = Inl err"
  shows "\<exists>err. process_events env cfg send es st s = Inl err"
  using assms(1)
proof (induction es arbitrary: st s)
  case (Cons x xs)
  show ?case
  proof (cases "process_event env cfg send x s")
    case (Inr p)
    obtain x' s' where p: "p = (x', s')" by fastforce
    with Inr assms(2) have "x \<noteq> e" by (metis sum.distinct(1))
    with Cons.prems Cons.IH[of "count_event x' st" s'] Inr p show ?thesis by simp
  qed simp
qed simp

lemma process_events_in_app:
  assumes "\<And>e. e \<in> set es \<Longrightarrow> handler_for (ob_event_name e) \<noteq> None"
  shows "\<exists>st' s'. process_events env cfg in_app_send es st s = Inr (st', s') \<and>
    outbox_events s' = fold update_row (map (\<lambda>e. mark_sent env (claim env cfg e)) es) (outbox_events s) \<and>
    dp_sent st' = dp_sent st + length es"
  using assms
proof (induction es arbitrary: st s)
  case (Cons e es)
  then obtain h where "handler_for (ob_event_name e) = Some h" by fastforce
  from process_event_in_app[OF this] obtain s1 where
    p: "process_event env cfg in_app_send e s = Inr (mark_sent env (claim env cfg e), s1)" by blast
  from process_event_table[OF p keeps_outbox_in_app]
  have "outbox_events s1 = update_row (mark_sent env (claim env cfg e)) (outbox_events s)" by simp
  with Cons.IH[of "count_event (mark_sent env (claim env cfg e)) st" s1] Cons.prems p
  show ?case by (auto simp: count_event_def)
qed simp

lemma fetch_due_all:
  assumes "length (outbox_events s) \<le> n"
  shows "set (fetch_due_events env locked n s) =
    {e \<in> set (outbox_events s). is_due (env_now env) e \<and> row_id e \<notin> locked}"
proof -
  have "length (filter P (outbox_events s)) \<le> n" for P
    using assms length_filter_le[of P "outbox_events s"] by (rule order_trans[rotated])
  then show ?thesis by (auto simp: fetch_due_events_def)
qed

section \<open>Properties\<close>

text \<open>
  The back-off delay doubles from 30 seconds up to the cap of an hour, never leaves
  those bounds and never shrinks as attempts grow; it is defined for every attempt number
  below 1025 and raises OverflowError from there on.
\<close>

theorem backoff_bounds:
  "(a \<le> 1024 \<longrightarrow> (\<exists>d. backoff_delay a = Inr d \<and> 30 \<le> d \<and> d \<le> 3600)) \<and>
   (1025 \<le> a \<longrightarrow> (\<exists>e. backoff_delay a = Inl e)) \<and>
   (\<forall>b d d'. backoff_delay a = Inr d \<longrightarrow> backoff_delay b = Inr d' \<longrightarrow> a \<le> b \<longrightarrow> d \<le> d') \<and>
   (1 \<le> a \<longrightarrow> a \<le> 7 \<longrightarrow> backoff_delay a = Inr (30 * 2 ^ nat (a - 1)))"
proof (intro conjI impI allI)
  have one: "(1::int) \<le> 2 ^ k" for k by simp
  assume "a \<le> 1024"
  then show "\<exists>d. backoff_delay a = Inr d \<and> 30 \<le> d \<and> d \<le> 3600"
    using one[of "nat (max 0 (a - 1))"] by (simp add: backoff_delay_def Let_def nat_le_iff)
next
  assume "1025 \<le> a"
  then show "\<exists>e. backoff_delay a = Inl e" by (simp add: backoff_delay_def Let_def)
next
  fix b d d' assume that: "backoff_delay a = Inr d" "backoff_delay b = Inr d'" "a \<le> b"
  show "d \<le> d'"
  proof -
    have "(2::int) ^ nat (max 0 (a - 1)) \<le> 2 ^ nat (max 0 (b - 1))"
      using that(3) by (intro power_increasing nat_mono) auto
    then have "min (30 * (2::int) ^ nat (max 0 (a - 1))) 3600 \<le> min (30 * 2 ^ nat (max 0 (b - 1))) 3600"
      by (intro min.mono) simp_all
    with that(1,2)[unfolded backoff_delay_Inr] show ?thesis by simp
  qed
next
  assume that: "1 \<le> a" "a \<le> 7"
  show "backoff_delay a = Inr (30 * 2 ^ nat (a - 1))"
  proof -
    have "(2::int) ^ nat (a - 1) \<le> 2 ^ 6" using that by (intro power_increasing) auto
    moreover have "nat (a - 1) < 1024" using that by simp
    ultimately show ?thesis using that by (simp add: backoff_delay_def Let_def)
  qed
qed

lemma backoff_bounds_witness:
  "(\<exists>d. backoff_delay 8 = Inr d \<and> 30 \<le> d \<and> d \<le> 3600) \<and> (\<exists>e. backoff_delay 1025 = Inl e) \<and>
   backoff_delay 5 = Inr 480"
  using backoff_bounds[of 8] backoff_bounds[of 1025] backoff_bounds[of 5] by simp

text \<open>
  A pass accounts for what it did and touches nothing else: with any channels that
  leave the outbox alone, no event is lost or duplicated, a row changes only when it was due
  and not locked, and then it ends SENT or FAILED (never PROCESSING); the counters satisfy
  processed = sent + failed, within the batch; and a pass that raises changes nothing.
\<close>

theorem pass_accounting:
  assumes "run_once env cfg send lock locked batch s = (r, s')" and "keeps_outbox send"
    and "pk_unique (outbox_events s)"
  shows "ids (outbox_events s') = ids (outbox_events s) \<and> pk_unique (outbox_events s') \<and>
    (\<forall>e \<in> set (outbox_events s). \<exists>e'. get_row (row_id e) (outbox_events s') = Some e' \<and>
       (e' = e \<or> is_due (env_now env) e \<and> row_id e \<notin> locked \<and> ob_status e' \<in> {OB_SENT, OB_FAILED})) \<and>
    (\<forall>st. r = Inr st \<longrightarrow> dp_processed st = dp_sent st + dp_failed st \<and>
       dp_processed st \<le> effective_batch cfg batch) \<and>
    (\<forall>err. r = Inl err \<longrightarrow> s' = s)"
proof -
  have stats: "dp_processed st = dp_sent st + dp_failed st \<and> dp_processed st \<le> effective_batch cfg batch"
    if "r = Inr st" for st
    using assms(1)
  proof (cases rule: run_once_cases)
    case (ran st2)
    with process_events_fold[OF ran(3) assms(2)] that show ?thesis
      by (auto simp: no_stats_def fetch_due_events_def)
  qed (use that in \<open>auto simp: no_stats_def\<close>)
  have err: "s' = s" if "r = Inl e" for e
    using assms(1) by (cases rule: run_once_cases) (use that in auto)
  have all: "ids (outbox_events s') = ids (outbox_events s) \<and> pk_unique (outbox_events s')"
    using assms(1)
  proof (cases rule: run_once_cases)
    case (ran st)
    then show ?thesis using process_events_fold[OF ran(3) assms(2)] assms(3) by auto
  qed (use assms(3) in auto)
  have "\<exists>e'. get_row (row_id e) (outbox_events s') = Some e' \<and>
      (e' = e \<or> is_due (env_now env) e \<and> row_id e \<notin> locked \<and> ob_status e' \<in> {OB_SENT, OB_FAILED})"
    if "e \<in> set (outbox_events s)" for e
    using run_once_rows[OF assms that] fetch_due_mem by metis
  with all stats err show ?thesis by blast
qed

definition sample_event :: outbox_event where
  "sample_event = (blank_outbox_event ''E'')\<lparr>ob_event_name := ''ANNOUNCEMENT_PUBLISHED'',
     ob_organization_id := Some ''O'', ob_school_id := Some ''S''\<rparr>"

definition sample_settings :: outbox_settings where
  "sample_settings = \<lparr>os_max_attempts = 5, os_batch_size = 50, os_worker_id = ''w:1'',
     os_error_text = (\<lambda>_. ''RuntimeError'')\<rparr>"

definition sample_outbox :: db where
  "sample_outbox = sample_school_db\<lparr>outbox_events := [sample_event]\<rparr>"

lemma pass_accounting_witness:
  "\<exists>st s'. run_once sample_audit_env sample_settings in_app_send NoRedis {} None sample_outbox = (Inr st, s') \<and>
     dp_processed st = dp_sent st + dp_failed st \<and> ids (outbox_events s') = {''E''}"
proof -
  have due: "fetch_due_events sample_audit_env {} 50 sample_outbox = [sample_event]"
    by (simp add: fetch_due_events_def is_due_def sample_outbox_def sample_event_def blank_defs)
  have handled: "\<And>e. e \<in> set [sample_event] \<Longrightarrow> handler_for (ob_event_name e) \<noteq> None"
    by (simp add: sample_event_def handler_for_def)
  obtain st s' where p: "process_events sample_audit_env sample_settings in_app_send [sample_event] no_stats sample_outbox = Inr (st, s')"
    using process_events_in_app[OF handled, of "[sample_event]" sample_audit_env sample_settings no_stats sample_outbox]
    by blast
  have r: "run_once sample_audit_env sample_settings in_app_send NoRedis {} None sample_outbox = (Inr st, s')"
    unfolding run_once_def using due p
    by (simp add: acquire_redis_lock_def effective_batch_def sample_settings_def)
  have u: "pk_unique (outbox_events sample_outbox)" by (simp add: sample_outbox_def pk_unique_def)
  have i: "ids (outbox_events sample_outbox) = {''E''}"
    by (simp add: sample_outbox_def ids_def sample_event_def blank_defs)
  from pass_accounting[OF r keeps_outbox_in_app u]
  have "ids (outbox_events s') = {''E''}" "dp_processed st = dp_sent st + dp_failed st"
    unfolding i by simp_all
  with r show ?thesis by (intro exI[of _ st] exI[of _ s']) simp
qed

text \<open>
  C6. Delivery: when the batch holds every row and each due, unlocked event has a handler,
  a pass of the default registry that gets the lock succeeds and every one of those events
  is SENT, with its failure marks cleared.
\<close>

theorem due_events_are_sent:
  assumes "acquire_redis_lock lock" and "length (outbox_events s) \<le> effective_batch cfg batch"
    and "pk_unique (outbox_events s)"
    and "\<forall>e \<in> set (outbox_events s). is_due (env_now env) e \<and> row_id e \<notin> locked \<longrightarrow>
           handler_for (ob_event_name e) \<noteq> None"
  shows "\<exists>st s'. run_once env cfg in_app_send lock locked batch s = (Inr st, s') \<and> dp_failed st = 0 \<and>
    (\<forall>e \<in> set (outbox_events s). is_due (env_now env) e \<and> row_id e \<notin> locked \<longrightarrow>
       (\<exists>e'. get_row (row_id e) (outbox_events s') = Some e' \<and> ob_status e' = OB_SENT \<and>
          ob_processed_at e' = Some (env_now env) \<and> ob_last_error e' = None \<and> ob_locked_by e' = None))"
proof -
  let ?es = "fetch_due_events env locked (effective_batch cfg batch) s"
  let ?f = "\<lambda>e. mark_sent env (claim env cfg e)"
  have mem: "set ?es = {e \<in> set (outbox_events s). is_due (env_now env) e \<and> row_id e \<notin> locked}"
    by (rule fetch_due_all[OF assms(2)])
  with assms(4) have hs: "\<And>e. e \<in> set ?es \<Longrightarrow> handler_for (ob_event_name e) \<noteq> None" by auto
  from process_events_in_app[OF this, of ?es env cfg no_stats s]
  obtain st s' where p: "process_events env cfg in_app_send ?es no_stats s = Inr (st, s')"
    and rows: "outbox_events s' = fold update_row (map ?f ?es) (outbox_events s)"
    and sent: "dp_sent st = length ?es"
    by (auto simp: no_stats_def)
  have "dp_failed st = 0"
    using process_events_fold[OF p keeps_outbox_in_app] sent by (auto simp: no_stats_def)
  moreover have "run_once env cfg in_app_send lock locked batch s = (Inr st, s')"
    using assms(1) p by (simp add: run_once_def)
  moreover have "get_row (row_id e) (outbox_events s') = Some (?f e)" if "e \<in> set ?es" for e
  proof -
    have d: "distinct (map row_id (map ?f ?es))"
      using fetch_due_distinct[OF assms(3)] by (simp add: comp_def)
    have i: "row_id e \<in> ids (outbox_events s)" using that mem by (auto simp: ids_def)
    have "find (\<lambda>x. row_id x = row_id e) (map ?f ?es) = Some (?f e)"
    proof (rule find_unique)
      show "?f e \<in> set (map ?f ?es)" using that by simp
      show "row_id (?f e) = row_id e" by simp
      fix y assume "y \<in> set (map ?f ?es)" "row_id y = row_id e"
      then obtain x where "y = ?f x" "x \<in> set ?es" "row_id x = row_id e" by auto
      with that mem assms(3) show "y = ?f e" by (auto dest: pk_unique_inj)
    qed
    with get_row_fold_update[OF d i] show ?thesis unfolding rows by simp
  qed
  ultimately show ?thesis
    unfolding mem by (intro exI[of _ st] exI[of _ s']) (auto simp: mark_sent_def)
qed

lemma due_events_are_sent_witness:
  "\<exists>st s' e'. run_once sample_audit_env sample_settings in_app_send NoRedis {} None sample_outbox = (Inr st, s') \<and>
     get_row ''E'' (outbox_events s') = Some e' \<and> ob_status e' = OB_SENT"
proof -
  have h: "acquire_redis_lock NoRedis"
    "length (outbox_events sample_outbox) \<le> effective_batch sample_settings None"
    "pk_unique (outbox_events sample_outbox)"
    "\<forall>e \<in> set (outbox_events sample_outbox). is_due (env_now sample_audit_env) e \<and> row_id e \<notin> {} \<longrightarrow>
           handler_for (ob_event_name e) \<noteq> None"
    by (simp_all add: acquire_redis_lock_def sample_outbox_def effective_batch_def sample_settings_def
        pk_unique_def sample_event_def handler_for_def)
  have "sample_event \<in> set (outbox_events sample_outbox)" "is_due (env_now sample_audit_env) sample_event"
    "row_id sample_event = ''E''"
    by (simp_all add: sample_outbox_def is_due_def sample_event_def blank_defs)
  with due_events_are_sent[OF h] show ?thesis by fastforce
qed

text \<open>
  C7. What has been sent stays sent: over any number of passes, with any channels that leave
  the outbox alone, any clock and any lock outcomes, a SENT event is never touched again.
\<close>

theorem sent_is_final:
  assumes "keeps_outbox send" and "pk_unique (outbox_events s)"
    and "e \<in> set (outbox_events s)" and "ob_status e = OB_SENT"
  shows "e \<in> set (outbox_events (run_passes cfg send passes s))"
  using assms(2-4)
proof (induction passes arbitrary: s)
  case (Cons p ps)
  obtain env lock locked where p: "p = (env, lock, locked)" by (metis prod.exhaust)
  obtain r s' where r: "run_once env cfg send lock locked None s = (r, s')" by fastforce
  have nd: "\<not> is_due (env_now env) e" using Cons.prems(3) by (simp add: is_due_def)
  from pass_accounting[OF r assms(1) Cons.prems(1)] Cons.prems(2) nd
  have "pk_unique (outbox_events s')" "get_row (row_id e) (outbox_events s') = Some e" by blast+
  then have "e \<in> set (outbox_events (run_passes cfg send ps s'))"
    using Cons.prems(3) by (intro Cons.IH) (auto dest: get_row_SomeD)
  then show ?case by (simp add: p r)
qed simp

lemma sent_is_final_witness:
  "sample_event\<lparr>ob_status := OB_SENT\<rparr> \<in> set (outbox_events
     (run_passes sample_settings in_app_send [(sample_audit_env, NoRedis, {}), (sample_audit_env, RedisError, {})]
       (sample_outbox\<lparr>outbox_events := [sample_event\<lparr>ob_status := OB_SENT\<rparr>]\<rparr>)))"
  by (rule sent_is_final[OF keeps_outbox_in_app]) (simp_all add: pk_unique_def)

text \<open>
  A dead letter is never left alone: after its last attempt an event is FAILED with no
  next attempt, which the monitoring counts as dead-lettered; but the query for due events
  reads a missing time as "now", so whenever the batch has room it is dispatched again, at
  every pass and at any time.
\<close>

theorem dead_letters_stay_due:
  assumes "mark_failed env cfg err e = Inr e'" and "os_max_attempts cfg \<le> ob_attempts e + 1"
    and "e' \<in> set (outbox_events s)" and "row_id e' \<notin> locked" and "length (outbox_events s) \<le> n"
  shows "ob_status e' = OB_FAILED \<and> ob_next_attempt_at e' = None \<and>
    0 < om_dead_lettered (outbox_summary_of s) \<and> e' \<in> set (fetch_due_events env' locked n s)"
proof -
  have e': "ob_status e' = OB_FAILED" "ob_next_attempt_at e' = None"
    using assms(1,2) by (auto simp: mark_failed_def Let_def)
  then have "e' \<in> set (filter (\<lambda>e. ob_status e = OB_FAILED \<and> ob_next_attempt_at e = None) (outbox_events s))"
    using assms(3) by simp
  then have "0 < om_dead_lettered (outbox_summary_of s)"
    unfolding outbox_summary_of_def outbox_summary.simps by (rule length_pos_if_in_set)
  with e' assms(3,4) show ?thesis
    unfolding fetch_due_all[OF assms(5)] by (simp add: is_due_def)
qed

definition dead_event :: outbox_event where
  "dead_event = sample_event\<lparr>ob_attempts := 5, ob_status := OB_FAILED, ob_last_error := Some ''RuntimeError''\<rparr>"

lemma dead_letters_stay_due_witness:
  "dead_event \<in> set (fetch_due_events sample_audit_env {} 50 (sample_outbox\<lparr>outbox_events := [dead_event]\<rparr>))"
proof -
  have m: "mark_failed sample_audit_env sample_settings (PyError ''RuntimeError'') (sample_event\<lparr>ob_attempts := 4\<rparr>) = Inr dead_event"
    by (simp add: mark_failed_def sample_settings_def dead_event_def sample_event_def blank_defs)
  show ?thesis
    using dead_letters_stay_due[OF m, of "sample_outbox\<lparr>outbox_events := [dead_event]\<rparr>" "{}" 50 sample_audit_env]
    by (simp add: sample_settings_def)
qed

text \<open>
  A poison pill stops delivery for good: an event without a handler is never
  dead-lettered, and once it has been attempted 1024 times each pass that picks it up raises
  out of the loop and rolls back. While the batch has room for it, no later pass delivers
  anything: the database stays as it is.
\<close>

theorem unhandled_event_blocks_delivery:
  assumes "handler_for (ob_event_name e) = None" and "ob_attempts e \<ge> 1024"
    and "e \<in> set (outbox_events s)" and "length (outbox_events s) \<le> os_batch_size cfg"
    and "\<forall>(env, lock, locked) \<in> set passes. is_due (env_now env) e \<and> row_id e \<notin> locked"
  shows "run_passes cfg send passes s = s"
  using assms(5)
proof (induction passes)
  case (Cons p ps)
  obtain env lock locked where p: "p = (env, lock, locked)" by (metis prod.exhaust)
  have "effective_batch cfg None = os_batch_size cfg" by (simp add: effective_batch_def)
  then have "e \<in> set (fetch_due_events env locked (effective_batch cfg None) s)"
    using assms(3,4) Cons.prems by (simp add: fetch_due_all p)
  then have "\<exists>err. process_events env cfg send (fetch_due_events env locked (effective_batch cfg None) s) no_stats s = Inl err"
    using process_event_poison[OF assms(1,2)] by (rule process_events_poison)
  then have "snd (run_once env cfg send lock locked None s) = s" by (auto simp: run_once_def)
  with Cons show ?case by (simp add: p)
qed simp

lemma unhandled_event_blocks_delivery_witness:
  "run_passes sample_settings in_app_send [(sample_audit_env, NoRedis, {}), (sample_audit_env, NoRedis, {})]
     (sample_outbox\<lparr>outbox_events := [sample_event, (blank_outbox_event ''X'')\<lparr>ob_event_name := ''PING'', ob_attempts := 1024\<rparr>]\<rparr>)
   = sample_outbox\<lparr>outbox_events := [sample_event, (blank_outbox_event ''X'')\<lparr>ob_event_name := ''PING'', ob_attempts := 1024\<rparr>]\<rparr>"
  by (rule unhandled_event_blocks_delivery[of "(blank_outbox_event ''X'')\<lparr>ob_event_name := ''PING'', ob_attempts := 1024\<rparr>"])
    (simp_all add: handler_for_def sample_settings_def is_due_def blank_defs)

end
