(* ===== verification/Auth.thy ===== *)
theory Auth
  imports Platform
begin

text \<open>
  \<open>app/modules/auth/service.py\<close>: login with lockout, refresh-token rotation with reuse
  detection, logout, password reset and change. The password hash, the digest, the random
  tokens and the signing of access tokens belong to libraries and are parameters.
\<close>

section \<open>Parameters and settings\<close>

record auth_env =
  ax_verify :: "string \<Rightarrow> string \<Rightarrow> bool"
  ax_hash :: "string \<Rightarrow> string"
  ax_digest :: "string \<Rightarrow> string"
  ax_raw :: string
  ax_jwt_encode :: "claims \<Rightarrow> string"
  ax_jti :: string
  ax_max_failed :: int
  ax_lockout :: int
  ax_access_ttl :: int
  ax_refresh_ttl :: int
  ax_reset_ttl :: int

record token_pair =
  tk_access_token :: string
  tk_refresh_token :: string
  tk_expires_in :: int
  tk_user_id :: ulid
  tk_email :: "string option"
  tk_phone :: "string option"

section \<open>Durable writes\<close>

text \<open>
  Some writes run in a transaction of their own and survive the rollback of the request. A
  handler of this module returns the committed state with those writes beside its outcome;
  the state inside the outcome is what the request's own transaction would commit.
\<close>

type_synonym 'a durable = "db \<times> ('a \<times> db) result"

definition run_durable :: "(db \<Rightarrow> 'a durable) \<Rightarrow> db \<Rightarrow> 'a result \<times> db" where
  "run_durable f s = (case f s of
     (d, Inl e) \<Rightarrow> (Inl e, d)
   | (d, Inr (x, s')) \<Rightarrow>
       (case check_audit_rows (drop (length (audit_logs s)) (audit_logs s')) of
          Inl e \<Rightarrow> (Inl e, d)
        | Inr _ \<Rightarrow> (Inr x, s')))"

text \<open>Flush of a changed row of a class with timestamps only.\<close>

definition flush_ts :: "timestamp \<Rightarrow> 'a ts_row_scheme \<Rightarrow> 'a ts_row_scheme \<Rightarrow> 'a ts_row_scheme" where
  "flush_ts now old new = (if new = old then old else new\<lparr>updated_at := now\<rparr>)"

section \<open>Lookups\<close>

definition get_by_email :: "db \<Rightarrow> string \<Rightarrow> user option" where
  "get_by_email s address = find (\<lambda>u. map_option py_lower (us_email u) = Some (py_lower address) \<and>
     deleted_at u = None) (users s)"

definition get_by_phone :: "db \<Rightarrow> string \<Rightarrow> user option" where
  "get_by_phone s phone = find (\<lambda>u. us_phone u = Some phone \<and> deleted_at u = None) (users s)"

definition find_user :: "db \<Rightarrow> string \<Rightarrow> user option" where
  "find_user s identifier =
     (if CHR ''@'' \<in> set identifier then get_by_email s identifier else get_by_phone s identifier)"

definition is_locked :: "timestamp \<Rightarrow> user \<Rightarrow> bool" where
  "is_locked now u = (case us_locked_until u of None \<Rightarrow> False | Some t \<Rightarrow> t > now)"

definition find_token :: "string \<Rightarrow> db \<Rightarrow> refresh_token option" where
  "find_token digest s = find (\<lambda>t. rt_token_digest t = digest) (refresh_tokens s)"

definition find_reset :: "string \<Rightarrow> db \<Rightarrow> reset_token option" where
  "find_reset digest s = find (\<lambda>t. pw_token_hash t = digest) (reset_tokens s)"

definition hash_password :: "auth_env \<Rightarrow> string \<Rightarrow> string result" where
  "hash_password ax p =
     (if p = [] then Inl (PyError ''ValueError: Password must not be empty.'') else Inr (ax_hash ax p))"

section \<open>Bookkeeping transactions\<close>

definition record_attempt ::
  "env \<Rightarrow> ulid option \<Rightarrow> string \<Rightarrow> string option \<Rightarrow> bool \<Rightarrow> db \<Rightarrow> db" where
  "record_attempt env uid identifier ip success s =
     s\<lparr>login_attempts := insert_row
        \<lparr>row_id = new_id env ''login_attempts'' (login_attempts s), la_user_id = uid,
         la_email_attempted = Some identifier, la_ip_address = ip, la_success = success,
         la_attempted_at = env_now env\<rparr> (login_attempts s)\<rparr>"

definition count_failure :: "auth_env \<Rightarrow> env \<Rightarrow> user \<Rightarrow> user" where
  "count_failure ax env u = flush_versioned (env_now env) u
     (if us_failed_login_count u + 1 \<ge> ax_max_failed ax
      then u\<lparr>us_locked_until := Some (env_now env + ax_lockout ax), us_failed_login_count := 0\<rparr>
      else u\<lparr>us_failed_login_count := us_failed_login_count u + 1\<rparr>)"

definition register_failure ::
  "auth_env \<Rightarrow> env \<Rightarrow> user \<Rightarrow> string \<Rightarrow> string option \<Rightarrow> db \<Rightarrow> db" where
  "register_failure ax env u identifier ip s = (case get_row (row_id u) (users s) of
     None \<Rightarrow> s
   | Some fresh \<Rightarrow> record_attempt env (Some (row_id u)) identifier ip False
       (s\<lparr>users := update_row (count_failure ax env fresh) (users s)\<rparr>))"

definition revoke_token :: "timestamp \<Rightarrow> refresh_token \<Rightarrow> refresh_token" where
  "revoke_token now t = flush_ts now t (t\<lparr>rt_revoked_at := Some now\<rparr>)"

definition revoke_token_durable :: "env \<Rightarrow> ulid \<Rightarrow> db \<Rightarrow> db" where
  "revoke_token_durable env tid s = (case get_row tid (refresh_tokens s) of
     None \<Rightarrow> s
   | Some t \<Rightarrow> s\<lparr>refresh_tokens := update_row (revoke_token (env_now env) t) (refresh_tokens s)\<rparr>)"

definition revoke_family_durable :: "env \<Rightarrow> ulid \<Rightarrow> db \<Rightarrow> db" where
  "revoke_family_durable env fam s = s\<lparr>refresh_tokens :=
     update_where (\<lambda>t. rt_session_family_id t = fam) (revoke_token (env_now env)) (refresh_tokens s)\<rparr>"

definition revoke_all_user_sessions :: "env \<Rightarrow> ulid \<Rightarrow> db \<Rightarrow> db" where
  "revoke_all_user_sessions env uid s = s\<lparr>refresh_tokens :=
     update_where (\<lambda>t. rt_user_id t = uid \<and> rt_revoked_at t = None) (revoke_token (env_now env))
       (refresh_tokens s)\<rparr>"

section \<open>Tokens\<close>

definition build_refresh_token ::
  "auth_env \<Rightarrow> env \<Rightarrow> ulid \<Rightarrow> ulid \<Rightarrow> string option \<Rightarrow> string option \<Rightarrow> db \<Rightarrow> refresh_token" where
  "build_refresh_token ax env uid fam ip ua s =
     \<lparr>row_id = new_id env ''refresh_tokens'' (refresh_tokens s), created_at = env_now env,
      updated_at = env_now env, rt_user_id = uid, rt_token_digest = ax_digest ax (ax_raw ax),
      rt_session_family_id = fam, rt_expires_at = env_now env + ax_refresh_ttl ax,
      rt_rotated_at = None, rt_revoked_at = None, rt_user_agent = ua, rt_ip_address = ip\<rparr>"

definition add_refresh_token :: "refresh_token \<Rightarrow> db \<Rightarrow> db result" where
  "add_refresh_token t s =
     (let ts = insert_row t (refresh_tokens s) in
      bind_ok (constrained (uq_refresh_tokens_token_digest ts) ''uq_refresh_tokens_token_digest'' ts)
        (\<lambda>ts'. Inr (s\<lparr>refresh_tokens := ts'\<rparr>)))"

definition access_token :: "auth_env \<Rightarrow> env \<Rightarrow> ulid \<Rightarrow> string" where
  "access_token ax env uid =
     create_access_token (ax_jwt_encode ax) (env_now env) (ax_jti ax) (ax_access_ttl ax) None uid"

definition issue_pair ::
  "auth_env \<Rightarrow> env \<Rightarrow> user \<Rightarrow> string option \<Rightarrow> string option \<Rightarrow> db \<Rightarrow> (token_pair \<times> db) result" where
  "issue_pair ax env u ip ua s =
     bind_ok (add_refresh_token (build_refresh_token ax env (row_id u) (env_gen env ''families'' 0) ip ua s) s)
       (\<lambda>s'. Inr (\<lparr>tk_access_token = access_token ax env (row_id u), tk_refresh_token = ax_raw ax,
          tk_expires_in = ax_access_ttl ax, tk_user_id = row_id u, tk_email = us_email u,
          tk_phone = us_phone u\<rparr>, s'))"

definition system_ctx :: "string option \<Rightarrow> request_context" where
  "system_ctx ip = \<lparr>user_id = [], person_id = None, email = None, organization_id = None,
     school_id = None, accessible_school_ids = {}, permissions = {}, permission_scopes = [],
     role_codes = {}, scope = None, request_id = [], ip_address = ip, is_platform_admin = False\<rparr>"

section \<open>Login\<close>

definition login ::
  "auth_env \<Rightarrow> env \<Rightarrow> string \<Rightarrow> string \<Rightarrow> string option \<Rightarrow> string option \<Rightarrow> db \<Rightarrow> token_pair durable" where
  "login ax env identifier password ip ua s = (case find_user s identifier of
     None \<Rightarrow> (record_attempt env None identifier ip False s, Inl invalid_credentials)
   | Some u \<Rightarrow>
       if deleted_at u \<noteq> None
       then (record_attempt env None identifier ip False s, Inl invalid_credentials)
       else if is_locked (env_now env) u
       then (record_attempt env (Some (row_id u)) identifier ip False s, Inl invalid_credentials)
       else if us_status u \<noteq> US_ACTIVE
       then (record_attempt env (Some (row_id u)) identifier ip False s, Inl AccountInactiveError)
       else if \<not> (truthy (us_password_hash u) \<and> ax_verify ax (the (us_password_hash u)) password)
       then (register_failure ax env u identifier ip s, Inl invalid_credentials)
       else
         let u' = flush_versioned (env_now env) u
               (u\<lparr>us_failed_login_count := 0, us_locked_until := None, us_last_login_at := Some (env_now env)\<rparr>);
             d = record_attempt env (Some (row_id u)) identifier ip True s;
             s1 = audit env (system_ctx ip) ''LOGIN_SUCCESS'' ''user'' (Some (row_id u)) None None
               (d\<lparr>users := update_row u' (users d)\<rparr>)
         in (d, issue_pair ax env u' ip ua s1))"

section \<open>Refresh\<close>

text \<open>
  The two halves of \<open>refresh\<close>: what the request reads and decides, and what it writes. The
  request holds no lock in between.
\<close>

datatype refresh_decision =
    Unknown
  | Reuse ulid
  | Expired ulid
  | NoUser ulid
  | Inactive
  | Rotate refresh_token

definition refresh_check :: "auth_env \<Rightarrow> env \<Rightarrow> string \<Rightarrow> db \<Rightarrow> refresh_decision" where
  "refresh_check ax env raw s = (case find_token (ax_digest ax raw) s of
     None \<Rightarrow> Unknown
   | Some stored \<Rightarrow>
       if rt_revoked_at stored \<noteq> None \<or> rt_rotated_at stored \<noteq> None
       then Reuse (rt_session_family_id stored)
       else if rt_expires_at stored \<le> env_now env then Expired (row_id stored)
       else (case get_row (rt_user_id stored) (users s) of
           None \<Rightarrow> NoUser (rt_session_family_id stored)
         | Some u \<Rightarrow>
             if deleted_at u \<noteq> None then NoUser (rt_session_family_id stored)
             else if us_status u \<noteq> US_ACTIVE then Inactive
             else Rotate stored))"

definition refresh_write ::
  "auth_env \<Rightarrow> env \<Rightarrow> refresh_token \<Rightarrow> string option \<Rightarrow> string option \<Rightarrow> db \<Rightarrow> (token_pair \<times> db) result"
  where
  "refresh_write ax env stored ip ua s =
     (let s1 = s\<lparr>refresh_tokens := update_row
            (flush_ts (env_now env) stored (stored\<lparr>rt_rotated_at := Some (env_now env)\<rparr>)) (refresh_tokens s)\<rparr> in
      bind_ok (add_refresh_token
          (build_refresh_token ax env (rt_user_id stored) (rt_session_family_id stored) ip ua s1) s1)
        (\<lambda>s'. Inr (\<lparr>tk_access_token = access_token ax env (rt_user_id stored),
          tk_refresh_token = ax_raw ax, tk_expires_in = ax_access_ttl ax,
          tk_user_id = rt_user_id stored, tk_email = None, tk_phone = None\<rparr>, s')))"

definition refresh ::
  "auth_env \<Rightarrow> env \<Rightarrow> string \<Rightarrow> string option \<Rightarrow> string option \<Rightarrow> db \<Rightarrow> token_pair durable" where
  "refresh ax env raw ip ua s = (case refresh_check ax env raw s of
     Unknown \<Rightarrow> (s, Inl invalid_credentials)
   | Reuse fam \<Rightarrow> (revoke_family_durable env fam s, Inl invalid_credentials)
   | Expired tid \<Rightarrow> (revoke_token_durable env tid s, Inl invalid_credentials)
   | NoUser fam \<Rightarrow> (revoke_family_durable env fam s, Inl invalid_credentials)
   | Inactive \<Rightarrow> (s, Inl AccountInactiveError)
   | Rotate stored \<Rightarrow> (s, refresh_write ax env stored ip ua s))"

section \<open>Logout, reset and change\<close>

definition logout :: "auth_env \<Rightarrow> env \<Rightarrow> request_context \<Rightarrow> string \<Rightarrow> db \<Rightarrow> (unit \<times> db) result" where
  "logout ax env ctx raw s = (case find_token (ax_digest ax raw) s of
     None \<Rightarrow> Inr ((), s)
   | Some stored \<Rightarrow> Inr ((),
       audit env ctx ''LOGOUT'' ''user'' (Some (rt_user_id stored)) None None
         (s\<lparr>refresh_tokens := update_row (revoke_token (env_now env) stored) (refresh_tokens s)\<rparr>)))"

definition request_password_reset ::
  "auth_env \<Rightarrow> env \<Rightarrow> string \<Rightarrow> string option \<Rightarrow> db \<Rightarrow> (unit \<times> db) result" where
  "request_password_reset ax env identifier ip s = (case find_user s identifier of
     None \<Rightarrow> Inr ((), s)
   | Some u \<Rightarrow>
       if us_status u \<noteq> US_ACTIVE then Inr ((), s)
       else Inr ((), audit env (system_ctx ip) ''PASSWORD_RESET_REQUESTED'' ''user'' (Some (row_id u)) None None
         (s\<lparr>reset_tokens := insert_row
            \<lparr>row_id = new_id env ''password_reset_tokens'' (reset_tokens s), created_at = env_now env,
             updated_at = env_now env, pw_user_id = row_id u,
             pw_token_hash = ax_digest ax (ax_raw ax),
             pw_expires_at = env_now env + ax_reset_ttl ax, pw_consumed_at = None,
             pw_requested_ip = ip\<rparr> (reset_tokens s)\<rparr>)))"

definition invalid_link :: error where
  "invalid_link = AuthenticationError ''This reset link is invalid or has expired.''"

definition consume :: "timestamp \<Rightarrow> reset_token \<Rightarrow> reset_token" where
  "consume now t = flush_ts now t (t\<lparr>pw_consumed_at := Some now\<rparr>)"

definition reset_account :: "timestamp \<Rightarrow> string \<Rightarrow> user \<Rightarrow> user" where
  "reset_account now h u = flush_versioned now u
     (u\<lparr>us_password_hash := Some h, us_password_changed_at := Some now,
        us_must_change_password := False, us_status := US_ACTIVE,
        us_failed_login_count := 0, us_locked_until := None\<rparr>)"

definition confirm_password_reset ::
  "auth_env \<Rightarrow> env \<Rightarrow> string \<Rightarrow> string \<Rightarrow> string option \<Rightarrow> db \<Rightarrow> (unit \<times> db) result" where
  "confirm_password_reset ax env raw new_password ip s =
     (case find_reset (ax_digest ax raw) s of
        None \<Rightarrow> Inl invalid_link
      | Some stored \<Rightarrow>
          if pw_consumed_at stored \<noteq> None \<or> pw_expires_at stored \<le> env_now env then Inl invalid_link
          else (case get_row (pw_user_id stored) (users s) of
              None \<Rightarrow> Inl invalid_link
            | Some u \<Rightarrow>
                if deleted_at u \<noteq> None then Inl invalid_link
                else bind_ok (hash_password ax new_password) (\<lambda>h.
                  let u' = reset_account (env_now env) h u;
                      s1 = s\<lparr>users := update_row u' (users s),
                             reset_tokens := update_where (\<lambda>t. row_id t \<noteq> row_id stored \<and>
                                 pw_user_id t = row_id u \<and> pw_consumed_at t = None) (consume (env_now env))
                               (update_row (consume (env_now env) stored) (reset_tokens s))\<rparr>
                  in Inr ((), audit env (system_ctx ip) ''PASSWORD_RESET_CONFIRMED'' ''user''
                       (Some (row_id u)) None None (revoke_all_user_sessions env (row_id u) s1)))))"

definition change_password ::
  "auth_env \<Rightarrow> env \<Rightarrow> request_context \<Rightarrow> string \<Rightarrow> string \<Rightarrow> db \<Rightarrow> (unit \<times> db) result" where
  "change_password ax env ctx current new_password s =
     (let wrong = Inl (AuthenticationError ''The current password is incorrect.'') in
      case get_row (user_id ctx) (users s) of
        None \<Rightarrow> wrong
      | Some u \<Rightarrow>
          if \<not> truthy (us_password_hash u) \<or> \<not> ax_verify ax (the (us_password_hash u)) current then wrong
          else bind_ok (hash_password ax new_password) (\<lambda>h.
            let u' = flush_versioned (env_now env) u
                  (u\<lparr>us_password_hash := Some h, us_password_changed_at := Some (env_now env),
                     us_must_change_password := False, us_failed_login_count := 0,
                     us_locked_until := None\<rparr>)
            in Inr ((), audit env ctx ''PASSWORD_CHANGED'' ''user'' (Some (row_id u)) None None
                 (revoke_all_user_sessions env (row_id u) (s\<lparr>users := update_row u' (users s)\<rparr>)))))"

section \<open>Facts about lookups\<close>

lemma find_update_row:
  assumes "pk_unique t" and "find P t = Some u" and "row_id u' = row_id u" and "P u'"
  shows "find P (update_row u' t) = Some u'"
  using assms(1,2)
proof (induction t)
  case (Cons x xs)
  show ?case
  proof (cases "P x")
    case True
    with Cons.prems(2) assms(3,4) show ?thesis by (simp add: update_row_def)
  next
    case False
    with Cons.prems(2) have f: "find P xs = Some u" by simp
    then have "u \<in> set xs" by (auto dest: find_SomeD)
    with Cons.prems(1) have "row_id x \<noteq> row_id u" by (auto simp: pk_unique_def)
    moreover have "pk_unique xs" using Cons.prems(1) by (simp add: pk_unique_def)
    ultimately show ?thesis using Cons.IH f False assms(3) by (simp add: update_row_def)
  qed
qed simp

lemma find_user_mem: "find_user s idf = Some u \<Longrightarrow> u \<in> set (users s) \<and> deleted_at u = None"
  by (auto simp: find_user_def get_by_email_def get_by_phone_def dest: find_SomeD split: if_splits)

lemma find_user_update:
  assumes "pk_unique (users s)" and "find_user s idf = Some u" and "row_id u' = row_id u"
    and "us_email u' = us_email u" and "us_phone u' = us_phone u" and "deleted_at u' = deleted_at u"
    and "users s' = update_row u' (users s)"
  shows "find_user s' idf = Some u'"
proof (cases "CHR ''@'' \<in> set idf")
  case True
  then have f: "get_by_email s idf = Some u" using assms(2) by (simp add: find_user_def)
  then have P: "map_option py_lower (us_email u) = Some (py_lower idf) \<and> deleted_at u = None"
    unfolding get_by_email_def by (auto dest: find_SomeD)
  have "get_by_email s' idf = Some u'"
    unfolding get_by_email_def assms(7)
    by (rule find_update_row[OF assms(1) f[unfolded get_by_email_def] assms(3)]) (use P assms(4,6) in simp)
  with True show ?thesis by (simp add: find_user_def)
next
  case False
  then have f: "get_by_phone s idf = Some u" using assms(2) by (simp add: find_user_def)
  then have P: "us_phone u = Some idf \<and> deleted_at u = None"
    unfolding get_by_phone_def by (auto dest: find_SomeD)
  have "get_by_phone s' idf = Some u'"
    unfolding get_by_phone_def assms(7)
    by (rule find_update_row[OF assms(1) f[unfolded get_by_phone_def] assms(3)]) (use P assms(5,6) in simp)
  with False show ?thesis by (simp add: find_user_def)
qed

section \<open>Facts about failed logins\<close>

lemma run_durable_error: "f s = (d, Inl e) \<Longrightarrow> run_durable f s = (Inl e, d)"
  by (simp add: run_durable_def)

lemma record_attempt_simps [simp]:
  "users (record_attempt env uid idf ip ok s) = users s"
  "refresh_tokens (record_attempt env uid idf ip ok s) = refresh_tokens s"
  "audit_logs (record_attempt env uid idf ip ok s) = audit_logs s"
  "find_user (record_attempt env uid idf ip ok s) x = find_user s x"
  by (simp_all add: record_attempt_def find_user_def get_by_email_def get_by_phone_def)

lemma count_failure_simps [simp]:
  "row_id (count_failure ax env u) = row_id u" "us_email (count_failure ax env u) = us_email u"
  "us_phone (count_failure ax env u) = us_phone u" "deleted_at (count_failure ax env u) = deleted_at u"
  "us_status (count_failure ax env u) = us_status u"
  "us_password_hash (count_failure ax env u) = us_password_hash u"
  by (simp_all add: count_failure_def flush_versioned_def)

lemma count_failure_count:
  "us_failed_login_count u + 1 < ax_max_failed ax \<Longrightarrow>
     us_failed_login_count (count_failure ax env u) = us_failed_login_count u + 1 \<and>
     us_locked_until (count_failure ax env u) = us_locked_until u"
  by (auto simp: count_failure_def flush_versioned_def dest: arg_cong[of _ _ us_failed_login_count])

lemma count_failure_lock:
  "us_failed_login_count u + 1 \<ge> ax_max_failed ax \<Longrightarrow>
     us_locked_until (count_failure ax env u) = Some (env_now env + ax_lockout ax)"
  by (auto simp: count_failure_def flush_versioned_def dest: arg_cong[of _ _ us_locked_until])

lemma login_unlocked_active:
  assumes "find_user s idf = Some u" and "\<not> is_locked (env_now env) u" and "us_status u = US_ACTIVE"
    and "\<not> (truthy (us_password_hash u) \<and> ax_verify ax (the (us_password_hash u)) pw)"
  shows "login ax env idf pw ip ua s = (register_failure ax env u idf ip s, Inl invalid_credentials)"
  using assms find_user_mem[OF assms(1)] by (simp add: login_def)

lemma wrong_password_step:
  assumes "pk_unique (users s)" and "find_user s idf = Some u" and "\<not> is_locked (env_now env) u"
    and "us_status u = US_ACTIVE"
    and "\<not> (truthy (us_password_hash u) \<and> ax_verify ax (the (us_password_hash u)) pw)"
  shows "\<exists>s'. run_durable (login ax env idf pw ip ua) s = (Inl invalid_credentials, s') \<and>
    find_user s' idf = Some (count_failure ax env u) \<and> pk_unique (users s') \<and>
    refresh_tokens s' = refresh_tokens s"
proof -
  let ?s = "register_failure ax env u idf ip s"
  have g: "get_row (row_id u) (users s) = Some u"
    using find_user_mem[OF assms(2)] get_row_mem[OF assms(1)] by blast
  have us: "users ?s = update_row (count_failure ax env u) (users s)"
    and rt: "refresh_tokens ?s = refresh_tokens s"
    by (simp_all add: register_failure_def g)
  have "find_user ?s idf = Some (count_failure ax env u)"
    by (rule find_user_update[OF assms(1,2) _ _ _ _ us]) simp_all
  then show ?thesis
    using run_durable_error[where f = "login ax env idf pw ip ua", OF login_unlocked_active[OF assms(2-5)]]
      us rt assms(1) by auto
qed

text \<open>A sequence of login requests for one identifier: the environment, password and origin of each.\<close>

type_synonym attempt = "env \<times> string \<times> string option \<times> string option"

fun run_logins :: "auth_env \<Rightarrow> string \<Rightarrow> attempt list \<Rightarrow> db \<Rightarrow> db" where
  "run_logins ax idf [] s = s"
| "run_logins ax idf ((env, pw, ip, ua) # as) s =
     run_logins ax idf as (snd (run_durable (login ax env idf pw ip ua) s))"

definition wrong_for :: "auth_env \<Rightarrow> string option \<Rightarrow> attempt \<Rightarrow> bool" where
  "wrong_for ax h a = (case a of (env, pw, ip, ua) \<Rightarrow> \<not> (truthy h \<and> ax_verify ax (the h) pw))"

lemma run_logins_count:
  assumes "pk_unique (users s)" and "find_user s idf = Some u" and "us_locked_until u = None"
    and "us_status u = US_ACTIVE" and "\<forall>a \<in> set as. wrong_for ax (us_password_hash u) a"
    and "us_failed_login_count u + int (length as) < ax_max_failed ax"
  shows "\<exists>u'. find_user (run_logins ax idf as s) idf = Some u' \<and> pk_unique (users (run_logins ax idf as s)) \<and>
    us_locked_until u' = None \<and> us_status u' = US_ACTIVE \<and> us_password_hash u' = us_password_hash u \<and>
    us_failed_login_count u' = us_failed_login_count u + int (length as) \<and>
    refresh_tokens (run_logins ax idf as s) = refresh_tokens s"
  using assms
proof (induction as arbitrary: s u)
  case (Cons a as)
  obtain env pw ip ua where a: "a = (env, pw, ip, ua)" by (metis prod.exhaust)
  have nl: "\<not> is_locked (env_now env) u" using Cons.prems(3) by (simp add: is_locked_def)
  have wp: "\<not> (truthy (us_password_hash u) \<and> ax_verify ax (the (us_password_hash u)) pw)"
    using Cons.prems(5) by (simp add: a wrong_for_def)
  obtain s' where s': "run_durable (login ax env idf pw ip ua) s = (Inl invalid_credentials, s')"
    "find_user s' idf = Some (count_failure ax env u)" "pk_unique (users s')" "refresh_tokens s' = refresh_tokens s"
    using wrong_password_step[OF Cons.prems(1,2) nl Cons.prems(4) wp] by blast
  have c: "us_failed_login_count (count_failure ax env u) = us_failed_login_count u + 1"
    "us_locked_until (count_failure ax env u) = None"
    using count_failure_count[of u ax env] Cons.prems(3,6) by auto
  from Cons.IH[OF s'(3,2) c(2)] Cons.prems(4-6) c(1) s'(1,4) show ?case
    by (auto simp: a)
qed simp

section \<open>Facts about refresh tokens\<close>

lemma revoke_token_simps [simp]:
  "row_id (revoke_token now t) = row_id t" "rt_token_digest (revoke_token now t) = rt_token_digest t"
  "rt_session_family_id (revoke_token now t) = rt_session_family_id t"
  "rt_user_id (revoke_token now t) = rt_user_id t" "rt_rotated_at (revoke_token now t) = rt_rotated_at t"
  by (simp_all add: revoke_token_def flush_ts_def)

lemma revoke_token_revoked: "rt_revoked_at (revoke_token now t) = Some now"
  by (auto simp: revoke_token_def flush_ts_def dest: arg_cong[of _ _ rt_revoked_at])

definition dead_token :: "refresh_token \<Rightarrow> bool" where
  "dead_token t \<longleftrightarrow> rt_revoked_at t \<noteq> None \<or> rt_rotated_at t \<noteq> None"

lemma dead_revoked [simp]: "dead_token (revoke_token now t)"
  by (simp add: dead_token_def revoke_token_revoked)

text \<open>Presenting a token that is not known or is dead is the uniform 401.\<close>

lemma refresh_dead:
  assumes "\<And>t. t \<in> set (refresh_tokens s) \<Longrightarrow> rt_token_digest t = ax_digest ax raw \<Longrightarrow> dead_token t"
  shows "fst (run_durable (refresh ax env raw ip ua) s) = Inl invalid_credentials"
proof (cases "find_token (ax_digest ax raw) s")
  case None
  then have "refresh ax env raw ip ua s = (s, Inl invalid_credentials)"
    by (simp add: refresh_def refresh_check_def)
  then show ?thesis by (simp add: run_durable_def)
next
  case (Some t)
  then have "dead_token t" using assms by (auto simp: find_token_def dest: find_SomeD)
  with Some have "refresh_check ax env raw s = Reuse (rt_session_family_id t)"
    by (simp add: refresh_check_def dead_token_def)
  then show ?thesis by (simp add: refresh_def run_durable_def)
qed

lemma refresh_reuse:
  assumes "find_token (ax_digest ax raw) s = Some t" and "dead_token t"
  shows "run_durable (refresh ax env raw ip ua) s =
    (Inl invalid_credentials, revoke_family_durable env (rt_session_family_id t) s)"
  using assms by (simp add: refresh_def refresh_check_def dead_token_def run_durable_def)

lemma refresh_check_Rotate:
  "refresh_check ax env raw s = Rotate t \<longleftrightarrow>
     find_token (ax_digest ax raw) s = Some t \<and> \<not> dead_token t \<and> \<not> rt_expires_at t \<le> env_now env \<and>
     (\<exists>u. get_row (rt_user_id t) (users s) = Some u \<and> deleted_at u = None \<and> us_status u = US_ACTIVE)"
  by (auto simp: refresh_check_def dead_token_def split: option.splits if_splits)

definition rotated :: "env \<Rightarrow> refresh_token \<Rightarrow> refresh_token" where
  "rotated env t = flush_ts (env_now env) t (t\<lparr>rt_rotated_at := Some (env_now env)\<rparr>)"

lemma rotated_simps [simp]:
  "row_id (rotated env t) = row_id t" "rt_token_digest (rotated env t) = rt_token_digest t"
  "rt_session_family_id (rotated env t) = rt_session_family_id t" "rt_user_id (rotated env t) = rt_user_id t"
  by (simp_all add: rotated_def flush_ts_def)

lemma dead_rotated [simp]: "dead_token (rotated env t)"
proof -
  have "rt_rotated_at (rotated env t) = Some (env_now env)"
    by (auto simp: rotated_def flush_ts_def dest: arg_cong[of _ _ rt_rotated_at])
  then show ?thesis by (simp add: dead_token_def)
qed

lemma refresh_write_Inr:
  "refresh_write ax env t ip ua s = Inr (p, s') \<Longrightarrow>
     \<exists>new. refresh_tokens s' = update_row (rotated env t) (refresh_tokens s) @ [new] \<and>
       rt_session_family_id new = rt_session_family_id t \<and> rt_user_id new = rt_user_id t \<and>
       rt_token_digest new = ax_digest ax (ax_raw ax) \<and> \<not> dead_token new \<and>
       rt_expires_at new = env_now env + ax_refresh_ttl ax \<and>
       row_id new = new_id env ''refresh_tokens'' (refresh_tokens s) \<and>
       tk_refresh_token p = ax_raw ax \<and> uq_refresh_tokens_token_digest (refresh_tokens s') \<and>
       users s' = users s \<and> audit_logs s' = audit_logs s"
  by (auto simp: refresh_write_def Let_def bind_ok_Inr_iff add_refresh_token_def insert_row_def
      build_refresh_token_def dead_token_def rotated_def new_id_def)

lemma run_refresh_Inr:
  assumes "run_durable (refresh ax env raw ip ua) s = (Inr p, s')"
  shows "\<exists>t. refresh_check ax env raw s = Rotate t \<and> refresh_write ax env t ip ua s = Inr (p, s')"
proof (cases "refresh_check ax env raw s")
  case (Rotate t)
  with assms show ?thesis
    by (auto simp: run_durable_def refresh_def split: sum.splits prod.splits)
qed (use assms in \<open>simp_all add: run_durable_def refresh_def\<close>)

lemma find_token_update:
  assumes "pk_unique (refresh_tokens s)" and "find_token d s = Some t" and "row_id t' = row_id t"
    and "rt_token_digest t' = rt_token_digest t" and "refresh_tokens s' = update_row t' (refresh_tokens s) @ ts"
  shows "find_token d s' = Some t'"
proof -
  have "rt_token_digest t = d" using assms(2) by (auto simp: find_token_def dest: find_SomeD)
  then have "find (\<lambda>x. rt_token_digest x = d) (update_row t' (refresh_tokens s)) = Some t'"
    using assms(2-4) by (intro find_update_row[OF assms(1)]) (simp_all add: find_token_def)
  then show ?thesis by (simp add: find_token_def assms(5) find_append)
qed

lemma revoke_family_mem:
  assumes "t \<in> set (refresh_tokens (revoke_family_durable env fam s))"
  obtains y where "y \<in> set (refresh_tokens s)" "rt_token_digest t = rt_token_digest y"
    "rt_session_family_id t = rt_session_family_id y"
    "rt_session_family_id t = fam \<Longrightarrow> rt_revoked_at t = Some (env_now env)"
proof -
  have "t \<in> set (update_where (\<lambda>t. rt_session_family_id t = fam) (revoke_token (env_now env)) (refresh_tokens s))"
    using assms by (simp add: revoke_family_durable_def)
  then obtain y where y: "y \<in> set (refresh_tokens s)"
    and t: "t = (if rt_session_family_id y = fam then revoke_token (env_now env) y else y)"
    unfolding set_update_where by blast
  show thesis
    by (rule that[OF y]) (simp_all add: t revoke_token_revoked split: if_splits)
qed

lemma revoke_user_sessions_dead:
  assumes "t \<in> set (refresh_tokens (revoke_all_user_sessions env uid s))" and "rt_user_id t = uid"
  shows "rt_revoked_at t \<noteq> None"
proof -
  have "t \<in> set (update_where (\<lambda>t. rt_user_id t = uid \<and> rt_revoked_at t = None) (revoke_token (env_now env)) (refresh_tokens s))"
    using assms(1) by (simp add: revoke_all_user_sessions_def)
  then obtain y where "t = (if rt_user_id y = uid \<and> rt_revoked_at y = None then revoke_token (env_now env) y else y)"
    unfolding set_update_where by blast
  with assms(2) show ?thesis by (simp add: revoke_token_revoked split: if_splits)
qed

lemma consume_simps [simp]:
  "row_id (consume now t) = row_id t" "pw_token_hash (consume now t) = pw_token_hash t"
  "pw_user_id (consume now t) = pw_user_id t"
  by (simp_all add: consume_def flush_ts_def)

lemma consume_consumed: "pw_consumed_at (consume now t) = Some now"
  by (auto simp: consume_def flush_ts_def dest: arg_cong[of _ _ pw_consumed_at])

lemma find_map_same:
  "(\<And>x. x \<in> set xs \<Longrightarrow> P (f x) = P x) \<Longrightarrow> find P (map f xs) = map_option f (find P xs)"
  by (induction xs) auto

lemma reset_account_simps [simp]:
  "row_id (reset_account now h u) = row_id u"
  "us_password_hash (reset_account now h u) = Some h"
  "us_status (reset_account now h u) = US_ACTIVE"
  "us_locked_until (reset_account now h u) = None"
  unfolding reset_account_def flush_versioned_def
  by (simp, auto dest: arg_cong[of _ _ us_password_hash], auto dest: arg_cong[of _ _ us_status],
      auto dest: arg_cong[of _ _ us_locked_until])

text \<open>A successful reset, with its final tables.\<close>

lemma confirm_Inr:
  assumes "confirm_password_reset ax env raw pw ip s = Inr (v, s')"
  obtains stored u where "find_reset (ax_digest ax raw) s = Some stored"
    "get_row (pw_user_id stored) (users s) = Some u"
    "users s' = update_row (reset_account (env_now env) (ax_hash ax pw) u) (users s)"
    "reset_tokens s' = update_where (\<lambda>t. row_id t \<noteq> row_id stored \<and> pw_user_id t = row_id u \<and> pw_consumed_at t = None)
        (consume (env_now env)) (update_row (consume (env_now env) stored) (reset_tokens s))"
    "refresh_tokens s' = refresh_tokens (revoke_all_user_sessions env (row_id u) s)"
proof -
  from assms obtain stored where st: "find_reset (ax_digest ax raw) s = Some stored"
    by (auto simp: confirm_password_reset_def split: option.splits)
  with assms obtain u where u: "get_row (pw_user_id stored) (users s) = Some u"
    by (auto simp: confirm_password_reset_def split: option.splits if_splits)
  from assms st u show thesis
    by (intro that[OF st u])
      (auto simp: confirm_password_reset_def bind_ok_Inr_iff hash_password_def Let_def
        revoke_all_user_sessions_def audit_in_def split: if_splits)
qed

lemma reset_token_consumed:
  assumes "t \<in> set (update_where (\<lambda>t. row_id t \<noteq> row_id stored \<and> pw_user_id t = uid \<and> pw_consumed_at t = None)
      (consume now) (update_row (consume now stored) ts))"
    and "pw_user_id t = uid"
  shows "pw_consumed_at t \<noteq> None"
proof -
  obtain y where y: "y \<in> set (update_row (consume now stored) ts)"
    and t: "t = (if row_id y \<noteq> row_id stored \<and> pw_user_id y = uid \<and> pw_consumed_at y = None
        then consume now y else y)"
    using assms(1) unfolding set_update_where by blast
  show ?thesis
  proof (cases "row_id y = row_id stored")
    case True
    with y have "y = consume now stored" using set_update_row_subset[OF y] by auto
    with t True show ?thesis by (simp add: consume_consumed)
  qed (use t assms(2) in \<open>auto simp: consume_consumed split: if_splits\<close>)
qed

lemma reset_token_again:
  assumes "pk_unique ts" and "find (\<lambda>t. pw_token_hash t = d) ts = Some stored"
  shows "\<exists>x. find (\<lambda>t. pw_token_hash t = d) (update_where Q (consume now) (update_row (consume now stored) ts)) = Some x
    \<and> (Q (consume now stored) \<longrightarrow> x = consume now (consume now stored)) \<and> (\<not> Q (consume now stored) \<longrightarrow> x = consume now stored)"
proof -
  have "find (\<lambda>t. pw_token_hash t = d) (update_row (consume now stored) ts) = Some (consume now stored)"
    using assms by (intro find_update_row) (auto dest: find_SomeD)
  then show ?thesis
    unfolding update_where_def by (subst find_map_same) simp_all
qed

lemma login_success_allowed: "''LOGIN_SUCCESS'' \<in> set audit_check_actions"
  by (simp add: audit_check_actions_def)

section \<open>Properties\<close>

text \<open>
  C8. Brute force is stopped, and the lock survives the rollback of the failing requests:
  after \<open>ax_max_failed\<close> wrong passwords in a row, at whatever times and from whatever
  addresses, no login for that identifier succeeds before the lock expires, not even with
  the right password, and every failure is the same error.
\<close>

theorem lockout_after_max_failures:
  assumes "pk_unique (users s)" and "find_user s idf = Some u" and "us_locked_until u = None"
    and "us_status u = US_ACTIVE" and "us_failed_login_count u = 0"
    and "\<forall>a \<in> set (as @ [(env0, pw0, ip0, ua0)]). wrong_for ax (us_password_hash u) a"
    and "int (length as) + 1 = ax_max_failed ax"
    and "env_now env < env_now env0 + ax_lockout ax"
  shows "fst (run_durable (login ax env idf pw ip ua) (run_logins ax idf (as @ [(env0, pw0, ip0, ua0)]) s))
      = Inl invalid_credentials \<and>
    refresh_tokens (run_logins ax idf (as @ [(env0, pw0, ip0, ua0)]) s) = refresh_tokens s"
proof -
  have split: "run_logins ax idf (xs @ ys) s = run_logins ax idf ys (run_logins ax idf xs s)" for xs ys s
    by (induction ax idf xs s rule: run_logins.induct) auto
  let ?s1 = "run_logins ax idf as s"
  have lt: "us_failed_login_count u + int (length as) < ax_max_failed ax" using assms(5,7) by simp
  have ws: "\<forall>a \<in> set as. wrong_for ax (us_password_hash u) a" using assms(6) by simp
  obtain u1 where u1: "find_user ?s1 idf = Some u1" "pk_unique (users ?s1)" "us_locked_until u1 = None"
    "us_status u1 = US_ACTIVE" "us_password_hash u1 = us_password_hash u"
    "us_failed_login_count u1 = int (length as)" "refresh_tokens ?s1 = refresh_tokens s"
    using run_logins_count[OF assms(1-4) ws lt] assms(5) by auto
  have nl: "\<not> is_locked (env_now env0) u1" using u1(3) by (simp add: is_locked_def)
  have wp: "\<not> (truthy (us_password_hash u1) \<and> ax_verify ax (the (us_password_hash u1)) pw0)"
    using assms(6) u1(5) by (simp add: wrong_for_def)
  obtain s2 where s2: "run_durable (login ax env0 idf pw0 ip0 ua0) ?s1 = (Inl invalid_credentials, s2)"
    "find_user s2 idf = Some (count_failure ax env0 u1)" "refresh_tokens s2 = refresh_tokens ?s1"
    using wrong_password_step[OF u1(2,1) nl u1(4) wp] by blast
  have run: "run_logins ax idf (as @ [(env0, pw0, ip0, ua0)]) s = s2" by (simp add: split s2(1))
  have "is_locked (env_now env) (count_failure ax env0 u1)"
    using count_failure_lock[of ax u1 env0] u1(6) assms(7,8) by (simp add: is_locked_def)
  then have "login ax env idf pw ip ua s2 =
      (record_attempt env (Some (row_id (count_failure ax env0 u1))) idf ip False s2, Inl invalid_credentials)"
    using s2(2) find_user_mem[OF s2(2)] by (simp add: login_def)
  then show ?thesis unfolding run using s2(3) u1(7) by (simp add: run_durable_def)
qed

definition sample_ax :: auth_env where
  "sample_ax = \<lparr>ax_verify = (\<lambda>h p. h = p), ax_hash = id, ax_digest = id, ax_raw = ''new'',
     ax_jwt_encode = toy_encode, ax_jti = ''j'', ax_max_failed = 3, ax_lockout = 900,
     ax_access_ttl = 900, ax_refresh_ttl = 1000, ax_reset_ttl = 1800\<rparr>"

definition sample_account :: user where
  "sample_account = (blank_user ''U1'')\<lparr>us_phone := Some ''123'', us_password_hash := Some ''secret''\<rparr>"

definition auth_db :: db where
  "auth_db = empty_db\<lparr>users := [sample_account]\<rparr>"

definition at_time :: "timestamp \<Rightarrow> env" where
  "at_time t = \<lparr>env_now = t, env_today = 1, env_gen = (\<lambda>tab n. tab @ replicate n CHR ''+'')\<rparr>"

lemma sample_find_user: "find_user auth_db ''123'' = Some sample_account"
  by (simp add: auth_db_def find_user_def get_by_phone_def sample_account_def blank_defs)

lemma lockout_after_max_failures_witness:
  "fst (run_durable (login sample_ax (at_time 500) ''123'' ''secret'' None None)
     (run_logins sample_ax ''123'' ([(at_time 1, ''a'', None, None), (at_time 2, ''b'', None, None)] @ [(at_time 3, ''c'', None, None)]) auth_db))
   = Inl invalid_credentials"
proof -
  have h: "pk_unique (users auth_db)" "us_locked_until sample_account = None"
    "us_status sample_account = US_ACTIVE" "us_failed_login_count sample_account = 0"
    "\<forall>a \<in> set ([(at_time 1, ''a'', None, None), (at_time 2, ''b'', None, None)] @ [(at_time 3, ''c'', None, None)]).
       wrong_for sample_ax (us_password_hash sample_account) a"
    "int (length [(at_time 1, ''a'', None :: string option, None :: string option), (at_time 2, ''b'', None, None)]) + 1 = ax_max_failed sample_ax"
    "env_now (at_time 500) < env_now (at_time 3) + ax_lockout sample_ax"
    by (simp_all add: auth_db_def pk_unique_def sample_account_def blank_defs wrong_for_def sample_ax_def at_time_def)
  show ?thesis
    using lockout_after_max_failures[OF h(1) sample_find_user h(2-7), of "''secret''" None None] by blast
qed

text \<open>
  The requests that write refresh tokens, one after the other, under one digest function. A key that
  a request generates is new.
\<close>

inductive session_step :: "(string \<Rightarrow> string) \<Rightarrow> db \<Rightarrow> db \<Rightarrow> bool" for dg where
  Refreshes: "ax_digest ax = dg \<Longrightarrow> new_id env ''refresh_tokens'' (refresh_tokens s) \<notin> ids (refresh_tokens s) \<Longrightarrow>
    session_step dg s (snd (run_durable (refresh ax env raw ip ua) s))"
| LogsIn: "ax_digest ax = dg \<Longrightarrow> new_id env ''refresh_tokens'' (refresh_tokens s) \<notin> ids (refresh_tokens s) \<Longrightarrow>
    session_step dg s (snd (run_durable (login ax env identifier password ip ua) s))"
| LogsOut: "ax_digest ax = dg \<Longrightarrow> logout ax env ctx raw s = Inr ((), s') \<Longrightarrow> session_step dg s s'"
| Resets: "ax_digest ax = dg \<Longrightarrow> confirm_password_reset ax env raw password ip s = Inr ((), s') \<Longrightarrow> session_step dg s s'"
| Changes: "change_password ax env ctx current password s = Inr ((), s') \<Longrightarrow> session_step dg s s'"

text \<open>Rows keep their place, key, digest and family; a dead token stays dead; new rows come last.\<close>

definition token_kept :: "(refresh_token \<Rightarrow> refresh_token) \<Rightarrow> refresh_token \<Rightarrow> bool" where
  "token_kept f t \<longleftrightarrow> row_id (f t) = row_id t \<and> rt_token_digest (f t) = rt_token_digest t \<and>
     rt_session_family_id (f t) = rt_session_family_id t \<and> (dead_token t \<longrightarrow> dead_token (f t))"

definition tokens_advance :: "refresh_token list \<Rightarrow> refresh_token list \<Rightarrow> bool" where
  "tokens_advance ts ts' \<longleftrightarrow> pk_unique ts' \<and> (\<exists>f new. ts' = map f ts @ new \<and> (\<forall>t \<in> set ts. token_kept f t))"

lemma tokens_advance_map:
  assumes "pk_unique ts" and "\<And>t. t \<in> set ts \<Longrightarrow> token_kept f t"
  shows "tokens_advance ts (map f ts)"
proof -
  have "map row_id (map f ts) = map row_id ts" using assms(2) by (auto simp: token_kept_def)
  with assms show ?thesis unfolding tokens_advance_def pk_unique_def by (metis append_Nil2)
qed

lemma tokens_advance_refl: "pk_unique ts \<Longrightarrow> tokens_advance ts ts"
  using tokens_advance_map[of ts "\<lambda>t. t"] by (simp add: token_kept_def)

lemma tokens_advance_where: "pk_unique ts \<Longrightarrow> tokens_advance ts (update_where P (revoke_token now) ts)"
  unfolding update_where_def by (rule tokens_advance_map) (auto simp: token_kept_def)

lemma tokens_advance_row:
  assumes "pk_unique ts" "t \<in> set ts" "token_kept (\<lambda>_. t') t"
  shows "tokens_advance ts (update_row t' ts)"
  unfolding update_row_def
  by (rule tokens_advance_map[OF assms(1)])
    (use assms in \<open>auto simp: token_kept_def dest: pk_unique_inj\<close>)

lemma tokens_advance_new:
  assumes "tokens_advance ts ts'" and "row_id x \<notin> ids ts'"
  shows "tokens_advance ts (ts' @ [x])"
  using assms pk_unique_insert_row[of x ts'] unfolding tokens_advance_def insert_row_def by (metis append_assoc)

lemma run_durable_snd:
  obtains e where "run_durable f s = (Inl e, fst (f s))"
  | x where "snd (f s) = Inr (x, snd (run_durable f s))"
proof (cases "f s")
  case f: (Pair d r)
  show thesis
  proof (cases r)
    case (Inr y)
    then show thesis using that f
      by (cases y; cases "check_audit_rows (drop (length (audit_logs s)) (audit_logs (snd y)))") (auto simp: run_durable_def)
  qed (use that(1) f in \<open>simp add: run_durable_def\<close>)
qed

lemma revoke_durable_advance:
  assumes "pk_unique (refresh_tokens s)"
  shows "tokens_advance (refresh_tokens s) (refresh_tokens (revoke_family_durable env fam s))"
    and "tokens_advance (refresh_tokens s) (refresh_tokens (revoke_token_durable env tid s))"
    and "tokens_advance (refresh_tokens s) (refresh_tokens (revoke_all_user_sessions env uid s))"
  using assms get_row_SomeD[of tid "refresh_tokens s"]
  by (auto simp: revoke_family_durable_def revoke_token_durable_def revoke_all_user_sessions_def tokens_advance_where
      tokens_advance_refl token_kept_def intro!: tokens_advance_row split: option.splits)

lemma find_token_mem: "find_token d s = Some t \<Longrightarrow> t \<in> set (refresh_tokens s) \<and> rt_token_digest t = d"
  unfolding find_token_def by (auto dest: find_SomeD)

lemma refresh_advance:
  assumes pk: "pk_unique (refresh_tokens s)"
    and new: "new_id env ''refresh_tokens'' (refresh_tokens s) \<notin> ids (refresh_tokens s)"
  shows "tokens_advance (refresh_tokens s) (refresh_tokens (snd (run_durable (refresh ax env raw ip ua) s)))"
proof (cases rule: run_durable_snd[of "refresh ax env raw ip ua" s])
  case 1
  have "tokens_advance (refresh_tokens s) (refresh_tokens (fst (refresh ax env raw ip ua s)))"
    using revoke_durable_advance[OF pk] tokens_advance_refl[OF pk]
    by (simp add: refresh_def split: refresh_decision.splits)
  with 1 show ?thesis by simp
next
  case (2 p)
  then obtain t where c: "refresh_check ax env raw s = Rotate t"
    and w: "refresh_write ax env t ip ua s = Inr (p, snd (run_durable (refresh ax env raw ip ua) s))"
    by (auto simp: refresh_def split: refresh_decision.splits)
  from c have "t \<in> set (refresh_tokens s)" by (auto simp: refresh_check_Rotate dest: find_token_mem)
  then have adv: "tokens_advance (refresh_tokens s) (update_row (rotated env t) (refresh_tokens s))"
    by (intro tokens_advance_row[OF pk]) (simp_all add: token_kept_def)
  from refresh_write_Inr[OF w] obtain x where
    "refresh_tokens (snd (run_durable (refresh ax env raw ip ua) s)) = update_row (rotated env t) (refresh_tokens s) @ [x]"
    "row_id x = new_id env ''refresh_tokens'' (refresh_tokens s)" by blast
  with tokens_advance_new[OF adv, of x] new show ?thesis by simp
qed

lemma login_Inr:
  "snd (login ax env identifier password ip ua s) = Inr (p, s') \<Longrightarrow>
     \<exists>x. refresh_tokens s' = refresh_tokens s @ [x] \<and> row_id x = new_id env ''refresh_tokens'' (refresh_tokens s)"
  by (auto simp: login_def Let_def issue_pair_def add_refresh_token_def bind_ok_Inr_iff constrained_Inr_iff
      build_refresh_token_def insert_row_def split: option.splits if_splits)

lemma login_advance:
  assumes pk: "pk_unique (refresh_tokens s)"
    and new: "new_id env ''refresh_tokens'' (refresh_tokens s) \<notin> ids (refresh_tokens s)"
  shows "tokens_advance (refresh_tokens s) (refresh_tokens (snd (run_durable (login ax env identifier password ip ua) s)))"
proof (cases rule: run_durable_snd[of "login ax env identifier password ip ua" s])
  case 1
  have "refresh_tokens (fst (login ax env identifier password ip ua s)) = refresh_tokens s"
    by (simp add: login_def register_failure_def Let_def split: option.splits)
  with 1 show ?thesis by (simp add: tokens_advance_refl[OF pk])
next
  case (2 p)
  then obtain x where "refresh_tokens (snd (run_durable (login ax env identifier password ip ua) s)) = refresh_tokens s @ [x]"
    "row_id x = new_id env ''refresh_tokens'' (refresh_tokens s)"
    using login_Inr by blast
  with tokens_advance_new[OF tokens_advance_refl[OF pk], of x] new show ?thesis by simp
qed

lemma session_step_advance:
  assumes "session_step dg s s'" and pk: "pk_unique (refresh_tokens s)"
  shows "tokens_advance (refresh_tokens s) (refresh_tokens s')"
  using assms(1)
proof cases
  case (Refreshes ax env raw ip ua)
  then show ?thesis using refresh_advance[OF pk] by simp
next
  case (LogsIn ax env who pw ip ua)
  then show ?thesis using login_advance[OF pk] by simp
next
  case (LogsOut ax env ctx raw)
  then show ?thesis using pk
    by (auto simp: logout_def token_kept_def dest!: find_token_mem intro!: tokens_advance_row tokens_advance_refl split: option.splits)
next
  case (Resets ax env raw password ip)
  show ?thesis
    using Resets(2) by (rule confirm_Inr) (use revoke_durable_advance(3)[OF pk] in simp)
next
  case (Changes ax env ctx current password)
  then obtain uid where "refresh_tokens s' = refresh_tokens (revoke_all_user_sessions env uid s)"
    by (auto simp: change_password_def Let_def bind_ok_Inr_iff revoke_all_user_sessions_def split: option.splits if_splits)
  then show ?thesis using revoke_durable_advance(3)[OF pk] by simp
qed

lemma advance_find:
  assumes "tokens_advance (refresh_tokens s) (refresh_tokens s')" and "find_token d s = Some t"
  shows "\<exists>t'. find_token d s' = Some t' \<and> rt_session_family_id t' = rt_session_family_id t \<and> (dead_token t \<longrightarrow> dead_token t')"
proof -
  obtain f new where f: "refresh_tokens s' = map f (refresh_tokens s) @ new" "\<forall>t \<in> set (refresh_tokens s). token_kept f t"
    using assms(1) unfolding tokens_advance_def by blast
  then have "find (\<lambda>x. rt_token_digest x = d) (map f (refresh_tokens s)) = map_option f (find (\<lambda>x. rt_token_digest x = d) (refresh_tokens s))"
    by (intro find_map_same) (simp add: token_kept_def)
  with assms(2) have "find_token d s' = Some (f t)" by (simp add: find_token_def f(1) find_append)
  moreover have "token_kept f t" using f(2) find_token_mem[OF assms(2)] by blast
  ultimately show ?thesis by (auto simp: token_kept_def)
qed

text \<open>A dead token stays dead over any sequence of these requests.\<close>

lemma dead_forever:
  assumes "(session_step dg)\<^sup>*\<^sup>* s s'" "pk_unique (refresh_tokens s)" "find_token d s = Some t" "dead_token t"
  shows "pk_unique (refresh_tokens s') \<and>
    (\<exists>t'. find_token d s' = Some t' \<and> rt_session_family_id t' = rt_session_family_id t \<and> dead_token t')"
  using assms
proof (induction rule: rtranclp_induct)
  case (step s1 s2)
  then obtain t' where t': "pk_unique (refresh_tokens s1)" "find_token d s1 = Some t'"
    "rt_session_family_id t' = rt_session_family_id t" "dead_token t'" by blast
  from session_step_advance[OF step.hyps(2) t'(1)] advance_find[OF _ t'(2)] t'(3,4) show ?case
    by (auto simp: tokens_advance_def)
qed blast

lemma exchange_ends_token:
  assumes "run_durable (refresh ax env raw ip ua) s = (Inr p, s')" "pk_unique (refresh_tokens s)"
  shows "\<exists>t t'. find_token (ax_digest ax raw) s = Some t \<and> find_token (ax_digest ax raw) s' = Some t' \<and>
    rt_session_family_id t' = rt_session_family_id t \<and> dead_token t'"
proof -
  obtain t where chk: "refresh_check ax env raw s = Rotate t" and wr: "refresh_write ax env t ip ua s = Inr (p, s')"
    using run_refresh_Inr[OF assms(1)] by blast
  then have t: "find_token (ax_digest ax raw) s = Some t" by (simp add: refresh_check_Rotate)
  obtain new where n: "refresh_tokens s' = update_row (rotated env t) (refresh_tokens s) @ [new]"
    using refresh_write_Inr[OF wr] by blast
  have "find_token (ax_digest ax raw) s' = Some (rotated env t)"
    by (rule find_token_update[OF assms(2) t _ _ n]) simp_all
  with t show ?thesis by simp
qed

lemma logout_ends_token:
  assumes "logout ax env ctx raw s = Inr ((), s')" "pk_unique (refresh_tokens s)" "find_token (ax_digest ax raw) s = Some t"
  shows "\<exists>t'. find_token (ax_digest ax raw) s' = Some t' \<and> rt_session_family_id t' = rt_session_family_id t \<and> dead_token t'"
proof -
  have n: "refresh_tokens s' = update_row (revoke_token (env_now env) t) (refresh_tokens s) @ []"
    using assms(1,3) by (auto simp: logout_def)
  have "find_token (ax_digest ax raw) s' = Some (revoke_token (env_now env) t)"
    by (rule find_token_update[OF assms(2,3) _ _ n]) simp_all
  then show ?thesis by simp
qed

text \<open>
  C9. Reuse of a refresh token ends the session. Once a token was exchanged or its session logged out, then after
  any further logins, exchanges, logouts and changes of passwords, presenting it again is a 401 which in the
  committed state has revoked every token of its family and touched no other; from then on every token of
  the family, the one that replaced it included, is refused.
\<close>

theorem reuse_revokes_family:
  assumes "pk_unique (refresh_tokens s0)" and "new_id env ''refresh_tokens'' (refresh_tokens s0) \<notin> ids (refresh_tokens s0)"
    and "find_token (ax_digest ax raw) s0 = Some t"
    and ended: "run_durable (refresh ax env raw ip ua) s0 = (Inr p, s1) \<or> logout ax env ctx raw s0 = Inr ((), s1)"
    and later: "(session_step (ax_digest ax))\<^sup>*\<^sup>* s1 s2" and "ax_digest ax2 = ax_digest ax"
  shows "\<exists>s3. run_durable (refresh ax2 env2 raw ip2 ua2) s2 = (Inl invalid_credentials, s3) \<and>
    (\<forall>x \<in> set (refresh_tokens s3). rt_session_family_id x = rt_session_family_id t \<longrightarrow> rt_revoked_at x = Some (env_now env2)) \<and>
    (\<forall>x \<in> set (refresh_tokens s2). rt_session_family_id x \<noteq> rt_session_family_id t \<longrightarrow> x \<in> set (refresh_tokens s3)) \<and>
    (\<forall>ax3 env3 raw3 ip3 ua3 x. find_token (ax_digest ax3 raw3) s3 = Some x \<longrightarrow> rt_session_family_id x = rt_session_family_id t \<longrightarrow>
       fst (run_durable (refresh ax3 env3 raw3 ip3 ua3) s3) = Inl invalid_credentials)"
proof -
  obtain t1 where t1: "find_token (ax_digest ax raw) s1 = Some t1" "rt_session_family_id t1 = rt_session_family_id t" "dead_token t1"
    using ended exchange_ends_token[OF _ assms(1)] logout_ends_token[OF _ assms(1,3)] assms(3) by force
  have "session_step (ax_digest ax) s0 s1"
    using ended session_step.Refreshes[OF refl assms(2), of ax raw ip ua] session_step.LogsOut[OF refl, of ax env ctx raw s0 s1] by force
  then have pk1: "pk_unique (refresh_tokens s1)" using session_step_advance[OF _ assms(1)] by (auto simp: tokens_advance_def)
  obtain t2 where t2: "find_token (ax_digest ax raw) s2 = Some t2" "rt_session_family_id t2 = rt_session_family_id t" "dead_token t2"
    using dead_forever[OF later pk1 t1(1,3)] t1(2) by auto
  let ?s3 = "revoke_family_durable env2 (rt_session_family_id t) s2"
  have run: "run_durable (refresh ax2 env2 raw ip2 ua2) s2 = (Inl invalid_credentials, ?s3)"
    using refresh_reuse[of ax2 raw s2 t2 env2 ip2 ua2] t2 assms(6) by simp
  have fam: "rt_revoked_at x = Some (env_now env2)"
    if "x \<in> set (refresh_tokens ?s3)" "rt_session_family_id x = rt_session_family_id t" for x
    using that(1) by (rule revoke_family_mem) (use that(2) in simp)
  have others: "x \<in> set (refresh_tokens ?s3)"
    if "x \<in> set (refresh_tokens s2)" "rt_session_family_id x \<noteq> rt_session_family_id t" for x
    using that by (force simp: revoke_family_durable_def set_update_where)
  have after: "fst (run_durable (refresh ax3 env3 raw3 ip3 ua3) ?s3) = Inl invalid_credentials"
    if "find_token (ax_digest ax3 raw3) ?s3 = Some x" "rt_session_family_id x = rt_session_family_id t" for ax3 env3 raw3 ip3 ua3 x
  proof -
    have "dead_token x" using fam that find_token_mem[OF that(1)] by (simp add: dead_token_def)
    from refresh_reuse[OF that(1) this] show ?thesis by simp
  qed
  from run fam others after show ?thesis by blast
qed

definition session_token :: refresh_token where
  "session_token = (blank_refresh_token ''T1'')\<lparr>rt_user_id := ''U1'', rt_token_digest := ''old'',
     rt_session_family_id := ''F'', rt_expires_at := 1000\<rparr>"

definition session_db :: db where
  "session_db = auth_db\<lparr>refresh_tokens := [session_token]\<rparr>"

lemma session_db_simps [simp]:
  "users session_db = [sample_account]" "refresh_tokens session_db = [session_token]"
  "audit_logs session_db = []"
  by (simp_all add: session_db_def auth_db_def empty_db_def)

lemma session_check:
  "refresh_check (sample_ax\<lparr>ax_raw := r\<rparr>) (at_time 1) ''old'' session_db = Rotate session_token"
  by (simp add: refresh_check_Rotate find_token_def session_token_def sample_ax_def dead_token_def
      blank_defs at_time_def get_row_def sample_account_def)

lemma session_refresh:
  "\<exists>p s1. run_durable (refresh sample_ax (at_time 1) ''old'' None None) session_db = (Inr p, s1)"
proof -
  have c: "refresh_check sample_ax (at_time 1) ''old'' session_db = Rotate session_token"
    using session_check[of "ax_raw sample_ax"] by (simp add: sample_ax_def)
  show ?thesis
    unfolding run_durable_def refresh_def c
    by (simp add: refresh_write_def Let_def add_refresh_token_def
        uq_refresh_tokens_token_digest_def unique_on_def constrained_def insert_row_def update_row_def
        build_refresh_token_def flush_ts_def session_token_def sample_ax_def blank_defs at_time_def
        new_id_def check_audit_rows_def)
qed

lemma session_new_id: "new_id (at_time 1) ''refresh_tokens'' (refresh_tokens session_db) \<notin> ids (refresh_tokens session_db)"
  by (simp add: new_id_def at_time_def ids_def session_token_def blank_defs)

lemma reuse_revokes_family_witness:
  "\<exists>p s1 s2. run_durable (refresh sample_ax (at_time 1) ''old'' None None) session_db = (Inr p, s1) \<and>
     run_durable (refresh (sample_ax\<lparr>ax_raw := ''x''\<rparr>) (at_time 2) ''old'' None None) s1 = (Inl invalid_credentials, s2)"
proof -
  obtain p s1 where r: "run_durable (refresh sample_ax (at_time 1) ''old'' None None) session_db = (Inr p, s1)"
    using session_refresh by blast
  have pk: "pk_unique (refresh_tokens session_db)" by (simp add: pk_unique_def)
  have t: "find_token (ax_digest sample_ax ''old'') session_db = Some session_token"
    using session_check[of "ax_raw sample_ax"] by (simp add: refresh_check_Rotate)
  have "ax_digest (sample_ax\<lparr>ax_raw := ''x''\<rparr>) = ax_digest sample_ax" by simp
  from reuse_revokes_family[OF pk session_new_id t disjI1[OF r] rtranclp.rtrancl_refl this] r show ?thesis by blast
qed

text \<open>
  Reuse detection has a hole: two requests that present the same token and both read it
  before either writes are both answered with a fresh token, nothing is revoked, and both of
  the new tokens can be exchanged again. (The row has no version column and the request
  takes no lock between reading and writing it.)
\<close>

theorem concurrent_refresh_undetected:
  assumes "refresh_check ax env1 raw s = Rotate t" and "refresh_check (ax\<lparr>ax_raw := r2\<rparr>) env2 raw s = Rotate t"
    and "refresh_write ax env1 t ip1 ua1 s = Inr (p1, s1)"
    and "refresh_write (ax\<lparr>ax_raw := r2\<rparr>) env2 t ip2 ua2 s1 = Inr (p2, s2)"
    and "pk_unique (refresh_tokens s)"
    and "new_id env1 ''refresh_tokens'' (refresh_tokens s) \<notin> ids (refresh_tokens s)"
    and "new_id env2 ''refresh_tokens'' (refresh_tokens s1) \<notin> ids (refresh_tokens s1)"
    and "env_now env3 < env_now env1 + ax_refresh_ttl ax" and "env_now env3 < env_now env2 + ax_refresh_ttl ax"
  shows "(\<exists>t1. refresh_check ax env3 (tk_refresh_token p1) s2 = Rotate t1) \<and>
    (\<exists>t2. refresh_check ax env3 (tk_refresh_token p2) s2 = Rotate t2)"
proof -
  obtain n1 where n1: "refresh_tokens s1 = update_row (rotated env1 t) (refresh_tokens s) @ [n1]"
    "rt_user_id n1 = rt_user_id t" "rt_token_digest n1 = ax_digest ax (ax_raw ax)" "\<not> dead_token n1"
    "rt_expires_at n1 = env_now env1 + ax_refresh_ttl ax" "tk_refresh_token p1 = ax_raw ax"
    "row_id n1 = new_id env1 ''refresh_tokens'' (refresh_tokens s)" "users s1 = users s"
    using refresh_write_Inr[OF assms(3)] by blast
  obtain n2 where n2: "refresh_tokens s2 = update_row (rotated env2 t) (refresh_tokens s1) @ [n2]"
    "rt_user_id n2 = rt_user_id t" "rt_token_digest n2 = ax_digest ax r2" "\<not> dead_token n2"
    "rt_expires_at n2 = env_now env2 + ax_refresh_ttl ax" "tk_refresh_token p2 = r2"
    "row_id n2 = new_id env2 ''refresh_tokens'' (refresh_tokens s1)" "users s2 = users s1"
    "uq_refresh_tokens_token_digest (refresh_tokens s2)"
    using refresh_write_Inr[OF assms(4)] by auto
  have pk1: "pk_unique (refresh_tokens s1)"
    using assms(5,6) n1(7) pk_unique_insert_row[of n1 "update_row (rotated env1 t) (refresh_tokens s)"]
    by (simp add: n1(1) insert_row_def)
  have pk2: "pk_unique (refresh_tokens s2)"
    using pk1 assms(7) n2(7) pk_unique_insert_row[of n2 "update_row (rotated env2 t) (refresh_tokens s1)"]
    by (simp add: n2(1) insert_row_def)
  have t: "t \<in> set (refresh_tokens s)"
    and u: "\<exists>u. get_row (rt_user_id t) (users s2) = Some u \<and> deleted_at u = None \<and> us_status u = US_ACTIVE"
    using assms(1) n1(8) n2(8) by (auto simp: refresh_check_Rotate find_token_def dest: find_SomeD)
  have "row_id n1 \<noteq> row_id t" using assms(6) n1(7) t by (auto simp: ids_def)
  then have m1: "n1 \<in> set (refresh_tokens s2)"
    using n1(1) by (auto simp: n2(1) intro: set_update_row_other)
  have m2: "n2 \<in> set (refresh_tokens s2)" by (simp add: n2(1))
  have found: "find_token (rt_token_digest n) s2 = Some n" if "n \<in> set (refresh_tokens s2)" for n
    unfolding find_token_def
  proof (rule find_unique[OF that])
    fix y assume "y \<in> set (refresh_tokens s2)" "rt_token_digest y = rt_token_digest n"
    with that n2(9) have "row_id y = row_id n"
      unfolding uq_refresh_tokens_token_digest_def by (blast dest: unique_onD)
    with pk2 \<open>y \<in> set (refresh_tokens s2)\<close> that show "y = n" by (blast dest: pk_unique_inj)
  qed simp
  have "refresh_check ax env3 (tk_refresh_token p1) s2 = Rotate n1"
    unfolding refresh_check_Rotate using found[OF m1] u assms(8) by (simp add: n1)
  moreover have "refresh_check ax env3 (tk_refresh_token p2) s2 = Rotate n2"
    unfolding refresh_check_Rotate using found[OF m2] u assms(9) by (simp add: n2)
  ultimately show ?thesis by blast
qed

lemma concurrent_refresh_undetected_witness:
  "\<exists>p1 s1 p2 s2 t1 t2.
     refresh_write sample_ax (at_time 1) session_token None None session_db = Inr (p1, s1) \<and>
     refresh_write (sample_ax\<lparr>ax_raw := ''other''\<rparr>) (at_time 1) session_token None None s1 = Inr (p2, s2) \<and>
     refresh_check sample_ax (at_time 5) (tk_refresh_token p1) s2 = Rotate t1 \<and>
     refresh_check sample_ax (at_time 5) (tk_refresh_token p2) s2 = Rotate t2"
proof -
  have c1: "refresh_check sample_ax (at_time 1) ''old'' session_db = Rotate session_token"
    using session_check[of "ax_raw sample_ax"] by (simp add: sample_ax_def)
  obtain p1 s1 where w1: "refresh_write sample_ax (at_time 1) session_token None None session_db = Inr (p1, s1)"
    and s1: "refresh_tokens s1 = [session_token\<lparr>rt_rotated_at := Some 1, updated_at := 1\<rparr>,
       build_refresh_token sample_ax (at_time 1) ''U1'' ''F'' None None session_db]"
    by (simp add: refresh_write_def Let_def add_refresh_token_def
        uq_refresh_tokens_token_digest_def unique_on_def constrained_def insert_row_def update_row_def
        build_refresh_token_def flush_ts_def session_token_def sample_ax_def blank_defs at_time_def new_id_def)
  obtain p2 s2 where w2: "refresh_write (sample_ax\<lparr>ax_raw := ''other''\<rparr>) (at_time 1) session_token None None s1 = Inr (p2, s2)"
    by (simp add: refresh_write_def Let_def add_refresh_token_def s1
        uq_refresh_tokens_token_digest_def unique_on_def constrained_def insert_row_def update_row_def
        build_refresh_token_def flush_ts_def session_token_def sample_ax_def blank_defs at_time_def new_id_def)
  have h: "pk_unique (refresh_tokens session_db)"
    "new_id (at_time 1) ''refresh_tokens'' (refresh_tokens s1) \<notin> ids (refresh_tokens s1)"
    "env_now (at_time 5) < env_now (at_time 1) + ax_refresh_ttl sample_ax"
    by (simp_all add: pk_unique_def s1 new_id_def at_time_def ids_def session_token_def
        build_refresh_token_def blank_defs sample_ax_def)
  from concurrent_refresh_undetected[OF c1 session_check w1 w2 h(1) session_new_id h(2,3,3)] w1 w2
  show ?thesis by blast
qed

text \<open>
  C10. A confirmed password reset takes the account over completely: the new hash is stored
  and the lock lifted, every refresh token of the account is revoked, and every reset token
  of the account (the one used and any other outstanding one) is spent, so the same link
  fails when it is used again. The account becomes ACTIVE whatever its status was.
\<close>

theorem reset_ends_sessions_and_links:
  assumes "run_request (confirm_password_reset ax env raw pw ip) s = (Inr v, s')"
    and "pk_unique (users s)" and "pk_unique (reset_tokens s)"
  shows "\<exists>stored u'. find_reset (ax_digest ax raw) s = Some stored \<and>
    get_row (pw_user_id stored) (users s') = Some u' \<and>
    us_password_hash u' = Some (ax_hash ax pw) \<and> us_status u' = US_ACTIVE \<and> us_locked_until u' = None \<and>
    (\<forall>t \<in> set (refresh_tokens s'). rt_user_id t = pw_user_id stored \<longrightarrow> rt_revoked_at t \<noteq> None) \<and>
    (\<forall>t \<in> set (reset_tokens s'). pw_user_id t = pw_user_id stored \<longrightarrow> pw_consumed_at t \<noteq> None) \<and>
    run_request (confirm_password_reset ax env2 raw pw2 ip2) s' = (Inl invalid_link, s')"
proof -
  have c: "confirm_password_reset ax env raw pw ip s = Inr (v, s')"
    using run_request_cases[OF assms(1)] by auto
  from c obtain stored u where st: "find_reset (ax_digest ax raw) s = Some stored"
    and u: "get_row (pw_user_id stored) (users s) = Some u"
    and us: "users s' = update_row (reset_account (env_now env) (ax_hash ax pw) u) (users s)"
    and rs: "reset_tokens s' = update_where (\<lambda>t. row_id t \<noteq> row_id stored \<and> pw_user_id t = row_id u \<and> pw_consumed_at t = None)
        (consume (env_now env)) (update_row (consume (env_now env) stored) (reset_tokens s))"
    and rf: "refresh_tokens s' = refresh_tokens (revoke_all_user_sessions env (row_id u) s)"
    by (rule confirm_Inr)
  have uid: "row_id u = pw_user_id stored" "pw_user_id stored \<in> ids (users s)"
    using get_row_SomeD[OF u] by (auto simp: ids_def intro: rev_image_eqI)
  let ?u = "reset_account (env_now env) (ax_hash ax pw) u"
  have got: "get_row (pw_user_id stored) (users s') = Some ?u"
    unfolding us using uid by simp
  have f: "find (\<lambda>t. pw_token_hash t = ax_digest ax raw) (reset_tokens s) = Some stored"
    using st by (simp add: find_reset_def)
  obtain x where "find_reset (ax_digest ax raw) s' = Some x" "pw_consumed_at x \<noteq> None"
    using reset_token_again[OF assms(3) f, of "\<lambda>t. row_id t \<noteq> row_id stored \<and> pw_user_id t = row_id u \<and> pw_consumed_at t = None" "env_now env"]
    unfolding find_reset_def rs by (auto simp: consume_consumed)
  then have "confirm_password_reset ax env2 raw pw2 ip2 s' = Inl invalid_link"
    by (simp add: confirm_password_reset_def)
  then have again: "run_request (confirm_password_reset ax env2 raw pw2 ip2) s' = (Inl invalid_link, s')"
    by (rule run_request_error)
  have dead: "\<forall>t \<in> set (refresh_tokens s'). rt_user_id t = pw_user_id stored \<longrightarrow> rt_revoked_at t \<noteq> None"
    unfolding rf uid(1) [symmetric] using revoke_user_sessions_dead by blast
  have spent: "\<forall>t \<in> set (reset_tokens s'). pw_user_id t = pw_user_id stored \<longrightarrow> pw_consumed_at t \<noteq> None"
    unfolding rs uid(1) [symmetric] using reset_token_consumed by blast
  show ?thesis using st got dead spent again by (intro exI[of _ stored] exI[of _ ?u]) simp
qed

definition reset_db :: db where
  "reset_db = session_db\<lparr>users := [sample_account\<lparr>us_status := US_SUSPENDED\<rparr>],
     reset_tokens := [(blank_reset_token ''R1'')\<lparr>pw_user_id := ''U1'', pw_token_hash := ''link'', pw_expires_at := 50\<rparr>]\<rparr>"

lemma reset_ends_sessions_and_links_witness:
  "\<exists>s' u'. run_request (confirm_password_reset sample_ax (at_time 9) ''link'' ''brand new'' None) reset_db = (Inr (), s') \<and>
     get_row ''U1'' (users s') = Some u' \<and> us_password_hash u' = Some ''brand new'' \<and> us_status u' = US_ACTIVE \<and>
     run_request (confirm_password_reset sample_ax (at_time 10) ''link'' ''other one'' None) s' = (Inl invalid_link, s')"
proof -
  obtain s' where r: "run_request (confirm_password_reset sample_ax (at_time 9) ''link'' ''brand new'' None) reset_db = (Inr (), s')"
    by (simp add: run_request_def confirm_password_reset_def find_reset_def reset_db_def sample_ax_def at_time_def
        get_row_def hash_password_def bind_ok_def Let_def revoke_all_user_sessions_def session_db_def auth_db_def
        empty_db_def check_audit_rows_def storable_def snapshot_ok_def audit_check_actions_def
        sample_account_def blank_defs)
  have pk: "pk_unique (users reset_db)" "pk_unique (reset_tokens reset_db)"
    by (simp_all add: reset_db_def pk_unique_def)
  have fr: "find_reset (ax_digest sample_ax ''link'') reset_db =
      Some ((blank_reset_token ''R1'')\<lparr>pw_user_id := ''U1'', pw_token_hash := ''link'', pw_expires_at := 50\<rparr>)"
    by (simp add: find_reset_def reset_db_def sample_ax_def)
  have "ax_hash sample_ax ''brand new'' = ''brand new''" by (simp add: sample_ax_def)
  with reset_ends_sessions_and_links[OF r pk, of "at_time 10" "''other one''" None] fr r show ?thesis
    by auto
qed

text \<open>
  Every failed login is recorded in the committed state, whatever is rolled back, and
  its error is the uniform one, with one exception: an account that exists, is not locked
  and is not active is answered with ACCOUNT_INACTIVE before the password is looked at, so
  such accounts can be told apart from unknown ones without knowing a password.
\<close>

theorem login_failures:
  assumes "run_durable (login ax env idf pw ip ua) s = (Inl e, s')" and "pk_unique (users s)"
    and "is_api_error e"
  shows "e = (if \<exists>u. find_user s idf = Some u \<and> \<not> is_locked (env_now env) u \<and> us_status u \<noteq> US_ACTIVE
              then AccountInactiveError else invalid_credentials) \<and>
    (\<exists>a. login_attempts s' = login_attempts s @ [a] \<and> \<not> la_success a \<and>
         la_email_attempted a = Some idf \<and> la_attempted_at a = env_now env) \<and>
    refresh_tokens s' = refresh_tokens s \<and> audit_logs s' = audit_logs s"
proof (cases "find_user s idf")
  case None
  then show ?thesis
    using assms(1) by (auto simp: run_durable_def login_def record_attempt_def insert_row_def)
next
  case (Some u)
  have d: "deleted_at u = None" and g: "get_row (row_id u) (users s) = Some u"
    using find_user_mem[OF Some] get_row_mem[OF assms(2)] by blast+
  show ?thesis
  proof (cases "is_locked (env_now env) u \<or> us_status u \<noteq> US_ACTIVE \<or>
      \<not> (truthy (us_password_hash u) \<and> ax_verify ax (the (us_password_hash u)) pw)")
    case True
    then show ?thesis
      using assms(1) Some d g
      by (auto simp: run_durable_def login_def record_attempt_def register_failure_def insert_row_def split: if_splits)
  next
    case False
    then have "e = IntegrityError ''uq_refresh_tokens_token_digest''"
      using assms(1) Some d login_success_allowed
      by (auto simp: run_durable_def login_def Let_def issue_pair_def add_refresh_token_def bind_ok_Inl_iff
          bind_ok_Inr_iff constrained_def check_audit_rows_def storable_def snapshot_ok_def
          split: sum.splits prod.splits if_splits)
    with assms(3) show ?thesis by (simp add: is_api_error_def)
  qed
qed

lemma login_failures_witness:
  "\<exists>s'. run_durable (login sample_ax (at_time 5) ''123'' ''whatever'' None None)
       (auth_db\<lparr>users := [sample_account\<lparr>us_status := US_DISABLED\<rparr>]\<rparr>) = (Inl AccountInactiveError, s') \<and>
     (\<exists>a. login_attempts s' = [a] \<and> \<not> la_success a)"
proof -
  let ?s = "auth_db\<lparr>users := [sample_account\<lparr>us_status := US_DISABLED\<rparr>]\<rparr>"
  obtain s' where r: "run_durable (login sample_ax (at_time 5) ''123'' ''whatever'' None None) ?s = (Inl AccountInactiveError, s')"
    by (simp add: run_durable_def login_def find_user_def get_by_phone_def sample_account_def blank_defs is_locked_def)
  have "pk_unique (users ?s)" "is_api_error AccountInactiveError" "login_attempts ?s = []"
    by (simp_all add: pk_unique_def is_api_error_def auth_db_def empty_db_def)
  with login_failures[OF r] r show ?thesis by auto
qed

end
