(* ===== verification/Interfaces.thy ===== *)
theory Interfaces
  imports Prelude
begin

text \<open>
  Contracts several services share, as locales: an operation guarded by the version the
  caller read, a transition system with an invariant, and a status that only moves forward.
  Each is interpreted on the services that promise it.
\<close>

section \<open>Optimistic locking\<close>

text \<open>
  \<open>upd c i v a s\<close> is an update of the row \<open>i\<close> by a caller that read version \<open>v\<close>. In the
  states that satisfy \<open>ok\<close>, it succeeds only on a row of that version, and it leaves the row
  as it was or with the next version.
\<close>

locale versioned_write =
  fixes upd :: "'c \<Rightarrow> ulid \<Rightarrow> int \<Rightarrow> 'a \<Rightarrow> 's \<Rightarrow> ('r \<times> 's) result"
    and row_of :: "ulid \<Rightarrow> 's \<Rightarrow> 'row option"
    and row_version :: "'row \<Rightarrow> int"
    and ok :: "'s \<Rightarrow> bool"
  assumes accepts: "ok s \<Longrightarrow> upd c i v a s = Inr (r, s') \<Longrightarrow> \<exists>x. row_of i s = Some x \<and> row_version x = v"
    and bumps: "ok s \<Longrightarrow> upd c i v a s = Inr (r, s') \<Longrightarrow> row_of i s = Some x \<Longrightarrow>
        \<exists>x'. row_of i s' = Some x' \<and> (x' = x \<or> row_version x' = v + 1)"
    and keeps: "ok s \<Longrightarrow> upd c i v a s = Inr (r, s') \<Longrightarrow> ok s'"
begin

lemma stale_rejected: "ok s \<Longrightarrow> row_of i s = Some x \<Longrightarrow> row_version x \<noteq> v \<Longrightarrow> \<exists>e. upd c i v a s = Inl e"
  using accepts[of s c i v a] by (cases "upd c i v a s") force+

text \<open>Two callers that read the same version cannot both change the row.\<close>

lemma no_lost_update:
  assumes "ok s" and "upd c1 i v a1 s = Inr (r1, s1)" and "row_of i s1 \<noteq> row_of i s"
  shows "\<exists>e. upd c2 i v a2 s1 = Inl e"
proof -
  obtain x where x: "row_of i s = Some x" using accepts[OF assms(1,2)] by blast
  then obtain x' where "row_of i s1 = Some x'" "row_version x' = v + 1"
    using bumps[OF assms(1,2) x] assms(3) by auto
  then show ?thesis by (intro stale_rejected keeps[OF assms(1,2)]) auto
qed

end

section \<open>Transition systems\<close>

locale invariant_system =
  fixes step :: "'s \<Rightarrow> 's \<Rightarrow> bool"
    and inv :: "'s \<Rightarrow> bool"
  assumes preserved: "inv s \<Longrightarrow> step s s' \<Longrightarrow> inv s'"
begin

lemma reach_inv: "step\<^sup>*\<^sup>* s s' \<Longrightarrow> inv s \<Longrightarrow> inv s'"
  by (induction rule: rtranclp_induct) (auto intro: preserved)

end

text \<open>A rank of each row that no step lowers, in the states of the invariant.\<close>

locale lifecycle = invariant_system step inv
  for step :: "'s \<Rightarrow> 's \<Rightarrow> bool" and inv :: "'s \<Rightarrow> bool" +
  fixes rank :: "'s \<Rightarrow> ulid \<Rightarrow> nat option"
  assumes forward: "inv s \<Longrightarrow> step s s' \<Longrightarrow> rank s i = Some n \<Longrightarrow> \<exists>m. rank s' i = Some m \<and> n \<le> m"
begin

lemma reach_forward:
  assumes "step\<^sup>*\<^sup>* s s'" and "inv s" and "rank s i = Some n"
  shows "\<exists>m. rank s' i = Some m \<and> n \<le> m"
  using assms(1)
proof (induction rule: rtranclp_induct)
  case base
  then show ?case using assms(3) by simp
next
  case (step t u)
  from step.IH obtain m where m: "rank t i = Some m" "n \<le> m" by blast
  have "inv t" using reach_inv[OF step.hyps(1) assms(2)] .
  from forward[OF this step.hyps(2) m(1)] m(2) show ?case by (meson order_trans)
qed

lemma never_back:
  assumes "step\<^sup>*\<^sup>* s s'" and "inv s" and "rank s i = Some n" and "k < n"
  shows "rank s' i \<noteq> Some k"
  using reach_forward[OF assms(1-3)] assms(4) by auto

end

section \<open>Tables with codes\<close>

text \<open>
  A table whose live rows are looked up by a code, compared after \<open>norm\<close>, within a scope.
  The lookup answers a live row with that code or there is none. A service that looks a code
  up before it inserts keeps the codes of the live rows apart; but the database compares
  whole codes and looks at deleted rows too.
\<close>

locale code_table =
  fixes find_code :: "'a pk_row_scheme list \<Rightarrow> 'k \<Rightarrow> string \<Rightarrow> 'a pk_row_scheme option"
    and live :: "'a pk_row_scheme \<Rightarrow> bool"
    and scope_of :: "'a pk_row_scheme \<Rightarrow> 'k"
    and code_of :: "'a pk_row_scheme \<Rightarrow> string"
    and norm :: "string \<Rightarrow> string"
  assumes found: "find_code t k c = Some x \<Longrightarrow>
      x \<in> set t \<and> live x \<and> scope_of x = k \<and> norm (code_of x) = norm c"
    and missing: "find_code t k c = None \<Longrightarrow> x \<in> set t \<Longrightarrow> live x \<Longrightarrow> scope_of x = k \<Longrightarrow>
      norm (code_of x) \<noteq> norm c"
begin

lemma insert_checked:
  assumes "unique_on live (\<lambda>x. (scope_of x, norm (code_of x))) t"
    and "find_code t (scope_of r) (code_of r) = None"
  shows "unique_on live (\<lambda>x. (scope_of x, norm (code_of x))) (insert_row r t)"
  using assms(1) missing[OF assms(2)] by (intro unique_on_insert_row) auto

lemma update_keeping_code:
  assumes "unique_on live (\<lambda>x. (scope_of x, norm (code_of x))) t"
    and "x \<in> set t" and "row_id r = row_id x" and "code_of r = code_of x"
    and "scope_of r = scope_of x" and "live r \<Longrightarrow> live x"
  shows "unique_on live (\<lambda>x. (scope_of x, norm (code_of x))) (update_row r t)"
  using assms by (intro unique_on_update_row_same[of live _ t x]) auto

text \<open>A code only a deleted row has passes the lookup, and the insert then fails.\<close>

lemma deleted_code_refused:
  assumes "y \<in> set t" and "scope_of y = scope_of r" and "code_of y = code_of r" and "row_id r \<noteq> row_id y"
  shows "\<not> unique_on (\<lambda>_. True) (\<lambda>x. (scope_of x, code_of x)) (insert_row r t)"
  using assms unfolding unique_on_def by (metis insert_iff set_insert_row)

end

text \<open>
  A service over such a table: every step leaves it alone, inserts a row whose code the lookup
  did not find, or rewrites a row without changing its code or bringing a deleted row back.
\<close>

locale coded_service = code_table find_code live scope_of code_of norm
  for find_code :: "'a pk_row_scheme list \<Rightarrow> 'k \<Rightarrow> string \<Rightarrow> 'a pk_row_scheme option"
    and live :: "'a pk_row_scheme \<Rightarrow> bool"
    and scope_of :: "'a pk_row_scheme \<Rightarrow> 'k"
    and code_of :: "'a pk_row_scheme \<Rightarrow> string"
    and norm :: "string \<Rightarrow> string" +
  fixes table :: "'s \<Rightarrow> 'a pk_row_scheme list"
    and step :: "'s \<Rightarrow> 's \<Rightarrow> bool"
  assumes shape: "step s s' \<Longrightarrow> table s' = table s \<or>
    (\<exists>r. table s' = insert_row r (table s) \<and> find_code (table s) (scope_of r) (code_of r) = None) \<or>
    (\<exists>x r. x \<in> set (table s) \<and> table s' = update_row r (table s) \<and> row_id r = row_id x \<and>
       code_of r = code_of x \<and> scope_of r = scope_of x \<and> (live r \<longrightarrow> live x))"

sublocale coded_service \<subseteq> codes: invariant_system step
    "\<lambda>s. unique_on live (\<lambda>x. (scope_of x, norm (code_of x))) (table s)"
proof
  fix s s' assume u: "unique_on live (\<lambda>x. (scope_of x, norm (code_of x))) (table s)" and "step s s'"
  from shape[OF this(2)] show "unique_on live (\<lambda>x. (scope_of x, norm (code_of x))) (table s')"
  proof (elim disjE exE conjE)
    assume "table s' = table s"
    then show ?thesis using u by simp
  next
    fix r assume "table s' = insert_row r (table s)" "find_code (table s) (scope_of r) (code_of r) = None"
    then show ?thesis using insert_checked[OF u] by simp
  next
    fix x r assume "x \<in> set (table s)" "table s' = update_row r (table s)" "row_id r = row_id x"
      "code_of r = code_of x" "scope_of r = scope_of x" "live r \<longrightarrow> live x"
    then show ?thesis using update_keeping_code[OF u, of x r] by simp
  qed
qed

end
