(* ===== verification/Timetables.thy ===== *)
theory Timetables
  imports Platform Interfaces "HOL-Library.AList"
begin

text \<open>
  Timetable headers: \<open>app/modules/timetables/service.py\<close> (header part) with the queries of
  \<open>app/modules/timetables/repository.py\<close> it uses, conflict detection included.
\<close>

section \<open>Values\<close>

fun timetable_status_value :: "timetable_status \<Rightarrow> string" where
  "timetable_status_value TT_DRAFT = ''DRAFT''"
| "timetable_status_value TT_PUBLISHED = ''PUBLISHED''"
| "timetable_status_value TT_ARCHIVED = ''ARCHIVED''"

fun day_value :: "day_of_week \<Rightarrow> string" where
  "day_value MONDAY = ''MONDAY''"
| "day_value TUESDAY = ''TUESDAY''"
| "day_value WEDNESDAY = ''WEDNESDAY''"
| "day_value THURSDAY = ''THURSDAY''"
| "day_value FRIDAY = ''FRIDAY''"
| "day_value SATURDAY = ''SATURDAY''"
| "day_value SUNDAY = ''SUNDAY''"

definition time_json :: "timestamp option \<Rightarrow> jval" where
  "time_json t = (case t of None \<Rightarrow> JNull | Some x \<Rightarrow> JTimeStr x)"

definition timetable_snapshot :: "timetable \<Rightarrow> snapshot" where
  "timetable_snapshot tt = [(''name'', JStr (tt_name tt)),
     (''status'', JStr (timetable_status_value (tt_status tt))),
     (''published_at'', time_json (tt_published_at tt)),
     (''archived_at'', time_json (archived_at tt))]"

record timetable_create =
  tc_academic_year_id :: ulid
  tc_name :: string

record timetable_update =
  tu_name :: "string option"
  tu_version :: int

section \<open>Queries\<close>

definition get_timetable :: "db \<Rightarrow> ulid \<Rightarrow> ulid \<Rightarrow> timetable option" where
  "get_timetable s tid sch = find (\<lambda>t. row_id t = tid \<and> tt_school_id t = sch) (timetables s)"

definition get_published_timetable_for_year ::
  "db \<Rightarrow> ulid \<Rightarrow> ulid \<Rightarrow> ulid option \<Rightarrow> timetable option" where
  "get_published_timetable_for_year s sch year exclude_id =
     find (\<lambda>t. tt_school_id t = sch \<and> tt_academic_year_id t = year \<and> tt_status t = TT_PUBLISHED \<and>
       (\<not> truthy exclude_id \<or> Some (row_id t) \<noteq> exclude_id)) (timetables s)"

section \<open>Conflicts within a timetable\<close>

text \<open>
  A dict from keys to lists, filled with \<open>setdefault(key, []).append(slot)\<close>, in insertion
  order; and \<open>', '.join\<close>.
\<close>

definition add_to_group :: "('a \<Rightarrow> 'k) \<Rightarrow> 'a \<Rightarrow> ('k \<times> 'a list) list \<Rightarrow> ('k \<times> 'a list) list" where
  "add_to_group key x m =
     AList.update (key x) ((case map_of m (key x) of None \<Rightarrow> [] | Some xs \<Rightarrow> xs) @ [x]) m"

definition group_by :: "('a \<Rightarrow> 'k) \<Rightarrow> 'a list \<Rightarrow> ('k \<times> 'a list) list" where
  "group_by key xs = fold (add_to_group key) xs []"

fun join_comma :: "string list \<Rightarrow> string" where
  "join_comma [] = []"
| "join_comma [x] = x"
| "join_comma (x # xs) = x @ '', '' @ join_comma xs"

record conflict_item =
  cf_type :: string
  cf_day :: string
  cf_period :: string
  cf_entity_name :: string
  cf_details :: string

definition timetable_slots :: "db \<Rightarrow> ulid \<Rightarrow> ulid \<Rightarrow> slot list" where
  "timetable_slots s tid sch =
     filter (\<lambda>x. sl_timetable_id x = Some tid \<and> sl_school_id x = sch \<and> sl_status x = SL_ACTIVE) (slots s)"

definition teacher_key :: "slot \<Rightarrow> ulid \<times> day_of_week \<times> ulid" where
  "teacher_key x = (sl_teacher_id x, sl_day_of_week x, sl_period_definition_id x)"

definition cohort_key :: "slot \<Rightarrow> ulid \<times> day_of_week \<times> ulid" where
  "cohort_key x = (sl_cohort_id x, sl_day_of_week x, sl_period_definition_id x)"

definition period_name_of :: "db \<Rightarrow> slot \<Rightarrow> string" where
  "period_name_of s x = (case get_row (sl_period_definition_id x) (period_definitions s) of
     Some p \<Rightarrow> pd_name p | None \<Rightarrow> sl_period_definition_id x)"

definition cohort_name_of :: "db \<Rightarrow> slot \<Rightarrow> string" where
  "cohort_name_of s x = (case get_row (sl_cohort_id x) (cohorts s) of
     Some c \<Rightarrow> co_name c | None \<Rightarrow> sl_cohort_id x)"

text \<open>
  The display name of a teacher is read through the relationships of the ORM; it is the
  parameter \<open>teacher_name\<close>, and no property depends on it.
\<close>

definition teacher_conflict_item :: "(ulid \<Rightarrow> string) \<Rightarrow> db \<Rightarrow> slot list \<Rightarrow> conflict_item" where
  "teacher_conflict_item teacher_name s grp =
     (let x = hd grp; name = teacher_name (sl_teacher_id x); day = day_value (sl_day_of_week x);
          period = period_name_of s x in
      \<lparr>cf_type = ''TEACHER'', cf_day = day, cf_period = period, cf_entity_name = name,
       cf_details = ''Teacher '' @ name @ '' is assigned to multiple sections ('' @
         join_comma (map (cohort_name_of s) grp) @ '') at '' @ period @ '' on '' @ day @ ''.''\<rparr>)"

definition cohort_conflict_item :: "db \<Rightarrow> slot list \<Rightarrow> conflict_item" where
  "cohort_conflict_item s grp =
     (let x = hd grp; name = cohort_name_of s x; day = day_value (sl_day_of_week x);
          period = period_name_of s x in
      \<lparr>cf_type = ''COHORT'', cf_day = day, cf_period = period, cf_entity_name = name,
       cf_details = ''Section '' @ name @ '' has multiple slots at '' @ period @ '' on '' @ day @ ''.''\<rparr>)"

definition crowded :: "('a \<Rightarrow> 'k) \<Rightarrow> 'a list \<Rightarrow> 'a list list" where
  "crowded key xs = filter (\<lambda>g. length g > 1) (map snd (group_by key xs))"

definition find_conflicts :: "(ulid \<Rightarrow> string) \<Rightarrow> db \<Rightarrow> ulid \<Rightarrow> ulid \<Rightarrow> conflict_item list" where
  "find_conflicts teacher_name s tid sch =
     (let xs = timetable_slots s tid sch in
      map (teacher_conflict_item teacher_name s) (crowded teacher_key xs) @
      map (cohort_conflict_item s) (crowded cohort_key xs))"

section \<open>Operations\<close>

definition timetable_not_found :: error where
  "timetable_not_found = NotFoundError ''TIMETABLE_NOT_FOUND''"

definition no_school_context :: error where
  "no_school_context = InvalidRequestError ''VALIDATION_ERROR''"

definition create_timetable ::
  "env \<Rightarrow> request_context \<Rightarrow> timetable_create \<Rightarrow> db \<Rightarrow> (timetable \<times> db) result" where
  "create_timetable env ctx data s = (case school_id ctx of
     None \<Rightarrow> Inl no_school_context
   | Some sch \<Rightarrow>
       (case organization_id ctx of
          None \<Rightarrow> Inl (IntegrityError ''organization_id'')
        | Some org \<Rightarrow>
          let tt = \<lparr>row_id = new_id env ''timetables'' (timetables s), created_at = env_now env,
                updated_at = env_now env, created_by_id = Some (user_id ctx), updated_by_id = None,
                version = 1, archived_at = None, deleted_at = None, tt_school_id = sch,
                tt_organization_id = org, tt_academic_year_id = tc_academic_year_id data,
                tt_name = tc_name data, tt_status = TT_DRAFT, tt_published_at = None\<rparr>
          in Inr (tt, audit env ctx ''TIMETABLE_CREATED'' ''timetable'' (Some (row_id tt)) None
               (Some (timetable_snapshot tt)) (s\<lparr>timetables := insert_row tt (timetables s)\<rparr>))))"

text \<open>
  The common head of the three updates: the school's timetable, and the write of a changed
  row with its audit entry.
\<close>

definition require_timetable :: "request_context \<Rightarrow> ulid \<Rightarrow> db \<Rightarrow> timetable result" where
  "require_timetable ctx tid s = (case school_id ctx of
     None \<Rightarrow> Inl timetable_not_found
   | Some sch \<Rightarrow> ok_or timetable_not_found (get_timetable s tid sch))"

definition save_timetable ::
  "env \<Rightarrow> request_context \<Rightarrow> string \<Rightarrow> timetable \<Rightarrow> timetable \<Rightarrow> db \<Rightarrow> timetable \<times> db" where
  "save_timetable env ctx action old new s =
     (let tt = flush_versioned (env_now env) old (new\<lparr>updated_by_id := Some (user_id ctx)\<rparr>) in
      (tt, audit env ctx action ''timetable'' (Some (row_id old)) (Some (timetable_snapshot old))
         (Some (timetable_snapshot tt)) (s\<lparr>timetables := update_row tt (timetables s)\<rparr>)))"

definition update_timetable ::
  "env \<Rightarrow> request_context \<Rightarrow> ulid \<Rightarrow> timetable_update \<Rightarrow> db \<Rightarrow> (timetable \<times> db) result" where
  "update_timetable env ctx tid data s =
     bind_ok (require_timetable ctx tid s) (\<lambda>tt.
       if tt_status tt \<noteq> TT_DRAFT then Inl (InvalidRequestError ''TIMETABLE_NOT_DRAFT'')
       else if version tt \<noteq> tu_version data then Inl StaleResourceError
       else Inr (save_timetable env ctx ''TIMETABLE_UPDATED'' tt
         (case tu_name data of None \<Rightarrow> tt | Some n \<Rightarrow> tt\<lparr>tt_name := n\<rparr>) s))"

record publish_result =
  pu_success :: bool
  pu_conflicts :: "conflict_item list"

definition archive_row :: "env \<Rightarrow> timetable \<Rightarrow> timetable" where
  "archive_row env tt = tt\<lparr>tt_status := TT_ARCHIVED, archived_at := Some (env_now env)\<rparr>"

definition publish_row :: "env \<Rightarrow> timetable \<Rightarrow> timetable" where
  "publish_row env tt = tt\<lparr>tt_status := TT_PUBLISHED, tt_published_at := Some (env_now env)\<rparr>"

definition publish_timetable ::
  "(ulid \<Rightarrow> string) \<Rightarrow> env \<Rightarrow> request_context \<Rightarrow> ulid \<Rightarrow> int \<Rightarrow> db \<Rightarrow> (publish_result \<times> db) result" where
  "publish_timetable teacher_name env ctx tid ver s =
     bind_ok (require_timetable ctx tid s) (\<lambda>tt.
       if tt_status tt \<noteq> TT_DRAFT then Inl (InvalidRequestError ''TIMETABLE_NOT_DRAFT'')
       else if version tt \<noteq> ver then Inl StaleResourceError
       else
         let sch = the (school_id ctx); conflicts = find_conflicts teacher_name s tid sch in
         if conflicts \<noteq> [] then Inr (\<lparr>pu_success = False, pu_conflicts = conflicts\<rparr>, s)
         else
           let s1 = (case get_published_timetable_for_year s sch (tt_academic_year_id tt) (Some (row_id tt)) of
                 None \<Rightarrow> s
               | Some existing \<Rightarrow>
                   snd (save_timetable env ctx ''TIMETABLE_ARCHIVED'' existing (archive_row env existing) s))
           in Inr (\<lparr>pu_success = True, pu_conflicts = []\<rparr>,
                snd (save_timetable env ctx ''TIMETABLE_PUBLISHED'' tt (publish_row env tt) s1)))"

definition archive_timetable ::
  "env \<Rightarrow> request_context \<Rightarrow> ulid \<Rightarrow> int \<Rightarrow> db \<Rightarrow> (timetable \<times> db) result" where
  "archive_timetable env ctx tid ver s =
     bind_ok (require_timetable ctx tid s) (\<lambda>tt.
       if tt_status tt = TT_ARCHIVED then Inl (InvalidRequestError ''TIMETABLE_ALREADY_ARCHIVED'')
       else if version tt \<noteq> ver then Inl StaleResourceError
       else Inr (save_timetable env ctx ''TIMETABLE_ARCHIVED'' tt (archive_row env tt) s))"

definition get_timetable_owned :: "request_context \<Rightarrow> ulid \<Rightarrow> db \<Rightarrow> timetable result" where
  "get_timetable_owned ctx tid s = require_timetable ctx tid s"

section \<open>Grouping\<close>

lemma add_to_group_keys:
  "distinct (map fst m) \<Longrightarrow> distinct (map fst (add_to_group key x m))"
  by (simp add: add_to_group_def distinct_update)

lemma add_to_group_lookup:
  "map_of (add_to_group key x m) k =
     (if k = key x then Some ((case map_of m k of None \<Rightarrow> [] | Some xs \<Rightarrow> xs) @ [x]) else map_of m k)"
  by (simp add: add_to_group_def update_conv')

lemma fold_groups:
  "distinct (map fst m) \<Longrightarrow> distinct (map fst (fold (add_to_group key) xs m)) \<and>
   map_of (fold (add_to_group key) xs m) k =
     (if filter (\<lambda>x. key x = k) xs = [] then map_of m k
      else Some ((case map_of m k of None \<Rightarrow> [] | Some ys \<Rightarrow> ys) @ filter (\<lambda>x. key x = k) xs))"
  by (induction xs arbitrary: m) (auto simp: add_to_group_keys add_to_group_lookup split: option.splits)

lemma group_by_distinct: "distinct (map fst (group_by key xs))"
  using fold_groups[of "[]" key xs] by (simp add: group_by_def)

lemma group_by_lookup:
  "map_of (group_by key xs) k =
     (if filter (\<lambda>x. key x = k) xs = [] then None else Some (filter (\<lambda>x. key x = k) xs))"
  using fold_groups[of "[]" key xs k] by (simp add: group_by_def)

lemma group_by_members: "(k, g) \<in> set (group_by key xs) \<longleftrightarrow> g = filter (\<lambda>x. key x = k) xs \<and> g \<noteq> []"
  by (subst map_of_eq_Some_iff[OF group_by_distinct, symmetric]) (auto simp: group_by_lookup)

lemma crowded_members: "g \<in> set (crowded key xs) \<longleftrightarrow> (\<exists>k. g = filter (\<lambda>x. key x = k) xs \<and> length g > 1)"
proof -
  have "g \<in> set (crowded key xs) \<longleftrightarrow> (\<exists>k. (k, g) \<in> set (group_by key xs)) \<and> length g > 1"
    unfolding crowded_def by force
  then show ?thesis by (auto simp: group_by_members)
qed

lemma two_in_filter:
  assumes "distinct xs"
  shows "length (filter P xs) > 1 \<longleftrightarrow> (\<exists>x\<in>set xs. \<exists>y\<in>set xs. x \<noteq> y \<and> P x \<and> P y)"
proof -
  have "length (filter P xs) = card (set (filter P xs))"
    using assms by (metis distinct_card distinct_filter)
  also have "\<dots> > 1 \<longleftrightarrow> (\<exists>x\<in>set (filter P xs). \<exists>y\<in>set (filter P xs). x \<noteq> y)"
    by (metis List.finite_set One_nat_def card_le_Suc0_iff_eq linorder_not_le)
  finally show ?thesis by auto
qed

lemma crowded_empty_iff:
  assumes "distinct xs"
  shows "crowded key xs = [] \<longleftrightarrow> (\<forall>x\<in>set xs. \<forall>y\<in>set xs. x \<noteq> y \<longrightarrow> key x \<noteq> key y)"
proof -
  have "crowded key xs = [] \<longleftrightarrow> (\<forall>g. g \<notin> set (crowded key xs))" by auto
  also have "\<dots> \<longleftrightarrow> (\<forall>k. \<not> length (filter (\<lambda>x. key x = k) xs) > 1)"
    by (auto simp: crowded_members)
  also have "\<dots> \<longleftrightarrow> (\<forall>k. \<not> (\<exists>x\<in>set xs. \<exists>y\<in>set xs. x \<noteq> y \<and> key x = k \<and> key y = k))"
    by (simp only: two_in_filter[OF assms])
  finally show ?thesis by auto
qed

section \<open>The shape of the writes\<close>

lemma require_timetable_Inr:
  "require_timetable ctx tid s = Inr tt \<longleftrightarrow>
     (\<exists>sch. school_id ctx = Some sch \<and> get_timetable s tid sch = Some tt)"
  by (simp add: require_timetable_def split: option.split)

lemma get_timetable_SomeD:
  "get_timetable s tid sch = Some tt \<Longrightarrow>
     tt \<in> set (timetables s) \<and> row_id tt = tid \<and> tt_school_id tt = sch"
  by (auto simp: get_timetable_def dest: find_SomeD)

text \<open>The row a save leaves in the table.\<close>

definition saved_row :: "env \<Rightarrow> request_context \<Rightarrow> timetable \<Rightarrow> timetable \<Rightarrow> timetable" where
  "saved_row env ctx old new = flush_versioned (env_now env) old (new\<lparr>updated_by_id := Some (user_id ctx)\<rparr>)"

lemma save_timetable_eq:
  "save_timetable env ctx a old new s = (saved_row env ctx old new,
     audit env ctx a ''timetable'' (Some (row_id old)) (Some (timetable_snapshot old))
       (Some (timetable_snapshot (saved_row env ctx old new)))
       (s\<lparr>timetables := update_row (saved_row env ctx old new) (timetables s)\<rparr>))"
  by (simp add: save_timetable_def saved_row_def Let_def)

lemma saved_row_changes:
  assumes "tt_status new \<noteq> tt_status old"
  shows "saved_row env ctx old new =
    new\<lparr>updated_by_id := Some (user_id ctx), updated_at := env_now env, version := version old + 1\<rparr>"
proof -
  have "new\<lparr>updated_by_id := Some (user_id ctx)\<rparr> \<noteq> old"
    using assms by (auto dest: arg_cong[of _ _ tt_status])
  then show ?thesis by (simp add: saved_row_def flush_versioned_def)
qed

lemma saved_row_fields [simp]:
  "row_id (saved_row env ctx old (archive_row env old)) = row_id old"
  "row_id (saved_row env ctx old (publish_row env old)) = row_id old"
  "tt_school_id (saved_row env ctx old (archive_row env old)) = tt_school_id old"
  "tt_school_id (saved_row env ctx old (publish_row env old)) = tt_school_id old"
  "tt_academic_year_id (saved_row env ctx old (archive_row env old)) = tt_academic_year_id old"
  "tt_academic_year_id (saved_row env ctx old (publish_row env old)) = tt_academic_year_id old"
  "tt_status (saved_row env ctx old (archive_row env old)) = TT_ARCHIVED"
  "tt_status (saved_row env ctx old (publish_row env old)) = TT_PUBLISHED"
  by (auto simp: saved_row_def flush_versioned_def archive_row_def publish_row_def
      dest: arg_cong[of _ _ tt_status] arg_cong[of _ _ tt_school_id]
        arg_cong[of _ _ tt_academic_year_id] arg_cong[of _ _ row_id])

lemma saved_row_id: "row_id new = row_id old \<Longrightarrow> row_id (saved_row env ctx old new) = row_id old"
  by (simp add: saved_row_def)

lemma saved_row_version: "saved_row env ctx old new = old \<or> version (saved_row env ctx old new) = version old + 1"
  by (simp add: saved_row_def flush_versioned_def)

section \<open>Transitions\<close>

text \<open>
  One step of the timetables of a deployment: some caller's operation that returned. The key
  a creation generates is one no row has.
\<close>

inductive tt_step :: "db \<Rightarrow> db \<Rightarrow> bool" where
  created: "create_timetable env ctx d s = Inr (tt, s') \<Longrightarrow>
    new_id env ''timetables'' (timetables s) \<notin> ids (timetables s) \<Longrightarrow> tt_step s s'"
| updated: "update_timetable env ctx i d s = Inr (tt, s') \<Longrightarrow> tt_step s s'"
| published: "publish_timetable names env ctx i v s = Inr (r, s') \<Longrightarrow> tt_step s s'"
| archived: "archive_timetable env ctx i v s = Inr (tt, s') \<Longrightarrow> tt_step s s'"

definition one_published :: "timetable list \<Rightarrow> bool" where
  "one_published = unique_on (\<lambda>t. tt_status t = TT_PUBLISHED)
     (\<lambda>t. (tt_school_id t, tt_academic_year_id t))"

definition tt_inv :: "db \<Rightarrow> bool" where
  "tt_inv s \<longleftrightarrow> pk_unique (timetables s) \<and> one_published (timetables s)"

text \<open>What each operation does to the table, when it returns.\<close>

lemma create_timetable_table:
  assumes "create_timetable env ctx d s = Inr (tt, s')"
  shows "timetables s' = insert_row tt (timetables s) \<and> tt_status tt = TT_DRAFT \<and>
    row_id tt = new_id env ''timetables'' (timetables s)"
  using assms by (auto simp: create_timetable_def Let_def split: option.splits)

lemma update_timetable_table:
  assumes "update_timetable env ctx i d s = Inr (tt', s')"
  obtains tt sch where "school_id ctx = Some sch" "get_timetable s i sch = Some tt"
    "version tt = tu_version d" "tt_status tt = TT_DRAFT" "row_id tt' = i" "tt_status tt' = TT_DRAFT"
    "tt' = tt \<or> version tt' = version tt + 1"
    "timetables s' = update_row tt' (timetables s)"
proof -
  define ren where "ren tt = (case tu_name d of None \<Rightarrow> tt | Some n \<Rightarrow> tt\<lparr>tt_name := n\<rparr>)" for tt :: timetable
  have ren: "row_id (ren tt) = row_id tt" "tt_status (ren tt) = tt_status tt" for tt
    by (simp_all add: ren_def split: option.split)
  from assms obtain tt sch where p: "school_id ctx = Some sch" "get_timetable s i sch = Some tt"
      "version tt = tu_version d" "tt_status tt = TT_DRAFT"
    and w: "tt' = saved_row env ctx tt (ren tt)" "timetables s' = update_row tt' (timetables s)"
    by (auto simp: update_timetable_def bind_ok_Inr_iff require_timetable_Inr save_timetable_eq ren_def
        split: if_splits)
  have "tt_status tt' = TT_DRAFT"
    using w(1) p(4) by (simp add: saved_row_def flush_versioned_def ren)
  moreover have "row_id tt' = i"
    using w(1) get_timetable_SomeD[OF p(2)] by (simp add: saved_row_id ren)
  moreover have "tt' = tt \<or> version tt' = version tt + 1"
    using w(1) saved_row_version by blast
  ultimately show thesis using that p w(2) by blast
qed

lemma archive_timetable_table:
  assumes "archive_timetable env ctx i v s = Inr (tt', s')"
  obtains tt sch where "school_id ctx = Some sch" "get_timetable s i sch = Some tt" "version tt = v"
    "tt_status tt \<noteq> TT_ARCHIVED" "tt' = saved_row env ctx tt (archive_row env tt)"
    "timetables s' = update_row tt' (timetables s)"
  using assms that
  by (auto simp: archive_timetable_def bind_ok_Inr_iff require_timetable_Inr save_timetable_eq split: if_splits)

text \<open>The table after the archiving half of a publication.\<close>

definition without_published ::
  "env \<Rightarrow> request_context \<Rightarrow> ulid \<Rightarrow> timetable \<Rightarrow> db \<Rightarrow> timetable list" where
  "without_published env ctx sch tt s =
     (case get_published_timetable_for_year s sch (tt_academic_year_id tt) (Some (row_id tt)) of
        None \<Rightarrow> timetables s
      | Some old \<Rightarrow> update_row (saved_row env ctx old (archive_row env old)) (timetables s))"

lemma publish_timetable_table:
  assumes "publish_timetable names env ctx i v s = Inr (r, s')"
  obtains (conflicting) tt sch where "pu_success r = False" "school_id ctx = Some sch"
    "get_timetable s i sch = Some tt" "version tt = v" "tt_status tt = TT_DRAFT"
    "pu_conflicts r = find_conflicts names s i sch" "pu_conflicts r \<noteq> []" "s' = s"
  | (published) tt sch where "pu_success r" "school_id ctx = Some sch" "get_timetable s i sch = Some tt"
    "version tt = v" "tt_status tt = TT_DRAFT" "find_conflicts names s i sch = []"
    "timetables s' =
       update_row (saved_row env ctx tt (publish_row env tt)) (without_published env ctx sch tt s)"
proof -
  from assms obtain tt sch where p: "school_id ctx = Some sch" "get_timetable s i sch = Some tt"
      "tt_status tt = TT_DRAFT" "version tt = v"
    by (auto simp: publish_timetable_def bind_ok_Inr_iff require_timetable_Inr split: if_splits)
  have "require_timetable ctx i s = Inr tt" using p by (simp add: require_timetable_Inr)
  note e = assms[unfolded publish_timetable_def this bind_ok_simps Let_def]
  show thesis
  proof (cases "find_conflicts names s i sch = []")
    case True
    have "pu_success r" and "timetables s' =
       update_row (saved_row env ctx tt (publish_row env tt)) (without_published env ctx sch tt s)"
      using e p True by (auto simp: save_timetable_eq without_published_def split: option.split)
    then show thesis using published[OF _ p(1,2,4,3) True] by blast
  next
    case False
    with e p have "r = \<lparr>pu_success = False, pu_conflicts = find_conflicts names s i sch\<rparr> \<and> s' = s"
      by (metis (no_types, lifting) option.sel Inr_inject Pair_inject)
    with False show thesis by (intro conflicting[OF _ p(1,2,4,3)]) simp_all
  qed
qed

lemma get_published_SomeD:
  "get_published_timetable_for_year s sch y (Some i) = Some old \<Longrightarrow> old \<in> set (timetables s) \<and>
     tt_school_id old = sch \<and> tt_academic_year_id old = y \<and> tt_status old = TT_PUBLISHED \<and>
     (i = [] \<or> row_id old \<noteq> i)"
  by (auto simp: get_published_timetable_for_year_def truthy_def dest: find_SomeD)

lemma without_published_facts:
  assumes "tt_inv s"
  shows "pk_unique (without_published env ctx sch tt s)" (is ?pk)
    and "one_published (without_published env ctx sch tt s)" (is ?one)
    and "x \<in> set (without_published env ctx sch tt s) \<Longrightarrow> tt_status x = TT_PUBLISHED \<Longrightarrow>
      tt_school_id x = sch \<Longrightarrow> tt_academic_year_id x = tt_academic_year_id tt \<Longrightarrow> row_id x = row_id tt"
proof -
  let ?q = "get_published_timetable_for_year s sch (tt_academic_year_id tt) (Some (row_id tt))"
  have pk: "pk_unique (timetables s)" and one: "one_published (timetables s)"
    using assms by (auto simp: tt_inv_def)
  show ?pk using pk by (simp add: without_published_def split: option.split)
  show ?one
  proof (cases ?q)
    case (Some old)
    then show ?thesis
      using unique_on_update_row_out[OF one[unfolded one_published_def], of "saved_row env ctx old (archive_row env old)"]
      by (simp add: without_published_def one_published_def)
  qed (use one in \<open>simp add: without_published_def\<close>)
  show "row_id x = row_id tt" if x: "x \<in> set (without_published env ctx sch tt s)"
    "tt_status x = TT_PUBLISHED" "tt_school_id x = sch" "tt_academic_year_id x = tt_academic_year_id tt"
  proof (cases ?q)
    case None
    then have "x \<in> set (timetables s)" using x(1) by (simp add: without_published_def)
    with None x(2-4) show ?thesis
      unfolding get_published_timetable_for_year_def by (auto dest: find_NoneD)
  next
    case (Some old)
    note o = get_published_SomeD[OF Some]
    let ?r = "saved_row env ctx old (archive_row env old)"
    have "x \<in> set (update_row ?r (timetables s))" using x(1) Some by (simp add: without_published_def)
    from set_update_row_subset[OF this] have "x \<in> set (timetables s) \<and> row_id x \<noteq> row_id old"
      using x(2) by auto
    moreover have "row_id x = row_id old" if "x \<in> set (timetables s)"
      by (rule unique_onD[OF one[unfolded one_published_def] that]) (use o x(2-4) in simp_all)
    ultimately show ?thesis by blast
  qed
qed

lemma tt_step_preserves:
  assumes "tt_inv s" and "tt_step s s'"
  shows "tt_inv s'"
  using assms(2)
proof (cases rule: tt_step.cases)
  case (created env ctx d tt)
  note c = create_timetable_table[OF created(1)]
  have "one_published (insert_row tt (timetables s))"
    using assms(1) c unfolding one_published_def tt_inv_def by (intro unique_on_insert_row) auto
  then show ?thesis using assms(1) c created(2) by (simp add: tt_inv_def)
next
  case (updated env ctx i d tt)
  show ?thesis
  proof (rule update_timetable_table[OF updated])
    assume "tt_status tt = TT_DRAFT" "timetables s' = update_row tt (timetables s)"
    with assms(1) show ?thesis
      by (auto simp: tt_inv_def one_published_def intro: unique_on_update_row_out)
  qed
next
  case (published names env ctx i v r)
  show ?thesis
  proof (cases rule: publish_timetable_table[OF published, consumes 0])
    case (1 tt sch)
    then show ?thesis using assms(1) by simp
  next
    case (2 tt sch)
    note w = without_published_facts[OF assms(1)]
    have k: "tt_school_id tt = sch" using get_timetable_SomeD[OF 2(3)] by blast
    have "one_published (timetables s')"
      unfolding 2(7) one_published_def
    proof (rule unique_on_update_row[OF w(2)[unfolded one_published_def]], intro ballI impI)
      fix x assume "x \<in> set (without_published env ctx sch tt s)" "tt_status x = TT_PUBLISHED"
        "row_id x \<noteq> row_id (saved_row env ctx tt (publish_row env tt))"
      with w(3) k show "(tt_school_id x, tt_academic_year_id x) \<noteq>
          (tt_school_id (saved_row env ctx tt (publish_row env tt)),
           tt_academic_year_id (saved_row env ctx tt (publish_row env tt)))"
        by auto
    qed
    then show ?thesis using w(1) 2(7) by (simp add: tt_inv_def)
  qed
next
  case (archived env ctx i v tt)
  show ?thesis
  proof (rule archive_timetable_table[OF archived])
    fix tt0 sch assume "tt = saved_row env ctx tt0 (archive_row env tt0)"
      "timetables s' = update_row tt (timetables s)"
    with assms(1) show ?thesis
      by (auto simp: tt_inv_def one_published_def intro: unique_on_update_row_out)
  qed
qed

text \<open>The position of a timetable in its life.\<close>

fun tt_stage :: "timetable_status \<Rightarrow> nat" where
  "tt_stage TT_DRAFT = 0"
| "tt_stage TT_PUBLISHED = 1"
| "tt_stage TT_ARCHIVED = 2"

definition tt_rank :: "db \<Rightarrow> ulid \<Rightarrow> nat option" where
  "tt_rank s i = map_option (\<lambda>t. tt_stage (tt_status t)) (get_row i (timetables s))"

lemma get_timetable_row:
  "pk_unique (timetables s) \<Longrightarrow> get_timetable s i sch = Some tt \<Longrightarrow> get_row i (timetables s) = Some tt"
  by (auto dest!: get_timetable_SomeD intro: get_row_mem)

lemma rank_after_update:
  assumes "get_row i t = Some x" and "get_row (row_id y) t = Some old" and "tt_stage (tt_status old) \<le> tt_stage (tt_status y)"
  shows "\<exists>x'. get_row i (update_row y t) = Some x' \<and> tt_stage (tt_status x) \<le> tt_stage (tt_status x')"
proof (cases "i = row_id y \<and> i \<in> ids t")
  case True
  then show ?thesis using assms by simp
next
  case False
  then show ?thesis using assms(1) by auto
qed

lemma tt_step_forward:
  assumes "tt_inv s" and "tt_step s s'" and "get_row i (timetables s) = Some x"
  shows "\<exists>x'. get_row i (timetables s') = Some x' \<and> tt_stage (tt_status x) \<le> tt_stage (tt_status x')"
  using assms(2)
proof (cases rule: tt_step.cases)
  case (created env ctx d tt)
  note c = create_timetable_table[OF created(1)]
  have "i \<noteq> row_id tt" using created(2) c assms(3) by (metis get_row_None_iff option.distinct(1))
  then show ?thesis using c created(2) assms(3) by (simp add: get_row_insert_row)
next
  case (updated env ctx j d tt)
  show ?thesis
  proof (rule update_timetable_table[OF updated])
    fix tt0 sch assume g: "get_timetable s j sch = Some tt0" "tt_status tt0 = TT_DRAFT" "row_id tt = j"
      "timetables s' = update_row tt (timetables s)"
    have "get_row (row_id tt) (timetables s) = Some tt0"
      using get_timetable_row[OF _ g(1)] assms(1) g(3) by (simp add: tt_inv_def)
    then show ?thesis using rank_after_update[OF assms(3)] g(2,4) by simp
  qed
next
  case (published names env ctx j v r)
  show ?thesis
  proof (cases rule: publish_timetable_table[OF published, consumes 0])
    case (1 tt sch)
    then show ?thesis using assms(3) by simp
  next
    case (2 tt sch)
    have pk: "pk_unique (timetables s)" using assms(1) by (simp add: tt_inv_def)
    have tt: "get_row (row_id tt) (timetables s) = Some tt"
      using get_timetable_row[OF pk 2(3)] get_timetable_SomeD[OF 2(3)] by simp
    have "(\<exists>x1. get_row i (without_published env ctx sch tt s) = Some x1 \<and> tt_stage (tt_status x) \<le> tt_stage (tt_status x1)) \<and>
        get_row (row_id tt) (without_published env ctx sch tt s) = Some tt"
    proof (cases "get_published_timetable_for_year s sch (tt_academic_year_id tt) (Some (row_id tt))")
      case None
      then show ?thesis using assms(3) tt by (simp add: without_published_def)
    next
      case (Some old)
      have o: "old \<in> set (timetables s)" and p: "tt_status old = TT_PUBLISHED"
        using get_published_SomeD[OF Some] by auto
      have "row_id tt \<noteq> row_id old"
      proof
        assume "row_id tt = row_id old"
        with tt get_row_mem[OF pk o] have "tt = old" by (metis option.inject)
        with p 2(5) show False by simp
      qed
      moreover have "without_published env ctx sch tt s =
          update_row (saved_row env ctx old (archive_row env old)) (timetables s)"
        by (simp add: without_published_def Some)
      moreover have "\<exists>x'. get_row i (update_row (saved_row env ctx old (archive_row env old)) (timetables s)) = Some x' \<and>
          tt_stage (tt_status x) \<le> tt_stage (tt_status x')"
        by (rule rank_after_update[OF assms(3), of _ old]) (simp_all add: get_row_mem[OF pk o] p)
      ultimately show ?thesis using tt by simp
    qed
    then obtain x1 where x1: "get_row i (without_published env ctx sch tt s) = Some x1"
        "tt_stage (tt_status x) \<le> tt_stage (tt_status x1)"
      and "get_row (row_id tt) (without_published env ctx sch tt s) = Some tt" by blast
    then have "\<exists>x'. get_row i (update_row (saved_row env ctx tt (publish_row env tt)) (without_published env ctx sch tt s)) = Some x' \<and>
        tt_stage (tt_status x1) \<le> tt_stage (tt_status x')"
      by (intro rank_after_update[OF x1(1), of _ tt]) (simp_all add: 2(5))
    with x1(2) show ?thesis unfolding 2(7) by (blast intro: order_trans)
  qed
next
  case (archived env ctx j v tt)
  show ?thesis
  proof (rule archive_timetable_table[OF archived])
    fix tt0 sch assume g: "get_timetable s j sch = Some tt0" "tt = saved_row env ctx tt0 (archive_row env tt0)"
      "timetables s' = update_row tt (timetables s)"
    have "get_row (row_id tt) (timetables s) = Some tt0"
      using get_timetable_row[OF _ g(1)] get_timetable_SomeD[OF g(1)] assms(1) g(2) by (simp add: tt_inv_def)
    moreover have "tt_stage (tt_status tt0) \<le> tt_stage (tt_status tt)"
      using g(2) by (cases "tt_status tt0") simp_all
    ultimately show ?thesis using rank_after_update[OF assms(3)] g(3) by simp
  qed
qed

interpretation tt_life: lifecycle tt_step tt_inv tt_rank
proof
  show "tt_inv s'" if "tt_inv s" "tt_step s s'" for s s' using that by (rule tt_step_preserves)
  show "\<exists>m. tt_rank s' i = Some m \<and> n \<le> m" if "tt_inv s" "tt_step s s'" "tt_rank s i = Some n" for s s' i n
    using tt_step_forward[OF that(1,2)] that(3) by (fastforce simp: tt_rank_def)
qed

section \<open>Optimistic locking\<close>

abbreviation tt_row :: "ulid \<Rightarrow> db \<Rightarrow> timetable option" where
  "tt_row i s \<equiv> get_row i (timetables s)"

abbreviation tt_keys :: "db \<Rightarrow> bool" where
  "tt_keys s \<equiv> pk_unique (timetables s)"

text \<open>The three updates in the shape of the contract: \<open>c\<close> holds the request's environment and context.\<close>

abbreviation rename_write :: "env \<times> request_context \<Rightarrow> ulid \<Rightarrow> int \<Rightarrow> string option \<Rightarrow> db \<Rightarrow> (timetable \<times> db) result" where
  "rename_write c i v n \<equiv> update_timetable (fst c) (snd c) i \<lparr>tu_name = n, tu_version = v\<rparr>"

abbreviation publish_write ::
  "(ulid \<Rightarrow> string) \<times> env \<times> request_context \<Rightarrow> ulid \<Rightarrow> int \<Rightarrow> unit \<Rightarrow> db \<Rightarrow> (publish_result \<times> db) result" where
  "publish_write c i v u \<equiv> publish_timetable (fst c) (fst (snd c)) (snd (snd c)) i v"

abbreviation archive_write :: "env \<times> request_context \<Rightarrow> ulid \<Rightarrow> int \<Rightarrow> unit \<Rightarrow> db \<Rightarrow> (timetable \<times> db) result" where
  "archive_write c i v u \<equiv> archive_timetable (fst c) (snd c) i v"

lemma tt_row_mem:
  assumes "tt_keys s" and "get_timetable s i sch = Some tt"
  shows "tt_row i s = Some tt" and "i \<in> ids (timetables s)" and "row_id tt = i"
  using get_timetable_row[OF assms] get_timetable_SomeD[OF assms(2)]
  by (auto simp: ids_def)

interpretation tt_rename: versioned_write rename_write tt_row version tt_keys
proof
  fix s c i v a r s'
  assume ok: "tt_keys s" and w: "rename_write c i v a s = Inr (r, s')"
  from w obtain tt sch where g: "get_timetable s i sch = Some tt" "version tt = v" "row_id r = i"
      "r = tt \<or> version r = version tt + 1" "timetables s' = update_row r (timetables s)"
    by (auto elim!: update_timetable_table)
  show "\<exists>x. tt_row i s = Some x \<and> version x = v" using tt_row_mem[OF ok g(1)] g(2) by blast
  show "tt_keys s'" using ok g(5) by simp
  fix x assume "tt_row i s = Some x"
  then show "\<exists>x'. tt_row i s' = Some x' \<and> (x' = x \<or> version x' = v + 1)"
    using tt_row_mem[OF ok g(1)] g(2-5) by auto
qed

interpretation tt_archive: versioned_write archive_write tt_row version tt_keys
proof
  fix s c i v a r s'
  assume ok: "tt_keys s" and w: "archive_write c i v a s = Inr (r, s')"
  from w obtain tt sch where g: "get_timetable s i sch = Some tt" "version tt = v"
      "r = saved_row (fst c) (snd c) tt (archive_row (fst c) tt)" "timetables s' = update_row r (timetables s)"
    by (auto elim!: archive_timetable_table)
  have id: "row_id r = i" using g(3) tt_row_mem[OF ok g(1)] by simp
  show "\<exists>x. tt_row i s = Some x \<and> version x = v" using tt_row_mem[OF ok g(1)] g(2) by blast
  show "tt_keys s'" using ok g(4) by simp
  fix x assume "tt_row i s = Some x"
  then have "x = tt" using tt_row_mem[OF ok g(1)] by simp
  moreover have "r = tt \<or> version r = v + 1" using saved_row_version g(2,3) by metis
  moreover have "tt_row i s' = Some r" using tt_row_mem[OF ok g(1)] id g(4) by simp
  ultimately show "\<exists>x'. tt_row i s' = Some x' \<and> (x' = x \<or> version x' = v + 1)" by blast
qed

interpretation tt_publish: versioned_write publish_write tt_row version tt_keys
proof
  fix s c i v a r s'
  assume ok: "tt_keys s" and w: "publish_write c i v a s = Inr (r, s')"
  have "(\<exists>tt. tt_row i s = Some tt \<and> version tt = v \<and> tt_keys s' \<and>
      (tt_row i s' = Some tt \<or> (\<exists>x'. tt_row i s' = Some x' \<and> version x' = v + 1)))"
  proof (cases rule: publish_timetable_table[OF w, consumes 0])
    case (1 tt sch)
    then show ?thesis using tt_row_mem[OF ok 1(3)] ok by auto
  next
    case (2 tt sch)
    let ?n = "saved_row (fst (snd c)) (snd (snd c)) tt (publish_row (fst (snd c)) tt)"
    let ?t = "without_published (fst (snd c)) (snd (snd c)) sch tt s"
    note m = tt_row_mem[OF ok 2(3)]
    have "ids ?t = ids (timetables s)" "pk_unique ?t"
      using ok by (simp_all add: without_published_def split: option.split)
    then have "tt_row i s' = Some ?n" "tt_keys s'" using 2(7) m by simp_all
    moreover have "version ?n = v + 1"
      using saved_row_changes[of "publish_row (fst (snd c)) tt" tt] 2(4,5) by (simp add: publish_row_def)
    ultimately show ?thesis using m(1) 2(4) by blast
  qed
  then show "\<exists>x. tt_row i s = Some x \<and> version x = v" and "tt_keys s'"
    and "\<And>x. tt_row i s = Some x \<Longrightarrow> \<exists>x'. tt_row i s' = Some x' \<and> (x' = x \<or> version x' = v + 1)"
    by auto
qed

section \<open>Properties\<close>

text \<open>
  C11. However the timetable operations of all callers follow one another from an empty
  table, a school has at most one published timetable per academic year.
\<close>

theorem one_published_per_year:
  assumes "tt_step\<^sup>*\<^sup>* s0 s" and "timetables s0 = []"
  shows "length (filter (\<lambda>t. tt_status t = TT_PUBLISHED \<and> tt_school_id t = sch \<and> tt_academic_year_id t = y)
    (timetables s)) \<le> 1"
proof (rule ccontr)
  assume many: "\<not> ?thesis"
  have "tt_inv s0" using assms(2) by (simp add: tt_inv_def pk_unique_def one_published_def)
  then have inv: "tt_inv s" using tt_life.reach_inv[OF assms(1)] by blast
  then have d: "distinct (timetables s)" by (auto simp: tt_inv_def pk_unique_def distinct_map)
  from many obtain a b where ab: "a \<in> set (timetables s)" "b \<in> set (timetables s)" "a \<noteq> b"
      "tt_status a = TT_PUBLISHED" "tt_status b = TT_PUBLISHED"
      "tt_school_id a = sch" "tt_school_id b = sch" "tt_academic_year_id a = y" "tt_academic_year_id b = y"
    unfolding linorder_not_le two_in_filter[OF d] by blast
  have "row_id a = row_id b"
    by (rule unique_onD[of "\<lambda>t. tt_status t = TT_PUBLISHED" "\<lambda>t. (tt_school_id t, tt_academic_year_id t)" "timetables s"])
      (use inv ab in \<open>simp_all add: tt_inv_def one_published_def\<close>)
  with inv ab show False by (auto simp: tt_inv_def dest: pk_unique_inj)
qed

text \<open>Two timetables of one year, created and published one after the other.\<close>

definition sample_create :: "db \<Rightarrow> (timetable \<times> db) result" where
  "sample_create = create_timetable sample_audit_env school_context \<lparr>tc_academic_year_id = ''y'', tc_name = ''T''\<rparr>"

definition sample_publish :: "ulid \<Rightarrow> db \<Rightarrow> (publish_result \<times> db) result" where
  "sample_publish i = publish_timetable (\<lambda>_. []) sample_audit_env school_context i 1"

definition sample_tt1 :: db where "sample_tt1 = snd (projr (sample_create empty_db))"
definition sample_tt2 :: db where "sample_tt2 = snd (projr (sample_publish ''timetables'' sample_tt1))"
definition sample_tt3 :: db where "sample_tt3 = snd (projr (sample_create sample_tt2))"
definition sample_tt4 :: db where "sample_tt4 = snd (projr (sample_publish ''timetables+'' sample_tt3))"

lemma sample_create_step:
  assumes "is_ok (sample_create s)"
    and "new_id sample_audit_env ''timetables'' (timetables s) \<notin> ids (timetables s)"
  shows "tt_step s (snd (projr (sample_create s)))"
  using tt_step.created[OF ok_projr[OF assms(1)[unfolded sample_create_def]] assms(2)]
  by (simp only: sample_create_def)

lemma sample_publish_step: "is_ok (sample_publish i s) \<Longrightarrow> tt_step s (snd (projr (sample_publish i s)))"
  unfolding sample_publish_def by (rule tt_step.published[OF ok_projr])

lemma sample_tt_steps: "tt_step\<^sup>*\<^sup>* empty_db sample_tt2" "tt_step\<^sup>*\<^sup>* sample_tt2 sample_tt4"
proof -
  have "tt_step empty_db sample_tt1" unfolding sample_tt1_def by (rule sample_create_step) code_simp+
  moreover have "tt_step sample_tt1 sample_tt2"
    unfolding sample_tt2_def by (rule sample_publish_step) code_simp
  moreover have "tt_step sample_tt2 sample_tt3"
    unfolding sample_tt3_def by (rule sample_create_step) code_simp+
  moreover have "tt_step sample_tt3 sample_tt4"
    unfolding sample_tt4_def by (rule sample_publish_step) code_simp
  ultimately show "tt_step\<^sup>*\<^sup>* empty_db sample_tt2" "tt_step\<^sup>*\<^sup>* sample_tt2 sample_tt4"
    by (meson rtranclp.simps)+
qed

lemma one_published_per_year_witness:
  "map tt_status (timetables sample_tt4) = [TT_ARCHIVED, TT_PUBLISHED] \<and>
   length (filter (\<lambda>t. tt_status t = TT_PUBLISHED \<and> tt_school_id t = ''s'' \<and> tt_academic_year_id t = ''y'')
    (timetables sample_tt4)) \<le> 1"
proof
  show "map tt_status (timetables sample_tt4) = [TT_ARCHIVED, TT_PUBLISHED]" by code_simp
  show "length (filter (\<lambda>t. tt_status t = TT_PUBLISHED \<and> tt_school_id t = ''s'' \<and> tt_academic_year_id t = ''y'')
    (timetables sample_tt4)) \<le> 1"
    by (rule one_published_per_year[OF rtranclp_trans[OF sample_tt_steps]]) (simp add: empty_db_def)
qed

text \<open>
  A timetable is never deleted and never returns to an earlier stage of its life,
  draft, published, archived, whatever the callers do.
\<close>

theorem timetable_never_goes_back:
  assumes "tt_step\<^sup>*\<^sup>* s s'" and "tt_inv s" and "get_row i (timetables s) = Some x"
  shows "\<exists>x'. get_row i (timetables s') = Some x' \<and> tt_stage (tt_status x) \<le> tt_stage (tt_status x')"
  using tt_life.reach_forward[OF assms(1,2), of i "tt_stage (tt_status x)"] assms(3)
  by (auto simp: tt_rank_def)

lemma timetable_never_goes_back_witness:
  "\<exists>x'. get_row ''timetables'' (timetables sample_tt4) = Some x' \<and>
     tt_stage (tt_status (hd (timetables sample_tt2))) \<le> tt_stage (tt_status x')"
proof (rule timetable_never_goes_back)
  show "tt_step\<^sup>*\<^sup>* sample_tt2 sample_tt4" by (rule sample_tt_steps)
  show "tt_inv sample_tt2" unfolding tt_inv_def one_published_def unique_on_def by code_simp
  show "get_row ''timetables'' (timetables sample_tt2) = Some (hd (timetables sample_tt2))" by code_simp
qed

lemma find_conflicts_empty_iff:
  assumes "pk_unique (slots s)"
  shows "find_conflicts names s i sch = [] \<longleftrightarrow>
    (\<forall>x\<in>set (timetable_slots s i sch). \<forall>y\<in>set (timetable_slots s i sch).
       x \<noteq> y \<longrightarrow> teacher_key x \<noteq> teacher_key y \<and> cohort_key x \<noteq> cohort_key y)"
proof -
  have "distinct (timetable_slots s i sch)"
    using assms by (auto simp: timetable_slots_def pk_unique_def distinct_map)
  then show ?thesis by (auto simp: find_conflicts_def Let_def crowded_empty_iff)
qed

lemma published_others:
  assumes "tt_inv s" and "x \<in> set (timetables s)" and "row_id x \<noteq> row_id tt" and "row_id tt \<noteq> []"
  shows "get_row (row_id x) (update_row (saved_row env ctx tt (publish_row env tt)) (without_published env ctx sch tt s)) =
    Some (if tt_status x = TT_PUBLISHED \<and> tt_school_id x = sch \<and> tt_academic_year_id x = tt_academic_year_id tt
          then saved_row env ctx x (archive_row env x) else x)"
proof -
  let ?q = "get_published_timetable_for_year s sch (tt_academic_year_id tt) (Some (row_id tt))"
  let ?P = "\<lambda>x. tt_status x = TT_PUBLISHED \<and> tt_school_id x = sch \<and> tt_academic_year_id x = tt_academic_year_id tt"
  have x: "get_row (row_id x) (timetables s) = Some x" "row_id x \<in> ids (timetables s)"
    using assms(1,2) by (auto simp: tt_inv_def ids_def intro: get_row_mem)
  have "get_row (row_id x) (without_published env ctx sch tt s) =
    Some (if ?P x then saved_row env ctx x (archive_row env x) else x)"
  proof (cases ?q)
    case None
    then have "\<not> ?P x" using assms(2-4) unfolding get_published_timetable_for_year_def
      by (auto simp: truthy_def dest: find_NoneD)
    from if_not_P[OF this, of "saved_row env ctx x (archive_row env x)" x] show ?thesis
      using x None by (simp only: without_published_def option.case)
  next
    case (Some old)
    note o = get_published_SomeD[OF Some]
    have same: "row_id x = row_id old \<longleftrightarrow> ?P x"
    proof
      assume "row_id x = row_id old"
      then have "x = old" using assms(1,2) o by (auto simp: tt_inv_def dest: pk_unique_inj)
      then show "?P x" using o by simp
    next
      assume P: "?P x"
      show "row_id x = row_id old"
        by (rule unique_onD[of "\<lambda>t. tt_status t = TT_PUBLISHED" "\<lambda>t. (tt_school_id t, tt_academic_year_id t)" "timetables s"])
          (use assms(1,2) o P in \<open>simp_all add: tt_inv_def one_published_def\<close>)
    qed
    have w: "without_published env ctx sch tt s = update_row (saved_row env ctx old (archive_row env old)) (timetables s)"
      by (simp add: without_published_def Some)
    show ?thesis
    proof (cases "?P x")
      case True
      with same have "x = old" using assms(1,2) o by (auto simp: tt_inv_def dest: pk_unique_inj)
      then show ?thesis using True x(2) by (simp add: w)
    next
      case False
      from if_not_P[OF this, of "saved_row env ctx x (archive_row env x)" x] same False x
      show ?thesis by (simp only: w get_row_update_row saved_row_fields simp_thms if_False)
    qed
  qed
  then show ?thesis using assms(3) by simp
qed

text \<open>
  A publication that returns was made on a draft of the caller's school at the version
  the caller read. It succeeds exactly when no two active slots of the timetable share their
  teacher, or their cohort, on the same day and period. Otherwise nothing changes; and on
  success the draft is published under the next version, the year's previously published
  timetable is archived, and every other timetable is as it was.
\<close>

theorem publish_exact:
  assumes "tt_inv s" and "pk_unique (slots s)" and "i \<noteq> []"
    and "publish_timetable names env ctx i v s = Inr (r, s')"
  shows "\<exists>tt sch. school_id ctx = Some sch \<and> get_timetable s i sch = Some tt \<and> tt_status tt = TT_DRAFT \<and> version tt = v \<and>
    (pu_success r \<longleftrightarrow> (\<forall>x\<in>set (timetable_slots s i sch). \<forall>y\<in>set (timetable_slots s i sch).
       x \<noteq> y \<longrightarrow> teacher_key x \<noteq> teacher_key y \<and> cohort_key x \<noteq> cohort_key y)) \<and>
    (\<not> pu_success r \<longrightarrow> s' = s \<and> pu_conflicts r \<noteq> []) \<and>
    (pu_success r \<longrightarrow>
       get_row i (timetables s') = Some (publish_row env tt\<lparr>updated_by_id := Some (user_id ctx), updated_at := env_now env, version := v + 1\<rparr>) \<and>
       (\<forall>x\<in>set (timetables s). row_id x \<noteq> i \<longrightarrow> get_row (row_id x) (timetables s') =
          Some (if tt_status x = TT_PUBLISHED \<and> tt_school_id x = sch \<and> tt_academic_year_id x = tt_academic_year_id tt
                then archive_row env x\<lparr>updated_by_id := Some (user_id ctx), updated_at := env_now env, version := version x + 1\<rparr>
                else x)))"
proof (cases rule: publish_timetable_table[OF assms(4), consumes 0])
  case (1 tt sch)
  then show ?thesis using find_conflicts_empty_iff[OF assms(2), of names i sch] by auto
next
  case (2 tt sch)
  have m: "row_id tt = i" using get_timetable_SomeD[OF 2(3)] by blast
  have ids: "ids (without_published env ctx sch tt s) = ids (timetables s)"
    by (simp add: without_published_def split: option.split)
  have "saved_row env ctx tt (publish_row env tt) =
      publish_row env tt\<lparr>updated_by_id := Some (user_id ctx), updated_at := env_now env, version := v + 1\<rparr>"
    using saved_row_changes[of "publish_row env tt" tt] 2(4,5) by (simp add: publish_row_def)
  moreover have "i \<in> ids (timetables s)" using get_timetable_SomeD[OF 2(3)] by (auto simp: ids_def)
  ultimately have "get_row i (timetables s') =
      Some (publish_row env tt\<lparr>updated_by_id := Some (user_id ctx), updated_at := env_now env, version := v + 1\<rparr>)"
    using 2(7) m ids by (simp add: publish_row_def)
  moreover have "get_row (row_id x) (timetables s') =
          Some (if tt_status x = TT_PUBLISHED \<and> tt_school_id x = sch \<and> tt_academic_year_id x = tt_academic_year_id tt
                then archive_row env x\<lparr>updated_by_id := Some (user_id ctx), updated_at := env_now env, version := version x + 1\<rparr>
                else x)" if "x \<in> set (timetables s)" "row_id x \<noteq> i" for x
    using published_others[OF assms(1) that(1), of tt env ctx sch] that(2) m assms(3) 2(7)
      saved_row_changes[of "archive_row env x" x env ctx] by (simp add: archive_row_def)
  ultimately show ?thesis
    using 2(1-6) find_conflicts_empty_iff[OF assms(2), of names i sch] by (intro exI[of _ tt] exI[of _ sch]) simp
qed

definition sample_clash_db :: db where
  "sample_clash_db = sample_tt3\<lparr>slots := [
     blank_slot ''a''\<lparr>sl_school_id := ''s'', sl_timetable_id := Some ''timetables+'', sl_cohort_id := ''c''\<rparr>,
     blank_slot ''b''\<lparr>sl_school_id := ''s'', sl_timetable_id := Some ''timetables+'', sl_cohort_id := ''d''\<rparr>]\<rparr>"

lemma publish_exact_witness:
  "is_ok (sample_publish ''timetables+'' sample_tt3) \<and>
   map tt_status (timetables sample_tt3) = [TT_PUBLISHED, TT_DRAFT] \<and>
   (\<exists>tt. get_row ''timetables'' (timetables sample_tt4) = Some tt \<and> tt_status tt = TT_ARCHIVED) \<and>
   pu_success (fst (projr (sample_publish ''timetables+'' sample_tt3))) \<and>
   pu_success (fst (projr (sample_publish ''timetables+'' sample_clash_db))) = False"
proof -
  have ok: "is_ok (sample_publish ''timetables+'' sample_tt3)" by code_simp
  have suc: "pu_success (fst (projr (sample_publish ''timetables+'' sample_tt3)))" by code_simp
  have inv: "tt_inv sample_tt3" unfolding tt_inv_def one_published_def unique_on_def by code_simp
  have sl: "pk_unique (slots sample_tt3)" by code_simp
  have st: "map tt_status (timetables sample_tt3) = [TT_PUBLISHED, TT_DRAFT]" by code_simp
  have mem: "hd (timetables sample_tt3) \<in> set (timetables sample_tt3)" by code_simp
  have id: "row_id (hd (timetables sample_tt3)) = ''timetables''" by code_simp
  have old: "tt_status (hd (timetables sample_tt3)) = TT_PUBLISHED"
    "tt_school_id (hd (timetables sample_tt3)) = ''s''" by code_simp+
  have yr: "tt_academic_year_id (hd (timetables sample_tt3)) = tt_academic_year_id t"
    if "get_timetable sample_tt3 ''timetables+'' ''s'' = Some t" for t
  proof -
    have "map_option tt_academic_year_id (get_timetable sample_tt3 ''timetables+'' ''s'') =
      Some (tt_academic_year_id (hd (timetables sample_tt3)))" by code_simp
    with that show ?thesis by simp
  qed
  note p = publish_exact[OF inv sl _ ok_projr[OF ok, unfolded sample_publish_def], folded sample_publish_def]
  from p suc obtain tt sch where g: "school_id school_context = Some sch"
      "get_timetable sample_tt3 ''timetables+'' sch = Some tt"
    and o: "\<And>x. x \<in> set (timetables sample_tt3) \<Longrightarrow> row_id x \<noteq> ''timetables+'' \<Longrightarrow>
      get_row (row_id x) (timetables (snd (projr (sample_publish ''timetables+'' sample_tt3)))) =
        Some (if tt_status x = TT_PUBLISHED \<and> tt_school_id x = sch \<and> tt_academic_year_id x = tt_academic_year_id tt
              then archive_row sample_audit_env x\<lparr>updated_by_id := Some (user_id school_context),
                updated_at := env_now sample_audit_env, version := version x + 1\<rparr> else x)"
    by blast
  have "sch = ''s''" using g(1) by simp
  with o[OF mem] g(2) yr id old
  have "\<exists>tt. get_row ''timetables'' (timetables sample_tt4) = Some tt \<and> tt_status tt = TT_ARCHIVED"
    by (simp add: sample_tt4_def archive_row_def)
  moreover have "pu_success (fst (projr (sample_publish ''timetables+'' sample_clash_db))) = False" by code_simp
  ultimately show ?thesis using ok suc st by blast
qed

text \<open>
  Lost updates are impossible: when one caller's rename, publication or archiving has
  changed a timetable, every rename, publication and archiving by a caller that read the
  same version fails.
\<close>

theorem timetable_no_lost_update:
  assumes "pk_unique (timetables s)"
    and "rename_write c i v n s = Inr (r1, s') \<or> publish_write p i v () s = Inr (r2, s') \<or>
         archive_write c i v () s = Inr (r3, s')"
    and "get_row i (timetables s') \<noteq> get_row i (timetables s)"
  shows "\<not> is_ok (rename_write c' i v n' s') \<and> \<not> is_ok (publish_write p' i v () s') \<and>
    \<not> is_ok (archive_write c' i v () s')"
proof -
  have "pk_unique (timetables s') \<and> (\<exists>x'. tt_row i s' = Some x' \<and> version x' = v + 1)"
    using assms(2)
  proof (elim disjE)
    assume w: "rename_write c i v n s = Inr (r1, s')"
    from tt_rename.accepts[OF assms(1) w] tt_rename.bumps[OF assms(1) w] tt_rename.keeps[OF assms(1) w] assms(3)
    show ?thesis by fastforce
  next
    assume w: "publish_write p i v () s = Inr (r2, s')"
    from tt_publish.accepts[OF assms(1) w] tt_publish.bumps[OF assms(1) w] tt_publish.keeps[OF assms(1) w] assms(3)
    show ?thesis by fastforce
  next
    assume w: "archive_write c i v () s = Inr (r3, s')"
    from tt_archive.accepts[OF assms(1) w] tt_archive.bumps[OF assms(1) w] tt_archive.keeps[OF assms(1) w] assms(3)
    show ?thesis by fastforce
  qed
  then obtain x' where x: "pk_unique (timetables s')" "tt_row i s' = Some x'" "version x' \<noteq> v" by auto
  from tt_rename.stale_rejected[OF x, of c' n'] tt_publish.stale_rejected[OF x, of p']
    tt_archive.stale_rejected[OF x, of c']
  show ?thesis by fastforce
qed

lemma timetable_no_lost_update_witness:
  "is_ok (sample_publish ''timetables+'' sample_tt3) \<and>
   \<not> is_ok (archive_timetable sample_audit_env school_context ''timetables+'' 1 sample_tt4)"
proof
  show ok: "is_ok (sample_publish ''timetables+'' sample_tt3)" by code_simp
  have w: "publish_write (\<lambda>_. [], sample_audit_env, school_context) ''timetables+'' 1 () sample_tt3
      = Inr (fst (projr (sample_publish ''timetables+'' sample_tt3)), sample_tt4)"
    using ok_projr[OF ok] unfolding sample_tt4_def sample_publish_def by simp
  have pk: "pk_unique (timetables sample_tt3)" by code_simp
  have "map_option tt_status (get_row ''timetables+'' (timetables sample_tt4)) \<noteq>
      map_option tt_status (get_row ''timetables+'' (timetables sample_tt3))" by code_simp
  then have "get_row ''timetables+'' (timetables sample_tt4) \<noteq> get_row ''timetables+'' (timetables sample_tt3)"
    by metis
  from timetable_no_lost_update[OF pk disjI2[OF disjI1[OF w]] this, where c' = "(sample_audit_env, school_context)"]
  show "\<not> is_ok (archive_timetable sample_audit_env school_context ''timetables+'' 1 sample_tt4)" by simp
qed

section \<open>At commit\<close>

lemma timetable_actions_refused:
  "a \<in> {''TIMETABLE_CREATED'', ''TIMETABLE_UPDATED'', ''TIMETABLE_PUBLISHED'', ''TIMETABLE_ARCHIVED''} \<Longrightarrow>
     a \<notin> set audit_check_actions"
  by (auto simp: audit_check_actions_def)

lemma create_timetable_refused:
  "snd (run_request (create_timetable env ctx d) s) = s \<and> \<not> is_ok (fst (run_request (create_timetable env ctx d) s))"
  by (rule refused_action)
    (auto simp: create_timetable_def Let_def timetable_actions_refused split: option.splits)

lemma update_timetable_refused:
  "snd (run_request (update_timetable env ctx i d) s) = s \<and> \<not> is_ok (fst (run_request (update_timetable env ctx i d) s))"
  by (rule refused_action)
    (auto simp: update_timetable_def bind_ok_Inr_iff save_timetable_eq timetable_actions_refused split: if_splits)

lemma archive_timetable_refused:
  "snd (run_request (archive_timetable env ctx i v) s) = s \<and> \<not> is_ok (fst (run_request (archive_timetable env ctx i v) s))"
  by (rule refused_action)
    (auto simp: archive_timetable_def bind_ok_Inr_iff save_timetable_eq timetable_actions_refused split: if_splits)

lemma publish_success_audits:
  assumes "publish_timetable names env ctx i v s = Inr (r, s')" and "pu_success r"
  shows "\<exists>a rows. al_action a \<notin> set audit_check_actions \<and> audit_logs s' = audit_logs s @ rows @ [a]"
proof -
  from assms(1) obtain tt sch where p: "school_id ctx = Some sch" "get_timetable s i sch = Some tt"
      "tt_status tt = TT_DRAFT" "version tt = v"
    by (auto simp: publish_timetable_def bind_ok_Inr_iff require_timetable_Inr split: if_splits)
  have "require_timetable ctx i s = Inr tt" using p by (simp add: require_timetable_Inr)
  note e = assms(1)[unfolded publish_timetable_def this bind_ok_simps Let_def]
  have "find_conflicts names s i sch = []" using e p assms(2) by (auto split: if_splits)
  with e p show ?thesis
    by (auto simp: save_timetable_eq timetable_actions_refused split: option.splits)
qed

lemma publish_timetable_refused:
  "snd (run_request (publish_timetable names env ctx i v) s) = s \<and>
   ((\<exists>e. fst (run_request (publish_timetable names env ctx i v) s) = Inl e) \<or>
    (\<exists>r. fst (run_request (publish_timetable names env ctx i v) s) = Inr r \<and> pu_success r = False))"
proof (cases "publish_timetable names env ctx i v s")
  case (Inr q)
  obtain r s' where q: "q = (r, s')" by fastforce
  show ?thesis
  proof (cases "pu_success r")
    case True
    then have "snd (run_request (publish_timetable names env ctx i v) s) = s \<and>
        \<not> is_ok (fst (run_request (publish_timetable names env ctx i v) s))"
      using Inr q by (intro refused_action) (auto dest!: publish_success_audits)
    then show ?thesis by (cases "fst (run_request (publish_timetable names env ctx i v) s)") auto
  next
    case False
    have "s' = s"
      by (cases rule: publish_timetable_table[OF Inr[unfolded q], consumes 0]) (use False in simp_all)
    with False Inr q show ?thesis by (simp add: run_request_def check_audit_rows_def)
  qed
qed (simp add: run_request_def)

text \<open>
  On the migrated schema no timetable can be created, renamed, published or archived:
  the audit row each of these writes carries an action the CHECK constraint does not list,
  so the request rolls back. The only request that ends without an error is a publication
  that reports conflicts, and it changes nothing either.
\<close>

theorem timetable_writes_never_commit:
  "snd (run_request (create_timetable env ctx d) s) = s \<and>
   is_ok (fst (run_request (create_timetable env ctx d) s)) = False \<and>
   snd (run_request (update_timetable env ctx i u) s) = s \<and>
   is_ok (fst (run_request (update_timetable env ctx i u) s)) = False \<and>
   snd (run_request (archive_timetable env ctx i v) s) = s \<and>
   is_ok (fst (run_request (archive_timetable env ctx i v) s)) = False \<and>
   snd (run_request (publish_timetable names env ctx i v) s) = s \<and>
   ((\<exists>e. fst (run_request (publish_timetable names env ctx i v) s) = Inl e) \<or>
    (\<exists>r. fst (run_request (publish_timetable names env ctx i v) s) = Inr r \<and> pu_success r = False))"
  using create_timetable_refused[of env ctx d s] update_timetable_refused[of env ctx i u s]
    archive_timetable_refused[of env ctx i v s] publish_timetable_refused[of names env ctx i v s] by simp

end
