(* ===== verification/Slots.thy ===== *)
theory Slots
  imports Timetables
begin

text \<open>
  Period definitions and timetable slots: the second half of
  \<open>app/modules/timetables/service.py\<close>, the queries of \<open>repository.py\<close> it uses, and the
  routes of \<open>router.py\<close> over them.
\<close>

section \<open>Values\<close>

fun period_type_value :: "period_type \<Rightarrow> string" where
  "period_type_value PT_LESSON = ''LESSON''"
| "period_type_value PT_BREAK = ''BREAK''"
| "period_type_value PT_LUNCH = ''LUNCH''"
| "period_type_value PT_ASSEMBLY = ''ASSEMBLY''"
| "period_type_value PT_FREE = ''FREE''"
| "period_type_value PT_EXAM = ''EXAM''"

fun slot_status_value :: "slot_status \<Rightarrow> string" where
  "slot_status_value SL_ACTIVE = ''ACTIVE''"
| "slot_status_value SL_CANCELLED = ''CANCELLED''"
| "slot_status_value SL_SUBSTITUTED = ''SUBSTITUTED''"

text \<open>The dict of \<open>_period_snapshot\<close>; a time is always true in Python, so \<open>str\<close> applies.\<close>

definition period_snapshot :: "period_definition \<Rightarrow> snapshot" where
  "period_snapshot p = [(''name'', JStr (pd_name p)),
     (''period_type'', JStr (period_type_value (pd_period_type p))),
     (''sort_order'', JInt (pd_sort_order p)),
     (''start_time'', JTimeStr (pd_start_time p)), (''end_time'', JTimeStr (pd_end_time p))]"

definition slot_snapshot :: "slot \<Rightarrow> snapshot" where
  "slot_snapshot x = [(''teacher_id'', JStr (sl_teacher_id x)),
     (''subject_id'', JStr (sl_subject_id x)),
     (''day_of_week'', JStr (day_value (sl_day_of_week x))),
     (''effective_from'', JDateStr (sl_effective_from x)),
     (''effective_to'', case sl_effective_to x of None \<Rightarrow> JNull | Some d \<Rightarrow> JDateStr d),
     (''status'', JStr (slot_status_value (sl_status x)))]"

record period_create =
  pc_academic_year_id :: ulid
  pc_name :: string
  pc_period_type :: period_type
  pc_start_time :: int
  pc_end_time :: int
  pc_sort_order :: int

record period_update =
  pe_name :: "string option"
  pe_period_type :: "period_type option"
  pe_start_time :: "int option"
  pe_end_time :: "int option"
  pe_sort_order :: "int option"

record slot_create =
  sc_cohort :: ulid
  sc_period_definition :: ulid
  sc_teacher :: ulid
  sc_subject :: ulid
  sc_day :: day_of_week
  sc_from :: date
  sc_to :: "date option"
  sc_slot_notes :: "string option"

record slot_update =
  sx_teacher :: "ulid option"
  sx_subject :: "ulid option"
  sx_to :: "date option"
  sx_status :: "slot_status option"
  sx_notes :: "string option"
  sx_version :: int

section \<open>Queries\<close>

definition get_period_by_id :: "db \<Rightarrow> ulid \<Rightarrow> ulid \<Rightarrow> period_definition option" where
  "get_period_by_id s sch pid =
     find (\<lambda>p. row_id p = pid \<and> pd_school_id p = sch) (period_definitions s)"

definition get_period_by_name :: "db \<Rightarrow> ulid \<Rightarrow> ulid \<Rightarrow> string \<Rightarrow> period_definition option" where
  "get_period_by_name s sch year name =
     find (\<lambda>p. pd_school_id p = sch \<and> pd_academic_year_id p = year \<and> pd_name p = name)
       (period_definitions s)"

definition get_slot_by_id :: "db \<Rightarrow> ulid \<Rightarrow> ulid \<Rightarrow> slot option" where
  "get_slot_by_id s sch sid = find (\<lambda>x. row_id x = sid \<and> sl_school_id x = sch) (slots s)"

definition slot_has_no_references :: "db \<Rightarrow> ulid \<Rightarrow> bool" where
  "slot_has_no_references s pid = (find (\<lambda>x. sl_period_definition_id x = pid) (slots s) = None)"

text \<open>
  The WHERE clause of the two conflict checks, for a slot that would run from \<open>from\<close> to
  \<open>to\<close>. The expression \<open>effective_from <= effective_to\<close> is built by the ORM even when the
  new slot has no end; what the library does with a comparison to None is not in the
  sources, so its outcome, a clause or an exception, is the parameter \<open>none_cmp\<close>.
\<close>

definition date_overlap :: "slot \<Rightarrow> date \<Rightarrow> date option \<Rightarrow> bool" where
  "date_overlap x from to \<longleftrightarrow>
     (case to of None \<Rightarrow> True | Some d \<Rightarrow> sl_effective_from x \<le> d) \<and>
     (case sl_effective_to x of None \<Rightarrow> True | Some d \<Rightarrow> d \<ge> from)"

definition build_date_clause :: "unit result \<Rightarrow> date option \<Rightarrow> unit result" where
  "build_date_clause none_cmp to = (case to of None \<Rightarrow> none_cmp | Some _ \<Rightarrow> Inr ())"

definition check_teacher_conflict ::
  "unit result \<Rightarrow> db \<Rightarrow> ulid \<Rightarrow> ulid \<Rightarrow> day_of_week \<Rightarrow> date \<Rightarrow> date option \<Rightarrow> ulid option \<Rightarrow> bool result" where
  "check_teacher_conflict none_cmp s teacher period day from to exclude_id =
     bind_ok (build_date_clause none_cmp to) (\<lambda>_.
       Inr (find (\<lambda>x. sl_teacher_id x = teacher \<and> sl_period_definition_id x = period \<and>
         sl_day_of_week x = day \<and> sl_status x = SL_ACTIVE \<and> date_overlap x from to \<and>
         (\<not> truthy exclude_id \<or> Some (row_id x) \<noteq> exclude_id)) (slots s) \<noteq> None))"

definition check_cohort_conflict ::
  "unit result \<Rightarrow> db \<Rightarrow> ulid \<Rightarrow> ulid \<Rightarrow> day_of_week \<Rightarrow> date \<Rightarrow> date option \<Rightarrow> ulid option \<Rightarrow> bool result" where
  "check_cohort_conflict none_cmp s cohort period day from to exclude_id =
     bind_ok (build_date_clause none_cmp to) (\<lambda>_.
       Inr (find (\<lambda>x. sl_cohort_id x = cohort \<and> sl_period_definition_id x = period \<and>
         sl_day_of_week x = day \<and> sl_status x = SL_ACTIVE \<and> date_overlap x from to \<and>
         (\<not> truthy exclude_id \<or> Some (row_id x) \<noteq> exclude_id)) (slots s) \<noteq> None))"

section \<open>Period definitions\<close>

definition period_not_found :: error where
  "period_not_found = NotFoundError ''PERIOD_NOT_FOUND''"

definition create_period ::
  "env \<Rightarrow> request_context \<Rightarrow> period_create \<Rightarrow> db \<Rightarrow> (period_definition \<times> db) result" where
  "create_period env ctx data s = (case school_id ctx of
     None \<Rightarrow> Inl no_school_context
   | Some sch \<Rightarrow>
       if get_period_by_name s sch (pc_academic_year_id data) (pc_name data) \<noteq> None
       then Inl (ConflictError ''PERIOD_NAME_TAKEN'')
       else (case organization_id ctx of
          None \<Rightarrow> Inl (IntegrityError ''organization_id'')
        | Some org \<Rightarrow>
          let p = \<lparr>row_id = new_id env ''period_definitions'' (period_definitions s),
                created_at = env_now env, updated_at = env_now env,
                created_by_id = Some (user_id ctx), updated_by_id = None, pd_school_id = sch,
                pd_organization_id = org, pd_academic_year_id = pc_academic_year_id data,
                pd_name = pc_name data, pd_period_type = pc_period_type data,
                pd_start_time = pc_start_time data, pd_end_time = pc_end_time data,
                pd_sort_order = pc_sort_order data\<rparr>;
              t = insert_row p (period_definitions s)
          in bind_ok (constrained (uq_period_def_school_year_name t) ''uq_period_def_school_year_name'' t)
               (\<lambda>t. Inr (p, audit env ctx ''PERIOD_DEFINITION_CREATED'' ''period_definition''
                  (Some (row_id p)) None (Some (period_snapshot p)) (s\<lparr>period_definitions := t\<rparr>)))))"

definition period_payload :: "period_update \<Rightarrow> period_definition \<Rightarrow> period_definition" where
  "period_payload data p =
     assign pd_sort_order_update (pe_sort_order data)
       (assign pd_end_time_update (pe_end_time data)
         (assign pd_start_time_update (pe_start_time data)
           (assign pd_period_type_update (pe_period_type data)
             (assign pd_name_update (pe_name data) p))))"

definition update_period ::
  "env \<Rightarrow> request_context \<Rightarrow> period_definition \<Rightarrow> period_update \<Rightarrow> db \<Rightarrow> (period_definition \<times> db) result" where
  "update_period env ctx p data s =
     (let p' = flush_actor (env_now env) p
            ((period_payload data p)\<lparr>updated_by_id := Some (user_id ctx)\<rparr>);
          t = update_row p' (period_definitions s)
      in bind_ok (constrained (uq_period_def_school_year_name t) ''uq_period_def_school_year_name'' t)
           (\<lambda>t. Inr (p', audit env ctx ''PERIOD_DEFINITION_UPDATED'' ''period_definition''
              (Some (row_id p)) (Some (period_snapshot p)) (Some (period_snapshot p'))
              (s\<lparr>period_definitions := t\<rparr>))))"

definition delete_period ::
  "env \<Rightarrow> request_context \<Rightarrow> period_definition \<Rightarrow> db \<Rightarrow> (unit \<times> db) result" where
  "delete_period env ctx p s =
     (if \<not> slot_has_no_references s (row_id p) then Inl (ConflictError ''PERIOD_HAS_SLOTS'')
      else Inr ((), audit env ctx ''PERIOD_DEFINITION_DELETED'' ''period_definition''
        (Some (row_id p)) (Some (period_snapshot p)) None
        (s\<lparr>period_definitions := delete_row (row_id p) (period_definitions s)\<rparr>)))"

definition get_period_owned :: "request_context \<Rightarrow> ulid \<Rightarrow> db \<Rightarrow> period_definition result" where
  "get_period_owned ctx pid s = (case school_id ctx of
     None \<Rightarrow> Inl period_not_found
   | Some sch \<Rightarrow> ok_or period_not_found (get_period_by_id s sch pid))"

section \<open>Slots\<close>

definition slot_not_found :: error where
  "slot_not_found = NotFoundError ''SLOT_NOT_FOUND''"

text \<open>The teacher (or subject) named in the payload exists and belongs to the school.\<close>

definition teacher_in_school :: "db \<Rightarrow> ulid \<Rightarrow> ulid \<Rightarrow> bool" where
  "teacher_in_school s sch tid \<longleftrightarrow>
     (case get_row tid (teachers s) of None \<Rightarrow> False | Some t \<Rightarrow> te_school_id t = sch)"

definition subject_in_school :: "db \<Rightarrow> ulid \<Rightarrow> ulid \<Rightarrow> bool" where
  "subject_in_school s sch i \<longleftrightarrow>
     (case get_row i (subjects s) of None \<Rightarrow> False | Some x \<Rightarrow> su_school_id x = sch)"

definition new_slot :: "env \<Rightarrow> request_context \<Rightarrow> ulid \<Rightarrow> ulid \<Rightarrow> ulid \<Rightarrow> slot_create \<Rightarrow> db \<Rightarrow> slot" where
  "new_slot env ctx sch org year data s =
     \<lparr>row_id = new_id env ''timetable_slots'' (slots s), created_at = env_now env,
      updated_at = env_now env, created_by_id = Some (user_id ctx), updated_by_id = None,
      version = 1, sl_school_id = sch, sl_organization_id = org, sl_academic_year_id = year,
      sl_timetable_id = None, sl_cohort_id = sc_cohort data,
      sl_period_definition_id = sc_period_definition data, sl_teacher_id = sc_teacher data,
      sl_subject_id = sc_subject data, sl_day_of_week = sc_day data,
      sl_effective_from = sc_from data, sl_effective_to = sc_to data, sl_status = SL_ACTIVE,
      sl_notes = sc_slot_notes data\<rparr>"

definition create_slot ::
  "unit result \<Rightarrow> env \<Rightarrow> request_context \<Rightarrow> slot_create \<Rightarrow> db \<Rightarrow> (slot \<times> db) result" where
  "create_slot none_cmp env ctx data s = (case school_id ctx of
     None \<Rightarrow> Inl no_school_context
   | Some sch \<Rightarrow>
       bind_ok (check_teacher_conflict none_cmp s (sc_teacher data) (sc_period_definition data)
           (sc_day data) (sc_from data) (sc_to data) None) (\<lambda>busy.
       if busy then Inl (ConflictError ''TEACHER_CONFLICT'') else
       bind_ok (check_cohort_conflict none_cmp s (sc_cohort data) (sc_period_definition data)
           (sc_day data) (sc_from data) (sc_to data) None) (\<lambda>taken.
       if taken then Inl (ConflictError ''COHORT_CONFLICT'') else
       bind_ok (ok_or period_not_found (get_period_by_id s sch (sc_period_definition data))) (\<lambda>period.
       if sc_teacher data \<noteq> [] \<and> \<not> teacher_in_school s sch (sc_teacher data)
       then Inl (InvalidRequestError ''TEACHER_SCHOOL_MISMATCH'')
       else if sc_subject data \<noteq> [] \<and> \<not> subject_in_school s sch (sc_subject data)
       then Inl (InvalidRequestError ''SUBJECT_SCHOOL_MISMATCH'')
       else (case organization_id ctx of
          None \<Rightarrow> Inl (IntegrityError ''organization_id'')
        | Some org \<Rightarrow>
          let x = new_slot env ctx sch org (pd_academic_year_id period) data s;
              t = insert_row x (slots s)
          in bind_ok (constrained (uq_slot_cohort_period_day_date t) ''uq_slot_cohort_period_day_date'' t)
               (\<lambda>t. Inr (x, audit env ctx ''TIMETABLE_SLOT_CREATED'' ''timetable_slot''
                  (Some (row_id x)) None (Some (slot_snapshot x)) (s\<lparr>slots := t\<rparr>))))))))"

definition slot_payload :: "slot_update \<Rightarrow> slot \<Rightarrow> slot" where
  "slot_payload data x =
     assign sl_notes_update (map_option Some (sx_notes data))
       (assign sl_status_update (sx_status data)
         (assign sl_effective_to_update (map_option Some (sx_to data))
           (assign sl_subject_id_update (sx_subject data)
             (assign sl_teacher_id_update (sx_teacher data) x))))"

definition saved_slot :: "env \<Rightarrow> request_context \<Rightarrow> slot \<Rightarrow> slot \<Rightarrow> slot" where
  "saved_slot env ctx old new =
     flush_versioned (env_now env) old (new\<lparr>updated_by_id := Some (user_id ctx)\<rparr>)"

definition update_slot ::
  "unit result \<Rightarrow> env \<Rightarrow> request_context \<Rightarrow> slot \<Rightarrow> slot_update \<Rightarrow> db \<Rightarrow> (slot \<times> db) result" where
  "update_slot none_cmp env ctx x data s =
     (if version x \<noteq> sx_version data then Inl StaleResourceError else
      let to = or_else (sx_to data) (sl_effective_to x) in
      bind_ok (case sx_teacher data of
          None \<Rightarrow> Inr False
        | Some teacher \<Rightarrow> check_teacher_conflict none_cmp s teacher (sl_period_definition_id x)
            (sl_day_of_week x) (sl_effective_from x) to (Some (row_id x))) (\<lambda>busy.
      if busy then Inl (ConflictError ''TEACHER_CONFLICT'') else
      bind_ok (check_cohort_conflict none_cmp s (sl_cohort_id x) (sl_period_definition_id x)
          (sl_day_of_week x) (sl_effective_from x) to (Some (row_id x))) (\<lambda>taken.
      if taken then Inl (ConflictError ''COHORT_CONFLICT'') else
      let x' = saved_slot env ctx x (slot_payload data x) in
      Inr (x', audit env ctx ''TIMETABLE_SLOT_UPDATED'' ''timetable_slot'' (Some (row_id x))
        (Some (slot_snapshot x)) (Some (slot_snapshot x')) (s\<lparr>slots := update_row x' (slots s)\<rparr>)))))"

definition delete_slot :: "env \<Rightarrow> request_context \<Rightarrow> slot \<Rightarrow> db \<Rightarrow> (slot \<times> db) result" where
  "delete_slot env ctx x s =
     (let x' = saved_slot env ctx x (x\<lparr>sl_status := SL_CANCELLED, sl_effective_to := Some (env_today env)\<rparr>)
      in Inr (x', audit env ctx ''TIMETABLE_SLOT_CANCELLED'' ''timetable_slot'' (Some (row_id x))
        (Some (slot_snapshot x)) (Some (slot_snapshot x')) (s\<lparr>slots := update_row x' (slots s)\<rparr>)))"

definition get_slot_owned :: "request_context \<Rightarrow> ulid \<Rightarrow> db \<Rightarrow> slot result" where
  "get_slot_owned ctx sid s = (case school_id ctx of
     None \<Rightarrow> Inl slot_not_found
   | Some sch \<Rightarrow> ok_or slot_not_found (get_slot_by_id s sch sid))"

section \<open>Routes\<close>

text \<open>
  Each route is its guard, the lookup of the resource within the active school, the service
  function, and the view it returns. The name of a teacher is a parameter, since
  it is read through the relationships of the ORM.
\<close>

record slot_view =
  sv_slot :: slot
  sv_teacher_name :: "string option"
  sv_subject_name :: "string option"
  sv_cohort_name :: "string option"
  sv_period_name :: "string option"

definition slot_read :: "(ulid \<Rightarrow> string option) \<Rightarrow> db \<Rightarrow> slot \<Rightarrow> slot_view" where
  "slot_read names s x = \<lparr>sv_slot = x, sv_teacher_name = names (sl_teacher_id x),
     sv_subject_name = map_option su_name (get_row (sl_subject_id x) (subjects s)),
     sv_cohort_name = map_option co_name (get_row (sl_cohort_id x) (cohorts s)),
     sv_period_name = map_option pd_name (get_row (sl_period_definition_id x) (period_definitions s))\<rparr>"

definition reload_slot :: "(ulid \<Rightarrow> string option) \<Rightarrow> request_context \<Rightarrow> slot \<times> db \<Rightarrow> (slot_view \<times> db) result" where
  "reload_slot names ctx r = (case r of (x, s) \<Rightarrow>
     (case Option.bind (school_id ctx) (\<lambda>sch. get_slot_by_id s sch (row_id x)) of
        None \<Rightarrow> Inl (PyError ''AttributeError'')
      | Some y \<Rightarrow> Inr (slot_read names s y, s)))"

definition create_timetable_slot_route where
  "create_timetable_slot_route names none_cmp env ctx data s =
     guarded ''timetables.slot.create'' ctx (\<lambda>ctx.
       bind_ok (create_slot none_cmp env ctx data s) (reload_slot names ctx))"

definition update_timetable_slot_route where
  "update_timetable_slot_route names none_cmp env ctx sid data s =
     guarded ''timetables.slot.update'' ctx (\<lambda>ctx.
       bind_ok (get_slot_owned ctx sid s) (\<lambda>x.
       bind_ok (update_slot none_cmp env ctx x data s) (reload_slot names ctx)))"

definition cancel_timetable_slot_route where
  "cancel_timetable_slot_route names env ctx sid s =
     guarded ''timetables.slot.delete'' ctx (\<lambda>ctx.
       bind_ok (get_slot_owned ctx sid s) (\<lambda>x.
       bind_ok (delete_slot env ctx x s) (reload_slot names ctx)))"

definition create_period_definition_route where
  "create_period_definition_route env ctx data s =
     guarded ''timetables.period.create'' ctx (\<lambda>ctx. create_period env ctx data s)"

definition update_period_definition_route where
  "update_period_definition_route env ctx pid data s =
     guarded ''timetables.period.update'' ctx (\<lambda>ctx.
       bind_ok (get_period_owned ctx pid s) (\<lambda>p. update_period env ctx p data s))"

definition delete_period_definition_route where
  "delete_period_definition_route env ctx pid s =
     guarded ''timetables.period.delete'' ctx (\<lambda>ctx.
       bind_ok (get_period_owned ctx pid s) (\<lambda>p. delete_period env ctx p s))"

section \<open>Bookings\<close>

text \<open>
  A resource, a teacher or a cohort, is double booked when two active slots that claim it on
  the same day and period have overlapping dates.
\<close>

definition clashes :: "slot \<Rightarrow> slot \<Rightarrow> bool" where
  "clashes x y \<longleftrightarrow> date_overlap x (sl_effective_from y) (sl_effective_to y)"

lemma clashes_sym: "clashes x y \<longleftrightarrow> clashes y x"
  by (auto simp: clashes_def date_overlap_def split: option.splits)

definition no_double_booking :: "(slot \<Rightarrow> 'k) \<Rightarrow> slot list \<Rightarrow> bool" where
  "no_double_booking key t \<longleftrightarrow> (\<forall>x\<in>set t. \<forall>y\<in>set t.
     sl_status x = SL_ACTIVE \<longrightarrow> sl_status y = SL_ACTIVE \<longrightarrow> row_id x \<noteq> row_id y \<longrightarrow> key x = key y \<longrightarrow>
     \<not> clashes x y)"

text \<open>\<open>free key x t\<close>: no other active slot of the table clashes with \<open>x\<close>.\<close>

definition free :: "(slot \<Rightarrow> 'k) \<Rightarrow> slot \<Rightarrow> slot list \<Rightarrow> bool" where
  "free key x t \<longleftrightarrow> (\<forall>y\<in>set t. sl_status y = SL_ACTIVE \<longrightarrow> row_id y \<noteq> row_id x \<longrightarrow> key y = key x \<longrightarrow>
     \<not> clashes y x)"

lemma no_double_booking_subset:
  "no_double_booking key t \<Longrightarrow> (\<And>y. y \<in> set t' \<Longrightarrow> y = x \<or> y \<in> set t) \<Longrightarrow>
   (sl_status x = SL_ACTIVE \<Longrightarrow> free key x t) \<Longrightarrow> no_double_booking key t'"
  unfolding no_double_booking_def free_def by (metis clashes_sym)

lemma no_double_booking_insert:
  assumes "no_double_booking key t" and "sl_status x = SL_ACTIVE \<Longrightarrow> free key x t"
  shows "no_double_booking key (insert_row x t)"
  by (rule no_double_booking_subset[OF assms(1) _ assms(2)]) (simp_all add: set_insert_row)

lemma no_double_booking_update:
  assumes "no_double_booking key t" and "sl_status x = SL_ACTIVE \<Longrightarrow> free key x t"
  shows "no_double_booking key (update_row x t)"
  by (rule no_double_booking_subset[OF assms(1) _ assms(2)]) (auto dest: set_update_row_subset)

text \<open>
  What a conflict check promises: when it answers False, the resource \<open>e\<close> is not claimed by
  another active slot on that period and day within the dates.
\<close>

locale booking_check =
  fixes key :: "slot \<Rightarrow> 'k"
    and claim :: "ulid \<Rightarrow> ulid \<Rightarrow> day_of_week \<Rightarrow> 'k"
    and check :: "unit result \<Rightarrow> db \<Rightarrow> ulid \<Rightarrow> ulid \<Rightarrow> day_of_week \<Rightarrow> date \<Rightarrow> date option \<Rightarrow> ulid option \<Rightarrow> bool result"
  assumes check_sound: "check none_cmp s e p d from to ex = Inr False \<Longrightarrow> y \<in> set (slots s) \<Longrightarrow>
      sl_status y = SL_ACTIVE \<Longrightarrow> key y = claim e p d \<Longrightarrow> ex \<noteq> Some (row_id y) \<Longrightarrow> \<not> date_overlap y from to"
begin

lemma check_free:
  assumes "check none_cmp s e p d (sl_effective_from x) (sl_effective_to x) ex = Inr False"
    and "key x = claim e p d" and "ex = None \<or> ex = Some (row_id x)"
  shows "free key x (slots s)"
  unfolding free_def clashes_def
proof (intro ballI impI)
  fix y assume y: "y \<in> set (slots s)" "sl_status y = SL_ACTIVE" "row_id y \<noteq> row_id x" "key y = key x"
  show "\<not> date_overlap y (sl_effective_from x) (sl_effective_to x)"
    by (rule check_sound[OF assms(1) y(1,2)]) (use y assms(2,3) in auto)
qed

end

interpretation teacher_booking: booking_check teacher_key "\<lambda>e p d. (e, d, p)" check_teacher_conflict
proof
  fix none_cmp s e p d "from" to ex y
  assume "check_teacher_conflict none_cmp s e p d from to ex = Inr False" and y: "y \<in> set (slots s)"
    "sl_status y = SL_ACTIVE" "teacher_key y = (e, d, p)" "ex \<noteq> Some (row_id y)"
  then show "\<not> date_overlap y from to"
    by (auto simp: check_teacher_conflict_def bind_ok_Inr_iff teacher_key_def dest!: find_NoneD[OF _ y(1)])
qed

interpretation cohort_booking: booking_check cohort_key "\<lambda>e p d. (e, d, p)" check_cohort_conflict
proof
  fix none_cmp s e p d "from" to ex y
  assume "check_cohort_conflict none_cmp s e p d from to ex = Inr False" and y: "y \<in> set (slots s)"
    "sl_status y = SL_ACTIVE" "cohort_key y = (e, d, p)" "ex \<noteq> Some (row_id y)"
  then show "\<not> date_overlap y from to"
    by (auto simp: check_cohort_conflict_def bind_ok_Inr_iff cohort_key_def dest!: find_NoneD[OF _ y(1)])
qed

section \<open>The shape of the writes\<close>

lemma create_slot_table:
  assumes "create_slot none_cmp env ctx data s = Inr (x, s')"
  obtains sch org p where "school_id ctx = Some sch" "organization_id ctx = Some org"
    "get_period_by_id s sch (sc_period_definition data) = Some p"
    "check_teacher_conflict none_cmp s (sc_teacher data) (sc_period_definition data) (sc_day data)
       (sc_from data) (sc_to data) None = Inr False"
    "check_cohort_conflict none_cmp s (sc_cohort data) (sc_period_definition data) (sc_day data)
       (sc_from data) (sc_to data) None = Inr False"
    "sc_teacher data = [] \<or> teacher_in_school s sch (sc_teacher data)"
    "sc_subject data = [] \<or> subject_in_school s sch (sc_subject data)"
    "x = new_slot env ctx sch org (pd_academic_year_id p) data s"
    "slots s' = insert_row x (slots s)" "period_definitions s' = period_definitions s"
    "timetables s' = timetables s"
  using assms that
  by (auto simp: create_slot_def bind_ok_Inr_iff Let_def split: option.splits if_splits)

lemma new_slot_fields [simp]:
  "row_id (new_slot env ctx sch org y data s) = new_id env ''timetable_slots'' (slots s)"
  "sl_status (new_slot env ctx sch org y data s) = SL_ACTIVE"
  "sl_timetable_id (new_slot env ctx sch org y data s) = None"
  "sl_school_id (new_slot env ctx sch org y data s) = sch"
  "sl_period_definition_id (new_slot env ctx sch org y data s) = sc_period_definition data"
  "sl_effective_from (new_slot env ctx sch org y data s) = sc_from data"
  "sl_effective_to (new_slot env ctx sch org y data s) = sc_to data"
  "sl_teacher_id (new_slot env ctx sch org y data s) = sc_teacher data"
  "sl_subject_id (new_slot env ctx sch org y data s) = sc_subject data"
  "sl_academic_year_id (new_slot env ctx sch org y data s) = y"
  "teacher_key (new_slot env ctx sch org y data s) = (sc_teacher data, sc_day data, sc_period_definition data)"
  "cohort_key (new_slot env ctx sch org y data s) = (sc_cohort data, sc_day data, sc_period_definition data)"
  by (simp_all add: new_slot_def teacher_key_def cohort_key_def)

lemma slot_payload_fields [simp]:
  "row_id (slot_payload data x) = row_id x"
  "sl_school_id (slot_payload data x) = sl_school_id x"
  "sl_timetable_id (slot_payload data x) = sl_timetable_id x"
  "sl_period_definition_id (slot_payload data x) = sl_period_definition_id x"
  "sl_effective_from (slot_payload data x) = sl_effective_from x"
  "sl_effective_to (slot_payload data x) = or_else (sx_to data) (sl_effective_to x)"
  "sl_teacher_id (slot_payload data x) = (case sx_teacher data of None \<Rightarrow> sl_teacher_id x | Some t \<Rightarrow> t)"
  "sl_status (slot_payload data x) = (case sx_status data of None \<Rightarrow> sl_status x | Some st \<Rightarrow> st)"
  "cohort_key (slot_payload data x) = cohort_key x"
  "sl_day_of_week (slot_payload data x) = sl_day_of_week x"
  by (simp_all add: slot_payload_def assign_def cohort_key_def or_else_def split: option.split)

lemma saved_slot_fields [simp]:
  "sl_school_id (saved_slot env ctx x y) = sl_school_id y"
  "sl_timetable_id (saved_slot env ctx x y) = sl_timetable_id y"
  "sl_period_definition_id (saved_slot env ctx x y) = sl_period_definition_id y"
  "sl_effective_from (saved_slot env ctx x y) = sl_effective_from y"
  "sl_effective_to (saved_slot env ctx x y) = sl_effective_to y"
  "sl_status (saved_slot env ctx x y) = sl_status y"
  "sl_teacher_id (saved_slot env ctx x y) = sl_teacher_id y"
  "teacher_key (saved_slot env ctx x y) = teacher_key y"
  "cohort_key (saved_slot env ctx x y) = cohort_key y"
  by (auto simp: saved_slot_def flush_versioned_def teacher_key_def cohort_key_def)

lemma saved_slot_id [simp]: "row_id y = row_id x \<Longrightarrow> row_id (saved_slot env ctx x y) = row_id x"
  by (simp add: saved_slot_def)

lemma update_slot_table:
  assumes "update_slot none_cmp env ctx x data s = Inr (x', s')"
  obtains "version x = sx_version data" "x' = saved_slot env ctx x (slot_payload data x)"
    "check_cohort_conflict none_cmp s (sl_cohort_id x) (sl_period_definition_id x) (sl_day_of_week x)
       (sl_effective_from x) (sl_effective_to x') (Some (row_id x)) = Inr False"
    "\<And>t. sx_teacher data = Some t \<Longrightarrow> check_teacher_conflict none_cmp s t (sl_period_definition_id x)
       (sl_day_of_week x) (sl_effective_from x) (sl_effective_to x') (Some (row_id x)) = Inr False"
    "slots s' = update_row x' (slots s)" "period_definitions s' = period_definitions s"
    "timetables s' = timetables s"
  using assms that
  by (auto simp: update_slot_def bind_ok_Inr_iff Let_def split: option.splits if_splits)

lemma delete_slot_table:
  "delete_slot env ctx x s = Inr (x', s') \<Longrightarrow>
     x' = saved_slot env ctx x (x\<lparr>sl_status := SL_CANCELLED, sl_effective_to := Some (env_today env)\<rparr>) \<and>
     slots s' = update_row x' (slots s) \<and> period_definitions s' = period_definitions s \<and>
     timetables s' = timetables s"
  by (auto simp: delete_slot_def Let_def)

lemma get_slot_owned_Inr:
  "get_slot_owned ctx i s = Inr x \<Longrightarrow> x \<in> set (slots s) \<and> row_id x = i \<and> school_id ctx = Some (sl_school_id x)"
  by (auto simp: get_slot_owned_def get_slot_by_id_def dest: find_SomeD split: option.splits)

lemma get_period_owned_Inr:
  "get_period_owned ctx i s = Inr p \<Longrightarrow>
     p \<in> set (period_definitions s) \<and> row_id p = i \<and> school_id ctx = Some (pd_school_id p)"
  by (auto simp: get_period_owned_def get_period_by_id_def dest: find_SomeD split: option.splits)

text \<open>The record of a teacher the payload changes, or keeps.\<close>

lemma slot_payload_teacher_key:
  "teacher_key (slot_payload data x) =
     ((case sx_teacher data of None \<Rightarrow> sl_teacher_id x | Some t \<Rightarrow> t), sl_day_of_week x, sl_period_definition_id x)"
  by (simp add: teacher_key_def)

lemma cohort_key_eq: "cohort_key x = (sl_cohort_id x, sl_day_of_week x, sl_period_definition_id x)"
  by (simp add: cohort_key_def)

lemma create_period_table:
  "create_period env ctx data s = Inr (p, s') \<Longrightarrow>
     row_id p = new_id env ''period_definitions'' (period_definitions s) \<and>
     period_definitions s' = insert_row p (period_definitions s) \<and> slots s' = slots s \<and>
     timetables s' = timetables s \<and> uq_period_def_school_year_name (period_definitions s')"
  by (auto simp: create_period_def bind_ok_Inr_iff Let_def split: option.splits if_splits)

lemma period_payload_id [simp]: "row_id (period_payload data p) = row_id p"
  by (simp add: period_payload_def assign_def split: option.split)

lemma update_period_table:
  assumes "update_period env ctx p data s = Inr (p', s')"
  shows "row_id p' = row_id p \<and> period_definitions s' = update_row p' (period_definitions s) \<and>
     slots s' = slots s \<and> timetables s' = timetables s \<and>
     uq_period_def_school_year_name (period_definitions s')"
proof -
  have "p' = flush_actor (env_now env) p ((period_payload data p)\<lparr>updated_by_id := Some (user_id ctx)\<rparr>) \<and>
     period_definitions s' = update_row p' (period_definitions s) \<and> slots s' = slots s \<and>
     timetables s' = timetables s \<and> uq_period_def_school_year_name (period_definitions s')"
    using assms by (auto simp: update_period_def bind_ok_Inr_iff Let_def)
  moreover have "row_id (flush_actor (env_now env) p ((period_payload data p)\<lparr>updated_by_id := Some (user_id ctx)\<rparr>)) = row_id p"
    by simp
  ultimately show ?thesis by metis
qed

lemma delete_period_table:
  "delete_period env ctx p s = Inr (u, s') \<Longrightarrow>
     (\<forall>x\<in>set (slots s). sl_period_definition_id x \<noteq> row_id p) \<and>
     period_definitions s' = delete_row (row_id p) (period_definitions s) \<and> slots s' = slots s \<and>
     timetables s' = timetables s"
  by (auto simp: delete_period_def slot_has_no_references_def find_None_iff split: if_splits)

section \<open>Transitions\<close>

text \<open>
  One step of the schedule: an operation on a slot or a period that returned, on a resource
  the caller's school owns, with fresh keys for new rows.
\<close>

inductive schedule_step :: "unit result \<Rightarrow> db \<Rightarrow> db \<Rightarrow> bool" for none_cmp where
  slot_created: "create_slot none_cmp env ctx d s = Inr (x, s') \<Longrightarrow>
    new_id env ''timetable_slots'' (slots s) \<notin> ids (slots s) \<Longrightarrow> schedule_step none_cmp s s'"
| slot_updated: "get_slot_owned ctx i s = Inr x \<Longrightarrow> update_slot none_cmp env ctx x u s = Inr (x', s') \<Longrightarrow>
    schedule_step none_cmp s s'"
| slot_cancelled: "get_slot_owned ctx i s = Inr x \<Longrightarrow> delete_slot env ctx x s = Inr (x', s') \<Longrightarrow>
    schedule_step none_cmp s s'"
| period_created: "create_period env ctx pd s = Inr (p, s') \<Longrightarrow>
    new_id env ''period_definitions'' (period_definitions s) \<notin> ids (period_definitions s) \<Longrightarrow>
    schedule_step none_cmp s s'"
| period_updated: "get_period_owned ctx i s = Inr p \<Longrightarrow> update_period env ctx p pu s = Inr (p', s') \<Longrightarrow>
    schedule_step none_cmp s s'"
| period_deleted: "get_period_owned ctx i s = Inr p \<Longrightarrow> delete_period env ctx p s = Inr (v, s') \<Longrightarrow>
    schedule_step none_cmp s s'"

definition schedule_inv :: "db \<Rightarrow> bool" where
  "schedule_inv s \<longleftrightarrow> pk_unique (slots s) \<and> pk_unique (period_definitions s) \<and>
     no_double_booking cohort_key (slots s) \<and>
     (\<forall>x\<in>set (slots s). sl_period_definition_id x \<in> ids (period_definitions s))"

text \<open>No slot belongs to a timetable.\<close>

definition unattached :: "db \<Rightarrow> bool" where
  "unattached s \<longleftrightarrow> (\<forall>x\<in>set (slots s). sl_timetable_id x = None)"

lemma period_exists: "get_period_by_id s sch i = Some p \<Longrightarrow> i \<in> ids (period_definitions s)"
  by (auto simp: get_period_by_id_def ids_def dest: find_SomeD)

lemma update_slot_keeps_inv:
  assumes "schedule_inv s" and "x \<in> set (slots s)" and "update_slot none_cmp env ctx x u s = Inr (x', s')"
  shows "schedule_inv s'"
proof (rule update_slot_table[OF assms(3)])
  assume x': "x' = saved_slot env ctx x (slot_payload u x)"
    and ok: "check_cohort_conflict none_cmp s (sl_cohort_id x) (sl_period_definition_id x) (sl_day_of_week x)
       (sl_effective_from x) (sl_effective_to x') (Some (row_id x)) = Inr False"
    and t: "slots s' = update_row x' (slots s)" "period_definitions s' = period_definitions s"
  have k: "row_id x' = row_id x" "cohort_key x' = cohort_key x" "sl_effective_from x' = sl_effective_from x"
    "sl_period_definition_id x' = sl_period_definition_id x"
    by (simp_all add: x')
  have "free cohort_key x' (slots s)"
    by (rule cohort_booking.check_free) (use ok k in \<open>auto simp: cohort_key_def\<close>)
  then have "no_double_booking cohort_key (slots s')"
    using assms(1) by (simp add: t(1) schedule_inv_def no_double_booking_update)
  with assms(1,2) t k(4) show ?thesis
    by (auto simp: schedule_inv_def dest!: set_update_row_subset)
qed

lemma delete_slot_keeps_inv:
  assumes "schedule_inv s" and "x \<in> set (slots s)" and "delete_slot env ctx x s = Inr (x', s')"
  shows "schedule_inv s'"
proof -
  note d = delete_slot_table[OF assms(3)]
  then have "sl_status x' = SL_CANCELLED" "sl_period_definition_id x' = sl_period_definition_id x" by simp_all
  with assms(1,2) d show ?thesis
    by (auto simp: schedule_inv_def intro: no_double_booking_update dest!: set_update_row_subset)
qed

lemma create_slot_keeps_inv:
  assumes "schedule_inv s" and "create_slot none_cmp env ctx d s = Inr (x, s')"
    and "new_id env ''timetable_slots'' (slots s) \<notin> ids (slots s)"
  shows "schedule_inv s'"
proof (rule create_slot_table[OF assms(2)])
  fix sch org p assume p: "get_period_by_id s sch (sc_period_definition d) = Some p"
    and ok: "check_cohort_conflict none_cmp s (sc_cohort d) (sc_period_definition d) (sc_day d) (sc_from d) (sc_to d) None = Inr False"
    and x: "x = new_slot env ctx sch org (pd_academic_year_id p) d s"
    and t: "slots s' = insert_row x (slots s)" "period_definitions s' = period_definitions s"
  have "free cohort_key x (slots s)"
    by (rule cohort_booking.check_free) (use ok in \<open>auto simp: x\<close>)
  then have "no_double_booking cohort_key (slots s')"
    using assms(1) by (simp add: t(1) schedule_inv_def no_double_booking_insert)
  with assms(1,3) t period_exists[OF p] show ?thesis
    by (auto simp: schedule_inv_def set_insert_row x)
qed

lemma schedule_step_inv:
  assumes "schedule_inv s" and "schedule_step none_cmp s s'"
  shows "schedule_inv s'"
  using assms(2)
proof (cases rule: schedule_step.cases)
  case (slot_created env ctx d x)
  then show ?thesis using create_slot_keeps_inv[OF assms(1)] by blast
next
  case (slot_updated ctx i x env u x')
  then show ?thesis using update_slot_keeps_inv[OF assms(1)] by (blast dest: get_slot_owned_Inr)
next
  case (slot_cancelled ctx i x env x')
  then show ?thesis using delete_slot_keeps_inv[OF assms(1)] by (blast dest: get_slot_owned_Inr)
next
  case (period_created env ctx pd p)
  with create_period_table[OF period_created(1)] assms(1) show ?thesis by (auto simp: schedule_inv_def)
next
  case (period_updated ctx i p env pu p')
  with update_period_table[OF period_updated(2)] assms(1) show ?thesis by (auto simp: schedule_inv_def)
next
  case (period_deleted ctx i p env v)
  with delete_period_table[OF period_deleted(2)] assms(1) show ?thesis
    by (simp add: schedule_inv_def pk_unique_delete_row)
qed

interpretation schedule: invariant_system "schedule_step none_cmp" schedule_inv
  by unfold_locales (rule schedule_step_inv)

lemma schedule_step_unattached:
  assumes "unattached s" and "schedule_step none_cmp s s'"
  shows "unattached s'"
  using assms(2)
proof (cases rule: schedule_step.cases)
  case (slot_created env ctx d x)
  show ?thesis by (rule create_slot_table[OF slot_created(1)])
      (use assms(1) in \<open>auto simp: unattached_def set_insert_row\<close>)
next
  case (slot_updated ctx i x env u x')
  have x: "sl_timetable_id x = None" using assms(1) get_slot_owned_Inr[OF slot_updated(1)] by (auto simp: unattached_def)
  show ?thesis
  proof (rule update_slot_table[OF slot_updated(2)])
    assume "x' = saved_slot env ctx x (slot_payload u x)" "slots s' = update_row x' (slots s)"
    with assms(1) x show ?thesis by (auto simp: unattached_def dest!: set_update_row_subset)
  qed
next
  case (slot_cancelled ctx i x env x')
  have x: "sl_timetable_id x = None" using assms(1) get_slot_owned_Inr[OF slot_cancelled(1)] by (auto simp: unattached_def)
  with delete_slot_table[OF slot_cancelled(2)] assms(1) show ?thesis
    by (auto simp: unattached_def dest!: set_update_row_subset)
next
  case (period_created env ctx pd p)
  with create_period_table[OF period_created(1)] assms(1) show ?thesis by (simp add: unattached_def)
next
  case (period_updated ctx i p env pu p')
  with update_period_table[OF period_updated(2)] assms(1) show ?thesis by (simp add: unattached_def)
next
  case (period_deleted ctx i p env v)
  with delete_period_table[OF period_deleted(2)] assms(1) show ?thesis by (simp add: unattached_def)
qed

section \<open>Properties\<close>

text \<open>
  C12. However slots and periods are created, changed, cancelled and deleted, starting from
  no slots, no cohort ever has two active slots on one day and period with overlapping
  dates, and no slot refers to a period that is gone.
\<close>

theorem cohorts_never_double_booked:
  assumes "(schedule_step none_cmp)\<^sup>*\<^sup>* s0 s" and "slots s0 = []" and "pk_unique (period_definitions s0)"
  shows "no_double_booking cohort_key (slots s) \<and>
    (\<forall>x\<in>set (slots s). sl_period_definition_id x \<in> ids (period_definitions s))"
  using schedule.reach_inv[OF assms(1)] assms(2,3)
  by (simp add: schedule_inv_def no_double_booking_def pk_unique_def)

definition sample_schedule :: db where
  "sample_schedule = empty_db\<lparr>
     period_definitions := [blank_period_definition ''p''\<lparr>pd_school_id := ''s'', pd_academic_year_id := ''y''\<rparr>],
     teachers := [blank_teacher ''t''\<lparr>te_school_id := ''s''\<rparr>],
     subjects := [blank_subject ''m''\<lparr>su_school_id := ''s''\<rparr>]\<rparr>"

definition sample_slot_create :: "ulid \<Rightarrow> date \<Rightarrow> date \<Rightarrow> slot_create" where
  "sample_slot_create cohort from to = \<lparr>sc_cohort = cohort, sc_period_definition = ''p'', sc_teacher = ''t'',
     sc_subject = ''m'', sc_day = MONDAY, sc_from = from, sc_to = Some to, sc_slot_notes = None\<rparr>"

definition sample_none_cmp :: "unit result" where
  "sample_none_cmp = Inl (PyError ''ArgumentError'')"

definition sample_new_slot :: "ulid \<Rightarrow> date \<Rightarrow> date \<Rightarrow> db \<Rightarrow> (slot \<times> db) result" where
  "sample_new_slot c from to = create_slot sample_none_cmp sample_audit_env school_context (sample_slot_create c from to)"

definition sample_schedule1 :: db where "sample_schedule1 = snd (projr (sample_new_slot ''c'' 1 9 sample_schedule))"
definition sample_schedule2 :: db where "sample_schedule2 = snd (projr (sample_new_slot ''d'' 10 20 sample_schedule1))"

lemma sample_schedule_steps:
  "is_ok (sample_new_slot ''c'' 1 9 sample_schedule)" "is_ok (sample_new_slot ''d'' 10 20 sample_schedule1)"
  "(schedule_step sample_none_cmp)\<^sup>*\<^sup>* sample_schedule sample_schedule2"
proof -
  show ok: "is_ok (sample_new_slot ''c'' 1 9 sample_schedule)" "is_ok (sample_new_slot ''d'' 10 20 sample_schedule1)"
    by code_simp+
  note eqs = ok[THEN ok_projr, folded sample_schedule1_def sample_schedule2_def, unfolded sample_new_slot_def]
  have "schedule_step sample_none_cmp sample_schedule sample_schedule1"
    by (rule schedule_step.slot_created[OF eqs(1)]) code_simp
  moreover have "schedule_step sample_none_cmp sample_schedule1 sample_schedule2"
    by (rule schedule_step.slot_created[OF eqs(2)]) code_simp
  ultimately show "(schedule_step sample_none_cmp)\<^sup>*\<^sup>* sample_schedule sample_schedule2"
    by (meson rtranclp.simps)
qed

lemma cohorts_never_double_booked_witness:
  "length (slots sample_schedule2) = 2 \<and> no_double_booking cohort_key (slots sample_schedule2)"
proof
  show "length (slots sample_schedule2) = 2" by code_simp
  have "slots sample_schedule = []" "pk_unique (period_definitions sample_schedule)" by code_simp+
  from cohorts_never_double_booked[OF sample_schedule_steps(3) this]
  show "no_double_booking cohort_key (slots sample_schedule2)" by blast
qed

text \<open>
  A slot that is created belongs to the caller's school and to the year of its period,
  a period of that school; its teacher and subject, where given, are the school's; no active
  slot of the same teacher or of the same cohort clashes with it, so a schedule that does
  not double book teachers still does not; and it belongs to no timetable.
\<close>

theorem create_slot_sound:
  assumes "create_slot none_cmp env ctx d s = Inr (x, s')"
  shows "\<exists>sch p. school_id ctx = Some sch \<and> sl_school_id x = sch \<and>
    get_period_by_id s sch (sl_period_definition_id x) = Some p \<and> sl_academic_year_id x = pd_academic_year_id p \<and>
    sl_timetable_id x = None \<and> slots s' = insert_row x (slots s) \<and>
    (sl_teacher_id x = [] \<or> teacher_in_school s sch (sl_teacher_id x)) \<and>
    (sl_subject_id x = [] \<or> subject_in_school s sch (sl_subject_id x)) \<and>
    free teacher_key x (slots s) \<and> free cohort_key x (slots s) \<and>
    (no_double_booking teacher_key (slots s) \<longrightarrow> no_double_booking teacher_key (slots s'))"
proof (rule create_slot_table[OF assms])
  fix sch org p
  assume sch: "school_id ctx = Some sch" and p: "get_period_by_id s sch (sc_period_definition d) = Some p"
    and t: "check_teacher_conflict none_cmp s (sc_teacher d) (sc_period_definition d) (sc_day d) (sc_from d) (sc_to d) None = Inr False"
    and c: "check_cohort_conflict none_cmp s (sc_cohort d) (sc_period_definition d) (sc_day d) (sc_from d) (sc_to d) None = Inr False"
    and own: "sc_teacher d = [] \<or> teacher_in_school s sch (sc_teacher d)" "sc_subject d = [] \<or> subject_in_school s sch (sc_subject d)"
    and x: "x = new_slot env ctx sch org (pd_academic_year_id p) d s" and s': "slots s' = insert_row x (slots s)"
  have f: "free teacher_key x (slots s)" "free cohort_key x (slots s)"
    by (rule teacher_booking.check_free cohort_booking.check_free; use t c in \<open>auto simp: x\<close>)+
  have "no_double_booking teacher_key (slots s')" if "no_double_booking teacher_key (slots s)"
    using no_double_booking_insert[OF that f(1)] by (simp add: s')
  with f show ?thesis using sch p own s' by (simp add: x)
qed

lemma create_slot_sound_witness:
  "teacher_in_school sample_schedule1 ''s'' (sl_teacher_id (fst (projr (sample_new_slot ''d'' 10 20 sample_schedule1)))) \<and>
   free teacher_key (fst (projr (sample_new_slot ''d'' 10 20 sample_schedule1))) (slots sample_schedule1) \<and>
   is_ok (sample_new_slot ''d'' 5 20 sample_schedule1) = False"
proof -
  have t: "sl_teacher_id (fst (projr (sample_new_slot ''d'' 10 20 sample_schedule1))) = ''t''" by code_simp
  from create_slot_sound[OF ok_projr[OF sample_schedule_steps(2), unfolded sample_new_slot_def], folded sample_new_slot_def] t
  have "teacher_in_school sample_schedule1 ''s'' (sl_teacher_id (fst (projr (sample_new_slot ''d'' 10 20 sample_schedule1))))"
    "free teacher_key (fst (projr (sample_new_slot ''d'' 10 20 sample_schedule1))) (slots sample_schedule1)"
    by auto
  moreover have "is_ok (sample_new_slot ''d'' 5 20 sample_schedule1) = False" by code_simp
  ultimately show ?thesis by blast
qed

text \<open>
  What does hold of teachers: an update that names the teacher keeps a schedule free of
  double bookings free of them.
\<close>

lemma update_slot_named_teacher:
  assumes "no_double_booking teacher_key (slots s)" and "update_slot none_cmp env ctx x u s = Inr (x', s')"
    and "sx_teacher u = Some t"
  shows "no_double_booking teacher_key (slots s')"
proof (rule update_slot_table[OF assms(2)])
  assume x': "x' = saved_slot env ctx x (slot_payload u x)" and s': "slots s' = update_row x' (slots s)"
    and ok: "\<And>t. sx_teacher u = Some t \<Longrightarrow> check_teacher_conflict none_cmp s t (sl_period_definition_id x)
       (sl_day_of_week x) (sl_effective_from x) (sl_effective_to x') (Some (row_id x)) = Inr False"
  have "check_teacher_conflict none_cmp s t (sl_period_definition_id x) (sl_day_of_week x)
      (sl_effective_from x') (sl_effective_to x') (Some (row_id x')) = Inr False"
    using ok[OF assms(3)] by (simp add: x')
  then have "free teacher_key x' (slots s)"
    by (rule teacher_booking.check_free) (simp_all add: x' slot_payload_teacher_key assms(3))
  then show ?thesis unfolding s' by (intro no_double_booking_update[OF assms(1)])
qed

text \<open>A cancelled slot of a teacher who has been booked for the same period since.\<close>

definition sample_gap :: db where
  "sample_gap = empty_db\<lparr>slots := [
     blank_slot ''a''\<lparr>sl_school_id := ''s'', sl_teacher_id := ''t'', sl_cohort_id := ''c'',
       sl_effective_from := 1, sl_effective_to := Some 20, sl_status := SL_CANCELLED\<rparr>,
     blank_slot ''b''\<lparr>sl_school_id := ''s'', sl_teacher_id := ''t'', sl_cohort_id := ''d'',
       sl_effective_from := 5, sl_effective_to := Some 30\<rparr>]\<rparr>"

definition sample_reactivate :: "ulid option \<Rightarrow> (slot \<times> db) result" where
  "sample_reactivate teacher = bind_ok (get_slot_owned school_context ''a'' sample_gap) (\<lambda>x.
     update_slot sample_none_cmp sample_audit_env school_context x
       \<lparr>sx_teacher = teacher, sx_subject = None, sx_to = None, sx_status = Some SL_ACTIVE, sx_notes = None,
        sx_version = 1\<rparr> sample_gap)"

text \<open>
  The check of the teacher is skipped when the payload does not name the teacher, so
  setting a cancelled slot back to active can double book its teacher; the same update with
  the teacher named is refused.
\<close>

theorem update_slot_can_double_book_teacher:
  "no_double_booking teacher_key (slots sample_gap) \<and>
   is_ok (sample_reactivate None) \<and>
   no_double_booking teacher_key (slots (snd (projr (sample_reactivate None)))) = False \<and>
   sample_reactivate (Some ''t'') = Inl (ConflictError ''TEACHER_CONFLICT'')"
proof (intro conjI)
  show "no_double_booking teacher_key (slots sample_gap)" unfolding no_double_booking_def by code_simp
  show "is_ok (sample_reactivate None)" by code_simp
  show "no_double_booking teacher_key (slots (snd (projr (sample_reactivate None)))) = False"
    unfolding no_double_booking_def by code_simp
  show "sample_reactivate (Some ''t'') = Inl (ConflictError ''TEACHER_CONFLICT'')" by code_simp
qed

lemma reload_slot_Inr:
  "reload_slot names ctx r = Inr (v, s') \<Longrightarrow>
     snd r = s' \<and> (\<exists>sch. school_id ctx = Some sch \<and> sl_school_id (sv_slot v) = sch \<and> row_id (sv_slot v) = row_id (fst r))"
  by (cases r) (auto simp: reload_slot_def slot_read_def get_slot_by_id_def Option.bind_eq_Some_conv
      dest!: find_SomeD split: option.splits)

lemma update_row_other_schools:
  assumes "pk_unique t" and "x \<in> set t" and "row_id x' = row_id x" and "sl_school_id x' = sl_school_id x"
  shows "{y \<in> set (update_row x' t). sl_school_id y \<noteq> sl_school_id x} = {y \<in> set t. sl_school_id y \<noteq> sl_school_id x}"
proof -
  have "row_id y \<noteq> row_id x'" if "y \<in> set t" "sl_school_id y \<noteq> sl_school_id x" for y
    using that assms pk_unique_inj by metis
  with assms(4) show ?thesis
    by (auto dest!: set_update_row_subset intro: set_update_row_other)
qed

text \<open>
  The write routes of slots run only for a caller whose scope covers the permission,
  return a slot of the active school, and leave the slots of every other school as they
  were.
\<close>

theorem slot_routes_stay_in_school:
  assumes "pk_unique (slots s)"
    and "create_timetable_slot_route names none_cmp env ctx d s = Inr (v, s') \<or>
         update_timetable_slot_route names none_cmp env ctx i u s = Inr (v, s') \<or>
         cancel_timetable_slot_route names env ctx i s = Inr (v, s')"
  shows "\<exists>sch c e. school_id ctx = Some sch \<and> sl_school_id (sv_slot v) = sch \<and>
    c \<in> {''timetables.slot.create'', ''timetables.slot.update'', ''timetables.slot.delete''} \<and>
    effective_scope_for ctx c = Some e \<and>
    {y \<in> set (slots s'). sl_school_id y \<noteq> sch} = {y \<in> set (slots s). sl_school_id y \<noteq> sch}"
  using assms(2)
proof (elim disjE)
  assume "create_timetable_slot_route names none_cmp env ctx d s = Inr (v, s')"
  then obtain x s1 e where g: "effective_scope_for ctx ''timetables.slot.create'' = Some e"
      and c: "create_slot none_cmp env ctx d s = Inr (x, s1)" and r: "reload_slot names ctx (x, s1) = Inr (v, s')"
    by (auto simp: create_timetable_slot_route_def guarded_Inr bind_ok_Inr_iff)
  from create_slot_table[OF c] obtain sch where "school_id ctx = Some sch" "sl_school_id x = sch"
      "slots s1 = insert_row x (slots s)"
    by (metis new_slot_fields(4))
  with reload_slot_Inr[OF r] g show ?thesis by (auto simp: set_insert_row)
next
  assume "update_timetable_slot_route names none_cmp env ctx i u s = Inr (v, s')"
  then obtain x x' s1 e where g: "effective_scope_for ctx ''timetables.slot.update'' = Some e"
      and o: "get_slot_owned ctx i s = Inr x"
      and c: "update_slot none_cmp env ctx x u s = Inr (x', s1)" and r: "reload_slot names ctx (x', s1) = Inr (v, s')"
    by (auto simp: update_timetable_slot_route_def guarded_Inr bind_ok_Inr_iff)
  have "x' = saved_slot env ctx x (slot_payload u x) \<and> slots s1 = update_row x' (slots s)"
    by (rule update_slot_table[OF c]) blast
  then have "{y \<in> set (slots s1). sl_school_id y \<noteq> sl_school_id x} = {y \<in> set (slots s). sl_school_id y \<noteq> sl_school_id x}"
    using update_row_other_schools[OF assms(1), of x x'] get_slot_owned_Inr[OF o] by simp
  with reload_slot_Inr[OF r] g get_slot_owned_Inr[OF o] show ?thesis by auto
next
  assume "cancel_timetable_slot_route names env ctx i s = Inr (v, s')"
  then obtain x x' s1 e where g: "effective_scope_for ctx ''timetables.slot.delete'' = Some e"
      and o: "get_slot_owned ctx i s = Inr x"
      and c: "delete_slot env ctx x s = Inr (x', s1)" and r: "reload_slot names ctx (x', s1) = Inr (v, s')"
    by (auto simp: cancel_timetable_slot_route_def guarded_Inr bind_ok_Inr_iff)
  have "{y \<in> set (slots s1). sl_school_id y \<noteq> sl_school_id x} = {y \<in> set (slots s). sl_school_id y \<noteq> sl_school_id x}"
    using update_row_other_schools[OF assms(1), of x x'] get_slot_owned_Inr[OF o] delete_slot_table[OF c] by simp
  with reload_slot_Inr[OF r] g get_slot_owned_Inr[OF o] show ?thesis by auto
qed

definition sample_two_schools :: db where
  "sample_two_schools = sample_gap\<lparr>slots := slots sample_gap @ [blank_slot ''z''\<lparr>sl_school_id := ''other''\<rparr>]\<rparr>"

definition sample_cancel :: "ulid \<Rightarrow> (slot_view \<times> db) result" where
  "sample_cancel i = cancel_timetable_slot_route (\<lambda>_. None) sample_audit_env
     (school_context\<lparr>is_platform_admin := True\<rparr>) i sample_two_schools"

lemma slot_routes_stay_in_school_witness:
  "sl_school_id (sv_slot (fst (projr (sample_cancel ''b'')))) = ''s'' \<and>
   {y \<in> set (slots (snd (projr (sample_cancel ''b'')))). sl_school_id y \<noteq> ''s''} =
     {y \<in> set (slots sample_two_schools). sl_school_id y \<noteq> ''s''} \<and>
   sample_cancel ''z'' = Inl slot_not_found"
proof -
  have ok: "is_ok (sample_cancel ''b'')" by code_simp
  have pk: "pk_unique (slots sample_two_schools)" by code_simp
  have "sample_cancel ''z'' = Inl slot_not_found" by code_simp
  moreover have "school_id (school_context\<lparr>is_platform_admin := True\<rparr>) = Some ''s''" by simp
  ultimately show ?thesis
    using slot_routes_stay_in_school[OF pk disjI2[OF disjI2[OF ok_projr[OF ok, unfolded sample_cancel_def]]], folded sample_cancel_def]
    by auto
qed

end
