(* ===== verification/Enrollments.thy ===== *)
theory Enrollments
  imports Platform Interfaces
begin

text \<open>
  Enrollments of students in cohorts: \<open>app/modules/students/enrollments/service.py\<close> and
  \<open>repository.py\<close>, with the partial unique indexes of migration 0011.
\<close>

section \<open>Values\<close>

fun enrollment_status_value :: "enrollment_status \<Rightarrow> string" where
  "enrollment_status_value EN_ACTIVE = ''ACTIVE''"
| "enrollment_status_value EN_TRANSFERRED = ''TRANSFERRED''"
| "enrollment_status_value EN_WITHDRAWN = ''WITHDRAWN''"
| "enrollment_status_value EN_COMPLETED = ''COMPLETED''"

fun enrollment_type_value :: "enrollment_type \<Rightarrow> string" where
  "enrollment_type_value ET_REGULAR = ''REGULAR''"
| "enrollment_type_value ET_TRANSFER_IN = ''TRANSFER_IN''"
| "enrollment_type_value ET_REPEAT = ''REPEAT''"
| "enrollment_type_value ET_PROMOTION = ''PROMOTION''"
| "enrollment_type_value ET_TEMPORARY = ''TEMPORARY''"

definition enrollment_snapshot :: "enrollment \<Rightarrow> snapshot" where
  "enrollment_snapshot e = [(''student_id'', JStr (en_student_id e)),
     (''academic_year_id'', JStr (en_academic_year_id e)), (''cohort_id'', JStr (en_cohort_id e)),
     (''roll_number'', case en_roll_number e of None \<Rightarrow> JNull | Some r \<Rightarrow> JStr r),
     (''status'', JStr (enrollment_status_value (en_status e))),
     (''enrollment_type'', JStr (enrollment_type_value (en_enrollment_type e))),
     (''start_date'', JDateStr (en_start_date e)),
     (''end_date'', case en_end_date e of None \<Rightarrow> JNull | Some d \<Rightarrow> JDateStr d)]"

record enrollment_create =
  ec_student_id :: ulid
  ec_academic_year_id :: ulid
  ec_academic_class_id :: ulid
  ec_cohort_id :: ulid
  ec_roll_number :: "string option"
  ec_start_date :: date
  ec_enrollment_type :: enrollment_type

text \<open>
  The update payload is dumped with \<open>exclude_unset\<close>: a field the client sent as null is
  assigned None, so each field is absent, null or a value.
\<close>

record enrollment_update =
  eu_roll_number :: "string option option"
  eu_end_date :: "date option option"
  eu_status :: "enrollment_status option option"
  eu_version :: int

record enrollment_transfer =
  et_new_cohort_id :: ulid
  et_new_academic_class_id :: ulid
  et_effective_date :: date

section \<open>Queries\<close>

definition get_student :: "db \<Rightarrow> ulid \<Rightarrow> ulid \<Rightarrow> student option" where
  "get_student s sch i =
     find (\<lambda>x. row_id x = i \<and> st_school_id x = sch \<and> deleted_at x = None) (students s)"

definition get_cohort :: "db \<Rightarrow> ulid \<Rightarrow> ulid \<Rightarrow> cohort option" where
  "get_cohort s sch i =
     find (\<lambda>x. row_id x = i \<and> co_school_id x = sch \<and> deleted_at x = None) (cohorts s)"

definition get_academic_year :: "db \<Rightarrow> ulid \<Rightarrow> ulid \<Rightarrow> academic_year option" where
  "get_academic_year s sch i =
     find (\<lambda>x. row_id x = i \<and> ay_school_id x = sch \<and> deleted_at x = None) (academic_years s)"

definition get_enrollment :: "db \<Rightarrow> ulid \<Rightarrow> ulid \<Rightarrow> enrollment option" where
  "get_enrollment s i sch = find (\<lambda>e. row_id e = i \<and> en_school_id e = sch) (enrollments s)"

definition get_active_for_student_year :: "db \<Rightarrow> ulid \<Rightarrow> ulid \<Rightarrow> enrollment option" where
  "get_active_for_student_year s student year =
     find (\<lambda>e. en_student_id e = student \<and> en_academic_year_id e = year \<and> en_status e = EN_ACTIVE)
       (enrollments s)"

definition get_active_roll_in_cohort :: "db \<Rightarrow> ulid \<Rightarrow> string \<Rightarrow> enrollment option" where
  "get_active_roll_in_cohort s cohort roll =
     find (\<lambda>e. en_cohort_id e = cohort \<and> en_roll_number e = Some roll \<and> en_status e = EN_ACTIVE)
       (enrollments s)"

text \<open>A flush of the table: both partial unique indexes must hold of the new contents.\<close>

definition flush_enrollments :: "enrollment list \<Rightarrow> enrollment list result" where
  "flush_enrollments t =
     bind_ok (constrained (uq_enrollment_student_year_active t) ''uq_enrollment_student_year_active'' t)
       (\<lambda>t. constrained (uq_enrollment_cohort_roll t) ''uq_enrollment_cohort_roll'' t)"

section \<open>Operations\<close>

definition enrollment_not_found :: error where
  "enrollment_not_found = NotFoundError ''ENROLLMENT_NOT_FOUND''"

definition missing_school :: error where
  "missing_school = InvalidRequestError ''VALIDATION_ERROR''"

definition new_enrollment ::
  "env \<Rightarrow> request_context \<Rightarrow> ulid \<Rightarrow> ulid \<Rightarrow> ulid \<Rightarrow> ulid \<Rightarrow> ulid \<Rightarrow> ulid \<Rightarrow> string option \<Rightarrow> date
   \<Rightarrow> enrollment_type \<Rightarrow> db \<Rightarrow> enrollment" where
  "new_enrollment env ctx sch org student year class cohort roll start ty s =
     \<lparr>row_id = new_id env ''student_enrollments'' (enrollments s), created_at = env_now env,
      updated_at = env_now env, created_by_id = Some (user_id ctx), updated_by_id = None,
      version = 1, en_school_id = sch, en_organization_id = org, en_student_id = student,
      en_academic_year_id = year, en_academic_class_id = class, en_cohort_id = cohort,
      en_roll_number = roll, en_start_date = start, en_end_date = None, en_enrollment_type = ty,
      en_status = EN_ACTIVE\<rparr>"

text \<open>
  The handler around the flush of a creation turns every violation of an index whose name
  starts with \<open>uq_enrollment_\<close> into ALREADY_ENROLLED.
\<close>

definition already_enrolled_on_race :: "'a result \<Rightarrow> 'a result" where
  "already_enrolled_on_race r = (case r of
     Inl (IntegrityError name) \<Rightarrow>
       (if take (length ''uq_enrollment_'') name = ''uq_enrollment_''
        then Inl (ConflictError ''ALREADY_ENROLLED'') else r)
   | _ \<Rightarrow> r)"

definition create_enrollment ::
  "env \<Rightarrow> request_context \<Rightarrow> enrollment_create \<Rightarrow> db \<Rightarrow> (enrollment \<times> db) result" where
  "create_enrollment env ctx data s = (case school_id ctx of
     None \<Rightarrow> Inl missing_school
   | Some sch \<Rightarrow>
       if get_student s sch (ec_student_id data) = None then Inl (NotFoundError ''STUDENT_NOT_FOUND'')
       else if get_cohort s sch (ec_cohort_id data) = None then Inl (NotFoundError ''COHORT_NOT_FOUND'')
       else if get_academic_year s sch (ec_academic_year_id data) = None
       then Inl (NotFoundError ''ACADEMIC_YEAR_NOT_FOUND'')
       else if get_active_for_student_year s (ec_student_id data) (ec_academic_year_id data) \<noteq> None
       then Inl (ConflictError ''ALREADY_ENROLLED'')
       else if truthy (ec_roll_number data) \<and>
           get_active_roll_in_cohort s (ec_cohort_id data) (the (ec_roll_number data)) \<noteq> None
       then Inl (ConflictError ''ROLL_NUMBER_TAKEN'')
       else (case organization_id ctx of
          None \<Rightarrow> Inl (IntegrityError ''organization_id'')
        | Some org \<Rightarrow>
          let e = new_enrollment env ctx sch org (ec_student_id data) (ec_academic_year_id data)
                (ec_academic_class_id data) (ec_cohort_id data) (ec_roll_number data)
                (ec_start_date data) (ec_enrollment_type data) s
          in bind_ok (already_enrolled_on_race (flush_enrollments (insert_row e (enrollments s))))
               (\<lambda>t. Inr (e, audit env ctx ''ENROLLMENT_CREATED'' ''student_enrollment'' (Some (row_id e))
                  None (Some (enrollment_snapshot e)) (s\<lparr>enrollments := t\<rparr>)))))"

definition require_enrollment :: "request_context \<Rightarrow> ulid \<Rightarrow> db \<Rightarrow> enrollment result" where
  "require_enrollment ctx i s = (case school_id ctx of
     None \<Rightarrow> Inl missing_school
   | Some sch \<Rightarrow> ok_or enrollment_not_found (get_enrollment s i sch))"

definition enrollment_payload :: "enrollment_update \<Rightarrow> enrollment \<Rightarrow> enrollment" where
  "enrollment_payload data e =
     assign en_status_update (Option.bind (eu_status data) id)
       (assign en_end_date_update (eu_end_date data)
         (assign en_roll_number_update (eu_roll_number data) e))"

definition saved_enrollment :: "env \<Rightarrow> request_context \<Rightarrow> enrollment \<Rightarrow> enrollment \<Rightarrow> enrollment" where
  "saved_enrollment env ctx old new =
     flush_versioned (env_now env) old (new\<lparr>updated_by_id := Some (user_id ctx)\<rparr>)"

definition update_enrollment ::
  "env \<Rightarrow> request_context \<Rightarrow> ulid \<Rightarrow> enrollment_update \<Rightarrow> db \<Rightarrow> (enrollment \<times> db) result" where
  "update_enrollment env ctx i data s =
     bind_ok (require_enrollment ctx i s) (\<lambda>e.
       if version e \<noteq> eu_version data then Inl StaleResourceError
       else if eu_status data = Some None then Inl (IntegrityError ''status'')
       else
         let e' = saved_enrollment env ctx e (enrollment_payload data e) in
         bind_ok (flush_enrollments (update_row e' (enrollments s))) (\<lambda>t.
           Inr (e', audit env ctx ''ENROLLMENT_UPDATED'' ''student_enrollment'' (Some (row_id e'))
             (Some (enrollment_snapshot e)) (Some (enrollment_snapshot e')) (s\<lparr>enrollments := t\<rparr>))))"

definition ended_by_transfer :: "date \<Rightarrow> enrollment \<Rightarrow> enrollment" where
  "ended_by_transfer d e = e\<lparr>en_end_date := Some d, en_status := EN_TRANSFERRED\<rparr>"

definition transfer_enrollment ::
  "env \<Rightarrow> request_context \<Rightarrow> ulid \<Rightarrow> enrollment_transfer \<Rightarrow> db \<Rightarrow> (enrollment \<times> db) result" where
  "transfer_enrollment env ctx i data s =
     bind_ok (require_enrollment ctx i s) (\<lambda>old.
       if en_status old \<noteq> EN_ACTIVE then Inl (ConflictError ''ENROLLMENT_NOT_ACTIVE'')
       else if get_cohort s (the (school_id ctx)) (et_new_cohort_id data) = None
       then Inl (NotFoundError ''COHORT_NOT_FOUND'')
       else
         let old' = saved_enrollment env ctx old (ended_by_transfer (et_effective_date data) old) in
         bind_ok (flush_enrollments (update_row old' (enrollments s))) (\<lambda>t.
           let s1 = audit env ctx ''ENROLLMENT_UPDATED'' ''student_enrollment'' (Some (row_id old'))
                 (Some (enrollment_snapshot old)) (Some (enrollment_snapshot old')) (s\<lparr>enrollments := t\<rparr>)
           in (case organization_id ctx of
             None \<Rightarrow> Inl (IntegrityError ''organization_id'')
           | Some org \<Rightarrow>
             let e = new_enrollment env ctx (the (school_id ctx)) org (en_student_id old)
                   (en_academic_year_id old) (et_new_academic_class_id data) (et_new_cohort_id data)
                   None (et_effective_date data) ET_TRANSFER_IN s1
             in bind_ok (flush_enrollments (insert_row e (enrollments s1))) (\<lambda>t2.
                  Inr (e, audit env ctx ''ENROLLMENT_CREATED'' ''student_enrollment'' (Some (row_id e))
                    None (Some (enrollment_snapshot e)) (s1\<lparr>enrollments := t2\<rparr>))))))"

text \<open>
  A deletion is refused by the foreign key of \<open>attendance_records.enrollment_id\<close>
  (\<open>ondelete=RESTRICT\<close>) when the student has been marked.
\<close>

definition delete_enrollment ::
  "env \<Rightarrow> request_context \<Rightarrow> ulid \<Rightarrow> int \<Rightarrow> db \<Rightarrow> (unit \<times> db) result" where
  "delete_enrollment env ctx i ver s =
     bind_ok (require_enrollment ctx i s) (\<lambda>e.
       if version e \<noteq> ver then Inl StaleResourceError
       else if en_status e \<noteq> EN_ACTIVE then Inl (ConflictError ''ENROLLMENT_NOT_ACTIVE'')
       else if list_ex (\<lambda>r. ar_enrollment_id r = i) (attendance_records s)
       then Inl (IntegrityError ''attendance_records.enrollment_id'')
       else Inr ((), audit env ctx ''ENROLLMENT_DELETED'' ''student_enrollment'' (Some i)
         (Some (enrollment_snapshot e)) None (s\<lparr>enrollments := delete_row i (enrollments s)\<rparr>)))"

definition get_enrollment_owned :: "request_context \<Rightarrow> ulid \<Rightarrow> db \<Rightarrow> enrollment result" where
  "get_enrollment_owned ctx i s = (case school_id ctx of
     None \<Rightarrow> Inl enrollment_not_found
   | Some sch \<Rightarrow> ok_or enrollment_not_found (get_enrollment s i sch))"

section \<open>Facts\<close>

lemma find_None_conv: "find P xs = None \<longleftrightarrow> (\<forall>x\<in>set xs. \<not> P x)"
  by (simp add: find_None_iff) blast

lemma flush_enrollments_Inr:
  "flush_enrollments t = Inr t' \<longleftrightarrow> t' = t \<and> uq_enrollment_student_year_active t \<and> uq_enrollment_cohort_roll t"
  by (auto simp: flush_enrollments_def bind_ok_Inr_iff)

lemma flush_enrollments_ok:
  "uq_enrollment_student_year_active t \<Longrightarrow> uq_enrollment_cohort_roll t \<Longrightarrow> flush_enrollments t = Inr t"
  by (simp add: flush_enrollments_Inr)

lemma already_enrolled_on_race_Inr [simp]: "already_enrolled_on_race r = Inr x \<longleftrightarrow> r = Inr x"
  by (auto simp: already_enrolled_on_race_def split: sum.splits error.splits)

lemma already_enrolled_on_race_ok [simp]: "already_enrolled_on_race (Inr x) = Inr x"
  by simp

lemma new_enrollment_fields [simp]:
  "row_id (new_enrollment env ctx sch org st y cl co r d ty s) = new_id env ''student_enrollments'' (enrollments s)"
  "en_student_id (new_enrollment env ctx sch org st y cl co r d ty s) = st"
  "en_academic_year_id (new_enrollment env ctx sch org st y cl co r d ty s) = y"
  "en_cohort_id (new_enrollment env ctx sch org st y cl co r d ty s) = co"
  "en_roll_number (new_enrollment env ctx sch org st y cl co r d ty s) = r"
  "en_status (new_enrollment env ctx sch org st y cl co r d ty s) = EN_ACTIVE"
  "en_school_id (new_enrollment env ctx sch org st y cl co r d ty s) = sch"
  "en_start_date (new_enrollment env ctx sch org st y cl co r d ty s) = d"
  by (simp_all add: new_enrollment_def)

text \<open>Inserting an active row keeps the indexes exactly when its two keys are free.\<close>

definition year_free :: "ulid \<Rightarrow> ulid \<Rightarrow> enrollment list \<Rightarrow> bool" where
  "year_free student year t \<longleftrightarrow>
     (\<forall>e\<in>set t. en_status e = EN_ACTIVE \<longrightarrow> (en_student_id e, en_academic_year_id e) \<noteq> (student, year))"

definition roll_free :: "ulid \<Rightarrow> string option \<Rightarrow> enrollment list \<Rightarrow> bool" where
  "roll_free cohort roll t \<longleftrightarrow>
     roll = None \<or> (\<forall>e\<in>set t. en_status e = EN_ACTIVE \<longrightarrow> (en_cohort_id e, en_roll_number e) \<noteq> (cohort, roll))"

definition enr_inv :: "db \<Rightarrow> bool" where
  "enr_inv s \<longleftrightarrow> pk_unique (enrollments s) \<and> uq_enrollment_student_year_active (enrollments s) \<and>
     uq_enrollment_cohort_roll (enrollments s)"

lemma flush_insert_active:
  assumes "enr_inv s" and "year_free (en_student_id e) (en_academic_year_id e) (enrollments s)"
    and "roll_free (en_cohort_id e) (en_roll_number e) (enrollments s)"
  shows "flush_enrollments (insert_row e (enrollments s)) = Inr (insert_row e (enrollments s))"
proof (rule flush_enrollments_ok)
  show "uq_enrollment_student_year_active (insert_row e (enrollments s))"
    using assms(1,2) unfolding enr_inv_def uq_enrollment_student_year_active_def year_free_def
    by (auto intro!: unique_on_insert_row)
  show "uq_enrollment_cohort_roll (insert_row e (enrollments s))"
    using assms(1,3) unfolding enr_inv_def uq_enrollment_cohort_roll_def roll_free_def
    by (auto intro!: unique_on_insert_row)
qed

lemma get_enrollment_SomeD:
  "get_enrollment s i sch = Some e \<Longrightarrow> e \<in> set (enrollments s) \<and> row_id e = i \<and> en_school_id e = sch"
  by (auto simp: get_enrollment_def dest: find_SomeD)

lemma require_enrollment_Inr:
  "require_enrollment ctx i s = Inr e \<longleftrightarrow> (\<exists>sch. school_id ctx = Some sch \<and> get_enrollment s i sch = Some e)"
  by (simp add: require_enrollment_def split: option.split)

lemma year_free_iff:
  "year_free st y (enrollments s) \<longleftrightarrow> get_active_for_student_year s st y = None"
  by (auto simp: year_free_def get_active_for_student_year_def find_None_conv)

lemma roll_free_iff:
  "r \<noteq> Some [] \<Longrightarrow> roll_free co r (enrollments s) \<longleftrightarrow>
     \<not> (truthy r \<and> get_active_roll_in_cohort s co (the r) \<noteq> None)"
  by (cases r) (auto simp: roll_free_def get_active_roll_in_cohort_def find_None_conv truthy_def)

lemma saved_enrollment_fields [simp]:
  "row_id y = row_id x \<Longrightarrow> row_id (saved_enrollment env ctx x y) = row_id x"
  "en_student_id (saved_enrollment env ctx x y) = en_student_id y"
  "en_academic_year_id (saved_enrollment env ctx x y) = en_academic_year_id y"
  "en_cohort_id (saved_enrollment env ctx x y) = en_cohort_id y"
  "en_roll_number (saved_enrollment env ctx x y) = en_roll_number y"
  "en_status (saved_enrollment env ctx x y) = en_status y"
  "en_school_id (saved_enrollment env ctx x y) = en_school_id y"
  "en_end_date (saved_enrollment env ctx x y) = en_end_date y"
  by (auto simp: saved_enrollment_def flush_versioned_def)

lemma saved_enrollment_version:
  "saved_enrollment env ctx x y = x \<or> version (saved_enrollment env ctx x y) = version x + 1"
  by (simp add: saved_enrollment_def flush_versioned_def)

lemma enrollment_payload_id [simp]: "row_id (enrollment_payload d e) = row_id e"
  by (simp add: enrollment_payload_def assign_def split: option.split)

lemma ended_by_transfer_fields [simp]:
  "row_id (ended_by_transfer d e) = row_id e" "en_status (ended_by_transfer d e) = EN_TRANSFERRED"
  "en_end_date (ended_by_transfer d e) = Some d" "en_student_id (ended_by_transfer d e) = en_student_id e"
  by (simp_all add: ended_by_transfer_def)

section \<open>Optimistic locking of updates\<close>

abbreviation enrollment_write ::
  "env \<times> request_context \<Rightarrow> ulid \<Rightarrow> int \<Rightarrow> string option option \<times> date option option \<times> enrollment_status option option
   \<Rightarrow> db \<Rightarrow> (enrollment \<times> db) result" where
  "enrollment_write c i v d \<equiv> update_enrollment (fst c) (snd c) i
     \<lparr>eu_roll_number = fst d, eu_end_date = fst (snd d), eu_status = snd (snd d), eu_version = v\<rparr>"

lemma update_enrollment_table:
  assumes "update_enrollment env ctx i d s = Inr (e', s')"
  obtains e sch where "school_id ctx = Some sch" "get_enrollment s i sch = Some e" "version e = eu_version d"
    "e' = saved_enrollment env ctx e (enrollment_payload d e)" "enrollments s' = update_row e' (enrollments s)"
    "uq_enrollment_student_year_active (enrollments s')" "uq_enrollment_cohort_roll (enrollments s')"
  using assms that
  by (auto simp: update_enrollment_def bind_ok_Inr_iff require_enrollment_Inr flush_enrollments_Inr Let_def split: if_splits)

interpretation enrollment_lock: versioned_write enrollment_write "\<lambda>i s. get_row i (enrollments s)" version
  "\<lambda>s. pk_unique (enrollments s)"
proof
  fix s c i v d r s'
  assume ok: "pk_unique (enrollments s)" and w: "enrollment_write c i v d s = Inr (r, s')"
  from w obtain e sch pl where g: "get_enrollment s i sch = Some e" "version e = v"
      "r = saved_enrollment (fst c) (snd c) e pl" "row_id pl = row_id e" "enrollments s' = update_row r (enrollments s)"
    by (auto elim!: update_enrollment_table)
  have e: "get_row i (enrollments s) = Some e" "row_id e = i" "i \<in> ids (enrollments s)"
    using get_enrollment_SomeD[OF g(1)] ok by (auto simp: ids_def intro: get_row_mem)
  show "\<exists>x. get_row i (enrollments s) = Some x \<and> version x = v" using e g(2) by blast
  show "pk_unique (enrollments s')" using ok g(5) by simp
  fix x assume "get_row i (enrollments s) = Some x"
  moreover have "r = e \<or> version r = v + 1" using saved_enrollment_version g(2,3) by metis
  moreover have "get_row i (enrollments s') = Some r" using e g(3-5) by simp
  ultimately show "\<exists>x'. get_row i (enrollments s') = Some x' \<and> (x' = x \<or> version x' = v + 1)"
    using e(1) by auto
qed

section \<open>Properties\<close>

text \<open>
  In a school and organization, an enrollment with a non-empty roll number or none is
  accepted exactly when the student, the cohort and the academic year exist there and are
  not deleted, the student has no active enrollment in the year, and the roll number is free
  in the cohort. The indexes never fire behind these checks, and the new active enrollment
  is appended.
\<close>

theorem create_enrollment_exact:
  assumes "enr_inv s" and "school_id ctx = Some sch" and "organization_id ctx = Some org"
    and "ec_roll_number d \<noteq> Some []"
  shows "(is_ok (create_enrollment env ctx d s) \<longleftrightarrow>
      get_student s sch (ec_student_id d) \<noteq> None \<and> get_cohort s sch (ec_cohort_id d) \<noteq> None \<and>
      get_academic_year s sch (ec_academic_year_id d) \<noteq> None \<and>
      year_free (ec_student_id d) (ec_academic_year_id d) (enrollments s) \<and>
      roll_free (ec_cohort_id d) (ec_roll_number d) (enrollments s)) \<and>
    (\<forall>e s'. create_enrollment env ctx d s = Inr (e, s') \<longrightarrow>
      enrollments s' = insert_row e (enrollments s) \<and> en_status e = EN_ACTIVE \<and> en_school_id e = sch \<and>
      en_student_id e = ec_student_id d \<and> en_academic_year_id e = ec_academic_year_id d \<and>
      en_cohort_id e = ec_cohort_id d)"
proof -
  let ?e = "new_enrollment env ctx sch org (ec_student_id d) (ec_academic_year_id d) (ec_academic_class_id d)
    (ec_cohort_id d) (ec_roll_number d) (ec_start_date d) (ec_enrollment_type d) s"
  let ?ok = "get_student s sch (ec_student_id d) \<noteq> None \<and> get_cohort s sch (ec_cohort_id d) \<noteq> None \<and>
      get_academic_year s sch (ec_academic_year_id d) \<noteq> None \<and>
      year_free (ec_student_id d) (ec_academic_year_id d) (enrollments s) \<and>
      roll_free (ec_cohort_id d) (ec_roll_number d) (enrollments s)"
  show ?thesis
  proof (cases ?ok)
    case True
    then have "flush_enrollments (insert_row ?e (enrollments s)) = Inr (insert_row ?e (enrollments s))"
      using flush_insert_active[OF assms(1), of ?e] by simp
    then have "already_enrolled_on_race (flush_enrollments (insert_row ?e (enrollments s))) = Inr (insert_row ?e (enrollments s))"
      by simp
    with True show ?thesis
      by (auto simp: create_enrollment_def assms(2,3) Let_def year_free_iff roll_free_iff[OF assms(4)])
  next
    case False
    then have "\<not> is_ok (create_enrollment env ctx d s)"
      by (auto simp: create_enrollment_def assms(2,3) year_free_iff roll_free_iff[OF assms(4)])
    with False show ?thesis by auto
  qed
qed

definition sample_roll :: db where
  "sample_roll = empty_db\<lparr>
     students := [blank_student ''a''\<lparr>st_school_id := ''s''\<rparr>, blank_student ''b''\<lparr>st_school_id := ''s''\<rparr>],
     cohorts := [blank_cohort ''c''\<lparr>co_school_id := ''s''\<rparr>, blank_cohort ''d''\<lparr>co_school_id := ''s''\<rparr>],
     academic_years := [blank_academic_year ''y''\<lparr>ay_school_id := ''s''\<rparr>],
     enrollments := [blank_enrollment ''e''\<lparr>en_school_id := ''s'', en_student_id := ''a'',
        en_academic_year_id := ''y'', en_cohort_id := ''c'', en_roll_number := Some ''1''\<rparr>]\<rparr>"

definition sample_enroll :: "ulid \<Rightarrow> string \<Rightarrow> enrollment_create" where
  "sample_enroll student roll = \<lparr>ec_student_id = student, ec_academic_year_id = ''y'', ec_academic_class_id = ''k'',
     ec_cohort_id = ''c'', ec_roll_number = Some roll, ec_start_date = 1, ec_enrollment_type = ET_REGULAR\<rparr>"

lemma sample_roll_inv: "enr_inv sample_roll"
  unfolding enr_inv_def uq_enrollment_student_year_active_def uq_enrollment_cohort_roll_def unique_on_def
  by code_simp

lemma create_enrollment_exact_witness:
  "is_ok (create_enrollment sample_audit_env school_context (sample_enroll ''b'' ''2'') sample_roll) \<and>
   is_ok (create_enrollment sample_audit_env school_context (sample_enroll ''b'' ''1'') sample_roll) = False \<and>
   is_ok (create_enrollment sample_audit_env school_context (sample_enroll ''a'' ''2'') sample_roll) = False"
proof -
  have n: "ec_roll_number (sample_enroll x r) \<noteq> Some []" if "r \<noteq> []" for x r
    using that by (simp add: sample_enroll_def)
  note ex = create_enrollment_exact[OF sample_roll_inv school_context_fields(1,2) n, THEN conjunct1]
  have "get_student sample_roll ''s'' ''b'' \<noteq> None" "get_cohort sample_roll ''s'' ''c'' \<noteq> None"
    "get_academic_year sample_roll ''s'' ''y'' \<noteq> None" "year_free ''b'' ''y'' (enrollments sample_roll)"
    "roll_free ''c'' (Some ''2'') (enrollments sample_roll)" "\<not> roll_free ''c'' (Some ''1'') (enrollments sample_roll)"
    "\<not> year_free ''a'' ''y'' (enrollments sample_roll)"
    by code_simp+
  then show ?thesis
    using ex[of "''2''" sample_audit_env "''b''"] ex[of "''1''" sample_audit_env "''b''"] ex[of "''2''" sample_audit_env "''a''"]
    by (simp add: sample_enroll_def)
qed

text \<open>
  A transfer of an active enrollment to a cohort of the school always succeeds: the old
  enrollment ends on the effective date, the student's only active enrollment of the year is
  the new one, in the new cohort from that date, the indexes hold, and every other
  enrollment stays.
\<close>

theorem transfer_exact:
  assumes "enr_inv s" and "school_id ctx = Some sch" and "organization_id ctx = Some org"
    and "get_enrollment s i sch = Some old" and "en_status old = EN_ACTIVE"
    and "get_cohort s sch (et_new_cohort_id d) \<noteq> None"
    and "new_id env ''student_enrollments'' (enrollments s) \<notin> ids (enrollments s)"
  shows "\<exists>e s' old'. transfer_enrollment env ctx i d s = Inr (e, s') \<and> enr_inv s' \<and>
    get_row i (enrollments s') = Some old' \<and> en_status old' = EN_TRANSFERRED \<and>
    en_end_date old' = Some (et_effective_date d) \<and>
    {x \<in> set (enrollments s'). en_status x = EN_ACTIVE \<and> en_student_id x = en_student_id old \<and>
       en_academic_year_id x = en_academic_year_id old} = {e} \<and>
    en_cohort_id e = et_new_cohort_id d \<and> en_start_date e = et_effective_date d \<and>
    {x \<in> set (enrollments s'). x \<noteq> old' \<and> x \<noteq> e} = {x \<in> set (enrollments s). row_id x \<noteq> i}"
proof -
  let ?old = "saved_enrollment env ctx old (ended_by_transfer (et_effective_date d) old)"
  let ?t = "update_row ?old (enrollments s)"
  note o = get_enrollment_SomeD[OF assms(4)]
  have pk: "pk_unique (enrollments s)" and uq: "uq_enrollment_student_year_active (enrollments s)"
      "uq_enrollment_cohort_roll (enrollments s)"
    using assms(1) by (auto simp: enr_inv_def)
  have uq': "uq_enrollment_student_year_active ?t" "uq_enrollment_cohort_roll ?t"
    using uq unfolding uq_enrollment_student_year_active_def uq_enrollment_cohort_roll_def
    by (auto intro: unique_on_update_row_out)
  define s1 where "s1 = audit env ctx ''ENROLLMENT_UPDATED'' ''student_enrollment'' (Some (row_id ?old))
     (Some (enrollment_snapshot old)) (Some (enrollment_snapshot ?old)) (s\<lparr>enrollments := ?t\<rparr>)"
  have t1: "enrollments s1 = ?t" by (simp add: s1_def)
  define e where "e = new_enrollment env ctx sch org (en_student_id old) (en_academic_year_id old)
     (et_new_academic_class_id d) (et_new_cohort_id d) None (et_effective_date d) ET_TRANSFER_IN s1"
  have i: "i \<in> ids (enrollments s)" using o by (auto simp: ids_def)
  have set_t: "set ?t = insert ?old {x \<in> set (enrollments s). row_id x \<noteq> i}"
    using i o by (simp add: set_update_row)
  have only: "row_id x = i" if "x \<in> set (enrollments s)" "en_status x = EN_ACTIVE"
    "en_student_id x = en_student_id old" "en_academic_year_id x = en_academic_year_id old" for x
    using unique_onD[OF uq(1)[unfolded uq_enrollment_student_year_active_def] that(1) conjunct1[OF o]] that o assms(5)
    by simp
  have free: "year_free (en_student_id old) (en_academic_year_id old) ?t"
    using only by (auto simp: year_free_def set_t)
  have inv1: "enr_inv s1" using pk uq' by (simp add: enr_inv_def t1)
  have fl: "flush_enrollments ?t = Inr ?t" "flush_enrollments (insert_row e ?t) = Inr (insert_row e ?t)"
    using uq' flush_insert_active[OF inv1, of e] free by (simp_all add: flush_enrollments_Inr t1 e_def roll_free_def)
  define s2 where "s2 = audit env ctx ''ENROLLMENT_CREATED'' ''student_enrollment'' (Some (row_id e))
     None (Some (enrollment_snapshot e)) (s1\<lparr>enrollments := insert_row e ?t\<rparr>)"
  have req: "require_enrollment ctx i s = Inr old" using assms(2,4) by (simp add: require_enrollment_Inr)
  have run: "transfer_enrollment env ctx i d s = Inr (e, s2)"
    using fl unfolding transfer_enrollment_def s2_def e_def s1_def
    by (simp add: req assms(2,3,5,6) Let_def)
  have t2: "enrollments s2 = insert_row e ?t" by (simp add: s2_def)
  have fresh: "row_id e \<notin> ids (enrollments s)" using assms(7) by (simp add: e_def t1 new_id_def)
  have "enr_inv s2"
    using fl(2) fresh pk by (simp add: enr_inv_def t2 flush_enrollments_Inr)
  moreover have "get_row i (enrollments s2) = Some ?old"
    using fresh i o by (auto simp: t2 get_row_insert_row)
  moreover have "{x \<in> set (enrollments s2). en_status x = EN_ACTIVE \<and> en_student_id x = en_student_id old \<and>
       en_academic_year_id x = en_academic_year_id old} = {e}"
    using free by (auto simp: t2 set_insert_row year_free_def e_def)
  moreover have "{x \<in> set (enrollments s2). x \<noteq> ?old \<and> x \<noteq> e} = {x \<in> set (enrollments s). row_id x \<noteq> i}"
    using fresh o by (auto simp: t2 set_insert_row set_t ids_def)
  ultimately show ?thesis using run by (intro exI[of _ e] exI[of _ s2] exI[of _ ?old]) (simp add: e_def)
qed

definition sample_transfer :: enrollment_transfer where
  "sample_transfer = \<lparr>et_new_cohort_id = ''d'', et_new_academic_class_id = ''k'', et_effective_date = 50\<rparr>"

lemma transfer_exact_witness:
  "\<exists>e s'. transfer_enrollment sample_audit_env school_context ''e'' sample_transfer sample_roll = Inr (e, s') \<and>
     enr_inv s' \<and> en_cohort_id e = ''d''"
proof -
  have g: "get_enrollment sample_roll ''e'' ''s'' = Some (hd (enrollments sample_roll))" by code_simp
  have a: "en_status (hd (enrollments sample_roll)) = EN_ACTIVE" by code_simp
  have c: "get_cohort sample_roll ''s'' (et_new_cohort_id sample_transfer) \<noteq> None" by code_simp
  have f: "new_id sample_audit_env ''student_enrollments'' (enrollments sample_roll) \<notin> ids (enrollments sample_roll)"
    by code_simp
  have "et_new_cohort_id sample_transfer = ''d''" by (simp add: sample_transfer_def)
  with transfer_exact[OF sample_roll_inv school_context_fields(1,2) g a c f] show ?thesis by auto
qed

end
