(* ===== verification/Attendance.thy ===== *)
theory Attendance
  imports Platform Interfaces
begin

text \<open>
  Attendance sessions and records: \<open>app/modules/attendance/service.py\<close> and
  \<open>repository.py\<close>.
\<close>

section \<open>Values\<close>

fun session_status_value :: "session_status \<Rightarrow> string" where
  "session_status_value AS_DRAFT = ''DRAFT''"
| "session_status_value AS_SUBMITTED = ''SUBMITTED''"
| "session_status_value AS_AMENDED = ''AMENDED''"

fun attendance_status_value :: "attendance_status \<Rightarrow> string" where
  "attendance_status_value AT_PRESENT = ''PRESENT''"
| "attendance_status_value AT_ABSENT = ''ABSENT''"
| "attendance_status_value AT_LATE = ''LATE''"
| "attendance_status_value AT_EXCUSED = ''EXCUSED''"
| "attendance_status_value AT_HOLIDAY = ''HOLIDAY''"

definition text_or_null :: "string option \<Rightarrow> jval" where
  "text_or_null v = (case v of None \<Rightarrow> JNull | Some t \<Rightarrow> JStr t)"

definition session_snapshot :: "attendance_session \<Rightarrow> snapshot" where
  "session_snapshot x = [(''cohort_id'', JStr (as_cohort_id x)),
     (''academic_year_id'', JStr (as_academic_year_id x)),
     (''session_date'', JDateStr (as_session_date x)),
     (''status'', JStr (session_status_value (as_status x))), (''notes'', text_or_null (as_notes x))]"

text \<open>The snapshot of a record holds the time of arrival as the Python object it is.\<close>

definition record_snapshot :: "attendance_record \<Rightarrow> snapshot" where
  "record_snapshot r = [(''status'', JStr (attendance_status_value (ar_status r))),
     (''arrived_at'', case ar_arrived_at r of None \<Rightarrow> JNull | Some t \<Rightarrow> RawTime t),
     (''notes'', text_or_null (ar_notes r))]"

record session_create =
  ac_cohort_id :: ulid
  ac_academic_year_id :: ulid
  ac_session_date :: date
  ac_notes :: "string option"

record session_update =
  su_notes :: "string option"
  su_new_status :: "session_status option"
  su_version :: int

record record_update =
  ru_status :: attendance_status
  ru_arrived_at :: "int option"
  ru_notes :: "string option"

record bulk_item =
  bi_enrollment_id :: ulid
  bi_status :: attendance_status
  bi_arrived_at :: "int option"
  bi_notes :: "string option"

section \<open>Queries\<close>

definition get_session_by_id :: "db \<Rightarrow> ulid \<Rightarrow> ulid \<Rightarrow> attendance_session option" where
  "get_session_by_id s i sch = find (\<lambda>x. row_id x = i \<and> as_school_id x = sch) (attendance_sessions s)"

definition get_session_for_cohort_date :: "db \<Rightarrow> ulid \<Rightarrow> date \<Rightarrow> ulid \<Rightarrow> attendance_session option" where
  "get_session_for_cohort_date s cohort d sch =
     find (\<lambda>x. as_cohort_id x = cohort \<and> as_session_date x = d \<and> as_school_id x = sch) (attendance_sessions s)"

definition get_record :: "db \<Rightarrow> ulid \<Rightarrow> ulid \<Rightarrow> attendance_record option" where
  "get_record s i sch = find (\<lambda>x. row_id x = i \<and> ar_school_id x = sch) (attendance_records s)"

definition list_records_for_session :: "db \<Rightarrow> ulid \<Rightarrow> ulid \<Rightarrow> attendance_record list" where
  "list_records_for_session s i sch =
     filter (\<lambda>x. ar_session_id x = i \<and> ar_school_id x = sch) (attendance_records s)"

definition get_active_enrollments_for_cohort :: "db \<Rightarrow> ulid \<Rightarrow> ulid \<Rightarrow> date \<Rightarrow> enrollment list" where
  "get_active_enrollments_for_cohort s cohort sch d =
     filter (\<lambda>e. en_cohort_id e = cohort \<and> en_school_id e = sch \<and> en_status e = EN_ACTIVE \<and>
       en_start_date e \<le> d \<and> (case en_end_date e of None \<Rightarrow> True | Some until \<Rightarrow> until \<ge> d))
     (enrollments s)"

record today_summary =
  sessions_total :: nat
  sessions_submitted :: nat
  records_total :: nat
  records_present :: nat
  records_absent :: nat

text \<open>The join of a school's records with its sessions of one day, on the session's key.\<close>

definition records_of_day :: "db \<Rightarrow> ulid \<Rightarrow> date \<Rightarrow> (attendance_record \<times> attendance_session) list" where
  "records_of_day s sch today =
     filter (\<lambda>(r, x). ar_session_id r = row_id x \<and> as_school_id x = sch \<and> as_session_date x = today \<and>
         ar_school_id r = sch)
       (List.product (attendance_records s) (attendance_sessions s))"

definition get_today_summary :: "db \<Rightarrow> ulid \<Rightarrow> date \<Rightarrow> today_summary" where
  "get_today_summary s sch today =
     (let xs = filter (\<lambda>x. as_school_id x = sch \<and> as_session_date x = today) (attendance_sessions s);
          rs = map fst (records_of_day s sch today) in
      \<lparr>sessions_total = length xs,
       sessions_submitted = length (filter (\<lambda>x. as_status x \<in> {AS_SUBMITTED, AS_AMENDED}) xs),
       records_total = length rs,
       records_present = length (filter (\<lambda>r. ar_status r = AT_PRESENT) rs),
       records_absent = length (filter (\<lambda>r. ar_status r = AT_ABSENT) rs)\<rparr>)"

section \<open>Sessions\<close>

definition session_not_found :: error where
  "session_not_found = NotFoundError ''ATTENDANCE_SESSION_NOT_FOUND''"

definition get_owned_session :: "request_context \<Rightarrow> ulid \<Rightarrow> db \<Rightarrow> attendance_session result" where
  "get_owned_session ctx i s = (case school_id ctx of
     None \<Rightarrow> Inl session_not_found
   | Some sch \<Rightarrow> ok_or session_not_found (get_session_by_id s i sch))"

definition new_record ::
  "env \<Rightarrow> request_context \<Rightarrow> ulid \<Rightarrow> ulid \<Rightarrow> ulid \<Rightarrow> ulid \<Rightarrow> ulid \<Rightarrow> attendance_status \<Rightarrow> int option
   \<Rightarrow> string option \<Rightarrow> attendance_record list \<Rightarrow> attendance_record" where
  "new_record env ctx sch org sid eid student st arrived notes t =
     \<lparr>row_id = new_id env ''attendance_records'' t, created_at = env_now env, updated_at = env_now env,
      created_by_id = Some (user_id ctx), updated_by_id = Some (user_id ctx), ar_school_id = sch,
      ar_organization_id = org, ar_session_id = sid, ar_enrollment_id = eid, ar_student_id = student,
      ar_status = st, ar_arrived_at = arrived, ar_notes = notes\<rparr>"

text \<open>The loop that adds one PRESENT record per enrollment.\<close>

definition add_records ::
  "env \<Rightarrow> request_context \<Rightarrow> ulid \<Rightarrow> ulid \<Rightarrow> ulid \<Rightarrow> enrollment list \<Rightarrow> attendance_record list
   \<Rightarrow> attendance_record list" where
  "add_records env ctx sch org sid es t =
     fold (\<lambda>e t. insert_row (new_record env ctx sch org sid (row_id e) (en_student_id e) AT_PRESENT None None t) t) es t"

definition create_session ::
  "env \<Rightarrow> request_context \<Rightarrow> session_create \<Rightarrow> db \<Rightarrow> (attendance_session \<times> db) result" where
  "create_session env ctx data s = (case school_id ctx of
     None \<Rightarrow> Inl (ForbiddenError ''FORBIDDEN'')
   | Some sch \<Rightarrow>
       if get_session_for_cohort_date s (ac_cohort_id data) (ac_session_date data) sch \<noteq> None
       then Inl (ConflictError ''SESSION_ALREADY_EXISTS'')
       else (case organization_id ctx of
          None \<Rightarrow> Inl (IntegrityError ''organization_id'')
        | Some org \<Rightarrow>
          let x = \<lparr>row_id = new_id env ''attendance_sessions'' (attendance_sessions s),
                created_at = env_now env, updated_at = env_now env,
                created_by_id = Some (user_id ctx), updated_by_id = Some (user_id ctx), version = 1,
                as_school_id = sch, as_organization_id = org, as_cohort_id = ac_cohort_id data,
                as_academic_year_id = ac_academic_year_id data, as_session_date = ac_session_date data,
                as_status = AS_DRAFT, as_submitted_at = None, as_submitted_by_id = None,
                as_notes = ac_notes data\<rparr>;
              t = insert_row x (attendance_sessions s)
          in bind_ok (constrained (uq_attendance_session_cohort_date t) ''uq_attendance_session_cohort_date'' t) (\<lambda>t.
             let rs = add_records env ctx sch org (row_id x)
                   (get_active_enrollments_for_cohort s (ac_cohort_id data) sch (ac_session_date data))
                   (attendance_records s)
             in bind_ok (constrained (uq_record_session_enrollment rs) ''uq_record_session_enrollment'' rs) (\<lambda>rs.
                Inr (x, audit env ctx ''ATTENDANCE_SESSION_CREATED'' ''attendance_session'' (Some (row_id x))
                  None (Some (session_snapshot x))
                  (s\<lparr>attendance_sessions := t, attendance_records := rs\<rparr>))))))"

definition save_session ::
  "env \<Rightarrow> request_context \<Rightarrow> attendance_session \<Rightarrow> attendance_session \<Rightarrow> attendance_session" where
  "save_session env ctx old new =
     flush_versioned (env_now env) old (new\<lparr>updated_by_id := Some (user_id ctx)\<rparr>)"

definition put_session ::
  "env \<Rightarrow> request_context \<Rightarrow> string \<Rightarrow> attendance_session \<Rightarrow> attendance_session \<Rightarrow> db \<Rightarrow> attendance_session \<times> db" where
  "put_session env ctx action old x s =
     (x, audit env ctx action ''attendance_session'' (Some (row_id x)) (Some (session_snapshot old))
        (Some (session_snapshot x)) s)"

definition session_payload :: "session_update \<Rightarrow> attendance_session \<Rightarrow> attendance_session" where
  "session_payload data x =
     assign as_status_update (su_new_status data)
       (assign as_notes_update (map_option Some (su_notes data)) x)"

definition update_session ::
  "env \<Rightarrow> request_context \<Rightarrow> ulid \<Rightarrow> session_update \<Rightarrow> db \<Rightarrow> (attendance_session \<times> db) result" where
  "update_session env ctx i data s =
     bind_ok (get_owned_session ctx i s) (\<lambda>x.
       if as_status x \<noteq> AS_DRAFT then Inl (ForbiddenError ''SESSION_NOT_EDITABLE'')
       else if version x \<noteq> su_version data then Inl StaleResourceError
       else let x' = save_session env ctx x (session_payload data x) in
         Inr (put_session env ctx ''ATTENDANCE_SESSION_UPDATED'' x x'
           (s\<lparr>attendance_sessions := update_row x' (attendance_sessions s)\<rparr>)))"

text \<open>
  The relationship to the records has no delete cascade and the lookup has loaded them: on
  the flush of a deleted session the ORM sets their \<open>session_id\<close> to NULL, which the column
  refuses, so a session with records cannot be deleted.
\<close>

definition delete_session ::
  "env \<Rightarrow> request_context \<Rightarrow> ulid \<Rightarrow> int \<Rightarrow> db \<Rightarrow> (unit \<times> db) result" where
  "delete_session env ctx i ver s =
     bind_ok (get_owned_session ctx i s) (\<lambda>x.
       if as_status x \<noteq> AS_DRAFT then Inl (ForbiddenError ''SESSION_NOT_DELETABLE'')
       else if version x \<noteq> ver then Inl StaleResourceError
       else if list_ex (\<lambda>r. ar_session_id r = i) (attendance_records s)
       then Inl (IntegrityError ''attendance_records.session_id'')
       else Inr ((), audit env ctx ''ATTENDANCE_SESSION_DELETED'' ''attendance_session'' (Some i)
         (Some (session_snapshot x)) None
         (s\<lparr>attendance_sessions := delete_row i (attendance_sessions s)\<rparr>)))"

definition submitted_row :: "env \<Rightarrow> request_context \<Rightarrow> attendance_session \<Rightarrow> attendance_session" where
  "submitted_row env ctx x = x\<lparr>as_status := AS_SUBMITTED, as_submitted_at := Some (env_now env),
     as_submitted_by_id := Some (user_id ctx)\<rparr>"

definition submit_session ::
  "env \<Rightarrow> request_context \<Rightarrow> ulid \<Rightarrow> int \<Rightarrow> db \<Rightarrow> (attendance_session \<times> db) result" where
  "submit_session env ctx i ver s =
     bind_ok (get_owned_session ctx i s) (\<lambda>x.
       if as_status x \<noteq> AS_DRAFT then Inl (ForbiddenError ''SESSION_NOT_SUBMITTABLE'')
       else if version x \<noteq> ver then Inl StaleResourceError
       else let x' = save_session env ctx x (submitted_row env ctx x) in
         Inr (put_session env ctx ''ATTENDANCE_SESSION_SUBMITTED'' x x'
           (publish env ''ATTENDANCE_SUBMITTED''
             (AttendancePayload (Some (row_id x')) (Some (as_cohort_id x')) (Some (as_session_date x')))
             (Some ctx) None None (Some ''attendance_session'') (Some (row_id x')) 1
             (s\<lparr>attendance_sessions := update_row x' (attendance_sessions s)\<rparr>))))"

definition amend_session ::
  "env \<Rightarrow> request_context \<Rightarrow> ulid \<Rightarrow> int \<Rightarrow> db \<Rightarrow> (attendance_session \<times> db) result" where
  "amend_session env ctx i ver s =
     bind_ok (get_owned_session ctx i s) (\<lambda>x.
       if as_status x \<notin> {AS_SUBMITTED, AS_AMENDED} then Inl (ForbiddenError ''SESSION_NOT_AMENDABLE'')
       else if version x \<noteq> ver then Inl StaleResourceError
       else let x' = save_session env ctx x (x\<lparr>as_status := AS_AMENDED\<rparr>) in
         Inr (put_session env ctx ''ATTENDANCE_SESSION_AMENDED'' x x'
           (s\<lparr>attendance_sessions := update_row x' (attendance_sessions s)\<rparr>)))"

section \<open>Records\<close>

definition update_record ::
  "env \<Rightarrow> request_context \<Rightarrow> ulid \<Rightarrow> record_update \<Rightarrow> db \<Rightarrow> (attendance_record \<times> db) result" where
  "update_record env ctx i data s = (case school_id ctx of
     None \<Rightarrow> Inl (ForbiddenError ''FORBIDDEN'')
   | Some sch \<Rightarrow>
       bind_ok (ok_or (NotFoundError ''ATTENDANCE_RECORD_NOT_FOUND'') (get_record s i sch)) (\<lambda>r.
       bind_ok (ok_or session_not_found (get_session_by_id s (ar_session_id r) sch)) (\<lambda>x.
         if as_status x = AS_SUBMITTED then Inl (ForbiddenError ''SESSION_SUBMITTED'')
         else
           let r' = flush_actor (env_now env) r (r\<lparr>ar_status := ru_status data,
                 ar_arrived_at := ru_arrived_at data, ar_notes := ru_notes data,
                 updated_by_id := Some (user_id ctx)\<rparr>)
           in Inr (r', audit env ctx ''ATTENDANCE_RECORD_UPDATED'' ''attendance_record'' (Some (row_id r))
                (Some (record_snapshot r)) (Some (record_snapshot r'))
                (s\<lparr>attendance_records := update_row r' (attendance_records s)\<rparr>)))))"

text \<open>\<open>result or ''\<close>: an enrollment the school does not have gives the empty id.\<close>

definition resolve_student_id :: "db \<Rightarrow> ulid \<Rightarrow> ulid \<Rightarrow> ulid" where
  "resolve_student_id s eid sch =
     (case find (\<lambda>e. row_id e = eid \<and> en_school_id e = sch) (enrollments s) of
        None \<Rightarrow> [] | Some e \<Rightarrow> en_student_id e)"

text \<open>
  \<open>INSERT \<dots> ON CONFLICT (session_id, enrollment_id) DO UPDATE\<close> of one item. The empty student id
  is no ULID, so binding it as a parameter raises ValueError (\<open>ULIDType.process_bind_param\<close>).
\<close>

definition upsert_record ::
  "env \<Rightarrow> request_context \<Rightarrow> ulid \<Rightarrow> ulid \<Rightarrow> ulid \<Rightarrow> bulk_item \<times> ulid \<Rightarrow> attendance_record list
   \<Rightarrow> attendance_record list result" where
  "upsert_record env ctx sch org sid item t =
     (let b = fst item in
      if snd item = [] then Inl (PyError ''ValueError: ULID must be 26 characters'')
      else case find (\<lambda>r. ar_session_id r = sid \<and> ar_enrollment_id r = bi_enrollment_id b) t of
        Some r \<Rightarrow> Inr (update_row (r\<lparr>ar_status := bi_status b, ar_arrived_at := bi_arrived_at b,
            ar_notes := bi_notes b, updated_by_id := Some (user_id ctx)\<rparr>) t)
      | None \<Rightarrow> Inr (insert_row (new_record env ctx sch org sid (bi_enrollment_id b) (snd item)
            (bi_status b) (bi_arrived_at b) (bi_notes b) t) t))"

fun upsert_all ::
  "env \<Rightarrow> request_context \<Rightarrow> ulid \<Rightarrow> ulid \<Rightarrow> ulid \<Rightarrow> (bulk_item \<times> ulid) list \<Rightarrow> attendance_record list
   \<Rightarrow> attendance_record list result" where
  "upsert_all env ctx sch org sid [] t = Inr t"
| "upsert_all env ctx sch org sid (b # bs) t =
     bind_ok (upsert_record env ctx sch org sid b t) (upsert_all env ctx sch org sid bs)"

definition bulk_upsert_records ::
  "env \<Rightarrow> request_context \<Rightarrow> ulid \<Rightarrow> ulid option \<Rightarrow> ulid \<Rightarrow> (bulk_item \<times> ulid) list
   \<Rightarrow> attendance_record list \<Rightarrow> attendance_record list result" where
  "bulk_upsert_records env ctx sch org sid bs t =
     (if bs = [] then Inr t else (case org of
        None \<Rightarrow> if snd (hd bs) = [] then Inl (PyError ''ValueError: ULID must be 26 characters'')
          else Inl (IntegrityError ''organization_id'')
      | Some o1 \<Rightarrow> upsert_all env ctx sch o1 sid bs t))"

definition bulk_update_records ::
  "env \<Rightarrow> request_context \<Rightarrow> ulid \<Rightarrow> bulk_item list \<Rightarrow> db \<Rightarrow> (unit \<times> db) result" where
  "bulk_update_records env ctx i items s = (case school_id ctx of
     None \<Rightarrow> Inl (ForbiddenError ''FORBIDDEN'')
   | Some sch \<Rightarrow>
       bind_ok (get_owned_session ctx i s) (\<lambda>x.
         if as_status x = AS_SUBMITTED then Inl (ForbiddenError ''SESSION_SUBMITTED'')
         else bind_ok (bulk_upsert_records env ctx sch (organization_id ctx) i
             (map (\<lambda>b. (b, resolve_student_id s (bi_enrollment_id b) sch)) items) (attendance_records s)) (\<lambda>t.
           Inr ((), audit env ctx ''ATTENDANCE_SESSION_BULK_UPDATED'' ''attendance_session'' (Some i)
             None None (s\<lparr>attendance_records := t\<rparr>)))))"

section \<open>Facts\<close>

lemma get_session_by_id_SomeD:
  "get_session_by_id s i sch = Some x \<Longrightarrow> x \<in> set (attendance_sessions s) \<and> row_id x = i \<and> as_school_id x = sch"
  by (auto simp: get_session_by_id_def dest: find_SomeD)

lemma get_owned_session_Inr:
  "get_owned_session ctx i s = Inr x \<longleftrightarrow> (\<exists>sch. school_id ctx = Some sch \<and> get_session_by_id s i sch = Some x)"
  by (simp add: get_owned_session_def split: option.split)

lemma new_record_fields [simp]:
  "ar_session_id (new_record env ctx sch org sid eid st a b c t) = sid"
  "ar_enrollment_id (new_record env ctx sch org sid eid st a b c t) = eid"
  "ar_student_id (new_record env ctx sch org sid eid st a b c t) = st"
  "ar_status (new_record env ctx sch org sid eid st a b c t) = a"
  "ar_school_id (new_record env ctx sch org sid eid st a b c t) = sch"
  by (simp_all add: new_record_def)

lemma add_records_append:
  "\<exists>rs. add_records env ctx sch org sid es t = t @ rs \<and> map ar_enrollment_id rs = map row_id es \<and>
     map ar_student_id rs = map en_student_id es \<and>
     (\<forall>r\<in>set rs. ar_status r = AT_PRESENT \<and> ar_session_id r = sid \<and> ar_school_id r = sch)"
proof (induction es arbitrary: t)
  case (Cons e es)
  let ?r = "new_record env ctx sch org sid (row_id e) (en_student_id e) AT_PRESENT None None t"
  from Cons.IH[of "insert_row ?r t"] obtain rs where
    "add_records env ctx sch org sid es (insert_row ?r t) = insert_row ?r t @ rs" "map ar_enrollment_id rs = map row_id es"
    "map ar_student_id rs = map en_student_id es"
    "\<forall>r\<in>set rs. ar_status r = AT_PRESENT \<and> ar_session_id r = sid \<and> ar_school_id r = sch" by blast
  then show ?case by (intro exI[of _ "?r # rs"]) (simp add: add_records_def insert_row_def)
qed (simp add: add_records_def)

lemma save_session_fields [simp]:
  "row_id y = row_id x \<Longrightarrow> row_id (save_session env ctx x y) = row_id x"
  "as_status (save_session env ctx x y) = as_status y"
  "as_school_id (save_session env ctx x y) = as_school_id y"
  "as_cohort_id (save_session env ctx x y) = as_cohort_id y"
  "as_session_date (save_session env ctx x y) = as_session_date y"
  by (auto simp: save_session_def flush_versioned_def)

lemma session_payload_fields [simp]:
  "row_id (session_payload d x) = row_id x"
  "as_school_id (session_payload d x) = as_school_id x"
  "as_cohort_id (session_payload d x) = as_cohort_id x"
  "as_session_date (session_payload d x) = as_session_date x"
  by (simp_all add: session_payload_def assign_def split: option.split)

lemma submitted_row_fields [simp]:
  "row_id (submitted_row env ctx x) = row_id x" "as_status (submitted_row env ctx x) = AS_SUBMITTED"
  "as_school_id (submitted_row env ctx x) = as_school_id x"
  "as_cohort_id (submitted_row env ctx x) = as_cohort_id x"
  "as_session_date (submitted_row env ctx x) = as_session_date x"
  by (simp_all add: submitted_row_def)

lemma save_session_version:
  "save_session env ctx x y = x \<or> version (save_session env ctx x y) = version x + 1"
  by (simp add: save_session_def flush_versioned_def)

lemma save_session_bumps:
  "as_status y \<noteq> as_status x \<Longrightarrow> version (save_session env ctx x y) = version x + 1"
  by (auto simp: save_session_def flush_versioned_def dest: arg_cong[of _ _ as_status])

lemmas session_ops = update_session_def submit_session_def amend_session_def put_session_def

text \<open>The three operations that rewrite a session row, in one shape.\<close>

lemma session_write_table:
  assumes "update_session env ctx i u s = Inr (x', s') \<or> submit_session env ctx i v s = Inr (x', s') \<or>
    amend_session env ctx i v s = Inr (x', s')"
  shows "\<exists>x sch y. school_id ctx = Some sch \<and> get_session_by_id s i sch = Some x \<and>
    x' = save_session env ctx x y \<and> row_id y = row_id x \<and> as_school_id y = as_school_id x \<and>
    attendance_sessions s' = update_row x' (attendance_sessions s) \<and>
    attendance_records s' = attendance_records s \<and>
    (as_status x = AS_DRAFT \<or> as_status y = AS_AMENDED)"
  using assms
proof (elim disjE)
  assume "update_session env ctx i u s = Inr (x', s')"
  then obtain x sch where "school_id ctx = Some sch" "get_session_by_id s i sch = Some x" "as_status x = AS_DRAFT"
      "x' = save_session env ctx x (session_payload u x)"
      "attendance_sessions s' = update_row x' (attendance_sessions s)" "attendance_records s' = attendance_records s"
    by (auto simp: session_ops bind_ok_Inr_iff get_owned_session_Inr Let_def split: if_splits)
  then show ?thesis by (intro exI[of _ x] exI[of _ sch] exI[of _ "session_payload u x"]) simp
next
  assume "submit_session env ctx i v s = Inr (x', s')"
  then obtain x sch where "school_id ctx = Some sch" "get_session_by_id s i sch = Some x" "as_status x = AS_DRAFT"
      "x' = save_session env ctx x (submitted_row env ctx x)"
      "attendance_sessions s' = update_row x' (attendance_sessions s)" "attendance_records s' = attendance_records s"
    by (auto simp: session_ops bind_ok_Inr_iff get_owned_session_Inr Let_def split: if_splits)
  then show ?thesis by (intro exI[of _ x] exI[of _ sch] exI[of _ "submitted_row env ctx x"]) simp
next
  assume "amend_session env ctx i v s = Inr (x', s')"
  then obtain x sch where "school_id ctx = Some sch" "get_session_by_id s i sch = Some x"
      "x' = save_session env ctx x (x\<lparr>as_status := AS_AMENDED\<rparr>)"
      "attendance_sessions s' = update_row x' (attendance_sessions s)" "attendance_records s' = attendance_records s"
    by (auto simp: session_ops bind_ok_Inr_iff get_owned_session_Inr Let_def split: if_splits)
  then show ?thesis by (intro exI[of _ x] exI[of _ sch] exI[of _ "x\<lparr>as_status := AS_AMENDED\<rparr>"]) simp
qed

section \<open>Transitions\<close>

text \<open>
  One step: an operation of some caller that returned. Where it inserts rows, the primary
  keys hold of the new tables.
\<close>

inductive att_step :: "db \<Rightarrow> db \<Rightarrow> bool" where
  created: "create_session env ctx d s = Inr (x, s') \<Longrightarrow> pk_unique (attendance_sessions s') \<Longrightarrow>
    pk_unique (attendance_records s') \<Longrightarrow> att_step s s'"
| rewritten: "update_session env ctx i u s = Inr (x', s') \<or> submit_session env ctx i v s = Inr (x', s') \<or>
    amend_session env ctx i v s = Inr (x', s') \<Longrightarrow> att_step s s'"
| deleted: "delete_session env ctx i v s = Inr (u, s') \<Longrightarrow> att_step s s'"
| marked: "update_record env ctx i m s = Inr (r, s') \<Longrightarrow> att_step s s'"
| bulk_marked: "bulk_update_records env ctx i items s = Inr (u, s') \<Longrightarrow> pk_unique (attendance_records s') \<Longrightarrow>
    att_step s s'"

definition att_keys :: "db \<Rightarrow> bool" where
  "att_keys s \<longleftrightarrow> pk_unique (attendance_sessions s) \<and> pk_unique (attendance_records s)"

abbreviation marks_of :: "ulid \<Rightarrow> attendance_record list \<Rightarrow> attendance_record list" where
  "marks_of i \<equiv> filter (\<lambda>r. ar_session_id r = i)"

lemma marks_of_update_row:
  assumes "pk_unique t" and "r \<in> set t" and "row_id r' = row_id r" and "ar_session_id r \<noteq> i" and "ar_session_id r' \<noteq> i"
  shows "marks_of i (update_row r' t) = marks_of i t"
proof -
  have "row_id x \<noteq> row_id r'" if "x \<in> set t" "ar_session_id x = i" for x
    using that assms pk_unique_inj by metis
  then show ?thesis using assms(5) unfolding update_row_def
    by (induction t) (auto split: if_splits)
qed

lemma upsert_record_marks:
  assumes "upsert_record env ctx sch org sid b t = Inr t'" and "pk_unique t'" and "sid \<noteq> i"
  shows "marks_of i t' = marks_of i t \<and> pk_unique t"
proof (cases "find (\<lambda>r. ar_session_id r = sid \<and> ar_enrollment_id r = bi_enrollment_id (fst b)) t")
  case None
  then obtain r where "t' = insert_row r t" "ar_session_id r = sid"
    using assms(1) by (auto simp: upsert_record_def Let_def split: if_splits)
  with assms(2,3) show ?thesis by (auto simp: insert_row_def pk_unique_def)
next
  case (Some r)
  then have r: "r \<in> set t" "ar_session_id r = sid" by (auto dest: find_SomeD)
  let ?r = "r\<lparr>ar_status := bi_status (fst b), ar_arrived_at := bi_arrived_at (fst b),
      ar_notes := bi_notes (fst b), updated_by_id := Some (user_id ctx)\<rparr>"
  have t': "t' = update_row ?r t" using assms(1) Some by (simp add: upsert_record_def Let_def split: if_splits)
  then have pk: "pk_unique t" using assms(2) by simp
  show ?thesis
    using marks_of_update_row[OF pk r(1), of ?r i] r(2) assms(3) pk t' by simp
qed

lemma upsert_all_marks:
  assumes "upsert_all env ctx sch org sid bs t = Inr t'" and "pk_unique t'" and "sid \<noteq> i"
  shows "marks_of i t' = marks_of i t \<and> pk_unique t"
  using assms(1)
proof (induction bs arbitrary: t)
  case Nil
  then show ?case using assms(2) by simp
next
  case (Cons b bs)
  then obtain t1 where "upsert_record env ctx sch org sid b t = Inr t1" "upsert_all env ctx sch org sid bs t1 = Inr t'"
    by (auto simp: bind_ok_Inr_iff)
  with Cons.IH[of t1] upsert_record_marks[OF _ _ assms(3)] show ?case by metis
qed

lemma bulk_update_marks:
  assumes "bulk_update_records env ctx j items s = Inr (u, s')" and "pk_unique (attendance_records s')"
  shows "\<exists>x sch. school_id ctx = Some sch \<and> get_session_by_id s j sch = Some x \<and> as_status x \<noteq> AS_SUBMITTED \<and>
    attendance_sessions s' = attendance_sessions s \<and>
    (\<forall>i. i \<noteq> j \<longrightarrow> marks_of i (attendance_records s') = marks_of i (attendance_records s))"
proof -
  from assms(1) obtain sch x t where g: "school_id ctx = Some sch" "get_session_by_id s j sch = Some x"
      "as_status x \<noteq> AS_SUBMITTED" "attendance_sessions s' = attendance_sessions s" "attendance_records s' = t"
    and b: "bulk_upsert_records env ctx sch (organization_id ctx) j
      (map (\<lambda>b. (b, resolve_student_id s (bi_enrollment_id b) sch)) items) (attendance_records s) = Inr t"
    by (auto simp: bulk_update_records_def bind_ok_Inr_iff get_owned_session_Inr split: option.splits if_splits)
  have "marks_of i t = marks_of i (attendance_records s)" if "i \<noteq> j" for i
    using b upsert_all_marks[of env ctx sch _ j _ "attendance_records s" t i] assms(2) g(5) that
    by (auto simp: bulk_upsert_records_def split: if_splits option.splits)
  with g show ?thesis by blast
qed

lemma create_session_table:
  assumes "create_session env ctx d s = Inr (x, s')"
  obtains sch org where "school_id ctx = Some sch" "organization_id ctx = Some org"
    "get_session_for_cohort_date s (ac_cohort_id d) (ac_session_date d) sch = None"
    "row_id x = new_id env ''attendance_sessions'' (attendance_sessions s)" "as_status x = AS_DRAFT"
    "as_cohort_id x = ac_cohort_id d" "as_session_date x = ac_session_date d" "as_school_id x = sch"
    "attendance_sessions s' = insert_row x (attendance_sessions s)"
    "attendance_records s' = add_records env ctx sch org (row_id x)
       (get_active_enrollments_for_cohort s (ac_cohort_id d) sch (ac_session_date d)) (attendance_records s)"
    "uq_attendance_session_cohort_date (attendance_sessions s')" "uq_record_session_enrollment (attendance_records s')"
  using assms that
  by (auto simp: create_session_def bind_ok_Inr_iff Let_def split: option.splits if_splits)

lemma delete_session_table:
  "delete_session env ctx i v s = Inr (u, s') \<Longrightarrow> \<exists>x sch. school_id ctx = Some sch \<and>
     get_session_by_id s i sch = Some x \<and> as_status x = AS_DRAFT \<and> marks_of i (attendance_records s) = [] \<and>
     attendance_sessions s' = delete_row i (attendance_sessions s) \<and> attendance_records s' = attendance_records s"
  by (auto simp: delete_session_def bind_ok_Inr_iff get_owned_session_Inr list_ex_iff filter_empty_conv split: if_splits)

lemma update_record_table:
  assumes "update_record env ctx j m s = Inr (r', s')"
  shows "\<exists>r x sch. get_record s j sch = Some r \<and> get_session_by_id s (ar_session_id r) sch = Some x \<and>
    as_status x \<noteq> AS_SUBMITTED \<and> row_id r' = row_id r \<and> ar_session_id r' = ar_session_id r \<and>
    attendance_sessions s' = attendance_sessions s \<and> attendance_records s' = update_row r' (attendance_records s)"
proof -
  obtain r x sch where "get_record s j sch = Some r" "get_session_by_id s (ar_session_id r) sch = Some x"
    "as_status x \<noteq> AS_SUBMITTED" and r': "r' = flush_actor (env_now env) r (r\<lparr>ar_status := ru_status m,
       ar_arrived_at := ru_arrived_at m, ar_notes := ru_notes m, updated_by_id := Some (user_id ctx)\<rparr>)"
    "attendance_sessions s' = attendance_sessions s \<and> attendance_records s' = update_row r' (attendance_records s)"
    using assms by (auto simp: update_record_def bind_ok_Inr_iff Let_def split: option.splits if_splits)
  moreover have "row_id r' = row_id r \<and> ar_session_id r' = ar_session_id r"
    unfolding r'(1) by (simp add: flush_actor_def)
  ultimately show ?thesis by blast
qed

lemma get_record_mem: "get_record s i sch = Some r \<Longrightarrow> r \<in> set (attendance_records s) \<and> row_id r = i"
  by (auto simp: get_record_def dest: find_SomeD)

lemma session_row:
  "att_keys s \<Longrightarrow> get_session_by_id s i sch = Some x \<Longrightarrow> get_row i (attendance_sessions s) = Some x"
  by (auto simp: att_keys_def dest!: get_session_by_id_SomeD intro: get_row_mem)

lemma att_step_keys:
  assumes "att_keys s" and "att_step s s'"
  shows "att_keys s'"
  using assms(2)
proof (cases rule: att_step.cases)
  case (created env ctx d x)
  then show ?thesis by (simp add: att_keys_def)
next
  case (rewritten env ctx i u x' v)
  from session_write_table[OF rewritten] assms(1) show ?thesis by (auto simp: att_keys_def)
next
  case (deleted env ctx i v u)
  from delete_session_table[OF deleted] assms(1) show ?thesis by (auto simp: att_keys_def pk_unique_delete_row)
next
  case (marked env ctx i m r)
  from update_record_table[OF marked] assms(1) show ?thesis by (auto simp: att_keys_def)
next
  case (bulk_marked env ctx i items u)
  from bulk_update_marks[OF bulk_marked] assms(1) bulk_marked(2) show ?thesis by (auto simp: att_keys_def)
qed

fun att_stage :: "session_status \<Rightarrow> nat" where
  "att_stage AS_DRAFT = 0"
| "att_stage AS_SUBMITTED = 1"
| "att_stage AS_AMENDED = 2"

lemma att_step_submitted:
  assumes "att_keys s" and "att_step s s'" and "get_row i (attendance_sessions s) = Some x" and "as_status x \<noteq> AS_DRAFT"
  shows "\<exists>x'. get_row i (attendance_sessions s') = Some x' \<and> att_stage (as_status x) \<le> att_stage (as_status x') \<and>
    (as_status x = AS_SUBMITTED \<longrightarrow> marks_of i (attendance_records s') = marks_of i (attendance_records s))"
  using assms(2)
proof (cases rule: att_step.cases)
  case (created env ctx d y)
  show ?thesis
  proof (rule create_session_table[OF created(1)])
    fix sch org
    assume t: "attendance_sessions s' = insert_row y (attendance_sessions s)"
      and r: "attendance_records s' = add_records env ctx sch org (row_id y)
         (get_active_enrollments_for_cohort s (ac_cohort_id d) sch (ac_session_date d)) (attendance_records s)"
    have fresh: "row_id y \<notin> ids (attendance_sessions s)" using created(2) t by simp
    moreover have "i \<in> ids (attendance_sessions s)" using assms(3) by (auto simp: ids_def dest: get_row_SomeD)
    ultimately have ne: "row_id y \<noteq> i" by auto
    from add_records_append[of env ctx sch org "row_id y"] obtain rs where "attendance_records s' = attendance_records s @ rs"
        "\<forall>r\<in>set rs. ar_session_id r = row_id y" unfolding r by blast
    then have "marks_of i (attendance_records s') = marks_of i (attendance_records s)"
      using ne by (simp add: filter_empty_conv)
    then show ?thesis using assms(3) ne fresh by (simp add: t get_row_insert_row)
  qed
next
  case (rewritten env ctx j u x' v)
  from session_write_table[OF rewritten] obtain y sch z where g: "get_session_by_id s j sch = Some y"
      "x' = save_session env ctx y z" "row_id z = row_id y" "attendance_sessions s' = update_row x' (attendance_sessions s)"
      "attendance_records s' = attendance_records s" "as_status y = AS_DRAFT \<or> as_status z = AS_AMENDED" by blast
  have y: "get_row j (attendance_sessions s) = Some y" "row_id y = j"
    using session_row[OF assms(1) g(1)] get_session_by_id_SomeD[OF g(1)] by auto
  have id: "row_id x' = j" using g(2,3) y(2) by simp
  show ?thesis
  proof (cases "i = j")
    case True
    then have "y = x" using y(1) assms(3) by simp
    with g(6) assms(4) have "as_status x' = AS_AMENDED" by (simp add: g(2))
    moreover have "get_row i (attendance_sessions s') = Some x'"
      using True id assms(3) get_row_None_iff[of i "attendance_sessions s"] by (simp add: g(4))
    ultimately show ?thesis using g(5) by (cases "as_status x") simp_all
  next
    case False
    then show ?thesis using assms(3) g(4,5) id by simp
  qed
next
  case (deleted env ctx j v u)
  from delete_session_table[OF deleted] obtain y sch where g: "get_session_by_id s j sch = Some y" "as_status y = AS_DRAFT"
      "attendance_sessions s' = delete_row j (attendance_sessions s)" "attendance_records s' = attendance_records s" by blast
  have "i \<noteq> j" using session_row[OF assms(1) g(1)] g(2) assms(3,4) by auto
  then show ?thesis using assms(3) g(3,4) by (simp add: get_row_delete_row)
next
  case (marked env ctx j m r')
  from update_record_table[OF marked] obtain r y sch where g: "get_record s j sch = Some r"
      "get_session_by_id s (ar_session_id r) sch = Some y" "as_status y \<noteq> AS_SUBMITTED" "row_id r' = row_id r"
      "ar_session_id r' = ar_session_id r" "attendance_sessions s' = attendance_sessions s"
      "attendance_records s' = update_row r' (attendance_records s)" by blast
  have "marks_of i (attendance_records s') = marks_of i (attendance_records s)" if "as_status x = AS_SUBMITTED"
  proof -
    have "ar_session_id r \<noteq> i" using session_row[OF assms(1) g(2)] g(3) assms(3) that by auto
    then show ?thesis
      using marks_of_update_row[of "attendance_records s" r r' i] get_record_mem[OF g(1)] assms(1) g(4,5,7)
      by (simp add: att_keys_def)
  qed
  then show ?thesis using assms(3) g(6) by simp
next
  case (bulk_marked env ctx j items u)
  from bulk_update_marks[OF bulk_marked] obtain y sch where g: "get_session_by_id s j sch = Some y"
      "as_status y \<noteq> AS_SUBMITTED" "attendance_sessions s' = attendance_sessions s"
      "\<And>i. i \<noteq> j \<Longrightarrow> marks_of i (attendance_records s') = marks_of i (attendance_records s)" by blast
  have "i \<noteq> j" if "as_status x = AS_SUBMITTED" using session_row[OF assms(1) g(1)] g(2) assms(3) that by auto
  then show ?thesis using assms(3) g(3,4) by simp
qed

text \<open>A session that has left DRAFT has a place in the life of a session.\<close>

definition att_rank :: "db \<Rightarrow> ulid \<Rightarrow> nat option" where
  "att_rank s i = (case get_row i (attendance_sessions s) of
     None \<Rightarrow> None
   | Some x \<Rightarrow> if as_status x = AS_DRAFT then None else Some (att_stage (as_status x)))"

interpretation att_life: lifecycle att_step att_keys att_rank
proof
  show "att_keys s'" if "att_keys s" "att_step s s'" for s s' using that by (rule att_step_keys)
  show "\<exists>m. att_rank s' i = Some m \<and> n \<le> m" if "att_keys s" "att_step s s'" "att_rank s i = Some n" for s s' i n
  proof -
    from that(3) obtain x where x: "get_row i (attendance_sessions s) = Some x" "as_status x \<noteq> AS_DRAFT"
        "n = att_stage (as_status x)" by (auto simp: att_rank_def split: option.splits if_splits)
    from att_step_submitted[OF that(1,2) x(1,2)] obtain x' where "get_row i (attendance_sessions s') = Some x'"
        "att_stage (as_status x) \<le> att_stage (as_status x')" by blast
    moreover from this have "as_status x' \<noteq> AS_DRAFT" using x(2) by (cases "as_status x") auto
    ultimately show ?thesis using x(3) by (simp add: att_rank_def)
  qed
qed

interpretation submit_lock: versioned_write "\<lambda>c i v (u::unit). submit_session (fst c) (snd c) i v"
  "\<lambda>i s. get_row i (attendance_sessions s)" version att_keys
proof
  fix s c i v r s'
  assume ok: "att_keys s" and w: "submit_session (fst c) (snd c) i v s = Inr (r, s')"
  from w obtain x sch where g: "get_session_by_id s i sch = Some x" "version x = v"
      "r = save_session (fst c) (snd c) x (submitted_row (fst c) (snd c) x)"
      "attendance_sessions s' = update_row r (attendance_sessions s)" "attendance_records s' = attendance_records s"
    by (auto simp: session_ops bind_ok_Inr_iff get_owned_session_Inr Let_def split: if_splits)
  have x: "get_row i (attendance_sessions s) = Some x" "row_id r = i" "i \<in> ids (attendance_sessions s)"
    using session_row[OF ok g(1)] get_session_by_id_SomeD[OF g(1)] g(3) by (auto simp: ids_def)
  show "\<exists>y. get_row i (attendance_sessions s) = Some y \<and> version y = v" using x g(2) by blast
  show "att_keys s'" using ok g(4,5) by (simp add: att_keys_def)
  fix y assume "get_row i (attendance_sessions s) = Some y"
  moreover have "r = x \<or> version r = v + 1" using save_session_version g(2,3) by metis
  ultimately show "\<exists>y'. get_row i (attendance_sessions s') = Some y' \<and> (y' = y \<or> version y' = v + 1)"
    using x g(4) by auto
qed

section \<open>Properties\<close>

text \<open>
  A new session is a draft, the first of its cohort and day in the school, and marks
  PRESENT exactly the enrollments of the cohort that are active on the day, one record
  each, leaving every earlier record as it was.
\<close>

theorem create_session_marks_roll:
  assumes "create_session env ctx d s = Inr (x, s')"
  shows "\<exists>sch rs. school_id ctx = Some sch \<and> as_status x = AS_DRAFT \<and> as_school_id x = sch \<and>
    get_session_for_cohort_date s (ac_cohort_id d) (ac_session_date d) sch = None \<and>
    get_session_by_id s' (row_id x) sch \<noteq> None \<and>
    attendance_records s' = attendance_records s @ rs \<and>
    map ar_enrollment_id rs = map row_id (get_active_enrollments_for_cohort s (ac_cohort_id d) sch (ac_session_date d)) \<and>
    map ar_student_id rs = map en_student_id (get_active_enrollments_for_cohort s (ac_cohort_id d) sch (ac_session_date d)) \<and>
    (\<forall>r\<in>set rs. ar_status r = AT_PRESENT \<and> ar_session_id r = row_id x \<and> ar_school_id r = sch) \<and>
    uq_record_session_enrollment (attendance_records s')"
proof (rule create_session_table[OF assms])
  fix sch org
  assume g: "school_id ctx = Some sch" "get_session_for_cohort_date s (ac_cohort_id d) (ac_session_date d) sch = None"
    "as_status x = AS_DRAFT" "as_school_id x = sch" "uq_record_session_enrollment (attendance_records s')"
    and r: "attendance_records s' = add_records env ctx sch org (row_id x)
       (get_active_enrollments_for_cohort s (ac_cohort_id d) sch (ac_session_date d)) (attendance_records s)"
    and t: "attendance_sessions s' = insert_row x (attendance_sessions s)"
  from add_records_append[of env ctx sch org "row_id x" "get_active_enrollments_for_cohort s (ac_cohort_id d) sch (ac_session_date d)" "attendance_records s"]
  obtain rs where "attendance_records s' = attendance_records s @ rs"
    "map ar_enrollment_id rs = map row_id (get_active_enrollments_for_cohort s (ac_cohort_id d) sch (ac_session_date d))"
    "map ar_student_id rs = map en_student_id (get_active_enrollments_for_cohort s (ac_cohort_id d) sch (ac_session_date d))"
    "\<forall>r\<in>set rs. ar_status r = AT_PRESENT \<and> ar_session_id r = row_id x \<and> ar_school_id r = sch"
    unfolding r by blast
  moreover have "get_session_by_id s' (row_id x) sch \<noteq> None"
    using g(4) find_mem_not_None[of x "attendance_sessions s'" "\<lambda>y. row_id y = row_id x \<and> as_school_id y = sch"]
    by (auto simp: get_session_by_id_def t set_insert_row)
  ultimately show ?thesis using g by blast
qed

text \<open>
  C13. Marks are final while a session is submitted: whatever operations run, a session that
  has left draft never returns to it and is never deleted, and as long as it is submitted,
  no operation changes, adds or removes one of its records.
\<close>

theorem submitted_marks_frozen:
  assumes "att_step\<^sup>*\<^sup>* s0 s" and "att_keys s0" and "get_row i (attendance_sessions s0) = Some x0"
    and "as_status x0 \<noteq> AS_DRAFT" and "att_step s s'"
  shows "\<exists>x x'. get_row i (attendance_sessions s) = Some x \<and> get_row i (attendance_sessions s') = Some x' \<and>
    att_stage (as_status x0) \<le> att_stage (as_status x) \<and> att_stage (as_status x) \<le> att_stage (as_status x') \<and>
    (as_status x = AS_SUBMITTED \<longrightarrow>
      filter (\<lambda>r. ar_session_id r = i) (attendance_records s') = filter (\<lambda>r. ar_session_id r = i) (attendance_records s))"
proof -
  have "att_rank s0 i = Some (att_stage (as_status x0))" using assms(3,4) by (simp add: att_rank_def)
  from att_life.reach_forward[OF assms(1,2) this] obtain x where x: "get_row i (attendance_sessions s) = Some x"
      "as_status x \<noteq> AS_DRAFT" "att_stage (as_status x0) \<le> att_stage (as_status x)"
    by (auto simp: att_rank_def split: option.splits if_splits)
  from att_step_submitted[OF att_life.reach_inv[OF assms(1,2)] assms(5) x(1,2)] x show ?thesis by blast
qed

definition sample_class :: db where
  "sample_class = empty_db\<lparr>enrollments := [
     blank_enrollment ''e1''\<lparr>en_school_id := ''s'', en_student_id := ''a'', en_cohort_id := ''c''\<rparr>,
     blank_enrollment ''e2''\<lparr>en_school_id := ''s'', en_student_id := ''b'', en_cohort_id := ''c'',
       en_status := EN_WITHDRAWN\<rparr>,
     blank_enrollment ''e3''\<lparr>en_school_id := ''s'', en_student_id := ''d'', en_cohort_id := ''c'',
       en_end_date := Some 9\<rparr>]\<rparr>"

definition sample_open :: "date \<Rightarrow> (attendance_session \<times> db) result" where
  "sample_open d = create_session sample_audit_env school_context
     \<lparr>ac_cohort_id = ''c'', ac_academic_year_id = ''y'', ac_session_date = d, ac_notes = None\<rparr> sample_class"

lemma sample_open_ok: "is_ok (sample_open 5)" "is_ok (sample_open 10)"
  by code_simp+

lemma create_session_marks_roll_witness:
  "map ar_enrollment_id (attendance_records (snd (projr (sample_open 10)))) = [''e1''] \<and>
   map ar_enrollment_id (attendance_records (snd (projr (sample_open 5)))) = [''e1'', ''e3'']"
proof -
  have "map row_id (get_active_enrollments_for_cohort sample_class ''c'' ''s'' 10) = [''e1'']"
    "map row_id (get_active_enrollments_for_cohort sample_class ''c'' ''s'' 5) = [''e1'', ''e3'']"
    "attendance_records sample_class = []"
    by code_simp+
  with create_session_marks_roll[OF ok_projr[OF sample_open_ok(1), unfolded sample_open_def], folded sample_open_def]
    create_session_marks_roll[OF ok_projr[OF sample_open_ok(2), unfolded sample_open_def], folded sample_open_def]
  show ?thesis by auto
qed

definition sample_submitted :: db where
  "sample_submitted = snd (projr (submit_session sample_audit_env school_context ''attendance_sessions'' 1
     (snd (projr (sample_open 5)))))"

definition sample_amended :: db where
  "sample_amended = snd (projr (amend_session sample_audit_env school_context ''attendance_sessions'' 2 sample_submitted))"

lemma submitted_marks_frozen_witness:
  "filter (\<lambda>r. ar_session_id r = ''attendance_sessions'') (attendance_records sample_amended) =
     filter (\<lambda>r. ar_session_id r = ''attendance_sessions'') (attendance_records sample_submitted) \<and>
   length (attendance_records sample_submitted) = 2 \<and>
   update_record sample_audit_env school_context ''attendance_records''
     \<lparr>ru_status = AT_ABSENT, ru_arrived_at = None, ru_notes = None\<rparr> sample_submitted
     = Inl (ForbiddenError ''SESSION_SUBMITTED'')"
proof -
  have "is_ok (amend_session sample_audit_env school_context ''attendance_sessions'' 2 sample_submitted)" by code_simp
  then have st: "att_step sample_submitted sample_amended"
    unfolding sample_amended_def by (intro att_step.rewritten disjI2) (rule ok_projr)
  have k: "att_keys sample_submitted" by code_simp
  have r: "get_row ''attendance_sessions'' (attendance_sessions sample_submitted) = Some (hd (attendance_sessions sample_submitted))"
    by code_simp
  have s: "as_status (hd (attendance_sessions sample_submitted)) = AS_SUBMITTED" by code_simp
  have "length (attendance_records sample_submitted) = 2" by code_simp
  moreover have "update_record sample_audit_env school_context ''attendance_records''
     \<lparr>ru_status = AT_ABSENT, ru_arrived_at = None, ru_notes = None\<rparr> sample_submitted
     = Inl (ForbiddenError ''SESSION_SUBMITTED'')" by code_simp
  moreover from submitted_marks_frozen[OF rtranclp.rtrancl_refl k r _ st] r s
  have "filter (\<lambda>r. ar_session_id r = ''attendance_sessions'') (attendance_records sample_amended) =
     filter (\<lambda>r. ar_session_id r = ''attendance_sessions'') (attendance_records sample_submitted)" by auto
  ultimately show ?thesis by blast
qed

text \<open>
  A submission that returns made a draft of the caller's school submitted under the
  next version and put exactly one pending event for its parents' notification in the
  outbox. Setting the status through the update route submits a session as well, but puts
  no event there.
\<close>

theorem submit_publishes_once:
  assumes "submit_session env ctx i v s = Inr (x', s')"
  shows "(\<exists>x sch. school_id ctx = Some sch \<and> get_session_by_id s i sch = Some x \<and> as_status x = AS_DRAFT \<and>
      version x = v \<and> as_status x' = AS_SUBMITTED \<and> version x' = v + 1) \<and>
    (\<exists>ev. outbox_events s' = outbox_events s @ [ev] \<and> ob_event_name ev = ''ATTENDANCE_SUBMITTED'' \<and>
      ob_status ev = OB_PENDING \<and> ob_attempts ev = 0 \<and> ob_next_attempt_at ev = None \<and>
      ob_payload ev = AttendancePayload (Some i) (Some (as_cohort_id x')) (Some (as_session_date x'))) \<and>
    (\<forall>u y s2. su_new_status u = Some AS_SUBMITTED \<longrightarrow> update_session env ctx i u s = Inr (y, s2) \<longrightarrow>
      as_status y = AS_SUBMITTED \<and> outbox_events s2 = outbox_events s)"
proof -
  from assms obtain x sch where g: "school_id ctx = Some sch" "get_session_by_id s i sch = Some x" "as_status x = AS_DRAFT"
      "version x = v" "x' = save_session env ctx x (submitted_row env ctx x)"
    and o: "outbox_events s' = outbox_events (publish env ''ATTENDANCE_SUBMITTED''
             (AttendancePayload (Some (row_id x')) (Some (as_cohort_id x')) (Some (as_session_date x')))
             (Some ctx) None None (Some ''attendance_session'') (Some (row_id x')) 1
             (s\<lparr>attendance_sessions := update_row x' (attendance_sessions s)\<rparr>))"
    by (auto simp: submit_session_def put_session_def bind_ok_Inr_iff get_owned_session_Inr Let_def split: if_splits)
  have x': "version x' = v + 1" "as_status x' = AS_SUBMITTED" "row_id x' = i"
    using g save_session_bumps[of "submitted_row env ctx x" x] get_session_by_id_SomeD[OF g(2)] by simp_all
  have "\<exists>ev. outbox_events s' = outbox_events s @ [ev] \<and> ob_event_name ev = ''ATTENDANCE_SUBMITTED'' \<and>
      ob_status ev = OB_PENDING \<and> ob_attempts ev = 0 \<and> ob_next_attempt_at ev = None \<and>
      ob_payload ev = AttendancePayload (Some i) (Some (as_cohort_id x')) (Some (as_session_date x'))"
    unfolding o x'(3) by (simp add: publish_def insert_row_def)
  moreover have "as_status y = AS_SUBMITTED \<and> outbox_events s2 = outbox_events s"
    if "su_new_status u = Some AS_SUBMITTED" "update_session env ctx i u s = Inr (y, s2)" for u y s2
    using that by (auto simp: update_session_def put_session_def bind_ok_Inr_iff session_payload_def Let_def split: if_splits)
  ultimately show ?thesis using g(1-4) x'(1,2) by blast
qed

lemma submit_publishes_once_witness:
  "\<exists>ev. outbox_events sample_submitted = [ev] \<and> ob_status ev = OB_PENDING \<and>
    ob_payload ev = AttendancePayload (Some ''attendance_sessions'') (Some ''c'') (Some 5)"
proof -
  have ok: "is_ok (submit_session sample_audit_env school_context ''attendance_sessions'' 1 (snd (projr (sample_open 5))))"
    by code_simp
  have "outbox_events (snd (projr (sample_open 5))) = []" by code_simp
  moreover have "as_cohort_id (fst (projr (submit_session sample_audit_env school_context ''attendance_sessions'' 1 (snd (projr (sample_open 5)))))) = ''c''"
    "as_session_date (fst (projr (submit_session sample_audit_env school_context ''attendance_sessions'' 1 (snd (projr (sample_open 5)))))) = 5"
    by code_simp+
  ultimately show ?thesis
    using submit_publishes_once[OF ok_projr[OF ok], folded sample_submitted_def] by auto
qed

text \<open>
  A mark with a time of arrival is never stored by the single-record route: its audit
  snapshot holds the time as a Python object, which the JSON column cannot take, so the
  request rolls back.
\<close>

theorem arrival_time_never_commits:
  "snd (run_request (update_record env ctx i \<lparr>ru_status = st, ru_arrived_at = Some at, ru_notes = n\<rparr>) s) = s \<and>
   is_ok (fst (run_request (update_record env ctx i \<lparr>ru_status = st, ru_arrived_at = Some at, ru_notes = n\<rparr>) s)) = False"
proof -
  let ?m = "\<lparr>ru_status = st, ru_arrived_at = Some at, ru_notes = n\<rparr>"
  have "\<exists>a\<in>set (drop (length (audit_logs s)) (audit_logs s')). \<not> (storable a \<and> al_action a \<in> set audit_check_actions)"
    if w: "update_record env ctx i ?m s = Inr (r', s')" for r' s'
  proof -
    from w obtain r where "audit_logs s' = audit_logs (audit env ctx ''ATTENDANCE_RECORD_UPDATED'' ''attendance_record''
        (Some (row_id r)) (Some (record_snapshot r)) (Some (record_snapshot r')) s)"
      and r': "r' = flush_actor (env_now env) r (r\<lparr>ar_status := st, ar_arrived_at := Some at, ar_notes := n,
        updated_by_id := Some (user_id ctx)\<rparr>)"
      by (auto simp: update_record_def bind_ok_Inr_iff Let_def split: option.splits if_splits)
    moreover have "ar_arrived_at r' = Some at" unfolding r' by (auto simp: flush_actor_def dest: arg_cong[of _ _ ar_arrived_at])
    ultimately show ?thesis by (simp add: storable_def snapshot_ok_def record_snapshot_def)
  qed
  from run_request_refused[of "update_record env ctx i ?m" s, OF this] show ?thesis by simp
qed

end
