(* ===== verification/Announcements.thy ===== *)
theory Announcements
  imports Platform Interfaces
begin

text \<open>
  Announcements: \<open>app/modules/announcements/service.py\<close> and \<open>repository.py\<close>, from the draft
  to the event that the outbox handlers (theory Handlers) fan out.
\<close>

section \<open>Values\<close>

fun announcement_status_value :: "announcement_status \<Rightarrow> string" where
  "announcement_status_value AN_DRAFT = ''DRAFT''"
| "announcement_status_value AN_PUBLISHED = ''PUBLISHED''"
| "announcement_status_value AN_EXPIRED = ''EXPIRED''"
| "announcement_status_value AN_ARCHIVED = ''ARCHIVED''"

fun priority_value :: "announcement_priority \<Rightarrow> string" where
  "priority_value AP_NORMAL = ''NORMAL''"
| "priority_value AP_HIGH = ''HIGH''"
| "priority_value AP_URGENT = ''URGENT''"

fun publish_mode_value :: "publish_mode \<Rightarrow> string" where
  "publish_mode_value PM_IMMEDIATE = ''IMMEDIATE''"
| "publish_mode_value PM_SCHEDULED = ''SCHEDULED''"

fun target_type_value :: "target_type \<Rightarrow> string" where
  "target_type_value TG_SCHOOL = ''SCHOOL''"
| "target_type_value TG_CLASS = ''CLASS''"
| "target_type_value TG_COHORT = ''COHORT''"
| "target_type_value TG_ROLE = ''ROLE''"

text \<open>\<open>_snap\<close> does not convert the two instants: the snapshot holds datetime objects.\<close>

definition raw_time :: "timestamp option \<Rightarrow> jval" where
  "raw_time t = (case t of None \<Rightarrow> JNull | Some x \<Rightarrow> RawDateTime x)"

definition announcement_snapshot :: "announcement \<Rightarrow> snapshot" where
  "announcement_snapshot a = [(''title'', JStr (an_title a)),
     (''priority'', JStr (priority_value (an_priority a))),
     (''publish_mode'', JStr (publish_mode_value (an_publish_mode a))),
     (''status'', JStr (announcement_status_value (an_status a))),
     (''published_at'', raw_time (an_published_at a)), (''expires_at'', raw_time (an_expires_at a))]"

record target_create =
  tg_type :: target_type
  tg_id :: "ulid option"

record announcement_create =
  ax_title :: string
  ax_body :: string
  ax_priority :: announcement_priority
  ax_publish_mode :: publish_mode
  ax_targets :: "target_create list"
  ax_expires_at :: "timestamp option"

record announcement_update =
  au_title :: "string option"
  au_body :: "string option"
  au_priority :: "announcement_priority option"
  au_targets :: "target_create list option"
  au_expires_at :: "timestamp option"
  au_version :: int

section \<open>Data access\<close>

definition get_announcement :: "db \<Rightarrow> ulid \<Rightarrow> ulid \<Rightarrow> announcement option" where
  "get_announcement s sch i =
     find (\<lambda>a. row_id a = i \<and> an_school_id a = sch \<and> deleted_at a = None) (announcements s)"

definition targets_of :: "ulid \<Rightarrow> announcement_target list \<Rightarrow> announcement_target list" where
  "targets_of i t = filter (\<lambda>x. at_announcement_id x = i) t"

definition add_target ::
  "env \<Rightarrow> ulid \<Rightarrow> ulid \<Rightarrow> ulid \<Rightarrow> target_create \<Rightarrow> announcement_target list \<Rightarrow> announcement_target list" where
  "add_target env i sch org x t =
     insert_row \<lparr>row_id = new_id env ''announcement_targets'' t, created_at = env_now env,
       updated_at = env_now env, at_announcement_id = i, at_target_type = tg_type x,
       at_target_id = tg_id x, at_school_id = sch, at_organization_id = org\<rparr> t"

definition replace_targets ::
  "env \<Rightarrow> ulid \<Rightarrow> ulid \<Rightarrow> ulid \<Rightarrow> target_create list \<Rightarrow> announcement_target list \<Rightarrow> announcement_target list" where
  "replace_targets env i sch org xs t =
     fold (add_target env i sch org) xs (filter (\<lambda>x. at_announcement_id x \<noteq> i) t)"

text \<open>The announcements of the feed at the instant \<open>now\<close>, before pagination.\<close>

definition feed :: "timestamp \<Rightarrow> db \<Rightarrow> ulid \<Rightarrow> announcement list" where
  "feed now s sch = filter (\<lambda>a. an_school_id a = sch \<and> deleted_at a = None \<and> an_status a = AN_PUBLISHED \<and>
     (case an_expires_at a of None \<Rightarrow> True | Some e \<Rightarrow> e > now)) (announcements s)"

section \<open>Operations\<close>

definition announcement_not_found :: error where
  "announcement_not_found = NotFoundError ''ANNOUNCEMENT_NOT_FOUND''"

definition get_announcement_owned :: "request_context \<Rightarrow> ulid \<Rightarrow> db \<Rightarrow> announcement result" where
  "get_announcement_owned ctx i s = (case school_id ctx of
     None \<Rightarrow> Inl announcement_not_found
   | Some sch \<Rightarrow> ok_or announcement_not_found (get_announcement s sch i))"

definition create_announcement ::
  "env \<Rightarrow> request_context \<Rightarrow> announcement_create \<Rightarrow> db \<Rightarrow> (announcement \<times> db) result" where
  "create_announcement env ctx data s = (case school_id ctx of
     None \<Rightarrow> Inl (InvalidRequestError ''VALIDATION_ERROR'')
   | Some sch \<Rightarrow> (case organization_id ctx of
       None \<Rightarrow> Inl (IntegrityError ''organization_id'')
     | Some org \<Rightarrow>
       let a = \<lparr>row_id = new_id env ''announcements'' (announcements s), created_at = env_now env,
             updated_at = env_now env, created_by_id = Some (user_id ctx), updated_by_id = None,
             version = 1, archived_at = None, deleted_at = None, an_school_id = sch,
             an_organization_id = org, an_title = ax_title data, an_body = ax_body data,
             an_priority = ax_priority data, an_publish_mode = ax_publish_mode data,
             an_published_at = None, an_expires_at = ax_expires_at data, an_status = AN_DRAFT\<rparr>;
           s1 = s\<lparr>announcements := insert_row a (announcements s)\<rparr>;
           s2 = (if ax_targets data \<noteq> [] then s1\<lparr>announcement_targets :=
                 replace_targets env (row_id a) sch org (ax_targets data) (announcement_targets s1)\<rparr> else s1)
       in Inr (a, audit env ctx ''ANNOUNCEMENT_CREATED'' ''announcement'' (Some (row_id a)) None
            (Some (announcement_snapshot a)) s2)))"

definition saved_announcement :: "env \<Rightarrow> request_context \<Rightarrow> announcement \<Rightarrow> announcement \<Rightarrow> announcement" where
  "saved_announcement env ctx old new =
     flush_versioned (env_now env) old (new\<lparr>updated_by_id := Some (user_id ctx)\<rparr>)"

definition announcement_payload :: "announcement_update \<Rightarrow> announcement \<Rightarrow> announcement" where
  "announcement_payload data a =
     assign an_expires_at_update (map_option Some (au_expires_at data))
       (assign an_priority_update (au_priority data)
         (assign an_body_update (au_body data)
           (assign an_title_update (au_title data) a)))"

definition update_announcement ::
  "env \<Rightarrow> request_context \<Rightarrow> announcement \<Rightarrow> announcement_update \<Rightarrow> db \<Rightarrow> (announcement \<times> db) result" where
  "update_announcement env ctx a data s =
     (if version a \<noteq> au_version data then Inl StaleResourceError
      else
        let a' = saved_announcement env ctx a (announcement_payload data a);
            s1 = s\<lparr>announcements := update_row a' (announcements s)\<rparr>;
            s2 = (case au_targets data of None \<Rightarrow> s1
               | Some ts \<Rightarrow> s1\<lparr>announcement_targets := replace_targets env (row_id a') (an_school_id a')
                   (an_organization_id a') ts (announcement_targets s1)\<rparr>)
        in Inr (a', audit env ctx ''ANNOUNCEMENT_UPDATED'' ''announcement'' (Some (row_id a'))
             (Some (announcement_snapshot a)) (Some (announcement_snapshot a')) s2))"

definition published_row :: "env \<Rightarrow> timestamp option \<Rightarrow> announcement \<Rightarrow> announcement" where
  "published_row env at a = a\<lparr>an_published_at := Some (case at of None \<Rightarrow> env_now env | Some t \<Rightarrow> t),
     an_status := AN_PUBLISHED\<rparr>"

definition target_refs :: "ulid \<Rightarrow> db \<Rightarrow> target_ref list" where
  "target_refs i s = map (\<lambda>t. \<lparr>tr_type = target_type_value (at_target_type t), tr_id = at_target_id t\<rparr>)
     (targets_of i (announcement_targets s))"

definition publish_announcement ::
  "env \<Rightarrow> request_context \<Rightarrow> announcement \<Rightarrow> timestamp option \<Rightarrow> int \<Rightarrow> db \<Rightarrow> (announcement \<times> db) result" where
  "publish_announcement env ctx a at ver s =
     (if version a \<noteq> ver then Inl StaleResourceError
      else if an_status a \<noteq> AN_DRAFT then Inl (InvalidRequestError ''ANNOUNCEMENT_NOT_DRAFT'')
      else
        let a' = saved_announcement env ctx a (published_row env at a);
            s1 = s\<lparr>announcements := update_row a' (announcements s)\<rparr>;
            s2 = publish env ''ANNOUNCEMENT_PUBLISHED''
              (AnnouncementPayload (Some (row_id a')) (Some (an_title a'))
                 (Some (priority_value (an_priority a'))) (target_refs (row_id a') s1))
              (Some ctx) None None (Some ''announcement'') (Some (row_id a')) 1 s1
        in Inr (a', audit env ctx ''ANNOUNCEMENT_PUBLISHED'' ''announcement'' (Some (row_id a'))
             (Some (announcement_snapshot a)) (Some (announcement_snapshot a')) s2))"

definition archive_announcement ::
  "env \<Rightarrow> request_context \<Rightarrow> announcement \<Rightarrow> int \<Rightarrow> db \<Rightarrow> (announcement \<times> db) result" where
  "archive_announcement env ctx a ver s =
     (if an_status a = AN_ARCHIVED then Inl (InvalidRequestError ''ALREADY_ARCHIVED'')
      else if version a \<noteq> ver then Inl StaleResourceError
      else
        let a' = saved_announcement env ctx a (a\<lparr>an_status := AN_ARCHIVED\<rparr>)
        in Inr (a', audit env ctx ''ANNOUNCEMENT_ARCHIVED'' ''announcement'' (Some (row_id a'))
             (Some (announcement_snapshot a)) (Some (announcement_snapshot a'))
             (s\<lparr>announcements := update_row a' (announcements s)\<rparr>)))"

definition delete_announcement ::
  "env \<Rightarrow> request_context \<Rightarrow> announcement \<Rightarrow> int \<Rightarrow> db \<Rightarrow> (unit \<times> db) result" where
  "delete_announcement env ctx a ver s =
     (if an_status a \<noteq> AN_DRAFT then Inl (InvalidRequestError ''ANNOUNCEMENT_NOT_DRAFT'')
      else if version a \<noteq> ver then Inl StaleResourceError
      else
        let a' = saved_announcement env ctx a (a\<lparr>deleted_at := Some (env_now env)\<rparr>)
        in Inr ((), audit env ctx ''ANNOUNCEMENT_DELETED'' ''announcement'' (Some (row_id a'))
             (Some (announcement_snapshot a)) None
             (s\<lparr>announcements := update_row a' (announcements s)\<rparr>)))"

section \<open>Facts\<close>

lemma saved_announcement_fields [simp]:
  "row_id y = row_id a \<Longrightarrow> row_id (saved_announcement env ctx a y) = row_id a"
  "an_status (saved_announcement env ctx a y) = an_status y"
  "an_title (saved_announcement env ctx a y) = an_title y"
  "an_priority (saved_announcement env ctx a y) = an_priority y"
  "an_school_id (saved_announcement env ctx a y) = an_school_id y"
  "an_published_at (saved_announcement env ctx a y) = an_published_at y"
  "an_expires_at (saved_announcement env ctx a y) = an_expires_at y"
  "deleted_at (saved_announcement env ctx a y) = deleted_at y"
  by (auto simp: saved_announcement_def flush_versioned_def)

lemma announcement_payload_fields [simp]:
  "row_id (announcement_payload d a) = row_id a" "an_status (announcement_payload d a) = an_status a"
  by (simp_all add: announcement_payload_def assign_def split: option.split)

lemma published_row_fields [simp]:
  "row_id (published_row env at a) = row_id a" "an_status (published_row env at a) = AN_PUBLISHED"
  "an_title (published_row env at a) = an_title a" "an_priority (published_row env at a) = an_priority a"
  "an_school_id (published_row env at a) = an_school_id a" "deleted_at (published_row env at a) = deleted_at a"
  "an_expires_at (published_row env at a) = an_expires_at a"
  "an_published_at (published_row env at a) \<noteq> None"
  by (simp_all add: published_row_def)

text \<open>Replacing the targets of an announcement stores exactly the given list, and no other announcement's.\<close>

lemma targets_of_add_target:
  "targets_of j (fold (add_target env i sch org) xs t) =
     targets_of j t @ (if j = i then targets_of i (drop (length t) (fold (add_target env i sch org) xs t)) else [])"
proof -
  have "\<exists>us. fold (add_target env i sch org) xs t = t @ us \<and> (\<forall>u\<in>set us. at_announcement_id u = i)"
  proof (induction xs arbitrary: t)
    case (Cons x xs)
    from Cons.IH[of "add_target env i sch org x t"] show ?case by (auto simp: add_target_def insert_row_def)
  qed simp
  then show ?thesis by (auto simp: targets_of_def filter_empty_conv)
qed

definition target_key :: "announcement_target \<Rightarrow> target_create" where
  "target_key t = \<lparr>tg_type = at_target_type t, tg_id = at_target_id t\<rparr>"

lemma fold_add_target_keys:
  "map target_key (targets_of i (fold (add_target env i sch org) xs t)) = map target_key (targets_of i t) @ xs"
proof (induction xs arbitrary: t)
  case (Cons x xs)
  have "map target_key (targets_of i (add_target env i sch org x t)) = map target_key (targets_of i t) @ [x]"
    by (simp add: targets_of_def add_target_def insert_row_def target_key_def)
  with Cons.IH[of "add_target env i sch org x t"] show ?case by simp
qed simp

lemma replace_targets_keys: "map target_key (targets_of i (replace_targets env i sch org xs t)) = xs"
proof -
  have "targets_of i (filter (\<lambda>x. at_announcement_id x \<noteq> i) t) = []" by (simp add: targets_of_def filter_empty_conv)
  then show ?thesis by (simp add: replace_targets_def fold_add_target_keys)
qed

lemma replace_targets_other: "j \<noteq> i \<Longrightarrow> targets_of j (replace_targets env i sch org xs t) = targets_of j t"
  by (subst replace_targets_def, subst targets_of_add_target)
    (auto simp: targets_of_def intro: filter_cong)

definition ref_of :: "target_create \<Rightarrow> target_ref" where
  "ref_of x = \<lparr>tr_type = target_type_value (tg_type x), tr_id = tg_id x\<rparr>"

lemma target_refs_eq: "target_refs i s = map ref_of (map target_key (targets_of i (announcement_targets s)))"
  by (simp add: target_refs_def ref_of_def target_key_def)

text \<open>What each operation does to the announcements, when it returns.\<close>

lemma create_announcement_table:
  assumes "create_announcement env ctx data s = Inr (a, s')"
  shows "announcements s' = insert_row a (announcements s) \<and> an_status a = AN_DRAFT \<and> version a = 1 \<and>
    row_id a = new_id env ''announcements'' (announcements s) \<and> deleted_at a = None \<and>
    an_title a = ax_title data \<and> an_priority a = ax_priority data \<and> an_expires_at a = ax_expires_at data \<and>
    school_id ctx = Some (an_school_id a) \<and>
    (\<exists>t. announcement_targets s' = (if ax_targets data = [] then announcement_targets s else
       replace_targets env (row_id a) (an_school_id a) (an_organization_id a) (ax_targets data) (announcement_targets s)))"
  using assms by (auto simp: create_announcement_def Let_def split: option.splits)

lemma publish_announcement_table:
  assumes "publish_announcement env ctx a at v s = Inr (a', s')"
  shows "version a = v \<and> an_status a = AN_DRAFT \<and> a' = saved_announcement env ctx a (published_row env at a) \<and>
    announcements s' = update_row a' (announcements s) \<and> announcement_targets s' = announcement_targets s"
  using assms by (auto simp: publish_announcement_def Let_def split: if_splits)

lemma publish_announcement_event:
  assumes "publish_announcement env ctx a at v s = Inr (a', s')"
  shows "\<exists>e. outbox_events s' = outbox_events s @ [e] \<and> ob_status e = OB_PENDING \<and>
    ob_event_name e = ''ANNOUNCEMENT_PUBLISHED'' \<and> ob_school_id e = school_id ctx \<and>
    ob_payload e = AnnouncementPayload (Some (row_id a)) (Some (an_title a))
      (Some (priority_value (an_priority a))) (target_refs (row_id a) s)"
  using assms
  by (auto simp: publish_announcement_def Let_def publish_def insert_row_def or_else_def target_refs_def split: if_splits)

text \<open>The operations on an existing announcement, in one shape.\<close>

fun an_stage :: "announcement_status \<Rightarrow> nat" where
  "an_stage AN_DRAFT = 0"
| "an_stage AN_PUBLISHED = 1"
| "an_stage AN_EXPIRED = 2"
| "an_stage AN_ARCHIVED = 3"

definition an_write ::
  "env \<Rightarrow> request_context \<Rightarrow> announcement \<Rightarrow> int \<Rightarrow> db \<Rightarrow> db \<Rightarrow> bool" where
  "an_write env ctx a v s s' \<longleftrightarrow> version a = v \<and>
     (\<exists>y. row_id y = row_id a \<and> an_stage (an_status a) \<le> an_stage (an_status y) \<and>
       announcements s' = update_row (saved_announcement env ctx a y) (announcements s))"

lemma update_announcement_write:
  "update_announcement env ctx a d s = Inr (a', s') \<Longrightarrow> an_write env ctx a (au_version d) s s'"
  unfolding an_write_def
  by (auto simp: update_announcement_def Let_def split: if_splits option.splits
      intro!: exI[of _ "announcement_payload d a"])

lemma publish_announcement_write:
  "publish_announcement env ctx a at v s = Inr (a', s') \<Longrightarrow> an_write env ctx a v s s'"
  unfolding an_write_def by (auto dest!: publish_announcement_table intro!: exI[of _ "published_row env at a"])

lemma archive_announcement_write:
  "archive_announcement env ctx a v s = Inr (a', s') \<Longrightarrow> an_write env ctx a v s s'"
  unfolding an_write_def
  by (cases "an_status a") (auto simp: archive_announcement_def Let_def split: if_splits
      intro!: exI[of _ "a\<lparr>an_status := AN_ARCHIVED\<rparr>"])

lemma delete_announcement_write:
  "delete_announcement env ctx a v s = Inr (u, s') \<Longrightarrow> an_write env ctx a v s s'"
  unfolding an_write_def
  by (auto simp: delete_announcement_def Let_def split: if_splits
      intro!: exI[of _ "a\<lparr>deleted_at := Some (env_now env)\<rparr>"])

section \<open>Transitions\<close>

text \<open>
  One step: a route loads an announcement of its school and hands it to the service, or
  creates one under a fresh key.
\<close>

inductive an_step :: "db \<Rightarrow> db \<Rightarrow> bool" where
  created: "create_announcement env ctx d s = Inr (a, s') \<Longrightarrow>
    new_id env ''announcements'' (announcements s) \<notin> ids (announcements s) \<Longrightarrow> an_step s s'"
| updated: "get_announcement_owned ctx i s = Inr a \<Longrightarrow> update_announcement env ctx a d s = Inr (a', s') \<Longrightarrow> an_step s s'"
| published: "get_announcement_owned ctx i s = Inr a \<Longrightarrow> publish_announcement env ctx a at v s = Inr (a', s') \<Longrightarrow> an_step s s'"
| archived: "get_announcement_owned ctx i s = Inr a \<Longrightarrow> archive_announcement env ctx a v s = Inr (a', s') \<Longrightarrow> an_step s s'"
| deleted: "get_announcement_owned ctx i s = Inr a \<Longrightarrow> delete_announcement env ctx a v s = Inr (u, s') \<Longrightarrow> an_step s s'"

definition an_inv :: "db \<Rightarrow> bool" where
  "an_inv s \<longleftrightarrow> pk_unique (announcements s)"

definition an_rank :: "db \<Rightarrow> ulid \<Rightarrow> nat option" where
  "an_rank s i = map_option (\<lambda>a. an_stage (an_status a)) (get_row i (announcements s))"

lemma get_announcement_owned_row:
  assumes "an_inv s" and "get_announcement_owned ctx i s = Inr a"
  shows "row_id a = i \<and> get_row i (announcements s) = Some a"
proof -
  from assms(2) have "a \<in> set (announcements s)" "row_id a = i"
    by (auto simp: get_announcement_owned_def get_announcement_def split: option.splits dest: find_SomeD)
  then show ?thesis using assms(1) get_row_mem unfolding an_inv_def by blast
qed

lemma an_step_cases:
  assumes "an_step s s'"
  obtains (created) a where "announcements s' = insert_row a (announcements s)" "row_id a \<notin> ids (announcements s)"
  | (written) env ctx i a v where "get_announcement_owned ctx i s = Inr a" "an_write env ctx a v s s'"
  using assms
proof (cases rule: an_step.cases)
  case (created env ctx d a)
  then show thesis using that(1) create_announcement_table[OF created(1)] by simp
qed (blast intro: that(2) update_announcement_write publish_announcement_write archive_announcement_write
    delete_announcement_write)+

interpretation an_life: lifecycle an_step an_inv an_rank
proof
  show "an_inv s'" if "an_inv s" "an_step s s'" for s s'
    by (rule an_step_cases[OF that(2)]) (use that(1) in \<open>auto simp: an_inv_def an_write_def\<close>)
  show "\<exists>m. an_rank s' i = Some m \<and> n \<le> m" if "an_inv s" "an_step s s'" "an_rank s i = Some n" for s s' i n
  proof -
    from that(3) obtain x where x: "get_row i (announcements s) = Some x" "n = an_stage (an_status x)"
      by (auto simp: an_rank_def)
    show ?thesis
    proof (cases rule: an_step_cases[OF that(2), consumes 0])
      case (1 a)
      have "i \<noteq> row_id a" using 1(2) x(1) by (metis get_row_None_iff option.distinct(1))
      then show ?thesis using 1 x by (simp add: an_rank_def get_row_insert_row)
    next
      case (2 env ctx j a v)
      note a = get_announcement_owned_row[OF that(1) 2(1)]
      from 2(2) obtain y where y: "row_id y = row_id a" "an_stage (an_status a) \<le> an_stage (an_status y)"
          "announcements s' = update_row (saved_announcement env ctx a y) (announcements s)"
        by (auto simp: an_write_def)
      have "i \<in> ids (announcements s)" using x(1) get_row_None_iff[of i "announcements s"] by auto
      then show ?thesis using a x y by (cases "i = j") (simp_all add: an_rank_def)
    qed
  qed
qed

text \<open>The contract of optimistic locking, for each write of a loaded announcement.\<close>

definition an_row :: "ulid \<Rightarrow> db \<Rightarrow> announcement option" where
  "an_row i s = get_row i (announcements s)"

definition publish_owned ::
  "env \<times> request_context \<Rightarrow> ulid \<Rightarrow> int \<Rightarrow> timestamp option \<Rightarrow> db \<Rightarrow> (announcement \<times> db) result" where
  "publish_owned c i v at s = bind_ok (get_announcement_owned (snd c) i s)
     (\<lambda>a. publish_announcement (fst c) (snd c) a at v s)"

definition archive_owned ::
  "env \<times> request_context \<Rightarrow> ulid \<Rightarrow> int \<Rightarrow> unit \<Rightarrow> db \<Rightarrow> (announcement \<times> db) result" where
  "archive_owned c i v _ s = bind_ok (get_announcement_owned (snd c) i s)
     (\<lambda>a. archive_announcement (fst c) (snd c) a v s)"

lemma an_write_bumps:
  assumes "an_inv s" and "get_announcement_owned ctx i s = Inr a" and "an_write env ctx a v s s'"
  shows "an_row i s = Some a \<and> version a = v \<and> an_inv s' \<and>
    (\<exists>x. an_row i s' = Some x \<and> (x = a \<or> version x = v + 1))"
proof -
  note a = get_announcement_owned_row[OF assms(1,2)]
  from assms(3) obtain y where y: "version a = v" "row_id y = row_id a"
      "announcements s' = update_row (saved_announcement env ctx a y) (announcements s)"
    by (auto simp: an_write_def)
  have "i \<in> ids (announcements s)" using a get_row_None_iff[of i "announcements s"] by auto
  then have "an_row i s' = Some (saved_announcement env ctx a y)" using a y by (simp add: an_row_def)
  moreover have "saved_announcement env ctx a y = a \<or> version (saved_announcement env ctx a y) = v + 1"
    using y(1) by (simp add: saved_announcement_def flush_versioned_def)
  ultimately show ?thesis using a y assms(1) by (simp add: an_row_def an_inv_def)
qed

interpretation an_publish: versioned_write publish_owned an_row version an_inv
proof
  fix s c i v a r s' x
  assume o: "an_inv s" and w: "publish_owned c i v a s = Inr (r, s')"
  then obtain y where y: "get_announcement_owned (snd c) i s = Inr y"
      "publish_announcement (fst c) (snd c) y a v s = Inr (r, s')"
    by (auto simp: publish_owned_def bind_ok_Inr_iff)
  note b = an_write_bumps[OF o y(1) publish_announcement_write[OF y(2)]]
  then show "\<exists>x. an_row i s = Some x \<and> version x = v" by blast
  show "an_inv s'" using b by blast
  show "\<exists>x'. an_row i s' = Some x' \<and> (x' = x \<or> version x' = v + 1)" if "an_row i s = Some x"
    using b that by auto
qed

interpretation an_archive: versioned_write archive_owned an_row version an_inv
proof
  fix s c i v a r s' x
  assume o: "an_inv s" and w: "archive_owned c i v a s = Inr (r, s')"
  then obtain y where y: "get_announcement_owned (snd c) i s = Inr y"
      "archive_announcement (fst c) (snd c) y v s = Inr (r, s')"
    by (auto simp: archive_owned_def bind_ok_Inr_iff)
  note b = an_write_bumps[OF o y(1) archive_announcement_write[OF y(2)]]
  then show "\<exists>x. an_row i s = Some x \<and> version x = v" by blast
  show "an_inv s'" using b by blast
  show "\<exists>x'. an_row i s' = Some x' \<and> (x' = x \<or> version x' = v + 1)" if "an_row i s = Some x"
    using b that by auto
qed

section \<open>Properties\<close>

definition sample_announcement :: announcement_create where
  "sample_announcement = \<lparr>ax_title = ''t'', ax_body = ''b'', ax_priority = AP_HIGH, ax_publish_mode = PM_IMMEDIATE,
     ax_targets = [\<lparr>tg_type = TG_SCHOOL, tg_id = None\<rparr>, \<lparr>tg_type = TG_CLASS, tg_id = Some ''k''\<rparr>],
     ax_expires_at = Some 9\<rparr>"

definition sample_draft :: "(announcement \<times> db) result" where
  "sample_draft = create_announcement sample_audit_env school_context sample_announcement empty_db"

definition sample_an1 :: db where
  "sample_an1 = snd (projr sample_draft)"

definition sample_published :: "(announcement \<times> db) result" where
  "sample_published = publish_announcement sample_audit_env school_context (fst (projr sample_draft)) None 1 sample_an1"

text \<open>
  An announcement that is created with targets and published puts exactly one pending
  event in the outbox, with its title, its priority and exactly the targets it was created
  with, in order; and it is from then on in the feed of its school, until it expires.
\<close>

theorem created_targets_reach_event:
  assumes "create_announcement env ctx data s = Inr (a, s1)" and "ax_targets data \<noteq> []"
    and "publish_announcement env' ctx' a at v s1 = Inr (a', s2)"
  shows "(\<exists>e. outbox_events s2 = outbox_events s @ [e] \<and> ob_status e = OB_PENDING \<and>
      ob_payload e = AnnouncementPayload (Some (row_id a)) (Some (ax_title data))
        (Some (priority_value (ax_priority data))) (map ref_of (ax_targets data))) \<and>
    (\<exists>sch. school_id ctx = Some sch \<and>
      (a' \<in> set (feed now s2 sch) \<longleftrightarrow> (case ax_expires_at data of None \<Rightarrow> True | Some t \<Rightarrow> now < t)))"
proof -
  note c = create_announcement_table[OF assms(1)] and p = publish_announcement_table[OF assms(3)]
  have o: "outbox_events s1 = outbox_events s"
    using assms(1) by (auto simp: create_announcement_def Let_def split: option.splits)
  have "target_refs (row_id a) s1 = map ref_of (ax_targets data)"
    using c assms(2) by (simp add: target_refs_eq replace_targets_keys del: map_map)
  with publish_announcement_event[OF assms(3)] o c have "\<exists>e. outbox_events s2 = outbox_events s @ [e] \<and>
      ob_status e = OB_PENDING \<and> ob_payload e = AnnouncementPayload (Some (row_id a)) (Some (ax_title data))
        (Some (priority_value (ax_priority data))) (map ref_of (ax_targets data))"
    by auto
  note e = this
  have "a \<in> set (announcements s1)" using c by (simp add: set_insert_row)
  then have m: "a' \<in> set (announcements s2)" using p by (auto intro: set_update_row_mem)
  have f: "an_status a' = AN_PUBLISHED" "deleted_at a' = None" "an_school_id a' = an_school_id a"
      "an_expires_at a' = ax_expires_at data"
    unfolding p[THEN conjunct2, THEN conjunct2, THEN conjunct1] using c by simp_all
  have "a' \<in> set (feed now s2 (an_school_id a)) \<longleftrightarrow>
      (case ax_expires_at data of None \<Rightarrow> True | Some t \<Rightarrow> now < t)"
    using m f by (simp add: feed_def)
  moreover have "school_id ctx = Some (an_school_id a)" using c by simp
  ultimately show ?thesis using e by (intro conjI exI[of _ "an_school_id a"])
qed

lemma created_targets_reach_event_witness:
  "is_ok sample_draft \<and> is_ok sample_published \<and>
   (\<exists>e. outbox_events (snd (projr sample_published)) = [e] \<and> ob_status e = OB_PENDING)"
proof -
  have ok: "is_ok sample_draft" "is_ok sample_published" by code_simp+
  have ne: "ax_targets sample_announcement \<noteq> []" by (simp add: sample_announcement_def)
  have o: "outbox_events empty_db = []" by (simp add: empty_db_def)
  have w: "create_announcement sample_audit_env school_context sample_announcement empty_db =
      Inr (fst (projr sample_draft), sample_an1)"
    using ok_projr[OF ok(1)] by (simp add: sample_draft_def sample_an1_def)
  have v: "publish_announcement sample_audit_env school_context (fst (projr sample_draft)) None 1 sample_an1 =
      Inr (fst (projr sample_published), snd (projr sample_published))"
    using ok_projr[OF ok(2)] by (simp add: sample_published_def)
  from created_targets_reach_event[OF w ne v] obtain e where
    "outbox_events (snd (projr sample_published)) = outbox_events empty_db @ [e]" "ob_status e = OB_PENDING" by blast
  then show ?thesis using ok o by simp
qed

text \<open>
  Over any sequence of announcement operations in a deployment, an announcement never goes
  back in its life: what was published is not a draft again, what was archived stays so,
  and no row disappears.
\<close>

theorem announcement_never_goes_back:
  assumes "an_inv s" and "an_step\<^sup>*\<^sup>* s s'" and "get_row i (announcements s) = Some a"
  shows "\<exists>a'. get_row i (announcements s') = Some a' \<and> an_stage (an_status a) \<le> an_stage (an_status a')"
  using an_life.reach_forward[OF assms(2,1), of i "an_stage (an_status a)"] assms(3) by (auto simp: an_rank_def)

lemma announcement_never_goes_back_witness:
  "is_ok sample_published \<and> map an_status (announcements (snd (projr sample_published))) = [AN_PUBLISHED] \<and>
   (\<exists>a. get_row ''announcements'' (announcements (snd (projr sample_published))) = Some a)"
proof -
  have ok: "is_ok sample_published" by code_simp
  have st: "map an_status (announcements (snd (projr sample_published))) = [AN_PUBLISHED]" by code_simp
  have inv: "an_inv sample_an1" unfolding an_inv_def by code_simp
  have i: "get_announcement_owned school_context ''announcements'' sample_an1 = Inr (fst (projr sample_draft))" by code_simp
  have "an_step sample_an1 (snd (projr sample_published))"
    by (rule an_step.published[OF i, of sample_audit_env None 1 "fst (projr sample_published)"])
      (use ok_projr[OF ok] in \<open>simp add: sample_published_def\<close>)
  moreover have "get_row ''announcements'' (announcements sample_an1) = Some (fst (projr sample_draft))" by code_simp
  ultimately show ?thesis using announcement_never_goes_back[OF inv r_into_rtranclp] ok st by blast
qed

lemma raw_snapshot_refused:
  assumes "an_published_at a \<noteq> None \<or> an_expires_at a \<noteq> None"
  shows "\<not> snapshot_ok (Some (announcement_snapshot a))"
  using assms by (auto simp: snapshot_ok_def announcement_snapshot_def raw_time_def split: option.splits)

text \<open>
  No publication commits, and no draft with an expiry is ever stored: the audit snapshot of
  such an announcement holds a datetime, which JSON cannot hold, and the request rolls
  back with its event. A draft without an expiry is stored.
\<close>

theorem announcement_publish_never_commits:
  assumes "ax_expires_at data = Some t"
  shows "snd (run_request (publish_announcement env ctx a at v) s) = s \<and>
   is_ok (fst (run_request (publish_announcement env ctx a at v) s)) = False \<and>
   snd (run_request (create_announcement env ctx data) s) = s \<and>
   is_ok (fst (run_request (create_announcement env ctx data) s)) = False"
proof -
  have p: "snd (run_request (publish_announcement env ctx a at v) s) = s \<and>
      \<not> is_ok (fst (run_request (publish_announcement env ctx a at v) s))"
  proof (rule run_request_refused)
    fix a' s' assume w: "publish_announcement env ctx a at v s = Inr (a', s')"
    from publish_announcement_table[OF w] have "an_published_at a' = an_published_at (published_row env at a)" by simp
    then have "an_published_at a' \<noteq> None" by (simp only: published_row_fields) simp
    moreover have "\<exists>r. audit_logs s' = audit_logs s @ [r] \<and> al_after r = Some (announcement_snapshot a')"
      using w by (auto simp: publish_announcement_def Let_def split: if_splits)
    ultimately show "\<exists>r\<in>set (drop (length (audit_logs s)) (audit_logs s')).
        \<not> (storable r \<and> al_action r \<in> set audit_check_actions)"
      using raw_snapshot_refused[of a'] by (auto simp: storable_def)
  qed
  have "snd (run_request (create_announcement env ctx data) s) = s \<and>
      \<not> is_ok (fst (run_request (create_announcement env ctx data) s))"
  proof (rule run_request_refused)
    fix a' s' assume w: "create_announcement env ctx data s = Inr (a', s')"
    then have "an_expires_at a' \<noteq> None" using create_announcement_table assms by fastforce
    moreover have "\<exists>r. audit_logs s' = audit_logs s @ [r] \<and> al_after r = Some (announcement_snapshot a')"
      using w by (auto simp: create_announcement_def Let_def split: option.splits)
    ultimately show "\<exists>r\<in>set (drop (length (audit_logs s)) (audit_logs s')).
        \<not> (storable r \<and> al_action r \<in> set audit_check_actions)"
      using raw_snapshot_refused[of a'] by (auto simp: storable_def)
  qed
  with p show ?thesis by simp
qed

lemma announcement_publish_never_commits_witness:
  "is_ok sample_draft \<and> is_ok sample_published \<and>
   snd (run_request (create_announcement sample_audit_env school_context sample_announcement) empty_db) = empty_db \<and>
   is_ok (fst (run_request (create_announcement sample_audit_env school_context
     (sample_announcement\<lparr>ax_expires_at := None\<rparr>)) empty_db))"
proof -
  have e: "ax_expires_at sample_announcement = Some 9" by (simp add: sample_announcement_def)
  have "is_ok sample_draft" "is_ok sample_published" by code_simp+
  moreover have "is_ok (fst (run_request (create_announcement sample_audit_env school_context
     (sample_announcement\<lparr>ax_expires_at := None\<rparr>)) empty_db))" by code_simp
  ultimately show ?thesis using announcement_publish_never_commits[OF e, where env = sample_audit_env and ctx = school_context and s = empty_db]
    by blast
qed

end
