(* ===== verification/Ulid.thy ===== *)
theory Ulid
  imports Context "HOL-Library.List_Lexorder" "HOL-Library.Char_ord"
begin

text \<open>
  The primary keys of \<open>app/db/types.py\<close>: how \<open>gen_ulid\<close> writes a 48-bit time and 80 random
  bits as 26 base-32 characters, and what the column type checks when a key is bound to a
  statement. Keys are shown to be valid, to determine time and random bits, and to sort by
  time, which the keyset pagination (theory Pagination) relies on.
\<close>

unbundle bit_operations_syntax

section \<open>Definitions\<close>

definition ulid_alphabet :: string where
  "ulid_alphabet = ''0123456789ABCDEFGHJKMNPQRSTVWXYZ''"

text \<open>\<open>int.from_bytes(bs, 'big')\<close>.\<close>

definition from_bytes :: "int list \<Rightarrow> int" where
  "from_bytes bs = foldl (\<lambda>acc b. acc * 256 + b) 0 bs"

text \<open>The loop: \<open>n\<close> times, append the character of the low five bits and shift.\<close>

fun ulid_chars :: "nat \<Rightarrow> int \<Rightarrow> string \<Rightarrow> string" where
  "ulid_chars 0 v chars = chars"
| "ulid_chars (Suc n) v chars =
     ulid_chars n (drop_bit 5 v) (chars @ [ulid_alphabet ! nat (v AND 31)])"

definition ulid_value :: "int \<Rightarrow> int list \<Rightarrow> int" where
  "ulid_value ms bs = (push_bit 80 (ms AND (push_bit 48 1 - 1))) OR from_bytes bs"

text \<open>\<open>ms\<close> is \<open>int(time.time() * 1000)\<close> and \<open>bs\<close> the ten bytes of \<open>secrets.token_bytes(10)\<close>.\<close>

definition gen_ulid :: "int \<Rightarrow> int list \<Rightarrow> string" where
  "gen_ulid ms bs = rev (ulid_chars 26 (ulid_value ms bs) [])"

text \<open>\<open>ULIDType.process_bind_param\<close> of a value that is not None.\<close>

definition bind_ulid :: "string \<Rightarrow> string result" where
  "bind_ulid v = (if length (py_upper v) \<noteq> 26 then Inl (PyError ''ValueError'') else Inr (py_upper v))"

section \<open>Base 32\<close>

text \<open>The digits of a number, most significant first, and back.\<close>

fun digits32 :: "nat \<Rightarrow> int \<Rightarrow> int list" where
  "digits32 0 v = []"
| "digits32 (Suc n) v = digits32 n (v div 32) @ [v mod 32]"

definition number32 :: "int list \<Rightarrow> int" where
  "number32 ds = foldl (\<lambda>acc d. acc * 32 + d) 0 ds"

definition digit_char :: "int \<Rightarrow> char" where
  "digit_char d = ulid_alphabet ! nat d"

lemma length_digits32 [simp]: "length (digits32 n v) = n"
  by (induction n arbitrary: v) simp_all

lemma digits32_bound: "d \<in> set (digits32 n v) \<Longrightarrow> 0 \<le> d \<and> d < 32"
  by (induction n arbitrary: v) auto

lemma number32_append [simp]: "number32 (ds @ [d]) = number32 ds * 32 + d"
  by (simp add: number32_def)

lemma number_digits32: "0 \<le> v \<Longrightarrow> v < 32 ^ n \<Longrightarrow> number32 (digits32 n v) = v"
proof (induction n arbitrary: v)
  case (Suc n)
  then have "number32 (digits32 n (v div 32)) = v div 32" by (intro Suc.IH) auto
  then show ?case by simp
qed (simp add: number32_def)

lemma digits32_less:
  assumes "v < w" and "0 \<le> v" and "w < 32 ^ n"
  shows "(digits32 n v, digits32 n w) \<in> lexord {(a, b). a < b}"
  using assms
proof (induction n arbitrary: v w)
  case (Suc n)
  show ?case
  proof (cases "v div 32 = w div 32")
    case True
    with Suc.prems have "v mod 32 < w mod 32" by presburger
    then show ?thesis using True by (simp add: lexord_append_leftI)
  next
    case False
    with Suc.prems have "v div 32 < w div 32" by (simp add: zdiv_mono1 order.strict_iff_order)
    with Suc.prems have "(digits32 n (v div 32), digits32 n (w div 32)) \<in> lexord {(a, b). a < b}"
      by (intro Suc.IH) auto
    then show ?thesis by (simp add: lexord_sufI)
  qed
qed simp

text \<open>The alphabet is in the order of the character codes.\<close>

lemma alphabet_sorted: "sorted_wrt (<) ulid_alphabet"
  by code_simp

lemma digit_char_less: "0 \<le> a \<Longrightarrow> a < b \<Longrightarrow> b < 32 \<Longrightarrow> digit_char a < digit_char b"
  unfolding digit_char_def
  by (rule sorted_wrt_nth_less[OF alphabet_sorted]) (auto simp: ulid_alphabet_def)

lemma digit_char_inj: "0 \<le> a \<Longrightarrow> a < 32 \<Longrightarrow> 0 \<le> b \<Longrightarrow> b < 32 \<Longrightarrow> digit_char a = digit_char b \<longleftrightarrow> a = b"
  by (metis digit_char_less linorder_neqE_linordered_idom order_less_irrefl)

text \<open>Writing digits as characters keeps the lexicographic order.\<close>

lemma lexord_digit_chars:
  assumes "(xs, ys) \<in> lexord {(a, b). a < b}" and "\<And>d. d \<in> set xs \<union> set ys \<Longrightarrow> 0 \<le> d \<and> d < 32"
  shows "(map digit_char xs, map digit_char ys) \<in> lexord {(a, b). a < b}"
  using assms
proof (induction xs arbitrary: ys)
  case Nil
  then show ?case by (cases ys) auto
next
  case (Cons x xs)
  then obtain y ys' where ys: "ys = y # ys'" by (cases ys) auto
  with Cons.prems(1) consider "x < y" | "x = y" "(xs, ys') \<in> lexord {(a, b). a < b}" by auto
  then show ?case
  proof cases
    case 1
    then show ?thesis using Cons.prems(2) ys by (auto intro: digit_char_less)
  next
    case 2
    then show ?thesis using Cons.IH[of ys'] Cons.prems(2) ys by auto
  qed
qed

lemma digit_char_upper: "0 \<le> d \<Longrightarrow> d < 32 \<Longrightarrow> upper_char (digit_char d) = digit_char d"
proof -
  have all: "list_all (\<lambda>c. upper_char c = c) ulid_alphabet" by code_simp
  assume "0 \<le> d" "d < 32"
  then have "nat d < length ulid_alphabet" by (simp add: ulid_alphabet_def)
  then have "digit_char d \<in> set ulid_alphabet" by (simp add: digit_char_def)
  with all show ?thesis by (auto simp: list_all_iff)
qed

lemma ulid_chars_eq: "ulid_chars n v cs = cs @ rev (map digit_char (digits32 n v))"
proof (induction n arbitrary: v cs)
  case (Suc n)
  have "v AND 31 = v mod 32" using take_bit_eq_mask[of 5 v] by (simp add: mask_eq_exp_minus_1 take_bit_eq_mod)
  moreover have "drop_bit 5 v = v div 32" by (simp add: drop_bit_eq_div)
  ultimately show ?case by (simp add: Suc.IH digit_char_def)
qed simp

lemma gen_ulid_eq: "gen_ulid ms bs = map digit_char (digits32 26 (ulid_value ms bs))"
  by (simp add: gen_ulid_def ulid_chars_eq del: digits32.simps)

section \<open>The value of a key\<close>

definition is_bytes :: "int list \<Rightarrow> bool" where
  "is_bytes bs = list_all (\<lambda>b. 0 \<le> b \<and> b < 256) bs"

lemma from_bytes_bound: "is_bytes bs \<Longrightarrow> 0 \<le> from_bytes bs \<and> from_bytes bs < 256 ^ length bs"
proof (induction bs rule: rev_induct)
  case (snoc b bs)
  then have "0 \<le> from_bytes bs" "from_bytes bs + 1 \<le> 256 ^ length bs" "0 \<le> b" "b < 256"
    by (auto simp: is_bytes_def)
  then have "from_bytes bs * 256 + b < 256 * 256 ^ length bs" by linarith
  then show ?case using \<open>0 \<le> from_bytes bs\<close> \<open>0 \<le> b\<close> by (simp add: from_bytes_def)
qed (simp add: from_bytes_def)

text \<open>The time and the random bits do not overlap: the key is their sum.\<close>

lemma ulid_value_eq:
  assumes "is_bytes bs" and "length bs = 10"
  shows "ulid_value ms bs = (ms mod 2 ^ 48) * 2 ^ 80 + from_bytes bs"
proof -
  let ?t = "take_bit 48 ms" and ?r = "from_bytes bs"
  have r: "take_bit 80 ?r = ?r" using from_bytes_bound[OF assms(1)] assms(2) by (simp add: take_bit_int_eq_self)
  have "ms AND (push_bit 48 1 - 1) = ?t"
    using take_bit_eq_mask[of 48 ms] by (simp add: mask_eq_exp_minus_1 push_bit_eq_mult)
  then have "ulid_value ms bs = push_bit 80 ?t OR take_bit 80 ?r" by (simp only: ulid_value_def r)
  also have "\<dots> = push_bit 80 ?t + take_bit 80 ?r"
    by (rule disjunctive_add_eq_or[symmetric], rule bit_eqI) (simp add: bit_and_iff bit_push_bit_iff bit_take_bit_iff)
  finally show ?thesis unfolding r by (simp add: push_bit_eq_mult take_bit_eq_mod)
qed

lemma ulid_value_bound:
  assumes "is_bytes bs" and "length bs = 10"
  shows "0 \<le> ulid_value ms bs \<and> ulid_value ms bs < 32 ^ 26"
proof -
  have "0 \<le> from_bytes bs" "from_bytes bs < 2 ^ 80" using from_bytes_bound[OF assms(1)] assms(2) by simp_all
  moreover have "0 \<le> ms mod 2 ^ 48" "ms mod 2 ^ 48 < 2 ^ 48" by simp_all
  ultimately show ?thesis unfolding ulid_value_eq[OF assms] by simp
qed

section \<open>Properties\<close>

text \<open>
  C14. Every generated key is a valid one: 26 characters of the alphabet that the column type
  binds unchanged; and reading it as a base-32 number gives back the time modulo 2^48 and
  the random bits, so keys of different times or different random bits differ.
\<close>

theorem ulid_roundtrip:
  assumes "is_bytes bs" and "length bs = 10"
  shows "bind_ulid (gen_ulid ms bs) = Inr (gen_ulid ms bs) \<and> set (gen_ulid ms bs) \<subseteq> set ulid_alphabet \<and>
    (\<exists>ds. gen_ulid ms bs = map digit_char ds \<and>
       number32 ds div 2 ^ 80 = ms mod 2 ^ 48 \<and> number32 ds mod 2 ^ 80 = from_bytes bs)"
proof -
  let ?ds = "digits32 26 (ulid_value ms bs)"
  have d: "0 \<le> d \<and> d < 32" if "d \<in> set ?ds" for d using that digits32_bound by blast
  have "length ulid_alphabet = 32" by (simp add: ulid_alphabet_def)
  then have "nat d < length ulid_alphabet" if "d \<in> set ?ds" for d using d[OF that] by (simp add: nat_less_iff)
  then have "set (gen_ulid ms bs) \<subseteq> set ulid_alphabet"
    by (auto simp: gen_ulid_eq digit_char_def simp del: digits32.simps)
  moreover have "py_upper (gen_ulid ms bs) = gen_ulid ms bs"
    using d digit_char_upper by (simp add: py_upper_def gen_ulid_eq del: digits32.simps)
  moreover have "length (gen_ulid ms bs) = 26" by (simp add: gen_ulid_eq del: digits32.simps)
  moreover have "number32 ?ds = (ms mod 2 ^ 48) * 2 ^ 80 + from_bytes bs"
    using number_digits32[of "ulid_value ms bs" 26] ulid_value_bound[OF assms, of ms] ulid_value_eq[OF assms, of ms] by metis
  moreover have "0 \<le> from_bytes bs" "from_bytes bs < 2 ^ 80"
    using from_bytes_bound[OF assms(1)] assms(2) by simp_all
  ultimately show ?thesis using gen_ulid_eq by (auto simp: bind_ulid_def intro!: exI[of _ ?ds] simp del: digits32.simps)
qed

lemma ulid_roundtrip_witness:
  "gen_ulid 1469918176385 [0, 1, 2, 3, 4, 5, 6, 7, 8, 255] = ''01ARYZ6S41000G40R40M30E27Z'' \<and>
   bind_ulid (gen_ulid 1469918176385 [0, 1, 2, 3, 4, 5, 6, 7, 8, 255]) = Inr (gen_ulid 1469918176385 [0, 1, 2, 3, 4, 5, 6, 7, 8, 255])"
proof
  show "gen_ulid 1469918176385 [0, 1, 2, 3, 4, 5, 6, 7, 8, 255] = ''01ARYZ6S41000G40R40M30E27Z''" by code_simp
  have "is_bytes [0, 1, 2, 3, 4, 5, 6, 7, 8, 255]" "length [0, 1, 2, 3, 4, 5, 6, 7, 8, 255::int] = 10"
    by (simp_all add: is_bytes_def)
  from ulid_roundtrip[OF this] show "bind_ulid (gen_ulid 1469918176385 [0, 1, 2, 3, 4, 5, 6, 7, 8, 255]) =
    Inr (gen_ulid 1469918176385 [0, 1, 2, 3, 4, 5, 6, 7, 8, 255])" by blast
qed

text \<open>
  Keys sort by creation time: a key of an earlier millisecond is smaller as a string,
  whatever the random bits, until the 48-bit clock wraps.
\<close>

theorem ulid_sorts_by_time:
  assumes "is_bytes bs" and "length bs = 10" and "is_bytes cs" and "length cs = 10"
    and "0 \<le> t" and "t < u" and "u < 2 ^ 48"
  shows "gen_ulid t bs < gen_ulid u cs"
proof -
  have m: "t mod 2 ^ 48 = t" "u mod 2 ^ 48 = u" using assms(5-7) by simp_all
  have "from_bytes bs < 2 ^ 80" "0 \<le> from_bytes cs"
    using from_bytes_bound[OF assms(1)] from_bytes_bound[OF assms(3)] assms(2) by simp_all
  moreover have "(t + 1) * 2 ^ 80 \<le> u * 2 ^ 80" using assms(6) by (intro mult_right_mono) simp_all
  ultimately have "ulid_value t bs < ulid_value u cs"
    unfolding ulid_value_eq[OF assms(1,2)] ulid_value_eq[OF assms(3,4)] m by (simp add: distrib_right)
  then have "(digits32 26 (ulid_value t bs), digits32 26 (ulid_value u cs)) \<in> lexord {(a, b). a < b}"
    using ulid_value_bound[OF assms(1,2)] ulid_value_bound[OF assms(3,4)] by (intro digits32_less) blast+
  then have "(map digit_char (digits32 26 (ulid_value t bs)), map digit_char (digits32 26 (ulid_value u cs)))
      \<in> lexord {(a, b). a < b}"
    by (rule lexord_digit_chars) (auto dest: digits32_bound)
  then show ?thesis by (simp add: gen_ulid_eq list_less_def del: digits32.simps)
qed

lemma ulid_sorts_by_time_witness:
  "gen_ulid 1 [255, 255, 255, 255, 255, 255, 255, 255, 255, 255] < gen_ulid 2 [0, 0, 0, 0, 0, 0, 0, 0, 0, 0]"
  by (rule ulid_sorts_by_time) (simp_all add: is_bytes_def)

end
