(* ===== verification/Pagination.thy ===== *)
theory Pagination
  imports Ulid "HOL-Library.Product_Lexorder"
begin

text \<open>
  Keyset pagination: \<open>app/core/pagination.py\<close> (the cursor and the parameters) and
  \<open>paginate_cursor\<close> and \<open>paginate_offset\<close> of \<open>app/db/repository.py\<close>. Following the cursors of
  a statement without an order of its own is shown to give every row once, in order.
\<close>

section \<open>Base 64\<close>

text \<open>\<open>base64.urlsafe_b64encode\<close> of the standard library, on bytes as characters.\<close>

definition b64_alphabet :: string where
  "b64_alphabet = ''ABCDEFGHIJKLMNOPQRSTUVWXYZabcdefghijklmnopqrstuvwxyz0123456789-_''"

definition b64_char :: "nat \<Rightarrow> char" where
  "b64_char v = b64_alphabet ! v"

abbreviation byte :: "char \<Rightarrow> nat" where
  "byte \<equiv> of_char"

fun b64_encode :: "string \<Rightarrow> string" where
  "b64_encode [] = []"
| "b64_encode [a] = [b64_char (byte a div 4), b64_char (byte a mod 4 * 16), CHR ''='', CHR ''='']"
| "b64_encode [a, b] = [b64_char (byte a div 4), b64_char (byte a mod 4 * 16 + byte b div 16),
     b64_char (byte b mod 16 * 4), CHR ''='']"
| "b64_encode (a # b # c # s) = b64_char (byte a div 4) # b64_char (byte a mod 4 * 16 + byte b div 16) #
     b64_char (byte b mod 16 * 4 + byte c div 64) # b64_char (byte c mod 64) # b64_encode s"

text \<open>
  \<open>urlsafe_b64decode\<close>: the two URL-safe characters are translated to the two standard ones,
  every character outside the alphabet is skipped, padding ends the text once it completes a
  group, and a text that ends inside a group is an error.
\<close>

definition b64_index :: "char \<Rightarrow> nat option" where
  "b64_index c = (let n = byte c in
     if 65 \<le> n \<and> n \<le> 90 then Some (n - 65)
     else if 97 \<le> n \<and> n \<le> 122 then Some (n - 71)
     else if 48 \<le> n \<and> n \<le> 57 then Some (n + 4)
     else if n = 43 \<or> n = 45 then Some 62
     else if n = 47 \<or> n = 95 then Some 63
     else None)"

fun b64_scan :: "nat \<Rightarrow> nat \<Rightarrow> nat \<Rightarrow> string \<Rightarrow> string option" where
  "b64_scan quad left pads [] = (if quad = 0 then Some [] else None)"
| "b64_scan quad left pads (c # s) =
     (if c = CHR ''='' then
        if 2 \<le> quad \<and> 4 \<le> quad + (pads + 1) then Some []
        else b64_scan quad left (if 2 \<le> quad then pads + 1 else pads) s
      else case b64_index c of
        None \<Rightarrow> b64_scan quad left pads s
      | Some v \<Rightarrow>
          if quad = 0 then b64_scan 1 v 0 s
          else if quad = 1 then map_option (Cons (char_of (left * 4 + v div 16))) (b64_scan 2 (v mod 16) 0 s)
          else if quad = 2 then map_option (Cons (char_of (left * 16 + v div 4))) (b64_scan 3 (v mod 4) 0 s)
          else map_option (Cons (char_of (left * 64 + v))) (b64_scan 0 0 0 s))"

definition is_ascii :: "string \<Rightarrow> bool" where
  "is_ascii s = list_all (\<lambda>c. byte c < 128) s"

definition b64_decode :: "string \<Rightarrow> string option" where
  "b64_decode s = b64_scan 0 0 0 s"

section \<open>Cursors\<close>

text \<open>
  What the cursor uses of the standard library's \<open>datetime\<close> and \<open>json\<close>: \<open>isoformat\<close>, its
  inverse, the JSON text of a list of strings, and the two components of a JSON text as
  \<open>decode_cursor\<close> reads them (None where parsing, unpacking or conversion raises).
\<close>

record codec =
  isoformat :: "timestamp \<Rightarrow> string"
  fromisoformat :: "string \<Rightarrow> timestamp option"
  dumps :: "string list \<Rightarrow> string"
  loads_pair :: "string \<Rightarrow> (string \<times> string) option"

definition encode_cursor :: "codec \<Rightarrow> timestamp \<Rightarrow> ulid \<Rightarrow> string" where
  "encode_cursor c t i = b64_encode (dumps c [isoformat c t, i])"

definition decode_cursor :: "codec \<Rightarrow> string \<Rightarrow> (timestamp \<times> ulid) option" where
  "decode_cursor c cur =
     (if \<not> is_ascii cur then None
      else Option.bind (b64_decode cur) (\<lambda>raw.
        Option.bind (loads_pair c raw) (\<lambda>(t, i).
          map_option (\<lambda>at. (at, i)) (fromisoformat c t))))"

record cursor_params =
  cp_limit :: int
  cp_cursor :: "string option"

text \<open>The validation of \<open>CursorParams\<close> when the code constructs one.\<close>

definition max_page_size :: int where
  "max_page_size = 100"

definition mk_cursor_params :: "string option \<Rightarrow> int \<Rightarrow> cursor_params result" where
  "mk_cursor_params cur l = (if 1 \<le> l \<and> l \<le> max_page_size then Inr \<lparr>cp_limit = l, cp_cursor = cur\<rparr>
     else Inl (PyError ''ValidationError''))"

record 'r cursor_page =
  page_items :: "'r list"
  next_cursor :: "string option"
  has_more :: bool

section \<open>Ordered queries\<close>

text \<open>
  ORDER BY as a list of criteria, each "comes strictly before", the first one that tells two
  rows apart deciding; the sort is an insertion sort. A statement's own criteria come before
  those \<open>paginate_cursor\<close> appends.
\<close>

type_synonym 'r ordering = "'r \<Rightarrow> 'r \<Rightarrow> bool"

fun comes_before :: "'r ordering list \<Rightarrow> 'r \<Rightarrow> 'r \<Rightarrow> bool" where
  "comes_before [] a b = False"
| "comes_before (o1 # os) a b = (o1 a b \<or> \<not> o1 b a \<and> comes_before os a b)"

fun insert_by :: "'r ordering \<Rightarrow> 'r \<Rightarrow> 'r list \<Rightarrow> 'r list" where
  "insert_by lt x [] = [x]"
| "insert_by lt x (y # ys) = (if lt y x then y # insert_by lt x ys else x # y # ys)"

definition order_by :: "'r ordering list \<Rightarrow> 'r list \<Rightarrow> 'r list" where
  "order_by os rows = foldr (insert_by (comes_before os)) rows []"

definition newest_first :: "'a ts_row_scheme ordering list" where
  "newest_first = [\<lambda>a b. created_at b < created_at a, \<lambda>a b. row_id b < row_id a]"

definition row_key :: "'a ts_row_scheme \<Rightarrow> timestamp \<times> ulid" where
  "row_key r = (created_at r, row_id r)"

text \<open>
  \<open>own\<close> is the order the statement already has, \<open>rows\<close> what its WHERE clause selects. The id
  of a cursor is bound with the column's type.
\<close>

definition paginate_cursor ::
  "codec \<Rightarrow> 'a ts_row_scheme ordering list \<Rightarrow> cursor_params \<Rightarrow> 'a ts_row_scheme list
   \<Rightarrow> 'a ts_row_scheme cursor_page result" where
  "paginate_cursor c own p rows =
     bind_ok
       (if truthy (cp_cursor p) then
          bind_ok (ok_or (InvalidRequestError ''VALIDATION_ERROR'') (decode_cursor c (the (cp_cursor p)))) (\<lambda>(t, i).
          bind_ok (bind_ulid i) (\<lambda>i. Inr (filter (\<lambda>r. row_key r < (t, i)) rows)))
        else Inr rows)
       (\<lambda>sel.
          let found = take (nat (cp_limit p) + 1) (order_by (own @ newest_first) sel);
              items = take (nat (cp_limit p)) found;
              more = length found > nat (cp_limit p)
          in Inr \<lparr>page_items = items,
               next_cursor = (if more \<and> items \<noteq> [] then
                  Some (encode_cursor c (created_at (List.last items)) (row_id (List.last items))) else None),
               has_more = more\<rparr>)"

section \<open>Offsets\<close>

record offset_params =
  op_page :: int
  op_page_size :: int

definition max_offset_total :: int where
  "max_offset_total = 10000"

definition mk_offset_params :: "int \<Rightarrow> int \<Rightarrow> offset_params result" where
  "mk_offset_params p n =
     (if 1 \<le> p \<and> 1 \<le> n \<and> n \<le> max_page_size \<and> (p - 1) * n < max_offset_total
      then Inr \<lparr>op_page = p, op_page_size = n\<rparr> else Inl (PyError ''ValidationError''))"

record 'r offset_page =
  of_items :: "'r list"
  of_total :: "nat option"
  of_page :: int
  of_page_size :: int

definition paginate_offset ::
  "'a ts_row_scheme ordering list \<Rightarrow> offset_params \<Rightarrow> bool \<Rightarrow> 'a ts_row_scheme list \<Rightarrow> 'a ts_row_scheme offset_page" where
  "paginate_offset own p with_total rows =
     \<lparr>of_items = take (nat (op_page_size p)) (drop (nat ((op_page p - 1) * op_page_size p))
          (order_by (own @ newest_first) rows)),
      of_total = (if with_total then Some (length rows) else None),
      of_page = op_page p, of_page_size = op_page_size p\<rparr>"

section \<open>Facts: base 64\<close>

lemma b64_table: "map b64_index b64_alphabet = map Some [0..<64]"
  by (simp add: b64_alphabet_def b64_index_def upt_rec Let_def)

lemma b64_alphabet_plain: "list_all (\<lambda>c. c \<noteq> CHR ''='' \<and> byte c < 128) b64_alphabet"
  by (simp add: b64_alphabet_def)

lemma b64_alphabet_length: "length b64_alphabet = 64"
  by (simp add: b64_alphabet_def)

lemma b64_index_char: "v < 64 \<Longrightarrow> b64_index (b64_char v) = Some v"
  using arg_cong[OF b64_table, of "\<lambda>xs. xs ! v"] by (simp add: b64_char_def b64_alphabet_length)

lemma b64_char_plain: "v < 64 \<Longrightarrow> b64_char v \<noteq> CHR ''='' \<and> byte (b64_char v) < 128"
  using b64_alphabet_plain by (auto simp: b64_char_def b64_alphabet_length list_all_length)

lemma byte_bound [simp]: "byte c < 256"
  using range_nat_of_char by (metis atLeastLessThan_iff rangeI)

lemma byte_parts:
  "byte a div 4 < 64" "byte a mod 4 * 16 + byte b div 16 < 64" "byte a mod 4 * 16 < 64"
  "byte b mod 16 * 4 + byte c div 64 < 64" "byte b mod 16 * 4 < 64" "byte c mod 64 < 64"
  using byte_bound[of a] byte_bound[of b] byte_bound[of c] by linarith+

lemma byte_shifts:
  "byte b div 16 div 16 = 0" "byte c div 64 div 4 = 0"
  "byte b div 16 mod 16 = byte b div 16" "byte c div 64 mod 4 = byte c div 64"
  using byte_bound[of b] byte_bound[of c] by (linarith, linarith, simp_all add: less_mult_imp_div_less)

lemma b64_roundtrip: "b64_decode (b64_encode s) = Some s"
proof -
  have "b64_scan 0 0 0 (b64_encode s) = Some s"
    by (induction s rule: b64_encode.induct) (simp_all add: b64_index_char b64_char_plain byte_parts byte_shifts)
  then show ?thesis by (simp add: b64_decode_def)
qed

lemma b64_encode_ascii: "is_ascii (b64_encode s)"
  by (induction s rule: b64_encode.induct) (simp_all add: is_ascii_def b64_char_plain byte_parts)

lemma b64_encode_empty: "b64_encode s = [] \<longleftrightarrow> s = []"
  by (cases s rule: b64_encode.cases) simp_all

section \<open>Facts: ordered queries\<close>

lemma set_insert_by [simp]: "set (insert_by lt x ys) = insert x (set ys)"
  by (induction ys) auto

lemma set_order_by [simp]: "set (order_by os rows) = set rows"
  by (induction rows) (simp_all add: order_by_def)

lemma length_insert_by [simp]: "length (insert_by lt x ys) = Suc (length ys)"
  by (induction ys) simp_all

lemma length_order_by [simp]: "length (order_by os rows) = length rows"
  by (induction rows) (simp_all add: order_by_def)

text \<open>
  Criteria that strictly order the rows at hand; then the result of ORDER BY is the one list
  in that order, whatever order the rows were stored in.
\<close>

definition strict_on :: "'r set \<Rightarrow> 'r ordering \<Rightarrow> bool" where
  "strict_on A lt \<longleftrightarrow> (\<forall>a\<in>A. \<not> lt a a) \<and> (\<forall>a\<in>A. \<forall>b\<in>A. \<forall>c\<in>A. lt a b \<longrightarrow> lt b c \<longrightarrow> lt a c) \<and>
     (\<forall>a\<in>A. \<forall>b\<in>A. a \<noteq> b \<longrightarrow> lt a b \<or> lt b a)"

lemma strict_on_subset: "strict_on A lt \<Longrightarrow> B \<subseteq> A \<Longrightarrow> strict_on B lt"
  unfolding strict_on_def by blast

lemma sorted_insert_by:
  assumes "strict_on (insert x (set ys)) lt" and "sorted_wrt lt ys" and "x \<notin> set ys"
  shows "sorted_wrt lt (insert_by lt x ys)"
  using assms
proof (induction ys)
  case (Cons y ys)
  show ?case
  proof (cases "lt y x")
    case True
    have "sorted_wrt lt (insert_by lt x ys)"
      using Cons.prems by (intro Cons.IH strict_on_subset[OF Cons.prems(1)]) auto
    then show ?thesis using True Cons.prems(2) by simp
  next
    case False
    then have "lt x y" using Cons.prems(1,3) unfolding strict_on_def by (metis insert_iff list.set_intros(1))
    moreover have "lt x z" if "z \<in> set ys" for z
      using \<open>lt x y\<close> Cons.prems(1,2) that unfolding strict_on_def by (metis insert_iff list.set_intros sorted_wrt.simps(2))
    ultimately show ?thesis using False Cons.prems(2) by simp
  qed
qed simp

lemma sorted_order_by:
  assumes "strict_on (set rows) (comes_before os)" and "distinct rows"
  shows "sorted_wrt (comes_before os) (order_by os rows)"
  using assms
proof (induction rows)
  case (Cons x rows)
  then have "sorted_wrt (comes_before os) (order_by os rows)" by (auto intro: strict_on_subset)
  then have "sorted_wrt (comes_before os) (insert_by (comes_before os) x (order_by os rows))"
    using Cons.prems by (intro sorted_insert_by) (auto intro: strict_on_subset)
  then show ?case by (simp add: order_by_def)
qed (simp add: order_by_def)

lemma sorted_wrt_unique:
  assumes "strict_on (set xs) lt" and "sorted_wrt lt xs" and "sorted_wrt lt ys" and "set ys = set xs"
  shows "ys = xs"
  using assms
proof (induction xs arbitrary: ys)
  case (Cons x xs)
  then obtain y ys' where ys: "ys = y # ys'" by (cases ys) auto
  have irr: "\<not> lt a a" if "a \<in> set (x # xs)" for a using Cons.prems(1) that by (auto simp: strict_on_def)
  have "\<not> (lt x y \<and> lt y x)"
    using Cons.prems(1,4) ys irr unfolding strict_on_def by (metis list.set_intros(1))
  then have "y = x" using Cons.prems(2-4) ys by (metis list.set_intros(1) set_ConsD sorted_wrt.simps(2))
  moreover have "x \<notin> set xs" "y \<notin> set ys'"
    using Cons.prems(2,3) irr ys \<open>y = x\<close> by (auto simp del: sorted_wrt.simps dest: sorted_wrt.simps(2)[THEN iffD1])
  ultimately have "set ys' = set xs" using Cons.prems(4) ys by auto
  then have "ys' = xs" using Cons.prems(1-3) ys by (intro Cons.IH) (auto intro: strict_on_subset)
  with \<open>y = x\<close> ys show ?case by simp
qed simp

lemma order_by_eqI:
  assumes "strict_on (set rows) (comes_before os)" and "distinct rows"
    and "sorted_wrt (comes_before os) xs" and "set xs = set rows"
  shows "order_by os rows = xs"
  by (rule sorted_wrt_unique[of xs "comes_before os", symmetric, THEN sym])
    (use assms sorted_order_by in auto)

lemma order_by_cong:
  assumes "strict_on (set rows) (comes_before os)" and "distinct rows" and "distinct rows'" and "set rows' = set rows"
  shows "order_by os rows' = order_by os rows"
  using assms by (intro order_by_eqI sorted_order_by) simp_all

lemma order_by_filter:
  assumes "strict_on (set rows) (comes_before os)" and "distinct rows"
  shows "order_by os (filter P rows) = filter P (order_by os rows)"
  using assms by (intro order_by_eqI sorted_wrt_filter sorted_order_by) (auto intro: strict_on_subset)

text \<open>The appended order, newest first, strictly orders rows with distinct keys.\<close>

lemma newest_first_key: "comes_before newest_first a b \<longleftrightarrow> row_key b < row_key a"
  by (auto simp: newest_first_def row_key_def less_prod_def)

lemma newest_first_rel: "comes_before newest_first = (\<lambda>a b. row_key b < row_key a)"
  by (intro ext newest_first_key)

lemma strict_newest_first:
  assumes "pk_unique rows"
  shows "strict_on (set rows) (comes_before newest_first)"
proof -
  have "row_key a \<noteq> row_key b" if "a \<in> set rows" "b \<in> set rows" "a \<noteq> b" for a b
    using pk_unique_inj[OF assms that(1,2)] that(3) by (auto simp: row_key_def)
  then show ?thesis unfolding strict_on_def newest_first_key by (meson less_irrefl less_trans neqE)
qed

lemma pk_unique_distinct: "pk_unique rows \<Longrightarrow> distinct rows"
  by (simp add: pk_unique_def distinct_map)

section \<open>Facts: pages\<close>

text \<open>What the standard library promises of the codec, and a key the column type binds unchanged.\<close>

definition good_codec :: "codec \<Rightarrow> bool" where
  "good_codec c \<longleftrightarrow> (\<forall>t i. dumps c [isoformat c t, i] \<noteq> [] \<and>
     loads_pair c (dumps c [isoformat c t, i]) = Some (isoformat c t, i) \<and>
     fromisoformat c (isoformat c t) = Some t)"

definition keys_ok :: "'a pk_row_scheme list \<Rightarrow> bool" where
  "keys_ok rows \<longleftrightarrow> pk_unique rows \<and> (\<forall>r\<in>set rows. bind_ulid (row_id r) = Inr (row_id r))"

lemma decode_encode: "good_codec c \<Longrightarrow> decode_cursor c (encode_cursor c t i) = Some (t, i)"
  by (simp add: decode_cursor_def encode_cursor_def b64_roundtrip b64_encode_ascii good_codec_def)

text \<open>The page cut from the start of an ordered list.\<close>

definition page_of :: "codec \<Rightarrow> nat \<Rightarrow> 'a ts_row_scheme list \<Rightarrow> 'a ts_row_scheme cursor_page" where
  "page_of c k xs = \<lparr>page_items = take k xs,
     next_cursor = (if length xs > k \<and> take k xs \<noteq> [] then
       Some (encode_cursor c (created_at (List.last (take k xs))) (row_id (List.last (take k xs)))) else None),
     has_more = length xs > k\<rparr>"

lemma paginate_first:
  "paginate_cursor c own \<lparr>cp_limit = l, cp_cursor = None\<rparr> rows =
     Inr (page_of c (nat l) (order_by (own @ newest_first) rows))"
  by (simp add: paginate_cursor_def truthy_def page_of_def Let_def)

lemma paginate_next:
  assumes "good_codec c" and "bind_ulid i = Inr i"
  shows "paginate_cursor c own \<lparr>cp_limit = l, cp_cursor = Some (encode_cursor c t i)\<rparr> rows =
     Inr (page_of c (nat l) (order_by (own @ newest_first) (filter (\<lambda>r. row_key r < (t, i)) rows)))"
proof -
  have "encode_cursor c t i \<noteq> []"
    using assms(1) by (simp add: encode_cursor_def b64_encode_empty good_codec_def)
  then show ?thesis
    by (simp add: paginate_cursor_def truthy_def decode_encode[OF assms(1)] assms(2) page_of_def Let_def)
qed

lemma sorted_newest_first:
  "pk_unique rows \<Longrightarrow> sorted_wrt (\<lambda>a b. row_key b < row_key a) (order_by newest_first rows)"
  using sorted_order_by[OF strict_newest_first pk_unique_distinct, of rows] by (simp only: newest_first_rel)

text \<open>A client that follows the cursors for at most \<open>n\<close> pages; None when there are more, or on an error.\<close>

fun read_pages ::
  "nat \<Rightarrow> codec \<Rightarrow> 'a ts_row_scheme ordering list \<Rightarrow> int \<Rightarrow> string option \<Rightarrow> 'a ts_row_scheme list
   \<Rightarrow> 'a ts_row_scheme list option" where
  "read_pages 0 c own l cur rows = None"
| "read_pages (Suc n) c own l cur rows =
     (case paginate_cursor c own \<lparr>cp_limit = l, cp_cursor = cur\<rparr> rows of
        Inl e \<Rightarrow> None
      | Inr pg \<Rightarrow> (case next_cursor pg of
          None \<Rightarrow> Some (page_items pg)
        | Some nxt \<Rightarrow> map_option (\<lambda>more. page_items pg @ more) (read_pages n c own l (Some nxt) rows)))"

text \<open>In a list in the order of the keys, the rows below the last row of a prefix are the rest.\<close>

lemma filter_below:
  assumes "sorted_wrt (\<lambda>a b. row_key b < row_key a) (xs @ r # ys)"
  shows "filter (\<lambda>x. row_key x < row_key r) (xs @ r # ys) = ys"
proof -
  have "filter (\<lambda>x. row_key x < row_key r) xs = []"
    using assms by (auto simp: filter_empty_conv sorted_wrt_append dest: less_asym)
  moreover have "filter (\<lambda>x. row_key x < row_key r) ys = ys"
    using assms by (auto simp: sorted_wrt_append filter_id_conv)
  ultimately show ?thesis by simp
qed

lemma filter_above:
  assumes "sorted_wrt (\<lambda>a b. row_key a < row_key b) (xs @ r # ys)"
  shows "filter (\<lambda>x. row_key x < row_key r) (xs @ r # ys) = xs"
proof -
  have "filter (\<lambda>x. row_key x < row_key r) ys = []"
    using assms by (auto simp: filter_empty_conv sorted_wrt_append dest: less_asym)
  moreover have "filter (\<lambda>x. row_key x < row_key r) xs = xs"
    using assms by (auto simp: sorted_wrt_append filter_id_conv)
  ultimately show ?thesis by simp
qed

lemma read_pages_suffix:
  assumes "good_codec c" and "keys_ok rows" and "1 \<le> l"
    and "order_by newest_first rows = xs @ ys" and "length ys \<le> n * nat l" and "0 < n"
    and "cur = (if xs = [] then None else Some (encode_cursor c (created_at (List.last xs)) (row_id (List.last xs))))"
  shows "read_pages n c [] l cur rows = Some ys"
  using assms(4-7)
proof (induction n arbitrary: xs ys cur)
  case (Suc n)
  let ?L = "order_by newest_first rows"
  have pk: "pk_unique rows" using assms(2) by (simp add: keys_ok_def)
  have srt: "sorted_wrt (\<lambda>a b. row_key b < row_key a) ?L"
    by (rule sorted_newest_first[OF pk])
  have pg: "paginate_cursor c [] \<lparr>cp_limit = l, cp_cursor = cur\<rparr> rows = Inr (page_of c (nat l) ys)"
  proof (cases "xs = []")
    case True
    then show ?thesis using Suc.prems by (simp add: paginate_first)
  next
    case False
    then obtain xs' r where xs: "xs = xs' @ [r]" using rev_exhaust by blast
    then have "r \<in> set ?L" using Suc.prems(1) by simp
    then have "bind_ulid (row_id r) = Inr (row_id r)" using assms(2) by (simp add: keys_ok_def)
    moreover have "order_by newest_first (filter (\<lambda>x. row_key x < row_key r) rows) = ys"
      using filter_below[of xs' r ys] srt Suc.prems(1) xs
        order_by_filter[OF strict_newest_first[OF pk] pk_unique_distinct[OF pk], of "\<lambda>x. row_key x < row_key r"]
      by simp
    ultimately show ?thesis
      using Suc.prems(4) xs paginate_next[OF assms(1), of "row_id r" "[]" l "created_at r" rows]
      by (simp add: row_key_def)
  qed
  show ?case
  proof (cases "length ys > nat l")
    case False
    then show ?thesis using pg by (simp add: page_of_def)
  next
    case True
    let ?p = "take (nat l) ys"
    have p: "?p \<noteq> []" using True assms(3) by (cases ys) auto
    then have "List.last ?p = List.last (xs @ ?p)" by simp
    moreover have "0 < n" using True Suc.prems(2) by (cases n) auto
    moreover have "length (drop (nat l) ys) \<le> n * nat l" using Suc.prems(2) by simp
    ultimately have "read_pages n c [] l (Some (encode_cursor c (created_at (List.last ?p)) (row_id (List.last ?p)))) rows
        = Some (drop (nat l) ys)"
      using Suc.prems(1) p by (intro Suc.IH[of "xs @ ?p"]) simp_all
    then show ?thesis using pg True p by (simp add: page_of_def)
  qed
qed simp

text \<open>
  A statement whose own order is the opposite of the appended one, as an ascending position
  is for rows created in that order: the cursor of its first page leads to a page without
  the last row, and nothing follows.
\<close>

lemma own_order_stuck:
  assumes "good_codec c" and "keys_ok rows" and "1 \<le> l" and "nat l < length rows"
    and "\<And>a b. a \<in> set rows \<Longrightarrow> b \<in> set rows \<Longrightarrow> comes_before (own @ newest_first) a b \<longleftrightarrow> row_key a < row_key b"
  shows "\<exists>cur. paginate_cursor c own \<lparr>cp_limit = l, cp_cursor = None\<rparr> rows = Inr \<lparr>page_items =
      take (nat l) (order_by (own @ newest_first) rows), next_cursor = Some cur, has_more = True\<rparr> \<and>
    paginate_cursor c own \<lparr>cp_limit = l, cp_cursor = Some cur\<rparr> rows = Inr \<lparr>page_items =
      take (nat l - 1) (order_by (own @ newest_first) rows), next_cursor = None, has_more = False\<rparr>"
proof -
  let ?os = "own @ newest_first"
  let ?L = "order_by ?os rows"
  have pk: "pk_unique rows" using assms(2) by (simp add: keys_ok_def)
  have inj: "row_key a \<noteq> row_key b" if "a \<in> set rows" "b \<in> set rows" "a \<noteq> b" for a b
    using pk_unique_inj[OF pk that(1,2)] that(3) by (auto simp: row_key_def)
  have st: "strict_on (set rows) (comes_before ?os)"
    using assms(5) inj unfolding strict_on_def by (meson less_irrefl less_trans neqE)
  have "sorted_wrt (comes_before ?os) ?L" using sorted_order_by[OF st pk_unique_distinct[OF pk]] .
  then have srt: "sorted_wrt (\<lambda>a b. row_key a < row_key b) ?L"
    by (rule sorted_wrt_mono_rel[rotated]) (simp add: assms(5))
  let ?r = "?L ! (nat l - 1)"
  have len: "nat l - 1 < length ?L" "nat l - 1 < length rows" using assms(4) by simp_all
  have last: "List.last (take (nat l) ?L) = ?r"
  proof -
    have "take (nat l) ?L \<noteq> []" "length (take (nat l) ?L) = nat l"
      using assms(3,4) length_order_by[of ?os rows] by (auto simp del: length_order_by)
    then show ?thesis using last_conv_nth[of "take (nat l) ?L"] assms(3) by simp
  qed
  have split: "?L = take (nat l - 1) ?L @ ?r # drop (nat l) ?L"
    using id_take_nth_drop[OF len(1)] assms(3) by simp
  have below: "filter (\<lambda>x. row_key x < row_key ?r) ?L = take (nat l - 1) ?L"
    using filter_above[of "take (nat l - 1) ?L" ?r "drop (nat l) ?L"] srt split by metis
  have "?r \<in> set rows" using nth_mem[OF len(1)] by simp
  then have b: "bind_ulid (row_id ?r) = Inr (row_id ?r)" using assms(2) by (simp add: keys_ok_def)
  let ?cur = "encode_cursor c (created_at ?r) (row_id ?r)"
  have "paginate_cursor c own \<lparr>cp_limit = l, cp_cursor = Some ?cur\<rparr> rows = Inr (page_of c (nat l) (take (nat l - 1) ?L))"
    unfolding paginate_next[OF assms(1) b] row_key_def[of ?r, symmetric]
      order_by_filter[OF st pk_unique_distinct[OF pk]] below ..
  moreover have "take (nat l) ?L \<noteq> []"
    using assms(3,4) length_order_by[of ?os rows] by (auto simp del: length_order_by)
  ultimately show ?thesis
    using assms(3,4) last by (intro exI[of _ ?cur]) (simp add: paginate_first page_of_def min_def)
qed

section \<open>Properties\<close>

definition toy_codec :: codec where
  "toy_codec = \<lparr>isoformat = (\<lambda>t. if t < 0 then CHR ''-'' # replicate (nat (- t)) CHR ''1'' else replicate (nat t) CHR ''1''),
     fromisoformat = (\<lambda>s. Some (if s \<noteq> [] \<and> hd s = CHR ''-'' then - int (length (tl s)) else int (length s))),
     dumps = (\<lambda>xs. hd xs @ CHR '' '' # hd (tl xs)),
     loads_pair = (\<lambda>s. Some (takeWhile (\<lambda>ch. ch \<noteq> CHR '' '') s, tl (dropWhile (\<lambda>ch. ch \<noteq> CHR '' '') s)))\<rparr>"

lemma toy_codec_good: "good_codec toy_codec"
proof -
  have "fromisoformat toy_codec (isoformat toy_codec t) = Some t" for t
    by (cases "t < 0"; cases "t = 0") (simp_all add: toy_codec_def)
  then show ?thesis by (auto simp: good_codec_def toy_codec_def takeWhile_append dropWhile_append)
qed

definition sample_keys :: "unit ts_row_scheme list" where
  "sample_keys = map (\<lambda>(n, t). \<lparr>row_id = gen_ulid n [0, 0, 0, 0, 0, 0, 0, 0, 0, 0], created_at = t, updated_at = t\<rparr>)
     [(1, 5), (2, 5), (3, 7), (4, 3), (5, 4)]"

lemma sample_keys_ok: "keys_ok sample_keys"
proof -
  have "pk_unique sample_keys" by code_simp
  moreover have "list_all (\<lambda>r. bind_ulid (row_id r) = Inr (row_id r)) sample_keys" by code_simp
  ultimately show ?thesis by (auto simp: keys_ok_def list_all_iff)
qed

text \<open>
  A cursor survives the round trip through the client: decoding an encoded position gives
  it back, the text is ASCII and never empty, so that it is not taken for an absent cursor.
\<close>

theorem cursor_roundtrip:
  assumes "good_codec c"
  shows "decode_cursor c (encode_cursor c t i) = Some (t, i) \<and> is_ascii (encode_cursor c t i) \<and>
    truthy (Some (encode_cursor c t i))"
  using decode_encode[OF assms] b64_encode_ascii assms
  by (simp add: encode_cursor_def truthy_def b64_encode_empty good_codec_def)

lemma cursor_roundtrip_witness:
  "decode_cursor toy_codec (encode_cursor toy_codec 3 ''01A'') = Some (3, ''01A'') \<and>
   encode_cursor toy_codec 3 ''01A'' = ''MTExIDAxQQ==''"
proof
  show "decode_cursor toy_codec (encode_cursor toy_codec 3 ''01A'') = Some (3, ''01A'')"
    using cursor_roundtrip[OF toy_codec_good] by blast
  show "encode_cursor toy_codec 3 ''01A'' = ''MTExIDAxQQ==''" by code_simp
qed



text \<open>
  A page is stable under concurrent inserts: rows added at or above the cursor's position,
  as rows created after it are, do not change what the cursor leads to, so nothing is
  skipped or repeated.
\<close>

theorem page_stable_under_inserts:
  assumes "good_codec c" and "bind_ulid i = Inr i" and "pk_unique (rows @ added)"
    and "\<And>r. r \<in> set added \<Longrightarrow> (t, i) \<le> (created_at r, row_id r)"
  shows "paginate_cursor c [] \<lparr>cp_limit = l, cp_cursor = Some (encode_cursor c t i)\<rparr> (rows @ added) =
    paginate_cursor c [] \<lparr>cp_limit = l, cp_cursor = Some (encode_cursor c t i)\<rparr> rows"
proof -
  have "filter (\<lambda>r. row_key r < (t, i)) added = []"
    unfolding filter_empty_conv row_key_def using leD[OF assms(4)] by blast
  then show ?thesis by (simp add: paginate_next[OF assms(1,2)])
qed

lemma page_stable_under_inserts_witness:
  "paginate_cursor toy_codec [] \<lparr>cp_limit = 2, cp_cursor = Some (encode_cursor toy_codec 5 (row_id (sample_keys ! 1)))\<rparr> (take 4 sample_keys) =
   paginate_cursor toy_codec [] \<lparr>cp_limit = 2, cp_cursor = Some (encode_cursor toy_codec 5 (row_id (sample_keys ! 1)))\<rparr>
     (filter (\<lambda>r. created_at r < 6) (take 4 sample_keys))"
proof -
  let ?i = "row_id (sample_keys ! 1)"
  have b: "bind_ulid ?i = Inr ?i" by code_simp
  have e: "take 4 sample_keys = [sample_keys ! 0, sample_keys ! 1, sample_keys ! 2, sample_keys ! 3]" by code_simp
  have f: "filter (\<lambda>r. created_at r < 6) (take 4 sample_keys) = [sample_keys ! 0, sample_keys ! 1, sample_keys ! 3]" by code_simp
  have m: "paginate_cursor toy_codec [] \<lparr>cp_limit = 2, cp_cursor = Some (encode_cursor toy_codec 5 ?i)\<rparr> (take 4 sample_keys) =
    paginate_cursor toy_codec [] \<lparr>cp_limit = 2, cp_cursor = Some (encode_cursor toy_codec 5 ?i)\<rparr>
      ([sample_keys ! 0, sample_keys ! 1, sample_keys ! 3] @ [sample_keys ! 2])" by code_simp
  have "pk_unique ([sample_keys ! 0, sample_keys ! 1, sample_keys ! 3] @ [sample_keys ! 2])" by code_simp
  moreover have "created_at (sample_keys ! 2) = 7" by code_simp
  ultimately show ?thesis
    unfolding m f by (intro page_stable_under_inserts[OF toy_codec_good b]) auto
qed

end
