(* ===== verification/RateLimit.thy ===== *)
theory RateLimit
  imports Context
begin

text \<open>
  \<open>app/core/ratelimit.py\<close>: the sliding-window limiter of the login and password-reset routes,
  its in-process window and the Redis window it prefers. The in-process window is shown to
  answer as if it kept every admission for ever, and to admit at most the limit in any window.
\<close>

section \<open>Values\<close>

text \<open>
  Both clocks return floats of seconds; here they count microseconds. Windows and limits are
  the whole numbers the settings hold.
\<close>

definition second :: int where
  "second = 1000000"

definition login_rate_limit_key :: "string option \<Rightarrow> string" where
  "login_rate_limit_key ip = ''login:'' @ (if truthy ip then the ip else ''unknown'')"

definition password_reset_rate_limit_key :: "string option \<Rightarrow> string" where
  "password_reset_rate_limit_key ip = ''password-reset:'' @ (if truthy ip then the ip else ''unknown'')"

section \<open>The in-process window\<close>

text \<open>\<open>_MemorySlidingWindow._hits\<close>; a missing key and an empty queue are not told apart.\<close>

type_synonym hits = "string \<Rightarrow> int list"

definition retry_after :: "int \<Rightarrow> int \<Rightarrow> int \<Rightarrow> int" where
  "retry_after now w oldest = max 1 ((w * second - (now - oldest)) div second + 1)"

definition memory_allow ::
  "int \<Rightarrow> string \<Rightarrow> int \<Rightarrow> int \<Rightarrow> hits \<Rightarrow> (bool \<times> int) result \<times> hits" where
  "memory_allow now key limit w hits =
     (let queue = dropWhile (\<lambda>t. t \<le> now - w * second) (hits key) in
      if int (length queue) \<ge> limit then
        (case queue of
           [] \<Rightarrow> (Inl (PyError ''IndexError''), hits(key := queue))
         | t # _ \<Rightarrow> (Inr (False, retry_after now w t), hits(key := queue)))
      else (Inr (True, 0), hits(key := queue @ [now])))"

section \<open>The shared window\<close>

text \<open>
  The three commands the limiter sends to Redis, as parameters: the pipeline that trims a
  sorted set and counts it, the score of its first member, and the pipeline that adds a
  member and sets the expiry. None where the client raises.
\<close>

record 'r redis =
  trim_and_count :: "string \<Rightarrow> int \<Rightarrow> 'r \<Rightarrow> (int \<times> 'r) option"
  oldest_score :: "string \<Rightarrow> 'r \<Rightarrow> int option option"
  add_member :: "string \<Rightarrow> string \<Rightarrow> int \<Rightarrow> int \<Rightarrow> 'r \<Rightarrow> 'r option"

record limiter =
  lm_prefix :: string
  lm_fallback :: hits
  lm_counter :: nat

definition redis_key :: "limiter \<Rightarrow> string \<Rightarrow> string" where
  "redis_key lm key = lm_prefix lm @ '':'' @ key"

fun decimal :: "nat \<Rightarrow> string" where
  "decimal n = (if n < 10 then [digit (int n)] else decimal (n div 10) @ [digit (int n)])"

text \<open>\<open>f"{now:.6f}:{counter}"\<close>.\<close>

definition hit_member :: "int \<Rightarrow> nat \<Rightarrow> string" where
  "hit_member now n = decimal (nat (now div second)) @ ''.'' @
     map (\<lambda>k. digit (now div 10 ^ k)) (rev [0..<6]) @ '':'' @ decimal n"

definition fall_back :: "int \<Rightarrow> string \<Rightarrow> int \<Rightarrow> int \<Rightarrow> limiter \<Rightarrow> (bool \<times> int) result \<times> limiter" where
  "fall_back tick key limit w lm = (case memory_allow tick key limit w (lm_fallback lm) of
     (res, h) \<Rightarrow> (res, lm\<lparr>lm_fallback := h\<rparr>))"

text \<open>
  \<open>allow_async\<close>. \<open>tick\<close> and \<open>wall\<close> are the two clocks; the client is None when no URL is
  configured or the client could not be built. The first half (trim, count, refuse) and the
  second (add) are separate round trips.
\<close>

definition allow_async ::
  "'r redis option \<Rightarrow> int \<Rightarrow> int \<Rightarrow> string \<Rightarrow> int \<Rightarrow> int \<Rightarrow> limiter \<Rightarrow> 'r
   \<Rightarrow> (bool \<times> int) result \<times> limiter \<times> 'r" where
  "allow_async client tick wall key limit w lm r =
     (case client of
        None \<Rightarrow> (case fall_back tick key limit w lm of (res, lm') \<Rightarrow> (res, lm', r))
      | Some rd \<Rightarrow>
          let lm1 = lm\<lparr>lm_counter := lm_counter lm + 1\<rparr>; rkey = redis_key lm key;
              give_up = (\<lambda>r. case fall_back tick key limit w lm1 of (res, lm') \<Rightarrow> (res, lm', r))
          in (case trim_and_count rd rkey (wall - w * second) r of
                None \<Rightarrow> give_up r
              | Some (n, r1) \<Rightarrow>
                  if n \<ge> limit then
                    (case oldest_score rd rkey r1 of
                       None \<Rightarrow> give_up r1
                     | Some None \<Rightarrow> (Inr (False, w), lm1, r1)
                     | Some (Some t) \<Rightarrow> (Inr (False, retry_after wall w t), lm1, r1))
                  else
                    (case add_member rd rkey (hit_member wall (lm_counter lm1)) wall (w * 1000 + 1000) r1 of
                       None \<Rightarrow> give_up r1
                     | Some r2 \<Rightarrow> (Inr (True, 0), lm1, r2))))"

section \<open>A limiter with an unbounded memory\<close>

text \<open>
  The specification: the list of every admission so far, in order of time; a call is
  admitted when fewer than \<open>limit\<close> admissions of its key are younger than the window.
\<close>

type_synonym history = "(int \<times> string) list"

definition admissions :: "string \<Rightarrow> int \<Rightarrow> history \<Rightarrow> int list" where
  "admissions key since h = filter (\<lambda>t. since < t) (map fst (filter (\<lambda>e. snd e = key) h))"

definition ideal_allow :: "int \<Rightarrow> string \<Rightarrow> int \<Rightarrow> int \<Rightarrow> history \<Rightarrow> bool \<times> history" where
  "ideal_allow now key limit w h =
     (if int (length (admissions key (now - w * second) h)) < limit then (True, h @ [(now, key)]) else (False, h))"

definition admitted :: "(bool \<times> int) result \<Rightarrow> bool" where
  "admitted r = (case r of Inl e \<Rightarrow> False | Inr a \<Rightarrow> fst a)"

text \<open>A sequence of calls, each with its time and key, against either limiter.\<close>

fun run_memory :: "int \<Rightarrow> int \<Rightarrow> (int \<times> string) list \<Rightarrow> hits \<Rightarrow> bool list" where
  "run_memory limit w [] hits = []"
| "run_memory limit w ((now, key) # cs) hits =
     (case memory_allow now key limit w hits of (res, hits') \<Rightarrow> admitted res # run_memory limit w cs hits')"

fun run_ideal :: "int \<Rightarrow> int \<Rightarrow> (int \<times> string) list \<Rightarrow> history \<Rightarrow> bool list \<times> history" where
  "run_ideal limit w [] h = ([], h)"
| "run_ideal limit w ((now, key) # cs) h =
     (case ideal_allow now key limit w h of (b, h') \<Rightarrow>
        (case run_ideal limit w cs h' of (bs, h'') \<Rightarrow> (b # bs, h'')))"

section \<open>The refinement\<close>

text \<open>The in-process window keeps of each key what the window still needs.\<close>

definition queue_ok :: "int \<Rightarrow> int \<Rightarrow> string \<Rightarrow> int list \<Rightarrow> history \<Rightarrow> bool" where
  "queue_ok now w key q h \<longleftrightarrow> sorted q \<and> (\<forall>t\<in>set q. t \<le> now) \<and>
     filter (\<lambda>t. now - w * second < t) q = admissions key (now - w * second) h"

definition tracks :: "int \<Rightarrow> int \<Rightarrow> hits \<Rightarrow> history \<Rightarrow> bool" where
  "tracks now w hits h \<longleftrightarrow> (\<forall>key. queue_ok now w key (hits key) h)"

lemma dropWhile_sorted: "sorted xs \<Longrightarrow> dropWhile (\<lambda>t. t \<le> (c::int)) xs = filter (\<lambda>t. c < t) xs"
  proof (induction xs)
  case (Cons x xs)
  then show ?case by (cases "x \<le> c") (auto intro!: filter_True[symmetric])
qed simp

lemma filter_later: "c \<le> (d::int) \<Longrightarrow> filter (\<lambda>t. d < t) (filter (\<lambda>t. c < t) xs) = filter (\<lambda>t. d < t) xs"
  by (induction xs) auto

lemma tracks_later:
  assumes "tracks now w hits h" and "now \<le> now'"
  shows "tracks now' w hits h"
  unfolding tracks_def
proof
  fix key
  let ?c = "now - w * second" and ?d = "now' - w * second"
  have q: "queue_ok now w key (hits key) h" using assms(1) by (simp add: tracks_def)
  then have "filter (\<lambda>t. ?d < t) (filter (\<lambda>t. ?c < t) (hits key)) = filter (\<lambda>t. ?d < t) (admissions key ?c h)"
    by (simp add: queue_ok_def)
  then have "filter (\<lambda>t. ?d < t) (hits key) = admissions key ?d h"
    using assms(2) by (simp add: admissions_def filter_later del: filter_filter)
  with q assms(2) show "queue_ok now' w key (hits key) h" by (auto simp: queue_ok_def)
qed

lemma admissions_snoc:
  "since < now \<Longrightarrow> admissions k since (h @ [(now, key)]) = admissions k since h @ (if k = key then [now] else [])"
  by (simp add: admissions_def)

text \<open>One call: the answers agree and the two limiters stay related.\<close>

lemma memory_allow_refines:
  assumes "tracks now w hits h" and "1 \<le> limit" and "0 < w"
  shows "admitted (fst (memory_allow now key limit w hits)) = fst (ideal_allow now key limit w h) \<and>
    tracks now w (snd (memory_allow now key limit w hits)) (snd (ideal_allow now key limit w h))"
proof -
  let ?c = "now - w * second"
  define q where "q = dropWhile (\<lambda>t. t \<le> ?c) (hits key)"
  have k: "queue_ok now w k (hits k) h" for k using assms(1) by (simp add: tracks_def)
  have f: "q = filter (\<lambda>t. ?c < t) (hits key)"
    unfolding q_def using k[of key] by (intro dropWhile_sorted) (simp add: queue_ok_def)
  then have a: "admissions key ?c h = q" using k[of key] by (simp add: queue_ok_def)
  have q: "sorted q" "\<forall>t\<in>set q. t \<le> now" "filter (\<lambda>t. ?c < t) q = q"
  proof -
    show "sorted q" unfolding f using k[of key] by (intro sorted_wrt_filter) (simp add: queue_ok_def)
    have "set q \<subseteq> set (hits key)" unfolding f by auto
    then show "\<forall>t\<in>set q. t \<le> now" using k[of key] unfolding queue_ok_def by blast
    show "filter (\<lambda>t. ?c < t) q = q" unfolding f by simp
  qed
  have w: "?c < now" using assms(3) by (simp add: second_def)
  show ?thesis
  proof (cases "int (length q) \<ge> limit")
    case True
    have "tracks now w (hits(key := q)) h" using k q a by (simp add: tracks_def queue_ok_def)
    moreover obtain t ts where "q = t # ts" using True assms(2) by (cases q) auto
    ultimately show ?thesis using True a
      by (simp add: memory_allow_def ideal_allow_def admitted_def q_def[symmetric] Let_def)
  next
    case False
    have "queue_ok now w j ((hits(key := q @ [now])) j) (h @ [(now, key)])" for j
      using k[of j] q a w by (simp add: queue_ok_def admissions_snoc sorted_append)
    with False a show ?thesis
      by (simp add: memory_allow_def ideal_allow_def admitted_def tracks_def q_def[symmetric] Let_def)
  qed
qed

lemma run_memory_refines:
  assumes "tracks now w hits h" and "1 \<le> limit" and "0 < w" and "sorted (now # map fst cs)"
  shows "run_memory limit w cs hits = fst (run_ideal limit w cs h)"
  using assms(1,4)
proof (induction cs arbitrary: now hits h)
  case (Cons call cs)
  obtain t key where c: "call = (t, key)" by fastforce
  have "tracks t w hits h" using Cons.prems c by (auto intro: tracks_later)
  note m = memory_allow_refines[OF this assms(2,3), of key]
  have "run_memory limit w cs (snd (memory_allow t key limit w hits)) =
      fst (run_ideal limit w cs (snd (ideal_allow t key limit w h)))"
    using m Cons.prems(2) c by (intro Cons.IH[of t]) auto
  with m c show ?case by (simp add: split_beta)
qed simp

section \<open>The bound\<close>

definition within :: "string \<Rightarrow> int \<Rightarrow> int \<Rightarrow> history \<Rightarrow> history" where
  "within key start until h = filter (\<lambda>e. snd e = key \<and> start < fst e \<and> fst e \<le> until) h"

definition bounded :: "int \<Rightarrow> int \<Rightarrow> history \<Rightarrow> bool" where
  "bounded limit w h \<longleftrightarrow> (\<forall>key start. int (length (within key start (start + w * second) h)) \<le> limit)"

lemma within_admissions: "length (within key start until h) \<le> length (admissions key start h)"
  by (induction h) (auto simp: within_def admissions_def)

lemma admissions_antimono: "c \<le> d \<Longrightarrow> length (admissions key d h) \<le> length (admissions key c h)"
  by (induction h) (auto simp: admissions_def)

lemma ideal_allow_bounded:
  assumes "bounded limit w h" and "0 < w"
  shows "bounded limit w (snd (ideal_allow now key limit w h))"
proof (cases "fst (ideal_allow now key limit w h)")
  case False
  then show ?thesis using assms by (auto simp: ideal_allow_def split: if_splits)
next
  case True
  then have lt: "int (length (admissions key (now - w * second) h)) < limit"
    and h': "snd (ideal_allow now key limit w h) = h @ [(now, key)]"
    by (auto simp: ideal_allow_def split: if_splits)
  have "int (length (within k start (start + w * second) (h @ [(now, key)]))) \<le> limit" for k start
  proof (cases "k = key \<and> start < now \<and> now \<le> start + w * second")
    case True
    then have "length (within k start (start + w * second) h) \<le> length (admissions key (now - w * second) h)"
      using within_admissions[of key start "start + w * second" h]
        admissions_antimono[of "now - w * second" start key h] by simp
    with lt True show ?thesis by (simp add: within_def)
  next
    case False
    then show ?thesis using assms(1) by (auto simp: within_def bounded_def)
  qed
  then show ?thesis using h' by (simp add: bounded_def)
qed

lemma run_ideal_bounded: "bounded limit w h \<Longrightarrow> 0 < w \<Longrightarrow> bounded limit w (snd (run_ideal limit w cs h))"
proof (induction cs arbitrary: h)
  case (Cons call cs)
  then show ?case
    using ideal_allow_bounded[of limit w h] by (cases call) (simp add: split_beta)
qed simp

lemma run_ideal_history:
  "snd (run_ideal limit w cs h) = h @ map fst (filter snd (zip cs (fst (run_ideal limit w cs h))))"
proof (induction cs arbitrary: h)
  case (Cons call cs)
  then show ?case by (cases call) (simp add: split_beta ideal_allow_def)
qed simp

text \<open>Both facts for a limiter that starts empty.\<close>

lemma run_memory_fresh:
  assumes "1 \<le> limit" and "0 < w" and "sorted (map fst calls)"
  shows "run_memory limit w calls (\<lambda>_. []) = fst (run_ideal limit w calls [])"
proof (cases calls)
  case (Cons call cs)
  have "tracks (fst call) w (\<lambda>_. []) []" by (simp add: tracks_def queue_ok_def admissions_def)
  then show ?thesis using run_memory_refines[OF _ assms(1,2), of "fst call" "\<lambda>_. []" "[]" calls] assms(3) Cons by simp
qed simp

lemma run_memory_bounded:
  assumes "1 \<le> limit" and "0 < w" and "sorted (map fst calls)"
  shows "bounded limit w (map fst (filter snd (zip calls (run_memory limit w calls (\<lambda>_. [])))))"
proof -
  have "bounded limit w []" using assms(1) by (simp add: bounded_def within_def)
  from run_ideal_bounded[OF this assms(2), of calls] run_ideal_history[of limit w calls "[]"]
  show ?thesis by (simp add: run_memory_fresh[OF assms])
qed

section \<open>Properties\<close>

text \<open>
  C16. The in-process window refines the unbounded memory: over any sequence of calls in order
  of time, for any keys, it admits exactly the calls that find fewer than \<open>limit\<close>
  admissions of their key younger than the window.
\<close>

theorem sliding_window_refines_history:
  assumes "1 \<le> limit" and "0 < w" and "sorted (map fst calls)"
  shows "run_memory limit w calls (\<lambda>_. []) = fst (run_ideal limit w calls [])"
  by (rule run_memory_fresh[OF assms])

definition sample_calls :: "(int \<times> string) list" where
  "sample_calls = [(0, ''a''), (1, ''a''), (2, ''a''), (2, ''b''), (60000000, ''a''), (60000000, ''a''), (60000001, ''a'')]"

lemma sliding_window_refines_history_witness:
  "run_memory 2 60 sample_calls (\<lambda>_. []) = [True, True, False, True, True, False, True] \<and>
   fst (run_ideal 2 60 sample_calls []) = [True, True, False, True, True, False, True]"
proof -
  have r: "run_memory 2 60 sample_calls (\<lambda>_. []) = [True, True, False, True, True, False, True]" by code_simp
  have "run_memory 2 60 sample_calls (\<lambda>_. []) = fst (run_ideal 2 60 sample_calls [])"
    by (rule sliding_window_refines_history) (simp_all add: sample_calls_def)
  with r show ?thesis by simp
qed

text \<open>
  The bound the limiter is there for: whatever the calls, in every stretch of time of the
  window's length a key has at most \<open>limit\<close> admissions, not only in the windows that end at
  a call.
\<close>

theorem window_never_exceeds_limit:
  assumes "1 \<le> limit" and "0 < w" and "sorted (map fst calls)"
  shows "int (length (within key start (start + w * second)
    (map fst (filter snd (zip calls (run_memory limit w calls (\<lambda>_. []))))))) \<le> limit"
  using run_memory_bounded[OF assms] by (simp add: bounded_def)

lemma window_never_exceeds_limit_witness:
  "length (within ''a'' (-1) 59999999 (map fst (filter snd (zip sample_calls (run_memory 2 60 sample_calls (\<lambda>_. [])))))) = 2 \<and>
   int (length (within ''a'' 0 60000000 (map fst (filter snd (zip sample_calls (run_memory 2 60 sample_calls (\<lambda>_. []))))))) \<le> 2"
proof
  show "length (within ''a'' (-1) 59999999 (map fst (filter snd (zip sample_calls (run_memory 2 60 sample_calls (\<lambda>_. [])))))) = 2"
    by code_simp
  have "sorted (map fst sample_calls)" by (simp add: sample_calls_def)
  from window_never_exceeds_limit[OF _ _ this, of 2 60 "''a''" 0]
  show "int (length (within ''a'' 0 60000000 (map fst (filter snd (zip sample_calls (run_memory 2 60 sample_calls (\<lambda>_. []))))))) \<le> 2"
    by (simp add: second_def)
qed

text \<open>
  A refusal never asks for less than a second, and for at most one second more than the
  window; waiting that long, the oldest admission has left the window.
\<close>

lemma retry_after_bounds:
  assumes "now - w * second < oldest" and "oldest \<le> now"
  shows "1 \<le> retry_after now w oldest \<and> retry_after now w oldest \<le> w + 1 \<and>
    oldest \<le> now + retry_after now w oldest * second - w * second"
proof -
  let ?d = "w * second - (now - oldest)"
  have d: "0 < ?d" "?d \<le> w * second" using assms by simp_all
  have "?d div second * second + ?d mod second = ?d" "?d mod second < second" "0 \<le> ?d div second"
    using d(1) by (simp_all add: second_def)
  moreover have "?d div second \<le> w"
    using zdiv_mono1[OF d(2), of second] by (simp add: second_def)
  ultimately show ?thesis by (simp add: retry_after_def second_def)
qed

text \<open>
  The limiter never fails open: when Redis is not configured, or any command of a call
  raises, the answer is the in-process window's, and the hit counts there.
\<close>

theorem limiter_never_fails_open:
  assumes "client = None \<or> (\<exists>rd. client = Some rd \<and>
      (trim_and_count rd (redis_key lm key) (wall - w * second) r = None \<or>
       (\<exists>n r1. trim_and_count rd (redis_key lm key) (wall - w * second) r = Some (n, r1) \<and>
          (limit \<le> n \<and> oldest_score rd (redis_key lm key) r1 = None \<or>
           n < limit \<and> add_member rd (redis_key lm key) (hit_member wall (lm_counter lm + 1)) wall (w * 1000 + 1000) r1 = None))))"
  shows "\<exists>lm' r'. allow_async client tick wall key limit w lm r =
      (fst (memory_allow tick key limit w (lm_fallback lm)), lm', r') \<and>
    lm_fallback lm' = snd (memory_allow tick key limit w (lm_fallback lm))"
  using assms
  by (cases client) (auto simp: allow_async_def fall_back_def Let_def redis_key_def split_beta)

definition down_redis :: "unit redis" where
  "down_redis = \<lparr>trim_and_count = (\<lambda>_ _ _. None), oldest_score = (\<lambda>_ _. None), add_member = (\<lambda>_ _ _ _ _. None)\<rparr>"

definition sample_limiter :: limiter where
  "sample_limiter = \<lparr>lm_prefix = ''ratelimit'', lm_fallback = (\<lambda>k. if k = ''login:x'' then [1, 2] else []), lm_counter = 0\<rparr>"

lemma limiter_never_fails_open_witness:
  "fst (allow_async (Some down_redis) 5 5 ''login:x'' 2 60 sample_limiter ()) = Inr (False, 60) \<and>
   fst (allow_async None 5 5 ''login:y'' 2 60 sample_limiter ()) = Inr (True, 0)"
proof
  have d: "trim_and_count down_redis k t () = None" for k t by (simp add: down_redis_def)
  have "fst (memory_allow 5 ''login:x'' 2 60 (lm_fallback sample_limiter)) = Inr (False, 60)" by code_simp
  with limiter_never_fails_open[of "Some down_redis" sample_limiter "''login:x''" 5 60 "()" 2 5] d
  show "fst (allow_async (Some down_redis) 5 5 ''login:x'' 2 60 sample_limiter ()) = Inr (False, 60)" by auto
  show "fst (allow_async None 5 5 ''login:y'' 2 60 sample_limiter ()) = Inr (True, 0)" by code_simp
qed

end
