(* ===== verification/AuthRoutes.thy ===== *)
theory AuthRoutes
  imports Auth RateLimit "HOL-Library.List_Lexorder" "HOL-Library.Char_ord"
begin

text \<open>
  The routes of \<open>app/modules/auth/router.py\<close>: the rate limits in front of login and password
  reset, and the endpoints that hand over to the service. The decorator of the \<open>slowapi\<close>
  library in front of two of them is not modelled: it may refuse a request before its body.
\<close>

section \<open>Routes\<close>

text \<open>
  What a route needs besides the database: the settings, the Redis client with its state,
  the two limiters and the two clocks.
\<close>

record 'r gate =
  ga_client :: "'r redis option"
  ga_redis :: 'r
  ga_login :: limiter
  ga_reset :: limiter
  ga_tick :: int
  ga_wall :: int
  ga_login_per_minute :: int
  ga_reset_per_hour :: int

definition check_limit ::
  "(bool \<times> int) result \<Rightarrow> unit result" where
  "check_limit res = bind_ok res (\<lambda>(allowed, retry). if allowed then Inr () else Inl (RateLimitedError (Some retry)))"

record login_request =
  lr_identifier :: string
  lr_password :: string

definition login_route ::
  "auth_env \<Rightarrow> env \<Rightarrow> http_request \<Rightarrow> string option \<Rightarrow> login_request \<Rightarrow> 'r gate \<Rightarrow> db
   \<Rightarrow> token_pair durable \<times> 'r gate" where
  "login_route ax env rq ua data g s =
     (let ip = get_client_ip rq in
      case allow_async (ga_client g) (ga_tick g) (ga_wall g) (login_rate_limit_key ip)
          (ga_login_per_minute g) 60 (ga_login g) (ga_redis g) of
        (res, lm, r) \<Rightarrow>
          (case check_limit res of
             Inl e \<Rightarrow> (s, Inl e)
           | Inr _ \<Rightarrow> login ax env (lr_identifier data) (lr_password data) ip ua s,
           g\<lparr>ga_login := lm, ga_redis := r\<rparr>))"

definition request_password_reset_route ::
  "auth_env \<Rightarrow> env \<Rightarrow> http_request \<Rightarrow> string \<Rightarrow> 'r gate \<Rightarrow> db \<Rightarrow> (unit \<times> db) result \<times> 'r gate" where
  "request_password_reset_route ax env rq identifier g s =
     (let ip = get_client_ip rq in
      case allow_async (ga_client g) (ga_tick g) (ga_wall g) (password_reset_rate_limit_key ip)
          (ga_reset_per_hour g) 3600 (ga_reset g) (ga_redis g) of
        (res, lm, r) \<Rightarrow>
          (bind_ok (check_limit res) (\<lambda>_. request_password_reset ax env identifier ip s),
           g\<lparr>ga_reset := lm, ga_redis := r\<rparr>))"

definition confirm_password_reset_route ::
  "auth_env \<Rightarrow> env \<Rightarrow> http_request \<Rightarrow> string \<Rightarrow> string \<Rightarrow> db \<Rightarrow> (unit \<times> db) result" where
  "confirm_password_reset_route ax env rq raw new_password s =
     confirm_password_reset ax env raw new_password (get_client_ip rq) s"

definition change_password_route ::
  "auth_env \<Rightarrow> env \<Rightarrow> request_context \<Rightarrow> string \<Rightarrow> string \<Rightarrow> db \<Rightarrow> (unit \<times> db) result" where
  "change_password_route ax env ctx current new_password s =
     bind_ok (require_authenticated ctx) (\<lambda>ctx. change_password ax env ctx current new_password s)"

definition refresh_route ::
  "auth_env \<Rightarrow> env \<Rightarrow> http_request \<Rightarrow> string option \<Rightarrow> string \<Rightarrow> db \<Rightarrow> token_pair durable" where
  "refresh_route ax env rq ua raw s = refresh ax env raw (get_client_ip rq) ua s"

definition logout_route ::
  "auth_env \<Rightarrow> env \<Rightarrow> request_context \<Rightarrow> string \<Rightarrow> db \<Rightarrow> (unit \<times> db) result" where
  "logout_route ax env ctx raw s = bind_ok (require_authenticated ctx) (\<lambda>ctx. logout ax env ctx raw s)"

record me_response =
  me_user_id :: ulid
  me_person_id :: "ulid option"
  me_email :: "string option"
  me_phone :: "string option"
  me_is_platform_admin :: bool
  me_organization_id :: "ulid option"
  me_school_id :: "ulid option"
  me_accessible_school_ids :: "ulid list"
  me_role_codes :: "string list"
  me_permissions :: "string list"
  me_must_change_password :: bool

definition me_route :: "request_context \<Rightarrow> db \<Rightarrow> me_response result" where
  "me_route ctx s = bind_ok (require_authenticated ctx) (\<lambda>ctx.
     let u = get_row (user_id ctx) (users s) in
     Inr \<lparr>me_user_id = user_id ctx, me_person_id = person_id ctx,
       me_email = (if truthy (email ctx) then email ctx else Option.bind u us_email),
       me_phone = Option.bind u us_phone, me_is_platform_admin = is_platform_admin ctx,
       me_organization_id = organization_id ctx, me_school_id = school_id ctx,
       me_accessible_school_ids = sorted_list_of_set (accessible_school_ids ctx),
       me_role_codes = sorted_list_of_set (role_codes ctx),
       me_permissions = sorted_list_of_set (permissions ctx),
       me_must_change_password = (case u of None \<Rightarrow> False | Some u \<Rightarrow> us_must_change_password u)\<rparr>)"

section \<open>Sequences of logins\<close>

text \<open>
  Login requests as the server handles them one after the other, each with the reading of
  the clock it finds and its own headers; every one runs in a transaction of its own.
\<close>

type_synonym timed_login = "int \<times> http_request \<times> login_request"

definition at_tick :: "int \<Rightarrow> 'r gate \<Rightarrow> 'r gate" where
  "at_tick t g = g\<lparr>ga_tick := t, ga_wall := t\<rparr>"

fun login_routes ::
  "auth_env \<Rightarrow> env \<Rightarrow> timed_login list \<Rightarrow> 'r gate \<Rightarrow> db \<Rightarrow> token_pair result list" where
  "login_routes ax env [] g s = []"
| "login_routes ax env ((t, rq, data) # rqs) g s =
     (case run_durable (\<lambda>s. fst (login_route ax env rq None data (at_tick t g) s)) s of
        (res, s') \<Rightarrow> res # login_routes ax env rqs (snd (login_route ax env rq None data (at_tick t g) s)) s')"

definition call_of :: "timed_login \<Rightarrow> int \<times> string" where
  "call_of c = (case c of (t, rq, data) \<Rightarrow> (t, login_rate_limit_key (get_client_ip rq)))"

definition rate_limited :: "'a result \<Rightarrow> bool" where
  "rate_limited r = (case r of Inl (RateLimitedError _) \<Rightarrow> True | _ \<Rightarrow> False)"

section \<open>Facts\<close>

lemma login_not_limited: "\<not> rate_limited (snd (login ax env idf pw ip ua s))"
  by (auto simp: login_def issue_pair_def add_refresh_token_def constrained_def rate_limited_def Let_def bind_ok_def
      split: option.splits if_splits sum.splits error.splits)

lemma memory_allow_answers:
  assumes "1 \<le> limit"
  shows "fst (memory_allow now key limit w hits) = Inr (True, 0) \<or>
     (\<exists>n. fst (memory_allow now key limit w hits) = Inr (False, n))"
proof -
  define q where "q = dropWhile (\<lambda>t. t \<le> now - w * second) (hits key)"
  show ?thesis
    unfolding memory_allow_def Let_def q_def[symmetric] using assms by (cases q) simp_all
qed

lemma login_route_local:
  assumes "ga_client g = None" and "1 \<le> ga_login_per_minute g"
  shows "rate_limited (snd (fst (login_route ax env rq ua data g s))) = (\<not> admitted (fst (memory_allow (ga_tick g)
      (login_rate_limit_key (get_client_ip rq)) (ga_login_per_minute g) 60 (lm_fallback (ga_login g))))) \<and>
    snd (login_route ax env rq ua data g s) = g\<lparr>ga_login := (ga_login g)\<lparr>lm_fallback := snd (memory_allow (ga_tick g)
      (login_rate_limit_key (get_client_ip rq)) (ga_login_per_minute g) 60 (lm_fallback (ga_login g)))\<rparr>\<rparr>"
  using memory_allow_answers[OF assms(2), of "ga_tick g" "login_rate_limit_key (get_client_ip rq)" 60
      "lm_fallback (ga_login g)"] assms(1)
  by (auto simp: login_route_def allow_async_def fall_back_def Let_def split_beta check_limit_def admitted_def
      rate_limited_def[of "Inl _"] login_not_limited)

lemma run_durable_limited: "rate_limited (fst (run_durable f s)) = rate_limited (snd (f s))"
  by (auto simp: run_durable_def check_audit_rows_def rate_limited_def split: prod.splits sum.splits)

lemma login_routes_flags:
  assumes "ga_client g = None" and "1 \<le> ga_login_per_minute g"
  shows "map (\<lambda>r. \<not> rate_limited r) (login_routes ax env rqs g s) =
    run_memory (ga_login_per_minute g) 60 (map call_of rqs) (lm_fallback (ga_login g))"
  using assms
proof (induction rqs arbitrary: g s)
  case (Cons c rqs)
  obtain t rq data where c: "c = (t, rq, data)" by (metis prod.exhaust)
  let ?g = "at_tick t g"
  have g: "ga_client ?g = None" "1 \<le> ga_login_per_minute ?g" "ga_login_per_minute ?g = ga_login_per_minute g"
    "ga_login ?g = ga_login g" "ga_tick ?g = t"
    using Cons.prems by (simp_all add: at_tick_def)
  note l = login_route_local[OF g(1,2), of ax env rq None data]
  let ?g' = "snd (login_route ax env rq None data ?g s)"
  have "ga_client ?g' = None" "1 \<le> ga_login_per_minute ?g'" "ga_login_per_minute ?g' = ga_login_per_minute g"
    using l[of s] g by simp_all
  with l[of s] Cons.IH[of ?g' "snd (run_durable (\<lambda>s. fst (login_route ax env rq None data ?g s)) s)"] g
  show ?case by (simp add: c call_of_def split_beta run_durable_limited)
qed simp

lemma login_key_inj: "inj_on login_rate_limit_key {ip. truthy ip}"
  by (rule inj_onI) (auto simp: login_rate_limit_key_def truthy_def split: option.splits)

text \<open>Calls with keys nobody used yet are all admitted.\<close>

lemma run_memory_fresh_keys:
  assumes "1 \<le> limit" and "distinct (map snd calls)" and "\<And>c. c \<in> set calls \<Longrightarrow> hits (snd c) = []"
  shows "run_memory limit w calls hits = replicate (length calls) True"
  using assms(2,3)
proof (induction calls arbitrary: hits)
  case (Cons c calls)
  obtain t k where c: "c = (t, k)" by fastforce
  have "memory_allow t k limit w hits = (Inr (True, 0), hits(k := [t]))"
    using Cons.prems(2)[of c] assms(1) c by (simp add: memory_allow_def)
  moreover have "run_memory limit w calls (hits(k := [t])) = replicate (length calls) True"
    using Cons.prems c by (intro Cons.IH) auto
  ultimately show ?case using c by (simp add: admitted_def)
qed simp

section \<open>Properties\<close>

definition fresh_gate :: "unit gate" where
  "fresh_gate = \<lparr>ga_client = None, ga_redis = (), ga_login = \<lparr>lm_prefix = ''ratelimit'', lm_fallback = (\<lambda>_. []), lm_counter = 0\<rparr>,
     ga_reset = \<lparr>lm_prefix = ''ratelimit'', lm_fallback = (\<lambda>_. []), lm_counter = 0\<rparr>, ga_tick = 0, ga_wall = 0,
     ga_login_per_minute = 2, ga_reset_per_hour = 3\<rparr>"

definition login_from :: "string \<Rightarrow> timed_login" where
  "login_from ip = (0, \<lparr>rq_authorization = None, rq_school_header = None, rq_forwarded_for = Some ip,
     rq_client_host = Some ''10.0.0.1'', rq_request_id = ''q''\<rparr>, \<lparr>lr_identifier = ''a'', lr_password = ''guess''\<rparr>)"

text \<open>
  C17. Without Redis, in one process that takes its requests one after the other, the login route lets at most the
  configured number of attempts from one address through to the password check in any minute; the others answer
  429. With Redis no such bound holds, since counting and adding are separate commands.
\<close>

theorem login_route_bounded:
  assumes "ga_client g = None" and "1 \<le> ga_login_per_minute g" and "\<forall>k. lm_fallback (ga_login g) k = []"
    and "sorted (map fst rqs)"
  shows "int (length (within (login_rate_limit_key ip) start (start + 60 * second)
    (map fst (filter snd (zip (map call_of rqs)
       (map (\<lambda>r. \<not> rate_limited r) (login_routes ax env rqs g s))))))) \<le> ga_login_per_minute g"
proof -
  have e: "lm_fallback (ga_login g) = (\<lambda>_. [])" using assms(3) by auto
  have "map fst (map call_of rqs) = map fst rqs" by (auto simp: call_of_def)
  with assms(4) have "sorted (map fst (map call_of rqs))" by (simp only:)
  from run_memory_bounded[OF assms(2) _ this, of 60] show ?thesis
    unfolding login_routes_flags[OF assms(1,2)] e by (simp add: bounded_def)
qed

lemma login_route_bounded_witness:
  "map rate_limited (login_routes sample_ax sample_audit_env (map login_from [''1.1.1.1'', ''1.1.1.1'', ''1.1.1.1'']) fresh_gate empty_db)
     = [False, False, True] \<and>
   int (length (within ''login:1.1.1.1'' (-1) 59999999 (map fst (filter snd (zip (map call_of (map login_from [''1.1.1.1'', ''1.1.1.1'', ''1.1.1.1'']))
       (map (\<lambda>r. \<not> rate_limited r) (login_routes sample_ax sample_audit_env (map login_from [''1.1.1.1'', ''1.1.1.1'', ''1.1.1.1'']) fresh_gate empty_db))))))) \<le> 2"
proof
  show "map rate_limited (login_routes sample_ax sample_audit_env (map login_from [''1.1.1.1'', ''1.1.1.1'', ''1.1.1.1'']) fresh_gate empty_db)
     = [False, False, True]" by code_simp
  have k: "login_rate_limit_key (Some ''1.1.1.1'') = ''login:1.1.1.1''" by code_simp
  have "sorted (map fst (map login_from [''1.1.1.1'', ''1.1.1.1'', ''1.1.1.1'']))" by (simp add: login_from_def)
  from login_route_bounded[OF _ _ _ this, of fresh_gate "Some ''1.1.1.1''" "-1" sample_ax sample_audit_env empty_db]
  show "int (length (within ''login:1.1.1.1'' (-1) 59999999 (map fst (filter snd (zip (map call_of (map login_from [''1.1.1.1'', ''1.1.1.1'', ''1.1.1.1'']))
       (map (\<lambda>r. \<not> rate_limited r) (login_routes sample_ax sample_audit_env (map login_from [''1.1.1.1'', ''1.1.1.1'', ''1.1.1.1'']) fresh_gate empty_db))))))) \<le> 2"
    by (simp add: fresh_gate_def k second_def)
qed

text \<open>
  The address is the first entry of a header the client itself writes: a client that sends a
  new one with every request is never limited, however many passwords it tries.
\<close>

theorem spoofed_address_evades_limit:
  assumes "ga_client g = None" and "1 \<le> ga_login_per_minute g"
    and "distinct (map (\<lambda>c. get_client_ip (fst (snd c))) rqs)"
    and "list_all (\<lambda>c. truthy (get_client_ip (fst (snd c))) \<and>
       lm_fallback (ga_login g) (login_rate_limit_key (get_client_ip (fst (snd c)))) = []) rqs"
  shows "map rate_limited (login_routes ax env rqs g s) = replicate (length rqs) False"
proof -
  have d: "distinct (map snd (map call_of rqs))"
  proof -
    have "map snd (map call_of rqs) = map login_rate_limit_key (map (\<lambda>c. get_client_ip (fst (snd c))) rqs)"
      by (auto simp: call_of_def)
    moreover have "inj_on login_rate_limit_key (set (map (\<lambda>c. get_client_ip (fst (snd c))) rqs))"
      using assms(4) by (intro inj_on_subset[OF login_key_inj]) (auto simp: list_all_iff)
    ultimately show ?thesis using assms(3) by (simp only: distinct_map)
  qed
  have "map (\<lambda>r. \<not> rate_limited r) (login_routes ax env rqs g s) = replicate (length (map call_of rqs)) True"
    unfolding login_routes_flags[OF assms(1,2)]
    by (rule run_memory_fresh_keys[OF assms(2) d]) (use assms(4) in \<open>auto simp: call_of_def list_all_iff\<close>)
  then have "map Not (map (\<lambda>r. \<not> rate_limited r) (login_routes ax env rqs g s)) = replicate (length rqs) False"
    by simp
  then show ?thesis by (simp add: comp_def)
qed

lemma spoofed_address_evades_limit_witness:
  "map rate_limited (login_routes sample_ax sample_audit_env (map login_from [''1.1.1.1'', ''1.1.1.2'', ''1.1.1.3'', ''1.1.1.4''])
     fresh_gate empty_db) = [False, False, False, False]"
proof -
  let ?rqs = "map login_from [''1.1.1.1'', ''1.1.1.2'', ''1.1.1.3'', ''1.1.1.4'']"
  have "distinct (map (\<lambda>c. get_client_ip (fst (snd c))) ?rqs)" by code_simp
  moreover have "list_all (\<lambda>c. truthy (get_client_ip (fst (snd c))) \<and>
       lm_fallback (ga_login fresh_gate) (login_rate_limit_key (get_client_ip (fst (snd c)))) = []) ?rqs" by code_simp
  ultimately show ?thesis
    using spoofed_address_evades_limit[of fresh_gate ?rqs sample_ax sample_audit_env empty_db] by (simp add: fresh_gate_def)
qed

end
