(* ===== verification/AcademicCalendar.thy ===== *)
theory AcademicCalendar
  imports Platform Interfaces
begin

text \<open>
  Academic years and terms: \<open>app/modules/academic/academic_years\<close> and \<open>academic_terms\<close>,
  services and repositories.
\<close>

section \<open>Writing a row with a version\<close>

text \<open>\<open>row.updated_by_id = ctx.user_id; await session.flush()\<close>, and the soft delete.\<close>

definition save_row ::
  "env \<Rightarrow> request_context \<Rightarrow> 'a versioned_row_scheme \<Rightarrow> 'a versioned_row_scheme \<Rightarrow> 'a versioned_row_scheme" where
  "save_row env ctx old new = flush_versioned (env_now env) old (new\<lparr>updated_by_id := Some (user_id ctx)\<rparr>)"

definition soft_delete :: "env \<Rightarrow> request_context \<Rightarrow> 'a soft_row_scheme \<Rightarrow> 'a soft_row_scheme" where
  "soft_delete env ctx x = save_row env ctx x (x\<lparr>deleted_at := Some (env_now env)\<rparr>)"

definition no_school_set :: error where
  "no_school_set = InvalidRequestError ''VALIDATION_ERROR''"

section \<open>Academic years\<close>

fun year_status_value :: "academic_year_status \<Rightarrow> string" where
  "year_status_value AY_DRAFT = ''DRAFT''"
| "year_status_value AY_ACTIVE = ''ACTIVE''"
| "year_status_value AY_CLOSED = ''CLOSED''"

definition year_snapshot :: "academic_year \<Rightarrow> snapshot" where
  "year_snapshot y = [(''code'', JStr (ay_code y)), (''name'', JStr (ay_name y)),
     (''is_current'', JBool (ay_is_current y)), (''status'', JStr (year_status_value (ay_status y))),
     (''start_date'', JDateStr (ay_start_date y)), (''end_date'', JDateStr (ay_end_date y))]"

record year_create =
  yc_code :: string
  yc_name :: string
  yc_start_date :: date
  yc_end_date :: date
  yc_is_current :: bool
  yc_status :: academic_year_status

record year_update =
  yu_name :: "string option"
  yu_start_date :: "date option"
  yu_end_date :: "date option"
  yu_is_current :: "bool option"
  yu_status :: "academic_year_status option"
  yu_version :: int

definition year_by_id :: "db \<Rightarrow> ulid \<Rightarrow> ulid \<Rightarrow> academic_year option" where
  "year_by_id s sch i =
     find (\<lambda>y. row_id y = i \<and> ay_school_id y = sch \<and> deleted_at y = None) (academic_years s)"

definition year_by_code :: "academic_year list \<Rightarrow> ulid \<Rightarrow> string \<Rightarrow> academic_year option" where
  "year_by_code t sch c =
     find (\<lambda>y. ay_school_id y = sch \<and> py_lower (ay_code y) = py_lower c \<and> deleted_at y = None) t"

text \<open>\<open>unset_current\<close>: one UPDATE statement; it does not go through the version counter.\<close>

definition unset_current :: "env \<Rightarrow> ulid option \<Rightarrow> ulid \<Rightarrow> academic_year list \<Rightarrow> academic_year list" where
  "unset_current env sch except t =
     update_where (\<lambda>y. Some (ay_school_id y) = sch \<and> row_id y \<noteq> except \<and> ay_is_current y \<and> deleted_at y = None)
       (\<lambda>y. y\<lparr>ay_is_current := False, updated_at := env_now env\<rparr>) t"

text \<open>A flush that wrote academic years: the two indexes.\<close>

definition flush_years :: "academic_year list \<Rightarrow> academic_year list result" where
  "flush_years t =
     bind_ok (constrained (uq_academic_years_school_id_code t) ''uq_academic_years_school_id_code'' t) (\<lambda>t.
       constrained (uq_academic_years_one_current_per_school t) ''uq_academic_years_one_current_per_school'' t)"

definition year_not_found :: error where
  "year_not_found = NotFoundError ''ACADEMIC_YEAR_NOT_FOUND''"

definition new_year :: "env \<Rightarrow> request_context \<Rightarrow> ulid \<Rightarrow> ulid \<Rightarrow> year_create \<Rightarrow> db \<Rightarrow> academic_year" where
  "new_year env ctx sch org data s =
     \<lparr>row_id = new_id env ''academic_years'' (academic_years s), created_at = env_now env,
      updated_at = env_now env, created_by_id = Some (user_id ctx), updated_by_id = None, version = 1,
      archived_at = None, deleted_at = None, ay_school_id = sch, ay_organization_id = org,
      ay_code = yc_code data, ay_name = yc_name data, ay_start_date = yc_start_date data,
      ay_end_date = yc_end_date data, ay_is_current = yc_is_current data, ay_status = yc_status data\<rparr>"

definition create_year ::
  "env \<Rightarrow> request_context \<Rightarrow> year_create \<Rightarrow> db \<Rightarrow> (academic_year \<times> db) result" where
  "create_year env ctx data s = (case school_id ctx of
     None \<Rightarrow> Inl no_school_set
   | Some sch \<Rightarrow>
       if year_by_code (academic_years s) sch (yc_code data) \<noteq> None
       then Inl (ConflictError ''ACADEMIC_YEAR_CODE_TAKEN'')
       else (case organization_id ctx of
          None \<Rightarrow> Inl (IntegrityError ''organization_id'')
        | Some org \<Rightarrow>
          let y = new_year env ctx sch org data s in
          bind_ok (flush_years (insert_row y (academic_years s))) (\<lambda>t.
            Inr (y, audit env ctx ''ACADEMIC_YEAR_CREATED'' ''academic_year'' (Some (row_id y))
              None (Some (year_snapshot y))
              (s\<lparr>academic_years := if ay_is_current y then unset_current env (Some sch) (row_id y) t else t\<rparr>)))))"

definition year_payload :: "year_update \<Rightarrow> academic_year \<Rightarrow> academic_year" where
  "year_payload data y =
     assign ay_status_update (yu_status data) (assign ay_is_current_update (yu_is_current data)
       (assign ay_end_date_update (yu_end_date data) (assign ay_start_date_update (yu_start_date data)
         (assign ay_name_update (yu_name data) y))))"

definition update_year ::
  "env \<Rightarrow> request_context \<Rightarrow> academic_year \<Rightarrow> year_update \<Rightarrow> db \<Rightarrow> (academic_year \<times> db) result" where
  "update_year env ctx y data s =
     (if version y \<noteq> yu_version data then Inl StaleResourceError
      else let y' = save_row env ctx y (year_payload data y) in
        bind_ok (flush_years (update_row y' (academic_years s))) (\<lambda>t.
          Inr (y', audit env ctx ''ACADEMIC_YEAR_UPDATED'' ''academic_year'' (Some (row_id y'))
            (Some (year_snapshot y)) (Some (year_snapshot y'))
            (s\<lparr>academic_years := if yu_is_current data = Some True
                 then unset_current env (school_id ctx) (row_id y') t else t\<rparr>))))"

definition delete_year ::
  "env \<Rightarrow> request_context \<Rightarrow> academic_year \<Rightarrow> int \<Rightarrow> db \<Rightarrow> (unit \<times> db) result" where
  "delete_year env ctx y ver s =
     (if version y \<noteq> ver then Inl StaleResourceError
      else Inr ((), audit env ctx ''ACADEMIC_YEAR_DELETED'' ''academic_year'' (Some (row_id y))
        (Some (year_snapshot y)) None
        (s\<lparr>academic_years := update_row (soft_delete env ctx y) (academic_years s)\<rparr>)))"

definition get_year_owned :: "request_context \<Rightarrow> ulid \<Rightarrow> db \<Rightarrow> academic_year result" where
  "get_year_owned ctx i s = (case school_id ctx of
     None \<Rightarrow> Inl year_not_found
   | Some sch \<Rightarrow> ok_or year_not_found (year_by_id s sch i))"

section \<open>Academic terms\<close>

fun term_status_value :: "academic_term_status \<Rightarrow> string" where
  "term_status_value TM_ACTIVE = ''ACTIVE''"
| "term_status_value TM_CLOSED = ''CLOSED''"

definition term_snapshot :: "academic_term \<Rightarrow> snapshot" where
  "term_snapshot x = [(''code'', JStr (tm_code x)), (''name'', JStr (tm_name x)),
     (''status'', JStr (term_status_value (tm_status x))),
     (''academic_year_id'', JStr (tm_academic_year_id x)),
     (''start_date'', JDateStr (tm_start_date x)), (''end_date'', JDateStr (tm_end_date x))]"

record term_create =
  tc_academic_year_id :: ulid
  tc_code :: string
  tc_name :: string
  tc_start_date :: date
  tc_end_date :: date
  tc_status :: academic_term_status

record term_update =
  xu_name :: "string option"
  xu_start_date :: "date option"
  xu_end_date :: "date option"
  xu_status :: "academic_term_status option"
  xu_version :: int

definition term_by_id :: "db \<Rightarrow> ulid \<Rightarrow> ulid \<Rightarrow> academic_term option" where
  "term_by_id s sch i =
     find (\<lambda>x. row_id x = i \<and> tm_school_id x = sch \<and> deleted_at x = None) (academic_terms s)"

definition term_by_code :: "academic_term list \<Rightarrow> ulid \<times> ulid \<Rightarrow> string \<Rightarrow> academic_term option" where
  "term_by_code t sy c =
     find (\<lambda>x. (tm_school_id x, tm_academic_year_id x) = sy \<and> py_lower (tm_code x) = py_lower c \<and>
       deleted_at x = None) t"

definition validate_term_dates :: "date \<Rightarrow> date \<Rightarrow> date \<Rightarrow> date \<Rightarrow> unit result" where
  "validate_term_dates term_start term_end year_start year_end =
     bind_ok (guard (term_start < year_start \<or> term_end > year_end) (InvalidRequestError ''VALIDATION_ERROR''))
       (\<lambda>_. guard (term_end < term_start) (InvalidRequestError ''VALIDATION_ERROR''))"

definition new_term :: "env \<Rightarrow> request_context \<Rightarrow> ulid \<Rightarrow> ulid \<Rightarrow> term_create \<Rightarrow> db \<Rightarrow> academic_term" where
  "new_term env ctx sch org data s =
     \<lparr>row_id = new_id env ''academic_terms'' (academic_terms s), created_at = env_now env,
      updated_at = env_now env, created_by_id = Some (user_id ctx), updated_by_id = None, version = 1,
      archived_at = None, deleted_at = None, tm_school_id = sch, tm_organization_id = org,
      tm_academic_year_id = tc_academic_year_id data, tm_code = tc_code data, tm_name = tc_name data,
      tm_start_date = tc_start_date data, tm_end_date = tc_end_date data, tm_status = tc_status data\<rparr>"

definition create_term ::
  "env \<Rightarrow> request_context \<Rightarrow> term_create \<Rightarrow> db \<Rightarrow> (academic_term \<times> db) result" where
  "create_term env ctx data s = (case school_id ctx of
     None \<Rightarrow> Inl no_school_set
   | Some sch \<Rightarrow>
       bind_ok (ok_or year_not_found (year_by_id s sch (tc_academic_year_id data))) (\<lambda>y.
       bind_ok (validate_term_dates (tc_start_date data) (tc_end_date data) (ay_start_date y) (ay_end_date y)) (\<lambda>_.
         if term_by_code (academic_terms s) (sch, tc_academic_year_id data) (tc_code data) \<noteq> None
         then Inl (ConflictError ''ACADEMIC_TERM_CODE_TAKEN'')
         else (case organization_id ctx of
            None \<Rightarrow> Inl (IntegrityError ''organization_id'')
          | Some org \<Rightarrow>
            let x = new_term env ctx sch org data s; t = insert_row x (academic_terms s) in
            bind_ok (constrained (uq_academic_terms_school_year_code t) ''uq_academic_terms_school_year_code'' t) (\<lambda>t.
              Inr (x, audit env ctx ''ACADEMIC_TERM_CREATED'' ''academic_term'' (Some (row_id x))
                None (Some (term_snapshot x)) (s\<lparr>academic_terms := t\<rparr>)))))))"

definition term_payload :: "term_update \<Rightarrow> academic_term \<Rightarrow> academic_term" where
  "term_payload data x =
     assign tm_status_update (xu_status data) (assign tm_end_date_update (xu_end_date data)
       (assign tm_start_date_update (xu_start_date data) (assign tm_name_update (xu_name data) x)))"

definition update_term ::
  "env \<Rightarrow> request_context \<Rightarrow> academic_term \<Rightarrow> term_update \<Rightarrow> db \<Rightarrow> (academic_term \<times> db) result" where
  "update_term env ctx x data s =
     (if version x \<noteq> xu_version data then Inl StaleResourceError
      else
        let new_start = (case xu_start_date data of None \<Rightarrow> tm_start_date x | Some d \<Rightarrow> d);
            new_end = (case xu_end_date data of None \<Rightarrow> tm_end_date x | Some d \<Rightarrow> d) in
        bind_ok (ok_or year_not_found (Option.bind (school_id ctx) (\<lambda>sch. year_by_id s sch (tm_academic_year_id x)))) (\<lambda>y.
        bind_ok (validate_term_dates new_start new_end (ay_start_date y) (ay_end_date y)) (\<lambda>_.
          let x' = save_row env ctx x (term_payload data x) in
          Inr (x', audit env ctx ''ACADEMIC_TERM_UPDATED'' ''academic_term'' (Some (row_id x'))
            (Some (term_snapshot x)) (Some (term_snapshot x'))
            (s\<lparr>academic_terms := update_row x' (academic_terms s)\<rparr>)))))"

definition delete_term ::
  "env \<Rightarrow> request_context \<Rightarrow> academic_term \<Rightarrow> int \<Rightarrow> db \<Rightarrow> (unit \<times> db) result" where
  "delete_term env ctx x ver s =
     (if version x \<noteq> ver then Inl StaleResourceError
      else Inr ((), audit env ctx ''ACADEMIC_TERM_DELETED'' ''academic_term'' (Some (row_id x))
        (Some (term_snapshot x)) None
        (s\<lparr>academic_terms := update_row (soft_delete env ctx x) (academic_terms s)\<rparr>)))"

definition term_not_found :: error where
  "term_not_found = NotFoundError ''ACADEMIC_TERM_NOT_FOUND''"

definition get_term_owned :: "request_context \<Rightarrow> ulid \<Rightarrow> db \<Rightarrow> academic_term result" where
  "get_term_owned ctx i s = (case school_id ctx of
     None \<Rightarrow> Inl term_not_found
   | Some sch \<Rightarrow> ok_or term_not_found (term_by_id s sch i))"

section \<open>Facts\<close>

lemma save_row_id [simp]: "row_id new = row_id old \<Longrightarrow> row_id (save_row env ctx old new) = row_id old"
  by (simp add: save_row_def)

lemma save_row_version: "save_row env ctx old new = old \<or> version (save_row env ctx old new) = version old + 1"
  by (simp add: save_row_def flush_versioned_def)

lemma soft_delete_id [simp]: "row_id (soft_delete env ctx x) = row_id x"
  by (simp add: soft_delete_def)


lemma save_row_year [simp]:
  "ay_school_id (save_row env ctx y z) = ay_school_id z" "ay_code (save_row env ctx y z) = ay_code z"
  "ay_start_date (save_row env ctx y z) = ay_start_date z" "ay_end_date (save_row env ctx y z) = ay_end_date z"
  "ay_is_current (save_row env ctx y z) = ay_is_current z" "deleted_at (save_row env ctx y z) = deleted_at z"
  for y z :: academic_year
  by (auto simp: save_row_def flush_versioned_def)

lemma save_row_term [simp]:
  "tm_school_id (save_row env ctx x z) = tm_school_id z" "tm_code (save_row env ctx x z) = tm_code z"
  "tm_academic_year_id (save_row env ctx x z) = tm_academic_year_id z"
  "tm_start_date (save_row env ctx x z) = tm_start_date z" "tm_end_date (save_row env ctx x z) = tm_end_date z"
  "deleted_at (save_row env ctx x z) = deleted_at z"
  for x z :: academic_term
  by (auto simp: save_row_def flush_versioned_def)

lemma soft_delete_deleted [simp]:
  "deleted_at (soft_delete env ctx y) = Some (env_now env)" for y :: academic_year
  by (simp add: soft_delete_def)

lemma soft_delete_term [simp]:
  "deleted_at (soft_delete env ctx x) = Some (env_now env)" for x :: academic_term
  by (simp add: soft_delete_def)

lemma year_payload_fields [simp]:
  "row_id (year_payload d y) = row_id y" "ay_school_id (year_payload d y) = ay_school_id y"
  "ay_code (year_payload d y) = ay_code y" "deleted_at (year_payload d y) = deleted_at y"
  "ay_is_current (year_payload d y) = (case yu_is_current d of None \<Rightarrow> ay_is_current y | Some b \<Rightarrow> b)"
  by (simp_all add: year_payload_def assign_def split: option.split)

lemma term_payload_fields [simp]:
  "row_id (term_payload d x) = row_id x" "tm_school_id (term_payload d x) = tm_school_id x"
  "tm_code (term_payload d x) = tm_code x" "deleted_at (term_payload d x) = deleted_at x"
  "tm_academic_year_id (term_payload d x) = tm_academic_year_id x"
  "tm_start_date (term_payload d x) = (case xu_start_date d of None \<Rightarrow> tm_start_date x | Some d \<Rightarrow> d)"
  "tm_end_date (term_payload d x) = (case xu_end_date d of None \<Rightarrow> tm_end_date x | Some d \<Rightarrow> d)"
  by (simp_all add: term_payload_def assign_def split: option.split)

lemma new_year_fields [simp]:
  "row_id (new_year env ctx sch org d s) = new_id env ''academic_years'' (academic_years s)"
  "ay_school_id (new_year env ctx sch org d s) = sch" "ay_code (new_year env ctx sch org d s) = yc_code d"
  "ay_is_current (new_year env ctx sch org d s) = yc_is_current d" "deleted_at (new_year env ctx sch org d s) = None"
  by (simp_all add: new_year_def)

lemma new_term_fields [simp]:
  "row_id (new_term env ctx sch org d s) = new_id env ''academic_terms'' (academic_terms s)"
  "tm_school_id (new_term env ctx sch org d s) = sch" "tm_code (new_term env ctx sch org d s) = tc_code d"
  "tm_academic_year_id (new_term env ctx sch org d s) = tc_academic_year_id d"
  "tm_start_date (new_term env ctx sch org d s) = tc_start_date d" "tm_end_date (new_term env ctx sch org d s) = tc_end_date d"
  "deleted_at (new_term env ctx sch org d s) = None"
  by (simp_all add: new_term_def)

lemma flush_years_Inr: "flush_years t = Inr t' \<longleftrightarrow>
    t' = t \<and> uq_academic_years_school_id_code t \<and> uq_academic_years_one_current_per_school t"
  by (auto simp: flush_years_def bind_ok_Inr_iff)

lemma validate_term_dates_Inr: "validate_term_dates a b c d = Inr u \<longleftrightarrow> c \<le> a \<and> a \<le> b \<and> b \<le> d"
  by (auto simp: validate_term_dates_def bind_ok_Inr_iff)

lemma year_by_id_SomeD: "year_by_id s sch i = Some y \<Longrightarrow> y \<in> set (academic_years s) \<and> row_id y = i \<and>
    ay_school_id y = sch \<and> deleted_at y = None"
  by (auto simp: year_by_id_def dest: find_SomeD)

lemma term_by_id_SomeD: "term_by_id s sch i = Some x \<Longrightarrow> x \<in> set (academic_terms s) \<and> row_id x = i \<and>
    tm_school_id x = sch \<and> deleted_at x = None"
  by (auto simp: term_by_id_def dest: find_SomeD)

lemma get_year_owned_Inr: "get_year_owned ctx i s = Inr y \<longleftrightarrow>
    (\<exists>sch. school_id ctx = Some sch \<and> year_by_id s sch i = Some y)"
  by (simp add: get_year_owned_def split: option.split)

lemma get_term_owned_Inr: "get_term_owned ctx i s = Inr x \<longleftrightarrow>
    (\<exists>sch. school_id ctx = Some sch \<and> term_by_id s sch i = Some x)"
  by (simp add: get_term_owned_def split: option.split)

text \<open>
  After a flush that wrote a current year there is no other current year in its school, so
  the statement that would unset the others finds none.
\<close>

lemma unset_current_idle:
  assumes "uq_academic_years_one_current_per_school t" and "pk_unique t" and "y \<in> set t" and "ay_is_current y"
    and "deleted_at y = None" and "sch = Some (ay_school_id y)"
  shows "unset_current env sch (row_id y) t = t"
proof -
  have no: "\<not> (Some (ay_school_id x) = sch \<and> row_id x \<noteq> row_id y \<and> ay_is_current x \<and> deleted_at x = None)" if "x \<in> set t" for x
    using unique_onD[OF assms(1)[unfolded uq_academic_years_one_current_per_school_def] that assms(3)] assms(4-6) by auto
  show ?thesis unfolding unset_current_def update_where_def by (intro map_idI if_not_P no)
qed

interpretation year_codes: code_table year_by_code "\<lambda>y. deleted_at y = None" ay_school_id ay_code py_lower
proof
  show "x \<in> set t \<and> deleted_at x = None \<and> ay_school_id x = k \<and> py_lower (ay_code x) = py_lower c"
    if "year_by_code t k c = Some x" for t k c x
    using that by (auto simp: year_by_code_def dest: find_SomeD)
  show "py_lower (ay_code x) \<noteq> py_lower c"
    if "year_by_code t k c = None" "x \<in> set t" "deleted_at x = None" "ay_school_id x = k" for t k c x
    using that by (auto simp: year_by_code_def dest: find_NoneD)
qed

interpretation term_codes: code_table term_by_code "\<lambda>x. deleted_at x = None"
    "\<lambda>x. (tm_school_id x, tm_academic_year_id x)" tm_code py_lower
proof
  show "x \<in> set t \<and> deleted_at x = None \<and> (tm_school_id x, tm_academic_year_id x) = k \<and> py_lower (tm_code x) = py_lower c"
    if "term_by_code t k c = Some x" for t k c x
    using that by (auto simp: term_by_code_def dest: find_SomeD)
  show "py_lower (tm_code x) \<noteq> py_lower c"
    if "term_by_code t k c = None" "x \<in> set t" "deleted_at x = None" "(tm_school_id x, tm_academic_year_id x) = k" for t k c x
    using that by (auto simp: term_by_code_def dest: find_NoneD)
qed

section \<open>Transitions\<close>

text \<open>What each operation does to the two tables, when it returns.\<close>

lemma create_year_tables:
  assumes "create_year env ctx d s = Inr (y, s')"
    and "new_id env ''academic_years'' (academic_years s) \<notin> ids (academic_years s)" and "pk_unique (academic_years s)"
  shows "\<exists>sch org. school_id ctx = Some sch \<and> y = new_year env ctx sch org d s \<and>
    year_by_code (academic_years s) sch (yc_code d) = None \<and>
    academic_years s' = insert_row y (academic_years s) \<and> academic_terms s' = academic_terms s \<and>
    uq_academic_years_one_current_per_school (academic_years s')"
proof -
  obtain sch where sch: "school_id ctx = Some sch"
    using assms(1) by (cases "school_id ctx") (simp_all add: create_year_def)
  have code: "year_by_code (academic_years s) sch (yc_code d) = None"
    using assms(1) sch by (cases "year_by_code (academic_years s) sch (yc_code d)") (simp_all add: create_year_def)
  obtain org where org: "organization_id ctx = Some org"
    using assms(1) sch code by (cases "organization_id ctx") (simp_all add: create_year_def)
  let ?y = "new_year env ctx sch org d s"
  from assms(1) sch code org obtain t where t: "flush_years (insert_row ?y (academic_years s)) = Inr t"
      "Inr (?y, audit env ctx ''ACADEMIC_YEAR_CREATED'' ''academic_year'' (Some (row_id ?y)) None (Some (year_snapshot ?y))
        (s\<lparr>academic_years := if ay_is_current ?y then unset_current env (Some sch) (row_id ?y) t else t\<rparr>)) = (Inr (y, s') :: (academic_year \<times> db) result)"
    unfolding create_year_def by (auto simp: Let_def bind_ok_Inr_iff)
  then have c: "school_id ctx = Some sch" "organization_id ctx = Some org"
      "year_by_code (academic_years s) sch (yc_code d) = None" "y = new_year env ctx sch org d s"
      "flush_years (insert_row y (academic_years s)) = Inr t"
      "academic_years s' = (if ay_is_current y then unset_current env (Some sch) (row_id y) t else t)"
      "academic_terms s' = academic_terms s"
    using sch org code by auto
  then have f: "t = insert_row y (academic_years s)" "uq_academic_years_one_current_per_school t"
    by (simp_all add: flush_years_Inr)
  have "pk_unique t" "y \<in> set t" using assms(2,3) c(4) f(1) by (simp_all add: set_insert_row)
  then have "academic_years s' = t"
    using unset_current_idle[OF f(2), of y "Some sch" env] c(4,6) by (cases "ay_is_current y") simp_all
  with f have "academic_years s' = insert_row y (academic_years s)"
    "uq_academic_years_one_current_per_school (academic_years s')" by metis+
  with c(1,3,4,7) show ?thesis by blast
qed

lemma update_year_tables:
  assumes "update_year env ctx y d s = Inr (y', s')" and "year_by_id s sch i = Some y" and "school_id ctx = Some sch"
    and "pk_unique (academic_years s)"
  shows "y' = save_row env ctx y (year_payload d y) \<and> version y = yu_version d \<and>
    academic_years s' = update_row y' (academic_years s) \<and> academic_terms s' = academic_terms s \<and>
    uq_academic_years_one_current_per_school (academic_years s')"
proof -
  let ?y = "save_row env ctx y (year_payload d y)"
  have v: "version y = yu_version d" using assms(1) by (simp add: update_year_def split: if_splits)
  with assms(1) obtain t where t: "flush_years (update_row ?y (academic_years s)) = Inr t"
      "Inr (?y, audit env ctx ''ACADEMIC_YEAR_UPDATED'' ''academic_year'' (Some (row_id ?y)) (Some (year_snapshot y))
        (Some (year_snapshot ?y)) (s\<lparr>academic_years := if yu_is_current d = Some True
          then unset_current env (school_id ctx) (row_id ?y) t else t\<rparr>)) = (Inr (y', s') :: (academic_year \<times> db) result)"
    unfolding update_year_def by (auto simp: Let_def bind_ok_Inr_iff)
  have c: "y' = ?y" "academic_years s' = (if yu_is_current d = Some True
      then unset_current env (school_id ctx) (row_id ?y) t else t)" "academic_terms s' = academic_terms s"
    using t(2) by auto
  have f: "t = update_row ?y (academic_years s)" "uq_academic_years_one_current_per_school t"
    using t(1) by (simp_all add: flush_years_Inr)
  note y = year_by_id_SomeD[OF assms(2)]
  have "pk_unique t" "?y \<in> set t" using assms(4) y f(1) by (auto intro: set_update_row_mem)
  moreover have "ay_is_current ?y" if "yu_is_current d = Some True" using that by simp
  moreover have "deleted_at ?y = None" "ay_school_id ?y = sch" using y by simp_all
  ultimately have "academic_years s' = t"
    using unset_current_idle[OF f(2), of ?y "school_id ctx" env] c(2) assms(3)
    by (cases "yu_is_current d = Some True") simp_all
  with c(1,3) v f show ?thesis by metis
qed

inductive cal_step :: "db \<Rightarrow> db \<Rightarrow> bool" where
  year_created: "create_year env ctx d s = Inr (y, s') \<Longrightarrow>
    new_id env ''academic_years'' (academic_years s) \<notin> ids (academic_years s) \<Longrightarrow> cal_step s s'"
| year_updated: "get_year_owned ctx i s = Inr y \<Longrightarrow> update_year env ctx y u s = Inr (y', s') \<Longrightarrow> cal_step s s'"
| year_deleted: "get_year_owned ctx i s = Inr y \<Longrightarrow> delete_year env ctx y v s = Inr (r, s') \<Longrightarrow> cal_step s s'"
| term_created: "create_term env ctx e s = Inr (x, s') \<Longrightarrow>
    new_id env ''academic_terms'' (academic_terms s) \<notin> ids (academic_terms s) \<Longrightarrow> cal_step s s'"
| term_updated: "get_term_owned ctx i s = Inr x \<Longrightarrow> update_term env ctx x w s = Inr (x', s') \<Longrightarrow> cal_step s s'"
| term_deleted: "get_term_owned ctx i s = Inr x \<Longrightarrow> delete_term env ctx x v s = Inr (r, s') \<Longrightarrow> cal_step s s'"

definition year_codes_apart :: "academic_year list \<Rightarrow> bool" where
  "year_codes_apart = unique_on (\<lambda>y. deleted_at y = None) (\<lambda>y. (ay_school_id y, py_lower (ay_code y)))"

definition term_codes_apart :: "academic_term list \<Rightarrow> bool" where
  "term_codes_apart = unique_on (\<lambda>x. deleted_at x = None)
     (\<lambda>x. ((tm_school_id x, tm_academic_year_id x), py_lower (tm_code x)))"

definition cal_inv :: "db \<Rightarrow> bool" where
  "cal_inv s \<longleftrightarrow> pk_unique (academic_years s) \<and> pk_unique (academic_terms s) \<and>
     uq_academic_years_one_current_per_school (academic_years s) \<and>
     year_codes_apart (academic_years s) \<and> term_codes_apart (academic_terms s)"

lemma create_term_tables:
  assumes "create_term env ctx d s = Inr (x, s')"
  obtains sch org y where "school_id ctx = Some sch" "x = new_term env ctx sch org d s"
    "year_by_id s sch (tc_academic_year_id d) = Some y"
    "ay_start_date y \<le> tc_start_date d" "tc_start_date d \<le> tc_end_date d" "tc_end_date d \<le> ay_end_date y"
    "term_by_code (academic_terms s) (sch, tc_academic_year_id d) (tc_code d) = None"
    "academic_terms s' = insert_row x (academic_terms s)" "academic_years s' = academic_years s"
  using assms that
  by (auto simp: create_term_def bind_ok_Inr_iff validate_term_dates_Inr Let_def split: option.splits if_splits)

lemma update_term_tables:
  assumes "update_term env ctx x d s = Inr (x', s')"
  obtains sch y where "school_id ctx = Some sch" "x' = save_row env ctx x (term_payload d x)"
    "year_by_id s sch (tm_academic_year_id x) = Some y"
    "ay_start_date y \<le> tm_start_date x'" "tm_start_date x' \<le> tm_end_date x'" "tm_end_date x' \<le> ay_end_date y"
    "academic_terms s' = update_row x' (academic_terms s)" "academic_years s' = academic_years s"
  using assms that
  by (auto simp: update_term_def bind_ok_Inr_iff validate_term_dates_Inr Let_def
      split: option.splits if_splits Option.bind_splits)

lemma cal_step_preserves:
  assumes "cal_inv s" and "cal_step s s'"
  shows "cal_inv s'"
  using assms(2)
proof (cases rule: cal_step.cases)
  case (year_created env ctx d y)
  have pk: "pk_unique (academic_years s)" using assms(1) by (simp add: cal_inv_def)
  from create_year_tables[OF year_created pk] obtain sch org where c: "y = new_year env ctx sch org d s"
      "year_by_code (academic_years s) sch (yc_code d) = None" "academic_years s' = insert_row y (academic_years s)"
      "academic_terms s' = academic_terms s" "uq_academic_years_one_current_per_school (academic_years s')" by blast
  have "year_codes_apart (academic_years s')"
    using assms(1) year_codes.insert_checked[of "academic_years s" y] c(2)
    by (simp add: cal_inv_def year_codes_apart_def c(1,3))
  then show ?thesis using assms(1) c year_created(2) by (simp add: cal_inv_def)
next
  case (year_updated ctx i y env u y')
  from year_updated(1) obtain sch where g: "school_id ctx = Some sch" "year_by_id s sch i = Some y"
    by (auto simp: get_year_owned_Inr)
  have pk: "pk_unique (academic_years s)" using assms(1) by (simp add: cal_inv_def)
  note c = update_year_tables[OF year_updated(2) g(2,1) pk] and y = year_by_id_SomeD[OF g(2)]
  have "year_codes_apart (academic_years s')"
    using assms(1) year_codes.update_keeping_code[of "academic_years s" y y'] c y
    by (simp add: cal_inv_def year_codes_apart_def)
  moreover have "pk_unique (academic_years s')" using c pk by (metis pk_unique_update_row)
  moreover have "academic_terms s' = academic_terms s"
    "uq_academic_years_one_current_per_school (academic_years s')" using c by blast+
  ultimately show ?thesis using assms(1) unfolding cal_inv_def by metis
next
  case (year_deleted ctx i y env v r)
  then obtain sch where "year_by_id s sch i = Some y" by (auto simp: get_year_owned_Inr)
  note y = year_by_id_SomeD[OF this]
  let ?t = "update_row (soft_delete env ctx y) (academic_years s)"
  have c: "academic_years s' = ?t" "academic_terms s' = academic_terms s"
    using year_deleted(2) by (auto simp: delete_year_def split: if_splits)
  have "year_codes_apart ?t" "uq_academic_years_one_current_per_school ?t"
    using assms(1) unfolding cal_inv_def year_codes_apart_def uq_academic_years_one_current_per_school_def
    by (auto intro!: unique_on_update_row_out)
  then show ?thesis using assms(1) c by (simp add: cal_inv_def)
next
  case (term_created env ctx e x)
  show ?thesis
  proof (rule create_term_tables[OF term_created(1)])
    fix sch org y
    assume c: "x = new_term env ctx sch org e s"
      "term_by_code (academic_terms s) (sch, tc_academic_year_id e) (tc_code e) = None"
      "academic_terms s' = insert_row x (academic_terms s)" "academic_years s' = academic_years s"
    have "term_codes_apart (academic_terms s')"
      using assms(1) term_codes.insert_checked[of "academic_terms s" x] c(2)
      by (simp add: cal_inv_def term_codes_apart_def c(1,3))
    then show ?thesis using assms(1) c term_created(2) by (simp add: cal_inv_def)
  qed
next
  case (term_updated ctx i x env w x')
  then obtain sch0 where "term_by_id s sch0 i = Some x" by (auto simp: get_term_owned_Inr)
  note x = term_by_id_SomeD[OF this]
  show ?thesis
  proof (rule update_term_tables[OF term_updated(2)])
    fix sch y
    assume c: "x' = save_row env ctx x (term_payload w x)"
      "academic_terms s' = update_row x' (academic_terms s)" "academic_years s' = academic_years s"
    have "term_codes_apart (academic_terms s')"
      using assms(1) term_codes.update_keeping_code[of "academic_terms s" x x'] c x
      by (simp add: cal_inv_def term_codes_apart_def)
    then show ?thesis using assms(1) c by (simp add: cal_inv_def)
  qed
next
  case (term_deleted ctx i x env v r)
  have c: "academic_terms s' = update_row (soft_delete env ctx x) (academic_terms s)" "academic_years s' = academic_years s"
    using term_deleted(2) by (auto simp: delete_term_def split: if_splits)
  have "term_codes_apart (academic_terms s')"
    using assms(1) unfolding cal_inv_def c(1) term_codes_apart_def by (auto intro!: unique_on_update_row_out)
  then show ?thesis using assms(1) c by (simp add: cal_inv_def)
qed

interpretation calendar: invariant_system cal_step cal_inv
  by unfold_locales (rule cal_step_preserves)

text \<open>Every live term refers to a year, and lies within it while it is live.\<close>

definition terms_in_year :: "db \<Rightarrow> bool" where
  "terms_in_year s \<longleftrightarrow> (\<forall>x\<in>set (academic_terms s). deleted_at x = None \<longrightarrow>
     tm_academic_year_id x \<in> ids (academic_years s) \<and>
     (\<forall>y\<in>set (academic_years s). row_id y = tm_academic_year_id x \<longrightarrow> deleted_at y = None \<longrightarrow>
        ay_start_date y \<le> tm_start_date x \<and> tm_start_date x \<le> tm_end_date x \<and> tm_end_date x \<le> ay_end_date y))"

definition dates_kept :: "academic_year list \<Rightarrow> academic_year list \<Rightarrow> bool" where
  "dates_kept t t' \<longleftrightarrow> (\<forall>y\<in>set t. \<forall>y'\<in>set t'. row_id y' = row_id y \<longrightarrow>
     ay_start_date y' = ay_start_date y \<and> ay_end_date y' = ay_end_date y)"

lemma terms_in_yearD:
  assumes "terms_in_year s" and "x \<in> set (academic_terms s)" and "deleted_at x = None"
  shows "tm_academic_year_id x \<in> ids (academic_years s)"
    and "y \<in> set (academic_years s) \<Longrightarrow> row_id y = tm_academic_year_id x \<Longrightarrow> deleted_at y = None \<Longrightarrow>
      ay_start_date y \<le> tm_start_date x \<and> tm_start_date x \<le> tm_end_date x \<and> tm_end_date x \<le> ay_end_date y"
  using assms unfolding terms_in_year_def by blast+

lemma terms_in_year_years:
  assumes "terms_in_year s" and "academic_terms s' = academic_terms s"
    and "ids (academic_years s) \<subseteq> ids (academic_years s')" and "dates_kept (academic_years s) (academic_years s')"
    and "\<And>y'. y' \<in> set (academic_years s') \<Longrightarrow> deleted_at y' = None \<Longrightarrow> row_id y' \<in> ids (academic_years s) \<Longrightarrow>
      \<exists>y\<in>set (academic_years s). row_id y = row_id y' \<and> deleted_at y = None"
  shows "terms_in_year s'"
  unfolding terms_in_year_def
proof (intro ballI impI conjI)
  fix x assume x: "x \<in> set (academic_terms s')" "deleted_at x = None"
  note d = terms_in_yearD[OF assms(1) x(1)[unfolded assms(2)] x(2)]
  show "tm_academic_year_id x \<in> ids (academic_years s')" using d(1) assms(3) by blast
  fix y' assume y': "y' \<in> set (academic_years s')" "row_id y' = tm_academic_year_id x" "deleted_at y' = None"
  with assms(5) d(1) obtain y where y: "y \<in> set (academic_years s)" "row_id y = row_id y'" "deleted_at y = None" by metis
  then have "ay_start_date y' = ay_start_date y" "ay_end_date y' = ay_end_date y"
    using assms(4) y'(1) unfolding dates_kept_def by metis+
  with d(2)[OF y(1) _ y(3)] y(2) y'(2) show "ay_start_date y' \<le> tm_start_date x" "tm_start_date x \<le> tm_end_date x"
    "tm_end_date x \<le> ay_end_date y'" by simp_all
qed

lemma terms_in_year_replaced:
  assumes "terms_in_year s" and "academic_terms s' = academic_terms s"
    and "academic_years s' = update_row y' (academic_years s)" and "dates_kept (academic_years s) (academic_years s')"
    and "y \<in> set (academic_years s)" and "row_id y' = row_id y" and "deleted_at y' = None \<Longrightarrow> deleted_at y = None"
  shows "terms_in_year s'"
proof (rule terms_in_year_years[OF assms(1,2) _ assms(4)])
  show "ids (academic_years s) \<subseteq> ids (academic_years s')" by (simp add: assms(3))
  fix z assume z: "z \<in> set (academic_years s')" "deleted_at z = None"
  from set_update_row_subset[OF z(1)[unfolded assms(3)]]
  show "\<exists>x\<in>set (academic_years s). row_id x = row_id z \<and> deleted_at x = None"
    using assms(5-7) z(2) by metis
qed

lemma terms_in_year_put:
  assumes "terms_in_year s" and "pk_unique (academic_years s)" and "academic_years s' = academic_years s"
    and "\<And>z. z \<in> set (academic_terms s') \<Longrightarrow> z = x \<or> z \<in> set (academic_terms s)"
    and "deleted_at x = None \<Longrightarrow> \<exists>y\<in>set (academic_years s). row_id y = tm_academic_year_id x \<and>
      ay_start_date y \<le> tm_start_date x \<and> tm_start_date x \<le> tm_end_date x \<and> tm_end_date x \<le> ay_end_date y"
  shows "terms_in_year s'"
  unfolding terms_in_year_def assms(3)
proof (intro ballI impI)
  fix z assume z: "z \<in> set (academic_terms s')" "deleted_at z = None"
  from assms(4)[OF z(1)] show "tm_academic_year_id z \<in> ids (academic_years s) \<and>
     (\<forall>y\<in>set (academic_years s). row_id y = tm_academic_year_id z \<longrightarrow> deleted_at y = None \<longrightarrow>
        ay_start_date y \<le> tm_start_date z \<and> tm_start_date z \<le> tm_end_date z \<and> tm_end_date z \<le> ay_end_date y)"
  proof
    assume "z = x"
    with assms(5) z(2) obtain y where y: "y \<in> set (academic_years s)" "row_id y = tm_academic_year_id x"
      "ay_start_date y \<le> tm_start_date x" "tm_start_date x \<le> tm_end_date x" "tm_end_date x \<le> ay_end_date y" by metis
    have "y' = y" if "y' \<in> set (academic_years s)" "row_id y' = tm_academic_year_id x" for y'
      using pk_unique_inj[OF assms(2) that(1) y(1)] that(2) y(2) by simp
    moreover have "tm_academic_year_id x \<in> ids (academic_years s)" using y(1,2) by (metis ids_def image_eqI)
    ultimately show ?thesis using y \<open>z = x\<close> by blast
  next
    assume "z \<in> set (academic_terms s)"
    from terms_in_yearD[OF assms(1) this z(2)] show ?thesis by blast
  qed
qed

section \<open>Properties\<close>

definition sample_year :: "string \<Rightarrow> bool \<Rightarrow> year_create" where
  "sample_year c cur = \<lparr>yc_code = c, yc_name = ''Y'', yc_start_date = 10, yc_end_date = 20, yc_is_current = cur,
     yc_status = AY_ACTIVE\<rparr>"

definition sample_cal0 :: "(academic_year \<times> db) result" where
  "sample_cal0 = create_year sample_audit_env school_context (sample_year ''2024'' True) empty_db"

definition sample_cal1 :: db where
  "sample_cal1 = snd (projr sample_cal0)"

definition sample_cal2 :: "(academic_year \<times> db) result" where
  "sample_cal2 = create_year sample_audit_env school_context (sample_year ''2025'' False) sample_cal1"

definition sample_term :: term_create where
  "sample_term = \<lparr>tc_academic_year_id = ''academic_years'', tc_code = ''T1'', tc_name = ''Term'', tc_start_date = 11,
     tc_end_date = 15, tc_status = TM_ACTIVE\<rparr>"

definition sample_cal3 :: "(academic_term \<times> db) result" where
  "sample_cal3 = create_term sample_audit_env school_context sample_term sample_cal1"

text \<open>
  A school can never switch its current year in one request: while one live year is
  current, creating another current year and marking another one current both fail, because
  the flush that comes before \<open>unset_current\<close> violates the index on current years.
\<close>

theorem current_year_never_switches:
  assumes "cal_inv s" and "school_id ctx = Some sch"
    and "cur \<in> set (academic_years s)" and "ay_school_id cur = sch" and "ay_is_current cur" and "deleted_at cur = None"
    and "year_by_id s sch i = Some y" and "row_id cur \<noteq> i" and "yu_is_current u = Some True"
    and "new_id env ''academic_years'' (academic_years s) \<notin> ids (academic_years s)" and "yc_is_current d"
  shows "is_ok (create_year env ctx d s) = False \<and> is_ok (update_year env ctx y u s) = False"
proof (intro conjI)
  have pk: "pk_unique (academic_years s)" using assms(1) by (simp add: cal_inv_def)
  have "\<not> is_ok (create_year env ctx d s)"
  proof
    assume "is_ok (create_year env ctx d s)"
    from create_year_tables[OF ok_projr[OF this] assms(10) pk] obtain sch' org where
      c: "school_id ctx = Some sch'"
      "academic_years (snd (projr (create_year env ctx d s))) = insert_row (new_year env ctx sch' org d s) (academic_years s)"
      "uq_academic_years_one_current_per_school (academic_years (snd (projr (create_year env ctx d s))))" by metis
    have "row_id (new_year env ctx sch' org d s) = row_id cur"
      using c(3)[unfolded c(2) uq_academic_years_one_current_per_school_def] c(1) assms(2-6,11)
      by (elim unique_onD[of _ _ _ _ cur]) (simp_all add: set_insert_row)
    then show False using assms(3,10) by (auto simp: ids_def)
  qed
  then show "is_ok (create_year env ctx d s) = False" by simp
  have "\<not> is_ok (update_year env ctx y u s)"
  proof
    assume "is_ok (update_year env ctx y u s)"
    note c = update_year_tables[OF ok_projr[OF this] assms(7,2) pk]
    note y = year_by_id_SomeD[OF assms(7)]
    let ?y = "save_row env ctx y (year_payload u y)"
    have "academic_years (snd (projr (update_year env ctx y u s))) = update_row ?y (academic_years s)"
      using c by metis
    with c have q: "uq_academic_years_one_current_per_school (update_row ?y (academic_years s))" by metis
    have "?y \<in> set (update_row ?y (academic_years s))" "cur \<in> set (update_row ?y (academic_years s))"
      using y assms(3,8) by (auto intro: set_update_row_mem set_update_row_other)
    then have "row_id ?y = row_id cur"
      using q[unfolded uq_academic_years_one_current_per_school_def] y assms(4-6,9)
      by (elim unique_onD) simp_all
    then show False using y assms(8) by simp
  qed
  then show "is_ok (update_year env ctx y u s) = False" by simp
qed

lemma sample_cal_inv: "cal_inv sample_cal1" "cal_inv (snd (projr sample_cal2))"
  unfolding cal_inv_def uq_academic_years_one_current_per_school_def year_codes_apart_def term_codes_apart_def unique_on_def
  by code_simp+

definition mark_current :: year_update where
  "mark_current = \<lparr>yu_name = None, yu_start_date = None, yu_end_date = None, yu_is_current = Some True, yu_status = None,
     yu_version = 1\<rparr>"

lemma current_year_never_switches_witness:
  "is_ok sample_cal2 \<and> map ay_is_current (academic_years (snd (projr sample_cal2))) = [True, False] \<and>
   (\<exists>y. get_year_owned school_context ''academic_years+'' (snd (projr sample_cal2)) = Inr y \<and>
     is_ok (update_year sample_audit_env school_context y mark_current (snd (projr sample_cal2))) = False)"
proof -
  let ?s = "snd (projr sample_cal2)"
  have ok: "is_ok sample_cal2" by code_simp
  have m: "map ay_is_current (academic_years ?s) = [True, False]" by code_simp
  have cur: "hd (academic_years ?s) \<in> set (academic_years ?s)" "ay_school_id (hd (academic_years ?s)) = ''s''"
    "ay_is_current (hd (academic_years ?s))" "deleted_at (hd (academic_years ?s)) = None"
    "row_id (hd (academic_years ?s)) \<noteq> ''academic_years+''" by code_simp+
  have y: "year_by_id ?s ''s'' ''academic_years+'' = Some (fst (projr sample_cal2))" by code_simp
  have n: "new_id sample_audit_env ''academic_years'' (academic_years ?s) \<notin> ids (academic_years ?s)" by code_simp
  from current_year_never_switches[OF sample_cal_inv(2) _ cur(1-4) y cur(5) _ n, where ctx = school_context
      and u = mark_current and d = "sample_year ''x'' True"]
  have "is_ok (update_year sample_audit_env school_context (fst (projr sample_cal2)) mark_current ?s) = False"
    by (simp add: mark_current_def sample_year_def)
  moreover have "get_year_owned school_context ''academic_years+'' ?s = Inr (fst (projr sample_cal2))"
    using y by (simp add: get_year_owned_Inr)
  ultimately show ?thesis using ok m by blast
qed

text \<open>
  Over any sequence of operations on years and terms, a school has at most one current live
  year, and the codes of its live years, and of the live terms of one year, differ even when
  case is ignored.
\<close>

theorem calendar_codes_and_current_year:
  assumes "cal_inv s" and "cal_step\<^sup>*\<^sup>* s s'"
  shows "uq_academic_years_one_current_per_school (academic_years s') \<and>
    year_codes_apart (academic_years s') \<and> term_codes_apart (academic_terms s')"
  using calendar.reach_inv[OF assms(2,1)] by (simp add: cal_inv_def)

lemma calendar_codes_and_current_year_witness:
  "is_ok sample_cal2 \<and> map ay_code (academic_years (snd (projr sample_cal2))) = [''2024'', ''2025''] \<and>
   year_codes_apart (academic_years (snd (projr sample_cal2)))"
proof -
  have ok: "is_ok sample_cal2" by code_simp
  have c: "map ay_code (academic_years (snd (projr sample_cal2))) = [''2024'', ''2025'']" by code_simp
  have "new_id sample_audit_env ''academic_years'' (academic_years sample_cal1) \<notin> ids (academic_years sample_cal1)" by code_simp
  from cal_step.year_created[OF ok_projr[OF ok, unfolded sample_cal2_def] this]
  have "cal_step sample_cal1 (snd (projr sample_cal2))" by (simp add: sample_cal2_def)
  from calendar_codes_and_current_year[OF sample_cal_inv(1) r_into_rtranclp[of cal_step, OF this]] ok c show ?thesis by blast
qed

definition sample_late_start :: year_update where
  "sample_late_start = \<lparr>yu_name = None, yu_start_date = Some 14, yu_end_date = None, yu_is_current = None, yu_status = None,
     yu_version = 1\<rparr>"

text \<open>
  Terms stay within their year: every step keeps the live terms inside the dates of their
  live year, provided it does not move the dates of a year. Nothing checks a move against
  the terms, and one may leave a term outside its year.
\<close>

theorem terms_stay_in_year:
  assumes "cal_inv s" and "terms_in_year s" and "cal_step s s'" and "dates_kept (academic_years s) (academic_years s')"
  shows "terms_in_year s'"
  using assms(3)
proof (cases rule: cal_step.cases)
  case (year_created env ctx d y)
  have pk: "pk_unique (academic_years s)" using assms(1) by (simp add: cal_inv_def)
  from create_year_tables[OF year_created pk] year_created(2) have c:
    "row_id y \<notin> ids (academic_years s)" "academic_years s' = insert_row y (academic_years s)"
    "academic_terms s' = academic_terms s" by auto
  have st: "set (academic_years s') = insert y (set (academic_years s))" by (simp add: c(2) set_insert_row)
  show ?thesis
  proof (rule terms_in_year_years[OF assms(2) c(3) _ assms(4)])
    show "ids (academic_years s) \<subseteq> ids (academic_years s')" by (auto simp: c(2))
    show "\<exists>z\<in>set (academic_years s). row_id z = row_id y' \<and> deleted_at z = None"
      if "y' \<in> set (academic_years s')" "deleted_at y' = None" "row_id y' \<in> ids (academic_years s)" for y'
    proof -
      have "y' = y \<or> y' \<in> set (academic_years s)" using that(1) st by simp
      then have "y' \<in> set (academic_years s)" using that(3) c(1) by metis
      then show ?thesis using that(2) by blast
    qed
  qed
next
  case (year_updated ctx i y env u y')
  from year_updated(1) obtain sch where g: "school_id ctx = Some sch" "year_by_id s sch i = Some y"
    by (auto simp: get_year_owned_Inr)
  have pk: "pk_unique (academic_years s)" using assms(1) by (simp add: cal_inv_def)
  note c = update_year_tables[OF year_updated(2) g(2,1) pk] and y = year_by_id_SomeD[OF g(2)]
  have "row_id y' = row_id y" "academic_years s' = update_row y' (academic_years s)" "academic_terms s' = academic_terms s"
    using c by auto
  then show ?thesis using terms_in_year_replaced[OF assms(2) _ _ assms(4), of y' y] y by metis
next
  case (year_deleted ctx i y env v r)
  from year_deleted(1) have y: "y \<in> set (academic_years s)" "deleted_at y = None"
    by (auto simp: get_year_owned_Inr dest: year_by_id_SomeD)
  have "academic_years s' = update_row (soft_delete env ctx y) (academic_years s)" "academic_terms s' = academic_terms s"
    using year_deleted(2) by (auto simp: delete_year_def split: if_splits)
  from terms_in_year_replaced[OF assms(2) this(2,1) assms(4) y(1)] y(2) show ?thesis by simp
next
  case (term_created env ctx e x)
  have pk: "pk_unique (academic_years s)" using assms(1) by (simp add: cal_inv_def)
  show ?thesis
  proof (rule create_term_tables[OF term_created(1)])
    fix sch org y
    assume c: "x = new_term env ctx sch org e s" "year_by_id s sch (tc_academic_year_id e) = Some y"
      "ay_start_date y \<le> tc_start_date e" "tc_start_date e \<le> tc_end_date e" "tc_end_date e \<le> ay_end_date y"
      "academic_terms s' = insert_row x (academic_terms s)" "academic_years s' = academic_years s"
    show ?thesis
      by (rule terms_in_year_put[OF assms(2) pk c(7), of x])
        (use c year_by_id_SomeD[OF c(2)] in \<open>auto simp: set_insert_row\<close>)
  qed
next
  case (term_updated ctx i x env w x')
  have pk: "pk_unique (academic_years s)" using assms(1) by (simp add: cal_inv_def)
  show ?thesis
  proof (rule update_term_tables[OF term_updated(2)])
    fix sch y
    assume c: "x' = save_row env ctx x (term_payload w x)" "year_by_id s sch (tm_academic_year_id x) = Some y"
      "ay_start_date y \<le> tm_start_date x'" "tm_start_date x' \<le> tm_end_date x'" "tm_end_date x' \<le> ay_end_date y"
      "academic_terms s' = update_row x' (academic_terms s)" "academic_years s' = academic_years s"
    have "tm_academic_year_id x' = tm_academic_year_id x" using c(1) by simp
    then show ?thesis
      by (intro terms_in_year_put[OF assms(2) pk c(7), of x'])
        (use c(2-6) year_by_id_SomeD[OF c(2)] in \<open>auto dest!: set_update_row_subset\<close>)
  qed
next
  case (term_deleted ctx i x env v r)
  have pk: "pk_unique (academic_years s)" using assms(1) by (simp add: cal_inv_def)
  have c: "academic_terms s' = update_row (soft_delete env ctx x) (academic_terms s)" "academic_years s' = academic_years s"
    using term_deleted(2) by (auto simp: delete_term_def split: if_splits)
  show ?thesis
    by (rule terms_in_year_put[OF assms(2) pk c(2), of "soft_delete env ctx x"])
      (use c(1) in \<open>auto dest!: set_update_row_subset\<close>)
qed

lemma terms_stay_in_year_witness:
  "is_ok sample_cal3 \<and> terms_in_year (snd (projr sample_cal3)) \<and> length (academic_terms (snd (projr sample_cal3))) = 1 \<and>
   terms_in_year (snd (projr (update_year sample_audit_env school_context (fst (projr sample_cal0)) sample_late_start
     (snd (projr sample_cal3))))) = False"
proof -
  have ok: "is_ok sample_cal3" by code_simp
  have tin: "terms_in_year sample_cal1" unfolding terms_in_year_def by code_simp
  have n: "new_id sample_audit_env ''academic_terms'' (academic_terms sample_cal1) \<notin> ids (academic_terms sample_cal1)" by code_simp
  have st: "cal_step sample_cal1 (snd (projr sample_cal3))"
    using cal_step.term_created[OF ok_projr[OF ok, unfolded sample_cal3_def] n] by (simp add: sample_cal3_def)
  have "dates_kept (academic_years sample_cal1) (academic_years (snd (projr sample_cal3)))"
    unfolding dates_kept_def by code_simp
  from terms_stay_in_year[OF sample_cal_inv(1) tin st this] have "terms_in_year (snd (projr sample_cal3))" .
  moreover have "terms_in_year (snd (projr (update_year sample_audit_env school_context (fst (projr sample_cal0)) sample_late_start
     (snd (projr sample_cal3))))) = False" unfolding terms_in_year_def by code_simp
  moreover have "length (academic_terms (snd (projr sample_cal3))) = 1" by code_simp
  ultimately show ?thesis using ok by blast
qed

end
