(* ===== verification/AcademicCatalog.thy ===== *)
theory AcademicCatalog
  imports AcademicCalendar
begin

text \<open>
  Classes, subjects, cohorts and the links between classes and subjects:
  \<open>app/modules/academic/academic_classes\<close>, \<open>subjects\<close>, \<open>cohorts\<close> and \<open>class_subjects\<close>,
  services and repositories.
\<close>

section \<open>Classes\<close>

fun class_status_value :: "academic_class_status \<Rightarrow> string" where
  "class_status_value CL_ACTIVE = ''ACTIVE''"
| "class_status_value CL_ARCHIVED = ''ARCHIVED''"

definition nullable :: "string option \<Rightarrow> jval" where
  "nullable v = (case v of None \<Rightarrow> JNull | Some t \<Rightarrow> JStr t)"

definition class_snapshot :: "academic_class \<Rightarrow> snapshot" where
  "class_snapshot x = [(''code'', JStr (cl_code x)), (''name'', JStr (cl_name x)),
     (''description'', nullable (cl_description x)), (''sort_order'', JInt (cl_sort_order x)),
     (''status'', JStr (class_status_value (cl_status x)))]"

record class_create =
  kc_code :: string
  kc_name :: string
  kc_description :: "string option"
  kc_sort_order :: int
  kc_status :: academic_class_status

record class_update =
  ku_name :: "string option"
  ku_description :: "string option"
  ku_sort_order :: "int option"
  ku_status :: "academic_class_status option"
  ku_version :: int

definition class_by_id :: "db \<Rightarrow> ulid \<Rightarrow> ulid \<Rightarrow> academic_class option" where
  "class_by_id s sch i =
     find (\<lambda>x. row_id x = i \<and> cl_school_id x = sch \<and> deleted_at x = None) (academic_classes s)"

definition class_by_code :: "academic_class list \<Rightarrow> ulid \<Rightarrow> string \<Rightarrow> academic_class option" where
  "class_by_code t sch c =
     find (\<lambda>x. cl_school_id x = sch \<and> py_lower (cl_code x) = py_lower c \<and> deleted_at x = None) t"

definition class_not_found :: error where
  "class_not_found = NotFoundError ''ACADEMIC_CLASS_NOT_FOUND''"

definition new_class :: "env \<Rightarrow> request_context \<Rightarrow> ulid \<Rightarrow> ulid \<Rightarrow> class_create \<Rightarrow> db \<Rightarrow> academic_class" where
  "new_class env ctx sch org data s =
     \<lparr>row_id = new_id env ''academic_classes'' (academic_classes s), created_at = env_now env,
      updated_at = env_now env, created_by_id = Some (user_id ctx), updated_by_id = None, version = 1,
      archived_at = None, deleted_at = None, cl_school_id = sch, cl_organization_id = org,
      cl_code = kc_code data, cl_name = kc_name data, cl_description = kc_description data,
      cl_sort_order = kc_sort_order data, cl_status = kc_status data\<rparr>"

definition create_class ::
  "env \<Rightarrow> request_context \<Rightarrow> class_create \<Rightarrow> db \<Rightarrow> (academic_class \<times> db) result" where
  "create_class env ctx data s = (case school_id ctx of
     None \<Rightarrow> Inl no_school_set
   | Some sch \<Rightarrow>
       if class_by_code (academic_classes s) sch (kc_code data) \<noteq> None
       then Inl (ConflictError ''ACADEMIC_CLASS_CODE_TAKEN'')
       else (case organization_id ctx of
          None \<Rightarrow> Inl (IntegrityError ''organization_id'')
        | Some org \<Rightarrow>
          let x = new_class env ctx sch org data s; t = insert_row x (academic_classes s) in
          bind_ok (constrained (uq_academic_classes_school_id_code t) ''uq_academic_classes_school_id_code'' t) (\<lambda>t.
            Inr (x, audit env ctx ''ACADEMIC_CLASS_CREATED'' ''academic_class'' (Some (row_id x))
              None (Some (class_snapshot x)) (s\<lparr>academic_classes := t\<rparr>)))))"

definition class_payload :: "class_update \<Rightarrow> academic_class \<Rightarrow> academic_class" where
  "class_payload data x =
     assign cl_status_update (ku_status data) (assign cl_sort_order_update (ku_sort_order data)
       (assign cl_description_update (map_option Some (ku_description data)) (assign cl_name_update (ku_name data) x)))"

definition update_class ::
  "env \<Rightarrow> request_context \<Rightarrow> academic_class \<Rightarrow> class_update \<Rightarrow> db \<Rightarrow> (academic_class \<times> db) result" where
  "update_class env ctx x data s =
     (if version x \<noteq> ku_version data then Inl StaleResourceError
      else let x' = save_row env ctx x (class_payload data x) in
        Inr (x', audit env ctx ''ACADEMIC_CLASS_UPDATED'' ''academic_class'' (Some (row_id x'))
          (Some (class_snapshot x)) (Some (class_snapshot x'))
          (s\<lparr>academic_classes := update_row x' (academic_classes s)\<rparr>)))"

definition delete_class ::
  "env \<Rightarrow> request_context \<Rightarrow> academic_class \<Rightarrow> int \<Rightarrow> db \<Rightarrow> (unit \<times> db) result" where
  "delete_class env ctx x ver s =
     (if version x \<noteq> ver then Inl StaleResourceError
      else Inr ((), audit env ctx ''ACADEMIC_CLASS_DELETED'' ''academic_class'' (Some (row_id x))
        (Some (class_snapshot x)) None
        (s\<lparr>academic_classes := update_row (soft_delete env ctx x) (academic_classes s)\<rparr>)))"

definition get_class_owned :: "request_context \<Rightarrow> ulid \<Rightarrow> db \<Rightarrow> academic_class result" where
  "get_class_owned ctx i s = (case school_id ctx of
     None \<Rightarrow> Inl class_not_found
   | Some sch \<Rightarrow> ok_or class_not_found (class_by_id s sch i))"

section \<open>Subjects\<close>

fun subject_status_value :: "subject_status \<Rightarrow> string" where
  "subject_status_value SJ_ACTIVE = ''ACTIVE''"
| "subject_status_value SJ_ARCHIVED = ''ARCHIVED''"

fun subject_type_value :: "subject_type \<Rightarrow> string" where
  "subject_type_value SJ_CORE = ''CORE''"
| "subject_type_value SJ_OPTIONAL = ''OPTIONAL''"
| "subject_type_value SJ_ELECTIVE = ''ELECTIVE''"
| "subject_type_value SJ_PRACTICAL = ''PRACTICAL''"
| "subject_type_value SJ_CO_CURRICULAR = ''CO_CURRICULAR''"
| "subject_type_value SJ_ACTIVITY = ''ACTIVITY''"

definition subject_snapshot :: "subject \<Rightarrow> snapshot" where
  "subject_snapshot x = [(''code'', JStr (su_code x)), (''name'', JStr (su_name x)),
     (''description'', nullable (su_description x)), (''subject_type'', JStr (subject_type_value (su_subject_type x))),
     (''status'', JStr (subject_status_value (su_status x)))]"

record subject_create =
  jc_code :: string
  jc_name :: string
  jc_description :: "string option"
  jc_subject_type :: subject_type
  jc_status :: subject_status

record subject_update =
  ju_name :: "string option"
  ju_description :: "string option"
  ju_subject_type :: "subject_type option"
  ju_status :: "subject_status option"
  ju_version :: int

definition subject_by_id :: "db \<Rightarrow> ulid \<Rightarrow> ulid \<Rightarrow> subject option" where
  "subject_by_id s sch i =
     find (\<lambda>x. row_id x = i \<and> su_school_id x = sch \<and> deleted_at x = None) (subjects s)"

definition subject_by_code :: "subject list \<Rightarrow> ulid \<Rightarrow> string \<Rightarrow> subject option" where
  "subject_by_code t sch c =
     find (\<lambda>x. su_school_id x = sch \<and> py_lower (su_code x) = py_lower c \<and> deleted_at x = None) t"

definition subject_missing :: error where
  "subject_missing = NotFoundError ''SUBJECT_NOT_FOUND''"

definition new_subject :: "env \<Rightarrow> request_context \<Rightarrow> ulid \<Rightarrow> ulid \<Rightarrow> subject_create \<Rightarrow> db \<Rightarrow> subject" where
  "new_subject env ctx sch org data s =
     \<lparr>row_id = new_id env ''subjects'' (subjects s), created_at = env_now env,
      updated_at = env_now env, created_by_id = Some (user_id ctx), updated_by_id = None, version = 1,
      archived_at = None, deleted_at = None, su_school_id = sch, su_organization_id = org,
      su_code = jc_code data, su_name = jc_name data, su_description = jc_description data,
      su_subject_type = jc_subject_type data, su_status = jc_status data\<rparr>"

definition create_subject ::
  "env \<Rightarrow> request_context \<Rightarrow> subject_create \<Rightarrow> db \<Rightarrow> (subject \<times> db) result" where
  "create_subject env ctx data s = (case school_id ctx of
     None \<Rightarrow> Inl no_school_set
   | Some sch \<Rightarrow>
       if subject_by_code (subjects s) sch (jc_code data) \<noteq> None
       then Inl (ConflictError ''SUBJECT_CODE_TAKEN'')
       else (case organization_id ctx of
          None \<Rightarrow> Inl (IntegrityError ''organization_id'')
        | Some org \<Rightarrow>
          let x = new_subject env ctx sch org data s; t = insert_row x (subjects s) in
          bind_ok (constrained (uq_subjects_school_id_code t) ''uq_subjects_school_id_code'' t) (\<lambda>t.
            Inr (x, audit env ctx ''SUBJECT_CREATED'' ''subject'' (Some (row_id x))
              None (Some (subject_snapshot x)) (s\<lparr>subjects := t\<rparr>)))))"

definition subject_payload :: "subject_update \<Rightarrow> subject \<Rightarrow> subject" where
  "subject_payload data x =
     assign su_status_update (ju_status data) (assign su_subject_type_update (ju_subject_type data)
       (assign su_description_update (map_option Some (ju_description data)) (assign su_name_update (ju_name data) x)))"

definition update_subject ::
  "env \<Rightarrow> request_context \<Rightarrow> subject \<Rightarrow> subject_update \<Rightarrow> db \<Rightarrow> (subject \<times> db) result" where
  "update_subject env ctx x data s =
     (if version x \<noteq> ju_version data then Inl StaleResourceError
      else let x' = save_row env ctx x (subject_payload data x) in
        Inr (x', audit env ctx ''SUBJECT_UPDATED'' ''subject'' (Some (row_id x'))
          (Some (subject_snapshot x)) (Some (subject_snapshot x'))
          (s\<lparr>subjects := update_row x' (subjects s)\<rparr>)))"

definition delete_subject ::
  "env \<Rightarrow> request_context \<Rightarrow> subject \<Rightarrow> int \<Rightarrow> db \<Rightarrow> (unit \<times> db) result" where
  "delete_subject env ctx x ver s =
     (if version x \<noteq> ver then Inl StaleResourceError
      else Inr ((), audit env ctx ''SUBJECT_DELETED'' ''subject'' (Some (row_id x))
        (Some (subject_snapshot x)) None
        (s\<lparr>subjects := update_row (soft_delete env ctx x) (subjects s)\<rparr>)))"

definition get_subject_owned :: "request_context \<Rightarrow> ulid \<Rightarrow> db \<Rightarrow> subject result" where
  "get_subject_owned ctx i s = (case school_id ctx of
     None \<Rightarrow> Inl subject_missing
   | Some sch \<Rightarrow> ok_or subject_missing (subject_by_id s sch i))"

section \<open>Cohorts\<close>

fun cohort_status_value :: "cohort_status \<Rightarrow> string" where
  "cohort_status_value CO_ACTIVE = ''ACTIVE''"
| "cohort_status_value CO_ARCHIVED = ''ARCHIVED''"

definition cohort_snapshot :: "cohort \<Rightarrow> snapshot" where
  "cohort_snapshot x = [(''code'', JStr (co_code x)), (''name'', JStr (co_name x)),
     (''capacity'', case co_capacity x of None \<Rightarrow> JNull | Some n \<Rightarrow> JInt n),
     (''status'', JStr (cohort_status_value (co_status x))),
     (''academic_year_id'', JStr (co_academic_year_id x)), (''academic_class_id'', JStr (co_academic_class_id x))]"

record cohort_create =
  hc_academic_year_id :: ulid
  hc_academic_class_id :: ulid
  hc_code :: string
  hc_name :: string
  hc_capacity :: "int option"
  hc_status :: cohort_status

record cohort_update =
  hu_name :: "string option"
  hu_capacity :: "int option"
  hu_status :: "cohort_status option"
  hu_version :: int

definition cohort_by_id :: "db \<Rightarrow> ulid \<Rightarrow> ulid \<Rightarrow> cohort option" where
  "cohort_by_id s sch i =
     find (\<lambda>x. row_id x = i \<and> co_school_id x = sch \<and> deleted_at x = None) (cohorts s)"

definition cohort_by_code :: "cohort list \<Rightarrow> ulid \<times> ulid \<times> ulid \<Rightarrow> string \<Rightarrow> cohort option" where
  "cohort_by_code t syc c =
     find (\<lambda>x. (co_school_id x, co_academic_year_id x, co_academic_class_id x) = syc \<and>
       py_lower (co_code x) = py_lower c \<and> deleted_at x = None) t"

definition cohort_missing :: error where
  "cohort_missing = NotFoundError ''COHORT_NOT_FOUND''"

definition new_cohort :: "env \<Rightarrow> request_context \<Rightarrow> ulid \<Rightarrow> ulid \<Rightarrow> cohort_create \<Rightarrow> db \<Rightarrow> cohort" where
  "new_cohort env ctx sch org data s =
     \<lparr>row_id = new_id env ''cohorts'' (cohorts s), created_at = env_now env,
      updated_at = env_now env, created_by_id = Some (user_id ctx), updated_by_id = None, version = 1,
      archived_at = None, deleted_at = None, co_school_id = sch, co_organization_id = org,
      co_academic_year_id = hc_academic_year_id data, co_academic_class_id = hc_academic_class_id data,
      co_code = hc_code data, co_name = hc_name data, co_capacity = hc_capacity data, co_status = hc_status data\<rparr>"

definition create_cohort ::
  "env \<Rightarrow> request_context \<Rightarrow> cohort_create \<Rightarrow> db \<Rightarrow> (cohort \<times> db) result" where
  "create_cohort env ctx data s = (case school_id ctx of
     None \<Rightarrow> Inl no_school_set
   | Some sch \<Rightarrow>
       bind_ok (ok_or year_not_found (year_by_id s sch (hc_academic_year_id data))) (\<lambda>_.
       bind_ok (ok_or class_not_found (class_by_id s sch (hc_academic_class_id data))) (\<lambda>_.
         if cohort_by_code (cohorts s) (sch, hc_academic_year_id data, hc_academic_class_id data) (hc_code data) \<noteq> None
         then Inl (ConflictError ''COHORT_CODE_TAKEN'')
         else (case organization_id ctx of
            None \<Rightarrow> Inl (IntegrityError ''organization_id'')
          | Some org \<Rightarrow>
            let x = new_cohort env ctx sch org data s; t = insert_row x (cohorts s) in
            bind_ok (constrained (uq_cohorts_school_year_class_code t) ''uq_cohorts_school_year_class_code'' t) (\<lambda>t.
              Inr (x, audit env ctx ''COHORT_CREATED'' ''cohort'' (Some (row_id x))
                None (Some (cohort_snapshot x)) (s\<lparr>cohorts := t\<rparr>)))))))"

definition cohort_payload :: "cohort_update \<Rightarrow> cohort \<Rightarrow> cohort" where
  "cohort_payload data x =
     assign co_status_update (hu_status data) (assign co_capacity_update (map_option Some (hu_capacity data))
       (assign co_name_update (hu_name data) x))"

definition update_cohort ::
  "env \<Rightarrow> request_context \<Rightarrow> cohort \<Rightarrow> cohort_update \<Rightarrow> db \<Rightarrow> (cohort \<times> db) result" where
  "update_cohort env ctx x data s =
     (if version x \<noteq> hu_version data then Inl StaleResourceError
      else let x' = save_row env ctx x (cohort_payload data x) in
        Inr (x', audit env ctx ''COHORT_UPDATED'' ''cohort'' (Some (row_id x'))
          (Some (cohort_snapshot x)) (Some (cohort_snapshot x'))
          (s\<lparr>cohorts := update_row x' (cohorts s)\<rparr>)))"

definition delete_cohort ::
  "env \<Rightarrow> request_context \<Rightarrow> cohort \<Rightarrow> int \<Rightarrow> db \<Rightarrow> (unit \<times> db) result" where
  "delete_cohort env ctx x ver s =
     (if version x \<noteq> ver then Inl StaleResourceError
      else Inr ((), audit env ctx ''COHORT_DELETED'' ''cohort'' (Some (row_id x))
        (Some (cohort_snapshot x)) None
        (s\<lparr>cohorts := update_row (soft_delete env ctx x) (cohorts s)\<rparr>)))"

definition get_cohort_owned :: "request_context \<Rightarrow> ulid \<Rightarrow> db \<Rightarrow> cohort result" where
  "get_cohort_owned ctx i s = (case school_id ctx of
     None \<Rightarrow> Inl cohort_missing
   | Some sch \<Rightarrow> ok_or cohort_missing (cohort_by_id s sch i))"

section \<open>Links between classes and subjects\<close>

definition link_snapshot :: "class_subject \<Rightarrow> snapshot" where
  "link_snapshot x = [(''academic_class_id'', JStr (cs_academic_class_id x)), (''subject_id'', JStr (cs_subject_id x)),
     (''effective_from_year_id'', JStr (cs_effective_from_year_id x)),
     (''effective_to_year_id'', nullable (cs_effective_to_year_id x))]"

record link_create =
  lc_academic_class_id :: ulid
  lc_subject_id :: ulid
  lc_effective_from_year_id :: ulid
  lc_effective_to_year_id :: "ulid option"

definition link_by_id :: "db \<Rightarrow> ulid \<Rightarrow> ulid \<Rightarrow> class_subject option" where
  "link_by_id s sch i = find (\<lambda>x. row_id x = i \<and> cs_school_id x = sch) (class_subjects s)"

definition get_existing :: "db \<Rightarrow> ulid \<Rightarrow> ulid \<Rightarrow> ulid \<Rightarrow> class_subject option" where
  "get_existing s sch c sub =
     find (\<lambda>x. cs_school_id x = sch \<and> cs_academic_class_id x = c \<and> cs_subject_id x = sub) (class_subjects s)"

definition new_link :: "env \<Rightarrow> request_context \<Rightarrow> ulid \<Rightarrow> ulid \<Rightarrow> link_create \<Rightarrow> db \<Rightarrow> class_subject" where
  "new_link env ctx sch org data s =
     \<lparr>row_id = new_id env ''class_subjects'' (class_subjects s), created_at = env_now env,
      updated_at = env_now env, created_by_id = Some (user_id ctx), updated_by_id = None, cs_school_id = sch,
      cs_organization_id = org, cs_academic_class_id = lc_academic_class_id data,
      cs_subject_id = lc_subject_id data, cs_effective_from_year_id = lc_effective_from_year_id data,
      cs_effective_to_year_id = lc_effective_to_year_id data\<rparr>"

text \<open>The year the link ends with is not looked up.\<close>

definition create_link ::
  "env \<Rightarrow> request_context \<Rightarrow> link_create \<Rightarrow> db \<Rightarrow> (class_subject \<times> db) result" where
  "create_link env ctx data s = (case school_id ctx of
     None \<Rightarrow> Inl no_school_set
   | Some sch \<Rightarrow>
       bind_ok (ok_or class_not_found (class_by_id s sch (lc_academic_class_id data))) (\<lambda>_.
       bind_ok (ok_or subject_missing (subject_by_id s sch (lc_subject_id data))) (\<lambda>_.
       bind_ok (ok_or year_not_found (year_by_id s sch (lc_effective_from_year_id data))) (\<lambda>_.
         if get_existing s sch (lc_academic_class_id data) (lc_subject_id data) \<noteq> None
         then Inl (ConflictError ''CLASS_SUBJECT_ALREADY_EXISTS'')
         else (case organization_id ctx of
            None \<Rightarrow> Inl (IntegrityError ''organization_id'')
          | Some org \<Rightarrow>
            let x = new_link env ctx sch org data s; t = insert_row x (class_subjects s) in
            bind_ok (constrained (uq_class_subjects_school_class_subject t) ''uq_class_subjects_school_class_subject'' t) (\<lambda>t.
              Inr (x, audit env ctx ''CLASS_SUBJECT_CREATED'' ''class_subject'' (Some (row_id x))
                None (Some (link_snapshot x)) (s\<lparr>class_subjects := t\<rparr>))))))))"

definition delete_link ::
  "env \<Rightarrow> request_context \<Rightarrow> class_subject \<Rightarrow> db \<Rightarrow> (unit \<times> db) result" where
  "delete_link env ctx x s =
     Inr ((), audit env ctx ''CLASS_SUBJECT_DELETED'' ''class_subject'' (Some (row_id x))
       (Some (link_snapshot x)) None (s\<lparr>class_subjects := delete_row (row_id x) (class_subjects s)\<rparr>))"

definition link_missing :: error where
  "link_missing = NotFoundError ''CLASS_SUBJECT_NOT_FOUND''"

definition get_link_owned :: "request_context \<Rightarrow> ulid \<Rightarrow> db \<Rightarrow> class_subject result" where
  "get_link_owned ctx i s = (case school_id ctx of
     None \<Rightarrow> Inl link_missing
   | Some sch \<Rightarrow> ok_or link_missing (link_by_id s sch i))"

section \<open>Facts\<close>

lemma save_row_class [simp]:
  "cl_school_id (save_row env ctx x z) = cl_school_id z" "cl_code (save_row env ctx x z) = cl_code z"
  "deleted_at (save_row env ctx x z) = deleted_at z"
  for x z :: academic_class
  by (auto simp: save_row_def flush_versioned_def)

lemma save_row_subject [simp]:
  "su_school_id (save_row env ctx x z) = su_school_id z" "su_code (save_row env ctx x z) = su_code z"
  "deleted_at (save_row env ctx x z) = deleted_at z"
  for x z :: subject
  by (auto simp: save_row_def flush_versioned_def)

lemma save_row_cohort [simp]:
  "co_school_id (save_row env ctx x z) = co_school_id z" "co_code (save_row env ctx x z) = co_code z"
  "co_academic_year_id (save_row env ctx x z) = co_academic_year_id z"
  "co_academic_class_id (save_row env ctx x z) = co_academic_class_id z"
  "deleted_at (save_row env ctx x z) = deleted_at z"
  for x z :: cohort
  by (auto simp: save_row_def flush_versioned_def)

lemma soft_delete_class [simp]:
  "cl_school_id (soft_delete env ctx x) = cl_school_id x" "cl_code (soft_delete env ctx x) = cl_code x"
  "deleted_at (soft_delete env ctx x) = Some (env_now env)"
  for x :: academic_class
  by (simp_all add: soft_delete_def)

lemma soft_delete_subject [simp]:
  "su_school_id (soft_delete env ctx x) = su_school_id x" "su_code (soft_delete env ctx x) = su_code x"
  "deleted_at (soft_delete env ctx x) = Some (env_now env)"
  for x :: subject
  by (simp_all add: soft_delete_def)

lemma soft_delete_cohort [simp]:
  "co_school_id (soft_delete env ctx x) = co_school_id x" "co_code (soft_delete env ctx x) = co_code x"
  "co_academic_year_id (soft_delete env ctx x) = co_academic_year_id x"
  "co_academic_class_id (soft_delete env ctx x) = co_academic_class_id x"
  "deleted_at (soft_delete env ctx x) = Some (env_now env)"
  for x :: cohort
  by (simp_all add: soft_delete_def)

lemma class_payload_fields [simp]:
  "row_id (class_payload d x) = row_id x" "cl_school_id (class_payload d x) = cl_school_id x"
  "cl_code (class_payload d x) = cl_code x" "deleted_at (class_payload d x) = deleted_at x"
  by (simp_all add: class_payload_def assign_def split: option.split)

lemma subject_payload_fields [simp]:
  "row_id (subject_payload d x) = row_id x" "su_school_id (subject_payload d x) = su_school_id x"
  "su_code (subject_payload d x) = su_code x" "deleted_at (subject_payload d x) = deleted_at x"
  by (simp_all add: subject_payload_def assign_def split: option.split)

lemma cohort_payload_fields [simp]:
  "row_id (cohort_payload d x) = row_id x" "co_school_id (cohort_payload d x) = co_school_id x"
  "co_academic_year_id (cohort_payload d x) = co_academic_year_id x"
  "co_academic_class_id (cohort_payload d x) = co_academic_class_id x"
  "co_code (cohort_payload d x) = co_code x" "deleted_at (cohort_payload d x) = deleted_at x"
  by (simp_all add: cohort_payload_def assign_def split: option.split)

lemma new_class_fields [simp]:
  "row_id (new_class env ctx sch org d s) = new_id env ''academic_classes'' (academic_classes s)"
  "cl_school_id (new_class env ctx sch org d s) = sch" "cl_code (new_class env ctx sch org d s) = kc_code d"
  by (simp_all add: new_class_def)

lemma new_subject_fields [simp]:
  "row_id (new_subject env ctx sch org d s) = new_id env ''subjects'' (subjects s)"
  "su_school_id (new_subject env ctx sch org d s) = sch" "su_code (new_subject env ctx sch org d s) = jc_code d"
  by (simp_all add: new_subject_def)

lemma new_cohort_fields [simp]:
  "row_id (new_cohort env ctx sch org d s) = new_id env ''cohorts'' (cohorts s)"
  "co_school_id (new_cohort env ctx sch org d s) = sch" "co_code (new_cohort env ctx sch org d s) = hc_code d"
  "co_academic_year_id (new_cohort env ctx sch org d s) = hc_academic_year_id d"
  "co_academic_class_id (new_cohort env ctx sch org d s) = hc_academic_class_id d"
  by (simp_all add: new_cohort_def)

lemma class_by_id_SomeD: "class_by_id s sch i = Some x \<Longrightarrow> x \<in> set (academic_classes s) \<and> row_id x = i \<and>
    cl_school_id x = sch \<and> deleted_at x = None"
  by (auto simp: class_by_id_def dest: find_SomeD)

lemma subject_by_id_SomeD: "subject_by_id s sch i = Some x \<Longrightarrow> x \<in> set (subjects s) \<and> row_id x = i \<and>
    su_school_id x = sch \<and> deleted_at x = None"
  by (auto simp: subject_by_id_def dest: find_SomeD)

lemma cohort_by_id_SomeD: "cohort_by_id s sch i = Some x \<Longrightarrow> x \<in> set (cohorts s) \<and> row_id x = i \<and>
    co_school_id x = sch \<and> deleted_at x = None"
  by (auto simp: cohort_by_id_def dest: find_SomeD)

lemma get_class_owned_Inr: "get_class_owned ctx i s = Inr x \<longleftrightarrow>
    (\<exists>sch. school_id ctx = Some sch \<and> class_by_id s sch i = Some x)"
  by (simp add: get_class_owned_def split: option.split)

lemma get_subject_owned_Inr: "get_subject_owned ctx i s = Inr x \<longleftrightarrow>
    (\<exists>sch. school_id ctx = Some sch \<and> subject_by_id s sch i = Some x)"
  by (simp add: get_subject_owned_def split: option.split)

lemma get_cohort_owned_Inr: "get_cohort_owned ctx i s = Inr x \<longleftrightarrow>
    (\<exists>sch. school_id ctx = Some sch \<and> cohort_by_id s sch i = Some x)"
  by (simp add: get_cohort_owned_def split: option.split)

section \<open>Transitions\<close>

inductive catalog_step :: "db \<Rightarrow> db \<Rightarrow> bool" where
  class_created: "create_class env ctx c s = Inr (x, s') \<Longrightarrow>
    new_id env ''academic_classes'' (academic_classes s) \<notin> ids (academic_classes s) \<Longrightarrow> catalog_step s s'"
| class_updated: "get_class_owned ctx i s = Inr x \<Longrightarrow> update_class env ctx x cu s = Inr (x', s') \<Longrightarrow> catalog_step s s'"
| class_deleted: "get_class_owned ctx i s = Inr x \<Longrightarrow> delete_class env ctx x v s = Inr (r, s') \<Longrightarrow> catalog_step s s'"
| subject_created: "create_subject env ctx j s = Inr (y, s') \<Longrightarrow>
    new_id env ''subjects'' (subjects s) \<notin> ids (subjects s) \<Longrightarrow> catalog_step s s'"
| subject_updated: "get_subject_owned ctx i s = Inr y \<Longrightarrow> update_subject env ctx y ju s = Inr (y', s') \<Longrightarrow> catalog_step s s'"
| subject_deleted: "get_subject_owned ctx i s = Inr y \<Longrightarrow> delete_subject env ctx y v s = Inr (r, s') \<Longrightarrow> catalog_step s s'"
| cohort_created: "create_cohort env ctx h s = Inr (z, s') \<Longrightarrow>
    new_id env ''cohorts'' (cohorts s) \<notin> ids (cohorts s) \<Longrightarrow> catalog_step s s'"
| cohort_updated: "get_cohort_owned ctx i s = Inr z \<Longrightarrow> update_cohort env ctx z hu s = Inr (z', s') \<Longrightarrow> catalog_step s s'"
| cohort_deleted: "get_cohort_owned ctx i s = Inr z \<Longrightarrow> delete_cohort env ctx z v s = Inr (r, s') \<Longrightarrow> catalog_step s s'"
| linked: "create_link env ctx l s = Inr (k, s') \<Longrightarrow> catalog_step s s'"
| unlinked: "get_link_owned ctx i s = Inr k \<Longrightarrow> delete_link env ctx k s = Inr (r, s') \<Longrightarrow> catalog_step s s'"

text \<open>What each operation does to the tables, when it returns.\<close>

lemma create_class_tables:
  assumes "create_class env ctx d s = Inr (x, s')"
  obtains sch org where "school_id ctx = Some sch" "x = new_class env ctx sch org d s"
    "class_by_code (academic_classes s) sch (kc_code d) = None"
    "academic_classes s' = insert_row x (academic_classes s)"
    "uq_academic_classes_school_id_code (academic_classes s')"
    "academic_years s' = academic_years s" "academic_terms s' = academic_terms s" "subjects s' = subjects s"
    "cohorts s' = cohorts s" "class_subjects s' = class_subjects s"
  using assms that by (auto simp: create_class_def bind_ok_Inr_iff Let_def split: option.splits if_splits)

lemma create_subject_tables:
  assumes "create_subject env ctx d s = Inr (x, s')"
  obtains sch org where "school_id ctx = Some sch" "x = new_subject env ctx sch org d s"
    "subject_by_code (subjects s) sch (jc_code d) = None" "subjects s' = insert_row x (subjects s)"
    "uq_subjects_school_id_code (subjects s')"
    "academic_years s' = academic_years s" "academic_terms s' = academic_terms s"
    "academic_classes s' = academic_classes s" "cohorts s' = cohorts s" "class_subjects s' = class_subjects s"
  using assms that by (auto simp: create_subject_def bind_ok_Inr_iff Let_def split: option.splits if_splits)

lemma create_cohort_tables:
  assumes "create_cohort env ctx d s = Inr (x, s')"
  obtains sch org y c where "school_id ctx = Some sch" "x = new_cohort env ctx sch org d s"
    "year_by_id s sch (hc_academic_year_id d) = Some y" "class_by_id s sch (hc_academic_class_id d) = Some c"
    "cohort_by_code (cohorts s) (sch, hc_academic_year_id d, hc_academic_class_id d) (hc_code d) = None"
    "cohorts s' = insert_row x (cohorts s)" "uq_cohorts_school_year_class_code (cohorts s')"
    "academic_years s' = academic_years s" "academic_terms s' = academic_terms s"
    "academic_classes s' = academic_classes s" "subjects s' = subjects s" "class_subjects s' = class_subjects s"
  using assms that by (auto simp: create_cohort_def bind_ok_Inr_iff Let_def split: option.splits if_splits)

lemma create_link_tables:
  assumes "create_link env ctx d s = Inr (x, s')"
  obtains sch org y c j where "school_id ctx = Some sch" "x = new_link env ctx sch org d s"
    "class_by_id s sch (lc_academic_class_id d) = Some c" "subject_by_id s sch (lc_subject_id d) = Some j"
    "year_by_id s sch (lc_effective_from_year_id d) = Some y"
    "class_subjects s' = insert_row x (class_subjects s)" "uq_class_subjects_school_class_subject (class_subjects s')"
    "academic_years s' = academic_years s" "academic_terms s' = academic_terms s"
    "academic_classes s' = academic_classes s" "subjects s' = subjects s" "cohorts s' = cohorts s"
  using assms that by (auto simp: create_link_def bind_ok_Inr_iff Let_def split: option.splits if_splits)

lemma update_class_tables:
  assumes "update_class env ctx x d s = Inr (x', s')"
  shows "x' = save_row env ctx x (class_payload d x)" "academic_classes s' = update_row x' (academic_classes s)"
    "academic_years s' = academic_years s" "academic_terms s' = academic_terms s" "subjects s' = subjects s" "cohorts s' = cohorts s" "class_subjects s' = class_subjects s"
  using assms by (auto simp: update_class_def Let_def split: if_splits)

lemma delete_class_tables:
  assumes "delete_class env ctx x v s = Inr (r, s')"
  shows "academic_classes s' = update_row (soft_delete env ctx x) (academic_classes s)"
    "academic_years s' = academic_years s" "academic_terms s' = academic_terms s" "subjects s' = subjects s" "cohorts s' = cohorts s" "class_subjects s' = class_subjects s"
  using assms by (auto simp: delete_class_def split: if_splits)

lemma update_subject_tables:
  assumes "update_subject env ctx x d s = Inr (x', s')"
  shows "x' = save_row env ctx x (subject_payload d x)" "subjects s' = update_row x' (subjects s)"
    "academic_years s' = academic_years s" "academic_terms s' = academic_terms s" "academic_classes s' = academic_classes s" "cohorts s' = cohorts s" "class_subjects s' = class_subjects s"
  using assms by (auto simp: update_subject_def Let_def split: if_splits)

lemma delete_subject_tables:
  assumes "delete_subject env ctx x v s = Inr (r, s')"
  shows "subjects s' = update_row (soft_delete env ctx x) (subjects s)"
    "academic_years s' = academic_years s" "academic_terms s' = academic_terms s" "academic_classes s' = academic_classes s" "cohorts s' = cohorts s" "class_subjects s' = class_subjects s"
  using assms by (auto simp: delete_subject_def split: if_splits)

lemma update_cohort_tables:
  assumes "update_cohort env ctx x d s = Inr (x', s')"
  shows "x' = save_row env ctx x (cohort_payload d x)" "cohorts s' = update_row x' (cohorts s)"
    "academic_years s' = academic_years s" "academic_terms s' = academic_terms s" "academic_classes s' = academic_classes s" "subjects s' = subjects s" "class_subjects s' = class_subjects s"
  using assms by (auto simp: update_cohort_def Let_def split: if_splits)

lemma delete_cohort_tables:
  assumes "delete_cohort env ctx x v s = Inr (r, s')"
  shows "cohorts s' = update_row (soft_delete env ctx x) (cohorts s)"
    "academic_years s' = academic_years s" "academic_terms s' = academic_terms s" "academic_classes s' = academic_classes s" "subjects s' = subjects s" "class_subjects s' = class_subjects s"
  using assms by (auto simp: delete_cohort_def split: if_splits)

lemma delete_link_tables:
  assumes "delete_link env ctx x s = Inr (r, s')"
  shows "class_subjects s' = delete_row (row_id x) (class_subjects s)"
    "academic_years s' = academic_years s" "academic_terms s' = academic_terms s" "academic_classes s' = academic_classes s" "subjects s' = subjects s" "cohorts s' = cohorts s"
  using assms by (auto simp: delete_link_def)

lemmas catalog_tables =
  update_class_tables delete_class_tables update_subject_tables delete_subject_tables update_cohort_tables
  delete_cohort_tables delete_link_tables

lemma class_code_lookup:
  "class_by_code t k c = Some x \<Longrightarrow> x \<in> set t \<and> deleted_at x = None \<and> cl_school_id x = k \<and> py_lower (cl_code x) = py_lower c"
  "class_by_code t k c = None \<Longrightarrow> x \<in> set t \<Longrightarrow> deleted_at x = None \<Longrightarrow> cl_school_id x = k \<Longrightarrow>
    py_lower (cl_code x) \<noteq> py_lower c"
  unfolding class_by_code_def by (auto dest: find_SomeD find_NoneD)

lemma subject_code_lookup:
  "subject_by_code t k c = Some x \<Longrightarrow> x \<in> set t \<and> deleted_at x = None \<and> su_school_id x = k \<and> py_lower (su_code x) = py_lower c"
  "subject_by_code t k c = None \<Longrightarrow> x \<in> set t \<Longrightarrow> deleted_at x = None \<Longrightarrow> su_school_id x = k \<Longrightarrow>
    py_lower (su_code x) \<noteq> py_lower c"
  unfolding subject_by_code_def by (auto dest: find_SomeD find_NoneD)

lemma cohort_code_lookup:
  "cohort_by_code t k c = Some x \<Longrightarrow> x \<in> set t \<and> deleted_at x = None \<and>
    (co_school_id x, co_academic_year_id x, co_academic_class_id x) = k \<and> py_lower (co_code x) = py_lower c"
  "cohort_by_code t k c = None \<Longrightarrow> x \<in> set t \<Longrightarrow> deleted_at x = None \<Longrightarrow>
    (co_school_id x, co_academic_year_id x, co_academic_class_id x) = k \<Longrightarrow> py_lower (co_code x) \<noteq> py_lower c"
  unfolding cohort_by_code_def by (auto dest: find_SomeD find_NoneD)

lemma class_shape:
  assumes "catalog_step s s'"
  shows "academic_classes s' = academic_classes s \<or>
    (\<exists>r. academic_classes s' = insert_row r (academic_classes s) \<and>
       class_by_code (academic_classes s) (cl_school_id r) (cl_code r) = None) \<or>
    (\<exists>x r. x \<in> set (academic_classes s) \<and> academic_classes s' = update_row r (academic_classes s) \<and>
       row_id r = row_id x \<and> cl_code r = cl_code x \<and> cl_school_id r = cl_school_id x \<and>
       (deleted_at r = None \<longrightarrow> deleted_at x = None))"
  using assms
proof (cases rule: catalog_step.cases)
  case (class_created env ctx c x)
  then show ?thesis by (elim create_class_tables) auto
next
  case (class_updated ctx i x env cu x')
  note c = update_class_tables[OF class_updated(2)]
  from class_updated(1) obtain sch where "class_by_id s sch i = Some x" by (auto simp: get_class_owned_Inr)
  from class_by_id_SomeD[OF this] c(1) show ?thesis
    by (intro disjI2 exI[of _ x] exI[of _ x'] conjI c(2)) simp_all
next
  case (class_deleted ctx i x env v r)
  note c = delete_class_tables[OF class_deleted(2)]
  from class_deleted(1) obtain sch where "class_by_id s sch i = Some x" by (auto simp: get_class_owned_Inr)
  from class_by_id_SomeD[OF this] show ?thesis
    by (intro disjI2 exI[of _ x] exI[of _ "soft_delete env ctx x"] conjI c(1)) simp_all
qed (auto elim: create_subject_tables create_cohort_tables create_link_tables dest: catalog_tables)

lemma subject_shape:
  assumes "catalog_step s s'"
  shows "subjects s' = subjects s \<or>
    (\<exists>r. subjects s' = insert_row r (subjects s) \<and> subject_by_code (subjects s) (su_school_id r) (su_code r) = None) \<or>
    (\<exists>x r. x \<in> set (subjects s) \<and> subjects s' = update_row r (subjects s) \<and> row_id r = row_id x \<and>
       su_code r = su_code x \<and> su_school_id r = su_school_id x \<and> (deleted_at r = None \<longrightarrow> deleted_at x = None))"
  using assms
proof (cases rule: catalog_step.cases)
  case (subject_created env ctx c x)
  then show ?thesis by (elim create_subject_tables) auto
next
  case (subject_updated ctx i x env ju x')
  note c = update_subject_tables[OF subject_updated(2)]
  from subject_updated(1) obtain sch where "subject_by_id s sch i = Some x" by (auto simp: get_subject_owned_Inr)
  from subject_by_id_SomeD[OF this] c(1) show ?thesis
    by (intro disjI2 exI[of _ x] exI[of _ x'] conjI c(2)) simp_all
next
  case (subject_deleted ctx i x env v r)
  note c = delete_subject_tables[OF subject_deleted(2)]
  from subject_deleted(1) obtain sch where "subject_by_id s sch i = Some x" by (auto simp: get_subject_owned_Inr)
  from subject_by_id_SomeD[OF this] show ?thesis
    by (intro disjI2 exI[of _ x] exI[of _ "soft_delete env ctx x"] conjI c(1)) simp_all
qed (auto elim: create_class_tables create_cohort_tables create_link_tables dest: catalog_tables)

lemma cohort_shape:
  assumes "catalog_step s s'"
  shows "cohorts s' = cohorts s \<or>
    (\<exists>r. cohorts s' = insert_row r (cohorts s) \<and>
       cohort_by_code (cohorts s) (co_school_id r, co_academic_year_id r, co_academic_class_id r) (co_code r) = None) \<or>
    (\<exists>x r. x \<in> set (cohorts s) \<and> cohorts s' = update_row r (cohorts s) \<and> row_id r = row_id x \<and> co_code r = co_code x \<and>
       (co_school_id r, co_academic_year_id r, co_academic_class_id r) = (co_school_id x, co_academic_year_id x, co_academic_class_id x) \<and>
       (deleted_at r = None \<longrightarrow> deleted_at x = None))"
  using assms
proof (cases rule: catalog_step.cases)
  case (cohort_created env ctx c x)
  then show ?thesis by (elim create_cohort_tables) auto
next
  case (cohort_updated ctx i x env hu x')
  note c = update_cohort_tables[OF cohort_updated(2)]
  from cohort_updated(1) obtain sch where "cohort_by_id s sch i = Some x" by (auto simp: get_cohort_owned_Inr)
  from cohort_by_id_SomeD[OF this] c(1) show ?thesis
    by (intro disjI2 exI[of _ x] exI[of _ x'] conjI c(2)) simp_all
next
  case (cohort_deleted ctx i x env v r)
  note c = delete_cohort_tables[OF cohort_deleted(2)]
  from cohort_deleted(1) obtain sch where "cohort_by_id s sch i = Some x" by (auto simp: get_cohort_owned_Inr)
  from cohort_by_id_SomeD[OF this] show ?thesis
    by (intro disjI2 exI[of _ x] exI[of _ "soft_delete env ctx x"] conjI c(1)) simp_all
qed (auto elim: create_class_tables create_subject_tables create_link_tables dest: catalog_tables)

interpretation class_codes: coded_service class_by_code "\<lambda>x. deleted_at x = None" cl_school_id cl_code py_lower
    academic_classes catalog_step
proof
  fix s s' assume "catalog_step s s'"
  from class_shape[OF this] show "academic_classes s' = academic_classes s \<or>
    (\<exists>r. academic_classes s' = insert_row r (academic_classes s) \<and>
       class_by_code (academic_classes s) (cl_school_id r) (cl_code r) = None) \<or>
    (\<exists>x r. x \<in> set (academic_classes s) \<and> academic_classes s' = update_row r (academic_classes s) \<and>
       row_id r = row_id x \<and> cl_code r = cl_code x \<and> cl_school_id r = cl_school_id x \<and>
       (deleted_at r = None \<longrightarrow> deleted_at x = None))" .
qed (fact class_code_lookup)+

interpretation subject_codes: coded_service subject_by_code "\<lambda>x. deleted_at x = None" su_school_id su_code py_lower
    subjects catalog_step
  by unfold_locales (fact subject_code_lookup subject_shape)+

interpretation cohort_codes: coded_service cohort_by_code "\<lambda>x. deleted_at x = None"
    "\<lambda>x. (co_school_id x, co_academic_year_id x, co_academic_class_id x)" co_code py_lower cohorts catalog_step
  by unfold_locales (fact cohort_code_lookup cohort_shape)+

section \<open>References between the academic tables\<close>

inductive academic_step :: "db \<Rightarrow> db \<Rightarrow> bool" where
  calendar_moved: "cal_step s s' \<Longrightarrow> academic_step s s'"
| catalog_moved: "catalog_step s s' \<Longrightarrow> academic_step s s'"

text \<open>
  The rows a reference may name, each with its school. A deleted row keeps its key, since the
  services only mark it.
\<close>

definition year_keys :: "db \<Rightarrow> (ulid \<times> ulid) set" where
  "year_keys s = (\<lambda>y. (row_id y, ay_school_id y)) ` set (academic_years s)"

definition class_keys :: "db \<Rightarrow> (ulid \<times> ulid) set" where
  "class_keys s = (\<lambda>x. (row_id x, cl_school_id x)) ` set (academic_classes s)"

definition subject_keys :: "db \<Rightarrow> (ulid \<times> ulid) set" where
  "subject_keys s = (\<lambda>x. (row_id x, su_school_id x)) ` set (subjects s)"

definition refs_kept :: "db \<Rightarrow> bool" where
  "refs_kept s \<longleftrightarrow>
     (\<lambda>x. (tm_academic_year_id x, tm_school_id x)) ` set (academic_terms s) \<subseteq> year_keys s \<and>
     (\<lambda>x. (co_academic_year_id x, co_school_id x)) ` set (cohorts s) \<subseteq> year_keys s \<and>
     (\<lambda>x. (co_academic_class_id x, co_school_id x)) ` set (cohorts s) \<subseteq> class_keys s \<and>
     (\<lambda>x. (cs_academic_class_id x, cs_school_id x)) ` set (class_subjects s) \<subseteq> class_keys s \<and>
     (\<lambda>x. (cs_subject_id x, cs_school_id x)) ` set (class_subjects s) \<subseteq> subject_keys s \<and>
     (\<lambda>x. (cs_effective_from_year_id x, cs_school_id x)) ` set (class_subjects s) \<subseteq> year_keys s"

definition academic_inv :: "db \<Rightarrow> bool" where
  "academic_inv s \<longleftrightarrow> cal_inv s \<and> pk_unique (academic_classes s) \<and> pk_unique (subjects s) \<and> pk_unique (cohorts s) \<and>
     refs_kept s"

lemma refs_kept_smaller:
  assumes "refs_kept s" and "year_keys s \<subseteq> year_keys s'" and "class_keys s \<subseteq> class_keys s'" and "subject_keys s \<subseteq> subject_keys s'"
    and "(\<lambda>x. (tm_academic_year_id x, tm_school_id x)) ` set (academic_terms s') \<subseteq>
      (\<lambda>x. (tm_academic_year_id x, tm_school_id x)) ` set (academic_terms s) \<union> year_keys s"
    and "(\<lambda>x. (co_academic_year_id x, co_academic_class_id x, co_school_id x)) ` set (cohorts s') \<subseteq>
      (\<lambda>x. (co_academic_year_id x, co_academic_class_id x, co_school_id x)) ` set (cohorts s) \<union>
      {(y, c, sch). (y, sch) \<in> year_keys s \<and> (c, sch) \<in> class_keys s}"
    and "(\<lambda>x. (cs_academic_class_id x, cs_subject_id x, cs_effective_from_year_id x, cs_school_id x)) ` set (class_subjects s') \<subseteq>
      (\<lambda>x. (cs_academic_class_id x, cs_subject_id x, cs_effective_from_year_id x, cs_school_id x)) ` set (class_subjects s) \<union>
      {(c, j, y, sch). (y, sch) \<in> year_keys s \<and> (c, sch) \<in> class_keys s \<and> (j, sch) \<in> subject_keys s}"
  shows "refs_kept s'"
proof -
  have t: "(tm_academic_year_id x, tm_school_id x) \<in> year_keys s'" if "x \<in> set (academic_terms s')" for x
  proof -
    have "(\<lambda>x. (tm_academic_year_id x, tm_school_id x)) ` set (academic_terms s) \<subseteq> year_keys s"
      using assms(1) by (simp add: refs_kept_def)
    with subsetD[OF assms(5) imageI[OF that]] assms(2) show ?thesis by blast
  qed
  have h: "(co_academic_year_id x, co_school_id x) \<in> year_keys s'" "(co_academic_class_id x, co_school_id x) \<in> class_keys s'"
    if "x \<in> set (cohorts s')" for x
  proof -
    let ?k = "\<lambda>x. (co_academic_year_id x, co_academic_class_id x, co_school_id x)"
    from assms(6) that have "?k x \<in> ?k ` set (cohorts s) \<union> {(y, c, sch). (y, sch) \<in> year_keys s \<and> (c, sch) \<in> class_keys s}"
      by (rule subsetD[OF _ imageI])
    then have "(co_academic_year_id x, co_school_id x) \<in> year_keys s \<and> (co_academic_class_id x, co_school_id x) \<in> class_keys s"
      using assms(1) unfolding refs_kept_def by auto
    then show "(co_academic_year_id x, co_school_id x) \<in> year_keys s'" "(co_academic_class_id x, co_school_id x) \<in> class_keys s'"
      using assms(2,3) by blast+
  qed
  have l: "(cs_academic_class_id x, cs_school_id x) \<in> class_keys s' \<and> (cs_subject_id x, cs_school_id x) \<in> subject_keys s' \<and>
      (cs_effective_from_year_id x, cs_school_id x) \<in> year_keys s'" if "x \<in> set (class_subjects s')" for x
  proof -
    let ?k = "\<lambda>x. (cs_academic_class_id x, cs_subject_id x, cs_effective_from_year_id x, cs_school_id x)"
    from assms(7) that have "?k x \<in> ?k ` set (class_subjects s) \<union>
      {(c, j, y, sch). (y, sch) \<in> year_keys s \<and> (c, sch) \<in> class_keys s \<and> (j, sch) \<in> subject_keys s}"
      by (rule subsetD[OF _ imageI])
    then have "(cs_academic_class_id x, cs_school_id x) \<in> class_keys s \<and> (cs_subject_id x, cs_school_id x) \<in> subject_keys s \<and>
      (cs_effective_from_year_id x, cs_school_id x) \<in> year_keys s" using assms(1) unfolding refs_kept_def by auto
    then show ?thesis using assms(2-4) by blast
  qed
  show ?thesis unfolding refs_kept_def by (intro conjI image_subsetI) (simp_all add: t h l)
qed

lemma year_key: "year_by_id s sch i = Some y \<Longrightarrow> (i, sch) \<in> year_keys s"
  unfolding year_keys_def by (rule image_eqI[of _ _ y]) (auto dest: year_by_id_SomeD)

lemma class_key: "class_by_id s sch i = Some x \<Longrightarrow> (i, sch) \<in> class_keys s"
  unfolding class_keys_def by (rule image_eqI[of _ _ x]) (auto dest: class_by_id_SomeD)

lemma subject_key: "subject_by_id s sch i = Some x \<Longrightarrow> (i, sch) \<in> subject_keys s"
  unfolding subject_keys_def by (rule image_eqI[of _ _ x]) (auto dest: subject_by_id_SomeD)

text \<open>A step of the calendar leaves the catalogue alone and keeps the keys of the years.\<close>

lemma create_year_others:
  assumes "create_year env ctx d s = Inr (y, s')"
  shows "academic_classes s' = academic_classes s" "subjects s' = subjects s" "cohorts s' = cohorts s" "class_subjects s' = class_subjects s"
  using assms unfolding create_year_def Let_def
  by (auto elim!: bind_ok_InrE split: option.splits if_splits)

lemma update_year_others:
  assumes "update_year env ctx y d s = Inr (y', s')"
  shows "academic_classes s' = academic_classes s" "subjects s' = subjects s" "cohorts s' = cohorts s" "class_subjects s' = class_subjects s"
  using assms unfolding update_year_def Let_def
  by (auto elim!: bind_ok_InrE split: option.splits if_splits)

lemma delete_year_others:
  assumes "delete_year env ctx y v s = Inr (r, s')"
  shows "academic_classes s' = academic_classes s" "subjects s' = subjects s" "cohorts s' = cohorts s" "class_subjects s' = class_subjects s"
  using assms unfolding delete_year_def Let_def
  by (auto elim!: bind_ok_InrE split: option.splits if_splits)

lemma create_term_others:
  assumes "create_term env ctx e s = Inr (x, s')"
  shows "academic_classes s' = academic_classes s" "subjects s' = subjects s" "cohorts s' = cohorts s" "class_subjects s' = class_subjects s"
  using assms unfolding create_term_def Let_def
  by (auto elim!: bind_ok_InrE split: option.splits if_splits)

lemma update_term_others:
  assumes "update_term env ctx x w s = Inr (x', s')"
  shows "academic_classes s' = academic_classes s" "subjects s' = subjects s" "cohorts s' = cohorts s" "class_subjects s' = class_subjects s"
  using assms unfolding update_term_def Let_def
  by (auto elim!: bind_ok_InrE split: option.splits if_splits)

lemma delete_term_others:
  assumes "delete_term env ctx x v s = Inr (r, s')"
  shows "academic_classes s' = academic_classes s" "subjects s' = subjects s" "cohorts s' = cohorts s" "class_subjects s' = class_subjects s"
  using assms unfolding delete_term_def Let_def
  by (auto elim!: bind_ok_InrE split: option.splits if_splits)

lemma cal_step_others:
  assumes "cal_step s s'"
  shows "academic_classes s' = academic_classes s" "subjects s' = subjects s" "cohorts s' = cohorts s" "class_subjects s' = class_subjects s"
  using assms
  by (auto elim!: cal_step.cases dest: create_year_others update_year_others delete_year_others
      create_term_others update_term_others delete_term_others)

lemma cal_step_refs:
  assumes "cal_inv s" and "cal_step s s'"
  shows "year_keys s \<subseteq> year_keys s'"
    and "(\<lambda>x. (tm_academic_year_id x, tm_school_id x)) ` set (academic_terms s') \<subseteq>
      (\<lambda>x. (tm_academic_year_id x, tm_school_id x)) ` set (academic_terms s) \<union> year_keys s"
  using assms(2)
proof (atomize (full), cases rule: cal_step.cases)
  case (year_created env ctx d y)
  have pk: "pk_unique (academic_years s)" using assms(1) by (simp add: cal_inv_def)
  from create_year_tables[OF year_created pk] have "academic_years s' = insert_row y (academic_years s)"
    "academic_terms s' = academic_terms s" by auto
  then show "year_keys s \<subseteq> year_keys s' \<and> (\<lambda>x. (tm_academic_year_id x, tm_school_id x)) ` set (academic_terms s') \<subseteq>
      (\<lambda>x. (tm_academic_year_id x, tm_school_id x)) ` set (academic_terms s) \<union> year_keys s"
    by (auto simp: year_keys_def set_insert_row)
next
  case (year_updated ctx i y env u y')
  from year_updated(1) obtain sch where g: "school_id ctx = Some sch" "year_by_id s sch i = Some y"
    by (auto simp: get_year_owned_Inr)
  have pk: "pk_unique (academic_years s)" using assms(1) by (simp add: cal_inv_def)
  note c = update_year_tables[OF year_updated(2) g(2,1) pk] and y = year_by_id_SomeD[OF g(2)]
  have "year_keys s' = (\<lambda>y. (row_id y, ay_school_id y)) ` set (update_row y' (academic_years s))"
    unfolding year_keys_def using c by metis
  also have "\<dots> = year_keys s" unfolding year_keys_def
    by (rule image_update_row[OF pk, of y]) (use c y in simp_all)
  finally have "year_keys s' = year_keys s" .
  then show "year_keys s \<subseteq> year_keys s' \<and> (\<lambda>x. (tm_academic_year_id x, tm_school_id x)) ` set (academic_terms s') \<subseteq>
      (\<lambda>x. (tm_academic_year_id x, tm_school_id x)) ` set (academic_terms s) \<union> year_keys s"
    using c by auto
next
  case (year_deleted ctx i y env v r)
  then obtain sch where g: "year_by_id s sch i = Some y" by (auto simp: get_year_owned_Inr)
  have pk: "pk_unique (academic_years s)" using assms(1) by (simp add: cal_inv_def)
  note y = year_by_id_SomeD[OF g]
  have c: "academic_years s' = update_row (soft_delete env ctx y) (academic_years s)" "academic_terms s' = academic_terms s"
    using year_deleted(2) by (auto simp: delete_year_def split: if_splits)
  have "year_keys s' = year_keys s" unfolding year_keys_def c(1)
    by (rule image_update_row[OF pk, of y]) (use y in \<open>simp_all add: soft_delete_def\<close>)
  then show "year_keys s \<subseteq> year_keys s' \<and> (\<lambda>x. (tm_academic_year_id x, tm_school_id x)) ` set (academic_terms s') \<subseteq>
      (\<lambda>x. (tm_academic_year_id x, tm_school_id x)) ` set (academic_terms s) \<union> year_keys s"
    using c(2) by auto
next
  case (term_created env ctx e x)
  from create_term_tables[OF term_created(1)] obtain sch y where
    c: "academic_terms s' = insert_row x (academic_terms s)" "academic_years s' = academic_years s"
      "tm_school_id x = sch" "tm_academic_year_id x = tc_academic_year_id e" "year_by_id s sch (tc_academic_year_id e) = Some y"
    by (metis new_term_fields(2,4))
  then have "(tm_academic_year_id x, tm_school_id x) \<in> year_keys s" using year_key by metis
  then show "year_keys s \<subseteq> year_keys s' \<and> (\<lambda>x. (tm_academic_year_id x, tm_school_id x)) ` set (academic_terms s') \<subseteq>
      (\<lambda>x. (tm_academic_year_id x, tm_school_id x)) ` set (academic_terms s) \<union> year_keys s"
    using c(2) by (auto simp: c(1) set_insert_row year_keys_def)
next
  case (term_updated ctx i x env w x')
  then obtain sch where g: "term_by_id s sch i = Some x" by (auto simp: get_term_owned_Inr)
  have pk: "pk_unique (academic_terms s)" using assms(1) by (simp add: cal_inv_def)
  have c: "x' = save_row env ctx x (term_payload w x)" "academic_terms s' = update_row x' (academic_terms s)"
    "academic_years s' = academic_years s" using term_updated(2) by (elim update_term_tables; simp)+
  have "(\<lambda>x. (tm_academic_year_id x, tm_school_id x)) ` set (academic_terms s') =
      (\<lambda>x. (tm_academic_year_id x, tm_school_id x)) ` set (academic_terms s)"
    unfolding c(2) by (rule image_update_row[OF pk, of x]) (use term_by_id_SomeD[OF g] c(1) in simp_all)
  then show "year_keys s \<subseteq> year_keys s' \<and> (\<lambda>x. (tm_academic_year_id x, tm_school_id x)) ` set (academic_terms s') \<subseteq>
      (\<lambda>x. (tm_academic_year_id x, tm_school_id x)) ` set (academic_terms s) \<union> year_keys s"
    using c(3) by (simp add: year_keys_def)
next
  case (term_deleted ctx i x env v r)
  then obtain sch where g: "term_by_id s sch i = Some x" by (auto simp: get_term_owned_Inr)
  have pk: "pk_unique (academic_terms s)" using assms(1) by (simp add: cal_inv_def)
  have c: "academic_terms s' = update_row (soft_delete env ctx x) (academic_terms s)" "academic_years s' = academic_years s"
    using term_deleted(2) by (auto simp: delete_term_def split: if_splits)
  have "(\<lambda>x. (tm_academic_year_id x, tm_school_id x)) ` set (academic_terms s') =
      (\<lambda>x. (tm_academic_year_id x, tm_school_id x)) ` set (academic_terms s)"
    unfolding c(1) by (rule image_update_row[OF pk, of x]) (use term_by_id_SomeD[OF g] in \<open>simp_all add: soft_delete_def\<close>)
  then show "year_keys s \<subseteq> year_keys s' \<and> (\<lambda>x. (tm_academic_year_id x, tm_school_id x)) ` set (academic_terms s') \<subseteq>
      (\<lambda>x. (tm_academic_year_id x, tm_school_id x)) ` set (academic_terms s) \<union> year_keys s"
    using c(2) by (simp add: year_keys_def)
qed

lemma catalog_step_calendar:
  assumes "catalog_step s s'"
  shows "academic_years s' = academic_years s" "academic_terms s' = academic_terms s"
  using assms
  by (auto elim!: catalog_step.cases create_class_tables create_subject_tables create_cohort_tables create_link_tables
      dest: catalog_tables)

text \<open>The three ways a step may change a table, seen through a key that updates keep.\<close>

lemma keys_grow:
  assumes "pk_unique t"
    and "t' = t \<or> (\<exists>r. t' = insert_row r t \<and> P r) \<or>
      (\<exists>x r. x \<in> set t \<and> t' = update_row r t \<and> row_id r = row_id x \<and> f r = f x)"
  shows "f ` set t \<subseteq> f ` set t'" and "f ` set t' \<subseteq> f ` set t \<union> f ` {r. P r}"
proof -
  have "f ` set t \<subseteq> f ` set t' \<and> f ` set t' \<subseteq> f ` set t \<union> f ` {r. P r}"
    using assms(2)
  proof (elim disjE exE conjE)
    fix x r assume u: "x \<in> set t" "t' = update_row r t" "row_id r = row_id x" "f r = f x"
    show ?thesis unfolding u(2) image_update_row[of t x r f, OF assms(1) u(1,3,4)] by blast
  qed (auto simp: set_insert_row)
  then show "f ` set t \<subseteq> f ` set t'" "f ` set t' \<subseteq> f ` set t \<union> f ` {r. P r}" by blast+
qed

lemma catalog_keys:
  assumes "academic_inv s" and "catalog_step s s'"
  shows "year_keys s' = year_keys s" "class_keys s \<subseteq> class_keys s'" "subject_keys s \<subseteq> subject_keys s'"
proof -
  have pk: "pk_unique (academic_classes s)" "pk_unique (subjects s)" using assms(1) by (simp_all add: academic_inv_def)
  show "year_keys s' = year_keys s" using catalog_step_calendar[OF assms(2)] by (simp add: year_keys_def)
  show "class_keys s \<subseteq> class_keys s'" unfolding class_keys_def
    by (rule keys_grow(1)[OF pk(1), where P = "\<lambda>_. True"]) (use class_shape[OF assms(2)] in blast)
  show "subject_keys s \<subseteq> subject_keys s'" unfolding subject_keys_def
    by (rule keys_grow(1)[OF pk(2), where P = "\<lambda>_. True"]) (use subject_shape[OF assms(2)] in blast)
qed

lemma catalog_cohort_refs:
  assumes "academic_inv s" and "catalog_step s s'"
  shows "(\<lambda>x. (co_academic_year_id x, co_academic_class_id x, co_school_id x)) ` set (cohorts s') \<subseteq>
      (\<lambda>x. (co_academic_year_id x, co_academic_class_id x, co_school_id x)) ` set (cohorts s) \<union>
      {(y, c, sch). (y, sch) \<in> year_keys s \<and> (c, sch) \<in> class_keys s}"
proof -
  have pk: "pk_unique (cohorts s)" using assms(1) by (simp add: academic_inv_def)
  let ?P = "\<lambda>r. (co_academic_year_id r, co_school_id r) \<in> year_keys s \<and> (co_academic_class_id r, co_school_id r) \<in> class_keys s"
  from cohort_shape[OF assms(2)] have "cohorts s' = cohorts s \<or> (\<exists>r. cohorts s' = insert_row r (cohorts s) \<and> ?P r) \<or>
    (\<exists>x r. x \<in> set (cohorts s) \<and> cohorts s' = update_row r (cohorts s) \<and> row_id r = row_id x \<and>
      (co_academic_year_id r, co_academic_class_id r, co_school_id r) = (co_academic_year_id x, co_academic_class_id x, co_school_id x))"
  proof (elim disjE exE conjE)
    fix r assume r: "cohorts s' = insert_row r (cohorts s)"
    from assms(2) show ?thesis
    proof (cases rule: catalog_step.cases)
      case (cohort_created env ctx h z)
      from create_cohort_tables[OF cohort_created(1)] obtain sch org y c where
        "z = new_cohort env ctx sch org h s" "year_by_id s sch (hc_academic_year_id h) = Some y"
        "class_by_id s sch (hc_academic_class_id h) = Some c" "cohorts s' = insert_row z (cohorts s)" by metis
      then show ?thesis using year_key class_key by (metis new_cohort_fields(2,4,5))
    next
      case (cohort_updated ctx i x env hu x')
      from update_cohort_tables(2)[OF cohort_updated(2)] r show ?thesis
        by (metis insert_row_def length_append_singleton length_update_row n_not_Suc_n)
    next
      case (cohort_deleted ctx i x env v w)
      from delete_cohort_tables(1)[OF cohort_deleted(2)] r show ?thesis
        by (metis insert_row_def length_append_singleton length_update_row n_not_Suc_n)
    qed (auto elim: create_class_tables create_subject_tables create_link_tables dest: catalog_tables)
  qed auto
  from keys_grow(2)[OF pk this] show ?thesis by auto
qed

lemma catalog_link_refs:
  assumes "catalog_step s s'"
  shows "(\<lambda>x. (cs_academic_class_id x, cs_subject_id x, cs_effective_from_year_id x, cs_school_id x)) ` set (class_subjects s') \<subseteq>
      (\<lambda>x. (cs_academic_class_id x, cs_subject_id x, cs_effective_from_year_id x, cs_school_id x)) ` set (class_subjects s) \<union>
      {(c, j, y, sch). (y, sch) \<in> year_keys s \<and> (c, sch) \<in> class_keys s \<and> (j, sch) \<in> subject_keys s}"
    (is "?f ` _ \<subseteq> _ \<union> ?R")
  using assms
proof (cases rule: catalog_step.cases)
  case (linked env ctx l k)
  from create_link_tables[OF linked] obtain sch org y c j where k: "k = new_link env ctx sch org l s"
    "class_by_id s sch (lc_academic_class_id l) = Some c" "subject_by_id s sch (lc_subject_id l) = Some j"
    "year_by_id s sch (lc_effective_from_year_id l) = Some y" "class_subjects s' = insert_row k (class_subjects s)" by metis
  have "?f k \<in> ?R" using year_key[OF k(4)] class_key[OF k(2)] subject_key[OF k(3)] by (simp add: k(1) new_link_def)
  then show ?thesis by (simp only: k(5) set_insert_row image_insert insert_subset) blast
next
  case (unlinked ctx i k env r)
  from delete_link_tables(1)[OF unlinked(2)] have "set (class_subjects s') \<subseteq> set (class_subjects s)"
    by (simp add: set_delete_row)
  then show ?thesis by blast
qed (auto elim: create_class_tables create_subject_tables create_cohort_tables dest: catalog_tables)

lemma catalog_pk:
  assumes "catalog_step s s'"
  shows "pk_unique (academic_classes s) \<Longrightarrow> pk_unique (academic_classes s')"
    and "pk_unique (subjects s) \<Longrightarrow> pk_unique (subjects s')" and "pk_unique (cohorts s) \<Longrightarrow> pk_unique (cohorts s')"
  using assms
  by (auto elim!: catalog_step.cases create_class_tables create_subject_tables create_cohort_tables create_link_tables
      dest: catalog_tables)

lemma academic_step_preserves:
  assumes "academic_inv s" and "academic_step s s'"
  shows "academic_inv s'"
  using assms(2)
proof (cases rule: academic_step.cases)
  case calendar_moved
  have i: "cal_inv s" using assms(1) by (simp add: academic_inv_def)
  note o = cal_step_others[OF calendar_moved] and r = cal_step_refs[OF i calendar_moved]
  have "refs_kept s'"
    by (rule refs_kept_smaller[OF _ r(1) _ _ r(2)]) (use assms(1) o in \<open>auto simp: academic_inv_def class_keys_def subject_keys_def\<close>)
  then show ?thesis using assms(1) o cal_step_preserves[OF i calendar_moved] by (simp add: academic_inv_def)
next
  case catalog_moved
  note o = catalog_step_calendar[OF catalog_moved] and k = catalog_keys[OF assms(1) catalog_moved]
    and pk = catalog_pk[OF catalog_moved]
  have "refs_kept s'"
    by (rule refs_kept_smaller[OF _ _ k(2,3) _ catalog_cohort_refs[OF assms(1) catalog_moved] catalog_link_refs[OF catalog_moved]])
      (use assms(1) o k(1) in \<open>auto simp: academic_inv_def\<close>)
  moreover have "cal_inv s'" using assms(1) o by (simp add: academic_inv_def cal_inv_def)
  ultimately show ?thesis using assms(1) pk by (simp add: academic_inv_def)
qed

interpretation academic: invariant_system academic_step academic_inv
  by unfold_locales (rule academic_step_preserves)

section \<open>Properties\<close>

definition sample_class :: class_create where
  "sample_class = \<lparr>kc_code = ''G1'', kc_name = ''Grade 1'', kc_description = None, kc_sort_order = 0, kc_status = CL_ACTIVE\<rparr>"

definition sample_cohort :: cohort_create where
  "sample_cohort = \<lparr>hc_academic_year_id = ''academic_years'', hc_academic_class_id = ''academic_classes'', hc_code = ''A'',
     hc_name = ''A'', hc_capacity = None, hc_status = CO_ACTIVE\<rparr>"

definition sample_cat1 :: "(academic_class \<times> db) result" where
  "sample_cat1 = create_class sample_audit_env school_context sample_class sample_cal1"

definition sample_cat2 :: "(cohort \<times> db) result" where
  "sample_cat2 = create_cohort sample_audit_env school_context sample_cohort (snd (projr sample_cat1))"

definition sample_cat3 :: "(unit \<times> db) result" where
  "sample_cat3 = delete_class sample_audit_env school_context (fst (projr sample_cat1)) 1 (snd (projr sample_cat1))"

lemma sample_academic_inv: "academic_inv sample_cal1"
  unfolding academic_inv_def refs_kept_def year_keys_def class_keys_def subject_keys_def
  by (intro conjI sample_cal_inv(1)) code_simp+

lemma sample_cat_steps:
  "catalog_step sample_cal1 (snd (projr sample_cat1))" "catalog_step (snd (projr sample_cat1)) (snd (projr sample_cat2))"
proof -
  have ok: "is_ok sample_cat1" "is_ok sample_cat2" by code_simp+
  have n: "new_id sample_audit_env ''academic_classes'' (academic_classes sample_cal1) \<notin> ids (academic_classes sample_cal1)"
    "new_id sample_audit_env ''cohorts'' (cohorts (snd (projr sample_cat1))) \<notin> ids (cohorts (snd (projr sample_cat1)))" by code_simp+
  show "catalog_step sample_cal1 (snd (projr sample_cat1))"
    using catalog_step.class_created[OF ok_projr[OF ok(1), unfolded sample_cat1_def] n(1)] by (simp add: sample_cat1_def)
  show "catalog_step (snd (projr sample_cat1)) (snd (projr sample_cat2))"
    using catalog_step.cohort_created[OF ok_projr[OF ok(2), unfolded sample_cat2_def] n(2)] by (simp add: sample_cat2_def)
qed

text \<open>
  C18. The academic references that the code looks up never dangle: over any sequence of operations on years,
  terms, classes, subjects, cohorts and links, the year of a term, the year and the class of a cohort, and the
  class, the subject and the first year of a link are still in their tables and belong to its own school. The
  last year of a link, \<open>effective_to_year_id\<close>, is not among them: no operation looks it up.
\<close>

theorem academic_references_hold:
  assumes "academic_inv s" and "academic_step\<^sup>*\<^sup>* s s'"
  shows "refs_kept s'"
  using academic.reach_inv[OF assms(2,1)] by (simp add: academic_inv_def)

lemma academic_references_hold_witness:
  "is_ok sample_cat2 \<and> length (cohorts (snd (projr sample_cat2))) = 1 \<and> refs_kept (snd (projr sample_cat2))"
proof -
  have ok: "is_ok sample_cat2" "length (cohorts (snd (projr sample_cat2))) = 1" by code_simp+
  have "academic_step\<^sup>*\<^sup>* sample_cal1 (snd (projr sample_cat2))"
    by (rule rtranclp.rtrancl_into_rtrancl[OF r_into_rtranclp[of academic_step]])
      (rule academic_step.catalog_moved sample_cat_steps)+
  from academic_references_hold[OF sample_academic_inv this] ok show ?thesis by blast
qed

text \<open>
  Over any sequence of operations the codes of the live classes and of the live subjects of a
  school, and of the live cohorts of one class and year, differ even when case is ignored.
\<close>

theorem catalog_codes_apart:
  assumes "catalog_step\<^sup>*\<^sup>* s s'"
    and "unique_on (\<lambda>x. deleted_at x = None) (\<lambda>x. (cl_school_id x, py_lower (cl_code x))) (academic_classes s)"
    and "unique_on (\<lambda>x. deleted_at x = None) (\<lambda>x. (su_school_id x, py_lower (su_code x))) (subjects s)"
    and "unique_on (\<lambda>x. deleted_at x = None)
      (\<lambda>x. ((co_school_id x, co_academic_year_id x, co_academic_class_id x), py_lower (co_code x))) (cohorts s)"
  shows "unique_on (\<lambda>x. deleted_at x = None) (\<lambda>x. (cl_school_id x, py_lower (cl_code x))) (academic_classes s') \<and>
    unique_on (\<lambda>x. deleted_at x = None) (\<lambda>x. (su_school_id x, py_lower (su_code x))) (subjects s') \<and>
    unique_on (\<lambda>x. deleted_at x = None)
      (\<lambda>x. ((co_school_id x, co_academic_year_id x, co_academic_class_id x), py_lower (co_code x))) (cohorts s')"
  using class_codes.codes.reach_inv[OF assms(1,2)] subject_codes.codes.reach_inv[OF assms(1,3)]
    cohort_codes.codes.reach_inv[OF assms(1,4)] by blast

lemma catalog_codes_apart_witness:
  "is_ok sample_cat2 \<and> map co_code (cohorts (snd (projr sample_cat2))) = [''A''] \<and>
   unique_on (\<lambda>x. deleted_at x = None) (\<lambda>x. (cl_school_id x, py_lower (cl_code x))) (academic_classes (snd (projr sample_cat2)))"
proof -
  have ok: "is_ok sample_cat2" "map co_code (cohorts (snd (projr sample_cat2))) = [''A'']" by code_simp+
  have "academic_classes sample_cal1 = []" "subjects sample_cal1 = []" "cohorts sample_cal1 = []" by code_simp+
  then have u: "unique_on (\<lambda>x. deleted_at x = None) (\<lambda>x. (cl_school_id x, py_lower (cl_code x))) (academic_classes sample_cal1)"
    "unique_on (\<lambda>x. deleted_at x = None) (\<lambda>x. (su_school_id x, py_lower (su_code x))) (subjects sample_cal1)"
    "unique_on (\<lambda>x. deleted_at x = None)
      (\<lambda>x. ((co_school_id x, co_academic_year_id x, co_academic_class_id x), py_lower (co_code x))) (cohorts sample_cal1)"
    by simp_all
  from catalog_codes_apart[OF rtranclp.rtrancl_into_rtrancl[of catalog_step, OF r_into_rtranclp[of catalog_step, OF sample_cat_steps(1)]
      sample_cat_steps(2)] u] ok show ?thesis by blast
qed

text \<open>
  The code of a deleted class cannot be given to a new one: the lookup ignores the deleted
  row, the unique constraint does not, and the request ends in an internal error.
\<close>

theorem deleted_class_code_lost:
  assumes "school_id ctx = Some sch" and "organization_id ctx = Some org"
    and "x \<in> set (academic_classes s)" and "cl_school_id x = sch" and "cl_code x = kc_code d"
    and "class_by_code (academic_classes s) sch (kc_code d) = None"
    and "new_id env ''academic_classes'' (academic_classes s) \<notin> ids (academic_classes s)"
  shows "deleted_at x \<noteq> None \<and>
    create_class env ctx d s = Inl (IntegrityError ''uq_academic_classes_school_id_code'') \<and>
    error_response (IntegrityError ''uq_academic_classes_school_id_code'') = (500, ''INTERNAL_ERROR'')"
proof (intro conjI)
  show "deleted_at x \<noteq> None" using class_code_lookup(2)[OF assms(6,3)] assms(4,5) by auto
  let ?x = "new_class env ctx sch org d s"
  have "row_id ?x \<noteq> row_id x" using assms(3,7) by (auto simp: ids_def)
  with class_codes.deleted_code_refused[OF assms(3), of ?x] assms(4,5)
  have "\<not> uq_academic_classes_school_id_code (insert_row ?x (academic_classes s))"
    by (simp add: uq_academic_classes_school_id_code_def)
  then show "create_class env ctx d s = Inl (IntegrityError ''uq_academic_classes_school_id_code'')"
    using assms(1,2,6) by (simp add: create_class_def Let_def constrained_def)
  show "error_response (IntegrityError ''uq_academic_classes_school_id_code'') = (500, ''INTERNAL_ERROR'')"
    by (simp add: error_response_eq)
qed

lemma deleted_class_code_lost_witness:
  "is_ok sample_cat3 \<and> create_class sample_audit_env school_context sample_class (snd (projr sample_cat3)) =
     Inl (IntegrityError ''uq_academic_classes_school_id_code'')"
proof -
  let ?s = "snd (projr sample_cat3)"
  have ok: "is_ok sample_cat3" by code_simp
  have x: "hd (academic_classes ?s) \<in> set (academic_classes ?s)" "cl_school_id (hd (academic_classes ?s)) = ''s''"
    "cl_code (hd (academic_classes ?s)) = kc_code sample_class" by code_simp+
  have n: "class_by_code (academic_classes ?s) ''s'' (kc_code sample_class) = None"
    "new_id sample_audit_env ''academic_classes'' (academic_classes ?s) \<notin> ids (academic_classes ?s)" by code_simp+
  from deleted_class_code_lost[OF school_context_fields(1,2) x n] ok show ?thesis by blast
qed

end
