(* ===== verification/Teachers.thy ===== *)
theory Teachers
  imports AcademicCatalog
begin

text \<open>
  Teachers and their assignments to cohorts: \<open>app/modules/teachers/service.py\<close>,
  \<open>repository.py\<close> and the views of \<open>router.py\<close>.
\<close>

section \<open>Teachers\<close>

fun teacher_status_value :: "teacher_status \<Rightarrow> string" where
  "teacher_status_value TE_ACTIVE = ''ACTIVE''"
| "teacher_status_value TE_ON_LEAVE = ''ON_LEAVE''"
| "teacher_status_value TE_RESIGNED = ''RESIGNED''"
| "teacher_status_value TE_TERMINATED = ''TERMINATED''"
| "teacher_status_value TE_INACTIVE = ''INACTIVE''"

definition date_text :: "date option \<Rightarrow> jval" where
  "date_text d = (case d of None \<Rightarrow> JNull | Some x \<Rightarrow> JDateStr x)"

definition teacher_snapshot :: "teacher \<Rightarrow> snapshot" where
  "teacher_snapshot x = [(''employee_number'', nullable (te_employee_number x)),
     (''designation'', nullable (te_designation x)), (''status'', JStr (teacher_status_value (te_status x))),
     (''joining_date'', date_text (te_joining_date x)), (''leaving_date'', date_text (te_leaving_date x))]"

record teacher_create =
  ec_person_id :: ulid
  ec_employee_number :: "string option"
  ec_designation :: "string option"
  ec_joining_date :: "date option"
  ec_status :: teacher_status

record teacher_update =
  eu_employee_number :: "string option"
  eu_designation :: "string option"
  eu_joining_date :: "date option"
  eu_leaving_date :: "date option"
  eu_status :: "teacher_status option"
  eu_version :: int

definition get_person :: "ulid option \<Rightarrow> ulid \<Rightarrow> db \<Rightarrow> person result" where
  "get_person org i s = ok_or (NotFoundError ''PERSON_NOT_FOUND'')
     (find (\<lambda>p. row_id p = i \<and> Some (pe_organization_id p) = org \<and> deleted_at p = None) (persons s))"

definition teacher_by_id :: "db \<Rightarrow> ulid \<Rightarrow> ulid \<Rightarrow> teacher option" where
  "teacher_by_id s sch i =
     find (\<lambda>x. row_id x = i \<and> te_school_id x = sch \<and> deleted_at x = None) (teachers s)"

definition teacher_by_person :: "db \<Rightarrow> ulid \<Rightarrow> ulid \<Rightarrow> teacher option" where
  "teacher_by_person s sch p =
     find (\<lambda>x. te_school_id x = sch \<and> te_person_id x = p \<and> deleted_at x = None) (teachers s)"

definition employee_number_taken :: "db \<Rightarrow> ulid \<Rightarrow> string \<Rightarrow> ulid option \<Rightarrow> bool" where
  "employee_number_taken s sch n except \<longleftrightarrow>
     find (\<lambda>x. te_school_id x = sch \<and> te_employee_number x = Some n \<and> deleted_at x = None \<and>
       Some (row_id x) \<noteq> except) (teachers s) \<noteq> None"

definition flush_teachers :: "teacher list \<Rightarrow> teacher list result" where
  "flush_teachers t =
     bind_ok (constrained (uq_teachers_school_id_person_id t) ''uq_teachers_school_id_person_id'' t) (\<lambda>t.
       constrained (uq_teachers_school_id_employee_number t) ''uq_teachers_school_id_employee_number'' t)"

definition teacher_missing :: error where
  "teacher_missing = NotFoundError ''TEACHER_NOT_FOUND''"

definition new_teacher :: "env \<Rightarrow> request_context \<Rightarrow> ulid \<Rightarrow> ulid \<Rightarrow> teacher_create \<Rightarrow> db \<Rightarrow> teacher" where
  "new_teacher env ctx sch org data s =
     \<lparr>row_id = new_id env ''teachers'' (teachers s), created_at = env_now env, updated_at = env_now env,
      created_by_id = Some (user_id ctx), updated_by_id = None, version = 1, archived_at = None, deleted_at = None,
      te_school_id = sch, te_organization_id = org, te_person_id = ec_person_id data,
      te_employee_number = ec_employee_number data, te_designation = ec_designation data,
      te_joining_date = ec_joining_date data, te_leaving_date = None, te_status = ec_status data\<rparr>"

text \<open>An empty employee number is not looked up, but the index covers it.\<close>

definition create_teacher ::
  "env \<Rightarrow> request_context \<Rightarrow> teacher_create \<Rightarrow> db \<Rightarrow> (teacher \<times> db) result" where
  "create_teacher env ctx data s = (case school_id ctx of
     None \<Rightarrow> Inl no_school_set
   | Some sch \<Rightarrow>
       bind_ok (get_person (organization_id ctx) (ec_person_id data) s) (\<lambda>p.
         if teacher_by_person s sch (ec_person_id data) \<noteq> None then Inl (ConflictError ''TEACHER_PERSON_TAKEN'')
         else if (case ec_employee_number data of None \<Rightarrow> False
               | Some n \<Rightarrow> n \<noteq> [] \<and> employee_number_taken s sch n None)
         then Inl (ConflictError ''EMPLOYEE_NUMBER_TAKEN'')
         else (case organization_id ctx of
            None \<Rightarrow> Inl (IntegrityError ''organization_id'')
          | Some org \<Rightarrow>
            let x = new_teacher env ctx sch org data s in
            bind_ok (flush_teachers (insert_row x (teachers s))) (\<lambda>t.
              Inr (x, audit env ctx ''TEACHER_CREATED'' ''teacher'' (Some (row_id x))
                None (Some (teacher_snapshot x)) (s\<lparr>teachers := t\<rparr>))))))"

definition teacher_payload :: "teacher_update \<Rightarrow> teacher \<Rightarrow> teacher" where
  "teacher_payload data x =
     assign te_status_update (eu_status data) (assign te_leaving_date_update (map_option Some (eu_leaving_date data))
       (assign te_joining_date_update (map_option Some (eu_joining_date data))
         (assign te_designation_update (map_option Some (eu_designation data))
           (assign te_employee_number_update (map_option Some (eu_employee_number data)) x))))"

definition update_teacher ::
  "env \<Rightarrow> request_context \<Rightarrow> teacher \<Rightarrow> teacher_update \<Rightarrow> db \<Rightarrow> (teacher \<times> db) result" where
  "update_teacher env ctx x data s =
     (if version x \<noteq> eu_version data then Inl StaleResourceError
      else if (case eu_employee_number data of None \<Rightarrow> False
            | Some n \<Rightarrow> Some n \<noteq> te_employee_number x \<and> employee_number_taken s (te_school_id x) n (Some (row_id x)))
      then Inl (ConflictError ''EMPLOYEE_NUMBER_TAKEN'')
      else let x' = save_row env ctx x (teacher_payload data x) in
        bind_ok (flush_teachers (update_row x' (teachers s))) (\<lambda>t.
          Inr (x', audit env ctx ''TEACHER_UPDATED'' ''teacher'' (Some (row_id x'))
            (Some (teacher_snapshot x)) (Some (teacher_snapshot x')) (s\<lparr>teachers := t\<rparr>))))"

definition delete_teacher ::
  "env \<Rightarrow> request_context \<Rightarrow> teacher \<Rightarrow> int \<Rightarrow> db \<Rightarrow> (unit \<times> db) result" where
  "delete_teacher env ctx x ver s =
     (if version x \<noteq> ver then Inl StaleResourceError
      else Inr ((), audit env ctx ''TEACHER_DELETED'' ''teacher'' (Some (row_id x)) (Some (teacher_snapshot x)) None
        (s\<lparr>teachers := update_row (soft_delete env ctx x) (teachers s)\<rparr>)))"

definition get_teacher_owned :: "request_context \<Rightarrow> ulid \<Rightarrow> db \<Rightarrow> teacher result" where
  "get_teacher_owned ctx i s = (case school_id ctx of
     None \<Rightarrow> Inl teacher_missing
   | Some sch \<Rightarrow> ok_or teacher_missing (teacher_by_id s sch i))"

definition count_teachers :: "db \<Rightarrow> ulid \<Rightarrow> teacher_status option \<Rightarrow> nat" where
  "count_teachers s sch st =
     length (filter (\<lambda>x. te_school_id x = sch \<and> deleted_at x = None \<and>
       (case st of None \<Rightarrow> True | Some v \<Rightarrow> te_status x = v)) (teachers s))"

text \<open>\<open>get_teacher_counts\<close>: the active teachers and all of them.\<close>

definition get_teacher_counts :: "request_context \<Rightarrow> db \<Rightarrow> nat \<times> nat" where
  "get_teacher_counts ctx s = (case school_id ctx of
     None \<Rightarrow> (0, 0)
   | Some sch \<Rightarrow> (count_teachers s sch (Some TE_ACTIVE), count_teachers s sch None))"

section \<open>Assignments\<close>

fun assignment_role_value :: "assignment_role \<Rightarrow> string" where
  "assignment_role_value SUBJECT_TEACHER = ''SUBJECT_TEACHER''"
| "assignment_role_value CLASS_TEACHER = ''CLASS_TEACHER''"
| "assignment_role_value SUBSTITUTE = ''SUBSTITUTE''"
| "assignment_role_value COORDINATOR = ''COORDINATOR''"

fun assignment_status_value :: "assignment_status \<Rightarrow> string" where
  "assignment_status_value TA_ACTIVE = ''ACTIVE''"
| "assignment_status_value TA_ENDED = ''ENDED''"

definition assignment_snapshot :: "teacher_assignment \<Rightarrow> snapshot" where
  "assignment_snapshot x = [(''role'', JStr (assignment_role_value (ta_role x))),
     (''status'', JStr (assignment_status_value (ta_status x))),
     (''start_date'', JDateStr (ta_start_date x)), (''end_date'', date_text (ta_end_date x))]"

record assignment_create =
  gc_teacher_id :: ulid
  gc_cohort_id :: ulid
  gc_subject_id :: "ulid option"
  gc_academic_year_id :: ulid
  gc_role :: assignment_role
  gc_start_date :: date

record assignment_update =
  gu_end_date :: "date option"
  gu_status :: "assignment_status option"
  gu_version :: int

definition assignment_by_id :: "db \<Rightarrow> ulid \<Rightarrow> ulid \<Rightarrow> teacher_assignment option" where
  "assignment_by_id s sch i = find (\<lambda>x. row_id x = i \<and> ta_school_id x = sch) (teacher_assignments s)"

text \<open>A comparison with a subject of None compiles to IS NULL. No caller excludes a row.\<close>

definition check_assignment_conflict ::
  "db \<Rightarrow> ulid \<Rightarrow> ulid \<Rightarrow> ulid option \<Rightarrow> ulid \<Rightarrow> assignment_role \<Rightarrow> bool" where
  "check_assignment_conflict s sch coh sub yr role =
     (if role = SUBJECT_TEACHER
      then find (\<lambda>x. ta_school_id x = sch \<and> ta_cohort_id x = coh \<and> ta_subject_id x = sub \<and>
        ta_academic_year_id x = yr \<and> ta_role x = SUBJECT_TEACHER \<and> ta_status x = TA_ACTIVE) (teacher_assignments s) \<noteq> None
      else if role = CLASS_TEACHER
      then find (\<lambda>x. ta_school_id x = sch \<and> ta_cohort_id x = coh \<and> ta_academic_year_id x = yr \<and>
        ta_role x = CLASS_TEACHER \<and> ta_status x = TA_ACTIVE) (teacher_assignments s) \<noteq> None
      else False)"

definition flush_assignments :: "teacher_assignment list \<Rightarrow> teacher_assignment list result" where
  "flush_assignments t =
     bind_ok (constrained (uq_assignment_class_teacher_active t) ''uq_assignment_class_teacher_active'' t) (\<lambda>t.
       constrained (uq_assignment_subject_teacher_active t) ''uq_assignment_subject_teacher_active'' t)"

definition assignment_conflict :: error where
  "assignment_conflict = ConflictError ''ASSIGNMENT_CONFLICT''"

text \<open>The \<open>except\<close> clause around the flush: only violations of the two indexes are renamed.\<close>

definition rename_violation :: "'a result \<Rightarrow> 'a result" where
  "rename_violation r = (case r of
     Inl (IntegrityError n) \<Rightarrow> if take 14 n = ''uq_assignment_'' then Inl assignment_conflict else r
   | _ \<Rightarrow> r)"

definition new_assignment ::
  "env \<Rightarrow> request_context \<Rightarrow> ulid \<Rightarrow> ulid \<Rightarrow> assignment_create \<Rightarrow> db \<Rightarrow> teacher_assignment" where
  "new_assignment env ctx sch org data s =
     \<lparr>row_id = new_id env ''teacher_assignments'' (teacher_assignments s), created_at = env_now env,
      updated_at = env_now env, created_by_id = Some (user_id ctx), updated_by_id = None, version = 1,
      ta_school_id = sch, ta_organization_id = org, ta_teacher_id = gc_teacher_id data,
      ta_cohort_id = gc_cohort_id data, ta_subject_id = gc_subject_id data,
      ta_academic_year_id = gc_academic_year_id data, ta_role = gc_role data, ta_start_date = gc_start_date data,
      ta_end_date = None, ta_status = TA_ACTIVE\<rparr>"

text \<open>
  \<open>create_assignment\<close> in two halves, since other transactions may commit between the checks
  and the flush: \<open>assignment_check\<close> reads the tables as they were, \<open>assignment_write\<close> inserts
  into the tables as they are then.
\<close>

definition assignment_check :: "request_context \<Rightarrow> assignment_create \<Rightarrow> db \<Rightarrow> ulid result" where
  "assignment_check ctx data s = (case school_id ctx of
     None \<Rightarrow> Inl no_school_set
   | Some sch \<Rightarrow>
       bind_ok (ok_or teacher_missing (teacher_by_id s sch (gc_teacher_id data))) (\<lambda>_.
       bind_ok (ok_or cohort_missing (cohort_by_id s sch (gc_cohort_id data))) (\<lambda>_.
       bind_ok (ok_or year_not_found (year_by_id s sch (gc_academic_year_id data))) (\<lambda>_.
         if check_assignment_conflict s sch (gc_cohort_id data) (gc_subject_id data) (gc_academic_year_id data) (gc_role data)
         then Inl assignment_conflict else Inr sch))))"

definition assignment_write ::
  "env \<Rightarrow> request_context \<Rightarrow> assignment_create \<Rightarrow> ulid \<Rightarrow> db \<Rightarrow> (teacher_assignment \<times> db) result" where
  "assignment_write env ctx data sch s = (case organization_id ctx of
     None \<Rightarrow> Inl (IntegrityError ''organization_id'')
   | Some org \<Rightarrow>
       let x = new_assignment env ctx sch org data s in
       bind_ok (rename_violation (flush_assignments (insert_row x (teacher_assignments s)))) (\<lambda>t.
         Inr (x, audit env ctx ''TEACHER_ASSIGNED'' ''teacher_assignment'' (Some (row_id x))
           None (Some (assignment_snapshot x)) (s\<lparr>teacher_assignments := t\<rparr>))))"

definition create_assignment ::
  "env \<Rightarrow> request_context \<Rightarrow> assignment_create \<Rightarrow> db \<Rightarrow> (teacher_assignment \<times> db) result" where
  "create_assignment env ctx data s =
     bind_ok (assignment_check ctx data s) (\<lambda>sch. assignment_write env ctx data sch s)"

definition assignment_payload :: "assignment_update \<Rightarrow> teacher_assignment \<Rightarrow> teacher_assignment" where
  "assignment_payload data x =
     assign ta_status_update (gu_status data) (assign ta_end_date_update (map_option Some (gu_end_date data)) x)"

definition update_assignment ::
  "env \<Rightarrow> request_context \<Rightarrow> teacher_assignment \<Rightarrow> assignment_update \<Rightarrow> db \<Rightarrow> (teacher_assignment \<times> db) result" where
  "update_assignment env ctx x data s =
     (if version x \<noteq> gu_version data then Inl StaleResourceError
      else let x' = save_row env ctx x (assignment_payload data x) in
        bind_ok (flush_assignments (update_row x' (teacher_assignments s))) (\<lambda>t.
          Inr (x', audit env ctx ''TEACHER_ASSIGNMENT_UPDATED'' ''teacher_assignment'' (Some (row_id x'))
            (Some (assignment_snapshot x)) (Some (assignment_snapshot x')) (s\<lparr>teacher_assignments := t\<rparr>))))"

definition end_assignment ::
  "env \<Rightarrow> request_context \<Rightarrow> teacher_assignment \<Rightarrow> int \<Rightarrow> db \<Rightarrow> (teacher_assignment \<times> db) result" where
  "end_assignment env ctx x ver s =
     (if version x \<noteq> ver then Inl StaleResourceError
      else let x' = save_row env ctx x (x\<lparr>ta_status := TA_ENDED, ta_end_date := Some (env_today env)\<rparr>) in
        Inr (x', audit env ctx ''TEACHER_ASSIGNMENT_ENDED'' ''teacher_assignment'' (Some (row_id x'))
          (Some (assignment_snapshot x)) (Some (assignment_snapshot x'))
          (s\<lparr>teacher_assignments := update_row x' (teacher_assignments s)\<rparr>)))"

definition assignment_missing :: error where
  "assignment_missing = NotFoundError ''ASSIGNMENT_NOT_FOUND''"

definition get_assignment_owned :: "request_context \<Rightarrow> ulid \<Rightarrow> db \<Rightarrow> teacher_assignment result" where
  "get_assignment_owned ctx i s = (case school_id ctx of
     None \<Rightarrow> Inl assignment_missing
   | Some sch \<Rightarrow> ok_or assignment_missing (assignment_by_id s sch i))"

section \<open>Facts\<close>

lemma save_row_assignment [simp]:
  "ta_school_id (save_row env ctx x z) = ta_school_id z" "ta_cohort_id (save_row env ctx x z) = ta_cohort_id z"
  "ta_subject_id (save_row env ctx x z) = ta_subject_id z" "ta_academic_year_id (save_row env ctx x z) = ta_academic_year_id z"
  "ta_role (save_row env ctx x z) = ta_role z" "ta_status (save_row env ctx x z) = ta_status z"
  for x z :: teacher_assignment
  by (auto simp: save_row_def flush_versioned_def)

lemma assignment_payload_fields [simp]:
  "row_id (assignment_payload d x) = row_id x" "ta_school_id (assignment_payload d x) = ta_school_id x"
  "ta_cohort_id (assignment_payload d x) = ta_cohort_id x" "ta_subject_id (assignment_payload d x) = ta_subject_id x"
  "ta_academic_year_id (assignment_payload d x) = ta_academic_year_id x" "ta_role (assignment_payload d x) = ta_role x"
  "ta_status (assignment_payload d x) = (case gu_status d of None \<Rightarrow> ta_status x | Some st \<Rightarrow> st)"
  by (simp_all add: assignment_payload_def assign_def split: option.split)

lemma new_assignment_fields [simp]:
  "row_id (new_assignment env ctx sch org d s) = new_id env ''teacher_assignments'' (teacher_assignments s)"
  "ta_school_id (new_assignment env ctx sch org d s) = sch" "ta_cohort_id (new_assignment env ctx sch org d s) = gc_cohort_id d"
  "ta_subject_id (new_assignment env ctx sch org d s) = gc_subject_id d"
  "ta_academic_year_id (new_assignment env ctx sch org d s) = gc_academic_year_id d"
  "ta_role (new_assignment env ctx sch org d s) = gc_role d" "ta_status (new_assignment env ctx sch org d s) = TA_ACTIVE"
  by (simp_all add: new_assignment_def)

lemma new_teacher_id: "row_id (new_teacher env ctx sch org d s) = new_id env ''teachers'' (teachers s)"
  by (simp add: new_teacher_def)

text \<open>The assignments that compete for the place \<open>(school, cohort, subject, year, role)\<close>.\<close>

definition holds_place :: "ulid \<Rightarrow> ulid \<Rightarrow> ulid option \<Rightarrow> ulid \<Rightarrow> assignment_role \<Rightarrow> teacher_assignment \<Rightarrow> bool" where
  "holds_place sch coh sub yr role x \<longleftrightarrow> ta_school_id x = sch \<and> ta_cohort_id x = coh \<and> ta_academic_year_id x = yr \<and>
     ta_role x = role \<and> ta_status x = TA_ACTIVE \<and>
     (role = CLASS_TEACHER \<or> role = SUBJECT_TEACHER \<and> ta_subject_id x = sub)"

lemma check_assignment_conflict_iff:
  "check_assignment_conflict s sch coh sub yr role \<longleftrightarrow> (\<exists>x\<in>set (teacher_assignments s). holds_place sch coh sub yr role x)"
  by (cases role) (auto simp: check_assignment_conflict_def holds_place_def find_None_iff)

lemma flush_assignments_Inr: "flush_assignments t = Inr t' \<longleftrightarrow>
    t' = t \<and> uq_assignment_class_teacher_active t \<and> uq_assignment_subject_teacher_active t"
  by (auto simp: flush_assignments_def bind_ok_Inr_iff)

lemma flush_assignments_Inl: "flush_assignments t = Inl e \<longleftrightarrow>
    \<not> uq_assignment_class_teacher_active t \<and> e = IntegrityError ''uq_assignment_class_teacher_active'' \<or>
    uq_assignment_class_teacher_active t \<and> \<not> uq_assignment_subject_teacher_active t \<and>
      e = IntegrityError ''uq_assignment_subject_teacher_active''"
  by (auto simp: flush_assignments_def constrained_def)

lemma rename_flush: "rename_violation (flush_assignments t) =
    (if uq_assignment_class_teacher_active t \<and> uq_assignment_subject_teacher_active t then Inr t else Inl assignment_conflict)"
  by (auto simp: rename_violation_def flush_assignments_def constrained_def bind_ok_def)

lemma free_place_keeps_indexes:
  assumes "uq_assignment_class_teacher_active t" and "uq_assignment_subject_teacher_active t"
    and "\<not> (\<exists>x\<in>set t. holds_place (ta_school_id r) (ta_cohort_id r) (ta_subject_id r) (ta_academic_year_id r) (ta_role r) x)"
  shows "uq_assignment_class_teacher_active (insert_row r t)" and "uq_assignment_subject_teacher_active (insert_row r t)"
  using assms unfolding uq_assignment_class_teacher_active_def uq_assignment_subject_teacher_active_def
  by (auto intro!: unique_on_insert_row simp: holds_place_def)

text \<open>A row that holds the place refuses another one there, unless the place has no subject.\<close>

lemma taken_place_breaks_index:
  assumes "x \<in> set t" and "row_id x \<noteq> row_id r" and "ta_status r = TA_ACTIVE"
    and "holds_place (ta_school_id r) (ta_cohort_id r) (ta_subject_id r) (ta_academic_year_id r) (ta_role r) x"
    and "ta_role r = SUBJECT_TEACHER \<Longrightarrow> ta_subject_id r \<noteq> None"
    and "set t \<subseteq> set u" and "r \<in> set u"
  shows "\<not> (uq_assignment_class_teacher_active u \<and> uq_assignment_subject_teacher_active u)"
proof
  assume u: "uq_assignment_class_teacher_active u \<and> uq_assignment_subject_teacher_active u"
  have xu: "x \<in> set u" using assms(1,6) by blast
  from assms(4) consider "ta_role r = CLASS_TEACHER" | "ta_role r = SUBJECT_TEACHER" by (auto simp: holds_place_def)
  then show False
  proof cases
    case 1
    from u have "unique_on (\<lambda>x. ta_role x = CLASS_TEACHER \<and> ta_status x = TA_ACTIVE)
       (\<lambda>x. (ta_school_id x, ta_cohort_id x, ta_academic_year_id x)) u" by (simp add: uq_assignment_class_teacher_active_def)
    from unique_onD[OF this xu assms(7)] 1 assms(2-4) show False by (simp add: holds_place_def)
  next
    case 2
    from u have "unique_on (\<lambda>x. ta_role x = SUBJECT_TEACHER \<and> ta_status x = TA_ACTIVE \<and> ta_subject_id x \<noteq> None)
       (\<lambda>x. (ta_school_id x, ta_cohort_id x, ta_subject_id x, ta_academic_year_id x)) u"
      by (simp add: uq_assignment_subject_teacher_active_def)
    from unique_onD[OF this xu assms(7)] 2 assms(2-5) show False by (simp add: holds_place_def)
  qed
qed

lemma assignment_check_Inr: "assignment_check ctx d s = Inr sch \<longleftrightarrow>
    school_id ctx = Some sch \<and> (\<exists>x. teacher_by_id s sch (gc_teacher_id d) = Some x) \<and>
    (\<exists>c. cohort_by_id s sch (gc_cohort_id d) = Some c) \<and> (\<exists>y. year_by_id s sch (gc_academic_year_id d) = Some y) \<and>
    \<not> (\<exists>x\<in>set (teacher_assignments s). holds_place sch (gc_cohort_id d) (gc_subject_id d) (gc_academic_year_id d) (gc_role d) x)"
  by (auto simp: assignment_check_def bind_ok_Inr_iff check_assignment_conflict_iff split: option.splits if_splits)

lemma assignment_write_eq:
  "organization_id ctx = Some org \<Longrightarrow> r = new_assignment env ctx sch org d s \<Longrightarrow> t = insert_row r (teacher_assignments s) \<Longrightarrow>
   assignment_write env ctx d sch s =
     (if uq_assignment_class_teacher_active t \<and> uq_assignment_subject_teacher_active t
      then Inr (r, audit env ctx ''TEACHER_ASSIGNED'' ''teacher_assignment'' (Some (row_id r)) None
        (Some (assignment_snapshot r)) (s\<lparr>teacher_assignments := t\<rparr>))
      else Inl assignment_conflict)"
  by (simp add: assignment_write_def Let_def rename_flush)

section \<open>Transitions\<close>

text \<open>
  A creation may have checked any earlier state: \<open>s0\<close> stands for what its transaction saw
  before others committed.
\<close>

inductive assignment_step :: "db \<Rightarrow> db \<Rightarrow> bool" where
  assigned: "assignment_check ctx d s0 = Inr sch \<Longrightarrow> assignment_write env ctx d sch s = Inr (x, s') \<Longrightarrow>
    new_id env ''teacher_assignments'' (teacher_assignments s) \<notin> ids (teacher_assignments s) \<Longrightarrow> assignment_step s s'"
| reassigned: "get_assignment_owned ctx i s = Inr x \<Longrightarrow> update_assignment env ctx x u s = Inr (x', s') \<Longrightarrow> assignment_step s s'"
| ended: "get_assignment_owned ctx i s = Inr x \<Longrightarrow> end_assignment env ctx x v s = Inr (x', s') \<Longrightarrow> assignment_step s s'"

definition assignments_ok :: "db \<Rightarrow> bool" where
  "assignments_ok s \<longleftrightarrow> pk_unique (teacher_assignments s) \<and>
     uq_assignment_class_teacher_active (teacher_assignments s) \<and> uq_assignment_subject_teacher_active (teacher_assignments s)"

lemma assignment_step_preserves:
  assumes "assignments_ok s" and "assignment_step s s'"
  shows "assignments_ok s'"
  using assms(2)
proof (cases rule: assignment_step.cases)
  case (assigned ctx d s0 sch env x)
  then obtain org where org: "organization_id ctx = Some org"
    by (cases "organization_id ctx") (simp_all add: assignment_write_def)
  from assigned(2)[unfolded assignment_write_eq[OF org refl refl]]
  have "teacher_assignments s' = insert_row (new_assignment env ctx sch org d s) (teacher_assignments s)"
    "uq_assignment_class_teacher_active (insert_row (new_assignment env ctx sch org d s) (teacher_assignments s)) \<and>
     uq_assignment_subject_teacher_active (insert_row (new_assignment env ctx sch org d s) (teacher_assignments s))"
    by (auto split: if_splits)
  with assms(1) assigned(3) show ?thesis by (simp add: assignments_ok_def)
next
  case (reassigned ctx i x env u x')
  have "\<exists>t. flush_assignments (update_row (save_row env ctx x (assignment_payload u x)) (teacher_assignments s)) = Inr t \<and>
      teacher_assignments s' = t"
    using reassigned(2) by (auto simp: update_assignment_def Let_def bind_ok_Inr_iff split: if_splits)
  then have "teacher_assignments s' = update_row (save_row env ctx x (assignment_payload u x)) (teacher_assignments s)"
    "uq_assignment_class_teacher_active (teacher_assignments s')" "uq_assignment_subject_teacher_active (teacher_assignments s')"
    by (auto simp: flush_assignments_Inr)
  with assms(1) show ?thesis by (simp add: assignments_ok_def)
next
  case (ended ctx i x env v x')
  let ?r = "save_row env ctx x (x\<lparr>ta_status := TA_ENDED, ta_end_date := Some (env_today env)\<rparr>)"
  have "teacher_assignments s' = update_row ?r (teacher_assignments s)"
    using ended(2) by (auto simp: end_assignment_def Let_def split: if_splits)
  with assms(1) show ?thesis
    unfolding assignments_ok_def uq_assignment_class_teacher_active_def uq_assignment_subject_teacher_active_def
    by (auto intro!: unique_on_update_row_out)
qed

interpretation assignments: invariant_system assignment_step assignments_ok
  by unfold_locales (rule assignment_step_preserves)

section \<open>Properties\<close>

definition sample_staff0 :: db where
  "sample_staff0 = (snd (projr sample_cat2))\<lparr>persons := [(blank_person ''p'')\<lparr>pe_organization_id := ''o''\<rparr>]\<rparr>"

definition sample_teacher :: teacher_create where
  "sample_teacher = \<lparr>ec_person_id = ''p'', ec_employee_number = Some ''7'', ec_designation = None, ec_joining_date = None,
     ec_status = TE_ACTIVE\<rparr>"

definition sample_staff1 :: "(teacher \<times> db) result" where
  "sample_staff1 = create_teacher sample_audit_env school_context sample_teacher sample_staff0"

definition sample_staff2 :: db where
  "sample_staff2 = snd (projr sample_staff1)"

definition sample_assignment :: "assignment_role \<Rightarrow> ulid option \<Rightarrow> assignment_create" where
  "sample_assignment role sub = \<lparr>gc_teacher_id = ''teachers'', gc_cohort_id = ''cohorts'', gc_subject_id = sub,
     gc_academic_year_id = ''academic_years'', gc_role = role, gc_start_date = 3\<rparr>"

definition sample_staff3 :: "(teacher_assignment \<times> db) result" where
  "sample_staff3 = create_assignment sample_audit_env school_context (sample_assignment CLASS_TEACHER None) sample_staff2"

lemma sample_staff:
  "assignments_ok sample_staff2" "is_ok sample_staff3" "assignment_check school_context (sample_assignment CLASS_TEACHER None) sample_staff2 = Inr ''s''"
  "new_id sample_audit_env ''teacher_assignments'' (teacher_assignments sample_staff2) \<notin> ids (teacher_assignments sample_staff2)"
proof -
  have "teacher_assignments sample_staff2 = []" by code_simp
  then show "assignments_ok sample_staff2" "new_id sample_audit_env ''teacher_assignments'' (teacher_assignments sample_staff2) \<notin> ids (teacher_assignments sample_staff2)"
    by (simp_all add: assignments_ok_def pk_unique_def uq_assignment_class_teacher_active_def uq_assignment_subject_teacher_active_def ids_def)
qed code_simp+

text \<open>
  C19. Whatever the order and the overlap of the requests, a cohort has at most one active class
  teacher per year, and at most one active teacher per subject and year.
\<close>

theorem places_held_once:
  assumes "assignments_ok s" and "assignment_step\<^sup>*\<^sup>* s s'"
    and "x \<in> set (teacher_assignments s')" and "y \<in> set (teacher_assignments s')"
    and "holds_place sch coh sub yr role x" and "holds_place sch coh sub yr role y"
    and "role = SUBJECT_TEACHER \<Longrightarrow> sub \<noteq> None"
  shows "x = y"
proof (rule ccontr)
  have ok: "assignments_ok s'" using assignments.reach_inv[OF assms(2,1)] .
  then have pk: "pk_unique (teacher_assignments s')" by (simp add: assignments_ok_def)
  assume "x \<noteq> y"
  then have "row_id x \<noteq> row_id y" using pk_unique_inj[OF pk assms(3,4)] by blast
  moreover have "holds_place (ta_school_id y) (ta_cohort_id y) (ta_subject_id y) (ta_academic_year_id y) (ta_role y) x"
    using assms(5,6) by (auto simp: holds_place_def)
  moreover have "ta_status y = TA_ACTIVE" "ta_role y = SUBJECT_TEACHER \<Longrightarrow> ta_subject_id y \<noteq> None"
    using assms(6,7) by (auto simp: holds_place_def)
  ultimately show False
    using taken_place_breaks_index[OF assms(3), of y "teacher_assignments s'"] assms(4) ok by (simp add: assignments_ok_def)
qed

lemma places_held_once_witness:
  "\<exists>x. teacher_assignments (snd (projr sample_staff3)) = [x] \<and>
     holds_place ''s'' ''cohorts'' None ''academic_years'' CLASS_TEACHER x \<and> x = fst (projr sample_staff3)"
proof -
  let ?s = "snd (projr sample_staff3)" let ?x = "fst (projr sample_staff3)"
  have w: "assignment_write sample_audit_env school_context (sample_assignment CLASS_TEACHER None) ''s'' sample_staff2 = Inr (?x, ?s)"
    using ok_projr[OF sample_staff(2)] sample_staff(3) by (simp add: sample_staff3_def create_assignment_def)
  have st: "assignment_step sample_staff2 ?s" by (rule assignment_step.assigned[OF sample_staff(3) w sample_staff(4)])
  have l: "length (teacher_assignments ?s) = 1" by code_simp
  then obtain z where z: "teacher_assignments ?s = [z]" by (auto simp: length_Suc_conv)
  have h: "list_all (holds_place ''s'' ''cohorts'' None ''academic_years'' CLASS_TEACHER) (teacher_assignments ?s)"
    "holds_place ''s'' ''cohorts'' None ''academic_years'' CLASS_TEACHER ?x" by code_simp+
  have m: "?x \<in> set (teacher_assignments ?s)" by code_simp
  have "z = ?x"
    by (rule places_held_once[OF sample_staff(1) r_into_rtranclp[of assignment_step, OF st] _ m _ h(2)])
      (use z h(1) in simp_all)
  with z h(2) show ?thesis by blast
qed

text \<open>
  An assignment is accepted exactly when the teacher, the cohort and the year exist in the
  school and nobody holds the place; while no other request interferes, the constraint
  violation the handler renames never arises.
\<close>

theorem create_assignment_exact:
  assumes "assignments_ok s" and "school_id ctx = Some sch" and "organization_id ctx = Some org"
  shows "is_ok (create_assignment env ctx d s) \<longleftrightarrow>
      teacher_by_id s sch (gc_teacher_id d) \<noteq> None \<and> cohort_by_id s sch (gc_cohort_id d) \<noteq> None \<and>
      year_by_id s sch (gc_academic_year_id d) \<noteq> None \<and>
      (\<exists>x\<in>set (teacher_assignments s). holds_place sch (gc_cohort_id d) (gc_subject_id d) (gc_academic_year_id d) (gc_role d) x) = False"
    (is "_ \<longleftrightarrow> ?free")
proof
  assume ?free
  then have c: "assignment_check ctx d s = Inr sch" using assms(2) by (auto simp: assignment_check_Inr)
  let ?r = "new_assignment env ctx sch org d s"
  have "uq_assignment_class_teacher_active (insert_row ?r (teacher_assignments s))"
    "uq_assignment_subject_teacher_active (insert_row ?r (teacher_assignments s))"
    using free_place_keeps_indexes[of "teacher_assignments s" ?r] assms(1) \<open>?free\<close> by (auto simp: assignments_ok_def)
  then show "is_ok (create_assignment env ctx d s)"
    by (simp add: create_assignment_def c assignment_write_eq[OF assms(3) refl refl])
next
  assume "is_ok (create_assignment env ctx d s)"
  then obtain sch' where "assignment_check ctx d s = Inr sch'"
    by (cases "assignment_check ctx d s") (simp_all add: create_assignment_def)
  then show ?free using assms(2) by (auto simp: assignment_check_Inr)
qed

lemma create_assignment_exact_witness:
  "is_ok (create_assignment sample_audit_env school_context (sample_assignment CLASS_TEACHER None) sample_staff2) \<and>
   is_ok (create_assignment sample_audit_env school_context (sample_assignment CLASS_TEACHER None) (snd (projr sample_staff3))) = False"
proof -
  have "teacher_by_id sample_staff2 ''s'' (gc_teacher_id (sample_assignment CLASS_TEACHER None)) \<noteq> None \<and>
    cohort_by_id sample_staff2 ''s'' (gc_cohort_id (sample_assignment CLASS_TEACHER None)) \<noteq> None \<and>
    year_by_id sample_staff2 ''s'' (gc_academic_year_id (sample_assignment CLASS_TEACHER None)) \<noteq> None \<and>
    (\<exists>x\<in>set (teacher_assignments sample_staff2). holds_place ''s'' (gc_cohort_id (sample_assignment CLASS_TEACHER None))
       (gc_subject_id (sample_assignment CLASS_TEACHER None)) (gc_academic_year_id (sample_assignment CLASS_TEACHER None))
       (gc_role (sample_assignment CLASS_TEACHER None)) x) = False" by code_simp
  with create_assignment_exact[OF sample_staff(1) school_context_fields(1,2)]
  have "is_ok (create_assignment sample_audit_env school_context (sample_assignment CLASS_TEACHER None) sample_staff2)" by blast
  moreover have "is_ok (create_assignment sample_audit_env school_context (sample_assignment CLASS_TEACHER None) (snd (projr sample_staff3))) = False"
    by code_simp
  ultimately show ?thesis by blast
qed

text \<open>
  Two overlapping requests that both found the same place free: the second is turned away as
  a conflict when the place is that of a class teacher or has a subject, and both succeed
  otherwise.
\<close>

theorem concurrent_assignments:
  assumes "assignments_ok s" and "assignment_check ctx d s = Inr sch" and "assignment_check ctx2 d2 s = Inr sch"
    and "assignment_write env ctx d sch s = Inr (x, s1)" and "organization_id ctx2 = Some org"
    and "gc_cohort_id d2 = gc_cohort_id d" and "gc_subject_id d2 = gc_subject_id d"
    and "gc_academic_year_id d2 = gc_academic_year_id d" and "gc_role d2 = gc_role d"
    and "new_id env2 ''teacher_assignments'' (teacher_assignments s1) \<notin> ids (teacher_assignments s1)"
  shows "(if gc_role d = CLASS_TEACHER \<or> gc_role d = SUBJECT_TEACHER \<and> gc_subject_id d \<noteq> None
          then assignment_write env2 ctx2 d2 sch s1 = Inl assignment_conflict
          else is_ok (assignment_write env2 ctx2 d2 sch s1))"
proof -
  obtain org0 where org0: "organization_id ctx = Some org0"
    using assms(4) by (cases "organization_id ctx") (simp_all add: assignment_write_def)
  let ?x = "new_assignment env ctx sch org0 d s" let ?t = "insert_row ?x (teacher_assignments s)"
  from assms(4)[unfolded assignment_write_eq[OF org0 refl refl]] have t: "teacher_assignments s1 = ?t"
    "uq_assignment_class_teacher_active ?t" "uq_assignment_subject_teacher_active ?t" by (auto split: if_splits)
  let ?r = "new_assignment env2 ctx2 sch org d2 s1"
  note w = assignment_write_eq[OF assms(5) refl refl, where env = env2 and sch = sch and d = d2 and s = s1]
  have nr: "row_id ?x \<noteq> row_id ?r" using assms(10) by (auto simp: t(1))
  show ?thesis
  proof (cases "gc_role d = CLASS_TEACHER \<or> gc_role d = SUBJECT_TEACHER \<and> gc_subject_id d \<noteq> None")
    case True
    then have h: "holds_place (ta_school_id ?r) (ta_cohort_id ?r) (ta_subject_id ?r) (ta_academic_year_id ?r) (ta_role ?r) ?x"
      using assms(6-9) by (auto simp: holds_place_def)
    have sub: "set ?t \<subseteq> set (insert_row ?r (teacher_assignments s1))" "?x \<in> set ?t"
      "?r \<in> set (insert_row ?r (teacher_assignments s1))" by (auto simp: t(1) set_insert_row)
    have "\<not> (uq_assignment_class_teacher_active (insert_row ?r (teacher_assignments s1)) \<and>
        uq_assignment_subject_teacher_active (insert_row ?r (teacher_assignments s1)))"
      by (rule taken_place_breaks_index[OF sub(2) nr _ h _ sub(1,3)]) (use True assms(7,9) in simp_all)
    then show ?thesis unfolding w using True by simp
  next
    case False
    have "uq_assignment_class_teacher_active (insert_row ?r ?t)" "uq_assignment_subject_teacher_active (insert_row ?r ?t)"
      using False assms(7,9) t(2,3)
      unfolding uq_assignment_class_teacher_active_def uq_assignment_subject_teacher_active_def
      by (auto intro!: unique_on_insert_row)
    then show ?thesis unfolding w using False by (auto simp: t(1))
  qed
qed

definition sample_pair :: "(teacher_assignment \<times> db) result" where
  "sample_pair = assignment_write sample_audit_env school_context (sample_assignment SUBJECT_TEACHER None) ''s'' sample_staff2"

lemma concurrent_assignments_witness:
  "assignment_write sample_audit_env school_context (sample_assignment CLASS_TEACHER None) ''s'' (snd (projr sample_staff3)) =
     Inl assignment_conflict \<and>
   is_ok (assignment_write sample_audit_env school_context (sample_assignment SUBJECT_TEACHER None) ''s'' (snd (projr sample_pair)))"
proof
  have w: "assignment_write sample_audit_env school_context (sample_assignment CLASS_TEACHER None) ''s'' sample_staff2 = sample_staff3"
    using sample_staff(3) by (simp add: sample_staff3_def create_assignment_def)
  have n: "new_id sample_audit_env ''teacher_assignments'' (teacher_assignments (snd (projr sample_staff3))) \<notin>
    ids (teacher_assignments (snd (projr sample_staff3)))" by code_simp
  have r: "gc_role (sample_assignment CLASS_TEACHER None) = CLASS_TEACHER" by (simp add: sample_assignment_def)
  from concurrent_assignments[OF sample_staff(1,3,3) trans[OF w ok_projr[OF sample_staff(2)]] school_context_fields(2) refl refl refl refl n]
  show "assignment_write sample_audit_env school_context (sample_assignment CLASS_TEACHER None) ''s'' (snd (projr sample_staff3)) =
     Inl assignment_conflict" using r by simp
  have ok: "is_ok sample_pair" by code_simp
  have c: "assignment_check school_context (sample_assignment SUBJECT_TEACHER None) sample_staff2 = Inr ''s''" by code_simp
  have n: "new_id sample_audit_env ''teacher_assignments'' (teacher_assignments (snd (projr sample_pair))) \<notin>
    ids (teacher_assignments (snd (projr sample_pair)))" by code_simp
  from concurrent_assignments[OF sample_staff(1) c c ok_projr[OF ok, unfolded sample_pair_def] school_context_fields(2) refl refl refl refl
      n[unfolded sample_pair_def]]
  show "is_ok (assignment_write sample_audit_env school_context (sample_assignment SUBJECT_TEACHER None) ''s'' (snd (projr sample_pair)))"
    by (simp add: sample_assignment_def sample_pair_def)
qed

text \<open>
  An ended assignment is put back without looking at who holds its place by now: the index
  then fails with an error no handler renames, and where the index does not apply, the place
  is held twice.
\<close>

theorem reactivation_unguarded:
  assumes "assignments_ok s" and "x \<in> set (teacher_assignments s)" and "ta_status x = TA_ENDED"
    and "y \<in> set (teacher_assignments s)" and "holds_place (ta_school_id x) (ta_cohort_id x) (ta_subject_id x) (ta_academic_year_id x) (ta_role x) y"
    and "gu_version u = version x" and "gu_status u = Some TA_ACTIVE"
  shows "(if ta_role x = CLASS_TEACHER \<or> ta_subject_id x \<noteq> None
          then (\<exists>n. update_assignment env ctx x u s = Inl (IntegrityError n) \<and>
            error_response (IntegrityError n) = (500, ''INTERNAL_ERROR''))
          else is_ok (update_assignment env ctx x u s))"
proof -
  let ?x = "save_row env ctx x (assignment_payload u x)" let ?t = "update_row ?x (teacher_assignments s)"
  have upd: "update_assignment env ctx x u s = bind_ok (flush_assignments ?t) (\<lambda>t.
      Inr (?x, audit env ctx ''TEACHER_ASSIGNMENT_UPDATED'' ''teacher_assignment'' (Some (row_id ?x))
        (Some (assignment_snapshot x)) (Some (assignment_snapshot ?x)) (s\<lparr>teacher_assignments := t\<rparr>)))"
    using assms(6) by (simp add: update_assignment_def Let_def)
  have ne: "row_id y \<noteq> row_id ?x"
  proof
    assume "row_id y = row_id ?x"
    then have "y = x" using pk_unique_inj[of "teacher_assignments s" y x] assms(1,2,4) by (simp add: assignments_ok_def)
    then show False using assms(3,5) by (simp add: holds_place_def)
  qed
  have st: "ta_status ?x = TA_ACTIVE" using assms(7) by simp
  have mem: "?x \<in> set ?t" "y \<in> set ?t"
    using assms(2,4) ne by (auto intro: set_update_row_mem set_update_row_other)
  show ?thesis
  proof (cases "ta_role x = CLASS_TEACHER \<or> ta_subject_id x \<noteq> None")
    case True
    have "\<not> (uq_assignment_class_teacher_active ?t \<and> uq_assignment_subject_teacher_active ?t)"
      by (rule taken_place_breaks_index[OF mem(2) ne st _ _ subset_refl mem(1)])
        (use assms(5) True in \<open>auto simp: holds_place_def\<close>)
    then have "\<exists>n. flush_assignments ?t = Inl (IntegrityError n)" by (auto simp: flush_assignments_Inl)
    then show ?thesis using True by (auto simp: upd error_response_eq)
  next
    case False
    then have r: "ta_role x = SUBJECT_TEACHER" "ta_subject_id x = None" using assms(5) by (auto simp: holds_place_def)
    have "uq_assignment_class_teacher_active ?t" "uq_assignment_subject_teacher_active ?t"
      using assms(1) r unfolding assignments_ok_def uq_assignment_class_teacher_active_def uq_assignment_subject_teacher_active_def
      by (auto intro!: unique_on_update_row_out)
    then have "flush_assignments ?t = Inr ?t" by (simp add: flush_assignments_Inr)
    then show ?thesis using False by (simp add: upd)
  qed
qed

definition sample_ended :: "(teacher_assignment \<times> db) result" where
  "sample_ended = end_assignment sample_audit_env school_context (fst (projr sample_staff3)) 1 (snd (projr sample_staff3))"

definition sample_again :: "(teacher_assignment \<times> db) result" where
  "sample_again = create_assignment sample_audit_env school_context (sample_assignment CLASS_TEACHER None) (snd (projr sample_ended))"

lemma reactivation_unguarded_witness:
  "is_ok sample_again \<and> (\<exists>n. update_assignment sample_audit_env school_context (hd (teacher_assignments (snd (projr sample_again))))
     \<lparr>gu_end_date = None, gu_status = Some TA_ACTIVE, gu_version = 2\<rparr> (snd (projr sample_again)) = Inl (IntegrityError n))"
proof -
  let ?s = "snd (projr sample_again)" let ?x = "hd (teacher_assignments ?s)" let ?y = "fst (projr sample_again)"
  have ok: "is_ok sample_again" by code_simp
  have inv: "assignments_ok ?s"
    unfolding assignments_ok_def uq_assignment_class_teacher_active_def uq_assignment_subject_teacher_active_def unique_on_def
    by code_simp
  have x: "?x \<in> set (teacher_assignments ?s)" "ta_status ?x = TA_ENDED" by code_simp+
  have y: "?y \<in> set (teacher_assignments ?s)"
    "holds_place (ta_school_id ?x) (ta_cohort_id ?x) (ta_subject_id ?x) (ta_academic_year_id ?x) (ta_role ?x) ?y" by code_simp+
  have v: "version ?x = 2" "ta_role ?x = CLASS_TEACHER" by code_simp+
  from reactivation_unguarded[OF inv x y, of "\<lparr>gu_end_date = None, gu_status = Some TA_ACTIVE, gu_version = 2\<rparr>"
      sample_audit_env school_context] ok v show ?thesis by simp blast
qed

text \<open>
  A person whose teacher row was deleted can never be a teacher of that school again: the
  checks skip the deleted row and the constraint does not.
\<close>

theorem former_teacher_cannot_return:
  assumes "school_id ctx = Some sch" and "x \<in> set (teachers s)" and "deleted_at x \<noteq> None"
    and "te_school_id x = sch" and "te_person_id x = ec_person_id d"
    and "new_id env ''teachers'' (teachers s) \<notin> ids (teachers s)"
  shows "is_ok (create_teacher env ctx d s) = False"
proof -
  have "\<not> uq_teachers_school_id_person_id (insert_row (new_teacher env ctx sch org d s) (teachers s))" for org
  proof
    assume "uq_teachers_school_id_person_id (insert_row (new_teacher env ctx sch org d s) (teachers s))"
    then have "row_id x = row_id (new_teacher env ctx sch org d s)"
      unfolding uq_teachers_school_id_person_id_def
      by (elim unique_onD) (use assms(2,4,5) in \<open>simp_all add: set_insert_row new_teacher_def\<close>)
    then have "new_id env ''teachers'' (teachers s) \<in> row_id ` set (teachers s)"
      using assms(2) by (metis image_eqI new_teacher_id)
    then show False using assms(6) by (simp add: ids_def)
  qed
  then have "flush_teachers (insert_row (new_teacher env ctx sch org d s) (teachers s)) =
      Inl (IntegrityError ''uq_teachers_school_id_person_id'')" for org
    by (simp add: flush_teachers_def constrained_def)
  then show ?thesis using assms(1)
    by (cases "get_person (organization_id ctx) (ec_person_id d) s") (auto simp: create_teacher_def Let_def split: option.split)
qed

definition sample_fired :: "(unit \<times> db) result" where
  "sample_fired = delete_teacher sample_audit_env school_context (fst (projr sample_staff1)) 1 sample_staff2"

lemma former_teacher_cannot_return_witness:
  "is_ok sample_staff1 \<and> is_ok sample_fired \<and>
   is_ok (create_teacher sample_audit_env school_context sample_teacher (snd (projr sample_fired))) = False"
proof -
  let ?s = "snd (projr sample_fired)" let ?x = "hd (teachers ?s)"
  have ok: "is_ok sample_staff1" "is_ok sample_fired" by code_simp+
  have x: "?x \<in> set (teachers ?s)" "deleted_at ?x \<noteq> None" "te_school_id ?x = ''s''" "te_person_id ?x = ec_person_id sample_teacher"
    "new_id sample_audit_env ''teachers'' (teachers ?s) \<notin> ids (teachers ?s)" by code_simp+
  from former_teacher_cannot_return[OF school_context_fields(1) x] ok show ?thesis by blast
qed

end
