(* ===== verification/Families.thy ===== *)
theory Families
  imports Teachers Enrollments
begin

text \<open>
  Students, their guardians and their parents: \<open>app/modules/students/service.py\<close>,
  \<open>students/guardians\<close> and \<open>app/modules/parents\<close>, services and repositories.
\<close>

section \<open>Students\<close>

fun student_status_value :: "student_status \<Rightarrow> string" where
  "student_status_value ST_ACTIVE = ''ACTIVE''"
| "student_status_value ST_WITHDRAWN = ''WITHDRAWN''"
| "student_status_value ST_GRADUATED = ''GRADUATED''"
| "student_status_value ST_TRANSFERRED = ''TRANSFERRED''"
| "student_status_value ST_INACTIVE = ''INACTIVE''"
| "student_status_value ST_DECEASED = ''DECEASED''"

definition student_snapshot :: "student \<Rightarrow> snapshot" where
  "student_snapshot x = [(''admission_number'', JStr (st_admission_number x)),
     (''status'', JStr (student_status_value (st_status x))), (''admission_date'', JDateStr (st_admission_date x))]"

record student_create =
  fc_person_id :: ulid
  fc_admission_number :: string
  fc_admission_date :: date
  fc_status :: student_status

record student_update =
  fu_admission_number :: "string option"
  fu_admission_date :: "date option"
  fu_status :: "student_status option"
  fu_withdrawal_date :: "date option"
  fu_withdrawal_reason :: "string option"
  fu_version :: int

definition get_by_admission_number :: "db \<Rightarrow> ulid \<Rightarrow> string \<Rightarrow> student option" where
  "get_by_admission_number s sch n =
     find (\<lambda>x. st_school_id x = sch \<and> st_admission_number x = n \<and> deleted_at x = None) (students s)"

definition student_by_person :: "db \<Rightarrow> ulid \<Rightarrow> ulid \<Rightarrow> student option" where
  "student_by_person s sch p =
     find (\<lambda>x. st_school_id x = sch \<and> st_person_id x = p \<and> deleted_at x = None) (students s)"

definition flush_students :: "student list \<Rightarrow> student list result" where
  "flush_students t =
     bind_ok (constrained (uq_students_school_admission_number t) ''uq_students_school_admission_number'' t) (\<lambda>t.
       constrained (uq_students_school_person t) ''uq_students_school_person'' t)"

definition new_student :: "env \<Rightarrow> request_context \<Rightarrow> ulid \<Rightarrow> ulid \<Rightarrow> student_create \<Rightarrow> db \<Rightarrow> student" where
  "new_student env ctx sch org data s =
     \<lparr>row_id = new_id env ''students'' (students s), created_at = env_now env, updated_at = env_now env,
      created_by_id = Some (user_id ctx), updated_by_id = None, version = 1, archived_at = None, deleted_at = None,
      st_school_id = sch, st_organization_id = org, st_person_id = fc_person_id data,
      st_admission_number = fc_admission_number data, st_admission_date = fc_admission_date data,
      st_status = fc_status data, st_withdrawal_date = None, st_withdrawal_reason = None\<rparr>"

definition create_student ::
  "env \<Rightarrow> request_context \<Rightarrow> student_create \<Rightarrow> db \<Rightarrow> (student \<times> db) result" where
  "create_student env ctx data s = (case school_id ctx of
     None \<Rightarrow> Inl no_school_set
   | Some sch \<Rightarrow>
       bind_ok (get_person (organization_id ctx) (fc_person_id data) s) (\<lambda>p.
         if get_by_admission_number s sch (fc_admission_number data) \<noteq> None
         then Inl (ConflictError ''ADMISSION_NUMBER_TAKEN'')
         else if student_by_person s sch (fc_person_id data) \<noteq> None
         then Inl (ConflictError ''PERSON_ALREADY_ENROLLED'')
         else (case organization_id ctx of
            None \<Rightarrow> Inl (IntegrityError ''organization_id'')
          | Some org \<Rightarrow>
            let x = new_student env ctx sch org data s in
            bind_ok (flush_students (insert_row x (students s))) (\<lambda>t.
              Inr (x, audit env ctx ''STUDENT_CREATED'' ''student'' (Some (row_id x))
                None (Some (student_snapshot x)) (s\<lparr>students := t\<rparr>))))))"

definition student_payload :: "student_update \<Rightarrow> student \<Rightarrow> student" where
  "student_payload data x =
     assign st_withdrawal_reason_update (map_option Some (fu_withdrawal_reason data))
       (assign st_withdrawal_date_update (map_option Some (fu_withdrawal_date data))
         (assign st_status_update (fu_status data) (assign st_admission_date_update (fu_admission_date data)
           (assign st_admission_number_update (fu_admission_number data) x))))"

text \<open>A new admission number is not looked up before the flush.\<close>

definition update_student ::
  "env \<Rightarrow> request_context \<Rightarrow> student \<Rightarrow> student_update \<Rightarrow> db \<Rightarrow> (student \<times> db) result" where
  "update_student env ctx x data s =
     (if version x \<noteq> fu_version data then Inl StaleResourceError
      else let x' = save_row env ctx x (student_payload data x) in
        bind_ok (flush_students (update_row x' (students s))) (\<lambda>t.
          Inr (x', audit env ctx ''STUDENT_UPDATED'' ''student'' (Some (row_id x'))
            (Some (student_snapshot x)) (Some (student_snapshot x')) (s\<lparr>students := t\<rparr>))))"

definition delete_student ::
  "env \<Rightarrow> request_context \<Rightarrow> student \<Rightarrow> int \<Rightarrow> db \<Rightarrow> (unit \<times> db) result" where
  "delete_student env ctx x ver s =
     (if version x \<noteq> ver then Inl StaleResourceError
      else Inr ((), audit env ctx ''STUDENT_DELETED'' ''student'' (Some (row_id x)) (Some (student_snapshot x)) None
        (s\<lparr>students := update_row (soft_delete env ctx x) (students s)\<rparr>)))"

definition student_missing :: error where
  "student_missing = NotFoundError ''STUDENT_NOT_FOUND''"

definition get_student_owned :: "request_context \<Rightarrow> ulid \<Rightarrow> db \<Rightarrow> student result" where
  "get_student_owned ctx i s = (case school_id ctx of
     None \<Rightarrow> Inl student_missing
   | Some sch \<Rightarrow> ok_or student_missing (get_student s sch i))"

definition count_students :: "db \<Rightarrow> ulid \<Rightarrow> student_status option \<Rightarrow> nat" where
  "count_students s sch st =
     length (filter (\<lambda>x. st_school_id x = sch \<and> deleted_at x = None \<and>
       (case st of None \<Rightarrow> True | Some v \<Rightarrow> st_status x = v)) (students s))"

section \<open>Guardians\<close>

fun relationship_value :: "guardian_relationship \<Rightarrow> string" where
  "relationship_value GR_FATHER = ''FATHER''"
| "relationship_value GR_MOTHER = ''MOTHER''"
| "relationship_value GR_GUARDIAN = ''GUARDIAN''"
| "relationship_value GR_GRANDPARENT = ''GRANDPARENT''"
| "relationship_value GR_SIBLING = ''SIBLING''"
| "relationship_value GR_OTHER = ''OTHER''"

definition guardian_snapshot :: "student_guardian \<Rightarrow> snapshot" where
  "guardian_snapshot g = [(''student_id'', JStr (sg_student_id g)), (''guardian_person_id'', JStr (sg_guardian_person_id g)),
     (''relationship'', JStr (relationship_value (sg_relationship g))), (''is_primary'', JBool (sg_is_primary g)),
     (''is_emergency_contact'', JBool (sg_is_emergency_contact g)), (''can_pickup'', JBool (sg_can_pickup g))]"

record guardian_create =
  dc_student_id :: ulid
  dc_guardian_person_id :: ulid
  dc_relationship :: guardian_relationship
  dc_is_primary :: bool
  dc_is_emergency_contact :: bool
  dc_can_pickup :: bool

record guardian_update =
  du_relationship :: "guardian_relationship option"
  du_is_primary :: "bool option"
  du_is_emergency_contact :: "bool option"
  du_can_pickup :: "bool option"

definition guardian_by_id :: "db \<Rightarrow> ulid \<Rightarrow> ulid \<Rightarrow> student_guardian option" where
  "guardian_by_id s i sch = find (\<lambda>g. row_id g = i \<and> sg_school_id g = sch) (student_guardians s)"

definition get_by_student_and_person :: "db \<Rightarrow> ulid \<Rightarrow> ulid \<Rightarrow> ulid \<Rightarrow> student_guardian option" where
  "get_by_student_and_person s st p sch =
     find (\<lambda>g. sg_student_id g = st \<and> sg_guardian_person_id g = p \<and> sg_school_id g = sch) (student_guardians s)"

text \<open>
  \<open>list_for_student\<close>: the primary guardian first. The order within the two groups is the
  table's.
\<close>

definition list_for_student :: "db \<Rightarrow> ulid \<Rightarrow> ulid \<Rightarrow> student_guardian list" where
  "list_for_student s st sch =
     (let gs = filter (\<lambda>g. sg_student_id g = st \<and> sg_school_id g = sch) (student_guardians s) in
      filter sg_is_primary gs @ filter (\<lambda>g. \<not> sg_is_primary g) gs)"

text \<open>The UPDATE statement that takes the mark from every other guardian of the student.\<close>

definition unset_primary :: "env \<Rightarrow> ulid \<Rightarrow> ulid \<Rightarrow> ulid \<Rightarrow> student_guardian list \<Rightarrow> student_guardian list" where
  "unset_primary env st sch except t =
     update_where (\<lambda>g. sg_student_id g = st \<and> sg_school_id g = sch \<and> row_id g \<noteq> except)
       (\<lambda>g. g\<lparr>sg_is_primary := False, updated_at := env_now env\<rparr>) t"

definition new_guardian ::
  "env \<Rightarrow> request_context \<Rightarrow> ulid \<Rightarrow> ulid \<Rightarrow> guardian_create \<Rightarrow> db \<Rightarrow> student_guardian" where
  "new_guardian env ctx sch org data s =
     \<lparr>row_id = new_id env ''student_guardians'' (student_guardians s), created_at = env_now env, updated_at = env_now env,
      created_by_id = Some (user_id ctx), updated_by_id = None, sg_school_id = sch, sg_organization_id = org,
      sg_student_id = dc_student_id data, sg_guardian_person_id = dc_guardian_person_id data,
      sg_relationship = dc_relationship data, sg_is_primary = dc_is_primary data,
      sg_is_emergency_contact = dc_is_emergency_contact data, sg_can_pickup = dc_can_pickup data\<rparr>"

definition add_guardian ::
  "env \<Rightarrow> request_context \<Rightarrow> guardian_create \<Rightarrow> db \<Rightarrow> (student_guardian \<times> db) result" where
  "add_guardian env ctx data s = (case school_id ctx of
     None \<Rightarrow> Inl no_school_set
   | Some sch \<Rightarrow>
       bind_ok (ok_or student_missing (get_student s sch (dc_student_id data))) (\<lambda>_.
       bind_ok (get_person (organization_id ctx) (dc_guardian_person_id data) s) (\<lambda>_.
         if get_by_student_and_person s (dc_student_id data) (dc_guardian_person_id data) sch \<noteq> None
         then Inl (ConflictError ''GUARDIAN_ALREADY_LINKED'')
         else (case organization_id ctx of
            None \<Rightarrow> Inl (IntegrityError ''organization_id'')
          | Some org \<Rightarrow>
            let g = new_guardian env ctx sch org data s; t = insert_row g (student_guardians s) in
            bind_ok (constrained (uq_student_guardian_person t) ''uq_student_guardian_person'' t) (\<lambda>t.
              Inr (g, audit env ctx ''STUDENT_GUARDIAN_CREATED'' ''student_guardian'' (Some (row_id g))
                None (Some (guardian_snapshot g))
                (s\<lparr>student_guardians := if dc_is_primary data
                     then unset_primary env (dc_student_id data) sch (row_id g) t else t\<rparr>)))))))"

definition guardian_payload :: "guardian_update \<Rightarrow> student_guardian \<Rightarrow> student_guardian" where
  "guardian_payload data g =
     assign sg_can_pickup_update (du_can_pickup data)
       (assign sg_is_emergency_contact_update (du_is_emergency_contact data)
         (assign sg_is_primary_update (du_is_primary data) (assign sg_relationship_update (du_relationship data) g)))"

definition guardian_missing :: error where
  "guardian_missing = NotFoundError ''GUARDIAN_NOT_FOUND''"

definition update_guardian ::
  "env \<Rightarrow> request_context \<Rightarrow> ulid \<Rightarrow> guardian_update \<Rightarrow> db \<Rightarrow> (student_guardian \<times> db) result" where
  "update_guardian env ctx i data s = (case school_id ctx of
     None \<Rightarrow> Inl no_school_set
   | Some sch \<Rightarrow>
       bind_ok (ok_or guardian_missing (guardian_by_id s i sch)) (\<lambda>g.
         let t = (if du_is_primary data = Some True
               then unset_primary env (sg_student_id g) sch (row_id g) (student_guardians s) else student_guardians s);
             g' = flush_actor (env_now env) g ((guardian_payload data g)\<lparr>updated_by_id := Some (user_id ctx)\<rparr>) in
         Inr (g', audit env ctx ''STUDENT_GUARDIAN_UPDATED'' ''student_guardian'' (Some (row_id g'))
           (Some (guardian_snapshot g)) (Some (guardian_snapshot g')) (s\<lparr>student_guardians := update_row g' t\<rparr>))))"

definition remove_guardian :: "env \<Rightarrow> request_context \<Rightarrow> ulid \<Rightarrow> db \<Rightarrow> (unit \<times> db) result" where
  "remove_guardian env ctx i s = (case school_id ctx of
     None \<Rightarrow> Inl no_school_set
   | Some sch \<Rightarrow>
       bind_ok (ok_or guardian_missing (guardian_by_id s i sch)) (\<lambda>g.
         Inr ((), audit env ctx ''STUDENT_GUARDIAN_DELETED'' ''student_guardian'' (Some i)
           (Some (guardian_snapshot g)) None (s\<lparr>student_guardians := delete_row (row_id g) (student_guardians s)\<rparr>))))"

section \<open>Parents\<close>

datatype parent_status = PA_ACTIVE | PA_INACTIVE

fun parent_status_value :: "parent_status \<Rightarrow> string" where
  "parent_status_value PA_ACTIVE = ''ACTIVE''"
| "parent_status_value PA_INACTIVE = ''INACTIVE''"

definition parent_snapshot :: "parent \<Rightarrow> snapshot" where
  "parent_snapshot x = [(''occupation'', nullable (pa_occupation x)), (''workplace'', nullable (pa_workplace x)),
     (''status'', JStr (pa_status x))]"

record parent_create =
  rc_person_id :: ulid
  rc_occupation :: "string option"
  rc_workplace :: "string option"

record parent_update =
  ru_occupation :: "string option"
  ru_workplace :: "string option"
  ru_status :: "parent_status option"
  ru_version :: int

text \<open>\<open>ParentRelationship\<close> has the members of \<open>GuardianRelationship\<close>.\<close>

record student_parent_create =
  vc_parent_id :: ulid
  vc_relationship :: guardian_relationship
  vc_is_primary :: bool
  vc_is_emergency_contact :: bool
  vc_can_pickup :: bool

definition uq_parents_school_person :: "parent list \<Rightarrow> bool" where
  "uq_parents_school_person = unique_on (\<lambda>_. True) (\<lambda>x. (pa_school_id x, pa_person_id x))"

definition uq_student_parent :: "student_parent list \<Rightarrow> bool" where
  "uq_student_parent = unique_on (\<lambda>_. True) (\<lambda>x. (sp_student_id x, sp_parent_id x))"

definition parent_by_id :: "db \<Rightarrow> ulid \<Rightarrow> ulid \<Rightarrow> parent option" where
  "parent_by_id s sch i = find (\<lambda>x. row_id x = i \<and> pa_school_id x = sch \<and> deleted_at x = None) (parents s)"

definition parent_by_person :: "db \<Rightarrow> ulid \<Rightarrow> ulid \<Rightarrow> parent option" where
  "parent_by_person s sch p =
     find (\<lambda>x. pa_school_id x = sch \<and> pa_person_id x = p \<and> deleted_at x = None) (parents s)"

definition new_parent :: "env \<Rightarrow> request_context \<Rightarrow> ulid \<Rightarrow> ulid \<Rightarrow> parent_create \<Rightarrow> db \<Rightarrow> parent" where
  "new_parent env ctx sch org data s =
     \<lparr>row_id = new_id env ''parents'' (parents s), created_at = env_now env, updated_at = env_now env,
      created_by_id = Some (user_id ctx), updated_by_id = None, version = 1, archived_at = None, deleted_at = None,
      pa_person_id = rc_person_id data, pa_school_id = sch, pa_organization_id = org,
      pa_occupation = rc_occupation data, pa_workplace = rc_workplace data, pa_status = ''ACTIVE''\<rparr>"

definition create_parent ::
  "env \<Rightarrow> request_context \<Rightarrow> parent_create \<Rightarrow> db \<Rightarrow> (parent \<times> db) result" where
  "create_parent env ctx data s = (case school_id ctx of
     None \<Rightarrow> Inl no_school_set
   | Some sch \<Rightarrow>
       bind_ok (get_person (organization_id ctx) (rc_person_id data) s) (\<lambda>_.
         if parent_by_person s sch (rc_person_id data) \<noteq> None then Inl (ConflictError ''PERSON_ALREADY_PARENT'')
         else (case organization_id ctx of
            None \<Rightarrow> Inl (IntegrityError ''organization_id'')
          | Some org \<Rightarrow>
            let x = new_parent env ctx sch org data s; t = insert_row x (parents s) in
            bind_ok (constrained (uq_parents_school_person t) ''uq_parents_school_person'' t) (\<lambda>t.
              Inr (x, audit env ctx ''PARENT_CREATED'' ''parent'' (Some (row_id x))
                None (Some (parent_snapshot x)) (s\<lparr>parents := t\<rparr>))))))"

definition parent_payload :: "parent_update \<Rightarrow> parent \<Rightarrow> parent" where
  "parent_payload data x =
     assign pa_status_update (map_option parent_status_value (ru_status data))
       (assign pa_workplace_update (map_option Some (ru_workplace data))
         (assign pa_occupation_update (map_option Some (ru_occupation data)) x))"

definition update_parent ::
  "env \<Rightarrow> request_context \<Rightarrow> parent \<Rightarrow> parent_update \<Rightarrow> db \<Rightarrow> (parent \<times> db) result" where
  "update_parent env ctx x data s =
     (if version x \<noteq> ru_version data then Inl StaleResourceError
      else let x' = save_row env ctx x (parent_payload data x) in
        Inr (x', audit env ctx ''PARENT_UPDATED'' ''parent'' (Some (row_id x'))
          (Some (parent_snapshot x)) (Some (parent_snapshot x')) (s\<lparr>parents := update_row x' (parents s)\<rparr>)))"

definition delete_parent ::
  "env \<Rightarrow> request_context \<Rightarrow> parent \<Rightarrow> int \<Rightarrow> db \<Rightarrow> (unit \<times> db) result" where
  "delete_parent env ctx x ver s =
     (if version x \<noteq> ver then Inl StaleResourceError
      else Inr ((), audit env ctx ''PARENT_DELETED'' ''parent'' (Some (row_id x)) (Some (parent_snapshot x)) None
        (s\<lparr>parents := update_row (soft_delete env ctx x) (parents s)\<rparr>)))"

definition parent_missing :: error where
  "parent_missing = NotFoundError ''PARENT_NOT_FOUND''"

definition get_parent :: "request_context \<Rightarrow> ulid \<Rightarrow> db \<Rightarrow> parent result" where
  "get_parent ctx i s = (case school_id ctx of
     None \<Rightarrow> Inl parent_missing
   | Some sch \<Rightarrow> ok_or parent_missing (parent_by_id s sch i))"

definition get_student_parent_by_pair :: "db \<Rightarrow> ulid \<Rightarrow> ulid \<Rightarrow> student_parent option" where
  "get_student_parent_by_pair s st p = find (\<lambda>x. sp_student_id x = st \<and> sp_parent_id x = p) (student_parents s)"

text \<open>The join with the parents: the school and the deletion mark are those of the parent.\<close>

definition parent_row_in :: "db \<Rightarrow> ulid \<Rightarrow> ulid \<Rightarrow> bool" where
  "parent_row_in s sch p \<longleftrightarrow>
     find (\<lambda>x. row_id x = p \<and> pa_school_id x = sch \<and> deleted_at x = None) (parents s) \<noteq> None"

definition student_row_in :: "db \<Rightarrow> ulid \<Rightarrow> ulid \<Rightarrow> bool" where
  "student_row_in s sch i \<longleftrightarrow>
     find (\<lambda>x. row_id x = i \<and> st_school_id x = sch \<and> deleted_at x = None) (students s) \<noteq> None"

definition get_student_parent :: "db \<Rightarrow> ulid \<Rightarrow> ulid \<Rightarrow> student_parent option" where
  "get_student_parent s i sch =
     find (\<lambda>x. row_id x = i \<and> parent_row_in s sch (sp_parent_id x)) (student_parents s)"

definition list_children :: "request_context \<Rightarrow> ulid \<Rightarrow> db \<Rightarrow> student_parent list result" where
  "list_children ctx p s = (case school_id ctx of
     None \<Rightarrow> Inr []
   | Some sch \<Rightarrow> bind_ok (get_parent ctx p s) (\<lambda>_.
       Inr (filter (\<lambda>x. sp_parent_id x = p \<and> student_row_in s sch (sp_student_id x)) (student_parents s))))"

definition list_parents_for_student :: "request_context \<Rightarrow> ulid \<Rightarrow> db \<Rightarrow> student_parent list" where
  "list_parents_for_student ctx st s = (case school_id ctx of
     None \<Rightarrow> []
   | Some sch \<Rightarrow> filter (\<lambda>x. sp_student_id x = st \<and> parent_row_in s sch (sp_parent_id x)) (student_parents s))"

definition parent_link_snapshot :: "student_parent \<Rightarrow> snapshot" where
  "parent_link_snapshot x = [(''student_id'', JStr (sp_student_id x)), (''parent_id'', JStr (sp_parent_id x)),
     (''relationship'', JStr (sp_relationship x))]"

definition new_parent_link ::
  "env \<Rightarrow> request_context \<Rightarrow> ulid \<Rightarrow> ulid \<Rightarrow> ulid \<Rightarrow> student_parent_create \<Rightarrow> db \<Rightarrow> student_parent" where
  "new_parent_link env ctx sch org st data s =
     \<lparr>row_id = new_id env ''student_parents'' (student_parents s), created_at = env_now env, updated_at = env_now env,
      created_by_id = Some (user_id ctx), updated_by_id = None, sp_school_id = sch, sp_organization_id = org,
      sp_student_id = st, sp_parent_id = vc_parent_id data, sp_relationship = relationship_value (vc_relationship data),
      sp_is_primary = vc_is_primary data, sp_is_emergency_contact = vc_is_emergency_contact data,
      sp_can_pickup = vc_can_pickup data\<rparr>"

text \<open>The mark of a primary parent is stored as given; no other link loses it.\<close>

definition link_to_student ::
  "env \<Rightarrow> request_context \<Rightarrow> ulid \<Rightarrow> student_parent_create \<Rightarrow> db \<Rightarrow> (student_parent \<times> db) result" where
  "link_to_student env ctx st data s = (case school_id ctx of
     None \<Rightarrow> Inl no_school_set
   | Some sch \<Rightarrow>
       bind_ok (ok_or parent_missing (parent_by_id s sch (vc_parent_id data))) (\<lambda>_.
       bind_ok (ok_or student_missing (get_student s sch st)) (\<lambda>_.
         if get_student_parent_by_pair s st (vc_parent_id data) \<noteq> None
         then Inl (ConflictError ''PARENT_ALREADY_LINKED'')
         else (case organization_id ctx of
            None \<Rightarrow> Inl (IntegrityError ''organization_id'')
          | Some org \<Rightarrow>
            let x = new_parent_link env ctx sch org st data s; t = insert_row x (student_parents s) in
            bind_ok (constrained (uq_student_parent t) ''uq_student_parent'' t) (\<lambda>t.
              Inr (x, audit env ctx ''STUDENT_PARENT_LINKED'' ''student_parent'' (Some (row_id x))
                None (Some (parent_link_snapshot x)) (s\<lparr>student_parents := t\<rparr>)))))))"

definition student_parent_missing :: error where
  "student_parent_missing = NotFoundError ''STUDENT_PARENT_NOT_FOUND''"

definition unlink_from_student :: "env \<Rightarrow> request_context \<Rightarrow> ulid \<Rightarrow> db \<Rightarrow> (unit \<times> db) result" where
  "unlink_from_student env ctx i s = (case school_id ctx of
     None \<Rightarrow> Inl student_parent_missing
   | Some sch \<Rightarrow>
       bind_ok (ok_or student_parent_missing (get_student_parent s i sch)) (\<lambda>x.
         Inr ((), audit env ctx ''STUDENT_PARENT_UNLINKED'' ''student_parent'' (Some i)
           (Some (parent_link_snapshot x)) None (s\<lparr>student_parents := delete_row (row_id x) (student_parents s)\<rparr>))))"

text \<open>
  The routes that list links read \<open>link.parent\<close> for the view. \<open>list_parents_for_student\<close>
  loads it; \<open>list_children\<close> loads only the student, and the relationship is declared
  \<open>lazy="raise"\<close>, so reading it raises.
\<close>

definition list_children_route :: "request_context \<Rightarrow> ulid \<Rightarrow> db \<Rightarrow> student_parent list result" where
  "list_children_route ctx p s = bind_ok (list_children ctx p s) (\<lambda>links.
     if links = [] then Inr [] else Inl (PyError ''InvalidRequestError: StudentParent.parent is not available due to lazy=raise''))"

section \<open>Facts\<close>

lemma save_row_student [simp]:
  "st_school_id (save_row env ctx x z) = st_school_id z" "st_person_id (save_row env ctx x z) = st_person_id z"
  "st_admission_number (save_row env ctx x z) = st_admission_number z" "deleted_at (save_row env ctx x z) = deleted_at z"
  for x z :: student
  by (auto simp: save_row_def flush_versioned_def)

lemma student_payload_fields [simp]:
  "row_id (student_payload d x) = row_id x" "st_school_id (student_payload d x) = st_school_id x"
  "st_person_id (student_payload d x) = st_person_id x" "deleted_at (student_payload d x) = deleted_at x"
  "st_admission_number (student_payload d x) = (case fu_admission_number d of None \<Rightarrow> st_admission_number x | Some n \<Rightarrow> n)"
  by (simp_all add: student_payload_def assign_def split: option.split)

lemma new_student_fields [simp]:
  "row_id (new_student env ctx sch org d s) = new_id env ''students'' (students s)"
  "st_school_id (new_student env ctx sch org d s) = sch" "st_person_id (new_student env ctx sch org d s) = fc_person_id d"
  "st_admission_number (new_student env ctx sch org d s) = fc_admission_number d"
  by (simp_all add: new_student_def)

lemma flush_students_Inr: "flush_students t = Inr t' \<longleftrightarrow>
    t' = t \<and> uq_students_school_admission_number t \<and> uq_students_school_person t"
  by (auto simp: flush_students_def bind_ok_Inr_iff)

lemma flush_students_broken: "\<not> uq_students_school_admission_number t \<Longrightarrow>
    flush_students t = Inl (IntegrityError ''uq_students_school_admission_number'')"
  by (simp add: flush_students_def constrained_def)

text \<open>A new row meets a constraint exactly when no row, deleted or not, has its key.\<close>

lemma unique_on_all_insert:
  assumes "unique_on (\<lambda>_. True) key t" and "row_id r \<notin> ids t"
  shows "unique_on (\<lambda>_. True) key (insert_row r t) \<longleftrightarrow> (\<forall>x\<in>set t. key x \<noteq> key r)"
  using unique_on_insert_iff[OF assms] by simp

section \<open>Guardians: one is primary\<close>

inductive guardian_step :: "db \<Rightarrow> db \<Rightarrow> bool" where
  added: "add_guardian env ctx d s = Inr (g, s') \<Longrightarrow>
    new_id env ''student_guardians'' (student_guardians s) \<notin> ids (student_guardians s) \<Longrightarrow> guardian_step s s'"
| updated: "update_guardian env ctx i u s = Inr (g, s') \<Longrightarrow> guardian_step s s'"
| removed: "remove_guardian env ctx i s = Inr (r, s') \<Longrightarrow> guardian_step s s'"

definition one_primary :: "student_guardian list \<Rightarrow> bool" where
  "one_primary = unique_on sg_is_primary (\<lambda>g. (sg_student_id g, sg_school_id g))"

definition guardians_ok :: "db \<Rightarrow> bool" where
  "guardians_ok s \<longleftrightarrow> pk_unique (student_guardians s) \<and> uq_student_guardian_person (student_guardians s) \<and>
     one_primary (student_guardians s)"

lemma unset_primary_set:
  "x \<in> set (unset_primary env st sch i t) \<Longrightarrow>
    (\<exists>y\<in>set t. row_id x = row_id y \<and> sg_student_id x = sg_student_id y \<and> sg_school_id x = sg_school_id y \<and>
      sg_guardian_person_id x = sg_guardian_person_id y \<and> (sg_is_primary x \<longrightarrow> sg_is_primary y) \<and>
      (sg_is_primary x \<longrightarrow> sg_student_id x = st \<longrightarrow> sg_school_id x = sch \<longrightarrow> row_id x = i))"
  by (auto simp: unset_primary_def set_update_where)

lemma unset_primary_ids [simp]: "map row_id (unset_primary env st sch i t) = map row_id t"
  by (simp add: unset_primary_def update_where_def)

lemma unset_primary_pk [simp]: "pk_unique (unset_primary env st sch i t) = pk_unique t"
  by (simp add: pk_unique_def)

lemma unset_primary_pairs:
  assumes "uq_student_guardian_person t"
  shows "uq_student_guardian_person (unset_primary env st sch i t)"
  unfolding uq_student_guardian_person_def
proof (rule unique_onI)
  fix x y assume "x \<in> set (unset_primary env st sch i t)" "y \<in> set (unset_primary env st sch i t)"
    and k: "(sg_student_id x, sg_guardian_person_id x) = (sg_student_id y, sg_guardian_person_id y)"
  then obtain x' y' where "x' \<in> set t" "row_id x = row_id x'" "sg_student_id x = sg_student_id x'"
      "sg_guardian_person_id x = sg_guardian_person_id x'" "y' \<in> set t" "row_id y = row_id y'"
      "sg_student_id y = sg_student_id y'" "sg_guardian_person_id y = sg_guardian_person_id y'"
    by (metis unset_primary_set)
  then show "row_id x = row_id y" using unique_onD[OF assms[unfolded uq_student_guardian_person_def], of x' y'] k by simp
qed

lemma unset_primary_one:
  assumes "unique_on (\<lambda>g. sg_is_primary g \<and> row_id g \<noteq> i) (\<lambda>g. (sg_student_id g, sg_school_id g)) t"
    and "\<And>g. g \<in> set t \<Longrightarrow> row_id g = i \<Longrightarrow> sg_student_id g = st \<and> sg_school_id g = sch"
  shows "one_primary (unset_primary env st sch i t)"
  unfolding one_primary_def
proof (rule unique_onI)
  fix x y assume m: "x \<in> set (unset_primary env st sch i t)" "y \<in> set (unset_primary env st sch i t)"
    and p: "sg_is_primary x" "sg_is_primary y" and k: "(sg_student_id x, sg_school_id x) = (sg_student_id y, sg_school_id y)"
  from unset_primary_set[OF m(1)] p obtain x' where x: "x' \<in> set t" "row_id x = row_id x'" "sg_student_id x = sg_student_id x'"
    "sg_school_id x = sg_school_id x'" "sg_is_primary x'" "sg_student_id x = st \<longrightarrow> sg_school_id x = sch \<longrightarrow> row_id x = i" by blast
  from unset_primary_set[OF m(2)] p obtain y' where y: "y' \<in> set t" "row_id y = row_id y'" "sg_student_id y = sg_student_id y'"
    "sg_school_id y = sg_school_id y'" "sg_is_primary y'" "sg_student_id y = st \<longrightarrow> sg_school_id y = sch \<longrightarrow> row_id y = i" by blast
  show "row_id x = row_id y"
  proof (cases "row_id x' = i \<or> row_id y' = i")
    case True
    then have "sg_student_id x = st" "sg_school_id x = sch" using assms(2) x y k by auto
    then show ?thesis using x(6) y(6) k by simp
  next
    case False
    then show ?thesis using unique_onD[OF assms(1) x(1) y(1)] x y k by simp
  qed
qed

lemma add_guardian_table:
  assumes "add_guardian env ctx d s = Inr (g, s')"
  obtains sch org where "school_id ctx = Some sch" "g = new_guardian env ctx sch org d s"
    "uq_student_guardian_person (insert_row g (student_guardians s))"
    "student_guardians s' = (if dc_is_primary d then unset_primary env (dc_student_id d) sch (row_id g) (insert_row g (student_guardians s))
       else insert_row g (student_guardians s))"
  using assms that by (auto simp: add_guardian_def bind_ok_Inr_iff Let_def split: option.splits if_splits)

lemma update_guardian_table:
  assumes "update_guardian env ctx i d s = Inr (g', s')"
  obtains sch g where "school_id ctx = Some sch" "guardian_by_id s i sch = Some g"
    "g' = flush_actor (env_now env) g ((guardian_payload d g)\<lparr>updated_by_id := Some (user_id ctx)\<rparr>)"
    "student_guardians s' = update_row g' (if du_is_primary d = Some True
       then unset_primary env (sg_student_id g) sch (row_id g) (student_guardians s) else student_guardians s)"
proof -
  obtain sch where sch: "school_id ctx = Some sch"
    using assms by (cases "school_id ctx") (simp_all add: update_guardian_def)
  with assms obtain g where g: "guardian_by_id s i sch = Some g"
    by (cases "guardian_by_id s i sch") (simp_all add: update_guardian_def)
  let ?g = "flush_actor (env_now env) g ((guardian_payload d g)\<lparr>updated_by_id := Some (user_id ctx)\<rparr>)"
  have "g' = ?g" "student_guardians s' = update_row ?g (if du_is_primary d = Some True
       then unset_primary env (sg_student_id g) sch (row_id g) (student_guardians s) else student_guardians s)"
    using assms by (simp_all add: update_guardian_def sch g Let_def) auto
  with that[OF sch g] show ?thesis by blast
qed

lemma flush_guardian [simp]:
  "row_id (flush_actor now g ((guardian_payload d g)\<lparr>updated_by_id := u\<rparr>)) = row_id g"
  "sg_student_id (flush_actor now g ((guardian_payload d g)\<lparr>updated_by_id := u\<rparr>)) = sg_student_id g"
  "sg_school_id (flush_actor now g ((guardian_payload d g)\<lparr>updated_by_id := u\<rparr>)) = sg_school_id g"
  "sg_guardian_person_id (flush_actor now g ((guardian_payload d g)\<lparr>updated_by_id := u\<rparr>)) = sg_guardian_person_id g"
  "sg_is_primary (flush_actor now g ((guardian_payload d g)\<lparr>updated_by_id := u\<rparr>)) =
    (case du_is_primary d of None \<Rightarrow> sg_is_primary g | Some b \<Rightarrow> b)"
proof -
  let ?n = "(guardian_payload d g)\<lparr>updated_by_id := u\<rparr>"
  have n: "row_id ?n = row_id g" "sg_student_id ?n = sg_student_id g" "sg_school_id ?n = sg_school_id g"
    "sg_guardian_person_id ?n = sg_guardian_person_id g" "sg_is_primary ?n = (case du_is_primary d of None \<Rightarrow> sg_is_primary g | Some b \<Rightarrow> b)"
    by (simp_all add: guardian_payload_def assign_def split: option.split)
  have f: "flush_actor now g ?n = (if ?n = g then g else ?n\<lparr>updated_at := now\<rparr>)" by (simp add: flush_actor_def)
  show "row_id (flush_actor now g ?n) = row_id g" "sg_student_id (flush_actor now g ?n) = sg_student_id g"
    "sg_school_id (flush_actor now g ?n) = sg_school_id g" "sg_guardian_person_id (flush_actor now g ?n) = sg_guardian_person_id g"
    "sg_is_primary (flush_actor now g ?n) = (case du_is_primary d of None \<Rightarrow> sg_is_primary g | Some b \<Rightarrow> b)"
    unfolding f using n by (cases "?n = g"; simp)+
qed

lemma guardian_by_id_SomeD: "guardian_by_id s i sch = Some g \<Longrightarrow> g \<in> set (student_guardians s) \<and> row_id g = i \<and> sg_school_id g = sch"
  by (auto simp: guardian_by_id_def dest: find_SomeD)

lemma new_guardian_fields [simp]:
  "row_id (new_guardian env ctx sch org d s) = new_id env ''student_guardians'' (student_guardians s)"
  "sg_student_id (new_guardian env ctx sch org d s) = dc_student_id d" "sg_school_id (new_guardian env ctx sch org d s) = sch"
  "sg_is_primary (new_guardian env ctx sch org d s) = dc_is_primary d"
  by (simp_all add: new_guardian_def)

lemma one_primaryD: "one_primary t \<Longrightarrow> unique_on (\<lambda>g. sg_is_primary g \<and> row_id g \<noteq> i) (\<lambda>g. (sg_student_id g, sg_school_id g)) t"
  unfolding one_primary_def by (auto intro!: unique_onI dest: unique_onD)

lemma guardian_step_preserves:
  assumes "guardians_ok s" and "guardian_step s s'"
  shows "guardians_ok s'"
  using assms(2)
proof (cases rule: guardian_step.cases)
  case (added env ctx d g)
  from add_guardian_table[OF added(1)] obtain sch org where
    g: "g = new_guardian env ctx sch org d s" and u: "uq_student_guardian_person (insert_row g (student_guardians s))"
    and t: "student_guardians s' = (if dc_is_primary d then unset_primary env (dc_student_id d) sch (row_id g) (insert_row g (student_guardians s))
       else insert_row g (student_guardians s))" by metis
  let ?t = "insert_row g (student_guardians s)"
  have pk: "pk_unique ?t" and ids: "row_id g \<notin> ids (student_guardians s)"
    using assms(1) added(2) by (simp_all add: guardians_ok_def g)
  have one: "unique_on (\<lambda>x. sg_is_primary x \<and> row_id x \<noteq> row_id g) (\<lambda>g. (sg_student_id g, sg_school_id g)) ?t"
    using one_primaryD[of "student_guardians s" "row_id g"] assms(1) by (intro unique_on_insert_row) (simp_all add: guardians_ok_def)
  show ?thesis
  proof (cases "dc_is_primary d")
    case True
    have "one_primary (unset_primary env (dc_student_id d) sch (row_id g) ?t)"
    proof (rule unset_primary_one[OF one])
      fix x assume x: "x \<in> set ?t" "row_id x = row_id g"
      then have "x = g" using fresh_row_id[OF _ ids, of x] by (auto simp: set_insert_row)
      then show "sg_student_id x = dc_student_id d \<and> sg_school_id x = sch" by (simp add: g)
    qed
    then show ?thesis using True t pk unset_primary_pairs[OF u] by (simp add: guardians_ok_def)
  next
    case False
    then have "one_primary ?t" using assms(1) unfolding guardians_ok_def one_primary_def
      by (intro unique_on_insert_row) (simp_all add: g)
    then show ?thesis using False t pk u by (simp add: guardians_ok_def)
  qed
next
  case (updated env ctx i u g')
  from update_guardian_table[OF updated] obtain sch g where g: "guardian_by_id s i sch = Some g"
    and g': "g' = flush_actor (env_now env) g ((guardian_payload u g)\<lparr>updated_by_id := Some (user_id ctx)\<rparr>)"
    and t: "student_guardians s' = update_row g' (if du_is_primary u = Some True
       then unset_primary env (sg_student_id g) sch (row_id g) (student_guardians s) else student_guardians s)" by metis
  note gm = guardian_by_id_SomeD[OF g]
  have same: "row_id g' = row_id g" "sg_student_id g' = sg_student_id g" "sg_school_id g' = sg_school_id g"
    "sg_guardian_person_id g' = sg_guardian_person_id g" "sg_is_primary g' = (case du_is_primary u of None \<Rightarrow> sg_is_primary g | Some b \<Rightarrow> b)"
    unfolding g' by simp_all
  have ok: "pk_unique (student_guardians s)" "uq_student_guardian_person (student_guardians s)" "one_primary (student_guardians s)"
    using assms(1) by (simp_all add: guardians_ok_def)
  show ?thesis
  proof (cases "du_is_primary u = Some True")
    case True
    let ?t = "unset_primary env (sg_student_id g) sch (row_id g) (student_guardians s)"
    have gt: "g \<in> set ?t" using gm by (auto simp: unset_primary_def set_update_where image_iff intro!: bexI[of _ g])
    have one: "one_primary ?t"
    proof (rule unset_primary_one[OF one_primaryD[OF ok(3)]])
      fix x assume "x \<in> set (student_guardians s)" "row_id x = row_id g"
      then have "x = g" using pk_unique_inj[OF ok(1)] gm by blast
      then show "sg_student_id x = sg_student_id g \<and> sg_school_id x = sch" using gm by simp
    qed
    have "one_primary (update_row g' ?t)" unfolding one_primary_def
    proof (rule unique_on_update_row[OF one[unfolded one_primary_def]], intro ballI impI)
      fix x assume x: "x \<in> set ?t" "row_id x \<noteq> row_id g'" "sg_is_primary x"
      show "(sg_student_id x, sg_school_id x) \<noteq> (sg_student_id g', sg_school_id g')"
        using unset_primary_set[OF x(1)] x(2,3) same gm by auto
    qed
    moreover have "uq_student_guardian_person (update_row g' ?t)" unfolding uq_student_guardian_person_def
      by (rule unique_on_update_row_same[OF unset_primary_pairs[OF ok(2), unfolded uq_student_guardian_person_def] gt same(1)])
        (simp add: same)
    ultimately show ?thesis using True t ok(1) by (simp add: guardians_ok_def)
  next
    case False
    have "one_primary (update_row g' (student_guardians s))" unfolding one_primary_def
      by (rule unique_on_update_row_same[OF ok(3)[unfolded one_primary_def] conjunct1[OF gm] same(1)])
        (use False same in \<open>auto split: option.splits\<close>)
    moreover have "uq_student_guardian_person (update_row g' (student_guardians s))" unfolding uq_student_guardian_person_def
      by (rule unique_on_update_row_same[OF ok(2)[unfolded uq_student_guardian_person_def] conjunct1[OF gm] same(1)]) (simp add: same)
    ultimately show ?thesis using False t ok(1) by (simp add: guardians_ok_def)
  qed
next
  case (removed env ctx i r)
  then have "\<exists>j. student_guardians s' = delete_row j (student_guardians s)"
    by (auto simp: remove_guardian_def bind_ok_Inr_iff split: option.splits)
  then show ?thesis using assms(1)
    by (auto simp: guardians_ok_def one_primary_def uq_student_guardian_person_def intro: pk_unique_delete_row unique_on_delete_row)
qed

interpretation guardians: invariant_system guardian_step guardians_ok
  by unfold_locales (rule guardian_step_preserves)

section \<open>Properties\<close>

definition sample_family0 :: db where
  "sample_family0 = sample_staff0\<lparr>persons := map (\<lambda>i. (blank_person i)\<lparr>pe_organization_id := ''o''\<rparr>) [''p'', ''m'', ''f'']\<rparr>"

definition sample_student :: "string \<Rightarrow> ulid \<Rightarrow> student_create" where
  "sample_student n p = \<lparr>fc_person_id = p, fc_admission_number = n, fc_admission_date = 4, fc_status = ST_ACTIVE\<rparr>"

definition sample_family1 :: "(student \<times> db) result" where
  "sample_family1 = create_student sample_audit_env school_context (sample_student ''1'' ''p'') sample_family0"

definition sample_guardian :: "ulid \<Rightarrow> guardian_create" where
  "sample_guardian p = \<lparr>dc_student_id = ''students'', dc_guardian_person_id = p, dc_relationship = GR_MOTHER,
     dc_is_primary = True, dc_is_emergency_contact = False, dc_can_pickup = True\<rparr>"

definition sample_family2 :: "(student_guardian \<times> db) result" where
  "sample_family2 = add_guardian sample_audit_env school_context (sample_guardian ''m'') (snd (projr sample_family1))"

definition sample_family3 :: "(student_guardian \<times> db) result" where
  "sample_family3 = add_guardian sample_audit_env school_context (sample_guardian ''f'') (snd (projr sample_family2))"

lemma sample_family_steps:
  "guardians_ok (snd (projr sample_family1))" "guardian_step (snd (projr sample_family1)) (snd (projr sample_family2))"
  "guardian_step (snd (projr sample_family2)) (snd (projr sample_family3))" "is_ok sample_family2" "is_ok sample_family3"
proof -
  have "student_guardians (snd (projr sample_family1)) = []" by code_simp
  then show "guardians_ok (snd (projr sample_family1))"
    by (simp add: guardians_ok_def pk_unique_def uq_student_guardian_person_def one_primary_def)
  have ok: "is_ok sample_family2" "is_ok sample_family3" by code_simp+
  then show "is_ok sample_family2" "is_ok sample_family3" .
  have n: "new_id sample_audit_env ''student_guardians'' (student_guardians (snd (projr sample_family1))) \<notin> ids (student_guardians (snd (projr sample_family1)))"
    "new_id sample_audit_env ''student_guardians'' (student_guardians (snd (projr sample_family2))) \<notin> ids (student_guardians (snd (projr sample_family2)))"
    by code_simp+
  show "guardian_step (snd (projr sample_family1)) (snd (projr sample_family2))"
    using guardian_step.added[OF ok_projr[OF ok(1), unfolded sample_family2_def] n(1)] by (simp add: sample_family2_def)
  show "guardian_step (snd (projr sample_family2)) (snd (projr sample_family3))"
    using guardian_step.added[OF ok_projr[OF ok(2), unfolded sample_family3_def] n(2)] by (simp add: sample_family3_def)
qed

lemma two_entries: "\<not> length xs \<le> 1 \<Longrightarrow> \<exists>a b r. xs = a # b # r"
  by (cases xs rule: remdups_adj.cases) simp_all

text \<open>
  C20. Over any sequence of operations on guardians a student has at most one primary guardian in
  a school, so the listing of the guardians of a student starts with it and no later entry is
  primary.
\<close>

theorem primary_guardian_unique:
  assumes "guardians_ok s" and "guardian_step\<^sup>*\<^sup>* s s'"
    and "list_for_student s' st sch = g # rest"
  shows "filter sg_is_primary rest = []"
proof -
  have ok: "guardians_ok s'" using guardians.reach_inv[OF assms(2,1)] .
  define gs where "gs = filter (\<lambda>g. sg_student_id g = st \<and> sg_school_id g = sch) (student_guardians s')"
  have d: "distinct (map row_id (filter sg_is_primary gs))"
    using ok by (auto simp: gs_def guardians_ok_def pk_unique_def distinct_map intro: inj_on_subset)
  have e: "row_id x = row_id y" if "x \<in> set (filter sg_is_primary gs)" "y \<in> set (filter sg_is_primary gs)" for x y
    using that ok unique_onD[of sg_is_primary "\<lambda>g. (sg_student_id g, sg_school_id g)" "student_guardians s'" x y]
    by (auto simp: gs_def guardians_ok_def one_primary_def)
  have short: "length (filter sg_is_primary gs) \<le> 1"
  proof (rule ccontr)
    assume "\<not> length (filter sg_is_primary gs) \<le> 1"
    from two_entries[OF this] obtain a b r where r: "filter sg_is_primary gs = a # b # r" by blast
    have m: "a \<in> set (filter sg_is_primary gs)" "b \<in> set (filter sg_is_primary gs)" unfolding r by simp_all
    have "row_id a \<noteq> row_id b" using d unfolding r by simp
    with e[OF m] show False by blast
  qed
  have l: "filter sg_is_primary gs @ filter (\<lambda>g. \<not> sg_is_primary g) gs = g # rest"
    using assms(3) by (simp add: list_for_student_def Let_def gs_def)
  show ?thesis
  proof (cases "filter sg_is_primary gs")
    case Nil
    then have "g # rest = filter (\<lambda>g. \<not> sg_is_primary g) gs" using l by simp
    then have "set (g # rest) = {x \<in> set gs. \<not> sg_is_primary x}" by simp
    then show ?thesis by (auto simp: filter_empty_conv)
  next
    case (Cons a as)
    then have "as = []" "rest = filter (\<lambda>g. \<not> sg_is_primary g) gs" using short l by auto
    then show ?thesis by (simp add: filter_empty_conv)
  qed
qed

lemma primary_guardian_unique_witness:
  "\<exists>g h. list_for_student (snd (projr sample_family3)) ''students'' ''s'' = [g, h] \<and> sg_is_primary g \<and>
     sg_guardian_person_id g = ''f'' \<and> sg_is_primary h = False"
proof -
  let ?l = "list_for_student (snd (projr sample_family3)) ''students'' ''s''"
  have "length ?l = 2" "sg_is_primary (hd ?l)" "sg_guardian_person_id (hd ?l) = ''f''" by code_simp+
  then obtain g h where l: "?l = [g, h]" "sg_is_primary g" "sg_guardian_person_id g = ''f''"
    by (auto simp: numeral_2_eq_2 length_Suc_conv)
  have "guardian_step\<^sup>*\<^sup>* (snd (projr sample_family1)) (snd (projr sample_family3))"
    by (rule rtranclp.rtrancl_into_rtrancl[OF r_into_rtranclp[of guardian_step, OF sample_family_steps(2)] sample_family_steps(3)])
  from primary_guardian_unique[OF sample_family_steps(1) this l(1)] have "sg_is_primary h = False"
    by (simp split: if_splits)
  with l show ?thesis by blast
qed

text \<open>
  A student is admitted exactly when the person belongs to the organization and no student of
  the school, deleted or not, has the admission number or is that person: a number or a
  person that only a deleted student has passes both checks and ends in an internal error.
\<close>

theorem create_student_exact:
  assumes "school_id ctx = Some sch" and "organization_id ctx = Some org"
    and "uq_students_school_admission_number (students s)" and "uq_students_school_person (students s)"
    and "new_id env ''students'' (students s) \<notin> ids (students s)"
    and "get_person (Some org) (fc_person_id d) s = Inr p"
  shows "is_ok (create_student env ctx d s) = list_all (\<lambda>x. st_school_id x = sch \<longrightarrow>
      st_admission_number x \<noteq> fc_admission_number d \<and> st_person_id x \<noteq> fc_person_id d) (students s)"
proof -
  let ?x = "new_student env ctx sch org d s" let ?t = "insert_row ?x (students s)"
  have u: "uq_students_school_admission_number ?t \<longleftrightarrow>
      (\<forall>x\<in>set (students s). (st_school_id x, st_admission_number x) \<noteq> (sch, fc_admission_number d))"
    "uq_students_school_person ?t \<longleftrightarrow> (\<forall>x\<in>set (students s). (st_school_id x, st_person_id x) \<noteq> (sch, fc_person_id d))"
    using assms(3-5) unfolding uq_students_school_admission_number_def uq_students_school_person_def
    by (simp_all add: unique_on_all_insert)
  have l: "get_by_admission_number s sch (fc_admission_number d) \<noteq> None \<Longrightarrow> \<not> uq_students_school_admission_number ?t"
    "student_by_person s sch (fc_person_id d) \<noteq> None \<Longrightarrow> \<not> uq_students_school_person ?t"
    by (auto simp: u get_by_admission_number_def student_by_person_def find_None_iff)
  have "is_ok (create_student env ctx d s) \<longleftrightarrow> uq_students_school_admission_number ?t \<and> uq_students_school_person ?t"
  proof (cases "uq_students_school_admission_number ?t \<and> uq_students_school_person ?t")
    case True
    then have "get_by_admission_number s sch (fc_admission_number d) = None" "student_by_person s sch (fc_person_id d) = None"
      "flush_students ?t = Inr ?t" using l by (blast, blast, simp add: flush_students_Inr)
    with True assms(1,2,6) show ?thesis by (simp add: create_student_def Let_def)
  next
    case False
    then have "flush_students ?t \<noteq> Inr t" for t by (simp add: flush_students_Inr)
    then obtain e where "flush_students ?t = Inl e" by (cases "flush_students ?t") auto
    with False assms(1,2,6) show ?thesis by (simp add: create_student_def Let_def)
  qed
  then show ?thesis by (auto simp: u list_all_iff)
qed

lemma create_student_exact_witness:
  "is_ok (create_student sample_audit_env school_context (sample_student ''1'' ''p'') sample_family0) \<and>
   is_ok (create_student sample_audit_env school_context (sample_student ''1'' ''m'') (snd (projr sample_family1))) = False"
proof -
  let ?s = "snd (projr sample_family1)"
  have e: "students sample_family0 = []" "length (students ?s) = 1" by code_simp+
  then obtain x where x: "students ?s = [x]" by (auto simp: length_Suc_conv)
  have p: "get_person (Some ''o'') (fc_person_id (sample_student ''1'' ''p'')) sample_family0 =
      Inr ((blank_person ''p'')\<lparr>pe_organization_id := ''o''\<rparr>)"
    "get_person (Some ''o'') (fc_person_id (sample_student ''1'' ''m'')) ?s = Inr ((blank_person ''m'')\<lparr>pe_organization_id := ''o''\<rparr>)"
    by code_simp+
  have n: "new_id sample_audit_env ''students'' (students sample_family0) \<notin> ids (students sample_family0)"
    "new_id sample_audit_env ''students'' (students ?s) \<notin> ids (students ?s)" by code_simp+
  have q: "uq_students_school_admission_number (students sample_family0)" "uq_students_school_person (students sample_family0)"
    "uq_students_school_admission_number (students ?s)" "uq_students_school_person (students ?s)"
    unfolding uq_students_school_admission_number_def uq_students_school_person_def unique_on_def by (simp_all add: e x)
  have "list_all (\<lambda>x. st_school_id x = ''s'' \<longrightarrow> st_admission_number x \<noteq> fc_admission_number (sample_student ''1'' ''m'') \<and>
     st_person_id x \<noteq> fc_person_id (sample_student ''1'' ''m'')) (students ?s) = False" by code_simp
  with create_student_exact[OF school_context_fields(1,2) q(1,2) n(1) p(1)]
    create_student_exact[OF school_context_fields(1,2) q(3,4) n(2) p(2)] e(1)
  show ?thesis by simp
qed

text \<open>
  A change of the admission number to one that another student of the school has, deleted or
  not, is not answered as a conflict: the constraint fails and the request ends in an internal
  error.
\<close>

theorem admission_number_clash_unhandled:
  assumes "x \<in> set (students s)" and "y \<in> set (students s)" and "row_id y \<noteq> row_id x"
    and "st_school_id y = st_school_id x" and "fu_admission_number u = Some (st_admission_number y)"
    and "version x = fu_version u"
  shows "update_student env ctx x u s = Inl (IntegrityError ''uq_students_school_admission_number'') \<and>
    error_response (IntegrityError ''uq_students_school_admission_number'') = (500, ''INTERNAL_ERROR'')"
proof -
  let ?x = "save_row env ctx x (student_payload u x)" let ?t = "update_row ?x (students s)"
  have m: "?x \<in> set ?t" "y \<in> set ?t"
    using assms(1-3) by (auto intro: set_update_row_mem set_update_row_other)
  have "\<not> uq_students_school_admission_number ?t"
  proof
    assume "uq_students_school_admission_number ?t"
    then have "row_id ?x = row_id y" unfolding uq_students_school_admission_number_def
      by (elim unique_onD) (use m assms(4,5) in simp_all)
    then show False using assms(3) by simp
  qed
  then show ?thesis using assms(6) by (simp add: update_student_def Let_def flush_students_broken error_response_eq)
qed

definition sample_pupils :: "(student \<times> db) result" where
  "sample_pupils = create_student sample_audit_env school_context (sample_student ''2'' ''m'') (snd (projr sample_family1))"

definition sample_renumber :: student_update where
  "sample_renumber = \<lparr>fu_admission_number = Some ''1'', fu_admission_date = None, fu_status = None,
     fu_withdrawal_date = None, fu_withdrawal_reason = None, fu_version = 1\<rparr>"

lemma admission_number_clash_unhandled_witness:
  "is_ok sample_pupils \<and>
   update_student sample_audit_env school_context (fst (projr sample_pupils)) sample_renumber (snd (projr sample_pupils)) =
     Inl (IntegrityError ''uq_students_school_admission_number'')"
proof -
  let ?s = "snd (projr sample_pupils)" let ?x = "fst (projr sample_pupils)" let ?y = "hd (students ?s)"
  have ok: "is_ok sample_pupils" by code_simp
  have m: "?x \<in> set (students ?s)" "?y \<in> set (students ?s)" "row_id ?y \<noteq> row_id ?x" "st_school_id ?y = st_school_id ?x"
    "fu_admission_number sample_renumber = Some (st_admission_number ?y)" "version ?x = fu_version sample_renumber" by code_simp+
  from admission_number_clash_unhandled[OF m] ok show ?thesis by blast
qed

text \<open>
  Listing the children of a parent never succeeds once there is one to list.
\<close>

theorem children_listing_fails:
  assumes "school_id ctx = Some sch" and "parent_by_id s sch p = Some x"
    and "l \<in> set (student_parents s)" and "sp_parent_id l = p" and "student_row_in s sch (sp_student_id l)"
  shows "\<exists>m. list_children_route ctx p s = Inl (PyError m)"
proof -
  have "l \<in> set (filter (\<lambda>x. sp_parent_id x = p \<and> student_row_in s sch (sp_student_id x)) (student_parents s))"
    using assms(3-5) by simp
  then have "filter (\<lambda>x. sp_parent_id x = p \<and> student_row_in s sch (sp_student_id x)) (student_parents s) \<noteq> []"
    by (metis empty_iff empty_set)
  then show ?thesis using assms(1,2) by (simp add: list_children_route_def list_children_def get_parent_def)
qed

definition sample_parent :: "(parent \<times> db) result" where
  "sample_parent = create_parent sample_audit_env school_context \<lparr>rc_person_id = ''m'', rc_occupation = None, rc_workplace = None\<rparr>
     (snd (projr sample_family1))"

definition sample_link :: "(student_parent \<times> db) result" where
  "sample_link = link_to_student sample_audit_env school_context ''students'' \<lparr>vc_parent_id = ''parents'', vc_relationship = GR_MOTHER,
     vc_is_primary = True, vc_is_emergency_contact = False, vc_can_pickup = True\<rparr> (snd (projr sample_parent))"

lemma children_listing_fails_witness:
  "is_ok sample_link \<and> list_children_route school_context ''parents'' (snd (projr sample_parent)) = Inr [] \<and>
   (\<exists>m. list_children_route school_context ''parents'' (snd (projr sample_link)) = Inl (PyError m))"
proof -
  let ?s = "snd (projr sample_link)" let ?l = "hd (student_parents ?s)"
  have ok: "is_ok sample_link" by code_simp
  have e: "list_children_route school_context ''parents'' (snd (projr sample_parent)) = Inr []" by code_simp
  have p: "parent_by_id ?s ''s'' ''parents'' = Some (fst (projr sample_parent))" by code_simp
  have l: "?l \<in> set (student_parents ?s)" "sp_parent_id ?l = ''parents''" "student_row_in ?s ''s'' (sp_student_id ?l)" by code_simp+
  from children_listing_fails[OF school_context_fields(1) p l] ok e show ?thesis by blast
qed

end
