(* ===== verification/Tenants.thy ===== *)
theory Tenants
  imports AcademicCatalog Principal
begin

text \<open>
  Organizations and schools, the write side of \<open>app/modules/iam\<close>: \<open>organizations/service.py\<close>,
  \<open>schools/service.py\<close> and their repositories. The organization service names no tenant in its
  queries and relies on the row policy of its table, so its operations take the settings of the
  transaction. The JSON columns \<open>settings\<close> and \<open>entitlements\<close> are not modelled.
\<close>

text \<open>A snapshot keeps a date as the Python object it is, unless the service converts it.\<close>

definition raw_date :: "date option \<Rightarrow> jval" where
  "raw_date d = (case d of None \<Rightarrow> JNull | Some x \<Rightarrow> RawDate x)"

section \<open>Organizations\<close>

fun organization_status_value :: "organization_status \<Rightarrow> string" where
  "organization_status_value OG_TRIAL = ''TRIAL''"
| "organization_status_value OG_ACTIVE = ''ACTIVE''"
| "organization_status_value OG_SUSPENDED = ''SUSPENDED''"
| "organization_status_value OG_CLOSED = ''CLOSED''"

definition organization_snapshot :: "organization \<Rightarrow> snapshot" where
  "organization_snapshot x = [(''code'', JStr (og_code x)), (''name'', JStr (og_name x)),
     (''legal_name'', nullable (og_legal_name x)), (''status'', JStr (organization_status_value (og_status x))),
     (''timezone'', JStr (og_timezone x)), (''locale'', JStr (og_locale x)),
     (''contact_email'', nullable (og_contact_email x)), (''contact_phone'', nullable (og_contact_phone x)),
     (''plan_code'', JStr (og_plan_code x))]"

record organization_create =
  oc_code :: string
  oc_name :: string
  oc_legal_name :: "string option"
  oc_timezone :: string
  oc_locale :: string
  oc_contact_email :: "string option"
  oc_contact_phone :: "string option"

record organization_update =
  ou_name :: "string option"
  ou_legal_name :: "string option"
  ou_timezone :: "string option"
  ou_locale :: "string option"
  ou_contact_email :: "string option"
  ou_contact_phone :: "string option"
  ou_version :: int

text \<open>The columns of a row that the policy of the table reads, and the rows a query sees.\<close>

definition organization_row :: "organization \<Rightarrow> row" where
  "organization_row x = [''id'' \<mapsto> row_id x]"

definition visible_organizations :: "settings \<Rightarrow> db \<Rightarrow> organization list" where
  "visible_organizations st s = filter (\<lambda>x. allows st self_org_predicate (organization_row x)) (organizations s)"

definition organization_by_id :: "settings \<Rightarrow> db \<Rightarrow> ulid \<Rightarrow> organization option" where
  "organization_by_id st s i = find (\<lambda>x. row_id x = i \<and> deleted_at x = None) (visible_organizations st s)"

definition organization_by_code :: "organization list \<Rightarrow> unit \<Rightarrow> string \<Rightarrow> organization option" where
  "organization_by_code t u c = find (\<lambda>x. py_lower (og_code x) = py_lower c \<and> deleted_at x = None) t"

text \<open>A written row is checked against the policy first, then against the constraint.\<close>

definition flush_organization :: "settings \<Rightarrow> organization \<Rightarrow> organization list \<Rightarrow> organization list result" where
  "flush_organization st x t =
     (if \<not> allows st self_org_predicate (organization_row x) then Inl (PyError ''ProgrammingError: row-level security'')
      else constrained (uq_organizations_code t) ''uq_organizations_code'' t)"

definition new_organization :: "env \<Rightarrow> request_context \<Rightarrow> organization_create \<Rightarrow> db \<Rightarrow> organization" where
  "new_organization env ctx data s =
     \<lparr>row_id = new_id env ''organizations'' (organizations s), created_at = env_now env, updated_at = env_now env,
      created_by_id = Some (user_id ctx), updated_by_id = None, version = 1, archived_at = None, deleted_at = None,
      og_code = oc_code data, og_name = oc_name data, og_legal_name = oc_legal_name data, og_status = OG_TRIAL,
      og_timezone = oc_timezone data, og_locale = oc_locale data, og_contact_email = oc_contact_email data,
      og_contact_phone = oc_contact_phone data, og_plan_code = ''foundation'', og_parent_organization_id = None\<rparr>"

definition create_organization ::
  "env \<Rightarrow> settings \<Rightarrow> request_context \<Rightarrow> organization_create \<Rightarrow> db \<Rightarrow> (organization \<times> db) result" where
  "create_organization env st ctx data s =
     (if organization_by_code (visible_organizations st s) () (oc_code data) \<noteq> None
      then Inl (ConflictError ''ORGANIZATION_CODE_TAKEN'')
      else let x = new_organization env ctx data s in
        bind_ok (flush_organization st x (insert_row x (organizations s))) (\<lambda>t.
          Inr (x, audit_in env ctx ''ORGANIZATION_CREATED'' ''organization'' (Some (row_id x)) None
            (Some (organization_snapshot x)) None (Some (row_id x)) None (s\<lparr>organizations := t\<rparr>))))"

definition organization_payload :: "organization_update \<Rightarrow> organization \<Rightarrow> organization" where
  "organization_payload data x =
     assign og_contact_phone_update (map_option Some (ou_contact_phone data))
       (assign og_contact_email_update (map_option Some (ou_contact_email data))
         (assign og_locale_update (ou_locale data) (assign og_timezone_update (ou_timezone data)
           (assign og_legal_name_update (map_option Some (ou_legal_name data)) (assign og_name_update (ou_name data) x)))))"

definition update_organization ::
  "env \<Rightarrow> settings \<Rightarrow> request_context \<Rightarrow> organization \<Rightarrow> organization_update \<Rightarrow> db \<Rightarrow> (organization \<times> db) result" where
  "update_organization env st ctx x data s =
     (if version x \<noteq> ou_version data then Inl StaleResourceError
      else let x' = save_row env ctx x (organization_payload data x) in
        bind_ok (flush_organization st x' (update_row x' (organizations s))) (\<lambda>t.
          Inr (x', audit_in env ctx ''ORGANIZATION_UPDATED'' ''organization'' (Some (row_id x'))
            (Some (organization_snapshot x)) (Some (organization_snapshot x')) None (Some (row_id x')) None
            (s\<lparr>organizations := t\<rparr>))))"

definition delete_organization ::
  "env \<Rightarrow> settings \<Rightarrow> request_context \<Rightarrow> organization \<Rightarrow> int \<Rightarrow> db \<Rightarrow> (unit \<times> db) result" where
  "delete_organization env st ctx x ver s =
     (if version x \<noteq> ver then Inl StaleResourceError
      else bind_ok (flush_organization st (soft_delete env ctx x) (update_row (soft_delete env ctx x) (organizations s))) (\<lambda>t.
        Inr ((), audit_in env ctx ''ORGANIZATION_DELETED'' ''organization'' (Some (row_id x))
          (Some (organization_snapshot x)) None None (Some (row_id x)) None (s\<lparr>organizations := t\<rparr>))))"

definition get_organization_owned :: "settings \<Rightarrow> ulid \<Rightarrow> db \<Rightarrow> organization result" where
  "get_organization_owned st i s = ok_or (NotFoundError ''ORGANIZATION_NOT_FOUND'') (organization_by_id st s i)"

section \<open>Schools\<close>

fun school_status_value :: "school_status \<Rightarrow> string" where
  "school_status_value SC_SETUP = ''SETUP''"
| "school_status_value SC_ACTIVE = ''ACTIVE''"
| "school_status_value SC_SUSPENDED = ''SUSPENDED''"
| "school_status_value SC_CLOSED = ''CLOSED''"

definition school_snapshot :: "school \<Rightarrow> snapshot" where
  "school_snapshot x = [(''code'', JStr (sc_code x)), (''name'', JStr (sc_name x)), (''short_name'', nullable (sc_short_name x)),
     (''status'', JStr (school_status_value (sc_status x))), (''board'', nullable (sc_board x)),
     (''affiliation_number'', nullable (sc_affiliation_number x)), (''contact_email'', nullable (sc_contact_email x)),
     (''contact_phone'', nullable (sc_contact_phone x)), (''timezone'', JStr (sc_timezone x)), (''locale'', JStr (sc_locale x))]"

record school_create =
  zc_code :: string
  zc_name :: string
  zc_short_name :: "string option"
  zc_board :: "string option"
  zc_affiliation_number :: "string option"
  zc_contact_email :: "string option"
  zc_contact_phone :: "string option"

record school_update =
  zu_name :: "string option"
  zu_short_name :: "string option"
  zu_status :: "school_status option"
  zu_board :: "string option"
  zu_affiliation_number :: "string option"
  zu_contact_email :: "string option"
  zu_contact_phone :: "string option"
  zu_timezone :: "string option"
  zu_locale :: "string option"
  zu_version :: int

definition school_by_id :: "db \<Rightarrow> ulid \<Rightarrow> ulid \<Rightarrow> school option" where
  "school_by_id s org i =
     find (\<lambda>x. row_id x = i \<and> sc_organization_id x = org \<and> deleted_at x = None) (schools s)"

definition school_by_code :: "school list \<Rightarrow> ulid \<Rightarrow> string \<Rightarrow> school option" where
  "school_by_code t org c =
     find (\<lambda>x. sc_organization_id x = org \<and> py_lower (sc_code x) = py_lower c \<and> deleted_at x = None) t"

definition flush_schools :: "school list \<Rightarrow> school list result" where
  "flush_schools t = constrained (uq_schools_organization_id_code t) ''uq_schools_organization_id_code'' t"

definition new_school :: "env \<Rightarrow> request_context \<Rightarrow> ulid \<Rightarrow> school_create \<Rightarrow> db \<Rightarrow> school" where
  "new_school env ctx org data s =
     \<lparr>row_id = new_id env ''schools'' (schools s), created_at = env_now env, updated_at = env_now env,
      created_by_id = Some (user_id ctx), updated_by_id = None, version = 1, archived_at = None, deleted_at = None,
      sc_organization_id = org, sc_code = zc_code data, sc_name = zc_name data, sc_short_name = zc_short_name data,
      sc_parent_school_id = None, sc_hierarchy_path = None, sc_timezone = ''Asia/Kolkata'', sc_locale = ''en-IN'',
      sc_board = zc_board data, sc_affiliation_number = zc_affiliation_number data,
      sc_contact_email = zc_contact_email data, sc_contact_phone = zc_contact_phone data, sc_address_id = None,
      sc_status = SC_SETUP\<rparr>"

definition create_school :: "env \<Rightarrow> request_context \<Rightarrow> school_create \<Rightarrow> db \<Rightarrow> (school \<times> db) result" where
  "create_school env ctx data s = (case organization_id ctx of
     None \<Rightarrow> Inl (InvalidRequestError ''VALIDATION_ERROR'')
   | Some org \<Rightarrow>
       if school_by_code (schools s) org (zc_code data) \<noteq> None then Inl (ConflictError ''SCHOOL_CODE_TAKEN'')
       else let x = new_school env ctx org data s in
         bind_ok (flush_schools (insert_row x (schools s))) (\<lambda>t.
           Inr (x, audit env ctx ''SCHOOL_CREATED'' ''school'' (Some (row_id x)) None (Some (school_snapshot x))
             (s\<lparr>schools := t\<rparr>))))"

definition school_payload :: "school_update \<Rightarrow> school \<Rightarrow> school" where
  "school_payload data x =
     assign sc_locale_update (zu_locale data) (assign sc_timezone_update (zu_timezone data)
       (assign sc_contact_phone_update (map_option Some (zu_contact_phone data))
         (assign sc_contact_email_update (map_option Some (zu_contact_email data))
           (assign sc_affiliation_number_update (map_option Some (zu_affiliation_number data))
             (assign sc_board_update (map_option Some (zu_board data)) (assign sc_status_update (zu_status data)
               (assign sc_short_name_update (map_option Some (zu_short_name data))
                 (assign sc_name_update (zu_name data) x))))))))"

definition update_school ::
  "env \<Rightarrow> request_context \<Rightarrow> school \<Rightarrow> school_update \<Rightarrow> db \<Rightarrow> (school \<times> db) result" where
  "update_school env ctx x data s =
     (if version x \<noteq> zu_version data then Inl StaleResourceError
      else let x' = save_row env ctx x (school_payload data x) in
        Inr (x', audit env ctx ''SCHOOL_UPDATED'' ''school'' (Some (row_id x')) (Some (school_snapshot x))
          (Some (school_snapshot x')) (s\<lparr>schools := update_row x' (schools s)\<rparr>)))"

definition delete_school :: "env \<Rightarrow> request_context \<Rightarrow> school \<Rightarrow> int \<Rightarrow> db \<Rightarrow> (unit \<times> db) result" where
  "delete_school env ctx x ver s =
     (if version x \<noteq> ver then Inl StaleResourceError
      else Inr ((), audit env ctx ''SCHOOL_DELETED'' ''school'' (Some (row_id x)) (Some (school_snapshot x)) None
        (s\<lparr>schools := update_row (soft_delete env ctx x) (schools s)\<rparr>)))"

definition school_missing :: error where
  "school_missing = NotFoundError ''SCHOOL_NOT_FOUND''"

definition get_school_owned :: "request_context \<Rightarrow> ulid \<Rightarrow> db \<Rightarrow> school result" where
  "get_school_owned ctx i s = (case organization_id ctx of
     None \<Rightarrow> Inl school_missing
   | Some org \<Rightarrow> ok_or school_missing (school_by_id s org i))"

section \<open>Facts\<close>

lemma save_row_organization [simp]:
  "og_code (save_row env ctx x z) = og_code z" "deleted_at (save_row env ctx x z) = deleted_at z"
  for x z :: organization
  by (auto simp: save_row_def flush_versioned_def)

lemma save_row_school [simp]:
  "sc_code (save_row env ctx x z) = sc_code z" "sc_organization_id (save_row env ctx x z) = sc_organization_id z"
  "deleted_at (save_row env ctx x z) = deleted_at z"
  for x z :: school
  by (auto simp: save_row_def flush_versioned_def)

lemma soft_delete_organization [simp]: "og_code (soft_delete env ctx x) = og_code x" for x :: organization
  by (simp add: soft_delete_def)

lemma soft_delete_school [simp]:
  "sc_code (soft_delete env ctx x) = sc_code x" "sc_organization_id (soft_delete env ctx x) = sc_organization_id x"
  for x :: school
  by (simp_all add: soft_delete_def)

lemma organization_payload_fields [simp]:
  "row_id (organization_payload d x) = row_id x" "og_code (organization_payload d x) = og_code x"
  "deleted_at (organization_payload d x) = deleted_at x"
  by (simp_all add: organization_payload_def assign_def split: option.split)

lemma school_payload_fields [simp]:
  "row_id (school_payload d x) = row_id x" "sc_code (school_payload d x) = sc_code x"
  "sc_organization_id (school_payload d x) = sc_organization_id x" "deleted_at (school_payload d x) = deleted_at x"
  by (simp_all add: school_payload_def assign_def split: option.split)

lemma allows_organization: "allows st self_org_predicate (organization_row x) \<longleftrightarrow>
    ctx_value st OrgGuc = [] \<or> row_id x = ctx_value st OrgGuc"
  by (auto simp: allows_def self_org_predicate_def organization_row_def or3_def)

lemma organization_by_id_SomeD: "organization_by_id st s i = Some x \<Longrightarrow>
    x \<in> set (organizations s) \<and> row_id x = i \<and> deleted_at x = None \<and> (ctx_value st OrgGuc = [] \<or> i = ctx_value st OrgGuc)"
  by (auto simp: organization_by_id_def visible_organizations_def allows_organization dest!: find_SomeD)

lemma get_organization_owned_Inr: "get_organization_owned st i s = Inr x \<longleftrightarrow> organization_by_id st s i = Some x"
  by (simp add: get_organization_owned_def ok_or_Inr_iff)

lemma school_by_id_SomeD: "school_by_id s org i = Some x \<Longrightarrow>
    x \<in> set (schools s) \<and> row_id x = i \<and> sc_organization_id x = org \<and> deleted_at x = None"
  by (auto simp: school_by_id_def dest: find_SomeD)

lemma get_school_owned_Inr: "get_school_owned ctx i s = Inr x \<longleftrightarrow>
    (\<exists>org. organization_id ctx = Some org \<and> school_by_id s org i = Some x)"
  by (simp add: get_school_owned_def ok_or_Inr_iff split: option.split)

lemma flush_organization_Inr: "flush_organization st x t = Inr t' \<longleftrightarrow>
    (ctx_value st OrgGuc = [] \<or> row_id x = ctx_value st OrgGuc) \<and> uq_organizations_code t \<and> t' = t"
  by (auto simp: flush_organization_def allows_organization)

lemma create_organization_tables:
  assumes "create_organization env st ctx d s = Inr (x, s')"
  shows "x = new_organization env ctx d s \<and> organizations s' = insert_row x (organizations s) \<and> schools s' = schools s \<and>
    organization_by_code (visible_organizations st s) () (oc_code d) = None \<and>
    (ctx_value st OrgGuc = [] \<or> row_id x = ctx_value st OrgGuc)"
  using assms by (auto simp: create_organization_def Let_def bind_ok_Inr_iff flush_organization_Inr split: if_splits)

lemma update_organization_tables:
  assumes "update_organization env st ctx x d s = Inr (x', s')"
  shows "x' = save_row env ctx x (organization_payload d x) \<and> organizations s' = update_row x' (organizations s) \<and> schools s' = schools s"
  using assms by (auto simp: update_organization_def Let_def bind_ok_Inr_iff flush_organization_Inr split: if_splits)

lemma delete_organization_tables:
  assumes "delete_organization env st ctx x v s = Inr (r, s')"
  shows "organizations s' = update_row (soft_delete env ctx x) (organizations s) \<and> schools s' = schools s"
  using assms by (auto simp: delete_organization_def bind_ok_Inr_iff flush_organization_Inr split: if_splits)

lemma create_school_tables:
  assumes "create_school env ctx d s = Inr (x, s')"
  obtains org where "organization_id ctx = Some org" "x = new_school env ctx org d s" "schools s' = insert_row x (schools s)"
    "school_by_code (schools s) org (zc_code d) = None" "organizations s' = organizations s"
  using assms that
  by (auto simp: create_school_def Let_def bind_ok_Inr_iff flush_schools_def split: option.splits if_splits)

lemma update_school_tables:
  assumes "update_school env ctx x d s = Inr (x', s')"
  shows "x' = save_row env ctx x (school_payload d x) \<and> schools s' = update_row x' (schools s) \<and> organizations s' = organizations s"
  using assms by (auto simp: update_school_def Let_def split: if_splits)

lemma delete_school_tables:
  assumes "delete_school env ctx x v s = Inr (r, s')"
  shows "schools s' = update_row (soft_delete env ctx x) (schools s) \<and> organizations s' = organizations s \<and>
    users s' = users s \<and> memberships s' = memberships s"
  using assms by (auto simp: delete_school_def split: if_splits)

section \<open>Transitions\<close>

text \<open>A generated key is new: no key of the table, nor the key the transaction is bound to.\<close>

inductive tenant_step :: "db \<Rightarrow> db \<Rightarrow> bool" where
  organization_created: "create_organization env st ctx d s = Inr (x, s') \<Longrightarrow>
    new_id env ''organizations'' (organizations s) \<notin> insert (ctx_value st OrgGuc) (ids (organizations s)) \<Longrightarrow> tenant_step s s'"
| organization_updated: "get_organization_owned st i s = Inr x \<Longrightarrow> update_organization env st ctx x u s = Inr (x', s') \<Longrightarrow> tenant_step s s'"
| organization_deleted: "get_organization_owned st i s = Inr x \<Longrightarrow> delete_organization env st ctx x v s = Inr (r, s') \<Longrightarrow> tenant_step s s'"
| school_created: "create_school env ctx c s = Inr (y, s') \<Longrightarrow> tenant_step s s'"
| school_updated: "get_school_owned ctx i s = Inr y \<Longrightarrow> update_school env ctx y w s = Inr (y', s') \<Longrightarrow> tenant_step s s'"
| school_deleted: "get_school_owned ctx i s = Inr y \<Longrightarrow> delete_school env ctx y v s = Inr (r, s') \<Longrightarrow> tenant_step s s'"

lemma organization_code_lookup:
  "organization_by_code t k c = Some x \<Longrightarrow> x \<in> set t \<and> deleted_at x = None \<and> () = k \<and> py_lower (og_code x) = py_lower c"
  "organization_by_code t k c = None \<Longrightarrow> x \<in> set t \<Longrightarrow> deleted_at x = None \<Longrightarrow> () = k \<Longrightarrow>
    py_lower (og_code x) \<noteq> py_lower c"
  unfolding organization_by_code_def by (auto dest: find_SomeD find_NoneD)

lemma school_code_lookup:
  "school_by_code t k c = Some x \<Longrightarrow> x \<in> set t \<and> deleted_at x = None \<and> sc_organization_id x = k \<and> py_lower (sc_code x) = py_lower c"
  "school_by_code t k c = None \<Longrightarrow> x \<in> set t \<Longrightarrow> deleted_at x = None \<Longrightarrow> sc_organization_id x = k \<Longrightarrow>
    py_lower (sc_code x) \<noteq> py_lower c"
  unfolding school_by_code_def by (auto dest: find_SomeD find_NoneD)

lemma organization_shape:
  assumes "tenant_step s s'"
  shows "organizations s' = organizations s \<or>
    (\<exists>r. organizations s' = insert_row r (organizations s) \<and> organization_by_code (organizations s) () (og_code r) = None) \<or>
    (\<exists>x r. x \<in> set (organizations s) \<and> organizations s' = update_row r (organizations s) \<and> row_id r = row_id x \<and>
       og_code r = og_code x \<and> () = () \<and> (deleted_at r = None \<longrightarrow> deleted_at x = None))"
  using assms
proof (cases rule: tenant_step.cases)
  case (organization_created env st ctx d x)
  note c = create_organization_tables[OF organization_created(1)]
  have "row_id x \<noteq> ctx_value st OrgGuc" using organization_created(2) c by (simp add: new_organization_def)
  then have "ctx_value st OrgGuc = []" using c by blast
  then have "visible_organizations st s = organizations s" by (simp add: visible_organizations_def allows_organization)
  moreover have "og_code x = oc_code d" using c by (simp add: new_organization_def)
  ultimately show ?thesis using c by metis
next
  case (organization_updated st i x env ctx u x')
  note c = update_organization_tables[OF organization_updated(2)]
  from organization_updated(1) have "organization_by_id st s i = Some x" by (simp add: get_organization_owned_Inr)
  from organization_by_id_SomeD[OF this] have x: "x \<in> set (organizations s)" by blast
  show ?thesis by (rule disjI2, rule disjI2, rule exI[of _ x], rule exI[of _ x']) (use c x in simp)
next
  case (organization_deleted st i x env ctx v r)
  note c = delete_organization_tables[OF organization_deleted(2)]
  from organization_deleted(1) have "organization_by_id st s i = Some x" by (simp add: get_organization_owned_Inr)
  from organization_by_id_SomeD[OF this] have x: "x \<in> set (organizations s)" "deleted_at x = None" by blast+
  show ?thesis by (rule disjI2, rule disjI2, rule exI[of _ x], rule exI[of _ "soft_delete env ctx x"]) (use c x in simp)
qed (use create_school_tables update_school_tables delete_school_tables in metis)+

lemma school_shape:
  assumes "tenant_step s s'"
  shows "schools s' = schools s \<or>
    (\<exists>r. schools s' = insert_row r (schools s) \<and> school_by_code (schools s) (sc_organization_id r) (sc_code r) = None) \<or>
    (\<exists>x r. x \<in> set (schools s) \<and> schools s' = update_row r (schools s) \<and> row_id r = row_id x \<and>
       sc_code r = sc_code x \<and> sc_organization_id r = sc_organization_id x \<and> (deleted_at r = None \<longrightarrow> deleted_at x = None))"
  using assms
proof (cases rule: tenant_step.cases)
  case (school_created env ctx c y)
  from create_school_tables[OF school_created] obtain org where t: "y = new_school env ctx org c s"
    "schools s' = insert_row y (schools s)" "school_by_code (schools s) org (zc_code c) = None" by metis
  have "sc_organization_id y = org" "sc_code y = zc_code c" by (simp_all add: t(1) new_school_def)
  then show ?thesis using t(2,3) by (intro disjI2 disjI1 exI[of _ y]) simp
next
  case (school_updated ctx i y env w y')
  note c = update_school_tables[OF school_updated(2)]
  from school_updated(1) obtain org where "school_by_id s org i = Some y" by (auto simp: get_school_owned_Inr)
  from school_by_id_SomeD[OF this] have y: "y \<in> set (schools s)" by blast
  show ?thesis by (rule disjI2, rule disjI2, rule exI[of _ y], rule exI[of _ y']) (use c y in simp)
next
  case (school_deleted ctx i y env v r)
  note c = delete_school_tables[OF school_deleted(2)]
  from school_deleted(1) obtain org where "school_by_id s org i = Some y" by (auto simp: get_school_owned_Inr)
  from school_by_id_SomeD[OF this] have y: "y \<in> set (schools s)" "deleted_at y = None" by blast+
  show ?thesis by (rule disjI2, rule disjI2, rule exI[of _ y], rule exI[of _ "soft_delete env ctx y"]) (use c y in simp)
qed (use create_organization_tables update_organization_tables delete_organization_tables in metis)+

interpretation organization_codes: coded_service organization_by_code "\<lambda>x. deleted_at x = None" "\<lambda>_. ()" og_code py_lower
    organizations tenant_step
  by unfold_locales (fact organization_code_lookup organization_shape)+

interpretation school_codes: coded_service school_by_code "\<lambda>x. deleted_at x = None" sc_organization_id sc_code py_lower
    schools tenant_step
  by unfold_locales (fact school_code_lookup school_shape)+

section \<open>Properties\<close>

text \<open>
  Over any sequence of operations the codes of the live organizations, and of the live schools
  of an organization, differ even when case is ignored.
\<close>

theorem tenant_codes_apart:
  assumes "tenant_step\<^sup>*\<^sup>* s s'"
    and "unique_on (\<lambda>x. deleted_at x = None) (\<lambda>x. ((), py_lower (og_code x))) (organizations s)"
    and "unique_on (\<lambda>x. deleted_at x = None) (\<lambda>x. (sc_organization_id x, py_lower (sc_code x))) (schools s)"
  shows "unique_on (\<lambda>x. deleted_at x = None) (\<lambda>x. ((), py_lower (og_code x))) (organizations s') \<and>
    unique_on (\<lambda>x. deleted_at x = None) (\<lambda>x. (sc_organization_id x, py_lower (sc_code x))) (schools s')"
  using organization_codes.codes.reach_inv[OF assms(1,2)] school_codes.codes.reach_inv[OF assms(1,3)] ..

definition bound_to :: "ulid option \<Rightarrow> settings" where
  "bound_to org = set_tenant_context None org Map.empty"

definition sample_organization :: "string \<Rightarrow> organization_create" where
  "sample_organization c = \<lparr>oc_code = c, oc_name = c, oc_legal_name = None, oc_timezone = ''Asia/Kolkata'',
     oc_locale = ''en-IN'', oc_contact_email = None, oc_contact_phone = None\<rparr>"

definition sample_school :: "string \<Rightarrow> school_create" where
  "sample_school c = \<lparr>zc_code = c, zc_name = c, zc_short_name = None, zc_board = None,
     zc_affiliation_number = None, zc_contact_email = None, zc_contact_phone = None\<rparr>"

definition sample_tenant1 :: "(organization \<times> db) result" where
  "sample_tenant1 = create_organization sample_audit_env (bound_to None) school_context (sample_organization ''ACME'') empty_db"

definition sample_tenant2 :: "(school \<times> db) result" where
  "sample_tenant2 = create_school sample_audit_env school_context (sample_school ''MAIN'') (snd (projr sample_tenant1))"

lemma sample_tenant_steps: "tenant_step\<^sup>*\<^sup>* empty_db (snd (projr sample_tenant2))"
proof -
  have ok: "is_ok sample_tenant1" "is_ok sample_tenant2" by code_simp+
  have f: "new_id sample_audit_env ''organizations'' (organizations empty_db) \<notin>
      insert (ctx_value (bound_to None) OrgGuc) (ids (organizations empty_db))" by code_simp
  have "tenant_step empty_db (snd (projr sample_tenant1))" unfolding sample_tenant1_def
    by (rule tenant_step.organization_created[OF ok_projr[OF ok(1)[unfolded sample_tenant1_def]] f])
  moreover have "tenant_step (snd (projr sample_tenant1)) (snd (projr sample_tenant2))" unfolding sample_tenant2_def
    by (rule tenant_step.school_created[OF ok_projr[OF ok(2)[unfolded sample_tenant2_def]]])
  ultimately show ?thesis by (meson converse_rtranclp_into_rtranclp r_into_rtranclp)
qed

lemma tenant_codes_apart_witness:
  "map og_code (organizations (snd (projr sample_tenant2))) = [''ACME''] \<and>
   unique_on (\<lambda>x. deleted_at x = None) (\<lambda>x. (sc_organization_id x, py_lower (sc_code x))) (schools (snd (projr sample_tenant2))) \<and>
   create_school sample_audit_env school_context (sample_school ''main'') (snd (projr sample_tenant2)) = Inl (ConflictError ''SCHOOL_CODE_TAKEN'')"
proof -
  have e: "unique_on (\<lambda>x. deleted_at x = None) (\<lambda>x. ((), py_lower (og_code x))) (organizations empty_db)"
    "unique_on (\<lambda>x. deleted_at x = None) (\<lambda>x. (sc_organization_id x, py_lower (sc_code x))) (schools empty_db)"
    by (simp_all add: empty_db_def)
  have "map og_code (organizations (snd (projr sample_tenant2))) = [''ACME'']"
    "create_school sample_audit_env school_context (sample_school ''main'') (snd (projr sample_tenant2)) = Inl (ConflictError ''SCHOOL_CODE_TAKEN'')"
    by code_simp+
  with tenant_codes_apart[OF sample_tenant_steps e] show ?thesis by blast
qed

text \<open>
  In a transaction bound to an organization the organization routes reach that organization
  only: another one is not found whatever its rows hold, and none can be created.
\<close>

theorem organization_routes_stay_in_tenant:
  assumes "ctx_value st OrgGuc = org" and "org \<noteq> []"
    and "new_id env ''organizations'' (organizations s) \<noteq> org"
  shows "(get_organization_owned st i s = Inr x \<longrightarrow> row_id x = org) \<and> \<not> is_ok (create_organization env st ctx d s)"
proof
  show "get_organization_owned st i s = Inr x \<longrightarrow> row_id x = org"
    using organization_by_id_SomeD[of st s i x] assms(1,2) by (auto simp: get_organization_owned_Inr)
  show "\<not> is_ok (create_organization env st ctx d s)"
  proof
    assume "is_ok (create_organization env st ctx d s)"
    note c = create_organization_tables[OF ok_projr[OF this]]
    have "row_id (new_organization env ctx d s) \<noteq> org" using assms(3) by (simp add: new_organization_def)
    moreover have "row_id (new_organization env ctx d s) = org" using c assms(1,2) by (metis (no_types))
    ultimately show False by blast
  qed
qed

lemma organization_routes_stay_in_tenant_witness:
  "is_ok (create_organization sample_audit_env (bound_to (Some ''o'')) school_context (sample_organization ''B'') empty_db) = False \<and>
   is_ok (create_organization sample_audit_env (bound_to None) school_context (sample_organization ''B'') empty_db)"
proof -
  have b: "ctx_value (bound_to (Some ''o'')) OrgGuc = ''o''" "(''o'' :: ulid) \<noteq> []"
    "new_id sample_audit_env ''organizations'' (organizations empty_db) \<noteq> ''o''" by code_simp+
  have "is_ok (create_organization sample_audit_env (bound_to None) school_context (sample_organization ''B'') empty_db)" by code_simp
  with organization_routes_stay_in_tenant[OF b] show ?thesis by blast
qed

text \<open>
  Closing a tenant shuts nobody out. A member of a school keeps the school as its active one
  after the school is deleted, and no change of the organizations is noticed at all.
\<close>

theorem closed_tenants_stay_open:
  assumes "delete_school env ctx x v s = Inr (r, s1)" and "load_user s uid = Inr u" and "\<not> us_is_platform_admin u"
    and "m \<in> set (load_active_memberships env s uid)" and "mb_school_id m = Some (row_id x)"
  shows "\<exists>p. resolve_principal env (s1\<lparr>organizations := t\<rparr>) uid (Some (row_id x)) = Inr p \<and> pl_school_id p = Some (row_id x)"
proof -
  let ?s = "s1\<lparr>organizations := t\<rparr>"
  note c = delete_school_tables[OF assms(1)]
  have u: "load_user ?s uid = Inr u" using assms(2) c by (simp add: load_user_def)
  have ms: "load_active_memberships env ?s uid = load_active_memberships env s uid"
    using c by (simp add: load_active_memberships_def)
  have "load_active_memberships env s uid \<noteq> []" using assms(4) by auto
  moreover have "row_id x \<in> accessible_schools ?s (load_active_memberships env s uid) org" for org
    using assms(4,5) by (auto simp: accessible_schools_iff)
  ultimately show ?thesis
    by (simp add: resolve_member[OF u assms(3) ms] select_active_school_requested Let_def)
qed

definition sample_member_db :: db where
  "sample_member_db = (snd (projr sample_tenant2))\<lparr>users := [blank_user ''v''],
     memberships := [(blank_membership ''m'')\<lparr>mb_user_id := ''v'', mb_organization_id := ''o'', mb_school_id := Some ''schools''\<rparr>]\<rparr>"

definition sample_closed :: "(unit \<times> db) result" where
  "sample_closed = delete_school sample_audit_env school_context (fst (projr sample_tenant2)) 1 sample_member_db"

lemma closed_tenants_stay_open_witness:
  "is_ok sample_closed \<and> get_school_owned school_context ''schools'' (snd (projr sample_closed)) = Inl school_missing \<and>
   (\<exists>p. resolve_principal sample_audit_env ((snd (projr sample_closed))\<lparr>organizations := []\<rparr>) ''v'' (Some ''schools'') = Inr p \<and>
     pl_school_id p = Some ''schools'')"
proof -
  let ?x = "fst (projr sample_tenant2)" let ?m = "hd (memberships sample_member_db)"
  have ok: "is_ok sample_closed" "get_school_owned school_context ''schools'' (snd (projr sample_closed)) = Inl school_missing" by code_simp+
  have u: "load_user sample_member_db ''v'' = Inr (blank_user ''v'')" by code_simp
  have na: "\<not> us_is_platform_admin (blank_user ''v'')" by code_simp
  have m: "?m \<in> set (load_active_memberships sample_audit_env sample_member_db ''v'')" "mb_school_id ?m = Some (row_id ?x)" by code_simp+
  have "row_id ?x = ''schools''" by code_simp
  with closed_tenants_stay_open[OF ok_projr[OF ok(1)[unfolded sample_closed_def]] u na m] ok show ?thesis
    unfolding sample_closed_def by metis
qed

end
