(* ===== verification/AccessControl.thy ===== *)
theory AccessControl
  imports Tenants
begin

text \<open>
  Roles and memberships, the write side of \<open>app/modules/iam\<close>: \<open>roles/service.py\<close>,
  \<open>memberships/service.py\<close> and their repositories. What a grant is worth is decided by the
  resolution of the principal.
\<close>

section \<open>Roles\<close>

fun scope_level_value :: "role_scope_level \<Rightarrow> string" where
  "scope_level_value RL_PLATFORM = ''PLATFORM''"
| "scope_level_value RL_ORGANIZATION = ''ORGANIZATION''"
| "scope_level_value RL_SCHOOL = ''SCHOOL''"

definition role_snapshot :: "role \<Rightarrow> snapshot" where
  "role_snapshot r = [(''code'', JStr (ro_code r)), (''name'', JStr (ro_name r)),
     (''description'', nullable (ro_description r)), (''scope_level'', JStr (scope_level_value (ro_scope_level r))),
     (''data_scope'', JStr (scope_value (ro_data_scope r))), (''is_system'', JBool (ro_is_system r)),
     (''is_default'', JBool (ro_is_default r))]"

record role_create =
  qc_code :: string
  qc_name :: string
  qc_description :: "string option"
  qc_scope_level :: role_scope_level
  qc_data_scope :: data_scope
  qc_permission_codes :: "string list"

record role_update =
  qu_name :: "string option"
  qu_description :: "string option"
  qu_data_scope :: "data_scope option"
  qu_permission_codes :: "string list option"
  qu_version :: int

text \<open>An organization reaches its own roles and the system roles.\<close>

definition reachable_role :: "ulid option \<Rightarrow> role \<Rightarrow> bool" where
  "reachable_role org r \<longleftrightarrow> archived_at r = None \<and> (ro_organization_id r = org \<or> ro_organization_id r = None)"

definition get_org_role :: "db \<Rightarrow> ulid \<Rightarrow> ulid \<Rightarrow> role option" where
  "get_org_role s org i = find (\<lambda>r. row_id r = i \<and> reachable_role (Some org) r) (roles s)"

definition role_by_code :: "db \<Rightarrow> ulid \<Rightarrow> string \<Rightarrow> role option" where
  "role_by_code s org c = find (\<lambda>r. py_lower (ro_code r) = py_lower c \<and> reachable_role (Some org) r) (roles s)"

definition fetch_permissions :: "db \<Rightarrow> string list \<Rightarrow> permission_row list result" where
  "fetch_permissions s codes =
     (let rows = filter (\<lambda>p. pr_code p \<in> set codes) (permissions_t s) in
      if set codes - pr_code ` set rows \<noteq> {} then Inl (InvalidRequestError ''UNKNOWN_PERMISSION_CODES'') else Inr rows)"

definition uq_roles_organization_id_code :: "role list \<Rightarrow> bool" where
  "uq_roles_organization_id_code = unique_on (\<lambda>_. True) (\<lambda>r. (ro_organization_id r, ro_code r))"

definition uq_role_permissions :: "role_permission list \<Rightarrow> bool" where
  "uq_role_permissions = unique_on (\<lambda>_. True) (\<lambda>l. (rp_role_id l, rp_permission_id l))"

definition new_role :: "env \<Rightarrow> request_context \<Rightarrow> ulid \<Rightarrow> role_create \<Rightarrow> db \<Rightarrow> role" where
  "new_role env ctx org data s =
     \<lparr>row_id = new_id env ''roles'' (roles s), created_at = env_now env, updated_at = env_now env,
      created_by_id = Some (user_id ctx), updated_by_id = None, version = 1, archived_at = None, deleted_at = None,
      ro_organization_id = Some org, ro_code = qc_code data, ro_name = qc_name data,
      ro_description = qc_description data, ro_scope_level = qc_scope_level data, ro_data_scope = qc_data_scope data,
      ro_is_system = False, ro_is_default = False\<rparr>"

definition add_permission :: "env \<Rightarrow> ulid \<Rightarrow> permission_row \<Rightarrow> role_permission list \<Rightarrow> role_permission list" where
  "add_permission env i p t = insert_row
     \<lparr>row_id = new_id env ''role_permissions'' t, created_at = env_now env, updated_at = env_now env,
      rp_role_id = i, rp_permission_id = row_id p, rp_data_scope = None\<rparr> t"

definition create_role :: "env \<Rightarrow> request_context \<Rightarrow> role_create \<Rightarrow> db \<Rightarrow> (role \<times> db) result" where
  "create_role env ctx data s = (case organization_id ctx of
     None \<Rightarrow> Inl (InvalidRequestError ''VALIDATION_ERROR'')
   | Some org \<Rightarrow>
       if role_by_code s org (qc_code data) \<noteq> None then Inl (ConflictError ''ROLE_CODE_TAKEN'')
       else bind_ok (fetch_permissions s (qc_permission_codes data)) (\<lambda>ps.
         let r = new_role env ctx org data s; t = insert_row r (roles s);
             links = fold (add_permission env (row_id r)) ps (role_permissions s) in
         bind_ok (constrained (uq_roles_organization_id_code t) ''uq_roles_organization_id_code'' t) (\<lambda>t.
         bind_ok (constrained (uq_role_permissions links) ''uq_role_permissions_role_id_permission_id'' links) (\<lambda>links.
           Inr (r, audit env ctx ''ROLE_CREATED'' ''role'' (Some (row_id r)) None
             (Some (role_snapshot r @ [(''permissions'', JList (qc_permission_codes data))]))
             (s\<lparr>roles := t, role_permissions := links\<rparr>))))))"

definition assert_editable :: "role \<Rightarrow> unit result" where
  "assert_editable r = guard (ro_is_system r \<and> ro_organization_id r = None) (ForbiddenError ''FORBIDDEN'')"

definition role_payload :: "role_update \<Rightarrow> role \<Rightarrow> role" where
  "role_payload data r =
     assign ro_data_scope_update (qu_data_scope data) (assign ro_description_update (map_option Some (qu_description data))
       (assign ro_name_update (qu_name data) r))"

text \<open>
  The codes of a role's permissions, in the order of its links. Each link loads its permission.
\<close>

definition link_code :: "db \<Rightarrow> role_permission \<Rightarrow> string option" where
  "link_code s l = map_option pr_code (get_row (rp_permission_id l) (permissions_t s))"

definition permission_codes :: "db \<Rightarrow> role \<Rightarrow> string list" where
  "permission_codes s r = List.map_filter (link_code s) (permission_links s r)"

text \<open>
  The new set of permissions: the links whose code is not desired are deleted, and the desired
  codes that were missing are added (in the order of the fetched rows; Python iterates a set).
  A link without its permission would raise; the foreign key excludes it.
\<close>

definition replace_permissions ::
  "env \<Rightarrow> role \<Rightarrow> string list \<Rightarrow> db \<Rightarrow> role_permission list result" where
  "replace_permissions env r codes s =
     bind_ok (fetch_permissions s codes) (\<lambda>ps.
       let current = set (permission_codes s r) in
       if list_ex (\<lambda>l. link_code s l = None) (permission_links s r) then Inl (PyError ''AttributeError'')
       else Inr (fold (add_permission env (row_id r)) (filter (\<lambda>p. pr_code p \<notin> current) ps)
         (filter (\<lambda>l. \<not> (rp_role_id l = row_id r \<and> link_code s l \<notin> Some ` set codes)) (role_permissions s))))"

text \<open>
  The audit row and the answer read the codes from the loaded collection, which the deletions
  and additions of the flush do not change.
\<close>

definition update_role ::
  "env \<Rightarrow> request_context \<Rightarrow> role \<Rightarrow> role_update \<Rightarrow> db \<Rightarrow> (role \<times> db) result" where
  "update_role env ctx r data s =
     (if version r \<noteq> qu_version data then Inl StaleResourceError
      else bind_ok (assert_editable r) (\<lambda>_.
        let r' = save_row env ctx r (role_payload data r) in
        bind_ok (case qu_permission_codes data of None \<Rightarrow> Inr (role_permissions s)
                 | Some codes \<Rightarrow> replace_permissions env r codes s) (\<lambda>links.
        bind_ok (constrained (uq_role_permissions links) ''uq_role_permissions_role_id_permission_id'' links) (\<lambda>links.
          Inr (r', audit env ctx ''ROLE_UPDATED'' ''role'' (Some (row_id r')) (Some (role_snapshot r))
            (Some (role_snapshot r' @ [(''permissions'', JList (permission_codes s r))]))
            (s\<lparr>roles := update_row r' (roles s), role_permissions := links\<rparr>))))))"

definition delete_role :: "env \<Rightarrow> request_context \<Rightarrow> role \<Rightarrow> int \<Rightarrow> db \<Rightarrow> (unit \<times> db) result" where
  "delete_role env ctx r ver s =
     (if version r \<noteq> ver then Inl StaleResourceError
      else bind_ok (assert_editable r) (\<lambda>_.
        Inr ((), audit env ctx ''ROLE_DELETED'' ''role'' (Some (row_id r)) (Some (role_snapshot r)) None
          (s\<lparr>roles := update_row (save_row env ctx r (r\<lparr>archived_at := Some (env_now env)\<rparr>)) (roles s)\<rparr>))))"

definition role_missing :: error where
  "role_missing = NotFoundError ''ROLE_NOT_FOUND''"

definition get_role_owned :: "request_context \<Rightarrow> ulid \<Rightarrow> db \<Rightarrow> role result" where
  "get_role_owned ctx i s = (case organization_id ctx of
     None \<Rightarrow> (case get_row i (roles s) of
        None \<Rightarrow> Inl role_missing
      | Some r \<Rightarrow> if archived_at r \<noteq> None then Inl role_missing else Inr r)
   | Some org \<Rightarrow> ok_or role_missing (get_org_role s org i))"

section \<open>Memberships\<close>

fun membership_status_value :: "membership_status \<Rightarrow> string" where
  "membership_status_value MS_ACTIVE = ''ACTIVE''"
| "membership_status_value MS_INACTIVE = ''INACTIVE''"
| "membership_status_value MS_ENDED = ''ENDED''"

definition membership_snapshot :: "membership \<Rightarrow> snapshot" where
  "membership_snapshot m = [(''user_id'', JStr (mb_user_id m)), (''organization_id'', JStr (mb_organization_id m)),
     (''school_id'', nullable (mb_school_id m)), (''status'', JStr (membership_status_value (mb_status m))),
     (''start_date'', raw_date (mb_start_date m)), (''end_date'', raw_date (mb_end_date m)),
     (''is_default'', JBool (mb_is_default m))]"

record membership_create =
  bc_user_id :: ulid
  bc_school_id :: "ulid option"
  bc_start_date :: "date option"
  bc_end_date :: "date option"
  bc_is_default :: bool
  bc_role_ids :: "ulid list"

record membership_update =
  bu_status :: "membership_status option"
  bu_start_date :: "date option"
  bu_end_date :: "date option"
  bu_is_default :: "bool option"
  bu_notes :: "string option"
  bu_version :: int

record role_grant_create =
  wc_role_id :: ulid
  wc_expires_at :: "timestamp option"
  wc_data_scope :: "data_scope option"

definition membership_by_id :: "db \<Rightarrow> ulid \<Rightarrow> ulid \<Rightarrow> membership option" where
  "membership_by_id s org i = find (\<lambda>m. row_id m = i \<and> mb_organization_id m = org) (memberships s)"

text \<open>The status is not part of the lookup, whatever its name says.\<close>

definition get_active_for_user_school :: "db \<Rightarrow> ulid \<Rightarrow> ulid \<Rightarrow> ulid option \<Rightarrow> membership option" where
  "get_active_for_user_school s uid org sch =
     find (\<lambda>m. mb_user_id m = uid \<and> mb_organization_id m = org \<and> mb_school_id m = sch) (memberships s)"

definition uq_memberships :: "membership list \<Rightarrow> bool" where
  "uq_memberships = unique_on (\<lambda>_. True) (\<lambda>m. (mb_user_id m, mb_organization_id m, mb_school_id m))"

definition date_order :: "membership \<Rightarrow> bool" where
  "date_order m \<longleftrightarrow> (case (mb_start_date m, mb_end_date m) of (Some a, Some b) \<Rightarrow> a \<le> b | _ \<Rightarrow> True)"

definition flush_memberships :: "membership \<Rightarrow> membership list \<Rightarrow> membership list result" where
  "flush_memberships m t =
     bind_ok (constrained (date_order m) ''ck_memberships_date_order'' t) (\<lambda>t.
       constrained (uq_memberships t) ''uq_memberships_user_id_organization_id_school_id'' t)"

definition uq_membership_roles :: "membership_role list \<Rightarrow> bool" where
  "uq_membership_roles = unique_on (\<lambda>_. True) (\<lambda>l. (mr_membership_id l, mr_role_id l))"

definition new_membership :: "env \<Rightarrow> request_context \<Rightarrow> ulid \<Rightarrow> membership_create \<Rightarrow> db \<Rightarrow> membership" where
  "new_membership env ctx org data s =
     \<lparr>row_id = new_id env ''memberships'' (memberships s), created_at = env_now env, updated_at = env_now env,
      created_by_id = Some (user_id ctx), updated_by_id = None, version = 1, mb_user_id = bc_user_id data,
      mb_organization_id = org, mb_school_id = bc_school_id data, mb_status = MS_ACTIVE,
      mb_start_date = bc_start_date data, mb_end_date = bc_end_date data, mb_is_default = bc_is_default data,
      mb_notes = None\<rparr>"

definition new_grant ::
  "env \<Rightarrow> request_context \<Rightarrow> ulid \<Rightarrow> ulid \<Rightarrow> timestamp option \<Rightarrow> data_scope option
   \<Rightarrow> membership_role list \<Rightarrow> membership_role" where
  "new_grant env ctx m r expires ds t =
     \<lparr>row_id = new_id env ''membership_roles'' t, created_at = env_now env, updated_at = env_now env,
      created_by_id = Some (user_id ctx), updated_by_id = None, mr_membership_id = m, mr_role_id = r,
      mr_granted_at = env_now env, mr_expires_at = expires, mr_data_scope = ds\<rparr>"

text \<open>The loop over \<open>role_ids\<close>. It does not look at the level of the role.\<close>

fun add_roles ::
  "env \<Rightarrow> request_context \<Rightarrow> db \<Rightarrow> ulid \<Rightarrow> ulid \<Rightarrow> ulid list \<Rightarrow> membership_role list \<Rightarrow> membership_role list result" where
  "add_roles env ctx s org m [] t = Inr t"
| "add_roles env ctx s org m (i # is) t = (case get_org_role s org i of
     None \<Rightarrow> Inl role_missing
   | Some r \<Rightarrow> add_roles env ctx s org m is (insert_row (new_grant env ctx m (row_id r) None None t) t))"

definition create_membership ::
  "env \<Rightarrow> request_context \<Rightarrow> membership_create \<Rightarrow> db \<Rightarrow> (membership \<times> db) result" where
  "create_membership env ctx data s = (case organization_id ctx of
     None \<Rightarrow> Inl (InvalidRequestError ''VALIDATION_ERROR'')
   | Some org \<Rightarrow>
       if (case get_row (bc_user_id data) (users s) of None \<Rightarrow> True | Some u \<Rightarrow> deleted_at u \<noteq> None)
       then Inl (NotFoundError ''USER_NOT_FOUND'')
       else if (case bc_school_id data of None \<Rightarrow> False | Some i \<Rightarrow> i \<noteq> [] \<and> school_by_id s org i = None)
       then Inl (NotFoundError ''SCHOOL_NOT_FOUND'')
       else if get_active_for_user_school s (bc_user_id data) org (bc_school_id data) \<noteq> None
       then Inl (ConflictError ''MEMBERSHIP_EXISTS'')
       else
         let m = new_membership env ctx org data s in
         bind_ok (flush_memberships m (insert_row m (memberships s))) (\<lambda>t.
         bind_ok (add_roles env ctx s org (row_id m) (bc_role_ids data) (membership_roles s)) (\<lambda>links.
         bind_ok (constrained (uq_membership_roles links) ''uq_membership_roles_membership_id_role_id'' links) (\<lambda>links.
           Inr (m, audit env ctx ''MEMBERSHIP_CREATED'' ''membership'' (Some (row_id m)) None
             (Some (membership_snapshot m)) (s\<lparr>memberships := t, membership_roles := links\<rparr>))))))"

definition membership_payload :: "membership_update \<Rightarrow> membership \<Rightarrow> membership" where
  "membership_payload data m =
     assign mb_notes_update (map_option Some (bu_notes data)) (assign mb_is_default_update (bu_is_default data)
       (assign mb_end_date_update (map_option Some (bu_end_date data))
         (assign mb_start_date_update (map_option Some (bu_start_date data))
           (assign mb_status_update (bu_status data) m))))"

definition update_membership ::
  "env \<Rightarrow> request_context \<Rightarrow> membership \<Rightarrow> membership_update \<Rightarrow> db \<Rightarrow> (membership \<times> db) result" where
  "update_membership env ctx m data s =
     (if version m \<noteq> bu_version data then Inl StaleResourceError
      else let m' = save_row env ctx m (membership_payload data m) in
        bind_ok (flush_memberships m' (update_row m' (memberships s))) (\<lambda>t.
          Inr (m', audit env ctx ''MEMBERSHIP_UPDATED'' ''membership'' (Some (row_id m'))
            (Some (membership_snapshot m)) (Some (membership_snapshot m')) (s\<lparr>memberships := t\<rparr>))))"

definition end_membership ::
  "env \<Rightarrow> request_context \<Rightarrow> membership \<Rightarrow> int \<Rightarrow> db \<Rightarrow> (unit \<times> db) result" where
  "end_membership env ctx m ver s =
     (if version m \<noteq> ver then Inl StaleResourceError
      else let m' = save_row env ctx m (m\<lparr>mb_status := MS_ENDED, mb_end_date := Some (env_today env)\<rparr>) in
        bind_ok (flush_memberships m' (update_row m' (memberships s))) (\<lambda>t.
          Inr ((), audit env ctx ''MEMBERSHIP_ENDED'' ''membership'' (Some (row_id m'))
            (Some (membership_snapshot m)) (Some (membership_snapshot m')) (s\<lparr>memberships := t\<rparr>))))"

definition grant_role ::
  "env \<Rightarrow> request_context \<Rightarrow> membership \<Rightarrow> role_grant_create \<Rightarrow> db \<Rightarrow> (membership_role \<times> db) result" where
  "grant_role env ctx m data s = (case get_org_role s (mb_organization_id m) (wc_role_id data) of
     None \<Rightarrow> Inl role_missing
   | Some r \<Rightarrow>
       if ro_is_system r \<and> ro_organization_id r = None \<and> ro_scope_level r = RL_PLATFORM
       then Inl (ForbiddenError ''FORBIDDEN'')
       else if find (\<lambda>l. mr_membership_id l = row_id m \<and> mr_role_id l = row_id r) (membership_roles s) \<noteq> None
       then Inl (ConflictError ''ROLE_ALREADY_GRANTED'')
       else
         let l = new_grant env ctx (row_id m) (row_id r) (wc_expires_at data) (wc_data_scope data) (membership_roles s);
             t = insert_row l (membership_roles s) in
         bind_ok (constrained (uq_membership_roles t) ''uq_membership_roles_membership_id_role_id'' t) (\<lambda>t.
           Inr (l, audit env ctx ''ROLE_GRANTED'' ''membership_role'' (Some (row_id l)) None None
             (s\<lparr>membership_roles := t\<rparr>))))"

definition revoke_role ::
  "env \<Rightarrow> request_context \<Rightarrow> membership \<Rightarrow> ulid \<Rightarrow> db \<Rightarrow> (unit \<times> db) result" where
  "revoke_role env ctx m i s =
     (case find (\<lambda>l. mr_membership_id l = row_id m \<and> mr_role_id l = i) (membership_roles s) of
        None \<Rightarrow> Inl (NotFoundError ''ROLE_GRANT_NOT_FOUND'')
      | Some l \<Rightarrow> Inr ((), audit env ctx ''ROLE_REVOKED'' ''membership_role'' (Some (row_id l)) None None
          (s\<lparr>membership_roles := delete_row (row_id l) (membership_roles s)\<rparr>)))"

definition membership_missing :: error where
  "membership_missing = NotFoundError ''MEMBERSHIP_NOT_FOUND''"

definition get_membership_owned :: "request_context \<Rightarrow> ulid \<Rightarrow> db \<Rightarrow> membership result" where
  "get_membership_owned ctx i s = (case organization_id ctx of
     None \<Rightarrow> Inl membership_missing
   | Some org \<Rightarrow> ok_or membership_missing (membership_by_id s org i))"

section \<open>Facts\<close>

lemma save_row_role [simp]:
  "ro_organization_id (save_row env ctx x z) = ro_organization_id z" "ro_is_system (save_row env ctx x z) = ro_is_system z"
  "archived_at (save_row env ctx x z) = archived_at z"
  for x z :: role
  by (auto simp: save_row_def flush_versioned_def)

lemma save_row_membership [simp]:
  "mb_organization_id (save_row env ctx x z) = mb_organization_id z" "mb_status (save_row env ctx x z) = mb_status z"
  "mb_end_date (save_row env ctx x z) = mb_end_date z"
  for x z :: membership
  by (auto simp: save_row_def flush_versioned_def)

lemma role_payload_fields [simp]:
  "row_id (role_payload d r) = row_id r" "ro_organization_id (role_payload d r) = ro_organization_id r"
  "ro_is_system (role_payload d r) = ro_is_system r"
  by (simp_all add: role_payload_def assign_def split: option.split)

lemma membership_payload_fields [simp]:
  "row_id (membership_payload d m) = row_id m" "mb_organization_id (membership_payload d m) = mb_organization_id m"
  by (simp_all add: membership_payload_def assign_def split: option.split)

lemma get_org_role_SomeD: "get_org_role s org i = Some r \<Longrightarrow> r \<in> set (roles s) \<and> row_id r = i \<and> archived_at r = None \<and>
    (ro_organization_id r = Some org \<or> ro_organization_id r = None)"
  by (auto simp: get_org_role_def reachable_role_def dest: find_SomeD)

lemma membership_by_id_SomeD: "membership_by_id s org i = Some m \<Longrightarrow>
    m \<in> set (memberships s) \<and> row_id m = i \<and> mb_organization_id m = org"
  by (auto simp: membership_by_id_def dest: find_SomeD)

lemma get_membership_owned_Inr: "get_membership_owned ctx i s = Inr m \<longleftrightarrow>
    (\<exists>org. organization_id ctx = Some org \<and> membership_by_id s org i = Some m)"
  by (simp add: get_membership_owned_def split: option.split)

lemma get_role_owned_mem: "get_role_owned ctx i s = Inr r \<Longrightarrow> r \<in> set (roles s) \<and> row_id r = i"
  by (auto simp: get_role_owned_def split: option.splits if_splits dest: get_row_SomeD get_org_role_SomeD)

lemma assert_editable_Inr: "assert_editable r = Inr u \<longleftrightarrow> \<not> (ro_is_system r \<and> ro_organization_id r = None)"
  by (simp add: assert_editable_def)

lemma flush_memberships_Inr: "flush_memberships m t = Inr t' \<longleftrightarrow> t' = t \<and> date_order m \<and> uq_memberships t"
  by (auto simp: flush_memberships_def bind_ok_Inr_iff)

lemma add_permission_links:
  "j \<noteq> i \<Longrightarrow> filter (\<lambda>l. rp_role_id l = j) (fold (add_permission env i) ps t) = filter (\<lambda>l. rp_role_id l = j) t"
  by (induction ps arbitrary: t) (simp_all add: add_permission_def insert_row_def)

lemma add_permission_pairs:
  "(\<lambda>l. (rp_role_id l, rp_permission_id l)) ` set (fold (add_permission env i) ps t) =
     (\<lambda>l. (rp_role_id l, rp_permission_id l)) ` set t \<union> (\<lambda>p. (i, row_id p)) ` set ps"
  by (induction ps arbitrary: t) (auto simp: add_permission_def set_insert_row)

lemma fetch_permissions_Inr: "fetch_permissions s codes = Inr ps \<longleftrightarrow>
    ps = filter (\<lambda>p. pr_code p \<in> set codes) (permissions_t s) \<and> set codes \<subseteq> pr_code ` set (permissions_t s)"
  by (auto simp: fetch_permissions_def Let_def)

lemma add_roles_grants:
  assumes "add_roles env ctx s org m is t = Inr t'" and "l \<in> set t'"
  shows "l \<in> set t \<or> mr_membership_id l = m \<and> (\<exists>r. get_org_role s org (mr_role_id l) = Some r \<and> mr_role_id l \<in> set is)"
  using assms
proof (induction "is" arbitrary: t)
  case (Cons i "is")
  from Cons.prems(1) obtain r where r: "get_org_role s org i = Some r"
    by (cases "get_org_role s org i") simp_all
  let ?g = "new_grant env ctx m (row_id r) None None t"
  from Cons.prems(1) r have "add_roles env ctx s org m is (insert_row ?g t) = Inr t'" by simp
  from Cons.IH[OF this Cons.prems(2)] have "l = ?g \<or> l \<in> set t \<or>
      mr_membership_id l = m \<and> (\<exists>r. get_org_role s org (mr_role_id l) = Some r \<and> mr_role_id l \<in> set is)"
    by (auto simp: set_insert_row)
  then show ?case using r get_org_role_SomeD[OF r] by (auto simp: new_grant_def)
qed simp

section \<open>Transitions\<close>

inductive iam_step :: "db \<Rightarrow> db \<Rightarrow> bool" where
  role_created: "create_role env ctx d s = Inr (r, s') \<Longrightarrow> new_id env ''roles'' (roles s) \<notin> ids (roles s) \<Longrightarrow> iam_step s s'"
| role_updated: "get_role_owned ctx i s = Inr r \<Longrightarrow> update_role env ctx r u s = Inr (r', s') \<Longrightarrow> iam_step s s'"
| role_deleted: "get_role_owned ctx i s = Inr r \<Longrightarrow> delete_role env ctx r v s = Inr (x, s') \<Longrightarrow> iam_step s s'"
| membership_created: "create_membership env ctx c s = Inr (m, s') \<Longrightarrow>
    new_id env ''memberships'' (memberships s) \<notin> ids (memberships s) \<Longrightarrow> iam_step s s'"
| membership_updated: "get_membership_owned ctx i s = Inr m \<Longrightarrow> update_membership env ctx m w s = Inr (m', s') \<Longrightarrow> iam_step s s'"
| membership_ended: "get_membership_owned ctx i s = Inr m \<Longrightarrow> end_membership env ctx m v s = Inr (x, s') \<Longrightarrow> iam_step s s'"
| role_granted: "get_membership_owned ctx i s = Inr m \<Longrightarrow> grant_role env ctx m g s = Inr (l, s') \<Longrightarrow> iam_step s s'"
| role_revoked: "get_membership_owned ctx i s = Inr m \<Longrightarrow> revoke_role env ctx m j s = Inr (x, s') \<Longrightarrow> iam_step s s'"

text \<open>What each operation does to the four tables, when it returns.\<close>

lemma create_role_tables:
  assumes "create_role env ctx d s = Inr (r, s')"
  obtains org ps where "organization_id ctx = Some org" "r = new_role env ctx org d s" "roles s' = insert_row r (roles s)"
    "ps = filter (\<lambda>p. pr_code p \<in> set (qc_permission_codes d)) (permissions_t s)"
    "set (qc_permission_codes d) \<subseteq> pr_code ` set (permissions_t s)"
    "role_permissions s' = fold (add_permission env (row_id r)) ps (role_permissions s)"
    "memberships s' = memberships s" "membership_roles s' = membership_roles s" "permissions_t s' = permissions_t s"
  using assms that
  by (auto simp: create_role_def bind_ok_Inr_iff Let_def fetch_permissions_Inr split: option.splits if_splits)

lemma update_role_tables:
  assumes "update_role env ctx r d s = Inr (r', s')"
  shows "\<not> (ro_is_system r \<and> ro_organization_id r = None) \<and> r' = save_row env ctx r (role_payload d r) \<and>
    roles s' = update_row r' (roles s) \<and> memberships s' = memberships s \<and> membership_roles s' = membership_roles s \<and>
    (case qu_permission_codes d of None \<Rightarrow> role_permissions s' = role_permissions s
     | Some codes \<Rightarrow> replace_permissions env r codes s = Inr (role_permissions s'))"
proof -
  have v: "version r = qu_version d" using assms by (simp add: update_role_def split: if_splits)
  have e: "assert_editable r = Inr ()"
    using assms v by (cases "assert_editable r") (simp_all add: update_role_def)
  define links where "links = (case qu_permission_codes d of None \<Rightarrow> Inr (role_permissions s)
      | Some codes \<Rightarrow> replace_permissions env r codes s)"
  obtain t where t: "links = Inr t" "uq_role_permissions t" "r' = save_row env ctx r (role_payload d r)"
      "roles s' = update_row r' (roles s)" "role_permissions s' = t" "memberships s' = memberships s"
      "membership_roles s' = membership_roles s"
    using assms v e unfolding update_role_def links_def[symmetric]
    by (cases links) (auto simp: Let_def constrained_def split: if_splits)
  with e show ?thesis by (auto simp: assert_editable_Inr links_def split: option.splits)
qed

lemma delete_role_tables:
  assumes "delete_role env ctx r v s = Inr (x, s')"
  shows "\<not> (ro_is_system r \<and> ro_organization_id r = None)"
    "roles s' = update_row (save_row env ctx r (r\<lparr>archived_at := Some (env_now env)\<rparr>)) (roles s)"
    "role_permissions s' = role_permissions s" "memberships s' = memberships s" "membership_roles s' = membership_roles s"
  using assms by (auto simp: delete_role_def assert_editable_Inr bind_ok_Inr_iff split: if_splits)

lemma create_membership_tables:
  assumes "create_membership env ctx d s = Inr (m, s')"
  obtains org where "organization_id ctx = Some org" "m = new_membership env ctx org d s"
    "memberships s' = insert_row m (memberships s)"
    "add_roles env ctx s org (row_id m) (bc_role_ids d) (membership_roles s) = Inr (membership_roles s')"
    "roles s' = roles s" "role_permissions s' = role_permissions s" "permissions_t s' = permissions_t s" "users s' = users s"
    "schools s' = schools s"
  using assms that
  by (auto simp: create_membership_def bind_ok_Inr_iff Let_def flush_memberships_Inr split: option.splits if_splits)

lemma membership_write_tables:
  "update_membership env ctx m w s = Inr (m', s') \<Longrightarrow>
    memberships s' = update_row (save_row env ctx m (membership_payload w m)) (memberships s) \<and>
    roles s' = roles s \<and> role_permissions s' = role_permissions s \<and> membership_roles s' = membership_roles s"
  "end_membership env ctx m v s = Inr (x, s') \<Longrightarrow>
    memberships s' = update_row (save_row env ctx m (m\<lparr>mb_status := MS_ENDED, mb_end_date := Some (env_today env)\<rparr>)) (memberships s) \<and>
    roles s' = roles s \<and> role_permissions s' = role_permissions s \<and> membership_roles s' = membership_roles s"
  by (auto simp: update_membership_def end_membership_def bind_ok_Inr_iff Let_def flush_memberships_Inr split: if_splits)

lemma grant_role_tables:
  assumes "grant_role env ctx m g s = Inr (l, s')"
  obtains r where "get_org_role s (mb_organization_id m) (wc_role_id g) = Some r"
    "\<not> (ro_is_system r \<and> ro_organization_id r = None \<and> ro_scope_level r = RL_PLATFORM)"
    "l = new_grant env ctx (row_id m) (row_id r) (wc_expires_at g) (wc_data_scope g) (membership_roles s)"
    "membership_roles s' = insert_row l (membership_roles s)" "roles s' = roles s"
    "role_permissions s' = role_permissions s" "memberships s' = memberships s" "permissions_t s' = permissions_t s"
  using assms that
  by (auto simp: grant_role_def bind_ok_Inr_iff Let_def split: option.splits if_splits)

lemma revoke_role_tables:
  assumes "revoke_role env ctx m j s = Inr (x, s')"
  shows "set (membership_roles s') \<subseteq> set (membership_roles s)" "roles s' = roles s"
    "role_permissions s' = role_permissions s" "memberships s' = memberships s"
  using assms by (auto simp: revoke_role_def set_delete_row split: option.splits)

section \<open>Grants stay within the organization\<close>

definition grant_in_org :: "db \<Rightarrow> membership_role \<Rightarrow> bool" where
  "grant_in_org s l \<longleftrightarrow> (\<exists>m r. get_row (mr_membership_id l) (memberships s) = Some m \<and>
     get_row (mr_role_id l) (roles s) = Some r \<and>
     (ro_organization_id r = None \<or> ro_organization_id r = Some (mb_organization_id m)))"

definition iam_inv :: "db \<Rightarrow> bool" where
  "iam_inv s \<longleftrightarrow> pk_unique (roles s) \<and> pk_unique (memberships s) \<and> list_all (grant_in_org s) (membership_roles s)"

text \<open>The rows a grant names may gain fields, but never another organization.\<close>

definition keeps_org :: "db \<Rightarrow> db \<Rightarrow> bool" where
  "keeps_org s s' \<longleftrightarrow>
     (\<forall>i m. get_row i (memberships s) = Some m \<longrightarrow>
        (\<exists>m'. get_row i (memberships s') = Some m' \<and> mb_organization_id m' = mb_organization_id m)) \<and>
     (\<forall>i r. get_row i (roles s) = Some r \<longrightarrow>
        (\<exists>r'. get_row i (roles s') = Some r' \<and> ro_organization_id r' = ro_organization_id r))"

lemma grant_in_org_kept: "grant_in_org s l \<Longrightarrow> keeps_org s s' \<Longrightarrow> grant_in_org s' l"
  unfolding grant_in_org_def keeps_org_def by metis

lemma get_row_update_keeps:
  assumes "pk_unique t" and "x \<in> set t" and "row_id r = row_id x" and "f r = f x" and "get_row i t = Some y"
  shows "\<exists>y'. get_row i (update_row r t) = Some y' \<and> f y' = f y"
proof (cases "i = row_id r")
  case True
  have "i \<in> ids t" using assms(2,3) True by (simp add: ids_def)
  moreover have "get_row (row_id x) t = Some x" by (rule get_row_mem[OF assms(1,2)])
  ultimately show ?thesis using assms(3-5) True by simp
next
  case False
  then show ?thesis using assms(5) by simp
qed

lemma get_row_insert_keeps:
  assumes "row_id r \<notin> ids t" and "get_row i t = Some y"
  shows "get_row i (insert_row r t) = Some y"
proof -
  have "i \<in> ids t" using assms(2) get_row_None_iff[of i t] by auto
  then have "i \<noteq> row_id r" using assms(1) by blast
  then show ?thesis using assms by (simp add: get_row_insert_row)
qed

lemma iam_step_keeps_org:
  assumes "iam_inv s" and "iam_step s s'"
  shows "keeps_org s s' \<and> pk_unique (roles s') \<and> pk_unique (memberships s')"
proof -
  have pk: "pk_unique (roles s)" "pk_unique (memberships s)" using assms(1) by (simp_all add: iam_inv_def)
  show ?thesis using assms(2)
  proof (cases rule: iam_step.cases)
    case (role_created env ctx d r)
    from create_role_tables[OF role_created(1)] obtain org where c: "r = new_role env ctx org d s"
      "roles s' = insert_row r (roles s)" "memberships s' = memberships s" by metis
    have f: "row_id r \<notin> ids (roles s)" using role_created(2) by (simp add: c(1) new_role_def)
    show ?thesis unfolding keeps_org_def c(2,3) using pk f by (auto intro: get_row_insert_keeps)
  next
    case (role_updated ctx i r env u r')
    note r = get_role_owned_mem[OF role_updated(1)]
    from update_role_tables[OF role_updated(2)] have c: "r' = save_row env ctx r (role_payload u r)"
      "roles s' = update_row r' (roles s)" "memberships s' = memberships s" by blast+
    have "\<exists>y'. get_row j (update_row r' (roles s)) = Some y' \<and> ro_organization_id y' = ro_organization_id y"
      if "get_row j (roles s) = Some y" for j y
      by (rule get_row_update_keeps[OF pk(1) conjunct1[OF r] _ _ that]) (simp_all add: c(1))
    then show ?thesis unfolding keeps_org_def c(2,3) using pk by simp
  next
    case (role_deleted ctx i r env v x)
    note r = get_role_owned_mem[OF role_deleted(1)] and c = delete_role_tables[OF role_deleted(2)]
    have "\<exists>y'. get_row j (roles s') = Some y' \<and> ro_organization_id y' = ro_organization_id y"
      if "get_row j (roles s) = Some y" for j y
      unfolding c(2) by (rule get_row_update_keeps[OF pk(1) conjunct1[OF r] _ _ that]) simp_all
    moreover have "pk_unique (roles s')" using pk c(2) by simp
    ultimately show ?thesis unfolding keeps_org_def c(4) using pk by simp
  next
    case (membership_created env ctx c m)
    from create_membership_tables[OF membership_created(1)] obtain org where c: "m = new_membership env ctx org c s"
      "memberships s' = insert_row m (memberships s)" "roles s' = roles s" by metis
    have f: "row_id m \<notin> ids (memberships s)" using membership_created(2) by (simp add: c(1) new_membership_def)
    show ?thesis unfolding keeps_org_def c(2,3) using pk f by (auto intro: get_row_insert_keeps)
  next
    case (membership_updated ctx i m env w m')
    then obtain org where "membership_by_id s org i = Some m" by (auto simp: get_membership_owned_Inr)
    note m = membership_by_id_SomeD[OF this] and c = membership_write_tables(1)[OF membership_updated(2)]
    have "\<exists>y'. get_row j (memberships s') = Some y' \<and> mb_organization_id y' = mb_organization_id y"
      if "get_row j (memberships s) = Some y" for j y
      unfolding conjunct1[OF c] by (rule get_row_update_keeps[OF pk(2) conjunct1[OF m] _ _ that]) simp_all
    then show ?thesis unfolding keeps_org_def using pk c by simp
  next
    case (membership_ended ctx i m env v x)
    then obtain org where "membership_by_id s org i = Some m" by (auto simp: get_membership_owned_Inr)
    note m = membership_by_id_SomeD[OF this] and c = membership_write_tables(2)[OF membership_ended(2)]
    have "\<exists>y'. get_row j (memberships s') = Some y' \<and> mb_organization_id y' = mb_organization_id y"
      if "get_row j (memberships s) = Some y" for j y
      unfolding conjunct1[OF c] by (rule get_row_update_keeps[OF pk(2) conjunct1[OF m] _ _ that]) simp_all
    then show ?thesis unfolding keeps_org_def using pk c by simp
  next
    case (role_granted ctx i m env g l)
    then show ?thesis using pk by (elim grant_role_tables) (simp add: keeps_org_def)
  next
    case (role_revoked ctx i m env j x)
    then show ?thesis using pk revoke_role_tables[OF role_revoked(2)] by (simp add: keeps_org_def)
  qed
qed

lemma iam_step_grants:
  assumes "iam_inv s" and "iam_step s s'" and "l \<in> set (membership_roles s')" and "l \<notin> set (membership_roles s)"
  shows "grant_in_org s' l"
  using assms(2)
proof (cases rule: iam_step.cases)
  case (role_created env ctx d r)
  then show ?thesis using assms(3,4) by (elim create_role_tables) simp
next
  case (role_updated ctx i r env u r')
  then show ?thesis using assms(3,4) update_role_tables by simp
next
  case (role_deleted ctx i r env v x)
  then show ?thesis using assms(3,4) delete_role_tables(5)[OF role_deleted(2)] by simp
next
  case (membership_created env ctx c m)
  from create_membership_tables[OF membership_created(1)] obtain org where c: "m = new_membership env ctx org c s"
    "memberships s' = insert_row m (memberships s)" "roles s' = roles s"
    "add_roles env ctx s org (row_id m) (bc_role_ids c) (membership_roles s) = Inr (membership_roles s')" by metis
  from add_roles_grants[OF c(4) assms(3)] assms(4) obtain r where
    l: "mr_membership_id l = row_id m" "get_org_role s org (mr_role_id l) = Some r" by blast
  note r = get_org_role_SomeD[OF l(2)]
  have "row_id m \<notin> ids (memberships s)" using membership_created(2) by (simp add: c(1) new_membership_def)
  then have "get_row (row_id m) (memberships s') = Some m" by (simp add: c(2) get_row_insert_row)
  moreover have "get_row (mr_role_id l) (roles s') = Some r"
    using get_row_mem[of "roles s" r] r assms(1) by (simp add: iam_inv_def c(3))
  moreover have "mb_organization_id m = org" by (simp add: c(1) new_membership_def)
  ultimately show ?thesis using r l(1) by (auto simp: grant_in_org_def)
next
  case (membership_updated ctx i m env w m')
  then show ?thesis using assms(3,4) membership_write_tables(1) by simp
next
  case (membership_ended ctx i m env v x)
  then show ?thesis using assms(3,4) membership_write_tables(2) by simp
next
  case (role_granted ctx i m env g k)
  from grant_role_tables[OF role_granted(2)] obtain r where r: "get_org_role s (mb_organization_id m) (wc_role_id g) = Some r"
    "k = new_grant env ctx (row_id m) (row_id r) (wc_expires_at g) (wc_data_scope g) (membership_roles s)"
    "membership_roles s' = insert_row k (membership_roles s)" "roles s' = roles s" "memberships s' = memberships s" by metis
  have "l = k" using assms(3,4) by (simp add: r(3) set_insert_row)
  then have l: "mr_membership_id l = row_id m" "mr_role_id l = row_id r" by (simp_all add: r(2) new_grant_def)
  from role_granted(1) obtain org where "membership_by_id s org i = Some m" by (auto simp: get_membership_owned_Inr)
  from membership_by_id_SomeD[OF this] have "get_row (row_id m) (memberships s) = Some m"
    using assms(1) by (intro get_row_mem) (simp_all add: iam_inv_def)
  moreover have "get_row (row_id r) (roles s) = Some r"
    using get_org_role_SomeD[OF r(1)] assms(1) by (intro get_row_mem) (simp_all add: iam_inv_def)
  ultimately show ?thesis using get_org_role_SomeD[OF r(1)] l r(4,5) by (auto simp: grant_in_org_def)
next
  case (role_revoked ctx i m env j x)
  then show ?thesis using assms(3,4) revoke_role_tables(1)[OF role_revoked(2)] by blast
qed

lemma iam_step_preserves:
  assumes "iam_inv s" and "iam_step s s'"
  shows "iam_inv s'"
proof -
  note k = iam_step_keeps_org[OF assms]
  have "grant_in_org s' l" if "l \<in> set (membership_roles s')" for l
  proof (cases "l \<in> set (membership_roles s)")
    case True
    then have "grant_in_org s l" using assms(1) by (simp add: iam_inv_def list_all_iff)
    then show ?thesis using grant_in_org_kept k by blast
  qed (rule iam_step_grants[OF assms that])
  then show ?thesis using k by (simp add: iam_inv_def list_all_iff)
qed

interpretation iam: invariant_system iam_step iam_inv
  by unfold_locales (rule iam_step_preserves)

section \<open>Permissions of roles\<close>

lemma replace_permissions_Inr: "replace_permissions env r codes s = Inr t \<longleftrightarrow>
    set codes \<subseteq> pr_code ` set (permissions_t s) \<and> list_all (\<lambda>l. link_code s l \<noteq> None) (permission_links s r) \<and>
    t = fold (add_permission env (row_id r))
      (filter (\<lambda>p. pr_code p \<notin> set (permission_codes s r)) (filter (\<lambda>p. pr_code p \<in> set codes) (permissions_t s)))
      (filter (\<lambda>l. \<not> (rp_role_id l = row_id r \<and> link_code s l \<notin> Some ` set codes)) (role_permissions s))"
  by (auto simp: replace_permissions_def bind_ok_Inr_iff fetch_permissions_Inr Let_def list_ex_iff list_all_iff)

lemma replace_permissions_others:
  assumes "replace_permissions env r codes s = Inr t" and "j \<noteq> row_id r"
  shows "filter (\<lambda>l. rp_role_id l = j) t = filter (\<lambda>l. rp_role_id l = j) (role_permissions s)"
proof -
  have "filter (\<lambda>l. rp_role_id l = j) (filter (\<lambda>l. \<not> (rp_role_id l = row_id r \<and> link_code s l \<notin> Some ` set codes)) (role_permissions s))
      = filter (\<lambda>l. rp_role_id l = j) (role_permissions s)"
    using assms(2) unfolding filter_filter by (intro filter_cong) auto
  then show ?thesis using assms by (auto simp: replace_permissions_Inr add_permission_links)
qed

lemma set_permission_codes: "set (permission_codes s r) =
    {c. \<exists>pid. (row_id r, pid) \<in> (\<lambda>l. (rp_role_id l, rp_permission_id l)) ` set (role_permissions s) \<and>
      map_option pr_code (get_row pid (permissions_t s)) = Some c}"
proof -
  have "set (permission_codes s r) = {c. \<exists>l\<in>set (role_permissions s). rp_role_id l = row_id r \<and>
      map_option pr_code (get_row (rp_permission_id l) (permissions_t s)) = Some c}"
    by (auto simp: permission_codes_def set_map_filter permission_links_def link_code_def)
  also have "\<dots> = {c. \<exists>pid. (\<exists>l\<in>set (role_permissions s). rp_role_id l = row_id r \<and> rp_permission_id l = pid) \<and>
      map_option pr_code (get_row pid (permissions_t s)) = Some c}" by blast
  finally have *: "set (permission_codes s r) = {c. \<exists>pid. (\<exists>l\<in>set (role_permissions s). rp_role_id l = row_id r \<and> rp_permission_id l = pid) \<and>
      map_option pr_code (get_row pid (permissions_t s)) = Some c}" .
  have "(\<exists>l\<in>set (role_permissions s). rp_role_id l = row_id r \<and> rp_permission_id l = pid) \<longleftrightarrow>
      (row_id r, pid) \<in> (\<lambda>l. (rp_role_id l, rp_permission_id l)) ` set (role_permissions s)" for pid
    by (simp only: image_iff prod.inject) metis
  then show ?thesis unfolding * by simp
qed

lemma replace_permissions_codes:
  assumes "replace_permissions env r codes s = Inr t" and "pk_unique (permissions_t s)"
    and "row_id r' = row_id r" and "role_permissions s' = t" and "permissions_t s' = permissions_t s"
  shows "set (permission_codes s' r') = set codes"
proof -
  note r = assms(1)[unfolded replace_permissions_Inr]
  let ?code = "\<lambda>pid. map_option pr_code (get_row pid (permissions_t s))"
  let ?ps = "filter (\<lambda>p. pr_code p \<notin> set (permission_codes s r)) (filter (\<lambda>p. pr_code p \<in> set codes) (permissions_t s))"
  let ?kept = "filter (\<lambda>l. \<not> (rp_role_id l = row_id r \<and> link_code s l \<notin> Some ` set codes)) (role_permissions s)"
  have pairs: "(\<lambda>l. (rp_role_id l, rp_permission_id l)) ` set t =
      (\<lambda>l. (rp_role_id l, rp_permission_id l)) ` set ?kept \<union> (\<lambda>p. (row_id r, row_id p)) ` set ?ps"
    unfolding conjunct2[OF conjunct2[OF r]] by (rule add_permission_pairs)
  have codeof: "?code (row_id p) = Some (pr_code p)" if "p \<in> set (permissions_t s)" for p
    using get_row_mem[OF assms(2) that] by simp
  have "c \<in> set (permission_codes s' r') \<longleftrightarrow>
      (\<exists>pid. (row_id r, pid) \<in> (\<lambda>l. (rp_role_id l, rp_permission_id l)) ` set t \<and> ?code pid = Some c)" for c
    by (simp add: set_permission_codes assms(3-5))
  moreover have "(\<exists>pid. (row_id r, pid) \<in> (\<lambda>l. (rp_role_id l, rp_permission_id l)) ` set t \<and> ?code pid = Some c) \<longleftrightarrow> c \<in> set codes" for c
  proof
    assume "\<exists>pid. (row_id r, pid) \<in> (\<lambda>l. (rp_role_id l, rp_permission_id l)) ` set t \<and> ?code pid = Some c"
    then obtain pid where pid: "(row_id r, pid) \<in> (\<lambda>l. (rp_role_id l, rp_permission_id l)) ` set t" "?code pid = Some c" by blast
    from pid(1)[unfolded pairs] show "c \<in> set codes"
    proof
      assume "(row_id r, pid) \<in> (\<lambda>l. (rp_role_id l, rp_permission_id l)) ` set ?kept"
      then obtain l where l: "l \<in> set ?kept" "(row_id r, pid) = (rp_role_id l, rp_permission_id l)" by (rule imageE) blast
      then have "link_code s l = Some c" using pid(2) by (simp add: link_code_def)
      then show ?thesis using l by auto
    next
      assume "(row_id r, pid) \<in> (\<lambda>p. (row_id r, row_id p)) ` set ?ps"
      then obtain p where "p \<in> set (permissions_t s)" "pr_code p \<in> set codes" "row_id p = pid"
        by (elim imageE) (auto simp: prod.inject)
      moreover from this have "Some (pr_code p) = Some c" using pid(2) codeof[of p] by metis
      ultimately show ?thesis by simp
    qed
  next
    assume c: "c \<in> set codes"
    show "\<exists>pid. (row_id r, pid) \<in> (\<lambda>l. (rp_role_id l, rp_permission_id l)) ` set t \<and> ?code pid = Some c"
    proof (cases "c \<in> set (permission_codes s r)")
      case True
      then obtain l where "l \<in> set (role_permissions s)" "rp_role_id l = row_id r" "link_code s l = Some c"
        by (auto simp: permission_codes_def set_map_filter permission_links_def)
      then have l: "l \<in> set ?kept" "?code (rp_permission_id l) = Some c" and rid: "rp_role_id l = row_id r"
        using c by (auto simp: link_code_def)
      from l(1) have "(rp_role_id l, rp_permission_id l) \<in> (\<lambda>l. (rp_role_id l, rp_permission_id l)) ` set ?kept"
        by (rule imageI)
      then have "(row_id r, rp_permission_id l) \<in> (\<lambda>l. (rp_role_id l, rp_permission_id l)) ` set t"
        unfolding pairs rid[symmetric] by (rule UnI1)
      then show ?thesis using l(2) by (intro exI[of _ "rp_permission_id l"] conjI)
    next
      case False
      from c r obtain p where "p \<in> set (permissions_t s)" "pr_code p = c" by auto
      then have "p \<in> set ?ps" "?code (row_id p) = Some c" using False c codeof by auto
      then have "(row_id r, row_id p) \<in> (\<lambda>l. (rp_role_id l, rp_permission_id l)) ` set t" "?code (row_id p) = Some c"
        unfolding pairs by blast+
      then show ?thesis by (intro exI[of _ "row_id p"] conjI)
    qed
  qed
  ultimately show ?thesis by blast
qed

lemma iam_step_system_roles:
  assumes "iam_inv s" and "iam_step s s'" and "get_row i (roles s) = Some r" and "ro_is_system r" and "ro_organization_id r = None"
  shows "get_row i (roles s') = Some r \<and> permission_links s' r = permission_links s r"
proof -
  have pk: "pk_unique (roles s)" using assms(1) by (simp add: iam_inv_def)
  note ri = get_row_SomeD[OF assms(3)]
  have other: "row_id x \<noteq> i" if "x \<in> set (roles s)" "\<not> (ro_is_system x \<and> ro_organization_id x = None)" for x
    using pk_unique_inj[OF pk that(1) conjunct1[OF ri]] ri that(2) assms(4,5) by auto
  show ?thesis using assms(2)
  proof (cases rule: iam_step.cases)
    case (role_created env ctx d x)
    from create_role_tables[OF role_created(1)] obtain org ps where c: "x = new_role env ctx org d s"
      "roles s' = insert_row x (roles s)" "role_permissions s' = fold (add_permission env (row_id x)) ps (role_permissions s)" by metis
    have f: "row_id x \<notin> ids (roles s)" using role_created(2) by (simp add: c(1) new_role_def)
    then have "row_id r \<noteq> row_id x" using ri by (metis ids_def image_eqI)
    then show ?thesis using get_row_insert_keeps[OF f assms(3)] by (simp add: c(2,3) permission_links_def add_permission_links)
  next
    case (role_updated ctx j x env u x')
    note x = get_role_owned_mem[OF role_updated(1)] and c = update_role_tables[OF role_updated(2)]
    have n: "row_id x \<noteq> i" using other x c by blast
    have "row_id x' = row_id x" using c by simp
    then have "get_row i (roles s') = Some r" using c n assms(3) by simp
    moreover have "permission_links s' r = permission_links s r"
      using c n ri replace_permissions_others[of env x _ s "role_permissions s'" i]
      by (cases "qu_permission_codes u") (auto simp: permission_links_def)
    ultimately show ?thesis ..
  next
    case (role_deleted ctx j x env v y)
    note x = get_role_owned_mem[OF role_deleted(1)] and c = delete_role_tables[OF role_deleted(2)]
    have n: "row_id x \<noteq> i" using other x c(1) by blast
    then show ?thesis using c(2,3) assms(3) by (simp add: permission_links_def)
  next
    case (membership_created env ctx c m)
    then show ?thesis using assms(3) by (elim create_membership_tables) (simp add: permission_links_def)
  next
    case (membership_updated ctx j m env w m')
    then show ?thesis using assms(3) membership_write_tables(1) by (simp add: permission_links_def)
  next
    case (membership_ended ctx j m env v x)
    then show ?thesis using assms(3) membership_write_tables(2) by (simp add: permission_links_def)
  next
    case (role_granted ctx j m env g l)
    then show ?thesis using assms(3) by (elim grant_role_tables) (simp add: permission_links_def)
  next
    case (role_revoked ctx j m env k x)
    then show ?thesis using assms(3) revoke_role_tables[OF role_revoked(2)] by (simp add: permission_links_def)
  qed
qed


lemma add_roles_mono: "add_roles env ctx s org m is t = Inr t' \<Longrightarrow> set t \<subseteq> set t'"
proof (induction "is" arbitrary: t)
  case (Cons i "is")
  obtain r where "get_org_role s org i = Some r" using Cons.prems by (cases "get_org_role s org i") simp_all
  with Cons.prems Cons.IH show ?case by (fastforce simp: set_insert_row)
qed simp

lemma add_roles_adds:
  assumes "add_roles env ctx s org m is t = Inr t'" and "i \<in> set is"
  shows "\<exists>l\<in>set t'. mr_membership_id l = m \<and> mr_role_id l = i \<and> mr_expires_at l = None"
  using assms
proof (induction "is" arbitrary: t)
  case (Cons j "is")
  from Cons.prems(1) obtain r where r: "get_org_role s org j = Some r"
    by (cases "get_org_role s org j") simp_all
  let ?g = "new_grant env ctx m (row_id r) None None t"
  from Cons.prems(1) r have a: "add_roles env ctx s org m is (insert_row ?g t) = Inr t'" by simp
  show ?case
  proof (cases "i = j")
    case True
    have "?g \<in> set t'" using add_roles_mono[OF a] by (auto simp: set_insert_row)
    moreover have "mr_membership_id ?g = m \<and> mr_role_id ?g = i \<and> mr_expires_at ?g = None"
      using get_org_role_SomeD[OF r] True by (simp add: new_grant_def)
    ultimately show ?thesis by blast
  next
    case False
    then show ?thesis using Cons.IH[OF a] Cons.prems(2) by simp
  qed
qed simp

text \<open>A link of a membership to a live role is worth the permissions of the role.\<close>

lemma grant_justifies:
  assumes "l \<in> set (membership_roles s)" and "mr_membership_id l = row_id m" and "mr_expires_at l = None"
    and "get_row (mr_role_id l) (roles s) = Some r" and "archived_at r = None"
    and "k \<in> set (permission_links s r)" and "get_row (rp_permission_id k) (permissions_t s) = Some p"
  shows "\<exists>d. justifies env s m (pr_code p) d"
proof -
  have "l \<in> set (role_links s m)" "live_link (env_now env) l"
    using assms(1-3) by (simp_all add: role_links_def live_link_def)
  with assms(4-7) show ?thesis unfolding justifies_def by blast
qed

section \<open>Properties\<close>

text \<open>
  C21. Over any sequence of operations on roles and memberships a membership holds only roles of
  its own organization and system roles.
\<close>

theorem grants_stay_in_organization:
  assumes "iam_inv s" and "iam_step\<^sup>*\<^sup>* s s'"
  shows "list_all (grant_in_org s') (membership_roles s')"
  using iam.reach_inv[OF assms(2,1)] by (simp add: iam_inv_def)

text \<open>
  An organization with a user \<open>v\<close> and the system role \<open>g\<close> of the platform level, which holds a
  permission of the platform only.
\<close>

definition sample_access0 :: db where
  "sample_access0 = empty_db\<lparr>users := [blank_user ''v''],
     permissions_t := [(blank_permission_row ''p'')\<lparr>pr_code := ''iam.user.read''\<rparr>,
       (blank_permission_row ''q'')\<lparr>pr_code := ''iam.organization.create'', pr_platform_only := True\<rparr>],
     roles := [(blank_role ''g'')\<lparr>ro_code := ''SUPER_ADMIN'', ro_scope_level := RL_PLATFORM,
       ro_data_scope := PLATFORM, ro_is_system := True\<rparr>],
     role_permissions := [(blank_role_permission ''x'')\<lparr>rp_role_id := ''g'', rp_permission_id := ''q''\<rparr>]\<rparr>"

definition sample_role :: "string \<Rightarrow> string list \<Rightarrow> role_create" where
  "sample_role c codes = \<lparr>qc_code = c, qc_name = c, qc_description = None, qc_scope_level = RL_SCHOOL,
     qc_data_scope = SCHOOL, qc_permission_codes = codes\<rparr>"

definition sample_member :: "ulid list \<Rightarrow> membership_create" where
  "sample_member is = \<lparr>bc_user_id = ''v'', bc_school_id = None, bc_start_date = None, bc_end_date = None,
     bc_is_default = True, bc_role_ids = is\<rparr>"

definition sample_access1 :: "(role \<times> db) result" where
  "sample_access1 = create_role sample_audit_env school_context (sample_role ''OFFICE'' [''iam.organization.create'']) sample_access0"

definition sample_access2 :: "(membership \<times> db) result" where
  "sample_access2 = create_membership sample_audit_env school_context (sample_member [''g'']) (snd (projr sample_access1))"

definition sample_grant :: role_grant_create where
  "sample_grant = \<lparr>wc_role_id = ''roles+'', wc_expires_at = None, wc_data_scope = None\<rparr>"

definition sample_access3 :: "(membership_role \<times> db) result" where
  "sample_access3 = grant_role sample_audit_env school_context (fst (projr sample_access2)) sample_grant (snd (projr sample_access2))"

lemma sample_access_inv: "iam_inv sample_access0"
  by (simp add: iam_inv_def sample_access0_def empty_db_def pk_unique_def blank_defs)

lemma sample_access_steps: "iam_step\<^sup>*\<^sup>* sample_access0 (snd (projr sample_access3))"
proof -
  have ok: "is_ok sample_access1" "is_ok sample_access2" "is_ok sample_access3" by code_simp+
  have f: "new_id sample_audit_env ''roles'' (roles sample_access0) \<notin> ids (roles sample_access0)"
    "new_id sample_audit_env ''memberships'' (memberships (snd (projr sample_access1))) \<notin> ids (memberships (snd (projr sample_access1)))"
    by code_simp+
  have m: "get_membership_owned school_context ''memberships'' (snd (projr sample_access2)) = Inr (fst (projr sample_access2))"
    by code_simp
  have "iam_step sample_access0 (snd (projr sample_access1))" unfolding sample_access1_def
    by (rule iam_step.role_created[OF ok_projr[OF ok(1)[unfolded sample_access1_def]] f(1)])
  moreover have "iam_step (snd (projr sample_access1)) (snd (projr sample_access2))" unfolding sample_access2_def
    by (rule iam_step.membership_created[OF ok_projr[OF ok(2)[unfolded sample_access2_def]] f(2)])
  moreover have "iam_step (snd (projr sample_access2)) (snd (projr sample_access3))" unfolding sample_access3_def
    by (rule iam_step.role_granted[OF m ok_projr[OF ok(3)[unfolded sample_access3_def]]])
  ultimately show ?thesis by (meson converse_rtranclp_into_rtranclp r_into_rtranclp)
qed

lemma grants_stay_in_organization_witness:
  "list_all (grant_in_org (snd (projr sample_access3))) (membership_roles (snd (projr sample_access3))) \<and>
   map mr_role_id (membership_roles (snd (projr sample_access3))) = [''g'', ''roles+'']"
proof
  show "list_all (grant_in_org (snd (projr sample_access3))) (membership_roles (snd (projr sample_access3)))"
    by (rule grants_stay_in_organization[OF sample_access_inv sample_access_steps])
  show "map mr_role_id (membership_roles (snd (projr sample_access3))) = [''g'', ''roles+'']" by code_simp
qed

text \<open>
  No sequence of operations changes a system role, its fields or its permissions.
\<close>

theorem system_roles_immutable:
  assumes "iam_inv s" and "iam_step\<^sup>*\<^sup>* s s'"
    and "get_row i (roles s) = Some r" and "ro_is_system r" and "ro_organization_id r = None"
  shows "get_row i (roles s') = Some r \<and> permission_links s' r = permission_links s r"
  using assms(2)
proof induction
  case (step y z)
  have "iam_inv y" using iam.reach_inv[OF step(1) assms(1)] .
  from iam_step_system_roles[OF this step(2) conjunct1[OF step(3)] assms(4,5)] step(3) show ?case by simp
qed (simp add: assms(3))

lemma system_roles_immutable_witness:
  "get_row ''g'' (roles (snd (projr sample_access3))) = get_row ''g'' (roles sample_access0) \<and>
   length (roles (snd (projr sample_access3))) = 2"
proof -
  let ?r = "hd (roles sample_access0)"
  have r: "get_row ''g'' (roles sample_access0) = Some ?r" "ro_is_system ?r" "ro_organization_id ?r = None" by code_simp+
  have "length (roles (snd (projr sample_access3))) = 2" by code_simp
  with system_roles_immutable[OF sample_access_inv sample_access_steps r] r(1) show ?thesis by simp
qed

text \<open>
  The creation of a membership is a way around the guard of the grants: a system role of the
  platform level, which a grant always refuses, is given to the new membership when its id is among
  the requested ones, and each of its permissions is then justified for the member.
\<close>

theorem membership_create_escapes_guard:
  assumes "create_membership env ctx d s = Inr (m, s')" and "i \<in> set (bc_role_ids d)"
    and "get_org_role s (mb_organization_id m) i = Some r" and "pk_unique (roles s)"
    and "ro_is_system r" and "ro_organization_id r = None" and "ro_scope_level r = RL_PLATFORM"
    and "k \<in> set (permission_links s r)" and "get_row (rp_permission_id k) (permissions_t s) = Some p"
  shows "grant_role env ctx m \<lparr>wc_role_id = i, wc_expires_at = e, wc_data_scope = ds\<rparr> s = Inl (ForbiddenError ''FORBIDDEN'') \<and>
    (\<exists>c. justifies env s' m (pr_code p) c)"
proof
  show "grant_role env ctx m \<lparr>wc_role_id = i, wc_expires_at = e, wc_data_scope = ds\<rparr> s = Inl (ForbiddenError ''FORBIDDEN'')"
    using assms(3,5-7) by (simp add: grant_role_def)
  from create_membership_tables[OF assms(1)] obtain org where c:
    "add_roles env ctx s org (row_id m) (bc_role_ids d) (membership_roles s) = Inr (membership_roles s')"
    "roles s' = roles s" "role_permissions s' = role_permissions s" "permissions_t s' = permissions_t s" by metis
  from add_roles_adds[OF c(1) assms(2)] obtain l where l: "l \<in> set (membership_roles s')"
    "mr_membership_id l = row_id m" "mr_role_id l = i" "mr_expires_at l = None" by blast
  note r = get_org_role_SomeD[OF assms(3)]
  have "get_row (mr_role_id l) (roles s') = Some r" using get_row_mem[OF assms(4)] r l(3) c(2) by metis
  moreover have "k \<in> set (permission_links s' r)" using assms(8) c(3) by (simp add: permission_links_def)
  ultimately show "\<exists>c. justifies env s' m (pr_code p) c"
    using grant_justifies[OF l(1,2,4)] r assms(9) c(4) by simp
qed

lemma membership_create_escapes_guard_witness:
  "is_ok sample_access2 \<and>
   grant_role sample_audit_env school_context (fst (projr sample_access2))
     \<lparr>wc_role_id = ''g'', wc_expires_at = None, wc_data_scope = None\<rparr> (snd (projr sample_access1)) = Inl (ForbiddenError ''FORBIDDEN'') \<and>
   (\<exists>c. justifies sample_audit_env (snd (projr sample_access2)) (fst (projr sample_access2)) ''iam.organization.create'' c)"
proof -
  let ?s = "snd (projr sample_access1)" let ?m = "fst (projr sample_access2)"
  let ?r = "hd (roles sample_access0)" let ?p = "permissions_t ?s ! 1" let ?k = "hd (role_permissions sample_access0)"
  have ok: "is_ok sample_access2" by code_simp
  have r: "''g'' \<in> set (bc_role_ids (sample_member [''g'']))" "get_org_role ?s (mb_organization_id ?m) ''g'' = Some ?r"
    "ro_is_system ?r" "ro_organization_id ?r = None" "ro_scope_level ?r = RL_PLATFORM" by code_simp+
  have u: "pk_unique (roles ?s)" unfolding pk_unique_def by code_simp
  have k: "?k \<in> set (permission_links ?s ?r)" "get_row (rp_permission_id ?k) (permissions_t ?s) = Some ?p" by code_simp+
  have p: "pr_code ?p = ''iam.organization.create''" by code_simp
  from membership_create_escapes_guard[OF ok_projr[OF ok, unfolded sample_access2_def] r(1)
    r(2)[unfolded sample_access2_def] u r(3-5) k] ok p show ?thesis unfolding sample_access2_def by simp
qed

text \<open>
  A custom role may hold any registered permission, whatever its author holds and whether it
  is of the platform only: what the author grants is worth all of the codes of the role.
\<close>

theorem custom_role_takes_any_permission:
  assumes "create_role env ctx d s = Inr (r, s1)" and "new_id env ''roles'' (roles s) \<notin> ids (roles s)"
    and "grant_role env ctx' m \<lparr>wc_role_id = row_id r, wc_expires_at = None, wc_data_scope = ds\<rparr> s1 = Inr (l, s2)"
    and "pk_unique (permissions_t s)" and "c \<in> set (qc_permission_codes d)"
  shows "\<exists>x. justifies env s2 m c x"
proof -
  from create_role_tables[OF assms(1)] obtain org ps where c: "r = new_role env ctx org d s" "roles s1 = insert_row r (roles s)"
    "ps = filter (\<lambda>p. pr_code p \<in> set (qc_permission_codes d)) (permissions_t s)"
    "set (qc_permission_codes d) \<subseteq> pr_code ` set (permissions_t s)"
    "role_permissions s1 = fold (add_permission env (row_id r)) ps (role_permissions s)" "permissions_t s1 = permissions_t s" by metis
  from grant_role_tables[OF assms(3)] obtain r' where g: "get_org_role s1 (mb_organization_id m) (row_id r) = Some r'"
    "l = new_grant env ctx' (row_id m) (row_id r') None ds (membership_roles s1)"
    "membership_roles s2 = insert_row l (membership_roles s1)" "roles s2 = roles s1" "role_permissions s2 = role_permissions s1"
    "permissions_t s2 = permissions_t s1" by (metis role_grant_create.select_convs)
  have new: "row_id r \<notin> ids (roles s)" using assms(2) by (simp add: c(1) new_role_def)
  have live: "archived_at r = None" by (simp add: c(1) new_role_def)
  have row: "get_row (row_id r) (roles s2) = Some r" using new by (simp add: g(4) c(2) get_row_insert_row)
  obtain p where p: "p \<in> set (permissions_t s)" "pr_code p = c" using assms(5) c(4) by blast
  then have "p \<in> set ps" using assms(5) by (simp add: c(3))
  then have "(row_id r, row_id p) \<in> (\<lambda>l. (rp_role_id l, rp_permission_id l)) ` set (role_permissions s1)"
    unfolding c(5) add_permission_pairs by (rule UnI2[OF imageI])
  then obtain k where "k \<in> set (role_permissions s1)" "(row_id r, row_id p) = (rp_role_id k, rp_permission_id k)" by (rule imageE)
  then have k: "k \<in> set (permission_links s2 r)" "rp_permission_id k = row_id p" by (simp_all add: permission_links_def g(5))
  then have kp: "get_row (rp_permission_id k) (permissions_t s2) = Some p"
    using get_row_mem[OF assms(4) p(1)] by (simp add: g(6) c(6))
  have rid: "row_id r' = row_id r" using get_org_role_SomeD[OF g(1)] by blast
  have l: "l \<in> set (membership_roles s2)" "mr_membership_id l = row_id m" "mr_expires_at l = None" "mr_role_id l = row_id r"
    by (simp_all add: g(3) set_insert_row, simp_all add: g(2) new_grant_def rid)
  from grant_justifies[OF l(1-3) _ live k(1) kp] show ?thesis using row l(4) p(2) by simp
qed

lemma custom_role_takes_any_permission_witness:
  "has_permission school_context ''iam.organization.create'' = False \<and>
   (\<exists>x. justifies sample_audit_env (snd (projr (grant_role sample_audit_env school_context (fst (projr sample_access2)) sample_grant
     (snd (projr sample_access1))))) (fst (projr sample_access2)) ''iam.organization.create'' x)"
proof -
  let ?g = "grant_role sample_audit_env school_context (fst (projr sample_access2)) sample_grant (snd (projr sample_access1))"
  have ok: "is_ok sample_access1" "is_ok ?g" by code_simp+
  have f: "new_id sample_audit_env ''roles'' (roles sample_access0) \<notin> ids (roles sample_access0)" by code_simp
  have u: "pk_unique (permissions_t sample_access0)" unfolding pk_unique_def by code_simp
  have c: "''iam.organization.create'' \<in> set (qc_permission_codes (sample_role ''OFFICE'' [''iam.organization.create'']))" by code_simp
  have g: "sample_grant = \<lparr>wc_role_id = row_id (fst (projr sample_access1)), wc_expires_at = None, wc_data_scope = None\<rparr>" by code_simp
  have h: "has_permission school_context ''iam.organization.create'' = False" by code_simp
  from custom_role_takes_any_permission[OF ok_projr[OF ok(1), unfolded sample_access1_def] f _ u c] ok_projr[OF ok(2)] h
  show ?thesis unfolding g sample_access1_def by blast
qed

text \<open>
  Ending a membership never commits: the audit row holds a date that JSON cannot serialise,
  and the membership stays as it was.
\<close>

theorem ending_never_commits:
  "snd (run_request (end_membership env ctx m ver) s) = s \<and> \<not> is_ok (fst (run_request (end_membership env ctx m ver) s))"
proof (rule run_request_refused)
  fix x s' assume "end_membership env ctx m ver s = Inr (x, s')"
  then obtain t where "s' = audit env ctx ''MEMBERSHIP_ENDED'' ''membership''
      (Some (row_id (save_row env ctx m (m\<lparr>mb_status := MS_ENDED, mb_end_date := Some (env_today env)\<rparr>))))
      (Some (membership_snapshot m))
      (Some (membership_snapshot (save_row env ctx m (m\<lparr>mb_status := MS_ENDED, mb_end_date := Some (env_today env)\<rparr>))))
      (s\<lparr>memberships := t\<rparr>)"
    by (auto simp: end_membership_def Let_def bind_ok_Inr_iff split: if_splits)
  then show "\<exists>a\<in>set (drop (length (audit_logs s)) (audit_logs s')). \<not> (storable a \<and> al_action a \<in> set audit_check_actions)"
    by (simp add: storable_def snapshot_ok_def membership_snapshot_def raw_date_def)
qed

text \<open>
  An update of a role with codes gives the role exactly these codes. The audit row of the
  update records the codes the role had before.
\<close>

theorem update_role_sets_permissions:
  assumes "update_role env ctx r u s = Inr (r', s')" and "qu_permission_codes u = Some codes" and "pk_unique (permissions_t s)"
  shows "set (permission_codes s' r') = set codes \<and>
    (\<exists>kvs. al_after (last (audit_logs s')) = Some (kvs @ [(''permissions'', JList (permission_codes s r))]))"
proof
  have p: "permissions_t s' = permissions_t s" and a: "al_after (last (audit_logs s')) =
      Some (role_snapshot r' @ [(''permissions'', JList (permission_codes s r))])"
    using assms(1) by (auto simp: update_role_def bind_ok_Inr_iff Let_def split: if_splits)
  note c = update_role_tables[OF assms(1)]
  have "row_id r' = row_id r" using c by simp
  then show "set (permission_codes s' r') = set codes"
    using replace_permissions_codes[OF _ assms(3) _ refl p, of env r codes r'] c assms(2) by simp
  from a show "\<exists>kvs. al_after (last (audit_logs s')) = Some (kvs @ [(''permissions'', JList (permission_codes s r))])" by blast
qed



definition sample_recode :: role_update where
  "sample_recode = \<lparr>qu_name = None, qu_description = None, qu_data_scope = None,
     qu_permission_codes = Some [''iam.user.read''], qu_version = 1\<rparr>"

lemma update_role_sets_permissions_witness:
  "is_ok (update_role sample_audit_env school_context (fst (projr sample_access1)) sample_recode (snd (projr sample_access1))) \<and>
   set (permission_codes (snd (projr (update_role sample_audit_env school_context (fst (projr sample_access1)) sample_recode
     (snd (projr sample_access1))))) (fst (projr (update_role sample_audit_env school_context (fst (projr sample_access1)) sample_recode
     (snd (projr sample_access1)))))) = {''iam.user.read''} \<and>
   permission_codes (snd (projr sample_access1)) (fst (projr sample_access1)) = [''iam.organization.create'']"
proof -
  let ?u = "update_role sample_audit_env school_context (fst (projr sample_access1)) sample_recode (snd (projr sample_access1))"
  have ok: "is_ok ?u" by code_simp
  have c: "qu_permission_codes sample_recode = Some [''iam.user.read'']" by code_simp
  have u: "pk_unique (permissions_t (snd (projr sample_access1)))" unfolding pk_unique_def by code_simp
  have b: "permission_codes (snd (projr sample_access1)) (fst (projr sample_access1)) = [''iam.organization.create'']" by code_simp
  from update_role_sets_permissions[OF ok_projr[OF ok] c u] ok b show ?thesis by simp
qed

end
