(* ===== verification/Users.thy ===== *)
theory Users
  imports Auth AccessControl
begin

text \<open>
  User accounts, the write side of \<open>app/modules/iam/users\<close>. Accounts belong to no tenant; a
  caller reaches those with a membership in its organization. The lookups by e-mail and phone are
  the ones of the login.
\<close>

section \<open>Operations\<close>

fun user_status_value :: "user_status \<Rightarrow> string" where
  "user_status_value US_INVITED = ''INVITED''"
| "user_status_value US_ACTIVE = ''ACTIVE''"
| "user_status_value US_SUSPENDED = ''SUSPENDED''"
| "user_status_value US_DISABLED = ''DISABLED''"

definition user_snapshot :: "user \<Rightarrow> snapshot" where
  "user_snapshot u = [(''email'', nullable (us_email u)), (''phone'', nullable (us_phone u)),
     (''status'', JStr (user_status_value (us_status u))), (''must_change_password'', JBool (us_must_change_password u)),
     (''is_platform_admin'', JBool (us_is_platform_admin u))]"

record user_create =
  xc_email :: "string option"
  xc_phone :: "string option"
  xc_password :: "string option"
  xc_school_id :: "ulid option"

record user_update =
  xu_email :: "string option"
  xu_phone :: "string option"
  xu_status :: "user_status option"
  xu_must_change_password :: "bool option"
  xu_version :: int

record platform_admin_toggle =
  xt_is_platform_admin :: bool
  xt_version :: int

text \<open>The constraints of the table of users.\<close>

definition uq_users_email_lower :: "user list \<Rightarrow> bool" where
  "uq_users_email_lower =
     unique_on (\<lambda>u. us_email u \<noteq> None \<and> deleted_at u = None) (\<lambda>u. map_option py_lower (us_email u))"

definition uq_users_phone_active :: "user list \<Rightarrow> bool" where
  "uq_users_phone_active = unique_on (\<lambda>u. us_phone u \<noteq> None \<and> deleted_at u = None) us_phone"

definition flush_users :: "user list \<Rightarrow> user list result" where
  "flush_users t =
     (if \<not> list_all (\<lambda>u. us_email u \<noteq> None \<or> us_phone u \<noteq> None) t then Inl (IntegrityError ''ck_users_contact_present'')
      else bind_ok (constrained (uq_users_email_lower t) ''uq_users_email_lower'' t)
        (\<lambda>t. constrained (uq_users_phone_active t) ''uq_users_phone_active'' t))"

definition email_taken :: "db \<Rightarrow> string option \<Rightarrow> bool" where
  "email_taken s e = (truthy e \<and> get_by_email s (the e) \<noteq> None)"

definition phone_taken :: "db \<Rightarrow> string option \<Rightarrow> bool" where
  "phone_taken s p = (truthy p \<and> get_by_phone s (the p) \<noteq> None)"

definition new_user :: "env \<Rightarrow> user_create \<Rightarrow> string option \<Rightarrow> db \<Rightarrow> user" where
  "new_user env data h s =
     \<lparr>row_id = new_id env ''users'' (users s), created_at = env_now env, updated_at = env_now env,
      created_by_id = None, updated_by_id = None, version = 1, archived_at = None, deleted_at = None,
      us_person_id = None, us_email = xc_email data, us_email_verified_at = None, us_phone = xc_phone data,
      us_phone_verified_at = None, us_password_hash = h,
      us_password_changed_at = (if truthy (xc_password data) then Some (env_now env) else None),
      us_must_change_password = False, us_status = (if truthy (xc_password data) then US_ACTIVE else US_INVITED),
      us_is_platform_admin = False, us_failed_login_count = 0, us_locked_until = None, us_last_login_at = None,
      us_permissions_version = 1\<rparr>"

definition first_membership :: "env \<Rightarrow> request_context \<Rightarrow> ulid \<Rightarrow> ulid \<Rightarrow> ulid option \<Rightarrow> db \<Rightarrow> membership" where
  "first_membership env ctx org uid sch s =
     \<lparr>row_id = new_id env ''memberships'' (memberships s), created_at = env_now env, updated_at = env_now env,
      created_by_id = Some (user_id ctx), updated_by_id = None, version = 1, mb_user_id = uid,
      mb_organization_id = org, mb_school_id = sch, mb_status = MS_ACTIVE, mb_start_date = None,
      mb_end_date = None, mb_is_default = True, mb_notes = None\<rparr>"

definition create_user ::
  "auth_env \<Rightarrow> env \<Rightarrow> request_context \<Rightarrow> user_create \<Rightarrow> db \<Rightarrow> (user \<times> db) result" where
  "create_user ax env ctx data s = (case organization_id ctx of
     None \<Rightarrow> Inl (InvalidRequestError ''VALIDATION_ERROR'')
   | Some org \<Rightarrow>
       if email_taken s (xc_email data) then Inl (ConflictError ''USER_EMAIL_TAKEN'')
       else if phone_taken s (xc_phone data) then Inl (ConflictError ''USER_PHONE_TAKEN'')
       else if truthy (xc_school_id data) \<and> school_by_id s org (the (xc_school_id data)) = None
       then Inl (NotFoundError ''SCHOOL_NOT_FOUND'')
       else bind_ok (if truthy (xc_password data) then bind_ok (hash_password ax (the (xc_password data))) (\<lambda>h. Inr (Some h))
                     else Inr None) (\<lambda>h.
         let u = new_user env data h s; m = first_membership env ctx org (row_id u) (xc_school_id data) s in
         bind_ok (flush_users (insert_row u (users s))) (\<lambda>t.
         bind_ok (flush_memberships m (insert_row m (memberships s))) (\<lambda>ms.
           Inr (u, audit env ctx ''USER_CREATED'' ''user'' (Some (row_id u)) None (Some (user_snapshot u))
             (s\<lparr>users := t, memberships := ms\<rparr>))))))"

definition user_payload :: "user_update \<Rightarrow> user \<Rightarrow> user" where
  "user_payload data u =
     assign us_must_change_password_update (xu_must_change_password data) (assign us_status_update (xu_status data)
       (assign us_phone_update (map_option Some (xu_phone data)) (assign us_email_update (map_option Some (xu_email data)) u)))"

definition update_user :: "env \<Rightarrow> request_context \<Rightarrow> user \<Rightarrow> user_update \<Rightarrow> db \<Rightarrow> (user \<times> db) result" where
  "update_user env ctx u data s =
     (if version u \<noteq> xu_version data then Inl StaleResourceError
      else if us_email u \<noteq> xu_email data \<and> email_taken s (xu_email data) then Inl (ConflictError ''USER_EMAIL_TAKEN'')
      else if us_phone u \<noteq> xu_phone data \<and> phone_taken s (xu_phone data) then Inl (ConflictError ''USER_PHONE_TAKEN'')
      else let u' = save_row env ctx u (user_payload data u) in
        bind_ok (flush_users (update_row u' (users s))) (\<lambda>t.
          Inr (u', audit env ctx ''USER_UPDATED'' ''user'' (Some (row_id u')) (Some (user_snapshot u))
            (Some (user_snapshot u')) (s\<lparr>users := t\<rparr>))))"

definition delete_user :: "env \<Rightarrow> request_context \<Rightarrow> user \<Rightarrow> int \<Rightarrow> db \<Rightarrow> (unit \<times> db) result" where
  "delete_user env ctx u ver s =
     (if version u \<noteq> ver then Inl StaleResourceError
      else Inr ((), audit env ctx ''USER_DELETED'' ''user'' (Some (row_id u)) (Some (user_snapshot u)) None
        (s\<lparr>users := update_row (flush_versioned (env_now env) u (u\<lparr>deleted_at := Some (env_now env)\<rparr>)) (users s)\<rparr>)))"

definition toggle_platform_admin ::
  "env \<Rightarrow> request_context \<Rightarrow> user \<Rightarrow> platform_admin_toggle \<Rightarrow> db \<Rightarrow> (user \<times> db) result" where
  "toggle_platform_admin env ctx u data s =
     (if version u \<noteq> xt_version data then Inl StaleResourceError
      else if row_id u = user_id ctx then Inl (InvalidRequestError ''VALIDATION_ERROR'')
      else let u' = save_row env ctx u (u\<lparr>us_is_platform_admin := xt_is_platform_admin data\<rparr>) in
        Inr (u', audit env ctx
          (if xt_is_platform_admin data then ''USER_GRANTED_PLATFORM_ADMIN'' else ''USER_REVOKED_PLATFORM_ADMIN'')
          ''user'' (Some (row_id u')) (Some (user_snapshot u)) (Some (user_snapshot u'))
          (s\<lparr>users := update_row u' (users s)\<rparr>)))"

definition belongs_to_org :: "db \<Rightarrow> ulid \<Rightarrow> ulid \<Rightarrow> bool" where
  "belongs_to_org s uid org =
     (find (\<lambda>m. mb_user_id m = uid \<and> mb_organization_id m = org) (memberships s) \<noteq> None)"

definition user_not_found :: error where
  "user_not_found = NotFoundError ''USER_NOT_FOUND''"

definition get_user_owned :: "request_context \<Rightarrow> ulid \<Rightarrow> db \<Rightarrow> user result" where
  "get_user_owned ctx i s = (case get_row i (users s) of
     None \<Rightarrow> Inl user_not_found
   | Some u \<Rightarrow>
       if deleted_at u \<noteq> None then Inl user_not_found
       else (case organization_id ctx of
           None \<Rightarrow> Inr u
         | Some org \<Rightarrow> if \<not> is_platform_admin ctx \<and> \<not> belongs_to_org s i org then Inl user_not_found else Inr u))"

section \<open>Facts\<close>

lemma save_row_user [simp]:
  "us_email (save_row env ctx x z) = us_email z" "us_phone (save_row env ctx x z) = us_phone z"
  "us_status (save_row env ctx x z) = us_status z" "deleted_at (save_row env ctx x z) = deleted_at z"
  "us_is_platform_admin (save_row env ctx x z) = us_is_platform_admin z"
  for x z :: user
  by (auto simp: save_row_def flush_versioned_def)

lemma user_payload_fields [simp]:
  "row_id (user_payload d u) = row_id u" "deleted_at (user_payload d u) = deleted_at u"
  "us_is_platform_admin (user_payload d u) = us_is_platform_admin u"
  by (simp_all add: user_payload_def assign_def split: option.split)

lemma flush_users_Inr: "flush_users t = Inr t' \<longleftrightarrow> t' = t \<and> list_all (\<lambda>u. us_email u \<noteq> None \<or> us_phone u \<noteq> None) t \<and>
    uq_users_email_lower t \<and> uq_users_phone_active t"
  by (auto simp: flush_users_def bind_ok_Inr_iff)

lemma flush_users_ok: "is_ok (flush_users t) \<longleftrightarrow> flush_users t = Inr t"
  by (cases "flush_users t") (simp_all, simp add: flush_users_Inr)

lemma get_by_email_None_iff: "get_by_email s e = None \<longleftrightarrow>
    (\<forall>u\<in>set (users s). us_email u \<noteq> None \<and> deleted_at u = None \<longrightarrow> map_option py_lower (us_email u) \<noteq> Some (py_lower e))"
  by (auto simp: get_by_email_def find_None_iff)

lemma get_by_phone_None_iff: "get_by_phone s p = None \<longleftrightarrow>
    (\<forall>u\<in>set (users s). us_phone u \<noteq> None \<and> deleted_at u = None \<longrightarrow> us_phone u \<noteq> Some p)"
  by (auto simp: get_by_phone_def find_None_iff)

lemma new_user_fields [simp]:
  "us_email (new_user env d h s) = xc_email d" "us_phone (new_user env d h s) = xc_phone d"
  "deleted_at (new_user env d h s) = None" "row_id (new_user env d h s) = new_id env ''users'' (users s)"
  by (simp_all add: new_user_def)

text \<open>The lookups of a creation see exactly what the indexes see.\<close>

lemma flush_new_user:
  assumes "flush_users (users s) = Inr (users s)" and "new_id env ''users'' (users s) \<notin> ids (users s)"
    and "truthy (xc_email d) \<or> xc_email d = None" and "truthy (xc_phone d) \<or> xc_phone d = None"
    and "xc_email d \<noteq> None \<or> xc_phone d \<noteq> None"
  shows "is_ok (flush_users (insert_row (new_user env d h s) (users s))) \<longleftrightarrow>
    \<not> email_taken s (xc_email d) \<and> \<not> phone_taken s (xc_phone d)"
proof -
  let ?u = "new_user env d h s" let ?t = "insert_row ?u (users s)"
  have f: "row_id ?u \<notin> ids (users s)" using assms(2) by simp
  have q: "uq_users_email_lower (users s)" "uq_users_phone_active (users s)"
    and c: "list_all (\<lambda>u. us_email u \<noteq> None \<or> us_phone u \<noteq> None) (users s)"
    using assms(1) by (simp_all add: flush_users_Inr)
  have e: "uq_users_email_lower ?t \<longleftrightarrow> \<not> email_taken s (xc_email d)"
    unfolding uq_users_email_lower_def unique_on_insert_iff[OF q(1)[unfolded uq_users_email_lower_def] f] email_taken_def
    using assms(3) by (cases "xc_email d") (auto simp: get_by_email_None_iff truthy_def)
  have p: "uq_users_phone_active ?t \<longleftrightarrow> \<not> phone_taken s (xc_phone d)"
    unfolding uq_users_phone_active_def unique_on_insert_iff[OF q(2)[unfolded uq_users_phone_active_def] f] phone_taken_def
    using assms(4) by (cases "xc_phone d") (auto simp: get_by_phone_None_iff truthy_def)
  have "list_all (\<lambda>u. us_email u \<noteq> None \<or> us_phone u \<noteq> None) ?t"
    using c assms(5) by (auto simp: list_all_iff set_insert_row)
  then show ?thesis unfolding flush_users_ok flush_users_Inr e[symmetric] p[symmetric] by simp
qed

text \<open>An e-mail nobody uses can be given to any user.\<close>

lemma flush_new_email:
  assumes "flush_users (users s) = Inr (users s)" and "u \<in> set (users s)" and "get_by_email s e = None"
    and "row_id u' = row_id u" and "us_email u' = Some e" and "us_phone u' = us_phone u" and "deleted_at u' = deleted_at u"
  shows "flush_users (update_row u' (users s)) = Inr (update_row u' (users s))"
proof -
  have q: "uq_users_email_lower (users s)" "uq_users_phone_active (users s)"
    and c: "list_all (\<lambda>u. us_email u \<noteq> None \<or> us_phone u \<noteq> None) (users s)"
    using assms(1) by (simp_all add: flush_users_Inr)
  have "uq_users_email_lower (update_row u' (users s))" unfolding uq_users_email_lower_def
    by (rule unique_on_update_row[OF q(1)[unfolded uq_users_email_lower_def]])
      (use assms(3,5) in \<open>auto simp: get_by_email_None_iff\<close>)
  moreover have "uq_users_phone_active (update_row u' (users s))" unfolding uq_users_phone_active_def
    by (rule unique_on_update_row_same[OF q(2)[unfolded uq_users_phone_active_def] assms(2,4)])
      (use assms(6,7) in simp)
  moreover have "list_all (\<lambda>u. us_email u \<noteq> None \<or> us_phone u \<noteq> None) (update_row u' (users s))"
    using c assms(5) by (auto simp: list_all_iff dest!: set_update_row_subset)
  ultimately show ?thesis by (simp add: flush_users_Inr)
qed

lemma get_user_owned_mem: "get_user_owned ctx i s = Inr u \<Longrightarrow> get_row i (users s) = Some u \<and> deleted_at u = None"
  by (auto simp: get_user_owned_def split: option.splits if_splits)

lemma create_user_tables:
  assumes "create_user ax env ctx d s = Inr (u, s')"
  shows "\<exists>h. u = new_user env d h s \<and> users s' = insert_row u (users s)"
  using assms
  by (auto simp: create_user_def Let_def bind_ok_Inr_iff flush_users_Inr flush_memberships_Inr split: option.splits if_splits)

lemma update_user_tables:
  assumes "update_user env ctx u d s = Inr (u', s')"
  shows "u' = save_row env ctx u (user_payload d u) \<and> users s' = update_row u' (users s)"
  using assms by (auto simp: update_user_def Let_def bind_ok_Inr_iff flush_users_Inr split: if_splits)

lemma toggle_tables:
  assumes "toggle_platform_admin env ctx u d s = Inr (u', s')"
  shows "row_id u \<noteq> user_id ctx \<and> row_id u' = row_id u \<and> users s' = update_row u' (users s)"
  using assms by (auto simp: toggle_platform_admin_def Let_def split: if_splits)

section \<open>Transitions\<close>

text \<open>The steps a caller may take on the table of users.\<close>

inductive user_step :: "request_context \<Rightarrow> db \<Rightarrow> db \<Rightarrow> bool" where
  user_created: "create_user ax env ctx d s = Inr (u, s') \<Longrightarrow> new_id env ''users'' (users s) \<notin> ids (users s) \<Longrightarrow> user_step ctx s s'"
| user_updated: "get_user_owned ctx i s = Inr u \<Longrightarrow> update_user env ctx u w s = Inr (u', s') \<Longrightarrow> user_step ctx s s'"
| user_deleted: "get_user_owned ctx i s = Inr u \<Longrightarrow> delete_user env ctx u v s = Inr (r, s') \<Longrightarrow> user_step ctx s s'"
| user_toggled: "get_user_owned ctx i s = Inr u \<Longrightarrow> toggle_platform_admin env ctx u g s = Inr (u', s') \<Longrightarrow> user_step ctx s s'"

definition own_admin_flag :: "ulid \<Rightarrow> bool \<Rightarrow> db \<Rightarrow> bool" where
  "own_admin_flag i b s \<longleftrightarrow> (\<exists>u. get_row i (users s) = Some u \<and> us_is_platform_admin u = b)"

lemma own_admin_flag_update:
  assumes "own_admin_flag i b s" and "get_row j (users s) = Some u" and "row_id u' = row_id u"
    and "i = j \<Longrightarrow> us_is_platform_admin u' = us_is_platform_admin u" and "users s' = update_row u' (users s)"
  shows "own_admin_flag i b s'"
proof -
  note j = get_row_SomeD[OF assms(2)]
  then have m: "j \<in> ids (users s)" using get_row_None_iff[of j "users s"] assms(2) by auto
  from assms(1) obtain x where "get_row i (users s) = Some x" "us_is_platform_admin x = b" by (auto simp: own_admin_flag_def)
  then show ?thesis using assms(2-5) j m by (cases "i = j") (auto simp: own_admin_flag_def)
qed

lemma user_step_own_flag:
  assumes "own_admin_flag (user_id ctx) b s" and "user_step ctx s s'"
  shows "own_admin_flag (user_id ctx) b s'"
  using assms(2)
proof (cases rule: user_step.cases)
  case (user_created ax env d u)
  from create_user_tables[OF user_created(1)] obtain h where u: "u = new_user env d h s" "users s' = insert_row u (users s)" by blast
  have f: "row_id u \<notin> ids (users s)" using user_created(2) by (simp add: u(1))
  from assms(1) obtain x where "get_row (user_id ctx) (users s) = Some x" "us_is_platform_admin x = b"
    by (auto simp: own_admin_flag_def)
  then show ?thesis using get_row_insert_keeps[OF f] u(2) by (auto simp: own_admin_flag_def)
next
  case (user_updated i u env w u')
  note g = get_user_owned_mem[OF user_updated(1)] and t = update_user_tables[OF user_updated(2)]
  show ?thesis by (rule own_admin_flag_update[OF assms(1), of i u u']) (use g t in simp_all)
next
  case (user_deleted i u env v r)
  note g = get_user_owned_mem[OF user_deleted(1)]
  let ?u = "flush_versioned (env_now env) u (u\<lparr>deleted_at := Some (env_now env)\<rparr>)"
  have "users s' = update_row ?u (users s)" using user_deleted(2) by (auto simp: delete_user_def split: if_splits)
  then show ?thesis by (intro own_admin_flag_update[OF assms(1), of i u ?u]) (use g in \<open>simp_all add: flush_versioned_def\<close>)
next
  case (user_toggled i u env g u')
  note o = get_user_owned_mem[OF user_toggled(1)] and t = toggle_tables[OF user_toggled(2)]
  have "row_id u = i" using get_row_SomeD[OF conjunct1[OF o]] by blast
  then show ?thesis by (intro own_admin_flag_update[OF assms(1), of i u u']) (use o t in auto)
qed

interpretation own_flag: invariant_system "user_step ctx" "own_admin_flag (user_id ctx) b" for ctx b
  by unfold_locales (rule user_step_own_flag)

section \<open>Properties\<close>

text \<open>
  C22. Nobody makes themself a platform administrator: no sequence of user operations of one caller
  changes the flag of the caller's own account.
\<close>

theorem nobody_promotes_themself:
  assumes "(user_step ctx)\<^sup>*\<^sup>* s s'" and "get_row (user_id ctx) (users s) = Some u"
  shows "\<exists>u'. get_row (user_id ctx) (users s') = Some u' \<and> us_is_platform_admin u' = us_is_platform_admin u"
  using own_flag.reach_inv[OF assms(1), of "us_is_platform_admin u"] assms(2) by (auto simp: own_admin_flag_def)

text \<open>The caller \<open>u\<close> of the organization \<open>o\<close> and the account \<open>v\<close> of nobody.\<close>

definition sample_users0 :: db where
  "sample_users0 = empty_db\<lparr>users := [(blank_user ''u'')\<lparr>us_email := Some ''A@x''\<rparr>, (blank_user ''v'')\<lparr>us_email := Some ''b@x''\<rparr>],
     memberships := [(blank_membership ''k'')\<lparr>mb_user_id := ''u'', mb_organization_id := ''o''\<rparr>]\<rparr>"

lemma sample_users_ok:
  "flush_users (users sample_users0) = Inr (users sample_users0)" "uq_memberships (memberships sample_users0)"
  "pk_unique (users sample_users0)"
proof -
  have "py_lower ''A@x'' \<noteq> py_lower ''b@x''" by code_simp
  then show "flush_users (users sample_users0) = Inr (users sample_users0)"
    by (auto simp: flush_users_Inr uq_users_email_lower_def uq_users_phone_active_def unique_on_def sample_users0_def blank_defs)
qed (simp_all add: uq_memberships_def unique_on_def pk_unique_def sample_users0_def blank_defs)

definition sample_phone :: user_update where
  "sample_phone = \<lparr>xu_email = None, xu_phone = Some ''123'', xu_status = None, xu_must_change_password = None, xu_version = 1\<rparr>"

definition sample_users1 :: "(user \<times> db) result" where
  "sample_users1 = update_user sample_audit_env school_context (hd (users sample_users0)) sample_phone sample_users0"

lemma nobody_promotes_themself_witness:
  "map us_phone (users (snd (projr sample_users1))) = [Some ''123'', None] \<and>
   (\<exists>u. get_row ''u'' (users (snd (projr sample_users1))) = Some u \<and> us_is_platform_admin u = False) \<and>
   toggle_platform_admin sample_audit_env school_context (hd (users sample_users0)) \<lparr>xt_is_platform_admin = True, xt_version = 1\<rparr> sample_users0
     = Inl (InvalidRequestError ''VALIDATION_ERROR'')"
proof -
  have ok: "is_ok sample_users1" and p: "map us_phone (users (snd (projr sample_users1))) = [Some ''123'', None]"
    and r: "toggle_platform_admin sample_audit_env school_context (hd (users sample_users0)) \<lparr>xt_is_platform_admin = True, xt_version = 1\<rparr> sample_users0
     = Inl (InvalidRequestError ''VALIDATION_ERROR'')" by code_simp+
  have g: "get_user_owned school_context ''u'' sample_users0 = Inr (hd (users sample_users0))"
    "get_row (user_id school_context) (users sample_users0) = Some (hd (users sample_users0))"
    "us_is_platform_admin (hd (users sample_users0)) = False" by code_simp+
  have "user_step school_context sample_users0 (snd (projr sample_users1))" unfolding sample_users1_def
    by (rule user_step.user_updated[OF g(1) ok_projr[OF ok[unfolded sample_users1_def]]])
  from nobody_promotes_themself[OF r_into_rtranclp[of "user_step school_context", OF this] g(2)] g(3) p r show ?thesis by simp
qed

text \<open>
  No toggle of the flag commits: the constraint on the audit actions refuses both of its actions.
\<close>

theorem toggle_never_commits:
  "snd (run_request (toggle_platform_admin env ctx u d) s) = s \<and> \<not> is_ok (fst (run_request (toggle_platform_admin env ctx u d) s))"
proof (rule run_request_refused)
  fix x s' assume "toggle_platform_admin env ctx u d s = Inr (x, s')"
  then have "\<exists>a\<in>set (drop (length (audit_logs s)) (audit_logs s')).
      al_action a \<in> {''USER_GRANTED_PLATFORM_ADMIN'', ''USER_REVOKED_PLATFORM_ADMIN''}"
    by (auto simp: toggle_platform_admin_def Let_def split: if_splits)
  moreover have "a \<notin> set audit_check_actions" if "a \<in> {''USER_GRANTED_PLATFORM_ADMIN'', ''USER_REVOKED_PLATFORM_ADMIN''}" for a
    using that by (elim insertE emptyE) (simp_all add: audit_check_actions_def)
  ultimately show "\<exists>a\<in>set (drop (length (audit_logs s)) (audit_logs s')). \<not> (storable a \<and> al_action a \<in> set audit_check_actions)"
    by blast
qed

text \<open>
  A user is created exactly when neither identifier is taken and the school, if any, exists in
  the organization: the lookups of the service refuse what the indexes would refuse, and no more.
\<close>

theorem create_user_exact:
  assumes "organization_id ctx = Some org" and "flush_users (users s) = Inr (users s)" and "uq_memberships (memberships s)"
    and "new_id env ''users'' (users s) \<notin> ids (users s)" and "new_id env ''memberships'' (memberships s) \<notin> ids (memberships s)"
    and "new_id env ''users'' (users s) \<notin> mb_user_id ` set (memberships s)"
    and "truthy (xc_email d) \<or> xc_email d = None" and "truthy (xc_phone d) \<or> xc_phone d = None"
    and "xc_email d \<noteq> None \<or> xc_phone d \<noteq> None"
  shows "is_ok (create_user ax env ctx d s) \<longleftrightarrow> \<not> email_taken s (xc_email d) \<and> \<not> phone_taken s (xc_phone d) \<and>
    (truthy (xc_school_id d) \<longrightarrow> school_by_id s org (the (xc_school_id d)) \<noteq> None)"
proof -
  let ?h = "if truthy (xc_password d) then Some (ax_hash ax (the (xc_password d))) else None"
  let ?u = "new_user env d ?h s" let ?m = "first_membership env ctx org (row_id ?u) (xc_school_id d) s"
  have h: "(if truthy (xc_password d) then bind_ok (hash_password ax (the (xc_password d))) (\<lambda>h. Inr (Some h)) else Inr None) = Inr ?h"
    by (cases "xc_password d") (auto simp: truthy_def hash_password_def)
  have "mb_user_id x \<noteq> row_id ?u" if "x \<in> set (memberships s)" for x
    using assms(6) that by (metis image_eqI new_user_fields(4))
  then have "uq_memberships (insert_row ?m (memberships s))" unfolding uq_memberships_def
    by (intro unique_on_insert_row[OF assms(3)[unfolded uq_memberships_def]]) (auto simp: first_membership_def)
  then have m: "flush_memberships ?m (insert_row ?m (memberships s)) = Inr (insert_row ?m (memberships s))"
    by (simp add: flush_memberships_Inr date_order_def first_membership_def)
  have fl: "is_ok (flush_users (insert_row ?u (users s))) \<longleftrightarrow> \<not> email_taken s (xc_email d) \<and> \<not> phone_taken s (xc_phone d)"
    by (rule flush_new_user[OF assms(2,4,7-9)])
  note expand = create_user_def assms(1) option.case h bind_ok_simps Let_def m
  show ?thesis
  proof (cases "is_ok (flush_users (insert_row ?u (users s)))")
    case True
    then have "flush_users (insert_row ?u (users s)) = Inr (insert_row ?u (users s))" by (simp only: flush_users_ok)
    with True fl show ?thesis by (simp only: expand) auto
  next
    case False
    then obtain e where "flush_users (insert_row ?u (users s)) = Inl e"
      by (cases "flush_users (insert_row ?u (users s))") simp_all
    with False fl show ?thesis by (simp only: expand) auto
  qed
qed

definition sample_account_for :: "string \<Rightarrow> user_create" where
  "sample_account_for e = \<lparr>xc_email = Some e, xc_phone = None, xc_password = None, xc_school_id = None\<rparr>"

definition sample_auth :: auth_env where
  "sample_auth = \<lparr>ax_verify = (\<lambda>h p. h = p), ax_hash = (\<lambda>p. p), ax_digest = (\<lambda>x. x), ax_raw = ''raw'',
     ax_jwt_encode = (\<lambda>_. ''jwt''), ax_jti = ''j'', ax_max_failed = 5, ax_lockout = 10, ax_access_ttl = 10,
     ax_refresh_ttl = 100, ax_reset_ttl = 100\<rparr>"

lemma create_user_exact_witness:
  "is_ok (create_user sample_auth sample_audit_env school_context (sample_account_for ''c@x'') sample_users0) \<and>
   is_ok (create_user sample_auth sample_audit_env school_context (sample_account_for ''a@X'') sample_users0) = False"
proof -
  note q = sample_users_ok(1,2)
  have f: "new_id sample_audit_env ''users'' (users sample_users0) \<notin> ids (users sample_users0)"
    "new_id sample_audit_env ''memberships'' (memberships sample_users0) \<notin> ids (memberships sample_users0)"
    "new_id sample_audit_env ''users'' (users sample_users0) \<notin> mb_user_id ` set (memberships sample_users0)" by code_simp+
  have d: "truthy (xc_email (sample_account_for e)) \<or> xc_email (sample_account_for e) = None"
    "truthy (xc_phone (sample_account_for e)) \<or> xc_phone (sample_account_for e) = None"
    "xc_email (sample_account_for e) \<noteq> None \<or> xc_phone (sample_account_for e) \<noteq> None" if "e \<noteq> []" for e
    using that by (simp_all add: sample_account_for_def truthy_def)
  have t: "email_taken sample_users0 (xc_email (sample_account_for ''c@x'')) = False"
    "phone_taken sample_users0 (xc_phone (sample_account_for ''c@x'')) = False"
    "truthy (xc_school_id (sample_account_for ''c@x'')) = False"
    "email_taken sample_users0 (xc_email (sample_account_for ''a@X'')) = True" by code_simp+
  have n: "(''c@x'' :: string) \<noteq> []" "(''a@X'' :: string) \<noteq> []" by simp_all
  show ?thesis
    using create_user_exact[OF school_context_fields(2) q f d[OF n(1)], of sample_auth]
      create_user_exact[OF school_context_fields(2) q f d[OF n(2)], of sample_auth] t by simp
qed

text \<open>
  An administrator of any organization can take over any live account. Adding the account to
  the organization asks nobody; the account is then in reach, its e-mail can be changed to one the
  administrator reads, and a password reset of that e-mail hands out a link for the account.
\<close>

theorem any_account_can_be_taken_over:
  assumes "create_membership env ctx d s = Inr (m, s1)" and "get_row (bc_user_id d) (users s) = Some u"
    and "flush_users (users s) = Inr (users s)" and "pk_unique (users s)" and "us_status u = US_ACTIVE"
    and "get_by_email s e = None" and "CHR ''@'' \<in> set e"
    and "w = \<lparr>xu_email = Some e, xu_phone = None, xu_status = None, xu_must_change_password = None, xu_version = version u\<rparr>"
  shows "get_user_owned ctx (bc_user_id d) s1 = Inr u \<and>
    (\<exists>u' s2 s3. update_user env ctx u w s1 = Inr (u', s2) \<and> request_password_reset ax env' e ip s2 = Inr ((), s3) \<and>
       (\<exists>t\<in>set (reset_tokens s3). pw_user_id t = bc_user_id d \<and> pw_token_hash t = ax_digest ax (ax_raw ax)))"
proof -
  from create_membership_tables[OF assms(1)] obtain org where c: "organization_id ctx = Some org"
    "m = new_membership env ctx org d s" "memberships s1 = insert_row m (memberships s)" "users s1 = users s" by metis
  note g = get_row_SomeD[OF assms(2)]
  have live: "deleted_at u = None" using assms(1,2) c(1)
    by (auto simp: create_membership_def split: if_splits)
  have "m \<in> set (memberships s1)" "mb_user_id m = bc_user_id d \<and> mb_organization_id m = org"
    by (simp_all add: c(2,3) set_insert_row new_membership_def)
  then have "belongs_to_org s1 (bc_user_id d) org"
    unfolding belongs_to_org_def using find_NoneD by fastforce
  then have own: "get_user_owned ctx (bc_user_id d) s1 = Inr u"
    using assms(2) live c(1,4) by (simp add: get_user_owned_def)
  let ?u = "save_row env ctx u (user_payload w u)"
  have f: "row_id ?u = row_id u" "us_email ?u = Some e" "us_phone ?u = us_phone u" "deleted_at ?u = None" "us_status ?u = US_ACTIVE"
    using live assms(5) by (simp_all add: assms(8) user_payload_def)
  have fl: "flush_users (update_row ?u (users s)) = Inr (update_row ?u (users s))"
    by (rule flush_new_email[OF assms(3) conjunct1[OF g] assms(6)]) (use f live in simp_all)
  have free: "get_by_email s1 e = None" using assms(6) c(4) by (simp add: get_by_email_def)
  have w: "xu_version w = version u" "xu_phone w = None" "xu_email w = Some e" by (simp_all add: assms(8))
  obtain s2 where up: "update_user env ctx u w s1 = Inr (?u, s2)"
    using fl free c(4) w by (simp add: update_user_def email_taken_def phone_taken_def truthy_def Let_def)
  have t: "users s2 = update_row ?u (users s)" using update_user_tables[OF up] c(4) by simp
  have "get_by_email s2 e = Some ?u" unfolding get_by_email_def t
  proof (rule find_unique)
    show "?u \<in> set (update_row ?u (users s))" by (rule set_update_row_mem[OF conjunct1[OF g]]) simp
    show "map_option py_lower (us_email ?u) = Some (py_lower e) \<and> deleted_at ?u = None" using f by simp
    fix y assume "y \<in> set (update_row ?u (users s))" "map_option py_lower (us_email y) = Some (py_lower e) \<and> deleted_at y = None"
    then show "y = ?u" using assms(6) set_update_row_subset by (fastforce simp: get_by_email_None_iff)
  qed
  then have "find_user s2 e = Some ?u" using assms(7) by (simp add: find_user_def)
  then have "\<exists>s3. request_password_reset ax env' e ip s2 = Inr ((), s3) \<and>
      (\<exists>t\<in>set (reset_tokens s3). pw_user_id t = bc_user_id d \<and> pw_token_hash t = ax_digest ax (ax_raw ax))"
    using f g by (simp add: request_password_reset_def set_insert_row)
  then show ?thesis using own up by blast
qed

definition sample_adoption :: "(membership \<times> db) result" where
  "sample_adoption = create_membership sample_audit_env school_context (sample_member []) sample_users0"

definition sample_new_email :: user_update where
  "sample_new_email = \<lparr>xu_email = Some ''c@x'', xu_phone = None, xu_status = None, xu_must_change_password = None, xu_version = 1\<rparr>"

lemma any_account_can_be_taken_over_witness:
  "get_user_owned school_context ''v'' sample_users0 = Inl user_not_found \<and> is_ok sample_adoption \<and>
   (\<exists>u' s2 s3. update_user sample_audit_env school_context (last (users sample_users0)) sample_new_email (snd (projr sample_adoption)) = Inr (u', s2) \<and>
     request_password_reset sample_auth sample_audit_env ''c@x'' None s2 = Inr ((), s3) \<and>
     (\<exists>t\<in>set (reset_tokens s3). pw_user_id t = ''v''))"
proof -
  let ?u = "last (users sample_users0)"
  have n: "get_user_owned school_context ''v'' sample_users0 = Inl user_not_found" and ok: "is_ok sample_adoption" by code_simp+
  have v: "bc_user_id (sample_member []) = ''v''" by code_simp
  have g: "get_row (bc_user_id (sample_member [])) (users sample_users0) = Some ?u" "us_status ?u = US_ACTIVE"
    "get_by_email sample_users0 ''c@x'' = None" "CHR ''@'' \<in> set ''c@x''" by code_simp+
  note q = sample_users_ok(1,3)
  have w: "sample_new_email = \<lparr>xu_email = Some ''c@x'', xu_phone = None, xu_status = None, xu_must_change_password = None, xu_version = version ?u\<rparr>"
    by code_simp
  from any_account_can_be_taken_over[OF ok_projr[OF ok[unfolded sample_adoption_def]] g(1) q g(2-4) w, of sample_auth sample_audit_env None] n ok v
  show ?thesis unfolding sample_adoption_def by metis
qed

end
