(* ===== verification/People.thy ===== *)
theory People
  imports Teachers Tenants
begin

text \<open>
  Persons, addresses and contacts, \<open>app/modules/people\<close>: the services of \<open>persons\<close>,
  \<open>addresses\<close> and \<open>contacts\<close> with their repositories. The JSON column \<open>custom_fields\<close> is not modelled.
\<close>

section \<open>Owners\<close>

text \<open>Addresses and contacts name their owner by a type and a key.\<close>

definition allowed_entity_types :: "string list" where
  "allowed_entity_types = [''PERSON'', ''SCHOOL'']"

definition assert_entity_owned :: "db \<Rightarrow> ulid option \<Rightarrow> string \<Rightarrow> ulid \<Rightarrow> unit result" where
  "assert_entity_owned s org ty i =
     (if ty = ''SCHOOL'' then (if org = None \<or> school_by_id s (the org) i = None then Inl (NotFoundError ''SCHOOL_NOT_FOUND'') else Inr ())
      else if ty = ''PERSON'' then bind_ok (get_person org i s) (\<lambda>_. Inr ())
      else Inr ())"

definition no_organization_set :: error where
  "no_organization_set = InvalidRequestError ''VALIDATION_ERROR''"

section \<open>Addresses\<close>

fun address_type_value :: "address_type \<Rightarrow> string" where
  "address_type_value AD_RESIDENTIAL = ''RESIDENTIAL''"
| "address_type_value AD_PERMANENT = ''PERMANENT''"
| "address_type_value AD_CORRESPONDENCE = ''CORRESPONDENCE''"
| "address_type_value AD_CAMPUS = ''CAMPUS''"
| "address_type_value AD_OTHER = ''OTHER''"

definition address_snapshot :: "address \<Rightarrow> snapshot" where
  "address_snapshot a = [(''entity_type'', JStr (ad_entity_type a)), (''entity_id'', JStr (ad_entity_id a)),
     (''address_type'', JStr (address_type_value (ad_address_type a))), (''line1'', nullable (ad_line1 a)),
     (''line2'', nullable (ad_line2 a)), (''landmark'', nullable (ad_landmark a)), (''city'', nullable (ad_city a)),
     (''district'', nullable (ad_district a)), (''state'', nullable (ad_state a)),
     (''postal_code'', nullable (ad_postal_code a)), (''country_code'', JStr (ad_country_code a)),
     (''is_primary'', JBool (ad_is_primary a))]"

record address_create =
  ac_entity_type :: string
  ac_entity_id :: ulid
  ac_address_type :: address_type
  ac_line1 :: "string option"
  ac_line2 :: "string option"
  ac_landmark :: "string option"
  ac_city :: "string option"
  ac_district :: "string option"
  ac_state :: "string option"
  ac_postal_code :: "string option"
  ac_country_code :: string
  ac_is_primary :: bool

record address_update =
  au_address_type :: "address_type option"
  au_line1 :: "string option"
  au_line2 :: "string option"
  au_landmark :: "string option"
  au_city :: "string option"
  au_district :: "string option"
  au_state :: "string option"
  au_postal_code :: "string option"
  au_country_code :: "string option"
  au_is_primary :: "bool option"
  au_version :: int

definition address_by_id :: "db \<Rightarrow> ulid option \<Rightarrow> ulid \<Rightarrow> address option" where
  "address_by_id s org i = find (\<lambda>a. row_id a = i \<and> Some (ad_organization_id a) = org) (addresses s)"

definition new_address :: "env \<Rightarrow> ulid \<Rightarrow> address_create \<Rightarrow> db \<Rightarrow> address" where
  "new_address env org data s =
     \<lparr>row_id = new_id env ''addresses'' (addresses s), created_at = env_now env, updated_at = env_now env, ad_version = 1,
      ad_entity_type = ac_entity_type data, ad_entity_id = ac_entity_id data, ad_organization_id = org,
      ad_address_type = ac_address_type data, ad_line1 = ac_line1 data, ad_line2 = ac_line2 data,
      ad_landmark = ac_landmark data, ad_city = ac_city data, ad_district = ac_district data, ad_state = ac_state data,
      ad_postal_code = ac_postal_code data, ad_country_code = ac_country_code data, ad_is_primary = ac_is_primary data\<rparr>"

definition create_address :: "env \<Rightarrow> request_context \<Rightarrow> address_create \<Rightarrow> db \<Rightarrow> (address \<times> db) result" where
  "create_address env ctx data s = (case organization_id ctx of
     None \<Rightarrow> Inl no_organization_set
   | Some org \<Rightarrow>
       if ac_entity_type data \<notin> set allowed_entity_types then Inl (InvalidRequestError ''UNSUPPORTED_ENTITY_TYPE'')
       else bind_ok (assert_entity_owned s (Some org) (ac_entity_type data) (ac_entity_id data)) (\<lambda>_.
         let a = new_address env org data s in
         Inr (a, audit env ctx ''ADDRESS_CREATED'' ''address'' (Some (row_id a)) None (Some (address_snapshot a))
           (s\<lparr>addresses := insert_row a (addresses s)\<rparr>))))"

text \<open>An address has a version and no actor.\<close>

definition save_address :: "env \<Rightarrow> address \<Rightarrow> address \<Rightarrow> address" where
  "save_address env old new =
     (if new = old then old else new\<lparr>updated_at := env_now env, ad_version := ad_version old + 1\<rparr>)"

definition address_payload :: "address_update \<Rightarrow> address \<Rightarrow> address" where
  "address_payload data a =
     assign ad_is_primary_update (au_is_primary data) (assign ad_country_code_update (au_country_code data)
       (assign ad_postal_code_update (map_option Some (au_postal_code data))
         (assign ad_state_update (map_option Some (au_state data)) (assign ad_district_update (map_option Some (au_district data))
           (assign ad_city_update (map_option Some (au_city data)) (assign ad_landmark_update (map_option Some (au_landmark data))
             (assign ad_line2_update (map_option Some (au_line2 data)) (assign ad_line1_update (map_option Some (au_line1 data))
               (assign ad_address_type_update (au_address_type data) a)))))))))"

definition update_address ::
  "env \<Rightarrow> request_context \<Rightarrow> address \<Rightarrow> address_update \<Rightarrow> db \<Rightarrow> (address \<times> db) result" where
  "update_address env ctx a data s =
     (if ad_version a \<noteq> au_version data then Inl StaleResourceError
      else let a' = save_address env a (address_payload data a) in
        Inr (a', audit env ctx ''ADDRESS_UPDATED'' ''address'' (Some (row_id a')) (Some (address_snapshot a))
          (Some (address_snapshot a')) (s\<lparr>addresses := update_row a' (addresses s)\<rparr>)))"

text \<open>
  The row is deleted, and the foreign keys of persons and schools that name it are set to NULL by
  the database, without a new version.
\<close>

definition delete_address :: "env \<Rightarrow> request_context \<Rightarrow> address \<Rightarrow> int \<Rightarrow> db \<Rightarrow> (unit \<times> db) result" where
  "delete_address env ctx a ver s =
     (if ad_version a \<noteq> ver then Inl StaleResourceError
      else let gone = (\<lambda>x. row_id x = row_id a \<and> Some (ad_organization_id x) = organization_id ctx) in
        Inr ((), audit env ctx ''ADDRESS_DELETED'' ''address'' (Some (row_id a)) (Some (address_snapshot a)) None
          (if list_ex gone (addresses s)
           then s\<lparr>addresses := filter (\<lambda>x. \<not> gone x) (addresses s),
             persons := update_where (\<lambda>p. pe_address_id p = Some (row_id a)) (pe_address_id_update (\<lambda>_. None)) (persons s),
             schools := update_where (\<lambda>x. sc_address_id x = Some (row_id a)) (sc_address_id_update (\<lambda>_. None)) (schools s)\<rparr>
           else s)))"

definition address_missing :: error where
  "address_missing = NotFoundError ''ADDRESS_NOT_FOUND''"

definition get_address_owned :: "request_context \<Rightarrow> ulid \<Rightarrow> db \<Rightarrow> address result" where
  "get_address_owned ctx i s = (case organization_id ctx of
     None \<Rightarrow> Inl address_missing
   | Some org \<Rightarrow> ok_or address_missing (address_by_id s (Some org) i))"

section \<open>Contacts\<close>

fun contact_type_value :: "contact_type \<Rightarrow> string" where
  "contact_type_value CT_PHONE = ''PHONE''"
| "contact_type_value CT_EMAIL = ''EMAIL''"
| "contact_type_value CT_WHATSAPP = ''WHATSAPP''"

definition contact_snapshot :: "contact \<Rightarrow> snapshot" where
  "contact_snapshot c = [(''entity_type'', JStr (ct_entity_type c)), (''entity_id'', JStr (ct_entity_id c)),
     (''contact_type'', JStr (contact_type_value (ct_contact_type c))), (''value'', JStr (ct_value c)),
     (''label'', nullable (ct_label c)), (''is_primary'', JBool (ct_is_primary c)), (''is_emergency'', JBool (ct_is_emergency c))]"

record contact_create =
  nc_entity_type :: string
  nc_entity_id :: ulid
  nc_contact_type :: contact_type
  nc_value :: string
  nc_label :: "string option"
  nc_is_primary :: bool
  nc_is_emergency :: bool

record contact_update =
  nu_contact_type :: "contact_type option"
  nu_value :: "string option"
  nu_label :: "string option"
  nu_is_primary :: "bool option"
  nu_is_emergency :: "bool option"

definition contact_by_id :: "db \<Rightarrow> ulid \<Rightarrow> ulid \<Rightarrow> contact option" where
  "contact_by_id s org i = find (\<lambda>c. row_id c = i \<and> ct_organization_id c = org) (contacts s)"

definition contact_exists :: "db \<Rightarrow> ulid \<Rightarrow> contact_create \<Rightarrow> bool" where
  "contact_exists s org data = (find (\<lambda>c. ct_organization_id c = org \<and> ct_entity_type c = nc_entity_type data \<and>
     ct_entity_id c = nc_entity_id data \<and> ct_contact_type c = nc_contact_type data \<and> ct_value c = nc_value data) (contacts s) \<noteq> None)"

definition flush_contacts :: "contact list \<Rightarrow> contact list result" where
  "flush_contacts t = constrained (uq_contacts_entity t) ''uq_contacts_entity_type_entity_id_contact_type_value'' t"

definition new_contact :: "env \<Rightarrow> ulid \<Rightarrow> contact_create \<Rightarrow> db \<Rightarrow> contact" where
  "new_contact env org data s =
     \<lparr>row_id = new_id env ''contacts'' (contacts s), created_at = env_now env, updated_at = env_now env,
      ct_entity_type = nc_entity_type data, ct_entity_id = nc_entity_id data, ct_organization_id = org,
      ct_contact_type = nc_contact_type data, ct_value = nc_value data, ct_label = nc_label data,
      ct_is_primary = nc_is_primary data, ct_is_emergency = nc_is_emergency data, ct_verified_at = None\<rparr>"

definition create_contact :: "env \<Rightarrow> request_context \<Rightarrow> contact_create \<Rightarrow> db \<Rightarrow> (contact \<times> db) result" where
  "create_contact env ctx data s = (case organization_id ctx of
     None \<Rightarrow> Inl no_organization_set
   | Some org \<Rightarrow>
       if nc_entity_type data \<notin> set allowed_entity_types then Inl (InvalidRequestError ''UNSUPPORTED_ENTITY_TYPE'')
       else bind_ok (assert_entity_owned s (Some org) (nc_entity_type data) (nc_entity_id data)) (\<lambda>_.
         if contact_exists s org data then Inl (ConflictError ''CONTACT_EXISTS'')
         else let c = new_contact env org data s in
           bind_ok (flush_contacts (insert_row c (contacts s))) (\<lambda>t.
             Inr (c, audit env ctx ''CONTACT_CREATED'' ''contact'' (Some (row_id c)) None (Some (contact_snapshot c))
               (s\<lparr>contacts := t\<rparr>)))))"

definition contact_payload :: "contact_update \<Rightarrow> contact \<Rightarrow> contact" where
  "contact_payload data c =
     assign ct_is_emergency_update (nu_is_emergency data) (assign ct_is_primary_update (nu_is_primary data)
       (assign ct_label_update (map_option Some (nu_label data)) (assign ct_value_update (nu_value data)
         (assign ct_contact_type_update (nu_contact_type data) c))))"

text \<open>A contact has no version: the last writer wins.\<close>

definition save_contact :: "env \<Rightarrow> contact \<Rightarrow> contact \<Rightarrow> contact" where
  "save_contact env old new = (if new = old then old else new\<lparr>updated_at := env_now env\<rparr>)"

definition update_contact ::
  "env \<Rightarrow> request_context \<Rightarrow> contact \<Rightarrow> contact_update \<Rightarrow> db \<Rightarrow> (contact \<times> db) result" where
  "update_contact env ctx c data s =
     (let c' = save_contact env c (contact_payload data c) in
      bind_ok (flush_contacts (update_row c' (contacts s))) (\<lambda>t.
        Inr (c', audit env ctx ''CONTACT_UPDATED'' ''contact'' (Some (row_id c')) (Some (contact_snapshot c))
          (Some (contact_snapshot c')) (s\<lparr>contacts := t\<rparr>))))"

definition delete_contact :: "env \<Rightarrow> request_context \<Rightarrow> contact \<Rightarrow> db \<Rightarrow> (unit \<times> db) result" where
  "delete_contact env ctx c s =
     Inr ((), audit env ctx ''CONTACT_DELETED'' ''contact'' (Some (row_id c)) (Some (contact_snapshot c)) None
       (s\<lparr>contacts := filter (\<lambda>x. \<not> (row_id x = row_id c \<and> Some (ct_organization_id x) = organization_id ctx)) (contacts s)\<rparr>))"

definition contact_missing :: error where
  "contact_missing = NotFoundError ''CONTACT_NOT_FOUND''"

definition get_contact_owned :: "request_context \<Rightarrow> ulid \<Rightarrow> db \<Rightarrow> contact result" where
  "get_contact_owned ctx i s = (case organization_id ctx of
     None \<Rightarrow> Inl contact_missing
   | Some org \<Rightarrow> ok_or contact_missing (contact_by_id s org i))"

section \<open>Persons\<close>

fun person_status_value :: "person_status \<Rightarrow> string" where
  "person_status_value PE_ACTIVE = ''ACTIVE''"
| "person_status_value PE_INACTIVE = ''INACTIVE''"
| "person_status_value PE_DECEASED = ''DECEASED''"
| "person_status_value PE_MERGED = ''MERGED''"

definition person_snapshot :: "person \<Rightarrow> snapshot" where
  "person_snapshot p = [(''first_name'', JStr (pe_first_name p)), (''middle_name'', nullable (pe_middle_name p)),
     (''last_name'', nullable (pe_last_name p)), (''preferred_name'', nullable (pe_preferred_name p)),
     (''date_of_birth'', raw_date (pe_date_of_birth p)), (''gender'', nullable (pe_gender p)),
     (''blood_group'', nullable (pe_blood_group p)), (''nationality'', nullable (pe_nationality p)),
     (''primary_phone'', nullable (pe_primary_phone p)), (''primary_email'', nullable (pe_primary_email p)),
     (''address_id'', nullable (pe_address_id p)), (''status'', JStr (person_status_value (pe_status p)))]"

record person_create =
  jc_first_name :: string
  jc_middle_name :: "string option"
  jc_last_name :: "string option"
  jc_preferred_name :: "string option"
  jc_date_of_birth :: "date option"
  jc_gender :: "string option"
  jc_blood_group :: "string option"
  jc_nationality :: "string option"
  jc_primary_phone :: "string option"
  jc_primary_email :: "string option"
  jc_address_id :: "ulid option"

record person_update =
  ju_first_name :: "string option"
  ju_middle_name :: "string option"
  ju_last_name :: "string option"
  ju_preferred_name :: "string option"
  ju_date_of_birth :: "date option"
  ju_gender :: "string option"
  ju_blood_group :: "string option"
  ju_nationality :: "string option"
  ju_primary_phone :: "string option"
  ju_primary_email :: "string option"
  ju_address_id :: "ulid option"
  ju_version :: int

record person_merge =
  jm_target_person_id :: ulid
  jm_version :: int

definition assert_address_owned :: "db \<Rightarrow> ulid option \<Rightarrow> ulid option \<Rightarrow> unit result" where
  "assert_address_owned s org i =
     guard (truthy i \<and> address_by_id s org (the i) = None) (NotFoundError ''ADDRESS_NOT_FOUND'')"

definition new_person :: "env \<Rightarrow> request_context \<Rightarrow> ulid \<Rightarrow> person_create \<Rightarrow> db \<Rightarrow> person" where
  "new_person env ctx org data s =
     \<lparr>row_id = new_id env ''persons'' (persons s), created_at = env_now env, updated_at = env_now env,
      created_by_id = Some (user_id ctx), updated_by_id = None, version = 1, archived_at = None, deleted_at = None,
      pe_organization_id = org, pe_first_name = jc_first_name data, pe_middle_name = jc_middle_name data,
      pe_last_name = jc_last_name data, pe_preferred_name = jc_preferred_name data,
      pe_date_of_birth = jc_date_of_birth data, pe_gender = jc_gender data, pe_blood_group = jc_blood_group data,
      pe_nationality = jc_nationality data, pe_primary_phone = jc_primary_phone data,
      pe_primary_email = jc_primary_email data, pe_address_id = jc_address_id data, pe_photo_document_id = None,
      pe_status = PE_ACTIVE, pe_merged_into_person_id = None\<rparr>"

definition create_person :: "env \<Rightarrow> request_context \<Rightarrow> person_create \<Rightarrow> db \<Rightarrow> (person \<times> db) result" where
  "create_person env ctx data s = (case organization_id ctx of
     None \<Rightarrow> Inl no_organization_set
   | Some org \<Rightarrow>
       bind_ok (assert_address_owned s (Some org) (jc_address_id data)) (\<lambda>_.
         let p = new_person env ctx org data s in
         Inr (p, audit env ctx ''PERSON_CREATED'' ''person'' (Some (row_id p)) None (Some (person_snapshot p))
           (s\<lparr>persons := insert_row p (persons s)\<rparr>))))"

definition person_payload :: "person_update \<Rightarrow> person \<Rightarrow> person" where
  "person_payload data p =
     assign pe_address_id_update (map_option Some (ju_address_id data))
       (assign pe_primary_email_update (map_option Some (ju_primary_email data))
         (assign pe_primary_phone_update (map_option Some (ju_primary_phone data))
           (assign pe_nationality_update (map_option Some (ju_nationality data))
             (assign pe_blood_group_update (map_option Some (ju_blood_group data))
               (assign pe_gender_update (map_option Some (ju_gender data))
                 (assign pe_date_of_birth_update (map_option Some (ju_date_of_birth data))
                   (assign pe_preferred_name_update (map_option Some (ju_preferred_name data))
                     (assign pe_last_name_update (map_option Some (ju_last_name data))
                       (assign pe_middle_name_update (map_option Some (ju_middle_name data))
                         (assign pe_first_name_update (ju_first_name data) p))))))))))"

definition update_person ::
  "env \<Rightarrow> request_context \<Rightarrow> person \<Rightarrow> person_update \<Rightarrow> db \<Rightarrow> (person \<times> db) result" where
  "update_person env ctx p data s =
     (if version p \<noteq> ju_version data then Inl StaleResourceError
      else bind_ok (assert_address_owned s (organization_id ctx) (ju_address_id data)) (\<lambda>_.
        let p' = save_row env ctx p (person_payload data p) in
        Inr (p', audit env ctx ''PERSON_UPDATED'' ''person'' (Some (row_id p')) (Some (person_snapshot p))
          (Some (person_snapshot p')) (s\<lparr>persons := update_row p' (persons s)\<rparr>))))"

definition delete_person :: "env \<Rightarrow> request_context \<Rightarrow> person \<Rightarrow> int \<Rightarrow> db \<Rightarrow> (unit \<times> db) result" where
  "delete_person env ctx p ver s =
     (if version p \<noteq> ver then Inl StaleResourceError
      else Inr ((), audit env ctx ''PERSON_DELETED'' ''person'' (Some (row_id p)) (Some (person_snapshot p)) None
        (s\<lparr>persons := update_row (soft_delete env ctx p) (persons s)\<rparr>)))"

text \<open>Only the row itself is marked; the records that name it stay.\<close>

definition merged_row :: "env \<Rightarrow> request_context \<Rightarrow> person \<Rightarrow> ulid \<Rightarrow> person" where
  "merged_row env ctx p target = save_row env ctx p (p\<lparr>pe_status := PE_MERGED, pe_merged_into_person_id := Some target\<rparr>)"

definition merge_person ::
  "env \<Rightarrow> request_context \<Rightarrow> person \<Rightarrow> person_merge \<Rightarrow> db \<Rightarrow> (person \<times> db) result" where
  "merge_person env ctx p data s =
     (if version p \<noteq> jm_version data then Inl StaleResourceError
      else if row_id p = jm_target_person_id data then Inl (ConflictError ''PERSON_MERGE_SELF'')
      else bind_ok (get_person (organization_id ctx) (jm_target_person_id data) s) (\<lambda>target.
        let p' = merged_row env ctx p (row_id target) in
        Inr (p', audit env ctx ''PERSON_MERGED'' ''person'' (Some (row_id p')) (Some (person_snapshot p))
          (Some (person_snapshot p')) (s\<lparr>persons := update_row p' (persons s)\<rparr>))))"

definition get_person_owned :: "request_context \<Rightarrow> ulid \<Rightarrow> db \<Rightarrow> person result" where
  "get_person_owned ctx i s = (case organization_id ctx of
     None \<Rightarrow> Inl (NotFoundError ''PERSON_NOT_FOUND'')
   | Some org \<Rightarrow> get_person (Some org) i s)"

section \<open>Facts\<close>

lemma save_row_person [simp]:
  "pe_organization_id (save_row env ctx x z) = pe_organization_id z" "pe_address_id (save_row env ctx x z) = pe_address_id z"
  "pe_merged_into_person_id (save_row env ctx x z) = pe_merged_into_person_id z" "deleted_at (save_row env ctx x z) = deleted_at z"
  "pe_status (save_row env ctx x z) = pe_status z"
  for x z :: person
  by (auto simp: save_row_def flush_versioned_def)

lemma soft_delete_person [simp]:
  "pe_organization_id (soft_delete env ctx x) = pe_organization_id x" "pe_address_id (soft_delete env ctx x) = pe_address_id x"
  "pe_merged_into_person_id (soft_delete env ctx x) = pe_merged_into_person_id x"
  for x :: person
  by (simp_all add: soft_delete_def)

lemma person_payload_fields [simp]:
  "row_id (person_payload d p) = row_id p" "pe_organization_id (person_payload d p) = pe_organization_id p"
  "pe_merged_into_person_id (person_payload d p) = pe_merged_into_person_id p" "deleted_at (person_payload d p) = deleted_at p"
  "pe_address_id (person_payload d p) = (case ju_address_id d of None \<Rightarrow> pe_address_id p | Some a \<Rightarrow> Some a)"
  by (simp_all add: person_payload_def assign_def split: option.split)

lemma address_payload_fields [simp]:
  "row_id (address_payload d a) = row_id a" "ad_entity_type (address_payload d a) = ad_entity_type a"
  "ad_entity_id (address_payload d a) = ad_entity_id a" "ad_organization_id (address_payload d a) = ad_organization_id a"
  by (simp_all add: address_payload_def assign_def split: option.split)

lemma save_address_fields [simp]:
  "row_id (save_address env a b) = row_id b" "ad_entity_type (save_address env a b) = ad_entity_type b"
  "ad_entity_id (save_address env a b) = ad_entity_id b" "ad_organization_id (save_address env a b) = ad_organization_id b"
  by (simp_all add: save_address_def)

lemma contact_payload_fields [simp]:
  "row_id (contact_payload d c) = row_id c" "ct_entity_type (contact_payload d c) = ct_entity_type c"
  "ct_entity_id (contact_payload d c) = ct_entity_id c" "ct_organization_id (contact_payload d c) = ct_organization_id c"
  by (simp_all add: contact_payload_def assign_def split: option.split)

lemma save_contact_fields [simp]:
  "row_id (save_contact env c b) = row_id b" "ct_entity_type (save_contact env c b) = ct_entity_type b"
  "ct_entity_id (save_contact env c b) = ct_entity_id b" "ct_organization_id (save_contact env c b) = ct_organization_id b"
  by (simp_all add: save_contact_def)

lemma get_person_Inr: "get_person org i s = Inr p \<Longrightarrow>
    p \<in> set (persons s) \<and> row_id p = i \<and> org = Some (pe_organization_id p) \<and> deleted_at p = None"
  by (auto simp: get_person_def ok_or_Inr_iff dest: find_SomeD)

lemma get_person_owned_Inr: "get_person_owned ctx i s = Inr p \<Longrightarrow>
    p \<in> set (persons s) \<and> row_id p = i \<and> organization_id ctx = Some (pe_organization_id p) \<and> deleted_at p = None"
  using get_person_Inr[of _ i s p] by (auto simp: get_person_owned_def split: option.splits)

lemma get_address_owned_Inr: "get_address_owned ctx i s = Inr a \<Longrightarrow>
    a \<in> set (addresses s) \<and> row_id a = i \<and> organization_id ctx = Some (ad_organization_id a)"
  by (auto simp: get_address_owned_def address_by_id_def ok_or_Inr_iff split: option.splits dest!: find_SomeD)

lemma get_contact_owned_Inr: "get_contact_owned ctx i s = Inr c \<Longrightarrow> c \<in> set (contacts s)"
  by (auto simp: get_contact_owned_def contact_by_id_def ok_or_Inr_iff split: option.splits dest!: find_SomeD)

section \<open>References between people\<close>

definition person_keys :: "db \<Rightarrow> (ulid \<times> ulid) set" where
  "person_keys s = (\<lambda>p. (row_id p, pe_organization_id p)) ` set (persons s)"

definition address_keys :: "db \<Rightarrow> (ulid \<times> ulid) set" where
  "address_keys s = (\<lambda>a. (row_id a, ad_organization_id a)) ` set (addresses s)"

definition school_keys :: "db \<Rightarrow> (ulid \<times> ulid) set" where
  "school_keys s = (\<lambda>x. (row_id x, sc_organization_id x)) ` set (schools s)"

definition owner_known :: "db \<Rightarrow> string \<Rightarrow> ulid \<Rightarrow> ulid \<Rightarrow> bool" where
  "owner_known s ty i org \<longleftrightarrow> ty = ''PERSON'' \<and> (i, org) \<in> person_keys s \<or> ty = ''SCHOOL'' \<and> (i, org) \<in> school_keys s"

definition person_refs :: "db \<Rightarrow> person \<Rightarrow> bool" where
  "person_refs s p \<longleftrightarrow> pe_address_id p \<in> insert None (Some ` {a. (a, pe_organization_id p) \<in> address_keys s}) \<and>
     pe_merged_into_person_id p \<in> insert None (Some ` {t. t \<noteq> row_id p \<and> (t, pe_organization_id p) \<in> person_keys s})"

definition people_inv :: "db \<Rightarrow> bool" where
  "people_inv s \<longleftrightarrow> pk_unique (persons s) \<and> pk_unique (addresses s) \<and> (\<forall>p\<in>set (persons s). person_refs s p) \<and>
     (\<forall>a\<in>set (addresses s). owner_known s (ad_entity_type a) (ad_entity_id a) (ad_organization_id a)) \<and>
     (\<forall>c\<in>set (contacts s). owner_known s (ct_entity_type c) (ct_entity_id c) (ct_organization_id c))"

lemma owner_known_mono: "owner_known s ty i org \<Longrightarrow> person_keys s \<subseteq> person_keys s' \<Longrightarrow> school_keys s \<subseteq> school_keys s' \<Longrightarrow>
    owner_known s' ty i org"
  by (auto simp: owner_known_def)

lemma person_refs_mono: "person_refs s p \<Longrightarrow> person_keys s \<subseteq> person_keys s' \<Longrightarrow> address_keys s \<subseteq> address_keys s' \<Longrightarrow> person_refs s' p"
  by (auto simp: person_refs_def)

text \<open>A step that loses no key keeps the references when the rows it writes have theirs.\<close>

lemma people_inv_grow:
  assumes "people_inv s" and "pk_unique (persons s')" and "pk_unique (addresses s')"
    and k: "person_keys s \<subseteq> person_keys s'" "address_keys s \<subseteq> address_keys s'" "school_keys s \<subseteq> school_keys s'"
    and "\<And>p. p \<in> set (persons s') \<Longrightarrow> p \<in> set (persons s) \<or> person_refs s p"
    and "\<And>a. a \<in> set (addresses s') \<Longrightarrow> a \<in> set (addresses s) \<or> owner_known s (ad_entity_type a) (ad_entity_id a) (ad_organization_id a)"
    and "\<And>c. c \<in> set (contacts s') \<Longrightarrow> c \<in> set (contacts s) \<or> owner_known s (ct_entity_type c) (ct_entity_id c) (ct_organization_id c)"
  shows "people_inv s'"
proof -
  have "person_refs s' p" if "p \<in> set (persons s')" for p
    by (rule person_refs_mono[OF _ k(1,2)]) (use assms(1,7) that in \<open>auto simp: people_inv_def\<close>)
  moreover have "owner_known s' (ad_entity_type a) (ad_entity_id a) (ad_organization_id a)" if "a \<in> set (addresses s')" for a
    by (rule owner_known_mono[OF _ k(1,3)]) (use assms(1,8) that in \<open>auto simp: people_inv_def\<close>)
  moreover have "owner_known s' (ct_entity_type c) (ct_entity_id c) (ct_organization_id c)" if "c \<in> set (contacts s')" for c
    by (rule owner_known_mono[OF _ k(1,3)]) (use assms(1,9) that in \<open>auto simp: people_inv_def\<close>)
  ultimately show ?thesis using assms(2,3) by (simp add: people_inv_def)
qed

lemma assert_entity_owned_known:
  assumes "assert_entity_owned s (Some org) ty i = Inr u" and "ty \<in> set allowed_entity_types"
  shows "owner_known s ty i org"
proof -
  have "ty = ''PERSON'' \<or> ty = ''SCHOOL''" using assms(2) by (simp add: allowed_entity_types_def)
  then show ?thesis
  proof
    assume t: "ty = ''PERSON''"
    then obtain p where "get_person (Some org) i s = Inr p" using assms(1) by (auto simp: assert_entity_owned_def bind_ok_Inr_iff)
    from get_person_Inr[OF this] t show ?thesis by (auto simp: owner_known_def person_keys_def)
  next
    assume t: "ty = ''SCHOOL''"
    then obtain x where "school_by_id s org i = Some x" using assms(1) by (auto simp: assert_entity_owned_def split: if_splits)
    from school_by_id_SomeD[OF this] t show ?thesis by (auto simp: owner_known_def school_keys_def)
  qed
qed

lemma assert_address_owned_known:
  assumes "assert_address_owned s (Some org) i = Inr u" and "i \<noteq> Some []"
  shows "i \<in> insert None (Some ` {a. (a, org) \<in> address_keys s})"
proof (cases i)
  case (Some j)
  then obtain a where "address_by_id s (Some org) j = Some a" using assms by (auto simp: assert_address_owned_def truthy_def)
  then have "a \<in> set (addresses s)" "row_id a = j" "ad_organization_id a = org"
    by (auto simp: address_by_id_def dest: find_SomeD)
  then show ?thesis using Some by (auto simp: address_keys_def)
qed simp

text \<open>The column type refuses an empty key, so no request stores one.\<close>

inductive people_step :: "db \<Rightarrow> db \<Rightarrow> bool" where
  person_created: "create_person env ctx d s = Inr (p, s') \<Longrightarrow> jc_address_id d \<noteq> Some [] \<Longrightarrow>
    new_id env ''persons'' (persons s) \<notin> ids (persons s) \<Longrightarrow> people_step s s'"
| person_updated: "get_person_owned ctx i s = Inr p \<Longrightarrow> update_person env ctx p u s = Inr (p', s') \<Longrightarrow>
    ju_address_id u \<noteq> Some [] \<Longrightarrow> people_step s s'"
| person_deleted: "get_person_owned ctx i s = Inr p \<Longrightarrow> delete_person env ctx p v s = Inr (r, s') \<Longrightarrow> people_step s s'"
| person_merged: "get_person_owned ctx i s = Inr p \<Longrightarrow> merge_person env ctx p g s = Inr (p', s') \<Longrightarrow> people_step s s'"
| address_created: "create_address env ctx ad s = Inr (a, s') \<Longrightarrow>
    new_id env ''addresses'' (addresses s) \<notin> ids (addresses s) \<Longrightarrow> people_step s s'"
| address_updated: "get_address_owned ctx i s = Inr a \<Longrightarrow> update_address env ctx a au s = Inr (a', s') \<Longrightarrow> people_step s s'"
| address_deleted: "get_address_owned ctx i s = Inr a \<Longrightarrow> delete_address env ctx a v s = Inr (r, s') \<Longrightarrow> people_step s s'"
| contact_created: "create_contact env ctx cd s = Inr (c, s') \<Longrightarrow> people_step s s'"
| contact_updated: "get_contact_owned ctx i s = Inr c \<Longrightarrow> update_contact env ctx c cu s = Inr (c', s') \<Longrightarrow> people_step s s'"
| contact_deleted: "get_contact_owned ctx i s = Inr c \<Longrightarrow> delete_contact env ctx c s = Inr (r, s') \<Longrightarrow> people_step s s'"

lemma people_inv_person_write:
  assumes "people_inv s" and "p \<in> set (persons s)" and "row_id p' = row_id p" and "pe_organization_id p' = pe_organization_id p"
    and "person_refs s p'" and "persons s' = update_row p' (persons s)" and "addresses s' = addresses s"
    and "contacts s' = contacts s" and "schools s' = schools s"
  shows "people_inv s'"
proof (rule people_inv_grow[OF assms(1)])
  have pk: "pk_unique (persons s)" using assms(1) by (simp add: people_inv_def)
  show "pk_unique (persons s')" "pk_unique (addresses s')" using assms(1,6,7) by (simp_all add: people_inv_def)
  have "(\<lambda>p. (row_id p, pe_organization_id p)) ` set (update_row p' (persons s)) = (\<lambda>p. (row_id p, pe_organization_id p)) ` set (persons s)"
    by (rule image_update_row[OF pk assms(2,3)]) (use assms(3,4) in simp)
  then show "person_keys s \<subseteq> person_keys s'" by (simp add: person_keys_def assms(6))
  show "address_keys s \<subseteq> address_keys s'" "school_keys s \<subseteq> school_keys s'"
    by (simp_all add: address_keys_def school_keys_def assms(7,9))
  show "q \<in> set (persons s) \<or> person_refs s q" if "q \<in> set (persons s')" for q
    using that set_update_row_subset[of q p' "persons s"] assms(5,6) by auto
qed (use assms(7,8) in simp_all)

lemma delete_address_inv:
  assumes "people_inv s" and "a \<in> set (addresses s)" and "organization_id ctx = Some (ad_organization_id a)"
    and "delete_address env ctx a v s = Inr (r, s')"
  shows "people_inv s'"
proof -
  let ?gone = "\<lambda>x. row_id x = row_id a \<and> Some (ad_organization_id x) = organization_id ctx"
  let ?f = "pe_address_id_update (\<lambda>_. None)"
  have pk: "pk_unique (persons s)" "pk_unique (addresses s)" using assms(1) by (simp_all add: people_inv_def)
  have "list_ex ?gone (addresses s)" using assms(2,3) by (auto simp: list_ex_iff)
  then have t: "addresses s' = filter (\<lambda>x. \<not> ?gone x) (addresses s)" "contacts s' = contacts s"
    "persons s' = update_where (\<lambda>p. pe_address_id p = Some (row_id a)) ?f (persons s)"
    "schools s' = update_where (\<lambda>x. sc_address_id x = Some (row_id a)) (sc_address_id_update (\<lambda>_. None)) (schools s)"
    using assms(4) by (auto simp: delete_address_def Let_def split: if_splits)
  have gone: "?gone x \<longleftrightarrow> x = a" if "x \<in> set (addresses s)" for x
    using pk_unique_inj[OF pk(2) that assms(2)] assms(3) by auto
  have pkeys: "person_keys s' = person_keys s" unfolding person_keys_def t(3) set_update_where image_image
    by (intro image_cong) auto
  have skeys: "school_keys s' = school_keys s" unfolding school_keys_def t(4) set_update_where image_image
    by (intro image_cong) auto
  have ids: "map row_id (persons s') = map row_id (persons s)" unfolding t(3) update_where_def by simp
  have "pk_unique (persons s')" using pk(1) ids by (simp add: pk_unique_def)
  moreover have "pk_unique (addresses s')" using pk(2) by (simp add: t(1) pk_unique_def distinct_map_filter)
  moreover have "person_refs s' p'" if "p' \<in> set (persons s')" for p'
  proof -
    from that obtain p where p: "p \<in> set (persons s)" "p' = (if pe_address_id p = Some (row_id a) then ?f p else p)"
      unfolding t(3) set_update_where by blast
    have r: "person_refs s p" using assms(1) p(1) by (simp add: people_inv_def)
    have "(b, org) \<in> address_keys s'" if "(b, org) \<in> address_keys s" "b \<noteq> row_id a" for b org
      using that by (auto simp: address_keys_def t(1))
    then show ?thesis using r p(2) by (auto simp: person_refs_def pkeys)
  qed
  moreover have "owner_known s' ty i org = owner_known s ty i org" for ty i org
    by (simp add: owner_known_def pkeys skeys)
  ultimately show ?thesis using assms(1) by (auto simp: people_inv_def t(1,2))
qed

lemma people_inv_same_persons:
  assumes "people_inv s" and "persons s' = persons s" and "schools s' = schools s" and "pk_unique (addresses s')"
    and "address_keys s \<subseteq> address_keys s'"
    and "\<And>a. a \<in> set (addresses s') \<Longrightarrow> a \<in> set (addresses s) \<or> owner_known s (ad_entity_type a) (ad_entity_id a) (ad_organization_id a)"
    and "\<And>c. c \<in> set (contacts s') \<Longrightarrow> c \<in> set (contacts s) \<or> owner_known s (ct_entity_type c) (ct_entity_id c) (ct_organization_id c)"
  shows "people_inv s'"
  by (rule people_inv_grow[OF assms(1)]) (use assms in \<open>simp_all add: people_inv_def person_keys_def school_keys_def\<close>)

lemma people_step_preserves:
  assumes "people_inv s" and "people_step s s'"
  shows "people_inv s'"
proof -
  have pk: "pk_unique (persons s)" "pk_unique (addresses s)" and
    owners: "\<And>a. a \<in> set (addresses s) \<Longrightarrow> owner_known s (ad_entity_type a) (ad_entity_id a) (ad_organization_id a)"
      "\<And>c. c \<in> set (contacts s) \<Longrightarrow> owner_known s (ct_entity_type c) (ct_entity_id c) (ct_organization_id c)"
    and refs: "\<And>p. p \<in> set (persons s) \<Longrightarrow> person_refs s p"
    using assms(1) by (simp_all add: people_inv_def)
  show ?thesis using assms(2)
  proof (cases rule: people_step.cases)
    case (person_created env ctx d p)
    from person_created(1) obtain org where c: "assert_address_owned s (Some org) (jc_address_id d) = Inr ()"
      "p = new_person env ctx org d s" "persons s' = insert_row p (persons s)" "addresses s' = addresses s"
      "contacts s' = contacts s" "schools s' = schools s"
      by (auto simp: create_person_def bind_ok_Inr_iff Let_def split: option.splits)
    have "person_refs s p" using assert_address_owned_known[OF c(1) person_created(2)]
      by (simp add: person_refs_def c(2) new_person_def)
    moreover have "row_id p \<notin> ids (persons s)" using person_created(3) by (simp add: c(2) new_person_def)
    ultimately show ?thesis
      by (intro people_inv_grow[OF assms(1)])
        (use c(3-6) pk in \<open>auto simp: person_keys_def address_keys_def school_keys_def set_insert_row\<close>)
  next
    case (person_updated ctx i p env u p')
    note g = get_person_owned_Inr[OF person_updated(1)]
    from person_updated(2) have c: "assert_address_owned s (Some (pe_organization_id p)) (ju_address_id u) = Inr ()"
      "p' = save_row env ctx p (person_payload u p)" "persons s' = update_row p' (persons s)" "addresses s' = addresses s"
      "contacts s' = contacts s" "schools s' = schools s"
      using g by (auto simp: update_person_def bind_ok_Inr_iff Let_def split: if_splits)
    have "person_refs s p'" using assert_address_owned_known[OF c(1) person_updated(3)] refs[of p] g
      by (auto simp: person_refs_def c(2) split: option.splits)
    then show ?thesis by (intro people_inv_person_write[OF assms(1), of p p']) (use g c in simp_all)
  next
    case (person_deleted ctx i p env v r)
    note g = get_person_owned_Inr[OF person_deleted(1)]
    let ?p = "soft_delete env ctx p"
    from person_deleted(2) have c: "persons s' = update_row ?p (persons s)" "addresses s' = addresses s"
      "contacts s' = contacts s" "schools s' = schools s" by (auto simp: delete_person_def split: if_splits)
    have "person_refs s ?p" using refs[of p] g by (simp add: person_refs_def)
    then show ?thesis by (intro people_inv_person_write[OF assms(1), of p ?p]) (use g c in simp_all)
  next
    case (person_merged ctx i p env m p')
    note g = get_person_owned_Inr[OF person_merged(1)]
    from person_merged(2) obtain t where c: "get_person (Some (pe_organization_id p)) (jm_target_person_id m) s = Inr t"
      "row_id p \<noteq> jm_target_person_id m" "p' = merged_row env ctx p (row_id t)" "persons s' = update_row p' (persons s)"
      "addresses s' = addresses s" "contacts s' = contacts s" "schools s' = schools s"
      using g by (auto simp: merge_person_def bind_ok_Inr_iff Let_def split: if_splits)
    note t = get_person_Inr[OF c(1)]
    have "(row_id t, pe_organization_id p) \<in> person_keys s" unfolding person_keys_def
      by (rule image_eqI[of _ _ t]) (use t in simp_all)
    then have "person_refs s p'" using refs[of p] g c(2) t by (auto simp: person_refs_def c(3) merged_row_def)
    then show ?thesis by (intro people_inv_person_write[OF assms(1), of p p']) (use g c(3-) in \<open>simp_all add: merged_row_def\<close>)
  next
    case (address_created env ctx d a)
    from address_created(1) obtain org where c: "assert_entity_owned s (Some org) (ac_entity_type d) (ac_entity_id d) = Inr ()"
      "ac_entity_type d \<in> set allowed_entity_types" "a = new_address env org d s" "addresses s' = insert_row a (addresses s)"
      "persons s' = persons s" "contacts s' = contacts s" "schools s' = schools s"
      by (auto simp: create_address_def bind_ok_Inr_iff Let_def split: option.splits if_splits)
    have "owner_known s (ad_entity_type a) (ad_entity_id a) (ad_organization_id a)"
      using assert_entity_owned_known[OF c(1,2)] by (simp add: c(3) new_address_def)
    moreover have "row_id a \<notin> ids (addresses s)" using address_created(2) by (simp add: c(3) new_address_def)
    ultimately show ?thesis
      by (intro people_inv_same_persons[OF assms(1)]) (use c(4-7) pk in \<open>auto simp: address_keys_def set_insert_row\<close>)
  next
    case (address_updated ctx i a env u a')
    note g = get_address_owned_Inr[OF address_updated(1)]
    from address_updated(2) have c: "a' = save_address env a (address_payload u a)" "addresses s' = update_row a' (addresses s)"
      "persons s' = persons s" "contacts s' = contacts s" "schools s' = schools s"
      by (auto simp: update_address_def Let_def split: if_splits)
    have f: "row_id a' = row_id a" "ad_entity_type a' = ad_entity_type a" "ad_entity_id a' = ad_entity_id a"
      "ad_organization_id a' = ad_organization_id a" by (simp_all add: c(1))
    show ?thesis
    proof (rule people_inv_same_persons[OF assms(1)])
      have "(\<lambda>a. (row_id a, ad_organization_id a)) ` set (update_row a' (addresses s)) =
          (\<lambda>a. (row_id a, ad_organization_id a)) ` set (addresses s)"
        by (rule image_update_row[OF pk(2) conjunct1[OF g] f(1)]) (use f in simp)
      then show "address_keys s \<subseteq> address_keys s'" by (simp add: address_keys_def c(2))
      show "b \<in> set (addresses s) \<or> owner_known s (ad_entity_type b) (ad_entity_id b) (ad_organization_id b)"
        if "b \<in> set (addresses s')" for b
        using that set_update_row_subset[of b a' "addresses s"] owners(1)[of a] g f c(2) by auto
    qed (use c pk in simp_all)
  next
    case (address_deleted ctx i a env v r)
    note g = get_address_owned_Inr[OF address_deleted(1)]
    show ?thesis by (rule delete_address_inv[OF assms(1) _ _ address_deleted(2)]) (use g in blast)+
  next
    case (contact_created env ctx d c)
    from contact_created obtain org where t: "assert_entity_owned s (Some org) (nc_entity_type d) (nc_entity_id d) = Inr ()"
      "nc_entity_type d \<in> set allowed_entity_types" "c = new_contact env org d s" "contacts s' = insert_row c (contacts s)"
      "persons s' = persons s" "addresses s' = addresses s" "schools s' = schools s"
      by (auto simp: create_contact_def bind_ok_Inr_iff Let_def flush_contacts_def split: option.splits if_splits)
    have "owner_known s (ct_entity_type c) (ct_entity_id c) (ct_organization_id c)"
      using assert_entity_owned_known[OF t(1,2)] by (simp add: t(3) new_contact_def)
    then show ?thesis
      by (intro people_inv_same_persons[OF assms(1)]) (use t(4-7) pk in \<open>auto simp: address_keys_def set_insert_row\<close>)
  next
    case (contact_updated ctx i c env u c')
    note g = get_contact_owned_Inr[OF contact_updated(1)]
    from contact_updated(2) have t: "c' = save_contact env c (contact_payload u c)" "contacts s' = update_row c' (contacts s)"
      "persons s' = persons s" "addresses s' = addresses s" "schools s' = schools s"
      by (auto simp: update_contact_def bind_ok_Inr_iff Let_def flush_contacts_def)
    have "owner_known s (ct_entity_type c') (ct_entity_id c') (ct_organization_id c')" using owners(2)[OF g] by (simp add: t(1))
    then show ?thesis
      by (intro people_inv_same_persons[OF assms(1)])
        (use t(2-5) pk set_update_row_subset[of _ c' "contacts s"] in \<open>auto simp: address_keys_def\<close>)
  next
    case (contact_deleted ctx i c env r)
    from contact_deleted(2) have t: "set (contacts s') \<subseteq> set (contacts s)" "persons s' = persons s" "addresses s' = addresses s"
      "schools s' = schools s" by (auto simp: delete_contact_def)
    then show ?thesis by (intro people_inv_same_persons[OF assms(1)]) (use pk in \<open>auto simp: address_keys_def\<close>)
  qed
qed

interpretation people: invariant_system people_step people_inv
  by unfold_locales (rule people_step_preserves)

section \<open>Properties\<close>

text \<open>
  Over any sequence of operations the address a person has and the person it was merged into
  exist in its organization, and so do the owners of all addresses and contacts.
\<close>

theorem people_references_hold:
  assumes "people_inv s" and "people_step\<^sup>*\<^sup>* s s'"
  shows "list_all (person_refs s') (persons s') \<and>
    list_all (\<lambda>a. owner_known s' (ad_entity_type a) (ad_entity_id a) (ad_organization_id a)) (addresses s') \<and>
    list_all (\<lambda>c. owner_known s' (ct_entity_type c) (ct_entity_id c) (ct_organization_id c)) (contacts s')"
  using people.reach_inv[OF assms(2,1)] by (simp add: people_inv_def list_all_iff)

definition sample_person :: "string \<Rightarrow> ulid option \<Rightarrow> person_create" where
  "sample_person n a = \<lparr>jc_first_name = n, jc_middle_name = None, jc_last_name = None, jc_preferred_name = None,
     jc_date_of_birth = None, jc_gender = None, jc_blood_group = None, jc_nationality = None,
     jc_primary_phone = None, jc_primary_email = None, jc_address_id = a\<rparr>"

definition sample_home :: address_create where
  "sample_home = \<lparr>ac_entity_type = ''PERSON'', ac_entity_id = ''persons'', ac_address_type = AD_RESIDENTIAL, ac_line1 = None,
     ac_line2 = None, ac_landmark = None, ac_city = Some ''Pune'', ac_district = None, ac_state = None,
     ac_postal_code = None, ac_country_code = ''IN'', ac_is_primary = True\<rparr>"

definition sample_people1 :: "(person \<times> db) result" where
  "sample_people1 = create_person sample_audit_env school_context (sample_person ''Asha'' None) empty_db"

definition sample_people2 :: "(address \<times> db) result" where
  "sample_people2 = create_address sample_audit_env school_context sample_home (snd (projr sample_people1))"

definition sample_people3 :: "(person \<times> db) result" where
  "sample_people3 = create_person sample_audit_env school_context (sample_person ''Ravi'' (Some ''addresses'')) (snd (projr sample_people2))"

definition sample_people4 :: "(unit \<times> db) result" where
  "sample_people4 = delete_address sample_audit_env school_context (fst (projr sample_people2)) 1 (snd (projr sample_people3))"

lemma sample_people_steps: "people_step\<^sup>*\<^sup>* empty_db (snd (projr sample_people4))"
proof -
  have ok: "is_ok sample_people1" "is_ok sample_people2" "is_ok sample_people3" "is_ok sample_people4" by code_simp+
  have f: "new_id sample_audit_env ''persons'' (persons empty_db) \<notin> ids (persons empty_db)"
    "new_id sample_audit_env ''addresses'' (addresses (snd (projr sample_people1))) \<notin> ids (addresses (snd (projr sample_people1)))"
    "new_id sample_audit_env ''persons'' (persons (snd (projr sample_people2))) \<notin> ids (persons (snd (projr sample_people2)))" by code_simp+
  have a: "jc_address_id (sample_person ''Asha'' None) \<noteq> Some []" "jc_address_id (sample_person ''Ravi'' (Some ''addresses'')) \<noteq> Some []"
    by code_simp+
  have g: "get_address_owned school_context ''addresses'' (snd (projr sample_people3)) = Inr (fst (projr sample_people2))" by code_simp
  have "people_step empty_db (snd (projr sample_people1))" unfolding sample_people1_def
    by (rule people_step.person_created[OF ok_projr[OF ok(1)[unfolded sample_people1_def]] a(1) f(1)])
  moreover have "people_step (snd (projr sample_people1)) (snd (projr sample_people2))" unfolding sample_people2_def
    by (rule people_step.address_created[OF ok_projr[OF ok(2)[unfolded sample_people2_def]] f(2)])
  moreover have "people_step (snd (projr sample_people2)) (snd (projr sample_people3))" unfolding sample_people3_def
    by (rule people_step.person_created[OF ok_projr[OF ok(3)[unfolded sample_people3_def]] a(2) f(3)])
  moreover have "people_step (snd (projr sample_people3)) (snd (projr sample_people4))" unfolding sample_people4_def
    by (rule people_step.address_deleted[OF g ok_projr[OF ok(4)[unfolded sample_people4_def]]])
  ultimately show ?thesis by (meson converse_rtranclp_into_rtranclp r_into_rtranclp)
qed

lemma people_references_hold_witness:
  "map pe_address_id (persons (snd (projr sample_people3))) = [None, Some ''addresses''] \<and>
   map pe_address_id (persons (snd (projr sample_people4))) = [None, None] \<and>
   list_all (person_refs (snd (projr sample_people4))) (persons (snd (projr sample_people4)))"
proof -
  have i: "people_inv empty_db" by (simp add: people_inv_def empty_db_def pk_unique_def)
  have "map pe_address_id (persons (snd (projr sample_people3))) = [None, Some ''addresses'']"
    "map pe_address_id (persons (snd (projr sample_people4))) = [None, None]" by code_simp+
  with people_references_hold[OF i sample_people_steps] show ?thesis by blast
qed

text \<open>
  Two live persons can be merged into each other: a merge does not look at the status of its
  target, so the first of two opposite merges does not stop the second, and both rows end marked as
  merged with no row left to stand for them.
\<close>

theorem opposite_merges_both_succeed:
  assumes "get_person_owned ctx i s = Inr p" and "get_person_owned ctx j s = Inr q" and "i \<noteq> j" and "pk_unique (persons s)"
  shows "\<exists>p' s1 q' s2. merge_person env ctx p \<lparr>jm_target_person_id = j, jm_version = version p\<rparr> s = Inr (p', s1) \<and>
    get_person_owned ctx j s1 = Inr q \<and> merge_person env ctx q \<lparr>jm_target_person_id = i, jm_version = version q\<rparr> s1 = Inr (q', s2) \<and>
    get_row i (persons s2) = Some p' \<and> get_row j (persons s2) = Some q' \<and> pe_status p' = PE_MERGED \<and> pe_status q' = PE_MERGED \<and>
    pe_merged_into_person_id p' = Some j \<and> pe_merged_into_person_id q' = Some i"
proof -
  note p = get_person_owned_Inr[OF assms(1)] and q = get_person_owned_Inr[OF assms(2)]
  let ?p = "merged_row env ctx p j" let ?q = "merged_row env ctx q i"
  have gp: "get_person (organization_id ctx) i s = Inr p" and gq: "get_person (organization_id ctx) j s = Inr q"
    using assms(1,2) by (auto simp: get_person_owned_def split: option.splits)
  have f: "row_id ?p = i" "deleted_at ?p = None" "pe_organization_id ?p = pe_organization_id p"
    "pe_status ?p = PE_MERGED" "pe_merged_into_person_id ?p = Some j" "row_id ?q = j"
    "pe_status ?q = PE_MERGED" "pe_merged_into_person_id ?q = Some i"
    using p q by (simp_all add: merged_row_def)
  obtain s1 where m1: "merge_person env ctx p \<lparr>jm_target_person_id = j, jm_version = version p\<rparr> s = Inr (?p, s1)"
    "persons s1 = update_row ?p (persons s)"
    using gq p q assms(3) by (simp add: merge_person_def Let_def)
  have mem: "?p \<in> set (persons s1)" "q \<in> set (persons s1)" and pk1: "pk_unique (persons s1)"
    using p q f assms(3,4) m1(2) set_update_row_mem[of p "persons s" ?p] set_update_row_other[of q "persons s" ?p] by auto
  have "get_person (organization_id ctx) j s1 = Inr q" unfolding get_person_def
    by (subst find_unique[of q]) (use mem q pk_unique_inj[OF pk1] in auto)
  then have o: "get_person_owned ctx j s1 = Inr q" using q by (simp add: get_person_owned_def)
  have "get_person (organization_id ctx) i s1 = Inr ?p" unfolding get_person_def
    by (subst find_unique[of ?p]) (use mem p f pk_unique_inj[OF pk1] in auto)
  then obtain s2 where m2: "merge_person env ctx q \<lparr>jm_target_person_id = i, jm_version = version q\<rparr> s1 = Inr (?q, s2)"
    "persons s2 = update_row ?q (persons s1)"
    using q f(1) assms(3) by (simp add: merge_person_def Let_def)
  have "get_row i (persons s2) = Some ?p" using get_row_mem[OF pk1 mem(1)] f assms(3) by (simp add: m2(2))
  moreover have "get_row j (persons s2) = Some ?q"
  proof -
    have "j \<in> ids (persons s1)" using mem(2) q by (metis ids_def imageI)
    then show ?thesis using f(6) by (simp add: m2(2))
  qed
  ultimately show ?thesis using m1(1) o m2(1) f by blast
qed

lemma opposite_merges_both_succeed_witness:
  "\<exists>p' s1 q' s2. merge_person sample_audit_env school_context (hd (persons (snd (projr sample_people3))))
     \<lparr>jm_target_person_id = ''persons+'', jm_version = 1\<rparr> (snd (projr sample_people3)) = Inr (p', s1) \<and>
   merge_person sample_audit_env school_context (last (persons (snd (projr sample_people3))))
     \<lparr>jm_target_person_id = ''persons'', jm_version = 1\<rparr> s1 = Inr (q', s2) \<and>
   pe_merged_into_person_id p' = Some ''persons+'' \<and> pe_merged_into_person_id q' = Some ''persons''"
proof -
  let ?s = "snd (projr sample_people3)"
  have g: "get_person_owned school_context ''persons'' ?s = Inr (hd (persons ?s))"
    "get_person_owned school_context ''persons+'' ?s = Inr (last (persons ?s))" "(''persons'' :: ulid) \<noteq> ''persons+''" by code_simp+
  have u: "pk_unique (persons ?s)" unfolding pk_unique_def by code_simp
  have v: "version (hd (persons ?s)) = 1" "version (last (persons ?s)) = 1" by code_simp+
  from opposite_merges_both_succeed[OF g u, of sample_audit_env] show ?thesis unfolding v by blast
qed

text \<open>
  No person with a date of birth is ever created: the audit row of the creation holds the date
  as an object JSON cannot serialise, and the request ends in an internal error without a person.
\<close>

theorem birthday_never_commits:
  assumes "jc_date_of_birth d \<noteq> None"
  shows "snd (run_request (create_person env ctx d) s) = s \<and> \<not> is_ok (fst (run_request (create_person env ctx d) s))"
proof (rule run_request_refused)
  fix p s' assume "create_person env ctx d s = Inr (p, s')"
  then obtain org where "s' = audit env ctx ''PERSON_CREATED'' ''person'' (Some (row_id (new_person env ctx org d s))) None
      (Some (person_snapshot (new_person env ctx org d s))) (s\<lparr>persons := insert_row (new_person env ctx org d s) (persons s)\<rparr>)"
    by (auto simp: create_person_def bind_ok_Inr_iff Let_def split: option.splits)
  then show "\<exists>a\<in>set (drop (length (audit_logs s)) (audit_logs s')). \<not> (storable a \<and> al_action a \<in> set audit_check_actions)"
    using assms by (auto simp: storable_def snapshot_ok_def person_snapshot_def new_person_def raw_date_def)
qed

lemma birthday_never_commits_witness:
  "is_ok (create_person sample_audit_env school_context ((sample_person ''Asha'' None)\<lparr>jc_date_of_birth := Some 730000\<rparr>) empty_db) \<and>
   snd (run_request (create_person sample_audit_env school_context ((sample_person ''Asha'' None)\<lparr>jc_date_of_birth := Some 730000\<rparr>)) empty_db)
     = empty_db"
proof -
  have "is_ok (create_person sample_audit_env school_context ((sample_person ''Asha'' None)\<lparr>jc_date_of_birth := Some 730000\<rparr>) empty_db)"
    by code_simp
  moreover have "jc_date_of_birth ((sample_person ''Asha'' None)\<lparr>jc_date_of_birth := Some 730000\<rparr>) \<noteq> None" by simp
  ultimately show ?thesis using birthday_never_commits by blast
qed

end
