(* ===== verification/Dates.thy ===== *)
theory Dates
  imports Context
begin

text \<open>
  Dates in text: \<open>date.fromisoformat\<close>, with which the import of
  \<open>app/modules/bulk_import/csv_helpers.py\<close> reads dates, and the proof that it reads back what
  \<open>str\<close> of a date writes. A date is its proleptic Gregorian ordinal.
\<close>

section \<open>Reading a date\<close>

text \<open>
  \<open>date.fromisoformat\<close> since Python 3.11: \<open>YYYY-MM-DD\<close>, \<open>YYYYMMDD\<close>, and the week dates
  \<open>YYYY-Www-D\<close>, \<open>YYYYWwwD\<close>, \<open>YYYY-Www\<close> and \<open>YYYYWww\<close>.
\<close>

definition is_leap :: "int \<Rightarrow> bool" where
  "is_leap y \<longleftrightarrow> y mod 4 = 0 \<and> (y mod 100 \<noteq> 0 \<or> y mod 400 = 0)"

definition days_before_year :: "int \<Rightarrow> int" where
  "days_before_year y = (y - 1) * 365 + (y - 1) div 4 - (y - 1) div 100 + (y - 1) div 400"

definition days_in_month :: "int \<Rightarrow> int \<Rightarrow> int" where
  "days_in_month y m = (if m = 2 then (if is_leap y then 29 else 28) else if m \<in> {4, 6, 9, 11} then 30 else 31)"

definition days_before_month :: "int \<Rightarrow> int \<Rightarrow> int" where
  "days_before_month y m =
     [0, 31, 59, 90, 120, 151, 181, 212, 243, 273, 304, 334] ! nat (m - 1) + (if 2 < m \<and> is_leap y then 1 else 0)"

definition new_date :: "int \<Rightarrow> int \<Rightarrow> int \<Rightarrow> date option" where
  "new_date y m d =
     (if 1 \<le> y \<and> y \<le> 9999 \<and> 1 \<le> m \<and> m \<le> 12 \<and> 1 \<le> d \<and> d \<le> days_in_month y m
      then Some (days_before_year y + days_before_month y m + d) else None)"

definition isoweek1monday :: "int \<Rightarrow> date" where
  "isoweek1monday y =
     (let firstday = days_before_year y + 1; firstweekday = (firstday + 6) mod 7; monday = firstday - firstweekday
      in if 3 < firstweekday then monday + 7 else monday)"

definition isoweek_to_gregorian :: "int \<Rightarrow> int \<Rightarrow> int \<Rightarrow> date option" where
  "isoweek_to_gregorian y w d =
     (let first_weekday = (days_before_year y + 1) mod 7; long = (first_weekday = 4 \<or> first_weekday = 3 \<and> is_leap y);
          n = isoweek1monday y + (w - 1) * 7 + (d - 1)
      in if 1 \<le> y \<and> y \<le> 9999 \<and> (1 \<le> w \<and> w \<le> 52 \<or> w = 53 \<and> long) \<and> 1 \<le> d \<and> d \<le> 7 \<and> n \<le> 3652059
         then Some n else None)"

definition digits_value :: "string \<Rightarrow> int option" where
  "digits_value t =
     (if list_all (\<lambda>c. 48 \<le> (of_char c :: nat) \<and> (of_char c :: nat) \<le> 57) t
      then Some (fold (\<lambda>c n. 10 * n + (of_char c - 48)) t 0) else None)"

definition date3 :: "(int \<Rightarrow> int \<Rightarrow> int \<Rightarrow> date option) \<Rightarrow> string \<Rightarrow> string \<Rightarrow> string \<Rightarrow> date option" where
  "date3 f y m d = Option.bind (digits_value y) (\<lambda>y. Option.bind (digits_value m) (\<lambda>m.
     Option.bind (digits_value d) (f y m)))"

definition date_fromisoformat :: "string \<Rightarrow> date option" where
  "date_fromisoformat t =
     (let sep = (t ! 4 = CHR ''-''); rest = drop (if sep then 5 else 4) t
      in if length t \<notin> {7, 8, 10} then None
         else if hd rest = CHR ''W'' then
           (if length rest = 3 then date3 isoweek_to_gregorian (take 4 t) (take 2 (tl rest)) ''1''
            else if sep \<and> length rest = 5 \<and> rest ! 3 = CHR ''-''
            then date3 isoweek_to_gregorian (take 4 t) (take 2 (tl rest)) (drop 4 rest)
            else if \<not> sep \<and> length rest = 4 then date3 isoweek_to_gregorian (take 4 t) (take 2 (tl rest)) (drop 3 rest)
            else None)
         else if sep \<and> length rest = 5 \<and> rest ! 2 = CHR ''-''
         then date3 new_date (take 4 t) (take 2 rest) (drop 3 rest)
         else if \<not> sep \<and> length rest = 4 then date3 new_date (take 4 t) (take 2 rest) (drop 2 rest)
         else None)"

section \<open>The calendar\<close>

text \<open>
  The year of a day, counted from the first of March within a cycle of 400 years: the day is split
  into centuries, blocks of four years, years and the rest.
\<close>

lemma year_of_day:
  fixes n a b c r :: int
  assumes doe: "n = 36524 * a + 1461 * b + 365 * c + r"
    and "0 \<le> a" "a \<le> 3" "0 \<le> b" "b \<le> 24" "0 \<le> c" "c \<le> 3" "0 \<le> r"
    and r: "r \<le> 364 \<or> r = 365 \<and> c = 3 \<and> (b < 24 \<or> a = 3)"
  shows "(n - n div 1460 + n div 36524 - n div 146096) div 365 = 100 * a + 4 * b + c"
proof -
  define rem where "rem = 24 * a + b + 365 * c + r"
  have n: "n = 1460 * (25 * a + b) + rem" using doe by (simp add: rem_def)
  have rem: "0 \<le> rem" "rem < 2920" using assms by (auto simp: rem_def)
  define e :: int where "e = (if rem < 1460 then 0 else 1)"
  have e: "n div 1460 = 25 * a + b + e"
    by (rule int_div_pos_eq[where r = "rem - 1460 * e"]) (use n rem in \<open>auto simp: e_def\<close>)
  define f :: int where "f = (if n = 146096 then 1 else 0)"
  have low: "1461 * b + 365 * c + r < 36524 \<or> n = 146096" using assms by auto
  have f: "n div 36524 = a + f" "n div 146096 = f"
    using low assms unfolding f_def by auto
  have "n - n div 1460 + n div 36524 - n div 146096 = 365 * (100 * a + 4 * b + c) + (r - e)"
    unfolding e f using doe by simp
  moreover have "0 \<le> r - e" "r - e < 365" using assms by (auto simp: e_def rem_def)
  ultimately show ?thesis by simp
qed

lemma cycle_split:
  fixes n :: int
  assumes "0 \<le> n" "n \<le> 146096"
  obtains a b c r where "n = 36524 * a + 1461 * b + 365 * c + r"
    "0 \<le> a" "a \<le> 3" "0 \<le> b" "b \<le> 24" "0 \<le> c" "c \<le> 3" "0 \<le> r"
    "r \<le> 364 \<or> r = 365 \<and> c = 3 \<and> (b < 24 \<or> a = 3)"
proof -
  define a where "a = min 3 (n div 36524)"
  define m where "m = n - 36524 * a"
  have m: "0 \<le> m" "m \<le> 36524" "m = 36524 \<longrightarrow> a = 3" "0 \<le> a" "a \<le> 3"
    using assms by (auto simp: m_def a_def min_def)
  define b where "b = m div 1461"
  define k where "k = m mod 1461"
  have b: "m = 1461 * b + k" "0 \<le> b" "b \<le> 24" "0 \<le> k" "k \<le> 1460"
    using m by (auto simp: b_def k_def)
  then have b24: "b = 24 \<Longrightarrow> k = 1460 \<Longrightarrow> a = 3" using m(3) by simp
  define c where "c = min 3 (k div 365)"
  define r where "r = k - 365 * c"
  have c: "0 \<le> c" "c \<le> 3" "0 \<le> r" "r \<le> 364 \<or> r = 365 \<and> c = 3 \<and> k = 1460"
    using b by (auto simp: c_def r_def min_def)
  show ?thesis
  proof (rule that[of a b c r])
    show "n = 36524 * a + 1461 * b + 365 * c + r" using b(1) by (simp add: m_def r_def)
    show "r \<le> 364 \<or> r = 365 \<and> c = 3 \<and> (b < 24 \<or> a = 3)" using c(4) b(3) b24 by (cases "b = 24") auto
  qed (use m b c in auto)
qed

text \<open>
  The month and the day: over the 366 days of a year that starts in March they are computed once.
\<close>

definition month_of_doy :: "int \<Rightarrow> int" where
  "month_of_doy doy = (let mp = (5 * doy + 2) div 153 in if mp < 10 then mp + 3 else mp - 9)"

definition day_of_doy :: "int \<Rightarrow> int" where
  "day_of_doy doy = (let mp = (5 * doy + 2) div 153 in doy - (153 * mp + 2) div 5 + 1)"

definition common_month :: "int \<Rightarrow> int" where
  "common_month m = [0, 31, 59, 90, 120, 151, 181, 212, 243, 273, 304, 334] ! nat (m - 1)"

definition doy_ok :: "int \<Rightarrow> bool" where
  "doy_ok doy = (let m = month_of_doy doy; d = day_of_doy doy in
     1 \<le> m \<and> m \<le> 12 \<and> 1 \<le> d \<and> (m \<noteq> 2 \<longrightarrow> d \<le> (if m \<in> {4, 6, 9, 11} then 30 else 31)) \<and>
     (m = 2 \<longrightarrow> d \<le> (if doy = 365 then 29 else 28)) \<and>
     (if m \<le> 2 then doy = common_month m + d + 305 else doy = common_month m + d - 60))"

lemma doy_ok: assumes "0 \<le> doy" "doy \<le> 365" shows "doy_ok doy"
proof -
  have "list_all doy_ok [0..365]" by code_simp
  then show ?thesis using assms by (auto simp: list_all_iff)
qed

lemma day_of_month_sum:
  assumes "0 \<le> doy" "doy \<le> 365"
  shows "month_of_doy doy \<le> 2 \<longleftrightarrow> 306 \<le> doy"
proof -
  have "list_all (\<lambda>n. (month_of_doy n \<le> 2) = (306 \<le> n)) [0..365]" by code_simp
  then show ?thesis using assms by (auto simp: list_all_iff)
qed

lemma leap_count:
  "(A \<Longrightarrow> B) \<Longrightarrow> (B \<Longrightarrow> C) \<Longrightarrow>
   (if C then 1 else 0) - (if B then 1 else 0) + (if A then 1 else 0) = (if C \<and> (\<not> B \<or> A) then 1 else (0 :: int))"
  by (cases A; cases B; cases C) simp_all

lemma year_count:
  "A = p - 365 + a - b + c \<Longrightarrow> B = p + x - z + w \<Longrightarrow> x - a = i \<Longrightarrow> z - b = j \<Longrightarrow> w - c = k \<Longrightarrow> i - j + k = l \<Longrightarrow>
   B = A + 365 + (l :: int)"
  by linarith

lemma days_before_next_year:
  "days_before_year (y + 1) = days_before_year y + 365 + (if is_leap y then 1 else 0)"
proof -
  have d: "y div k - (y - 1) div k = (if y mod k = 0 then 1 else 0)" if "0 < k" for k :: int
  proof (cases "y mod k = 0")
    case True
    then have "y = k * (y div k)" by auto
    moreover have "(y - 1) div k = y div k - 1"
      by (rule int_div_pos_eq[where r = "k - 1"]) (use that calculation in \<open>auto simp: algebra_simps\<close>)
    ultimately show ?thesis using True by simp
  next
    case False
    have m: "y = k * (y div k) + y mod k" "0 \<le> y mod k" "y mod k < k" using that by auto
    have "(y - 1) div k = y div k"
      by (rule int_div_pos_eq[where r = "y mod k - 1"]) (use m False in auto)
    then show ?thesis using False by simp
  qed
  have m: "y mod 400 = 0 \<Longrightarrow> y mod 100 = 0" "y mod 100 = 0 \<Longrightarrow> y mod 4 = 0" by presburger+
  have "days_before_year y = y * 365 - 365 + (y - 1) div 4 - (y - 1) div 100 + (y - 1) div 400"
    unfolding days_before_year_def by (simp add: left_diff_distrib)
  moreover have "days_before_year (y + 1) = y * 365 + y div 4 - y div 100 + y div 400" by (simp add: days_before_year_def)
  ultimately show ?thesis
    unfolding is_leap_def
    by (rule year_count[OF _ _ d d d leap_count[OF m]]) simp_all
qed

text \<open>The civil date of a day is the one whose ordinal it is.\<close>

lemma civil_new_date:
  assumes "1 \<le> d" "d \<le> 3652059"
  shows "case civil_of_ordinal d of (y, m, dd) \<Rightarrow> new_date y m dd = Some d"
proof -
  define z where "z = d + 305"
  define era where "era = z div 146097"
  define doe where "doe = z mod 146097"
  have z: "z = 146097 * era + doe" "0 \<le> doe" "doe \<le> 146096" "306 \<le> z" "z \<le> 3652364"
    using assms by (auto simp: z_def era_def doe_def)
  obtain a b c r where s: "doe = 36524 * a + 1461 * b + 365 * c + r"
    "0 \<le> a" "a \<le> 3" "0 \<le> b" "b \<le> 24" "0 \<le> c" "c \<le> 3" "0 \<le> r"
    "r \<le> 364 \<or> r = 365 \<and> c = 3 \<and> (b < 24 \<or> a = 3)"
    using cycle_split[OF z(2,3)] by metis
  define Y where "Y = 100 * a + 4 * b + c"
  have yoe: "(doe - doe div 1460 + doe div 36524 - doe div 146096) div 365 = Y"
    using year_of_day[OF s] by (simp add: Y_def)
  have Yd: "Y div 4 = 25 * a + b" "Y div 100 = a"
    using s by (auto simp: Y_def)
  have doy: "doe - (365 * Y + Y div 4 - Y div 100) = r" unfolding Yd using s(1) by (simp add: Y_def)
  define E where "E = Y + era * 400"
  have Ed: "E div 4 = 100 * era + 25 * a + b" "E div 100 = 4 * era + a" "E div 400 = era"
    using s unfolding E_def Y_def by auto
  have before: "days_before_year (E + 1) = z - r"
    using z(1) s(1) by (simp add: days_before_year_def Ed) (simp add: E_def Y_def)
  define m where "m = month_of_doy r"
  define dd where "dd = day_of_doy r"
  have r: "0 \<le> r" "r \<le> 365" using s by auto
  have ok: "1 \<le> m" "m \<le> 12" "1 \<le> dd" "m \<noteq> 2 \<Longrightarrow> dd \<le> (if m \<in> {4, 6, 9, 11} then 30 else 31)"
    "m = 2 \<Longrightarrow> dd \<le> (if r = 365 then 29 else 28)"
    "m \<le> 2 \<Longrightarrow> r = common_month m + dd + 305" "\<not> m \<le> 2 \<Longrightarrow> r = common_month m + dd - 60"
    using doy_ok[OF r] by (auto simp: doy_ok_def Let_def m_def dd_def)
  have m2: "m \<le> 2 \<longleftrightarrow> 306 \<le> r" using day_of_month_sum[OF r] by (simp add: m_def)
  have civil: "civil_of_ordinal d = (E + (if m \<le> 2 then 1 else 0), m, dd)"
    unfolding civil_of_ordinal_def Let_def z_def[symmetric] era_def[symmetric] doe_def[symmetric] yoe doy
    by (simp add: m_def dd_def E_def month_of_doy_def day_of_doy_def Let_def)
  have era: "0 \<le> era" "era \<le> 24" using z by auto
  have E: "0 \<le> E" "E \<le> 9999" using era s by (auto simp: E_def Y_def)
  show ?thesis
  proof (cases "m \<le> 2")
    case True
    have "E \<noteq> 9999"
    proof
      assume "E = 9999"
      then have e: "100 * a + 4 * b + c + era * 400 = 9999" by (simp add: E_def Y_def)
      then have "era = 24" using era s(3,5,7) by linarith
      then have "a = 3" using e s(3,5,7) by linarith
      then have "b = 24" using e \<open>era = 24\<close> s(5,7) by linarith
      then show False using e \<open>era = 24\<close> \<open>a = 3\<close> z s(1) m2 True by simp
    qed
    moreover have "is_leap (E + 1)" if "r = 365"
    proof -
      have c: "c = 3" "b < 24 \<or> a = 3" using s that by auto
      have "(E + 1) mod 4 = 0" using c by (simp add: E_def Y_def)
      moreover have "(E + 1) mod 100 \<noteq> 0 \<or> (E + 1) mod 400 = 0"
      proof (cases "b < 24")
        case True
        have "(E + 1) mod 100 = 4 * b + 4"
          by (rule int_mod_pos_eq[where q = "4 * era + a"]) (use s True c in \<open>auto simp: E_def Y_def\<close>)
        then show ?thesis using s by simp
      next
        case False
        then have "E + 1 = 400 * (era + 1)" using c s by (simp add: E_def Y_def)
        then show ?thesis by simp
      qed
      ultimately show ?thesis by (simp add: is_leap_def)
    qed
    ultimately show ?thesis
      using True ok E before z(1) by (auto simp: civil new_date_def days_in_month_def days_before_month_def common_month_def z_def split: if_splits)
  next
    case False
    have "E \<noteq> 0"
    proof
      assume "E = 0"
      then have "100 * a + 4 * b + c + era * 400 = 0" by (simp add: E_def Y_def)
      then have "era = 0" "a = 0" "b = 0" "c = 0" using era(1) s(2,4,6) by linarith+
      then show False using z s m2 False by simp
    qed
    then show ?thesis
      using False ok E before z(1) days_before_next_year[of E]
      by (auto simp: civil new_date_def days_in_month_def days_before_month_def common_month_def z_def split: if_splits)
  qed
qed

text \<open>So a written date is read back.\<close>

lemma digits_value_digits:
  "digits_value (map digit ns) = Some (fold (\<lambda>n k. 10 * k + n mod 10) ns 0)"
proof -
  have d: "(of_char (digit n) :: nat) = 48 + nat (n mod 10)" "(of_char (digit n) :: int) = 48 + n mod 10" for n
  proof -
    show c: "(of_char (digit n) :: nat) = 48 + nat (n mod 10)" by (simp add: digit_def)
    have "int (of_char (digit n)) = 48 + n mod 10" by (simp add: c)
    then show "(of_char (digit n) :: int) = 48 + n mod 10" by (simp only: of_nat_of_char)
  qed
  have "fold (\<lambda>c n. 10 * n + (of_char c - 48)) (map digit ns) k = fold (\<lambda>n k. 10 * k + n mod 10) ns (k :: int)" for k
    by (induction ns arbitrary: k) (simp_all add: d)
  moreover have "list_all (\<lambda>c. 48 \<le> (of_char c :: nat) \<and> (of_char c :: nat) \<le> 57) (map digit ns)"
    by (auto simp: list_all_iff d)
  ultimately show ?thesis by (simp add: digits_value_def)
qed

lemma year_digits:
  assumes "0 \<le> y" "y \<le> 9999"
  shows "10 * (10 * (10 * (y div 1000 mod 10) + y div 100 mod 10) + y div 10 mod 10) + y mod 10 = (y :: int)"
proof -
  have "y div 1000 mod 10 = y div 1000" using assms by simp
  moreover have "y div 100 = 10 * (y div 1000) + y div 100 mod 10" "y div 10 = 10 * (y div 100) + y div 10 mod 10"
    "y = 10 * (y div 10) + y mod 10"
    using div_mult_mod_eq[of "y div 100" 10] div_mult_mod_eq[of "y div 10" 10] div_mult_mod_eq[of y 10]
    by (simp_all add: zdiv_zmult2_eq[symmetric] del: div_mult_mod_eq)
  ultimately show ?thesis by metis
qed

lemma two_digits: "0 \<le> k \<Longrightarrow> k \<le> 99 \<Longrightarrow> 10 * (k div 10 mod 10) + k mod 10 = (k :: int)"
  using mult_div_mod_eq[of 10 k] by simp

lemma date_fromisoformat_iso_date:
  assumes "1 \<le> d" "d \<le> 3652059"
  shows "date_fromisoformat (iso_date d) = Some d"
proof -
  obtain y m dd where c: "civil_of_ordinal d = (y, m, dd)" by (cases "civil_of_ordinal d")
  have nd: "new_date y m dd = Some d" using civil_new_date[OF assms] c by simp
  then have b: "0 \<le> y" "y \<le> 9999" "0 \<le> m" "m \<le> 12" "0 \<le> dd" "dd \<le> 31"
    by (auto simp: new_date_def days_in_month_def split: if_splits)
  have n: "10 * (m div 10 mod 10) + m mod 10 = m" "10 * (dd div 10 mod 10) + dd mod 10 = dd"
    using b by (auto intro!: two_digits)
  have t: "iso_date d = map digit [y div 1000, y div 100, y div 10, y] @ ''-'' @ map digit [m div 10, m] @ ''-'' @
      map digit [dd div 10, dd]"
    by (simp add: iso_date_def c)
  have w: "digit k \<noteq> CHR ''W''" for k
  proof
    assume "digit k = CHR ''W''"
    then have "(of_char (digit k) :: nat) = 87" by simp
    then show False by (simp add: digit_def)
  qed
  have v: "digits_value [digit (y div 1000), digit (y div 100), digit (y div 10), digit y] = Some y"
    "digits_value [digit (m div 10), digit m] = Some m" "digits_value [digit (dd div 10), digit dd] = Some dd"
    using digits_value_digits[of "[y div 1000, y div 100, y div 10, y]"] digits_value_digits[of "[m div 10, m]"]
      digits_value_digits[of "[dd div 10, dd]"] year_digits[OF b(1,2)] n
    by (simp_all only: fold_simps list.map mult_zero_right add_0)
  show ?thesis unfolding t by (simp add: date_fromisoformat_def Let_def w date3_def v nd)
qed

end
