(* ===== verification/Csv.thy ===== *)
theory Csv
  imports Dates Schema "HOL-Library.AList"
begin

text \<open>
  CSV files: \<open>app/modules/bulk_import/csv_helpers.py\<close> and what it uses of the standard
  library, which is the reader and the writer of \<open>csv\<close> in the dialect \<open>excel\<close>
  (comma, double quote doubled inside quotes, minimal quoting, \<open>\r\n\<close> after each row) and
  their dictionary variants. The lemmas show that a written
  file reads back as it was written, whatever the fields hold.
\<close>

section \<open>The reader\<close>

text \<open>
  The state machine of the reader. A character is \<open>Some c\<close>, the end of a line \<open>None\<close>; a
  field longer than the limit is an error, as is text after a carriage return outside quotes.
\<close>

datatype csv_state = START_RECORD | START_FIELD | IN_FIELD | IN_QUOTED_FIELD | QUOTE_IN_QUOTED_FIELD | EAT_CRNL

record csv_reader =
  cr_state :: csv_state
  cr_field :: string
  cr_fields :: "string list"

definition field_limit :: nat where
  "field_limit = 131072"

definition parse_reset :: csv_reader where
  "parse_reset = \<lparr>cr_state = START_RECORD, cr_field = [], cr_fields = []\<rparr>"

definition parse_save_field :: "csv_state \<Rightarrow> csv_reader \<Rightarrow> csv_reader" where
  "parse_save_field q r = \<lparr>cr_state = q, cr_field = [], cr_fields = cr_fields r @ [cr_field r]\<rparr>"

definition parse_add_char :: "csv_state \<Rightarrow> char \<Rightarrow> csv_reader \<Rightarrow> csv_reader result" where
  "parse_add_char q c r =
     (if field_limit \<le> length (cr_field r) then Inl (PyError ''field larger than field limit (131072)'')
      else Inr (r\<lparr>cr_state := q, cr_field := cr_field r @ [c]\<rparr>))"

definition line_end :: "char option \<Rightarrow> bool" where
  "line_end c = (c = None \<or> c = Some CHR 0x0A \<or> c = Some CHR 0x0D)"

definition end_state :: "char option \<Rightarrow> csv_state" where
  "end_state c = (if c = None then START_RECORD else EAT_CRNL)"

definition start_field :: "char option \<Rightarrow> csv_reader \<Rightarrow> csv_reader result" where
  "start_field c r =
     (if line_end c then Inr (parse_save_field (end_state c) r)
      else if c = Some CHR 0x22 then Inr (r\<lparr>cr_state := IN_QUOTED_FIELD\<rparr>)
      else if c = Some CHR '','' then Inr (parse_save_field START_FIELD r)
      else parse_add_char IN_FIELD (the c) r)"

definition parse_process_char :: "char option \<Rightarrow> csv_reader \<Rightarrow> csv_reader result" where
  "parse_process_char c r = (case cr_state r of
     START_RECORD \<Rightarrow>
       if c = None then Inr r
       else if line_end c then Inr (r\<lparr>cr_state := EAT_CRNL\<rparr>)
       else start_field c r
   | START_FIELD \<Rightarrow> start_field c r
   | IN_FIELD \<Rightarrow>
       if line_end c then Inr (parse_save_field (end_state c) r)
       else if c = Some CHR '','' then Inr (parse_save_field START_FIELD r)
       else parse_add_char IN_FIELD (the c) r
   | IN_QUOTED_FIELD \<Rightarrow>
       if c = None then Inr r
       else if c = Some CHR 0x22 then Inr (r\<lparr>cr_state := QUOTE_IN_QUOTED_FIELD\<rparr>)
       else parse_add_char IN_QUOTED_FIELD (the c) r
   | QUOTE_IN_QUOTED_FIELD \<Rightarrow>
       if c = Some CHR 0x22 then parse_add_char IN_QUOTED_FIELD CHR 0x22 r
       else if c = Some CHR '','' then Inr (parse_save_field START_FIELD r)
       else if line_end c then Inr (parse_save_field (end_state c) r)
       else parse_add_char IN_FIELD (the c) r
   | EAT_CRNL \<Rightarrow>
       if c = None then Inr (r\<lparr>cr_state := START_RECORD\<rparr>)
       else if line_end c then Inr r
       else Inl (PyError (''new-line character seen in unquoted field - do you need to open the file with newline='' @
         [CHR 0x27, CHR 0x27] @ ''?'')))"

text \<open>A line of the text ends after its line feed.\<close>

fun take_line :: "string \<Rightarrow> string \<times> string" where
  "take_line [] = ([], [])"
| "take_line (c # t) = (if c = CHR 0x0A then ([c], t) else let (l, rest) = take_line t in (c # l, rest))"

fun feed_line :: "string \<Rightarrow> csv_reader \<Rightarrow> csv_reader result" where
  "feed_line [] r = parse_process_char None r"
| "feed_line (c # l) r = bind_ok (parse_process_char (Some c) r) (feed_line l)"

lemma take_line_le: "length (snd (take_line t)) \<le> length t"
  by (induction t) (auto simp: split_beta Let_def)

lemma take_line_shorter: "t \<noteq> [] \<Longrightarrow> length (snd (take_line t)) < length t"
  using take_line_le[of "tl t"] by (cases t) (auto simp: split_beta Let_def)

text \<open>
  The next row of the text: lines are read until one leaves no quote open; at the end of the text an
  open field is a row of its own.
\<close>

function read_record :: "csv_reader \<Rightarrow> string \<Rightarrow> (string list \<times> string) option result" where
  "read_record r t =
     (if t = [] then
        Inr (if cr_field r \<noteq> [] \<or> cr_state r = IN_QUOTED_FIELD then Some (cr_fields r @ [cr_field r], []) else None)
      else (case feed_line (fst (take_line t)) r of
          Inl e \<Rightarrow> Inl e
        | Inr r' \<Rightarrow>
            if cr_state r' = START_RECORD then Inr (Some (cr_fields r', snd (take_line t)))
            else read_record r' (snd (take_line t))))"
  by pat_completeness auto
termination by (relation "measure (\<lambda>(r, t). length t)") (auto dest: take_line_shorter)

declare read_record.simps [simp del]

definition next_row :: "string \<Rightarrow> (string list \<times> string) option result" where
  "next_row t = read_record parse_reset t"

lemma read_record_shorter:
  "read_record r t = Inr (Some (row, rest)) \<Longrightarrow> t \<noteq> [] \<Longrightarrow> length rest < length t"
proof (induction r t rule: read_record.induct)
  case (1 r t)
  obtain r' where f: "feed_line (fst (take_line t)) r = Inr r'"
    using 1 by (cases "feed_line (fst (take_line t)) r") (simp_all add: read_record.simps[of r t])
  show ?case
  proof (cases "cr_state r' = START_RECORD \<or> snd (take_line t) = []")
    case True
    then show ?thesis using 1 f take_line_shorter[of t]
      by (auto simp: read_record.simps[of r t] read_record.simps[of r' "[]"] split: if_splits)
  next
    case False
    then have "read_record r' (snd (take_line t)) = Inr (Some (row, rest))"
      using "1.prems" f by (simp add: read_record.simps[of r t])
    then have "length rest < length (snd (take_line t))" using "1.IH"[OF _ f] False "1.prems"(2) by blast
    then show ?thesis using take_line_shorter[OF "1.prems"(2)] by linarith
  qed
qed

lemma next_row_shorter: "next_row t = Inr (Some (row, rest)) \<Longrightarrow> length rest < length t"
  using read_record_shorter[of parse_reset t] unfolding next_row_def
  by (cases "t = []") (auto simp: read_record.simps parse_reset_def)

text \<open>All the rows of a text, blank lines as empty rows.\<close>

function read_rows :: "string \<Rightarrow> string list list result" where
  "read_rows t = (case next_row t of
     Inl e \<Rightarrow> Inl e
   | Inr None \<Rightarrow> Inr []
   | Inr (Some (row, rest)) \<Rightarrow> bind_ok (read_rows rest) (\<lambda>rows. Inr (row # rows)))"
  by pat_completeness auto
termination by (relation "measure length") (auto dest: next_row_shorter)

declare read_rows.simps [simp del]

section \<open>The writer\<close>

definition needs_quotes :: "string \<Rightarrow> bool" where
  "needs_quotes f = list_ex (\<lambda>c. c \<in> {CHR '','', CHR 0x22, CHR 0x0D, CHR 0x0A}) f"

fun double_quotes :: "string \<Rightarrow> string" where
  "double_quotes [] = []"
| "double_quotes (c # f) = (if c = CHR 0x22 then [c, c] else [c]) @ double_quotes f"

definition write_field :: "bool \<Rightarrow> string \<Rightarrow> string" where
  "write_field alone f =
     (if needs_quotes f \<or> (alone \<and> f = []) then CHR 0x22 # double_quotes f @ [CHR 0x22] else f)"

definition join_comma_fields :: "string list \<Rightarrow> string" where
  "join_comma_fields fs = concat (case fs of [] \<Rightarrow> [] | f # fs \<Rightarrow> f # map (\<lambda>f. CHR '','' # f) fs)"

definition write_row :: "string list \<Rightarrow> string" where
  "write_row fs = join_comma_fields (map (write_field (length fs = 1)) fs) @ [CHR 0x0D, CHR 0x0A]"

text \<open>\<open>DictWriter\<close>: the columns in the order of the names, a missing one empty.\<close>

definition dict_write :: "string list \<Rightarrow> (string \<times> string) list \<Rightarrow> string" where
  "dict_write names row = write_row (map (\<lambda>k. case map_of row k of None \<Rightarrow> [] | Some v \<Rightarrow> v) names)"

definition generate_csv :: "string list \<Rightarrow> (string \<times> string) list list \<Rightarrow> string" where
  "generate_csv names rows = concat (write_row names # map (dict_write names) rows)"

section \<open>A written file reads back\<close>

text \<open>
  The reader as a scan of the text: \<open>line_done\<close> decides after a line whether the row is
  finished. It reads the rows the line-wise reader reads.
\<close>

definition line_done :: "csv_reader \<Rightarrow> string \<Rightarrow> (string list \<times> string) option result" where
  "line_done r t = (if cr_state r = START_RECORD then Inr (Some (cr_fields r, t)) else read_record r t)"

fun scan_text :: "csv_reader \<Rightarrow> string \<Rightarrow> (string list \<times> string) option result" where
  "scan_text r [] = bind_ok (parse_process_char None r) (\<lambda>r. line_done r [])"
| "scan_text r (c # t) = bind_ok (parse_process_char (Some c) r) (\<lambda>r.
     if c = CHR 0x0A then bind_ok (parse_process_char None r) (\<lambda>r. line_done r t) else scan_text r t)"

lemma feed_scan:
  "bind_ok (feed_line (fst (take_line t)) r) (\<lambda>r. line_done r (snd (take_line t))) = scan_text r t"
proof (induction t arbitrary: r)
  case Nil
  show ?case by simp
next
  case (Cons c t)
  show ?case
    by (cases "parse_process_char (Some c) r"; cases "c = CHR 0x0A")
      (simp_all add: split_beta Let_def flip: Cons.IH)
qed

lemma read_record_scan: "t \<noteq> [] \<Longrightarrow> read_record r t = scan_text r t"
  by (subst read_record.simps, subst feed_scan[symmetric])
    (auto simp: line_done_def bind_ok_def intro!: sum.case_cong)

definition reader_at :: "csv_state \<Rightarrow> string \<Rightarrow> string list \<Rightarrow> csv_reader" where
  "reader_at q f fs = \<lparr>cr_state = q, cr_field = f, cr_fields = fs\<rparr>"

named_theorems csv_machine

lemmas reader_defs [csv_machine] =
  parse_process_char_def start_field_def parse_add_char_def parse_save_field_def line_end_def end_state_def
  line_done_def reader_at_def

lemma scan_quoted:
  assumes "length acc + length f \<le> field_limit"
  shows "scan_text (reader_at IN_QUOTED_FIELD acc fs) (double_quotes f @ CHR 0x22 # t) =
         scan_text (reader_at QUOTE_IN_QUOTED_FIELD (acc @ f) fs) t"
  using assms
proof (induction f arbitrary: acc)
  case Nil
  show ?case by (simp add: csv_machine)
next
  case (Cons c f)
  have "length acc < field_limit" using Cons.prems by simp
  moreover have "scan_text (reader_at IN_QUOTED_FIELD (acc @ [c]) fs) (double_quotes f @ CHR 0x22 # t) =
      scan_text (reader_at QUOTE_IN_QUOTED_FIELD (acc @ c # f) fs) t"
    using Cons.IH[of "acc @ [c]"] Cons.prems by simp
  moreover have "double_quotes f @ CHR 0x22 # t \<noteq> []" by simp
  ultimately show ?case
    by (auto simp: csv_machine read_record_scan simp del: scan_text.simps(1))
qed

lemma scan_plain:
  assumes "\<not> needs_quotes f" "length acc + length f \<le> field_limit"
  shows "scan_text (reader_at IN_FIELD acc fs) (f @ t) = scan_text (reader_at IN_FIELD (acc @ f) fs) t"
  using assms
proof (induction f arbitrary: acc)
  case (Cons c f)
  have "length acc < field_limit" using Cons.prems by simp
  moreover have "scan_text (reader_at IN_FIELD (acc @ [c]) fs) (f @ t) =
      scan_text (reader_at IN_FIELD (acc @ c # f) fs) t"
    using Cons.IH[of "acc @ [c]"] Cons.prems by (simp add: needs_quotes_def)
  ultimately show ?case using Cons.prems(1)
    by (simp add: csv_machine needs_quotes_def)
qed simp

text \<open>A field up to its end: a comma starts the next one, the end of the row ends the record.\<close>

definition field_end :: "csv_state \<Rightarrow> bool" where
  "field_end q \<longleftrightarrow> q \<in> {IN_FIELD, START_FIELD, QUOTE_IN_QUOTED_FIELD}"

lemma scan_field:
  assumes "length f \<le> field_limit" "q = START_FIELD \<or> q = START_RECORD \<and> (write_field alone f \<noteq> [])"
  shows "\<exists>q'. field_end q' \<and>
    scan_text (reader_at q [] fs) (write_field alone f @ t) = scan_text (reader_at q' f fs) t"
proof (cases "needs_quotes f \<or> alone \<and> f = []")
  case True
  then show ?thesis using assms scan_quoted[of "[]" f fs t]
    by (intro exI[of _ QUOTE_IN_QUOTED_FIELD]) (auto simp: write_field_def field_end_def csv_machine)
next
  case False
  show ?thesis
  proof (cases f)
    case Nil
    then show ?thesis using assms False
      by (intro exI[of _ START_FIELD]) (auto simp: write_field_def field_end_def)
  next
    case (Cons c g)
    have "scan_text (reader_at IN_FIELD [c] fs) (g @ t) = scan_text (reader_at IN_FIELD f fs) t"
      using scan_plain[of g "[c]" fs t] False assms(1) Cons by (auto simp: needs_quotes_def)
    then show ?thesis using assms False Cons
      by (intro exI[of _ IN_FIELD]) (auto simp: write_field_def field_end_def csv_machine needs_quotes_def field_limit_def)
  qed
qed

lemma scan_comma: "field_end q \<Longrightarrow> scan_text (reader_at q f fs) (CHR '','' # t) = scan_text (reader_at START_FIELD [] (fs @ [f])) t"
  by (auto simp: field_end_def csv_machine)

lemma scan_crlf: "field_end q \<Longrightarrow> scan_text (reader_at q f fs) (CHR 0x0D # CHR 0x0A # t) = Inr (Some (fs @ [f], t))"
  by (auto simp: field_end_def csv_machine)

lemma scan_fields:
  assumes "\<forall>g\<in>set (f # gs). length g \<le> field_limit"
    "q = START_FIELD \<or> q = START_RECORD \<and> (write_field alone f \<noteq> [] \<or> gs \<noteq> [])"
  shows "scan_text (reader_at q [] fs)
      (write_field alone f @ concat (map (\<lambda>g. CHR '','' # write_field alone g) gs) @ [CHR 0x0D, CHR 0x0A] @ t) =
    Inr (Some (fs @ f # gs, t))"
  using assms
proof (induction gs arbitrary: f q fs)
  case Nil
  then show ?case using scan_field[of f q alone fs "[CHR 0x0D, CHR 0x0A] @ t"] scan_crlf by auto
next
  case (Cons g gs)
  let ?t = "write_field alone g @ concat (map (\<lambda>g. CHR '','' # write_field alone g) gs) @ [CHR 0x0D, CHR 0x0A] @ t"
  have n: "scan_text (reader_at START_FIELD [] (fs @ [f])) ?t = Inr (Some (fs @ f # g # gs, t))"
    using Cons.IH[of g START_FIELD "fs @ [f]"] Cons.prems by simp
  show ?case
  proof (cases "q = START_RECORD \<and> write_field alone f = []")
    case True
    then have "f = []" by (auto simp: write_field_def split: if_splits)
    then show ?thesis using True n by (simp add: csv_machine)
  next
    case False
    then obtain q' where "field_end q'"
      "scan_text (reader_at q [] fs) (write_field alone f @ CHR '','' # ?t) = scan_text (reader_at q' f fs) (CHR '','' # ?t)"
      using scan_field[of f q alone fs "CHR '','' # ?t"] Cons.prems by auto
    then show ?thesis using n scan_comma by simp
  qed
qed

lemma next_row_written:
  assumes "row \<noteq> []" "\<forall>f\<in>set row. length f \<le> field_limit"
  shows "next_row (write_row row @ t) = Inr (Some (row, t))"
proof -
  obtain f gs where r: "row = f # gs" using assms(1) by (cases row) auto
  let ?a = "length row = 1"
  have q: "write_field ?a f \<noteq> [] \<or> gs \<noteq> []" using r by (auto simp: write_field_def)
  have p: "parse_reset = reader_at START_RECORD [] []" by (simp add: parse_reset_def reader_at_def)
  have w: "write_row row @ t = write_field ?a f @ concat (map (\<lambda>g. CHR '','' # write_field ?a g) gs) @
      [CHR 0x0D, CHR 0x0A] @ t"
    by (simp add: write_row_def join_comma_fields_def r o_def)
  show ?thesis
    unfolding next_row_def p w using scan_fields[of f gs START_RECORD ?a "[]" t] q assms(2) r
    by (subst read_record_scan) auto
qed

lemma read_rows_written:
  assumes "\<forall>row\<in>set rows. row \<noteq> [] \<and> (\<forall>f\<in>set row. length f \<le> field_limit)"
  shows "read_rows (concat (map write_row rows)) = Inr rows"
  using assms
proof (induction rows)
  case Nil
  show ?case by (simp add: read_rows.simps next_row_def read_record.simps parse_reset_def)
next
  case (Cons row rows)
  then have "next_row (write_row row @ concat (map write_row rows)) = Inr (Some (row, concat (map write_row rows)))"
    by (intro next_row_written) auto
  then show ?case using Cons by (simp add: read_rows.simps[of "write_row row @ _"])
qed

section \<open>Rows as dictionaries\<close>

text \<open>
  \<open>DictReader\<close> takes the names from the first row, blank or not, and skips blank rows
  after it. A short row gives \<open>None\<close> to the names it lacks. A long row keeps what is too
  much under the key \<open>None\<close>, which has no \<open>strip\<close>: the whole file then fails.
\<close>

type_synonym csv_row = "(string \<times> string option) list"

definition dict_row :: "string list \<Rightarrow> string list \<Rightarrow> csv_row" where
  "dict_row names row =
     fold (\<lambda>(k, v). AList.update k v) (zip names (map Some row @ replicate (length names - length row) None)) []"

definition strip_row :: "csv_row \<Rightarrow> csv_row" where
  "strip_row d = fold (\<lambda>(k, v). AList.update (py_strip k) (map_option py_strip v)) d []"

fun strip_rows :: "string list \<Rightarrow> string list list \<Rightarrow> csv_row list result" where
  "strip_rows names [] = Inr []"
| "strip_rows names (row # rows) =
     (if row = [] then strip_rows names rows
      else if length names < length row
      then Inl (PyError (CHR 0x27 # ''NoneType'' @ [CHR 0x27] @ '' object has no attribute '' @ [CHR 0x27] @ ''strip'' @ [CHR 0x27]))
      else bind_ok (strip_rows names rows) (\<lambda>ds. Inr (strip_row (dict_row names row) # ds)))"

text \<open>
  The rows of a text. The reader is lazy: an error in a row is met only when the rows before it were
  taken, and either error ends in the same way, so the order shows in the message alone.
\<close>

fun read_dicts :: "string list list result \<Rightarrow> csv_row list result" where
  "read_dicts (Inl e) = Inl e"
| "read_dicts (Inr []) = Inr []"
| "read_dicts (Inr (names # rows)) = strip_rows names rows"

text \<open>
  The codec \<open>utf-8\<close> and the text of a foreign exception are parameters of the import. A decoding
  error and an error of the reader become one message.
\<close>

record import_env =
  im_decode :: "string \<Rightarrow> string result"
  im_encode :: "string \<Rightarrow> string"
  im_text :: "error \<Rightarrow> string"

definition parse_csv :: "import_env \<Rightarrow> string \<Rightarrow> string + csv_row list" where
  "parse_csv io content =
     (case bind_ok (im_decode io content) (\<lambda>t. read_dicts (read_rows t)) of
        Inl e \<Rightarrow> Inl (''Failed to parse CSV: '' @ im_text io e)
      | Inr rows \<Rightarrow> Inr rows)"

section \<open>The rows of the two resources\<close>

definition student_columns :: "string list" where
  "student_columns = [''first_name'', ''last_name'', ''primary_email'', ''primary_phone'', ''admission_number'',
     ''admission_date'', ''status'']"

definition teacher_columns :: "string list" where
  "teacher_columns = [''first_name'', ''last_name'', ''primary_email'', ''primary_phone'', ''employee_number'',
     ''designation'', ''joining_date'', ''status'']"

definition valid_student_statuses :: "string list" where
  "valid_student_statuses = [''ACTIVE'', ''DECEASED'', ''GRADUATED'', ''INACTIVE'', ''TRANSFERRED'', ''WITHDRAWN'']"

definition valid_teacher_statuses :: "string list" where
  "valid_teacher_statuses = [''ACTIVE'', ''INACTIVE'', ''ON_LEAVE'', ''RESIGNED'', ''TERMINATED'']"

text \<open>\<open>row.get(k)\<close>, and \<open>row.get(k, "").strip()\<close>, which raises on the \<open>None\<close> of a short row.\<close>

definition row_get :: "csv_row \<Rightarrow> string \<Rightarrow> string option" where
  "row_get row k = (case map_of row k of Some v \<Rightarrow> v | None \<Rightarrow> None)"

definition get_stripped :: "csv_row \<Rightarrow> string \<Rightarrow> string result" where
  "get_stripped row k = (case map_of row k of
     None \<Rightarrow> Inr []
   | Some None \<Rightarrow> Inl (PyError ''AttributeError'')
   | Some (Some v) \<Rightarrow> Inr (py_strip v))"

definition required :: "csv_row \<Rightarrow> int \<Rightarrow> string \<Rightarrow> row_error list" where
  "required row n k =
     (if truthy (row_get row k) then [] else [\<lparr>re_row = n, re_field = k, re_message = k @ '' is required''\<rparr>])"

definition date_error :: "int \<Rightarrow> string \<Rightarrow> row_error" where
  "date_error n k = \<lparr>re_row = n, re_field = k, re_message = k @ '' must be YYYY-MM-DD format''\<rparr>"

definition list_text :: "string list \<Rightarrow> string" where
  "list_text xs = ''['' @ concat (case map (\<lambda>x. CHR 0x27 # x @ [CHR 0x27]) xs of
     [] \<Rightarrow> [] | x # xs \<Rightarrow> x # map (\<lambda>x. '', '' @ x) xs) @ '']''"

definition status_errors :: "string list \<Rightarrow> int \<Rightarrow> string \<Rightarrow> row_error list" where
  "status_errors valid n status =
     (if status \<noteq> [] \<and> status \<notin> set valid
      then [\<lparr>re_row = n, re_field = ''status'', re_message = ''status must be one of '' @ list_text valid\<rparr>] else [])"

definition validate_student_row :: "csv_row \<Rightarrow> int \<Rightarrow> row_error list result" where
  "validate_student_row row n =
     (let errors = required row n ''first_name'' @ required row n ''admission_number'' @
        (case row_get row ''admission_date'' of
           None \<Rightarrow> required row n ''admission_date''
         | Some t \<Rightarrow>
             if t = [] then required row n ''admission_date''
             else if date_fromisoformat t = None then [date_error n ''admission_date''] else [])
      in bind_ok (get_stripped row ''status'') (\<lambda>st. Inr (errors @ status_errors valid_student_statuses n st)))"

definition validate_teacher_row :: "csv_row \<Rightarrow> int \<Rightarrow> row_error list result" where
  "validate_teacher_row row n =
     bind_ok (get_stripped row ''joining_date'') (\<lambda>jd.
     bind_ok (get_stripped row ''status'') (\<lambda>st.
       Inr (required row n ''first_name'' @
         (if jd \<noteq> [] \<and> date_fromisoformat jd = None then [date_error n ''joining_date''] else []) @
         status_errors valid_teacher_statuses n st)))"

definition generate_student_csv :: "import_env \<Rightarrow> (string \<times> string) list list \<Rightarrow> string" where
  "generate_student_csv io rows = im_encode io (generate_csv student_columns rows)"

definition generate_teacher_csv :: "import_env \<Rightarrow> (string \<times> string) list list \<Rightarrow> string" where
  "generate_teacher_csv io rows = im_encode io (generate_csv teacher_columns rows)"

end
