(* ===== verification/BulkImport.thy ===== *)
theory BulkImport
  imports Csv Families Teachers People Pagination "HOL-Library.Sublist"
begin

text \<open>
  Bulk import and export: \<open>app/modules/bulk_import/service.py\<close>, \<open>repository.py\<close> and
  \<open>router.py\<close>. Each row is imported in a savepoint, so that a row that fails leaves nothing.
  The clock that bounds an upload is the argument \<open>late\<close>; decoding is a parameter of the
  theory of CSV files.
\<close>

section \<open>Rows\<close>

definition validation_error :: error where
  "validation_error = PyError ''ValidationError''"

definition or_none :: "string option \<Rightarrow> string option" where
  "or_none x = (if truthy x then x else None)"

text \<open>\<open>row[k].strip()\<close>.\<close>

definition item_stripped :: "csv_row \<Rightarrow> string \<Rightarrow> string result" where
  "item_stripped row k = (case map_of row k of
     None \<Rightarrow> Inl (PyError ''KeyError'')
   | Some None \<Rightarrow> Inl (PyError ''AttributeError'')
   | Some (Some v) \<Rightarrow> Inr (py_strip v))"

text \<open>The lengths that the schemas of persons, students and teachers admit.\<close>

definition at_most :: "nat \<Rightarrow> string option \<Rightarrow> bool" where
  "at_most n x = (case x of None \<Rightarrow> True | Some v \<Rightarrow> length v \<le> n)"

definition row_person :: "csv_row \<Rightarrow> person_create result" where
  "row_person row = (case (case map_of row ''first_name'' of None \<Rightarrow> Some [] | Some v \<Rightarrow> v) of
     None \<Rightarrow> Inl validation_error
   | Some n \<Rightarrow>
       let ln = or_none (row_get row ''last_name''); em = or_none (row_get row ''primary_email'');
           ph = or_none (row_get row ''primary_phone'')
       in if n = [] \<or> 100 < length n \<or> \<not> at_most 100 ln \<or> \<not> at_most 255 em \<or> \<not> at_most 24 ph then Inl validation_error
          else Inr \<lparr>jc_first_name = n, jc_middle_name = None, jc_last_name = ln, jc_preferred_name = None,
            jc_date_of_birth = None, jc_gender = None, jc_blood_group = None, jc_nationality = None,
            jc_primary_phone = ph, jc_primary_email = em, jc_address_id = None\<rparr>)"

definition person_with :: "db \<Rightarrow> ulid option \<Rightarrow> (person \<Rightarrow> string option) \<Rightarrow> string option \<Rightarrow> person option" where
  "person_with s org f v =
     (if truthy v
      then find (\<lambda>p. Some (pe_organization_id p) = org \<and> f p = v \<and> deleted_at p = None) (persons s) else None)"

definition existing_person :: "db \<Rightarrow> ulid option \<Rightarrow> person_create \<Rightarrow> person option" where
  "existing_person s org d = (case person_with s org pe_primary_email (jc_primary_email d) of
     Some p \<Rightarrow> Some p
   | None \<Rightarrow> person_with s org pe_primary_phone (jc_primary_phone d))"

definition import_person :: "env \<Rightarrow> request_context \<Rightarrow> person_create \<Rightarrow> db \<Rightarrow> (person \<times> db) result" where
  "import_person env ctx d s = (case existing_person s (organization_id ctx) d of
     Some p \<Rightarrow> Inr (p, s)
   | None \<Rightarrow> (case organization_id ctx of
        None \<Rightarrow> Inl (IntegrityError ''organization_id'')
      | Some org \<Rightarrow>
          let p = new_person env ctx org d s in Inr (p, s\<lparr>persons := insert_row p (persons s)\<rparr>)))"

definition student_status_of :: "string \<Rightarrow> student_status option" where
  "student_status_of t = find (\<lambda>x. student_status_value x = t)
     [ST_ACTIVE, ST_WITHDRAWN, ST_GRADUATED, ST_TRANSFERRED, ST_INACTIVE, ST_DECEASED]"

definition teacher_status_of :: "string \<Rightarrow> teacher_status option" where
  "teacher_status_of t = find (\<lambda>x. teacher_status_value x = t)
     [TE_ACTIVE, TE_ON_LEAVE, TE_RESIGNED, TE_TERMINATED, TE_INACTIVE]"

definition or_active :: "string \<Rightarrow> string" where
  "or_active t = (if t = [] then ''ACTIVE'' else t)"

definition row_student :: "csv_row \<Rightarrow> ulid \<Rightarrow> student_create result" where
  "row_student row pid =
     bind_ok (item_stripped row ''admission_number'') (\<lambda>n.
     bind_ok (bind_ok (item_stripped row ''admission_date'') (\<lambda>t. ok_or (PyError ''ValueError'') (date_fromisoformat t))) (\<lambda>d.
     bind_ok (get_stripped row ''status'') (\<lambda>st.
       if n = [] \<or> 50 < length n then Inl validation_error
       else bind_ok (ok_or validation_error (student_status_of (or_active st))) (\<lambda>st.
         Inr \<lparr>fc_person_id = pid, fc_admission_number = n, fc_admission_date = d, fc_status = st\<rparr>))))"

definition import_student :: "env \<Rightarrow> request_context \<Rightarrow> ulid \<Rightarrow> csv_row \<Rightarrow> person \<Rightarrow> db \<Rightarrow> db result" where
  "import_student env ctx sch row p s =
     bind_ok (row_student row (row_id p)) (\<lambda>d.
     bind_ok (ok_or (IntegrityError ''organization_id'') (organization_id ctx)) (\<lambda>org.
     bind_ok (flush_students (insert_row (new_student env ctx sch org d s) (students s))) (\<lambda>t.
       Inr (s\<lparr>students := t\<rparr>))))"

definition row_teacher :: "csv_row \<Rightarrow> ulid \<Rightarrow> teacher_create result" where
  "row_teacher row pid =
     bind_ok (get_stripped row ''joining_date'') (\<lambda>jd.
     bind_ok (if jd = [] then Inr None
              else bind_ok (ok_or (PyError ''ValueError'') (date_fromisoformat jd)) (\<lambda>d. Inr (Some d))) (\<lambda>jd.
     bind_ok (get_stripped row ''status'') (\<lambda>st.
       let en = or_none (row_get row ''employee_number''); ds = or_none (row_get row ''designation'')
       in if \<not> at_most 50 en \<or> \<not> at_most 100 ds then Inl validation_error
          else bind_ok (ok_or validation_error (teacher_status_of (or_active st))) (\<lambda>st.
            Inr \<lparr>ec_person_id = pid, ec_employee_number = en, ec_designation = ds, ec_joining_date = jd,
              ec_status = st\<rparr>))))"

definition import_teacher :: "env \<Rightarrow> request_context \<Rightarrow> ulid \<Rightarrow> csv_row \<Rightarrow> person \<Rightarrow> db \<Rightarrow> db result" where
  "import_teacher env ctx sch row p s =
     bind_ok (row_teacher row (row_id p)) (\<lambda>d.
     bind_ok (ok_or (IntegrityError ''organization_id'') (organization_id ctx)) (\<lambda>org.
     bind_ok (flush_teachers (insert_row (new_teacher env ctx sch org d s) (teachers s))) (\<lambda>t.
       Inr (s\<lparr>teachers := t\<rparr>))))"

text \<open>The body of the savepoint.\<close>

definition import_row :: "env \<Rightarrow> request_context \<Rightarrow> ulid \<Rightarrow> import_resource \<Rightarrow> csv_row \<Rightarrow> db \<Rightarrow> db result" where
  "import_row env ctx sch rt row s =
     bind_ok (row_person row) (\<lambda>d.
     bind_ok (import_person env ctx d s) (\<lambda>(p, s).
       if rt = IR_STUDENTS then import_student env ctx sch row p s else import_teacher env ctx sch row p s))"

definition validate_row :: "import_resource \<Rightarrow> csv_row \<Rightarrow> int \<Rightarrow> row_error list result" where
  "validate_row rt row n = (if rt = IR_STUDENTS then validate_student_row row n else validate_teacher_row row n)"

fun validate_all_rows :: "import_resource \<Rightarrow> int \<Rightarrow> csv_row list \<Rightarrow> row_error list result" where
  "validate_all_rows rt n [] = Inr []"
| "validate_all_rows rt n (row # rows) =
     bind_ok (validate_row rt row n) (\<lambda>e. bind_ok (validate_all_rows rt (n + 1) rows) (\<lambda>es. Inr (e @ es)))"

record import_run =
  ir_success :: int
  ir_failed :: int
  ir_errors :: "row_error list"

definition row_failed :: "import_env \<Rightarrow> int \<Rightarrow> error \<Rightarrow> import_run \<Rightarrow> import_run" where
  "row_failed io n e r = r\<lparr>ir_failed := ir_failed r + 1,
     ir_errors := ir_errors r @ [\<lparr>re_row = n, re_field = ''row'', re_message = im_text io e\<rparr>]\<rparr>"

fun process_rows ::
  "import_env \<Rightarrow> env \<Rightarrow> request_context \<Rightarrow> ulid \<Rightarrow> import_resource \<Rightarrow> int \<Rightarrow> csv_row list \<Rightarrow> import_run \<Rightarrow> db \<Rightarrow>
   (import_run \<times> db) result" where
  "process_rows io env ctx sch rt n [] r s = Inr (r, s)"
| "process_rows io env ctx sch rt n (row # rows) r s =
     bind_ok (validate_row rt row n) (\<lambda>e.
       if e \<noteq> [] then process_rows io env ctx sch rt (n + 1) rows (r\<lparr>ir_failed := ir_failed r + 1\<rparr>) s
       else (case import_row env ctx sch rt row s of
           Inl e \<Rightarrow> process_rows io env ctx sch rt (n + 1) rows (row_failed io n e r) s
         | Inr s' \<Rightarrow> process_rows io env ctx sch rt (n + 1) rows (r\<lparr>ir_success := ir_success r + 1\<rparr>) s'))"

section \<open>Jobs\<close>

definition new_job ::
  "env \<Rightarrow> request_context \<Rightarrow> ulid \<Rightarrow> import_resource \<Rightarrow> string \<Rightarrow> import_status \<Rightarrow> int \<Rightarrow> row_error list \<Rightarrow> bool \<Rightarrow> db \<Rightarrow> import_job" where
  "new_job env ctx sch rt filename st n errs finished s =
     \<lparr>row_id = new_id env ''import_jobs'' (import_jobs s), created_at = env_now env, updated_at = env_now env,
      created_by_id = Some (user_id ctx), updated_by_id = None, ij_school_id = sch,
      ij_organization_id = organization_id ctx, ij_resource_type = rt, ij_status = st, ij_total_rows = Some n,
      ij_processed_rows = 0, ij_success_rows = 0, ij_failed_rows = (if finished then 0 else int (length errs)),
      ij_error_summary = (if errs = [] then None else Some errs), ij_original_filename = Some filename,
      ij_started_at = Some (env_now env), ij_completed_at = (if finished then Some (env_now env) else None)\<rparr>"

text \<open>The flush of a job checks that the organization is set and that the filename fits its column.\<close>

definition create_job :: "import_job \<Rightarrow> db \<Rightarrow> (import_job \<times> db) result" where
  "create_job j s =
     (if ij_organization_id j = None then Inl (IntegrityError ''organization_id'')
      else if \<not> at_most 255 (ij_original_filename j) then Inl (PyError ''DataError'')
      else Inr (j, s\<lparr>import_jobs := insert_row j (import_jobs s)\<rparr>))"

definition final_status :: "import_run \<Rightarrow> import_status" where
  "final_status r = (if ir_failed r = 0 then IJ_COMPLETED else if 0 < ir_success r then IJ_PARTIAL else IJ_FAILED)"

definition update_job :: "env \<Rightarrow> import_job \<Rightarrow> import_run \<Rightarrow> db \<Rightarrow> import_job \<times> db" where
  "update_job env j r s =
     (let j' = flush_actor (env_now env) j (j\<lparr>ij_status := final_status r, ij_processed_rows := ir_success r + ir_failed r,
          ij_success_rows := ir_success r, ij_failed_rows := ir_failed r,
          ij_error_summary := (if ir_errors r = [] then None else Some (ir_errors r)),
          ij_completed_at := Some (env_now env)\<rparr>)
      in (j', s\<lparr>import_jobs := update_row j' (import_jobs s)\<rparr>))"

definition file_error :: "string \<Rightarrow> row_error list" where
  "file_error m = [\<lparr>re_row = 0, re_field = ''file'', re_message = m\<rparr>]"

definition start_import ::
  "import_env \<Rightarrow> env \<Rightarrow> request_context \<Rightarrow> import_resource \<Rightarrow> string \<Rightarrow> string \<Rightarrow> db \<Rightarrow> (import_job \<times> db) result" where
  "start_import io env ctx rt content filename s = (case school_id ctx of
     None \<Rightarrow> Inl no_school_set
   | Some sch \<Rightarrow> (case parse_csv io content of
        Inl m \<Rightarrow> create_job (new_job env ctx sch rt filename IJ_FAILED 0 (file_error m) True s) s
      | Inr [] \<Rightarrow>
          create_job (new_job env ctx sch rt filename IJ_FAILED 0 (file_error ''CSV file is empty or has no data rows'') True s) s
      | Inr rows \<Rightarrow>
          bind_ok (validate_all_rows rt 2 rows) (\<lambda>errs.
          bind_ok (create_job (new_job env ctx sch rt filename IJ_PROCESSING (int (length rows)) errs False s) s) (\<lambda>(j, s).
          bind_ok (process_rows io env ctx sch rt 2 rows \<lparr>ir_success = 0, ir_failed = 0, ir_errors = errs\<rparr> s) (\<lambda>(r, s).
            Inr (update_job env j r s))))))"

section \<open>Exports\<close>

definition text_or_empty :: "string option \<Rightarrow> string" where
  "text_or_empty x = (case x of None \<Rightarrow> [] | Some t \<Rightarrow> t)"

definition exported_student :: "student \<Rightarrow> person \<Rightarrow> (string \<times> string) list" where
  "exported_student x p =
     [(''first_name'', pe_first_name p), (''last_name'', text_or_empty (pe_last_name p)),
      (''primary_email'', text_or_empty (pe_primary_email p)), (''primary_phone'', text_or_empty (pe_primary_phone p)),
      (''admission_number'', st_admission_number x), (''admission_date'', iso_date (st_admission_date x)),
      (''status'', student_status_value (st_status x))]"

definition exported_teacher :: "teacher \<Rightarrow> person \<Rightarrow> (string \<times> string) list" where
  "exported_teacher x p =
     [(''first_name'', pe_first_name p), (''last_name'', text_or_empty (pe_last_name p)),
      (''primary_email'', text_or_empty (pe_primary_email p)), (''primary_phone'', text_or_empty (pe_primary_phone p)),
      (''employee_number'', text_or_empty (te_employee_number x)), (''designation'', text_or_empty (te_designation x)),
      (''joining_date'', case te_joining_date x of None \<Rightarrow> [] | Some d \<Rightarrow> iso_date d),
      (''status'', teacher_status_value (te_status x))]"

definition exported_students :: "db \<Rightarrow> ulid \<Rightarrow> (student \<times> person) list" where
  "exported_students s sch =
     [(x, p). x \<leftarrow> students s, st_school_id x = sch \<and> deleted_at x = None, p \<leftarrow> persons s, row_id p = st_person_id x]"

definition exported_teachers :: "db \<Rightarrow> ulid \<Rightarrow> (teacher \<times> person) list" where
  "exported_teachers s sch =
     [(x, p). x \<leftarrow> teachers s, te_school_id x = sch \<and> deleted_at x = None, p \<leftarrow> persons s, row_id p = te_person_id x]"

definition export_rows :: "db \<Rightarrow> ulid \<Rightarrow> import_resource \<Rightarrow> (string \<times> string) list list" where
  "export_rows s sch rt =
     (if rt = IR_STUDENTS
      then map (\<lambda>(x, p). exported_student x p) (exported_students s sch)
      else map (\<lambda>(x, p). exported_teacher x p) (exported_teachers s sch))"

definition get_export :: "import_env \<Rightarrow> request_context \<Rightarrow> import_resource \<Rightarrow> db \<Rightarrow> string result" where
  "get_export io ctx rt s = (case school_id ctx of
     None \<Rightarrow> Inl no_school_set
   | Some sch \<Rightarrow>
       Inr (if rt = IR_STUDENTS then generate_student_csv io (export_rows s sch rt)
            else generate_teacher_csv io (export_rows s sch rt)))"

section \<open>Routes\<close>

definition job_missing :: error where
  "job_missing = NotFoundError ''IMPORT_JOB_NOT_FOUND''"

definition job_by_id :: "db \<Rightarrow> ulid \<Rightarrow> ulid \<Rightarrow> import_job option" where
  "job_by_id s i sch = find (\<lambda>j. row_id j = i \<and> ij_school_id j = sch) (import_jobs s)"

text \<open>The listing sorts by creation time and cuts by key; the cursor is bound as a key.\<close>

definition list_jobs ::
  "db \<Rightarrow> ulid \<Rightarrow> import_resource option \<Rightarrow> import_status option \<Rightarrow> ulid option \<Rightarrow> int \<Rightarrow> import_job list result" where
  "list_jobs s sch rt st cur lim =
     bind_ok (case cur of None \<Rightarrow> Inr None | Some c \<Rightarrow> bind_ok (bind_ulid c) (\<lambda>c. Inr (Some c))) (\<lambda>cur.
       if lim < 0 then Inl (PyError ''DataError'')
       else Inr (take (nat lim) (order_by [\<lambda>a b. created_at b < created_at a]
         (filter (\<lambda>j. ij_school_id j = sch \<and> (rt = None \<or> rt = Some (ij_resource_type j)) \<and>
            (st = None \<or> st = Some (ij_status j)) \<and> (cur = None \<or> row_id j < the cur)) (import_jobs s)))))"

definition list_import_jobs ::
  "request_context \<Rightarrow> import_resource option \<Rightarrow> import_status option \<Rightarrow> ulid option \<Rightarrow> int \<Rightarrow> db \<Rightarrow> import_job list result" where
  "list_import_jobs ctx rt st cur lim s = guarded ''bulk_import.import.list'' ctx (\<lambda>ctx. case school_id ctx of
     None \<Rightarrow> Inr []
   | Some sch \<Rightarrow> list_jobs s sch rt st cur lim)"

definition get_import_job :: "request_context \<Rightarrow> ulid \<Rightarrow> db \<Rightarrow> import_job result" where
  "get_import_job ctx i s = guarded ''bulk_import.import.read'' ctx (\<lambda>ctx. case school_id ctx of
     None \<Rightarrow> Inl job_missing
   | Some sch \<Rightarrow> ok_or job_missing (job_by_id s i sch))"

definition upload_import ::
  "import_env \<Rightarrow> env \<Rightarrow> bool \<Rightarrow> request_context \<Rightarrow> import_resource \<Rightarrow> string \<Rightarrow> string option \<Rightarrow> db \<Rightarrow> (import_job \<times> db) result" where
  "upload_import io env late ctx rt content filename s = guarded ''bulk_import.import.create'' ctx (\<lambda>ctx.
     if late then Inl (RequestTimeoutError ''TIMEOUT'')
     else start_import io env ctx rt content (if truthy filename then the filename else ''upload.csv'') s)"

definition download_template :: "request_context \<Rightarrow> import_resource \<Rightarrow> string result" where
  "download_template ctx rt = guarded ''bulk_import.import.read'' ctx (\<lambda>_.
     Inr (join_comma_fields (if rt = IR_STUDENTS then student_columns else teacher_columns) @ [CHR 0x0A]))"

definition export_records :: "import_env \<Rightarrow> request_context \<Rightarrow> import_resource \<Rightarrow> db \<Rightarrow> string result" where
  "export_records io ctx rt s = guarded ''bulk_import.export.create'' ctx (\<lambda>ctx. get_export io ctx rt s)"

section \<open>What an import does\<close>

lemma validate_all_rowsD:
  "validate_all_rows rt n rows = Inr es \<Longrightarrow> i < length rows \<Longrightarrow> \<exists>e. validate_row rt (rows ! i) (n + int i) = Inr e"
proof (induction rows arbitrary: n es i)
  case (Cons row rows)
  then show ?case
    by (cases i) (fastforce simp: bind_ok_Inr_iff algebra_simps)+
qed simp

lemma flush_students_same: "flush_students t = Inr t' \<Longrightarrow> t' = t"
  by (auto simp: flush_students_def constrained_def bind_ok_Inr_iff split: if_splits)

lemma flush_teachers_same: "flush_teachers t = Inr t' \<Longrightarrow> t' = t"
  by (auto simp: flush_teachers_def constrained_def bind_ok_Inr_iff split: if_splits)

lemma import_person_tables:
  assumes "import_person env ctx d s = Inr (p, s')"
  shows "\<exists>ps. s' = s\<lparr>persons := persons s @ ps\<rparr> \<and> length ps \<le> 1 \<and>
    (\<forall>p\<in>set ps. Some (pe_organization_id p) = organization_id ctx)"
proof (cases "existing_person s (organization_id ctx) d")
  case None
  then show ?thesis using assms
    by (auto simp: import_person_def Let_def insert_row_def new_person_def split: option.splits)
next
  case (Some q)
  then have "s' = s\<lparr>persons := persons s @ []\<rparr>" using assms by (simp add: import_person_def)
  then show ?thesis by (intro exI[of _ "[]"]) simp
qed

lemma import_row_tables:
  assumes "import_row env ctx sch rt row s = Inr s'"
  shows "\<exists>ps xs ys. s' = s\<lparr>persons := persons s @ ps, students := students s @ xs, teachers := teachers s @ ys\<rparr> \<and>
    length ps \<le> 1 \<and> length xs = (if rt = IR_STUDENTS then 1 else 0) \<and> length ys = (if rt = IR_STUDENTS then 0 else 1) \<and>
    (\<forall>p\<in>set ps. Some (pe_organization_id p) = organization_id ctx) \<and>
    (\<forall>x\<in>set xs. st_school_id x = sch \<and> Some (st_organization_id x) = organization_id ctx) \<and>
    (\<forall>y\<in>set ys. te_school_id y = sch \<and> Some (te_organization_id y) = organization_id ctx)"
proof -
  obtain d p t where ip: "import_person env ctx d s = Inr (p, t)"
    and r: "(if rt = IR_STUDENTS then import_student env ctx sch row p t else import_teacher env ctx sch row p t) = Inr s'"
    using assms by (auto simp: import_row_def bind_ok_Inr_iff)
  obtain ps where ps: "t = s\<lparr>persons := persons s @ ps\<rparr>" "length ps \<le> 1"
    "\<forall>p\<in>set ps. Some (pe_organization_id p) = organization_id ctx"
    using import_person_tables[OF ip] by blast
  show ?thesis
  proof (cases "rt = IR_STUDENTS")
    case True
    then obtain d org u where d: "organization_id ctx = Some org"
      "flush_students (insert_row (new_student env ctx sch org d t) (students t)) = Inr u" "s' = t\<lparr>students := u\<rparr>"
      using r by (auto simp: import_student_def bind_ok_Inr_iff ok_or_def split: option.splits)
    then have "u = students s @ [new_student env ctx sch org d t]"
      using flush_students_same[OF d(2)] ps(1) by (simp add: insert_row_def)
    then show ?thesis using d ps True
      by (intro exI[of _ ps] exI[of _ "[new_student env ctx sch org d t]"] exI[of _ "[]"]) (simp add: new_student_def)
  next
    case False
    then obtain d org u where d: "organization_id ctx = Some org"
      "flush_teachers (insert_row (new_teacher env ctx sch org d t) (teachers t)) = Inr u" "s' = t\<lparr>teachers := u\<rparr>"
      using r by (auto simp: import_teacher_def bind_ok_Inr_iff ok_or_def split: option.splits)
    then have "u = teachers s @ [new_teacher env ctx sch org d t]"
      using flush_teachers_same[OF d(2)] ps(1) by (simp add: insert_row_def)
    then show ?thesis using d ps False
      by (intro exI[of _ ps] exI[of _ "[]"] exI[of _ "[new_teacher env ctx sch org d t]"]) (simp add: new_teacher_def)
  qed
qed

definition run_tables :: "request_context \<Rightarrow> ulid \<Rightarrow> import_resource \<Rightarrow> db \<Rightarrow> int \<Rightarrow> db \<Rightarrow> bool" where
  "run_tables ctx sch rt s k s' \<longleftrightarrow> (\<exists>ps xs ys.
     s' = s\<lparr>persons := persons s @ ps, students := students s @ xs, teachers := teachers s @ ys\<rparr> \<and>
     int (length ps) \<le> k \<and> int (length xs) = (if rt = IR_STUDENTS then k else 0) \<and>
     int (length ys) = (if rt = IR_STUDENTS then 0 else k) \<and>
     (\<forall>p\<in>set ps. Some (pe_organization_id p) = organization_id ctx) \<and>
     (\<forall>x\<in>set xs. st_school_id x = sch \<and> Some (st_organization_id x) = organization_id ctx) \<and>
     (\<forall>y\<in>set ys. te_school_id y = sch \<and> Some (te_organization_id y) = organization_id ctx))"

lemma run_tables_refl: "run_tables ctx sch rt s 0 s"
  unfolding run_tables_def by (intro exI[of _ "[]"]) simp

lemma run_tables_row: "import_row env ctx sch rt row s = Inr s' \<Longrightarrow> run_tables ctx sch rt s 1 s'"
proof -
  assume "import_row env ctx sch rt row s = Inr s'"
  from import_row_tables[OF this] obtain ps xs ys where
    "s' = s\<lparr>persons := persons s @ ps, students := students s @ xs, teachers := teachers s @ ys\<rparr>"
    "length ps \<le> 1" "length xs = (if rt = IR_STUDENTS then 1 else 0)" "length ys = (if rt = IR_STUDENTS then 0 else 1)"
    "\<forall>p\<in>set ps. Some (pe_organization_id p) = organization_id ctx"
    "\<forall>x\<in>set xs. st_school_id x = sch \<and> Some (st_organization_id x) = organization_id ctx"
    "\<forall>y\<in>set ys. te_school_id y = sch \<and> Some (te_organization_id y) = organization_id ctx" by blast
  then show ?thesis unfolding run_tables_def
    by (intro exI[of _ ps] exI[of _ xs] exI[of _ ys]) simp
qed

lemma run_tables_trans:
  assumes "run_tables ctx sch rt s k s'" "run_tables ctx sch rt s' l s''"
  shows "run_tables ctx sch rt s (k + l) s''"
proof -
  obtain ps xs ys where a:
    "s' = s\<lparr>persons := persons s @ ps, students := students s @ xs, teachers := teachers s @ ys\<rparr>"
    "int (length ps) \<le> k" "int (length xs) = (if rt = IR_STUDENTS then k else 0)"
    "int (length ys) = (if rt = IR_STUDENTS then 0 else k)"
    "\<forall>p\<in>set ps. Some (pe_organization_id p) = organization_id ctx"
    "\<forall>x\<in>set xs. st_school_id x = sch \<and> Some (st_organization_id x) = organization_id ctx"
    "\<forall>y\<in>set ys. te_school_id y = sch \<and> Some (te_organization_id y) = organization_id ctx"
    using assms(1) unfolding run_tables_def by blast
  obtain qs us vs where b:
    "s'' = s'\<lparr>persons := persons s' @ qs, students := students s' @ us, teachers := teachers s' @ vs\<rparr>"
    "int (length qs) \<le> l" "int (length us) = (if rt = IR_STUDENTS then l else 0)"
    "int (length vs) = (if rt = IR_STUDENTS then 0 else l)"
    "\<forall>p\<in>set qs. Some (pe_organization_id p) = organization_id ctx"
    "\<forall>x\<in>set us. st_school_id x = sch \<and> Some (st_organization_id x) = organization_id ctx"
    "\<forall>y\<in>set vs. te_school_id y = sch \<and> Some (te_organization_id y) = organization_id ctx"
    using assms(2) unfolding run_tables_def by blast
  show ?thesis unfolding run_tables_def
    by (rule exI[of _ "ps @ qs"], rule exI[of _ "xs @ us"], rule exI[of _ "ys @ vs"]) (use a b in auto)
qed

lemma process_rows_effect:
  assumes "process_rows io env ctx sch rt n rows r s = Inr (r', s')"
  shows "\<exists>k. 0 \<le> k \<and> k \<le> int (length rows) \<and> ir_success r' = ir_success r + k \<and>
    ir_failed r' = ir_failed r + (int (length rows) - k) \<and> run_tables ctx sch rt s k s'"
  using assms
proof (induction rows arbitrary: n r s)
  case Nil
  then show ?case using run_tables_refl by auto
next
  case (Cons row rows)
  obtain e where e: "validate_row rt row n = Inr e" using Cons.prems by (auto simp: bind_ok_Inr_iff)
  show ?case
  proof (cases "e = [] \<and> is_ok (import_row env ctx sch rt row s)")
    case True
    then obtain t where t: "import_row env ctx sch rt row s = Inr t" by (auto simp: is_ok_def split: sum.splits)
    then have "process_rows io env ctx sch rt (n + 1) rows (r\<lparr>ir_success := ir_success r + 1\<rparr>) t = Inr (r', s')"
      using Cons.prems e True by simp
    then obtain k where "0 \<le> k" "k \<le> int (length rows)" "ir_success r' = ir_success r + 1 + k"
      "ir_failed r' = ir_failed r + (int (length rows) - k)" "run_tables ctx sch rt t k s'"
      using Cons.IH by fastforce
    then show ?thesis using run_tables_trans[OF run_tables_row[OF t], of k s'] by (intro exI[of _ "k + 1"]) (simp add: add.commute)
  next
    case False
    then obtain q where q: "process_rows io env ctx sch rt (n + 1) rows q s = Inr (r', s')"
      "ir_success q = ir_success r" "ir_failed q = ir_failed r + 1"
      using Cons.prems e by (auto simp: row_failed_def is_ok_def split: if_splits sum.splits)
    show ?thesis using Cons.IH[OF q(1)] q(2,3) by (force intro: exI)
  qed
qed

section \<open>The rows that count\<close>

text \<open>
  The rows that were imported, in order. A file of them alone has the same effect on persons,
  students and teachers: a row that fails leaves nothing.
\<close>

fun imported_rows :: "env \<Rightarrow> request_context \<Rightarrow> ulid \<Rightarrow> import_resource \<Rightarrow> csv_row list \<Rightarrow> db \<Rightarrow> csv_row list" where
  "imported_rows env ctx sch rt [] s = []"
| "imported_rows env ctx sch rt (row # rows) s =
     (if validate_row rt row 0 \<noteq> Inr [] then imported_rows env ctx sch rt rows s
      else (case import_row env ctx sch rt row s of
          Inl _ \<Rightarrow> imported_rows env ctx sch rt rows s
        | Inr s' \<Rightarrow> row # imported_rows env ctx sch rt rows s'))"

lemma required_Nil [simp]: "required row n k = [] \<longleftrightarrow> truthy (row_get row k)"
  by (simp add: required_def)

lemma status_errors_Nil [simp]: "status_errors valid n t = [] \<longleftrightarrow> t = [] \<or> t \<in> set valid"
  by (auto simp: status_errors_def)

lemma validate_student_ok:
  "validate_student_row row n = Inr [] \<longleftrightarrow> truthy (row_get row ''first_name'') \<and> truthy (row_get row ''admission_number'') \<and>
     truthy (row_get row ''admission_date'') \<and> date_fromisoformat (the (row_get row ''admission_date'')) \<noteq> None \<and>
     (\<exists>t. get_stripped row ''status'' = Inr t \<and> (t = [] \<or> t \<in> set valid_student_statuses))"
  by (cases "get_stripped row ''status''"; cases "row_get row ''admission_date''")
    (auto simp: validate_student_row_def truthy_def)

lemma validate_teacher_ok:
  "validate_teacher_row row n = Inr [] \<longleftrightarrow> truthy (row_get row ''first_name'') \<and>
     (\<exists>t. get_stripped row ''joining_date'' = Inr t \<and> (t = [] \<or> date_fromisoformat t \<noteq> None)) \<and>
     (\<exists>t. get_stripped row ''status'' = Inr t \<and> (t = [] \<or> t \<in> set valid_teacher_statuses))"
  by (cases "get_stripped row ''status''"; cases "get_stripped row ''joining_date''")
    (simp_all add: validate_teacher_row_def)

lemma validate_row_any: "validate_row rt row n = Inr [] \<Longrightarrow> validate_row rt row m = Inr []"
  by (simp add: validate_row_def validate_student_ok validate_teacher_ok split: if_splits)

lemma subseq_imported: "subseq (imported_rows env ctx sch rt rows s) rows"
  by (induction rows arbitrary: s) (auto split: sum.splits)

lemma validate_imported: "validate_all_rows rt n (imported_rows env ctx sch rt rows s) = Inr []"
  by (induction rows arbitrary: n s) (auto simp: validate_row_any split: sum.splits)

lemma existing_person_jobs: "existing_person (s\<lparr>import_jobs := t\<rparr>) org d = existing_person s org d"
proof -
  have "person_with (s\<lparr>import_jobs := t\<rparr>) = person_with s" by (intro ext) (simp add: person_with_def)
  then show ?thesis unfolding existing_person_def by (simp only:)
qed

lemma jobs_commute:
  "s\<lparr>import_jobs := t, persons := ps\<rparr> = s\<lparr>persons := ps, import_jobs := t\<rparr>"
  "s\<lparr>import_jobs := t, students := xs\<rparr> = s\<lparr>students := xs, import_jobs := t\<rparr>"
  "s\<lparr>import_jobs := t, teachers := ys\<rparr> = s\<lparr>teachers := ys, import_jobs := t\<rparr>"
  by simp_all

lemma import_row_jobs:
  "import_row env ctx sch rt row (s\<lparr>import_jobs := t\<rparr>) =
   bind_ok (import_row env ctx sch rt row s) (\<lambda>s. Inr (s\<lparr>import_jobs := t\<rparr>))"
proof -
  have p: "import_person env ctx d (s\<lparr>import_jobs := t\<rparr>) =
      bind_ok (import_person env ctx d s) (\<lambda>(p, s). Inr (p, s\<lparr>import_jobs := t\<rparr>))" for d s
    by (cases "existing_person s (organization_id ctx) d"; cases "organization_id ctx")
      (simp_all add: import_person_def existing_person_jobs new_person_def Let_def jobs_commute)
  have x: "import_student env ctx sch row p (s\<lparr>import_jobs := t\<rparr>) =
      bind_ok (import_student env ctx sch row p s) (\<lambda>s. Inr (s\<lparr>import_jobs := t\<rparr>))" for p s
    by (simp add: import_student_def new_student_def bind_ok_assoc jobs_commute)
  have y: "import_teacher env ctx sch row p (s\<lparr>import_jobs := t\<rparr>) =
      bind_ok (import_teacher env ctx sch row p s) (\<lambda>s. Inr (s\<lparr>import_jobs := t\<rparr>))" for p s
    by (simp add: import_teacher_def new_teacher_def bind_ok_assoc jobs_commute)
  show ?thesis
    by (cases "row_person row"; cases "rt = IR_STUDENTS") (simp_all add: import_row_def p x y bind_ok_assoc split_beta)
qed

lemma process_imported:
  assumes "process_rows io env ctx sch rt n rows r (s\<lparr>import_jobs := t\<rparr>) = Inr (r', s')"
  shows "process_rows io env ctx sch rt m (imported_rows env ctx sch rt rows s) q (s\<lparr>import_jobs := u\<rparr>) =
      Inr (q\<lparr>ir_success := ir_success q + (ir_success r' - ir_success r)\<rparr>, s'\<lparr>import_jobs := u\<rparr>) \<and>
    int (length (imported_rows env ctx sch rt rows s)) = ir_success r' - ir_success r"
  using assms
proof (induction rows arbitrary: n m r q s)
  case Nil
  then show ?case by auto
next
  case (Cons row rows)
  obtain e where e: "validate_row rt row n = Inr e" using Cons.prems by (auto simp: bind_ok_Inr_iff)
  have z: "validate_row rt row 0 = Inr [] \<longleftrightarrow> e = []" "validate_row rt row 0 = Inr [] \<Longrightarrow> validate_row rt row m = Inr []"
    using e validate_row_any[of rt row] by (metis sum.inject(2))+
  show ?case
  proof (cases "e = [] \<and> is_ok (import_row env ctx sch rt row s)")
    case True
    then obtain v where v: "import_row env ctx sch rt row s = Inr v" by (auto simp: is_ok_def split: sum.splits)
    then have "process_rows io env ctx sch rt (n + 1) rows (r\<lparr>ir_success := ir_success r + 1\<rparr>) (v\<lparr>import_jobs := t\<rparr>) = Inr (r', s')"
      using Cons.prems e True by (simp add: import_row_jobs)
    from Cons.IH[OF this, of "m + 1" "q\<lparr>ir_success := ir_success q + 1\<rparr>"] show ?thesis
      using v True z by (simp add: import_row_jobs algebra_simps)
  next
    case False
    then obtain w where w: "process_rows io env ctx sch rt (n + 1) rows w (s\<lparr>import_jobs := t\<rparr>) = Inr (r', s')"
      "ir_success w = ir_success r"
      using Cons.prems e by (auto simp: row_failed_def is_ok_def import_row_jobs split: if_splits sum.splits)
    have "imported_rows env ctx sch rt (row # rows) s = imported_rows env ctx sch rt rows s"
      using False z(1) by (auto simp: is_ok_def split: sum.splits)
    then show ?thesis using Cons.IH[OF w(1), of m q] w(2) by simp
  qed
qed

lemma start_import_eq:
  assumes "school_id ctx = Some sch" "parse_csv io content = Inr rows" "rows \<noteq> []"
  shows "start_import io env ctx rt content f s =
    bind_ok (validate_all_rows rt 2 rows) (\<lambda>errs.
    bind_ok (create_job (new_job env ctx sch rt f IJ_PROCESSING (int (length rows)) errs False s) s) (\<lambda>(j, s).
    bind_ok (process_rows io env ctx sch rt 2 rows \<lparr>ir_success = 0, ir_failed = 0, ir_errors = errs\<rparr> s) (\<lambda>(r, s).
      Inr (update_job env j r s))))"
  using assms by (cases rows) (simp_all add: start_import_def)

lemma create_new_job:
  "create_job (new_job env ctx sch rt f st n errs fin s) s' =
     (if organization_id ctx = None then Inl (IntegrityError ''organization_id'')
      else if 255 < length f then Inl (PyError ''DataError'')
      else let j = new_job env ctx sch rt f st n errs fin s in Inr (j, s'\<lparr>import_jobs := insert_row j (import_jobs s')\<rparr>))"
  by (simp add: create_job_def new_job_def at_most_def Let_def)

lemma start_import_rows:
  assumes "start_import io env ctx rt content f s = Inr (j, s')" "parse_csv io content = Inr rows" "rows \<noteq> []"
  obtains sch errs j0 r t where "school_id ctx = Some sch" "validate_all_rows rt 2 rows = Inr errs"
    "j0 = new_job env ctx sch rt f IJ_PROCESSING (int (length rows)) errs False s"
    "organization_id ctx \<noteq> None" "length f \<le> 255"
    "process_rows io env ctx sch rt 2 rows \<lparr>ir_success = 0, ir_failed = 0, ir_errors = errs\<rparr>
       (s\<lparr>import_jobs := insert_row j0 (import_jobs s)\<rparr>) = Inr (r, t)"
    "j = fst (update_job env j0 r t)" "s' = snd (update_job env j0 r t)"
proof -
  obtain sch where "school_id ctx = Some sch" using assms(1) by (auto simp: start_import_def split: option.splits)
  then show ?thesis using assms(1) that
    unfolding start_import_eq[OF \<open>school_id ctx = Some sch\<close> assms(2,3)]
    by (auto simp: bind_ok_Inr_iff create_new_job Let_def split: if_splits)
qed

lemma flush_job [simp]:
  "ij_total_rows (flush_actor n x z) = ij_total_rows z" "ij_processed_rows (flush_actor n x z) = ij_processed_rows z"
  "ij_success_rows (flush_actor n x z) = ij_success_rows z" "ij_failed_rows (flush_actor n x z) = ij_failed_rows z"
  "ij_status (flush_actor n x z) = ij_status z"
  for x z :: import_job
  by (auto simp: flush_actor_def)

lemma update_job_fields:
  "ij_total_rows (fst (update_job env j r s)) = ij_total_rows j"
  "ij_processed_rows (fst (update_job env j r s)) = ir_success r + ir_failed r"
  "ij_success_rows (fst (update_job env j r s)) = ir_success r"
  "ij_failed_rows (fst (update_job env j r s)) = ir_failed r"
  "ij_status (fst (update_job env j r s)) = final_status r"
  "row_id (fst (update_job env j r s)) = row_id j"
  by (simp_all add: update_job_def Let_def)

lemma update_job_db: "\<exists>t. snd (update_job env j r s) = s\<lparr>import_jobs := t\<rparr>"
  by (auto simp: update_job_def Let_def)

text \<open>
  C23. An import accounts for every row. Its counts add up to the rows of the file, its status
  is read off them, and exactly as many students (or teachers) are added as it counts
  successes, all of them in the school of the request; persons are added at most one per success,
  in its organization, and nothing else changes but the jobs.
\<close>

theorem import_accounts_for_rows:
  assumes "start_import io env ctx rt content f s = Inr (j, s')"
    and "parse_csv io content = Inr rows" and "rows \<noteq> []"
  shows "0 \<le> ij_success_rows j \<and> 0 \<le> ij_failed_rows j \<and>
    ij_success_rows j + ij_failed_rows j = int (length rows) \<and>
    ij_processed_rows j = int (length rows) \<and> ij_total_rows j = Some (int (length rows)) \<and>
    ij_status j = (if ij_failed_rows j = 0 then IJ_COMPLETED else if ij_success_rows j = 0 then IJ_FAILED else IJ_PARTIAL) \<and>
    (\<exists>sch. school_id ctx = Some sch \<and> run_tables ctx sch rt s (ij_success_rows j) (s'\<lparr>import_jobs := import_jobs s\<rparr>))"
proof -
  obtain sch errs j0 r t where a: "school_id ctx = Some sch"
    "j0 = new_job env ctx sch rt f IJ_PROCESSING (int (length rows)) errs False s"
    "process_rows io env ctx sch rt 2 rows \<lparr>ir_success = 0, ir_failed = 0, ir_errors = errs\<rparr>
       (s\<lparr>import_jobs := insert_row j0 (import_jobs s)\<rparr>) = Inr (r, t)"
    "j = fst (update_job env j0 r t)" "s' = snd (update_job env j0 r t)"
    using start_import_rows[OF assms] by metis
  obtain k where k: "0 \<le> k" "k \<le> int (length rows)" "ir_success r = k" "ir_failed r = int (length rows) - k"
    "run_tables ctx sch rt (s\<lparr>import_jobs := insert_row j0 (import_jobs s)\<rparr>) k t"
    using process_rows_effect[OF a(3)] by auto
  obtain u where u: "s' = t\<lparr>import_jobs := u\<rparr>" using update_job_db a(5) by metis
  have "run_tables ctx sch rt s k (s'\<lparr>import_jobs := import_jobs s\<rparr>)"
    using k(5) unfolding run_tables_def u by (elim exE conjE) (intro exI conjI, auto)
  then show ?thesis
    using k u a(1) by (auto simp: a(2,4) update_job_fields new_job_def final_status_def)
qed

text \<open>
  C24. A row that fails leaves nothing. The file of the rows that succeed, one for each success that was
  counted, brings persons, students and teachers to the same state and completes.
\<close>

theorem import_equals_clean_file:
  assumes "start_import io env ctx rt content f s = Inr (j, s')"
    and "parse_csv io content = Inr rows" and "ij_success_rows j \<noteq> 0" and "rows \<noteq> []"
  shows "\<exists>good. subseq good rows \<and> int (length good) = ij_success_rows j \<and>
    (\<forall>clean. parse_csv io clean = Inr good \<longrightarrow>
       (\<exists>j' s''. start_import io env ctx rt clean f s = Inr (j', s'') \<and> ij_status j' = IJ_COMPLETED \<and>
          persons s'' = persons s' \<and> students s'' = students s' \<and> teachers s'' = teachers s'))"
proof -
  obtain sch errs j0 r t where a: "school_id ctx = Some sch" "organization_id ctx \<noteq> None" "length f \<le> 255"
    "process_rows io env ctx sch rt 2 rows \<lparr>ir_success = 0, ir_failed = 0, ir_errors = errs\<rparr>
       (s\<lparr>import_jobs := insert_row j0 (import_jobs s)\<rparr>) = Inr (r, t)"
    "j = fst (update_job env j0 r t)" "s' = snd (update_job env j0 r t)"
    using start_import_rows[OF assms(1,2,4)] by metis
  define good where "good = imported_rows env ctx sch rt rows s"
  have p: "process_rows io env ctx sch rt 2 good q (s\<lparr>import_jobs := u\<rparr>) =
      Inr (q\<lparr>ir_success := ir_success q + ir_success r\<rparr>, t\<lparr>import_jobs := u\<rparr>)"
    and n: "int (length good) = ir_success r" for q u
    using process_imported[OF a(4), of 2 q u] by (simp_all add: good_def)
  have v: "validate_all_rows rt m good = Inr []" for m
    unfolding good_def by (rule validate_imported)
  have ne: "good \<noteq> []" using n assms(3) a(5) by (auto simp: update_job_fields)
  have "\<exists>j' s''. start_import io env ctx rt clean f s = Inr (j', s'') \<and> ij_status j' = IJ_COMPLETED \<and>
      persons s'' = persons s' \<and> students s'' = students s' \<and> teachers s'' = teachers s'"
    if clean: "parse_csv io clean = Inr good" for clean
  proof -
    let ?j = "new_job env ctx sch rt f IJ_PROCESSING (int (length good)) [] False s"
    let ?r = "\<lparr>ir_success = ir_success r, ir_failed = 0, ir_errors = []\<rparr>"
    have "start_import io env ctx rt clean f s =
        Inr (update_job env ?j ?r (t\<lparr>import_jobs := insert_row ?j (import_jobs s)\<rparr>))"
      unfolding start_import_eq[OF a(1) clean ne] create_new_job v
      using a(2,3) by (simp add: Let_def p)
    then show ?thesis using a(6)
      by (simp add: update_job_def Let_def final_status_def)
  qed
  moreover have "subseq good rows" unfolding good_def by (rule subseq_imported)
  ultimately show ?thesis using n a(5) by (auto simp: update_job_fields)
qed

lemma validate_row_only_attribute:
  "validate_row rt row n = Inl e \<Longrightarrow> e = PyError ''AttributeError''"
  by (auto simp: validate_row_def validate_student_row_def validate_teacher_row_def get_stripped_def bind_ok_Inl_iff Let_def
      split: if_splits option.splits)

lemma validate_row_short: "map_of row ''status'' = Some None \<Longrightarrow> \<not> is_ok (validate_row rt row n)"
  by (auto simp: validate_row_def validate_student_row_def validate_teacher_row_def get_stripped_def bind_ok_def Let_def is_ok_def
      split: sum.splits)

lemma validate_all_short:
  "row \<in> set rows \<Longrightarrow> map_of row ''status'' = Some None \<Longrightarrow>
   validate_all_rows rt n rows = Inl (PyError ''AttributeError'')"
proof (induction rows arbitrary: n)
  case (Cons r rows)
  show ?case
  proof (cases "validate_row rt r n")
    case (Inl e)
    then show ?thesis using validate_row_only_attribute by auto
  next
    case (Inr e)
    then have "r \<noteq> row" using Cons.prems validate_row_short[of row rt n] by auto
    then show ?thesis using Cons Inr by simp
  qed
qed simp

text \<open>
  A row shorter than the header has no status when the header has one, and the validation then
  raises outside every handler: the import fails as a whole, and no job records it.
\<close>

theorem short_row_aborts_import:
  assumes "school_id ctx = Some sch" and "parse_csv io content = Inr rows"
    and "row \<in> set rows" and "map_of row ''status'' = Some None"
  shows "start_import io env ctx rt content f s = Inl (PyError ''AttributeError'')"
proof -
  have "rows \<noteq> []" using assms(3) by auto
  then show ?thesis
    unfolding start_import_eq[OF assms(1,2) \<open>rows \<noteq> []\<close>] validate_all_short[OF assms(3,4)] by simp
qed

lemma new_student_id: "row_id (new_student env ctx sch org c s) = new_id env ''students'' (students s)"
  by (simp add: new_student_def)

lemma row_student_person: "row_student row i = Inr c \<Longrightarrow> fc_person_id c = i"
  by (auto simp: row_student_def bind_ok_Inr_iff split: if_splits)

text \<open>
  Persons are matched by address or phone number alone. Once a child was admitted with the phone number
  of a parent, no other child with this number can be imported, whatever its name: its row is
  taken for the first child and violates the index.
\<close>

theorem shared_phone_blocks_import:
  assumes "row_person row = Inr d" and "jc_primary_email d = None"
    and "jc_primary_phone d = pe_primary_phone p" and "truthy (pe_primary_phone p)"
    and "organization_id ctx = Some (pe_organization_id p)"
    and "find (\<lambda>q. pe_organization_id q = pe_organization_id p \<and> pe_primary_phone q = pe_primary_phone p \<and> deleted_at q = None) (persons s) = Some p"
    and "x \<in> set (students s)" and "st_school_id x = sch" and "st_person_id x = row_id p"
    and "new_id env ''students'' (students s) \<notin> ids (students s)"
  shows "\<not> is_ok (import_row env ctx sch IR_STUDENTS row s)"
proof
  assume "is_ok (import_row env ctx sch IR_STUDENTS row s)"
  then obtain s' where s': "import_row env ctx sch IR_STUDENTS row s = Inr s'" by (auto simp: is_ok_def split: sum.splits)
  have "existing_person s (organization_id ctx) d = Some p"
    using assms by (simp add: existing_person_def person_with_def truthy_def)
  then have "import_person env ctx d s = Inr (p, s)" by (simp add: import_person_def)
  then have "import_student env ctx sch row p s = Inr s'" using s' assms(1) by (simp add: import_row_def)
  then obtain c t where t: "fc_person_id c = row_id p"
    "flush_students (insert_row (new_student env ctx sch (pe_organization_id p) c s) (students s)) = Inr t"
    using assms(5) row_student_person[of row "row_id p"] by (auto simp: import_student_def bind_ok_Inr_iff)
  let ?n = "new_student env ctx sch (pe_organization_id p) c s"
  have "uq_students_school_person (insert_row ?n (students s))"
    using t(2) by (auto simp: flush_students_def constrained_def bind_ok_Inr_iff split: if_splits)
  then have "row_id x = row_id ?n"
    unfolding uq_students_school_person_def
    by (elim unique_onD) (use assms(7-9) t(1) in \<open>simp_all add: set_insert_row new_student_def\<close>)
  then show False using assms(7,10) by (metis image_eqI new_student_id ids_def)
qed

section \<open>An export reads back\<close>

lemma fold_update_distinct:
  assumes "distinct (map fst acc @ map fst xs)"
  shows "fold (\<lambda>(k, v). AList.update k v) xs acc = acc @ xs"
  using assms
proof (induction xs arbitrary: acc)
  case (Cons x xs)
  have "AList.update (fst x) (snd x) acc = acc @ [x]" if "fst x \<notin> fst ` set acc"
    using that by (induction acc) (auto split: prod.splits)
  then show ?case using Cons by (simp add: split_beta)
qed simp

lemma strip_rows_full:
  assumes "distinct names" "map py_strip names = names" "names \<noteq> []" "\<forall>row\<in>set rows. length row = length names"
  shows "strip_rows names rows = Inr (map (\<lambda>row. zip names (map (\<lambda>v. Some (py_strip v)) row)) rows)"
  using assms(4)
proof (induction rows)
  case (Cons row rows)
  have len: "length row = length names" using Cons.prems by simp
  have stripped: "py_strip k = k" if "k \<in> set names" for k
    using assms(2) that by (metis in_set_conv_nth nth_map)
  have d: "dict_row names row = zip names (map Some row)"
    using fold_update_distinct[of "[]" "zip names (map Some row)"] assms(1) len by (simp add: dict_row_def)
  have "strip_row d = fold (\<lambda>(k, v). AList.update k v) (map (\<lambda>(k, v). (py_strip k, map_option py_strip v)) d) []" for d
    by (simp add: strip_row_def fold_map o_def case_prod_unfold)
  moreover have "map (\<lambda>(k, v). (py_strip k, map_option py_strip v)) (zip names (map Some row)) =
      zip names (map (\<lambda>v. Some (py_strip v)) row)"
    using stripped by (auto simp: zip_map2 split_beta dest: set_zip_leftD)
  ultimately have "strip_row (dict_row names row) = zip names (map (\<lambda>v. Some (py_strip v)) row)"
    using fold_update_distinct[of "[]" "zip names (map (\<lambda>v. Some (py_strip v)) row)"] assms(1) len d by simp
  moreover have "row \<noteq> []" using len assms(3) by auto
  ultimately show ?case using Cons len by simp
qed simp

lemma parse_generated:
  assumes "im_decode io (im_encode io (generate_csv names rows)) = Inr (generate_csv names rows)"
    and "distinct names" "map py_strip names = names" "names \<noteq> []" "\<forall>k\<in>set names. length k \<le> field_limit"
    and "\<forall>row\<in>set rows. map fst row = names \<and> (\<forall>(k, v)\<in>set row. length v \<le> field_limit)"
  shows "parse_csv io (im_encode io (generate_csv names rows)) =
    Inr (map (map (\<lambda>(k, v). (k, Some (py_strip v)))) rows)"
proof -
  have cols: "map (\<lambda>k. case map_of row k of None \<Rightarrow> [] | Some v \<Rightarrow> v) names = map snd row" if "row \<in> set rows" for row
  proof -
    have n: "names = map fst row" using that assms(6) by auto
    then have "map_of row (fst kv) = Some (snd kv)" if "kv \<in> set row" for kv
      using that assms(2) by (intro map_of_is_SomeI) auto
    then show ?thesis unfolding n by simp
  qed
  have g: "generate_csv names rows = concat (map write_row (names # map (map snd) rows))"
    using cols by (simp add: generate_csv_def dict_write_def o_def cong: map_cong)
  have "read_rows (generate_csv names rows) = Inr (names # map (map snd) rows)"
    unfolding g
  proof (rule read_rows_written, intro ballI conjI)
    fix row f assume "row \<in> set (names # map (map snd) rows)"
    then show "row \<noteq> []" using assms(4,6) by auto
    assume "f \<in> set row"
    with \<open>row \<in> _\<close> show "length f \<le> field_limit" using assms(5,6) by fastforce
  qed
  moreover have "strip_rows names (map (map snd) rows) = Inr (map (map (\<lambda>(k, v). (k, Some (py_strip v)))) rows)"
  proof -
    have "strip_rows names (map (map snd) rows) =
        Inr (map (\<lambda>row. zip names (map (\<lambda>v. Some (py_strip v)) row)) (map (map snd) rows))"
      by (rule strip_rows_full) (use assms in \<open>auto dest: arg_cong[of _ _ length]\<close>)
    moreover have "zip names (map (\<lambda>v. Some (py_strip v)) (map snd row)) = map (\<lambda>(k, v). (k, Some (py_strip v))) row"
      if "row \<in> set rows" for row
    proof -
      have "names = map fst row" using that assms(6) by auto
      then show ?thesis by (induction row arbitrary: names) auto
    qed
    ultimately show ?thesis by (simp add: o_def cong: map_cong)
  qed
  ultimately show ?thesis using assms(1) by (simp add: parse_csv_def)
qed

lemma py_strip_ends:
  assumes "py_strip s = c # t"
  shows "\<not> is_space c" "\<not> is_space (List.last (c # t))"
proof -
  define u where "u = dropWhile is_space s"
  have p: "rev (dropWhile is_space (rev u)) = c # t" using assms by (simp add: py_strip_def u_def)
  then have n: "dropWhile is_space (rev u) \<noteq> []" by auto
  then show "\<not> is_space (List.last (c # t))" using hd_dropWhile[OF n] by (simp flip: p add: last_rev)
  have "u = (c # t) @ rev (takeWhile is_space (rev u))"
    using p by (metis rev_append rev_rev_ident takeWhile_dropWhile_id)
  then show "\<not> is_space c" using hd_dropWhile[of is_space s] unfolding u_def by (metis append_Cons list.distinct(1) list.sel(1))
qed

lemma py_strip_idem [simp]: "py_strip (py_strip s) = py_strip s"
proof (cases "py_strip s")
  case (Cons c t)
  note e = py_strip_ends[OF Cons]
  have "dropWhile is_space (rev (c # t)) = rev (c # t)"
    using e(2) by (metis dropWhile_eq_self_iff hd_rev)
  then show ?thesis unfolding Cons using e(1) by (simp only: py_strip_def dropWhile.simps if_False rev_rev_ident simp_thms)
next
  case Nil
  show ?thesis unfolding Nil by (simp add: py_strip_def)
qed

lemma length_py_strip: "length (py_strip s) \<le> length s"
  unfolding py_strip_def by (metis length_dropWhile_le length_rev order.trans)

lemma is_space_digit: "\<not> is_space (digit n)"
proof -
  have "(of_char (digit n) :: nat) = 48 + nat (n mod 10)" by (simp add: digit_def)
  moreover have "nat (n mod 10) < 10" by simp
  ultimately show ?thesis unfolding is_space_def Let_def by linarith
qed

lemma strip_iso_date: "py_strip (iso_date d) = iso_date d"
  by (simp add: py_strip_def iso_date_def is_space_digit split: prod.split)

lemma strip_student_status: "py_strip (student_status_value st) = student_status_value st"
  by (cases st) (simp_all add: py_strip_def is_space_def)

definition columns_fit :: "student \<Rightarrow> person \<Rightarrow> bool" where
  "columns_fit x p \<longleftrightarrow> py_strip (pe_first_name p) \<noteq> [] \<and> length (pe_first_name p) \<le> 100 \<and>
     at_most 100 (pe_last_name p) \<and> at_most 255 (pe_primary_email p) \<and> at_most 24 (pe_primary_phone p) \<and>
     py_strip (st_admission_number x) \<noteq> [] \<and> length (st_admission_number x) \<le> 50 \<and>
     1 \<le> st_admission_date x \<and> st_admission_date x \<le> 3652059"

definition student_line :: "student \<Rightarrow> person \<Rightarrow> csv_row" where
  "student_line x p = map (\<lambda>(k, v). (k, Some (py_strip v))) (exported_student x p)"

lemma student_line_items:
  "map_of (student_line x p) ''first_name'' = Some (Some (py_strip (pe_first_name p)))"
  "map_of (student_line x p) ''last_name'' = Some (Some (py_strip (text_or_empty (pe_last_name p))))"
  "map_of (student_line x p) ''primary_email'' = Some (Some (py_strip (text_or_empty (pe_primary_email p))))"
  "map_of (student_line x p) ''primary_phone'' = Some (Some (py_strip (text_or_empty (pe_primary_phone p))))"
  "map_of (student_line x p) ''admission_number'' = Some (Some (py_strip (st_admission_number x)))"
  "map_of (student_line x p) ''admission_date'' = Some (Some (iso_date (st_admission_date x)))"
  "map_of (student_line x p) ''status'' = Some (Some (student_status_value (st_status x)))"
  by (simp_all add: student_line_def exported_student_def strip_iso_date strip_student_status)

text \<open>
  What a row of an export says of a person: the names, the address and the number without outer spaces, an
  empty one as none at all.
\<close>

definition kept :: "string option \<Rightarrow> string option" where
  "kept v = (case v of None \<Rightarrow> None | Some t \<Rightarrow> if py_strip t = [] then None else Some (py_strip t))"

lemma kept_text: "or_none (Some (py_strip (text_or_empty v))) = kept v"
  by (cases v) (auto simp: or_none_def kept_def text_or_empty_def truthy_def py_strip_def)

definition exported_person :: "person \<Rightarrow> person_create" where
  "exported_person p =
     \<lparr>jc_first_name = py_strip (pe_first_name p), jc_middle_name = None, jc_last_name = kept (pe_last_name p),
      jc_preferred_name = None, jc_date_of_birth = None, jc_gender = None, jc_blood_group = None, jc_nationality = None,
      jc_primary_phone = kept (pe_primary_phone p), jc_primary_email = kept (pe_primary_email p), jc_address_id = None\<rparr>"

lemma student_line_valid:
  assumes "columns_fit x p"
  shows "validate_student_row (student_line x p) n = Inr []"
    and "row_student (student_line x p) i = Inr \<lparr>fc_person_id = i, fc_admission_number = py_strip (st_admission_number x),
        fc_admission_date = st_admission_date x, fc_status = st_status x\<rparr>"
    and "row_person (student_line x p) = Inr (exported_person p)"
proof -
  have st: "student_status_of (or_active (student_status_value (st_status x))) = Some (st_status x)"
    "student_status_value (st_status x) \<in> set valid_student_statuses"
    by (cases "st_status x"; simp add: student_status_of_def or_active_def valid_student_statuses_def)+
  have d: "date_fromisoformat (iso_date (st_admission_date x)) = Some (st_admission_date x)" "iso_date (st_admission_date x) \<noteq> []"
    using assms by (simp_all add: columns_fit_def date_fromisoformat_iso_date) (simp add: iso_date_def split: prod.split)
  have l: "at_most n (or_none (Some (py_strip (text_or_empty v))))" if "at_most n v" for n v
    using that length_py_strip[of "text_or_empty v"] by (cases v) (auto simp: at_most_def or_none_def text_or_empty_def)
  show "validate_student_row (student_line x p) n = Inr []"
    using assms d st by (simp add: validate_student_ok row_get_def get_stripped_def student_line_items truthy_def columns_fit_def
        strip_student_status)
  show "row_student (student_line x p) i = Inr \<lparr>fc_person_id = i, fc_admission_number = py_strip (st_admission_number x),
        fc_admission_date = st_admission_date x, fc_status = st_status x\<rparr>"
    using assms d st length_py_strip[of "st_admission_number x"]
    by (simp add: row_student_def item_stripped_def get_stripped_def student_line_items strip_iso_date strip_student_status columns_fit_def)
  show "row_person (student_line x p) = Inr (exported_person p)"
    using assms length_py_strip[of "pe_first_name p"]
    by (simp add: row_person_def student_line_items row_get_def columns_fit_def l[unfolded kept_text] exported_person_def kept_text Let_def)
qed

text \<open>
  C25. An export of the students of a school reads back: where every exported student has a number and a first name
  that are not blank, columns within the limits of the import and a date of admission, the file parses, with one row for
  each student in the order of the export; every row is valid, and it carries the number, the date of admission and the
  status of its student, and the first and the last name, the e-mail address and the telephone number of its person,
  without outer spaces. The other columns of a person are not exported.
\<close>

theorem exported_students_read_back:
  assumes codec: "\<forall>t. im_decode io (im_encode io t) = Inr t"
    and fit: "\<forall>(x, p)\<in>set (exported_students s sch). columns_fit x p"
    and ok: "school_id ctx = Some sch" "get_export io ctx IR_STUDENTS s = Inr bytes"
  shows "\<exists>rows. parse_csv io bytes = Inr rows \<and>
    list_all2 (\<lambda>(x, p) row. validate_student_row row n = Inr [] \<and>
        row_student row i = Inr \<lparr>fc_person_id = i, fc_admission_number = py_strip (st_admission_number x),
          fc_admission_date = st_admission_date x, fc_status = st_status x\<rparr> \<and>
        row_person row = Inr (exported_person p))
      (exported_students s sch) rows"
proof -
  let ?rows = "export_rows s sch IR_STUDENTS"
  have b: "bytes = im_encode io (generate_csv student_columns ?rows)"
    using ok by (simp add: get_export_def generate_student_csv_def)
  have small: "length v \<le> field_limit" if "columns_fit x p" "(k, v) \<in> set (exported_student x p)" for k v x p
  proof -
    have "length (student_status_value (st_status x)) \<le> 11" by (cases "st_status x") simp_all
    moreover have "length (text_or_empty u) \<le> m" if "at_most m u" for m u
      using that by (cases u) (simp_all add: at_most_def text_or_empty_def)
    moreover have "length (iso_date d) = 10" for d by (simp add: iso_date_def split: prod.split)
    ultimately show ?thesis using that
      by (auto simp: exported_student_def columns_fit_def field_limit_def intro: order.trans[of _ "255 :: nat"] order.trans[of _ "100 :: nat"]
          order.trans[of _ "24 :: nat"])
  qed
  have "parse_csv io bytes = Inr (map (map (\<lambda>(k, v). (k, Some (py_strip v)))) ?rows)"
    unfolding b
  proof (rule parse_generated)
    show "\<forall>row\<in>set ?rows. map fst row = student_columns \<and> (\<forall>(k, v)\<in>set row. length v \<le> field_limit)"
      using fit small by (fastforce simp: export_rows_def exported_student_def student_columns_def)
    show "map py_strip student_columns = student_columns" by code_simp
  qed (use codec in \<open>auto simp: student_columns_def field_limit_def\<close>)
  then have p: "parse_csv io bytes = Inr (map (\<lambda>(x, p). student_line x p) (exported_students s sch))"
    by (simp add: export_rows_def student_line_def o_def split_beta)
  have "list_all2 (\<lambda>(x, p) row. validate_student_row row n = Inr [] \<and>
        row_student row i = Inr \<lparr>fc_person_id = i, fc_admission_number = py_strip (st_admission_number x),
          fc_admission_date = st_admission_date x, fc_status = st_status x\<rparr> \<and>
        row_person row = Inr (exported_person p))
      (exported_students s sch) (map (\<lambda>(x, p). student_line x p) (exported_students s sch))"
    using fit student_line_valid by (auto simp: list.rel_map list_all2_same split_beta)
  then show ?thesis using p by blast
qed

section \<open>Samples\<close>

definition sample_io :: import_env where
  "sample_io = \<lparr>im_decode = Inr, im_encode = (\<lambda>t. t), im_text = (\<lambda>_. ''error'')\<rparr>"

definition sample_cells :: "string \<Rightarrow> string \<Rightarrow> (string \<times> string) list" where
  "sample_cells n a = zip student_columns [n, ''Rao'', [], ''555'', a, ''2024-04-01'', ''ACTIVE'']"

definition sample_clean :: "(string \<times> string) list list" where
  "sample_clean = [sample_cells ''Asha'' ''A1'']"

text \<open>One row is imported; the second has no name, the third the phone number of the first.\<close>

definition sample_mixed :: "(string \<times> string) list list" where
  "sample_mixed = [sample_cells ''Asha'' ''A1'', sample_cells [] ''A2'', sample_cells ''Ravi'' ''A3'']"

definition sample_lines :: "(string \<times> string) list list \<Rightarrow> csv_row list" where
  "sample_lines rows = map (map (\<lambda>(k, v). (k, Some (py_strip v)))) rows"

definition sample_file :: "(string \<times> string) list list \<Rightarrow> string" where
  "sample_file rows = im_encode sample_io (generate_csv student_columns rows)"

definition sample_import :: "(string \<times> string) list list \<Rightarrow> (import_job \<times> db) result" where
  "sample_import rows =
     start_import sample_io sample_audit_env school_context IR_STUDENTS (sample_file rows) ''f.csv'' empty_db"

lemma sample_parse:
  assumes "rows \<in> {sample_clean, sample_mixed}"
  shows "parse_csv sample_io (sample_file rows) = Inr (sample_lines rows)"
proof -
  have "map fst row = student_columns \<and> (\<forall>(k, v)\<in>set row. length v \<le> field_limit)" if "row \<in> set rows" for row
    using that assms by (auto simp: sample_clean_def sample_mixed_def sample_cells_def student_columns_def field_limit_def)
  moreover have "map py_strip student_columns = student_columns" by code_simp
  ultimately show ?thesis unfolding sample_file_def sample_lines_def
    by (intro parse_generated) (auto simp: sample_io_def student_columns_def field_limit_def)
qed

lemma sample_import_eq:
  assumes "rows \<in> {sample_clean, sample_mixed}"
  shows "sample_import rows =
    bind_ok (validate_all_rows IR_STUDENTS 2 (sample_lines rows)) (\<lambda>errs.
    bind_ok (create_job (new_job sample_audit_env school_context ''s'' IR_STUDENTS ''f.csv'' IJ_PROCESSING
        (int (length (sample_lines rows))) errs False empty_db) empty_db) (\<lambda>(j, s).
    bind_ok (process_rows sample_io sample_audit_env school_context ''s'' IR_STUDENTS 2 (sample_lines rows)
        \<lparr>ir_success = 0, ir_failed = 0, ir_errors = errs\<rparr> s) (\<lambda>(r, s).
      Inr (update_job sample_audit_env j r s))))"
  unfolding sample_import_def
  by (rule start_import_eq[OF _ sample_parse[OF assms]])
    (use assms in \<open>auto simp: school_context_def sample_lines_def sample_clean_def sample_mixed_def\<close>)

lemma sample_mixed_ok: "is_ok (sample_import sample_mixed)" "ij_success_rows (fst (projr (sample_import sample_mixed))) = 1"
  by (subst sample_import_eq, simp, code_simp)+

lemma sample_mixed_run:
  "start_import sample_io sample_audit_env school_context IR_STUDENTS (sample_file sample_mixed) ''f.csv'' empty_db =
     Inr (fst (projr (sample_import sample_mixed)), snd (projr (sample_import sample_mixed)))"
  using ok_projr[OF sample_mixed_ok(1)] by (simp only: sample_import_def)

lemma import_accounts_for_rows_witness:
  "ij_processed_rows (fst (projr (sample_import sample_mixed))) = 3 \<and>
   ij_status (fst (projr (sample_import sample_mixed))) = IJ_PARTIAL"
proof -
  have n: "sample_lines sample_mixed \<noteq> []" "length (sample_lines sample_mixed) = 3" by (simp_all add: sample_lines_def sample_mixed_def)
  show ?thesis
    using import_accounts_for_rows[OF sample_mixed_run
        sample_parse n(1)] n(2) sample_mixed_ok(2) by simp
qed

lemma import_equals_clean_file_witness:
  "\<exists>good. subseq good (sample_lines sample_mixed) \<and> int (length good) = 1"
proof -
  have n: "sample_lines sample_mixed \<noteq> []" by (simp add: sample_lines_def sample_mixed_def)
  have z: "ij_success_rows (fst (projr (sample_import sample_mixed))) \<noteq> 0" using sample_mixed_ok(2) by simp
  from import_equals_clean_file[OF sample_mixed_run
      sample_parse z n]
  show ?thesis using sample_mixed_ok(2) by auto
qed

definition sample_short :: string where
  "sample_short = im_encode sample_io (concat (map write_row [student_columns, [''Asha'']]))"

lemma short_row_aborts_import_witness:
  "is_ok (start_import sample_io sample_audit_env school_context IR_STUDENTS sample_short ''f.csv'' empty_db) = False"
proof -
  have "read_rows (concat (map write_row [student_columns, [''Asha'']])) = Inr [student_columns, [''Asha'']]"
    by (rule read_rows_written) (simp add: student_columns_def field_limit_def)
  then have "parse_csv sample_io sample_short = Inr (projr (strip_rows student_columns [[''Asha'']]))"
    by (simp add: parse_csv_def sample_short_def sample_io_def student_columns_def)
  moreover have "hd (projr (strip_rows student_columns [[''Asha'']])) \<in> set (projr (strip_rows student_columns [[''Asha'']]))"
    "map_of (hd (projr (strip_rows student_columns [[''Asha'']]))) ''status'' = Some None" by code_simp+
  moreover have "school_id school_context = Some ''s''" by (simp add: school_context_def)
  ultimately show ?thesis using short_row_aborts_import by (metis is_ok_simps(2))
qed

definition sample_admitted :: "db result" where
  "sample_admitted = import_row sample_audit_env school_context ''s'' IR_STUDENTS (hd (sample_lines sample_clean)) empty_db"

lemma shared_phone_blocks_import_witness:
  "is_ok sample_admitted \<and>
   is_ok (import_row sample_audit_env school_context ''s'' IR_STUDENTS (sample_lines sample_mixed ! 2) (projr sample_admitted)) = False"
proof -
  let ?s = "projr sample_admitted" and ?row = "sample_lines sample_mixed ! 2"
  have ok: "is_ok sample_admitted" "is_ok (row_person ?row)" by code_simp+
  from ok(2) have d: "row_person ?row = Inr (projr (row_person ?row))" by (auto simp: is_ok_def split: sum.splits)
  have "jc_primary_email (projr (row_person ?row)) = None"
    "jc_primary_phone (projr (row_person ?row)) = pe_primary_phone (hd (persons ?s))"
    "truthy (pe_primary_phone (hd (persons ?s)))" "organization_id school_context = Some (pe_organization_id (hd (persons ?s)))"
    "find (\<lambda>q. pe_organization_id q = pe_organization_id (hd (persons ?s)) \<and>
       pe_primary_phone q = pe_primary_phone (hd (persons ?s)) \<and> deleted_at q = None) (persons ?s) = Some (hd (persons ?s))"
    "hd (students ?s) \<in> set (students ?s)" "st_school_id (hd (students ?s)) = ''s''"
    "st_person_id (hd (students ?s)) = row_id (hd (persons ?s))"
    "new_id sample_audit_env ''students'' (students ?s) \<notin> ids (students ?s)" by code_simp+
  from shared_phone_blocks_import[OF d this] show ?thesis using ok by simp
qed

lemma exported_students_read_back_witness:
  "\<exists>rows. parse_csv sample_io (projr (get_export sample_io school_context IR_STUDENTS (projr sample_admitted))) = Inr rows \<and>
     length rows = 1"
proof -
  let ?s = "projr sample_admitted"
  have c: "\<forall>t. im_decode sample_io (im_encode sample_io t) = Inr t" by (simp add: sample_io_def)
  have l: "list_all (\<lambda>(x, p). columns_fit x p) (exported_students ?s ''s'')" "length (exported_students ?s ''s'') = 1" by code_simp+
  have f: "\<forall>(x, p)\<in>set (exported_students ?s ''s''). columns_fit x p" using l(1) by (simp add: list_all_iff)
  have o: "school_id school_context = Some ''s''" by (simp add: school_context_def)
  then have g: "get_export sample_io school_context IR_STUDENTS ?s = Inr (projr (get_export sample_io school_context IR_STUDENTS ?s))"
    by (simp add: get_export_def)
  from exported_students_read_back[OF c f o g] show ?thesis using l(2) by (metis (no_types, lifting) list_all2_lengthD)
qed

end
