(* ===== verification/Documents.thy ===== *)
theory Documents
  imports Platform Pagination AcademicCalendar
begin

text \<open>
  Documents: \<open>app/modules/documents/service.py\<close>, \<open>storage.py\<close>, \<open>repository.py\<close>
  and \<open>router.py\<close>. The object store (boto3), libmagic and the table of file extensions of the host are
  the parameter \<open>storage\<close>; what the code makes of their answers is modelled. A write that
  the audit log refuses never commits, which is the fate of every document request.
\<close>

section \<open>The object store\<close>

text \<open>
  The answers to a HEAD (the length, absent or not), to a GET of the first bytes and to libmagic. The store
  raises \<open>ClientError\<close> for a missing object; \<open>so_magic\<close> is \<open>None\<close> where the
  library is not installed.
\<close>

datatype head_reply = HeadFound "int option" | HeadClientError | HeadTimedOut
datatype get_reply = GotBytes string | GetTimedOut | GetFailed

record storage =
  so_head :: "string \<Rightarrow> head_reply"
  so_get :: "string \<Rightarrow> get_reply"
  so_magic :: "(string \<Rightarrow> string option result) option"
  so_guess :: "string \<Rightarrow> string option"
  so_put_url :: "string \<Rightarrow> string \<Rightarrow> string"
  so_get_url :: "string \<Rightarrow> string \<Rightarrow> string"

record document_settings =
  ds_max_upload_size_bytes :: int
  ds_allowed_mime_types :: "string list"

definition head_object_info :: "storage \<Rightarrow> string \<Rightarrow> int option result" where
  "head_object_info so key = (case so_head so key of
     HeadTimedOut \<Rightarrow> Inl (PyError ''TimeoutError'')
   | HeadClientError \<Rightarrow> Inl (PyError ''ClientError'')
   | HeadFound n \<Rightarrow> Inr (Some (case n of None \<Rightarrow> 0 | Some n \<Rightarrow> n)))"

definition check_object_exists :: "storage \<Rightarrow> string \<Rightarrow> bool result" where
  "check_object_exists so key = (case head_object_info so key of
     Inr info \<Rightarrow> Inr (info \<noteq> None)
   | Inl e \<Rightarrow> if e = PyError ''ClientError'' then Inr False else Inl e)"

definition get_object_bytes :: "storage \<Rightarrow> string \<Rightarrow> string result" where
  "get_object_bytes so key = (case so_get so key of
     GetTimedOut \<Rightarrow> Inl (PyError ''TimeoutError'')
   | GetFailed \<Rightarrow> Inl (PyError ''Exception'')
   | GotBytes b \<Rightarrow> Inr b)"

definition detect_mime :: "storage \<Rightarrow> string \<Rightarrow> string option \<Rightarrow> string option" where
  "detect_mime so sample filename =
     (let sniffed = (case so_magic so of None \<Rightarrow> None
                     | Some f \<Rightarrow> (case f sample of Inl _ \<Rightarrow> None | Inr t \<Rightarrow> t))
      in if truthy sniffed then sniffed
         else if truthy filename then so_guess so (the filename) else None)"

section \<open>The table\<close>

fun document_status_value :: "document_status \<Rightarrow> string" where
  "document_status_value DC_PENDING_UPLOAD = ''PENDING_UPLOAD''"
| "document_status_value DC_CONFIRMED = ''CONFIRMED''"
| "document_status_value DC_DELETED = ''DELETED''"

definition document_entity_types :: "string list" where
  "document_entity_types = [''STUDENT'', ''TEACHER'', ''PARENT'', ''SCHOOL'']"

definition document_types :: "string list" where
  "document_types = [''PHOTO'', ''ID_PROOF'', ''BIRTH_CERTIFICATE'', ''CERTIFICATE'', ''TRANSCRIPT'', ''REPORT_CARD'', ''OTHER'']"

definition document_snapshot :: "document \<Rightarrow> snapshot" where
  "document_snapshot d = [(''original_filename'', JStr (dc_original_filename d)), (''document_type'', JStr (dc_document_type d)),
     (''entity_type'', JStr (dc_entity_type d)), (''entity_id'', JStr (dc_entity_id d)),
     (''status'', JStr (document_status_value (dc_status d)))]"

text \<open>The constraints in the order the database checks them: the columns that must be set come first.\<close>

definition flush_document :: "document \<Rightarrow> unit result" where
  "flush_document d =
     (if dc_organization_id d = None then Inl (IntegrityError ''organization_id'')
      else if dc_storage_key d = None then Inl (IntegrityError ''storage_key'')
      else if dc_document_type d \<notin> set document_types then Inl (IntegrityError ''ck_documents_document_type'')
      else if dc_entity_type d \<notin> set document_entity_types then Inl (IntegrityError ''ck_documents_entity_type'')
      else Inr ())"

definition document_by_id :: "db \<Rightarrow> ulid \<Rightarrow> ulid \<Rightarrow> ulid option \<Rightarrow> document option" where
  "document_by_id s sch i org =
     find (\<lambda>d. row_id d = i \<and> dc_school_id d = sch \<and> dc_deleted_at d = None \<and> (org = None \<or> dc_organization_id d = org))
       (documents s)"

definition insert_document :: "document \<Rightarrow> db \<Rightarrow> (document \<times> db) result" where
  "insert_document d s = bind_ok (flush_document d) (\<lambda>_. Inr (d, s\<lparr>documents := insert_row d (documents s)\<rparr>))"

section \<open>Operations\<close>

record upload_request =
  ur_entity_type :: string
  ur_entity_id :: ulid
  ur_document_type :: string
  ur_original_filename :: string
  ur_mime_type :: string
  ur_file_size :: int

record upload_response =
  up_id :: ulid
  up_upload_url :: string
  up_storage_key :: string

definition new_document :: "env \<Rightarrow> request_context \<Rightarrow> ulid \<Rightarrow> upload_request \<Rightarrow> db \<Rightarrow> document" where
  "new_document env ctx sch d s =
     \<lparr>row_id = new_id env ''documents'' (documents s), created_at = env_now env, updated_at = env_now env,
      created_by_id = Some (user_id ctx), updated_by_id = None, dc_archived_at = None, dc_deleted_at = None,
      dc_school_id = sch, dc_organization_id = organization_id ctx, dc_entity_type = ur_entity_type d,
      dc_entity_id = ur_entity_id d, dc_document_type = ur_document_type d,
      dc_original_filename = ur_original_filename d, dc_storage_key = None, dc_mime_type = Some (ur_mime_type d),
      dc_file_size = Some (ur_file_size d), dc_checksum_sha256 = None, dc_status = DC_PENDING_UPLOAD\<rparr>"

definition storage_key :: "request_context \<Rightarrow> ulid \<Rightarrow> upload_request \<Rightarrow> ulid \<Rightarrow> string" where
  "storage_key ctx sch d i =
     (case organization_id ctx of None \<Rightarrow> ''None'' | Some org \<Rightarrow> org) @ ''/'' @ sch @ ''/'' @ ur_entity_type d @ ''/'' @
     ur_entity_id d @ ''/'' @ i @ ''/'' @ ur_original_filename d"

definition save_document :: "env \<Rightarrow> document \<Rightarrow> document \<Rightarrow> db \<Rightarrow> document \<times> db" where
  "save_document env d d' s = (let d' = flush_actor (env_now env) d d' in (d', s\<lparr>documents := update_row d' (documents s)\<rparr>))"

definition request_upload ::
  "storage \<Rightarrow> document_settings \<Rightarrow> env \<Rightarrow> request_context \<Rightarrow> upload_request \<Rightarrow> db \<Rightarrow> (upload_response \<times> db) result" where
  "request_upload so ds env ctx payload s = (case school_id ctx of
     None \<Rightarrow> Inl no_school_set
   | Some sch \<Rightarrow>
       if ds_max_upload_size_bytes ds < ur_file_size payload then Inl (FileTooLargeError ''PAYLOAD_TOO_LARGE'')
       else if ur_mime_type payload \<notin> set (ds_allowed_mime_types ds) then Inl (InvalidRequestError ''VALIDATION_ERROR'')
       else bind_ok (insert_document (new_document env ctx sch payload s) s) (\<lambda>(d, s).
         let key = storage_key ctx sch payload (row_id d);
             (d', s') = save_document env d (d\<lparr>dc_storage_key := Some key\<rparr>) s
         in Inr (\<lparr>up_id = row_id d', up_upload_url = so_put_url so key (ur_mime_type payload), up_storage_key = key\<rparr>,
              audit env ctx ''DOCUMENT_UPLOAD_REQUESTED'' ''document'' (Some (row_id d')) None (Some (document_snapshot d')) s')))"

definition document_missing :: error where
  "document_missing = NotFoundError ''DOCUMENT_NOT_FOUND''"

definition get_document :: "request_context \<Rightarrow> ulid \<Rightarrow> db \<Rightarrow> document result" where
  "get_document ctx i s = (case school_id ctx of
     None \<Rightarrow> Inl no_school_set
   | Some sch \<Rightarrow> ok_or document_missing (document_by_id s sch i (organization_id ctx)))"

definition storage_timed_out :: error where
  "storage_timed_out = RequestTimeoutError ''TIMEOUT''"

text \<open>\<open>TimeoutError\<close> becomes an answer; a failed HEAD goes on as it is, a failed GET counts as no bytes.\<close>

definition verified_size :: "storage \<Rightarrow> document_settings \<Rightarrow> string \<Rightarrow> int result" where
  "verified_size so ds key = (case head_object_info so key of
     Inl e \<Rightarrow> Inl (if e = PyError ''TimeoutError'' then storage_timed_out else e)
   | Inr None \<Rightarrow> Inl (InvalidRequestError ''VALIDATION_ERROR'')
   | Inr (Some n) \<Rightarrow>
       if ds_max_upload_size_bytes ds < n then Inl (FileTooLargeError ''PAYLOAD_TOO_LARGE'') else Inr n)"

definition object_sample :: "storage \<Rightarrow> string \<Rightarrow> string result" where
  "object_sample so key = (case get_object_bytes so key of
     Inl e \<Rightarrow> if e = PyError ''TimeoutError'' then Inl storage_timed_out else Inr []
   | Inr b \<Rightarrow> Inr b)"

definition mime_aliases :: "(string \<times> string list) list" where
  "mime_aliases = [(''image/jpeg'', [''image/jpeg'', ''image/jpg'']),
     (''text/csv'', [''text/csv'', ''text/plain'', ''application/csv'']), (''text/plain'', [''text/plain'', ''text/csv''])]"

definition permitted_types :: "string \<Rightarrow> string list" where
  "permitted_types declared = (case map_of mime_aliases declared of None \<Rightarrow> [declared] | Some ts \<Rightarrow> ts)"

definition check_content :: "storage \<Rightarrow> document_settings \<Rightarrow> document \<Rightarrow> string \<Rightarrow> unit result" where
  "check_content so ds d sample =
     (if sample = [] then Inr ()
      else let sniffed = detect_mime so sample (Some (dc_original_filename d)) in
        if truthy sniffed \<and> the sniffed \<notin> set (ds_allowed_mime_types ds) then Inl (InvalidRequestError ''VALIDATION_ERROR'')
        else if truthy sniffed \<and> truthy (dc_mime_type d) \<and> sniffed \<noteq> dc_mime_type d \<and>
            the sniffed \<notin> set (permitted_types (the (dc_mime_type d)))
        then Inl (InvalidRequestError ''VALIDATION_ERROR'')
        else Inr ())"

definition key_of :: "document \<Rightarrow> string" where
  "key_of d = (case dc_storage_key d of None \<Rightarrow> [] | Some k \<Rightarrow> k)"

definition confirm_upload ::
  "storage \<Rightarrow> document_settings \<Rightarrow> env \<Rightarrow> request_context \<Rightarrow> ulid \<Rightarrow> db \<Rightarrow> (document \<times> db) result" where
  "confirm_upload so ds env ctx i s =
     bind_ok (get_document ctx i s) (\<lambda>d.
       if dc_status d \<noteq> DC_PENDING_UPLOAD then Inl (InvalidRequestError ''VALIDATION_ERROR'')
       else bind_ok (verified_size so ds (key_of d)) (\<lambda>n.
         bind_ok (object_sample so (key_of d)) (\<lambda>sample.
         bind_ok (check_content so ds d sample) (\<lambda>_.
           let (d', s') = save_document env d (d\<lparr>dc_status := DC_CONFIRMED, dc_file_size := Some n,
                 updated_by_id := Some (user_id ctx)\<rparr>) s
           in Inr (d', audit env ctx ''DOCUMENT_CONFIRMED'' ''document'' (Some (row_id d')) (Some (document_snapshot d))
                (Some (document_snapshot d')) s')))))"

definition get_download_url ::
  "storage \<Rightarrow> env \<Rightarrow> request_context \<Rightarrow> ulid \<Rightarrow> db \<Rightarrow> ((string \<times> string) \<times> db) result" where
  "get_download_url so env ctx i s =
     bind_ok (get_document ctx i s) (\<lambda>d.
       Inr ((so_get_url so (key_of d) (dc_original_filename d), dc_original_filename d),
         audit env ctx ''DOCUMENT_DOWNLOADED'' ''document'' (Some (row_id d)) None None s))"

record document_list_params =
  lp_entity_type :: "string option"
  lp_entity_id :: "ulid option"
  lp_document_type :: "string option"
  lp_cursor :: "string option"
  lp_limit :: int

definition listed_documents :: "db \<Rightarrow> ulid \<Rightarrow> document_list_params \<Rightarrow> ulid option \<Rightarrow> document list" where
  "listed_documents s sch lp org =
     filter (\<lambda>d. dc_school_id d = sch \<and> dc_status d = DC_CONFIRMED \<and> dc_deleted_at d = None \<and>
       (org = None \<or> dc_organization_id d = org) \<and>
       (lp_entity_type lp = None \<or> lp_entity_type lp = Some (dc_entity_type d)) \<and>
       (lp_entity_id lp = None \<or> lp_entity_id lp = Some (dc_entity_id d)) \<and>
       (lp_document_type lp = None \<or> lp_document_type lp = Some (dc_document_type d))) (documents s)"

definition list_documents :: "codec \<Rightarrow> request_context \<Rightarrow> document_list_params \<Rightarrow> db \<Rightarrow> document cursor_page result" where
  "list_documents c ctx lp s = (case school_id ctx of
     None \<Rightarrow> Inr \<lparr>page_items = [], next_cursor = None, has_more = False\<rparr>
   | Some sch \<Rightarrow> bind_ok (mk_cursor_params (lp_cursor lp) (lp_limit lp)) (\<lambda>p.
       paginate_cursor c [] p (listed_documents s sch lp (organization_id ctx))))"

definition delete_document :: "env \<Rightarrow> request_context \<Rightarrow> ulid \<Rightarrow> db \<Rightarrow> (unit \<times> db) result" where
  "delete_document env ctx i s =
     bind_ok (get_document ctx i s) (\<lambda>d.
       let (d', s') = save_document env d (d\<lparr>dc_status := DC_DELETED, dc_deleted_at := Some (env_now env),
             updated_by_id := Some (user_id ctx)\<rparr>) s
       in Inr ((), audit env ctx ''DOCUMENT_DELETED'' ''document'' (Some (row_id d')) (Some (document_snapshot d)) None s'))"

section \<open>Routes\<close>

definition request_upload_url_route ::
  "storage \<Rightarrow> document_settings \<Rightarrow> env \<Rightarrow> request_context \<Rightarrow> upload_request \<Rightarrow> db \<Rightarrow> (upload_response \<times> db) result" where
  "request_upload_url_route so ds env ctx d s = guarded ''documents.document.create'' ctx (\<lambda>ctx. request_upload so ds env ctx d s)"

definition confirm_upload_route ::
  "storage \<Rightarrow> document_settings \<Rightarrow> env \<Rightarrow> request_context \<Rightarrow> ulid \<Rightarrow> db \<Rightarrow> (document \<times> db) result" where
  "confirm_upload_route so ds env ctx i s = guarded ''documents.document.create'' ctx (\<lambda>ctx. confirm_upload so ds env ctx i s)"

definition get_download_url_route ::
  "storage \<Rightarrow> env \<Rightarrow> request_context \<Rightarrow> ulid \<Rightarrow> db \<Rightarrow> ((string \<times> string) \<times> db) result" where
  "get_download_url_route so env ctx i s = guarded ''documents.document.read'' ctx (\<lambda>ctx. get_download_url so env ctx i s)"

text \<open>The parameters of the listing are validated inside the route, which answers 500 to a bad limit.\<close>

definition list_documents_route :: "codec \<Rightarrow> request_context \<Rightarrow> document_list_params \<Rightarrow> db \<Rightarrow> document cursor_page result" where
  "list_documents_route c ctx lp s = guarded ''documents.document.list'' ctx (\<lambda>ctx.
     if lp_limit lp < 1 \<or> 100 < lp_limit lp then Inl (PyError ''ValidationError'') else list_documents c ctx lp s)"

definition delete_document_route :: "env \<Rightarrow> request_context \<Rightarrow> ulid \<Rightarrow> db \<Rightarrow> (unit \<times> db) result" where
  "delete_document_route env ctx i s = guarded ''documents.document.delete'' ctx (\<lambda>ctx. delete_document env ctx i s)"

section \<open>What the service guarantees\<close>

text \<open>
  A row is flushed before it has a storage key, and the column must be set: no upload ever begins.
\<close>

lemma request_upload_fails: "\<not> is_ok (request_upload so ds env ctx d s)"
  by (auto simp: request_upload_def insert_document_def flush_document_def new_document_def split: option.split)

lemma document_actions_refused:
  "a \<in> {''DOCUMENT_UPLOAD_REQUESTED'', ''DOCUMENT_CONFIRMED'', ''DOCUMENT_DOWNLOADED'', ''DOCUMENT_DELETED''} \<Longrightarrow>
     a \<notin> set audit_check_actions"
  by (auto simp: audit_check_actions_def)

lemma save_document_audit: "save_document env d d' s = (x, s') \<Longrightarrow> audit_logs s' = audit_logs s"
  by (auto simp: save_document_def Let_def)

text \<open>
  C26. No upload is ever requested with success, and no confirmation, no download and no deletion of a document
  commits: the constraint of the audit log admits none of their actions.
\<close>

theorem document_requests_never_commit:
  "is_ok (request_upload so ds env ctx d s) = False \<and>
   snd (run_request (confirm_upload so ds env ctx i) s) = s \<and> is_ok (fst (run_request (confirm_upload so ds env ctx i) s)) = False \<and>
   snd (run_request (get_download_url so env ctx i) s) = s \<and> is_ok (fst (run_request (get_download_url so env ctx i) s)) = False \<and>
   snd (run_request (delete_document env ctx i) s) = s \<and> is_ok (fst (run_request (delete_document env ctx i) s)) = False"
proof -
  have "snd (run_request (confirm_upload so ds env ctx i) s) = s \<and> \<not> is_ok (fst (run_request (confirm_upload so ds env ctx i) s))"
    by (rule refused_action)
      (auto simp: confirm_upload_def bind_ok_Inr_iff document_actions_refused split_beta save_document_def Let_def
        split: if_splits)
  moreover have "snd (run_request (get_download_url so env ctx i) s) = s \<and> \<not> is_ok (fst (run_request (get_download_url so env ctx i) s))"
    by (rule refused_action) (auto simp: get_download_url_def bind_ok_Inr_iff document_actions_refused)
  moreover have "snd (run_request (delete_document env ctx i) s) = s \<and> \<not> is_ok (fst (run_request (delete_document env ctx i) s))"
    by (rule refused_action)
      (auto simp: delete_document_def bind_ok_Inr_iff document_actions_refused split_beta save_document_def Let_def)
  ultimately show ?thesis using request_upload_fails by simp
qed

lemma check_content_ok:
  "is_ok (check_content so ds d sample) \<longleftrightarrow> sample = [] \<or> \<not> truthy (detect_mime so sample (Some (dc_original_filename d))) \<or>
     (the (detect_mime so sample (Some (dc_original_filename d))) \<in> set (ds_allowed_mime_types ds) \<and>
      (\<not> truthy (dc_mime_type d) \<or> detect_mime so sample (Some (dc_original_filename d)) = dc_mime_type d \<or>
       the (detect_mime so sample (Some (dc_original_filename d))) \<in> set (permitted_types (the (dc_mime_type d)))))"
  by (auto simp: check_content_def Let_def)

text \<open>
  A confirmation succeeds exactly when the document of the school is pending, the store answers the
  HEAD with a size within the limit, and the bytes it gives, if it gives any, are not of a type that is
  disallowed or at odds with the declared one. An object whose bytes cannot be read, or whose
  type nothing recognises, is confirmed unchecked.
\<close>

theorem confirm_upload_exact:
  "is_ok (confirm_upload so ds env ctx i s) \<longleftrightarrow>
     (\<exists>sch d n. school_id ctx = Some sch \<and> document_by_id s sch i (organization_id ctx) = Some d \<and>
        dc_status d = DC_PENDING_UPLOAD \<and> so_head so (key_of d) = HeadFound n \<and>
        (case n of None \<Rightarrow> 0 | Some n \<Rightarrow> n) \<le> ds_max_upload_size_bytes ds \<and>
        (so_get so (key_of d) = GetFailed \<or>
         (\<exists>b. so_get so (key_of d) = GotBytes b \<and>
            (b = [] \<or> \<not> truthy (detect_mime so b (Some (dc_original_filename d))) \<or>
             (the (detect_mime so b (Some (dc_original_filename d))) \<in> set (ds_allowed_mime_types ds) \<and>
              (\<not> truthy (dc_mime_type d) \<or> detect_mime so b (Some (dc_original_filename d)) = dc_mime_type d \<or>
               the (detect_mime so b (Some (dc_original_filename d))) \<in> set (permitted_types (the (dc_mime_type d)))))))))"
proof -
  have size: "is_ok (verified_size so ds k) \<longleftrightarrow> (\<exists>n. so_head so k = HeadFound n \<and>
      (case n of None \<Rightarrow> 0 | Some n \<Rightarrow> n) \<le> ds_max_upload_size_bytes ds)" for k
    by (cases "so_head so k") (auto simp: verified_size_def head_object_info_def)
  have sample: "(\<exists>b. object_sample so k = Inr b \<and> P b) \<longleftrightarrow> (so_get so k = GetFailed \<and> P []) \<or> (\<exists>b. so_get so k = GotBytes b \<and> P b)" for k P
    by (cases "so_get so k") (auto simp: object_sample_def get_object_bytes_def)
  have ok: "is_ok (bind_ok r f) \<longleftrightarrow> (\<exists>x. r = Inr x \<and> is_ok (f x))" for r :: "'a result" and f :: "'a \<Rightarrow> 'b result"
    by (cases r) simp_all
  have ok_iff: "is_ok r \<longleftrightarrow> (\<exists>x. r = Inr x)" for r :: "'c result" by (cases r) simp_all
  have doc: "get_document ctx i s = Inr d \<longleftrightarrow>
      (\<exists>sch. school_id ctx = Some sch \<and> document_by_id s sch i (organization_id ctx) = Some d)" for d
    by (auto simp: get_document_def ok_or_def split: option.splits)
  have step: "is_ok (confirm_upload so ds env ctx i s) \<longleftrightarrow> (\<exists>d. get_document ctx i s = Inr d \<and> dc_status d = DC_PENDING_UPLOAD \<and>
      is_ok (verified_size so ds (key_of d)) \<and> (\<exists>b. object_sample so (key_of d) = Inr b \<and> is_ok (check_content so ds d b)))"
    unfolding confirm_upload_def by (auto simp: is_ok_def bind_ok_def split_beta Let_def split: sum.splits if_splits)
  show ?thesis unfolding step size sample doc check_content_ok by blast
qed

section \<open>Samples\<close>

definition sample_store :: "get_reply \<Rightarrow> storage" where
  "sample_store g = \<lparr>so_head = (\<lambda>_. HeadFound (Some 10)), so_get = (\<lambda>_. g), so_magic = Some (\<lambda>b. Inr (Some b)),
     so_guess = (\<lambda>_. None), so_put_url = (\<lambda>k _. k), so_get_url = (\<lambda>k _. k)\<rparr>"

definition sample_limits :: document_settings where
  "sample_limits = \<lparr>ds_max_upload_size_bytes = 50, ds_allowed_mime_types = [''application/pdf'', ''image/jpeg'']\<rparr>"

definition sample_pending :: document where
  "sample_pending = (new_document sample_audit_env school_context ''s'' \<lparr>ur_entity_type = ''STUDENT'', ur_entity_id = ''x'',
     ur_document_type = ''PHOTO'', ur_original_filename = ''a.pdf'', ur_mime_type = ''application/pdf'', ur_file_size = 10\<rparr> empty_db)
     \<lparr>dc_storage_key := Some ''k''\<rparr>"

definition sample_documents :: db where
  "sample_documents = empty_db\<lparr>documents := [sample_pending]\<rparr>"

lemma confirm_upload_exact_witness:
  "is_ok (confirm_upload (sample_store GetFailed) sample_limits sample_audit_env school_context ''documents'' sample_documents) \<and>
   is_ok (confirm_upload (sample_store (GotBytes ''image/jpeg'')) sample_limits sample_audit_env school_context ''documents''
     sample_documents) = False"
proof
  have d: "document_by_id sample_documents ''s'' ''documents'' (organization_id school_context) = Some sample_pending"
    "dc_status sample_pending = DC_PENDING_UPLOAD" by code_simp+
  have "so_head (sample_store GetFailed) (key_of sample_pending) = HeadFound (Some 10)"
    "so_get (sample_store GetFailed) (key_of sample_pending) = GetFailed" "(10 :: int) \<le> ds_max_upload_size_bytes sample_limits"
    by (simp_all add: sample_store_def sample_limits_def)
  then show "is_ok (confirm_upload (sample_store GetFailed) sample_limits sample_audit_env school_context ''documents'' sample_documents)"
    using d by (subst confirm_upload_exact) (force simp: school_context_fields)
  show "is_ok (confirm_upload (sample_store (GotBytes ''image/jpeg'')) sample_limits sample_audit_env school_context ''documents''
     sample_documents) = False" by code_simp
qed

end
