(* ===== verification/Reports.thy ===== *)
theory Reports
  imports Samples Csv RateLimit Families Teachers Enrollments Attendance Pagination
begin

text \<open>
  Reports and search: \<open>app/modules/reports/service.py\<close>, \<open>repository.py\<close>, \<open>router.py\<close>
  and \<open>app/modules/search/router.py\<close>. A report is generated inside the request that asks for it and
  again at each download. Rows come in the order of the tables, which the code leaves open.
\<close>

section \<open>The generators\<close>

datatype report_type = RP_STUDENTS | RP_TEACHERS | RP_ATTENDANCE_SUMMARY | RP_ENROLLMENTS

definition report_type_of :: "string \<Rightarrow> report_type option" where
  "report_type_of t = map_of [(''STUDENTS'', RP_STUDENTS), (''TEACHERS'', RP_TEACHERS),
     (''ATTENDANCE_SUMMARY'', RP_ATTENDANCE_SUMMARY), (''ENROLLMENTS'', RP_ENROLLMENTS)] t"

text \<open>The writer leaves the cell of a \<open>None\<close> empty.\<close>

definition cell :: "string option \<Rightarrow> string" where
  "cell x = (case x of None \<Rightarrow> [] | Some t \<Rightarrow> t)"

definition report_csv :: "import_env \<Rightarrow> string list \<Rightarrow> string list list \<Rightarrow> string" where
  "report_csv io headers rows = im_encode io (concat (map write_row (headers # rows)))"

definition linked_person :: "db \<Rightarrow> ulid \<Rightarrow> person option" where
  "linked_person s i = find (\<lambda>p. row_id p = i) (persons s)"

definition person_cells :: "person option \<Rightarrow> string list" where
  "person_cells p = (case p of None \<Rightarrow> [[], [], [], []]
     | Some p \<Rightarrow> [pe_first_name p, cell (pe_last_name p), cell (pe_primary_email p), cell (pe_primary_phone p)])"

definition student_report :: "db \<Rightarrow> ulid \<Rightarrow> string list list" where
  "student_report s sch =
     map (\<lambda>x. [row_id x, st_admission_number x, student_status_value (st_status x), iso_date (st_admission_date x)] @
        person_cells (linked_person s (st_person_id x)))
       (filter (\<lambda>x. st_school_id x = sch \<and> deleted_at x = None) (students s))"

definition teacher_report :: "db \<Rightarrow> ulid \<Rightarrow> string list list" where
  "teacher_report s sch =
     map (\<lambda>x. [row_id x, cell (te_employee_number x), cell (te_designation x), teacher_status_value (te_status x),
        (case te_joining_date x of None \<Rightarrow> [] | Some d \<Rightarrow> iso_date d)] @ person_cells (linked_person s (te_person_id x)))
       (filter (\<lambda>x. te_school_id x = sch \<and> deleted_at x = None) (teachers s))"

text \<open>The join of records and sessions, one student after the other.\<close>

definition school_marks :: "db \<Rightarrow> ulid \<Rightarrow> attendance_record list" where
  "school_marks s sch =
     [r. r \<leftarrow> attendance_records s, x \<leftarrow> attendance_sessions s, row_id x = ar_session_id r \<and> as_school_id x = sch]"

definition count_marks :: "attendance_record list \<Rightarrow> ulid \<Rightarrow> (attendance_status \<Rightarrow> bool) \<Rightarrow> nat" where
  "count_marks rs i P = length (filter (\<lambda>r. ar_student_id r = i \<and> P (ar_status r)) rs)"

definition attendance_report :: "db \<Rightarrow> ulid \<Rightarrow> string list list" where
  "attendance_report s sch = (let rs = school_marks s sch in
     map (\<lambda>i. [i, decimal (count_marks rs i (\<lambda>_. True)), decimal (count_marks rs i (\<lambda>m. m = AT_PRESENT)),
        decimal (count_marks rs i (\<lambda>m. m = AT_ABSENT)), decimal (count_marks rs i (\<lambda>m. m = AT_LATE))])
       (remdups (map ar_student_id rs)))"

definition enrollment_report :: "db \<Rightarrow> ulid \<Rightarrow> string list list" where
  "enrollment_report s sch =
     map (\<lambda>e. [row_id e, en_student_id e, en_academic_year_id e, en_cohort_id e, cell (en_roll_number e),
        iso_date (en_start_date e), (case en_end_date e of None \<Rightarrow> [] | Some d \<Rightarrow> iso_date d),
        enrollment_type_value (en_enrollment_type e), enrollment_status_value (en_status e)])
       (filter (\<lambda>e. en_school_id e = sch) (enrollments s))"

definition report_headers :: "report_type \<Rightarrow> string list" where
  "report_headers rt = (case rt of
     RP_STUDENTS \<Rightarrow> [''id'', ''admission_number'', ''status'', ''admission_date'', ''first_name'', ''last_name'',
        ''primary_email'', ''primary_phone'']
   | RP_TEACHERS \<Rightarrow> [''id'', ''employee_number'', ''designation'', ''status'', ''joining_date'', ''first_name'',
        ''last_name'', ''primary_email'', ''primary_phone'']
   | RP_ATTENDANCE_SUMMARY \<Rightarrow> [''student_id'', ''total_records'', ''present'', ''absent'', ''late'']
   | RP_ENROLLMENTS \<Rightarrow> [''id'', ''student_id'', ''academic_year_id'', ''cohort_id'', ''roll_number'', ''start_date'',
        ''end_date'', ''enrollment_type'', ''status''])"

definition report_rows :: "report_type \<Rightarrow> db \<Rightarrow> ulid \<Rightarrow> string list list" where
  "report_rows rt s sch = (case rt of
     RP_STUDENTS \<Rightarrow> student_report s sch
   | RP_TEACHERS \<Rightarrow> teacher_report s sch
   | RP_ATTENDANCE_SUMMARY \<Rightarrow> attendance_report s sch
   | RP_ENROLLMENTS \<Rightarrow> enrollment_report s sch)"

text \<open>A generator takes the filters of the request and ignores them.\<close>

definition generate_report ::
  "import_env \<Rightarrow> report_type \<Rightarrow> ulid \<Rightarrow> snapshot option \<Rightarrow> db \<Rightarrow> string \<times> int" where
  "generate_report io rt sch filters s =
     (report_csv io (report_headers rt) (report_rows rt s sch), int (length (report_rows rt s sch)))"

section \<open>Export jobs\<close>

record export_request =
  xr_report_type :: string
  xr_filters :: "snapshot option"

definition new_export_job :: "env \<Rightarrow> request_context \<Rightarrow> ulid \<Rightarrow> export_request \<Rightarrow> db \<Rightarrow> export_job" where
  "new_export_job env ctx sch d s =
     \<lparr>row_id = new_id env ''export_jobs'' (export_jobs s), created_at = env_now env, updated_at = env_now env,
      created_by_id = Some (user_id ctx), updated_by_id = None, ej_school_id = sch,
      ej_organization_id = organization_id ctx, ej_report_type = xr_report_type d, ej_status = EJ_PENDING,
      ej_filters = xr_filters d, ej_row_count = None, ej_storage_key = None, ej_error_message = None,
      ej_started_at = None, ej_completed_at = None, ej_expires_at = None\<rparr>"

definition flush_export_job :: "export_job \<Rightarrow> unit result" where
  "flush_export_job j =
     (if ej_organization_id j = None then Inl (IntegrityError ''organization_id'')
      else if report_type_of (ej_report_type j) = None then Inl (IntegrityError ''ck_export_jobs_report_type'')
      else Inr ())"

text \<open>The generators raise nothing, so the branch that records a failure is not reached.\<close>

definition request_export ::
  "import_env \<Rightarrow> env \<Rightarrow> request_context \<Rightarrow> export_request \<Rightarrow> db \<Rightarrow> ((export_job \<times> string) \<times> db) result" where
  "request_export io env ctx d s = (case school_id ctx of
     None \<Rightarrow> Inl no_school_set
   | Some sch \<Rightarrow> (case report_type_of (xr_report_type d) of
        None \<Rightarrow> Inl (InvalidRequestError ''VALIDATION_ERROR'')
      | Some rt \<Rightarrow>
          let j = new_export_job env ctx sch d s in
          bind_ok (flush_export_job j) (\<lambda>_.
            let (csv, n) = generate_report io rt sch (xr_filters d) s;
                j' = flush_actor (env_now env) j (j\<lparr>ej_started_at := Some (env_now env), ej_status := EJ_COMPLETED,
                  ej_completed_at := Some (env_now env), ej_row_count := Some n\<rparr>)
            in Inr ((j', csv), audit env ctx ''REPORT_EXPORTED'' ''export_job'' (Some (row_id j')) None None
                 (s\<lparr>export_jobs := insert_row j' (export_jobs s)\<rparr>)))))"

definition export_job_missing :: error where
  "export_job_missing = NotFoundError ''EXPORT_JOB_NOT_FOUND''"

definition get_export_job :: "request_context \<Rightarrow> ulid \<Rightarrow> db \<Rightarrow> export_job result" where
  "get_export_job ctx i s = (case school_id ctx of
     None \<Rightarrow> Inl export_job_missing
   | Some sch \<Rightarrow> ok_or export_job_missing (find (\<lambda>j. row_id j = i \<and> ej_school_id j = sch) (export_jobs s)))"

definition get_export_download :: "import_env \<Rightarrow> request_context \<Rightarrow> ulid \<Rightarrow> db \<Rightarrow> (export_job \<times> string) result" where
  "get_export_download io ctx i s =
     bind_ok (get_export_job ctx i s) (\<lambda>j.
       if ej_status j \<noteq> EJ_COMPLETED then Inl (InvalidRequestError ''VALIDATION_ERROR'')
       else bind_ok (ok_or (PyError ''ValueError'') (report_type_of (ej_report_type j))) (\<lambda>rt.
         Inr (j, fst (generate_report io rt (ej_school_id j) (ej_filters j) s))))"

definition create_export_route ::
  "import_env \<Rightarrow> env \<Rightarrow> request_context \<Rightarrow> export_request \<Rightarrow> db \<Rightarrow> (export_job \<times> db) result" where
  "create_export_route io env ctx d s = guarded ''reports.export.create'' ctx (\<lambda>ctx.
     bind_ok (request_export io env ctx d s) (\<lambda>((j, _), s). Inr (j, s)))"

definition export_status_value :: "export_status \<Rightarrow> string" where
  "export_status_value st = (case st of EJ_PENDING \<Rightarrow> ''PENDING'' | EJ_PROCESSING \<Rightarrow> ''PROCESSING''
     | EJ_COMPLETED \<Rightarrow> ''COMPLETED'' | EJ_FAILED \<Rightarrow> ''FAILED'')"

definition list_export_jobs_route ::
  "codec \<Rightarrow> request_context \<Rightarrow> cursor_params \<Rightarrow> string option \<Rightarrow> db \<Rightarrow> export_job cursor_page result" where
  "list_export_jobs_route c ctx p st s = guarded ''reports.export.list'' ctx (\<lambda>ctx. case school_id ctx of
     None \<Rightarrow> Inr \<lparr>page_items = [], next_cursor = None, has_more = False\<rparr>
   | Some sch \<Rightarrow> paginate_cursor c [] p
       (filter (\<lambda>j. ej_school_id j = sch \<and> (st = None \<or> st = Some (export_status_value (ej_status j)))) (export_jobs s)))"

definition get_export_job_route :: "request_context \<Rightarrow> ulid \<Rightarrow> db \<Rightarrow> export_job result" where
  "get_export_job_route ctx i s = guarded ''reports.export.read'' ctx (\<lambda>ctx. get_export_job ctx i s)"

definition download_export_route :: "import_env \<Rightarrow> request_context \<Rightarrow> ulid \<Rightarrow> db \<Rightarrow> (export_job \<times> string) result" where
  "download_export_route io ctx i s = guarded ''reports.export.read'' ctx (\<lambda>ctx. get_export_download io ctx i s)"

section \<open>Search\<close>

text \<open>
  The operator \<open>LIKE\<close>: \<open>%\<close> stands for any text, \<open>_\<close> for any character and a backslash
  quotes the next one. The code does not escape the query, so its own wildcards count.
\<close>

function sql_like :: "string \<Rightarrow> string \<Rightarrow> bool" where
  "sql_like [] t = (t = [])"
| "sql_like (c # p) t =
     (if c = CHR ''%'' then sql_like p t \<or> (case t of [] \<Rightarrow> False | _ # t' \<Rightarrow> sql_like (c # p) t')
      else if c = CHR 0x5C then (case p of [] \<Rightarrow> False
        | e # p' \<Rightarrow> (case t of [] \<Rightarrow> False | d # t' \<Rightarrow> d = e \<and> sql_like p' t'))
      else (case t of [] \<Rightarrow> False | d # t' \<Rightarrow> (c = CHR ''_'' \<or> d = c) \<and> sql_like p t'))"
  by pat_completeness auto
termination by (relation "measure (\<lambda>(p, t). length p + length t)") auto

definition name_of :: "person \<Rightarrow> string" where
  "name_of p = py_lower (pe_first_name p @ '' '' @ cell (pe_last_name p))"

definition surround :: "string \<Rightarrow> string" where
  "surround q = CHR ''%'' # q @ [CHR ''%'']"

definition name_matches :: "string \<Rightarrow> person \<Rightarrow> bool" where
  "name_matches q p = sql_like (surround (py_lower q)) (name_of p)"

definition number_matches :: "string \<Rightarrow> string option \<Rightarrow> bool" where
  "number_matches q n = (case n of None \<Rightarrow> False | Some n \<Rightarrow> sql_like (py_lower (surround q)) (py_lower n))"

definition found_students :: "db \<Rightarrow> ulid \<Rightarrow> string \<Rightarrow> (student \<times> person) list" where
  "found_students s sch q =
     [(x, p). x \<leftarrow> students s, st_school_id x = sch \<and> deleted_at x = None, p \<leftarrow> persons s,
        row_id p = st_person_id x \<and> (name_matches q p \<or> number_matches q (Some (st_admission_number x)))]"

definition found_teachers :: "db \<Rightarrow> ulid \<Rightarrow> string \<Rightarrow> (teacher \<times> person) list" where
  "found_teachers s sch q =
     [(x, p). x \<leftarrow> teachers s, te_school_id x = sch \<and> deleted_at x = None, p \<leftarrow> persons s,
        row_id p = te_person_id x \<and> (name_matches q p \<or> number_matches q (te_employee_number x))]"

text \<open>\<open>rows[:n]\<close>, which counts from the end for a negative \<open>n\<close>.\<close>

definition py_take :: "int \<Rightarrow> 'a list \<Rightarrow> 'a list" where
  "py_take n xs = (if 0 \<le> n then take (nat n) xs else take (nat (int (length xs) + n)) xs)"

definition search_page :: "int \<Rightarrow> int \<Rightarrow> 'a list \<Rightarrow> ('a list \<times> bool) result" where
  "search_page lim off rows =
     (if lim + 1 < 0 then Inl (PyError ''DataError'')
      else let found = take (nat (lim + 1)) (drop (nat off) rows); more = lim < int (length found)
        in Inr (if more then py_take lim found else found, more))"

record search_item =
  si_id :: ulid
  si_number :: "string option"
  si_first_name :: string
  si_last_name :: string
  si_status :: string

record search_response =
  gs_students :: "search_item list"
  gs_teachers :: "search_item list"
  gs_offset :: int
  gs_limit :: int
  gs_has_more_students :: bool
  gs_has_more_teachers :: bool

text \<open>An item must have a last name, which a person need not.\<close>

definition student_item :: "student \<times> person \<Rightarrow> search_item result" where
  "student_item = (\<lambda>(x, p). case pe_last_name p of
     None \<Rightarrow> Inl (PyError ''ValidationError'')
   | Some n \<Rightarrow> Inr \<lparr>si_id = row_id x, si_number = Some (st_admission_number x), si_first_name = pe_first_name p,
       si_last_name = n, si_status = student_status_value (st_status x)\<rparr>)"

definition teacher_item :: "teacher \<times> person \<Rightarrow> search_item result" where
  "teacher_item = (\<lambda>(x, p). case pe_last_name p of
     None \<Rightarrow> Inl (PyError ''ValidationError'')
   | Some n \<Rightarrow> Inr \<lparr>si_id = row_id x, si_number = te_employee_number x, si_first_name = pe_first_name p,
       si_last_name = n, si_status = teacher_status_value (te_status x)\<rparr>)"

fun all_items :: "('a \<Rightarrow> 'b result) \<Rightarrow> 'a list \<Rightarrow> 'b list result" where
  "all_items f [] = Inr []"
| "all_items f (x # xs) = bind_ok (f x) (\<lambda>y. bind_ok (all_items f xs) (\<lambda>ys. Inr (y # ys)))"

definition global_search :: "request_context \<Rightarrow> string \<Rightarrow> int \<Rightarrow> int \<Rightarrow> db \<Rightarrow> search_response result" where
  "global_search ctx q lim off s =
     bind_ok (require_authenticated ctx) (\<lambda>ctx.
       if \<not> truthy (school_id ctx) then
         Inr \<lparr>gs_students = [], gs_teachers = [], gs_offset = off, gs_limit = lim, gs_has_more_students = False,
           gs_has_more_teachers = False\<rparr>
       else let sch = the (school_id ctx) in
         bind_ok (search_page lim off (found_students s sch q)) (\<lambda>(xs, more_s).
         bind_ok (search_page lim off (found_teachers s sch q)) (\<lambda>(ys, more_t).
         bind_ok (all_items student_item xs) (\<lambda>is.
         bind_ok (all_items teacher_item ys) (\<lambda>it.
           Inr \<lparr>gs_students = is, gs_teachers = it, gs_offset = off, gs_limit = lim, gs_has_more_students = more_s,
             gs_has_more_teachers = more_t\<rparr>)))))"

section \<open>What a report holds\<close>

declare decimal.simps [simp del]

lemma report_headers_fit: "report_headers rt \<noteq> [] \<and> (\<forall>h\<in>set (report_headers rt). length h \<le> field_limit)"
  by (cases rt) (simp_all add: report_headers_def field_limit_def)

lemma report_rows_nonempty: "row \<in> set (report_rows rt s sch) \<Longrightarrow> row \<noteq> []"
  by (auto simp: report_rows_def student_report_def teacher_report_def attendance_report_def enrollment_report_def Let_def
      split: report_type.splits)

lemma flush_export [simp]:
  "ej_row_count (flush_actor n x z) = ej_row_count z" "ej_status (flush_actor n x z) = ej_status z" for x z :: export_job
  by (auto simp: flush_actor_def)

lemma request_export_ok:
  assumes "request_export io env ctx d s = Inr ((j, csv), s')"
  shows "\<exists>sch rt. school_id ctx = Some sch \<and> report_type_of (xr_report_type d) = Some rt \<and> organization_id ctx \<noteq> None \<and>
    csv = report_csv io (report_headers rt) (report_rows rt s sch) \<and>
    ej_row_count j = Some (int (length (report_rows rt s sch))) \<and> ej_status j = EJ_COMPLETED"
proof (cases "school_id ctx")
  case (Some sch)
  then show ?thesis using assms
    by (cases "report_type_of (xr_report_type d)"; cases "organization_id ctx")
      (auto simp: request_export_def flush_export_job_def new_export_job_def generate_report_def Let_def)
qed (use assms in \<open>simp add: request_export_def\<close>)

text \<open>
  A requested report is complete at once. Its file decodes to the header and one row per record of the
  school, its job counts them, and the filters of the request make no difference.
\<close>

theorem report_reads_back:
  assumes codec: "\<forall>t. im_decode io (im_encode io t) = Inr t"
    and ok: "request_export io env ctx d s = Inr ((j, csv), s')"
    and fit: "\<forall>sch rt. \<forall>row\<in>set (report_rows rt s sch). \<forall>c\<in>set row. length c \<le> field_limit"
  shows "\<exists>sch rt. school_id ctx = Some sch \<and> report_type_of (xr_report_type d) = Some rt \<and>
    bind_ok (im_decode io csv) read_rows = Inr (report_headers rt # report_rows rt s sch) \<and>
    ej_row_count j = Some (int (length (report_rows rt s sch))) \<and> ej_status j = EJ_COMPLETED \<and>
    (\<exists>j' t. request_export io env ctx (d\<lparr>xr_filters := f\<rparr>) s = Inr ((j', csv), t))"
proof -
  obtain sch rt where r: "school_id ctx = Some sch" "report_type_of (xr_report_type d) = Some rt"
    "organization_id ctx \<noteq> None" and csv: "csv = report_csv io (report_headers rt) (report_rows rt s sch)"
    and j: "ej_row_count j = Some (int (length (report_rows rt s sch)))" "ej_status j = EJ_COMPLETED"
    using request_export_ok[OF ok] by blast
  have "read_rows (concat (map write_row (report_headers rt # report_rows rt s sch))) = Inr (report_headers rt # report_rows rt s sch)"
    by (rule read_rows_written) (use fit report_headers_fit report_rows_nonempty in auto)
  then have "bind_ok (im_decode io csv) read_rows = Inr (report_headers rt # report_rows rt s sch)"
    using codec by (simp add: csv report_csv_def)
  moreover have "\<exists>j' t. request_export io env ctx (d\<lparr>xr_filters := f\<rparr>) s = Inr ((j', csv), t)"
    using r by (auto simp: request_export_def Let_def flush_export_job_def new_export_job_def generate_report_def csv)
  ultimately show ?thesis using r j by blast
qed

lemma sum_counts:
  "sum_list (map (\<lambda>i. count_marks rs i (\<lambda>_. True)) (remdups (map ar_student_id rs))) = length rs"
proof -
  have "sum_list (map (\<lambda>i. count_marks rs i (\<lambda>_. True)) xs) = length (filter (\<lambda>r. ar_student_id r \<in> set xs) rs)"
    if "distinct xs" for xs
    using that
  proof (induction xs)
    case (Cons i xs)
    have "length (filter (\<lambda>r. ar_student_id r = i \<or> ar_student_id r \<in> set xs) rs) =
        length (filter (\<lambda>r. ar_student_id r = i) rs) + length (filter (\<lambda>r. ar_student_id r \<in> set xs) rs)"
      using Cons.prems by (induction rs) auto
    then show ?case using Cons by (simp add: count_marks_def)
  qed simp
  from this[of "remdups (map ar_student_id rs)"] show ?thesis by (simp add: filter_id_conv[THEN iffD2])
qed

text \<open>
  The summary of attendance has one row for each student with a mark, and its totals account for every
  mark of the sessions of the school. Marks that are neither present, absent nor late are in the total alone.
\<close>

theorem attendance_summary_accounts:
  "distinct (map hd (attendance_report s sch)) \<and>
   set (map hd (attendance_report s sch)) = ar_student_id ` set (school_marks s sch) \<and>
   map (\<lambda>row. row ! 1) (attendance_report s sch) =
     map (\<lambda>i. decimal (count_marks (school_marks s sch) i (\<lambda>_. True))) (map hd (attendance_report s sch)) \<and>
   sum_list (map (\<lambda>i. count_marks (school_marks s sch) i (\<lambda>_. True)) (map hd (attendance_report s sch))) =
     length (school_marks s sch) \<and>
   count_marks rs i (\<lambda>m. m = AT_PRESENT) + count_marks rs i (\<lambda>m. m = AT_ABSENT) + count_marks rs i (\<lambda>m. m = AT_LATE) +
     count_marks rs i (\<lambda>m. m \<in> {AT_EXCUSED, AT_HOLIDAY}) = count_marks rs i (\<lambda>_. True)"
proof -
  have h: "map hd (attendance_report s sch) = remdups (map ar_student_id (school_marks s sch))"
    by (simp add: attendance_report_def Let_def o_def)
  have "count_marks rs i (\<lambda>m. m = AT_PRESENT) + count_marks rs i (\<lambda>m. m = AT_ABSENT) + count_marks rs i (\<lambda>m. m = AT_LATE) +
     count_marks rs i (\<lambda>m. m \<in> {AT_EXCUSED, AT_HOLIDAY}) = count_marks rs i (\<lambda>_. True)"
  proof (induction rs)
    case (Cons r rs)
    then show ?case by (cases "ar_status r") (auto simp: count_marks_def)
  qed (simp add: count_marks_def)
  then show ?thesis unfolding h using sum_counts by (simp add: attendance_report_def Let_def)
qed

section \<open>What a search gives away\<close>

lemma like_anything: "sql_like (CHR ''%'' # p) t \<longleftrightarrow> (\<exists>u v. t = u @ v \<and> sql_like p v)"
proof (induction t)
  case (Cons c t)
  have "(\<exists>u v. c # t = u @ v \<and> sql_like p v) \<longleftrightarrow> sql_like p (c # t) \<or> (\<exists>u v. t = u @ v \<and> sql_like p v)"
    by (auto simp: Cons_eq_append_conv)
  then show ?case using Cons by simp
qed auto

lemma like_literal:
  assumes "CHR 0x5C \<notin> set q" "sql_like p t"
  shows "sql_like (q @ p) (q @ t)"
  using assms(1)
proof (induction q)
  case (Cons c q)
  then have IH: "sql_like (q @ p) (q @ t)" by simp
  show ?case
  proof (cases "c = CHR ''%''")
    case True
    have "sql_like (CHR ''%'' # q @ p) ([c] @ (q @ t))" unfolding like_anything using IH by blast
    then show ?thesis using True by simp
  qed (use Cons IH in auto)
qed (simp add: assms(2))

lemma like_surround: "CHR 0x5C \<notin> set q \<Longrightarrow> sql_like (surround q) (u @ q @ v)"
proof -
  assume q: "CHR 0x5C \<notin> set q"
  have "sql_like [CHR ''%''] v" unfolding like_anything by (auto intro: exI[of _ v])
  then have "sql_like (q @ [CHR ''%'']) (q @ v)" by (rule like_literal[OF q])
  then show ?thesis unfolding surround_def like_anything by blast
qed

text \<open>
  A search needs no permission: it answers every signed-in caller of a school alike, whatever
  its roles, and finds every student of the school by the admission number or by a part of the name.
\<close>

theorem search_needs_no_permission:
  assumes "user_id ctx \<noteq> []" and "x \<in> set (students s)" and "st_school_id x = sch" and "deleted_at x = None"
    and "p \<in> set (persons s)" and "row_id p = st_person_id x"
    and "py_lower (st_admission_number x) = u @ py_lower q @ v \<or> name_of p = u @ py_lower q @ v"
    and "CHR 0x5C \<notin> set (py_lower q)"
  shows "(x, p) \<in> set (found_students s sch q) \<and>
    global_search (ctx\<lparr>permissions := {}, permission_scopes := [], role_codes := {}, scope := None\<rparr>) q lim off s =
      global_search ctx q lim off s"
proof -
  have l: "py_lower (surround q) = surround (py_lower q)" by (simp add: surround_def py_lower_def lower_char_def Let_def)
  have "name_matches q p \<or> number_matches q (Some (st_admission_number x))"
    using assms(7) like_surround[OF assms(8), of u v] by (auto simp: name_matches_def number_matches_def l)
  then have "(x, p) \<in> set (found_students s sch q)"
    using assms(2-6) by (auto simp: found_students_def)
  moreover have "global_search (ctx\<lparr>permissions := {}, permission_scopes := [], role_codes := {}, scope := None\<rparr>) q lim off s =
      global_search ctx q lim off s"
    using assms(1) by (simp add: global_search_def require_authenticated_def)
  ultimately show ?thesis by blast
qed

lemma all_items_Inr: "is_ok (all_items f xs) \<longleftrightarrow> list_all (\<lambda>x. is_ok (f x)) xs"
  by (induction xs) (auto simp: is_ok_def bind_ok_def split: sum.splits)


section \<open>Samples\<close>

definition report_io :: import_env where
  "report_io = \<lparr>im_decode = Inr, im_encode = (\<lambda>t. t), im_text = (\<lambda>_. [])\<rparr>"

definition sample_pupil :: student where
  "sample_pupil = (blank_student ''x'')\<lparr>st_school_id := ''s'', st_person_id := ''p'', st_admission_number := ''A1''\<rparr>"

definition sample_pupil_person :: person where
  "sample_pupil_person = (blank_person ''p'')\<lparr>pe_organization_id := ''o'', pe_first_name := ''Asha''\<rparr>"

definition sample_report_db :: db where
  "sample_report_db = empty_db\<lparr>students := [sample_pupil], persons := [sample_pupil_person]\<rparr>"

definition sample_export :: "((export_job \<times> string) \<times> db) result" where
  "sample_export = request_export report_io sample_audit_env school_context
     \<lparr>xr_report_type = ''STUDENTS'', xr_filters = None\<rparr> sample_report_db"

lemma sample_report_cells:
  "\<forall>row\<in>set (report_rows rt sample_report_db sch). \<forall>c\<in>set row. length c \<le> field_limit"
proof -
  have "length (iso_date d) = 10" for d by (simp add: iso_date_def split: prod.split)
  then show ?thesis
    by (cases rt) (auto simp: report_rows_def student_report_def teacher_report_def attendance_report_def enrollment_report_def
        school_marks_def sample_report_db_def sample_pupil_def sample_pupil_person_def blank_student_def blank_person_def
        empty_db_def linked_person_def person_cells_def cell_def field_limit_def)
qed

lemma report_reads_back_witness:
  "\<exists>row. bind_ok (im_decode report_io (snd (fst (projr sample_export)))) read_rows = Inr [report_headers RP_STUDENTS, row]"
proof -
  have ok: "is_ok sample_export" by code_simp
  then have r: "request_export report_io sample_audit_env school_context \<lparr>xr_report_type = ''STUDENTS'', xr_filters = None\<rparr>
      sample_report_db = Inr ((fst (fst (projr sample_export)), snd (fst (projr sample_export))), snd (projr sample_export))"
    using ok_projr[OF ok] by (simp add: sample_export_def)
  have c: "\<forall>t. im_decode report_io (im_encode report_io t) = Inr t" by (simp add: report_io_def)
  have f: "\<forall>sch rt. \<forall>row\<in>set (report_rows rt sample_report_db sch). \<forall>c\<in>set row. length c \<le> field_limit"
    using sample_report_cells by blast
  have n: "length (report_rows RP_STUDENTS sample_report_db ''s'') = 1" by code_simp
  have "report_type_of ''STUDENTS'' = Some RP_STUDENTS" by (simp add: report_type_of_def)
  with report_reads_back[OF c r f, of None] n show ?thesis
    by (auto simp: school_context_fields length_Suc_conv)
qed

lemma search_needs_no_permission_witness:
  "(sample_pupil, sample_pupil_person) \<in> set (found_students sample_report_db ''s'' ''sha'')"
proof -
  have "user_id school_context \<noteq> []" "sample_pupil \<in> set (students sample_report_db)" "st_school_id sample_pupil = ''s''"
    "deleted_at sample_pupil = None" "sample_pupil_person \<in> set (persons sample_report_db)"
    "row_id sample_pupil_person = st_person_id sample_pupil"
    "py_lower (st_admission_number sample_pupil) = ''a'' @ py_lower ''sha'' @ '' '' \<or>
     name_of sample_pupil_person = ''a'' @ py_lower ''sha'' @ '' ''"
    "CHR 0x5C \<notin> set (py_lower ''sha'')" by code_simp+
  from search_needs_no_permission[OF this] show ?thesis by blast
qed


end
