(* ===== verification/Scripts.thy ===== *)
theory Scripts
  imports AccessControl Users
begin

text \<open>
  The maintenance scripts: \<open>scripts/sync_permissions.py\<close>, \<open>scripts/sync_roles.py\<close> and
  \<open>scripts/bootstrap.py\<close>. Each runs in one transaction outside of row-level security. The
  permissions a script registers by its imports are its argument.
\<close>

section \<open>Permissions\<close>

definition uq_permissions_code :: "permission_row list \<Rightarrow> bool" where
  "uq_permissions_code = unique_on (\<lambda>_. True) pr_code"

text \<open>\<open>{row.code: row for row in rows}\<close>: the last row of a code counts.\<close>

definition row_of_code :: "permission_row list \<Rightarrow> string \<Rightarrow> permission_row option" where
  "row_of_code rows c = find (\<lambda>r. pr_code r = c) (rev rows)"

definition declared_row :: "env \<Rightarrow> permission \<Rightarrow> permission_row list \<Rightarrow> permission_row" where
  "declared_row env p t =
     \<lparr>row_id = new_id env ''permissions'' t, created_at = env_now env, updated_at = env_now env, pr_code = pm_code p,
      pr_module = pm_module p, pr_resource = pm_resource p, pr_action = pm_action p, pr_description = pm_description p,
      pr_platform_only = False\<rparr>"

definition sync_row :: "env \<Rightarrow> permission \<Rightarrow> permission_row \<Rightarrow> permission_row" where
  "sync_row env p r =
     (if pr_module r \<noteq> pm_module p \<or> pr_resource r \<noteq> pm_resource p \<or> pr_action r \<noteq> pm_action p \<or>
         pr_description r \<noteq> pm_description p
      then r\<lparr>pr_module := pm_module p, pr_resource := pm_resource p, pr_action := pm_action p,
        pr_description := pm_description p, updated_at := env_now env\<rparr>
      else r)"

fun sync_declared :: "env \<Rightarrow> permission_row list \<Rightarrow> permission list \<Rightarrow> permission_row list \<Rightarrow> permission_row list" where
  "sync_declared env ex [] t = t"
| "sync_declared env ex (p # ps) t = sync_declared env ex ps (case row_of_code ex (pm_code p) of
     None \<Rightarrow> insert_row (declared_row env p t) t
   | Some r \<Rightarrow> update_row (sync_row env p r) t)"

definition stale_ids :: "permission_row list \<Rightarrow> permission list \<Rightarrow> ulid list" where
  "stale_ids ex declared = map row_id (filter (\<lambda>r. pr_code r \<notin> pm_code ` set declared) ex)"

definition sync_permissions :: "env \<Rightarrow> permission list \<Rightarrow> db \<Rightarrow> db result" where
  "sync_permissions env declared s =
     (let ex = permissions_t s; t = sync_declared env ex declared ex; stale = stale_ids ex declared in
      bind_ok (constrained (uq_permissions_code t) ''uq_permissions_code'' t) (\<lambda>t.
        Inr (s\<lparr>permissions_t := filter (\<lambda>r. row_id r \<notin> set stale) t,
               role_permissions := filter (\<lambda>l. rp_permission_id l \<notin> set stale) (role_permissions s)\<rparr>)))"

section \<open>System roles\<close>

record role_definition =
  rd_code :: string
  rd_name :: string
  rd_description :: string
  rd_scope_level :: role_scope_level
  rd_data_scope :: data_scope
  rd_permissions :: "string list"

definition starts_with :: "string \<Rightarrow> string \<Rightarrow> bool" where
  "starts_with p c = (take (length p) c = p)"

definition ends_with :: "string \<Rightarrow> string \<Rightarrow> bool" where
  "ends_with p c = starts_with (rev p) (rev c)"

definition all_in_module :: "registry \<Rightarrow> string \<Rightarrow> string list" where
  "all_in_module reg m = sort (map pm_code (filter (\<lambda>p. pm_module p = m) (registry_all reg)))"

definition all_permissions :: "registry \<Rightarrow> string list" where
  "all_permissions reg = sort (map pm_code (registry_all reg))"

definition read_people :: "registry \<Rightarrow> string list" where
  "read_people reg = filter (\<lambda>c. ends_with ''.read'' c \<or> ends_with ''.list'' c) (all_in_module reg ''people'')"

definition role_catalog :: "registry \<Rightarrow> role_definition list" where
  "role_catalog reg =
     [\<lparr>rd_code = ''SUPER_ADMIN'', rd_name = ''Platform Super Admin'',
       rd_description = ''Platform staff. Full access across all tenants.'', rd_scope_level = RL_PLATFORM,
       rd_data_scope = PLATFORM, rd_permissions = all_permissions reg\<rparr>,
      \<lparr>rd_code = ''ORG_ADMIN'', rd_name = ''Organization Administrator'',
       rd_description = ''Runs the whole organization: schools, users, roles.'', rd_scope_level = RL_ORGANIZATION,
       rd_data_scope = ORGANIZATION,
       rd_permissions = all_in_module reg ''iam'' @ all_in_module reg ''people'' @ all_in_module reg ''academic'' @
         all_in_module reg ''students'' @ all_in_module reg ''platform'' @ all_in_module reg ''attendance''\<rparr>,
      \<lparr>rd_code = ''SCHOOL_ADMIN'', rd_name = ''School Administrator'',
       rd_description = ''Operates one school: people and contacts.'', rd_scope_level = RL_SCHOOL, rd_data_scope = SCHOOL,
       rd_permissions = all_in_module reg ''people'' @ all_in_module reg ''academic'' @ all_in_module reg ''students'' @
         all_in_module reg ''teachers'' @ all_in_module reg ''timetables'' @ all_in_module reg ''announcements'' @
         all_in_module reg ''attendance'' @ all_in_module reg ''bulk_import'' @
         filter (\<lambda>c. starts_with ''iam.membership.'' c \<or> starts_with ''iam.user.'' c \<or> starts_with ''iam.school.'' c \<or>
           starts_with ''iam.role.'' c) (all_in_module reg ''iam'') @ all_in_module reg ''platform''\<rparr>,
      \<lparr>rd_code = ''PRINCIPAL'', rd_name = ''Principal'', rd_description = ''Reads all school data, manages people.'',
       rd_scope_level = RL_SCHOOL, rd_data_scope = SCHOOL,
       rd_permissions = read_people reg @
         filter (\<lambda>c. ends_with ''.create'' c \<or> ends_with ''.update'' c) (all_in_module reg ''people'')\<rparr>,
      \<lparr>rd_code = ''TEACHER'', rd_name = ''Teacher'', rd_description = ''Sees assigned students (Phase 1: reads people).'',
       rd_scope_level = RL_SCHOOL, rd_data_scope = ASSIGNED, rd_permissions = read_people reg\<rparr>,
      \<lparr>rd_code = ''STAFF'', rd_name = ''Staff'', rd_description = ''Non-teaching staff. Read-only people access.'',
       rd_scope_level = RL_SCHOOL, rd_data_scope = SCHOOL, rd_permissions = read_people reg\<rparr>,
      \<lparr>rd_code = ''PARENT'', rd_name = ''Parent / Guardian'',
       rd_description = ''Reads only their own children (Phase 1: own person record).'', rd_scope_level = RL_SCHOOL,
       rd_data_scope = OWN, rd_permissions = read_people reg\<rparr>,
      \<lparr>rd_code = ''STUDENT'', rd_name = ''Student'', rd_description = ''Reads only their own record.'',
       rd_scope_level = RL_SCHOOL, rd_data_scope = OWN,
       rd_permissions = filter (ends_with ''.read'') (all_in_module reg ''people'')\<rparr>]"

definition system_role :: "db \<Rightarrow> string \<Rightarrow> role option" where
  "system_role s c = find (\<lambda>r. ro_code r = c \<and> ro_organization_id r = None \<and> deleted_at r = None) (roles s)"

definition new_system_role :: "env \<Rightarrow> role_definition \<Rightarrow> db \<Rightarrow> role" where
  "new_system_role env d s =
     \<lparr>row_id = new_id env ''roles'' (roles s), created_at = env_now env, updated_at = env_now env,
      created_by_id = None, updated_by_id = None, version = 1, archived_at = None, deleted_at = None,
      ro_organization_id = None, ro_code = rd_code d, ro_name = rd_name d, ro_description = Some (rd_description d),
      ro_scope_level = rd_scope_level d, ro_data_scope = rd_data_scope d, ro_is_system = True, ro_is_default = False\<rparr>"

definition upsert_role :: "env \<Rightarrow> role_definition \<Rightarrow> db \<Rightarrow> (role \<times> db) result" where
  "upsert_role env d s = (case system_role s (rd_code d) of
     None \<Rightarrow>
       let r = new_system_role env d s; t = insert_row r (roles s) in
       bind_ok (constrained (uq_roles_organization_id_code t) ''uq_roles_organization_id_code'' t) (\<lambda>t. Inr (r, s\<lparr>roles := t\<rparr>))
   | Some r \<Rightarrow>
       let r' = flush_versioned (env_now env) r (r\<lparr>ro_name := rd_name d, ro_description := Some (rd_description d),
             ro_scope_level := rd_scope_level d, ro_data_scope := rd_data_scope d\<rparr>)
       in Inr (r', s\<lparr>roles := update_row r' (roles s)\<rparr>))"

definition code_of_link :: "db \<Rightarrow> role_permission \<Rightarrow> string option" where
  "code_of_link s l = map_option pr_code (find (\<lambda>p. row_id p = rp_permission_id l) (permissions_t s))"

fun grant_codes :: "env \<Rightarrow> db \<Rightarrow> ulid \<Rightarrow> string list \<Rightarrow> role_permission list \<Rightarrow> role_permission list result" where
  "grant_codes env s i [] t = Inr t"
| "grant_codes env s i (c # cs) t =
     bind_ok (ok_or (PyError ''KeyError'') (row_of_code (permissions_t s) c)) (\<lambda>p. grant_codes env s i cs (add_permission env i p t))"

text \<open>A link whose permission is gone has no code to compare; the foreign key excludes it.\<close>

definition sync_links :: "env \<Rightarrow> ulid \<Rightarrow> string list \<Rightarrow> db \<Rightarrow> db result" where
  "sync_links env i desired s =
     (let links = filter (\<lambda>l. rp_role_id l = i) (role_permissions s);
          current = List.map_filter (code_of_link s) links
      in if list_ex (\<lambda>l. code_of_link s l = None) links then Inl (PyError ''AttributeError'')
         else bind_ok (grant_codes env s i (filter (\<lambda>c. c \<notin> set current) (sort (remdups desired)))
             (filter (\<lambda>l. rp_role_id l = i \<longrightarrow> the (code_of_link s l) \<in> set desired) (role_permissions s))) (\<lambda>t.
           Inr (s\<lparr>role_permissions := t\<rparr>)))"

fun sync_catalog :: "env \<Rightarrow> role_definition list \<Rightarrow> db \<Rightarrow> db result" where
  "sync_catalog env [] s = Inr s"
| "sync_catalog env (d # ds) s =
     bind_ok (upsert_role env d s) (\<lambda>(r, s). bind_ok (sync_links env (row_id r) (rd_permissions d) s) (sync_catalog env ds))"

definition catalog_registered :: "registry \<Rightarrow> role_definition list \<Rightarrow> unit result" where
  "catalog_registered reg ds =
     (if list_all (\<lambda>d. list_all (\<lambda>c. is_ok (require_registered reg c)) (rd_permissions d)) ds then Inr ()
      else Inl (PyError ''RuntimeError: permission is not registered''))"

definition sync_roles :: "env \<Rightarrow> registry \<Rightarrow> db \<Rightarrow> db result" where
  "sync_roles env reg s =
     bind_ok (catalog_registered reg (role_catalog reg)) (\<lambda>_. sync_catalog env (role_catalog reg) s)"

section \<open>Bootstrap\<close>

record bootstrap_settings =
  bs_org_code :: string
  bs_org_name :: string
  bs_school_code :: string
  bs_school_name :: string
  bs_admin_email :: string
  bs_admin_password :: string

definition bootstrap_organization :: "env \<Rightarrow> bootstrap_settings \<Rightarrow> db \<Rightarrow> organization \<times> db" where
  "bootstrap_organization env bs s = (case find (\<lambda>x. og_code x = bs_org_code bs) (organizations s) of
     Some x \<Rightarrow> (x, s)
   | None \<Rightarrow>
       let x = \<lparr>row_id = new_id env ''organizations'' (organizations s), created_at = env_now env, updated_at = env_now env,
         created_by_id = None, updated_by_id = None, version = 1, archived_at = None, deleted_at = None,
         og_code = bs_org_code bs, og_name = bs_org_name bs, og_legal_name = None, og_status = OG_ACTIVE,
         og_timezone = ''Asia/Kolkata'', og_locale = ''en-IN'', og_contact_email = None, og_contact_phone = None,
         og_plan_code = ''foundation'', og_parent_organization_id = None\<rparr>
       in (x, s\<lparr>organizations := insert_row x (organizations s)\<rparr>))"

definition bootstrap_school :: "env \<Rightarrow> bootstrap_settings \<Rightarrow> ulid \<Rightarrow> db \<Rightarrow> school \<times> db" where
  "bootstrap_school env bs org s = (case find (\<lambda>x. sc_organization_id x = org \<and> sc_code x = bs_school_code bs) (schools s) of
     Some x \<Rightarrow> (x, s)
   | None \<Rightarrow>
       let x = \<lparr>row_id = new_id env ''schools'' (schools s), created_at = env_now env, updated_at = env_now env,
         created_by_id = None, updated_by_id = None, version = 1, archived_at = None, deleted_at = None,
         sc_organization_id = org, sc_code = bs_school_code bs, sc_name = bs_school_name bs, sc_short_name = None,
         sc_parent_school_id = None, sc_hierarchy_path = None, sc_timezone = ''Asia/Kolkata'', sc_locale = ''en-IN'',
         sc_board = None, sc_affiliation_number = None, sc_contact_email = None, sc_contact_phone = None,
         sc_address_id = None, sc_status = SC_ACTIVE\<rparr>
       in (x, s\<lparr>schools := insert_row x (schools s)\<rparr>))"

text \<open>The address is compared as it is, while its index ignores the case; a deleted account is taken as it is.\<close>

definition bootstrap_admin :: "auth_env \<Rightarrow> env \<Rightarrow> bootstrap_settings \<Rightarrow> db \<Rightarrow> (user \<times> db) result" where
  "bootstrap_admin ax env bs s = (case find (\<lambda>u. us_email u = Some (bs_admin_email bs)) (users s) of
     Some u \<Rightarrow>
       let u' = flush_versioned (env_now env) u (u\<lparr>us_is_platform_admin := True\<rparr>)
       in Inr (u', s\<lparr>users := update_row u' (users s)\<rparr>)
   | None \<Rightarrow> bind_ok (hash_password ax (bs_admin_password bs)) (\<lambda>h.
       let u = \<lparr>row_id = new_id env ''users'' (users s), created_at = env_now env, updated_at = env_now env,
         created_by_id = None, updated_by_id = None, version = 1, archived_at = None, deleted_at = None,
         us_person_id = None, us_email = Some (bs_admin_email bs), us_email_verified_at = None, us_phone = None,
         us_phone_verified_at = None, us_password_hash = Some h, us_password_changed_at = None,
         us_must_change_password = True, us_status = US_ACTIVE, us_is_platform_admin = True, us_failed_login_count = 0,
         us_locked_until = None, us_last_login_at = None, us_permissions_version = 1\<rparr>
       in bind_ok (flush_users (insert_row u (users s))) (\<lambda>t. Inr (u, s\<lparr>users := t\<rparr>))))"

definition bootstrap_membership :: "env \<Rightarrow> ulid \<Rightarrow> ulid \<Rightarrow> ulid \<Rightarrow> db \<Rightarrow> (membership \<times> db) result" where
  "bootstrap_membership env uid org sch s =
     (case find (\<lambda>m. mb_user_id m = uid \<and> mb_organization_id m = org) (memberships s) of
        Some m \<Rightarrow> Inr (m, s)
      | None \<Rightarrow>
          let m = \<lparr>row_id = new_id env ''memberships'' (memberships s), created_at = env_now env, updated_at = env_now env,
            created_by_id = None, updated_by_id = None, version = 1, mb_user_id = uid, mb_organization_id = org,
            mb_school_id = Some sch, mb_status = MS_ACTIVE, mb_start_date = None, mb_end_date = None,
            mb_is_default = True, mb_notes = None\<rparr>
          in bind_ok (flush_memberships m (insert_row m (memberships s))) (\<lambda>t. Inr (m, s\<lparr>memberships := t\<rparr>)))"

definition bootstrap_grant :: "env \<Rightarrow> ulid \<Rightarrow> db \<Rightarrow> db" where
  "bootstrap_grant env mid s = (case find (\<lambda>r. ro_code r = ''SUPER_ADMIN'' \<and> ro_organization_id r = None) (roles s) of
     None \<Rightarrow> s
   | Some r \<Rightarrow>
       if list_ex (\<lambda>g. mr_membership_id g = mid \<and> mr_role_id g = row_id r) (membership_roles s) then s
       else s\<lparr>membership_roles := insert_row
         \<lparr>row_id = new_id env ''membership_roles'' (membership_roles s), created_at = env_now env, updated_at = env_now env,
          created_by_id = None, updated_by_id = None, mr_membership_id = mid, mr_role_id = row_id r,
          mr_granted_at = env_now env, mr_expires_at = None, mr_data_scope = None\<rparr> (membership_roles s)\<rparr>)"

definition bootstrap :: "auth_env \<Rightarrow> env \<Rightarrow> bootstrap_settings \<Rightarrow> db \<Rightarrow> db result" where
  "bootstrap ax env bs s =
     (let (org, s1) = bootstrap_organization env bs s; (sch, s2) = bootstrap_school env bs (row_id org) s1 in
      bind_ok (bootstrap_admin ax env bs s2) (\<lambda>(u, s3).
      bind_ok (bootstrap_membership env (row_id u) (row_id org) (row_id sch) s3) (\<lambda>(m, s4).
        Inr (bootstrap_grant env (row_id m) s4))))"

section \<open>Permissions mirror the registry\<close>

definition row_tuple :: "permission_row \<Rightarrow> string \<times> string \<times> string \<times> string \<times> string" where
  "row_tuple r = (pr_code r, pr_module r, pr_resource r, pr_action r, pr_description r)"

definition perm_tuple :: "permission \<Rightarrow> string \<times> string \<times> string \<times> string \<times> string" where
  "perm_tuple p = (pm_code p, pm_module p, pm_resource p, pm_action p, pm_description p)"

lemma tuple_code: "row_tuple r = perm_tuple p \<Longrightarrow> pr_code r = pm_code p"
  by (simp add: row_tuple_def perm_tuple_def)

text \<open>The table after the permissions of \<open>D\<close> were written to it.\<close>

definition synced :: "env \<Rightarrow> permission_row list \<Rightarrow> permission set \<Rightarrow> permission_row list \<Rightarrow> bool" where
  "synced env ex D t \<longleftrightarrow> pk_unique t \<and> inj_on pr_code (set t) \<and>
     (\<forall>e\<in>set ex. \<exists>x\<in>set t. row_id x = row_id e \<and> pr_code x = pr_code e) \<and>
     pr_code ` set t = pr_code ` set ex \<union> pm_code ` D \<and>
     (\<forall>p\<in>D. \<exists>r\<in>set t. row_tuple r = perm_tuple p) \<and>
     (\<forall>k\<ge>length t. env_gen env ''permissions'' k \<notin> ids t)"

lemma sync_row_fields [simp]:
  "row_id (sync_row env p r) = row_id r" "pr_code (sync_row env p r) = pr_code r"
  by (simp_all add: sync_row_def)

lemma sync_row_tuple: "pr_code r = pm_code p \<Longrightarrow> row_tuple (sync_row env p r) = perm_tuple p"
  by (simp add: sync_row_def row_tuple_def perm_tuple_def)

lemma sync_row_same: "row_tuple r = perm_tuple p \<Longrightarrow> sync_row env p r = r"
  by (simp add: sync_row_def row_tuple_def perm_tuple_def)

lemma row_of_code_SomeD: "row_of_code ex c = Some r \<Longrightarrow> r \<in> set ex \<and> pr_code r = c"
  unfolding row_of_code_def using find_SomeD by fastforce

lemma row_of_code_NoneD: "row_of_code ex c = None \<Longrightarrow> c \<notin> pr_code ` set ex"
  unfolding row_of_code_def using find_NoneD by fastforce

lemma synced_kept:
  assumes "synced env ex D t" "e \<in> set ex"
  obtains x where "x \<in> set t" "row_id x = row_id e" "pr_code x = pr_code e"
  using assms unfolding synced_def by metis

lemma synced_tuple:
  assumes "synced env ex D t" "p \<in> D"
  obtains x where "x \<in> set t" "row_tuple x = perm_tuple p"
  using assms unfolding synced_def by metis

lemma synced_update:
  assumes "synced env ex D t" "r \<in> set ex" "pr_code r = pm_code p" "pm_code p \<notin> pm_code ` D"
  shows "synced env ex (insert p D) (update_row (sync_row env p r) t)"
proof -
  let ?n = "sync_row env p r" let ?t = "update_row ?n t"
  obtain x where x: "x \<in> set t" "row_id x = row_id r" "pr_code x = pm_code p"
    using assms(1-3) unfolding synced_def by metis
  have pk: "pk_unique t" and inj: "inj_on pr_code (set t)" using assms(1) by (simp_all add: synced_def)
  have set: "set ?t = insert ?n (set t - {x})"
  proof -
    have "row_id y = row_id r \<longleftrightarrow> y = x" if "y \<in> set t" for y using pk_unique_inj[OF pk] that x by metis
    then show ?thesis using x(1) by (auto simp: update_row_def)
  qed
  have c: "pr_code y \<noteq> pm_code p" if "y \<in> set t - {x}" for y using inj that x by (auto simp: inj_on_def)
  have "inj_on pr_code (set t - {x})" by (rule inj_on_subset[OF inj]) auto
  moreover have "pr_code ?n \<notin> pr_code ` (set t - {x} - {?n})" using c assms(3) by fastforce
  ultimately have "inj_on pr_code (set ?t)" unfolding set inj_on_insert by blast
  moreover have "\<exists>z\<in>set ?t. row_id z = row_id e \<and> pr_code z = pr_code e" if e: "e \<in> set ex" for e
  proof -
    obtain z where z: "z \<in> set t" "row_id z = row_id e" "pr_code z = pr_code e"
      using synced_kept[OF assms(1) e] .
    show ?thesis
    proof (cases "z = x")
      case True
      have "row_id ?n = row_id e \<and> pr_code ?n = pr_code e"
        unfolding sync_row_fields using z(2,3) x(2,3) assms(3) True by metis
      then show ?thesis unfolding set by blast
    next
      case False
      then show ?thesis unfolding set using z by blast
    qed
  qed
  moreover have "pr_code ` set ?t = pr_code ` set ex \<union> pm_code ` insert p D"
  proof -
    have "pr_code ?n = pr_code x" using x(3) assms(3) by simp
    then have "pr_code ` set ?t = pr_code ` insert x (set t - {x})" unfolding set image_insert by simp
    then have "pr_code ` set ?t = pr_code ` set t" unfolding insert_Diff[OF x(1)] .
    moreover have "pm_code p \<in> pr_code ` set ex" using assms(2,3) by force
    ultimately show ?thesis using assms(1) by (auto simp: synced_def)
  qed
  moreover have "\<exists>z\<in>set ?t. row_tuple z = perm_tuple q" if q: "q \<in> insert p D" for q
  proof (cases "q = p")
    case True
    then show ?thesis unfolding set using sync_row_tuple[OF assms(3)] by auto
  next
    case False
    then have D: "q \<in> D" using q by simp
    obtain z where z: "z \<in> set t" "row_tuple z = perm_tuple q" using synced_tuple[OF assms(1) D] .
    have "z \<noteq> x" using tuple_code[OF z(2)] x(3) assms(4) D by auto
    then show ?thesis unfolding set using z by auto
  qed
  ultimately show ?thesis using pk assms(1) unfolding synced_def by simp
qed

lemma synced_insert:
  assumes "synced env ex D t" "pm_code p \<notin> pr_code ` set ex" "pm_code p \<notin> pm_code ` D" "inj (env_gen env ''permissions'')"
  shows "synced env ex (insert p D) (insert_row (declared_row env p t) t)"
proof -
  let ?n = "declared_row env p t"
  have i: "row_id ?n = env_gen env ''permissions'' (length t)" "pr_code ?n = pm_code p" "row_tuple ?n = perm_tuple p"
    by (simp_all add: declared_row_def new_id_def row_tuple_def perm_tuple_def)
  have old: "pk_unique t" "inj_on pr_code (set t)" "pr_code ` set t = pr_code ` set ex \<union> pm_code ` D"
    "\<forall>k\<ge>length t. env_gen env ''permissions'' k \<notin> ids t"
    using assms(1) by (simp_all add: synced_def)
  have c: "pm_code p \<notin> pr_code ` set t" using old(3) assms(2,3) by blast
  have "row_id ?n \<notin> ids t" using old(4) i(1) by simp
  then have "pk_unique (insert_row ?n t)" using old(1) by simp
  moreover have "inj_on pr_code (set (insert_row ?n t))"
    unfolding set_insert_row inj_on_insert i(2) using old(2) c by blast
  moreover have "\<exists>x\<in>set (insert_row ?n t). row_id x = row_id e \<and> pr_code x = pr_code e" if "e \<in> set ex" for e
    using assms(1) that unfolding synced_def set_insert_row by (meson insertI2)
  moreover have "pr_code ` set (insert_row ?n t) = pr_code ` set ex \<union> pm_code ` insert p D"
    unfolding set_insert_row image_insert i(2) old(3) by blast
  moreover have "\<exists>r\<in>set (insert_row ?n t). row_tuple r = perm_tuple q" if "q \<in> insert p D" for q
    using assms(1) that i(3) unfolding synced_def set_insert_row by (metis insert_iff)
  moreover have "env_gen env ''permissions'' k \<notin> ids (insert_row ?n t)" if "length (insert_row ?n t) \<le> k" for k
  proof -
    have "length t < k" using that by (simp add: insert_row_def)
    then have "env_gen env ''permissions'' k \<noteq> row_id ?n" unfolding i(1) using injD[OF assms(4)] by blast
    then show ?thesis using old(4) \<open>length t < k\<close> by simp
  qed
  ultimately show ?thesis unfolding synced_def by blast
qed

lemma sync_declared_synced:
  assumes "synced env ex D t" "distinct (map pm_code ps)" "pm_code ` D \<inter> pm_code ` set ps = {}"
    "inj (env_gen env ''permissions'')"
  shows "synced env ex (D \<union> set ps) (sync_declared env ex ps t)"
  using assms(1-3)
proof (induction ps arbitrary: D t)
  case (Cons p ps)
  have n: "pm_code p \<notin> pm_code ` D" using Cons.prems(3) by auto
  have s: "synced env ex (insert p D) (case row_of_code ex (pm_code p) of
      None \<Rightarrow> insert_row (declared_row env p t) t | Some r \<Rightarrow> update_row (sync_row env p r) t)"
  proof (cases "row_of_code ex (pm_code p)")
    case None
    then show ?thesis using synced_insert[OF Cons.prems(1) row_of_code_NoneD[OF None] n assms(4)] by simp
  next
    case (Some r)
    then show ?thesis using synced_update[OF Cons.prems(1) _ _ n] row_of_code_SomeD[OF Some] by simp
  qed
  have "pm_code ` insert p D \<inter> pm_code ` set ps = {}" using Cons.prems(2,3) by auto
  with Cons.IH[OF s] Cons.prems(2) show ?case by simp
qed simp

lemma sync_declared_same:
  assumes "pk_unique t" "\<forall>p\<in>set ps. \<exists>r\<in>set t. row_tuple r = perm_tuple p" "inj_on pr_code (set t)"
  shows "sync_declared env t ps t = t"
  using assms(2)
proof (induction ps)
  case (Cons p ps)
  obtain r where r: "r \<in> set t" "row_tuple r = perm_tuple p" using Cons.prems by auto
  obtain r' where r': "row_of_code t (pm_code p) = Some r'"
    using row_of_code_NoneD[of t "pm_code p"] r tuple_code[OF r(2)] by (cases "row_of_code t (pm_code p)") force+
  have "r' = r" using row_of_code_SomeD[OF r'] r tuple_code[OF r(2)] assms(3) by (auto simp: inj_on_def)
  then show ?case using Cons r r' sync_row_same[OF r(2)] update_row_same[OF assms(1) r(1)] by simp
qed simp

lemma synced_stale:
  assumes sy: "synced env ex (set declared) t" and r: "r \<in> set t"
  shows "row_id r \<in> set (stale_ids ex declared) \<longleftrightarrow> pr_code r \<notin> pm_code ` set declared"
proof
  have pk: "pk_unique t" using sy by (simp add: synced_def)
  assume "row_id r \<in> set (stale_ids ex declared)"
  then obtain e where e: "e \<in> set ex" "row_id e = row_id r" "pr_code e \<notin> pm_code ` set declared" by (auto simp: stale_ids_def)
  obtain x where "x \<in> set t" "row_id x = row_id e" "pr_code x = pr_code e" using synced_kept[OF sy e(1)] .
  then show "pr_code r \<notin> pm_code ` set declared" using pk_unique_inj[OF pk] r e(2,3) by metis
next
  assume c: "pr_code r \<notin> pm_code ` set declared"
  moreover have "pr_code r \<in> pr_code ` set ex \<union> pm_code ` set declared" using sy r unfolding synced_def by blast
  ultimately obtain e where e: "e \<in> set ex" "pr_code e = pr_code r" by auto
  obtain x where "x \<in> set t" "row_id x = row_id e" "pr_code x = pr_code e" using synced_kept[OF sy e(1)] .
  moreover have "inj_on pr_code (set t)" using sy by (simp add: synced_def)
  ultimately have "row_id r = row_id e" using r e(2) by (metis inj_onD)
  then show "row_id r \<in> set (stale_ids ex declared)" using e c by (auto simp: stale_ids_def)
qed

text \<open>The rows that stay are those of the declared permissions, column by column.\<close>

lemma synced_tuples:
  assumes sy: "synced env ex (set declared) t" and f: "S = {r \<in> set t. pr_code r \<in> pm_code ` set declared}"
  shows "row_tuple ` S = perm_tuple ` set declared"
proof
  show "perm_tuple ` set declared \<subseteq> row_tuple ` S"
  proof
    fix z assume "z \<in> perm_tuple ` set declared"
    then obtain p where p: "p \<in> set declared" "z = perm_tuple p" by auto
    obtain x where "x \<in> set t" "row_tuple x = perm_tuple p" using synced_tuple[OF sy p(1)] .
    then show "z \<in> row_tuple ` S" unfolding f p(2) using tuple_code[of x p] p(1) by (intro image_eqI[of _ _ x]) auto
  qed
  show "row_tuple ` S \<subseteq> perm_tuple ` set declared"
  proof
    fix z assume "z \<in> row_tuple ` S"
    then obtain r p where r: "r \<in> set t" "p \<in> set declared" "pr_code r = pm_code p" "z = row_tuple r" unfolding f by auto
    obtain x where x: "x \<in> set t" "row_tuple x = perm_tuple p" using synced_tuple[OF sy r(2)] .
    have "inj_on pr_code (set t)" using sy by (simp add: synced_def)
    then have "x = r" using tuple_code[OF x(2)] x(1) r by (auto simp: inj_on_def)
    then show "z \<in> perm_tuple ` set declared" using r x by auto
  qed
qed

text \<open>
  C28. The synchronisation makes the table of permissions the registry, exactly: the rows and the declarations
  agree in every column, the links of roles are those of the permissions that stay, and a second run
  changes nothing. So a permission whose module the script does not import is deleted, and taken from
  every role.
\<close>

theorem sync_permissions_exact:
  assumes "distinct (map pm_code declared)" and "pk_unique (permissions_t s)" and "inj_on pr_code (set (permissions_t s))"
    and "inj (env_gen env ''permissions'')"
    and "\<forall>k\<ge>length (permissions_t s). env_gen env ''permissions'' k \<notin> ids (permissions_t s)"
  shows "\<exists>s'. sync_permissions env declared s = Inr s' \<and>
    row_tuple ` set (permissions_t s') = perm_tuple ` set declared \<and>
    role_permissions s' = filter (\<lambda>l. rp_permission_id l \<notin> set (stale_ids (permissions_t s) declared)) (role_permissions s) \<and>
    sync_permissions env' declared s' = Inr s'"
proof -
  let ?ex = "permissions_t s" let ?t = "sync_declared env ?ex declared ?ex" let ?st = "set (stale_ids ?ex declared)"
  let ?f = "filter (\<lambda>r. row_id r \<notin> ?st) ?t"
  have "synced env ?ex {} ?ex" using assms(2,3,5) unfolding synced_def by auto
  from sync_declared_synced[OF this assms(1) _ assms(4)] have sy: "synced env ?ex (set declared) ?t" by simp
  then have pk: "pk_unique ?t" and inj: "inj_on pr_code (set ?t)" by (simp_all add: synced_def)
  then have uq: "uq_permissions_code ?t" unfolding uq_permissions_code_def unique_on_def by (auto simp: inj_on_def)
  have f: "set ?f = {r \<in> set ?t. pr_code r \<in> pm_code ` set declared}" using synced_stale[OF sy] by auto
  note tuples = synced_tuples[OF sy f]
  let ?s = "s\<lparr>permissions_t := ?f, role_permissions := filter (\<lambda>l. rp_permission_id l \<notin> ?st) (role_permissions s)\<rparr>"
  have ok: "sync_permissions env declared s = Inr ?s"
    using uq by (simp add: sync_permissions_def Let_def constrained_def)
  have pf: "pk_unique ?f" using pk unfolding pk_unique_def by (simp add: distinct_map_filter)
  have injf: "inj_on pr_code (set ?f)" using inj by (rule inj_on_subset) auto
  have all: "\<forall>p\<in>set declared. \<exists>r\<in>set ?f. row_tuple r = perm_tuple p"
  proof
    fix p assume "p \<in> set declared"
    then have "perm_tuple p \<in> row_tuple ` set ?f" unfolding tuples by (rule imageI)
    then show "\<exists>r\<in>set ?f. row_tuple r = perm_tuple p" by (elim imageE) (rule bexI, rule sym)
  qed
  have "sync_declared env' ?f declared ?f = ?f" by (rule sync_declared_same[OF pf all injf])
  moreover have "stale_ids ?f declared = []"
  proof -
    have "\<forall>r\<in>set ?f. \<not> pr_code r \<notin> pm_code ` set declared" using f by blast
    then have "filter (\<lambda>r. pr_code r \<notin> pm_code ` set declared) ?f = []" by (rule filter_False)
    then show ?thesis unfolding stale_ids_def by (simp only: list.map)
  qed
  moreover have "uq_permissions_code ?f" using injf unfolding uq_permissions_code_def unique_on_def by (auto simp: inj_on_def)
  ultimately have "sync_permissions env' declared ?s = Inr ?s"
    by (simp add: sync_permissions_def Let_def constrained_def)
  then show ?thesis using ok tuples by (intro exI[of _ ?s]) simp
qed

lemma sync_permissions_exact_witness:
  "\<exists>s'. sync_permissions sample_audit_env [sample_permission] empty_db = Inr s' \<and>
    row_tuple ` set (permissions_t s') = {perm_tuple sample_permission} \<and>
    sync_permissions sample_audit_env [sample_permission] s' = Inr s'"
proof -
  have "inj (env_gen sample_audit_env ''permissions'')" by (auto simp: sample_audit_env_def inj_def)
  moreover have "permissions_t empty_db = []" by (simp add: empty_db_def)
  ultimately obtain s' where "sync_permissions sample_audit_env [sample_permission] empty_db = Inr s'"
    "row_tuple ` set (permissions_t s') = perm_tuple ` set [sample_permission]"
    "sync_permissions sample_audit_env [sample_permission] s' = Inr s'"
    using sync_permissions_exact[of "[sample_permission]" empty_db sample_audit_env sample_audit_env]
    by (auto simp: pk_unique_def ids_def)
  then show ?thesis by auto
qed

section \<open>The two scripts in their order\<close>

lemma sync_declared_rows:
  "x \<in> set (sync_declared env ex ps t) \<Longrightarrow> x \<in> set t \<or> pr_code x \<in> pm_code ` set ps"
proof (induction ps arbitrary: t)
  case (Cons p ps)
  consider "pr_code x \<in> pm_code ` set ps"
    | "x \<in> set (case row_of_code ex (pm_code p) of None \<Rightarrow> insert_row (declared_row env p t) t | Some r \<Rightarrow> update_row (sync_row env p r) t)"
    using Cons.IH[of "case row_of_code ex (pm_code p) of None \<Rightarrow> insert_row (declared_row env p t) t | Some r \<Rightarrow> update_row (sync_row env p r) t"]
      Cons.prems by auto
  then show ?case
  proof cases
    case 2
    then show ?thesis
    proof (cases "row_of_code ex (pm_code p)")
      case None
      have "set (insert_row (declared_row env p t) t) = insert (declared_row env p t) (set t)" by (rule set_insert_row)
      then have "x = declared_row env p t \<or> x \<in> set t" using 2 unfolding None by simp
      moreover have "pr_code (declared_row env p t) = pm_code p" by (simp add: declared_row_def)
      ultimately show ?thesis by auto
    next
      case (Some r)
      have "set (update_row (sync_row env p r) t) \<subseteq> insert (sync_row env p r) (set t)" by (auto simp: update_row_def)
      then have "x = sync_row env p r \<or> x \<in> set t" using 2 unfolding Some by auto
      moreover have "pr_code (sync_row env p r) = pm_code p" using row_of_code_SomeD[OF Some] by simp
      ultimately show ?thesis by auto
    qed
  qed simp
qed simp

lemma sync_permissions_codes:
  assumes "sync_permissions env declared s = Inr s'"
  shows "pr_code ` set (permissions_t s') \<subseteq> pm_code ` set declared"
proof
  fix c assume "c \<in> pr_code ` set (permissions_t s')"
  moreover have "permissions_t s' = filter (\<lambda>r. row_id r \<notin> set (stale_ids (permissions_t s) declared))
      (sync_declared env (permissions_t s) declared (permissions_t s))"
    using assms by (auto simp: sync_permissions_def Let_def constrained_def split: if_splits)
  ultimately obtain x where x: "c = pr_code x" "row_id x \<notin> set (stale_ids (permissions_t s) declared)"
    "x \<in> set (sync_declared env (permissions_t s) declared (permissions_t s))" by auto
  from sync_declared_rows[OF x(3)] show "c \<in> pm_code ` set declared" using x(1,2) by (auto simp: stale_ids_def)
qed

lemma grant_codes_found: "grant_codes env s i cs t = Inr t' \<Longrightarrow> set cs \<subseteq> pr_code ` set (permissions_t s)"
proof (induction cs arbitrary: t)
  case (Cons c cs)
  then obtain p where "row_of_code (permissions_t s) c = Some p" "grant_codes env s i cs (add_permission env i p t) = Inr t'"
    by (auto simp: bind_ok_Inr_iff ok_or_def split: option.splits)
  then show ?case using row_of_code_SomeD Cons.IH by force
qed simp

lemma code_of_link_code: "code_of_link s l = Some c \<Longrightarrow> c \<in> pr_code ` set (permissions_t s)"
  unfolding code_of_link_def using find_SomeD by fastforce

lemma sync_links_found:
  assumes "sync_links env i desired s = Inr s'"
  shows "set desired \<subseteq> pr_code ` set (permissions_t s)"
proof
  fix c assume c: "c \<in> set desired"
  define cur where "cur = List.map_filter (code_of_link s) (filter (\<lambda>l. rp_role_id l = i) (role_permissions s))"
  have "\<exists>t t'. grant_codes env s i (filter (\<lambda>c. c \<notin> set cur) (sort (remdups desired))) t = Inr t'"
    using assms unfolding sync_links_def Let_def cur_def by (fastforce simp: bind_ok_Inr_iff split: if_splits)
  then have "{c \<in> set desired. c \<notin> set cur} \<subseteq> pr_code ` set (permissions_t s)" using grant_codes_found by fastforce
  moreover have "set cur \<subseteq> pr_code ` set (permissions_t s)"
    unfolding cur_def by (auto simp: set_map_filter dest!: code_of_link_code)
  ultimately show "c \<in> pr_code ` set (permissions_t s)" using c by blast
qed

lemma upsert_role_permissions: "upsert_role env d s = Inr (r, s') \<Longrightarrow> permissions_t s' = permissions_t s"
  by (auto simp: upsert_role_def Let_def bind_ok_Inr_iff split: option.splits)

text \<open>
  The permission script imports fewer modules than the role script, so the registry of the first misses
  permissions of the second. Whatever the data, a role synchronisation that follows then fails: the super
  administrator is granted every registered permission, and one of them has no row.
\<close>

lemma roles_need_every_permission:
  assumes "sync_permissions env (registry_all imported) s = Inr s'"
    and "p \<in> set (registry_all reg)" and "pm_code p \<notin> pm_code ` set (registry_all imported)"
  shows "is_ok (sync_roles env' reg s') = False"
proof (rule ccontr)
  assume "is_ok (sync_roles env' reg s') \<noteq> False"
  then obtain r t u where u: "upsert_role env' (hd (role_catalog reg)) s' = Inr (r, t)"
    "sync_links env' (row_id r) (rd_permissions (hd (role_catalog reg))) t = Inr u"
    by (auto simp: is_ok_def sync_roles_def role_catalog_def bind_ok_Inr_iff split: sum.splits)
  have "pm_code p \<in> set (rd_permissions (hd (role_catalog reg)))"
    using assms(2) by (simp add: role_catalog_def all_permissions_def)
  then have "pm_code p \<in> pr_code ` set (permissions_t s')"
    using sync_links_found[OF u(2)] upsert_role_permissions[OF u(1)] by auto
  then show False using sync_permissions_codes[OF assms(1)] assms(3) by blast
qed

lemma roles_need_every_permission_witness:
  "\<exists>s'. sync_permissions sample_audit_env (registry_all []) empty_db = Inr s' \<and>
    is_ok (sync_roles sample_audit_env [(''students.student.read'', sample_permission)] s') = False"
proof -
  have s: "sync_permissions sample_audit_env (registry_all []) empty_db = Inr empty_db" by code_simp
  have "is_ok (sync_roles sample_audit_env [(''students.student.read'', sample_permission)] empty_db) = False"
    by (rule roles_need_every_permission[OF s, of sample_permission]) (simp_all add: registry_all_def)
  then show ?thesis using s by blast
qed

end
