(* ===== verification/SchoolRoutes.thy ===== *)
theory SchoolRoutes
  imports Reports
begin

text \<open>
  The routes of a school's own data: \<open>router.py\<close> under \<open>modules/academic\<close>, \<open>teachers\<close>,
  \<open>students\<close> and \<open>parents\<close>, with the queries of the repositories that list rows and the
  views of the response schemas. A route is its guard, the lookup of the row in the active school,
  the service function and the view.
\<close>

section \<open>What the routes share\<close>

definition empty_page :: "'a cursor_page" where
  "empty_page = \<lparr>page_items = [], next_cursor = None, has_more = False\<rparr>"

text \<open>A listing: nothing without an active school, else a page of the rows its query selects.\<close>

definition school_page ::
  "string \<Rightarrow> codec \<Rightarrow> cursor_params \<Rightarrow> (ulid \<Rightarrow> 'a ts_row_scheme list) \<Rightarrow> request_context
   \<Rightarrow> 'a ts_row_scheme cursor_page result" where
  "school_page perm c p rows ctx = guarded perm ctx (\<lambda>ctx. case school_id ctx of
     None \<Rightarrow> Inr empty_page
   | Some sch \<Rightarrow> paginate_cursor c [] p (rows sch))"

text \<open>The two kinds of filters: \<open>if x is not None\<close> and \<open>if x\<close>.\<close>

definition set_is :: "'a option \<Rightarrow> 'a \<Rightarrow> bool" where
  "set_is x y \<longleftrightarrow> x = None \<or> x = Some y"

definition given_is :: "string option \<Rightarrow> string option \<Rightarrow> bool" where
  "given_is x y \<longleftrightarrow> \<not> truthy x \<or> y = x"

definition page_map :: "('a \<Rightarrow> 'b) \<Rightarrow> 'a cursor_page \<Rightarrow> 'b cursor_page" where
  "page_map f p = \<lparr>page_items = List.map f (page_items p), next_cursor = next_cursor p, has_more = has_more p\<rparr>"

definition page_read :: "('a \<Rightarrow> 'b result) \<Rightarrow> 'a cursor_page \<Rightarrow> 'b cursor_page result" where
  "page_read f p = bind_ok (all_items f (page_items p)) (\<lambda>is.
     Inr \<lparr>page_items = is, next_cursor = next_cursor p, has_more = has_more p\<rparr>)"

text \<open>The SQL function \<open>concat_ws\<close> with a blank leaves out the columns that are NULL.\<close>

fun concat_ws :: "string option list \<Rightarrow> string" where
  "concat_ws [] = []"
| "concat_ws (None # xs) = concat_ws xs"
| "concat_ws (Some x # xs) = (if list_all (\<lambda>y. y = None) xs then x else x @ '' '' @ concat_ws xs)"

definition pattern_of :: "string option \<Rightarrow> string" where
  "pattern_of search = surround (py_lower (py_strip (the search)))"

definition full_name_like :: "string option \<Rightarrow> person \<Rightarrow> bool" where
  "full_name_like search p = sql_like (pattern_of search) (py_lower (concat_ws [Some (pe_first_name p), pe_last_name p]))"

definition lower_like :: "string option \<Rightarrow> string option \<Rightarrow> bool" where
  "lower_like search x = (case x of None \<Rightarrow> False | Some t \<Rightarrow> sql_like (pattern_of search) (py_lower t))"

text \<open>The columns of a person that a view shows; a view without a person has the defaults of its schema.\<close>

record person_fields =
  pf_first_name :: string
  pf_last_name :: "string option"
  pf_primary_email :: "string option"
  pf_primary_phone :: "string option"

definition fields_of :: "person option \<Rightarrow> person_fields" where
  "fields_of p = (case p of
     None \<Rightarrow> \<lparr>pf_first_name = [], pf_last_name = None, pf_primary_email = None, pf_primary_phone = None\<rparr>
   | Some p \<Rightarrow> \<lparr>pf_first_name = pe_first_name p, pf_last_name = pe_last_name p, pf_primary_email = pe_primary_email p,
       pf_primary_phone = pe_primary_phone p\<rparr>)"

text \<open>\<open>" ".join(filter(None, [first, last])) or None\<close>.\<close>

definition display_name :: "person \<Rightarrow> string option" where
  "display_name p = (let names = filter (\<lambda>n. n \<noteq> []) [pe_first_name p, cell (pe_last_name p)]; t = concat_ws (List.map Some names) in
     if t = [] then None else Some t)"

section \<open>Academic years, terms, classes, subjects and cohorts\<close>

definition listed_years :: "db \<Rightarrow> ulid \<Rightarrow> academic_year list" where
  "listed_years s sch = filter (\<lambda>x. ay_school_id x = sch \<and> deleted_at x = None) (academic_years s)"

definition list_academic_years_route where
  "list_academic_years_route c ctx p s = school_page ''academic.academic_year.list'' c p (listed_years s) ctx"

definition get_academic_year_route where
  "get_academic_year_route ctx i s = guarded ''academic.academic_year.read'' ctx (\<lambda>ctx. get_year_owned ctx i s)"

definition create_academic_year_route where
  "create_academic_year_route env ctx data s =
     guarded ''academic.academic_year.create'' ctx (\<lambda>ctx. create_year env ctx data s)"

definition update_academic_year_route where
  "update_academic_year_route env ctx i data s = guarded ''academic.academic_year.update'' ctx (\<lambda>ctx.
     bind_ok (get_year_owned ctx i s) (\<lambda>x. update_year env ctx x data s))"

definition delete_academic_year_route where
  "delete_academic_year_route env ctx i v s = guarded ''academic.academic_year.delete'' ctx (\<lambda>ctx.
     bind_ok (get_year_owned ctx i s) (\<lambda>x. delete_year env ctx x v s))"

definition listed_terms :: "db \<Rightarrow> string option \<Rightarrow> ulid \<Rightarrow> academic_term list" where
  "listed_terms s yr sch = filter (\<lambda>x. tm_school_id x = sch \<and> deleted_at x = None \<and>
     given_is yr (Some (tm_academic_year_id x))) (academic_terms s)"

definition list_academic_terms_route where
  "list_academic_terms_route c ctx yr p s = school_page ''academic.academic_term.list'' c p (listed_terms s yr) ctx"

definition get_academic_term_route where
  "get_academic_term_route ctx i s = guarded ''academic.academic_term.read'' ctx (\<lambda>ctx. get_term_owned ctx i s)"

definition create_academic_term_route where
  "create_academic_term_route env ctx data s =
     guarded ''academic.academic_term.create'' ctx (\<lambda>ctx. create_term env ctx data s)"

definition update_academic_term_route where
  "update_academic_term_route env ctx i data s = guarded ''academic.academic_term.update'' ctx (\<lambda>ctx.
     bind_ok (get_term_owned ctx i s) (\<lambda>x. update_term env ctx x data s))"

definition delete_academic_term_route where
  "delete_academic_term_route env ctx i v s = guarded ''academic.academic_term.delete'' ctx (\<lambda>ctx.
     bind_ok (get_term_owned ctx i s) (\<lambda>x. delete_term env ctx x v s))"

definition listed_classes :: "db \<Rightarrow> ulid \<Rightarrow> academic_class list" where
  "listed_classes s sch = filter (\<lambda>x. cl_school_id x = sch \<and> deleted_at x = None) (academic_classes s)"

definition list_academic_classes_route where
  "list_academic_classes_route c ctx p s = school_page ''academic.academic_class.list'' c p (listed_classes s) ctx"

definition get_academic_class_route where
  "get_academic_class_route ctx i s = guarded ''academic.academic_class.read'' ctx (\<lambda>ctx. get_class_owned ctx i s)"

definition create_academic_class_route where
  "create_academic_class_route env ctx data s =
     guarded ''academic.academic_class.create'' ctx (\<lambda>ctx. create_class env ctx data s)"

definition update_academic_class_route where
  "update_academic_class_route env ctx i data s = guarded ''academic.academic_class.update'' ctx (\<lambda>ctx.
     bind_ok (get_class_owned ctx i s) (\<lambda>x. update_class env ctx x data s))"

definition delete_academic_class_route where
  "delete_academic_class_route env ctx i v s = guarded ''academic.academic_class.delete'' ctx (\<lambda>ctx.
     bind_ok (get_class_owned ctx i s) (\<lambda>x. delete_class env ctx x v s))"

definition listed_subjects :: "db \<Rightarrow> ulid \<Rightarrow> subject list" where
  "listed_subjects s sch = filter (\<lambda>x. su_school_id x = sch \<and> deleted_at x = None) (subjects s)"

definition list_subjects_route where
  "list_subjects_route c ctx p s = school_page ''academic.subject.list'' c p (listed_subjects s) ctx"

definition get_subject_route where
  "get_subject_route ctx i s = guarded ''academic.subject.read'' ctx (\<lambda>ctx. get_subject_owned ctx i s)"

definition create_subject_route where
  "create_subject_route env ctx data s = guarded ''academic.subject.create'' ctx (\<lambda>ctx. create_subject env ctx data s)"

definition update_subject_route where
  "update_subject_route env ctx i data s = guarded ''academic.subject.update'' ctx (\<lambda>ctx.
     bind_ok (get_subject_owned ctx i s) (\<lambda>x. update_subject env ctx x data s))"

definition delete_subject_route where
  "delete_subject_route env ctx i v s = guarded ''academic.subject.delete'' ctx (\<lambda>ctx.
     bind_ok (get_subject_owned ctx i s) (\<lambda>x. delete_subject env ctx x v s))"

definition listed_cohorts :: "db \<Rightarrow> string option \<Rightarrow> string option \<Rightarrow> ulid \<Rightarrow> cohort list" where
  "listed_cohorts s yr cl sch = filter (\<lambda>x. co_school_id x = sch \<and> deleted_at x = None \<and>
     given_is yr (Some (co_academic_year_id x)) \<and> given_is cl (Some (co_academic_class_id x))) (cohorts s)"

definition list_cohorts_route where
  "list_cohorts_route c ctx yr cl p s = school_page ''academic.cohort.list'' c p (listed_cohorts s yr cl) ctx"

definition get_cohort_route where
  "get_cohort_route ctx i s = guarded ''academic.cohort.read'' ctx (\<lambda>ctx. get_cohort_owned ctx i s)"

definition create_cohort_route where
  "create_cohort_route env ctx data s = guarded ''academic.cohort.create'' ctx (\<lambda>ctx. create_cohort env ctx data s)"

definition update_cohort_route where
  "update_cohort_route env ctx i data s = guarded ''academic.cohort.update'' ctx (\<lambda>ctx.
     bind_ok (get_cohort_owned ctx i s) (\<lambda>x. update_cohort env ctx x data s))"

definition delete_cohort_route where
  "delete_cohort_route env ctx i v s = guarded ''academic.cohort.delete'' ctx (\<lambda>ctx.
     bind_ok (get_cohort_owned ctx i s) (\<lambda>x. delete_cohort env ctx x v s))"

definition listed_class_subjects :: "db \<Rightarrow> string option \<Rightarrow> string option \<Rightarrow> ulid \<Rightarrow> class_subject list" where
  "listed_class_subjects s cl yr sch = filter (\<lambda>x. cs_school_id x = sch \<and>
     given_is cl (Some (cs_academic_class_id x)) \<and> given_is yr (Some (cs_effective_from_year_id x))) (class_subjects s)"

definition list_class_subjects_route where
  "list_class_subjects_route c ctx cl yr p s =
     school_page ''academic.class_subject.list'' c p (listed_class_subjects s cl yr) ctx"

definition get_class_subject_route where
  "get_class_subject_route ctx i s = guarded ''academic.class_subject.read'' ctx (\<lambda>ctx. get_link_owned ctx i s)"

definition create_class_subject_route where
  "create_class_subject_route env ctx data s =
     guarded ''academic.class_subject.create'' ctx (\<lambda>ctx. create_link env ctx data s)"

definition delete_class_subject_route where
  "delete_class_subject_route env ctx i s = guarded ''academic.class_subject.delete'' ctx (\<lambda>ctx.
     bind_ok (get_link_owned ctx i s) (\<lambda>x. delete_link env ctx x s))"

section \<open>Teachers and their assignments\<close>

type_synonym teacher_view = "teacher \<times> person_fields"

text \<open>\<open>teacher.person.first_name\<close>: a missing person raises.\<close>

definition teacher_read :: "db \<Rightarrow> teacher \<Rightarrow> teacher_view result" where
  "teacher_read s x = bind_ok (ok_or (PyError ''AttributeError'') (get_row (te_person_id x) (persons s))) (\<lambda>p.
     Inr (x, fields_of (Some p)))"

definition teacher_result :: "(teacher \<times> db) result \<Rightarrow> (teacher_view \<times> db) result" where
  "teacher_result r = bind_ok r (\<lambda>(x, s). bind_ok (teacher_read s x) (\<lambda>v. Inr (v, s)))"

definition listed_teachers :: "db \<Rightarrow> string option \<Rightarrow> string option \<Rightarrow> ulid \<Rightarrow> teacher list" where
  "listed_teachers s search st sch = filter (\<lambda>x. te_school_id x = sch \<and> deleted_at x = None \<and>
     (case get_row (te_person_id x) (persons s) of None \<Rightarrow> False
      | Some p \<Rightarrow> \<not> truthy search \<or> full_name_like search p \<or> lower_like search (pe_primary_email p)) \<and>
     given_is st (Some (teacher_status_value (te_status x)))) (teachers s)"

text \<open>The page is read again row by row, with the person loaded; a row that is gone is left out.\<close>

definition list_teachers_route where
  "list_teachers_route c ctx search st p s =
     bind_ok (school_page ''teachers.teacher.list'' c p (listed_teachers s search st) ctx) (\<lambda>page.
       page_read (teacher_read s) (page\<lparr>page_items := List.map_filter
         (\<lambda>x. Option.bind (school_id ctx) (\<lambda>sch. teacher_by_id s sch (row_id x))) (page_items page)\<rparr>))"

definition get_teacher_counts_route where
  "get_teacher_counts_route ctx s = guarded ''teachers.teacher.list'' ctx (\<lambda>ctx. Inr (get_teacher_counts ctx s))"

definition get_teacher_route where
  "get_teacher_route ctx i s = guarded ''teachers.teacher.read'' ctx (\<lambda>ctx.
     bind_ok (get_teacher_owned ctx i s) (teacher_read s))"

definition create_teacher_route where
  "create_teacher_route env ctx data s = guarded ''teachers.teacher.create'' ctx (\<lambda>ctx.
     teacher_result (create_teacher env ctx data s))"

definition update_teacher_route where
  "update_teacher_route env ctx i data s = guarded ''teachers.teacher.update'' ctx (\<lambda>ctx.
     teacher_result (bind_ok (get_teacher_owned ctx i s) (\<lambda>x. update_teacher env ctx x data s)))"

definition delete_teacher_route where
  "delete_teacher_route env ctx i v s = guarded ''teachers.teacher.delete'' ctx (\<lambda>ctx.
     bind_ok (get_teacher_owned ctx i s) (\<lambda>x. delete_teacher env ctx x v s))"

text \<open>The rows an assignment names are looked up by their keys alone.\<close>

record assignment_view =
  av_assignment :: teacher_assignment
  av_teacher_first_name :: string
  av_teacher_last_name :: "string option"
  av_cohort_name :: string
  av_subject_name :: "string option"
  av_academic_year_code :: string

definition assignment_read :: "db \<Rightarrow> teacher_assignment \<Rightarrow> assignment_view result" where
  "assignment_read s x =
     (let cohort = get_row (ta_cohort_id x) (cohorts s); yr = get_row (ta_academic_year_id x) (academic_years s);
          subj = (if truthy (ta_subject_id x) then get_row (the (ta_subject_id x)) (subjects s) else None);
          view = (\<lambda>f l. \<lparr>av_assignment = x, av_teacher_first_name = f, av_teacher_last_name = l,
            av_cohort_name = (case cohort of None \<Rightarrow> [] | Some y \<Rightarrow> co_name y), av_subject_name = map_option su_name subj,
            av_academic_year_code = (case yr of None \<Rightarrow> [] | Some y \<Rightarrow> ay_code y)\<rparr>)
      in case get_row (ta_teacher_id x) (teachers s) of
           None \<Rightarrow> Inr (view [] None)
         | Some t \<Rightarrow> bind_ok (ok_or (PyError ''AttributeError'') (get_row (te_person_id t) (persons s))) (\<lambda>p.
             Inr (view (pe_first_name p) (pe_last_name p))))"

definition assignment_result :: "(teacher_assignment \<times> db) result \<Rightarrow> (assignment_view \<times> db) result" where
  "assignment_result r = bind_ok r (\<lambda>(x, s). bind_ok (assignment_read s x) (\<lambda>v. Inr (v, s)))"

definition listed_assignments ::
  "db \<Rightarrow> string option \<Rightarrow> string option \<Rightarrow> string option \<Rightarrow> string option \<Rightarrow> ulid \<Rightarrow> teacher_assignment list" where
  "listed_assignments s te co yr st sch = filter (\<lambda>x. ta_school_id x = sch \<and> given_is te (Some (ta_teacher_id x)) \<and>
     given_is co (Some (ta_cohort_id x)) \<and> given_is yr (Some (ta_academic_year_id x)) \<and>
     given_is st (Some (assignment_status_value (ta_status x)))) (teacher_assignments s)"

definition list_assignments_route where
  "list_assignments_route c ctx te co yr st p s =
     bind_ok (school_page ''teachers.assignment.list'' c p (listed_assignments s te co yr st) ctx) (page_read (assignment_read s))"

definition get_assignment_route where
  "get_assignment_route ctx i s = guarded ''teachers.assignment.read'' ctx (\<lambda>ctx.
     bind_ok (get_assignment_owned ctx i s) (assignment_read s))"

definition create_assignment_route where
  "create_assignment_route env ctx data s = guarded ''teachers.assignment.create'' ctx (\<lambda>ctx.
     assignment_result (create_assignment env ctx data s))"

definition update_assignment_route where
  "update_assignment_route env ctx i data s = guarded ''teachers.assignment.update'' ctx (\<lambda>ctx.
     assignment_result (bind_ok (get_assignment_owned ctx i s) (\<lambda>x. update_assignment env ctx x data s)))"

definition end_assignment_route where
  "end_assignment_route env ctx i v s = guarded ''teachers.assignment.delete'' ctx (\<lambda>ctx.
     assignment_result (bind_ok (get_assignment_owned ctx i s) (\<lambda>x. end_assignment env ctx x v s)))"

section \<open>Students\<close>

type_synonym student_view = "student \<times> person_fields"

definition student_read :: "db \<Rightarrow> student \<Rightarrow> student_view" where
  "student_read s x = (x, fields_of (get_row (st_person_id x) (persons s)))"

definition listed_students :: "db \<Rightarrow> string option \<Rightarrow> student_status option \<Rightarrow> ulid \<Rightarrow> student list" where
  "listed_students s search st sch = filter (\<lambda>x. st_school_id x = sch \<and> deleted_at x = None \<and> set_is st (st_status x) \<and>
     (case get_row (st_person_id x) (persons s) of None \<Rightarrow> False
      | Some p \<Rightarrow> \<not> truthy search \<or> full_name_like search p \<or> lower_like search (Some (st_admission_number x)))) (students s)"

definition get_student_counts_route where
  "get_student_counts_route ctx s = guarded ''students.student.list'' ctx (\<lambda>ctx. Inr (case school_id ctx of
     None \<Rightarrow> (0, 0)
   | Some sch \<Rightarrow> (count_students s sch (Some ST_ACTIVE), count_students s sch None)))"

definition list_students_route where
  "list_students_route c ctx search st p s =
     bind_ok (school_page ''students.student.list'' c p (listed_students s search st) ctx) (\<lambda>page. Inr (page_map (student_read s) page))"

definition get_student_route where
  "get_student_route ctx i s = guarded ''students.student.read'' ctx (\<lambda>ctx.
     bind_ok (get_student_owned ctx i s) (\<lambda>x. Inr (student_read s x)))"

definition create_student_route where
  "create_student_route env ctx data s = guarded ''students.student.create'' ctx (\<lambda>ctx.
     bind_ok (create_student env ctx data s) (\<lambda>(x, s). Inr (student_read s x, s)))"

definition update_student_route where
  "update_student_route env ctx i data s = guarded ''students.student.update'' ctx (\<lambda>ctx.
     bind_ok (get_student_owned ctx i s) (\<lambda>x.
     bind_ok (update_student env ctx x data s) (\<lambda>(x, s). Inr (student_read s x, s))))"

definition delete_student_route where
  "delete_student_route env ctx i v s = guarded ''students.student.delete'' ctx (\<lambda>ctx.
     bind_ok (get_student_owned ctx i s) (\<lambda>x. delete_student env ctx x v s))"

section \<open>Enrollments and guardians\<close>

record enrollment_view =
  ev_enrollment :: enrollment
  ev_student_name :: "string option"
  ev_cohort_name :: "string option"
  ev_academic_year_name :: "string option"

definition enrollment_read :: "db \<Rightarrow> enrollment \<Rightarrow> enrollment_view" where
  "enrollment_read s x = \<lparr>ev_enrollment = x,
     ev_student_name = Option.bind (get_row (en_student_id x) (students s)) (\<lambda>st.
       Option.bind (get_row (st_person_id st) (persons s)) display_name),
     ev_cohort_name = map_option co_name (get_row (en_cohort_id x) (cohorts s)),
     ev_academic_year_name = map_option ay_name (get_row (en_academic_year_id x) (academic_years s))\<rparr>"

definition enrollment_result :: "(enrollment \<times> db) result \<Rightarrow> (enrollment_view \<times> db) result" where
  "enrollment_result r = bind_ok r (\<lambda>(x, s). Inr (enrollment_read s x, s))"

definition listed_enrollments ::
  "db \<Rightarrow> ulid option \<Rightarrow> ulid option \<Rightarrow> ulid option \<Rightarrow> enrollment_status option \<Rightarrow> ulid \<Rightarrow> enrollment list" where
  "listed_enrollments s stu yr co st sch = filter (\<lambda>x. en_school_id x = sch \<and> set_is stu (en_student_id x) \<and>
     set_is yr (en_academic_year_id x) \<and> set_is co (en_cohort_id x) \<and> set_is st (en_status x)) (enrollments s)"

definition list_enrollments_route where
  "list_enrollments_route c ctx stu yr co st p s =
     bind_ok (school_page ''students.enrollment.list'' c p (listed_enrollments s stu yr co st) ctx) (\<lambda>page.
       Inr (page_map (enrollment_read s) page))"

definition get_enrollment_route where
  "get_enrollment_route ctx i s = guarded ''students.enrollment.read'' ctx (\<lambda>ctx.
     bind_ok (get_enrollment_owned ctx i s) (\<lambda>x. Inr (enrollment_read s x)))"

definition create_enrollment_route where
  "create_enrollment_route env ctx data s = guarded ''students.enrollment.create'' ctx (\<lambda>ctx.
     enrollment_result (create_enrollment env ctx data s))"

definition update_enrollment_route where
  "update_enrollment_route env ctx i data s = guarded ''students.enrollment.update'' ctx (\<lambda>ctx.
     enrollment_result (update_enrollment env ctx i data s))"

definition delete_enrollment_route where
  "delete_enrollment_route env ctx i v s = guarded ''students.enrollment.delete'' ctx (\<lambda>ctx. delete_enrollment env ctx i v s)"

definition transfer_enrollment_route where
  "transfer_enrollment_route env ctx i data s = guarded ''students.enrollment.transfer'' ctx (\<lambda>ctx.
     enrollment_result (transfer_enrollment env ctx i data s))"

type_synonym guardian_view = "student_guardian \<times> person_fields"

definition guardian_read :: "db \<Rightarrow> student_guardian \<Rightarrow> guardian_view" where
  "guardian_read s x = (x, fields_of (get_row (sg_guardian_person_id x) (persons s)))"

definition guardians_of_student :: "db \<Rightarrow> ulid \<Rightarrow> ulid \<Rightarrow> student_guardian list" where
  "guardians_of_student s st sch =
     (let rows = filter (\<lambda>g. sg_student_id g = st \<and> sg_school_id g = sch) (student_guardians s) in
      filter sg_is_primary rows @ filter (\<lambda>g. \<not> sg_is_primary g) rows)"

definition guardian_link_missing :: error where
  "guardian_link_missing = NotFoundError ''GUARDIAN_NOT_FOUND''"

definition list_guardians_route where
  "list_guardians_route ctx st s = guarded ''students.guardian.list'' ctx (\<lambda>ctx. Inr (case school_id ctx of
     None \<Rightarrow> []
   | Some sch \<Rightarrow> List.map (guardian_read s) (guardians_of_student s st sch)))"

definition get_guardian_route where
  "get_guardian_route ctx i s = guarded ''students.guardian.read'' ctx (\<lambda>ctx. case school_id ctx of
     None \<Rightarrow> Inl guardian_link_missing
   | Some sch \<Rightarrow> bind_ok (ok_or guardian_link_missing (guardian_by_id s i sch)) (\<lambda>g. Inr (guardian_read s g)))"

definition add_guardian_route where
  "add_guardian_route env ctx data s = guarded ''students.guardian.create'' ctx (\<lambda>ctx.
     bind_ok (add_guardian env ctx data s) (\<lambda>(g, s). Inr (guardian_read s g, s)))"

definition update_guardian_route where
  "update_guardian_route env ctx i data s = guarded ''students.guardian.update'' ctx (\<lambda>ctx.
     bind_ok (update_guardian env ctx i data s) (\<lambda>(g, s). Inr (guardian_read s g, s)))"

definition remove_guardian_route where
  "remove_guardian_route env ctx i s = guarded ''students.guardian.delete'' ctx (\<lambda>ctx. remove_guardian env ctx i s)"

section \<open>Parents\<close>

type_synonym parent_view = "parent \<times> person_fields"

definition parent_read :: "db \<Rightarrow> parent \<Rightarrow> parent_view" where
  "parent_read s x = (x, fields_of (get_row (pa_person_id x) (persons s)))"

record parent_link_view =
  lv_link :: student_parent
  lv_occupation :: "string option"
  lv_workplace :: "string option"
  lv_fields :: person_fields

definition parent_link_read :: "db \<Rightarrow> student_parent \<Rightarrow> parent_link_view" where
  "parent_link_read s x = (case get_row (sp_parent_id x) (parents s) of
     None \<Rightarrow> \<lparr>lv_link = x, lv_occupation = None, lv_workplace = None, lv_fields = fields_of None\<rparr>
   | Some y \<Rightarrow> \<lparr>lv_link = x, lv_occupation = pa_occupation y, lv_workplace = pa_workplace y,
       lv_fields = fields_of (get_row (pa_person_id y) (persons s))\<rparr>)"

definition listed_parents :: "db \<Rightarrow> string option \<Rightarrow> parent_status option \<Rightarrow> ulid \<Rightarrow> parent list" where
  "listed_parents s search st sch = filter (\<lambda>x. pa_school_id x = sch \<and> deleted_at x = None \<and>
     set_is (map_option parent_status_value st) (pa_status x) \<and>
     (case get_row (pa_person_id x) (persons s) of None \<Rightarrow> False | Some p \<Rightarrow> \<not> truthy search \<or> full_name_like search p)) (parents s)"

definition list_parents_route where
  "list_parents_route c ctx search st p s =
     bind_ok (school_page ''parents.parent.list'' c p (listed_parents s search st) ctx) (\<lambda>page. Inr (page_map (parent_read s) page))"

definition get_parent_route where
  "get_parent_route ctx i s = guarded ''parents.parent.read'' ctx (\<lambda>ctx.
     bind_ok (get_parent ctx i s) (\<lambda>x. Inr (parent_read s x)))"

definition create_parent_route where
  "create_parent_route env ctx data s = guarded ''parents.parent.create'' ctx (\<lambda>ctx.
     bind_ok (create_parent env ctx data s) (\<lambda>(x, s). Inr (parent_read s x, s)))"

definition update_parent_route where
  "update_parent_route env ctx i data s = guarded ''parents.parent.update'' ctx (\<lambda>ctx.
     bind_ok (get_parent ctx i s) (\<lambda>x. bind_ok (update_parent env ctx x data s) (\<lambda>(x, s). Inr (parent_read s x, s))))"

definition delete_parent_route where
  "delete_parent_route env ctx i v s = guarded ''parents.parent.delete'' ctx (\<lambda>ctx.
     bind_ok (get_parent ctx i s) (\<lambda>x. delete_parent env ctx x v s))"

definition children_route where
  "children_route ctx i s = guarded ''parents.parent.read'' ctx (\<lambda>ctx. list_children_route ctx i s)"

definition list_parents_for_student_route where
  "list_parents_for_student_route ctx st s = guarded ''parents.parent.list'' ctx (\<lambda>ctx.
     Inr (List.map (parent_link_read s) (list_parents_for_student ctx st s)))"

definition link_parent_to_student_route where
  "link_parent_to_student_route env ctx st data s = guarded ''parents.student_parent.create'' ctx (\<lambda>ctx.
     bind_ok (link_to_student env ctx st data s) (\<lambda>(x, s). Inr (parent_link_read s x, s)))"

definition unlink_parent_from_student_route where
  "unlink_parent_from_student_route env ctx i s = guarded ''parents.student_parent.delete'' ctx (\<lambda>ctx.
     unlink_from_student env ctx i s)"

end
