(* ===== verification/DailyRoutes.thy ===== *)
theory DailyRoutes
  imports SchoolRoutes Slots Attendance Announcements Auth
begin

text \<open>
  The routes of the school day: \<open>router.py\<close> under \<open>modules/timetables\<close>, \<open>attendance\<close>,
  \<open>announcements\<close> and \<open>notifications\<close>, with the queries they list and the service of the
  notifications.
\<close>

section \<open>Timetables, periods and slots\<close>

text \<open>A listing whose statement has an order of its own before the one of the cursor.\<close>

definition ordered_page ::
  "string \<Rightarrow> codec \<Rightarrow> 'a ts_row_scheme ordering list \<Rightarrow> cursor_params \<Rightarrow> (ulid \<Rightarrow> 'a ts_row_scheme list) \<Rightarrow> request_context
   \<Rightarrow> 'a ts_row_scheme cursor_page result" where
  "ordered_page perm c own p rows ctx = guarded perm ctx (\<lambda>ctx. case school_id ctx of
     None \<Rightarrow> Inr empty_page
   | Some sch \<Rightarrow> paginate_cursor c own p (rows sch))"

definition listed_timetables :: "db \<Rightarrow> string option \<Rightarrow> string option \<Rightarrow> ulid \<Rightarrow> timetable list" where
  "listed_timetables s yr st sch = filter (\<lambda>x. tt_school_id x = sch \<and> given_is yr (Some (tt_academic_year_id x)) \<and>
     given_is st (Some (timetable_status_value (tt_status x)))) (timetables s)"

definition timetable_order :: "timetable ordering list" where
  "timetable_order = [\<lambda>a b. created_at b < created_at a, \<lambda>a b. row_id a < row_id b]"

definition list_timetables_route where
  "list_timetables_route c ctx yr st p s =
     ordered_page ''timetables.timetable.list'' c timetable_order p (listed_timetables s yr st) ctx"

definition get_timetable_route where
  "get_timetable_route ctx i s = guarded ''timetables.timetable.read'' ctx (\<lambda>ctx. get_timetable_owned ctx i s)"

definition create_timetable_route where
  "create_timetable_route env ctx data s = guarded ''timetables.timetable.create'' ctx (\<lambda>ctx. create_timetable env ctx data s)"

definition update_timetable_route where
  "update_timetable_route env ctx i data s =
     guarded ''timetables.timetable.update'' ctx (\<lambda>ctx. update_timetable env ctx i data s)"

definition publish_timetable_route where
  "publish_timetable_route names env ctx i v s =
     guarded ''timetables.timetable.update'' ctx (\<lambda>ctx. publish_timetable names env ctx i v s)"

definition archive_timetable_route where
  "archive_timetable_route env ctx i v s = guarded ''timetables.timetable.update'' ctx (\<lambda>ctx. archive_timetable env ctx i v s)"

definition periods_of_year :: "db \<Rightarrow> ulid \<Rightarrow> ulid \<Rightarrow> period_definition list" where
  "periods_of_year s yr sch = filter (\<lambda>x. pd_school_id x = sch \<and> pd_academic_year_id x = yr) (period_definitions s)"

definition period_order :: "period_definition ordering list" where
  "period_order = [\<lambda>a b. pd_sort_order a < pd_sort_order b, \<lambda>a b. row_id a < row_id b]"

definition list_period_definitions_route where
  "list_period_definitions_route c ctx yr p s = ordered_page ''timetables.period.list'' c period_order p (periods_of_year s yr) ctx"

definition get_period_definition_route where
  "get_period_definition_route ctx i s = guarded ''timetables.period.read'' ctx (\<lambda>ctx. get_period_owned ctx i s)"

definition teacher_names :: "db \<Rightarrow> ulid \<Rightarrow> string option" where
  "teacher_names s i = Option.bind (get_row i (teachers s)) (\<lambda>t. Option.bind (get_row (te_person_id t) (persons s)) display_name)"

definition slots_of_cohort :: "db \<Rightarrow> ulid \<Rightarrow> string option \<Rightarrow> string option \<Rightarrow> ulid \<Rightarrow> slot list" where
  "slots_of_cohort s co yr day sch = filter (\<lambda>x. sl_cohort_id x = co \<and> sl_school_id x = sch \<and>
     given_is yr (Some (sl_academic_year_id x)) \<and> given_is day (Some (day_value (sl_day_of_week x)))) (slots s)"

definition slots_of_teacher :: "db \<Rightarrow> ulid \<Rightarrow> string option \<Rightarrow> string option \<Rightarrow> ulid \<Rightarrow> slot list" where
  "slots_of_teacher s te yr day sch = filter (\<lambda>x. sl_teacher_id x = te \<and> sl_school_id x = sch \<and>
     given_is yr (Some (sl_academic_year_id x)) \<and> given_is day (Some (day_value (sl_day_of_week x)))) (slots s)"

text \<open>A cohort takes precedence over a teacher; without either the list is empty.\<close>

definition listed_slots ::
  "db \<Rightarrow> string option \<Rightarrow> string option \<Rightarrow> string option \<Rightarrow> string option \<Rightarrow> ulid \<Rightarrow> slot list" where
  "listed_slots s co yr day te sch =
     (if truthy co then slots_of_cohort s (the co) yr day sch
      else if truthy te then slots_of_teacher s (the te) yr day sch else [])"

definition list_timetable_slots_route where
  "list_timetable_slots_route c ctx co yr day te p s = guarded ''timetables.slot.list'' ctx (\<lambda>ctx. case school_id ctx of
     None \<Rightarrow> Inr empty_page
   | Some sch \<Rightarrow>
       if \<not> truthy co \<and> \<not> truthy te then Inr empty_page
       else bind_ok (paginate_cursor c [] p (listed_slots s co yr day te sch)) (\<lambda>page.
         Inr (page_map (slot_read (teacher_names s) s) page)))"

definition get_timetable_slot_route where
  "get_timetable_slot_route ctx i s = guarded ''timetables.slot.read'' ctx (\<lambda>ctx.
     bind_ok (get_slot_owned ctx i s) (\<lambda>x. Inr (slot_read (teacher_names s) s x)))"

section \<open>Attendance\<close>

definition get_today_attendance_summary_route where
  "get_today_attendance_summary_route ctx today s = guarded ''attendance.session.list'' ctx (\<lambda>ctx. Inr (case school_id ctx of
     None \<Rightarrow> \<lparr>sessions_total = 0, sessions_submitted = 0, records_total = 0, records_present = 0, records_absent = 0\<rparr>
   | Some sch \<Rightarrow> get_today_summary s sch today))"

definition listed_sessions ::
  "db \<Rightarrow> ulid option \<Rightarrow> ulid option \<Rightarrow> session_status option \<Rightarrow> date option \<Rightarrow> date option \<Rightarrow> ulid \<Rightarrow> attendance_session list" where
  "listed_sessions s co yr st from_date to_date sch = filter (\<lambda>x. as_school_id x = sch \<and> set_is co (as_cohort_id x) \<and>
     set_is yr (as_academic_year_id x) \<and> set_is st (as_status x) \<and>
     (case from_date of None \<Rightarrow> True | Some d \<Rightarrow> d \<le> as_session_date x) \<and>
     (case to_date of None \<Rightarrow> True | Some d \<Rightarrow> as_session_date x \<le> d)) (attendance_sessions s)"

text \<open>The view of a session; only two routes count its records.\<close>

type_synonym session_view = "attendance_session \<times> nat option"

definition session_records :: "db \<Rightarrow> ulid \<Rightarrow> attendance_record list" where
  "session_records s i = filter (\<lambda>r. ar_session_id r = i) (attendance_records s)"

definition plain_session :: "(attendance_session \<times> db) result \<Rightarrow> (session_view \<times> db) result" where
  "plain_session r = bind_ok r (\<lambda>(x, s). Inr ((x, None), s))"

definition list_attendance_sessions_route where
  "list_attendance_sessions_route c ctx co yr st from_date to_date p s =
     bind_ok (school_page ''attendance.session.list'' c p (listed_sessions s co yr st from_date to_date) ctx) (\<lambda>page.
       Inr (page_map (\<lambda>x. (x, None :: nat option)) page))"

text \<open>Without an active school the lookup compares with NULL and finds nothing.\<close>

definition session_in_context :: "request_context \<Rightarrow> ulid \<Rightarrow> db \<Rightarrow> attendance_session option" where
  "session_in_context ctx i s = Option.bind (school_id ctx) (get_session_by_id s i)"

definition get_attendance_session_route where
  "get_attendance_session_route ctx i s = guarded ''attendance.session.read'' ctx (\<lambda>ctx.
     bind_ok (ok_or (NotFoundError ''ATTENDANCE_SESSION_NOT_FOUND'') (session_in_context ctx i s)) (\<lambda>x.
       Inr ((x, Some (length (session_records s (row_id x)))) :: session_view)))"

definition create_attendance_session_route where
  "create_attendance_session_route env ctx data s = guarded ''attendance.session.create'' ctx (\<lambda>ctx.
     bind_ok (create_session env ctx data s) (\<lambda>(x, s).
     bind_ok (ok_or (PyError ''ValidationError'') (session_in_context ctx (row_id x) s)) (\<lambda>x.
       Inr ((x, Some (length (session_records s (row_id x)))) :: session_view, s))))"

definition update_attendance_session_route where
  "update_attendance_session_route env ctx i data s = guarded ''attendance.session.update'' ctx (\<lambda>ctx.
     plain_session (update_session env ctx i data s))"

definition delete_attendance_session_route where
  "delete_attendance_session_route env ctx i v s =
     guarded ''attendance.session.delete'' ctx (\<lambda>ctx. delete_session env ctx i v s)"

definition submit_attendance_session_route where
  "submit_attendance_session_route env ctx i v s = guarded ''attendance.session.submit'' ctx (\<lambda>ctx.
     plain_session (submit_session env ctx i v s))"

definition amend_attendance_session_route where
  "amend_attendance_session_route env ctx i v s = guarded ''attendance.session.amend'' ctx (\<lambda>ctx.
     plain_session (amend_session env ctx i v s))"

definition list_attendance_records_route where
  "list_attendance_records_route ctx i s = guarded ''attendance.record.list'' ctx (\<lambda>ctx. Inr (case school_id ctx of
     None \<Rightarrow> []
   | Some sch \<Rightarrow> filter (\<lambda>r. ar_school_id r = sch) (session_records s i)))"

definition bulk_update_records_route where
  "bulk_update_records_route env ctx i items s =
     guarded ''attendance.record.update'' ctx (\<lambda>ctx. bulk_update_records env ctx i items s)"

definition update_attendance_record_route where
  "update_attendance_record_route env ctx i data s =
     guarded ''attendance.record.update'' ctx (\<lambda>ctx. update_record env ctx i data s)"

section \<open>Announcements\<close>

text \<open>
  The views show \<open>announcement.targets\<close>, a relationship declared \<open>lazy="raise"\<close>: where the row was
  read without it, building the response raises, after the operation and before the commit. The two listings
  and the creation do not load it. An update shows the targets that were loaded before it.
\<close>

type_synonym announcement_view = "announcement \<times> announcement_target list"

definition targets_not_loaded :: error where
  "targets_not_loaded = PyError ''ResponseValidationError: Announcement.targets is not available due to lazy=raise''"

text \<open>Reading the relationship: the rows, if they were loaded with the announcement.\<close>

definition announcement_read :: "announcement_target list option \<Rightarrow> announcement \<Rightarrow> announcement_view result" where
  "announcement_read loaded a = (case loaded of None \<Rightarrow> Inl targets_not_loaded | Some ts \<Rightarrow> Inr (a, ts))"

definition shown_targets :: "db \<Rightarrow> announcement \<Rightarrow> announcement_target list" where
  "shown_targets s a = targets_of (row_id a) (announcement_targets s)"

definition announcement_result ::
  "announcement_target list option \<Rightarrow> (announcement \<times> db) result \<Rightarrow> (announcement_view \<times> db) result" where
  "announcement_result loaded r = bind_ok r (\<lambda>(a, s). bind_ok (announcement_read loaded a) (\<lambda>v. Inr (v, s)))"

definition listed_announcements ::
  "db \<Rightarrow> announcement_status option \<Rightarrow> announcement_priority option \<Rightarrow> ulid \<Rightarrow> announcement list" where
  "listed_announcements s st pr sch = filter (\<lambda>a. an_school_id a = sch \<and> deleted_at a = None \<and> set_is st (an_status a) \<and>
     set_is pr (an_priority a)) (announcements s)"

definition list_announcements_route where
  "list_announcements_route c ctx st pr p s =
     bind_ok (school_page ''announcements.announcement.list'' c p (listed_announcements s st pr) ctx)
       (page_read (announcement_read None))"

definition list_announcement_feed_route where
  "list_announcement_feed_route c env ctx p s =
     bind_ok (school_page ''announcements.announcement.list'' c p (feed (env_now env) s) ctx)
       (page_read (announcement_read None))"

definition get_announcement_route where
  "get_announcement_route ctx i s = guarded ''announcements.announcement.read'' ctx (\<lambda>ctx.
     bind_ok (get_announcement_owned ctx i s) (\<lambda>a. announcement_read (Some (shown_targets s a)) a))"

definition create_announcement_route :: "env \<Rightarrow> request_context \<Rightarrow> announcement_create \<Rightarrow> db \<Rightarrow> (announcement_view \<times> db) result" where
  "create_announcement_route env ctx data s = guarded ''announcements.announcement.create'' ctx (\<lambda>ctx.
     announcement_result None (create_announcement env ctx data s))"

definition update_announcement_route where
  "update_announcement_route env ctx i data s = guarded ''announcements.announcement.update'' ctx (\<lambda>ctx.
     bind_ok (get_announcement_owned ctx i s) (\<lambda>a. announcement_result (Some (shown_targets s a)) (update_announcement env ctx a data s)))"

definition publish_announcement_route where
  "publish_announcement_route env ctx i at v s = guarded ''announcements.announcement.publish'' ctx (\<lambda>ctx.
     bind_ok (get_announcement_owned ctx i s) (\<lambda>a. announcement_result (Some (shown_targets s a)) (publish_announcement env ctx a at v s)))"

definition archive_announcement_route where
  "archive_announcement_route env ctx i v s = guarded ''announcements.announcement.archive'' ctx (\<lambda>ctx.
     bind_ok (get_announcement_owned ctx i s) (\<lambda>a. announcement_result (Some (shown_targets s a)) (archive_announcement env ctx a v s)))"

definition delete_announcement_route where
  "delete_announcement_route env ctx i v s = guarded ''announcements.announcement.delete'' ctx (\<lambda>ctx.
     bind_ok (get_announcement_owned ctx i s) (\<lambda>a. delete_announcement env ctx a v s))"

section \<open>Notifications\<close>

fun notification_type_value :: "notification_type \<Rightarrow> string" where
  "notification_type_value NT_ANNOUNCEMENT = ''ANNOUNCEMENT''"
| "notification_type_value NT_ATTENDANCE = ''ATTENDANCE''"
| "notification_type_value NT_ENROLLMENT = ''ENROLLMENT''"
| "notification_type_value NT_SYSTEM = ''SYSTEM''"

record notification_list_params =
  np_is_read :: "bool option"
  np_type :: "string option"
  np_cursor :: "string option"
  np_limit :: int

definition own_notification :: "request_context \<Rightarrow> notification \<Rightarrow> bool" where
  "own_notification ctx n \<longleftrightarrow> no_user_id n = user_id ctx \<and> organization_id ctx = Some (no_organization_id n)"

definition notifications_for_user :: "db \<Rightarrow> request_context \<Rightarrow> notification_list_params \<Rightarrow> notification list" where
  "notifications_for_user s ctx np = filter (\<lambda>n. own_notification ctx n \<and> set_is (np_is_read np) (no_is_read n) \<and>
     set_is (np_type np) (notification_type_value (no_type n))) (notifications s)"

definition list_notifications :: "codec \<Rightarrow> request_context \<Rightarrow> notification_list_params \<Rightarrow> db \<Rightarrow> notification cursor_page result" where
  "list_notifications c ctx np s = bind_ok (mk_cursor_params (np_cursor np) (np_limit np)) (\<lambda>p.
     paginate_cursor c [] p (notifications_for_user s ctx np))"

definition notification_by_id :: "db \<Rightarrow> ulid \<Rightarrow> ulid \<Rightarrow> notification option" where
  "notification_by_id s i uid = find (\<lambda>n. row_id n = i \<and> no_user_id n = uid) (notifications s)"

definition mark_read :: "env \<Rightarrow> request_context \<Rightarrow> ulid \<Rightarrow> db \<Rightarrow> (notification \<times> db) result" where
  "mark_read env ctx i s =
     bind_ok (ok_or (NotFoundError ''NOTIFICATION_NOT_FOUND'') (notification_by_id s i (user_id ctx))) (\<lambda>n.
       let n' = flush_ts (env_now env) n (n\<lparr>no_is_read := True, no_read_at := Some (env_now env)\<rparr>)
       in Inr (n', s\<lparr>notifications := update_row n' (notifications s)\<rparr>))"

definition unread :: "request_context \<Rightarrow> notification \<Rightarrow> bool" where
  "unread ctx n \<longleftrightarrow> own_notification ctx n \<and> \<not> no_is_read n"

definition mark_all_read :: "env \<Rightarrow> request_context \<Rightarrow> db \<Rightarrow> nat \<times> db" where
  "mark_all_read env ctx s =
     (length (filter (unread ctx) (notifications s)),
      s\<lparr>notifications := update_where (unread ctx)
        (\<lambda>n. n\<lparr>no_is_read := True, no_read_at := Some (env_now env), updated_at := env_now env\<rparr>) (notifications s)\<rparr>)"

definition get_unread_count :: "request_context \<Rightarrow> db \<Rightarrow> nat" where
  "get_unread_count ctx s = length (filter (unread ctx) (notifications s))"

definition list_notifications_route where
  "list_notifications_route c ctx np s =
     guarded ''notifications.notification.list'' ctx (\<lambda>ctx. list_notifications c ctx np s)"

definition mark_all_read_route where
  "mark_all_read_route env ctx s = guarded ''notifications.notification.update'' ctx (\<lambda>ctx. Inr (mark_all_read env ctx s))"

definition mark_notification_read_route where
  "mark_notification_read_route env ctx i s = guarded ''notifications.notification.update'' ctx (\<lambda>ctx. mark_read env ctx i s)"

definition get_unread_count_route where
  "get_unread_count_route ctx s = guarded ''notifications.notification.list'' ctx (\<lambda>ctx. Inr (get_unread_count ctx s))"

section \<open>Properties\<close>

text \<open>
  C34. The periods of a year are listed by their position, but the cursor compares creation times. Where the
  periods were created in the order of their positions, as one enters a day, and there are more of them than a page
  holds, the second page repeats the rows of the first but for the last one, and claims to be the end: a client that
  follows the cursors never sees the other periods.
\<close>

theorem period_pages_start_over:
  assumes "good_codec c" and "1 \<le> l" and "nat l < length (periods_of_year s yr sch)" and "keys_ok (periods_of_year s yr sch)"
    and "\<And>a b. a \<in> set (periods_of_year s yr sch) \<Longrightarrow> b \<in> set (periods_of_year s yr sch) \<Longrightarrow>
      (pd_sort_order a, row_id a) < (pd_sort_order b, row_id b) \<longleftrightarrow> (created_at a, row_id a) < (created_at b, row_id b)"
    and "school_id ctx = Some sch" and "effective_scope_for ctx ''timetables.period.list'' = Some e"
  shows "\<exists>first cur second.
    list_period_definitions_route c ctx yr \<lparr>cp_limit = l, cp_cursor = None\<rparr> s = Inr first \<and>
    next_cursor first = Some cur \<and> length (page_items first) = nat l \<and>
    list_period_definitions_route c ctx yr \<lparr>cp_limit = l, cp_cursor = Some cur\<rparr> s = Inr second \<and>
    page_items second = butlast (page_items first) \<and> next_cursor second = None \<and> has_more second = False \<and>
    (\<exists>x \<in> set (periods_of_year s yr sch). x \<notin> set (page_items first) \<union> set (page_items second))"
proof -
  let ?rows = "periods_of_year s yr sch"
  have pk: "pk_unique ?rows" using assms(4) by (simp add: keys_ok_def)
  have ord: "comes_before (period_order @ newest_first) a b \<longleftrightarrow> row_key a < row_key b"
    if ab: "a \<in> set ?rows" "b \<in> set ?rows" for a b
  proof (cases "a = b")
    case True
    then show ?thesis by (simp add: period_order_def newest_first_def)
  next
    case False
    then have "row_id a < row_id b \<or> row_id b < row_id a" using pk_unique_inj[OF pk ab] by (meson neqE)
    then have "comes_before (period_order @ newest_first) a b \<longleftrightarrow> (pd_sort_order a, row_id a) < (pd_sort_order b, row_id b)"
      unfolding period_order_def less_prod_simp by (auto simp: not_less)
    with assms(5)[OF ab] show ?thesis by (simp add: row_key_def)
  qed
  have route: "list_period_definitions_route c ctx yr p s = paginate_cursor c period_order p ?rows" for p
    using assms(6,7) by (simp add: list_period_definitions_route_def ordered_page_def guarded_def authz_guard_def bind_ok_def)
  obtain cur where cur:
    "paginate_cursor c period_order \<lparr>cp_limit = l, cp_cursor = None\<rparr> ?rows = Inr \<lparr>page_items =
       take (nat l) (order_by (period_order @ newest_first) ?rows), next_cursor = Some cur, has_more = True\<rparr>"
    "paginate_cursor c period_order \<lparr>cp_limit = l, cp_cursor = Some cur\<rparr> ?rows = Inr \<lparr>page_items =
       take (nat l - 1) (order_by (period_order @ newest_first) ?rows), next_cursor = None, has_more = False\<rparr>"
    using own_order_stuck[OF assms(1,4,2,3) ord] by blast
  let ?first = "take (nat l) (order_by (period_order @ newest_first) ?rows)"
  let ?second = "take (nat l - 1) (order_by (period_order @ newest_first) ?rows)"
  have last: "?second = butlast ?first" using assms(3) by (simp add: butlast_take)
  have "card (set ?first) < card (set ?rows)"
    using assms(3) distinct_card[OF pk_unique_distinct[OF pk]] card_length[of ?first] by simp
  then have "\<not> set ?rows \<subseteq> set ?first" using card_mono[of "set ?first" "set ?rows"] by auto
  moreover have "set ?second \<subseteq> set ?first" unfolding last by (auto dest: in_set_butlastD)
  ultimately have "\<exists>x \<in> set ?rows. x \<notin> set ?first \<union> set ?second" by blast
  then show ?thesis unfolding route using assms(3) last
    by (intro exI[of _ "\<lparr>page_items = ?first, next_cursor = Some cur, has_more = True\<rparr>"]
      exI[of _ cur] exI[of _ "\<lparr>page_items = ?second, next_cursor = None, has_more = False\<rparr>"])
      (simp add: cur)
qed

definition sample_periods :: "period_definition list" where
  "sample_periods = List.map (\<lambda>n. (blank_period_definition (gen_ulid n [0, 0, 0, 0, 0, 0, 0, 0, 0, 0]))
     \<lparr>pd_school_id := ''s'', pd_academic_year_id := ''y'', pd_sort_order := n, created_at := n\<rparr>) [1, 2, 3]"

lemma sample_periods_ok: "keys_ok sample_periods"
proof -
  have "pk_unique sample_periods" by code_simp
  moreover have "list_all (\<lambda>r. bind_ulid (row_id r) = Inr (row_id r)) sample_periods" by code_simp
  ultimately show ?thesis by (auto simp: keys_ok_def list_all_iff)
qed

lemma period_pages_start_over_witness:
  "\<exists>first second cur. list_period_definitions_route toy_codec (school_context\<lparr>is_platform_admin := True\<rparr>) ''y'' \<lparr>cp_limit = 2, cp_cursor = None\<rparr>
      (empty_db\<lparr>period_definitions := sample_periods\<rparr>) = Inr first \<and>
    list_period_definitions_route toy_codec (school_context\<lparr>is_platform_admin := True\<rparr>) ''y'' \<lparr>cp_limit = 2, cp_cursor = Some cur\<rparr>
      (empty_db\<lparr>period_definitions := sample_periods\<rparr>) = Inr second \<and>
    page_items second = butlast (page_items first) \<and> length (page_items second) = 1 \<and> has_more second = False"
proof -
  let ?s = "empty_db\<lparr>period_definitions := sample_periods\<rparr>"
  have p: "periods_of_year ?s ''y'' ''s'' = sample_periods"
    by (simp add: periods_of_year_def sample_periods_def blank_period_definition_def)
  have two: "nat 2 < length (periods_of_year ?s ''y'' ''s'')" unfolding p by (simp add: sample_periods_def)
  have k: "keys_ok (periods_of_year ?s ''y'' ''s'')" unfolding p by (rule sample_periods_ok)
  have o: "(pd_sort_order a, row_id a) < (pd_sort_order b, row_id b) \<longleftrightarrow> (created_at a, row_id a) < (created_at b, row_id b)"
    if "a \<in> set (periods_of_year ?s ''y'' ''s'')" "b \<in> set (periods_of_year ?s ''y'' ''s'')" for a b
    using that unfolding p by (auto simp: sample_periods_def less_prod_simp)
  let ?ctx = "school_context\<lparr>is_platform_admin := True\<rparr>"
  have e: "effective_scope_for ?ctx ''timetables.period.list'' = Some PLATFORM" by (simp add: effective_scope_for_def)
  have c: "1 \<le> (2 :: int)" "school_id ?ctx = Some ''s''" by simp_all
  obtain first cur second where "list_period_definitions_route toy_codec ?ctx ''y'' \<lparr>cp_limit = 2, cp_cursor = None\<rparr> ?s = Inr first"
    "length (page_items first) = nat 2" "list_period_definitions_route toy_codec ?ctx ''y'' \<lparr>cp_limit = 2, cp_cursor = Some cur\<rparr> ?s = Inr second"
    "page_items second = butlast (page_items first)" "has_more second = False"
    using period_pages_start_over[OF toy_codec_good c(1) two k o c(2) e] by blast
  moreover from this have "length (page_items second) = 1" by simp
  ultimately show ?thesis by blast
qed

text \<open>
  Marking all notifications as read answers how many were unread, leaves none of them unread, and touches neither the
  notifications of other users or organizations nor those already read.
\<close>

theorem mark_all_read_exact:
  "fst (mark_all_read env ctx s) = get_unread_count ctx s \<and>
   get_unread_count ctx (snd (mark_all_read env ctx s)) = 0 \<and>
   filter (\<lambda>n. \<not> own_notification ctx n) (notifications (snd (mark_all_read env ctx s))) =
     filter (\<lambda>n. \<not> own_notification ctx n) (notifications s) \<and>
   (\<forall>n \<in> set (notifications s). no_is_read n \<longrightarrow> n \<in> set (notifications (snd (mark_all_read env ctx s))))"
proof -
  let ?f = "\<lambda>n. n\<lparr>no_is_read := True, no_read_at := Some (env_now env), updated_at := env_now env\<rparr>"
  have "filter (unread ctx) (update_where (unread ctx) ?f ns) = []" for ns
    by (auto simp: update_where_def filter_empty_conv unread_def own_notification_def)
  moreover have "filter (\<lambda>n. \<not> own_notification ctx n) (update_where (unread ctx) ?f ns) =
      filter (\<lambda>n. \<not> own_notification ctx n) ns" for ns
  proof (induction ns)
    case (Cons n ns)
    have "own_notification ctx (?f n) = own_notification ctx n" by (simp add: own_notification_def)
    moreover have "unread ctx n \<Longrightarrow> own_notification ctx n" by (simp add: unread_def)
    ultimately show ?case using Cons.IH by (cases "unread ctx n") (simp_all add: update_where_def)
  qed (simp add: update_where_def)
  moreover have "n \<in> set (update_where (unread ctx) ?f ns)" if "n \<in> set ns" "no_is_read n" for n ns
  proof -
    have "\<not> unread ctx n" using that(2) unfolding unread_def by blast
    then have "(if unread ctx n then ?f n else n) = n" by (rule if_not_P)
    then show ?thesis unfolding set_update_where by (rule image_eqI[OF sym that(1)])
  qed
  ultimately show ?thesis by (simp add: mark_all_read_def get_unread_count_def)
qed

text \<open>
  No announcement is ever posted: the response of the creation reads the targets, which the request has not loaded, so the
  request ends in an error and everything it wrote is rolled back.
\<close>

theorem announcements_are_never_posted:
  "\<exists>e. run_request (create_announcement_route env ctx data) s = (Inl e, s)"
proof -
  have "\<exists>e. create_announcement_route env ctx data s = Inl e"
    by (auto simp: create_announcement_route_def guarded_def bind_ok_def announcement_result_def announcement_read_def
        split: sum.splits)
  then show ?thesis by (auto simp: run_request_def)
qed

end
