(* ===== verification/TenantRoutes.thy ===== *)
theory TenantRoutes
  imports SchoolRoutes AccessControl Tenants Users People Outbox
begin

text \<open>
  The routes of \<open>modules/iam\<close>, \<open>modules/people\<close> and \<open>modules/platform_\<close>: organizations, schools,
  users, memberships, roles, persons, addresses, contacts, the audit log, the feature flags, the outbox
  and the statistics, with the queries they list. Where a query reaches across organizations,
  the policies of its tables count: \<open>st\<close> are the settings bound to the transaction.
\<close>

section \<open>What the policies leave\<close>

definition school_row :: "school \<Rightarrow> row" where
  "school_row x = [''id'' \<mapsto> row_id x, ''organization_id'' \<mapsto> sc_organization_id x]"

definition role_row :: "role \<Rightarrow> row" where
  "role_row x = (case ro_organization_id x of None \<Rightarrow> [''id'' \<mapsto> row_id x]
     | Some org \<Rightarrow> [''id'' \<mapsto> row_id x, ''organization_id'' \<mapsto> org])"

definition visible_schools :: "settings \<Rightarrow> db \<Rightarrow> school list" where
  "visible_schools st s = filter (\<lambda>x. allows st (org_predicate False) (school_row x)) (schools s)"

definition visible_roles :: "settings \<Rightarrow> db \<Rightarrow> role list" where
  "visible_roles st s = filter (\<lambda>x. allows st (org_predicate True) (role_row x)) (roles s)"

text \<open>A listing inside the organization of the context.\<close>

definition organization_page ::
  "string \<Rightarrow> codec \<Rightarrow> cursor_params \<Rightarrow> (ulid \<Rightarrow> 'a ts_row_scheme list) \<Rightarrow> request_context
   \<Rightarrow> 'a ts_row_scheme cursor_page result" where
  "organization_page perm c p rows ctx = guarded perm ctx (\<lambda>ctx. case organization_id ctx of
     None \<Rightarrow> Inr empty_page
   | Some org \<Rightarrow> paginate_cursor c [] p (rows org))"

text \<open>The same, where a platform administrator gets the rows of a wider query.\<close>

definition admin_page ::
  "string \<Rightarrow> codec \<Rightarrow> cursor_params \<Rightarrow> 'a ts_row_scheme list \<Rightarrow> (ulid \<Rightarrow> 'a ts_row_scheme list) \<Rightarrow> request_context
   \<Rightarrow> 'a ts_row_scheme cursor_page result" where
  "admin_page perm c p all rows ctx = guarded perm ctx (\<lambda>ctx.
     if is_platform_admin ctx then paginate_cursor c [] p all
     else case organization_id ctx of
       None \<Rightarrow> Inr empty_page
     | Some org \<Rightarrow> paginate_cursor c [] p (rows org))"

section \<open>Organizations and schools\<close>

definition listed_organizations :: "settings \<Rightarrow> db \<Rightarrow> organization list" where
  "listed_organizations st s = filter (\<lambda>x. deleted_at x = None) (visible_organizations st s)"

definition list_organizations_route where
  "list_organizations_route c st ctx p s = guarded ''iam.organization.list'' ctx (\<lambda>_.
     paginate_cursor c [] p (listed_organizations st s))"

definition get_organization_route where
  "get_organization_route st ctx i s = guarded ''iam.organization.read'' ctx (\<lambda>_. get_organization_owned st i s)"

definition create_organization_route where
  "create_organization_route env st ctx data s = guarded ''iam.organization.create'' ctx (\<lambda>ctx.
     create_organization env st ctx data s)"

definition update_organization_route where
  "update_organization_route env st ctx i data s = guarded ''iam.organization.update'' ctx (\<lambda>ctx.
     bind_ok (get_organization_owned st i s) (\<lambda>x. update_organization env st ctx x data s))"

definition delete_organization_route where
  "delete_organization_route env st ctx i v s = guarded ''iam.organization.delete'' ctx (\<lambda>ctx.
     bind_ok (get_organization_owned st i s) (\<lambda>x. delete_organization env st ctx x v s))"

definition schools_of_organization :: "db \<Rightarrow> string option \<Rightarrow> ulid \<Rightarrow> school list" where
  "schools_of_organization s sts org = filter (\<lambda>x. sc_organization_id x = org \<and> deleted_at x = None \<and>
     given_is sts (Some (school_status_value (sc_status x)))) (schools s)"

definition all_schools :: "settings \<Rightarrow> db \<Rightarrow> string option \<Rightarrow> string option \<Rightarrow> school list" where
  "all_schools st s org sts = filter (\<lambda>x. deleted_at x = None \<and> given_is org (Some (sc_organization_id x)) \<and>
     given_is sts (Some (school_status_value (sc_status x)))) (visible_schools st s)"

definition list_schools_route where
  "list_schools_route c st ctx org sts p s =
     admin_page ''iam.school.list'' c p (all_schools st s org sts) (schools_of_organization s sts) ctx"

definition get_school_route where
  "get_school_route ctx i s = guarded ''iam.school.read'' ctx (\<lambda>ctx. get_school_owned ctx i s)"

definition create_school_route where
  "create_school_route env ctx data s = guarded ''iam.school.create'' ctx (\<lambda>ctx. create_school env ctx data s)"

definition update_school_route where
  "update_school_route env ctx i data s = guarded ''iam.school.update'' ctx (\<lambda>ctx.
     bind_ok (get_school_owned ctx i s) (\<lambda>x. update_school env ctx x data s))"

definition delete_school_route where
  "delete_school_route env ctx i v s = guarded ''iam.school.delete'' ctx (\<lambda>ctx.
     bind_ok (get_school_owned ctx i s) (\<lambda>x. delete_school env ctx x v s))"

section \<open>Users, memberships and roles\<close>

definition user_selected :: "string option \<Rightarrow> string option \<Rightarrow> bool option \<Rightarrow> user \<Rightarrow> bool" where
  "user_selected search sts adm u \<longleftrightarrow> deleted_at u = None \<and>
     (\<not> truthy search \<or> lower_like search (us_email u) \<or> lower_like search (us_phone u)) \<and>
     given_is sts (Some (user_status_value (us_status u))) \<and> set_is adm (us_is_platform_admin u)"

definition users_in_organization :: "db \<Rightarrow> string option \<Rightarrow> string option \<Rightarrow> bool option \<Rightarrow> ulid \<Rightarrow> user list" where
  "users_in_organization s search sts adm org = filter (\<lambda>u. user_selected search sts adm u \<and>
     list_ex (\<lambda>m. mb_user_id m = row_id u \<and> mb_organization_id m = org) (memberships s)) (users s)"

definition list_users_route where
  "list_users_route c ctx search sts adm p s = admin_page ''iam.user.list'' c p
     (filter (user_selected search sts adm) (users s)) (users_in_organization s search sts adm) ctx"

definition get_user_route where
  "get_user_route ctx i s = guarded ''iam.user.read'' ctx (\<lambda>ctx. get_user_owned ctx i s)"

definition create_user_route where
  "create_user_route ax env ctx data s = guarded ''iam.user.create'' ctx (\<lambda>ctx. create_user ax env ctx data s)"

definition update_user_route where
  "update_user_route env ctx i data s = guarded ''iam.user.update'' ctx (\<lambda>ctx.
     bind_ok (get_user_owned ctx i s) (\<lambda>u. update_user env ctx u data s))"

definition toggle_platform_admin_route where
  "toggle_platform_admin_route env ctx i data s = guarded ''iam.user.toggle_platform_admin'' ctx (\<lambda>ctx.
     bind_ok (get_user_owned ctx i s) (\<lambda>u. toggle_platform_admin env ctx u data s))"

definition delete_user_route where
  "delete_user_route env ctx i v s = guarded ''iam.user.delete'' ctx (\<lambda>ctx.
     bind_ok (get_user_owned ctx i s) (\<lambda>u. delete_user env ctx u v s))"

definition listed_memberships :: "db \<Rightarrow> string option \<Rightarrow> string option \<Rightarrow> ulid \<Rightarrow> membership list" where
  "listed_memberships s sch u org = filter (\<lambda>m. mb_organization_id m = org \<and> given_is sch (mb_school_id m) \<and>
     given_is u (Some (mb_user_id m))) (memberships s)"

definition list_memberships_route where
  "list_memberships_route c ctx sch u p s = organization_page ''iam.membership.list'' c p (listed_memberships s sch u) ctx"

definition get_membership_route where
  "get_membership_route ctx i s = guarded ''iam.membership.read'' ctx (\<lambda>ctx. get_membership_owned ctx i s)"

definition create_membership_route where
  "create_membership_route env ctx data s = guarded ''iam.membership.create'' ctx (\<lambda>ctx. create_membership env ctx data s)"

definition update_membership_route where
  "update_membership_route env ctx i data s = guarded ''iam.membership.update'' ctx (\<lambda>ctx.
     bind_ok (get_membership_owned ctx i s) (\<lambda>m. update_membership env ctx m data s))"

definition end_membership_route where
  "end_membership_route env ctx i v s = guarded ''iam.membership.delete'' ctx (\<lambda>ctx.
     bind_ok (get_membership_owned ctx i s) (\<lambda>m. end_membership env ctx m v s))"

definition grant_role_route where
  "grant_role_route env ctx i data s = guarded ''iam.membership.grant_role'' ctx (\<lambda>ctx.
     bind_ok (get_membership_owned ctx i s) (\<lambda>m.
     bind_ok (grant_role env ctx m data s) (\<lambda>(_, s). bind_ok (get_membership_owned ctx i s) (\<lambda>m. Inr (m, s)))))"

definition revoke_role_route where
  "revoke_role_route env ctx i r s = guarded ''iam.membership.revoke_role'' ctx (\<lambda>ctx.
     bind_ok (get_membership_owned ctx i s) (\<lambda>m. revoke_role env ctx m r s))"

definition role_selected :: "string option \<Rightarrow> bool option \<Rightarrow> role \<Rightarrow> bool" where
  "role_selected lvl sys r \<longleftrightarrow> given_is lvl (Some (scope_level_value (ro_scope_level r))) \<and> set_is sys (ro_is_system r)"

definition roles_of_organization :: "db \<Rightarrow> string option \<Rightarrow> bool option \<Rightarrow> ulid \<Rightarrow> role list" where
  "roles_of_organization s lvl sys org = filter (\<lambda>r. reachable_role (Some org) r \<and> role_selected lvl sys r) (roles s)"

definition all_roles :: "settings \<Rightarrow> db \<Rightarrow> string option \<Rightarrow> string option \<Rightarrow> bool option \<Rightarrow> role list" where
  "all_roles st s org lvl sys = filter (\<lambda>r. archived_at r = None \<and>
     (\<not> truthy org \<or> ro_organization_id r = org \<or> ro_organization_id r = None) \<and> role_selected lvl sys r) (visible_roles st s)"

definition list_roles_route where
  "list_roles_route c st ctx lvl org sys p s =
     admin_page ''iam.role.list'' c p (all_roles st s org lvl sys) (roles_of_organization s lvl sys) ctx"

definition get_role_route where
  "get_role_route ctx i s = guarded ''iam.role.read'' ctx (\<lambda>ctx. get_role_owned ctx i s)"

definition create_role_route where
  "create_role_route env ctx data s = guarded ''iam.role.create'' ctx (\<lambda>ctx. create_role env ctx data s)"

definition update_role_route where
  "update_role_route env ctx i data s = guarded ''iam.role.update'' ctx (\<lambda>ctx.
     bind_ok (get_role_owned ctx i s) (\<lambda>r. update_role env ctx r data s))"

definition delete_role_route where
  "delete_role_route env ctx i v s = guarded ''iam.role.delete'' ctx (\<lambda>ctx.
     bind_ok (get_role_owned ctx i s) (\<lambda>r. delete_role env ctx r v s))"

section \<open>Persons, addresses and contacts\<close>

definition person_matches :: "string option \<Rightarrow> person \<Rightarrow> bool" where
  "person_matches search p \<longleftrightarrow>
     sql_like (pattern_of search) (py_lower (concat_ws [Some (pe_first_name p), pe_middle_name p, pe_last_name p])) \<or>
     lower_like search (pe_primary_email p) \<or>
     (case pe_primary_phone p of None \<Rightarrow> False | Some t \<Rightarrow> sql_like (pattern_of search) t)"

definition listed_persons :: "db \<Rightarrow> string option \<Rightarrow> ulid \<Rightarrow> person list" where
  "listed_persons s search org = filter (\<lambda>p. pe_organization_id p = org \<and> deleted_at p = None \<and>
     (\<not> truthy search \<or> person_matches search p)) (persons s)"

definition list_persons_route where
  "list_persons_route c ctx search p s = organization_page ''people.person.list'' c p (listed_persons s search) ctx"

definition get_person_route where
  "get_person_route ctx i s = guarded ''people.person.read'' ctx (\<lambda>ctx. get_person_owned ctx i s)"

definition create_person_route where
  "create_person_route env ctx data s = guarded ''people.person.create'' ctx (\<lambda>ctx. create_person env ctx data s)"

definition update_person_route where
  "update_person_route env ctx i data s = guarded ''people.person.update'' ctx (\<lambda>ctx.
     bind_ok (get_person_owned ctx i s) (\<lambda>x. update_person env ctx x data s))"

definition merge_person_route where
  "merge_person_route env ctx i data s = guarded ''people.person.merge'' ctx (\<lambda>ctx.
     bind_ok (get_person_owned ctx i s) (\<lambda>x. merge_person env ctx x data s))"

definition delete_person_route where
  "delete_person_route env ctx i v s = guarded ''people.person.delete'' ctx (\<lambda>ctx.
     bind_ok (get_person_owned ctx i s) (\<lambda>x. delete_person env ctx x v s))"

definition addresses_of :: "db \<Rightarrow> string \<Rightarrow> ulid \<Rightarrow> ulid \<Rightarrow> address list" where
  "addresses_of s ty i org = filter (\<lambda>x. ad_organization_id x = org \<and> ad_entity_type x = ty \<and> ad_entity_id x = i) (addresses s)"

definition list_addresses_route where
  "list_addresses_route c ctx ty i p s = organization_page ''people.address.list'' c p (addresses_of s ty i) ctx"

definition get_address_route where
  "get_address_route ctx i s = guarded ''people.address.read'' ctx (\<lambda>ctx. get_address_owned ctx i s)"

definition create_address_route where
  "create_address_route env ctx data s = guarded ''people.address.create'' ctx (\<lambda>ctx. create_address env ctx data s)"

definition update_address_route where
  "update_address_route env ctx i data s = guarded ''people.address.update'' ctx (\<lambda>ctx.
     bind_ok (get_address_owned ctx i s) (\<lambda>x. update_address env ctx x data s))"

definition delete_address_route where
  "delete_address_route env ctx i v s = guarded ''people.address.delete'' ctx (\<lambda>ctx.
     bind_ok (get_address_owned ctx i s) (\<lambda>x. delete_address env ctx x v s))"

definition contacts_of :: "db \<Rightarrow> string \<Rightarrow> ulid \<Rightarrow> ulid \<Rightarrow> contact list" where
  "contacts_of s ty i org = filter (\<lambda>x. ct_organization_id x = org \<and> ct_entity_type x = ty \<and> ct_entity_id x = i) (contacts s)"

definition list_contacts_route where
  "list_contacts_route c ctx ty i p s = organization_page ''people.contact.list'' c p (contacts_of s ty i) ctx"

definition get_contact_route where
  "get_contact_route ctx i s = guarded ''people.contact.read'' ctx (\<lambda>ctx. get_contact_owned ctx i s)"

definition create_contact_route where
  "create_contact_route env ctx data s = guarded ''people.contact.create'' ctx (\<lambda>ctx. create_contact env ctx data s)"

definition update_contact_route where
  "update_contact_route env ctx i data s = guarded ''people.contact.update'' ctx (\<lambda>ctx.
     bind_ok (get_contact_owned ctx i s) (\<lambda>x. update_contact env ctx x data s))"

definition delete_contact_route where
  "delete_contact_route env ctx i s = guarded ''people.contact.delete'' ctx (\<lambda>ctx.
     bind_ok (get_contact_owned ctx i s) (\<lambda>x. delete_contact env ctx x s))"

section \<open>The audit log\<close>

record audit_query =
  aq_school_id :: "ulid option"
  aq_organization_id :: "ulid option"
  aq_entity_type :: "string option"
  aq_entity_id :: "string option"
  aq_actor_user_id :: "string option"
  aq_action :: "string option"
  aq_created_from :: "timestamp option"
  aq_created_to :: "timestamp option"

definition audit_in_scope :: "ulid option \<Rightarrow> ulid option \<Rightarrow> audit_log \<Rightarrow> bool" where
  "audit_in_scope sch org l \<longleftrightarrow>
     (if truthy sch then al_school_id l = sch else if truthy org then al_organization_id l = org else True)"

definition selected_audit_logs :: "db \<Rightarrow> ulid option \<Rightarrow> ulid option \<Rightarrow> audit_query \<Rightarrow> audit_log list" where
  "selected_audit_logs s sch org q = filter (\<lambda>l. audit_in_scope sch org l \<and>
     given_is (aq_entity_type q) (Some (al_entity_type l)) \<and> given_is (aq_entity_id q) (al_entity_id l) \<and>
     given_is (aq_actor_user_id q) (al_actor_user_id l) \<and> given_is (aq_action q) (Some (al_action l)) \<and>
     (case aq_created_from q of None \<Rightarrow> True | Some t \<Rightarrow> t \<le> created_at l) \<and>
     (case aq_created_to q of None \<Rightarrow> True | Some t \<Rightarrow> created_at l \<le> t)) (audit_logs s)"

definition list_audit_logs :: "codec \<Rightarrow> request_context \<Rightarrow> audit_query \<Rightarrow> cursor_params \<Rightarrow> db \<Rightarrow> audit_log cursor_page result" where
  "list_audit_logs c ctx q p s =
     (if aq_school_id q \<noteq> None \<and> the (aq_school_id q) \<notin> accessible_school_ids ctx then Inr empty_page
      else let sch = or_else (aq_school_id q) (school_id ctx);
               org = (if truthy sch then None
                      else if is_platform_admin ctx \<and> aq_organization_id q \<noteq> None then aq_organization_id q
                      else organization_id ctx)
           in paginate_cursor c [] p (selected_audit_logs s sch org q))"

definition list_audit_logs_route where
  "list_audit_logs_route c ctx q p s = guarded ''platform.audit_log.list'' ctx (\<lambda>ctx. list_audit_logs c ctx q p s)"

definition audit_log_missing :: error where
  "audit_log_missing = NotFoundError ''AUDIT_LOG_NOT_FOUND''"

definition get_audit_log :: "request_context \<Rightarrow> ulid \<Rightarrow> db \<Rightarrow> audit_log result" where
  "get_audit_log ctx i s =
     (let sch = school_id ctx; org = (if truthy sch then None else organization_id ctx) in
      if sch = None \<and> org = None then Inl audit_log_missing
      else ok_or audit_log_missing (find (\<lambda>l. row_id l = i \<and> audit_in_scope sch org l) (audit_logs s)))"

definition get_audit_log_route where
  "get_audit_log_route ctx i s = guarded ''platform.audit_log.read'' ctx (\<lambda>ctx. get_audit_log ctx i s)"

section \<open>Statistics, feature flags and the outbox\<close>

record platform_stats =
  ps_org_count :: nat
  ps_school_count :: nat
  ps_user_count :: nat

definition get_platform_stats :: "settings \<Rightarrow> db \<Rightarrow> platform_stats" where
  "get_platform_stats st s = \<lparr>ps_org_count = length (filter (\<lambda>x. deleted_at x = None) (visible_organizations st s)),
     ps_school_count = length (filter (\<lambda>x. deleted_at x = None) (visible_schools st s)),
     ps_user_count = length (filter (\<lambda>x. deleted_at x = None) (users s))\<rparr>"

definition get_platform_stats_route where
  "get_platform_stats_route st ctx s = guarded ''platform.stats.read'' ctx (\<lambda>_. Inr (get_platform_stats st s))"

text \<open>The table of flags is written by nobody; its rows are an argument.\<close>

record feature_flag = ts_row +
  ff_key :: string
  ff_organization_id :: "ulid option"
  ff_school_id :: "ulid option"
  ff_enabled :: bool
  ff_description :: "string option"

definition list_feature_flags_route ::
  "codec \<Rightarrow> request_context \<Rightarrow> bool option \<Rightarrow> string option \<Rightarrow> cursor_params \<Rightarrow> feature_flag list
   \<Rightarrow> feature_flag cursor_page result" where
  "list_feature_flags_route c ctx en key p flags = guarded ''platform.feature_flag.list'' ctx (\<lambda>ctx.
     if \<not> is_platform_admin ctx \<and> user_id ctx = [] then Inl (PyError ''AssertionError'')
     else paginate_cursor c [] p (filter (\<lambda>f. set_is en (ff_enabled f) \<and> given_is key (Some (ff_key f))) flags))"


text \<open>An event in a listing, with the key and the creation time by which it is paged.\<close>

record outbox_item = ts_row +
  oi_event :: outbox_event

definition outbox_item_of :: "outbox_event \<Rightarrow> outbox_item" where
  "outbox_item_of e = \<lparr>row_id = row_id e, created_at = ob_created_at e, updated_at = ob_created_at e, oi_event = e\<rparr>"

fun outbox_status_text :: "outbox_status \<Rightarrow> string" where
  "outbox_status_text OB_PENDING = ''PENDING''"
| "outbox_status_text OB_PROCESSING = ''PROCESSING''"
| "outbox_status_text OB_SENT = ''SENT''"
| "outbox_status_text OB_FAILED = ''FAILED''"

definition listed_outbox_events :: "db \<Rightarrow> string option \<Rightarrow> string option \<Rightarrow> outbox_item list" where
  "listed_outbox_events s st name = List.map outbox_item_of (filter (\<lambda>e.
     given_is st (Some (outbox_status_text (ob_status e))) \<and> given_is name (Some (ob_event_name e))) (outbox_events s))"

definition list_outbox_events_route where
  "list_outbox_events_route c ctx st name p s = guarded ''platform.outbox.list'' ctx (\<lambda>ctx.
     if \<not> is_platform_admin ctx \<and> user_id ctx = [] then Inl (PyError ''AssertionError'')
     else bind_ok (paginate_cursor c [] p (listed_outbox_events s st name)) (\<lambda>page. Inr (page_map oi_event page)))"

definition outbox_summary_route where
  "outbox_summary_route ctx s = guarded ''platform.outbox.list'' ctx (\<lambda>ctx.
     if \<not> is_platform_admin ctx \<and> user_id ctx = [] then Inl (PyError ''AssertionError'') else Inr (outbox_summary_of s))"

section \<open>Properties\<close>

lemma page_rows: "paginate_cursor c own p rows = Inr page \<Longrightarrow> x \<in> set (page_items page) \<Longrightarrow> x \<in> set rows"
  by (auto simp: paginate_cursor_def bind_ok_Inr_iff Let_def dest!: in_set_takeD split: if_splits prod.splits)

text \<open>
  C32. Whoever asks, a platform administrator included, a listing of schools shows only schools of the organization the
  request is bound to, if there is one: the wider query of an administrator is cut by the policy of the table.
\<close>

theorem listed_schools_are_of_the_organization:
  assumes "list_schools_route c (set_tenant_context (school_id ctx) (organization_id ctx) st) ctx f sts p s = Inr page"
    and "organization_id ctx = Some org" and "org \<noteq> []" and "x \<in> set (page_items page)"
  shows "sc_organization_id x = org \<and> deleted_at x = None"
proof (cases "is_platform_admin ctx")
  case True
  let ?st = "set_tenant_context (school_id ctx) (organization_id ctx) st"
  have "paginate_cursor c [] p (all_schools ?st s f sts) = Inr page"
    using assms(1) True by (simp add: list_schools_route_def admin_page_def guarded_def bind_ok_def)
  from page_rows[OF this assms(4)] show ?thesis using assms(2,3)
    by (auto simp: all_schools_def visible_schools_def allows_def org_predicate_def or3_def school_row_def str_or_empty_def
        split: if_splits)
next
  case False
  then have "paginate_cursor c [] p (schools_of_organization s sts org) = Inr page"
    using assms(1,2) by (auto simp: list_schools_route_def admin_page_def guarded_def bind_ok_Inr_iff authz_guard_Inr_iff)
  from page_rows[OF this assms(4)] show ?thesis by (simp add: schools_of_organization_def)
qed

definition blank_audit_query :: audit_query where
  "blank_audit_query = \<lparr>aq_school_id = None, aq_organization_id = None, aq_entity_type = None, aq_entity_id = None,
     aq_actor_user_id = None, aq_action = None, aq_created_from = None, aq_created_to = None\<rparr>"

definition sample_audit_logs :: "audit_log list" where
  "sample_audit_logs = [blank_audit_log ''a''\<lparr>al_organization_id := Some ''o''\<rparr>, blank_audit_log ''b''\<lparr>al_organization_id := Some ''p''\<rparr>]"

definition sample_schools :: "school list" where
  "sample_schools = [blank_school ''a''\<lparr>sc_organization_id := ''o''\<rparr>, blank_school ''b''\<lparr>sc_organization_id := ''p''\<rparr>]"

lemma listed_schools_are_of_the_organization_witness:
  "\<exists>page x. list_schools_route toy_codec (set_tenant_context (Some ''s'') (Some ''o'') Map.empty)
      (school_context\<lparr>is_platform_admin := True\<rparr>) None None \<lparr>cp_limit = 5, cp_cursor = None\<rparr> (empty_db\<lparr>schools := sample_schools\<rparr>) = Inr page \<and>
    page_items page = [x] \<and> sc_organization_id x = ''o''"
proof -
  let ?r = "list_schools_route toy_codec (set_tenant_context (Some ''s'') (Some ''o'') Map.empty)
      (school_context\<lparr>is_platform_admin := True\<rparr>) None None \<lparr>cp_limit = 5, cp_cursor = None\<rparr> (empty_db\<lparr>schools := sample_schools\<rparr>)"
  have "(case ?r of Inl _ \<Rightarrow> False | Inr page \<Rightarrow> length (page_items page) = 1)" by code_simp
  then obtain page x where "?r = Inr page" "page_items page = [x]"
    by (auto simp: length_Suc_conv split: sum.splits)
  then show ?thesis
    using listed_schools_are_of_the_organization[of toy_codec "school_context\<lparr>is_platform_admin := True\<rparr>" Map.empty None None
        "\<lparr>cp_limit = 5, cp_cursor = None\<rparr>" "empty_db\<lparr>schools := sample_schools\<rparr>" page "''o''" x] by auto
qed

text \<open>
  C33. A caller who is no platform administrator reads only audit rows of a school of the caller, or of the caller's own
  organization, whatever the filters of the request.
\<close>

theorem audit_rows_stay_in_scope:
  assumes "list_audit_logs_route c ctx q p s = Inr page" and "is_platform_admin ctx = False"
    and "organization_id ctx = Some org" and "org \<noteq> []" and "l \<in> set (page_items page)"
  shows "al_organization_id l = Some org \<or> (\<exists>sch. al_school_id l = Some sch \<and> (sch \<in> accessible_school_ids ctx \<or> school_id ctx = Some sch))"
proof -
  have r: "list_audit_logs c ctx q p s = Inr page"
    using assms(1) by (auto simp: list_audit_logs_route_def guarded_def bind_ok_Inr_iff authz_guard_Inr_iff)
  define sch where "sch = or_else (aq_school_id q) (school_id ctx)"
  have acc: "x \<in> accessible_school_ids ctx" if "aq_school_id q = Some x" for x
  proof (rule ccontr)
    assume "x \<notin> accessible_school_ids ctx"
    then have "page = empty_page" using r that by (simp add: list_audit_logs_def)
    with assms(5) show False by (simp add: empty_page_def)
  qed
  have "paginate_cursor c [] p (selected_audit_logs s sch (if truthy sch then None else organization_id ctx) q) = Inr page"
    using r acc assms(2) by (auto simp: list_audit_logs_def sch_def Let_def split: if_splits)
  from page_rows[OF this assms(5)] have "audit_in_scope sch (if truthy sch then None else organization_id ctx) l"
    by (simp add: selected_audit_logs_def)
  then show ?thesis using assms(3,4) acc
    by (cases "truthy sch") (auto simp: audit_in_scope_def truthy_def sch_def or_else_def split: option.splits if_splits)
qed

lemma audit_rows_stay_in_scope_witness:
  "\<exists>page l. list_audit_logs_route toy_codec (school_context\<lparr>school_id := None, permission_scopes := [(''platform.audit_log.list'', ORGANIZATION)]\<rparr>)
      blank_audit_query \<lparr>cp_limit = 5, cp_cursor = None\<rparr> (empty_db\<lparr>audit_logs := sample_audit_logs\<rparr>) = Inr page \<and>
    page_items page = [l] \<and> al_organization_id l = Some ''o''"
proof -
  let ?ctx = "school_context\<lparr>school_id := None, permission_scopes := [(''platform.audit_log.list'', ORGANIZATION)]\<rparr>"
  let ?r = "list_audit_logs_route toy_codec ?ctx blank_audit_query \<lparr>cp_limit = 5, cp_cursor = None\<rparr> (empty_db\<lparr>audit_logs := sample_audit_logs\<rparr>)"
  have "(case ?r of Inl _ \<Rightarrow> False | Inr page \<Rightarrow> length (page_items page) = 1 \<and> list_all (\<lambda>l. al_school_id l = None) (page_items page))"
    by code_simp
  then obtain page l where r: "?r = Inr page" "page_items page = [l]" "al_school_id l = None"
    by (auto simp: length_Suc_conv split: sum.splits)
  then have "al_organization_id l = Some ''o'' \<or> (\<exists>sch. al_school_id l = Some sch \<and> (sch \<in> accessible_school_ids ?ctx \<or> school_id ?ctx = Some sch))"
    by (intro audit_rows_stay_in_scope[OF r(1)]) (simp_all add: school_context_def anon_context_def get_public_context_def)
  with r show ?thesis by auto
qed

end
