(* ===== verification/Registry.thy ===== *)
theory Registry
  imports Scripts
begin

text \<open>
  The permissions the program declares: every \<open>permissions.py\<close> under \<open>app/modules\<close>, in the order
  in which importing the application, or one of the two scripts, runs them. The lemmas show that the
  registry of the application exists, and what the scripts make of theirs.
\<close>

section \<open>Declarations\<close>

type_synonym registration = "string \<times> string \<times> action_arg \<times> string"

text \<open>The calls of \<open>registry.register\<close> one after the other.\<close>

fun declare_all :: "registration list \<Rightarrow> registry \<Rightarrow> registry result" where
  "declare_all [] reg = Inr reg"
| "declare_all ((m, r, a, d) # ds) reg = bind_ok (register m r a d reg) (\<lambda>(_, reg). declare_all ds reg)"

definition academic_class_declarations :: "registration list" where
  "academic_class_declarations =
     [(''academic'', ''academic_class'', ActionMember ACT_LIST, ''List academic classes''),
      (''academic'', ''academic_class'', ActionMember ACT_READ, ''View an academic class''),
      (''academic'', ''academic_class'', ActionMember ACT_CREATE, ''Create an academic class''),
      (''academic'', ''academic_class'', ActionMember ACT_UPDATE, ''Update an academic class''),
      (''academic'', ''academic_class'', ActionMember ACT_DELETE, ''Delete an academic class'')]"

definition academic_term_declarations :: "registration list" where
  "academic_term_declarations =
     [(''academic'', ''academic_term'', ActionMember ACT_LIST, ''List academic terms''),
      (''academic'', ''academic_term'', ActionMember ACT_READ, ''View an academic term''),
      (''academic'', ''academic_term'', ActionMember ACT_CREATE, ''Create an academic term''),
      (''academic'', ''academic_term'', ActionMember ACT_UPDATE, ''Update an academic term''),
      (''academic'', ''academic_term'', ActionMember ACT_DELETE, ''Delete an academic term'')]"

definition academic_year_declarations :: "registration list" where
  "academic_year_declarations =
     [(''academic'', ''academic_year'', ActionMember ACT_LIST, ''List academic years''),
      (''academic'', ''academic_year'', ActionMember ACT_READ, ''View an academic year''),
      (''academic'', ''academic_year'', ActionMember ACT_CREATE, ''Create an academic year''),
      (''academic'', ''academic_year'', ActionMember ACT_UPDATE, ''Update an academic year''),
      (''academic'', ''academic_year'', ActionMember ACT_DELETE, ''Delete an academic year'')]"

definition class_subject_declarations :: "registration list" where
  "class_subject_declarations =
     [(''academic'', ''class_subject'', ActionMember ACT_LIST, ''List class subjects''),
      (''academic'', ''class_subject'', ActionMember ACT_READ, ''View a class subject''),
      (''academic'', ''class_subject'', ActionMember ACT_CREATE, ''Create a class subject''),
      (''academic'', ''class_subject'', ActionMember ACT_DELETE, ''Delete a class subject'')]"

definition cohort_declarations :: "registration list" where
  "cohort_declarations =
     [(''academic'', ''cohort'', ActionMember ACT_LIST, ''List cohorts''),
      (''academic'', ''cohort'', ActionMember ACT_READ, ''View a cohort''),
      (''academic'', ''cohort'', ActionMember ACT_CREATE, ''Create a cohort''),
      (''academic'', ''cohort'', ActionMember ACT_UPDATE, ''Update a cohort''),
      (''academic'', ''cohort'', ActionMember ACT_DELETE, ''Delete a cohort'')]"

definition subject_declarations :: "registration list" where
  "subject_declarations =
     [(''academic'', ''subject'', ActionMember ACT_LIST, ''List subjects''),
      (''academic'', ''subject'', ActionMember ACT_READ, ''View a subject''),
      (''academic'', ''subject'', ActionMember ACT_CREATE, ''Create a subject''),
      (''academic'', ''subject'', ActionMember ACT_UPDATE, ''Update a subject''),
      (''academic'', ''subject'', ActionMember ACT_DELETE, ''Delete a subject'')]"

definition membership_declarations :: "registration list" where
  "membership_declarations =
     [(''iam'', ''membership'', ActionMember ACT_LIST, ''List memberships''),
      (''iam'', ''membership'', ActionMember ACT_READ, ''View a membership''),
      (''iam'', ''membership'', ActionMember ACT_CREATE, ''Create a membership''),
      (''iam'', ''membership'', ActionMember ACT_UPDATE, ''Update a membership''),
      (''iam'', ''membership'', ActionMember ACT_DELETE, ''End a membership''),
      (''iam'', ''membership'', ActionText ''grant_role'', ''Grant a role to a membership''),
      (''iam'', ''membership'', ActionText ''revoke_role'', ''Revoke a role from a membership'')]"

definition organization_declarations :: "registration list" where
  "organization_declarations =
     [(''iam'', ''organization'', ActionMember ACT_LIST, ''List organizations''),
      (''iam'', ''organization'', ActionMember ACT_READ, ''View an organization''),
      (''iam'', ''organization'', ActionMember ACT_CREATE, ''Create an organization''),
      (''iam'', ''organization'', ActionMember ACT_UPDATE, ''Update an organization''),
      (''iam'', ''organization'', ActionMember ACT_DELETE, ''Delete an organization'')]"

definition role_declarations :: "registration list" where
  "role_declarations =
     [(''iam'', ''role'', ActionMember ACT_LIST, ''List roles''),
      (''iam'', ''role'', ActionMember ACT_READ, ''View a role''),
      (''iam'', ''role'', ActionMember ACT_CREATE, ''Create a role''),
      (''iam'', ''role'', ActionMember ACT_UPDATE, ''Update a role''),
      (''iam'', ''role'', ActionMember ACT_DELETE, ''Delete a role'')]"

definition school_declarations :: "registration list" where
  "school_declarations =
     [(''iam'', ''school'', ActionMember ACT_LIST, ''List schools''),
      (''iam'', ''school'', ActionMember ACT_READ, ''View a school''),
      (''iam'', ''school'', ActionMember ACT_CREATE, ''Create a school''),
      (''iam'', ''school'', ActionMember ACT_UPDATE, ''Update a school''),
      (''iam'', ''school'', ActionMember ACT_DELETE, ''Delete a school'')]"

definition user_declarations :: "registration list" where
  "user_declarations =
     [(''iam'', ''user'', ActionMember ACT_LIST, ''List users in an organization''),
      (''iam'', ''user'', ActionMember ACT_READ, ''View a user''),
      (''iam'', ''user'', ActionMember ACT_CREATE, ''Create a user account''),
      (''iam'', ''user'', ActionMember ACT_UPDATE, ''Update a user account''),
      (''iam'', ''user'', ActionMember ACT_DELETE, ''Delete a user account''),
      (''iam'', ''user'', ActionText ''invite'', ''Invite a user to an organization''),
      (''iam'', ''user'', ActionText ''toggle_platform_admin'', ''Grant or revoke platform admin flag'')]"

definition address_declarations :: "registration list" where
  "address_declarations =
     [(''people'', ''address'', ActionMember ACT_LIST, ''List addresses''),
      (''people'', ''address'', ActionMember ACT_READ, ''View an address''),
      (''people'', ''address'', ActionMember ACT_CREATE, ''Create an address''),
      (''people'', ''address'', ActionMember ACT_UPDATE, ''Update an address''),
      (''people'', ''address'', ActionMember ACT_DELETE, ''Delete an address'')]"

definition contact_declarations :: "registration list" where
  "contact_declarations =
     [(''people'', ''contact'', ActionMember ACT_LIST, ''List contacts''),
      (''people'', ''contact'', ActionMember ACT_READ, ''View a contact''),
      (''people'', ''contact'', ActionMember ACT_CREATE, ''Create a contact''),
      (''people'', ''contact'', ActionMember ACT_UPDATE, ''Update a contact''),
      (''people'', ''contact'', ActionMember ACT_DELETE, ''Delete a contact'')]"

definition person_declarations :: "registration list" where
  "person_declarations =
     [(''people'', ''person'', ActionMember ACT_LIST, ''List persons''),
      (''people'', ''person'', ActionMember ACT_READ, ''View a person''),
      (''people'', ''person'', ActionMember ACT_CREATE, ''Create a person''),
      (''people'', ''person'', ActionMember ACT_UPDATE, ''Update a person''),
      (''people'', ''person'', ActionMember ACT_DELETE, ''Delete a person''),
      (''people'', ''person'', ActionText ''merge'', ''Merge duplicate persons'')]"

definition audit_log_declarations :: "registration list" where
  "audit_log_declarations =
     [(''platform'', ''audit_log'', ActionMember ACT_LIST, ''List audit logs''),
      (''platform'', ''audit_log'', ActionMember ACT_READ, ''View an audit log'')]"

definition feature_flag_declarations :: "registration list" where
  "feature_flag_declarations =
     [(''platform'', ''feature_flag'', ActionMember ACT_LIST, ''List feature flags'')]"

definition outbox_declarations :: "registration list" where
  "outbox_declarations =
     [(''platform'', ''outbox'', ActionMember ACT_LIST, ''List outbox events and dispatcher status'')]"

definition stats_declarations :: "registration list" where
  "stats_declarations =
     [(''platform'', ''stats'', ActionMember ACT_READ, ''Read platform-wide aggregate statistics'')]"

definition student_declarations :: "registration list" where
  "student_declarations =
     [(''students'', ''student'', ActionMember ACT_LIST, ''List students''),
      (''students'', ''student'', ActionMember ACT_READ, ''View a student''),
      (''students'', ''student'', ActionMember ACT_CREATE, ''Create a student''),
      (''students'', ''student'', ActionMember ACT_UPDATE, ''Update a student''),
      (''students'', ''student'', ActionMember ACT_DELETE, ''Delete a student'')]"

definition enrollment_declarations :: "registration list" where
  "enrollment_declarations =
     [(''students'', ''enrollment'', ActionMember ACT_LIST, ''List enrollments''),
      (''students'', ''enrollment'', ActionMember ACT_READ, ''View enrollment''),
      (''students'', ''enrollment'', ActionMember ACT_CREATE, ''Create enrollment''),
      (''students'', ''enrollment'', ActionMember ACT_UPDATE, ''Update enrollment''),
      (''students'', ''enrollment'', ActionMember ACT_DELETE, ''Delete enrollment''),
      (''students'', ''enrollment'', ActionText ''transfer'', ''Transfer student'')]"

definition guardian_declarations :: "registration list" where
  "guardian_declarations =
     [(''students'', ''guardian'', ActionMember ACT_LIST, ''List guardians''),
      (''students'', ''guardian'', ActionMember ACT_READ, ''View guardian''),
      (''students'', ''guardian'', ActionMember ACT_CREATE, ''Add guardian''),
      (''students'', ''guardian'', ActionMember ACT_UPDATE, ''Update guardian''),
      (''students'', ''guardian'', ActionMember ACT_DELETE, ''Remove guardian'')]"

definition announcement_declarations :: "registration list" where
  "announcement_declarations =
     [(''announcements'', ''announcement'', ActionMember ACT_LIST, ''List announcements''),
      (''announcements'', ''announcement'', ActionMember ACT_READ, ''View an announcement''),
      (''announcements'', ''announcement'', ActionMember ACT_CREATE, ''Create an announcement''),
      (''announcements'', ''announcement'', ActionMember ACT_UPDATE, ''Update an announcement''),
      (''announcements'', ''announcement'', ActionMember ACT_DELETE, ''Delete an announcement''),
      (''announcements'', ''announcement'', ActionText ''publish'', ''Publish an announcement''),
      (''announcements'', ''announcement'', ActionMember ACT_ARCHIVE, ''Archive an announcement'')]"

definition teacher_declarations :: "registration list" where
  "teacher_declarations =
     [(''teachers'', ''teacher'', ActionMember ACT_LIST, ''List teachers''),
      (''teachers'', ''teacher'', ActionMember ACT_READ, ''View a teacher''),
      (''teachers'', ''teacher'', ActionMember ACT_CREATE, ''Create a teacher''),
      (''teachers'', ''teacher'', ActionMember ACT_UPDATE, ''Update a teacher''),
      (''teachers'', ''teacher'', ActionMember ACT_DELETE, ''Delete a teacher''),
      (''teachers'', ''assignment'', ActionMember ACT_LIST, ''List teacher assignments''),
      (''teachers'', ''assignment'', ActionMember ACT_READ, ''View a teacher assignment''),
      (''teachers'', ''assignment'', ActionMember ACT_CREATE, ''Create a teacher assignment''),
      (''teachers'', ''assignment'', ActionMember ACT_UPDATE, ''Update a teacher assignment''),
      (''teachers'', ''assignment'', ActionMember ACT_DELETE, ''End a teacher assignment'')]"

definition timetable_declarations :: "registration list" where
  "timetable_declarations =
     [(''timetables'', ''period'', ActionMember ACT_LIST, ''List period definitions''),
      (''timetables'', ''period'', ActionMember ACT_READ, ''View a period definition''),
      (''timetables'', ''period'', ActionMember ACT_CREATE, ''Create a period definition''),
      (''timetables'', ''period'', ActionMember ACT_UPDATE, ''Update a period definition''),
      (''timetables'', ''period'', ActionMember ACT_DELETE, ''Delete a period definition''),
      (''timetables'', ''timetable'', ActionMember ACT_LIST, ''List timetables''),
      (''timetables'', ''timetable'', ActionMember ACT_READ, ''View timetable''),
      (''timetables'', ''timetable'', ActionMember ACT_CREATE, ''Create timetable''),
      (''timetables'', ''timetable'', ActionMember ACT_UPDATE, ''Update timetable''),
      (''timetables'', ''timetable'', ActionMember ACT_DELETE, ''Delete timetable''),
      (''timetables'', ''slot'', ActionMember ACT_LIST, ''List timetable slots''),
      (''timetables'', ''slot'', ActionMember ACT_READ, ''View a timetable slot''),
      (''timetables'', ''slot'', ActionMember ACT_CREATE, ''Create a timetable slot''),
      (''timetables'', ''slot'', ActionMember ACT_UPDATE, ''Update a timetable slot''),
      (''timetables'', ''slot'', ActionMember ACT_DELETE, ''Cancel a timetable slot'')]"

definition attendance_declarations :: "registration list" where
  "attendance_declarations =
     [(''attendance'', ''session'', ActionMember ACT_LIST, ''List attendance sessions''),
      (''attendance'', ''session'', ActionMember ACT_READ, ''View an attendance session''),
      (''attendance'', ''session'', ActionMember ACT_CREATE, ''Create an attendance session''),
      (''attendance'', ''session'', ActionMember ACT_UPDATE, ''Update an attendance session''),
      (''attendance'', ''session'', ActionMember ACT_DELETE, ''Delete an attendance session''),
      (''attendance'', ''session'', ActionText ''submit'', ''Submit attendance''),
      (''attendance'', ''session'', ActionText ''amend'', ''Amend submitted attendance''),
      (''attendance'', ''record'', ActionMember ACT_LIST, ''List attendance records''),
      (''attendance'', ''record'', ActionMember ACT_UPDATE, ''Update an attendance record'')]"

definition bulk_import_declarations :: "registration list" where
  "bulk_import_declarations =
     [(''bulk_import'', ''import'', ActionMember ACT_LIST, ''List import jobs''),
      (''bulk_import'', ''import'', ActionMember ACT_READ, ''Read import job details''),
      (''bulk_import'', ''import'', ActionMember ACT_CREATE, ''Upload CSV for bulk import''),
      (''bulk_import'', ''export'', ActionMember ACT_CREATE, ''Export records as CSV'')]"

definition notification_declarations :: "registration list" where
  "notification_declarations =
     [(''notifications'', ''notification'', ActionMember ACT_LIST, ''List own notifications''),
      (''notifications'', ''notification'', ActionMember ACT_UPDATE, ''Mark notifications as read'')]"

definition document_declarations :: "registration list" where
  "document_declarations =
     [(''documents'', ''document'', ActionMember ACT_LIST, ''List documents''),
      (''documents'', ''document'', ActionMember ACT_READ, ''View a document''),
      (''documents'', ''document'', ActionMember ACT_CREATE, ''Upload a document''),
      (''documents'', ''document'', ActionMember ACT_DELETE, ''Delete a document'')]"

definition parent_declarations :: "registration list" where
  "parent_declarations =
     [(''parents'', ''parent'', ActionMember ACT_LIST, ''List parents''),
      (''parents'', ''parent'', ActionMember ACT_READ, ''View a parent''),
      (''parents'', ''parent'', ActionMember ACT_CREATE, ''Create a parent''),
      (''parents'', ''parent'', ActionMember ACT_UPDATE, ''Update a parent''),
      (''parents'', ''parent'', ActionMember ACT_DELETE, ''Delete a parent''),
      (''parents'', ''student_parent'', ActionMember ACT_CREATE, ''Link a parent to a student''),
      (''parents'', ''student_parent'', ActionMember ACT_DELETE, ''Unlink a parent from a student'')]"

definition report_declarations :: "registration list" where
  "report_declarations =
     [(''reports'', ''export'', ActionMember ACT_CREATE, ''Create an export job''),
      (''reports'', ''export'', ActionMember ACT_LIST, ''List export jobs''),
      (''reports'', ''export'', ActionMember ACT_READ, ''View an export job'')]"

section \<open>What is imported\<close>

definition app_declarations :: "registration list" where
  "app_declarations = concat
     [academic_class_declarations, academic_term_declarations, academic_year_declarations, class_subject_declarations,
      cohort_declarations, subject_declarations, membership_declarations, organization_declarations,
      role_declarations, school_declarations, user_declarations, address_declarations, contact_declarations,
      person_declarations, audit_log_declarations, feature_flag_declarations, outbox_declarations,
      stats_declarations, student_declarations, enrollment_declarations, guardian_declarations,
      announcement_declarations, teacher_declarations, timetable_declarations, attendance_declarations,
      bulk_import_declarations, notification_declarations, document_declarations, parent_declarations,
      report_declarations]"

definition sync_permissions_declarations :: "registration list" where
  "sync_permissions_declarations = concat
     [membership_declarations, organization_declarations, role_declarations, school_declarations, user_declarations,
      address_declarations, contact_declarations, person_declarations, audit_log_declarations]"

definition sync_roles_declarations :: "registration list" where
  "sync_roles_declarations = concat
     [academic_class_declarations, academic_term_declarations, academic_year_declarations, class_subject_declarations,
      cohort_declarations, subject_declarations, membership_declarations, organization_declarations,
      role_declarations, school_declarations, user_declarations, address_declarations, contact_declarations,
      person_declarations, audit_log_declarations, enrollment_declarations, guardian_declarations,
      teacher_declarations, timetable_declarations, announcement_declarations, attendance_declarations,
      bulk_import_declarations]"

section \<open>The declarations of the application\<close>

definition call_path :: "registration \<Rightarrow> string \<times> string \<times> string" where
  "call_path x = (case x of (m, r, a, d) \<Rightarrow> (m, r, action_text a))"

definition path_code :: "string \<times> string \<times> string \<Rightarrow> string" where
  "path_code = (\<lambda>(m, r, a). code_text m r a)"

text \<open>
  A permissions file declares under one module name and a few resource names. Files that share neither
  cannot collide, so the uniqueness of all the codes comes down to one small check per file.
\<close>

type_synonym area = "string \<times> string list"

definition declares_in :: "area \<Rightarrow> registration list \<Rightarrow> bool" where
  "declares_in k xs \<longleftrightarrow> distinct (List.map call_path xs) \<and>
     list_all (\<lambda>(m, r, a). m = fst k \<and> r \<in> set (snd k) \<and> is_segment m \<and> is_segment r \<and> is_segment a) (List.map call_path xs)"

fun areas_apart :: "area list \<Rightarrow> bool" where
  "areas_apart [] = True"
| "areas_apart (k # ks) = (list_all (\<lambda>k'. fst k' \<noteq> fst k \<or> list_all (\<lambda>r. r \<notin> set (snd k')) (snd k)) ks \<and> areas_apart ks)"

lemma declares_inD:
  "declares_in k xs \<Longrightarrow> (m, r, a) \<in> set (List.map call_path xs) \<Longrightarrow>
     m = fst k \<and> r \<in> set (snd k) \<and> is_segment m \<and> is_segment r \<and> is_segment a"
  unfolding declares_in_def list_all_iff by fast

lemma in_areas:
  "list_all2 declares_in ks ls \<Longrightarrow> (m, r, a) \<in> set (List.map call_path (concat ls)) \<Longrightarrow>
     (\<exists>k \<in> set ks. m = fst k \<and> r \<in> set (snd k)) \<and> is_segment m \<and> is_segment r \<and> is_segment a"
proof (induction rule: list_all2_induct)
  case (Cons k ks xs ls)
  then consider "(m, r, a) \<in> set (List.map call_path xs)" | "(m, r, a) \<in> set (List.map call_path (concat ls))"
    by auto
  then show ?case using Cons.IH declares_inD[OF Cons.hyps(1)] by cases (metis list.set_intros)+
qed simp

lemma distinct_in_areas:
  "list_all2 declares_in ks ls \<Longrightarrow> areas_apart ks \<Longrightarrow> distinct (List.map call_path (concat ls))"
proof (induction rule: list_all2_induct)
  case (Cons k ks xs ls)
  have "False" if p: "p \<in> set (List.map call_path xs)" and q: "p \<in> set (List.map call_path (concat ls))" for p
  proof -
    obtain m r a where e: "p = (m, r, a)" by (cases p)
    have k: "m = fst k \<and> r \<in> set (snd k)" using declares_inD[OF Cons.hyps(1)] p e by blast
    obtain k' where "k' \<in> set ks" "m = fst k'" "r \<in> set (snd k')"
      using in_areas[OF Cons.hyps(2)] q e by blast
    with k Cons.prems show False by (auto simp: list_all_iff)
  qed
  moreover have "distinct (List.map call_path xs)" "distinct (List.map call_path (concat ls))"
    using Cons by (auto simp: declares_in_def)
  ultimately show ?case by (auto simp del: set_map)
qed simp

definition segment_paths :: "(string \<times> string \<times> string) set" where
  "segment_paths = {(m, r, a). is_segment m \<and> is_segment r \<and> is_segment a}"

lemma inj_path_code: "inj_on path_code segment_paths"
  by (rule inj_onI) (clarsimp simp: path_code_def segment_paths_def, metis split_dot_code_text list.inject)

definition app_areas :: "area list" where
  "app_areas =
     [(''academic'', [''academic_class'']), (''academic'', [''academic_term'']),
      (''academic'', [''academic_year'']), (''academic'', [''class_subject'']), (''academic'', [''cohort'']),
      (''academic'', [''subject'']), (''iam'', [''membership'']), (''iam'', [''organization'']),
      (''iam'', [''role'']), (''iam'', [''school'']), (''iam'', [''user'']), (''people'', [''address'']),
      (''people'', [''contact'']), (''people'', [''person'']), (''platform'', [''audit_log'']),
      (''platform'', [''feature_flag'']), (''platform'', [''outbox'']), (''platform'', [''stats'']),
      (''students'', [''student'']), (''students'', [''enrollment'']), (''students'', [''guardian'']),
      (''announcements'', [''announcement'']), (''teachers'', [''teacher'', ''assignment'']),
      (''timetables'', [''period'', ''timetable'', ''slot'']), (''attendance'', [''session'', ''record'']),
      (''bulk_import'', [''import'', ''export'']), (''notifications'', [''notification'']),
      (''documents'', [''document'']), (''parents'', [''parent'', ''student_parent'']),
      (''reports'', [''export''])]"

lemmas import_defs = app_declarations_def sync_permissions_declarations_def sync_roles_declarations_def

lemma app_declared_in: "list_all2 declares_in app_areas [academic_class_declarations, academic_term_declarations, academic_year_declarations, class_subject_declarations,
      cohort_declarations, subject_declarations, membership_declarations, organization_declarations,
      role_declarations, school_declarations, user_declarations, address_declarations, contact_declarations,
      person_declarations, audit_log_declarations, feature_flag_declarations, outbox_declarations,
      stats_declarations, student_declarations, enrollment_declarations, guardian_declarations,
      announcement_declarations, teacher_declarations, timetable_declarations, attendance_declarations,
      bulk_import_declarations, notification_declarations, document_declarations, parent_declarations,
      report_declarations]"
  by code_simp

lemma app_areas_apart: "areas_apart app_areas"
  by code_simp

section \<open>The registries that result\<close>

definition declared_permission :: "registration \<Rightarrow> permission" where
  "declared_permission x = (case x of (m, r, a, d) \<Rightarrow>
     \<lparr>pm_code = code_text m r (action_text a), pm_module = m, pm_resource = r, pm_action = action_text a, pm_description = d\<rparr>)"

definition declared_entry :: "registration \<Rightarrow> string \<times> permission" where
  "declared_entry x = (pm_code (declared_permission x), declared_permission x)"

lemma declared_code [simp]: "pm_code (declared_permission x) = path_code (call_path x)"
  by (simp add: declared_permission_def path_code_def call_path_def split: prod.splits)

lemma declare_all_reaches: "reachable_registry reg \<Longrightarrow> declare_all ds reg = Inr reg' \<Longrightarrow> reachable_registry reg'"
proof (induction ds arbitrary: reg)
  case (Cons x ds)
  obtain m r a d where x: "x = (m, r, a, d)" by (cases x)
  with Cons.prems obtain p reg1 where s: "register m r a d reg = Inr (p, reg1)" and d: "declare_all ds reg1 = Inr reg'"
    by (auto simp: bind_ok_def split: sum.splits)
  show ?case using Cons.IH[OF reg_step[OF Cons.prems(1) s] d] .
qed simp

lemma declare_all_ok:
  assumes "\<And>x. x \<in> set ds \<Longrightarrow> full_match (path_code (call_path x))"
    and "distinct (List.map fst reg @ List.map (path_code \<circ> call_path) ds)"
  shows "declare_all ds reg = Inr (reg @ List.map declared_entry ds)"
  using assms
proof (induction ds arbitrary: reg)
  case (Cons x ds)
  obtain m r a d where x: "x = (m, r, a, d)" by (cases x)
  have c: "code_re_match (code_text m r (action_text a))"
    using Cons.prems(1)[of x] by (simp add: x call_path_def path_code_def code_re_match_def)
  have "code_text m r (action_text a) \<notin> fst ` set reg"
    using Cons.prems(2) by (simp add: x call_path_def path_code_def)
  with c have "register m r a d reg = Inr (declared_permission x, reg @ [declared_entry x])"
    by (simp add: register_Inr_iff Let_def declared_entry_def declared_permission_def x path_code_def call_path_def)
  moreover have "declare_all ds (reg @ [declared_entry x]) = Inr ((reg @ [declared_entry x]) @ List.map declared_entry ds)"
    by (rule Cons.IH) (use Cons.prems in \<open>auto simp: declared_entry_def\<close>)
  ultimately show ?case by (simp add: x)
qed simp

lemma app_paths_distinct: "distinct (List.map call_path app_declarations)"
  unfolding import_defs by (rule distinct_in_areas[OF app_declared_in app_areas_apart])

lemma app_segments: "x \<in> set app_declarations \<Longrightarrow> call_path x \<in> segment_paths"
proof -
  assume x: "x \<in> set app_declarations"
  obtain m r a where e: "call_path x = (m, r, a)" by (cases "call_path x")
  have "(m, r, a) \<in> set (List.map call_path app_declarations)"
    unfolding e[symmetric] list.set_map using x by (rule imageI)
  then show ?thesis
    using in_areas[OF app_declared_in] unfolding import_defs e segment_paths_def by blast
qed

lemma app_code_match: "x \<in> set app_declarations \<Longrightarrow> full_match (path_code (call_path x))"
  using app_segments by (fastforce simp: segment_paths_def path_code_def intro: full_match_code_text)

lemma declared_codes_distinct:
  assumes "distinct (List.map call_path ds)" "set ds \<subseteq> set app_declarations"
  shows "distinct (List.map (path_code \<circ> call_path) ds)"
proof -
  have "set (List.map call_path ds) \<subseteq> segment_paths"
    using assms(2) app_segments unfolding list.set_map by blast
  then have "inj_on path_code (set (List.map call_path ds))" by (rule inj_on_subset[OF inj_path_code])
  with assms(1) show ?thesis unfolding List.map_map[symmetric] by (simp only: distinct_map)
qed

text \<open>
  Importing the application, or one of the scripts, registers everything it imports.
\<close>

definition registry_of :: "registration list \<Rightarrow> registry" where
  "registry_of ds = List.map declared_entry ds"

lemma declare_all_imported:
  assumes "distinct (List.map call_path ds)" "set ds \<subseteq> set app_declarations"
  shows "declare_all ds [] = Inr (registry_of ds)"
  unfolding registry_of_def
  using declare_all_ok[of ds "[]"] app_code_match[OF subsetD[OF assms(2)]] declared_codes_distinct[OF assms] by simp

lemma script_calls:
  "set sync_permissions_declarations \<subseteq> set app_declarations" "set sync_roles_declarations \<subseteq> set app_declarations"
  unfolding import_defs by (simp_all only: concat.simps set_append) blast+

definition sync_permissions_areas :: "area list" where
  "sync_permissions_areas = take 8 (drop 6 app_areas) @ [(''platform'', [''audit_log''])]"

definition sync_roles_areas :: "area list" where
  "sync_roles_areas = take 14 app_areas @ [(''platform'', [''audit_log'']), (''students'', [''enrollment'']), (''students'', [''guardian''])]
     @ List.map (\<lambda>i. app_areas ! i) [22, 23, 21, 24, 25]"

lemma sync_permissions_declared_in: "list_all2 declares_in sync_permissions_areas [membership_declarations, organization_declarations, role_declarations, school_declarations, user_declarations,
      address_declarations, contact_declarations, person_declarations, audit_log_declarations]"
  by code_simp

lemma sync_roles_declared_in: "list_all2 declares_in sync_roles_areas [academic_class_declarations, academic_term_declarations, academic_year_declarations, class_subject_declarations,
      cohort_declarations, subject_declarations, membership_declarations, organization_declarations,
      role_declarations, school_declarations, user_declarations, address_declarations, contact_declarations,
      person_declarations, audit_log_declarations, enrollment_declarations, guardian_declarations,
      teacher_declarations, timetable_declarations, announcement_declarations, attendance_declarations,
      bulk_import_declarations]"
  by code_simp

lemma script_areas_apart: "areas_apart sync_permissions_areas" "areas_apart sync_roles_areas"
  by code_simp+

lemma script_registries:
  "declare_all sync_permissions_declarations [] = Inr (registry_of sync_permissions_declarations)"
  "declare_all sync_roles_declarations [] = Inr (registry_of sync_roles_declarations)"
  "declare_all app_declarations [] = Inr (registry_of app_declarations)"
  using declare_all_imported script_calls app_paths_distinct
    distinct_in_areas[OF sync_permissions_declared_in script_areas_apart(1)]
    distinct_in_areas[OF sync_roles_declared_in script_areas_apart(2)]
  unfolding sync_permissions_declarations_def[symmetric] sync_roles_declarations_def[symmetric] by blast+

text \<open>A declaration outside of the areas of an import is not among its codes.\<close>

lemma codes_of_registry: "pm_code ` set (registry_all (registry_of ds)) = path_code ` call_path ` set ds"
  by (force simp: registry_all_def registry_of_def declared_entry_def)

lemma foreign_code:
  assumes "list_all2 declares_in ks ls" "x \<in> set app_declarations"
    and "\<forall>k\<in>set ks. fst k \<noteq> fst (call_path x) \<or> fst (snd (call_path x)) \<notin> set (snd k)"
  shows "path_code (call_path x) \<notin> path_code ` call_path ` set (concat ls)"
proof
  assume "path_code (call_path x) \<in> path_code ` call_path ` set (concat ls)"
  then obtain y where y: "y \<in> set (concat ls)" "path_code (call_path x) = path_code (call_path y)" by blast
  obtain m r a where e: "call_path y = (m, r, a)" by (cases "call_path y")
  have "(m, r, a) \<in> set (List.map call_path (concat ls))" unfolding e[symmetric] list.set_map using y(1) by (rule imageI)
  note k = in_areas[OF assms(1) this]
  then have "call_path y \<in> segment_paths" unfolding e segment_paths_def by blast
  then have "call_path x = (m, r, a)" using inj_onD[OF inj_path_code y(2) app_segments[OF assms(2)]] e by simp
  then show False using k assms(3) by auto
qed

section \<open>What the scripts make of the declarations\<close>

text \<open>The permissions of the application that importing \<open>sync_roles\<close> does not declare.\<close>

definition undeclared_for_roles :: "registration list" where
  "undeclared_for_roles = concat
     [feature_flag_declarations, outbox_declarations, stats_declarations, student_declarations, notification_declarations,
      document_declarations, parent_declarations, report_declarations]"

lemma undeclared_in_app: "set undeclared_for_roles \<subseteq> set app_declarations"
  unfolding undeclared_for_roles_def app_declarations_def by (simp only: concat.simps set_append) blast

lemma undeclared_foreign:
  "list_all (\<lambda>x. list_all (\<lambda>k. fst k \<noteq> fst (call_path x) \<or> fst (snd (call_path x)) \<notin> set (snd k)) sync_roles_areas)
     undeclared_for_roles"
  by code_simp

lemma catalog_codes: "d \<in> set (role_catalog reg) \<Longrightarrow> set (rd_permissions d) \<subseteq> pm_code ` set (registry_all reg)"
  by (auto simp: role_catalog_def all_permissions_def all_in_module_def read_people_def)

text \<open>
  C38. The catalog of the system roles is built from the permissions that \<open>sync_roles.py\<close> imports. It imports neither
  \<open>students\<close>, \<open>notifications\<close>, \<open>documents\<close>, \<open>parents\<close> nor \<open>reports\<close>, so no system role, the super
  administrator included, is granted any of their permissions, although the application registers them
  and its routes demand them.
\<close>

theorem system_roles_miss_permissions:
  assumes "x \<in> set undeclared_for_roles" and "d \<in> set (role_catalog (registry_of sync_roles_declarations))"
  shows "pm_code (declared_permission x) \<notin> set (rd_permissions d) \<and>
    require_registered (registry_of app_declarations) (pm_code (declared_permission x)) = Inr (declared_permission x)"
proof
  have x: "x \<in> set app_declarations" using assms(1) undeclared_in_app by blast
  have "\<forall>k\<in>set sync_roles_areas. fst k \<noteq> fst (call_path x) \<or> fst (snd (call_path x)) \<notin> set (snd k)"
    using undeclared_foreign assms(1) unfolding list_all_iff by blast
  from foreign_code[OF sync_roles_declared_in x this]
  have "pm_code (declared_permission x) \<notin> pm_code ` set (registry_all (registry_of sync_roles_declarations))"
    unfolding codes_of_registry declared_code sync_roles_declarations_def .
  then show "pm_code (declared_permission x) \<notin> set (rd_permissions d)" using catalog_codes[OF assms(2)] by blast
  have "distinct (List.map fst (registry_of app_declarations))"
    using declared_codes_distinct[OF app_paths_distinct subset_refl]
    by (simp add: registry_of_def declared_entry_def comp_def)
  moreover have "(pm_code (declared_permission x), declared_permission x) \<in> set (registry_of app_declarations)"
    unfolding registry_of_def list.set_map declared_entry_def[symmetric] using x by (rule imageI)
  ultimately show "require_registered (registry_of app_declarations) (pm_code (declared_permission x)) = Inr (declared_permission x)"
    by (simp add: require_registered_def ok_or_def)
qed

lemma system_roles_miss_permissions_witness:
  "''students.student.read'' \<notin> set (all_permissions (registry_of sync_roles_declarations))"
proof -
  have x: "(''students'', ''student'', ActionMember ACT_READ, ''View a student'') \<in> set undeclared_for_roles"
    by (simp add: undeclared_for_roles_def student_declarations_def)
  have "hd (role_catalog (registry_of sync_roles_declarations)) \<in> set (role_catalog (registry_of sync_roles_declarations))"
    by (simp add: role_catalog_def)
  from system_roles_miss_permissions[OF x this] show ?thesis
    by (simp add: role_catalog_def path_code_def call_path_def code_text_def)
qed

text \<open>
  C39. The two scripts in the order of the setup, with what they import: whatever the data, once
  \<open>sync_permissions.py\<close> has succeeded, \<open>sync_roles.py\<close> fails. The first deletes the permissions of every
  module but \<open>iam\<close>, \<open>people\<close> and the audit log, and the second grants those it imports to the super administrator.
\<close>

theorem scripts_in_order_fail:
  assumes "sync_permissions env (registry_all (registry_of sync_permissions_declarations)) s = Inr s'"
  shows "is_ok (sync_roles env' (registry_of sync_roles_declarations) s') = False"
proof -
  define x where "x = hd academic_class_declarations"
  have e: "x = (''academic'', ''academic_class'', ActionMember ACT_LIST, ''List academic classes'')"
    by (simp add: x_def academic_class_declarations_def)
  have x: "x \<in> set sync_roles_declarations"
    by (simp add: e sync_roles_declarations_def academic_class_declarations_def)
  have "list_all (\<lambda>k. fst k \<noteq> ''academic'') sync_permissions_areas" by code_simp
  then have "\<forall>k\<in>set sync_permissions_areas. fst k \<noteq> fst (call_path x) \<or> fst (snd (call_path x)) \<notin> set (snd k)"
    by (simp add: e call_path_def list_all_iff)
  from foreign_code[OF sync_permissions_declared_in _ this] x script_calls(2)
  have "pm_code (declared_permission x) \<notin> pm_code ` set (registry_all (registry_of sync_permissions_declarations))"
    unfolding codes_of_registry declared_code sync_permissions_declarations_def by blast
  moreover have "declared_permission x \<in> set (registry_all (registry_of sync_roles_declarations))"
    unfolding registry_all_def registry_of_def declared_entry_def list.set_map using x by force
  ultimately show ?thesis using roles_need_every_permission[OF assms] by blast
qed

lemma scripts_in_order_fail_witness:
  "\<exists>s'. sync_permissions sample_audit_env (registry_all (registry_of sync_permissions_declarations)) empty_db = Inr s' \<and>
    is_ok (sync_roles sample_audit_env (registry_of sync_roles_declarations) s') = False"
proof -
  let ?ds = "registry_all (registry_of sync_permissions_declarations)"
  have "inj (env_gen sample_audit_env ''permissions'')" by (auto simp: sample_audit_env_def inj_def)
  moreover have "distinct (List.map pm_code ?ds)"
    using declared_codes_distinct[OF distinct_in_areas[OF sync_permissions_declared_in script_areas_apart(1)]]
      script_calls(1) unfolding sync_permissions_declarations_def[symmetric]
    by (simp add: registry_all_def registry_of_def declared_entry_def comp_def)
  ultimately have "synced sample_audit_env [] (set ?ds) (sync_declared sample_audit_env [] ?ds [])"
    using sync_declared_synced[of sample_audit_env "[]" "{}" "[]" ?ds] by (simp add: synced_def pk_unique_def ids_def)
  then have "uq_permissions_code (sync_declared sample_audit_env [] ?ds [])"
    by (auto simp: uq_permissions_code_def unique_on_def synced_def inj_on_def)
  then obtain s' where s: "sync_permissions sample_audit_env ?ds empty_db = Inr s'"
    by (simp add: sync_permissions_def Let_def constrained_def empty_db_def)
  from scripts_in_order_fail[OF s] s show ?thesis by blast
qed

end
