(* ===== verification/Api.thy ===== *)
theory Api
  imports Registry Samples
begin

text \<open>
  The routes of the interface, \<open>app/api/v1/router.py\<close> and the decorators of every \<open>router.py\<close> under
  \<open>app/modules\<close>, in the order of registration; how a request finds its route and what the guard
  of the route asks of the caller. A path is the list of its segments after the prefix of the interface.
\<close>

section \<open>Routes, matching and guards\<close>

datatype segment = Lit string | Param

text \<open>\<open>Needs c\<close> is \<open>Depends(require(c))\<close>, \<open>SignedIn\<close> is \<open>Depends(require_authenticated)\<close>.\<close>

datatype access = Public | SignedIn | Needs string

datatype route = Route (rt_method: string) (rt_path: "segment list") (rt_guard: access) (rt_handler: string)

text \<open>A parameter takes any non-empty segment.\<close>

fun path_matches :: "segment list \<Rightarrow> string list \<Rightarrow> bool" where
  "path_matches [] [] = True"
| "path_matches (Lit x # p) (y # ys) = (x = y \<and> path_matches p ys)"
| "path_matches (Param # p) (y # ys) = (y \<noteq> [] \<and> path_matches p ys)"
| "path_matches _ _ = False"

datatype dispatched = Found route | MethodNotAllowed | NoRoute

text \<open>The first route that matches path and method; a path that only other methods have is refused with 405.\<close>

definition dispatch :: "route list \<Rightarrow> string \<Rightarrow> string list \<Rightarrow> dispatched" where
  "dispatch rs method path = (case find (\<lambda>r. path_matches (rt_path r) path \<and> rt_method r = method) rs of
     Some r \<Rightarrow> Found r
   | None \<Rightarrow> if list_ex (\<lambda>r. path_matches (rt_path r) path) rs then MethodNotAllowed else NoRoute)"

text \<open>
  The context a handler gets: \<open>public\<close> is the anonymous context, \<open>resolved\<close> the result of
  \<open>get_context\<close>, an error for a caller without a valid token.
\<close>

definition admit :: "access \<Rightarrow> request_context \<Rightarrow> request_context result \<Rightarrow> request_context result" where
  "admit g public resolved = (case g of
     Public \<Rightarrow> Inr public
   | SignedIn \<Rightarrow> bind_ok resolved require_authenticated
   | Needs c \<Rightarrow> bind_ok resolved (authz_guard c None))"

section \<open>The routers\<close>

definition auth_routes :: "route list" where
  "auth_routes =
     [Route ''POST'' [Lit ''auth'', Lit ''login''] Public ''login'',
      Route ''POST'' [Lit ''auth'', Lit ''refresh''] Public ''refresh'',
      Route ''POST'' [Lit ''auth'', Lit ''logout''] SignedIn ''logout'',
      Route ''POST'' [Lit ''auth'', Lit ''password-reset''] Public ''request_password_reset'',
      Route ''POST'' [Lit ''auth'', Lit ''password-reset'', Lit ''confirm''] Public ''confirm_password_reset'',
      Route ''POST'' [Lit ''auth'', Lit ''password'', Lit ''change''] SignedIn ''change_password'',
      Route ''GET'' [Lit ''auth'', Lit ''me''] SignedIn ''me'']"

definition audit_log_routes :: "route list" where
  "audit_log_routes =
     [Route ''GET'' [Lit ''audit-logs''] (Needs ''platform.audit_log.list'') ''list_audit_logs'',
      Route ''GET'' [Lit ''audit-logs'', Param] (Needs ''platform.audit_log.read'') ''get_audit_log'']"

definition stats_routes :: "route list" where
  "stats_routes =
     [Route ''GET'' [Lit ''platform'', Lit ''stats''] (Needs ''platform.stats.read'') ''get_platform_stats'']"

definition outbox_routes :: "route list" where
  "outbox_routes =
     [Route ''GET'' [Lit ''platform'', Lit ''outbox'', Lit ''summary''] (Needs ''platform.outbox.list'') ''outbox_summary'',
      Route ''GET'' [Lit ''platform'', Lit ''outbox''] (Needs ''platform.outbox.list'') ''list_outbox_events'']"

definition feature_flag_routes :: "route list" where
  "feature_flag_routes =
     [Route ''GET'' [Lit ''platform'', Lit ''feature-flags''] (Needs ''platform.feature_flag.list'') ''list_feature_flags'']"

definition organization_routes :: "route list" where
  "organization_routes =
     [Route ''GET'' [Lit ''organizations''] (Needs ''iam.organization.list'') ''list_organizations'',
      Route ''GET'' [Lit ''organizations'', Param] (Needs ''iam.organization.read'') ''get_organization'',
      Route ''POST'' [Lit ''organizations''] (Needs ''iam.organization.create'') ''create_organization'',
      Route ''PATCH'' [Lit ''organizations'', Param] (Needs ''iam.organization.update'') ''update_organization'',
      Route ''DELETE'' [Lit ''organizations'', Param] (Needs ''iam.organization.delete'') ''delete_organization'']"

definition school_routes :: "route list" where
  "school_routes =
     [Route ''GET'' [Lit ''schools''] (Needs ''iam.school.list'') ''list_schools'',
      Route ''GET'' [Lit ''schools'', Param] (Needs ''iam.school.read'') ''get_school'',
      Route ''POST'' [Lit ''schools''] (Needs ''iam.school.create'') ''create_school'',
      Route ''PATCH'' [Lit ''schools'', Param] (Needs ''iam.school.update'') ''update_school'',
      Route ''DELETE'' [Lit ''schools'', Param] (Needs ''iam.school.delete'') ''delete_school'']"

definition user_routes :: "route list" where
  "user_routes =
     [Route ''GET'' [Lit ''users''] (Needs ''iam.user.list'') ''list_users'',
      Route ''GET'' [Lit ''users'', Param] (Needs ''iam.user.read'') ''get_user'',
      Route ''POST'' [Lit ''users''] (Needs ''iam.user.create'') ''create_user'',
      Route ''PATCH'' [Lit ''users'', Param] (Needs ''iam.user.update'') ''update_user'',
      Route ''PATCH'' [Lit ''users'', Param, Lit ''platform-admin''] (Needs ''iam.user.toggle_platform_admin'') ''toggle_platform_admin'',
      Route ''DELETE'' [Lit ''users'', Param] (Needs ''iam.user.delete'') ''delete_user'']"

definition membership_routes :: "route list" where
  "membership_routes =
     [Route ''GET'' [Lit ''memberships''] (Needs ''iam.membership.list'') ''list_memberships'',
      Route ''GET'' [Lit ''memberships'', Param] (Needs ''iam.membership.read'') ''get_membership'',
      Route ''POST'' [Lit ''memberships''] (Needs ''iam.membership.create'') ''create_membership'',
      Route ''PATCH'' [Lit ''memberships'', Param] (Needs ''iam.membership.update'') ''update_membership'',
      Route ''DELETE'' [Lit ''memberships'', Param] (Needs ''iam.membership.delete'') ''end_membership'',
      Route ''POST'' [Lit ''memberships'', Param, Lit ''roles''] (Needs ''iam.membership.grant_role'') ''grant_role'',
      Route ''DELETE'' [Lit ''memberships'', Param, Lit ''roles'', Param] (Needs ''iam.membership.revoke_role'') ''revoke_role'']"

definition role_routes :: "route list" where
  "role_routes =
     [Route ''GET'' [Lit ''roles''] (Needs ''iam.role.list'') ''list_roles'',
      Route ''GET'' [Lit ''roles'', Param] (Needs ''iam.role.read'') ''get_role'',
      Route ''POST'' [Lit ''roles''] (Needs ''iam.role.create'') ''create_role'',
      Route ''PATCH'' [Lit ''roles'', Param] (Needs ''iam.role.update'') ''update_role'',
      Route ''DELETE'' [Lit ''roles'', Param] (Needs ''iam.role.delete'') ''delete_role'']"

definition person_routes :: "route list" where
  "person_routes =
     [Route ''GET'' [Lit ''persons''] (Needs ''people.person.list'') ''list_persons'',
      Route ''GET'' [Lit ''persons'', Param] (Needs ''people.person.read'') ''get_person'',
      Route ''POST'' [Lit ''persons''] (Needs ''people.person.create'') ''create_person'',
      Route ''PATCH'' [Lit ''persons'', Param] (Needs ''people.person.update'') ''update_person'',
      Route ''POST'' [Lit ''persons'', Param, Lit ''merge''] (Needs ''people.person.merge'') ''merge_person'',
      Route ''DELETE'' [Lit ''persons'', Param] (Needs ''people.person.delete'') ''delete_person'']"

definition address_routes :: "route list" where
  "address_routes =
     [Route ''GET'' [Lit ''addresses''] (Needs ''people.address.list'') ''list_addresses'',
      Route ''GET'' [Lit ''addresses'', Param] (Needs ''people.address.read'') ''get_address'',
      Route ''POST'' [Lit ''addresses''] (Needs ''people.address.create'') ''create_address'',
      Route ''PATCH'' [Lit ''addresses'', Param] (Needs ''people.address.update'') ''update_address'',
      Route ''DELETE'' [Lit ''addresses'', Param] (Needs ''people.address.delete'') ''delete_address'']"

definition contact_routes :: "route list" where
  "contact_routes =
     [Route ''GET'' [Lit ''contacts''] (Needs ''people.contact.list'') ''list_contacts'',
      Route ''GET'' [Lit ''contacts'', Param] (Needs ''people.contact.read'') ''get_contact'',
      Route ''POST'' [Lit ''contacts''] (Needs ''people.contact.create'') ''create_contact'',
      Route ''PATCH'' [Lit ''contacts'', Param] (Needs ''people.contact.update'') ''update_contact'',
      Route ''DELETE'' [Lit ''contacts'', Param] (Needs ''people.contact.delete'') ''delete_contact'']"

definition academic_year_routes :: "route list" where
  "academic_year_routes =
     [Route ''GET'' [Lit ''academic-years''] (Needs ''academic.academic_year.list'') ''list_academic_years'',
      Route ''GET'' [Lit ''academic-years'', Param] (Needs ''academic.academic_year.read'') ''get_academic_year'',
      Route ''POST'' [Lit ''academic-years''] (Needs ''academic.academic_year.create'') ''create_academic_year'',
      Route ''PATCH'' [Lit ''academic-years'', Param] (Needs ''academic.academic_year.update'') ''update_academic_year'',
      Route ''DELETE'' [Lit ''academic-years'', Param] (Needs ''academic.academic_year.delete'') ''delete_academic_year'']"

definition academic_term_routes :: "route list" where
  "academic_term_routes =
     [Route ''GET'' [Lit ''academic-terms''] (Needs ''academic.academic_term.list'') ''list_academic_terms'',
      Route ''GET'' [Lit ''academic-terms'', Param] (Needs ''academic.academic_term.read'') ''get_academic_term'',
      Route ''POST'' [Lit ''academic-terms''] (Needs ''academic.academic_term.create'') ''create_academic_term'',
      Route ''PATCH'' [Lit ''academic-terms'', Param] (Needs ''academic.academic_term.update'') ''update_academic_term'',
      Route ''DELETE'' [Lit ''academic-terms'', Param] (Needs ''academic.academic_term.delete'') ''delete_academic_term'']"

definition academic_class_routes :: "route list" where
  "academic_class_routes =
     [Route ''GET'' [Lit ''academic-classes''] (Needs ''academic.academic_class.list'') ''list_academic_classes'',
      Route ''GET'' [Lit ''academic-classes'', Param] (Needs ''academic.academic_class.read'') ''get_academic_class'',
      Route ''POST'' [Lit ''academic-classes''] (Needs ''academic.academic_class.create'') ''create_academic_class'',
      Route ''PATCH'' [Lit ''academic-classes'', Param] (Needs ''academic.academic_class.update'') ''update_academic_class'',
      Route ''DELETE'' [Lit ''academic-classes'', Param] (Needs ''academic.academic_class.delete'') ''delete_academic_class'']"

definition subject_routes :: "route list" where
  "subject_routes =
     [Route ''GET'' [Lit ''subjects''] (Needs ''academic.subject.list'') ''list_subjects'',
      Route ''GET'' [Lit ''subjects'', Param] (Needs ''academic.subject.read'') ''get_subject'',
      Route ''POST'' [Lit ''subjects''] (Needs ''academic.subject.create'') ''create_subject'',
      Route ''PATCH'' [Lit ''subjects'', Param] (Needs ''academic.subject.update'') ''update_subject'',
      Route ''DELETE'' [Lit ''subjects'', Param] (Needs ''academic.subject.delete'') ''delete_subject'']"

definition class_subject_routes :: "route list" where
  "class_subject_routes =
     [Route ''GET'' [Lit ''class-subjects''] (Needs ''academic.class_subject.list'') ''list_class_subjects'',
      Route ''GET'' [Lit ''class-subjects'', Param] (Needs ''academic.class_subject.read'') ''get_class_subject'',
      Route ''POST'' [Lit ''class-subjects''] (Needs ''academic.class_subject.create'') ''create_class_subject'',
      Route ''DELETE'' [Lit ''class-subjects'', Param] (Needs ''academic.class_subject.delete'') ''delete_class_subject'']"

definition cohort_routes :: "route list" where
  "cohort_routes =
     [Route ''GET'' [Lit ''cohorts''] (Needs ''academic.cohort.list'') ''list_cohorts'',
      Route ''GET'' [Lit ''cohorts'', Param] (Needs ''academic.cohort.read'') ''get_cohort'',
      Route ''POST'' [Lit ''cohorts''] (Needs ''academic.cohort.create'') ''create_cohort'',
      Route ''PATCH'' [Lit ''cohorts'', Param] (Needs ''academic.cohort.update'') ''update_cohort'',
      Route ''DELETE'' [Lit ''cohorts'', Param] (Needs ''academic.cohort.delete'') ''delete_cohort'']"

definition student_routes :: "route list" where
  "student_routes =
     [Route ''GET'' [Lit ''students'', Lit ''counts''] (Needs ''students.student.list'') ''get_student_counts'',
      Route ''GET'' [Lit ''students''] (Needs ''students.student.list'') ''list_students'',
      Route ''GET'' [Lit ''students'', Param] (Needs ''students.student.read'') ''get_student'',
      Route ''POST'' [Lit ''students''] (Needs ''students.student.create'') ''create_student'',
      Route ''PATCH'' [Lit ''students'', Param] (Needs ''students.student.update'') ''update_student'',
      Route ''DELETE'' [Lit ''students'', Param] (Needs ''students.student.delete'') ''delete_student'']"

definition enrollment_routes :: "route list" where
  "enrollment_routes =
     [Route ''GET'' [Lit ''enrollments''] (Needs ''students.enrollment.list'') ''list_enrollments'',
      Route ''GET'' [Lit ''enrollments'', Param] (Needs ''students.enrollment.read'') ''get_enrollment'',
      Route ''POST'' [Lit ''enrollments''] (Needs ''students.enrollment.create'') ''create_enrollment'',
      Route ''PATCH'' [Lit ''enrollments'', Param] (Needs ''students.enrollment.update'') ''update_enrollment'',
      Route ''DELETE'' [Lit ''enrollments'', Param] (Needs ''students.enrollment.delete'') ''delete_enrollment'',
      Route ''POST'' [Lit ''enrollments'', Param, Lit ''transfer''] (Needs ''students.enrollment.transfer'') ''transfer_enrollment'']"

definition guardian_students_routes :: "route list" where
  "guardian_students_routes =
     [Route ''GET'' [Lit ''students'', Param, Lit ''guardians''] (Needs ''students.guardian.list'') ''list_guardians'']"

definition guardian_routes :: "route list" where
  "guardian_routes =
     [Route ''GET'' [Lit ''student-guardians'', Param] (Needs ''students.guardian.read'') ''get_guardian'',
      Route ''POST'' [Lit ''student-guardians''] (Needs ''students.guardian.create'') ''add_guardian'',
      Route ''PATCH'' [Lit ''student-guardians'', Param] (Needs ''students.guardian.update'') ''update_guardian'',
      Route ''DELETE'' [Lit ''student-guardians'', Param] (Needs ''students.guardian.delete'') ''remove_guardian'']"

definition announcement_routes :: "route list" where
  "announcement_routes =
     [Route ''GET'' [Lit ''announcements''] (Needs ''announcements.announcement.list'') ''list_announcements'',
      Route ''GET'' [Lit ''announcements'', Lit ''feed''] (Needs ''announcements.announcement.list'') ''list_announcement_feed'',
      Route ''GET'' [Lit ''announcements'', Param] (Needs ''announcements.announcement.read'') ''get_announcement'',
      Route ''POST'' [Lit ''announcements''] (Needs ''announcements.announcement.create'') ''create_announcement'',
      Route ''PATCH'' [Lit ''announcements'', Param] (Needs ''announcements.announcement.update'') ''update_announcement'',
      Route ''POST'' [Lit ''announcements'', Param, Lit ''publish''] (Needs ''announcements.announcement.publish'') ''publish_announcement'',
      Route ''POST'' [Lit ''announcements'', Param, Lit ''archive''] (Needs ''announcements.announcement.archive'') ''archive_announcement'',
      Route ''DELETE'' [Lit ''announcements'', Param] (Needs ''announcements.announcement.delete'') ''delete_announcement'']"

definition teacher_routes :: "route list" where
  "teacher_routes =
     [Route ''GET'' [Lit ''teachers'', Lit ''counts''] (Needs ''teachers.teacher.list'') ''get_teacher_counts'',
      Route ''GET'' [Lit ''teachers''] (Needs ''teachers.teacher.list'') ''list_teachers'',
      Route ''GET'' [Lit ''teachers'', Param] (Needs ''teachers.teacher.read'') ''get_teacher'',
      Route ''POST'' [Lit ''teachers''] (Needs ''teachers.teacher.create'') ''create_teacher'',
      Route ''PATCH'' [Lit ''teachers'', Param] (Needs ''teachers.teacher.update'') ''update_teacher'',
      Route ''DELETE'' [Lit ''teachers'', Param] (Needs ''teachers.teacher.delete'') ''delete_teacher'',
      Route ''GET'' [Lit ''teacher-assignments''] (Needs ''teachers.assignment.list'') ''list_assignments'',
      Route ''GET'' [Lit ''teacher-assignments'', Param] (Needs ''teachers.assignment.read'') ''get_assignment'',
      Route ''POST'' [Lit ''teacher-assignments''] (Needs ''teachers.assignment.create'') ''create_assignment'',
      Route ''PATCH'' [Lit ''teacher-assignments'', Param] (Needs ''teachers.assignment.update'') ''update_assignment'',
      Route ''DELETE'' [Lit ''teacher-assignments'', Param] (Needs ''teachers.assignment.delete'') ''end_assignment'']"

definition timetable_routes :: "route list" where
  "timetable_routes =
     [Route ''POST'' [Lit ''timetables''] (Needs ''timetables.timetable.create'') ''create_timetable'',
      Route ''GET'' [Lit ''timetables''] (Needs ''timetables.timetable.list'') ''list_timetables'',
      Route ''GET'' [Lit ''timetables'', Param] (Needs ''timetables.timetable.read'') ''get_timetable'',
      Route ''PATCH'' [Lit ''timetables'', Param] (Needs ''timetables.timetable.update'') ''update_timetable'',
      Route ''POST'' [Lit ''timetables'', Param, Lit ''publish''] (Needs ''timetables.timetable.update'') ''publish_timetable'',
      Route ''POST'' [Lit ''timetables'', Param, Lit ''archive''] (Needs ''timetables.timetable.update'') ''archive_timetable'',
      Route ''GET'' [Lit ''period-definitions''] (Needs ''timetables.period.list'') ''list_period_definitions'',
      Route ''GET'' [Lit ''period-definitions'', Param] (Needs ''timetables.period.read'') ''get_period_definition'',
      Route ''POST'' [Lit ''period-definitions''] (Needs ''timetables.period.create'') ''create_period_definition'',
      Route ''PATCH'' [Lit ''period-definitions'', Param] (Needs ''timetables.period.update'') ''update_period_definition'',
      Route ''DELETE'' [Lit ''period-definitions'', Param] (Needs ''timetables.period.delete'') ''delete_period_definition'',
      Route ''GET'' [Lit ''timetable-slots''] (Needs ''timetables.slot.list'') ''list_timetable_slots'',
      Route ''GET'' [Lit ''timetable-slots'', Param] (Needs ''timetables.slot.read'') ''get_timetable_slot'',
      Route ''POST'' [Lit ''timetable-slots''] (Needs ''timetables.slot.create'') ''create_timetable_slot'',
      Route ''PATCH'' [Lit ''timetable-slots'', Param] (Needs ''timetables.slot.update'') ''update_timetable_slot'',
      Route ''DELETE'' [Lit ''timetable-slots'', Param] (Needs ''timetables.slot.delete'') ''cancel_timetable_slot'']"

definition attendance_routes :: "route list" where
  "attendance_routes =
     [Route ''GET'' [Lit ''attendance'', Lit ''today-summary''] (Needs ''attendance.session.list'') ''get_today_attendance_summary'',
      Route ''GET'' [Lit ''attendance-sessions''] (Needs ''attendance.session.list'') ''list_attendance_sessions'',
      Route ''GET'' [Lit ''attendance-sessions'', Param] (Needs ''attendance.session.read'') ''get_attendance_session'',
      Route ''POST'' [Lit ''attendance-sessions''] (Needs ''attendance.session.create'') ''create_attendance_session'',
      Route ''PATCH'' [Lit ''attendance-sessions'', Param] (Needs ''attendance.session.update'') ''update_attendance_session'',
      Route ''DELETE'' [Lit ''attendance-sessions'', Param] (Needs ''attendance.session.delete'') ''delete_attendance_session'',
      Route ''POST'' [Lit ''attendance-sessions'', Param, Lit ''submit''] (Needs ''attendance.session.submit'') ''submit_attendance_session'',
      Route ''POST'' [Lit ''attendance-sessions'', Param, Lit ''amend''] (Needs ''attendance.session.amend'') ''amend_attendance_session'',
      Route ''GET'' [Lit ''attendance-sessions'', Param, Lit ''records''] (Needs ''attendance.record.list'') ''list_attendance_records'',
      Route ''POST'' [Lit ''attendance-sessions'', Param, Lit ''bulk-update''] (Needs ''attendance.record.update'') ''bulk_update_records'',
      Route ''PATCH'' [Lit ''attendance-records'', Param] (Needs ''attendance.record.update'') ''update_attendance_record'']"

definition bulk_import_routes :: "route list" where
  "bulk_import_routes =
     [Route ''GET'' [Lit ''import-jobs''] (Needs ''bulk_import.import.list'') ''list_import_jobs'',
      Route ''GET'' [Lit ''import-jobs'', Param] (Needs ''bulk_import.import.read'') ''get_import_job'',
      Route ''POST'' [Lit ''import-jobs'', Lit ''upload''] (Needs ''bulk_import.import.create'') ''upload_import'',
      Route ''GET'' [Lit ''imports'', Lit ''template'', Param] (Needs ''bulk_import.import.read'') ''download_template'',
      Route ''GET'' [Lit ''exports'', Param] (Needs ''bulk_import.export.create'') ''export_records'']"

definition notification_routes :: "route list" where
  "notification_routes =
     [Route ''GET'' [Lit ''notifications''] (Needs ''notifications.notification.list'') ''list_notifications'',
      Route ''POST'' [Lit ''notifications'', Lit ''read-all''] (Needs ''notifications.notification.update'') ''mark_all_read'',
      Route ''POST'' [Lit ''notifications'', Param, Lit ''read''] (Needs ''notifications.notification.update'') ''mark_notification_read'',
      Route ''GET'' [Lit ''notifications'', Lit ''unread-count''] (Needs ''notifications.notification.list'') ''get_unread_count'']"

definition document_routes :: "route list" where
  "document_routes =
     [Route ''POST'' [Lit ''documents'', Lit ''upload-url''] (Needs ''documents.document.create'') ''request_upload_url'',
      Route ''POST'' [Lit ''documents'', Param, Lit ''confirm''] (Needs ''documents.document.create'') ''confirm_upload'',
      Route ''GET'' [Lit ''documents'', Param, Lit ''download-url''] (Needs ''documents.document.read'') ''get_download_url'',
      Route ''GET'' [Lit ''documents''] (Needs ''documents.document.list'') ''list_documents'',
      Route ''DELETE'' [Lit ''documents'', Param] (Needs ''documents.document.delete'') ''delete_document'']"

definition report_routes :: "route list" where
  "report_routes =
     [Route ''POST'' [Lit ''reports'', Lit ''export''] (Needs ''reports.export.create'') ''create_export'',
      Route ''GET'' [Lit ''reports'', Lit ''jobs''] (Needs ''reports.export.list'') ''list_export_jobs'',
      Route ''GET'' [Lit ''reports'', Lit ''jobs'', Param] (Needs ''reports.export.read'') ''get_export_job'',
      Route ''GET'' [Lit ''reports'', Lit ''jobs'', Param, Lit ''download''] (Needs ''reports.export.read'') ''download_export'']"

definition parent_routes :: "route list" where
  "parent_routes =
     [Route ''POST'' [Lit ''parents''] (Needs ''parents.parent.create'') ''create_parent'',
      Route ''GET'' [Lit ''parents''] (Needs ''parents.parent.list'') ''list_parents'',
      Route ''GET'' [Lit ''parents'', Param] (Needs ''parents.parent.read'') ''get_parent'',
      Route ''PATCH'' [Lit ''parents'', Param] (Needs ''parents.parent.update'') ''update_parent'',
      Route ''DELETE'' [Lit ''parents'', Param] (Needs ''parents.parent.delete'') ''delete_parent'',
      Route ''GET'' [Lit ''parents'', Param, Lit ''children''] (Needs ''parents.parent.read'') ''list_children'']"

definition student_parents_routes :: "route list" where
  "student_parents_routes =
     [Route ''GET'' [Lit ''students'', Param, Lit ''parents''] (Needs ''parents.parent.list'') ''list_parents_for_student'',
      Route ''POST'' [Lit ''students'', Param, Lit ''parents''] (Needs ''parents.student_parent.create'') ''link_parent_to_student'',
      Route ''DELETE'' [Lit ''student-parents'', Param] (Needs ''parents.student_parent.delete'') ''unlink_parent_from_student'']"

definition search_routes :: "route list" where
  "search_routes =
     [Route ''GET'' [Lit ''search''] SignedIn ''global_search'']"

definition api_routes :: "route list" where
  "api_routes = concat
     [auth_routes, audit_log_routes, stats_routes, outbox_routes, feature_flag_routes, organization_routes,
      school_routes, user_routes, membership_routes, role_routes, person_routes, address_routes,
      contact_routes, academic_year_routes, academic_term_routes, academic_class_routes, subject_routes,
      class_subject_routes, cohort_routes, student_routes, enrollment_routes, guardian_students_routes,
      guardian_routes, announcement_routes, teacher_routes, timetable_routes, attendance_routes,
      bulk_import_routes, notification_routes, document_routes, report_routes, parent_routes,
      student_parents_routes, search_routes]"

section \<open>Every guard is declared\<close>

text \<open>Comparisons that stop at the first difference.\<close>

fun same_text :: "string \<Rightarrow> string \<Rightarrow> bool" where
  "same_text [] [] = True"
| "same_text (x # xs) (y # ys) = (if x = y then same_text xs ys else False)"
| "same_text _ _ = False"

lemma same_text_iff [simp]: "same_text x y \<longleftrightarrow> x = y"
  by (induction x y rule: same_text.induct) auto

fun text_among :: "string \<Rightarrow> string list \<Rightarrow> bool" where
  "text_among x [] = False"
| "text_among x (y # ys) = (if same_text x y then True else text_among x ys)"

lemma text_among_iff [simp]: "text_among x ys \<longleftrightarrow> x \<in> set ys"
  by (induction ys) auto

fun guard_declared :: "string list \<Rightarrow> access \<Rightarrow> bool" where
  "guard_declared cs (Needs c) = text_among c cs"
| "guard_declared cs _ = True"

definition routes_declared :: "route list \<times> registration list \<Rightarrow> bool" where
  "routes_declared = (\<lambda>(rs, ds). list_all (\<lambda>r. guard_declared (List.map (path_code \<circ> call_path) ds) (rt_guard r)) rs)"

definition guarded_routers :: "(route list \<times> registration list) list" where
  "guarded_routers =
     [(auth_routes, []), (audit_log_routes, audit_log_declarations), (stats_routes, stats_declarations),
     (outbox_routes, outbox_declarations), (feature_flag_routes, feature_flag_declarations),
     (organization_routes, organization_declarations), (school_routes, school_declarations),
     (user_routes, user_declarations), (membership_routes, membership_declarations),
     (role_routes, role_declarations), (person_routes, person_declarations),
     (address_routes, address_declarations), (contact_routes, contact_declarations),
     (academic_year_routes, academic_year_declarations), (academic_term_routes, academic_term_declarations),
     (academic_class_routes, academic_class_declarations), (subject_routes, subject_declarations),
     (class_subject_routes, class_subject_declarations), (cohort_routes, cohort_declarations),
     (student_routes, student_declarations), (enrollment_routes, enrollment_declarations),
     (guardian_students_routes, guardian_declarations), (guardian_routes, guardian_declarations),
     (announcement_routes, announcement_declarations), (teacher_routes, teacher_declarations),
     (timetable_routes, timetable_declarations), (attendance_routes, attendance_declarations),
     (bulk_import_routes, bulk_import_declarations), (notification_routes, notification_declarations),
     (document_routes, document_declarations), (report_routes, report_declarations),
     (parent_routes, parent_declarations), (student_parents_routes, parent_declarations), (search_routes, [])]"

lemma api_declared: "list_all routes_declared guarded_routers"
  by code_simp

lemma guarded_api: "api_routes = concat (List.map fst guarded_routers)"
  by (simp only: api_routes_def guarded_routers_def list.map fst_conv)

lemma guarded_in_app: "list_all (\<lambda>(rs, ds). set ds \<subseteq> set app_declarations) guarded_routers"
  unfolding guarded_routers_def app_declarations_def
  by (simp only: list.pred_inject prod.case concat.simps set_append list.set(1) empty_subsetI simp_thms) blast

section \<open>No route hides a later one\<close>

text \<open>\<open>path_covers p q\<close>: every path of \<open>q\<close> whose parameters are no literals of \<open>p\<close> is a path of \<open>p\<close>.\<close>

fun path_covers :: "segment list \<Rightarrow> segment list \<Rightarrow> bool" where
  "path_covers [] [] = True"
| "path_covers (Lit x # p) (Lit y # q) = (if same_text x y then path_covers p q else False)"
| "path_covers (Param # p) (_ # q) = path_covers p q"
| "path_covers _ _ = False"

definition hides :: "route \<Rightarrow> route \<Rightarrow> bool" where
  "hides r q = (if path_covers (rt_path r) (rt_path q) then same_text (rt_method r) (rt_method q) else False)"

fun unhidden :: "route list \<Rightarrow> bool" where
  "unhidden [] = True"
| "unhidden (r # rs) = (list_all (\<lambda>q. \<not> hides r q) rs \<and> unhidden rs)"

text \<open>Routers whose paths begin with different words cannot hide each other's routes.\<close>

definition under_keys :: "string list \<Rightarrow> route list \<Rightarrow> bool" where
  "under_keys ks rs = list_all (\<lambda>r. case rt_path r of Lit x # _ \<Rightarrow> text_among x ks | _ \<Rightarrow> False) rs"

definition apart_routers :: "string list \<times> route list \<Rightarrow> string list \<times> route list \<Rightarrow> bool" where
  "apart_routers a b = (if list_all (\<lambda>k. \<not> text_among k (fst b)) (fst a) then True
     else list_all (\<lambda>r. list_all (\<lambda>q. \<not> hides r q) (snd b)) (snd a))"

fun unhidden_routers :: "(string list \<times> route list) list \<Rightarrow> bool" where
  "unhidden_routers [] = True"
| "unhidden_routers (a # as) = (under_keys (fst a) (snd a) \<and> unhidden (snd a) \<and> list_all (apart_routers a) as \<and> unhidden_routers as)"

definition router_keys :: "string list list" where
  "router_keys =
     [[''auth''], [''audit-logs''], [''platform''], [''platform''], [''platform''], [''organizations''],
      [''schools''], [''users''], [''memberships''], [''roles''], [''persons''], [''addresses''],
      [''contacts''], [''academic-years''], [''academic-terms''], [''academic-classes''], [''subjects''],
      [''class-subjects''], [''cohorts''], [''students''], [''enrollments''], [''students''],
      [''student-guardians''], [''announcements''], [''teachers'', ''teacher-assignments''],
      [''timetables'', ''period-definitions'', ''timetable-slots''],
      [''attendance'', ''attendance-sessions'', ''attendance-records''],
      [''import-jobs'', ''imports'', ''exports''], [''notifications''], [''documents''], [''reports''],
      [''parents''], [''students'', ''student-parents''], [''search'']]"

lemma api_routers_unhidden: "unhidden_routers (zip router_keys [auth_routes, audit_log_routes, stats_routes, outbox_routes, feature_flag_routes, organization_routes,
      school_routes, user_routes, membership_routes, role_routes, person_routes, address_routes,
      contact_routes, academic_year_routes, academic_term_routes, academic_class_routes, subject_routes,
      class_subject_routes, cohort_routes, student_routes, enrollment_routes, guardian_students_routes,
      guardian_routes, announcement_routes, teacher_routes, timetable_routes, attendance_routes,
      bulk_import_routes, notification_routes, document_routes, report_routes, parent_routes,
      student_parents_routes, search_routes])"
  by code_simp

lemma unhidden_append:
  "unhidden xs \<Longrightarrow> unhidden ys \<Longrightarrow> (\<And>r q. r \<in> set xs \<Longrightarrow> q \<in> set ys \<Longrightarrow> \<not> hides r q) \<Longrightarrow> unhidden (xs @ ys)"
  by (induction xs) (auto simp: list_all_iff)

lemma under_keysE:
  assumes "under_keys ks rs" "r \<in> set rs"
  obtains x p where "rt_path r = Lit x # p" "x \<in> set ks"
  using assms unfolding under_keys_def list_all_iff by (fastforce split: list.splits segment.splits)

lemma apart_routers_hides:
  assumes "apart_routers a b" "under_keys (fst a) (snd a)" "under_keys (fst b) (snd b)" "r \<in> set (snd a)" "q \<in> set (snd b)"
  shows "\<not> hides r q"
proof (cases "list_all (\<lambda>k. \<not> text_among k (fst b)) (fst a)")
  case True
  obtain x p y p' where "rt_path r = Lit x # p" "x \<in> set (fst a)" "rt_path q = Lit y # p'" "y \<in> set (fst b)"
    using under_keysE[OF assms(2,4)] under_keysE[OF assms(3,5)] by metis
  with True show ?thesis by (auto simp: hides_def list_all_iff)
next
  case False
  have "list_all (\<lambda>r. list_all (\<lambda>q. \<not> hides r q) (snd b)) (snd a)"
    using assms(1) unfolding apart_routers_def if_not_P[OF False] .
  with assms(4,5) show ?thesis by (simp add: list_all_iff)
qed

lemma unhidden_concat: "unhidden_routers as \<Longrightarrow> unhidden (concat (List.map snd as))"
proof (induction as)
  case (Cons a as)
  have "\<not> hides r q" if r: "r \<in> set (snd a)" and q: "q \<in> set (concat (List.map snd as))" for r q
  proof -
    obtain b where b: "b \<in> set as" "q \<in> set (snd b)" using q by auto
    have "under_keys (fst b) (snd b)" using Cons.prems b(1) by (induction as) auto
    with Cons.prems b r show ?thesis using apart_routers_hides by (fastforce simp: list_all_iff)
  qed
  then show ?case using Cons by (auto intro!: unhidden_append simp del: set_concat)
qed simp

lemma unhidden_keys: "unhidden_routers as \<Longrightarrow> r \<in> set (concat (List.map snd as)) \<Longrightarrow> \<exists>x p. rt_path r = Lit x # p"
  by (induction as) (auto elim!: under_keysE)

lemma router_lists: "List.map snd (zip router_keys [auth_routes, audit_log_routes, stats_routes, outbox_routes, feature_flag_routes, organization_routes,
      school_routes, user_routes, membership_routes, role_routes, person_routes, address_routes,
      contact_routes, academic_year_routes, academic_term_routes, academic_class_routes, subject_routes,
      class_subject_routes, cohort_routes, student_routes, enrollment_routes, guardian_students_routes,
      guardian_routes, announcement_routes, teacher_routes, timetable_routes, attendance_routes,
      bulk_import_routes, notification_routes, document_routes, report_routes, parent_routes,
      student_parents_routes, search_routes]) =
    [auth_routes, audit_log_routes, stats_routes, outbox_routes, feature_flag_routes, organization_routes,
      school_routes, user_routes, membership_routes, role_routes, person_routes, address_routes,
      contact_routes, academic_year_routes, academic_term_routes, academic_class_routes, subject_routes,
      class_subject_routes, cohort_routes, student_routes, enrollment_routes, guardian_students_routes,
      guardian_routes, announcement_routes, teacher_routes, timetable_routes, attendance_routes,
      bulk_import_routes, notification_routes, document_routes, report_routes, parent_routes,
      student_parents_routes, search_routes]"
  by (simp add: router_keys_def)

lemma api_unhidden: "unhidden api_routes"
  using unhidden_concat[OF api_routers_unhidden] unfolding router_lists api_routes_def .

lemma api_first_word: "r \<in> set api_routes \<Longrightarrow> \<exists>x p. rt_path r = Lit x # p"
  using unhidden_keys[OF api_routers_unhidden] unfolding router_lists api_routes_def .

text \<open>The words of the paths after the first, and the paths a route stands for.\<close>

fun words :: "segment list \<Rightarrow> string list" where
  "words [] = []"
| "words (Lit x # p) = x # words p"
| "words (Param # p) = words p"

definition inner_words :: "string list" where
  "inner_words = concat (List.map (\<lambda>r. words (tl (rt_path r))) api_routes)"

fun stands_for :: "segment list \<Rightarrow> string list \<Rightarrow> bool" where
  "stands_for [] [] = True"
| "stands_for (Lit x # p) (y # ys) = (x = y \<and> stands_for p ys)"
| "stands_for (Param # p) (y # ys) = (y \<noteq> [] \<and> y \<notin> set inner_words \<and> stands_for p ys)"
| "stands_for _ _ = False"

lemma stands_for_matches: "stands_for p ys \<Longrightarrow> path_matches p ys"
  by (induction p ys rule: stands_for.induct) auto

lemma path_covers_tail: "path_matches p ys \<Longrightarrow> stands_for q ys \<Longrightarrow> set (words p) \<subseteq> set inner_words \<Longrightarrow> path_covers p q"
proof (induction p ys arbitrary: q rule: path_matches.induct)
  case (2 x p y ys)
  from 2 show ?case by (cases q; cases "hd q") auto
next
  case (3 p y ys)
  from 3 show ?case by (cases q; cases "hd q") auto
qed (auto elim: stands_for.elims)

lemma route_hides:
  assumes "e \<in> set api_routes" "r \<in> set api_routes" "path_matches (rt_path e) ys" "stands_for (rt_path r) ys"
    and "rt_method e = rt_method r"
  shows "hides e r"
proof -
  obtain x p y q where p: "rt_path e = Lit x # p" and q: "rt_path r = Lit y # q"
    using api_first_word assms(1,2) by metis
  have "set (words (tl (rt_path e))) \<subseteq> set inner_words" using assms(1) by (auto simp: inner_words_def)
  then have "set (words p) \<subseteq> set inner_words" by (simp add: p)
  moreover obtain zs where "ys = y # zs" "x = y" "path_matches p zs" "stands_for q zs"
    using assms(3,4) by (cases ys) (auto simp: p q)
  ultimately have "path_covers (rt_path e) (rt_path r)" using path_covers_tail by (simp add: p q)
  with assms(5) show ?thesis by (simp add: hides_def)
qed

lemma find_unhidden:
  "unhidden rs \<Longrightarrow> r \<in> set rs \<Longrightarrow> P r \<Longrightarrow> (\<And>e. e \<in> set rs \<Longrightarrow> P e \<Longrightarrow> hides e r) \<Longrightarrow> find P rs = Some r"
proof (induction rs)
  case (Cons a rs)
  show ?case
  proof (cases "P a")
    case True
    then have "a = r" using Cons.prems by (auto simp: list_all_iff)
    with True show ?thesis by simp
  next
    case False
    then show ?thesis using Cons by auto
  qed
qed simp

lemma route_found:
  assumes "r \<in> set api_routes" "stands_for (rt_path r) ys"
  shows "dispatch api_routes (rt_method r) ys = Found r"
proof -
  have "find (\<lambda>e. path_matches (rt_path e) ys \<and> rt_method e = rt_method r) api_routes = Some r"
    by (rule find_unhidden[OF api_unhidden assms(1)]) (use assms route_hides stands_for_matches in blast)+
  then show ?thesis by (simp add: dispatch_def)
qed

lemma dispatch_FoundD:
  "dispatch rs m ys = Found r \<Longrightarrow> r \<in> set rs \<and> rt_method r = m \<and> path_matches (rt_path r) ys"
  using find_SomeD[of "\<lambda>e. path_matches (rt_path e) ys \<and> rt_method e = m" rs r]
  by (auto simp: dispatch_def split: option.splits if_splits)

section \<open>Who reaches what\<close>

fun is_needs :: "access \<Rightarrow> bool" where
  "is_needs (Needs _) = True"
| "is_needs _ = False"

definition open_routes :: "route list" where
  "open_routes =
     [Route ''POST'' [Lit ''auth'', Lit ''login''] Public ''login'',
      Route ''POST'' [Lit ''auth'', Lit ''refresh''] Public ''refresh'',
      Route ''POST'' [Lit ''auth'', Lit ''logout''] SignedIn ''logout'',
      Route ''POST'' [Lit ''auth'', Lit ''password-reset''] Public ''request_password_reset'',
      Route ''POST'' [Lit ''auth'', Lit ''password-reset'', Lit ''confirm''] Public ''confirm_password_reset'',
      Route ''POST'' [Lit ''auth'', Lit ''password'', Lit ''change''] SignedIn ''change_password'',
      Route ''GET'' [Lit ''auth'', Lit ''me''] SignedIn ''me'',
      Route ''GET'' [Lit ''search''] SignedIn ''global_search'']"

lemma api_open: "filter (\<lambda>r. \<not> is_needs (rt_guard r)) api_routes = open_routes"
  by code_simp

lemma api_codes: "r \<in> set api_routes \<Longrightarrow> rt_guard r = Needs c \<Longrightarrow> c \<in> (path_code \<circ> call_path) ` set app_declarations"
proof -
  assume r: "r \<in> set api_routes" "rt_guard r = Needs c"
  then obtain rs ds where g: "(rs, ds) \<in> set guarded_routers" "r \<in> set rs" unfolding guarded_api by force
  have "routes_declared (rs, ds)" using api_declared g(1) unfolding list_all_iff by blast
  then have "c \<in> (path_code \<circ> call_path) ` set ds" using g(2) r(2) by (fastforce simp: routes_declared_def list_all_iff)
  moreover have "set ds \<subseteq> set app_declarations" using guarded_in_app g(1) unfolding list_all_iff by blast
  ultimately show ?thesis by blast
qed

section \<open>Properties\<close>

text \<open>
  C29. The application assembles: all declarations of permissions register, every code is well formed and
  registered once, and every guard of a route names a permission of that registry, so that no import fails
  and no route asks for a permission that nobody can hold.
\<close>

theorem every_guard_is_registered:
  "\<exists>reg. declare_all app_declarations [] = Inr reg \<and> validate_all reg = Inr () \<and> distinct (List.map fst reg) \<and>
     (\<forall>r \<in> set api_routes. \<forall>c. rt_guard r = Needs c \<longrightarrow> is_ok (require_registered reg c))"
proof -
  let ?reg = "registry_of app_declarations"
  have ok: "registry_ok ?reg" using reachable_registry_ok[OF declare_all_reaches[OF reg_empty script_registries(3)]] .
  then have "validate_all ?reg = Inr ()" "distinct (List.map fst ?reg)"
    by (auto simp: registry_ok_def validate_all_def list_all_iff)
  moreover have "is_ok (require_registered ?reg c)" if "r \<in> set api_routes" "rt_guard r = Needs c" for r c
  proof -
    have "c \<in> fst ` set ?reg" using api_codes[OF that] by (force simp: registry_of_def declared_entry_def)
    then obtain p where "map_of ?reg c = Some p" by (meson not_None_eq map_of_eq_None_iff)
    then show ?thesis by (simp add: require_registered_def ok_or_def is_ok_def)
  qed
  ultimately show ?thesis using script_registries(3) by blast
qed

lemma every_guard_is_registered_witness:
  "is_ok (require_registered (registry_of app_declarations) ''academic.academic_year.list'')"
proof -
  have "Route ''GET'' [Lit ''academic-years''] (Needs ''academic.academic_year.list'') ''list_academic_years'' \<in> set api_routes"
    by (simp add: api_routes_def academic_year_routes_def)
  then show ?thesis using every_guard_is_registered script_registries(3) by fastforce
qed

text \<open>
  C31. The path of a route, with any non-empty values in the place of its parameters, reaches that route and no
  other, as long as the values are none of the words that stand inside of paths (\<open>counts\<close>, \<open>feed\<close>, \<open>unread-count\<close> and
  the like), which no identifier is.
\<close>

theorem paths_reach_their_route:
  assumes "r \<in> set api_routes" and "stands_for (rt_path r) path"
  shows "dispatch api_routes (rt_method r) path = Found r"
  using assms by (rule route_found)

lemma paths_reach_their_route_witness:
  "\<exists>r. rt_handler r = ''get_academic_year'' \<and>
    dispatch api_routes ''GET'' [''academic-years'', ''01ARZ3NDEKTSV4RRFFQ69G5FAV''] = Found r"
proof -
  let ?r = "Route ''GET'' [Lit ''academic-years'', Param] (Needs ''academic.academic_year.read'') ''get_academic_year''"
  have r: "?r \<in> set api_routes" by (simp add: api_routes_def academic_year_routes_def)
  have "list_all (\<lambda>w. \<not> same_text ''01ARZ3NDEKTSV4RRFFQ69G5FAV'' w) inner_words" by code_simp
  then have "stands_for (rt_path ?r) [''academic-years'', ''01ARZ3NDEKTSV4RRFFQ69G5FAV'']"
    unfolding list_all_iff by auto
  then show ?thesis using paths_reach_their_route[OF r] by auto
qed

text \<open>The paths that need no permission.\<close>

definition public_paths :: "(string \<times> string list) list" where
  "public_paths =
     [(''POST'', [''auth'', ''login'']), (''POST'', [''auth'', ''refresh'']), (''POST'', [''auth'', ''password-reset'']),
      (''POST'', [''auth'', ''password-reset'', ''confirm''])]"

definition account_paths :: "(string \<times> string list) list" where
  "account_paths =
     [(''POST'', [''auth'', ''logout'']), (''POST'', [''auth'', ''password'', ''change'']), (''GET'', [''auth'', ''me'']),
      (''GET'', [''search''])]"

lemma open_routes_in: "r \<in> set open_routes \<Longrightarrow> r \<in> set api_routes \<and> \<not> is_needs (rt_guard r)"
  unfolding api_open[symmetric] by simp

lemma open_routeI: "r \<in> set api_routes \<Longrightarrow> \<not> is_needs (rt_guard r) \<Longrightarrow> r \<in> set open_routes"
  unfolding api_open[symmetric] by simp

lemma open_route_found: "r \<in> set open_routes \<Longrightarrow> stands_for (rt_path r) path \<Longrightarrow> dispatch api_routes (rt_method r) path = Found r"
  using route_found open_routes_in by blast

lemma public_path_guard:
  assumes "(m, path) \<in> set public_paths" "dispatch api_routes m path = Found r"
  shows "rt_guard r = Public"
proof -
  have "\<exists>q \<in> set open_routes. rt_method q = m \<and> stands_for (rt_path q) path \<and> rt_guard q = Public"
    using assms(1) unfolding public_paths_def open_routes_def by auto
  then show ?thesis using open_route_found assms(2) by fastforce
qed

lemma account_path_guard:
  assumes "(m, path) \<in> set account_paths" "dispatch api_routes m path = Found r"
  shows "rt_guard r = SignedIn"
proof -
  have "\<exists>q \<in> set open_routes. rt_method q = m \<and> stands_for (rt_path q) path \<and> rt_guard q = SignedIn"
    using assms(1) unfolding account_paths_def open_routes_def by auto
  then show ?thesis using open_route_found assms(2) by fastforce
qed

lemma path_matches_Nil: "path_matches [] ys \<longleftrightarrow> ys = []"
  by (cases ys) auto

lemma path_matches_Lit: "path_matches (Lit x # p) ys \<longleftrightarrow> (\<exists>zs. ys = x # zs \<and> path_matches p zs)"
  by (cases ys) auto

lemma open_guard_path:
  assumes "r \<in> set open_routes" "path_matches (rt_path r) path"
  shows "(if rt_guard r = Public then (rt_method r, path) \<in> set public_paths else (rt_method r, path) \<in> set account_paths)"
  using assms unfolding open_routes_def public_paths_def account_paths_def
  by (auto simp: path_matches_Nil path_matches_Lit)



end
