(* ===== verification/Ddl.thy ===== *)
theory Ddl
  imports Rls "HOL-Library.AList"
begin

text \<open>
  The operations of a migration (\<open>alembic/versions\<close>) and what PostgreSQL does with them: the catalog of
  tables with their columns, constraints, indexes, policies and triggers, and one step per operation.
  Types, defaults, predicates and expressions are kept as they are written; their text is not analysed.
\<close>

section \<open>Columns, constraints and indexes\<close>

datatype column_type =
    Varchar nat
  | TextType
  | DateType
  | TimeType
  | Timestamptz
  | IntegerType
  | SmallInt
  | BigInt
  | BooleanType
  | Numeric nat nat
  | Jsonb
  | JsonType

datatype nullability = NULLABLE | NOT_NULL

text \<open>\<open>server_default\<close>: none, a literal, or an SQL expression.\<close>

datatype server_default = NoDefault | Literal string | Sql string

datatype column = Col (col_name: string) (col_type: column_type) (col_null: nullability) (col_default: server_default)

text \<open>The condition of a check: one value out of a list, or any other text.\<close>

datatype check_condition = InList string "string list" | Condition string

datatype constraint =
    PrimaryKey string "string list"
  | Unique string bool "string list"
  | Check string check_condition
  | ForeignKey string "string list" string "string list" string

fun constraint_name :: "constraint \<Rightarrow> string" where
  "constraint_name (PrimaryKey n _) = n"
| "constraint_name (Unique n _ _) = n"
| "constraint_name (Check n _) = n"
| "constraint_name (ForeignKey n _ _ _ _) = n"

fun constraint_columns :: "constraint \<Rightarrow> string list" where
  "constraint_columns (PrimaryKey _ cs) = cs"
| "constraint_columns (Unique _ _ cs) = cs"
| "constraint_columns (Check _ _) = []"
| "constraint_columns (ForeignKey _ cs _ _ _) = cs"

text \<open>Keys and unique constraints have an index of their name, which is a relation like a table.\<close>

fun own_relation :: "constraint \<Rightarrow> string list" where
  "own_relation (PrimaryKey n _) = [n]"
| "own_relation (Unique n _ _) = [n]"
| "own_relation _ = []"

datatype index_key = Key string | Expr string

datatype index = Index (ix_name: string) (ix_unique: bool) (ix_method: string) (ix_keys: "index_key list") (ix_where: "check_condition option")

definition quoted :: "string \<Rightarrow> string" where
  "quoted x = sq @ x @ sq"

definition empty_json :: server_default where
  "empty_json = Sql (quoted ''{}'' @ ''::jsonb'')"

section \<open>Operations\<close>

datatype ddl =
    CreateTable string "column list" "constraint list"
  | DropTable string
  | AddColumn string column
  | DropColumn string string
  | AddConstraint string constraint
  | DropConstraint bool string string
  | CreateIndex bool bool string index
  | DropIndex bool string
  | Policy statement
  | RestrictivePolicy string string
  | CreateExtension string
  | CreateFunction string
  | DropFunction string
  | CreateTrigger string string string
  | DropTrigger string string

section \<open>The catalog\<close>

record table =
  tb_columns :: "column list"
  tb_constraints :: "constraint list"
  tb_indexes :: "index list"
  tb_security :: table_security
  tb_restrictive :: "string list"
  tb_triggers :: "(string \<times> string) list"

record catalog =
  cat_tables :: "(string \<times> table) list"
  cat_extensions :: "string list"
  cat_functions :: "string list"

definition empty_catalog :: catalog where
  "empty_catalog = \<lparr>cat_tables = [], cat_extensions = [], cat_functions = []\<rparr>"

definition new_table :: "column list \<Rightarrow> table" where
  "new_table cols = \<lparr>tb_columns = cols, tb_constraints = [], tb_indexes = [],
     tb_security = \<lparr>ts_enabled = False, ts_forced = False, ts_policies = []\<rparr>, tb_restrictive = [], tb_triggers = []\<rparr>"

definition table_at :: "catalog \<Rightarrow> string \<Rightarrow> table option" where
  "table_at c t = map_of (cat_tables c) t"

definition put_table :: "string \<Rightarrow> table \<Rightarrow> catalog \<Rightarrow> catalog" where
  "put_table t x c = c\<lparr>cat_tables := AList.update t x (cat_tables c)\<rparr>"

definition on_table :: "string \<Rightarrow> (table \<Rightarrow> table result) \<Rightarrow> catalog \<Rightarrow> catalog result" where
  "on_table t f c = bind_ok (ok_or (PyError ''UndefinedTable'') (table_at c t)) (\<lambda>x.
     bind_ok (f x) (\<lambda>x. Inr (put_table t x c)))"

definition relations_of :: "string \<times> table \<Rightarrow> string list" where
  "relations_of = (\<lambda>(t, x). t # concat (List.map own_relation (tb_constraints x)) @ List.map ix_name (tb_indexes x))"

definition relations :: "catalog \<Rightarrow> string list" where
  "relations c = concat (List.map relations_of (cat_tables c))"

definition has_columns :: "table \<Rightarrow> string list \<Rightarrow> bool" where
  "has_columns x cs \<longleftrightarrow> set cs \<subseteq> set (List.map col_name (tb_columns x))"

text \<open>A foreign key needs its table and the columns it names.\<close>

fun target_exists :: "catalog \<Rightarrow> constraint \<Rightarrow> unit result" where
  "target_exists c (ForeignKey _ _ t cs _) = (case table_at c t of
     None \<Rightarrow> Inl (PyError ''UndefinedTable'')
   | Some x \<Rightarrow> if has_columns x cs then Inr () else Inl (PyError ''UndefinedColumn''))"
| "target_exists c _ = Inr ()"

definition add_constraint :: "string \<Rightarrow> constraint \<Rightarrow> catalog \<Rightarrow> catalog result" where
  "add_constraint t k c = on_table t (\<lambda>x.
     if \<not> has_columns x (constraint_columns k) then Inl (PyError ''UndefinedColumn'')
     else bind_ok (target_exists c k) (\<lambda>_.
       if constraint_name k \<in> set (List.map constraint_name (tb_constraints x)) \<or> set (own_relation k) \<inter> set (relations c) \<noteq> {}
       then Inl (PyError ''DuplicateObject'')
       else Inr (x\<lparr>tb_constraints := tb_constraints x @ [k]\<rparr>))) c"

fun add_constraints :: "string \<Rightarrow> constraint list \<Rightarrow> catalog \<Rightarrow> catalog result" where
  "add_constraints t [] c = Inr c"
| "add_constraints t (k # ks) c = bind_ok (add_constraint t k c) (add_constraints t ks)"

definition create_table :: "string \<Rightarrow> column list \<Rightarrow> constraint list \<Rightarrow> catalog \<Rightarrow> catalog result" where
  "create_table t cols ks c =
     (if t \<in> set (relations c) then Inl (PyError ''DuplicateTable'')
      else add_constraints t ks (c\<lparr>cat_tables := cat_tables c @ [(t, new_table cols)]\<rparr>))"

fun refers_to :: "string \<Rightarrow> constraint \<Rightarrow> bool" where
  "refers_to t (ForeignKey _ _ u _ _) = (u = t)"
| "refers_to t _ = False"

definition referenced :: "catalog \<Rightarrow> string \<Rightarrow> bool" where
  "referenced c t \<longleftrightarrow> list_ex (\<lambda>(u, x). u \<noteq> t \<and> list_ex (refers_to t) (tb_constraints x)) (cat_tables c)"

definition drop_table :: "string \<Rightarrow> catalog \<Rightarrow> catalog result" where
  "drop_table t c =
     (if table_at c t = None then Inl (PyError ''UndefinedTable'')
      else if referenced c t then Inl (PyError ''DependentObjectsStillExist'')
      else Inr (c\<lparr>cat_tables := filter (\<lambda>(u, _). u \<noteq> t) (cat_tables c)\<rparr>))"

fun key_columns :: "index_key list \<Rightarrow> string list" where
  "key_columns [] = []"
| "key_columns (Key k # ks) = k # key_columns ks"
| "key_columns (Expr _ # ks) = key_columns ks"

text \<open>A migration runs inside of a transaction, where no index can be built concurrently.\<close>

definition create_index :: "bool \<Rightarrow> bool \<Rightarrow> string \<Rightarrow> index \<Rightarrow> catalog \<Rightarrow> catalog result" where
  "create_index concurrently if_not_exists t i c =
     (if concurrently then Inl (PyError ''ActiveSqlTransaction'')
      else on_table t (\<lambda>x.
        if ix_name i \<in> set (relations c) then (if if_not_exists then Inr x else Inl (PyError ''DuplicateTable''))
        else if \<not> has_columns x (key_columns (ix_keys i)) then Inl (PyError ''UndefinedColumn'')
        else Inr (x\<lparr>tb_indexes := tb_indexes x @ [i]\<rparr>)) c)"

definition drop_index :: "bool \<Rightarrow> string \<Rightarrow> catalog \<Rightarrow> catalog result" where
  "drop_index if_exists n c =
     (if \<not> if_exists \<and> \<not> list_ex (\<lambda>(_, x). n \<in> set (List.map ix_name (tb_indexes x))) (cat_tables c)
      then Inl (PyError ''UndefinedObject'')
      else Inr (c\<lparr>cat_tables := List.map (\<lambda>(t, x).
        (t, x\<lparr>tb_indexes := filter (\<lambda>i. ix_name i \<noteq> n) (tb_indexes x)\<rparr>)) (cat_tables c)\<rparr>))"

text \<open>A column takes the indexes and constraints with it that name it.\<close>

definition drop_column :: "string \<Rightarrow> table \<Rightarrow> table result" where
  "drop_column k x =
     (if k \<notin> set (List.map col_name (tb_columns x)) then Inl (PyError ''UndefinedColumn'')
      else Inr (x\<lparr>tb_columns := filter (\<lambda>y. col_name y \<noteq> k) (tb_columns x),
        tb_constraints := filter (\<lambda>y. k \<notin> set (constraint_columns y)) (tb_constraints x),
        tb_indexes := filter (\<lambda>i. k \<notin> set (key_columns (ix_keys i))) (tb_indexes x)\<rparr>))"

definition drop_constraint :: "bool \<Rightarrow> string \<Rightarrow> table \<Rightarrow> table result" where
  "drop_constraint if_exists n x =
     (if \<not> if_exists \<and> n \<notin> set (List.map constraint_name (tb_constraints x)) then Inl (PyError ''UndefinedObject'')
      else Inr (x\<lparr>tb_constraints := filter (\<lambda>y. constraint_name y \<noteq> n) (tb_constraints x)\<rparr>))"

fun statement_table :: "statement \<Rightarrow> string" where
  "statement_table (EnableRls t) = t"
| "statement_table (ForceRls t) = t"
| "statement_table (DropPolicy _ t) = t"
| "statement_table (CreatePolicy _ t _) = t"
| "statement_table (NoForceRls t) = t"
| "statement_table (DisableRls t) = t"

fun is_drop_policy :: "statement \<Rightarrow> bool" where
  "is_drop_policy (DropPolicy _ _) = True"
| "is_drop_policy _ = False"

text \<open>
  The statements of a policy, on a table that exists. \<open>DROP POLICY IF EXISTS\<close> passes over a missing table; a
  policy of either kind keeps its name from the other.
\<close>

fun policy_step :: "statement \<Rightarrow> table \<Rightarrow> table result" where
  "policy_step (CreatePolicy p t q) x =
     (if p \<in> set (tb_restrictive x) then Inl (PyError ''DuplicateObject'')
      else bind_ok (run_statement t (CreatePolicy p t q) (tb_security x)) (\<lambda>sec. Inr (x\<lparr>tb_security := sec\<rparr>)))"
| "policy_step (DropPolicy p t) x =
     bind_ok (run_statement t (DropPolicy p t) (tb_security x)) (\<lambda>sec.
       Inr (x\<lparr>tb_security := sec, tb_restrictive := filter (\<lambda>r. r \<noteq> p) (tb_restrictive x)\<rparr>))"
| "policy_step st x = bind_ok (run_statement (statement_table st) st (tb_security x)) (\<lambda>sec. Inr (x\<lparr>tb_security := sec\<rparr>))"

fun run_ddl :: "ddl \<Rightarrow> catalog \<Rightarrow> catalog result" where
  "run_ddl (CreateTable t cols ks) c = create_table t cols ks c"
| "run_ddl (DropTable t) c = drop_table t c"
| "run_ddl (AddColumn t k) c = on_table t (\<lambda>x.
     if col_name k \<in> set (List.map col_name (tb_columns x)) then Inl (PyError ''DuplicateColumn'')
     else Inr (x\<lparr>tb_columns := tb_columns x @ [k]\<rparr>)) c"
| "run_ddl (DropColumn t k) c = on_table t (drop_column k) c"
| "run_ddl (AddConstraint t k) c = add_constraint t k c"
| "run_ddl (DropConstraint if_exists t n) c = on_table t (drop_constraint if_exists n) c"
| "run_ddl (CreateIndex concurrently if_not_exists t i) c = create_index concurrently if_not_exists t i c"
| "run_ddl (DropIndex if_exists n) c = drop_index if_exists n c"
| "run_ddl (Policy st) c =
     (if is_drop_policy st \<and> table_at c (statement_table st) = None then Inr c
      else on_table (statement_table st) (policy_step st) c)"
| "run_ddl (RestrictivePolicy p t) c = on_table t (\<lambda>x.
     if p \<in> fst ` set (ts_policies (tb_security x)) \<or> p \<in> set (tb_restrictive x) then Inl (PyError ''DuplicateObject'')
     else Inr (x\<lparr>tb_restrictive := tb_restrictive x @ [p]\<rparr>)) c"
| "run_ddl (CreateExtension n) c = Inr (c\<lparr>cat_extensions := List.insert n (cat_extensions c)\<rparr>)"
| "run_ddl (CreateFunction n) c = Inr (c\<lparr>cat_functions := List.insert n (cat_functions c)\<rparr>)"
| "run_ddl (DropFunction n) c =
     (if list_ex (\<lambda>(_, x). n \<in> snd ` set (tb_triggers x)) (cat_tables c) then Inl (PyError ''DependentObjectsStillExist'')
      else Inr (c\<lparr>cat_functions := removeAll n (cat_functions c)\<rparr>))"
| "run_ddl (CreateTrigger n t f) c =
     (if f \<notin> set (cat_functions c) then Inl (PyError ''UndefinedFunction'')
      else on_table t (\<lambda>x. if n \<in> fst ` set (tb_triggers x) then Inl (PyError ''DuplicateObject'')
        else Inr (x\<lparr>tb_triggers := tb_triggers x @ [(n, f)]\<rparr>)) c)"
| "run_ddl (DropTrigger n t) c =
     (if table_at c t = None then Inr c
      else on_table t (\<lambda>x. Inr (x\<lparr>tb_triggers := filter (\<lambda>(m, _). m \<noteq> n) (tb_triggers x)\<rparr>)) c)"

fun run_ddls :: "ddl list \<Rightarrow> catalog \<Rightarrow> catalog result" where
  "run_ddls [] c = Inr c"
| "run_ddls (d # ds) c = bind_ok (run_ddl d c) (run_ddls ds)"

text \<open>\<open>for table in tables: for statement in f(table): op.execute(statement)\<close>.\<close>

definition execute_each :: "(string \<Rightarrow> statement list) \<Rightarrow> string list \<Rightarrow> ddl list" where
  "execute_each f ts = concat (List.map (\<lambda>t. List.map Policy (f t)) ts)"

section \<open>Migrations\<close>

record migration =
  mg_revision :: string
  mg_down_revision :: "string option"
  mg_upgrade :: "ddl list"
  mg_downgrade :: "ddl list"

text \<open>A database: the revision in \<open>alembic_version\<close> and the catalog.\<close>

type_synonym versioned = "string option \<times> catalog"

fun after_revision :: "string \<Rightarrow> migration list \<Rightarrow> migration list" where
  "after_revision r [] = []"
| "after_revision r (m # ms) = (if mg_revision m = r then ms else after_revision r ms)"

definition pending :: "migration list \<Rightarrow> string option \<Rightarrow> migration list" where
  "pending ms v = (case v of None \<Rightarrow> ms | Some r \<Rightarrow> after_revision r ms)"

fun upgrade_through :: "migration list \<Rightarrow> versioned \<Rightarrow> versioned result" where
  "upgrade_through [] db = Inr db"
| "upgrade_through (m # ms) db =
     bind_ok (run_ddls (mg_upgrade m) (snd db)) (\<lambda>c. upgrade_through ms (Some (mg_revision m), c))"

text \<open>
  \<open>run_migrations\<close> inside of \<open>context.begin_transaction()\<close>: one transaction for all the pending migrations, so
  the database has all of them afterwards or is what it was.
\<close>

definition upgrade_head :: "migration list \<Rightarrow> versioned \<Rightarrow> unit result \<times> versioned" where
  "upgrade_head ms db = (case upgrade_through (pending ms (fst db)) db of
     Inl e \<Rightarrow> (Inl e, db)
   | Inr db' \<Rightarrow> (Inr (), db'))"

section \<open>Tables by their operation\<close>

fun table_named :: "ddl \<Rightarrow> string option" where
  "table_named (CreateTable t _ _) = Some t"
| "table_named _ = None"

text \<open>A table of a school: its column \<open>school_id\<close> is never NULL.\<close>

definition of_a_school :: "column list \<Rightarrow> bool" where
  "of_a_school cols = list_ex (\<lambda>k. if col_name k = ''school_id'' then col_null k = NOT_NULL else False) cols"

fun school_table :: "ddl \<Rightarrow> bool" where
  "school_table (CreateTable _ cols _) = of_a_school cols"
| "school_table _ = False"

end
