(* ===== verification/MigrationsCore.thy ===== *)
theory MigrationsCore
  imports Ddl
begin

text \<open>
  The migrations 0001 to 0009: accounts, people, platform tables, the rebuilt policies and the academic tables.
  The first sets up database roles only, which are no part of the catalog.
\<close>

section \<open>0001_db_roles_and_rls_setup\<close>

definition upgrade_0001 :: "ddl list" where
  "upgrade_0001 =
     []"

definition downgrade_0001 :: "ddl list" where
  "downgrade_0001 =
     []"

definition migration_0001 :: migration where
  "migration_0001 =
     \<lparr>mg_revision = ''0001_db_roles_and_rls_setup'', mg_down_revision = None, mg_upgrade = upgrade_0001, mg_downgrade = downgrade_0001\<rparr>"

section \<open>0002_iam_core\<close>

definition created_0002 :: "string list" where
  "created_0002 =
     [''organizations'', ''schools'', ''users'', ''permissions'', ''roles'', ''role_permissions'',
      ''memberships'', ''membership_roles'']"

definition rls_org_0002 :: "string list" where
  "rls_org_0002 =
     filter (\<lambda>t. t \<in> set created_0002) org_scoped_tables"

definition rls_self_org_0002 :: "string list" where
  "rls_self_org_0002 =
     filter (\<lambda>t. t \<in> set created_0002) self_org_tables"

definition organizations_table :: ddl where
  "organizations_table =
     CreateTable ''organizations''
     [Col ''code'' (Varchar 40) NOT_NULL NoDefault,
      Col ''name'' (Varchar 200) NOT_NULL NoDefault,
      Col ''legal_name'' (Varchar 250) NULLABLE NoDefault,
      Col ''status'' (Varchar 32) NOT_NULL (Literal ''TRIAL''),
      Col ''timezone'' (Varchar 64) NOT_NULL (Literal ''Asia/Kolkata''),
      Col ''locale'' (Varchar 16) NOT_NULL (Literal ''en-IN''),
      Col ''contact_email'' (Varchar 255) NULLABLE NoDefault,
      Col ''contact_phone'' (Varchar 24) NULLABLE NoDefault,
      Col ''plan_code'' (Varchar 40) NOT_NULL (Literal ''foundation''),
      Col ''entitlements'' Jsonb NOT_NULL empty_json,
      Col ''settings'' Jsonb NOT_NULL empty_json,
      Col ''parent_organization_id'' (Varchar 26) NULLABLE NoDefault,
      Col ''id'' (Varchar 26) NOT_NULL NoDefault,
      Col ''created_at'' Timestamptz NOT_NULL (Sql ''now()''),
      Col ''updated_at'' Timestamptz NOT_NULL (Sql ''now()''),
      Col ''version'' IntegerType NOT_NULL (Sql ''1''),
      Col ''archived_at'' Timestamptz NULLABLE NoDefault,
      Col ''deleted_at'' Timestamptz NULLABLE NoDefault]
     [Check ''ck_organizations_status'' (InList ''status'' [''TRIAL'', ''ACTIVE'', ''SUSPENDED'', ''CLOSED'']),
      PrimaryKey ''pk_organizations'' [''id''],
      Unique ''uq_organizations_code'' False [''code'']]"

definition schools_table :: ddl where
  "schools_table =
     CreateTable ''schools''
     [Col ''organization_id'' (Varchar 26) NOT_NULL NoDefault,
      Col ''code'' (Varchar 40) NOT_NULL NoDefault,
      Col ''name'' (Varchar 200) NOT_NULL NoDefault,
      Col ''short_name'' (Varchar 60) NULLABLE NoDefault,
      Col ''status'' (Varchar 32) NOT_NULL (Literal ''SETUP''),
      Col ''parent_school_id'' (Varchar 26) NULLABLE NoDefault,
      Col ''hierarchy_path'' TextType NULLABLE NoDefault,
      Col ''timezone'' (Varchar 64) NOT_NULL (Literal ''Asia/Kolkata''),
      Col ''locale'' (Varchar 16) NOT_NULL (Literal ''en-IN''),
      Col ''board'' (Varchar 40) NULLABLE NoDefault,
      Col ''affiliation_number'' (Varchar 60) NULLABLE NoDefault,
      Col ''contact_email'' (Varchar 255) NULLABLE NoDefault,
      Col ''contact_phone'' (Varchar 24) NULLABLE NoDefault,
      Col ''address_id'' (Varchar 26) NULLABLE NoDefault,
      Col ''settings'' Jsonb NOT_NULL empty_json,
      Col ''id'' (Varchar 26) NOT_NULL NoDefault,
      Col ''created_at'' Timestamptz NOT_NULL (Sql ''now()''),
      Col ''updated_at'' Timestamptz NOT_NULL (Sql ''now()''),
      Col ''version'' IntegerType NOT_NULL (Sql ''1''),
      Col ''archived_at'' Timestamptz NULLABLE NoDefault,
      Col ''deleted_at'' Timestamptz NULLABLE NoDefault]
     [Check ''ck_schools_status'' (InList ''status'' [''SETUP'', ''ACTIVE'', ''SUSPENDED'', ''CLOSED'']),
      ForeignKey ''fk_schools_organization_id_organizations'' [''organization_id''] ''organizations'' [''id''] ''RESTRICT'',
      ForeignKey ''fk_schools_parent_school_id_schools'' [''parent_school_id''] ''schools'' [''id''] ''RESTRICT'',
      PrimaryKey ''pk_schools'' [''id''],
      Unique ''uq_schools_organization_id_code'' False [''organization_id'', ''code'']]"

definition users_table :: ddl where
  "users_table =
     CreateTable ''users''
     [Col ''person_id'' (Varchar 26) NULLABLE NoDefault,
      Col ''email'' (Varchar 255) NULLABLE NoDefault,
      Col ''email_verified_at'' Timestamptz NULLABLE NoDefault,
      Col ''phone'' (Varchar 24) NULLABLE NoDefault,
      Col ''phone_verified_at'' Timestamptz NULLABLE NoDefault,
      Col ''password_hash'' (Varchar 255) NULLABLE NoDefault,
      Col ''password_changed_at'' Timestamptz NULLABLE NoDefault,
      Col ''must_change_password'' BooleanType NOT_NULL (Sql ''false''),
      Col ''status'' (Varchar 32) NOT_NULL (Literal ''INVITED''),
      Col ''is_platform_admin'' BooleanType NOT_NULL (Sql ''false''),
      Col ''failed_login_count'' IntegerType NOT_NULL (Sql ''0''),
      Col ''locked_until'' Timestamptz NULLABLE NoDefault,
      Col ''last_login_at'' Timestamptz NULLABLE NoDefault,
      Col ''permissions_version'' IntegerType NOT_NULL (Sql ''1''),
      Col ''preferences'' Jsonb NOT_NULL empty_json,
      Col ''id'' (Varchar 26) NOT_NULL NoDefault,
      Col ''created_at'' Timestamptz NOT_NULL (Sql ''now()''),
      Col ''updated_at'' Timestamptz NOT_NULL (Sql ''now()''),
      Col ''version'' IntegerType NOT_NULL (Sql ''1''),
      Col ''archived_at'' Timestamptz NULLABLE NoDefault,
      Col ''deleted_at'' Timestamptz NULLABLE NoDefault]
     [Check ''ck_users_status'' (InList ''status'' [''INVITED'', ''ACTIVE'', ''SUSPENDED'', ''DISABLED'']),
      Check ''ck_users_contact_present'' (Condition ''email IS NOT NULL OR phone IS NOT NULL''),
      PrimaryKey ''pk_users'' [''id'']]"

definition permissions_table :: ddl where
  "permissions_table =
     CreateTable ''permissions''
     [Col ''code'' (Varchar 100) NOT_NULL NoDefault,
      Col ''module'' (Varchar 40) NOT_NULL NoDefault,
      Col ''resource'' (Varchar 60) NOT_NULL NoDefault,
      Col ''action'' (Varchar 30) NOT_NULL NoDefault,
      Col ''description'' (Varchar 255) NOT_NULL NoDefault,
      Col ''platform_only'' BooleanType NOT_NULL (Sql ''false''),
      Col ''id'' (Varchar 26) NOT_NULL NoDefault,
      Col ''created_at'' Timestamptz NOT_NULL (Sql ''now()''),
      Col ''updated_at'' Timestamptz NOT_NULL (Sql ''now()'')]
     [PrimaryKey ''pk_permissions'' [''id''],
      Unique ''uq_permissions_code'' False [''code'']]"

definition roles_table :: ddl where
  "roles_table =
     CreateTable ''roles''
     [Col ''organization_id'' (Varchar 26) NULLABLE NoDefault,
      Col ''code'' (Varchar 60) NOT_NULL NoDefault,
      Col ''name'' (Varchar 120) NOT_NULL NoDefault,
      Col ''description'' (Varchar 400) NULLABLE NoDefault,
      Col ''scope_level'' (Varchar 20) NOT_NULL (Literal ''SCHOOL''),
      Col ''data_scope'' (Varchar 20) NOT_NULL (Literal ''SCHOOL''),
      Col ''is_system'' BooleanType NOT_NULL (Sql ''false''),
      Col ''is_default'' BooleanType NOT_NULL (Sql ''false''),
      Col ''id'' (Varchar 26) NOT_NULL NoDefault,
      Col ''created_at'' Timestamptz NOT_NULL (Sql ''now()''),
      Col ''updated_at'' Timestamptz NOT_NULL (Sql ''now()''),
      Col ''version'' IntegerType NOT_NULL (Sql ''1''),
      Col ''created_by_id'' (Varchar 26) NULLABLE NoDefault,
      Col ''updated_by_id'' (Varchar 26) NULLABLE NoDefault,
      Col ''archived_at'' Timestamptz NULLABLE NoDefault,
      Col ''deleted_at'' Timestamptz NULLABLE NoDefault]
     [Check ''ck_roles_data_scope'' (InList ''data_scope'' [''OWN'', ''ASSIGNED'', ''SCHOOL'', ''ORGANIZATION'', ''PLATFORM'']),
      Check ''ck_roles_scope_level'' (InList ''scope_level'' [''PLATFORM'', ''ORGANIZATION'', ''SCHOOL'']),
      ForeignKey ''fk_roles_organization_id_organizations'' [''organization_id''] ''organizations'' [''id''] ''CASCADE'',
      PrimaryKey ''pk_roles'' [''id''],
      Unique ''uq_roles_organization_id_code'' True [''organization_id'', ''code'']]"

definition role_permissions_table :: ddl where
  "role_permissions_table =
     CreateTable ''role_permissions''
     [Col ''role_id'' (Varchar 26) NOT_NULL NoDefault,
      Col ''permission_id'' (Varchar 26) NOT_NULL NoDefault,
      Col ''data_scope'' (Varchar 20) NULLABLE NoDefault,
      Col ''id'' (Varchar 26) NOT_NULL NoDefault,
      Col ''created_at'' Timestamptz NOT_NULL (Sql ''now()''),
      Col ''updated_at'' Timestamptz NOT_NULL (Sql ''now()'')]
     [ForeignKey ''fk_role_permissions_permission_id_permissions'' [''permission_id''] ''permissions'' [''id''] ''CASCADE'',
      ForeignKey ''fk_role_permissions_role_id_roles'' [''role_id''] ''roles'' [''id''] ''CASCADE'',
      PrimaryKey ''pk_role_permissions'' [''id''],
      Unique ''uq_role_permissions_role_id_permission_id'' False [''role_id'', ''permission_id'']]"

definition memberships_table :: ddl where
  "memberships_table =
     CreateTable ''memberships''
     [Col ''user_id'' (Varchar 26) NOT_NULL NoDefault,
      Col ''organization_id'' (Varchar 26) NOT_NULL NoDefault,
      Col ''school_id'' (Varchar 26) NULLABLE NoDefault,
      Col ''status'' (Varchar 32) NOT_NULL (Literal ''ACTIVE''),
      Col ''start_date'' DateType NULLABLE NoDefault,
      Col ''end_date'' DateType NULLABLE NoDefault,
      Col ''is_default'' BooleanType NOT_NULL (Sql ''false''),
      Col ''notes'' TextType NULLABLE NoDefault,
      Col ''id'' (Varchar 26) NOT_NULL NoDefault,
      Col ''created_at'' Timestamptz NOT_NULL (Sql ''now()''),
      Col ''updated_at'' Timestamptz NOT_NULL (Sql ''now()''),
      Col ''version'' IntegerType NOT_NULL (Sql ''1''),
      Col ''created_by_id'' (Varchar 26) NULLABLE NoDefault,
      Col ''updated_by_id'' (Varchar 26) NULLABLE NoDefault]
     [Check ''ck_memberships_status'' (InList ''status'' [''ACTIVE'', ''INACTIVE'', ''ENDED'']),
      Check ''ck_memberships_date_order'' (Condition ''end_date IS NULL OR start_date IS NULL OR end_date >= start_date''),
      ForeignKey ''fk_memberships_organization_id_organizations'' [''organization_id''] ''organizations'' [''id''] ''RESTRICT'',
      ForeignKey ''fk_memberships_school_id_schools'' [''school_id''] ''schools'' [''id''] ''RESTRICT'',
      ForeignKey ''fk_memberships_user_id_users'' [''user_id''] ''users'' [''id''] ''CASCADE'',
      PrimaryKey ''pk_memberships'' [''id''],
      Unique ''uq_memberships_user_id_organization_id_school_id'' True [''user_id'', ''organization_id'', ''school_id'']]"

definition membership_roles_table :: ddl where
  "membership_roles_table =
     CreateTable ''membership_roles''
     [Col ''membership_id'' (Varchar 26) NOT_NULL NoDefault,
      Col ''role_id'' (Varchar 26) NOT_NULL NoDefault,
      Col ''granted_at'' Timestamptz NOT_NULL (Sql ''now()''),
      Col ''expires_at'' Timestamptz NULLABLE NoDefault,
      Col ''data_scope'' (Varchar 20) NULLABLE NoDefault,
      Col ''id'' (Varchar 26) NOT_NULL NoDefault,
      Col ''created_at'' Timestamptz NOT_NULL (Sql ''now()''),
      Col ''updated_at'' Timestamptz NOT_NULL (Sql ''now()''),
      Col ''created_by_id'' (Varchar 26) NULLABLE NoDefault,
      Col ''updated_by_id'' (Varchar 26) NULLABLE NoDefault]
     [ForeignKey ''fk_membership_roles_membership_id_memberships'' [''membership_id''] ''memberships'' [''id''] ''CASCADE'',
      ForeignKey ''fk_membership_roles_role_id_roles'' [''role_id''] ''roles'' [''id''] ''RESTRICT'',
      PrimaryKey ''pk_membership_roles'' [''id''],
      Unique ''uq_membership_roles_membership_id_role_id'' False [''membership_id'', ''role_id'']]"

definition upgrade_0002 :: "ddl list" where
  "upgrade_0002 =
     [organizations_table,
      CreateIndex False False ''organizations'' (Index ''ix_organizations_status'' False ''btree'' [Key ''status''] None),
      schools_table,
      CreateIndex False False ''schools'' (Index ''ix_schools_organization_id'' False ''btree'' [Key ''organization_id''] None),
      CreateIndex False False ''schools'' (Index ''ix_schools_status'' False ''btree'' [Key ''status''] None),
      users_table,
      CreateIndex False False ''users'' (Index ''ix_users_status'' False ''btree'' [Key ''status''] None),
      CreateIndex False False ''users'' (Index ''ix_users_phone'' False ''btree'' [Key ''phone''] None),
      permissions_table,
      CreateIndex False False ''permissions'' (Index ''ix_permissions_module'' False ''btree'' [Key ''module''] None),
      roles_table,
      CreateIndex False False ''roles'' (Index ''ix_roles_organization_id'' False ''btree'' [Key ''organization_id''] None),
      role_permissions_table,
      CreateIndex False False ''role_permissions'' (Index ''ix_role_permissions_permission_id'' False ''btree'' [Key ''permission_id''] None),
      CreateIndex False False ''role_permissions'' (Index ''ix_role_permissions_role_id'' False ''btree'' [Key ''role_id''] None),
      memberships_table,
      CreateIndex False False ''memberships'' (Index ''ix_memberships_organization_id'' False ''btree'' [Key ''organization_id''] None),
      CreateIndex False False ''memberships'' (Index ''ix_memberships_school_id'' False ''btree'' [Key ''school_id''] None),
      CreateIndex False False ''memberships'' (Index ''ix_memberships_status'' False ''btree'' [Key ''status''] None),
      CreateIndex False False ''memberships'' (Index ''ix_memberships_user_id'' False ''btree'' [Key ''user_id''] None),
      membership_roles_table,
      CreateIndex False False ''membership_roles'' (Index ''ix_membership_roles_membership_id'' False ''btree'' [Key ''membership_id''] None),
      CreateIndex False False ''membership_roles'' (Index ''ix_membership_roles_role_id'' False ''btree'' [Key ''role_id''] None),
      CreateIndex False False ''users'' (Index ''uq_users_email_lower'' True ''btree'' [Expr ''lower(email)''] (Some (Condition ''email IS NOT NULL AND deleted_at IS NULL''))),
      CreateIndex False False ''users'' (Index ''uq_users_phone_active'' True ''btree'' [Key ''phone''] (Some (Condition ''phone IS NOT NULL AND deleted_at IS NULL'')))] @
     execute_each self_org_policy_sql rls_self_org_0002 @
     execute_each (\<lambda>t. org_scoped_policy_sql t (t = ''roles'')) rls_org_0002"

definition downgrade_0002 :: "ddl list" where
  "downgrade_0002 =
     execute_each drop_policy_sql (rls_self_org_0002 @ rls_org_0002) @
     [DropIndex True ''uq_users_phone_active'',
      DropIndex True ''uq_users_email_lower''] @
     List.map DropTable (rev created_0002)"

definition migration_0002 :: migration where
  "migration_0002 =
     \<lparr>mg_revision = ''0002_iam_core'', mg_down_revision = Some ''0001_db_roles_and_rls_setup'', mg_upgrade = upgrade_0002, mg_downgrade = downgrade_0002\<rparr>"

section \<open>0003_auth_tables\<close>

definition tables_0003 :: "string list" where
  "tables_0003 =
     [''refresh_tokens'', ''login_attempts'', ''password_reset_tokens'']"

definition refresh_tokens_table :: ddl where
  "refresh_tokens_table =
     CreateTable ''refresh_tokens''
     [Col ''user_id'' (Varchar 26) NOT_NULL NoDefault,
      Col ''token_digest'' (Varchar 64) NOT_NULL NoDefault,
      Col ''session_family_id'' (Varchar 26) NOT_NULL NoDefault,
      Col ''expires_at'' Timestamptz NOT_NULL NoDefault,
      Col ''rotated_at'' Timestamptz NULLABLE NoDefault,
      Col ''revoked_at'' Timestamptz NULLABLE NoDefault,
      Col ''user_agent'' (Varchar 400) NULLABLE NoDefault,
      Col ''ip_address'' (Varchar 45) NULLABLE NoDefault,
      Col ''id'' (Varchar 26) NOT_NULL NoDefault,
      Col ''created_at'' Timestamptz NOT_NULL (Sql ''now()''),
      Col ''updated_at'' Timestamptz NOT_NULL (Sql ''now()'')]
     [ForeignKey ''fk_refresh_tokens_user_id_users'' [''user_id''] ''users'' [''id''] ''CASCADE'',
      PrimaryKey ''pk_refresh_tokens'' [''id''],
      Unique ''uq_refresh_tokens_token_digest'' False [''token_digest'']]"

definition login_attempts_table :: ddl where
  "login_attempts_table =
     CreateTable ''login_attempts''
     [Col ''user_id'' (Varchar 26) NULLABLE NoDefault,
      Col ''email_attempted'' (Varchar 255) NULLABLE NoDefault,
      Col ''ip_address'' (Varchar 45) NULLABLE NoDefault,
      Col ''success'' BooleanType NOT_NULL (Sql ''false''),
      Col ''attempted_at'' Timestamptz NOT_NULL (Sql ''now()''),
      Col ''id'' (Varchar 26) NOT_NULL NoDefault]
     [PrimaryKey ''pk_login_attempts'' [''id'']]"

definition password_reset_tokens_table :: ddl where
  "password_reset_tokens_table =
     CreateTable ''password_reset_tokens''
     [Col ''user_id'' (Varchar 26) NOT_NULL NoDefault,
      Col ''token_hash'' (Varchar 64) NOT_NULL NoDefault,
      Col ''expires_at'' Timestamptz NOT_NULL NoDefault,
      Col ''consumed_at'' Timestamptz NULLABLE NoDefault,
      Col ''requested_ip'' (Varchar 45) NULLABLE NoDefault,
      Col ''id'' (Varchar 26) NOT_NULL NoDefault,
      Col ''created_at'' Timestamptz NOT_NULL (Sql ''now()''),
      Col ''updated_at'' Timestamptz NOT_NULL (Sql ''now()'')]
     [ForeignKey ''fk_password_reset_tokens_user_id_users'' [''user_id''] ''users'' [''id''] ''CASCADE'',
      PrimaryKey ''pk_password_reset_tokens'' [''id''],
      Unique ''uq_password_reset_tokens_token_hash'' False [''token_hash'']]"

definition upgrade_0003 :: "ddl list" where
  "upgrade_0003 =
     [refresh_tokens_table,
      CreateIndex False False ''refresh_tokens'' (Index ''ix_refresh_tokens_user_id'' False ''btree'' [Key ''user_id''] None),
      CreateIndex False False ''refresh_tokens'' (Index ''ix_refresh_tokens_session_family_id'' False ''btree'' [Key ''session_family_id''] None),
      CreateIndex False False ''refresh_tokens'' (Index ''ix_refresh_tokens_user_id_revoked_at'' False ''btree'' [Key ''user_id'', Key ''revoked_at''] None),
      CreateIndex False False ''refresh_tokens'' (Index ''ix_refresh_tokens_expires_at'' False ''btree'' [Key ''expires_at''] None),
      login_attempts_table,
      CreateIndex False False ''login_attempts'' (Index ''ix_login_attempts_email_attempted_attempted_at'' False ''btree'' [Key ''email_attempted'', Key ''attempted_at''] None),
      CreateIndex False False ''login_attempts'' (Index ''ix_login_attempts_ip_attempted_at'' False ''btree'' [Key ''ip_address'', Key ''attempted_at''] None),
      password_reset_tokens_table,
      CreateIndex False False ''password_reset_tokens'' (Index ''ix_password_reset_tokens_user_id'' False ''btree'' [Key ''user_id''] None)]"

definition downgrade_0003 :: "ddl list" where
  "downgrade_0003 =
     List.map DropTable (rev tables_0003)"

definition migration_0003 :: migration where
  "migration_0003 =
     \<lparr>mg_revision = ''0003_auth_tables'', mg_down_revision = Some ''0002_iam_core'', mg_upgrade = upgrade_0003, mg_downgrade = downgrade_0003\<rparr>"

section \<open>0004_people_foundation\<close>

definition created_0004 :: "string list" where
  "created_0004 =
     [''addresses'', ''persons'', ''contacts'']"

definition rls_org_0004 :: "string list" where
  "rls_org_0004 =
     filter (\<lambda>t. t \<in> set created_0004) org_scoped_tables"

definition addresses_table :: ddl where
  "addresses_table =
     CreateTable ''addresses''
     [Col ''entity_type'' (Varchar 24) NOT_NULL NoDefault,
      Col ''entity_id'' (Varchar 26) NOT_NULL NoDefault,
      Col ''organization_id'' (Varchar 26) NOT_NULL NoDefault,
      Col ''address_type'' (Varchar 24) NOT_NULL (Literal ''RESIDENTIAL''),
      Col ''line1'' (Varchar 200) NULLABLE NoDefault,
      Col ''line2'' (Varchar 200) NULLABLE NoDefault,
      Col ''landmark'' (Varchar 160) NULLABLE NoDefault,
      Col ''city'' (Varchar 120) NULLABLE NoDefault,
      Col ''district'' (Varchar 120) NULLABLE NoDefault,
      Col ''state'' (Varchar 120) NULLABLE NoDefault,
      Col ''postal_code'' (Varchar 16) NULLABLE NoDefault,
      Col ''country_code'' (Varchar 2) NOT_NULL (Literal ''IN''),
      Col ''latitude'' (Numeric 9 6) NULLABLE NoDefault,
      Col ''longitude'' (Numeric 9 6) NULLABLE NoDefault,
      Col ''is_primary'' BooleanType NOT_NULL (Sql ''false''),
      Col ''id'' (Varchar 26) NOT_NULL NoDefault,
      Col ''created_at'' Timestamptz NOT_NULL (Sql ''now()''),
      Col ''updated_at'' Timestamptz NOT_NULL (Sql ''now()''),
      Col ''version'' IntegerType NOT_NULL (Sql ''1'')]
     [Check ''ck_addresses_address_type'' (InList ''address_type'' [''RESIDENTIAL'', ''PERMANENT'', ''CORRESPONDENCE'', ''CAMPUS'', ''OTHER'']),
      ForeignKey ''fk_addresses_organization_id_organizations'' [''organization_id''] ''organizations'' [''id''] ''RESTRICT'',
      PrimaryKey ''pk_addresses'' [''id'']]"

definition persons_table :: ddl where
  "persons_table =
     CreateTable ''persons''
     [Col ''organization_id'' (Varchar 26) NOT_NULL NoDefault,
      Col ''first_name'' (Varchar 100) NOT_NULL NoDefault,
      Col ''middle_name'' (Varchar 100) NULLABLE NoDefault,
      Col ''last_name'' (Varchar 100) NULLABLE NoDefault,
      Col ''preferred_name'' (Varchar 100) NULLABLE NoDefault,
      Col ''date_of_birth'' DateType NULLABLE NoDefault,
      Col ''gender'' (Varchar 24) NULLABLE NoDefault,
      Col ''blood_group'' (Varchar 8) NULLABLE NoDefault,
      Col ''nationality'' (Varchar 60) NULLABLE NoDefault,
      Col ''primary_phone'' (Varchar 24) NULLABLE NoDefault,
      Col ''primary_email'' (Varchar 255) NULLABLE NoDefault,
      Col ''address_id'' (Varchar 26) NULLABLE NoDefault,
      Col ''photo_document_id'' (Varchar 26) NULLABLE NoDefault,
      Col ''status'' (Varchar 24) NOT_NULL (Literal ''ACTIVE''),
      Col ''merged_into_person_id'' (Varchar 26) NULLABLE NoDefault,
      Col ''custom_fields'' Jsonb NOT_NULL empty_json,
      Col ''id'' (Varchar 26) NOT_NULL NoDefault,
      Col ''created_at'' Timestamptz NOT_NULL (Sql ''now()''),
      Col ''updated_at'' Timestamptz NOT_NULL (Sql ''now()''),
      Col ''version'' IntegerType NOT_NULL (Sql ''1''),
      Col ''created_by_id'' (Varchar 26) NULLABLE NoDefault,
      Col ''updated_by_id'' (Varchar 26) NULLABLE NoDefault,
      Col ''archived_at'' Timestamptz NULLABLE NoDefault,
      Col ''deleted_at'' Timestamptz NULLABLE NoDefault]
     [Check ''ck_persons_status'' (InList ''status'' [''ACTIVE'', ''INACTIVE'', ''DECEASED'', ''MERGED'']),
      Check ''ck_persons_merge_not_self'' (Condition ''merged_into_person_id IS NULL OR merged_into_person_id <> id''),
      ForeignKey ''fk_persons_address_id_addresses'' [''address_id''] ''addresses'' [''id''] ''SET NULL'',
      ForeignKey ''fk_persons_merged_into_person_id_persons'' [''merged_into_person_id''] ''persons'' [''id''] ''SET NULL'',
      ForeignKey ''fk_persons_organization_id_organizations'' [''organization_id''] ''organizations'' [''id''] ''RESTRICT'',
      PrimaryKey ''pk_persons'' [''id'']]"

definition contacts_table :: ddl where
  "contacts_table =
     CreateTable ''contacts''
     [Col ''entity_type'' (Varchar 24) NOT_NULL NoDefault,
      Col ''entity_id'' (Varchar 26) NOT_NULL NoDefault,
      Col ''organization_id'' (Varchar 26) NOT_NULL NoDefault,
      Col ''contact_type'' (Varchar 20) NOT_NULL NoDefault,
      Col ''value'' (Varchar 255) NOT_NULL NoDefault,
      Col ''label'' (Varchar 60) NULLABLE NoDefault,
      Col ''is_primary'' BooleanType NOT_NULL (Sql ''false''),
      Col ''is_emergency'' BooleanType NOT_NULL (Sql ''false''),
      Col ''verified_at'' Timestamptz NULLABLE NoDefault,
      Col ''id'' (Varchar 26) NOT_NULL NoDefault,
      Col ''created_at'' Timestamptz NOT_NULL (Sql ''now()''),
      Col ''updated_at'' Timestamptz NOT_NULL (Sql ''now()'')]
     [Check ''ck_contacts_contact_type'' (InList ''contact_type'' [''PHONE'', ''EMAIL'', ''WHATSAPP'']),
      ForeignKey ''fk_contacts_organization_id_organizations'' [''organization_id''] ''organizations'' [''id''] ''RESTRICT'',
      PrimaryKey ''pk_contacts'' [''id''],
      Unique ''uq_contacts_entity_type_entity_id_contact_type_value'' False [''entity_type'', ''entity_id'', ''contact_type'', ''value'']]"

definition upgrade_0004 :: "ddl list" where
  "upgrade_0004 =
     [CreateExtension ''pg_trgm'',
      addresses_table,
      CreateIndex False False ''addresses'' (Index ''ix_addresses_entity'' False ''btree'' [Key ''entity_type'', Key ''entity_id''] None),
      CreateIndex False False ''addresses'' (Index ''ix_addresses_organization_id'' False ''btree'' [Key ''organization_id''] None),
      persons_table,
      CreateIndex False False ''persons'' (Index ''ix_persons_organization_id'' False ''btree'' [Key ''organization_id''] None),
      CreateIndex False False ''persons'' (Index ''ix_persons_date_of_birth'' False ''btree'' [Key ''date_of_birth''] None),
      CreateIndex False False ''persons'' (Index ''ix_persons_primary_email'' False ''btree'' [Key ''primary_email''] None),
      CreateIndex False False ''persons'' (Index ''ix_persons_primary_phone'' False ''btree'' [Key ''primary_phone''] None),
      CreateIndex False False ''persons'' (Index ''ix_persons_organization_id_last_name'' False ''btree'' [Key ''organization_id'', Key ''last_name''] None),
      contacts_table,
      CreateIndex False False ''contacts'' (Index ''ix_contacts_entity'' False ''btree'' [Key ''entity_type'', Key ''entity_id''] None),
      CreateIndex False False ''contacts'' (Index ''ix_contacts_organization_id'' False ''btree'' [Key ''organization_id''] None),
      CreateIndex False False ''persons'' (Index ''ix_persons_name_trgm'' False ''gin'' [Expr (''(coalesce(first_name,'' @ quoted [] @ '') || '' @ quoted '' '' @ '' || coalesce(middle_name,'' @ quoted [] @ '') || '' @ quoted '' '' @ '' || coalesce(last_name,'' @ quoted [] @ '')) gin_trgm_ops'')] None),
      AddConstraint ''users'' (ForeignKey ''fk_users_person_id_persons'' [''person_id''] ''persons'' [''id''] ''RESTRICT''),
      CreateIndex False False ''users'' (Index ''ix_users_person_id'' False ''btree'' [Key ''person_id''] None),
      AddConstraint ''schools'' (ForeignKey ''fk_schools_address_id_addresses'' [''address_id''] ''addresses'' [''id''] ''SET NULL'')] @
     execute_each (\<lambda>t. org_scoped_policy_sql t False) rls_org_0004"

definition downgrade_0004 :: "ddl list" where
  "downgrade_0004 =
     execute_each drop_policy_sql rls_org_0004 @
     [DropIndex True ''ix_persons_name_trgm'',
      DropIndex False ''ix_users_person_id'',
      DropConstraint False ''schools'' ''fk_schools_address_id_addresses'',
      DropConstraint False ''users'' ''fk_users_person_id_persons''] @
     List.map DropTable (rev created_0004)"

definition migration_0004 :: migration where
  "migration_0004 =
     \<lparr>mg_revision = ''0004_people_foundation'', mg_down_revision = Some ''0003_auth_tables'', mg_upgrade = upgrade_0004, mg_downgrade = downgrade_0004\<rparr>"

section \<open>0005_platform_tables\<close>

definition tables_0005 :: "string list" where
  "tables_0005 =
     [''audit_logs'', ''outbox_events'', ''background_jobs'', ''feature_flags'']"

definition audit_logs_table :: ddl where
  "audit_logs_table =
     CreateTable ''audit_logs''
     [Col ''organization_id'' (Varchar 26) NULLABLE NoDefault,
      Col ''school_id'' (Varchar 26) NULLABLE NoDefault,
      Col ''actor_user_id'' (Varchar 26) NULLABLE NoDefault,
      Col ''actor_label'' (Varchar 200) NULLABLE NoDefault,
      Col ''action'' (Varchar 40) NOT_NULL NoDefault,
      Col ''entity_type'' (Varchar 60) NOT_NULL NoDefault,
      Col ''entity_id'' (Varchar 26) NULLABLE NoDefault,
      Col ''summary'' (Varchar 400) NULLABLE NoDefault,
      Col ''before_snapshot'' Jsonb NULLABLE NoDefault,
      Col ''after_snapshot'' Jsonb NULLABLE NoDefault,
      Col ''context'' Jsonb NOT_NULL empty_json,
      Col ''request_id'' (Varchar 64) NULLABLE NoDefault,
      Col ''ip_address'' (Varchar 45) NULLABLE NoDefault,
      Col ''id'' (Varchar 26) NOT_NULL NoDefault,
      Col ''created_at'' Timestamptz NOT_NULL (Sql ''now()''),
      Col ''updated_at'' Timestamptz NOT_NULL (Sql ''now()'')]
     [Check ''ck_audit_logs_action'' (InList ''action'' [''ORGANIZATION_CREATED'', ''ORGANIZATION_UPDATED'', ''ORGANIZATION_DELETED'', ''SCHOOL_CREATED'', ''SCHOOL_UPDATED'', ''SCHOOL_DELETED'', ''USER_CREATED'', ''USER_UPDATED'', ''USER_DELETED'', ''MEMBERSHIP_CREATED'', ''MEMBERSHIP_UPDATED'', ''MEMBERSHIP_ENDED'', ''ROLE_CREATED'', ''ROLE_UPDATED'', ''ROLE_DELETED'', ''ROLE_GRANTED'', ''ROLE_REVOKED'', ''PERSON_CREATED'', ''PERSON_UPDATED'', ''PERSON_DELETED'', ''PERSON_MERGED'', ''ADDRESS_CREATED'', ''ADDRESS_UPDATED'', ''ADDRESS_DELETED'', ''CONTACT_CREATED'', ''CONTACT_UPDATED'', ''CONTACT_DELETED'', ''LOGIN_SUCCESS'', ''LOGOUT'', ''PASSWORD_CHANGED'', ''PASSWORD_RESET_REQUESTED'', ''PASSWORD_RESET_CONFIRMED'']),
      PrimaryKey ''pk_audit_logs'' [''id'']]"

definition outbox_events_table :: ddl where
  "outbox_events_table =
     CreateTable ''outbox_events''
     [Col ''event_name'' (Varchar 80) NOT_NULL NoDefault,
      Col ''event_version'' SmallInt NOT_NULL (Sql ''1''),
      Col ''payload'' Jsonb NOT_NULL empty_json,
      Col ''organization_id'' (Varchar 26) NULLABLE NoDefault,
      Col ''school_id'' (Varchar 26) NULLABLE NoDefault,
      Col ''actor_user_id'' (Varchar 26) NULLABLE NoDefault,
      Col ''entity_type'' (Varchar 60) NULLABLE NoDefault,
      Col ''entity_id'' (Varchar 26) NULLABLE NoDefault,
      Col ''status'' (Varchar 20) NOT_NULL (Literal ''PENDING''),
      Col ''attempts'' IntegerType NOT_NULL (Sql ''0''),
      Col ''next_attempt_at'' Timestamptz NULLABLE NoDefault,
      Col ''processed_at'' Timestamptz NULLABLE NoDefault,
      Col ''last_error'' TextType NULLABLE NoDefault,
      Col ''request_id'' (Varchar 64) NULLABLE NoDefault,
      Col ''id'' (Varchar 26) NOT_NULL NoDefault,
      Col ''created_at'' Timestamptz NOT_NULL (Sql ''now()'')]
     [Check ''ck_outbox_events_status'' (InList ''status'' [''PENDING'', ''PROCESSING'', ''SENT'', ''FAILED'']),
      PrimaryKey ''pk_outbox_events'' [''id'']]"

definition background_jobs_table :: ddl where
  "background_jobs_table =
     CreateTable ''background_jobs''
     [Col ''job_type'' (Varchar 60) NOT_NULL NoDefault,
      Col ''status'' (Varchar 20) NOT_NULL (Literal ''QUEUED''),
      Col ''organization_id'' (Varchar 26) NULLABLE NoDefault,
      Col ''school_id'' (Varchar 26) NULLABLE NoDefault,
      Col ''created_by_id'' (Varchar 26) NULLABLE NoDefault,
      Col ''params'' Jsonb NOT_NULL empty_json,
      Col ''result'' Jsonb NULLABLE NoDefault,
      Col ''progress_total'' IntegerType NULLABLE NoDefault,
      Col ''progress_done'' IntegerType NULLABLE NoDefault,
      Col ''attempts'' IntegerType NOT_NULL (Sql ''0''),
      Col ''max_attempts'' IntegerType NOT_NULL (Sql ''3''),
      Col ''last_error'' TextType NULLABLE NoDefault,
      Col ''started_at'' Timestamptz NULLABLE NoDefault,
      Col ''finished_at'' Timestamptz NULLABLE NoDefault,
      Col ''request_id'' (Varchar 64) NULLABLE NoDefault,
      Col ''id'' (Varchar 26) NOT_NULL NoDefault,
      Col ''created_at'' Timestamptz NOT_NULL (Sql ''now()''),
      Col ''updated_at'' Timestamptz NOT_NULL (Sql ''now()'')]
     [Check ''ck_background_jobs_status'' (InList ''status'' [''QUEUED'', ''RUNNING'', ''COMPLETED'', ''FAILED'', ''CANCELLED'']),
      PrimaryKey ''pk_background_jobs'' [''id'']]"

definition feature_flags_table :: ddl where
  "feature_flags_table =
     CreateTable ''feature_flags''
     [Col ''key'' (Varchar 80) NOT_NULL NoDefault,
      Col ''organization_id'' (Varchar 26) NULLABLE NoDefault,
      Col ''school_id'' (Varchar 26) NULLABLE NoDefault,
      Col ''enabled'' BooleanType NOT_NULL (Sql ''false''),
      Col ''description'' (Varchar 300) NULLABLE NoDefault,
      Col ''config'' Jsonb NOT_NULL empty_json,
      Col ''id'' (Varchar 26) NOT_NULL NoDefault,
      Col ''created_at'' Timestamptz NOT_NULL (Sql ''now()''),
      Col ''updated_at'' Timestamptz NOT_NULL (Sql ''now()'')]
     [PrimaryKey ''pk_feature_flags'' [''id''],
      Unique ''uq_feature_flags_key_organization_id_school_id'' True [''key'', ''organization_id'', ''school_id'']]"

definition upgrade_0005 :: "ddl list" where
  "upgrade_0005 =
     [audit_logs_table,
      CreateIndex False False ''audit_logs'' (Index ''ix_audit_logs_entity_type_entity_id'' False ''btree'' [Key ''entity_type'', Key ''entity_id''] None),
      CreateIndex False False ''audit_logs'' (Index ''ix_audit_logs_organization_id'' False ''btree'' [Key ''organization_id''] None),
      CreateIndex False False ''audit_logs'' (Index ''ix_audit_logs_actor_user_id'' False ''btree'' [Key ''actor_user_id''] None),
      CreateIndex False False ''audit_logs'' (Index ''ix_audit_logs_request_id'' False ''btree'' [Key ''request_id''] None),
      CreateIndex False False ''audit_logs'' (Index ''ix_audit_logs_school_id'' False ''btree'' [Key ''school_id''] None),
      CreateIndex False False ''audit_logs'' (Index ''ix_audit_logs_school_id_created_at'' False ''btree'' [Key ''school_id'', Key ''created_at''] None),
      CreateFunction ''audit_logs_no_mutation'',
      CreateTrigger ''trg_audit_logs_append_only'' ''audit_logs'' ''audit_logs_no_mutation'',
      outbox_events_table,
      CreateIndex False False ''outbox_events'' (Index ''ix_outbox_events_dispatch'' False ''btree'' [Key ''next_attempt_at''] (Some (InList ''status'' [''PENDING'', ''FAILED'']))),
      CreateIndex False False ''outbox_events'' (Index ''ix_outbox_events_event_name_created_at'' False ''btree'' [Key ''event_name'', Key ''created_at''] None),
      background_jobs_table,
      CreateIndex False False ''background_jobs'' (Index ''ix_background_jobs_job_type'' False ''btree'' [Key ''job_type''] None),
      CreateIndex False False ''background_jobs'' (Index ''ix_background_jobs_organization_id'' False ''btree'' [Key ''organization_id''] None),
      CreateIndex False False ''background_jobs'' (Index ''ix_background_jobs_school_id'' False ''btree'' [Key ''school_id''] None),
      feature_flags_table]"

definition downgrade_0005 :: "ddl list" where
  "downgrade_0005 =
     [DropIndex False ''ix_audit_logs_actor_user_id'',
      DropTrigger ''trg_audit_logs_append_only'' ''audit_logs'',
      DropFunction ''audit_logs_no_mutation''] @
     List.map DropTable (rev tables_0005)"

definition migration_0005 :: migration where
  "migration_0005 =
     \<lparr>mg_revision = ''0005_platform_tables'', mg_down_revision = Some ''0004_people_foundation'', mg_upgrade = upgrade_0005, mg_downgrade = downgrade_0005\<rparr>"

section \<open>0006_permissive_rls\<close>

definition rls_self_org_0006 :: "string list" where
  "rls_self_org_0006 =
     self_org_tables"

definition rls_org_0006 :: "string list" where
  "rls_org_0006 =
     org_scoped_tables"

definition upgrade_0006 :: "ddl list" where
  "upgrade_0006 =
     execute_each drop_policy_sql (rls_self_org_0006 @ rls_org_0006) @
     execute_each self_org_policy_sql rls_self_org_0006 @
     execute_each (\<lambda>t. org_scoped_policy_sql t (t = ''roles'')) rls_org_0006"

definition downgrade_0006 :: "ddl list" where
  "downgrade_0006 =
     execute_each drop_policy_sql (rls_self_org_0006 @ rls_org_0006) @
     List.map (\<lambda>t. RestrictivePolicy (policy_name t) t) rls_self_org_0006 @
     List.map (\<lambda>t. RestrictivePolicy (policy_name t) t) rls_org_0006"

definition migration_0006 :: migration where
  "migration_0006 =
     \<lparr>mg_revision = ''0006_permissive_rls'', mg_down_revision = Some ''0005_platform_tables'', mg_upgrade = upgrade_0006, mg_downgrade = downgrade_0006\<rparr>"

section \<open>0007_academic_foundation\<close>

definition created_0007 :: "string list" where
  "created_0007 =
     [''academic_years'', ''academic_terms'', ''academic_classes'', ''subjects'', ''class_subjects'',
      ''cohorts'']"

definition rls_school_0007 :: "string list" where
  "rls_school_0007 =
     filter (\<lambda>t. t \<in> set created_0007) school_scoped_tables"

definition academic_years_table :: ddl where
  "academic_years_table =
     CreateTable ''academic_years''
     [Col ''school_id'' (Varchar 26) NOT_NULL NoDefault,
      Col ''organization_id'' (Varchar 26) NOT_NULL NoDefault,
      Col ''code'' (Varchar 40) NOT_NULL NoDefault,
      Col ''name'' (Varchar 200) NOT_NULL NoDefault,
      Col ''start_date'' DateType NOT_NULL NoDefault,
      Col ''end_date'' DateType NOT_NULL NoDefault,
      Col ''is_current'' BooleanType NOT_NULL (Sql ''false''),
      Col ''status'' (Varchar 20) NOT_NULL (Literal ''DRAFT''),
      Col ''id'' (Varchar 26) NOT_NULL NoDefault,
      Col ''created_at'' Timestamptz NOT_NULL (Sql ''now()''),
      Col ''updated_at'' Timestamptz NOT_NULL (Sql ''now()''),
      Col ''version'' IntegerType NOT_NULL (Sql ''1''),
      Col ''created_by_id'' (Varchar 26) NULLABLE NoDefault,
      Col ''updated_by_id'' (Varchar 26) NULLABLE NoDefault,
      Col ''archived_at'' Timestamptz NULLABLE NoDefault,
      Col ''deleted_at'' Timestamptz NULLABLE NoDefault]
     [Check ''ck_academic_years_status'' (InList ''status'' [''DRAFT'', ''ACTIVE'', ''CLOSED'']),
      ForeignKey ''fk_academic_years_school_id_schools'' [''school_id''] ''schools'' [''id''] ''RESTRICT'',
      ForeignKey ''fk_academic_years_organization_id_organizations'' [''organization_id''] ''organizations'' [''id''] ''RESTRICT'',
      PrimaryKey ''pk_academic_years'' [''id''],
      Unique ''uq_academic_years_school_id_code'' False [''school_id'', ''code'']]"

definition academic_terms_table :: ddl where
  "academic_terms_table =
     CreateTable ''academic_terms''
     [Col ''school_id'' (Varchar 26) NOT_NULL NoDefault,
      Col ''organization_id'' (Varchar 26) NOT_NULL NoDefault,
      Col ''academic_year_id'' (Varchar 26) NOT_NULL NoDefault,
      Col ''code'' (Varchar 40) NOT_NULL NoDefault,
      Col ''name'' (Varchar 200) NOT_NULL NoDefault,
      Col ''start_date'' DateType NOT_NULL NoDefault,
      Col ''end_date'' DateType NOT_NULL NoDefault,
      Col ''status'' (Varchar 20) NOT_NULL (Literal ''ACTIVE''),
      Col ''id'' (Varchar 26) NOT_NULL NoDefault,
      Col ''created_at'' Timestamptz NOT_NULL (Sql ''now()''),
      Col ''updated_at'' Timestamptz NOT_NULL (Sql ''now()''),
      Col ''version'' IntegerType NOT_NULL (Sql ''1''),
      Col ''created_by_id'' (Varchar 26) NULLABLE NoDefault,
      Col ''updated_by_id'' (Varchar 26) NULLABLE NoDefault,
      Col ''archived_at'' Timestamptz NULLABLE NoDefault,
      Col ''deleted_at'' Timestamptz NULLABLE NoDefault]
     [Check ''ck_academic_terms_status'' (InList ''status'' [''ACTIVE'', ''CLOSED'']),
      ForeignKey ''fk_academic_terms_school_id_schools'' [''school_id''] ''schools'' [''id''] ''RESTRICT'',
      ForeignKey ''fk_academic_terms_organization_id_organizations'' [''organization_id''] ''organizations'' [''id''] ''RESTRICT'',
      ForeignKey ''fk_academic_terms_academic_year_id_academic_years'' [''academic_year_id''] ''academic_years'' [''id''] ''RESTRICT'',
      PrimaryKey ''pk_academic_terms'' [''id''],
      Unique ''uq_academic_terms_school_year_code'' False [''school_id'', ''academic_year_id'', ''code'']]"

definition academic_classes_table :: ddl where
  "academic_classes_table =
     CreateTable ''academic_classes''
     [Col ''school_id'' (Varchar 26) NOT_NULL NoDefault,
      Col ''organization_id'' (Varchar 26) NOT_NULL NoDefault,
      Col ''code'' (Varchar 40) NOT_NULL NoDefault,
      Col ''name'' (Varchar 200) NOT_NULL NoDefault,
      Col ''description'' (Varchar 500) NULLABLE NoDefault,
      Col ''sort_order'' IntegerType NOT_NULL (Sql ''0''),
      Col ''status'' (Varchar 20) NOT_NULL (Literal ''ACTIVE''),
      Col ''id'' (Varchar 26) NOT_NULL NoDefault,
      Col ''created_at'' Timestamptz NOT_NULL (Sql ''now()''),
      Col ''updated_at'' Timestamptz NOT_NULL (Sql ''now()''),
      Col ''version'' IntegerType NOT_NULL (Sql ''1''),
      Col ''created_by_id'' (Varchar 26) NULLABLE NoDefault,
      Col ''updated_by_id'' (Varchar 26) NULLABLE NoDefault,
      Col ''archived_at'' Timestamptz NULLABLE NoDefault,
      Col ''deleted_at'' Timestamptz NULLABLE NoDefault]
     [Check ''ck_academic_classes_status'' (InList ''status'' [''ACTIVE'', ''ARCHIVED'']),
      ForeignKey ''fk_academic_classes_school_id_schools'' [''school_id''] ''schools'' [''id''] ''RESTRICT'',
      ForeignKey ''fk_academic_classes_organization_id_organizations'' [''organization_id''] ''organizations'' [''id''] ''RESTRICT'',
      PrimaryKey ''pk_academic_classes'' [''id''],
      Unique ''uq_academic_classes_school_id_code'' False [''school_id'', ''code'']]"

definition subjects_table :: ddl where
  "subjects_table =
     CreateTable ''subjects''
     [Col ''school_id'' (Varchar 26) NOT_NULL NoDefault,
      Col ''organization_id'' (Varchar 26) NOT_NULL NoDefault,
      Col ''code'' (Varchar 40) NOT_NULL NoDefault,
      Col ''name'' (Varchar 200) NOT_NULL NoDefault,
      Col ''description'' (Varchar 500) NULLABLE NoDefault,
      Col ''subject_type'' (Varchar 30) NOT_NULL (Literal ''CORE''),
      Col ''status'' (Varchar 20) NOT_NULL (Literal ''ACTIVE''),
      Col ''id'' (Varchar 26) NOT_NULL NoDefault,
      Col ''created_at'' Timestamptz NOT_NULL (Sql ''now()''),
      Col ''updated_at'' Timestamptz NOT_NULL (Sql ''now()''),
      Col ''version'' IntegerType NOT_NULL (Sql ''1''),
      Col ''created_by_id'' (Varchar 26) NULLABLE NoDefault,
      Col ''updated_by_id'' (Varchar 26) NULLABLE NoDefault,
      Col ''archived_at'' Timestamptz NULLABLE NoDefault,
      Col ''deleted_at'' Timestamptz NULLABLE NoDefault]
     [Check ''ck_subjects_subject_type'' (InList ''subject_type'' [''CORE'', ''OPTIONAL'', ''ELECTIVE'', ''PRACTICAL'', ''CO_CURRICULAR'', ''ACTIVITY'']),
      Check ''ck_subjects_status'' (InList ''status'' [''ACTIVE'', ''ARCHIVED'']),
      ForeignKey ''fk_subjects_school_id_schools'' [''school_id''] ''schools'' [''id''] ''RESTRICT'',
      ForeignKey ''fk_subjects_organization_id_organizations'' [''organization_id''] ''organizations'' [''id''] ''RESTRICT'',
      PrimaryKey ''pk_subjects'' [''id''],
      Unique ''uq_subjects_school_id_code'' False [''school_id'', ''code'']]"

definition class_subjects_table :: ddl where
  "class_subjects_table =
     CreateTable ''class_subjects''
     [Col ''school_id'' (Varchar 26) NOT_NULL NoDefault,
      Col ''organization_id'' (Varchar 26) NOT_NULL NoDefault,
      Col ''academic_class_id'' (Varchar 26) NOT_NULL NoDefault,
      Col ''subject_id'' (Varchar 26) NOT_NULL NoDefault,
      Col ''effective_from_year_id'' (Varchar 26) NOT_NULL NoDefault,
      Col ''effective_to_year_id'' (Varchar 26) NULLABLE NoDefault,
      Col ''id'' (Varchar 26) NOT_NULL NoDefault,
      Col ''created_at'' Timestamptz NOT_NULL (Sql ''now()''),
      Col ''updated_at'' Timestamptz NOT_NULL (Sql ''now()''),
      Col ''created_by_id'' (Varchar 26) NULLABLE NoDefault,
      Col ''updated_by_id'' (Varchar 26) NULLABLE NoDefault]
     [ForeignKey ''fk_class_subjects_school_id_schools'' [''school_id''] ''schools'' [''id''] ''RESTRICT'',
      ForeignKey ''fk_class_subjects_organization_id_organizations'' [''organization_id''] ''organizations'' [''id''] ''RESTRICT'',
      ForeignKey ''fk_class_subjects_academic_class_id_academic_classes'' [''academic_class_id''] ''academic_classes'' [''id''] ''RESTRICT'',
      ForeignKey ''fk_class_subjects_subject_id_subjects'' [''subject_id''] ''subjects'' [''id''] ''RESTRICT'',
      ForeignKey ''fk_class_subjects_effective_from_year_id_academic_years'' [''effective_from_year_id''] ''academic_years'' [''id''] ''RESTRICT'',
      ForeignKey ''fk_class_subjects_effective_to_year_id_academic_years'' [''effective_to_year_id''] ''academic_years'' [''id''] ''SET NULL'',
      PrimaryKey ''pk_class_subjects'' [''id''],
      Unique ''uq_class_subjects_school_class_subject'' False [''school_id'', ''academic_class_id'', ''subject_id'']]"

definition cohorts_table :: ddl where
  "cohorts_table =
     CreateTable ''cohorts''
     [Col ''school_id'' (Varchar 26) NOT_NULL NoDefault,
      Col ''organization_id'' (Varchar 26) NOT_NULL NoDefault,
      Col ''academic_year_id'' (Varchar 26) NOT_NULL NoDefault,
      Col ''academic_class_id'' (Varchar 26) NOT_NULL NoDefault,
      Col ''code'' (Varchar 40) NOT_NULL NoDefault,
      Col ''name'' (Varchar 200) NOT_NULL NoDefault,
      Col ''capacity'' IntegerType NULLABLE NoDefault,
      Col ''status'' (Varchar 20) NOT_NULL (Literal ''ACTIVE''),
      Col ''id'' (Varchar 26) NOT_NULL NoDefault,
      Col ''created_at'' Timestamptz NOT_NULL (Sql ''now()''),
      Col ''updated_at'' Timestamptz NOT_NULL (Sql ''now()''),
      Col ''version'' IntegerType NOT_NULL (Sql ''1''),
      Col ''created_by_id'' (Varchar 26) NULLABLE NoDefault,
      Col ''updated_by_id'' (Varchar 26) NULLABLE NoDefault,
      Col ''archived_at'' Timestamptz NULLABLE NoDefault,
      Col ''deleted_at'' Timestamptz NULLABLE NoDefault]
     [Check ''ck_cohorts_status'' (InList ''status'' [''ACTIVE'', ''ARCHIVED'']),
      ForeignKey ''fk_cohorts_school_id_schools'' [''school_id''] ''schools'' [''id''] ''RESTRICT'',
      ForeignKey ''fk_cohorts_organization_id_organizations'' [''organization_id''] ''organizations'' [''id''] ''RESTRICT'',
      ForeignKey ''fk_cohorts_academic_year_id_academic_years'' [''academic_year_id''] ''academic_years'' [''id''] ''RESTRICT'',
      ForeignKey ''fk_cohorts_academic_class_id_academic_classes'' [''academic_class_id''] ''academic_classes'' [''id''] ''RESTRICT'',
      PrimaryKey ''pk_cohorts'' [''id''],
      Unique ''uq_cohorts_school_year_class_code'' False [''school_id'', ''academic_year_id'', ''academic_class_id'', ''code'']]"

definition audit_actions_0007 :: "string list" where
  "audit_actions_0007 =
     [''ORGANIZATION_CREATED'', ''ORGANIZATION_UPDATED'', ''ORGANIZATION_DELETED'', ''SCHOOL_CREATED'',
      ''SCHOOL_UPDATED'', ''SCHOOL_DELETED'', ''USER_CREATED'', ''USER_UPDATED'', ''USER_DELETED'',
      ''MEMBERSHIP_CREATED'', ''MEMBERSHIP_UPDATED'', ''MEMBERSHIP_ENDED'', ''ROLE_CREATED'', ''ROLE_UPDATED'',
      ''ROLE_DELETED'', ''ROLE_GRANTED'', ''ROLE_REVOKED'', ''PERSON_CREATED'', ''PERSON_UPDATED'',
      ''PERSON_DELETED'', ''PERSON_MERGED'', ''ADDRESS_CREATED'', ''ADDRESS_UPDATED'', ''ADDRESS_DELETED'',
      ''CONTACT_CREATED'', ''CONTACT_UPDATED'', ''CONTACT_DELETED'', ''LOGIN_SUCCESS'', ''LOGOUT'',
      ''PASSWORD_CHANGED'', ''PASSWORD_RESET_REQUESTED'', ''PASSWORD_RESET_CONFIRMED'',
      ''ACADEMIC_YEAR_CREATED'', ''ACADEMIC_YEAR_UPDATED'', ''ACADEMIC_YEAR_DELETED'',
      ''ACADEMIC_TERM_CREATED'', ''ACADEMIC_TERM_UPDATED'', ''ACADEMIC_TERM_DELETED'',
      ''ACADEMIC_CLASS_CREATED'', ''ACADEMIC_CLASS_UPDATED'', ''ACADEMIC_CLASS_DELETED'', ''SUBJECT_CREATED'',
      ''SUBJECT_UPDATED'', ''SUBJECT_DELETED'', ''CLASS_SUBJECT_CREATED'', ''CLASS_SUBJECT_DELETED'',
      ''COHORT_CREATED'', ''COHORT_UPDATED'', ''COHORT_DELETED'']"

definition upgrade_0007 :: "ddl list" where
  "upgrade_0007 =
     [academic_years_table,
      CreateIndex False False ''academic_years'' (Index ''ix_academic_years_school_id'' False ''btree'' [Key ''school_id''] None),
      CreateIndex False False ''academic_years'' (Index ''ix_academic_years_organization_id'' False ''btree'' [Key ''organization_id''] None),
      CreateIndex False False ''academic_years'' (Index ''ix_academic_years_school_id_is_current'' False ''btree'' [Key ''school_id'', Key ''is_current''] None),
      academic_terms_table,
      CreateIndex False False ''academic_terms'' (Index ''ix_academic_terms_school_id'' False ''btree'' [Key ''school_id''] None),
      CreateIndex False False ''academic_terms'' (Index ''ix_academic_terms_organization_id'' False ''btree'' [Key ''organization_id''] None),
      CreateIndex False False ''academic_terms'' (Index ''ix_academic_terms_academic_year_id'' False ''btree'' [Key ''academic_year_id''] None),
      academic_classes_table,
      CreateIndex False False ''academic_classes'' (Index ''ix_academic_classes_school_id'' False ''btree'' [Key ''school_id''] None),
      CreateIndex False False ''academic_classes'' (Index ''ix_academic_classes_organization_id'' False ''btree'' [Key ''organization_id''] None),
      subjects_table,
      CreateIndex False False ''subjects'' (Index ''ix_subjects_school_id'' False ''btree'' [Key ''school_id''] None),
      CreateIndex False False ''subjects'' (Index ''ix_subjects_organization_id'' False ''btree'' [Key ''organization_id''] None),
      class_subjects_table,
      CreateIndex False False ''class_subjects'' (Index ''ix_class_subjects_school_id'' False ''btree'' [Key ''school_id''] None),
      CreateIndex False False ''class_subjects'' (Index ''ix_class_subjects_organization_id'' False ''btree'' [Key ''organization_id''] None),
      CreateIndex False False ''class_subjects'' (Index ''ix_class_subjects_academic_class_id'' False ''btree'' [Key ''academic_class_id''] None),
      CreateIndex False False ''class_subjects'' (Index ''ix_class_subjects_subject_id'' False ''btree'' [Key ''subject_id''] None),
      CreateIndex False False ''class_subjects'' (Index ''ix_class_subjects_effective_from_year_id'' False ''btree'' [Key ''effective_from_year_id''] None),
      cohorts_table,
      CreateIndex False False ''cohorts'' (Index ''ix_cohorts_school_id'' False ''btree'' [Key ''school_id''] None),
      CreateIndex False False ''cohorts'' (Index ''ix_cohorts_organization_id'' False ''btree'' [Key ''organization_id''] None),
      CreateIndex False False ''cohorts'' (Index ''ix_cohorts_academic_year_id'' False ''btree'' [Key ''academic_year_id''] None),
      CreateIndex False False ''cohorts'' (Index ''ix_cohorts_academic_class_id'' False ''btree'' [Key ''academic_class_id''] None),
      DropConstraint True ''audit_logs'' ''ck_audit_logs_action'',
      AddConstraint ''audit_logs'' (Check ''ck_audit_logs_action'' (InList ''action'' audit_actions_0007))] @
     execute_each school_scoped_policy_sql rls_school_0007"

definition audit_actions_0007_before :: "string list" where
  "audit_actions_0007_before =
     [''ORGANIZATION_CREATED'', ''ORGANIZATION_UPDATED'', ''ORGANIZATION_DELETED'', ''SCHOOL_CREATED'',
      ''SCHOOL_UPDATED'', ''SCHOOL_DELETED'', ''USER_CREATED'', ''USER_UPDATED'', ''USER_DELETED'',
      ''MEMBERSHIP_CREATED'', ''MEMBERSHIP_UPDATED'', ''MEMBERSHIP_ENDED'', ''ROLE_CREATED'', ''ROLE_UPDATED'',
      ''ROLE_DELETED'', ''ROLE_GRANTED'', ''ROLE_REVOKED'', ''PERSON_CREATED'', ''PERSON_UPDATED'',
      ''PERSON_DELETED'', ''PERSON_MERGED'', ''ADDRESS_CREATED'', ''ADDRESS_UPDATED'', ''ADDRESS_DELETED'',
      ''CONTACT_CREATED'', ''CONTACT_UPDATED'', ''CONTACT_DELETED'', ''LOGIN_SUCCESS'', ''LOGOUT'',
      ''PASSWORD_CHANGED'', ''PASSWORD_RESET_REQUESTED'', ''PASSWORD_RESET_CONFIRMED'']"

definition downgrade_0007 :: "ddl list" where
  "downgrade_0007 =
     execute_each drop_policy_sql rls_school_0007 @
     List.map DropTable (rev created_0007) @
     [DropConstraint True ''audit_logs'' ''ck_audit_logs_action'',
      AddConstraint ''audit_logs'' (Check ''ck_audit_logs_action'' (InList ''action'' audit_actions_0007_before))]"

definition migration_0007 :: migration where
  "migration_0007 =
     \<lparr>mg_revision = ''0007_academic_foundation'', mg_down_revision = Some ''0006_permissive_rls'', mg_upgrade = upgrade_0007, mg_downgrade = downgrade_0007\<rparr>"

section \<open>0008_actor_columns_org_school\<close>

definition upgrade_0008 :: "ddl list" where
  "upgrade_0008 =
     [AddColumn ''organizations'' (Col ''created_by_id'' (Varchar 26) NULLABLE NoDefault),
      AddColumn ''organizations'' (Col ''updated_by_id'' (Varchar 26) NULLABLE NoDefault),
      AddColumn ''schools'' (Col ''created_by_id'' (Varchar 26) NULLABLE NoDefault),
      AddColumn ''schools'' (Col ''updated_by_id'' (Varchar 26) NULLABLE NoDefault)]"

definition downgrade_0008 :: "ddl list" where
  "downgrade_0008 =
     [DropColumn ''schools'' ''updated_by_id'',
      DropColumn ''schools'' ''created_by_id'',
      DropColumn ''organizations'' ''updated_by_id'',
      DropColumn ''organizations'' ''created_by_id'']"

definition migration_0008 :: migration where
  "migration_0008 =
     \<lparr>mg_revision = ''0008_actor_columns_org_school'', mg_down_revision = Some ''0007_academic_foundation'', mg_upgrade = upgrade_0008, mg_downgrade = downgrade_0008\<rparr>"

section \<open>0009_academic_year_current_unique\<close>

definition upgrade_0009 :: "ddl list" where
  "upgrade_0009 =
     [CreateIndex False False ''academic_years'' (Index ''uq_academic_years_one_current_per_school'' True ''btree'' [Key ''school_id''] (Some (Condition ''is_current = true AND deleted_at IS NULL'')))]"

definition downgrade_0009 :: "ddl list" where
  "downgrade_0009 =
     [DropIndex True ''uq_academic_years_one_current_per_school'']"

definition migration_0009 :: migration where
  "migration_0009 =
     \<lparr>mg_revision = ''0009_academic_year_current_unique'', mg_down_revision = Some ''0008_actor_columns_org_school'', mg_upgrade = upgrade_0009, mg_downgrade = downgrade_0009\<rparr>"

section \<open>The tables\<close>

lemma core_table_names:
  "table_named organizations_table = Some ''organizations''"
  "table_named schools_table = Some ''schools''"
  "table_named users_table = Some ''users''"
  "table_named permissions_table = Some ''permissions''"
  "table_named roles_table = Some ''roles''"
  "table_named role_permissions_table = Some ''role_permissions''"
  "table_named memberships_table = Some ''memberships''"
  "table_named membership_roles_table = Some ''membership_roles''"
  "table_named refresh_tokens_table = Some ''refresh_tokens''"
  "table_named login_attempts_table = Some ''login_attempts''"
  "table_named password_reset_tokens_table = Some ''password_reset_tokens''"
  "table_named addresses_table = Some ''addresses''"
  "table_named persons_table = Some ''persons''"
  "table_named contacts_table = Some ''contacts''"
  "table_named audit_logs_table = Some ''audit_logs''"
  "table_named outbox_events_table = Some ''outbox_events''"
  "table_named background_jobs_table = Some ''background_jobs''"
  "table_named feature_flags_table = Some ''feature_flags''"
  "table_named academic_years_table = Some ''academic_years''"
  "table_named academic_terms_table = Some ''academic_terms''"
  "table_named academic_classes_table = Some ''academic_classes''"
  "table_named subjects_table = Some ''subjects''"
  "table_named class_subjects_table = Some ''class_subjects''"
  "table_named cohorts_table = Some ''cohorts''"
  by (simp_all add: organizations_table_def schools_table_def users_table_def permissions_table_def roles_table_def role_permissions_table_def memberships_table_def membership_roles_table_def refresh_tokens_table_def login_attempts_table_def password_reset_tokens_table_def addresses_table_def persons_table_def contacts_table_def audit_logs_table_def outbox_events_table_def background_jobs_table_def feature_flags_table_def academic_years_table_def academic_terms_table_def academic_classes_table_def subjects_table_def class_subjects_table_def cohorts_table_def)

lemma core_school_tables:
  "school_table organizations_table = False"
  "school_table schools_table = False"
  "school_table users_table = False"
  "school_table permissions_table = False"
  "school_table roles_table = False"
  "school_table role_permissions_table = False"
  "school_table memberships_table = False"
  "school_table membership_roles_table = False"
  "school_table refresh_tokens_table = False"
  "school_table login_attempts_table = False"
  "school_table password_reset_tokens_table = False"
  "school_table addresses_table = False"
  "school_table persons_table = False"
  "school_table contacts_table = False"
  "school_table audit_logs_table = False"
  "school_table outbox_events_table = False"
  "school_table background_jobs_table = False"
  "school_table feature_flags_table = False"
  "school_table academic_years_table = True"
  "school_table academic_terms_table = True"
  "school_table academic_classes_table = True"
  "school_table subjects_table = True"
  "school_table class_subjects_table = True"
  "school_table cohorts_table = True"
  by (simp_all add: of_a_school_def organizations_table_def schools_table_def users_table_def permissions_table_def roles_table_def role_permissions_table_def memberships_table_def membership_roles_table_def refresh_tokens_table_def login_attempts_table_def password_reset_tokens_table_def addresses_table_def persons_table_def contacts_table_def audit_logs_table_def outbox_events_table_def background_jobs_table_def feature_flags_table_def academic_years_table_def academic_terms_table_def academic_classes_table_def subjects_table_def class_subjects_table_def cohorts_table_def)

end
