(* ===== verification/MigrationsSchool.thy ===== *)
theory MigrationsSchool
  imports MigrationsCore
begin

text \<open>
  The migrations 0010 to 0016: students, enrollments, guardians, teachers, timetables, attendance and announcements.
\<close>

section \<open>0010_students\<close>

definition students_table :: ddl where
  "students_table =
     CreateTable ''students''
     [Col ''school_id'' (Varchar 26) NOT_NULL NoDefault,
      Col ''organization_id'' (Varchar 26) NOT_NULL NoDefault,
      Col ''person_id'' (Varchar 26) NOT_NULL NoDefault,
      Col ''admission_number'' (Varchar 50) NOT_NULL NoDefault,
      Col ''admission_date'' DateType NOT_NULL NoDefault,
      Col ''status'' (Varchar 24) NOT_NULL (Literal ''ACTIVE''),
      Col ''withdrawal_date'' DateType NULLABLE NoDefault,
      Col ''withdrawal_reason'' (Varchar 500) NULLABLE NoDefault,
      Col ''id'' (Varchar 26) NOT_NULL NoDefault,
      Col ''created_at'' Timestamptz NOT_NULL (Sql ''now()''),
      Col ''updated_at'' Timestamptz NOT_NULL (Sql ''now()''),
      Col ''version'' IntegerType NOT_NULL (Sql ''1''),
      Col ''created_by_id'' (Varchar 26) NULLABLE NoDefault,
      Col ''updated_by_id'' (Varchar 26) NULLABLE NoDefault,
      Col ''archived_at'' Timestamptz NULLABLE NoDefault,
      Col ''deleted_at'' Timestamptz NULLABLE NoDefault]
     [Check ''ck_students_status'' (InList ''status'' [''ACTIVE'', ''WITHDRAWN'', ''GRADUATED'', ''TRANSFERRED'', ''INACTIVE'', ''DECEASED'']),
      ForeignKey ''fk_students_school_id_schools'' [''school_id''] ''schools'' [''id''] ''RESTRICT'',
      ForeignKey ''fk_students_organization_id_organizations'' [''organization_id''] ''organizations'' [''id''] ''RESTRICT'',
      ForeignKey ''fk_students_person_id_persons'' [''person_id''] ''persons'' [''id''] ''RESTRICT'',
      PrimaryKey ''pk_students'' [''id''],
      Unique ''uq_students_school_admission_number'' False [''school_id'', ''admission_number''],
      Unique ''uq_students_school_person'' False [''school_id'', ''person_id'']]"

definition audit_actions_0010 :: "string list" where
  "audit_actions_0010 =
     [''ORGANIZATION_CREATED'', ''ORGANIZATION_UPDATED'', ''ORGANIZATION_DELETED'', ''SCHOOL_CREATED'',
      ''SCHOOL_UPDATED'', ''SCHOOL_DELETED'', ''USER_CREATED'', ''USER_UPDATED'', ''USER_DELETED'',
      ''MEMBERSHIP_CREATED'', ''MEMBERSHIP_UPDATED'', ''MEMBERSHIP_ENDED'', ''ROLE_CREATED'', ''ROLE_UPDATED'',
      ''ROLE_DELETED'', ''ROLE_GRANTED'', ''ROLE_REVOKED'', ''PERSON_CREATED'', ''PERSON_UPDATED'',
      ''PERSON_DELETED'', ''PERSON_MERGED'', ''ADDRESS_CREATED'', ''ADDRESS_UPDATED'', ''ADDRESS_DELETED'',
      ''CONTACT_CREATED'', ''CONTACT_UPDATED'', ''CONTACT_DELETED'', ''LOGIN_SUCCESS'', ''LOGOUT'',
      ''PASSWORD_CHANGED'', ''PASSWORD_RESET_REQUESTED'', ''PASSWORD_RESET_CONFIRMED'',
      ''ACADEMIC_YEAR_CREATED'', ''ACADEMIC_YEAR_UPDATED'', ''ACADEMIC_YEAR_DELETED'',
      ''ACADEMIC_TERM_CREATED'', ''ACADEMIC_TERM_UPDATED'', ''ACADEMIC_TERM_DELETED'',
      ''ACADEMIC_CLASS_CREATED'', ''ACADEMIC_CLASS_UPDATED'', ''ACADEMIC_CLASS_DELETED'', ''SUBJECT_CREATED'',
      ''SUBJECT_UPDATED'', ''SUBJECT_DELETED'', ''CLASS_SUBJECT_CREATED'', ''CLASS_SUBJECT_DELETED'',
      ''COHORT_CREATED'', ''COHORT_UPDATED'', ''COHORT_DELETED'', ''STUDENT_CREATED'', ''STUDENT_UPDATED'',
      ''STUDENT_DELETED'']"

definition upgrade_0010 :: "ddl list" where
  "upgrade_0010 =
     [students_table,
      CreateIndex False False ''students'' (Index ''ix_students_school_id'' False ''btree'' [Key ''school_id''] None),
      CreateIndex False False ''students'' (Index ''ix_students_organization_id'' False ''btree'' [Key ''organization_id''] None),
      CreateIndex False False ''students'' (Index ''ix_students_person_id'' False ''btree'' [Key ''person_id''] None),
      DropConstraint True ''audit_logs'' ''ck_audit_logs_action'',
      AddConstraint ''audit_logs'' (Check ''ck_audit_logs_action'' (InList ''action'' audit_actions_0010))] @
     List.map Policy (school_scoped_policy_sql ''students'')"

definition audit_actions_0010_before :: "string list" where
  "audit_actions_0010_before =
     [''ORGANIZATION_CREATED'', ''ORGANIZATION_UPDATED'', ''ORGANIZATION_DELETED'', ''SCHOOL_CREATED'',
      ''SCHOOL_UPDATED'', ''SCHOOL_DELETED'', ''USER_CREATED'', ''USER_UPDATED'', ''USER_DELETED'',
      ''MEMBERSHIP_CREATED'', ''MEMBERSHIP_UPDATED'', ''MEMBERSHIP_ENDED'', ''ROLE_CREATED'', ''ROLE_UPDATED'',
      ''ROLE_DELETED'', ''ROLE_GRANTED'', ''ROLE_REVOKED'', ''PERSON_CREATED'', ''PERSON_UPDATED'',
      ''PERSON_DELETED'', ''PERSON_MERGED'', ''ADDRESS_CREATED'', ''ADDRESS_UPDATED'', ''ADDRESS_DELETED'',
      ''CONTACT_CREATED'', ''CONTACT_UPDATED'', ''CONTACT_DELETED'', ''LOGIN_SUCCESS'', ''LOGOUT'',
      ''PASSWORD_CHANGED'', ''PASSWORD_RESET_REQUESTED'', ''PASSWORD_RESET_CONFIRMED'',
      ''ACADEMIC_YEAR_CREATED'', ''ACADEMIC_YEAR_UPDATED'', ''ACADEMIC_YEAR_DELETED'',
      ''ACADEMIC_TERM_CREATED'', ''ACADEMIC_TERM_UPDATED'', ''ACADEMIC_TERM_DELETED'',
      ''ACADEMIC_CLASS_CREATED'', ''ACADEMIC_CLASS_UPDATED'', ''ACADEMIC_CLASS_DELETED'', ''SUBJECT_CREATED'',
      ''SUBJECT_UPDATED'', ''SUBJECT_DELETED'', ''CLASS_SUBJECT_CREATED'', ''CLASS_SUBJECT_DELETED'',
      ''COHORT_CREATED'', ''COHORT_UPDATED'', ''COHORT_DELETED'']"

definition downgrade_0010 :: "ddl list" where
  "downgrade_0010 =
     List.map Policy (drop_policy_sql ''students'') @
     [DropIndex False ''ix_students_person_id'',
      DropIndex False ''ix_students_organization_id'',
      DropIndex False ''ix_students_school_id'',
      DropTable ''students'',
      DropConstraint True ''audit_logs'' ''ck_audit_logs_action'',
      AddConstraint ''audit_logs'' (Check ''ck_audit_logs_action'' (InList ''action'' audit_actions_0010_before))]"

definition migration_0010 :: migration where
  "migration_0010 =
     \<lparr>mg_revision = ''0010_students'', mg_down_revision = Some ''0009_academic_year_current_unique'', mg_upgrade = upgrade_0010, mg_downgrade = downgrade_0010\<rparr>"

section \<open>0011_enrollments\<close>

definition student_enrollments_table :: ddl where
  "student_enrollments_table =
     CreateTable ''student_enrollments''
     [Col ''school_id'' (Varchar 26) NOT_NULL NoDefault,
      Col ''organization_id'' (Varchar 26) NOT_NULL NoDefault,
      Col ''student_id'' (Varchar 26) NOT_NULL NoDefault,
      Col ''academic_year_id'' (Varchar 26) NOT_NULL NoDefault,
      Col ''academic_class_id'' (Varchar 26) NOT_NULL NoDefault,
      Col ''cohort_id'' (Varchar 26) NOT_NULL NoDefault,
      Col ''roll_number'' (Varchar 20) NULLABLE NoDefault,
      Col ''start_date'' DateType NOT_NULL NoDefault,
      Col ''end_date'' DateType NULLABLE NoDefault,
      Col ''enrollment_type'' (Varchar 24) NOT_NULL (Literal ''REGULAR''),
      Col ''status'' (Varchar 24) NOT_NULL (Literal ''ACTIVE''),
      Col ''id'' (Varchar 26) NOT_NULL NoDefault,
      Col ''created_at'' Timestamptz NOT_NULL (Sql ''now()''),
      Col ''updated_at'' Timestamptz NOT_NULL (Sql ''now()''),
      Col ''version'' IntegerType NOT_NULL (Sql ''1''),
      Col ''created_by_id'' (Varchar 26) NULLABLE NoDefault,
      Col ''updated_by_id'' (Varchar 26) NULLABLE NoDefault]
     [Check ''ck_student_enrollments_status'' (InList ''status'' [''ACTIVE'', ''TRANSFERRED'', ''WITHDRAWN'', ''COMPLETED'']),
      Check ''ck_student_enrollments_enrollment_type'' (InList ''enrollment_type'' [''REGULAR'', ''TRANSFER_IN'', ''REPEAT'', ''PROMOTION'', ''TEMPORARY'']),
      ForeignKey ''fk_student_enrollments_school_id_schools'' [''school_id''] ''schools'' [''id''] ''RESTRICT'',
      ForeignKey ''fk_student_enrollments_organization_id_organizations'' [''organization_id''] ''organizations'' [''id''] ''RESTRICT'',
      ForeignKey ''fk_student_enrollments_student_id_students'' [''student_id''] ''students'' [''id''] ''RESTRICT'',
      ForeignKey ''fk_student_enrollments_academic_year_id_academic_years'' [''academic_year_id''] ''academic_years'' [''id''] ''RESTRICT'',
      ForeignKey ''fk_student_enrollments_academic_class_id_academic_classes'' [''academic_class_id''] ''academic_classes'' [''id''] ''RESTRICT'',
      ForeignKey ''fk_student_enrollments_cohort_id_cohorts'' [''cohort_id''] ''cohorts'' [''id''] ''RESTRICT'',
      PrimaryKey ''pk_student_enrollments'' [''id'']]"

definition audit_actions_0011 :: "string list" where
  "audit_actions_0011 =
     [''ORGANIZATION_CREATED'', ''ORGANIZATION_UPDATED'', ''ORGANIZATION_DELETED'', ''SCHOOL_CREATED'',
      ''SCHOOL_UPDATED'', ''SCHOOL_DELETED'', ''USER_CREATED'', ''USER_UPDATED'', ''USER_DELETED'',
      ''MEMBERSHIP_CREATED'', ''MEMBERSHIP_UPDATED'', ''MEMBERSHIP_ENDED'', ''ROLE_CREATED'', ''ROLE_UPDATED'',
      ''ROLE_DELETED'', ''ROLE_GRANTED'', ''ROLE_REVOKED'', ''PERSON_CREATED'', ''PERSON_UPDATED'',
      ''PERSON_DELETED'', ''PERSON_MERGED'', ''ADDRESS_CREATED'', ''ADDRESS_UPDATED'', ''ADDRESS_DELETED'',
      ''CONTACT_CREATED'', ''CONTACT_UPDATED'', ''CONTACT_DELETED'', ''LOGIN_SUCCESS'', ''LOGOUT'',
      ''PASSWORD_CHANGED'', ''PASSWORD_RESET_REQUESTED'', ''PASSWORD_RESET_CONFIRMED'',
      ''ACADEMIC_YEAR_CREATED'', ''ACADEMIC_YEAR_UPDATED'', ''ACADEMIC_YEAR_DELETED'',
      ''ACADEMIC_TERM_CREATED'', ''ACADEMIC_TERM_UPDATED'', ''ACADEMIC_TERM_DELETED'',
      ''ACADEMIC_CLASS_CREATED'', ''ACADEMIC_CLASS_UPDATED'', ''ACADEMIC_CLASS_DELETED'', ''SUBJECT_CREATED'',
      ''SUBJECT_UPDATED'', ''SUBJECT_DELETED'', ''CLASS_SUBJECT_CREATED'', ''CLASS_SUBJECT_DELETED'',
      ''COHORT_CREATED'', ''COHORT_UPDATED'', ''COHORT_DELETED'', ''STUDENT_CREATED'', ''STUDENT_UPDATED'',
      ''STUDENT_DELETED'', ''ENROLLMENT_CREATED'', ''ENROLLMENT_UPDATED'', ''ENROLLMENT_DELETED'']"

definition upgrade_0011 :: "ddl list" where
  "upgrade_0011 =
     [student_enrollments_table,
      CreateIndex False False ''student_enrollments'' (Index ''ix_student_enrollments_school_id'' False ''btree'' [Key ''school_id''] None),
      CreateIndex False False ''student_enrollments'' (Index ''ix_student_enrollments_student_id'' False ''btree'' [Key ''student_id''] None),
      CreateIndex False False ''student_enrollments'' (Index ''ix_student_enrollments_academic_year_id'' False ''btree'' [Key ''academic_year_id''] None),
      CreateIndex False False ''student_enrollments'' (Index ''ix_student_enrollments_cohort_id'' False ''btree'' [Key ''cohort_id''] None),
      CreateIndex False False ''student_enrollments'' (Index ''uq_enrollment_student_year_active'' True ''btree'' [Key ''student_id'', Key ''academic_year_id''] (Some (Condition (''status = '' @ quoted ''ACTIVE'')))),
      CreateIndex False False ''student_enrollments'' (Index ''uq_enrollment_cohort_roll'' True ''btree'' [Key ''cohort_id'', Key ''roll_number''] (Some (Condition (''roll_number IS NOT NULL AND status = '' @ quoted ''ACTIVE'')))),
      DropConstraint True ''audit_logs'' ''ck_audit_logs_action'',
      AddConstraint ''audit_logs'' (Check ''ck_audit_logs_action'' (InList ''action'' audit_actions_0011))] @
     List.map Policy (school_scoped_policy_sql ''student_enrollments'')"

definition audit_actions_0011_before :: "string list" where
  "audit_actions_0011_before =
     [''ORGANIZATION_CREATED'', ''ORGANIZATION_UPDATED'', ''ORGANIZATION_DELETED'', ''SCHOOL_CREATED'',
      ''SCHOOL_UPDATED'', ''SCHOOL_DELETED'', ''USER_CREATED'', ''USER_UPDATED'', ''USER_DELETED'',
      ''MEMBERSHIP_CREATED'', ''MEMBERSHIP_UPDATED'', ''MEMBERSHIP_ENDED'', ''ROLE_CREATED'', ''ROLE_UPDATED'',
      ''ROLE_DELETED'', ''ROLE_GRANTED'', ''ROLE_REVOKED'', ''PERSON_CREATED'', ''PERSON_UPDATED'',
      ''PERSON_DELETED'', ''PERSON_MERGED'', ''ADDRESS_CREATED'', ''ADDRESS_UPDATED'', ''ADDRESS_DELETED'',
      ''CONTACT_CREATED'', ''CONTACT_UPDATED'', ''CONTACT_DELETED'', ''LOGIN_SUCCESS'', ''LOGOUT'',
      ''PASSWORD_CHANGED'', ''PASSWORD_RESET_REQUESTED'', ''PASSWORD_RESET_CONFIRMED'',
      ''ACADEMIC_YEAR_CREATED'', ''ACADEMIC_YEAR_UPDATED'', ''ACADEMIC_YEAR_DELETED'',
      ''ACADEMIC_TERM_CREATED'', ''ACADEMIC_TERM_UPDATED'', ''ACADEMIC_TERM_DELETED'',
      ''ACADEMIC_CLASS_CREATED'', ''ACADEMIC_CLASS_UPDATED'', ''ACADEMIC_CLASS_DELETED'', ''SUBJECT_CREATED'',
      ''SUBJECT_UPDATED'', ''SUBJECT_DELETED'', ''CLASS_SUBJECT_CREATED'', ''CLASS_SUBJECT_DELETED'',
      ''COHORT_CREATED'', ''COHORT_UPDATED'', ''COHORT_DELETED'', ''STUDENT_CREATED'', ''STUDENT_UPDATED'',
      ''STUDENT_DELETED'']"

definition downgrade_0011 :: "ddl list" where
  "downgrade_0011 =
     List.map Policy (drop_policy_sql ''student_enrollments'') @
     [DropIndex False ''uq_enrollment_cohort_roll'',
      DropIndex False ''uq_enrollment_student_year_active'',
      DropIndex False ''ix_student_enrollments_cohort_id'',
      DropIndex False ''ix_student_enrollments_academic_year_id'',
      DropIndex False ''ix_student_enrollments_student_id'',
      DropIndex False ''ix_student_enrollments_school_id'',
      DropTable ''student_enrollments'',
      DropConstraint True ''audit_logs'' ''ck_audit_logs_action'',
      AddConstraint ''audit_logs'' (Check ''ck_audit_logs_action'' (InList ''action'' audit_actions_0011_before))]"

definition migration_0011 :: migration where
  "migration_0011 =
     \<lparr>mg_revision = ''0011_enrollments'', mg_down_revision = Some ''0010_students'', mg_upgrade = upgrade_0011, mg_downgrade = downgrade_0011\<rparr>"

section \<open>0012_student_guardians\<close>

definition student_guardians_table :: ddl where
  "student_guardians_table =
     CreateTable ''student_guardians''
     [Col ''school_id'' (Varchar 26) NOT_NULL NoDefault,
      Col ''organization_id'' (Varchar 26) NOT_NULL NoDefault,
      Col ''student_id'' (Varchar 26) NOT_NULL NoDefault,
      Col ''guardian_person_id'' (Varchar 26) NOT_NULL NoDefault,
      Col ''relationship'' (Varchar 30) NOT_NULL NoDefault,
      Col ''is_primary'' BooleanType NOT_NULL (Sql ''false''),
      Col ''is_emergency_contact'' BooleanType NOT_NULL (Sql ''false''),
      Col ''can_pickup'' BooleanType NOT_NULL (Sql ''true''),
      Col ''id'' (Varchar 26) NOT_NULL NoDefault,
      Col ''created_at'' Timestamptz NOT_NULL (Sql ''now()''),
      Col ''updated_at'' Timestamptz NOT_NULL (Sql ''now()''),
      Col ''created_by_id'' (Varchar 26) NULLABLE NoDefault,
      Col ''updated_by_id'' (Varchar 26) NULLABLE NoDefault]
     [Check ''ck_student_guardians_relationship'' (InList ''relationship'' [''FATHER'', ''MOTHER'', ''GUARDIAN'', ''GRANDPARENT'', ''SIBLING'', ''OTHER'']),
      ForeignKey ''fk_student_guardians_school_id_schools'' [''school_id''] ''schools'' [''id''] ''RESTRICT'',
      ForeignKey ''fk_student_guardians_organization_id_organizations'' [''organization_id''] ''organizations'' [''id''] ''RESTRICT'',
      ForeignKey ''fk_student_guardians_student_id_students'' [''student_id''] ''students'' [''id''] ''RESTRICT'',
      ForeignKey ''fk_student_guardians_guardian_person_id_persons'' [''guardian_person_id''] ''persons'' [''id''] ''RESTRICT'',
      PrimaryKey ''pk_student_guardians'' [''id''],
      Unique ''uq_student_guardian_person'' False [''student_id'', ''guardian_person_id'']]"

definition audit_actions_0012 :: "string list" where
  "audit_actions_0012 =
     [''ORGANIZATION_CREATED'', ''ORGANIZATION_UPDATED'', ''ORGANIZATION_DELETED'', ''SCHOOL_CREATED'',
      ''SCHOOL_UPDATED'', ''SCHOOL_DELETED'', ''USER_CREATED'', ''USER_UPDATED'', ''USER_DELETED'',
      ''MEMBERSHIP_CREATED'', ''MEMBERSHIP_UPDATED'', ''MEMBERSHIP_ENDED'', ''ROLE_CREATED'', ''ROLE_UPDATED'',
      ''ROLE_DELETED'', ''ROLE_GRANTED'', ''ROLE_REVOKED'', ''PERSON_CREATED'', ''PERSON_UPDATED'',
      ''PERSON_DELETED'', ''PERSON_MERGED'', ''ADDRESS_CREATED'', ''ADDRESS_UPDATED'', ''ADDRESS_DELETED'',
      ''CONTACT_CREATED'', ''CONTACT_UPDATED'', ''CONTACT_DELETED'', ''LOGIN_SUCCESS'', ''LOGOUT'',
      ''PASSWORD_CHANGED'', ''PASSWORD_RESET_REQUESTED'', ''PASSWORD_RESET_CONFIRMED'',
      ''ACADEMIC_YEAR_CREATED'', ''ACADEMIC_YEAR_UPDATED'', ''ACADEMIC_YEAR_DELETED'',
      ''ACADEMIC_TERM_CREATED'', ''ACADEMIC_TERM_UPDATED'', ''ACADEMIC_TERM_DELETED'',
      ''ACADEMIC_CLASS_CREATED'', ''ACADEMIC_CLASS_UPDATED'', ''ACADEMIC_CLASS_DELETED'', ''SUBJECT_CREATED'',
      ''SUBJECT_UPDATED'', ''SUBJECT_DELETED'', ''CLASS_SUBJECT_CREATED'', ''CLASS_SUBJECT_DELETED'',
      ''COHORT_CREATED'', ''COHORT_UPDATED'', ''COHORT_DELETED'', ''STUDENT_CREATED'', ''STUDENT_UPDATED'',
      ''STUDENT_DELETED'', ''STUDENT_GUARDIAN_CREATED'', ''STUDENT_GUARDIAN_UPDATED'',
      ''STUDENT_GUARDIAN_DELETED'']"

definition upgrade_0012 :: "ddl list" where
  "upgrade_0012 =
     [student_guardians_table,
      CreateIndex False False ''student_guardians'' (Index ''ix_student_guardians_school_id'' False ''btree'' [Key ''school_id''] None),
      CreateIndex False False ''student_guardians'' (Index ''ix_student_guardians_student_id'' False ''btree'' [Key ''student_id''] None),
      DropConstraint True ''audit_logs'' ''ck_audit_logs_action'',
      AddConstraint ''audit_logs'' (Check ''ck_audit_logs_action'' (InList ''action'' audit_actions_0012))] @
     List.map Policy (school_scoped_policy_sql ''student_guardians'')"

definition audit_actions_0012_before :: "string list" where
  "audit_actions_0012_before =
     [''ORGANIZATION_CREATED'', ''ORGANIZATION_UPDATED'', ''ORGANIZATION_DELETED'', ''SCHOOL_CREATED'',
      ''SCHOOL_UPDATED'', ''SCHOOL_DELETED'', ''USER_CREATED'', ''USER_UPDATED'', ''USER_DELETED'',
      ''MEMBERSHIP_CREATED'', ''MEMBERSHIP_UPDATED'', ''MEMBERSHIP_ENDED'', ''ROLE_CREATED'', ''ROLE_UPDATED'',
      ''ROLE_DELETED'', ''ROLE_GRANTED'', ''ROLE_REVOKED'', ''PERSON_CREATED'', ''PERSON_UPDATED'',
      ''PERSON_DELETED'', ''PERSON_MERGED'', ''ADDRESS_CREATED'', ''ADDRESS_UPDATED'', ''ADDRESS_DELETED'',
      ''CONTACT_CREATED'', ''CONTACT_UPDATED'', ''CONTACT_DELETED'', ''LOGIN_SUCCESS'', ''LOGOUT'',
      ''PASSWORD_CHANGED'', ''PASSWORD_RESET_REQUESTED'', ''PASSWORD_RESET_CONFIRMED'',
      ''ACADEMIC_YEAR_CREATED'', ''ACADEMIC_YEAR_UPDATED'', ''ACADEMIC_YEAR_DELETED'',
      ''ACADEMIC_TERM_CREATED'', ''ACADEMIC_TERM_UPDATED'', ''ACADEMIC_TERM_DELETED'',
      ''ACADEMIC_CLASS_CREATED'', ''ACADEMIC_CLASS_UPDATED'', ''ACADEMIC_CLASS_DELETED'', ''SUBJECT_CREATED'',
      ''SUBJECT_UPDATED'', ''SUBJECT_DELETED'', ''CLASS_SUBJECT_CREATED'', ''CLASS_SUBJECT_DELETED'',
      ''COHORT_CREATED'', ''COHORT_UPDATED'', ''COHORT_DELETED'', ''STUDENT_CREATED'', ''STUDENT_UPDATED'',
      ''STUDENT_DELETED'']"

definition downgrade_0012 :: "ddl list" where
  "downgrade_0012 =
     List.map Policy (drop_policy_sql ''student_guardians'') @
     [DropIndex False ''ix_student_guardians_student_id'',
      DropIndex False ''ix_student_guardians_school_id'',
      DropTable ''student_guardians'',
      DropConstraint True ''audit_logs'' ''ck_audit_logs_action'',
      AddConstraint ''audit_logs'' (Check ''ck_audit_logs_action'' (InList ''action'' audit_actions_0012_before))]"

definition migration_0012 :: migration where
  "migration_0012 =
     \<lparr>mg_revision = ''0012_student_guardians'', mg_down_revision = Some ''0011_enrollments'', mg_upgrade = upgrade_0012, mg_downgrade = downgrade_0012\<rparr>"

section \<open>0013_teachers\<close>

definition tables_0013 :: "string list" where
  "tables_0013 =
     [''teachers'', ''teacher_assignments'']"

definition teachers_table :: ddl where
  "teachers_table =
     CreateTable ''teachers''
     [Col ''school_id'' (Varchar 26) NOT_NULL NoDefault,
      Col ''organization_id'' (Varchar 26) NOT_NULL NoDefault,
      Col ''person_id'' (Varchar 26) NOT_NULL NoDefault,
      Col ''employee_number'' (Varchar 50) NULLABLE NoDefault,
      Col ''designation'' (Varchar 100) NULLABLE NoDefault,
      Col ''joining_date'' DateType NULLABLE NoDefault,
      Col ''leaving_date'' DateType NULLABLE NoDefault,
      Col ''status'' (Varchar 24) NOT_NULL (Literal ''ACTIVE''),
      Col ''id'' (Varchar 26) NOT_NULL NoDefault,
      Col ''created_at'' Timestamptz NOT_NULL (Sql ''now()''),
      Col ''updated_at'' Timestamptz NOT_NULL (Sql ''now()''),
      Col ''version'' IntegerType NOT_NULL (Sql ''1''),
      Col ''created_by_id'' (Varchar 26) NULLABLE NoDefault,
      Col ''updated_by_id'' (Varchar 26) NULLABLE NoDefault,
      Col ''archived_at'' Timestamptz NULLABLE NoDefault,
      Col ''deleted_at'' Timestamptz NULLABLE NoDefault]
     [Check ''ck_teachers_status'' (InList ''status'' [''ACTIVE'', ''ON_LEAVE'', ''RESIGNED'', ''TERMINATED'', ''INACTIVE'']),
      ForeignKey ''fk_teachers_school_id_schools'' [''school_id''] ''schools'' [''id''] ''RESTRICT'',
      ForeignKey ''fk_teachers_organization_id_organizations'' [''organization_id''] ''organizations'' [''id''] ''RESTRICT'',
      ForeignKey ''fk_teachers_person_id_persons'' [''person_id''] ''persons'' [''id''] ''RESTRICT'',
      PrimaryKey ''pk_teachers'' [''id''],
      Unique ''uq_teachers_school_id_person_id'' False [''school_id'', ''person_id'']]"

definition teacher_assignments_table :: ddl where
  "teacher_assignments_table =
     CreateTable ''teacher_assignments''
     [Col ''school_id'' (Varchar 26) NOT_NULL NoDefault,
      Col ''organization_id'' (Varchar 26) NOT_NULL NoDefault,
      Col ''teacher_id'' (Varchar 26) NOT_NULL NoDefault,
      Col ''cohort_id'' (Varchar 26) NOT_NULL NoDefault,
      Col ''subject_id'' (Varchar 26) NULLABLE NoDefault,
      Col ''academic_year_id'' (Varchar 26) NOT_NULL NoDefault,
      Col ''role'' (Varchar 30) NOT_NULL (Literal ''SUBJECT_TEACHER''),
      Col ''start_date'' DateType NOT_NULL NoDefault,
      Col ''end_date'' DateType NULLABLE NoDefault,
      Col ''status'' (Varchar 24) NOT_NULL (Literal ''ACTIVE''),
      Col ''id'' (Varchar 26) NOT_NULL NoDefault,
      Col ''created_at'' Timestamptz NOT_NULL (Sql ''now()''),
      Col ''updated_at'' Timestamptz NOT_NULL (Sql ''now()''),
      Col ''version'' IntegerType NOT_NULL (Sql ''1''),
      Col ''created_by_id'' (Varchar 26) NULLABLE NoDefault,
      Col ''updated_by_id'' (Varchar 26) NULLABLE NoDefault]
     [Check ''ck_teacher_assignments_role'' (InList ''role'' [''SUBJECT_TEACHER'', ''CLASS_TEACHER'', ''SUBSTITUTE'', ''COORDINATOR'']),
      Check ''ck_teacher_assignments_status'' (InList ''status'' [''ACTIVE'', ''ENDED'']),
      ForeignKey ''fk_teacher_assignments_school_id_schools'' [''school_id''] ''schools'' [''id''] ''RESTRICT'',
      ForeignKey ''fk_teacher_assignments_organization_id_organizations'' [''organization_id''] ''organizations'' [''id''] ''RESTRICT'',
      ForeignKey ''fk_teacher_assignments_teacher_id_teachers'' [''teacher_id''] ''teachers'' [''id''] ''RESTRICT'',
      ForeignKey ''fk_teacher_assignments_cohort_id_cohorts'' [''cohort_id''] ''cohorts'' [''id''] ''RESTRICT'',
      ForeignKey ''fk_teacher_assignments_subject_id_subjects'' [''subject_id''] ''subjects'' [''id''] ''RESTRICT'',
      ForeignKey ''fk_teacher_assignments_academic_year_id_academic_years'' [''academic_year_id''] ''academic_years'' [''id''] ''RESTRICT'',
      PrimaryKey ''pk_teacher_assignments'' [''id'']]"

definition audit_actions_0013 :: "string list" where
  "audit_actions_0013 =
     [''ORGANIZATION_CREATED'', ''ORGANIZATION_UPDATED'', ''ORGANIZATION_DELETED'', ''SCHOOL_CREATED'',
      ''SCHOOL_UPDATED'', ''SCHOOL_DELETED'', ''USER_CREATED'', ''USER_UPDATED'', ''USER_DELETED'',
      ''MEMBERSHIP_CREATED'', ''MEMBERSHIP_UPDATED'', ''MEMBERSHIP_ENDED'', ''ROLE_CREATED'', ''ROLE_UPDATED'',
      ''ROLE_DELETED'', ''ROLE_GRANTED'', ''ROLE_REVOKED'', ''PERSON_CREATED'', ''PERSON_UPDATED'',
      ''PERSON_DELETED'', ''PERSON_MERGED'', ''ADDRESS_CREATED'', ''ADDRESS_UPDATED'', ''ADDRESS_DELETED'',
      ''CONTACT_CREATED'', ''CONTACT_UPDATED'', ''CONTACT_DELETED'', ''LOGIN_SUCCESS'', ''LOGOUT'',
      ''PASSWORD_CHANGED'', ''PASSWORD_RESET_REQUESTED'', ''PASSWORD_RESET_CONFIRMED'',
      ''ACADEMIC_YEAR_CREATED'', ''ACADEMIC_YEAR_UPDATED'', ''ACADEMIC_YEAR_DELETED'',
      ''ACADEMIC_TERM_CREATED'', ''ACADEMIC_TERM_UPDATED'', ''ACADEMIC_TERM_DELETED'',
      ''ACADEMIC_CLASS_CREATED'', ''ACADEMIC_CLASS_UPDATED'', ''ACADEMIC_CLASS_DELETED'', ''SUBJECT_CREATED'',
      ''SUBJECT_UPDATED'', ''SUBJECT_DELETED'', ''CLASS_SUBJECT_CREATED'', ''CLASS_SUBJECT_DELETED'',
      ''COHORT_CREATED'', ''COHORT_UPDATED'', ''COHORT_DELETED'', ''STUDENT_CREATED'', ''STUDENT_UPDATED'',
      ''STUDENT_DELETED'', ''ENROLLMENT_CREATED'', ''ENROLLMENT_UPDATED'', ''ENROLLMENT_DELETED'',
      ''STUDENT_GUARDIAN_CREATED'', ''STUDENT_GUARDIAN_UPDATED'', ''STUDENT_GUARDIAN_DELETED'',
      ''TEACHER_CREATED'', ''TEACHER_UPDATED'', ''TEACHER_DELETED'', ''TEACHER_ASSIGNED'',
      ''TEACHER_ASSIGNMENT_UPDATED'', ''TEACHER_ASSIGNMENT_ENDED'']"

definition upgrade_0013 :: "ddl list" where
  "upgrade_0013 =
     [teachers_table,
      CreateIndex False False ''teachers'' (Index ''ix_teachers_school_id'' False ''btree'' [Key ''school_id''] None),
      CreateIndex False False ''teachers'' (Index ''ix_teachers_organization_id'' False ''btree'' [Key ''organization_id''] None),
      CreateIndex False False ''teachers'' (Index ''ix_teachers_person_id'' False ''btree'' [Key ''person_id''] None),
      CreateIndex False False ''teachers'' (Index ''uq_teachers_school_id_employee_number'' True ''btree'' [Key ''school_id'', Key ''employee_number''] (Some (Condition ''employee_number IS NOT NULL AND deleted_at IS NULL''))),
      teacher_assignments_table,
      CreateIndex False False ''teacher_assignments'' (Index ''ix_teacher_assignments_school_id'' False ''btree'' [Key ''school_id''] None),
      CreateIndex False False ''teacher_assignments'' (Index ''ix_teacher_assignments_organization_id'' False ''btree'' [Key ''organization_id''] None),
      CreateIndex False False ''teacher_assignments'' (Index ''ix_teacher_assignments_teacher_id'' False ''btree'' [Key ''teacher_id''] None),
      CreateIndex False False ''teacher_assignments'' (Index ''ix_teacher_assignments_cohort_id'' False ''btree'' [Key ''cohort_id''] None),
      CreateIndex False False ''teacher_assignments'' (Index ''ix_teacher_assignments_academic_year_id'' False ''btree'' [Key ''academic_year_id''] None),
      CreateIndex False False ''teacher_assignments'' (Index ''ix_teacher_assignments_subject_id'' False ''btree'' [Key ''subject_id''] None),
      DropConstraint True ''audit_logs'' ''ck_audit_logs_action'',
      AddConstraint ''audit_logs'' (Check ''ck_audit_logs_action'' (InList ''action'' audit_actions_0013))] @
     execute_each school_scoped_policy_sql tables_0013"

definition audit_actions_0013_before :: "string list" where
  "audit_actions_0013_before =
     [''ORGANIZATION_CREATED'', ''ORGANIZATION_UPDATED'', ''ORGANIZATION_DELETED'', ''SCHOOL_CREATED'',
      ''SCHOOL_UPDATED'', ''SCHOOL_DELETED'', ''USER_CREATED'', ''USER_UPDATED'', ''USER_DELETED'',
      ''MEMBERSHIP_CREATED'', ''MEMBERSHIP_UPDATED'', ''MEMBERSHIP_ENDED'', ''ROLE_CREATED'', ''ROLE_UPDATED'',
      ''ROLE_DELETED'', ''ROLE_GRANTED'', ''ROLE_REVOKED'', ''PERSON_CREATED'', ''PERSON_UPDATED'',
      ''PERSON_DELETED'', ''PERSON_MERGED'', ''ADDRESS_CREATED'', ''ADDRESS_UPDATED'', ''ADDRESS_DELETED'',
      ''CONTACT_CREATED'', ''CONTACT_UPDATED'', ''CONTACT_DELETED'', ''LOGIN_SUCCESS'', ''LOGOUT'',
      ''PASSWORD_CHANGED'', ''PASSWORD_RESET_REQUESTED'', ''PASSWORD_RESET_CONFIRMED'',
      ''ACADEMIC_YEAR_CREATED'', ''ACADEMIC_YEAR_UPDATED'', ''ACADEMIC_YEAR_DELETED'',
      ''ACADEMIC_TERM_CREATED'', ''ACADEMIC_TERM_UPDATED'', ''ACADEMIC_TERM_DELETED'',
      ''ACADEMIC_CLASS_CREATED'', ''ACADEMIC_CLASS_UPDATED'', ''ACADEMIC_CLASS_DELETED'', ''SUBJECT_CREATED'',
      ''SUBJECT_UPDATED'', ''SUBJECT_DELETED'', ''CLASS_SUBJECT_CREATED'', ''CLASS_SUBJECT_DELETED'',
      ''COHORT_CREATED'', ''COHORT_UPDATED'', ''COHORT_DELETED'', ''STUDENT_CREATED'', ''STUDENT_UPDATED'',
      ''STUDENT_DELETED'', ''ENROLLMENT_CREATED'', ''ENROLLMENT_UPDATED'', ''ENROLLMENT_DELETED'',
      ''STUDENT_GUARDIAN_CREATED'', ''STUDENT_GUARDIAN_UPDATED'', ''STUDENT_GUARDIAN_DELETED'']"

definition downgrade_0013 :: "ddl list" where
  "downgrade_0013 =
     execute_each drop_policy_sql (rev tables_0013) @
     [DropIndex False ''ix_teacher_assignments_subject_id'',
      DropIndex False ''ix_teacher_assignments_academic_year_id'',
      DropIndex False ''ix_teacher_assignments_cohort_id'',
      DropIndex False ''ix_teacher_assignments_teacher_id'',
      DropIndex False ''ix_teacher_assignments_organization_id'',
      DropIndex False ''ix_teacher_assignments_school_id'',
      DropTable ''teacher_assignments'',
      DropIndex True ''uq_teachers_school_id_employee_number'',
      DropIndex False ''ix_teachers_person_id'',
      DropIndex False ''ix_teachers_organization_id'',
      DropIndex False ''ix_teachers_school_id'',
      DropTable ''teachers'',
      DropConstraint True ''audit_logs'' ''ck_audit_logs_action'',
      AddConstraint ''audit_logs'' (Check ''ck_audit_logs_action'' (InList ''action'' audit_actions_0013_before))]"

definition migration_0013 :: migration where
  "migration_0013 =
     \<lparr>mg_revision = ''0013_teachers'', mg_down_revision = Some ''0012_student_guardians'', mg_upgrade = upgrade_0013, mg_downgrade = downgrade_0013\<rparr>"

section \<open>0014_timetables\<close>

definition tables_0014 :: "string list" where
  "tables_0014 =
     [''period_definitions'', ''timetable_slots'']"

definition period_definitions_table :: ddl where
  "period_definitions_table =
     CreateTable ''period_definitions''
     [Col ''school_id'' (Varchar 26) NOT_NULL NoDefault,
      Col ''organization_id'' (Varchar 26) NOT_NULL NoDefault,
      Col ''academic_year_id'' (Varchar 26) NOT_NULL NoDefault,
      Col ''name'' (Varchar 50) NOT_NULL NoDefault,
      Col ''period_type'' (Varchar 20) NOT_NULL (Literal ''LESSON''),
      Col ''start_time'' TimeType NOT_NULL NoDefault,
      Col ''end_time'' TimeType NOT_NULL NoDefault,
      Col ''sort_order'' IntegerType NOT_NULL (Sql ''0''),
      Col ''id'' (Varchar 26) NOT_NULL NoDefault,
      Col ''created_at'' Timestamptz NOT_NULL (Sql ''now()''),
      Col ''updated_at'' Timestamptz NOT_NULL (Sql ''now()''),
      Col ''created_by_id'' (Varchar 26) NULLABLE NoDefault,
      Col ''updated_by_id'' (Varchar 26) NULLABLE NoDefault]
     [Check ''ck_period_definitions_period_type'' (InList ''period_type'' [''LESSON'', ''BREAK'', ''LUNCH'', ''ASSEMBLY'', ''FREE'', ''EXAM'']),
      ForeignKey ''fk_period_definitions_school_id_schools'' [''school_id''] ''schools'' [''id''] ''RESTRICT'',
      ForeignKey ''fk_period_definitions_organization_id_organizations'' [''organization_id''] ''organizations'' [''id''] ''RESTRICT'',
      ForeignKey ''fk_period_definitions_academic_year_id_academic_years'' [''academic_year_id''] ''academic_years'' [''id''] ''RESTRICT'',
      PrimaryKey ''pk_period_definitions'' [''id''],
      Unique ''uq_period_def_school_year_name'' False [''school_id'', ''academic_year_id'', ''name'']]"

definition timetable_slots_table :: ddl where
  "timetable_slots_table =
     CreateTable ''timetable_slots''
     [Col ''school_id'' (Varchar 26) NOT_NULL NoDefault,
      Col ''organization_id'' (Varchar 26) NOT_NULL NoDefault,
      Col ''academic_year_id'' (Varchar 26) NOT_NULL NoDefault,
      Col ''cohort_id'' (Varchar 26) NOT_NULL NoDefault,
      Col ''period_definition_id'' (Varchar 26) NOT_NULL NoDefault,
      Col ''teacher_id'' (Varchar 26) NOT_NULL NoDefault,
      Col ''subject_id'' (Varchar 26) NOT_NULL NoDefault,
      Col ''day_of_week'' (Varchar 10) NOT_NULL NoDefault,
      Col ''effective_from'' DateType NOT_NULL NoDefault,
      Col ''effective_to'' DateType NULLABLE NoDefault,
      Col ''status'' (Varchar 20) NOT_NULL (Literal ''ACTIVE''),
      Col ''notes'' TextType NULLABLE NoDefault,
      Col ''id'' (Varchar 26) NOT_NULL NoDefault,
      Col ''created_at'' Timestamptz NOT_NULL (Sql ''now()''),
      Col ''updated_at'' Timestamptz NOT_NULL (Sql ''now()''),
      Col ''version'' IntegerType NOT_NULL (Sql ''1''),
      Col ''created_by_id'' (Varchar 26) NULLABLE NoDefault,
      Col ''updated_by_id'' (Varchar 26) NULLABLE NoDefault]
     [Check ''ck_timetable_slots_day_of_week'' (InList ''day_of_week'' [''MONDAY'', ''TUESDAY'', ''WEDNESDAY'', ''THURSDAY'', ''FRIDAY'', ''SATURDAY'', ''SUNDAY'']),
      Check ''ck_timetable_slots_status'' (InList ''status'' [''ACTIVE'', ''CANCELLED'', ''SUBSTITUTED'']),
      ForeignKey ''fk_timetable_slots_school_id_schools'' [''school_id''] ''schools'' [''id''] ''RESTRICT'',
      ForeignKey ''fk_timetable_slots_organization_id_organizations'' [''organization_id''] ''organizations'' [''id''] ''RESTRICT'',
      ForeignKey ''fk_timetable_slots_academic_year_id_academic_years'' [''academic_year_id''] ''academic_years'' [''id''] ''RESTRICT'',
      ForeignKey ''fk_timetable_slots_cohort_id_cohorts'' [''cohort_id''] ''cohorts'' [''id''] ''RESTRICT'',
      ForeignKey ''fk_timetable_slots_period_definition_id_period_definitions'' [''period_definition_id''] ''period_definitions'' [''id''] ''RESTRICT'',
      ForeignKey ''fk_timetable_slots_teacher_id_teachers'' [''teacher_id''] ''teachers'' [''id''] ''RESTRICT'',
      ForeignKey ''fk_timetable_slots_subject_id_subjects'' [''subject_id''] ''subjects'' [''id''] ''RESTRICT'',
      PrimaryKey ''pk_timetable_slots'' [''id''],
      Unique ''uq_slot_cohort_period_day_date'' False [''cohort_id'', ''period_definition_id'', ''day_of_week'', ''effective_from'']]"

definition audit_actions_0014 :: "string list" where
  "audit_actions_0014 =
     [''ORGANIZATION_CREATED'', ''ORGANIZATION_UPDATED'', ''ORGANIZATION_DELETED'', ''SCHOOL_CREATED'',
      ''SCHOOL_UPDATED'', ''SCHOOL_DELETED'', ''USER_CREATED'', ''USER_UPDATED'', ''USER_DELETED'',
      ''MEMBERSHIP_CREATED'', ''MEMBERSHIP_UPDATED'', ''MEMBERSHIP_ENDED'', ''ROLE_CREATED'', ''ROLE_UPDATED'',
      ''ROLE_DELETED'', ''ROLE_GRANTED'', ''ROLE_REVOKED'', ''PERSON_CREATED'', ''PERSON_UPDATED'',
      ''PERSON_DELETED'', ''PERSON_MERGED'', ''ADDRESS_CREATED'', ''ADDRESS_UPDATED'', ''ADDRESS_DELETED'',
      ''CONTACT_CREATED'', ''CONTACT_UPDATED'', ''CONTACT_DELETED'', ''LOGIN_SUCCESS'', ''LOGOUT'',
      ''PASSWORD_CHANGED'', ''PASSWORD_RESET_REQUESTED'', ''PASSWORD_RESET_CONFIRMED'',
      ''ACADEMIC_YEAR_CREATED'', ''ACADEMIC_YEAR_UPDATED'', ''ACADEMIC_YEAR_DELETED'',
      ''ACADEMIC_TERM_CREATED'', ''ACADEMIC_TERM_UPDATED'', ''ACADEMIC_TERM_DELETED'',
      ''ACADEMIC_CLASS_CREATED'', ''ACADEMIC_CLASS_UPDATED'', ''ACADEMIC_CLASS_DELETED'', ''SUBJECT_CREATED'',
      ''SUBJECT_UPDATED'', ''SUBJECT_DELETED'', ''CLASS_SUBJECT_CREATED'', ''CLASS_SUBJECT_DELETED'',
      ''COHORT_CREATED'', ''COHORT_UPDATED'', ''COHORT_DELETED'', ''STUDENT_CREATED'', ''STUDENT_UPDATED'',
      ''STUDENT_DELETED'', ''ENROLLMENT_CREATED'', ''ENROLLMENT_UPDATED'', ''ENROLLMENT_DELETED'',
      ''STUDENT_GUARDIAN_CREATED'', ''STUDENT_GUARDIAN_UPDATED'', ''STUDENT_GUARDIAN_DELETED'',
      ''TEACHER_CREATED'', ''TEACHER_UPDATED'', ''TEACHER_DELETED'', ''TEACHER_ASSIGNED'',
      ''TEACHER_ASSIGNMENT_UPDATED'', ''TEACHER_ASSIGNMENT_ENDED'', ''PERIOD_DEFINITION_CREATED'',
      ''PERIOD_DEFINITION_UPDATED'', ''PERIOD_DEFINITION_DELETED'', ''TIMETABLE_SLOT_CREATED'',
      ''TIMETABLE_SLOT_UPDATED'', ''TIMETABLE_SLOT_CANCELLED'']"

definition upgrade_0014 :: "ddl list" where
  "upgrade_0014 =
     [period_definitions_table,
      CreateIndex False False ''period_definitions'' (Index ''ix_period_definitions_school_id'' False ''btree'' [Key ''school_id''] None),
      timetable_slots_table,
      CreateIndex False False ''timetable_slots'' (Index ''ix_timetable_slots_school_id'' False ''btree'' [Key ''school_id''] None),
      CreateIndex False False ''timetable_slots'' (Index ''ix_timetable_slots_cohort_id'' False ''btree'' [Key ''cohort_id''] None),
      CreateIndex False False ''timetable_slots'' (Index ''ix_timetable_slots_period_definition_id'' False ''btree'' [Key ''period_definition_id''] None),
      CreateIndex False False ''timetable_slots'' (Index ''ix_timetable_slots_teacher_id_day_of_week'' False ''btree'' [Key ''teacher_id'', Key ''day_of_week''] None),
      DropConstraint True ''audit_logs'' ''ck_audit_logs_action'',
      AddConstraint ''audit_logs'' (Check ''ck_audit_logs_action'' (InList ''action'' audit_actions_0014))] @
     execute_each school_scoped_policy_sql tables_0014"

definition audit_actions_0014_before :: "string list" where
  "audit_actions_0014_before =
     [''ORGANIZATION_CREATED'', ''ORGANIZATION_UPDATED'', ''ORGANIZATION_DELETED'', ''SCHOOL_CREATED'',
      ''SCHOOL_UPDATED'', ''SCHOOL_DELETED'', ''USER_CREATED'', ''USER_UPDATED'', ''USER_DELETED'',
      ''MEMBERSHIP_CREATED'', ''MEMBERSHIP_UPDATED'', ''MEMBERSHIP_ENDED'', ''ROLE_CREATED'', ''ROLE_UPDATED'',
      ''ROLE_DELETED'', ''ROLE_GRANTED'', ''ROLE_REVOKED'', ''PERSON_CREATED'', ''PERSON_UPDATED'',
      ''PERSON_DELETED'', ''PERSON_MERGED'', ''ADDRESS_CREATED'', ''ADDRESS_UPDATED'', ''ADDRESS_DELETED'',
      ''CONTACT_CREATED'', ''CONTACT_UPDATED'', ''CONTACT_DELETED'', ''LOGIN_SUCCESS'', ''LOGOUT'',
      ''PASSWORD_CHANGED'', ''PASSWORD_RESET_REQUESTED'', ''PASSWORD_RESET_CONFIRMED'',
      ''ACADEMIC_YEAR_CREATED'', ''ACADEMIC_YEAR_UPDATED'', ''ACADEMIC_YEAR_DELETED'',
      ''ACADEMIC_TERM_CREATED'', ''ACADEMIC_TERM_UPDATED'', ''ACADEMIC_TERM_DELETED'',
      ''ACADEMIC_CLASS_CREATED'', ''ACADEMIC_CLASS_UPDATED'', ''ACADEMIC_CLASS_DELETED'', ''SUBJECT_CREATED'',
      ''SUBJECT_UPDATED'', ''SUBJECT_DELETED'', ''CLASS_SUBJECT_CREATED'', ''CLASS_SUBJECT_DELETED'',
      ''COHORT_CREATED'', ''COHORT_UPDATED'', ''COHORT_DELETED'', ''STUDENT_CREATED'', ''STUDENT_UPDATED'',
      ''STUDENT_DELETED'', ''ENROLLMENT_CREATED'', ''ENROLLMENT_UPDATED'', ''ENROLLMENT_DELETED'',
      ''STUDENT_GUARDIAN_CREATED'', ''STUDENT_GUARDIAN_UPDATED'', ''STUDENT_GUARDIAN_DELETED'',
      ''TEACHER_CREATED'', ''TEACHER_UPDATED'', ''TEACHER_DELETED'', ''TEACHER_ASSIGNED'',
      ''TEACHER_ASSIGNMENT_UPDATED'', ''TEACHER_ASSIGNMENT_ENDED'']"

definition downgrade_0014 :: "ddl list" where
  "downgrade_0014 =
     execute_each drop_policy_sql (rev tables_0014) @
     [DropIndex False ''ix_timetable_slots_teacher_id_day_of_week'',
      DropIndex False ''ix_timetable_slots_period_definition_id'',
      DropIndex False ''ix_timetable_slots_cohort_id'',
      DropIndex False ''ix_timetable_slots_school_id'',
      DropTable ''timetable_slots'',
      DropIndex False ''ix_period_definitions_school_id'',
      DropTable ''period_definitions'',
      DropConstraint True ''audit_logs'' ''ck_audit_logs_action'',
      AddConstraint ''audit_logs'' (Check ''ck_audit_logs_action'' (InList ''action'' audit_actions_0014_before))]"

definition migration_0014 :: migration where
  "migration_0014 =
     \<lparr>mg_revision = ''0014_timetables'', mg_down_revision = Some ''0013_teachers'', mg_upgrade = upgrade_0014, mg_downgrade = downgrade_0014\<rparr>"

section \<open>0015_attendance\<close>

definition attendance_sessions_table :: ddl where
  "attendance_sessions_table =
     CreateTable ''attendance_sessions''
     [Col ''school_id'' (Varchar 26) NOT_NULL NoDefault,
      Col ''organization_id'' (Varchar 26) NOT_NULL NoDefault,
      Col ''cohort_id'' (Varchar 26) NOT_NULL NoDefault,
      Col ''academic_year_id'' (Varchar 26) NOT_NULL NoDefault,
      Col ''session_date'' DateType NOT_NULL NoDefault,
      Col ''status'' (Varchar 20) NOT_NULL (Literal ''DRAFT''),
      Col ''submitted_at'' Timestamptz NULLABLE NoDefault,
      Col ''submitted_by_id'' (Varchar 26) NULLABLE NoDefault,
      Col ''notes'' TextType NULLABLE NoDefault,
      Col ''id'' (Varchar 26) NOT_NULL NoDefault,
      Col ''created_at'' Timestamptz NOT_NULL (Sql ''now()''),
      Col ''updated_at'' Timestamptz NOT_NULL (Sql ''now()''),
      Col ''version'' IntegerType NOT_NULL (Sql ''1''),
      Col ''created_by_id'' (Varchar 26) NULLABLE NoDefault,
      Col ''updated_by_id'' (Varchar 26) NULLABLE NoDefault]
     [Check ''ck_attendance_sessions_status'' (InList ''status'' [''DRAFT'', ''SUBMITTED'', ''AMENDED'']),
      ForeignKey ''fk_attendance_sessions_school_id_schools'' [''school_id''] ''schools'' [''id''] ''RESTRICT'',
      ForeignKey ''fk_attendance_sessions_organization_id_organizations'' [''organization_id''] ''organizations'' [''id''] ''RESTRICT'',
      ForeignKey ''fk_attendance_sessions_cohort_id_cohorts'' [''cohort_id''] ''cohorts'' [''id''] ''RESTRICT'',
      ForeignKey ''fk_attendance_sessions_academic_year_id_academic_years'' [''academic_year_id''] ''academic_years'' [''id''] ''RESTRICT'',
      ForeignKey ''fk_attendance_sessions_submitted_by_id_users'' [''submitted_by_id''] ''users'' [''id''] ''SET NULL'',
      PrimaryKey ''pk_attendance_sessions'' [''id''],
      Unique ''uq_attendance_session_cohort_date'' False [''cohort_id'', ''session_date'']]"

definition attendance_records_table :: ddl where
  "attendance_records_table =
     CreateTable ''attendance_records''
     [Col ''school_id'' (Varchar 26) NOT_NULL NoDefault,
      Col ''organization_id'' (Varchar 26) NOT_NULL NoDefault,
      Col ''session_id'' (Varchar 26) NOT_NULL NoDefault,
      Col ''enrollment_id'' (Varchar 26) NOT_NULL NoDefault,
      Col ''student_id'' (Varchar 26) NOT_NULL NoDefault,
      Col ''status'' (Varchar 20) NOT_NULL (Literal ''PRESENT''),
      Col ''arrived_at'' TimeType NULLABLE NoDefault,
      Col ''notes'' TextType NULLABLE NoDefault,
      Col ''id'' (Varchar 26) NOT_NULL NoDefault,
      Col ''created_at'' Timestamptz NOT_NULL (Sql ''now()''),
      Col ''updated_at'' Timestamptz NOT_NULL (Sql ''now()''),
      Col ''created_by_id'' (Varchar 26) NULLABLE NoDefault,
      Col ''updated_by_id'' (Varchar 26) NULLABLE NoDefault]
     [Check ''ck_attendance_records_status'' (InList ''status'' [''PRESENT'', ''ABSENT'', ''LATE'', ''EXCUSED'', ''HOLIDAY'']),
      ForeignKey ''fk_attendance_records_school_id_schools'' [''school_id''] ''schools'' [''id''] ''RESTRICT'',
      ForeignKey ''fk_attendance_records_organization_id_organizations'' [''organization_id''] ''organizations'' [''id''] ''RESTRICT'',
      ForeignKey ''fk_attendance_records_session_id_attendance_sessions'' [''session_id''] ''attendance_sessions'' [''id''] ''CASCADE'',
      ForeignKey ''fk_attendance_records_enrollment_id_student_enrollments'' [''enrollment_id''] ''student_enrollments'' [''id''] ''RESTRICT'',
      ForeignKey ''fk_attendance_records_student_id_students'' [''student_id''] ''students'' [''id''] ''RESTRICT'',
      PrimaryKey ''pk_attendance_records'' [''id''],
      Unique ''uq_record_session_enrollment'' False [''session_id'', ''enrollment_id'']]"

definition audit_actions_0015 :: "string list" where
  "audit_actions_0015 =
     [''ORGANIZATION_CREATED'', ''ORGANIZATION_UPDATED'', ''ORGANIZATION_DELETED'', ''SCHOOL_CREATED'',
      ''SCHOOL_UPDATED'', ''SCHOOL_DELETED'', ''USER_CREATED'', ''USER_UPDATED'', ''USER_DELETED'',
      ''MEMBERSHIP_CREATED'', ''MEMBERSHIP_UPDATED'', ''MEMBERSHIP_ENDED'', ''ROLE_CREATED'', ''ROLE_UPDATED'',
      ''ROLE_DELETED'', ''ROLE_GRANTED'', ''ROLE_REVOKED'', ''PERSON_CREATED'', ''PERSON_UPDATED'',
      ''PERSON_DELETED'', ''PERSON_MERGED'', ''ADDRESS_CREATED'', ''ADDRESS_UPDATED'', ''ADDRESS_DELETED'',
      ''CONTACT_CREATED'', ''CONTACT_UPDATED'', ''CONTACT_DELETED'', ''LOGIN_SUCCESS'', ''LOGOUT'',
      ''PASSWORD_CHANGED'', ''PASSWORD_RESET_REQUESTED'', ''PASSWORD_RESET_CONFIRMED'',
      ''ACADEMIC_YEAR_CREATED'', ''ACADEMIC_YEAR_UPDATED'', ''ACADEMIC_YEAR_DELETED'',
      ''ACADEMIC_TERM_CREATED'', ''ACADEMIC_TERM_UPDATED'', ''ACADEMIC_TERM_DELETED'',
      ''ACADEMIC_CLASS_CREATED'', ''ACADEMIC_CLASS_UPDATED'', ''ACADEMIC_CLASS_DELETED'', ''SUBJECT_CREATED'',
      ''SUBJECT_UPDATED'', ''SUBJECT_DELETED'', ''CLASS_SUBJECT_CREATED'', ''CLASS_SUBJECT_DELETED'',
      ''COHORT_CREATED'', ''COHORT_UPDATED'', ''COHORT_DELETED'', ''STUDENT_CREATED'', ''STUDENT_UPDATED'',
      ''STUDENT_DELETED'', ''ENROLLMENT_CREATED'', ''ENROLLMENT_UPDATED'', ''ENROLLMENT_DELETED'',
      ''ATTENDANCE_SESSION_CREATED'', ''ATTENDANCE_SESSION_UPDATED'', ''ATTENDANCE_SESSION_DELETED'',
      ''ATTENDANCE_SESSION_SUBMITTED'', ''ATTENDANCE_SESSION_AMENDED'', ''ATTENDANCE_SESSION_BULK_UPDATED'',
      ''ATTENDANCE_RECORD_UPDATED'']"

definition upgrade_0015 :: "ddl list" where
  "upgrade_0015 =
     [attendance_sessions_table,
      CreateIndex False False ''attendance_sessions'' (Index ''ix_attendance_sessions_school_id'' False ''btree'' [Key ''school_id''] None),
      CreateIndex False False ''attendance_sessions'' (Index ''ix_attendance_sessions_cohort_id'' False ''btree'' [Key ''cohort_id''] None),
      attendance_records_table,
      CreateIndex False False ''attendance_records'' (Index ''ix_attendance_records_school_id'' False ''btree'' [Key ''school_id''] None),
      CreateIndex False False ''attendance_records'' (Index ''ix_attendance_records_session_id'' False ''btree'' [Key ''session_id''] None),
      CreateIndex False False ''attendance_records'' (Index ''ix_attendance_records_enrollment_id'' False ''btree'' [Key ''enrollment_id''] None),
      CreateIndex False False ''attendance_records'' (Index ''ix_attendance_records_student_id'' False ''btree'' [Key ''student_id''] None),
      DropConstraint True ''audit_logs'' ''ck_audit_logs_action'',
      AddConstraint ''audit_logs'' (Check ''ck_audit_logs_action'' (InList ''action'' audit_actions_0015))] @
     List.map Policy (school_scoped_policy_sql ''attendance_sessions'') @
     List.map Policy (school_scoped_policy_sql ''attendance_records'')"

definition audit_actions_0015_before :: "string list" where
  "audit_actions_0015_before =
     [''ORGANIZATION_CREATED'', ''ORGANIZATION_UPDATED'', ''ORGANIZATION_DELETED'', ''SCHOOL_CREATED'',
      ''SCHOOL_UPDATED'', ''SCHOOL_DELETED'', ''USER_CREATED'', ''USER_UPDATED'', ''USER_DELETED'',
      ''MEMBERSHIP_CREATED'', ''MEMBERSHIP_UPDATED'', ''MEMBERSHIP_ENDED'', ''ROLE_CREATED'', ''ROLE_UPDATED'',
      ''ROLE_DELETED'', ''ROLE_GRANTED'', ''ROLE_REVOKED'', ''PERSON_CREATED'', ''PERSON_UPDATED'',
      ''PERSON_DELETED'', ''PERSON_MERGED'', ''ADDRESS_CREATED'', ''ADDRESS_UPDATED'', ''ADDRESS_DELETED'',
      ''CONTACT_CREATED'', ''CONTACT_UPDATED'', ''CONTACT_DELETED'', ''LOGIN_SUCCESS'', ''LOGOUT'',
      ''PASSWORD_CHANGED'', ''PASSWORD_RESET_REQUESTED'', ''PASSWORD_RESET_CONFIRMED'',
      ''ACADEMIC_YEAR_CREATED'', ''ACADEMIC_YEAR_UPDATED'', ''ACADEMIC_YEAR_DELETED'',
      ''ACADEMIC_TERM_CREATED'', ''ACADEMIC_TERM_UPDATED'', ''ACADEMIC_TERM_DELETED'',
      ''ACADEMIC_CLASS_CREATED'', ''ACADEMIC_CLASS_UPDATED'', ''ACADEMIC_CLASS_DELETED'', ''SUBJECT_CREATED'',
      ''SUBJECT_UPDATED'', ''SUBJECT_DELETED'', ''CLASS_SUBJECT_CREATED'', ''CLASS_SUBJECT_DELETED'',
      ''COHORT_CREATED'', ''COHORT_UPDATED'', ''COHORT_DELETED'', ''STUDENT_CREATED'', ''STUDENT_UPDATED'',
      ''STUDENT_DELETED'', ''ENROLLMENT_CREATED'', ''ENROLLMENT_UPDATED'', ''ENROLLMENT_DELETED'']"

definition downgrade_0015 :: "ddl list" where
  "downgrade_0015 =
     List.map Policy (drop_policy_sql ''attendance_records'') @
     List.map Policy (drop_policy_sql ''attendance_sessions'') @
     [DropIndex False ''ix_attendance_records_student_id'',
      DropIndex False ''ix_attendance_records_enrollment_id'',
      DropIndex False ''ix_attendance_records_session_id'',
      DropIndex False ''ix_attendance_records_school_id'',
      DropTable ''attendance_records'',
      DropIndex False ''ix_attendance_sessions_cohort_id'',
      DropIndex False ''ix_attendance_sessions_school_id'',
      DropTable ''attendance_sessions'',
      DropConstraint True ''audit_logs'' ''ck_audit_logs_action'',
      AddConstraint ''audit_logs'' (Check ''ck_audit_logs_action'' (InList ''action'' audit_actions_0015_before))]"

definition migration_0015 :: migration where
  "migration_0015 =
     \<lparr>mg_revision = ''0015_attendance'', mg_down_revision = Some ''0014_timetables'', mg_upgrade = upgrade_0015, mg_downgrade = downgrade_0015\<rparr>"

section \<open>0016_announcements\<close>

definition tables_0016 :: "string list" where
  "tables_0016 =
     [''announcements'', ''announcement_targets'']"

definition announcements_table :: ddl where
  "announcements_table =
     CreateTable ''announcements''
     [Col ''school_id'' (Varchar 26) NOT_NULL NoDefault,
      Col ''organization_id'' (Varchar 26) NOT_NULL NoDefault,
      Col ''title'' (Varchar 500) NOT_NULL NoDefault,
      Col ''body'' TextType NOT_NULL NoDefault,
      Col ''priority'' (Varchar 20) NOT_NULL (Literal ''NORMAL''),
      Col ''publish_mode'' (Varchar 20) NOT_NULL (Literal ''IMMEDIATE''),
      Col ''published_at'' Timestamptz NULLABLE NoDefault,
      Col ''expires_at'' Timestamptz NULLABLE NoDefault,
      Col ''status'' (Varchar 20) NOT_NULL (Literal ''DRAFT''),
      Col ''id'' (Varchar 26) NOT_NULL NoDefault,
      Col ''created_at'' Timestamptz NOT_NULL (Sql ''now()''),
      Col ''updated_at'' Timestamptz NOT_NULL (Sql ''now()''),
      Col ''version'' IntegerType NOT_NULL (Sql ''1''),
      Col ''created_by_id'' (Varchar 26) NULLABLE NoDefault,
      Col ''updated_by_id'' (Varchar 26) NULLABLE NoDefault,
      Col ''archived_at'' Timestamptz NULLABLE NoDefault,
      Col ''deleted_at'' Timestamptz NULLABLE NoDefault]
     [Check ''ck_announcements_priority'' (InList ''priority'' [''NORMAL'', ''HIGH'', ''URGENT'']),
      Check ''ck_announcements_publish_mode'' (InList ''publish_mode'' [''IMMEDIATE'', ''SCHEDULED'']),
      Check ''ck_announcements_status'' (InList ''status'' [''DRAFT'', ''PUBLISHED'', ''EXPIRED'', ''ARCHIVED'']),
      ForeignKey ''fk_announcements_school_id_schools'' [''school_id''] ''schools'' [''id''] ''RESTRICT'',
      ForeignKey ''fk_announcements_organization_id_organizations'' [''organization_id''] ''organizations'' [''id''] ''RESTRICT'',
      PrimaryKey ''pk_announcements'' [''id'']]"

definition announcement_targets_table :: ddl where
  "announcement_targets_table =
     CreateTable ''announcement_targets''
     [Col ''announcement_id'' (Varchar 26) NOT_NULL NoDefault,
      Col ''target_type'' (Varchar 30) NOT_NULL NoDefault,
      Col ''target_id'' (Varchar 26) NULLABLE NoDefault,
      Col ''school_id'' (Varchar 26) NOT_NULL NoDefault,
      Col ''organization_id'' (Varchar 26) NOT_NULL NoDefault,
      Col ''id'' (Varchar 26) NOT_NULL NoDefault,
      Col ''created_at'' Timestamptz NOT_NULL (Sql ''now()''),
      Col ''updated_at'' Timestamptz NOT_NULL (Sql ''now()'')]
     [Check ''ck_announcement_targets_target_type'' (InList ''target_type'' [''SCHOOL'', ''CLASS'', ''COHORT'', ''ROLE'']),
      ForeignKey ''fk_announcement_targets_announcement_id_announcements'' [''announcement_id''] ''announcements'' [''id''] ''CASCADE'',
      ForeignKey ''fk_announcement_targets_school_id_schools'' [''school_id''] ''schools'' [''id''] ''RESTRICT'',
      ForeignKey ''fk_announcement_targets_organization_id_organizations'' [''organization_id''] ''organizations'' [''id''] ''RESTRICT'',
      PrimaryKey ''pk_announcement_targets'' [''id'']]"

definition audit_actions_0016 :: "string list" where
  "audit_actions_0016 =
     [''ORGANIZATION_CREATED'', ''ORGANIZATION_UPDATED'', ''ORGANIZATION_DELETED'', ''SCHOOL_CREATED'',
      ''SCHOOL_UPDATED'', ''SCHOOL_DELETED'', ''USER_CREATED'', ''USER_UPDATED'', ''USER_DELETED'',
      ''MEMBERSHIP_CREATED'', ''MEMBERSHIP_UPDATED'', ''MEMBERSHIP_ENDED'', ''ROLE_CREATED'', ''ROLE_UPDATED'',
      ''ROLE_DELETED'', ''ROLE_GRANTED'', ''ROLE_REVOKED'', ''PERSON_CREATED'', ''PERSON_UPDATED'',
      ''PERSON_DELETED'', ''PERSON_MERGED'', ''ADDRESS_CREATED'', ''ADDRESS_UPDATED'', ''ADDRESS_DELETED'',
      ''CONTACT_CREATED'', ''CONTACT_UPDATED'', ''CONTACT_DELETED'', ''LOGIN_SUCCESS'', ''LOGOUT'',
      ''PASSWORD_CHANGED'', ''PASSWORD_RESET_REQUESTED'', ''PASSWORD_RESET_CONFIRMED'',
      ''ACADEMIC_YEAR_CREATED'', ''ACADEMIC_YEAR_UPDATED'', ''ACADEMIC_YEAR_DELETED'',
      ''ACADEMIC_TERM_CREATED'', ''ACADEMIC_TERM_UPDATED'', ''ACADEMIC_TERM_DELETED'',
      ''ACADEMIC_CLASS_CREATED'', ''ACADEMIC_CLASS_UPDATED'', ''ACADEMIC_CLASS_DELETED'', ''SUBJECT_CREATED'',
      ''SUBJECT_UPDATED'', ''SUBJECT_DELETED'', ''CLASS_SUBJECT_CREATED'', ''CLASS_SUBJECT_DELETED'',
      ''COHORT_CREATED'', ''COHORT_UPDATED'', ''COHORT_DELETED'', ''STUDENT_CREATED'', ''STUDENT_UPDATED'',
      ''STUDENT_DELETED'', ''ENROLLMENT_CREATED'', ''ENROLLMENT_UPDATED'', ''ENROLLMENT_DELETED'',
      ''STUDENT_GUARDIAN_CREATED'', ''STUDENT_GUARDIAN_UPDATED'', ''STUDENT_GUARDIAN_DELETED'',
      ''TEACHER_CREATED'', ''TEACHER_UPDATED'', ''TEACHER_DELETED'', ''TEACHER_ASSIGNED'',
      ''TEACHER_ASSIGNMENT_UPDATED'', ''TEACHER_ASSIGNMENT_ENDED'', ''PERIOD_DEFINITION_CREATED'',
      ''PERIOD_DEFINITION_UPDATED'', ''PERIOD_DEFINITION_DELETED'', ''TIMETABLE_SLOT_CREATED'',
      ''TIMETABLE_SLOT_UPDATED'', ''TIMETABLE_SLOT_CANCELLED'', ''ANNOUNCEMENT_CREATED'',
      ''ANNOUNCEMENT_UPDATED'', ''ANNOUNCEMENT_DELETED'', ''ANNOUNCEMENT_PUBLISHED'',
      ''ANNOUNCEMENT_ARCHIVED'', ''ATTENDANCE_SESSION_CREATED'', ''ATTENDANCE_SESSION_UPDATED'',
      ''ATTENDANCE_SESSION_DELETED'', ''ATTENDANCE_SESSION_SUBMITTED'', ''ATTENDANCE_SESSION_AMENDED'',
      ''ATTENDANCE_SESSION_BULK_UPDATED'', ''ATTENDANCE_RECORD_UPDATED'']"

definition upgrade_0016 :: "ddl list" where
  "upgrade_0016 =
     [announcements_table,
      CreateIndex False False ''announcements'' (Index ''ix_announcements_school_id'' False ''btree'' [Key ''school_id''] None),
      CreateIndex False False ''announcements'' (Index ''ix_announcements_organization_id'' False ''btree'' [Key ''organization_id''] None),
      CreateIndex False False ''announcements'' (Index ''ix_announcements_school_status_published'' False ''btree'' [Key ''school_id'', Key ''status'', Key ''published_at''] None),
      announcement_targets_table,
      CreateIndex False False ''announcement_targets'' (Index ''ix_announcement_targets_announcement_id'' False ''btree'' [Key ''announcement_id''] None),
      DropConstraint True ''audit_logs'' ''ck_audit_logs_action'',
      AddConstraint ''audit_logs'' (Check ''ck_audit_logs_action'' (InList ''action'' audit_actions_0016))] @
     execute_each school_scoped_policy_sql tables_0016"

definition audit_actions_0016_before :: "string list" where
  "audit_actions_0016_before =
     [''ORGANIZATION_CREATED'', ''ORGANIZATION_UPDATED'', ''ORGANIZATION_DELETED'', ''SCHOOL_CREATED'',
      ''SCHOOL_UPDATED'', ''SCHOOL_DELETED'', ''USER_CREATED'', ''USER_UPDATED'', ''USER_DELETED'',
      ''MEMBERSHIP_CREATED'', ''MEMBERSHIP_UPDATED'', ''MEMBERSHIP_ENDED'', ''ROLE_CREATED'', ''ROLE_UPDATED'',
      ''ROLE_DELETED'', ''ROLE_GRANTED'', ''ROLE_REVOKED'', ''PERSON_CREATED'', ''PERSON_UPDATED'',
      ''PERSON_DELETED'', ''PERSON_MERGED'', ''ADDRESS_CREATED'', ''ADDRESS_UPDATED'', ''ADDRESS_DELETED'',
      ''CONTACT_CREATED'', ''CONTACT_UPDATED'', ''CONTACT_DELETED'', ''LOGIN_SUCCESS'', ''LOGOUT'',
      ''PASSWORD_CHANGED'', ''PASSWORD_RESET_REQUESTED'', ''PASSWORD_RESET_CONFIRMED'',
      ''ACADEMIC_YEAR_CREATED'', ''ACADEMIC_YEAR_UPDATED'', ''ACADEMIC_YEAR_DELETED'',
      ''ACADEMIC_TERM_CREATED'', ''ACADEMIC_TERM_UPDATED'', ''ACADEMIC_TERM_DELETED'',
      ''ACADEMIC_CLASS_CREATED'', ''ACADEMIC_CLASS_UPDATED'', ''ACADEMIC_CLASS_DELETED'', ''SUBJECT_CREATED'',
      ''SUBJECT_UPDATED'', ''SUBJECT_DELETED'', ''CLASS_SUBJECT_CREATED'', ''CLASS_SUBJECT_DELETED'',
      ''COHORT_CREATED'', ''COHORT_UPDATED'', ''COHORT_DELETED'', ''STUDENT_CREATED'', ''STUDENT_UPDATED'',
      ''STUDENT_DELETED'', ''ENROLLMENT_CREATED'', ''ENROLLMENT_UPDATED'', ''ENROLLMENT_DELETED'',
      ''STUDENT_GUARDIAN_CREATED'', ''STUDENT_GUARDIAN_UPDATED'', ''STUDENT_GUARDIAN_DELETED'',
      ''TEACHER_CREATED'', ''TEACHER_UPDATED'', ''TEACHER_DELETED'', ''TEACHER_ASSIGNED'',
      ''TEACHER_ASSIGNMENT_UPDATED'', ''TEACHER_ASSIGNMENT_ENDED'', ''PERIOD_DEFINITION_CREATED'',
      ''PERIOD_DEFINITION_UPDATED'', ''PERIOD_DEFINITION_DELETED'', ''TIMETABLE_SLOT_CREATED'',
      ''TIMETABLE_SLOT_UPDATED'', ''TIMETABLE_SLOT_CANCELLED'']"

definition downgrade_0016 :: "ddl list" where
  "downgrade_0016 =
     execute_each drop_policy_sql (rev tables_0016) @
     [DropTable ''announcement_targets'',
      DropTable ''announcements'',
      DropConstraint True ''audit_logs'' ''ck_audit_logs_action'',
      AddConstraint ''audit_logs'' (Check ''ck_audit_logs_action'' (InList ''action'' audit_actions_0016_before))]"

definition migration_0016 :: migration where
  "migration_0016 =
     \<lparr>mg_revision = ''0016_announcements'', mg_down_revision = Some ''0015_attendance'', mg_upgrade = upgrade_0016, mg_downgrade = downgrade_0016\<rparr>"

section \<open>The tables\<close>

lemma school_table_names:
  "table_named students_table = Some ''students''"
  "table_named student_enrollments_table = Some ''student_enrollments''"
  "table_named student_guardians_table = Some ''student_guardians''"
  "table_named teachers_table = Some ''teachers''"
  "table_named teacher_assignments_table = Some ''teacher_assignments''"
  "table_named period_definitions_table = Some ''period_definitions''"
  "table_named timetable_slots_table = Some ''timetable_slots''"
  "table_named attendance_sessions_table = Some ''attendance_sessions''"
  "table_named attendance_records_table = Some ''attendance_records''"
  "table_named announcements_table = Some ''announcements''"
  "table_named announcement_targets_table = Some ''announcement_targets''"
  by (simp_all add: students_table_def student_enrollments_table_def student_guardians_table_def teachers_table_def teacher_assignments_table_def period_definitions_table_def timetable_slots_table_def attendance_sessions_table_def attendance_records_table_def announcements_table_def announcement_targets_table_def)

lemma school_school_tables:
  "school_table students_table = True"
  "school_table student_enrollments_table = True"
  "school_table student_guardians_table = True"
  "school_table teachers_table = True"
  "school_table teacher_assignments_table = True"
  "school_table period_definitions_table = True"
  "school_table timetable_slots_table = True"
  "school_table attendance_sessions_table = True"
  "school_table attendance_records_table = True"
  "school_table announcements_table = True"
  "school_table announcement_targets_table = True"
  by (simp_all add: of_a_school_def students_table_def student_enrollments_table_def student_guardians_table_def teachers_table_def teacher_assignments_table_def period_definitions_table_def timetable_slots_table_def attendance_sessions_table_def attendance_records_table_def announcements_table_def announcement_targets_table_def)

end
