(* ===== verification/MigrationsLater.thy ===== *)
theory MigrationsLater
  imports MigrationsSchool
begin

text \<open>
  The migrations 0017 to 0026: jobs, notifications, documents, parents, the timetable header and the last indexes.
\<close>

section \<open>0017_import_jobs\<close>

definition import_jobs_table :: ddl where
  "import_jobs_table =
     CreateTable ''import_jobs''
     [Col ''school_id'' (Varchar 26) NOT_NULL NoDefault,
      Col ''organization_id'' (Varchar 26) NOT_NULL NoDefault,
      Col ''resource_type'' (Varchar 30) NOT_NULL NoDefault,
      Col ''status'' (Varchar 20) NOT_NULL (Literal ''PENDING''),
      Col ''total_rows'' IntegerType NULLABLE NoDefault,
      Col ''processed_rows'' IntegerType NOT_NULL (Literal ''0''),
      Col ''success_rows'' IntegerType NOT_NULL (Literal ''0''),
      Col ''failed_rows'' IntegerType NOT_NULL (Literal ''0''),
      Col ''error_summary'' Jsonb NULLABLE NoDefault,
      Col ''original_filename'' (Varchar 255) NULLABLE NoDefault,
      Col ''started_at'' Timestamptz NULLABLE NoDefault,
      Col ''completed_at'' Timestamptz NULLABLE NoDefault,
      Col ''id'' (Varchar 26) NOT_NULL NoDefault,
      Col ''created_at'' Timestamptz NOT_NULL (Sql ''now()''),
      Col ''updated_at'' Timestamptz NOT_NULL (Sql ''now()''),
      Col ''created_by_id'' (Varchar 26) NULLABLE NoDefault,
      Col ''updated_by_id'' (Varchar 26) NULLABLE NoDefault]
     [Check ''ck_import_jobs_resource_type'' (InList ''resource_type'' [''students'', ''teachers'']),
      Check ''ck_import_jobs_status'' (InList ''status'' [''PENDING'', ''PROCESSING'', ''COMPLETED'', ''FAILED'', ''PARTIAL'']),
      ForeignKey ''fk_import_jobs_school_id_schools'' [''school_id''] ''schools'' [''id''] ''RESTRICT'',
      ForeignKey ''fk_import_jobs_organization_id_organizations'' [''organization_id''] ''organizations'' [''id''] ''RESTRICT'',
      PrimaryKey ''pk_import_jobs'' [''id'']]"

definition audit_actions_0017 :: "string list" where
  "audit_actions_0017 =
     [''ORGANIZATION_CREATED'', ''ORGANIZATION_UPDATED'', ''ORGANIZATION_DELETED'', ''SCHOOL_CREATED'',
      ''SCHOOL_UPDATED'', ''SCHOOL_DELETED'', ''USER_CREATED'', ''USER_UPDATED'', ''USER_DELETED'',
      ''MEMBERSHIP_CREATED'', ''MEMBERSHIP_UPDATED'', ''MEMBERSHIP_ENDED'', ''ROLE_CREATED'', ''ROLE_UPDATED'',
      ''ROLE_DELETED'', ''ROLE_GRANTED'', ''ROLE_REVOKED'', ''PERSON_CREATED'', ''PERSON_UPDATED'',
      ''PERSON_DELETED'', ''PERSON_MERGED'', ''ADDRESS_CREATED'', ''ADDRESS_UPDATED'', ''ADDRESS_DELETED'',
      ''CONTACT_CREATED'', ''CONTACT_UPDATED'', ''CONTACT_DELETED'', ''LOGIN_SUCCESS'', ''LOGOUT'',
      ''PASSWORD_CHANGED'', ''PASSWORD_RESET_REQUESTED'', ''PASSWORD_RESET_CONFIRMED'',
      ''ACADEMIC_YEAR_CREATED'', ''ACADEMIC_YEAR_UPDATED'', ''ACADEMIC_YEAR_DELETED'',
      ''ACADEMIC_TERM_CREATED'', ''ACADEMIC_TERM_UPDATED'', ''ACADEMIC_TERM_DELETED'',
      ''ACADEMIC_CLASS_CREATED'', ''ACADEMIC_CLASS_UPDATED'', ''ACADEMIC_CLASS_DELETED'', ''SUBJECT_CREATED'',
      ''SUBJECT_UPDATED'', ''SUBJECT_DELETED'', ''CLASS_SUBJECT_CREATED'', ''CLASS_SUBJECT_DELETED'',
      ''COHORT_CREATED'', ''COHORT_UPDATED'', ''COHORT_DELETED'', ''STUDENT_CREATED'', ''STUDENT_UPDATED'',
      ''STUDENT_DELETED'', ''STUDENT_GUARDIAN_CREATED'', ''STUDENT_GUARDIAN_UPDATED'',
      ''STUDENT_GUARDIAN_DELETED'', ''TEACHER_CREATED'', ''TEACHER_UPDATED'', ''TEACHER_DELETED'',
      ''TEACHER_ASSIGNED'', ''TEACHER_ASSIGNMENT_UPDATED'', ''TEACHER_ASSIGNMENT_ENDED'',
      ''PERIOD_DEFINITION_CREATED'', ''PERIOD_DEFINITION_UPDATED'', ''PERIOD_DEFINITION_DELETED'',
      ''TIMETABLE_SLOT_CREATED'', ''TIMETABLE_SLOT_UPDATED'', ''TIMETABLE_SLOT_CANCELLED'',
      ''ANNOUNCEMENT_CREATED'', ''ANNOUNCEMENT_UPDATED'', ''ANNOUNCEMENT_DELETED'', ''ANNOUNCEMENT_PUBLISHED'',
      ''ANNOUNCEMENT_ARCHIVED'', ''ATTENDANCE_SESSION_CREATED'', ''ATTENDANCE_SESSION_UPDATED'',
      ''ATTENDANCE_SESSION_DELETED'', ''ATTENDANCE_SESSION_SUBMITTED'', ''ATTENDANCE_SESSION_AMENDED'',
      ''ATTENDANCE_SESSION_BULK_UPDATED'', ''ATTENDANCE_RECORD_UPDATED'', ''ENROLLMENT_CREATED'',
      ''ENROLLMENT_UPDATED'', ''ENROLLMENT_DELETED'', ''IMPORT_JOB_CREATED'', ''IMPORT_JOB_COMPLETED'',
      ''IMPORT_JOB_FAILED'']"

definition upgrade_0017 :: "ddl list" where
  "upgrade_0017 =
     [import_jobs_table,
      CreateIndex False False ''import_jobs'' (Index ''ix_import_jobs_school_id'' False ''btree'' [Key ''school_id''] None),
      DropConstraint True ''audit_logs'' ''ck_audit_logs_action'',
      AddConstraint ''audit_logs'' (Check ''ck_audit_logs_action'' (InList ''action'' audit_actions_0017))] @
     List.map Policy (school_scoped_policy_sql ''import_jobs'')"

definition audit_actions_0017_before :: "string list" where
  "audit_actions_0017_before =
     [''ORGANIZATION_CREATED'', ''ORGANIZATION_UPDATED'', ''ORGANIZATION_DELETED'', ''SCHOOL_CREATED'',
      ''SCHOOL_UPDATED'', ''SCHOOL_DELETED'', ''USER_CREATED'', ''USER_UPDATED'', ''USER_DELETED'',
      ''MEMBERSHIP_CREATED'', ''MEMBERSHIP_UPDATED'', ''MEMBERSHIP_ENDED'', ''ROLE_CREATED'', ''ROLE_UPDATED'',
      ''ROLE_DELETED'', ''ROLE_GRANTED'', ''ROLE_REVOKED'', ''PERSON_CREATED'', ''PERSON_UPDATED'',
      ''PERSON_DELETED'', ''PERSON_MERGED'', ''ADDRESS_CREATED'', ''ADDRESS_UPDATED'', ''ADDRESS_DELETED'',
      ''CONTACT_CREATED'', ''CONTACT_UPDATED'', ''CONTACT_DELETED'', ''LOGIN_SUCCESS'', ''LOGOUT'',
      ''PASSWORD_CHANGED'', ''PASSWORD_RESET_REQUESTED'', ''PASSWORD_RESET_CONFIRMED'',
      ''ACADEMIC_YEAR_CREATED'', ''ACADEMIC_YEAR_UPDATED'', ''ACADEMIC_YEAR_DELETED'',
      ''ACADEMIC_TERM_CREATED'', ''ACADEMIC_TERM_UPDATED'', ''ACADEMIC_TERM_DELETED'',
      ''ACADEMIC_CLASS_CREATED'', ''ACADEMIC_CLASS_UPDATED'', ''ACADEMIC_CLASS_DELETED'', ''SUBJECT_CREATED'',
      ''SUBJECT_UPDATED'', ''SUBJECT_DELETED'', ''CLASS_SUBJECT_CREATED'', ''CLASS_SUBJECT_DELETED'',
      ''COHORT_CREATED'', ''COHORT_UPDATED'', ''COHORT_DELETED'', ''STUDENT_CREATED'', ''STUDENT_UPDATED'',
      ''STUDENT_DELETED'', ''ENROLLMENT_CREATED'', ''ENROLLMENT_UPDATED'', ''ENROLLMENT_DELETED'',
      ''STUDENT_GUARDIAN_CREATED'', ''STUDENT_GUARDIAN_UPDATED'', ''STUDENT_GUARDIAN_DELETED'',
      ''TEACHER_CREATED'', ''TEACHER_UPDATED'', ''TEACHER_DELETED'', ''TEACHER_ASSIGNED'',
      ''TEACHER_ASSIGNMENT_UPDATED'', ''TEACHER_ASSIGNMENT_ENDED'', ''PERIOD_DEFINITION_CREATED'',
      ''PERIOD_DEFINITION_UPDATED'', ''PERIOD_DEFINITION_DELETED'', ''TIMETABLE_SLOT_CREATED'',
      ''TIMETABLE_SLOT_UPDATED'', ''TIMETABLE_SLOT_CANCELLED'', ''ANNOUNCEMENT_CREATED'',
      ''ANNOUNCEMENT_UPDATED'', ''ANNOUNCEMENT_DELETED'', ''ANNOUNCEMENT_PUBLISHED'',
      ''ANNOUNCEMENT_ARCHIVED'', ''ATTENDANCE_SESSION_CREATED'', ''ATTENDANCE_SESSION_UPDATED'',
      ''ATTENDANCE_SESSION_DELETED'', ''ATTENDANCE_SESSION_SUBMITTED'', ''ATTENDANCE_SESSION_AMENDED'',
      ''ATTENDANCE_SESSION_BULK_UPDATED'', ''ATTENDANCE_RECORD_UPDATED'']"

definition downgrade_0017 :: "ddl list" where
  "downgrade_0017 =
     List.map Policy (drop_policy_sql ''import_jobs'') @
     [DropIndex False ''ix_import_jobs_school_id'',
      DropTable ''import_jobs'',
      DropConstraint True ''audit_logs'' ''ck_audit_logs_action'',
      AddConstraint ''audit_logs'' (Check ''ck_audit_logs_action'' (InList ''action'' audit_actions_0017_before))]"

definition migration_0017 :: migration where
  "migration_0017 =
     \<lparr>mg_revision = ''0017_import_jobs'', mg_down_revision = Some ''0016_announcements'', mg_upgrade = upgrade_0017, mg_downgrade = downgrade_0017\<rparr>"

section \<open>0018_user_actor_columns\<close>

definition upgrade_0018 :: "ddl list" where
  "upgrade_0018 =
     [AddColumn ''users'' (Col ''created_by_id'' (Varchar 26) NULLABLE NoDefault),
      AddColumn ''users'' (Col ''updated_by_id'' (Varchar 26) NULLABLE NoDefault)]"

definition downgrade_0018 :: "ddl list" where
  "downgrade_0018 =
     [DropColumn ''users'' ''updated_by_id'',
      DropColumn ''users'' ''created_by_id'']"

definition migration_0018 :: migration where
  "migration_0018 =
     \<lparr>mg_revision = ''0018_user_actor_columns'', mg_down_revision = Some ''0017_import_jobs'', mg_upgrade = upgrade_0018, mg_downgrade = downgrade_0018\<rparr>"

section \<open>0019_notifications\<close>

definition notifications_table :: ddl where
  "notifications_table =
     CreateTable ''notifications''
     [Col ''user_id'' (Varchar 26) NOT_NULL NoDefault,
      Col ''school_id'' (Varchar 26) NULLABLE NoDefault,
      Col ''organization_id'' (Varchar 26) NOT_NULL NoDefault,
      Col ''type'' (Varchar 50) NOT_NULL NoDefault,
      Col ''title'' (Varchar 500) NOT_NULL NoDefault,
      Col ''body'' TextType NULLABLE NoDefault,
      Col ''related_entity_type'' (Varchar 100) NULLABLE NoDefault,
      Col ''related_entity_id'' (Varchar 26) NULLABLE NoDefault,
      Col ''is_read'' BooleanType NOT_NULL (Literal ''false''),
      Col ''read_at'' Timestamptz NULLABLE NoDefault,
      Col ''id'' (Varchar 26) NOT_NULL NoDefault,
      Col ''created_at'' Timestamptz NOT_NULL (Sql ''now()''),
      Col ''updated_at'' Timestamptz NOT_NULL (Sql ''now()'')]
     [Check ''ck_notifications_type'' (InList ''type'' [''ANNOUNCEMENT'', ''ATTENDANCE'', ''ENROLLMENT'', ''SYSTEM'']),
      PrimaryKey ''pk_notifications'' [''id'']]"

definition upgrade_0019 :: "ddl list" where
  "upgrade_0019 =
     [notifications_table,
      CreateIndex False False ''notifications'' (Index ''ix_notifications_user_id'' False ''btree'' [Key ''user_id''] None),
      CreateIndex False False ''notifications'' (Index ''ix_notifications_user_unread'' False ''btree'' [Key ''user_id'', Key ''is_read'', Key ''created_at''] None)] @
     List.map Policy (org_scoped_policy_sql ''notifications'' False)"

definition downgrade_0019 :: "ddl list" where
  "downgrade_0019 =
     List.map Policy (drop_policy_sql ''notifications'') @
     [DropIndex False ''ix_notifications_user_unread'',
      DropIndex False ''ix_notifications_user_id'',
      DropTable ''notifications'']"

definition migration_0019 :: migration where
  "migration_0019 =
     \<lparr>mg_revision = ''0019_notifications'', mg_down_revision = Some ''0018_user_actor_columns'', mg_upgrade = upgrade_0019, mg_downgrade = downgrade_0019\<rparr>"

section \<open>0020_documents\<close>

definition documents_table :: ddl where
  "documents_table =
     CreateTable ''documents''
     [Col ''school_id'' (Varchar 26) NOT_NULL NoDefault,
      Col ''organization_id'' (Varchar 26) NOT_NULL NoDefault,
      Col ''entity_type'' (Varchar 50) NOT_NULL NoDefault,
      Col ''entity_id'' (Varchar 26) NOT_NULL NoDefault,
      Col ''document_type'' (Varchar 50) NOT_NULL NoDefault,
      Col ''original_filename'' (Varchar 500) NOT_NULL NoDefault,
      Col ''storage_key'' (Varchar 1000) NOT_NULL NoDefault,
      Col ''mime_type'' (Varchar 100) NULLABLE NoDefault,
      Col ''file_size'' BigInt NULLABLE NoDefault,
      Col ''checksum_sha256'' (Varchar 64) NULLABLE NoDefault,
      Col ''status'' (Varchar 30) NOT_NULL (Literal ''PENDING_UPLOAD''),
      Col ''id'' (Varchar 26) NOT_NULL NoDefault,
      Col ''created_at'' Timestamptz NOT_NULL (Sql ''now()''),
      Col ''updated_at'' Timestamptz NOT_NULL (Sql ''now()''),
      Col ''archived_at'' Timestamptz NULLABLE NoDefault,
      Col ''deleted_at'' Timestamptz NULLABLE NoDefault,
      Col ''created_by_id'' (Varchar 26) NULLABLE NoDefault,
      Col ''updated_by_id'' (Varchar 26) NULLABLE NoDefault]
     [Check ''ck_documents_entity_type'' (InList ''entity_type'' [''STUDENT'', ''TEACHER'', ''PARENT'', ''SCHOOL'']),
      Check ''ck_documents_document_type'' (InList ''document_type'' [''PHOTO'', ''ID_PROOF'', ''BIRTH_CERTIFICATE'', ''CERTIFICATE'', ''TRANSCRIPT'', ''REPORT_CARD'', ''OTHER'']),
      Check ''ck_documents_status'' (InList ''status'' [''PENDING_UPLOAD'', ''CONFIRMED'', ''DELETED'']),
      PrimaryKey ''pk_documents'' [''id'']]"

definition audit_actions_0020 :: "string list" where
  "audit_actions_0020 =
     [''ORGANIZATION_CREATED'', ''ORGANIZATION_UPDATED'', ''ORGANIZATION_DELETED'', ''SCHOOL_CREATED'',
      ''SCHOOL_UPDATED'', ''SCHOOL_DELETED'', ''USER_CREATED'', ''USER_UPDATED'', ''USER_DELETED'',
      ''MEMBERSHIP_CREATED'', ''MEMBERSHIP_UPDATED'', ''MEMBERSHIP_ENDED'', ''ROLE_CREATED'', ''ROLE_UPDATED'',
      ''ROLE_DELETED'', ''ROLE_GRANTED'', ''ROLE_REVOKED'', ''PERSON_CREATED'', ''PERSON_UPDATED'',
      ''PERSON_DELETED'', ''PERSON_MERGED'', ''ADDRESS_CREATED'', ''ADDRESS_UPDATED'', ''ADDRESS_DELETED'',
      ''CONTACT_CREATED'', ''CONTACT_UPDATED'', ''CONTACT_DELETED'', ''LOGIN_SUCCESS'', ''LOGOUT'',
      ''PASSWORD_CHANGED'', ''PASSWORD_RESET_REQUESTED'', ''PASSWORD_RESET_CONFIRMED'',
      ''ACADEMIC_YEAR_CREATED'', ''ACADEMIC_YEAR_UPDATED'', ''ACADEMIC_YEAR_DELETED'',
      ''ACADEMIC_TERM_CREATED'', ''ACADEMIC_TERM_UPDATED'', ''ACADEMIC_TERM_DELETED'',
      ''ACADEMIC_CLASS_CREATED'', ''ACADEMIC_CLASS_UPDATED'', ''ACADEMIC_CLASS_DELETED'', ''SUBJECT_CREATED'',
      ''SUBJECT_UPDATED'', ''SUBJECT_DELETED'', ''CLASS_SUBJECT_CREATED'', ''CLASS_SUBJECT_DELETED'',
      ''COHORT_CREATED'', ''COHORT_UPDATED'', ''COHORT_DELETED'', ''STUDENT_CREATED'', ''STUDENT_UPDATED'',
      ''STUDENT_DELETED'', ''STUDENT_GUARDIAN_CREATED'', ''STUDENT_GUARDIAN_UPDATED'',
      ''STUDENT_GUARDIAN_DELETED'', ''TEACHER_CREATED'', ''TEACHER_UPDATED'', ''TEACHER_DELETED'',
      ''TEACHER_ASSIGNED'', ''TEACHER_ASSIGNMENT_UPDATED'', ''TEACHER_ASSIGNMENT_ENDED'',
      ''PERIOD_DEFINITION_CREATED'', ''PERIOD_DEFINITION_UPDATED'', ''PERIOD_DEFINITION_DELETED'',
      ''TIMETABLE_SLOT_CREATED'', ''TIMETABLE_SLOT_UPDATED'', ''TIMETABLE_SLOT_CANCELLED'',
      ''ANNOUNCEMENT_CREATED'', ''ANNOUNCEMENT_UPDATED'', ''ANNOUNCEMENT_DELETED'', ''ANNOUNCEMENT_PUBLISHED'',
      ''ANNOUNCEMENT_ARCHIVED'', ''ATTENDANCE_SESSION_CREATED'', ''ATTENDANCE_SESSION_UPDATED'',
      ''ATTENDANCE_SESSION_DELETED'', ''ATTENDANCE_SESSION_SUBMITTED'', ''ATTENDANCE_SESSION_AMENDED'',
      ''ATTENDANCE_SESSION_BULK_UPDATED'', ''ATTENDANCE_RECORD_UPDATED'', ''ENROLLMENT_CREATED'',
      ''ENROLLMENT_UPDATED'', ''ENROLLMENT_DELETED'', ''IMPORT_JOB_CREATED'', ''IMPORT_JOB_COMPLETED'',
      ''IMPORT_JOB_FAILED'', ''NOTIFICATION_CREATED'', ''NOTIFICATION_UPDATED'', ''NOTIFICATION_DELETED'',
      ''DOCUMENT_UPLOAD_REQUESTED'', ''DOCUMENT_CONFIRMED'', ''DOCUMENT_DOWNLOADED'', ''DOCUMENT_DELETED'']"

definition upgrade_0020 :: "ddl list" where
  "upgrade_0020 =
     [documents_table,
      CreateIndex False False ''documents'' (Index ''ix_documents_school_id'' False ''btree'' [Key ''school_id''] None),
      CreateIndex False False ''documents'' (Index ''ix_documents_entity'' False ''btree'' [Key ''entity_type'', Key ''entity_id''] None),
      CreateIndex False False ''documents'' (Index ''ix_documents_school_status'' False ''btree'' [Key ''school_id'', Key ''status''] None),
      DropConstraint True ''audit_logs'' ''ck_audit_logs_action'',
      AddConstraint ''audit_logs'' (Check ''ck_audit_logs_action'' (InList ''action'' audit_actions_0020))] @
     List.map Policy (school_scoped_policy_sql ''documents'')"

definition audit_actions_0020_before :: "string list" where
  "audit_actions_0020_before =
     [''ORGANIZATION_CREATED'', ''ORGANIZATION_UPDATED'', ''ORGANIZATION_DELETED'', ''SCHOOL_CREATED'',
      ''SCHOOL_UPDATED'', ''SCHOOL_DELETED'', ''USER_CREATED'', ''USER_UPDATED'', ''USER_DELETED'',
      ''MEMBERSHIP_CREATED'', ''MEMBERSHIP_UPDATED'', ''MEMBERSHIP_ENDED'', ''ROLE_CREATED'', ''ROLE_UPDATED'',
      ''ROLE_DELETED'', ''ROLE_GRANTED'', ''ROLE_REVOKED'', ''PERSON_CREATED'', ''PERSON_UPDATED'',
      ''PERSON_DELETED'', ''PERSON_MERGED'', ''ADDRESS_CREATED'', ''ADDRESS_UPDATED'', ''ADDRESS_DELETED'',
      ''CONTACT_CREATED'', ''CONTACT_UPDATED'', ''CONTACT_DELETED'', ''LOGIN_SUCCESS'', ''LOGOUT'',
      ''PASSWORD_CHANGED'', ''PASSWORD_RESET_REQUESTED'', ''PASSWORD_RESET_CONFIRMED'',
      ''ACADEMIC_YEAR_CREATED'', ''ACADEMIC_YEAR_UPDATED'', ''ACADEMIC_YEAR_DELETED'',
      ''ACADEMIC_TERM_CREATED'', ''ACADEMIC_TERM_UPDATED'', ''ACADEMIC_TERM_DELETED'',
      ''ACADEMIC_CLASS_CREATED'', ''ACADEMIC_CLASS_UPDATED'', ''ACADEMIC_CLASS_DELETED'', ''SUBJECT_CREATED'',
      ''SUBJECT_UPDATED'', ''SUBJECT_DELETED'', ''CLASS_SUBJECT_CREATED'', ''CLASS_SUBJECT_DELETED'',
      ''COHORT_CREATED'', ''COHORT_UPDATED'', ''COHORT_DELETED'', ''STUDENT_CREATED'', ''STUDENT_UPDATED'',
      ''STUDENT_DELETED'', ''STUDENT_GUARDIAN_CREATED'', ''STUDENT_GUARDIAN_UPDATED'',
      ''STUDENT_GUARDIAN_DELETED'', ''TEACHER_CREATED'', ''TEACHER_UPDATED'', ''TEACHER_DELETED'',
      ''TEACHER_ASSIGNED'', ''TEACHER_ASSIGNMENT_UPDATED'', ''TEACHER_ASSIGNMENT_ENDED'',
      ''PERIOD_DEFINITION_CREATED'', ''PERIOD_DEFINITION_UPDATED'', ''PERIOD_DEFINITION_DELETED'',
      ''TIMETABLE_SLOT_CREATED'', ''TIMETABLE_SLOT_UPDATED'', ''TIMETABLE_SLOT_CANCELLED'',
      ''ANNOUNCEMENT_CREATED'', ''ANNOUNCEMENT_UPDATED'', ''ANNOUNCEMENT_DELETED'', ''ANNOUNCEMENT_PUBLISHED'',
      ''ANNOUNCEMENT_ARCHIVED'', ''ATTENDANCE_SESSION_CREATED'', ''ATTENDANCE_SESSION_UPDATED'',
      ''ATTENDANCE_SESSION_DELETED'', ''ATTENDANCE_SESSION_SUBMITTED'', ''ATTENDANCE_SESSION_AMENDED'',
      ''ATTENDANCE_SESSION_BULK_UPDATED'', ''ATTENDANCE_RECORD_UPDATED'', ''ENROLLMENT_CREATED'',
      ''ENROLLMENT_UPDATED'', ''ENROLLMENT_DELETED'', ''IMPORT_JOB_CREATED'', ''IMPORT_JOB_COMPLETED'',
      ''IMPORT_JOB_FAILED'', ''NOTIFICATION_CREATED'', ''NOTIFICATION_UPDATED'', ''NOTIFICATION_DELETED'']"

definition downgrade_0020 :: "ddl list" where
  "downgrade_0020 =
     List.map Policy (drop_policy_sql ''documents'') @
     [DropIndex False ''ix_documents_school_status'',
      DropIndex False ''ix_documents_entity'',
      DropIndex False ''ix_documents_school_id'',
      DropTable ''documents'',
      DropConstraint True ''audit_logs'' ''ck_audit_logs_action'',
      AddConstraint ''audit_logs'' (Check ''ck_audit_logs_action'' (InList ''action'' audit_actions_0020_before))]"

definition migration_0020 :: migration where
  "migration_0020 =
     \<lparr>mg_revision = ''0020_documents'', mg_down_revision = Some ''0019_notifications'', mg_upgrade = upgrade_0020, mg_downgrade = downgrade_0020\<rparr>"

section \<open>0021_export_jobs\<close>

definition export_jobs_table :: ddl where
  "export_jobs_table =
     CreateTable ''export_jobs''
     [Col ''school_id'' (Varchar 26) NOT_NULL NoDefault,
      Col ''organization_id'' (Varchar 26) NOT_NULL NoDefault,
      Col ''report_type'' (Varchar 50) NOT_NULL NoDefault,
      Col ''status'' (Varchar 30) NOT_NULL (Literal ''PENDING''),
      Col ''filters'' JsonType NULLABLE NoDefault,
      Col ''row_count'' IntegerType NULLABLE NoDefault,
      Col ''storage_key'' (Varchar 500) NULLABLE NoDefault,
      Col ''error_message'' TextType NULLABLE NoDefault,
      Col ''started_at'' Timestamptz NULLABLE NoDefault,
      Col ''completed_at'' Timestamptz NULLABLE NoDefault,
      Col ''expires_at'' Timestamptz NULLABLE NoDefault,
      Col ''id'' (Varchar 26) NOT_NULL NoDefault,
      Col ''created_at'' Timestamptz NOT_NULL (Sql ''now()''),
      Col ''updated_at'' Timestamptz NOT_NULL (Sql ''now()''),
      Col ''created_by_id'' (Varchar 26) NULLABLE NoDefault,
      Col ''updated_by_id'' (Varchar 26) NULLABLE NoDefault]
     [Check ''ck_export_jobs_report_type'' (InList ''report_type'' [''STUDENTS'', ''TEACHERS'', ''ATTENDANCE_SUMMARY'', ''ENROLLMENTS'']),
      Check ''ck_export_jobs_status'' (InList ''status'' [''PENDING'', ''PROCESSING'', ''COMPLETED'', ''FAILED'']),
      ForeignKey ''fk_export_jobs_school_id_schools'' [''school_id''] ''schools'' [''id''] ''RESTRICT'',
      ForeignKey ''fk_export_jobs_organization_id_organizations'' [''organization_id''] ''organizations'' [''id''] ''RESTRICT'',
      PrimaryKey ''pk_export_jobs'' [''id'']]"

definition audit_actions_0021 :: "string list" where
  "audit_actions_0021 =
     [''ORGANIZATION_CREATED'', ''ORGANIZATION_UPDATED'', ''ORGANIZATION_DELETED'', ''SCHOOL_CREATED'',
      ''SCHOOL_UPDATED'', ''SCHOOL_DELETED'', ''USER_CREATED'', ''USER_UPDATED'', ''USER_DELETED'',
      ''MEMBERSHIP_CREATED'', ''MEMBERSHIP_UPDATED'', ''MEMBERSHIP_ENDED'', ''ROLE_CREATED'', ''ROLE_UPDATED'',
      ''ROLE_DELETED'', ''ROLE_GRANTED'', ''ROLE_REVOKED'', ''PERSON_CREATED'', ''PERSON_UPDATED'',
      ''PERSON_DELETED'', ''PERSON_MERGED'', ''ADDRESS_CREATED'', ''ADDRESS_UPDATED'', ''ADDRESS_DELETED'',
      ''CONTACT_CREATED'', ''CONTACT_UPDATED'', ''CONTACT_DELETED'', ''LOGIN_SUCCESS'', ''LOGOUT'',
      ''PASSWORD_CHANGED'', ''PASSWORD_RESET_REQUESTED'', ''PASSWORD_RESET_CONFIRMED'',
      ''ACADEMIC_YEAR_CREATED'', ''ACADEMIC_YEAR_UPDATED'', ''ACADEMIC_YEAR_DELETED'',
      ''ACADEMIC_TERM_CREATED'', ''ACADEMIC_TERM_UPDATED'', ''ACADEMIC_TERM_DELETED'',
      ''ACADEMIC_CLASS_CREATED'', ''ACADEMIC_CLASS_UPDATED'', ''ACADEMIC_CLASS_DELETED'', ''SUBJECT_CREATED'',
      ''SUBJECT_UPDATED'', ''SUBJECT_DELETED'', ''CLASS_SUBJECT_CREATED'', ''CLASS_SUBJECT_DELETED'',
      ''COHORT_CREATED'', ''COHORT_UPDATED'', ''COHORT_DELETED'', ''STUDENT_CREATED'', ''STUDENT_UPDATED'',
      ''STUDENT_DELETED'', ''STUDENT_GUARDIAN_CREATED'', ''STUDENT_GUARDIAN_UPDATED'',
      ''STUDENT_GUARDIAN_DELETED'', ''TEACHER_CREATED'', ''TEACHER_UPDATED'', ''TEACHER_DELETED'',
      ''TEACHER_ASSIGNED'', ''TEACHER_ASSIGNMENT_UPDATED'', ''TEACHER_ASSIGNMENT_ENDED'',
      ''PERIOD_DEFINITION_CREATED'', ''PERIOD_DEFINITION_UPDATED'', ''PERIOD_DEFINITION_DELETED'',
      ''TIMETABLE_SLOT_CREATED'', ''TIMETABLE_SLOT_UPDATED'', ''TIMETABLE_SLOT_CANCELLED'',
      ''ANNOUNCEMENT_CREATED'', ''ANNOUNCEMENT_UPDATED'', ''ANNOUNCEMENT_DELETED'', ''ANNOUNCEMENT_PUBLISHED'',
      ''ANNOUNCEMENT_ARCHIVED'', ''ATTENDANCE_SESSION_CREATED'', ''ATTENDANCE_SESSION_UPDATED'',
      ''ATTENDANCE_SESSION_DELETED'', ''ATTENDANCE_SESSION_SUBMITTED'', ''ATTENDANCE_SESSION_AMENDED'',
      ''ATTENDANCE_SESSION_BULK_UPDATED'', ''ATTENDANCE_RECORD_UPDATED'', ''ENROLLMENT_CREATED'',
      ''ENROLLMENT_UPDATED'', ''ENROLLMENT_DELETED'', ''IMPORT_JOB_CREATED'', ''IMPORT_JOB_COMPLETED'',
      ''IMPORT_JOB_FAILED'', ''REPORT_EXPORTED'']"

definition upgrade_0021 :: "ddl list" where
  "upgrade_0021 =
     [export_jobs_table,
      CreateIndex False False ''export_jobs'' (Index ''ix_export_jobs_school_created'' False ''btree'' [Key ''school_id'', Key ''created_by_id'', Key ''created_at''] None),
      DropConstraint True ''audit_logs'' ''ck_audit_logs_action'',
      AddConstraint ''audit_logs'' (Check ''ck_audit_logs_action'' (InList ''action'' audit_actions_0021))] @
     List.map Policy (school_scoped_policy_sql ''export_jobs'')"

definition audit_actions_0021_before :: "string list" where
  "audit_actions_0021_before =
     [''ORGANIZATION_CREATED'', ''ORGANIZATION_UPDATED'', ''ORGANIZATION_DELETED'', ''SCHOOL_CREATED'',
      ''SCHOOL_UPDATED'', ''SCHOOL_DELETED'', ''USER_CREATED'', ''USER_UPDATED'', ''USER_DELETED'',
      ''MEMBERSHIP_CREATED'', ''MEMBERSHIP_UPDATED'', ''MEMBERSHIP_ENDED'', ''ROLE_CREATED'', ''ROLE_UPDATED'',
      ''ROLE_DELETED'', ''ROLE_GRANTED'', ''ROLE_REVOKED'', ''PERSON_CREATED'', ''PERSON_UPDATED'',
      ''PERSON_DELETED'', ''PERSON_MERGED'', ''ADDRESS_CREATED'', ''ADDRESS_UPDATED'', ''ADDRESS_DELETED'',
      ''CONTACT_CREATED'', ''CONTACT_UPDATED'', ''CONTACT_DELETED'', ''LOGIN_SUCCESS'', ''LOGOUT'',
      ''PASSWORD_CHANGED'', ''PASSWORD_RESET_REQUESTED'', ''PASSWORD_RESET_CONFIRMED'',
      ''ACADEMIC_YEAR_CREATED'', ''ACADEMIC_YEAR_UPDATED'', ''ACADEMIC_YEAR_DELETED'',
      ''ACADEMIC_TERM_CREATED'', ''ACADEMIC_TERM_UPDATED'', ''ACADEMIC_TERM_DELETED'',
      ''ACADEMIC_CLASS_CREATED'', ''ACADEMIC_CLASS_UPDATED'', ''ACADEMIC_CLASS_DELETED'', ''SUBJECT_CREATED'',
      ''SUBJECT_UPDATED'', ''SUBJECT_DELETED'', ''CLASS_SUBJECT_CREATED'', ''CLASS_SUBJECT_DELETED'',
      ''COHORT_CREATED'', ''COHORT_UPDATED'', ''COHORT_DELETED'', ''STUDENT_CREATED'', ''STUDENT_UPDATED'',
      ''STUDENT_DELETED'', ''STUDENT_GUARDIAN_CREATED'', ''STUDENT_GUARDIAN_UPDATED'',
      ''STUDENT_GUARDIAN_DELETED'', ''TEACHER_CREATED'', ''TEACHER_UPDATED'', ''TEACHER_DELETED'',
      ''TEACHER_ASSIGNED'', ''TEACHER_ASSIGNMENT_UPDATED'', ''TEACHER_ASSIGNMENT_ENDED'',
      ''PERIOD_DEFINITION_CREATED'', ''PERIOD_DEFINITION_UPDATED'', ''PERIOD_DEFINITION_DELETED'',
      ''TIMETABLE_SLOT_CREATED'', ''TIMETABLE_SLOT_UPDATED'', ''TIMETABLE_SLOT_CANCELLED'',
      ''ANNOUNCEMENT_CREATED'', ''ANNOUNCEMENT_UPDATED'', ''ANNOUNCEMENT_DELETED'', ''ANNOUNCEMENT_PUBLISHED'',
      ''ANNOUNCEMENT_ARCHIVED'', ''ATTENDANCE_SESSION_CREATED'', ''ATTENDANCE_SESSION_UPDATED'',
      ''ATTENDANCE_SESSION_DELETED'', ''ATTENDANCE_SESSION_SUBMITTED'', ''ATTENDANCE_SESSION_AMENDED'',
      ''ATTENDANCE_SESSION_BULK_UPDATED'', ''ATTENDANCE_RECORD_UPDATED'', ''ENROLLMENT_CREATED'',
      ''ENROLLMENT_UPDATED'', ''ENROLLMENT_DELETED'', ''IMPORT_JOB_CREATED'', ''IMPORT_JOB_COMPLETED'',
      ''IMPORT_JOB_FAILED'']"

definition downgrade_0021 :: "ddl list" where
  "downgrade_0021 =
     List.map Policy (drop_policy_sql ''export_jobs'') @
     [DropIndex False ''ix_export_jobs_school_created'',
      DropTable ''export_jobs'',
      DropConstraint True ''audit_logs'' ''ck_audit_logs_action'',
      AddConstraint ''audit_logs'' (Check ''ck_audit_logs_action'' (InList ''action'' audit_actions_0021_before))]"

definition migration_0021 :: migration where
  "migration_0021 =
     \<lparr>mg_revision = ''0021_export_jobs'', mg_down_revision = Some ''0020_documents'', mg_upgrade = upgrade_0021, mg_downgrade = downgrade_0021\<rparr>"

section \<open>0022_parents\<close>

definition parents_table :: ddl where
  "parents_table =
     CreateTable ''parents''
     [Col ''person_id'' (Varchar 26) NOT_NULL NoDefault,
      Col ''school_id'' (Varchar 26) NOT_NULL NoDefault,
      Col ''organization_id'' (Varchar 26) NOT_NULL NoDefault,
      Col ''occupation'' (Varchar 200) NULLABLE NoDefault,
      Col ''workplace'' (Varchar 200) NULLABLE NoDefault,
      Col ''status'' (Varchar 20) NOT_NULL (Literal ''ACTIVE''),
      Col ''id'' (Varchar 26) NOT_NULL NoDefault,
      Col ''created_at'' Timestamptz NOT_NULL (Sql ''now()''),
      Col ''updated_at'' Timestamptz NOT_NULL (Sql ''now()''),
      Col ''version'' IntegerType NOT_NULL (Sql ''1''),
      Col ''created_by_id'' (Varchar 26) NULLABLE NoDefault,
      Col ''updated_by_id'' (Varchar 26) NULLABLE NoDefault,
      Col ''archived_at'' Timestamptz NULLABLE NoDefault,
      Col ''deleted_at'' Timestamptz NULLABLE NoDefault]
     [Check ''ck_parents_status'' (InList ''status'' [''ACTIVE'', ''INACTIVE'']),
      ForeignKey ''fk_parents_person_id_persons'' [''person_id''] ''persons'' [''id''] ''RESTRICT'',
      ForeignKey ''fk_parents_school_id_schools'' [''school_id''] ''schools'' [''id''] ''RESTRICT'',
      ForeignKey ''fk_parents_organization_id_organizations'' [''organization_id''] ''organizations'' [''id''] ''RESTRICT'',
      PrimaryKey ''pk_parents'' [''id''],
      Unique ''uq_parents_school_person'' False [''school_id'', ''person_id'']]"

definition student_parents_table :: ddl where
  "student_parents_table =
     CreateTable ''student_parents''
     [Col ''school_id'' (Varchar 26) NOT_NULL NoDefault,
      Col ''organization_id'' (Varchar 26) NOT_NULL NoDefault,
      Col ''student_id'' (Varchar 26) NOT_NULL NoDefault,
      Col ''parent_id'' (Varchar 26) NOT_NULL NoDefault,
      Col ''relationship'' (Varchar 30) NOT_NULL NoDefault,
      Col ''is_primary'' BooleanType NOT_NULL (Literal ''false''),
      Col ''is_emergency_contact'' BooleanType NOT_NULL (Literal ''false''),
      Col ''can_pickup'' BooleanType NOT_NULL (Literal ''true''),
      Col ''id'' (Varchar 26) NOT_NULL NoDefault,
      Col ''created_at'' Timestamptz NOT_NULL (Sql ''now()''),
      Col ''updated_at'' Timestamptz NOT_NULL (Sql ''now()''),
      Col ''created_by_id'' (Varchar 26) NULLABLE NoDefault,
      Col ''updated_by_id'' (Varchar 26) NULLABLE NoDefault]
     [Check ''ck_student_parents_relationship'' (InList ''relationship'' [''FATHER'', ''MOTHER'', ''GUARDIAN'', ''GRANDPARENT'', ''SIBLING'', ''OTHER'']),
      ForeignKey ''fk_student_parents_school_id_schools'' [''school_id''] ''schools'' [''id''] ''RESTRICT'',
      ForeignKey ''fk_student_parents_organization_id_organizations'' [''organization_id''] ''organizations'' [''id''] ''RESTRICT'',
      ForeignKey ''fk_student_parents_student_id_students'' [''student_id''] ''students'' [''id''] ''RESTRICT'',
      ForeignKey ''fk_student_parents_parent_id_parents'' [''parent_id''] ''parents'' [''id''] ''RESTRICT'',
      PrimaryKey ''pk_student_parents'' [''id''],
      Unique ''uq_student_parent'' False [''student_id'', ''parent_id'']]"

definition audit_actions_0022 :: "string list" where
  "audit_actions_0022 =
     [''ORGANIZATION_CREATED'', ''ORGANIZATION_UPDATED'', ''ORGANIZATION_DELETED'', ''SCHOOL_CREATED'',
      ''SCHOOL_UPDATED'', ''SCHOOL_DELETED'', ''USER_CREATED'', ''USER_UPDATED'', ''USER_DELETED'',
      ''MEMBERSHIP_CREATED'', ''MEMBERSHIP_UPDATED'', ''MEMBERSHIP_ENDED'', ''ROLE_CREATED'', ''ROLE_UPDATED'',
      ''ROLE_DELETED'', ''ROLE_GRANTED'', ''ROLE_REVOKED'', ''PERSON_CREATED'', ''PERSON_UPDATED'',
      ''PERSON_DELETED'', ''PERSON_MERGED'', ''ADDRESS_CREATED'', ''ADDRESS_UPDATED'', ''ADDRESS_DELETED'',
      ''CONTACT_CREATED'', ''CONTACT_UPDATED'', ''CONTACT_DELETED'', ''LOGIN_SUCCESS'', ''LOGOUT'',
      ''PASSWORD_CHANGED'', ''PASSWORD_RESET_REQUESTED'', ''PASSWORD_RESET_CONFIRMED'',
      ''ACADEMIC_YEAR_CREATED'', ''ACADEMIC_YEAR_UPDATED'', ''ACADEMIC_YEAR_DELETED'',
      ''ACADEMIC_TERM_CREATED'', ''ACADEMIC_TERM_UPDATED'', ''ACADEMIC_TERM_DELETED'',
      ''ACADEMIC_CLASS_CREATED'', ''ACADEMIC_CLASS_UPDATED'', ''ACADEMIC_CLASS_DELETED'', ''SUBJECT_CREATED'',
      ''SUBJECT_UPDATED'', ''SUBJECT_DELETED'', ''CLASS_SUBJECT_CREATED'', ''CLASS_SUBJECT_DELETED'',
      ''COHORT_CREATED'', ''COHORT_UPDATED'', ''COHORT_DELETED'', ''STUDENT_CREATED'', ''STUDENT_UPDATED'',
      ''STUDENT_DELETED'', ''STUDENT_GUARDIAN_CREATED'', ''STUDENT_GUARDIAN_UPDATED'',
      ''STUDENT_GUARDIAN_DELETED'', ''TEACHER_CREATED'', ''TEACHER_UPDATED'', ''TEACHER_DELETED'',
      ''TEACHER_ASSIGNED'', ''TEACHER_ASSIGNMENT_UPDATED'', ''TEACHER_ASSIGNMENT_ENDED'',
      ''PERIOD_DEFINITION_CREATED'', ''PERIOD_DEFINITION_UPDATED'', ''PERIOD_DEFINITION_DELETED'',
      ''TIMETABLE_SLOT_CREATED'', ''TIMETABLE_SLOT_UPDATED'', ''TIMETABLE_SLOT_CANCELLED'',
      ''ANNOUNCEMENT_CREATED'', ''ANNOUNCEMENT_UPDATED'', ''ANNOUNCEMENT_DELETED'', ''ANNOUNCEMENT_PUBLISHED'',
      ''ANNOUNCEMENT_ARCHIVED'', ''ATTENDANCE_SESSION_CREATED'', ''ATTENDANCE_SESSION_UPDATED'',
      ''ATTENDANCE_SESSION_DELETED'', ''ATTENDANCE_SESSION_SUBMITTED'', ''ATTENDANCE_SESSION_AMENDED'',
      ''ATTENDANCE_SESSION_BULK_UPDATED'', ''ATTENDANCE_RECORD_UPDATED'', ''ENROLLMENT_CREATED'',
      ''ENROLLMENT_UPDATED'', ''ENROLLMENT_DELETED'', ''IMPORT_JOB_CREATED'', ''IMPORT_JOB_COMPLETED'',
      ''IMPORT_JOB_FAILED'', ''REPORT_EXPORTED'', ''PARENT_CREATED'', ''PARENT_UPDATED'', ''PARENT_DELETED'',
      ''STUDENT_PARENT_LINKED'', ''STUDENT_PARENT_UNLINKED'']"

definition upgrade_0022 :: "ddl list" where
  "upgrade_0022 =
     [parents_table,
      CreateIndex False False ''parents'' (Index ''ix_parents_person_id'' False ''btree'' [Key ''person_id''] None),
      CreateIndex False False ''parents'' (Index ''ix_parents_school_id'' False ''btree'' [Key ''school_id''] None),
      CreateIndex False False ''parents'' (Index ''ix_parents_organization_id'' False ''btree'' [Key ''organization_id''] None),
      student_parents_table,
      CreateIndex False False ''student_parents'' (Index ''ix_student_parents_school_id'' False ''btree'' [Key ''school_id''] None),
      CreateIndex False False ''student_parents'' (Index ''ix_student_parents_student_id'' False ''btree'' [Key ''student_id''] None),
      CreateIndex False False ''student_parents'' (Index ''ix_student_parents_parent_id'' False ''btree'' [Key ''parent_id''] None),
      DropConstraint True ''audit_logs'' ''ck_audit_logs_action'',
      AddConstraint ''audit_logs'' (Check ''ck_audit_logs_action'' (InList ''action'' audit_actions_0022))] @
     List.map Policy (school_scoped_policy_sql ''parents'') @
     List.map Policy (school_scoped_policy_sql ''student_parents'')"

definition audit_actions_0022_before :: "string list" where
  "audit_actions_0022_before =
     [''ORGANIZATION_CREATED'', ''ORGANIZATION_UPDATED'', ''ORGANIZATION_DELETED'', ''SCHOOL_CREATED'',
      ''SCHOOL_UPDATED'', ''SCHOOL_DELETED'', ''USER_CREATED'', ''USER_UPDATED'', ''USER_DELETED'',
      ''MEMBERSHIP_CREATED'', ''MEMBERSHIP_UPDATED'', ''MEMBERSHIP_ENDED'', ''ROLE_CREATED'', ''ROLE_UPDATED'',
      ''ROLE_DELETED'', ''ROLE_GRANTED'', ''ROLE_REVOKED'', ''PERSON_CREATED'', ''PERSON_UPDATED'',
      ''PERSON_DELETED'', ''PERSON_MERGED'', ''ADDRESS_CREATED'', ''ADDRESS_UPDATED'', ''ADDRESS_DELETED'',
      ''CONTACT_CREATED'', ''CONTACT_UPDATED'', ''CONTACT_DELETED'', ''LOGIN_SUCCESS'', ''LOGOUT'',
      ''PASSWORD_CHANGED'', ''PASSWORD_RESET_REQUESTED'', ''PASSWORD_RESET_CONFIRMED'',
      ''ACADEMIC_YEAR_CREATED'', ''ACADEMIC_YEAR_UPDATED'', ''ACADEMIC_YEAR_DELETED'',
      ''ACADEMIC_TERM_CREATED'', ''ACADEMIC_TERM_UPDATED'', ''ACADEMIC_TERM_DELETED'',
      ''ACADEMIC_CLASS_CREATED'', ''ACADEMIC_CLASS_UPDATED'', ''ACADEMIC_CLASS_DELETED'', ''SUBJECT_CREATED'',
      ''SUBJECT_UPDATED'', ''SUBJECT_DELETED'', ''CLASS_SUBJECT_CREATED'', ''CLASS_SUBJECT_DELETED'',
      ''COHORT_CREATED'', ''COHORT_UPDATED'', ''COHORT_DELETED'', ''STUDENT_CREATED'', ''STUDENT_UPDATED'',
      ''STUDENT_DELETED'', ''STUDENT_GUARDIAN_CREATED'', ''STUDENT_GUARDIAN_UPDATED'',
      ''STUDENT_GUARDIAN_DELETED'', ''TEACHER_CREATED'', ''TEACHER_UPDATED'', ''TEACHER_DELETED'',
      ''TEACHER_ASSIGNED'', ''TEACHER_ASSIGNMENT_UPDATED'', ''TEACHER_ASSIGNMENT_ENDED'',
      ''PERIOD_DEFINITION_CREATED'', ''PERIOD_DEFINITION_UPDATED'', ''PERIOD_DEFINITION_DELETED'',
      ''TIMETABLE_SLOT_CREATED'', ''TIMETABLE_SLOT_UPDATED'', ''TIMETABLE_SLOT_CANCELLED'',
      ''ANNOUNCEMENT_CREATED'', ''ANNOUNCEMENT_UPDATED'', ''ANNOUNCEMENT_DELETED'', ''ANNOUNCEMENT_PUBLISHED'',
      ''ANNOUNCEMENT_ARCHIVED'', ''ATTENDANCE_SESSION_CREATED'', ''ATTENDANCE_SESSION_UPDATED'',
      ''ATTENDANCE_SESSION_DELETED'', ''ATTENDANCE_SESSION_SUBMITTED'', ''ATTENDANCE_SESSION_AMENDED'',
      ''ATTENDANCE_SESSION_BULK_UPDATED'', ''ATTENDANCE_RECORD_UPDATED'', ''ENROLLMENT_CREATED'',
      ''ENROLLMENT_UPDATED'', ''ENROLLMENT_DELETED'', ''IMPORT_JOB_CREATED'', ''IMPORT_JOB_COMPLETED'',
      ''IMPORT_JOB_FAILED'', ''REPORT_EXPORTED'']"

definition downgrade_0022 :: "ddl list" where
  "downgrade_0022 =
     List.map Policy (drop_policy_sql ''student_parents'') @
     List.map Policy (drop_policy_sql ''parents'') @
     [DropIndex False ''ix_student_parents_parent_id'',
      DropIndex False ''ix_student_parents_student_id'',
      DropIndex False ''ix_student_parents_school_id'',
      DropTable ''student_parents'',
      DropIndex False ''ix_parents_organization_id'',
      DropIndex False ''ix_parents_school_id'',
      DropIndex False ''ix_parents_person_id'',
      DropTable ''parents'',
      DropConstraint True ''audit_logs'' ''ck_audit_logs_action'',
      AddConstraint ''audit_logs'' (Check ''ck_audit_logs_action'' (InList ''action'' audit_actions_0022_before))]"

definition migration_0022 :: migration where
  "migration_0022 =
     \<lparr>mg_revision = ''0022_parents'', mg_down_revision = Some ''0021_export_jobs'', mg_upgrade = upgrade_0022, mg_downgrade = downgrade_0022\<rparr>"

section \<open>0023_timetable_header\<close>

definition timetables_table :: ddl where
  "timetables_table =
     CreateTable ''timetables''
     [Col ''id'' (Varchar 26) NOT_NULL NoDefault,
      Col ''school_id'' (Varchar 26) NOT_NULL NoDefault,
      Col ''organization_id'' (Varchar 26) NOT_NULL NoDefault,
      Col ''academic_year_id'' (Varchar 26) NOT_NULL NoDefault,
      Col ''name'' (Varchar 200) NOT_NULL NoDefault,
      Col ''status'' (Varchar 30) NOT_NULL (Literal ''DRAFT''),
      Col ''published_at'' Timestamptz NULLABLE NoDefault,
      Col ''archived_at'' Timestamptz NULLABLE NoDefault,
      Col ''deleted_at'' Timestamptz NULLABLE NoDefault,
      Col ''version'' IntegerType NOT_NULL (Literal ''1''),
      Col ''created_by_id'' (Varchar 26) NULLABLE NoDefault,
      Col ''updated_by_id'' (Varchar 26) NULLABLE NoDefault,
      Col ''created_at'' Timestamptz NOT_NULL (Sql ''now()''),
      Col ''updated_at'' Timestamptz NOT_NULL (Sql ''now()'')]
     [ForeignKey ''timetables_school_id_fkey'' [''school_id''] ''schools'' [''id''] ''RESTRICT'',
      ForeignKey ''timetables_organization_id_fkey'' [''organization_id''] ''organizations'' [''id''] ''RESTRICT'',
      ForeignKey ''timetables_academic_year_id_fkey'' [''academic_year_id''] ''academic_years'' [''id''] ''RESTRICT'',
      Check ''ck_timetables_status'' (InList ''status'' [''DRAFT'', ''PUBLISHED'', ''ARCHIVED'']),
      PrimaryKey ''pk_timetables'' [''id'']]"

definition upgrade_0023 :: "ddl list" where
  "upgrade_0023 =
     [timetables_table,
      CreateIndex False False ''timetables'' (Index ''ix_timetables_school_id'' False ''btree'' [Key ''school_id''] None),
      CreateIndex False False ''timetables'' (Index ''ix_timetables_school_year_status'' False ''btree'' [Key ''school_id'', Key ''academic_year_id'', Key ''status''] None),
      AddColumn ''timetable_slots'' (Col ''timetable_id'' (Varchar 26) NULLABLE NoDefault),
      AddConstraint ''timetable_slots'' (ForeignKey ''fk_timetable_slots_timetable_id_timetables'' [''timetable_id''] ''timetables'' [''id''] ''RESTRICT'')] @
     List.map Policy (school_scoped_policy_sql ''timetables'')"

definition downgrade_0023 :: "ddl list" where
  "downgrade_0023 =
     [DropConstraint False ''timetable_slots'' ''fk_timetable_slots_timetable_id_timetables'',
      DropColumn ''timetable_slots'' ''timetable_id'',
      DropIndex False ''ix_timetables_school_year_status'',
      DropIndex False ''ix_timetables_school_id'',
      DropTable ''timetables'']"

definition migration_0023 :: migration where
  "migration_0023 =
     \<lparr>mg_revision = ''0023_timetable_header'', mg_down_revision = Some ''0022_parents'', mg_upgrade = upgrade_0023, mg_downgrade = downgrade_0023\<rparr>"

section \<open>0024_search_indexes\<close>

definition upgrade_0024 :: "ddl list" where
  "upgrade_0024 =
     [CreateExtension ''pg_trgm'',
      CreateIndex True True ''persons'' (Index ''persons_name_trgm'' False ''gin'' [Expr (''(coalesce(first_name, '' @ quoted [] @ '') || '' @ quoted '' '' @ '' || coalesce(last_name, '' @ quoted [] @ '')) gin_trgm_ops'')] None),
      CreateIndex True True ''students'' (Index ''students_admission_trgm'' False ''gin'' [Expr ''admission_number gin_trgm_ops''] None)]"

definition downgrade_0024 :: "ddl list" where
  "downgrade_0024 =
     [DropIndex True ''students_admission_trgm'',
      DropIndex True ''persons_name_trgm'']"

definition migration_0024 :: migration where
  "migration_0024 =
     \<lparr>mg_revision = ''0024_search_indexes'', mg_down_revision = Some ''0023_timetable_header'', mg_upgrade = upgrade_0024, mg_downgrade = downgrade_0024\<rparr>"

section \<open>0025_outbox_dispatch_claim\<close>

definition upgrade_0025 :: "ddl list" where
  "upgrade_0025 =
     [AddColumn ''outbox_events'' (Col ''locked_by'' (Varchar 128) NULLABLE NoDefault),
      AddColumn ''outbox_events'' (Col ''locked_at'' Timestamptz NULLABLE NoDefault),
      CreateIndex False True ''outbox_events'' (Index ''ix_outbox_events_locked_at'' False ''btree'' [Key ''locked_at''] (Some (Condition (''status = '' @ quoted ''PROCESSING''))))]"

definition downgrade_0025 :: "ddl list" where
  "downgrade_0025 =
     [DropIndex True ''ix_outbox_events_locked_at'',
      DropColumn ''outbox_events'' ''locked_at'',
      DropColumn ''outbox_events'' ''locked_by'']"

definition migration_0025 :: migration where
  "migration_0025 =
     \<lparr>mg_revision = ''0025_outbox_dispatch_claim'', mg_down_revision = Some ''0024_search_indexes'', mg_upgrade = upgrade_0025, mg_downgrade = downgrade_0025\<rparr>"

section \<open>0026_assignment_conflict_indexes\<close>

definition upgrade_0026 :: "ddl list" where
  "upgrade_0026 =
     [CreateIndex False True ''teacher_assignments'' (Index ''uq_assignment_class_teacher_active'' True ''btree'' [Key ''school_id'', Key ''cohort_id'', Key ''academic_year_id''] (Some (Condition (''role = '' @ quoted ''CLASS_TEACHER'' @ '' AND status = '' @ quoted ''ACTIVE'')))),
      CreateIndex False True ''teacher_assignments'' (Index ''uq_assignment_subject_teacher_active'' True ''btree'' [Key ''school_id'', Key ''cohort_id'', Key ''subject_id'', Key ''academic_year_id''] (Some (Condition (''role = '' @ quoted ''SUBJECT_TEACHER'' @ '' AND status = '' @ quoted ''ACTIVE''))))]"

definition downgrade_0026 :: "ddl list" where
  "downgrade_0026 =
     [DropIndex True ''uq_assignment_subject_teacher_active'',
      DropIndex True ''uq_assignment_class_teacher_active'']"

definition migration_0026 :: migration where
  "migration_0026 =
     \<lparr>mg_revision = ''0026_assignment_conflict_indexes'', mg_down_revision = Some ''0025_outbox_dispatch_claim'', mg_upgrade = upgrade_0026, mg_downgrade = downgrade_0026\<rparr>"

section \<open>The tables\<close>

lemma later_table_names:
  "table_named import_jobs_table = Some ''import_jobs''"
  "table_named notifications_table = Some ''notifications''"
  "table_named documents_table = Some ''documents''"
  "table_named export_jobs_table = Some ''export_jobs''"
  "table_named parents_table = Some ''parents''"
  "table_named student_parents_table = Some ''student_parents''"
  "table_named timetables_table = Some ''timetables''"
  by (simp_all add: import_jobs_table_def notifications_table_def documents_table_def export_jobs_table_def parents_table_def student_parents_table_def timetables_table_def)

lemma later_school_tables:
  "school_table import_jobs_table = True"
  "school_table notifications_table = False"
  "school_table documents_table = True"
  "school_table export_jobs_table = True"
  "school_table parents_table = True"
  "school_table student_parents_table = True"
  "school_table timetables_table = True"
  by (simp_all add: of_a_school_def import_jobs_table_def notifications_table_def documents_table_def export_jobs_table_def parents_table_def student_parents_table_def timetables_table_def)

end
