(* ===== verification/Migrations.thy ===== *)
theory Migrations
  imports MigrationsLater Platform
begin

text \<open>
  The chain of the migrations and what it makes of a database: how far an upgrade gets, which tables a
  migration leaves protected, and what the check on the actions of the audit log admits.
\<close>

section \<open>The chain\<close>

definition migrations :: "migration list" where
  "migrations =
     [migration_0001, migration_0002, migration_0003, migration_0004, migration_0005, migration_0006, migration_0007,
      migration_0008, migration_0009, migration_0010, migration_0011, migration_0012, migration_0013, migration_0014,
      migration_0015, migration_0016, migration_0017, migration_0018, migration_0019, migration_0020, migration_0021,
      migration_0022, migration_0023, migration_0024, migration_0025, migration_0026]"

lemmas migration_defs = migration_0001_def migration_0002_def migration_0003_def migration_0004_def migration_0005_def
  migration_0006_def migration_0007_def migration_0008_def migration_0009_def migration_0010_def migration_0011_def
  migration_0012_def migration_0013_def migration_0014_def migration_0015_def migration_0016_def migration_0017_def
  migration_0018_def migration_0019_def migration_0020_def migration_0021_def migration_0022_def migration_0023_def
  migration_0024_def migration_0025_def migration_0026_def

fun chained :: "string option \<Rightarrow> migration list \<Rightarrow> bool" where
  "chained v [] = True"
| "chained v (m # ms) = (mg_down_revision m = v \<and> chained (Some (mg_revision m)) ms)"

lemma migrations_chained: "chained None migrations"
  by (simp add: migrations_def migration_defs)

section \<open>What an operation does to one table\<close>

lemma table_at_put [simp]: "table_at (put_table t x c) u = (if u = t then Some x else table_at c u)"
  by (simp add: table_at_def put_table_def AList.update_conv')

lemma on_table_Inr:
  "on_table t f c = Inr c' \<longleftrightarrow> (\<exists>x y. table_at c t = Some x \<and> f x = Inr y \<and> c' = put_table t y c)"
  by (auto simp: on_table_def bind_ok_Inr_iff ok_or_def split: option.splits)

lemma add_constraint_table:
  "add_constraint t k c = Inr c' \<Longrightarrow> \<exists>x. table_at c t = Some x \<and>
     (\<forall>u. table_at c' u = (if u = t then Some (x\<lparr>tb_constraints := tb_constraints x @ [k]\<rparr>) else table_at c u))"
  unfolding add_constraint_def on_table_Inr by (fastforce simp: bind_ok_Inr_iff split: if_splits)

lemma add_constraints_table:
  "add_constraints t ks c = Inr c' \<Longrightarrow> table_at c t = Some x \<Longrightarrow>
     table_at c' u = (if u = t then Some (x\<lparr>tb_constraints := tb_constraints x @ ks\<rparr>) else table_at c u)"
proof (induction ks arbitrary: c x)
  case (Cons k ks)
  then obtain c1 where c1: "add_constraint t k c = Inr c1" "add_constraints t ks c1 = Inr c'"
    by (auto simp: bind_ok_Inr_iff)
  have "table_at c1 t = Some (x\<lparr>tb_constraints := tb_constraints x @ [k]\<rparr>)" and "u \<noteq> t \<Longrightarrow> table_at c1 u = table_at c u"
    using add_constraint_table[OF c1(1)] Cons.prems(2) by auto
  then show ?case using Cons.IH[OF c1(2)] by simp
qed simp

lemma table_at_Nil_relations: "t \<notin> set (relations c) \<Longrightarrow> table_at c t = None"
  by (auto simp: relations_def relations_of_def table_at_def map_of_eq_None_iff)

lemma create_table_table:
  "create_table t cols ks c = Inr c' \<Longrightarrow>
     table_at c t = None \<and> table_at c' u = (if u = t then Some ((new_table cols)\<lparr>tb_constraints := ks\<rparr>) else table_at c u)"
proof -
  assume a: "create_table t cols ks c = Inr c'"
  then have n: "table_at c t = None" using table_at_Nil_relations by (auto simp: create_table_def split: if_splits)
  let ?c = "c\<lparr>cat_tables := cat_tables c @ [(t, new_table cols)]\<rparr>"
  have "table_at ?c v = (if v = t then Some (new_table cols) else table_at c v)" for v
    using n by (auto simp: table_at_def map_add_def split: option.splits)
  then show ?thesis using a n add_constraints_table[of t ks ?c c' "new_table cols" u]
    by (auto simp: create_table_def new_table_def split: if_splits)
qed

lemma drop_table_table: "drop_table t c = Inr c' \<Longrightarrow> table_at c' u = (if u = t then None else table_at c u)"
proof -
  have "map_of (filter (\<lambda>(v, _). v \<noteq> t) xs) u = (if u = t then None else map_of xs u)" for xs :: "(string \<times> table) list"
    by (induction xs) auto
  then show "drop_table t c = Inr c' \<Longrightarrow> ?thesis" by (auto simp: drop_table_def table_at_def split: if_splits)
qed

lemma drop_index_table:
  "drop_index b n c = Inr c' \<Longrightarrow>
     table_at c' u = map_option (\<lambda>x. x\<lparr>tb_indexes := filter (\<lambda>i. ix_name i \<noteq> n) (tb_indexes x)\<rparr>) (table_at c u)"
proof -
  have "map_of (List.map (\<lambda>(t, x). (t, f x)) xs) u = map_option f (map_of xs u)" for f and xs :: "(string \<times> table) list"
    by (induction xs) auto
  then show "drop_index b n c = Inr c' \<Longrightarrow> ?thesis" by (auto simp: drop_index_def table_at_def split: if_splits)
qed

text \<open>
  Of a table, the part that the theorems are about: its constraints and its row security. An operation that
  succeeds does to it what the operation says, whatever the rest of the catalog.
\<close>

type_synonym view = "constraint list \<times> table_security \<times> string list"

definition view_of :: "table \<Rightarrow> view" where
  "view_of x = (tb_constraints x, tb_security x, tb_restrictive x)"

definition view_at :: "catalog \<Rightarrow> string \<Rightarrow> view option" where
  "view_at c t = map_option view_of (table_at c t)"

fun secured :: "string \<Rightarrow> statement \<Rightarrow> table_security \<Rightarrow> table_security" where
  "secured t st sec = (case run_statement t st sec of Inl _ \<Rightarrow> sec | Inr sec' \<Rightarrow> sec')"

fun policy_effect :: "statement \<Rightarrow> view \<Rightarrow> view" where
  "policy_effect (DropPolicy p t) (ks, sec, rs) = (ks, secured t (DropPolicy p t) sec, filter (\<lambda>r. r \<noteq> p) rs)"
| "policy_effect st (ks, sec, rs) = (ks, secured (statement_table st) st sec, rs)"

fun effect :: "string \<Rightarrow> ddl \<Rightarrow> view option \<Rightarrow> view option" where
  "effect t (CreateTable u cols ks) v =
     (if u = t then Some (ks, \<lparr>ts_enabled = False, ts_forced = False, ts_policies = []\<rparr>, []) else v)"
| "effect t (DropTable u) v = (if u = t then None else v)"
| "effect t (DropColumn u k) v =
     (if u = t then map_option (\<lambda>(ks, sr). (filter (\<lambda>y. k \<notin> set (constraint_columns y)) ks, sr)) v else v)"
| "effect t (AddConstraint u k) v = (if u = t then map_option (\<lambda>(ks, sr). (ks @ [k], sr)) v else v)"
| "effect t (DropConstraint b u n) v =
     (if u = t then map_option (\<lambda>(ks, sr). (filter (\<lambda>y. constraint_name y \<noteq> n) ks, sr)) v else v)"
| "effect t (Policy st) v = (if statement_table st = t then map_option (policy_effect st) v else v)"
| "effect t (RestrictivePolicy p u) v = (if u = t then map_option (\<lambda>(ks, sec, rs). (ks, sec, rs @ [p])) v else v)"
| "effect t _ v = v"

lemma policy_step_view: "policy_step st x = Inr y \<Longrightarrow> view_of y = policy_effect st (view_of x)"
  by (cases st) (auto simp: view_of_def bind_ok_Inr_iff split: if_splits sum.splits)

lemma drop_column_view:
  "drop_column k x = Inr y \<Longrightarrow> view_of y = (\<lambda>(ks, sr). (filter (\<lambda>y. k \<notin> set (constraint_columns y)) ks, sr)) (view_of x)"
  by (auto simp: drop_column_def view_of_def split: if_splits)

lemma drop_constraint_view:
  "drop_constraint b n x = Inr y \<Longrightarrow> view_of y = (\<lambda>(ks, sr). (filter (\<lambda>y. constraint_name y \<noteq> n) ks, sr)) (view_of x)"
  by (auto simp: drop_constraint_def view_of_def split: if_splits)

lemma on_table_view:
  assumes "on_table u f c = Inr c'" "\<And>x y. f x = Inr y \<Longrightarrow> view_of y = g (view_of x)"
  shows "view_at c' t = (if u = t then map_option g (view_at c t) else view_at c t)"
  using assms unfolding on_table_Inr view_at_def by (auto simp: option.map_comp comp_def)

lemma run_ddl_effect: "run_ddl d c = Inr c' \<Longrightarrow> view_at c' t = effect t d (view_at c t)"
proof (cases d)
  case (CreateTable u cols ks)
  assume "run_ddl d c = Inr c'"
  then show ?thesis using create_table_table[of u cols ks c c' t]
    by (auto simp: CreateTable view_at_def view_of_def new_table_def)
next
  case (DropTable u)
  assume "run_ddl d c = Inr c'"
  then show ?thesis using drop_table_table[of u c c' t] by (auto simp: DropTable view_at_def)
next
  case (AddConstraint u k)
  assume "run_ddl d c = Inr c'"
  then show ?thesis using add_constraint_table[of u k c c'] by (auto simp: AddConstraint view_at_def view_of_def)
next
  case (DropIndex b n)
  assume "run_ddl d c = Inr c'"
  then show ?thesis using drop_index_table[of b n c c' t]
    by (cases "table_at c t") (simp_all add: DropIndex view_at_def view_of_def)
next
  case (Policy st)
  assume "run_ddl d c = Inr c'"
  then show ?thesis unfolding Policy
    using on_table_view[of "statement_table st" "policy_step st" c c' "policy_effect st" t, OF _ policy_step_view]
    by (auto simp: view_at_def split: if_splits)
next
  case (DropColumn u k)
  assume "run_ddl d c = Inr c'"
  then show ?thesis unfolding DropColumn run_ddl.simps effect.simps  by (rule on_table_view) (rule drop_column_view)
next
  case (DropConstraint b u n)
  assume "run_ddl d c = Inr c'"
  then show ?thesis unfolding DropConstraint run_ddl.simps effect.simps  by (rule on_table_view) (rule drop_constraint_view)
next
  case (RestrictivePolicy p u)
  assume "run_ddl d c = Inr c'"
  then show ?thesis unfolding RestrictivePolicy run_ddl.simps on_table_Inr
    by (auto simp: view_at_def view_of_def split: if_splits)
qed (auto simp: on_table_Inr view_at_def view_of_def create_index_def table_at_def[symmetric] split: if_splits, auto simp: table_at_def)

lemma run_ddls_effect: "run_ddls ds c = Inr c' \<Longrightarrow> view_at c' t = fold (effect t) ds (view_at c t)"
proof (induction ds arbitrary: c)
  case (Cons d ds)
  then obtain c1 where "run_ddl d c = Inr c1" "run_ddls ds c1 = Inr c'" by (auto simp: bind_ok_Inr_iff)
  then show ?case using run_ddl_effect[of d c c1 t] Cons.IH by simp
qed simp

section \<open>How far an upgrade gets\<close>

lemma run_ddls_each: "run_ddls ds c = Inr c' \<Longrightarrow> d \<in> set ds \<Longrightarrow> \<exists>c1 c2. run_ddl d c1 = Inr c2"
  by (induction ds arbitrary: c) (auto simp: bind_ok_Inr_iff)

lemma upgrade_through_each:
  "upgrade_through ms db = Inr db' \<Longrightarrow> m \<in> set ms \<Longrightarrow> \<exists>c c'. run_ddls (mg_upgrade m) c = Inr c'"
  by (induction ms arbitrary: db) (auto simp: bind_ok_Inr_iff)

lemma no_concurrent_index: "CreateIndex True b t i \<in> set (mg_upgrade m) \<Longrightarrow> m \<in> set ms \<Longrightarrow> upgrade_through ms db \<noteq> Inr db'"
  using upgrade_through_each run_ddls_each by (fastforce simp: create_index_def)

lemma migration_0024_concurrent: "\<exists>b t i. CreateIndex True b t i \<in> set (mg_upgrade migration_0024)"
  by (auto simp: migration_0024_def upgrade_0024_def)

lemma pending_0024: "v = None \<or> v \<in> Some ` set (List.map mg_revision (take 23 migrations)) \<Longrightarrow> migration_0024 \<in> set (pending migrations v)"
  by (auto simp: pending_def migrations_def numeral_eq_Suc migration_defs)

text \<open>A table that is missing stays missing until an operation creates it.\<close>

definition creates :: "string \<Rightarrow> ddl \<Rightarrow> bool" where
  "creates t d \<longleftrightarrow> table_named d = Some t"

lemmas table_names = core_table_names school_table_names later_table_names

lemma effect_missing: "\<not> creates t d \<Longrightarrow> effect t d None = None"
  by (cases d) (auto simp: creates_def)

lemma fold_missing: "list_all (\<lambda>d. \<not> creates t d) ds \<Longrightarrow> fold (effect t) ds None = None"
  by (induction ds) (auto simp: effect_missing)

lemma view_at_None [simp]: "view_at c t = None \<longleftrightarrow> table_at c t = None"
  by (simp add: view_at_def)

lemma view_missing: "table_at c t = None \<Longrightarrow> view_at c t = None"
  by simp

lemma missing_through:
  "upgrade_through ms db = Inr db' \<Longrightarrow> table_at (snd db) t = None \<Longrightarrow>
     list_all (\<lambda>m. list_all (\<lambda>d. \<not> creates t d) (mg_upgrade m)) ms \<Longrightarrow> table_at (snd db') t = None"
proof (induction ms arbitrary: db)
  case (Cons m ms)
  then obtain c where c: "run_ddls (mg_upgrade m) (snd db) = Inr c" "upgrade_through ms (Some (mg_revision m), c) = Inr db'"
    by (auto simp: bind_ok_Inr_iff)
  have "view_at c t = None"
    using run_ddls_effect[OF c(1), of t] fold_missing[of t "mg_upgrade m"] view_missing[OF Cons.prems(2)] Cons.prems(3)
    by simp
  then show ?case using Cons.IH[OF c(2)] Cons.prems(3) by simp
qed simp

lemma upgrade_through_append:
  "upgrade_through (ms @ ns) db = bind_ok (upgrade_through ms db) (upgrade_through ns)"
  by (induction ms arbitrary: db) (auto simp: bind_ok_def split: sum.splits)

lemma switch_needs_table:
  "Policy (NoForceRls t) \<in> set ds \<Longrightarrow> list_all (\<lambda>d. \<not> creates t d) ds \<Longrightarrow> table_at c t = None \<Longrightarrow> run_ddls ds c \<noteq> Inr c'"
proof (induction ds arbitrary: c)
  case (Cons d ds)
  show ?case
  proof
    assume "run_ddls (d # ds) c = Inr c'"
    then obtain c1 where c1: "run_ddl d c = Inr c1" "run_ddls ds c1 = Inr c'" by (auto simp: bind_ok_Inr_iff)
    have "d \<noteq> Policy (NoForceRls t)" using c1(1) Cons.prems(3) by (auto simp: on_table_Inr)
    moreover have "table_at c1 t = None"
      using run_ddl_effect[OF c1(1), of t] effect_missing[of t d] Cons.prems(2) view_missing[OF Cons.prems(3)] by simp
    ultimately show False using Cons c1(2) by auto
  qed
qed simp

lemma notifications_in_0006: "Policy (NoForceRls ''notifications'') \<in> set upgrade_0006"
  by (auto simp: upgrade_0006_def execute_each_def rls_org_0006_def org_scoped_tables_def drop_policy_sql_def)

lemma policies_create_nothing [simp]:
  "list_all (\<lambda>d. \<not> creates t d) (List.map Policy sts)" "list_all (\<lambda>d. \<not> creates t d) (execute_each f ts)"
  by (auto simp: creates_def execute_each_def list_all_iff)

lemma notifications_not_yet:
  "list_all (\<lambda>m. list_all (\<lambda>d. \<not> creates ''notifications'' d) (mg_upgrade m)) (take 6 migrations)"
  by (simp add: migrations_def migration_defs creates_def table_names
      policies_create_nothing[unfolded creates_def] upgrade_0001_def upgrade_0002_def upgrade_0003_def upgrade_0004_def upgrade_0005_def upgrade_0006_def)


section \<open>Protected tables\<close>

text \<open>The row security alone.\<close>

definition sec_effect :: "string \<Rightarrow> ddl \<Rightarrow> (table_security \<times> string list) option \<Rightarrow> (table_security \<times> string list) option" where
  "sec_effect t d w = (case table_named d of
     Some u \<Rightarrow> if u = t then Some (\<lparr>ts_enabled = False, ts_forced = False, ts_policies = []\<rparr>, []) else w
   | None \<Rightarrow> map_option snd (effect t d (map_option (Pair []) w)))"

lemma policy_effect_snd: "snd (policy_effect st (ks, sr)) = snd (policy_effect st (ks', sr))"
  by (cases st; cases sr) auto

lemma effect_snd: "map_option snd (effect t d v) = sec_effect t d (map_option snd v)"
proof (cases d)
  case (Policy st)
  then show ?thesis using policy_effect_snd
    by (cases v) (auto simp: sec_effect_def split: prod.splits)
qed (cases v; auto simp: sec_effect_def)+

lemma fold_effect_snd: "map_option snd (fold (effect t) ds v) = fold (sec_effect t) ds (map_option snd v)"
  by (induction ds arbitrary: v) (simp_all add: effect_snd)

definition shielded :: "string \<Rightarrow> table_security" where
  "shielded t = \<lparr>ts_enabled = True, ts_forced = True, ts_policies = [(policy_name t, school_predicate)]\<rparr>"

text \<open>Every table of a school that the operations create has its policy in the end.\<close>

definition shields :: "ddl list \<Rightarrow> bool" where
  "shields ds = list_all (\<lambda>d. if school_table d
     then fold (sec_effect (the (table_named d))) ds None = Some (shielded (the (table_named d)), []) else True) ds"

lemmas shield_rules = shields_def shielded_def sec_effect_def table_names core_school_tables school_school_tables later_school_tables
  execute_each_def school_scoped_policy_sql_def policy_statements_def policy_name_def

text \<open>A migration that creates no table of a school.\<close>

definition schoolless :: "ddl list \<Rightarrow> bool" where
  "schoolless ds = list_all (\<lambda>d. \<not> school_table d) ds"

lemma schoolless_shields: "schoolless ds \<Longrightarrow> shields ds"
  by (auto simp: schoolless_def shields_def list_all_iff)

lemma policies_schoolless [simp]:
  "schoolless (List.map Policy sts)" "schoolless (execute_each f ts)"
  by (auto simp: schoolless_def execute_each_def list_all_iff)

lemma schoolless_append [simp]: "schoolless (xs @ ys) = (schoolless xs \<and> schoolless ys)"
  by (simp add: schoolless_def)

lemma schoolless_Cons [simp]: "schoolless [] = True" "schoolless (d # ds) = (\<not> school_table d \<and> schoolless ds)"
  by (simp_all add: schoolless_def)

lemmas school_tables = core_school_tables school_school_tables later_school_tables

lemma other_shields:
  "schoolless upgrade_0001" "schoolless upgrade_0002" "schoolless upgrade_0003" "schoolless upgrade_0004" "schoolless upgrade_0005"
  "schoolless upgrade_0006" "schoolless upgrade_0008" "schoolless upgrade_0009" "schoolless upgrade_0018" "schoolless upgrade_0019"
  "schoolless upgrade_0024" "schoolless upgrade_0025" "schoolless upgrade_0026"
  by (simp_all add: school_tables upgrade_0001_def upgrade_0002_def upgrade_0003_def upgrade_0004_def upgrade_0005_def
      upgrade_0006_def upgrade_0008_def upgrade_0009_def upgrade_0018_def upgrade_0019_def upgrade_0024_def upgrade_0025_def
      upgrade_0026_def)

lemma school_shields:
  "shields upgrade_0007" "shields upgrade_0010" "shields upgrade_0011" "shields upgrade_0012" "shields upgrade_0013"
  "shields upgrade_0014" "shields upgrade_0015" "shields upgrade_0016" "shields upgrade_0017" "shields upgrade_0020"
  "shields upgrade_0021" "shields upgrade_0022" "shields upgrade_0023"
  by (simp_all add: shield_rules upgrade_0007_def rls_school_0007_def created_0007_def school_scoped_tables_def upgrade_0010_def
      upgrade_0011_def upgrade_0012_def upgrade_0013_def tables_0013_def upgrade_0014_def tables_0014_def upgrade_0015_def
      upgrade_0016_def tables_0016_def upgrade_0017_def upgrade_0020_def upgrade_0021_def upgrade_0022_def upgrade_0023_def)

lemma migrations_shield: "m \<in> set migrations \<Longrightarrow> shields (mg_upgrade m)"
  unfolding migrations_def using school_shields other_shields[THEN schoolless_shields] by (auto simp: migration_defs)

lemma fold_creates: "d \<in> set ds \<Longrightarrow> table_named d = Some t \<Longrightarrow> fold (sec_effect t) ds v = fold (sec_effect t) ds w"
proof (induction ds arbitrary: v w)
  case (Cons e ds)
  then show ?case by (cases "e = d") (auto simp: sec_effect_def)
qed simp

text \<open>With restrictive policies, a row needs all of them too; those of the migrations admit every row.\<close>

lemma shielded_accessible:
  assumes "s \<noteq> []"
  shows "accessible (shielded t) (set_tenant_context (Some s) org st) r \<longleftrightarrow> r ''school_id'' = Some s"
  using assms by (cases "r ''school_id''")
    (simp_all add: accessible_def shielded_def allows_def school_predicate_def or3_def str_or_empty_def)

lemma school_table_shielded:
  assumes "m \<in> set migrations" "run_ddls (mg_upgrade m) c = Inr c'"
    and "CreateTable t cols ks \<in> set (mg_upgrade m)" "of_a_school cols"
  shows "\<exists>x. table_at c' t = Some x \<and> tb_security x = shielded t \<and> tb_restrictive x = []"
proof -
  have "fold (sec_effect t) (mg_upgrade m) None = Some (shielded t, [])"
    using migrations_shield[OF assms(1)] assms(3,4) unfolding shields_def list_all_iff by fastforce
  then have "map_option snd (view_at c' t) = Some (shielded t, [])"
    unfolding run_ddls_effect[OF assms(2)] fold_effect_snd using fold_creates[OF assms(3), of t] by (metis table_named.simps(1))
  then show ?thesis by (auto simp: view_at_def view_of_def)
qed

section \<open>Properties\<close>

text \<open>The tables that the migrations 0017 and 0022 refer to.\<close>

definition sample_catalog :: catalog where
  "sample_catalog = \<lparr>cat_tables = List.map (\<lambda>t. (t, new_table [Col ''id'' (Varchar 26) NOT_NULL NoDefault, Col ''action'' (Varchar 40) NOT_NULL NoDefault]))
     [''schools'', ''organizations'', ''persons'', ''students'', ''audit_logs''], cat_extensions = [], cat_functions = []\<rparr>"

text \<open>
  The index of migration 0024 is built \<open>CONCURRENTLY\<close>, which PostgreSQL refuses inside of a transaction, and alembic
  runs in one. So \<open>alembic upgrade head\<close> fails on every database whose revision is before 0024, whatever it
  holds, and leaves it as it was.
\<close>

theorem head_is_out_of_reach:
  assumes "v = None \<or> v \<in> Some ` set (List.map mg_revision (take 23 migrations))"
  shows "\<exists>e. upgrade_head migrations (v, c) = (Inl e, (v, c))"
proof -
  obtain b t i where "CreateIndex True b t i \<in> set (mg_upgrade migration_0024)" using migration_0024_concurrent by blast
  from no_concurrent_index[OF this pending_0024[OF assms]]
  show ?thesis by (auto simp: upgrade_head_def split: sum.splits)
qed

lemma head_is_out_of_reach_witness:
  "snd (upgrade_head migrations (Some ''0023_timetable_header'', empty_catalog)) = (Some ''0023_timetable_header'', empty_catalog)"
proof -
  have "Some ''0023_timetable_header'' \<in> Some ` set (List.map mg_revision (take 23 migrations))"
    by (simp add: migrations_def numeral_eq_Suc migration_defs)
  then show ?thesis using head_is_out_of_reach[of "Some ''0023_timetable_header''" empty_catalog] by auto
qed

text \<open>
  C37. A new database does not even get past 0006: that migration rebuilds the policies of all tables that
  \<open>app/db/rls.py\<close> lists today, and switches the row security of \<open>notifications\<close>, which 0019 creates. So the first
  six migrations fail on every database without that table.
\<close>

theorem new_database_stops_at_0006:
  assumes "table_at c ''notifications'' = None"
  shows "\<exists>e. upgrade_through (take 6 migrations) (v, c) = Inl e"
proof (cases "upgrade_through (take 6 migrations) (v, c)")
  case (Inr db)
  have six: "take 6 migrations = take 5 migrations @ [migration_0006]" by (simp add: migrations_def numeral_eq_Suc)
  have nc: "list_all (\<lambda>m. list_all (\<lambda>d. \<not> creates ''notifications'' d) (mg_upgrade m)) (take 5 migrations)"
    "list_all (\<lambda>d. \<not> creates ''notifications'' d) upgrade_0006"
    using notifications_not_yet unfolding six by (simp_all add: migration_0006_def)
  from Inr obtain db5 c6 where "upgrade_through (take 5 migrations) (v, c) = Inr db5" "run_ddls upgrade_0006 (snd db5) = Inr c6"
    unfolding six upgrade_through_append by (auto simp: bind_ok_Inr_iff migration_0006_def)
  with missing_through[OF _ _ nc(1)] assms have "table_at (snd db5) ''notifications'' = None" by fastforce
  with switch_needs_table[OF notifications_in_0006 nc(2)] \<open>run_ddls upgrade_0006 (snd db5) = Inr c6\<close> show ?thesis by blast
qed simp

lemma new_database_stops_at_0006_witness:
  "\<exists>e. upgrade_through (take 6 migrations) (None, empty_catalog) = Inl e"
  using new_database_stops_at_0006[of empty_catalog None] by (simp add: table_at_def empty_catalog_def)

text \<open>
  C35. A table of a school never exists unprotected: where a migration creates one, then after the migration row
  security is on, for the owner too, and a transaction bound to a school reaches exactly the rows of that
  school.
\<close>

theorem school_tables_are_protected:
  assumes "m \<in> set migrations" "run_ddls (mg_upgrade m) c = Inr c'"
    and "CreateTable t cols ks \<in> set (mg_upgrade m)" "of_a_school cols" and "s \<noteq> []"
  shows "\<exists>x. table_at c' t = Some x \<and> ts_forced (tb_security x) \<and> tb_restrictive x = [] \<and>
    (\<forall>org st r. accessible (tb_security x) (set_tenant_context (Some s) org st) r \<longleftrightarrow> r ''school_id'' = Some s)"
  using school_table_shielded[OF assms(1-4)] shielded_accessible[OF assms(5)] by (auto simp: shielded_def)

lemma school_tables_are_protected_witness:
  "\<exists>c' x. run_ddls (mg_upgrade migration_0017) sample_catalog = Inr c' \<and> table_at c' ''import_jobs'' = Some x \<and> ts_forced (tb_security x)"
proof -
  have "is_ok (run_ddls (mg_upgrade migration_0017) sample_catalog)" by code_simp
  then obtain c' where c: "run_ddls (mg_upgrade migration_0017) sample_catalog = Inr c'" by (auto simp: is_ok_def split: sum.splits)
  obtain cols ks where k: "import_jobs_table = CreateTable ''import_jobs'' cols ks" by (simp add: import_jobs_table_def)
  then have "CreateTable ''import_jobs'' cols ks \<in> set (mg_upgrade migration_0017)"
    by (simp add: migration_0017_def upgrade_0017_def)
  moreover have "of_a_school cols" using later_school_tables(1) unfolding k by simp
  moreover have "migration_0017 \<in> set migrations" by (simp add: migrations_def)
  ultimately show ?thesis using school_tables_are_protected[OF _ c, of "''import_jobs''" cols ks "''s''"] c by auto
qed

lemma effect_other_table: "table_named d = Some u \<Longrightarrow> u \<noteq> t \<Longrightarrow> effect t d v = v"
  by (cases d) auto

lemma policies_keep_constraints:
  "fold (effect t) (List.map Policy sts) (Some (ks, sr)) = Some (ks', sr') \<Longrightarrow> ks' = ks"
proof (induction sts arbitrary: sr)
  case (Cons st sts)
  have "\<exists>sr1. effect t (Policy st) (Some (ks, sr)) = Some (ks, sr1)"
    by (cases st; cases sr) auto
  then show ?case using Cons by auto
qed simp

text \<open>The lists of the checks on the actions of the audit log, and the actions they let through.\<close>

definition audit_checks :: "table \<Rightarrow> string list list" where
  "audit_checks x = List.map_filter (\<lambda>k. case k of
       Check n (InList col as) \<Rightarrow> if n = ''ck_audit_logs_action'' \<and> col = ''action'' then Some as else None
     | _ \<Rightarrow> None) (tb_constraints x)"

definition admits :: "table \<Rightarrow> string \<Rightarrow> bool" where
  "admits x a \<longleftrightarrow> (\<forall>as \<in> set (audit_checks x). a \<in> set as)"

lemma append_checks: "List.map_filter f (xs @ ys) = List.map_filter f xs @ List.map_filter f ys"
  by (simp add: map_filter_def)

lemma no_audit_check:
  "List.map_filter (\<lambda>k. case k of
       Check n (InList col as) \<Rightarrow> if n = ''ck_audit_logs_action'' \<and> col = ''action'' then Some as else None
     | _ \<Rightarrow> None) (filter (\<lambda>k. constraint_name k \<noteq> ''ck_audit_logs_action'') ks) = []"
  by (induction ks) (auto simp: map_filter_simps split: constraint.splits check_condition.splits)

text \<open>A migration that replaces the check leaves the one it adds.\<close>

lemma replaced_check:
  assumes run: "run_ddls ds c = Inr c'" and x: "table_at c' ''audit_logs'' = Some x"
    and eff: "\<And>v. fold (effect ''audit_logs'') ds v = fold (effect ''audit_logs'') (List.map Policy sts)
      (effect ''audit_logs'' (AddConstraint ''audit_logs'' (Check ''ck_audit_logs_action'' (InList ''action'' as)))
      (effect ''audit_logs'' (DropConstraint True ''audit_logs'' ''ck_audit_logs_action'') v))"
  shows "audit_checks x = [as]"
proof -
  let ?t = "''audit_logs''" let ?k = "Check ''ck_audit_logs_action'' (InList ''action'' as)"
  have v: "fold (effect ?t) (List.map Policy sts) (effect ?t (AddConstraint ?t ?k) (effect ?t (DropConstraint True ?t ''ck_audit_logs_action'')
      (view_at c ?t))) = Some (view_of x)"
    using run_ddls_effect[OF run, of ?t] x unfolding eff by (simp add: view_at_def)
  show ?thesis
  proof (cases "view_at c ?t")
    case None
    have "fold (effect ?t) (List.map Policy sts) None = Some (view_of x)" using v unfolding None by simp
    moreover have "fold (effect ?t) (List.map Policy sts) None = None"
      by (rule fold_missing[OF policies_create_nothing(1)])
    ultimately show ?thesis by simp
  next
    case (Some w)
    obtain ks sr where w: "w = (ks, sr)" by (cases w)
    have "fold (effect ?t) (List.map Policy sts) (Some (filter (\<lambda>y. constraint_name y \<noteq> ''ck_audit_logs_action'') ks @ [?k], sr)) = Some (view_of x)"
      using v unfolding Some w by simp
    then have "tb_constraints x = filter (\<lambda>y. constraint_name y \<noteq> ''ck_audit_logs_action'') ks @ [?k]"
      using policies_keep_constraints unfolding view_of_def by blast
    then show ?thesis by (simp add: audit_checks_def append_checks no_audit_check map_filter_simps)
  qed
qed

lemma checks_0020_to_0022:
  assumes "table_at c' ''audit_logs'' = Some x"
  shows "run_ddls (mg_upgrade migration_0020) c = Inr c' \<Longrightarrow> audit_checks x = [audit_actions_0020]"
    and "run_ddls (mg_upgrade migration_0021) c = Inr c' \<Longrightarrow> audit_checks x = [audit_actions_0021]"
    and "run_ddls (mg_upgrade migration_0022) c = Inr c' \<Longrightarrow> audit_checks x = [audit_actions_0022]"
proof -
  have o: "effect ''audit_logs'' documents_table w = w" "effect ''audit_logs'' export_jobs_table w = w"
    "effect ''audit_logs'' parents_table w = w" "effect ''audit_logs'' student_parents_table w = w" for w
    using effect_other_table[OF later_table_names(3)] effect_other_table[OF later_table_names(4)]
      effect_other_table[OF later_table_names(5)] effect_other_table[OF later_table_names(6)] by simp_all
  note defs = migration_0020_def migration_0021_def migration_0022_def upgrade_0020_def upgrade_0021_def upgrade_0022_def o
  show "run_ddls (mg_upgrade migration_0020) c = Inr c' \<Longrightarrow> audit_checks x = [audit_actions_0020]"
    by (rule replaced_check[OF _ assms, where sts = "school_scoped_policy_sql ''documents''"]) (assumption, simp add: defs)
  show "run_ddls (mg_upgrade migration_0021) c = Inr c' \<Longrightarrow> audit_checks x = [audit_actions_0021]"
    by (rule replaced_check[OF _ assms, where sts = "school_scoped_policy_sql ''export_jobs''"]) (assumption, simp add: defs)
  show "run_ddls (mg_upgrade migration_0022) c = Inr c' \<Longrightarrow> audit_checks x = [audit_actions_0022]"
    by (rule replaced_check[OF _ assms, where sts = "school_scoped_policy_sql ''parents'' @ school_scoped_policy_sql ''student_parents''"])
      (assumption, simp add: defs)
qed

definition document_actions :: "string list" where
  "document_actions = [''DOCUMENT_UPLOAD_REQUESTED'', ''DOCUMENT_CONFIRMED'', ''DOCUMENT_DOWNLOADED'', ''DOCUMENT_DELETED'']"

definition notification_actions :: "string list" where
  "notification_actions = [''NOTIFICATION_CREATED'', ''NOTIFICATION_UPDATED'', ''NOTIFICATION_DELETED'']"

definition parent_actions :: "string list" where
  "parent_actions = [''PARENT_CREATED'', ''PARENT_UPDATED'', ''PARENT_DELETED'', ''STUDENT_PARENT_LINKED'', ''STUDENT_PARENT_UNLINKED'']"

lemmas action_lists = audit_actions_0020_def audit_actions_0021_def audit_actions_0022_def document_actions_def
  notification_actions_def parent_actions_def

lemma lost_actions:
  "set audit_actions_0020 - set audit_actions_0021 = set (document_actions @ notification_actions)"
  "set audit_actions_0022 = set audit_actions_0021 \<union> set parent_actions"
  "set document_actions \<inter> set audit_actions_0022 = {}"
proof -
  have "set audit_actions_0020 \<subseteq> set audit_actions_0021 \<union> set (document_actions @ notification_actions)"
    by (simp add: action_lists)
  moreover have "set (document_actions @ notification_actions) \<subseteq> set audit_actions_0020" by (simp add: action_lists)
  moreover have "set (document_actions @ notification_actions) \<inter> set audit_actions_0021 = {}" by (simp add: action_lists)
  ultimately show "set audit_actions_0020 - set audit_actions_0021 = set (document_actions @ notification_actions)" by blast
  show "set audit_actions_0022 = set audit_actions_0021 \<union> set parent_actions" by (auto simp: action_lists)
  show "set document_actions \<inter> set audit_actions_0022 = {}" by (simp add: action_lists)
qed

text \<open>The list of 0022 is the one the model of the audit writer rejects by.\<close>

lemma audit_writer_list: "set audit_actions_0022 = set audit_check_actions"
  by (auto simp: audit_actions_0022_def audit_check_actions_def)

text \<open>
  C36. What the migrations do to the check on the actions of the audit log: 0020 lets the actions of documents and of
  notifications through, 0021 loses exactly these, and 0022, the last to replace the check, adds only those of
  parents. So from 0021 on the log refuses every one of the four actions the documents write.
\<close>

theorem audit_check_of_migrations:
  assumes "run_ddls (mg_upgrade migration_0020) c = Inr c1" "table_at c1 ''audit_logs'' = Some x1"
    and "run_ddls (mg_upgrade migration_0021) c1 = Inr c2" "table_at c2 ''audit_logs'' = Some x2"
    and "run_ddls (mg_upgrade migration_0022) c2 = Inr c3" "table_at c3 ''audit_logs'' = Some x3"
  shows "{a. admits x1 a \<and> \<not> admits x2 a} = set (document_actions @ notification_actions) \<and>
    {a. admits x3 a} = {a. admits x2 a} \<union> set parent_actions \<and>
    (\<forall>a \<in> set document_actions. \<not> admits x3 a)"
proof -
  have "admits x1 = (\<lambda>a. a \<in> set audit_actions_0020)" "admits x2 = (\<lambda>a. a \<in> set audit_actions_0021)"
    "admits x3 = (\<lambda>a. a \<in> set audit_actions_0022)"
    using checks_0020_to_0022(1)[OF assms(2,1)] checks_0020_to_0022(2)[OF assms(4,3)] checks_0020_to_0022(3)[OF assms(6,5)]
    by (simp_all add: admits_def fun_eq_iff)
  then show ?thesis using lost_actions by auto
qed

lemma audit_check_of_migrations_witness:
  "\<exists>c1 c2 c3 x1 x2 x3. run_ddls (mg_upgrade migration_0020) sample_catalog = Inr c1 \<and> table_at c1 ''audit_logs'' = Some x1 \<and>
    run_ddls (mg_upgrade migration_0021) c1 = Inr c2 \<and> table_at c2 ''audit_logs'' = Some x2 \<and>
    run_ddls (mg_upgrade migration_0022) c2 = Inr c3 \<and> table_at c3 ''audit_logs'' = Some x3 \<and>
    ''DOCUMENT_DELETED'' \<in> {a. admits x1 a \<and> \<not> admits x2 a} \<and> admits x3 ''DOCUMENT_DELETED'' = False"
proof -
  have ok: "(case run_ddls (mg_upgrade migration_0020) sample_catalog of Inl _ \<Rightarrow> False | Inr c1 \<Rightarrow>
      table_at c1 ''audit_logs'' \<noteq> None \<and> (case run_ddls (mg_upgrade migration_0021) c1 of Inl _ \<Rightarrow> False | Inr c2 \<Rightarrow>
      table_at c2 ''audit_logs'' \<noteq> None \<and> (case run_ddls (mg_upgrade migration_0022) c2 of Inl _ \<Rightarrow> False | Inr c3 \<Rightarrow>
      table_at c3 ''audit_logs'' \<noteq> None)))"
    by code_simp
  then obtain c1 c2 c3 x1 x2 x3 where c: "run_ddls (mg_upgrade migration_0020) sample_catalog = Inr c1" "table_at c1 ''audit_logs'' = Some x1"
    "run_ddls (mg_upgrade migration_0021) c1 = Inr c2" "table_at c2 ''audit_logs'' = Some x2"
    "run_ddls (mg_upgrade migration_0022) c2 = Inr c3" "table_at c3 ''audit_logs'' = Some x3"
    by (auto split: sum.splits)
  have "''DOCUMENT_DELETED'' \<in> set document_actions" by (simp add: document_actions_def)
  with audit_check_of_migrations[OF c] c show ?thesis by fastforce
qed

end
