(* ===== verification/Spec2Isabelle.thy ===== *)
theory Spec2Isabelle
  imports Permissions Context Rls Principal Platform Channels Handlers Outbox
    Auth Interfaces Timetables Slots Enrollments Attendance Announcements Ulid Pagination RateLimit AuthRoutes AcademicCalendar AcademicCatalog Teachers Families AccessControl Tenants Users People Dates Csv BulkImport Documents Reports Scripts
    SchoolRoutes DailyRoutes TenantRoutes Registry Api Ddl Migrations Startup
begin

text \<open>
  A verification development for the School OS core API, the FastAPI service under \<open>src/app\<close>
  with its worker, its maintenance scripts and the row-level security of its database. This
  theory imports every other one; each of them opens with the files it models.

  \<^bold>\<open>The program.\<close> A request carries a bearer token and possibly an \<open>X-School-ID\<close> header. The
  token gives a user, the memberships of the user give a principal (organization, schools, one data
  scope per permission), and the principal becomes the request context, which is bound to the
  database transaction as two settings that the row-level security policies read. A route checks
  one permission with its guard, hands the context to a service function, and the service reads and
  writes tables, appends to the audit log and, for a few operations, to the outbox. The transaction
  commits as a whole or not at all. A separate process, the dispatcher, claims outbox events and turns
  them into notifications through channels. Scripts fill the tables of permissions and system roles.

  \<^bold>\<open>How the model corresponds to the code.\<close> An ORM class is a record, a table a list of rows in
  insertion order, the database the record \<open>db\<close> (theory Schema). An enum is a datatype. A handler
  is a function from its inputs and the database to \<open>error + result \<times> db\<close> (type \<open>result\<close>);
  every \<open>raise\<close> is an \<open>Inl\<close>, with \<open>PyError\<close> for exceptions no handler of the code
  catches (they answer 500) and \<open>IntegrityError\<close> for violated constraints. \<open>run_request\<close> is the
  transaction around a handler. Unique constraints and partial unique indexes are predicates on a table
  (\<open>uq_...\<close>), checked where the code flushes. What a request reads besides the database (clock, key
  generator, client address) is the record \<open>env\<close>. Optimistic locking, time stamps and actor columns
  are \<open>flush_versioned\<close>, \<open>flush_actor\<close> and their kind in Prelude.

  \<^bold>\<open>The theories.\<close>
  \<^item> Prelude: errors (\<open>core/errors.py\<close>), results, column groups (\<open>db/mixins.py\<close>), tables.
    Schema: the tables. Samples: concrete rows for the witnesses.
  \<^item> Permissions (\<open>core/permissions.py\<close>), Context (\<open>core/security.py\<close>, \<open>context.py\<close>,
    \<open>authz.py\<close>), Principal (\<open>modules/iam/principal.py\<close>), Rls (\<open>db/rls.py\<close>): from a token to
    what a request may see. The lemmas show which school and which permissions a context holds and which
    rows the policies let through.
  \<^item> Platform (audit log, outbox writer, the transaction), Channels, Handlers, Outbox (\<open>workers\<close>): writes,
    their audit, and the delivery of events. The lemmas show when a request commits,
    at-most-once notifications and exactly to whom they go, the accounting of a pass and the back-off.
  \<^item> Auth and AuthRoutes (\<open>modules/auth\<close>), RateLimit (\<open>core/ratelimit.py\<close>): login with
    lockout, rotation of refresh tokens, password reset, sliding windows.
  \<^item> Ulid (\<open>db/types.py\<close>), Pagination (\<open>core/pagination.py\<close>, \<open>db/repository.py\<close>), Dates and
    Csv (\<open>bulk_import/csv_helpers.py\<close> with the reader and writer of the standard library): text formats, with
    their round trips.
  \<^item> Interfaces: contracts as locales (an update guarded by a version, a system with an invariant, a
    status that only advances), interpreted in Timetables, Attendance, Announcements, AcademicCatalog, Teachers,
    Families, AccessControl, Tenants, Users and People on the operations of those services.
  \<^item> AcademicCalendar, AcademicCatalog (\<open>modules/academic\<close>), Teachers, Families (students, guardians and
    parents), Enrollments, Timetables and Slots, Attendance, Announcements: the school's own data. Each states an
    invariant of its tables over every sequence of operations, and when its operations succeed.
  \<^item> Tenants, Users, AccessControl, People (\<open>modules/iam\<close> and \<open>modules/people\<close>): organizations, schools,
    accounts, roles and memberships, persons. The lemmas show what stays inside an organization and what does not.
  \<^item> BulkImport, Reports, Documents, Scripts: import and export of files, reports and search, documents in the object
    store, and the three scripts that fill the database.
  \<^item> SchoolRoutes, DailyRoutes, TenantRoutes: every route of the routers under \<open>modules\<close>, with its guard, the
    listings of the repositories and the views of the response schemas. The lemmas show what a listing can contain and
    which listings and views fail.
  \<^item> Registry and Api: what each \<open>permissions.py\<close> declares and who imports it; the table of all routes with
    their guards (\<open>api/v1/router.py\<close>). The lemmas show that every guard is registered, which routes need
    no permission, that a path reaches its route, and what the two synchronisation scripts make of the registry.
  \<^item> Ddl: what the operations of alembic and the statements of \<open>db/rls.py\<close> do to a catalog of tables,
    constraints, indexes and policies, and to a chain of revisions. MigrationsCore, MigrationsSchool and
    MigrationsLater: the upgrade and the downgrade of each revision; Migrations: their chain, the protection
    of the tables they create, the check on the actions of the audit log, and where the chain fails.
  \<^item> Startup: the settings (\<open>core/config.py\<close>), the start of the application and its probes, the request id of the
    middleware, and the script \<open>scripts/check_rls.py\<close> on the catalog of Ddl. The lemmas show what the script
    checks, and that it finds nothing wrong with a table of a school after the migration that creates it.
  \<^bold>\<open>Bounds and fuel.\<close> Almost every loop of the code is a recursion over a list. \<open>read_pages\<close> follows
  cursors with a bound on the number of pages; one page more than there are rows is shown to be enough. The reader
  of CSV files and \<open>LIKE\<close> terminate by the length of their texts. No theorem speaks only of runs that return.

  \<^bold>\<open>Parameters.\<close> PyJWT, Argon2, Redis and its clock, the codecs of JSON and UTF-8, boto3 and libmagic, the
  delivery inside a channel a deployment adds, and the rows of the table of feature flags are
  arguments of the definitions; what a property needs of them is one of its hypotheses.

  \<^bold>\<open>Not modelled.\<close> The validation of request bodies by pydantic before a handler (422), with the exceptions the
  theories name; foreign keys while the program runs, except where the code relies on their effect (the migrations declare
  them); JSON configuration columns; the summary
  text of an audit entry; the creation of the database roles by migration 0001; logging and the recording of
  metrics; reading the settings from the environment, CORS and the connection pool; isolation
  levels weaker than serial execution, apart from the concurrent schedules that the lemmas write out; row-level
  security inside the services other than Tenants, since the services filter by the context themselves; the limits of
  text columns and NUL characters outside of the import; time zones: a timestamp counts microseconds.
\<close>

end
